(* ===== verification/Prelude.thy ===== *)
theory Prelude
  imports Main "HOL-Library.List_Lexorder" "HOL-Library.Char_ord"
    "HOL-Library.Product_Lexorder"
begin

text \<open>
  Shared vocabulary of the development.

  \<^item> The Go standard-library string functions the sources use, on byte strings (Go strings are
    byte sequences; case mapping and white space are those of the ASCII range, the only
    range in which the modelled code compares text).
  \<^item> Time: a Go \<open>time.Time\<close> is a number of nanoseconds; the store writes it as an
    RFC 3339 UTC string with second precision. That fixed-width format orders as the second count
    does, so a stored time is the second count (\<open>rfc3339\<close>) and reading it back
    gives the nanosecond value of that second (\<open>parse_rfc3339\<close>).
  \<^item> SQL tables with an \<open>INTEGER PRIMARY KEY AUTOINCREMENT\<close> column, the statements on them, and
    the laws every such table obeys, proved once in the locale \<open>sql_table\<close>.
\<close>

named_theorems store_defs \<open>definitions of the store operations\<close>
named_theorems go_defs \<open>definitions of the Go library functions\<close>

section \<open>Go strings\<close>

type_synonym gostring = string

definition HasPrefix :: "'a list \<Rightarrow> 'a list \<Rightarrow> bool" where
  "HasPrefix s p \<longleftrightarrow> take (length p) s = p"

definition TrimPrefix :: "'a list \<Rightarrow> 'a list \<Rightarrow> 'a list" where
  "TrimPrefix s p = (if HasPrefix s p then drop (length p) s else s)"

definition HasSuffix :: "'a list \<Rightarrow> 'a list \<Rightarrow> bool" where
  "HasSuffix s q \<longleftrightarrow> length q \<le> length s \<and> drop (length s - length q) s = q"

definition TrimSuffix :: "'a list \<Rightarrow> 'a list \<Rightarrow> 'a list" where
  "TrimSuffix s q = (if HasSuffix s q then take (length s - length q) s else s)"

definition is_space :: "char \<Rightarrow> bool" where
  "is_space c \<longleftrightarrow> (of_char c :: nat) \<in> {9, 10, 11, 12, 13, 32}"

definition TrimSpace :: "string \<Rightarrow> string" where
  "TrimSpace s = rev (dropWhile is_space (rev (dropWhile is_space s)))"

definition lower_char :: "char \<Rightarrow> char" where
  "lower_char c = (let n = (of_char c :: nat) in if 65 \<le> n \<and> n \<le> 90 then char_of (n + 32) else c)"

definition upper_char :: "char \<Rightarrow> char" where
  "upper_char c = (let n = (of_char c :: nat) in if 97 \<le> n \<and> n \<le> 122 then char_of (n - 32) else c)"

definition ToLower :: "string \<Rightarrow> string" where
  "ToLower s = map lower_char s"

definition ToUpper :: "string \<Rightarrow> string" where
  "ToUpper s = map upper_char s"

lemmas [go_defs] = HasPrefix_def TrimPrefix_def HasSuffix_def TrimSuffix_def

lemma HasPrefix_append [simp]: "HasPrefix (p @ s) p"
  by (simp add: HasPrefix_def)

lemma TrimPrefix_append [simp]: "TrimPrefix (p @ s) p = s"
  by (simp add: TrimPrefix_def HasPrefix_def)

lemma HasPrefixE:
  assumes "HasPrefix s p"
  obtains t where "s = p @ t"
  using assms by (metis HasPrefix_def append_take_drop_id)

lemma HasPrefix_iff: "HasPrefix s p \<longleftrightarrow> (\<exists>t. s = p @ t)"
  by (metis HasPrefixE HasPrefix_append)

lemma HasSuffix_append [simp]: "HasSuffix (s @ q) q"
  by (simp add: HasSuffix_def)

lemma TrimSuffix_append [simp]: "TrimSuffix (s @ q) q = s"
  by (simp add: TrimSuffix_def HasSuffix_def)

lemma HasSuffixE:
  assumes "HasSuffix s q"
  obtains t where "s = t @ q"
  using assms by (metis HasSuffix_def append_take_drop_id)

lemma HasSuffix_iff: "HasSuffix s q \<longleftrightarrow> (\<exists>t. s = t @ q)"
  by (metis HasSuffixE HasSuffix_append)

lemma lower_char_idem [simp]: "lower_char (lower_char c) = lower_char c"
  by (auto simp: lower_char_def Let_def)

lemma ToLower_idem [simp]: "ToLower (ToLower s) = ToLower s"
  by (simp add: ToLower_def)

lemma TrimSpace_idem [simp]: "TrimSpace (TrimSpace s) = TrimSpace s"
proof -
  let ?d = "dropWhile is_space"
  have 1: "?d (rev (?d (rev (?d s)))) = rev (?d (rev (?d s)))"
  proof (cases "rev (?d (rev (?d s)))")
    case Nil
    then show ?thesis by (simp only: dropWhile.simps)
  next
    case (Cons x xs)
    obtain ws where ws: "rev (?d s) = ws @ ?d (rev (?d s))"
      by (metis takeWhile_dropWhile_id)
    then have "?d s = rev (?d (rev (?d s))) @ rev ws"
      by (metis rev_append rev_rev_ident)
    with Cons have "hd (?d s) = x" "?d s \<noteq> []" by simp_all
    then have "\<not> is_space x" using hd_dropWhile by metis
    with Cons show ?thesis by simp
  qed
  show ?thesis by (simp add: TrimSpace_def 1)
qed

text \<open>Decimal numbers: \<open>strconv.Itoa\<close>, \<open>Sprintf("%d")\<close> and \<open>Sprintf("%0*d", k, n)\<close> (at least \<open>k\<close> digits, zero padded).\<close>

definition digit :: "nat \<Rightarrow> char" where
  "digit n = char_of (48 + n mod 10)"

fun decimal :: "nat \<Rightarrow> string" where
  "decimal n = (if n < 10 then [digit n] else decimal (n div 10) @ [digit n])"

declare decimal.simps [simp del]

definition zero_padded :: "nat \<Rightarrow> nat \<Rightarrow> string" where
  "zero_padded k n = replicate (k - length (decimal n)) (CHR ''0'') @ decimal n"

definition decimal_int :: "int \<Rightarrow> string" where
  "decimal_int n = (if n < 0 then ''-'' @ decimal (nat (- n)) else decimal (nat n))"

section \<open>Time\<close>

type_synonym gotime = int  \<comment> \<open>nanoseconds since the epoch\<close>
type_synonym stamp = int   \<comment> \<open>an RFC 3339 UTC string, by the seconds it denotes\<close>

abbreviation nanos :: int where "nanos \<equiv> 1000000000"
abbreviation seconds :: "int \<Rightarrow> int" where "seconds n \<equiv> n * nanos"
abbreviation minutes :: "int \<Rightarrow> int" where "minutes n \<equiv> seconds (n * 60)"
abbreviation hours :: "int \<Rightarrow> int" where "hours n \<equiv> minutes (n * 60)"

definition rfc3339 :: "gotime \<Rightarrow> stamp" where
  "rfc3339 t = t div nanos"

definition parse_rfc3339 :: "stamp \<Rightarrow> gotime" where
  "parse_rfc3339 s = s * nanos"

lemma parse_rfc3339_le: "parse_rfc3339 (rfc3339 t) \<le> t"
  by (simp add: parse_rfc3339_def rfc3339_def)

lemma parse_rfc3339_close: "t < parse_rfc3339 (rfc3339 t) + nanos"
  unfolding parse_rfc3339_def rfc3339_def by presburger

lemma rfc3339_mono: "s \<le> t \<Longrightarrow> rfc3339 s \<le> rfc3339 t"
  by (simp add: rfc3339_def zdiv_mono1)

section \<open>Results\<close>

text \<open>
  The errors of the store: its two sentinel values, a failing database driver (\<open>ErrDB\<close>; the
  driver is outside the repository, so whether it fails is part of the state, see
  \<open>db_down\<close>), the refusal of \<open>DeletePackage\<close>, and the secret box.
\<close>

datatype store_error = ErrNotFound | ErrConflict | ErrDB | ErrInUse nat | ErrSecretBox

type_synonym 'a res = "store_error + 'a"

abbreviation is_ok :: "('e + 'a) \<Rightarrow> bool" where "is_ok r \<equiv> \<not> isl r"

definition bindR :: "('e + 'a) \<Rightarrow> ('a \<Rightarrow> 'e + 'b) \<Rightarrow> ('e + 'b)" where
  "bindR r f = (case r of Inl e \<Rightarrow> Inl e | Inr x \<Rightarrow> f x)"

lemma bindR_simps [simp]: "bindR (Inl e) f = Inl e" "bindR (Inr x) f = f x"
  by (simp_all add: bindR_def)

lemma bindR_Inr_iff: "bindR r f = Inr y \<longleftrightarrow> (\<exists>x. r = Inr x \<and> f x = Inr y)"
  by (cases r) auto

text \<open>\<open>x, err := f(); if err != nil \<dots>\<close> where only success matters: \<open>ignore_err\<close> keeps the old
  state when the call failed (\<open>_ = f()\<close> in the sources).\<close>

definition ignore_err :: "'s \<Rightarrow> ('e + 's) \<Rightarrow> 's" where
  "ignore_err s r = (case r of Inl _ \<Rightarrow> s | Inr s' \<Rightarrow> s')"

lemma ignore_err_simps [simp]: "ignore_err s (Inl e) = s" "ignore_err s (Inr s') = s'"
  by (simp_all add: ignore_err_def)

section \<open>SQL tables\<close>

text \<open>A table keeps its rows in key order and the last key SQLite handed out
  (\<open>sqlite_sequence\<close>): keys of an \<open>AUTOINCREMENT\<close> table are never reused.\<close>

record 'r table =
  trows :: "'r list"
  tseq :: int

definition t_empty :: "'r table" where
  "t_empty = \<lparr>trows = [], tseq = 0\<rparr>"

definition t_insert :: "(int \<Rightarrow> 'r \<Rightarrow> 'r) \<Rightarrow> 'r \<Rightarrow> 'r table \<Rightarrow> 'r table" where
  "t_insert set_rid r t =
     t\<lparr>trows := trows t @ [set_rid (tseq t + 1) r], tseq := tseq t + 1\<rparr>"

definition t_get :: "('r \<Rightarrow> int) \<Rightarrow> int \<Rightarrow> 'r table \<Rightarrow> 'r option" where
  "t_get rid i t = find (\<lambda>r. rid r = i) (trows t)"

definition t_select :: "('r \<Rightarrow> bool) \<Rightarrow> 'r table \<Rightarrow> 'r list" where
  "t_select P t = filter P (trows t)"

definition t_count :: "('r \<Rightarrow> bool) \<Rightarrow> 'r table \<Rightarrow> nat" where
  "t_count P t = length (t_select P t)"

definition t_update :: "('r \<Rightarrow> bool) \<Rightarrow> ('r \<Rightarrow> 'r) \<Rightarrow> 'r table \<Rightarrow> 'r table" where
  "t_update P f t = t\<lparr>trows := map (\<lambda>r. if P r then f r else r) (trows t)\<rparr>"

definition t_delete :: "('r \<Rightarrow> bool) \<Rightarrow> 'r table \<Rightarrow> 'r table" where
  "t_delete P t = t\<lparr>trows := filter (\<lambda>r. \<not> P r) (trows t)\<rparr>"

definition t_exists :: "('r \<Rightarrow> bool) \<Rightarrow> 'r table \<Rightarrow> bool" where
  "t_exists P t \<longleftrightarrow> list_ex P (trows t)"

lemma t_exists_iff: "t_exists P t \<longleftrightarrow> (\<exists>r\<in>set (trows t). P r)"
  by (simp add: t_exists_def list_ex_iff)

definition table_wf :: "('r \<Rightarrow> int) \<Rightarrow> 'r table \<Rightarrow> bool" where
  "table_wf rid t \<longleftrightarrow> sorted_wrt (<) (map rid (trows t))
     \<and> (\<forall>r\<in>set (trows t). 0 < rid r \<and> rid r \<le> tseq t) \<and> 0 \<le> tseq t"

text \<open>A \<open>UNIQUE\<close> constraint on the (tuple of) columns \<open>col\<close>.\<close>

definition unique_on :: "('r \<Rightarrow> 'k) \<Rightarrow> 'r table \<Rightarrow> bool" where
  "unique_on col t \<longleftrightarrow> distinct (map col (trows t))"

lemma trows_simps [simp]:
  "trows t_empty = []"
  "trows (t_insert s r t) = trows t @ [s (tseq t + 1) r]"
  "trows (t_update P f t) = map (\<lambda>r. if P r then f r else r) (trows t)"
  "trows (t_delete P t) = filter (\<lambda>r. \<not> P r) (trows t)"
  by (simp_all add: t_empty_def t_insert_def t_update_def t_delete_def)

lemma tseq_simps [simp]:
  "tseq t_empty = 0"
  "tseq (t_insert s r t) = tseq t + 1"
  "tseq (t_update P f t) = tseq t"
  "tseq (t_delete P t) = tseq t"
  by (simp_all add: t_empty_def t_insert_def t_update_def t_delete_def)

lemma table_wf_empty [simp]: "table_wf rid t_empty"
  by (simp add: table_wf_def)

lemma unique_on_empty [simp]: "unique_on col t_empty"
  by (simp add: unique_on_def)

lemma unique_on_delete [simp]: "unique_on col t \<Longrightarrow> unique_on col (t_delete P t)"
  by (simp add: unique_on_def distinct_map_filter)

lemma unique_on_update:
  assumes "unique_on col t" and "\<And>r. r \<in> set (trows t) \<Longrightarrow> col (f r) = col r"
  shows "unique_on col (t_update P f t)"
proof -
  have "map col (map (\<lambda>r. if P r then f r else r) (trows t)) = map col (trows t)"
    using assms(2) by simp
  with assms(1) show ?thesis by (simp add: unique_on_def del: map_map)
qed

lemma unique_on_insert:
  assumes "unique_on col t" and "\<not> t_exists (\<lambda>r'. col r' = col (s (tseq t + 1) r)) t"
  shows "unique_on col (t_insert s r t)"
  using assms by (force simp: unique_on_def t_exists_iff)

lemma unique_onD:
  assumes "unique_on col t" "r \<in> set (trows t)" "r' \<in> set (trows t)" "col r = col r'"
  shows "r = r'"
  using assms by (auto simp: unique_on_def distinct_map dest: inj_onD)

lemma table_wf_delete [simp]: "table_wf rid t \<Longrightarrow> table_wf rid (t_delete P t)"
  by (auto simp: table_wf_def sorted_wrt_map sorted_wrt_filter)

lemma table_wf_update:
  assumes "table_wf rid t" and "\<And>r. rid (f r) = rid r"
  shows "table_wf rid (t_update P f t)"
proof -
  have "map rid (map (\<lambda>r. if P r then f r else r) (trows t)) = map rid (trows t)"
    using assms(2) by simp
  with assms show ?thesis by (auto simp: table_wf_def simp del: map_map)
qed

lemma table_wf_unique: "table_wf rid t \<Longrightarrow> unique_on rid t"
  by (simp add: table_wf_def unique_on_def strict_sorted_iff)

lemma t_get_Some_iff:
  assumes "table_wf rid t"
  shows "t_get rid i t = Some r \<longleftrightarrow> r \<in> set (trows t) \<and> rid r = i"
proof
  assume "t_get rid i t = Some r"
  then show "r \<in> set (trows t) \<and> rid r = i"
    by (auto simp: t_get_def find_Some_iff)
next
  assume r: "r \<in> set (trows t) \<and> rid r = i"
  then obtain r' where r': "t_get rid i t = Some r'"
    by (cases "t_get rid i t") (auto simp: t_get_def find_None_iff)
  then have "r' \<in> set (trows t)" "rid r' = i"
    by (auto simp: t_get_def find_Some_iff)
  with r assms show "t_get rid i t = Some r"
    by (metis r' table_wf_unique unique_onD)
qed

lemma t_get_None_iff: "t_get rid i t = None \<longleftrightarrow> (\<forall>r\<in>set (trows t). rid r \<noteq> i)"
  by (auto simp: t_get_def find_None_iff)

lemma t_get_SomeD: "t_get rid i t = Some r \<Longrightarrow> r \<in> set (trows t) \<and> rid r = i"
  by (auto simp: t_get_def find_Some_iff)

lemma find_map_pres:
  assumes "\<And>r. Q (g r) = Q r"
  shows "find Q (map g xs) = map_option g (find Q xs)"
  using assms by (induction xs) auto

lemma t_get_update:
  assumes "\<And>r. rid (f r) = rid r"
  shows "t_get rid i (t_update P f t) = map_option (\<lambda>r. if P r then f r else r) (t_get rid i t)"
  using assms by (simp add: t_get_def find_map_pres)

lemma t_get_delete:
  assumes "table_wf rid t"
  shows "t_get rid i (t_delete P t) =
    (case t_get rid i t of None \<Rightarrow> None | Some r \<Rightarrow> if P r then None else Some r)"
proof (cases "t_get rid i t")
  case None
  then have "t_get rid i (t_delete P t) = None" by (simp add: t_get_None_iff)
  with None show ?thesis by simp
next
  case (Some r)
  then have r: "r \<in> set (trows t)" "rid r = i" by (auto dest: t_get_SomeD)
  show ?thesis
  proof (cases "P r")
    case True
    have "\<forall>q\<in>set (trows (t_delete P t)). rid q \<noteq> i"
      using assms r True by (auto dest: table_wf_unique unique_onD)
    then have "t_get rid i (t_delete P t) = None" unfolding t_get_None_iff .
    with Some True show ?thesis by simp
  next
    case False
    with r have "r \<in> set (trows (t_delete P t))" by simp
    with r assms have "t_get rid i (t_delete P t) = Some r"
      by (simp add: t_get_Some_iff)
    with Some False show ?thesis by simp
  qed
qed

locale sql_table =
  fixes rid :: "'r \<Rightarrow> int"
    and set_rid :: "int \<Rightarrow> 'r \<Rightarrow> 'r"
  assumes rid_set: "rid (set_rid i r) = i"
begin

lemma insert_wf: "table_wf rid t \<Longrightarrow> table_wf rid (t_insert set_rid r t)"
  by (fastforce simp: table_wf_def sorted_wrt_append rid_set)

lemma insert_get:
  assumes "table_wf rid t"
  shows "t_get rid i (t_insert set_rid r t) =
    (if i = tseq t + 1 then Some (set_rid i r) else t_get rid i t)"
proof (cases "i = tseq t + 1")
  case True
  have "set_rid i r \<in> set (trows (t_insert set_rid r t))" using True by simp
  then have "t_get rid i (t_insert set_rid r t) = Some (set_rid i r)"
    using insert_wf [OF assms, of r] by (simp add: t_get_Some_iff rid_set)
  with True show ?thesis by simp
next
  case False
  have "find (\<lambda>r. rid r = i) (xs @ [set_rid (tseq t + 1) r]) = find (\<lambda>r. rid r = i) xs" for xs
    using False by (induction xs) (auto simp: rid_set)
  with False show ?thesis by (simp add: t_get_def)
qed

lemma insert_fresh:
  assumes "table_wf rid t"
  shows "t_get rid (tseq t + 1) t = None"
  using assms by (force simp: t_get_None_iff table_wf_def)

lemma insert_delete_id:
  assumes "table_wf rid t"
  shows "trows (t_delete (\<lambda>q. rid q = tseq t + 1) (t_insert set_rid r t)) = trows t"
proof -
  have "filter (\<lambda>q. rid q \<noteq> tseq t + 1) (trows t) = trows t"
    using insert_fresh [OF assms] by (auto simp: t_get_None_iff filter_id_conv)
  then show ?thesis by (simp add: rid_set)
qed

end

end
