(* ===== verification/Store_Model.thy ===== *)
theory Store_Model
  imports Prelude
begin

text \<open>
  The data model of \<^verbatim>\<open>internal/store\<close>: the structs of \<^verbatim>\<open>models.go\<close> as records and the SQLite
  schema of \<^verbatim>\<open>store.go\<close> (\<open>migrate\<close>) as the record \<open>db\<close>.

  Field names carry a prefix for their struct (\<open>u\<close> User, \<open>p\<close> Package, \<open>d\<close> Domain, \<open>i\<close> IP, \<open>z\<close> DNSZone,
  \<open>r\<close> DNSRecord, \<open>o\<close> SSLOrder, \<open>f\<close> FTPAccount, \<open>b\<close> Database, \<open>v\<close> Provider, \<open>a\<close> AuditEntry, \<open>t\<close>
  BackupTarget, \<open>l\<close> LoginAttempt, \<open>k\<close> APIToken, \<open>md\<close>/\<open>mb\<close>/\<open>ma\<close> mail, \<open>j\<close> CronJob, \<open>x\<close> PackageUpdate,
  \<open>c\<close> Container, \<open>s\<close> Session). Roles, statuses, kinds and the like are strings, as in the code.
  Columns holding JSON are kept decoded. A nullable time is an option.
  The connection can fail: while \<open>db_down\<close> is set every statement returns \<open>ErrDB\<close>.
\<close>

section \<open>Structs of models.go\<close>

abbreviation RoleAdmin :: string where "RoleAdmin \<equiv> ''admin''"
abbreviation RoleReseller :: string where "RoleReseller \<equiv> ''reseller''"
abbreviation RoleUser :: string where "RoleUser \<equiv> ''user''"
abbreviation StatusActive :: string where "StatusActive \<equiv> ''active''"
abbreviation StatusSuspended :: string where "StatusSuspended \<equiv> ''suspended''"

text \<open>The text column \<open>totp_backup_codes\<close>: empty, not a JSON string array, or a JSON array of hashes.\<close>

datatype codes_text = CodesEmpty | CodesBad | Codes "string list"

record User =
  uID :: int
  uUsername :: string
  uEmail :: string
  uPasswordHash :: string
  uRole :: string
  uPackageID :: int
  uStatus :: string
  uOwnerID :: int
  uHomeDir :: string
  uQuotaDiskBytes :: int
  uQuotaBandwidthBytes :: int
  uCreatedAt :: stamp
  uUpdatedAt :: stamp
  uTOTPSecret :: string
  uTOTPEnabled :: bool
  uTOTPBackupCodes :: codes_text

text \<open>The row of \<open>users\<close> has one column that \<open>scanUser\<close> does not read.\<close>

record UserRow = User +
  uSuspendedByQuota :: bool

text \<open>The fields of \<open>User\<close> that are only filled in on list requests.\<close>

record UserUsage = User +
  uDiskUsedBytes :: int
  uDomainCount :: nat
  uPackageName :: string

record Package =
  pID :: int
  pName :: string
  pDescription :: string
  pMaxDomains :: int
  pMaxDatabases :: int
  pMaxFTPAccounts :: int
  pDiskQuotaBytes :: int
  pBandwidthQuotaBytes :: int
  pAllowSSL :: bool
  pAllowDNS :: bool
  pAllowTerminal :: bool
  pAllowBackups :: bool
  pAllowMail :: bool
  pAllowWebmail :: bool
  pAllowDatabases :: bool
  pAllowFiles :: bool
  pAllowFTP :: bool
  pAllowCron :: bool
  pAllowDocker :: bool
  pMaxContainers :: int
  pIsDefault :: bool
  pCreatedAt :: stamp

record PerfSettings =
  Compress :: "bool option"
  StaticMaxAge :: int
  PageCacheOn :: bool
  PageCacheTTL :: int

definition CompressOn :: "PerfSettings \<Rightarrow> bool" where
  "CompressOn p \<longleftrightarrow> (case Compress p of None \<Rightarrow> True | Some b \<Rightarrow> b)"

definition perf_zero :: PerfSettings where
  "perf_zero = \<lparr>Compress = None, StaticMaxAge = 0, PageCacheOn = False, PageCacheTTL = 0\<rparr>"

text \<open>A row of \<open>domains\<close>; the Go struct adds two joined columns (\<open>Domain\<close> below).\<close>

record DomainRow =
  dID :: int
  dUserID :: int
  dDomain :: string
  dDocumentRoot :: string
  dPHPVersion :: string
  dWebServer :: string
  dSSLEnabled :: bool
  dSSLCertPath :: string
  dSSLKeyPath :: string
  dSSLProvider :: string
  dSSLAutoRenew :: bool
  dProxyTarget :: string
  dPHPSettings :: "(string \<times> string) list"
  dPerf :: PerfSettings
  dPHPPaths :: "(string \<times> string) list"
  dIPID :: int
  dParentDomainID :: int
  dCreatedAt :: stamp

record Domain = DomainRow +
  dIPAddress :: string
  dUsername :: string

record IP =
  iID :: int
  iAddress :: string
  iLabel :: string
  iKind :: string
  iCreatedAt :: stamp

abbreviation IPKindShared :: string where "IPKindShared \<equiv> ''shared''"
abbreviation IPKindDedicated :: string where "IPKindDedicated \<equiv> ''dedicated''"

text \<open>
  \<open>synced_at\<close> is a nullable text column. The store writes times either as RFC 3339 (\<open>Rfc\<close>) or, where
  a \<open>*time.Time\<close> is handed to the driver as it is, in Go's default layout (\<open>GoText\<close>; the comment on
  \<open>nullableTime\<close> documents this). \<open>scanZone\<close> reads only the former.
\<close>

datatype time_text = Rfc stamp | GoText gotime

record ZoneBase =
  zID :: int
  zDomainID :: int
  zProvider :: string
  zProviderZoneID :: string
  zCreatedAt :: stamp

record ZoneRow = ZoneBase +
  zSyncedText :: "time_text option"

record DNSZone = ZoneBase +
  zDomain :: string
  zSyncedAt :: "gotime option"

record DNSRecord =
  rID :: int
  rZoneID :: int
  rName :: string
  rType :: string
  rTTL :: int
  rPriority :: int
  rContent :: string
  rProxied :: bool
  rCreatedAt :: stamp

record OrderRow =
  oID :: int
  oDomainID :: int
  oStatus :: string
  oProvider :: string
  oChallenge :: string
  oCertPath :: string
  oKeyPath :: string
  oExpiresAt :: "stamp option"
  oError :: string
  oCreatedAt :: stamp
  oUpdatedAt :: stamp

record SSLOrder = OrderRow +
  oDomain :: string

record FTPAccount =
  fID :: int
  fUserID :: int
  fUsername :: string
  fPasswordHash :: string
  fHomeDir :: string
  fEnabled :: bool
  fCreatedAt :: stamp

record Database =
  bID :: int
  bUserID :: int
  bServer :: string
  bName :: string
  bDBUser :: string
  bDBPassword :: string
  bCreatedAt :: stamp

record Provider =
  vID :: int
  vName :: string
  vLabel :: string
  vAPIKeyEnc :: string
  vEmail :: string
  vConfig :: string
  vEnabled :: bool
  vCreatedAt :: stamp

record AuditEntry =
  aID :: int
  aActorID :: int
  aActorName :: string
  aAction :: string
  aTarget :: string
  aDetail :: string
  aIP :: string
  aCreatedAt :: stamp

record BackupTarget =
  tID :: int
  tKind :: string
  tLabel :: string
  tConfigEnc :: string
  tRetentionDays :: int
  tEnabled :: bool
  tCreatedAt :: stamp

record LoginAttempt =
  lID :: int
  lUsername :: string
  lIP :: string
  lSuccess :: bool
  lCreatedAt :: stamp

record APIToken =
  kID :: int
  kUserID :: int
  kLabel :: string
  kTokenHash :: string
  kScopes :: string
  kLastUsedAt :: "stamp option"
  kExpiresAt :: "stamp option"
  kCreatedAt :: stamp

record MailDomain =
  mdID :: int
  mdDomainID :: int
  mdDomain :: string
  mdDKIMSelector :: string
  mdDKIMPublicKey :: string
  mdCreatedAt :: stamp

record MailboxRow =
  mbID :: int
  mbMailDomainID :: int
  mbLocalpart :: string
  mbPasswordHash :: string
  mbQuotaBytes :: int
  mbEnabled :: bool
  mbCreatedAt :: stamp

record Mailbox = MailboxRow +
  mbDomain :: string

record MailAliasRow =
  maID :: int
  maMailDomainID :: int
  maSource :: string
  maDestination :: string
  maCreatedAt :: stamp

record MailAlias = MailAliasRow +
  maDomain :: string

record CronJob =
  jID :: int
  jUserID :: int
  jSchedule :: string
  jCommand :: string
  jLogPath :: string
  jEnabled :: bool
  jCreatedAt :: stamp

record PackageUpdate =
  xID :: int
  xName :: string
  xCurrentVersion :: string
  xNewVersion :: string
  xSecurity :: bool
  xCheckedAt :: stamp

record PortMap =
  ContainerPort :: int
  HostPort :: int
  Proto :: string
  Public :: bool

record VolumeMount =
  HostPath :: string
  ContainerPath :: string

record Container =
  cID :: int
  cUserID :: int
  cDomainID :: int
  cName :: string
  cImage :: string
  cPorts :: "PortMap list"
  cWebPort :: int
  cEnv :: "(string \<times> string) list"
  cVolumes :: "VolumeMount list"
  cRestartPolicy :: string
  cMemoryLimitMB :: int
  cCPULimit :: string
  cCreatedAt :: stamp

record Session =
  sID :: string
  sUserID :: int
  sExpiresAt :: stamp
  sCreatedAt :: stamp

text \<open>\<open>domain_aliases\<close> and \<open>suspension_actions\<close> have no struct of their own.\<close>

record AliasRow =
  alID :: int
  alDomainID :: int
  alAlias :: string

record SuspensionAction =
  saUserID :: int
  saKind :: string
  saRef :: int

section \<open>The schema\<close>

record db =
  db_down :: bool
  packages :: "Package table"
  users :: "UserRow table"
  domains :: "DomainRow table"
  domain_aliases :: "AliasRow table"
  dns_zones :: "ZoneRow table"
  dns_records :: "DNSRecord table"
  ssl_orders :: "OrderRow table"
  ftp_accounts :: "FTPAccount table"
  databases :: "Database table"
  dns_providers :: "Provider table"
  audit_log :: "AuditEntry table"
  sessions :: "Session list"
  totp_challenges :: "Session list"
  settings :: "(string \<times> string) list"
  backup_targets :: "BackupTarget table"
  login_attempts :: "LoginAttempt table"
  api_tokens :: "APIToken table"
  mail_domains :: "MailDomain table"
  mailboxes :: "MailboxRow table"
  mail_aliases :: "MailAliasRow table"
  cron_jobs :: "CronJob table"
  suspension_actions :: "SuspensionAction list"
  system_package_updates :: "PackageUpdate table"
  containers :: "Container table"
  ips :: "IP table"

text \<open>A database right after \<open>CREATE TABLE\<close>, before the default package is seeded.\<close>

definition db_empty :: db where
  "db_empty = \<lparr>db_down = False, packages = t_empty, users = t_empty, domains = t_empty,
     domain_aliases = t_empty, dns_zones = t_empty, dns_records = t_empty, ssl_orders = t_empty,
     ftp_accounts = t_empty, databases = t_empty, dns_providers = t_empty, audit_log = t_empty,
     sessions = [], totp_challenges = [], settings = [], backup_targets = t_empty,
     login_attempts = t_empty, api_tokens = t_empty, mail_domains = t_empty,
     mailboxes = t_empty, mail_aliases = t_empty, cron_jobs = t_empty,
     suspension_actions = [], system_package_updates = t_empty, containers = t_empty,
     ips = t_empty\<rparr>"

text \<open>One statement: a read (\<open>query\<close>), a write (\<open>exec\<close>), and a read that must return a row
  (\<open>query_row\<close>: \<open>sql.ErrNoRows\<close> becomes \<open>ErrNotFound\<close> through \<open>wrapErr\<close>).\<close>

definition query :: "db \<Rightarrow> 'a \<Rightarrow> 'a res" where
  "query s v = (if db_down s then Inl ErrDB else Inr v)"

definition exec :: "db \<Rightarrow> db \<Rightarrow> db res" where
  "exec s s' = (if db_down s then Inl ErrDB else Inr s')"

definition query_row :: "db \<Rightarrow> 'a option \<Rightarrow> 'a res" where
  "query_row s v = (if db_down s then Inl ErrDB
     else case v of None \<Rightarrow> Inl ErrNotFound | Some x \<Rightarrow> Inr x)"

text \<open>An \<open>INSERT\<close> guarded by a uniqueness constraint: a violation is \<open>ErrConflict\<close>.\<close>

definition exec_unique :: "db \<Rightarrow> bool \<Rightarrow> 'a \<Rightarrow> 'a res" where
  "exec_unique s conflict v =
     (if db_down s then Inl ErrDB else if conflict then Inl ErrConflict else Inr v)"

lemma query_Inr_iff [simp]: "query s v = Inr w \<longleftrightarrow> \<not> db_down s \<and> v = w"
  by (auto simp: query_def)

lemma exec_Inr_iff [simp]: "exec s s' = Inr t \<longleftrightarrow> \<not> db_down s \<and> s' = t"
  by (auto simp: exec_def)

lemma query_row_Inr_iff [simp]: "query_row s v = Inr x \<longleftrightarrow> \<not> db_down s \<and> v = Some x"
  by (auto simp: query_row_def split: option.splits)

lemma exec_unique_Inr_iff [simp]:
  "exec_unique s c v = Inr x \<longleftrightarrow> \<not> db_down s \<and> \<not> c \<and> v = x"
  by (auto simp: exec_unique_def)

lemma ignore_exec_simps [simp]: "ignore_err s (exec s s') = (if db_down s then s else s')"
  by (simp add: exec_def)

interpretation tb_packages: sql_table pID "\<lambda>i. pID_update (\<lambda>_. i)" by unfold_locales simp
interpretation tb_users: sql_table uID "\<lambda>i. uID_update (\<lambda>_. i) :: UserRow \<Rightarrow> UserRow" by unfold_locales simp
interpretation tb_domains: sql_table dID "\<lambda>i. dID_update (\<lambda>_. i) :: DomainRow \<Rightarrow> DomainRow" by unfold_locales simp
interpretation tb_aliases: sql_table alID "\<lambda>i. alID_update (\<lambda>_. i)" by unfold_locales simp
interpretation tb_zones: sql_table zID "\<lambda>i. zID_update (\<lambda>_. i) :: ZoneRow \<Rightarrow> ZoneRow" by unfold_locales simp
interpretation tb_records: sql_table rID "\<lambda>i. rID_update (\<lambda>_. i)" by unfold_locales simp
interpretation tb_orders: sql_table oID "\<lambda>i. oID_update (\<lambda>_. i) :: OrderRow \<Rightarrow> OrderRow" by unfold_locales simp
interpretation tb_ftp: sql_table fID "\<lambda>i. fID_update (\<lambda>_. i)" by unfold_locales simp
interpretation tb_databases: sql_table bID "\<lambda>i. bID_update (\<lambda>_. i)" by unfold_locales simp
interpretation tb_providers: sql_table vID "\<lambda>i. vID_update (\<lambda>_. i)" by unfold_locales simp
interpretation tb_audit: sql_table aID "\<lambda>i. aID_update (\<lambda>_. i)" by unfold_locales simp
interpretation tb_targets: sql_table tID "\<lambda>i. tID_update (\<lambda>_. i)" by unfold_locales simp
interpretation tb_attempts: sql_table lID "\<lambda>i. lID_update (\<lambda>_. i)" by unfold_locales simp
interpretation tb_tokens: sql_table kID "\<lambda>i. kID_update (\<lambda>_. i)" by unfold_locales simp
interpretation tb_maildomains: sql_table mdID "\<lambda>i. mdID_update (\<lambda>_. i)" by unfold_locales simp
interpretation tb_mailboxes: sql_table mbID "\<lambda>i. mbID_update (\<lambda>_. i) :: MailboxRow \<Rightarrow> MailboxRow" by unfold_locales simp
interpretation tb_mailaliases: sql_table maID "\<lambda>i. maID_update (\<lambda>_. i) :: MailAliasRow \<Rightarrow> MailAliasRow" by unfold_locales simp
interpretation tb_cron: sql_table jID "\<lambda>i. jID_update (\<lambda>_. i)" by unfold_locales simp
interpretation tb_updates: sql_table xID "\<lambda>i. xID_update (\<lambda>_. i)" by unfold_locales simp
interpretation tb_containers: sql_table cID "\<lambda>i. cID_update (\<lambda>_. i)" by unfold_locales simp
interpretation tb_ips: sql_table iID "\<lambda>i. iID_update (\<lambda>_. i)" by unfold_locales simp

end
