(* ===== verification/Store_Accounts.thy ===== *)
theory Store_Accounts
  imports Store_Model
begin

text \<open>
  Account tables of the store: users and packages (\<^verbatim>\<open>store/users.go\<close>), sessions, TOTP challenges,
  settings and the audit log (\<^verbatim>\<open>store/store.go\<close>), login attempts (\<^verbatim>\<open>store/loginattempts.go\<close>) and API tokens
  (\<^verbatim>\<open>store/apitokens.go\<close>). The time of the call is the argument \<open>tm\<close>. A method that returns its
  driver error unwrapped reports a constraint violation as \<open>ErrDB\<close>; one that goes through
  \<open>wrapErr\<close> reports \<open>ErrConflict\<close>.
\<close>

section \<open>Users\<close>

definition scanUser :: "UserRow \<Rightarrow> User" where
  "scanUser r = User.truncate r"

definition CreateUser :: "db \<Rightarrow> gotime \<Rightarrow> User \<Rightarrow> (User \<times> db) res" where
  [store_defs]: "CreateUser s tm u =
    (let ts = rfc3339 tm;
         row = \<lparr>uID = 0, uUsername = uUsername u, uEmail = uEmail u, uPasswordHash = uPasswordHash u,
           uRole = uRole u, uPackageID = uPackageID u, uStatus = uStatus u, uOwnerID = uOwnerID u,
           uHomeDir = uHomeDir u, uQuotaDiskBytes = uQuotaDiskBytes u,
           uQuotaBandwidthBytes = uQuotaBandwidthBytes u, uCreatedAt = ts, uUpdatedAt = ts,
           uTOTPSecret = [], uTOTPEnabled = False, uTOTPBackupCodes = Codes [],
           uSuspendedByQuota = False\<rparr>
     in exec_unique s (t_exists (\<lambda>r. uUsername r = uUsername u) (users s))
          (u\<lparr>uID := tseq (users s) + 1, uCreatedAt := ts, uUpdatedAt := ts\<rparr>,
           s\<lparr>users := t_insert (\<lambda>i. uID_update (\<lambda>_. i)) row (users s)\<rparr>))"

definition GetUserByID :: "db \<Rightarrow> int \<Rightarrow> User res" where
  [store_defs]: "GetUserByID s i = query_row s (map_option scanUser (t_get uID i (users s)))"

definition GetUserByUsername :: "db \<Rightarrow> string \<Rightarrow> User res" where
  [store_defs]: "GetUserByUsername s name =
    query_row s (map_option scanUser (find (\<lambda>r. uUsername r = name) (trows (users s))))"

definition GetUserByEmail :: "db \<Rightarrow> string \<Rightarrow> User res" where
  [store_defs]: "GetUserByEmail s email =
    query_row s (map_option scanUser (find (\<lambda>r. uEmail r = email) (trows (users s))))"

definition ListUsers :: "db \<Rightarrow> int \<Rightarrow> User list res" where
  [store_defs]: "ListUsers s ownerID =
    query s (sort_key uUsername (map scanUser
      (t_select (\<lambda>r. ownerID > 0 \<longrightarrow> uOwnerID r = ownerID) (users s))))"

definition ListUsersWithUsage :: "db \<Rightarrow> (string \<Rightarrow> int) \<Rightarrow> UserUsage list res" where
  [store_defs]: "ListUsersWithUsage s usage = bindR (ListUsers s 0) (\<lambda>us. Inr (map (\<lambda>u.
     User.extend u (UserUsage.fields (usage (uUsername u))
       (t_count (\<lambda>d. dUserID d = uID u) (domains s))
       (case t_get pID (uPackageID u) (packages s) of None \<Rightarrow> [] | Some p \<Rightarrow> pName p))) us))"

definition UpdateUser :: "db \<Rightarrow> gotime \<Rightarrow> User \<Rightarrow> db res" where
  [store_defs]: "UpdateUser s tm u = exec s (s\<lparr>users := t_update (\<lambda>r. uID r = uID u)
     (\<lambda>r. r\<lparr>uEmail := uEmail u, uRole := uRole u, uPackageID := uPackageID u, uStatus := uStatus u,
        uHomeDir := uHomeDir u, uQuotaDiskBytes := uQuotaDiskBytes u,
        uQuotaBandwidthBytes := uQuotaBandwidthBytes u, uUpdatedAt := rfc3339 tm\<rparr>) (users s)\<rparr>)"

text \<open>The setters all have the form \<open>UPDATE users SET \<dots> WHERE id = ?\<close>.\<close>

definition set_user :: "db \<Rightarrow> int \<Rightarrow> (UserRow \<Rightarrow> UserRow) \<Rightarrow> db res" where
  "set_user s i f = exec s (s\<lparr>users := t_update (\<lambda>r. uID r = i) f (users s)\<rparr>)"

definition SetUserPassword :: "db \<Rightarrow> gotime \<Rightarrow> int \<Rightarrow> string \<Rightarrow> db res" where
  [store_defs]: "SetUserPassword s tm i hash =
    set_user s i (\<lambda>r. r\<lparr>uPasswordHash := hash, uUpdatedAt := rfc3339 tm\<rparr>)"

definition SetUserStatus :: "db \<Rightarrow> gotime \<Rightarrow> int \<Rightarrow> string \<Rightarrow> db res" where
  [store_defs]: "SetUserStatus s tm i status =
    set_user s i (\<lambda>r. r\<lparr>uStatus := status, uUpdatedAt := rfc3339 tm\<rparr>)"

definition SetTOTPSecret :: "db \<Rightarrow> gotime \<Rightarrow> int \<Rightarrow> string \<Rightarrow> db res" where
  [store_defs]: "SetTOTPSecret s tm i secret =
    set_user s i (\<lambda>r. r\<lparr>uTOTPSecret := secret, uUpdatedAt := rfc3339 tm\<rparr>)"

definition EnableTOTP :: "db \<Rightarrow> gotime \<Rightarrow> int \<Rightarrow> codes_text \<Rightarrow> db res" where
  [store_defs]: "EnableTOTP s tm i codes =
    set_user s i (\<lambda>r. r\<lparr>uTOTPEnabled := True, uTOTPBackupCodes := codes, uUpdatedAt := rfc3339 tm\<rparr>)"

definition SetTOTPBackupCodes :: "db \<Rightarrow> gotime \<Rightarrow> int \<Rightarrow> codes_text \<Rightarrow> db res" where
  [store_defs]: "SetTOTPBackupCodes s tm i codes =
    set_user s i (\<lambda>r. r\<lparr>uTOTPBackupCodes := codes, uUpdatedAt := rfc3339 tm\<rparr>)"

definition store_DisableTOTP :: "db \<Rightarrow> gotime \<Rightarrow> int \<Rightarrow> db res" where
  [store_defs]: "store_DisableTOTP s tm i = set_user s i (\<lambda>r. r\<lparr>uTOTPEnabled := False,
     uTOTPSecret := [], uTOTPBackupCodes := Codes [], uUpdatedAt := rfc3339 tm\<rparr>)"

definition SetSuspendedByQuota :: "db \<Rightarrow> int \<Rightarrow> bool \<Rightarrow> db res" where
  [store_defs]: "SetSuspendedByQuota s i v = set_user s i (\<lambda>r. r\<lparr>uSuspendedByQuota := v\<rparr>)"

definition IsSuspendedByQuota :: "db \<Rightarrow> int \<Rightarrow> bool res" where
  [store_defs]: "IsSuspendedByQuota s i = (if db_down s then Inl ErrDB
     else case t_get uID i (users s) of None \<Rightarrow> Inl ErrDB | Some r \<Rightarrow> Inr (uSuspendedByQuota r))"

definition CountAdmins :: "db \<Rightarrow> nat res" where
  [store_defs]: "CountAdmins s = query s (t_count (\<lambda>r. uRole r = RoleAdmin) (users s))"

definition CountUsers :: "db \<Rightarrow> int \<Rightarrow> nat res" where
  [store_defs]: "CountUsers s ownerID =
    query s (t_count (\<lambda>r. ownerID > 0 \<longrightarrow> uOwnerID r = ownerID) (users s))"

section \<open>Packages\<close>

definition clear_other_defaults :: "int \<Rightarrow> db \<Rightarrow> db" where
  "clear_other_defaults i s =
    s\<lparr>packages := t_update (\<lambda>r. pID r \<noteq> i) (\<lambda>r. r\<lparr>pIsDefault := False\<rparr>) (packages s)\<rparr>"

definition CreatePackage :: "db \<Rightarrow> gotime \<Rightarrow> Package \<Rightarrow> (Package \<times> db) res" where
  [store_defs]: "CreatePackage s tm p =
    (let i = tseq (packages s) + 1; p' = p\<lparr>pID := i, pCreatedAt := rfc3339 tm\<rparr>;
         s' = s\<lparr>packages := t_insert (\<lambda>i. pID_update (\<lambda>_. i)) p' (packages s)\<rparr>
     in exec_unique s (t_exists (\<lambda>r. pName r = pName p) (packages s))
          (p', if pIsDefault p then clear_other_defaults i s' else s'))"

definition GetPackage :: "db \<Rightarrow> int \<Rightarrow> Package res" where
  [store_defs]: "GetPackage s i = query_row s (t_get pID i (packages s))"

definition GetDefaultPackage :: "db \<Rightarrow> Package res" where
  [store_defs]: "GetDefaultPackage s =
    query_row s (find pIsDefault (sort_key pID (trows (packages s))))"

definition ListPackages :: "db \<Rightarrow> Package list res" where
  [store_defs]: "ListPackages s = query s (sort_key pName (trows (packages s)))"

definition UpdatePackage :: "db \<Rightarrow> Package \<Rightarrow> db res" where
  [store_defs]: "UpdatePackage s p =
    (let s' = s\<lparr>packages := t_update (\<lambda>r. pID r = pID p)
                 (\<lambda>r. p\<lparr>pID := pID r, pCreatedAt := pCreatedAt r\<rparr>) (packages s)\<rparr>
     in exec_unique s (t_exists (\<lambda>r. pID r = pID p) (packages s)
            \<and> t_exists (\<lambda>r. pID r \<noteq> pID p \<and> pName r = pName p) (packages s))
          (if pIsDefault p then clear_other_defaults (pID p) s' else s'))"

definition DeletePackage :: "db \<Rightarrow> int \<Rightarrow> db res" where
  [store_defs]: "DeletePackage s i =
    bindR (query s (t_count (\<lambda>r. uPackageID r = i) (users s))) (\<lambda>n.
      if n > 0 then Inl (ErrInUse n)
      else exec s (s\<lparr>packages := t_delete (\<lambda>r. pID r = i) (packages s)\<rparr>))"

record PackageUsage =
  puDomains :: nat
  puDatabases :: nat
  puFTPAccounts :: nat

text \<open>SQLite's \<open>LIKE 'webftp.%'\<close> ignores ASCII case.\<close>

definition like_webftp :: "string \<Rightarrow> bool" where
  "like_webftp d \<longleftrightarrow> HasPrefix (ToLower d) ''webftp.''"

definition GetPackageUsage :: "db \<Rightarrow> int \<Rightarrow> PackageUsage res" where
  [store_defs]: "GetPackageUsage s uid = query s
     \<lparr>puDomains = t_count (\<lambda>d. dUserID d = uid \<and> \<not> like_webftp (dDomain d)) (domains s),
      puDatabases = t_count (\<lambda>b. bUserID b = uid) (databases s),
      puFTPAccounts = t_count (\<lambda>f. fUserID f = uid) (ftp_accounts s)\<rparr>"

section \<open>Sessions and TOTP challenges\<close>

definition CreateSession :: "db \<Rightarrow> gotime \<Rightarrow> string \<Rightarrow> int \<Rightarrow> gotime \<Rightarrow> db res" where
  [store_defs]: "CreateSession s tm i uid expires =
    (if db_down s \<or> list_ex (\<lambda>r. sID r = i) (sessions s) then Inl ErrDB
     else Inr (s\<lparr>sessions := sessions s @
       [\<lparr>sID = i, sUserID = uid, sExpiresAt = rfc3339 expires, sCreatedAt = rfc3339 tm\<rparr>]\<rparr>))"

definition live_row :: "gotime \<Rightarrow> string \<Rightarrow> Session list \<Rightarrow> Session option" where
  "live_row tm i rs = (case find (\<lambda>r. sID r = i) rs of None \<Rightarrow> None
     | Some r \<Rightarrow> if parse_rfc3339 (sExpiresAt r) < tm then None else Some r)"

definition GetSessionUser :: "db \<Rightarrow> gotime \<Rightarrow> string \<Rightarrow> int res" where
  [store_defs]: "GetSessionUser s tm i =
    query_row s (map_option sUserID (live_row tm i (sessions s)))"

definition DeleteSession :: "db \<Rightarrow> string \<Rightarrow> db res" where
  [store_defs]: "DeleteSession s i =
    exec s (s\<lparr>sessions := filter (\<lambda>r. sID r \<noteq> i) (sessions s)\<rparr>)"

definition DeleteUserSessions :: "db \<Rightarrow> int \<Rightarrow> db res" where
  [store_defs]: "DeleteUserSessions s uid =
    exec s (s\<lparr>sessions := filter (\<lambda>r. sUserID r \<noteq> uid) (sessions s)\<rparr>)"

definition CreateTOTPChallenge :: "db \<Rightarrow> gotime \<Rightarrow> string \<Rightarrow> int \<Rightarrow> gotime \<Rightarrow> db res" where
  [store_defs]: "CreateTOTPChallenge s tm i uid expires =
    (if db_down s \<or> list_ex (\<lambda>r. sID r = i) (totp_challenges s) then Inl ErrDB
     else Inr (s\<lparr>totp_challenges := totp_challenges s @
       [\<lparr>sID = i, sUserID = uid, sExpiresAt = rfc3339 expires, sCreatedAt = rfc3339 tm\<rparr>]\<rparr>))"

definition GetTOTPChallengeUser :: "db \<Rightarrow> gotime \<Rightarrow> string \<Rightarrow> int res" where
  [store_defs]: "GetTOTPChallengeUser s tm i =
    query_row s (map_option sUserID (live_row tm i (totp_challenges s)))"

definition DeleteTOTPChallenge :: "db \<Rightarrow> string \<Rightarrow> db res" where
  [store_defs]: "DeleteTOTPChallenge s i =
    exec s (s\<lparr>totp_challenges := filter (\<lambda>r. sID r \<noteq> i) (totp_challenges s)\<rparr>)"

section \<open>Settings and audit log\<close>

definition GetSetting :: "db \<Rightarrow> string \<Rightarrow> string res" where
  [store_defs]: "GetSetting s k =
    query s (case map_of (settings s) k of None \<Rightarrow> [] | Some v \<Rightarrow> v)"

definition SetSetting :: "db \<Rightarrow> string \<Rightarrow> string \<Rightarrow> db res" where
  [store_defs]: "SetSetting s k v = exec s (s\<lparr>settings :=
     (if k \<in> fst ` set (settings s)
      then map (\<lambda>(k', v'). if k' = k then (k', v) else (k', v')) (settings s)
      else settings s @ [(k, v)])\<rparr>)"

text \<open>\<open>ORDER BY id DESC LIMIT n\<close>; a negative limit is no limit.\<close>

definition newest :: "('r \<Rightarrow> int) \<Rightarrow> int \<Rightarrow> 'r list \<Rightarrow> 'r list" where
  "newest rid n rs = (let xs = rev (sort_key rid rs) in if n < 0 then xs else take (nat n) xs)"

definition AppendAudit :: "db \<Rightarrow> gotime \<Rightarrow> int \<Rightarrow> string \<Rightarrow> string \<Rightarrow> string \<Rightarrow> string \<Rightarrow> string \<Rightarrow> db res" where
  [store_defs]: "AppendAudit s tm actorID actorName action target detail ip =
    exec s (s\<lparr>audit_log := t_insert (\<lambda>i. aID_update (\<lambda>_. i))
      \<lparr>aID = 0, aActorID = actorID, aActorName = actorName, aAction = action, aTarget = target,
       aDetail = detail, aIP = ip, aCreatedAt = rfc3339 tm\<rparr> (audit_log s)\<rparr>)"

definition ListAudit :: "db \<Rightarrow> int \<Rightarrow> int \<Rightarrow> AuditEntry list res" where
  [store_defs]: "ListAudit s limit actorID =
    query s (newest aID limit (t_select (\<lambda>e. actorID > 0 \<longrightarrow> aActorID e = actorID) (audit_log s)))"

section \<open>Login attempts\<close>

definition RecordLoginAttempt :: "db \<Rightarrow> gotime \<Rightarrow> string \<Rightarrow> string \<Rightarrow> bool \<Rightarrow> db res" where
  [store_defs]: "RecordLoginAttempt s tm username ip success =
    exec s (s\<lparr>login_attempts := t_insert (\<lambda>i. lID_update (\<lambda>_. i))
      \<lparr>lID = 0, lUsername = username, lIP = ip, lSuccess = success, lCreatedAt = rfc3339 tm\<rparr>
      (login_attempts s)\<rparr>)"

definition CountRecentFailures :: "db \<Rightarrow> string \<Rightarrow> string \<Rightarrow> gotime \<Rightarrow> nat res" where
  [store_defs]: "CountRecentFailures s username ip since = query s (t_count (\<lambda>a. lUsername a = username
     \<and> lIP a = ip \<and> \<not> lSuccess a \<and> lCreatedAt a > rfc3339 since) (login_attempts s))"

definition CountRecentFailuresForUser :: "db \<Rightarrow> string \<Rightarrow> gotime \<Rightarrow> nat res" where
  [store_defs]: "CountRecentFailuresForUser s username since = query s (t_count (\<lambda>a. lUsername a = username
     \<and> \<not> lSuccess a \<and> lCreatedAt a > rfc3339 since) (login_attempts s))"

definition CountRecentFailuresFromIP :: "db \<Rightarrow> string \<Rightarrow> gotime \<Rightarrow> nat res" where
  [store_defs]: "CountRecentFailuresFromIP s ip since = query s (t_count (\<lambda>a. lIP a = ip
     \<and> \<not> lSuccess a \<and> lCreatedAt a > rfc3339 since) (login_attempts s))"

definition HasRecentSuccess :: "db \<Rightarrow> string \<Rightarrow> string \<Rightarrow> gotime \<Rightarrow> bool res" where
  [store_defs]: "HasRecentSuccess s username ip since = query s (t_count (\<lambda>a. lUsername a = username
     \<and> lIP a = ip \<and> lSuccess a \<and> lCreatedAt a > rfc3339 since) (login_attempts s) > 0)"

definition ListRecentLoginAttempts :: "db \<Rightarrow> int \<Rightarrow> LoginAttempt list res" where
  [store_defs]: "ListRecentLoginAttempts s limit = query s (newest lID limit (trows (login_attempts s)))"

section \<open>API tokens\<close>

definition CreateAPIToken :: "db \<Rightarrow> gotime \<Rightarrow> APIToken \<Rightarrow> (APIToken \<times> db) res" where
  [store_defs]: "CreateAPIToken s tm t =
    (let row = t\<lparr>kLastUsedAt := None, kCreatedAt := rfc3339 tm\<rparr>
     in bindR (exec s (s\<lparr>api_tokens := t_insert (\<lambda>i. kID_update (\<lambda>_. i)) row (api_tokens s)\<rparr>))
          (\<lambda>s'. Inr (t\<lparr>kID := tseq (api_tokens s) + 1, kCreatedAt := rfc3339 tm\<rparr>, s')))"

definition ListAPITokens :: "db \<Rightarrow> int \<Rightarrow> APIToken list res" where
  [store_defs]: "ListAPITokens s uid =
    query s (newest kID (- 1) (t_select (\<lambda>k. uid > 0 \<longrightarrow> kUserID k = uid) (api_tokens s)))"

definition GetAPIToken :: "db \<Rightarrow> int \<Rightarrow> APIToken res" where
  [store_defs]: "GetAPIToken s i = query_row s (t_get kID i (api_tokens s))"

definition token_live :: "gotime \<Rightarrow> APIToken \<Rightarrow> bool" where
  "token_live tm k \<longleftrightarrow> (case kExpiresAt k of None \<Rightarrow> True | Some e \<Rightarrow> e > rfc3339 tm)"

definition AllActiveAPITokens :: "db \<Rightarrow> gotime \<Rightarrow> APIToken list res" where
  [store_defs]: "AllActiveAPITokens s tm = query s (t_select (token_live tm) (api_tokens s))"

definition TouchAPIToken :: "db \<Rightarrow> gotime \<Rightarrow> int \<Rightarrow> db res" where
  [store_defs]: "TouchAPIToken s tm i = exec s (s\<lparr>api_tokens :=
     t_update (\<lambda>k. kID k = i) (\<lambda>k. k\<lparr>kLastUsedAt := Some (rfc3339 tm)\<rparr>) (api_tokens s)\<rparr>)"

definition DeleteAPIToken :: "db \<Rightarrow> int \<Rightarrow> db res" where
  [store_defs]: "DeleteAPIToken s i =
    exec s (s\<lparr>api_tokens := t_delete (\<lambda>k. kID k = i) (api_tokens s)\<rparr>)"

section \<open>Suspension bookkeeping\<close>

abbreviation SuspendKindMailbox :: string where "SuspendKindMailbox \<equiv> ''mailbox''"
abbreviation SuspendKindContainer :: string where "SuspendKindContainer \<equiv> ''container''"

definition IsManuallySuspended :: "db \<Rightarrow> int \<Rightarrow> bool res" where
  [store_defs]: "IsManuallySuspended s uid = query_row s (map_option
     (\<lambda>r. uStatus r = StatusSuspended \<and> \<not> uSuspendedByQuota r) (t_get uID uid (users s)))"

definition IsUsernameManuallySuspended :: "db \<Rightarrow> string \<Rightarrow> bool" where
  [store_defs]: "IsUsernameManuallySuspended s name =
    (case query_row s (map_option uID (find (\<lambda>r. uUsername r = name) (trows (users s)))) of
       Inl _ \<Rightarrow> False
     | Inr i \<Rightarrow> (case IsManuallySuspended s i of Inl _ \<Rightarrow> False | Inr b \<Rightarrow> b))"

definition RecordSuspensionAction :: "db \<Rightarrow> int \<Rightarrow> string \<Rightarrow> int \<Rightarrow> db res" where
  [store_defs]: "RecordSuspensionAction s uid kind ref =
    (let a = \<lparr>saUserID = uid, saKind = kind, saRef = ref\<rparr> in
     exec s (s\<lparr>suspension_actions :=
       (if a \<in> set (suspension_actions s) then suspension_actions s else suspension_actions s @ [a])\<rparr>))"

definition ListSuspensionActions :: "db \<Rightarrow> int \<Rightarrow> string \<Rightarrow> int list res" where
  [store_defs]: "ListSuspensionActions s uid kind = query s (sort (map saRef
     (filter (\<lambda>a. saUserID a = uid \<and> saKind a = kind) (suspension_actions s))))"

definition ClearSuspensionActions :: "db \<Rightarrow> int \<Rightarrow> db res" where
  [store_defs]: "ClearSuspensionActions s uid =
    exec s (s\<lparr>suspension_actions := filter (\<lambda>a. saUserID a \<noteq> uid) (suspension_actions s)\<rparr>)"

definition SetMailboxEnabled :: "db \<Rightarrow> int \<Rightarrow> bool \<Rightarrow> db res" where
  [store_defs]: "SetMailboxEnabled s i enabled = exec s (s\<lparr>mailboxes :=
     t_update (\<lambda>m. mbID m = i) (\<lambda>m. m\<lparr>mbEnabled := enabled\<rparr>) (mailboxes s)\<rparr>)"

end
