(* ===== verification/Store_Domains.thy ===== *)
theory Store_Domains
  imports Store_Accounts
begin

text \<open>
  Domains, aliases, DNS zones and records (\<^verbatim>\<open>store/domains.go\<close>), the IP pool (\<^verbatim>\<open>store/ips.go\<close>) and
  certificate orders (\<^verbatim>\<open>store/services.go\<close>). The \<open>LEFT JOIN\<close>s of the queries are computed from the joined
  tables: a missing partner yields the empty string, as \<open>COALESCE\<close> does.
\<close>

section \<open>Domains\<close>

definition scanDomain :: "db \<Rightarrow> DomainRow \<Rightarrow> Domain" where
  "scanDomain s r = DomainRow.extend r (Domain.fields
     (case t_get iID (dIPID r) (ips s) of None \<Rightarrow> [] | Some ip \<Rightarrow> iAddress ip)
     (case t_get uID (dUserID r) (users s) of None \<Rightarrow> [] | Some u \<Rightarrow> uUsername u))"

definition CreateDomain :: "db \<Rightarrow> gotime \<Rightarrow> Domain \<Rightarrow> (Domain \<times> db) res" where
  [store_defs]: "CreateDomain s tm d =
    (let ts = rfc3339 tm;
         row = \<lparr>dID = 0, dUserID = dUserID d, dDomain = dDomain d, dDocumentRoot = dDocumentRoot d,
           dPHPVersion = dPHPVersion d, dWebServer = dWebServer d, dSSLEnabled = dSSLEnabled d,
           dSSLCertPath = dSSLCertPath d, dSSLKeyPath = dSSLKeyPath d, dSSLProvider = dSSLProvider d,
           dSSLAutoRenew = dSSLAutoRenew d, dProxyTarget = dProxyTarget d,
           dPHPSettings = dPHPSettings d, dPerf = perf_zero, dPHPPaths = [], dIPID = 0,
           dParentDomainID = dParentDomainID d, dCreatedAt = ts\<rparr>
     in exec_unique s (t_exists (\<lambda>r. dDomain r = dDomain d) (domains s))
          (d\<lparr>dID := tseq (domains s) + 1, dCreatedAt := ts\<rparr>,
           s\<lparr>domains := t_insert (\<lambda>i. dID_update (\<lambda>_. i)) row (domains s)\<rparr>))"

definition GetDomain :: "db \<Rightarrow> int \<Rightarrow> Domain res" where
  [store_defs]: "GetDomain s i = query_row s (map_option (scanDomain s) (t_get dID i (domains s)))"

definition GetDomainByName :: "db \<Rightarrow> string \<Rightarrow> Domain res" where
  [store_defs]: "GetDomainByName s name =
    query_row s (map_option (scanDomain s) (find (\<lambda>r. dDomain r = name) (trows (domains s))))"

definition ListDomains :: "db \<Rightarrow> int \<Rightarrow> Domain list res" where
  [store_defs]: "ListDomains s uid = query s (sort_key dDomain (map (scanDomain s)
     (t_select (\<lambda>r. uid > 0 \<longrightarrow> dUserID r = uid) (domains s))))"

definition UpdateDomain :: "db \<Rightarrow> Domain \<Rightarrow> db res" where
  [store_defs]: "UpdateDomain s d = exec s (s\<lparr>domains := t_update (\<lambda>r. dID r = dID d)
     (\<lambda>r. r\<lparr>dDocumentRoot := dDocumentRoot d, dPHPVersion := dPHPVersion d, dWebServer := dWebServer d,
        dSSLEnabled := dSSLEnabled d, dSSLCertPath := dSSLCertPath d, dSSLKeyPath := dSSLKeyPath d,
        dSSLProvider := dSSLProvider d, dSSLAutoRenew := dSSLAutoRenew d,
        dPHPSettings := dPHPSettings d, dPerf := dPerf d, dPHPPaths := dPHPPaths d\<rparr>) (domains s)\<rparr>)"

definition SetDomainProxyTarget :: "db \<Rightarrow> int \<Rightarrow> string \<Rightarrow> db res" where
  [store_defs]: "SetDomainProxyTarget s i target = exec s (s\<lparr>domains :=
     t_update (\<lambda>r. dID r = i) (\<lambda>r. r\<lparr>dProxyTarget := target\<rparr>) (domains s)\<rparr>)"

definition SetDomainIP :: "db \<Rightarrow> int \<Rightarrow> int \<Rightarrow> db res" where
  [store_defs]: "SetDomainIP s i ipID = exec s (s\<lparr>domains :=
     t_update (\<lambda>r. dID r = i) (\<lambda>r. r\<lparr>dIPID := ipID\<rparr>) (domains s)\<rparr>)"

text \<open>\<open>DeleteDomain\<close> runs its statements in order inside one transaction.\<close>

definition run_tx :: "(db \<Rightarrow> db) list \<Rightarrow> db \<Rightarrow> db" where
  "run_tx stmts s = foldl (\<lambda>s f. f s) s stmts"

definition DeleteDomain_stmts :: "int \<Rightarrow> (db \<Rightarrow> db) list" where
  "DeleteDomain_stmts i =
    [\<lambda>s. s\<lparr>domain_aliases := t_delete (\<lambda>a. alDomainID a = i) (domain_aliases s)\<rparr>,
     \<lambda>s. s\<lparr>dns_records := t_delete (\<lambda>r. t_exists (\<lambda>z. zDomainID z = i \<and> zID z = rZoneID r) (dns_zones s)) (dns_records s)\<rparr>,
     \<lambda>s. s\<lparr>dns_zones := t_delete (\<lambda>z. zDomainID z = i) (dns_zones s)\<rparr>,
     \<lambda>s. s\<lparr>ssl_orders := t_delete (\<lambda>ord. oDomainID ord = i) (ssl_orders s)\<rparr>,
     \<lambda>s. s\<lparr>containers := t_update (\<lambda>c. cDomainID c = i) (\<lambda>c. c\<lparr>cDomainID := 0, cWebPort := 0\<rparr>) (containers s)\<rparr>,
     \<lambda>s. s\<lparr>domains := t_update (\<lambda>d. dParentDomainID d = i) (\<lambda>d. d\<lparr>dParentDomainID := 0\<rparr>) (domains s)\<rparr>,
     \<lambda>s. s\<lparr>domains := t_delete (\<lambda>d. dID d = i) (domains s)\<rparr>]"

definition DeleteDomain :: "db \<Rightarrow> int \<Rightarrow> db res" where
  [store_defs]: "DeleteDomain s i = exec s (run_tx (DeleteDomain_stmts i) s)"

section \<open>Aliases\<close>

definition ListAliases :: "db \<Rightarrow> int \<Rightarrow> string list res" where
  [store_defs]: "ListAliases s i =
    query s (sort (map alAlias (t_select (\<lambda>a. alDomainID a = i) (domain_aliases s))))"

definition AddAlias :: "db \<Rightarrow> int \<Rightarrow> string \<Rightarrow> db res" where
  [store_defs]: "AddAlias s i alias = exec_unique s (t_exists (\<lambda>a. alAlias a = alias) (domain_aliases s))
     (s\<lparr>domain_aliases := t_insert (\<lambda>i. alID_update (\<lambda>_. i))
        \<lparr>alID = 0, alDomainID = i, alAlias = alias\<rparr> (domain_aliases s)\<rparr>)"

definition RemoveAlias :: "db \<Rightarrow> int \<Rightarrow> string \<Rightarrow> db res" where
  [store_defs]: "RemoveAlias s i alias = exec s (s\<lparr>domain_aliases :=
     t_delete (\<lambda>a. alDomainID a = i \<and> alAlias a = alias) (domain_aliases s)\<rparr>)"

section \<open>DNS zones\<close>

definition domain_name_of :: "db \<Rightarrow> int \<Rightarrow> string" where
  "domain_name_of s i = (case t_get dID i (domains s) of None \<Rightarrow> [] | Some d \<Rightarrow> dDomain d)"

definition read_synced :: "time_text option \<Rightarrow> gotime option" where
  "read_synced v = (case v of Some (Rfc t) \<Rightarrow> Some (parse_rfc3339 t) | _ \<Rightarrow> None)"

definition scanZone :: "db \<Rightarrow> ZoneRow \<Rightarrow> DNSZone" where
  "scanZone s z = ZoneBase.extend (ZoneBase.truncate z)
     (DNSZone.fields (domain_name_of s (zDomainID z)) (read_synced (zSyncedText z)))"

definition CreateZone :: "db \<Rightarrow> gotime \<Rightarrow> DNSZone \<Rightarrow> (DNSZone \<times> db) res" where
  [store_defs]: "CreateZone s tm z =
    (let row = \<lparr>zID = 0, zDomainID = zDomainID z, zProvider = zProvider z,
           zProviderZoneID = zProviderZoneID z, zCreatedAt = rfc3339 tm, zSyncedText = None\<rparr>
     in bindR (exec s (s\<lparr>dns_zones := t_insert (\<lambda>i. zID_update (\<lambda>_. i)) row (dns_zones s)\<rparr>))
          (\<lambda>s'. Inr (z\<lparr>zID := tseq (dns_zones s) + 1, zCreatedAt := rfc3339 tm\<rparr>, s')))"

definition GetZone :: "db \<Rightarrow> int \<Rightarrow> DNSZone res" where
  [store_defs]: "GetZone s i = query_row s (map_option (scanZone s) (t_get zID i (dns_zones s)))"

definition GetZoneByDomain :: "db \<Rightarrow> int \<Rightarrow> DNSZone res" where
  [store_defs]: "GetZoneByDomain s i =
    query_row s (map_option (scanZone s) (find (\<lambda>z. zDomainID z = i) (trows (dns_zones s))))"

definition ListZones :: "db \<Rightarrow> DNSZone list res" where
  [store_defs]: "ListZones s = query s (sort_key zDomain (map (scanZone s) (trows (dns_zones s))))"

definition UpdateZone :: "db \<Rightarrow> DNSZone \<Rightarrow> db res" where
  [store_defs]: "UpdateZone s z = exec s (s\<lparr>dns_zones := t_update (\<lambda>r. zID r = zID z)
     (\<lambda>r. r\<lparr>zProvider := zProvider z, zProviderZoneID := zProviderZoneID z,
        zSyncedText := map_option GoText (zSyncedAt z)\<rparr>) (dns_zones s)\<rparr>)"

definition SetZoneSynced :: "db \<Rightarrow> int \<Rightarrow> stamp \<Rightarrow> db res" where
  [store_defs]: "SetZoneSynced s i t = exec s (s\<lparr>dns_zones := t_update (\<lambda>r. zID r = i)
     (\<lambda>r. r\<lparr>zSyncedText := Some (Rfc t)\<rparr>) (dns_zones s)\<rparr>)"

section \<open>DNS records\<close>

definition ListRecords :: "db \<Rightarrow> int \<Rightarrow> DNSRecord list res" where
  [store_defs]: "ListRecords s zoneID = query s (sort_key (\<lambda>r. (rName r, rType r, rContent r))
     (t_select (\<lambda>r. rZoneID r = zoneID) (dns_records s)))"

definition GetRecord :: "db \<Rightarrow> int \<Rightarrow> DNSRecord res" where
  [store_defs]: "GetRecord s i = query_row s (t_get rID i (dns_records s))"

definition insert_record :: "gotime \<Rightarrow> DNSRecord \<Rightarrow> db \<Rightarrow> db" where
  "insert_record tm r s = s\<lparr>dns_records :=
     t_insert (\<lambda>i. rID_update (\<lambda>_. i)) (r\<lparr>rCreatedAt := rfc3339 tm\<rparr>) (dns_records s)\<rparr>"

definition CreateRecord :: "db \<Rightarrow> gotime \<Rightarrow> DNSRecord \<Rightarrow> (DNSRecord \<times> db) res" where
  [store_defs]: "CreateRecord s tm r = bindR (exec s (insert_record tm r s))
     (\<lambda>s'. Inr (r\<lparr>rID := tseq (dns_records s) + 1, rCreatedAt := rfc3339 tm\<rparr>, s'))"

definition UpdateRecord :: "db \<Rightarrow> DNSRecord \<Rightarrow> db res" where
  [store_defs]: "UpdateRecord s r = exec s (s\<lparr>dns_records := t_update (\<lambda>q. rID q = rID r)
     (\<lambda>q. q\<lparr>rName := rName r, rType := rType r, rTTL := rTTL r, rPriority := rPriority r,
        rContent := rContent r, rProxied := rProxied r\<rparr>) (dns_records s)\<rparr>)"

definition DeleteRecord :: "db \<Rightarrow> int \<Rightarrow> db res" where
  [store_defs]: "DeleteRecord s i =
    exec s (s\<lparr>dns_records := t_delete (\<lambda>r. rID r = i) (dns_records s)\<rparr>)"

text \<open>\<open>ReplaceRecords\<close> inserts every given record under \<open>zoneID\<close>, whatever zone it names.\<close>

definition ReplaceRecords :: "db \<Rightarrow> gotime \<Rightarrow> int \<Rightarrow> DNSRecord list \<Rightarrow> db res" where
  [store_defs]: "ReplaceRecords s tm zoneID rs = exec s (run_tx
     ((\<lambda>s. s\<lparr>dns_records := t_delete (\<lambda>r. rZoneID r = zoneID) (dns_records s)\<rparr>)
      # map (\<lambda>r. insert_record tm (r\<lparr>rZoneID := zoneID\<rparr>)) rs) s)"

definition normalizeName :: "string \<Rightarrow> string \<Rightarrow> string" where
  "normalizeName zoneDomain name =
    (let n = ToLower (TrimSuffix (TrimSpace name) ''.'') in
     if n = zoneDomain \<or> n = [] then ''@'' else TrimSuffix n (''.'' @ zoneDomain))"

section \<open>The IP pool\<close>

definition CreateIP :: "db \<Rightarrow> gotime \<Rightarrow> IP \<Rightarrow> (IP \<times> db) res" where
  [store_defs]: "CreateIP s tm ip =
    (let ip' = ip\<lparr>iID := tseq (ips s) + 1, iCreatedAt := rfc3339 tm\<rparr> in
     exec_unique s (t_exists (\<lambda>r. iAddress r = iAddress ip) (ips s))
       (ip', s\<lparr>ips := t_insert (\<lambda>i. iID_update (\<lambda>_. i)) ip' (ips s)\<rparr>))"

definition GetIP :: "db \<Rightarrow> int \<Rightarrow> IP res" where
  [store_defs]: "GetIP s i = query_row s (t_get iID i (ips s))"

definition ListIPs :: "db \<Rightarrow> IP list res" where
  [store_defs]: "ListIPs s = query s (sort_key iAddress (trows (ips s)))"

definition UpdateIP :: "db \<Rightarrow> IP \<Rightarrow> db res" where
  [store_defs]: "UpdateIP s ip = exec s (s\<lparr>ips := t_update (\<lambda>r. iID r = iID ip)
     (\<lambda>r. r\<lparr>iLabel := iLabel ip, iKind := iKind ip\<rparr>) (ips s)\<rparr>)"

definition DeleteIP :: "db \<Rightarrow> int \<Rightarrow> db res" where
  [store_defs]: "DeleteIP s i = exec s (s\<lparr>ips := t_delete (\<lambda>r. iID r = i) (ips s)\<rparr>)"

definition CountDomainsUsingIP :: "db \<Rightarrow> int \<Rightarrow> nat res" where
  [store_defs]: "CountDomainsUsingIP s i = query s (t_count (\<lambda>d. dIPID d = i) (domains s))"

definition DomainsUsingIP :: "db \<Rightarrow> int \<Rightarrow> Domain list res" where
  [store_defs]: "DomainsUsingIP s i = query s (sort_key dDomain (map (scanDomain s)
     (t_select (\<lambda>d. dIPID d = i) (domains s))))"

section \<open>Certificate orders\<close>

definition scanSSLOrder :: "db \<Rightarrow> OrderRow \<Rightarrow> SSLOrder" where
  "scanSSLOrder s r = OrderRow.extend r (SSLOrder.fields (domain_name_of s (oDomainID r)))"

definition CreateSSLOrder :: "db \<Rightarrow> gotime \<Rightarrow> SSLOrder \<Rightarrow> (SSLOrder \<times> db) res" where
  [store_defs]: "CreateSSLOrder s tm ord =
    (let ts = rfc3339 tm; row = (OrderRow.truncate ord)\<lparr>oCreatedAt := ts, oUpdatedAt := ts\<rparr> in
     exec_unique s (t_exists (\<lambda>r. oDomainID r = oDomainID ord) (ssl_orders s))
       (ord\<lparr>oID := tseq (ssl_orders s) + 1, oCreatedAt := ts, oUpdatedAt := ts\<rparr>,
        s\<lparr>ssl_orders := t_insert (\<lambda>i. oID_update (\<lambda>_. i)) row (ssl_orders s)\<rparr>))"

definition GetSSLOrder :: "db \<Rightarrow> int \<Rightarrow> SSLOrder res" where
  [store_defs]: "GetSSLOrder s i = query_row s (map_option (scanSSLOrder s) (t_get oID i (ssl_orders s)))"

definition GetSSLOrderByDomain :: "db \<Rightarrow> int \<Rightarrow> SSLOrder res" where
  [store_defs]: "GetSSLOrderByDomain s i =
    query_row s (map_option (scanSSLOrder s) (find (\<lambda>r. oDomainID r = i) (trows (ssl_orders s))))"

definition ListSSLOrders :: "db \<Rightarrow> int \<Rightarrow> SSLOrder list res" where
  [store_defs]: "ListSSLOrders s i = query s (map (scanSSLOrder s)
     (newest oID (- 1) (t_select (\<lambda>r. i > 0 \<longrightarrow> oDomainID r = i) (ssl_orders s))))"

definition UpdateSSLOrder :: "db \<Rightarrow> gotime \<Rightarrow> SSLOrder \<Rightarrow> db res" where
  [store_defs]: "UpdateSSLOrder s tm ord = exec s (s\<lparr>ssl_orders := t_update (\<lambda>r. oID r = oID ord)
     (\<lambda>r. r\<lparr>oStatus := oStatus ord, oProvider := oProvider ord, oChallenge := oChallenge ord,
        oCertPath := oCertPath ord, oKeyPath := oKeyPath ord, oExpiresAt := oExpiresAt ord,
        oError := oError ord, oUpdatedAt := rfc3339 tm\<rparr>) (ssl_orders s)\<rparr>)"

text \<open>\<open>AddDate(0, 0, days)\<close> in UTC adds whole days of 86400 seconds.\<close>

definition Renewables :: "db \<Rightarrow> gotime \<Rightarrow> int \<Rightarrow> SSLOrder list res" where
  [store_defs]: "Renewables s tm days =
    (let cutoff = rfc3339 (tm + hours (24 * days)) in
     query s (map (scanSSLOrder s) (t_select (\<lambda>r. oStatus r \<in> {''issued'', ''renewing''}
       \<and> (case oExpiresAt r of None \<Rightarrow> False | Some e \<Rightarrow> e < cutoff)) (ssl_orders s))))"

text \<open>
  \<open>dedupeSSLOrders\<close>: one row per domain survives, chosen by
  \<open>ORDER BY (status = 'issued') DESC, id DESC LIMIT 1\<close>.
\<close>

definition keep_order :: "int \<Rightarrow> OrderRow list \<Rightarrow> OrderRow option" where
  "keep_order i rs = (case sort_key (\<lambda>r. (if oStatus r = ''issued'' then 0 else 1 :: int, - oID r))
       (filter (\<lambda>r. oDomainID r = i) rs) of [] \<Rightarrow> None | r # _ \<Rightarrow> Some r)"

definition dedupe_domain :: "int \<Rightarrow> db \<Rightarrow> db" where
  "dedupe_domain i s = (case keep_order i (trows (ssl_orders s)) of None \<Rightarrow> s
     | Some k \<Rightarrow> s\<lparr>ssl_orders := t_delete (\<lambda>r. oDomainID r = i \<and> oID r \<noteq> oID k) (ssl_orders s)\<rparr>)"

definition dedupeSSLOrders :: "db \<Rightarrow> db res" where
  [store_defs]: "dedupeSSLOrders s =
    exec s (foldl (\<lambda>s i. dedupe_domain i s) s (remdups (map oDomainID (trows (ssl_orders s)))))"

section \<open>Migration\<close>

text \<open>
  \<open>migrate\<close> on a database that already has every table and column: seed the package \<open>starter\<close> if there is
  none (its error is ignored), then collapse duplicate certificate orders before the unique index is created.
  Columns the seeding statement leaves out take their defaults.
\<close>

definition starter_package :: "gotime \<Rightarrow> Package" where
  "starter_package tm = \<lparr>pID = 0, pName = ''starter'', pDescription = ''Default package: 1 domain, 1 database'',
     pMaxDomains = 1, pMaxDatabases = 1, pMaxFTPAccounts = 1, pDiskQuotaBytes = 0, pBandwidthQuotaBytes = 0,
     pAllowSSL = True, pAllowDNS = True, pAllowTerminal = True, pAllowBackups = True, pAllowMail = True,
     pAllowWebmail = True, pAllowDatabases = True, pAllowFiles = True, pAllowFTP = True, pAllowCron = True,
     pAllowDocker = False, pMaxContainers = 0, pIsDefault = True, pCreatedAt = rfc3339 tm\<rparr>"

definition migrate :: "db \<Rightarrow> gotime \<Rightarrow> db res" where
  "migrate s tm = (if db_down s then Inl ErrDB
     else dedupeSSLOrders (if trows (packages s) = []
       then s\<lparr>packages := t_insert (\<lambda>i. pID_update (\<lambda>_. i)) (starter_package tm) (packages s)\<rparr> else s))"

end
