(* ===== verification/Store_Services.thy ===== *)
theory Store_Services
  imports Store_Domains
begin

text \<open>
  The remaining tables of the store: FTP accounts, databases and DNS providers (\<^verbatim>\<open>store/services.go\<close>), the
  sealing of database passwords (\<^verbatim>\<open>store/secrets.go\<close>), mail (\<^verbatim>\<open>store/mail.go\<close>), cron jobs, containers, backup
  targets and package updates, and the account cascade \<open>DeleteUser\<close> of \<^verbatim>\<open>store/users.go\<close>.
\<close>

section \<open>FTP accounts\<close>

definition CreateFTPAccount :: "db \<Rightarrow> gotime \<Rightarrow> FTPAccount \<Rightarrow> (FTPAccount \<times> db) res" where
  [store_defs]: "CreateFTPAccount s tm f =
    (let f' = f\<lparr>fID := tseq (ftp_accounts s) + 1, fCreatedAt := rfc3339 tm\<rparr> in
     exec_unique s (t_exists (\<lambda>r. fUsername r = fUsername f) (ftp_accounts s))
       (f', s\<lparr>ftp_accounts := t_insert (\<lambda>i. fID_update (\<lambda>_. i)) f' (ftp_accounts s)\<rparr>))"

definition ListFTPAccounts :: "db \<Rightarrow> int \<Rightarrow> FTPAccount list res" where
  [store_defs]: "ListFTPAccounts s uid = query s (sort_key fUsername
     (t_select (\<lambda>f. uid > 0 \<longrightarrow> fUserID f = uid) (ftp_accounts s)))"

definition GetFTPAccount :: "db \<Rightarrow> int \<Rightarrow> FTPAccount res" where
  [store_defs]: "GetFTPAccount s i = query_row s (t_get fID i (ftp_accounts s))"

definition GetFTPAccountByUsername :: "db \<Rightarrow> string \<Rightarrow> FTPAccount res" where
  [store_defs]: "GetFTPAccountByUsername s name =
    query_row s (find (\<lambda>f. fUsername f = name) (trows (ftp_accounts s)))"

definition UpdateFTPAccount :: "db \<Rightarrow> FTPAccount \<Rightarrow> db res" where
  [store_defs]: "UpdateFTPAccount s f = exec s (s\<lparr>ftp_accounts := t_update (\<lambda>r. fID r = fID f)
     (\<lambda>r. r\<lparr>fPasswordHash := fPasswordHash f, fHomeDir := fHomeDir f, fEnabled := fEnabled f\<rparr>)
     (ftp_accounts s)\<rparr>)"

definition DeleteFTPAccount :: "db \<Rightarrow> int \<Rightarrow> db res" where
  [store_defs]: "DeleteFTPAccount s i =
    exec s (s\<lparr>ftp_accounts := t_delete (\<lambda>f. fID f = i) (ftp_accounts s)\<rparr>)"

section \<open>Secrets at rest\<close>

text \<open>
  The secret box (\<open>svc.Cipher\<close>, AES-256-GCM) is reached through an interface only; it is a parameter:
  two functions that may fail. \<open>None\<close> is a store without a box. \<open>Encrypt\<close> draws a nonce from the random
  source on every call: the nonce is its first argument, and the loop over many rows takes
  one nonce per row.
\<close>

record SecretBox =
  box_Encrypt :: "string \<Rightarrow> string \<Rightarrow> string option"
  box_Decrypt :: "string \<Rightarrow> string option"

definition encPrefix :: string where
  "encPrefix = ''enc:v1:''"

definition sealSecret :: "SecretBox option \<Rightarrow> string \<Rightarrow> string \<Rightarrow> string res" where
  "sealSecret box nonce plain =
    (case box of None \<Rightarrow> Inr plain
     | Some b \<Rightarrow> if plain = [] then Inr plain
         else (case box_Encrypt b nonce plain of None \<Rightarrow> Inl ErrSecretBox | Some enc \<Rightarrow> Inr (encPrefix @ enc)))"

definition openSecret :: "SecretBox option \<Rightarrow> string \<Rightarrow> string res" where
  "openSecret box stored =
    (if \<not> HasPrefix stored encPrefix then Inr stored
     else case box of None \<Rightarrow> Inl ErrSecretBox
       | Some b \<Rightarrow> (case box_Decrypt b (TrimPrefix stored encPrefix) of
            None \<Rightarrow> Inl ErrSecretBox | Some plain \<Rightarrow> Inr plain))"

definition legacy_secret :: "Database \<Rightarrow> bool" where
  "legacy_secret d \<longleftrightarrow> bDBPassword d \<noteq> [] \<and> take (length encPrefix) (bDBPassword d) \<noteq> encPrefix"

text \<open>The loop of \<open>EncryptLegacySecrets\<close>: the first sealing error aborts the transaction.\<close>

fun seal_rows :: "SecretBox option \<Rightarrow> (int \<Rightarrow> string) \<Rightarrow> Database list \<Rightarrow> db \<Rightarrow> db res" where
  "seal_rows box nonces [] s = Inr s"
| "seal_rows box nonces (p # ps) s = bindR (sealSecret box (nonces (bID p)) (bDBPassword p)) (\<lambda>enc.
     seal_rows box nonces ps (s\<lparr>databases := t_update (\<lambda>d. bID d = bID p)
       (\<lambda>d. d\<lparr>bDBPassword := enc\<rparr>) (databases s)\<rparr>))"

definition EncryptLegacySecrets :: "SecretBox option \<Rightarrow> (int \<Rightarrow> string) \<Rightarrow> db \<Rightarrow> (nat \<times> db) res" where
  "EncryptLegacySecrets box nonces s =
    (if box = None then Inl ErrSecretBox
     else bindR (query s (t_select legacy_secret (databases s))) (\<lambda>todo.
       if todo = [] then Inr (0, s)
       else bindR (seal_rows box nonces todo s) (\<lambda>s'. Inr (length todo, s'))))"

section \<open>Databases\<close>

definition scanDatabase :: "SecretBox option \<Rightarrow> Database \<Rightarrow> Database res" where
  "scanDatabase box d = bindR (openSecret box (bDBPassword d)) (\<lambda>plain. Inr (d\<lparr>bDBPassword := plain\<rparr>))"

definition CreateDatabase :: "SecretBox option \<Rightarrow> string \<Rightarrow> db \<Rightarrow> gotime \<Rightarrow> Database \<Rightarrow> (Database \<times> db) res" where
  [store_defs]: "CreateDatabase box nonce s tm d = bindR (sealSecret box nonce (bDBPassword d)) (\<lambda>sealed.
     (let d' = d\<lparr>bID := tseq (databases s) + 1, bCreatedAt := rfc3339 tm\<rparr> in
      exec_unique s (t_exists (\<lambda>r. bServer r = bServer d \<and> bName r = bName d) (databases s))
        (d', s\<lparr>databases := t_insert (\<lambda>i. bID_update (\<lambda>_. i)) (d'\<lparr>bDBPassword := sealed\<rparr>) (databases s)\<rparr>)))"

fun scan_all :: "('r \<Rightarrow> 'a res) \<Rightarrow> 'r list \<Rightarrow> 'a list res" where
  "scan_all f [] = Inr []"
| "scan_all f (r # rs) = bindR (f r) (\<lambda>x. bindR (scan_all f rs) (\<lambda>xs. Inr (x # xs)))"

definition ListDatabases :: "SecretBox option \<Rightarrow> db \<Rightarrow> int \<Rightarrow> Database list res" where
  [store_defs]: "ListDatabases box s uid =
    bindR (query s (sort_key (\<lambda>d. (bServer d, bName d))
      (t_select (\<lambda>d. uid > 0 \<longrightarrow> bUserID d = uid) (databases s)))) (scan_all (scanDatabase box))"

definition GetDatabase :: "SecretBox option \<Rightarrow> db \<Rightarrow> int \<Rightarrow> Database res" where
  [store_defs]: "GetDatabase box s i = bindR (query_row s (t_get bID i (databases s))) (scanDatabase box)"

definition DeleteDatabaseRow :: "db \<Rightarrow> int \<Rightarrow> db res" where
  [store_defs]: "DeleteDatabaseRow s i =
    exec s (s\<lparr>databases := t_delete (\<lambda>d. bID d = i) (databases s)\<rparr>)"

section \<open>DNS providers\<close>

definition CreateProvider :: "db \<Rightarrow> gotime \<Rightarrow> Provider \<Rightarrow> (Provider \<times> db) res" where
  [store_defs]: "CreateProvider s tm p =
    (let p' = p\<lparr>vID := tseq (dns_providers s) + 1, vCreatedAt := rfc3339 tm\<rparr> in
     exec_unique s (t_exists (\<lambda>r. vName r = vName p) (dns_providers s))
       (p', s\<lparr>dns_providers := t_insert (\<lambda>i. vID_update (\<lambda>_. i)) p' (dns_providers s)\<rparr>))"

definition ListProviders :: "db \<Rightarrow> Provider list res" where
  [store_defs]: "ListProviders s = query s (sort_key vName (trows (dns_providers s)))"

definition GetProvider :: "db \<Rightarrow> int \<Rightarrow> Provider res" where
  [store_defs]: "GetProvider s i = query_row s (t_get vID i (dns_providers s))"

definition UpdateProvider :: "db \<Rightarrow> Provider \<Rightarrow> db res" where
  [store_defs]: "UpdateProvider s p = exec s (s\<lparr>dns_providers := t_update (\<lambda>r. vID r = vID p)
     (\<lambda>r. r\<lparr>vLabel := vLabel p, vAPIKeyEnc := vAPIKeyEnc p, vEmail := vEmail p,
        vConfig := vConfig p, vEnabled := vEnabled p\<rparr>) (dns_providers s)\<rparr>)"

definition DeleteProvider :: "db \<Rightarrow> int \<Rightarrow> db res" where
  [store_defs]: "DeleteProvider s i =
    exec s (s\<lparr>dns_providers := t_delete (\<lambda>r. vID r = i) (dns_providers s)\<rparr>)"

section \<open>Mail\<close>

definition CreateMailDomain :: "db \<Rightarrow> gotime \<Rightarrow> MailDomain \<Rightarrow> (MailDomain \<times> db) res" where
  [store_defs]: "CreateMailDomain s tm d =
    (let d' = d\<lparr>mdID := tseq (mail_domains s) + 1, mdCreatedAt := rfc3339 tm\<rparr> in
     exec_unique s (t_exists (\<lambda>r. mdDomain r = mdDomain d) (mail_domains s))
       (d', s\<lparr>mail_domains := t_insert (\<lambda>i. mdID_update (\<lambda>_. i)) d' (mail_domains s)\<rparr>))"

definition ListMailDomains :: "db \<Rightarrow> MailDomain list res" where
  [store_defs]: "ListMailDomains s = query s (sort_key mdDomain (trows (mail_domains s)))"

definition GetMailDomain :: "db \<Rightarrow> int \<Rightarrow> MailDomain res" where
  [store_defs]: "GetMailDomain s i = query_row s (t_get mdID i (mail_domains s))"

definition GetMailDomainByDomainID :: "db \<Rightarrow> int \<Rightarrow> MailDomain res" where
  [store_defs]: "GetMailDomainByDomainID s i =
    query_row s (find (\<lambda>d. mdDomainID d = i) (trows (mail_domains s)))"

definition DeleteMailDomain :: "db \<Rightarrow> int \<Rightarrow> db res" where
  [store_defs]: "DeleteMailDomain s i =
    exec s (s\<lparr>mail_domains := t_delete (\<lambda>d. mdID d = i) (mail_domains s)\<rparr>)"

text \<open>An inner join: a mailbox or alias whose mail domain is gone does not show up.\<close>

definition scanMailbox :: "db \<Rightarrow> MailboxRow \<Rightarrow> Mailbox option" where
  "scanMailbox s m = map_option (\<lambda>d. MailboxRow.extend m (Mailbox.fields (mdDomain d)))
     (t_get mdID (mbMailDomainID m) (mail_domains s))"

definition CreateMailbox :: "db \<Rightarrow> gotime \<Rightarrow> Mailbox \<Rightarrow> (Mailbox \<times> db) res" where
  [store_defs]: "CreateMailbox s tm m =
    (let m' = m\<lparr>mbID := tseq (mailboxes s) + 1, mbCreatedAt := rfc3339 tm\<rparr> in
     exec_unique s (t_exists (\<lambda>r. mbMailDomainID r = mbMailDomainID m \<and> mbLocalpart r = mbLocalpart m) (mailboxes s))
       (m', s\<lparr>mailboxes := t_insert (\<lambda>i. mbID_update (\<lambda>_. i)) (MailboxRow.truncate m') (mailboxes s)\<rparr>))"

definition ListMailboxes :: "db \<Rightarrow> int \<Rightarrow> Mailbox list res" where
  [store_defs]: "ListMailboxes s i = query s (sort_key (\<lambda>m. (mbDomain m, mbLocalpart m))
     (List.map_filter (scanMailbox s) (t_select (\<lambda>m. i > 0 \<longrightarrow> mbMailDomainID m = i) (mailboxes s))))"

definition GetMailbox :: "db \<Rightarrow> int \<Rightarrow> Mailbox res" where
  [store_defs]: "GetMailbox s i =
    query_row s (Option.bind (t_get mbID i (mailboxes s)) (scanMailbox s))"

definition GetMailboxByAddress :: "db \<Rightarrow> string \<Rightarrow> string \<Rightarrow> Mailbox res" where
  [store_defs]: "GetMailboxByAddress s domain localpart = query_row s
     (find (\<lambda>m. mbDomain m = domain \<and> mbLocalpart m = localpart)
       (List.map_filter (scanMailbox s) (trows (mailboxes s))))"

definition UpdateMailbox :: "db \<Rightarrow> Mailbox \<Rightarrow> db res" where
  [store_defs]: "UpdateMailbox s m = exec s (s\<lparr>mailboxes := t_update (\<lambda>r. mbID r = mbID m)
     (\<lambda>r. r\<lparr>mbPasswordHash := mbPasswordHash m, mbQuotaBytes := mbQuotaBytes m,
        mbEnabled := mbEnabled m\<rparr>) (mailboxes s)\<rparr>)"

definition DeleteMailbox :: "db \<Rightarrow> int \<Rightarrow> db res" where
  [store_defs]: "DeleteMailbox s i = exec s (s\<lparr>mailboxes := t_delete (\<lambda>m. mbID m = i) (mailboxes s)\<rparr>)"

definition scanMailAlias :: "db \<Rightarrow> MailAliasRow \<Rightarrow> MailAlias option" where
  "scanMailAlias s a = map_option (\<lambda>d. MailAliasRow.extend a (MailAlias.fields (mdDomain d)))
     (t_get mdID (maMailDomainID a) (mail_domains s))"

definition CreateMailAlias :: "db \<Rightarrow> gotime \<Rightarrow> MailAlias \<Rightarrow> (MailAlias \<times> db) res" where
  [store_defs]: "CreateMailAlias s tm a =
    (let a' = a\<lparr>maID := tseq (mail_aliases s) + 1, maCreatedAt := rfc3339 tm\<rparr> in
     exec_unique s (t_exists (\<lambda>r. maMailDomainID r = maMailDomainID a \<and> maSource r = maSource a) (mail_aliases s))
       (a', s\<lparr>mail_aliases := t_insert (\<lambda>i. maID_update (\<lambda>_. i)) (MailAliasRow.truncate a') (mail_aliases s)\<rparr>))"

definition ListMailAliases :: "db \<Rightarrow> int \<Rightarrow> MailAlias list res" where
  [store_defs]: "ListMailAliases s i = query s (sort_key (\<lambda>a. (maDomain a, maSource a))
     (List.map_filter (scanMailAlias s) (t_select (\<lambda>a. i > 0 \<longrightarrow> maMailDomainID a = i) (mail_aliases s))))"

definition GetMailAlias :: "db \<Rightarrow> int \<Rightarrow> MailAlias res" where
  [store_defs]: "GetMailAlias s i =
    query_row s (Option.bind (t_get maID i (mail_aliases s)) (scanMailAlias s))"

definition DeleteMailAlias :: "db \<Rightarrow> int \<Rightarrow> db res" where
  [store_defs]: "DeleteMailAlias s i =
    exec s (s\<lparr>mail_aliases := t_delete (\<lambda>a. maID a = i) (mail_aliases s)\<rparr>)"

section \<open>Cron jobs\<close>

definition CreateCronJob :: "db \<Rightarrow> gotime \<Rightarrow> CronJob \<Rightarrow> (CronJob \<times> db) res" where
  [store_defs]: "CreateCronJob s tm j =
    (let j' = j\<lparr>jID := tseq (cron_jobs s) + 1, jCreatedAt := rfc3339 tm\<rparr> in
     bindR (exec s (s\<lparr>cron_jobs := t_insert (\<lambda>i. jID_update (\<lambda>_. i)) j' (cron_jobs s)\<rparr>))
       (\<lambda>s'. Inr (j', s')))"

definition ListCronJobs :: "db \<Rightarrow> int \<Rightarrow> CronJob list res" where
  [store_defs]: "ListCronJobs s uid =
    query s (sort_key jID (t_select (\<lambda>j. uid > 0 \<longrightarrow> jUserID j = uid) (cron_jobs s)))"

definition GetCronJob :: "db \<Rightarrow> int \<Rightarrow> CronJob res" where
  [store_defs]: "GetCronJob s i = query_row s (t_get jID i (cron_jobs s))"

definition UpdateCronJob :: "db \<Rightarrow> CronJob \<Rightarrow> db res" where
  [store_defs]: "UpdateCronJob s j = exec s (s\<lparr>cron_jobs := t_update (\<lambda>r. jID r = jID j)
     (\<lambda>r. r\<lparr>jSchedule := jSchedule j, jCommand := jCommand j, jLogPath := jLogPath j,
        jEnabled := jEnabled j\<rparr>) (cron_jobs s)\<rparr>)"

definition DeleteCronJob :: "db \<Rightarrow> int \<Rightarrow> db res" where
  [store_defs]: "DeleteCronJob s i = exec s (s\<lparr>cron_jobs := t_delete (\<lambda>j. jID j = i) (cron_jobs s)\<rparr>)"

section \<open>Containers\<close>

definition CreateContainer :: "db \<Rightarrow> gotime \<Rightarrow> Container \<Rightarrow> (Container \<times> db) res" where
  [store_defs]: "CreateContainer s tm c =
    (let c' = c\<lparr>cID := tseq (containers s) + 1, cCreatedAt := rfc3339 tm\<rparr> in
     exec_unique s (t_exists (\<lambda>r. cUserID r = cUserID c \<and> cName r = cName c) (containers s))
       (c', s\<lparr>containers := t_insert (\<lambda>i. cID_update (\<lambda>_. i)) c' (containers s)\<rparr>))"

definition GetContainer :: "db \<Rightarrow> int \<Rightarrow> Container res" where
  [store_defs]: "GetContainer s i = query_row s (t_get cID i (containers s))"

definition ListContainers :: "db \<Rightarrow> int \<Rightarrow> Container list res" where
  [store_defs]: "ListContainers s uid =
    query s (sort_key cID (t_select (\<lambda>c. uid > 0 \<longrightarrow> cUserID c = uid) (containers s)))"

definition CountContainers :: "db \<Rightarrow> int \<Rightarrow> nat res" where
  [store_defs]: "CountContainers s uid = query s (t_count (\<lambda>c. cUserID c = uid) (containers s))"

definition SetContainerAttachment :: "db \<Rightarrow> int \<Rightarrow> int \<Rightarrow> int \<Rightarrow> db res" where
  [store_defs]: "SetContainerAttachment s i domainID webPort = exec s (s\<lparr>containers :=
     t_update (\<lambda>c. cID c = i) (\<lambda>c. c\<lparr>cDomainID := domainID, cWebPort := webPort\<rparr>) (containers s)\<rparr>)"

definition DeleteContainer :: "db \<Rightarrow> int \<Rightarrow> db res" where
  [store_defs]: "DeleteContainer s i =
    exec s (s\<lparr>containers := t_delete (\<lambda>c. cID c = i) (containers s)\<rparr>)"

section \<open>Backup targets and package updates\<close>

definition CreateBackupTarget :: "db \<Rightarrow> gotime \<Rightarrow> BackupTarget \<Rightarrow> (BackupTarget \<times> db) res" where
  [store_defs]: "CreateBackupTarget s tm t =
    (let t' = t\<lparr>tID := tseq (backup_targets s) + 1, tCreatedAt := rfc3339 tm\<rparr> in
     bindR (exec s (s\<lparr>backup_targets := t_insert (\<lambda>i. tID_update (\<lambda>_. i)) t' (backup_targets s)\<rparr>))
       (\<lambda>s'. Inr (t', s')))"

definition ListBackupTargets :: "db \<Rightarrow> BackupTarget list res" where
  [store_defs]: "ListBackupTargets s = query s (sort_key tID (trows (backup_targets s)))"

definition GetBackupTarget :: "db \<Rightarrow> int \<Rightarrow> BackupTarget res" where
  [store_defs]: "GetBackupTarget s i = query_row s (t_get tID i (backup_targets s))"

definition UpdateBackupTarget :: "db \<Rightarrow> BackupTarget \<Rightarrow> db res" where
  [store_defs]: "UpdateBackupTarget s t = exec s (s\<lparr>backup_targets := t_update (\<lambda>r. tID r = tID t)
     (\<lambda>r. r\<lparr>tLabel := tLabel t, tConfigEnc := tConfigEnc t, tRetentionDays := tRetentionDays t,
        tEnabled := tEnabled t\<rparr>) (backup_targets s)\<rparr>)"

definition DeleteBackupTarget :: "db \<Rightarrow> int \<Rightarrow> db res" where
  [store_defs]: "DeleteBackupTarget s i =
    exec s (s\<lparr>backup_targets := t_delete (\<lambda>t. tID t = i) (backup_targets s)\<rparr>)"

definition insert_update :: "gotime \<Rightarrow> PackageUpdate \<Rightarrow> db \<Rightarrow> db" where
  "insert_update tm u s = s\<lparr>system_package_updates := t_insert (\<lambda>i. xID_update (\<lambda>_. i))
     (u\<lparr>xCheckedAt := rfc3339 tm\<rparr>) (system_package_updates s)\<rparr>"

definition ReplacePackageUpdates :: "db \<Rightarrow> gotime \<Rightarrow> PackageUpdate list \<Rightarrow> db res" where
  [store_defs]: "ReplacePackageUpdates s tm us = exec s (run_tx
     ((\<lambda>s. s\<lparr>system_package_updates := t_delete (\<lambda>_. True) (system_package_updates s)\<rparr>)
      # map (insert_update tm) us) s)"

definition ListPackageUpdates :: "db \<Rightarrow> PackageUpdate list res" where
  [store_defs]: "ListPackageUpdates s = query s
     (sort_key (\<lambda>u. (if xSecurity u then 0 else 1 :: int, xName u)) (trows (system_package_updates s)))"

section \<open>Deleting an account\<close>

text \<open>The sub-selects of \<open>DeleteUser\<close>, evaluated on the rows still there when the statement runs.\<close>

definition user_domain :: "int \<Rightarrow> db \<Rightarrow> int \<Rightarrow> bool" where
  "user_domain uid s i \<longleftrightarrow> t_exists (\<lambda>d. dUserID d = uid \<and> dID d = i) (domains s)"

definition user_mail_domain :: "int \<Rightarrow> db \<Rightarrow> int \<Rightarrow> bool" where
  "user_mail_domain uid s i \<longleftrightarrow>
     t_exists (\<lambda>m. user_domain uid s (mdDomainID m) \<and> mdID m = i) (mail_domains s)"

definition user_zone :: "int \<Rightarrow> db \<Rightarrow> int \<Rightarrow> bool" where
  "user_zone uid s i \<longleftrightarrow> t_exists (\<lambda>z. user_domain uid s (zDomainID z) \<and> zID z = i) (dns_zones s)"

definition DeleteUser_stmts :: "int \<Rightarrow> (db \<Rightarrow> db) list" where
  "DeleteUser_stmts uid =
    [\<lambda>s. s\<lparr>mailboxes := t_delete (\<lambda>m. user_mail_domain uid s (mbMailDomainID m)) (mailboxes s)\<rparr>,
     \<lambda>s. s\<lparr>mail_aliases := t_delete (\<lambda>a. user_mail_domain uid s (maMailDomainID a)) (mail_aliases s)\<rparr>,
     \<lambda>s. s\<lparr>mail_domains := t_delete (\<lambda>m. user_domain uid s (mdDomainID m)) (mail_domains s)\<rparr>,
     \<lambda>s. s\<lparr>domain_aliases := t_delete (\<lambda>a. user_domain uid s (alDomainID a)) (domain_aliases s)\<rparr>,
     \<lambda>s. s\<lparr>dns_records := t_delete (\<lambda>r. user_zone uid s (rZoneID r)) (dns_records s)\<rparr>,
     \<lambda>s. s\<lparr>dns_zones := t_delete (\<lambda>z. user_domain uid s (zDomainID z)) (dns_zones s)\<rparr>,
     \<lambda>s. s\<lparr>ssl_orders := t_delete (\<lambda>ord. user_domain uid s (oDomainID ord)) (ssl_orders s)\<rparr>,
     \<lambda>s. s\<lparr>containers := t_delete (\<lambda>c. cUserID c = uid) (containers s)\<rparr>,
     \<lambda>s. s\<lparr>cron_jobs := t_delete (\<lambda>j. jUserID j = uid) (cron_jobs s)\<rparr>,
     \<lambda>s. s\<lparr>api_tokens := t_delete (\<lambda>k. kUserID k = uid) (api_tokens s)\<rparr>,
     \<lambda>s. s\<lparr>totp_challenges := filter (\<lambda>r. sUserID r \<noteq> uid) (totp_challenges s)\<rparr>,
     \<lambda>s. s\<lparr>suspension_actions := filter (\<lambda>a. saUserID a \<noteq> uid) (suspension_actions s)\<rparr>,
     \<lambda>s. s\<lparr>domains := t_delete (\<lambda>d. dUserID d = uid) (domains s)\<rparr>,
     \<lambda>s. s\<lparr>ftp_accounts := t_delete (\<lambda>f. fUserID f = uid) (ftp_accounts s)\<rparr>,
     \<lambda>s. s\<lparr>databases := t_delete (\<lambda>d. bUserID d = uid) (databases s)\<rparr>,
     \<lambda>s. s\<lparr>sessions := filter (\<lambda>r. sUserID r \<noteq> uid) (sessions s)\<rparr>,
     \<lambda>s. s\<lparr>users := t_delete (\<lambda>u. uID u = uid) (users s)\<rparr>]"

definition DeleteUser :: "db \<Rightarrow> int \<Rightarrow> db res" where
  [store_defs]: "DeleteUser s uid = exec s (run_tx (DeleteUser_stmts uid) s)"

end
