(* ===== verification/Store_Laws.thy ===== *)
theory Store_Laws
  imports Store_Services
begin

text \<open>
  Laws of the store as a whole: the constraints of the schema (\<open>schema_ok\<close>: keys are ascending and never
  reused, every \<open>UNIQUE\<close> column or index holds) are an invariant of every sequence of store calls
  (\<open>store_step\<close>, \<open>store_reach\<close>), and the cascades \<open>DeleteUser\<close> and \<open>DeleteDomain\<close> keep the references
  between tables intact as far as the code does.
\<close>

named_theorems schema_intros \<open>\<open>schema_ok\<close> after an update of one table\<close>

definition schema_ok :: "db \<Rightarrow> bool" where
  "schema_ok s \<longleftrightarrow>
     (table_wf pID (packages s) \<and> unique_on pName (packages s)) \<and>
     (table_wf uID (users s) \<and> unique_on uUsername (users s)) \<and>
     (table_wf dID (domains s) \<and> unique_on dDomain (domains s)) \<and>
     (table_wf alID (domain_aliases s) \<and> unique_on alAlias (domain_aliases s)) \<and>
     table_wf zID (dns_zones s) \<and> table_wf rID (dns_records s) \<and>
     (table_wf oID (ssl_orders s) \<and> unique_on oDomainID (ssl_orders s)) \<and>
     (table_wf fID (ftp_accounts s) \<and> unique_on fUsername (ftp_accounts s)) \<and>
     (table_wf bID (databases s) \<and> unique_on (\<lambda>d. (bServer d, bName d)) (databases s)) \<and>
     (table_wf vID (dns_providers s) \<and> unique_on vName (dns_providers s)) \<and>
     table_wf aID (audit_log s) \<and> distinct (map sID (sessions s)) \<and>
     distinct (map sID (totp_challenges s)) \<and> distinct (map fst (settings s)) \<and>
     table_wf tID (backup_targets s) \<and> table_wf lID (login_attempts s) \<and>
     table_wf kID (api_tokens s) \<and>
     (table_wf mdID (mail_domains s) \<and> unique_on mdDomain (mail_domains s)) \<and>
     (table_wf mbID (mailboxes s) \<and> unique_on (\<lambda>m. (mbMailDomainID m, mbLocalpart m)) (mailboxes s)) \<and>
     (table_wf maID (mail_aliases s) \<and> unique_on (\<lambda>a. (maMailDomainID a, maSource a)) (mail_aliases s)) \<and>
     table_wf jID (cron_jobs s) \<and> distinct (suspension_actions s) \<and>
     table_wf xID (system_package_updates s) \<and>
     (table_wf cID (containers s) \<and> unique_on (\<lambda>c. (cUserID c, cName c)) (containers s)) \<and>
     (table_wf iID (ips s) \<and> unique_on iAddress (ips s))"

lemma schema_ok_empty: "schema_ok db_empty"
  by (simp add: schema_ok_def db_empty_def)

lemma schema_okD:
  assumes "schema_ok s"
  shows "table_wf pID (packages s)" "unique_on pName (packages s)"
    "table_wf uID (users s)" "unique_on uUsername (users s)"
    "table_wf dID (domains s)" "unique_on dDomain (domains s)"
    "table_wf alID (domain_aliases s)" "unique_on alAlias (domain_aliases s)"
    "table_wf zID (dns_zones s)" "table_wf rID (dns_records s)"
    "table_wf oID (ssl_orders s)" "unique_on oDomainID (ssl_orders s)"
    "table_wf fID (ftp_accounts s)" "unique_on fUsername (ftp_accounts s)"
    "table_wf bID (databases s)" "unique_on (\<lambda>d. (bServer d, bName d)) (databases s)"
    "table_wf vID (dns_providers s)" "unique_on vName (dns_providers s)"
    "table_wf aID (audit_log s)" "distinct (map sID (sessions s))"
    "distinct (map sID (totp_challenges s))" "distinct (map fst (settings s))"
    "table_wf tID (backup_targets s)" "table_wf lID (login_attempts s)"
    "table_wf kID (api_tokens s)" "table_wf mdID (mail_domains s)" "unique_on mdDomain (mail_domains s)"
    "table_wf mbID (mailboxes s)" "unique_on (\<lambda>m. (mbMailDomainID m, mbLocalpart m)) (mailboxes s)"
    "table_wf maID (mail_aliases s)" "unique_on (\<lambda>a. (maMailDomainID a, maSource a)) (mail_aliases s)"
    "table_wf jID (cron_jobs s)" "distinct (suspension_actions s)"
    "table_wf xID (system_package_updates s)" "table_wf cID (containers s)"
    "unique_on (\<lambda>c. (cUserID c, cName c)) (containers s)"
    "table_wf iID (ips s)" "unique_on iAddress (ips s)"
  using assms unfolding schema_ok_def by blast+

lemma schema_upd [schema_intros]:
  assumes "schema_ok s"
  shows "table_wf pID t1 \<Longrightarrow> unique_on pName t1 \<Longrightarrow> schema_ok (s\<lparr>packages := t1\<rparr>)"
    "table_wf uID t2 \<Longrightarrow> unique_on uUsername t2 \<Longrightarrow> schema_ok (s\<lparr>users := t2\<rparr>)"
    "table_wf dID t3 \<Longrightarrow> unique_on dDomain t3 \<Longrightarrow> schema_ok (s\<lparr>domains := t3\<rparr>)"
    "table_wf alID t4 \<Longrightarrow> unique_on alAlias t4 \<Longrightarrow> schema_ok (s\<lparr>domain_aliases := t4\<rparr>)"
    "table_wf zID t5 \<Longrightarrow> schema_ok (s\<lparr>dns_zones := t5\<rparr>)"
    "table_wf rID t6 \<Longrightarrow> schema_ok (s\<lparr>dns_records := t6\<rparr>)"
    "table_wf oID t7 \<Longrightarrow> unique_on oDomainID t7 \<Longrightarrow> schema_ok (s\<lparr>ssl_orders := t7\<rparr>)"
    "table_wf fID t8 \<Longrightarrow> unique_on fUsername t8 \<Longrightarrow> schema_ok (s\<lparr>ftp_accounts := t8\<rparr>)"
    "table_wf bID t9 \<Longrightarrow> unique_on (\<lambda>d. (bServer d, bName d)) t9 \<Longrightarrow> schema_ok (s\<lparr>databases := t9\<rparr>)"
    "table_wf vID t10 \<Longrightarrow> unique_on vName t10 \<Longrightarrow> schema_ok (s\<lparr>dns_providers := t10\<rparr>)"
    "table_wf aID t11 \<Longrightarrow> schema_ok (s\<lparr>audit_log := t11\<rparr>)"
    "distinct (map sID l1) \<Longrightarrow> schema_ok (s\<lparr>sessions := l1\<rparr>)"
    "distinct (map sID l2) \<Longrightarrow> schema_ok (s\<lparr>totp_challenges := l2\<rparr>)"
    "distinct (map fst l3) \<Longrightarrow> schema_ok (s\<lparr>settings := l3\<rparr>)"
    "table_wf tID t12 \<Longrightarrow> schema_ok (s\<lparr>backup_targets := t12\<rparr>)"
    "table_wf lID t13 \<Longrightarrow> schema_ok (s\<lparr>login_attempts := t13\<rparr>)"
    "table_wf kID t14 \<Longrightarrow> schema_ok (s\<lparr>api_tokens := t14\<rparr>)"
    "table_wf mdID t15 \<Longrightarrow> unique_on mdDomain t15 \<Longrightarrow> schema_ok (s\<lparr>mail_domains := t15\<rparr>)"
    "table_wf mbID t16 \<Longrightarrow> unique_on (\<lambda>m. (mbMailDomainID m, mbLocalpart m)) t16 \<Longrightarrow> schema_ok (s\<lparr>mailboxes := t16\<rparr>)"
    "table_wf maID t17 \<Longrightarrow> unique_on (\<lambda>a. (maMailDomainID a, maSource a)) t17 \<Longrightarrow> schema_ok (s\<lparr>mail_aliases := t17\<rparr>)"
    "table_wf jID t18 \<Longrightarrow> schema_ok (s\<lparr>cron_jobs := t18\<rparr>)"
    "distinct l4 \<Longrightarrow> schema_ok (s\<lparr>suspension_actions := l4\<rparr>)"
    "table_wf xID t19 \<Longrightarrow> schema_ok (s\<lparr>system_package_updates := t19\<rparr>)"
    "table_wf cID t20 \<Longrightarrow> unique_on (\<lambda>c. (cUserID c, cName c)) t20 \<Longrightarrow> schema_ok (s\<lparr>containers := t20\<rparr>)"
    "table_wf iID t21 \<Longrightarrow> unique_on iAddress t21 \<Longrightarrow> schema_ok (s\<lparr>ips := t21\<rparr>)"
  using assms by (simp_all add: schema_ok_def)

lemmas insert_wfs = tb_packages.insert_wf tb_users.insert_wf tb_domains.insert_wf tb_aliases.insert_wf
  tb_zones.insert_wf tb_records.insert_wf tb_orders.insert_wf tb_ftp.insert_wf tb_databases.insert_wf
  tb_providers.insert_wf tb_audit.insert_wf tb_targets.insert_wf tb_attempts.insert_wf tb_tokens.insert_wf
  tb_maildomains.insert_wf tb_mailboxes.insert_wf tb_mailaliases.insert_wf tb_cron.insert_wf
  tb_updates.insert_wf tb_containers.insert_wf tb_ips.insert_wf

lemma unique_on_update_one:
  assumes "table_wf rid t" "unique_on col t" "\<And>r. col (f r) = k"
    and "\<not> (t_exists (\<lambda>r. rid r = i) t \<and> t_exists (\<lambda>r. rid r \<noteq> i \<and> col r = k) t)"
  shows "unique_on col (t_update (\<lambda>r. rid r = i) f t)"
proof -
  let ?h = "\<lambda>r. if rid r = i then f r else r"
  have "distinct (trows t)" using assms(2) by (simp add: unique_on_def distinct_map)
  moreover have "inj_on (col \<circ> ?h) (set (trows t))"
  proof (rule inj_onI)
    fix x y assume xy: "x \<in> set (trows t)" "y \<in> set (trows t)" "(col \<circ> ?h) x = (col \<circ> ?h) y"
    then show "x = y"
      using assms table_wf_unique [OF assms(1)]
      by (cases "rid x = i"; cases "rid y = i") (auto simp: t_exists_iff dest: unique_onD)
  qed
  ultimately show ?thesis by (simp add: unique_on_def distinct_map comp_def)
qed

text \<open>The store methods that write, one rule each.\<close>

inductive store_step :: "db \<Rightarrow> db \<Rightarrow> bool" where
  st_CreateUser: "CreateUser s tm u = Inr (u', s') \<Longrightarrow> store_step s s'"
| st_UpdateUser: "UpdateUser s tm u = Inr s' \<Longrightarrow> store_step s s'"
| st_SetUserPassword: "SetUserPassword s tm i h = Inr s' \<Longrightarrow> store_step s s'"
| st_SetUserStatus: "SetUserStatus s tm i st = Inr s' \<Longrightarrow> store_step s s'"
| st_SetTOTPSecret: "SetTOTPSecret s tm i h = Inr s' \<Longrightarrow> store_step s s'"
| st_EnableTOTP: "EnableTOTP s tm i c = Inr s' \<Longrightarrow> store_step s s'"
| st_SetTOTPBackupCodes: "SetTOTPBackupCodes s tm i c = Inr s' \<Longrightarrow> store_step s s'"
| st_DisableTOTP: "store_DisableTOTP s tm i = Inr s' \<Longrightarrow> store_step s s'"
| st_SetSuspendedByQuota: "SetSuspendedByQuota s i b = Inr s' \<Longrightarrow> store_step s s'"
| st_CreatePackage: "CreatePackage s tm p = Inr (p', s') \<Longrightarrow> store_step s s'"
| st_UpdatePackage: "UpdatePackage s p = Inr s' \<Longrightarrow> store_step s s'"
| st_DeletePackage: "DeletePackage s i = Inr s' \<Longrightarrow> store_step s s'"
| st_CreateSession: "CreateSession s tm sid i e = Inr s' \<Longrightarrow> store_step s s'"
| st_DeleteSession: "DeleteSession s sid = Inr s' \<Longrightarrow> store_step s s'"
| st_DeleteUserSessions: "DeleteUserSessions s i = Inr s' \<Longrightarrow> store_step s s'"
| st_CreateTOTPChallenge: "CreateTOTPChallenge s tm sid i e = Inr s' \<Longrightarrow> store_step s s'"
| st_DeleteTOTPChallenge: "DeleteTOTPChallenge s sid = Inr s' \<Longrightarrow> store_step s s'"
| st_SetSetting: "SetSetting s k v = Inr s' \<Longrightarrow> store_step s s'"
| st_AppendAudit: "AppendAudit s tm i n a t d ip = Inr s' \<Longrightarrow> store_step s s'"
| st_RecordLoginAttempt: "RecordLoginAttempt s tm n ip b = Inr s' \<Longrightarrow> store_step s s'"
| st_CreateAPIToken: "CreateAPIToken s tm k = Inr (k', s') \<Longrightarrow> store_step s s'"
| st_TouchAPIToken: "TouchAPIToken s tm i = Inr s' \<Longrightarrow> store_step s s'"
| st_DeleteAPIToken: "DeleteAPIToken s i = Inr s' \<Longrightarrow> store_step s s'"
| st_RecordSuspensionAction: "RecordSuspensionAction s i k r = Inr s' \<Longrightarrow> store_step s s'"
| st_ClearSuspensionActions: "ClearSuspensionActions s i = Inr s' \<Longrightarrow> store_step s s'"
| st_SetMailboxEnabled: "SetMailboxEnabled s i b = Inr s' \<Longrightarrow> store_step s s'"
| st_CreateDomain: "CreateDomain s tm d = Inr (d', s') \<Longrightarrow> store_step s s'"
| st_UpdateDomain: "UpdateDomain s d = Inr s' \<Longrightarrow> store_step s s'"
| st_SetDomainProxyTarget: "SetDomainProxyTarget s i t = Inr s' \<Longrightarrow> store_step s s'"
| st_SetDomainIP: "SetDomainIP s i j = Inr s' \<Longrightarrow> store_step s s'"
| st_DeleteDomain: "DeleteDomain s i = Inr s' \<Longrightarrow> store_step s s'"
| st_AddAlias: "AddAlias s i a = Inr s' \<Longrightarrow> store_step s s'"
| st_RemoveAlias: "RemoveAlias s i a = Inr s' \<Longrightarrow> store_step s s'"
| st_CreateZone: "CreateZone s tm z = Inr (z', s') \<Longrightarrow> store_step s s'"
| st_UpdateZone: "UpdateZone s z = Inr s' \<Longrightarrow> store_step s s'"
| st_SetZoneSynced: "SetZoneSynced s i t = Inr s' \<Longrightarrow> store_step s s'"
| st_CreateRecord: "CreateRecord s tm r = Inr (r', s') \<Longrightarrow> store_step s s'"
| st_UpdateRecord: "UpdateRecord s r = Inr s' \<Longrightarrow> store_step s s'"
| st_DeleteRecord: "DeleteRecord s i = Inr s' \<Longrightarrow> store_step s s'"
| st_ReplaceRecords: "ReplaceRecords s tm i rs = Inr s' \<Longrightarrow> store_step s s'"
| st_CreateIP: "CreateIP s tm ip = Inr (ip', s') \<Longrightarrow> store_step s s'"
| st_UpdateIP: "UpdateIP s ip = Inr s' \<Longrightarrow> store_step s s'"
| st_DeleteIP: "DeleteIP s i = Inr s' \<Longrightarrow> store_step s s'"
| st_CreateSSLOrder: "CreateSSLOrder s tm ord = Inr (ord', s') \<Longrightarrow> store_step s s'"
| st_UpdateSSLOrder: "UpdateSSLOrder s tm ord = Inr s' \<Longrightarrow> store_step s s'"
| st_CreateFTPAccount: "CreateFTPAccount s tm f = Inr (f', s') \<Longrightarrow> store_step s s'"
| st_UpdateFTPAccount: "UpdateFTPAccount s f = Inr s' \<Longrightarrow> store_step s s'"
| st_DeleteFTPAccount: "DeleteFTPAccount s i = Inr s' \<Longrightarrow> store_step s s'"
| st_EncryptLegacySecrets: "EncryptLegacySecrets box nonces s = Inr (n, s') \<Longrightarrow> store_step s s'"
| st_CreateDatabase: "CreateDatabase box nonce s tm d = Inr (d', s') \<Longrightarrow> store_step s s'"
| st_DeleteDatabaseRow: "DeleteDatabaseRow s i = Inr s' \<Longrightarrow> store_step s s'"
| st_CreateProvider: "CreateProvider s tm p = Inr (p', s') \<Longrightarrow> store_step s s'"
| st_UpdateProvider: "UpdateProvider s p = Inr s' \<Longrightarrow> store_step s s'"
| st_DeleteProvider: "DeleteProvider s i = Inr s' \<Longrightarrow> store_step s s'"
| st_CreateMailDomain: "CreateMailDomain s tm md = Inr (md', s') \<Longrightarrow> store_step s s'"
| st_DeleteMailDomain: "DeleteMailDomain s i = Inr s' \<Longrightarrow> store_step s s'"
| st_CreateMailbox: "CreateMailbox s tm mb = Inr (mb', s') \<Longrightarrow> store_step s s'"
| st_UpdateMailbox: "UpdateMailbox s mb = Inr s' \<Longrightarrow> store_step s s'"
| st_DeleteMailbox: "DeleteMailbox s i = Inr s' \<Longrightarrow> store_step s s'"
| st_CreateMailAlias: "CreateMailAlias s tm ma = Inr (ma', s') \<Longrightarrow> store_step s s'"
| st_DeleteMailAlias: "DeleteMailAlias s i = Inr s' \<Longrightarrow> store_step s s'"
| st_CreateCronJob: "CreateCronJob s tm j = Inr (j', s') \<Longrightarrow> store_step s s'"
| st_UpdateCronJob: "UpdateCronJob s j = Inr s' \<Longrightarrow> store_step s s'"
| st_DeleteCronJob: "DeleteCronJob s i = Inr s' \<Longrightarrow> store_step s s'"
| st_CreateContainer: "CreateContainer s tm c = Inr (c', s') \<Longrightarrow> store_step s s'"
| st_SetContainerAttachment: "SetContainerAttachment s i d w = Inr s' \<Longrightarrow> store_step s s'"
| st_DeleteContainer: "DeleteContainer s i = Inr s' \<Longrightarrow> store_step s s'"
| st_CreateBackupTarget: "CreateBackupTarget s tm t = Inr (t', s') \<Longrightarrow> store_step s s'"
| st_UpdateBackupTarget: "UpdateBackupTarget s t = Inr s' \<Longrightarrow> store_step s s'"
| st_DeleteBackupTarget: "DeleteBackupTarget s i = Inr s' \<Longrightarrow> store_step s s'"
| st_ReplacePackageUpdates: "ReplacePackageUpdates s tm us = Inr s' \<Longrightarrow> store_step s s'"
| st_DeleteUser: "DeleteUser s i = Inr s' \<Longrightarrow> store_step s s'"
| st_outage: "store_step s (s\<lparr>db_down := b\<rparr>)"

inductive store_reach :: "db \<Rightarrow> bool" where
  reach_empty: "store_reach db_empty"
| reach_step: "store_reach s \<Longrightarrow> store_step s s' \<Longrightarrow> store_reach s'"

lemma schema_ok_down [simp]: "schema_ok (s\<lparr>db_down := b\<rparr>) = schema_ok s"
  by (simp add: schema_ok_def)

lemma run_tx_simps [simp]: "run_tx [] s = s" "run_tx (f # fs) s = run_tx fs (f s)"
  by (simp_all add: run_tx_def)

lemma run_tx_inv:
  assumes "I s" "\<And>f s. f \<in> set fs \<Longrightarrow> I s \<Longrightarrow> I (f s)"
  shows "I (run_tx fs s)"
  using assms by (induction fs arbitrary: s) auto

lemma schema_filters:
  assumes "schema_ok s"
  shows "distinct (map sID (filter P (sessions s)))" "distinct (map sID (filter P (totp_challenges s)))"
    "distinct (filter Q (suspension_actions s))"
  using schema_okD [OF assms] by (auto intro: distinct_map_filter)

lemma truncate_keys [simp]:
  "oDomainID (OrderRow.truncate ord) = oDomainID ord"
  "mbMailDomainID (MailboxRow.truncate mb) = mbMailDomainID mb"
  "mbLocalpart (MailboxRow.truncate mb) = mbLocalpart mb"
  "maMailDomainID (MailAliasRow.truncate ma) = maMailDomainID ma"
  "maSource (MailAliasRow.truncate ma) = maSource ma"
  by (simp_all add: OrderRow.truncate_def MailboxRow.truncate_def MailAliasRow.truncate_def)

lemmas table_laws = table_wf_delete table_wf_update unique_on_delete unique_on_update unique_on_insert
  insert_wfs schema_filters schema_okD

lemma schema_DeleteDomain_stmts: "f \<in> set (DeleteDomain_stmts i) \<Longrightarrow> schema_ok s \<Longrightarrow> schema_ok (f s)"
  by (auto simp: DeleteDomain_stmts_def intro!: schema_upd table_laws)

lemma schema_DeleteUser_stmts: "f \<in> set (DeleteUser_stmts i) \<Longrightarrow> schema_ok s \<Longrightarrow> schema_ok (f s)"
  by (auto simp: DeleteUser_stmts_def intro!: schema_upd table_laws)

lemma schema_seal_rows: "seal_rows box nonces ps s = Inr s' \<Longrightarrow> schema_ok s \<Longrightarrow> schema_ok s'"
proof (induction ps arbitrary: s)
  case (Cons p ps)
  from Cons.prems(1) obtain enc where
    "seal_rows box nonces ps (s\<lparr>databases := t_update (\<lambda>d. bID d = bID p) (\<lambda>d. d\<lparr>bDBPassword := enc\<rparr>) (databases s)\<rparr>) = Inr s'"
    by (auto simp: bindR_Inr_iff)
  then show ?case
    by (rule Cons.IH) (use Cons.prems(2) in \<open>auto intro!: schema_upd table_laws\<close>)
qed simp

lemma schema_clear_other_defaults: "schema_ok s \<Longrightarrow> schema_ok (clear_other_defaults i s)"
  by (auto simp: clear_other_defaults_def intro!: schema_upd table_laws)

lemma schema_UpdatePackage: "UpdatePackage s p = Inr s' \<Longrightarrow> schema_ok s \<Longrightarrow> schema_ok s'"
  by (auto simp: UpdatePackage_def Let_def intro!: schema_clear_other_defaults schema_upd table_wf_update
      unique_on_update_one [where k = "pName p" and rid = pID] schema_okD)

lemma schema_SetSetting: "SetSetting s k v = Inr s' \<Longrightarrow> schema_ok s \<Longrightarrow> schema_ok s'"
proof -
  assume s: "SetSetting s k v = Inr s'" "schema_ok s"
  have "map fst (map (\<lambda>(k', v'). if k' = k then (k', v) else (k', v')) xs) = map fst xs" for xs
    by auto
  with s show ?thesis
    by (auto simp: SetSetting_def simp del: map_map intro!: schema_upd schema_okD)
qed

lemma schema_inserts:
  assumes "schema_ok s"
  shows "schema_ok (insert_record tm r s)" "schema_ok (insert_update tm u s)"
  using assms by (auto simp: insert_record_def insert_update_def intro!: schema_upd table_laws)

lemma schema_step: "store_step s s' \<Longrightarrow> schema_ok s \<Longrightarrow> schema_ok s'"
proof (induction rule: store_step.induct)
  case (st_UpdatePackage s p s')
  then show ?case by (rule schema_UpdatePackage)
next
  case (st_SetSetting s k v s')
  then show ?case by (rule schema_SetSetting)
next
  case (st_EncryptLegacySecrets box nonces s n s')
  then show ?case
    by (auto simp: EncryptLegacySecrets_def bindR_Inr_iff dest: schema_seal_rows split: if_splits)
next
  case (st_DeleteDomain s i s')
  then show ?case by (auto simp: DeleteDomain_def intro: run_tx_inv schema_DeleteDomain_stmts)
next
  case (st_DeleteUser s i s')
  then show ?case by (auto simp: DeleteUser_def intro: run_tx_inv schema_DeleteUser_stmts)
next
  case (st_ReplaceRecords s tm i rs s')
  then show ?case
    by (auto simp: ReplaceRecords_def
        intro!: run_tx_inv [where I = schema_ok] schema_inserts schema_upd table_laws)
next
  case (st_ReplacePackageUpdates s tm us s')
  then show ?case
    by (auto simp: ReplacePackageUpdates_def
        intro!: run_tx_inv [where I = schema_ok] schema_inserts schema_upd table_laws)
qed (auto simp: store_defs set_user_def Let_def bindR_Inr_iff list_ex_iff
      split: if_splits intro!: schema_clear_other_defaults schema_inserts schema_upd table_laws)

lemma reach_schema: "store_reach s \<Longrightarrow> schema_ok s"
  by (induction rule: store_reach.induct) (auto intro: schema_ok_empty schema_step)

end
