(* ===== verification/Store_Refs.thy ===== *)
theory Store_Refs
  imports Store_Laws
begin

text \<open>
  References between tables. The schema declares no foreign keys, so deleting an owner has to delete
  what belongs to it. \<open>refs_ok\<close> says that every row names an existing owner; \<open>DeleteUser\<close> keeps it, removes
  every trace of the account and touches nothing of other accounts, while \<open>DeleteDomain\<close> keeps
  every reference except those of the mail tables.
\<close>

definition points_to :: "('r \<Rightarrow> int) \<Rightarrow> ('q \<Rightarrow> int) \<Rightarrow> 'r list \<Rightarrow> 'q list \<Rightarrow> bool" where
  "points_to ref rid rs qs \<longleftrightarrow> list_all (\<lambda>r. list_ex (\<lambda>q. rid q = ref r) qs) rs"

lemma points_to_iff: "points_to ref rid rs qs \<longleftrightarrow> (\<forall>r\<in>set rs. \<exists>q\<in>set qs. rid q = ref r)"
  by (simp add: points_to_def list_all_iff list_ex_iff)

definition mail_refs_ok :: "db \<Rightarrow> bool" where
  "mail_refs_ok s \<longleftrightarrow>
     points_to mbMailDomainID mdID (trows (mailboxes s)) (trows (mail_domains s)) \<and>
     points_to maMailDomainID mdID (trows (mail_aliases s)) (trows (mail_domains s)) \<and>
     points_to mdDomainID dID (trows (mail_domains s)) (trows (domains s))"

definition refs_ok :: "db \<Rightarrow> bool" where
  "refs_ok s \<longleftrightarrow>
     points_to alDomainID dID (trows (domain_aliases s)) (trows (domains s)) \<and>
     points_to rZoneID zID (trows (dns_records s)) (trows (dns_zones s)) \<and>
     points_to zDomainID dID (trows (dns_zones s)) (trows (domains s)) \<and>
     points_to oDomainID dID (trows (ssl_orders s)) (trows (domains s)) \<and>
     points_to dUserID uID (trows (domains s)) (trows (users s)) \<and>
     points_to fUserID uID (trows (ftp_accounts s)) (trows (users s)) \<and>
     points_to bUserID uID (trows (databases s)) (trows (users s)) \<and>
     points_to cUserID uID (trows (containers s)) (trows (users s)) \<and>
     points_to jUserID uID (trows (cron_jobs s)) (trows (users s)) \<and>
     points_to kUserID uID (trows (api_tokens s)) (trows (users s)) \<and>
     points_to sUserID uID (sessions s) (trows (users s)) \<and>
     points_to sUserID uID (totp_challenges s) (trows (users s)) \<and>
     points_to saUserID uID (suspension_actions s) (trows (users s))"

text \<open>The whole effect of the cascade, written against the database it started from.\<close>

definition purged :: "int \<Rightarrow> db \<Rightarrow> db" where
  "purged uid s = s\<lparr>
     mailboxes := t_delete (\<lambda>m. user_mail_domain uid s (mbMailDomainID m)) (mailboxes s),
     mail_aliases := t_delete (\<lambda>a. user_mail_domain uid s (maMailDomainID a)) (mail_aliases s),
     mail_domains := t_delete (\<lambda>m. user_domain uid s (mdDomainID m)) (mail_domains s),
     domain_aliases := t_delete (\<lambda>a. user_domain uid s (alDomainID a)) (domain_aliases s),
     dns_records := t_delete (\<lambda>r. user_zone uid s (rZoneID r)) (dns_records s),
     dns_zones := t_delete (\<lambda>z. user_domain uid s (zDomainID z)) (dns_zones s),
     ssl_orders := t_delete (\<lambda>ord. user_domain uid s (oDomainID ord)) (ssl_orders s),
     containers := t_delete (\<lambda>c. cUserID c = uid) (containers s),
     cron_jobs := t_delete (\<lambda>j. jUserID j = uid) (cron_jobs s),
     api_tokens := t_delete (\<lambda>k. kUserID k = uid) (api_tokens s),
     totp_challenges := filter (\<lambda>r. sUserID r \<noteq> uid) (totp_challenges s),
     suspension_actions := filter (\<lambda>a. saUserID a \<noteq> uid) (suspension_actions s),
     domains := t_delete (\<lambda>d. dUserID d = uid) (domains s),
     ftp_accounts := t_delete (\<lambda>f. fUserID f = uid) (ftp_accounts s),
     databases := t_delete (\<lambda>d. bUserID d = uid) (databases s),
     sessions := filter (\<lambda>r. sUserID r \<noteq> uid) (sessions s),
     users := t_delete (\<lambda>u. uID u = uid) (users s)\<rparr>"

lemma run_DeleteUser: "run_tx (DeleteUser_stmts uid) s = purged uid s"
  by (simp add: DeleteUser_stmts_def purged_def user_domain_def user_mail_domain_def user_zone_def)

lemma DeleteUser_purged: "DeleteUser s uid = Inr s' \<longleftrightarrow> \<not> db_down s \<and> s' = purged uid s"
  by (auto simp: DeleteUser_def run_DeleteUser)

lemma user_domain_iff: "user_domain uid s i \<longleftrightarrow> (\<exists>d\<in>set (trows (domains s)). dUserID d = uid \<and> dID d = i)"
  by (simp add: user_domain_def t_exists_iff)

lemma user_mail_domain_iff: "user_mail_domain uid s i \<longleftrightarrow>
    (\<exists>m\<in>set (trows (mail_domains s)). user_domain uid s (mdDomainID m) \<and> mdID m = i)"
  by (simp add: user_mail_domain_def t_exists_iff)

lemma user_zone_iff: "user_zone uid s i \<longleftrightarrow>
    (\<exists>z\<in>set (trows (dns_zones s)). user_domain uid s (zDomainID z) \<and> zID z = i)"
  by (simp add: user_zone_def t_exists_iff)

text \<open>A reference survives when the rows it can lose are exactly those whose owner goes.\<close>

lemma points_to_filter:
  assumes "points_to ref rid rs qs"
    and "\<And>r q. r \<in> set rs \<Longrightarrow> q \<in> set qs \<Longrightarrow> rid q = ref r \<Longrightarrow> P r \<Longrightarrow> Q q"
  shows "points_to ref rid (filter P rs) (filter Q qs)"
  using assms by (fastforce simp: points_to_iff)

lemma refs_purged:
  assumes ok: "refs_ok s"
  shows "refs_ok (purged uid s)"
proof -
  have dom: "dUserID d \<noteq> uid"
    if "d \<in> set (trows (domains s))" "\<not> user_domain uid s i" "dID d = i" for d i
    using that by (auto simp: user_domain_iff)
  have zone: "\<not> user_domain uid s (zDomainID z)"
    if "z \<in> set (trows (dns_zones s))" "\<not> user_zone uid s i" "zID z = i" for z i
    using that by (auto simp: user_zone_iff)
  show ?thesis
    unfolding refs_ok_def purged_def
    using ok [unfolded refs_ok_def]
    by (auto intro!: points_to_filter dest: dom zone)
qed

lemma mail_refs_purged:
  assumes ok: "mail_refs_ok s"
  shows "mail_refs_ok (purged uid s)"
proof -
  have dom: "dUserID d \<noteq> uid"
    if "d \<in> set (trows (domains s))" "\<not> user_domain uid s i" "dID d = i" for d i
    using that by (auto simp: user_domain_iff)
  have md: "\<not> user_domain uid s (mdDomainID m)"
    if "m \<in> set (trows (mail_domains s))" "\<not> user_mail_domain uid s i" "mdID m = i" for m i
    using that by (auto simp: user_mail_domain_iff)
  show ?thesis
    unfolding mail_refs_ok_def purged_def
    using ok [unfolded mail_refs_ok_def]
    by (auto intro!: points_to_filter dest: dom md)
qed

text \<open>The links of containers and sub-domains to a domain, where there are any, stay within one account.\<close>

definition links_own :: "db \<Rightarrow> bool" where
  "links_own s \<longleftrightarrow>
     list_all (\<lambda>c. cDomainID c = 0 \<or> list_ex (\<lambda>d. dID d = cDomainID c \<and> dUserID d = cUserID c) (trows (domains s))) (trows (containers s)) \<and>
     list_all (\<lambda>c. dParentDomainID c = 0 \<or> list_ex (\<lambda>d. dID d = dParentDomainID c \<and> dUserID d = dUserID c) (trows (domains s))) (trows (domains s))"

lemma links_purged: "links_own s \<Longrightarrow> links_own (purged uid s)"
  unfolding links_own_def purged_def list_all_iff list_ex_iff by fastforce

section \<open>What an account owns\<close>

record AccountView =
  av_users :: "UserRow list"
  av_domains :: "DomainRow list"
  av_aliases :: "AliasRow list"
  av_zones :: "ZoneRow list"
  av_records :: "DNSRecord list"
  av_orders :: "OrderRow list"
  av_mail_domains :: "MailDomain list"
  av_mailboxes :: "MailboxRow list"
  av_mail_aliases :: "MailAliasRow list"
  av_ftp :: "FTPAccount list"
  av_databases :: "Database list"
  av_containers :: "Container list"
  av_cron :: "CronJob list"
  av_tokens :: "APIToken list"
  av_sessions :: "Session list"
  av_challenges :: "Session list"
  av_suspensions :: "SuspensionAction list"

definition account_view :: "int \<Rightarrow> db \<Rightarrow> AccountView" where
  "account_view uid s =
    \<lparr>av_users = t_select (\<lambda>u. uID u = uid) (users s),
     av_domains = t_select (\<lambda>d. dUserID d = uid) (domains s),
     av_aliases = t_select (\<lambda>a. user_domain uid s (alDomainID a)) (domain_aliases s),
     av_zones = t_select (\<lambda>z. user_domain uid s (zDomainID z)) (dns_zones s),
     av_records = t_select (\<lambda>r. user_zone uid s (rZoneID r)) (dns_records s),
     av_orders = t_select (\<lambda>ord. user_domain uid s (oDomainID ord)) (ssl_orders s),
     av_mail_domains = t_select (\<lambda>m. user_domain uid s (mdDomainID m)) (mail_domains s),
     av_mailboxes = t_select (\<lambda>m. user_mail_domain uid s (mbMailDomainID m)) (mailboxes s),
     av_mail_aliases = t_select (\<lambda>a. user_mail_domain uid s (maMailDomainID a)) (mail_aliases s),
     av_ftp = t_select (\<lambda>f. fUserID f = uid) (ftp_accounts s),
     av_databases = t_select (\<lambda>d. bUserID d = uid) (databases s),
     av_containers = t_select (\<lambda>c. cUserID c = uid) (containers s),
     av_cron = t_select (\<lambda>j. jUserID j = uid) (cron_jobs s),
     av_tokens = t_select (\<lambda>k. kUserID k = uid) (api_tokens s),
     av_sessions = filter (\<lambda>r. sUserID r = uid) (sessions s),
     av_challenges = filter (\<lambda>r. sUserID r = uid) (totp_challenges s),
     av_suspensions = filter (\<lambda>a. saUserID a = uid) (suspension_actions s)\<rparr>"

definition no_rows :: AccountView where
  "no_rows = \<lparr>av_users = [], av_domains = [], av_aliases = [], av_zones = [], av_records = [],
     av_orders = [], av_mail_domains = [], av_mailboxes = [], av_mail_aliases = [], av_ftp = [],
     av_databases = [], av_containers = [], av_cron = [], av_tokens = [], av_sessions = [],
     av_challenges = [], av_suspensions = []\<rparr>"

text \<open>Ownership is a function: ids are unique, so no domain, zone or mail domain has two owners.\<close>

lemma user_domain_inj:
  assumes "schema_ok s" "user_domain v s i" "user_domain uid s i"
  shows "v = uid"
  using assms schema_okD(5) [OF assms(1)]
  by (auto simp: user_domain_iff dest: table_wf_unique unique_onD)

lemma user_mail_domain_inj:
  assumes "schema_ok s" "user_mail_domain v s i" "user_mail_domain uid s i"
  shows "v = uid"
  using assms(2,3) table_wf_unique [OF schema_okD(26) [OF assms(1)]] user_domain_inj [OF assms(1)]
  by (auto simp: user_mail_domain_iff dest: unique_onD)

lemma user_zone_inj:
  assumes "schema_ok s" "user_zone v s i" "user_zone uid s i"
  shows "v = uid"
  using assms(2,3) table_wf_unique [OF schema_okD(9) [OF assms(1)]] user_domain_inj [OF assms(1)]
  by (auto simp: user_zone_iff dest: unique_onD)

lemma owned_purged:
  "user_domain v (purged uid s) i \<longleftrightarrow> v \<noteq> uid \<and> user_domain v s i"
  by (auto simp: user_domain_iff purged_def)

lemma owned_purged_zone:
  assumes "schema_ok s"
  shows "user_zone v (purged uid s) i \<longleftrightarrow> v \<noteq> uid \<and> user_zone v s i"
proof -
  have "set (trows (dns_zones (purged uid s))) = {z \<in> set (trows (dns_zones s)). \<not> user_domain uid s (zDomainID z)}"
    by (auto simp: purged_def)
  with user_domain_inj [OF assms] show ?thesis by (auto simp: user_zone_iff owned_purged)
qed

lemma owned_purged_mail:
  assumes "schema_ok s"
  shows "user_mail_domain v (purged uid s) i \<longleftrightarrow> v \<noteq> uid \<and> user_mail_domain v s i"
proof -
  have "set (trows (mail_domains (purged uid s))) =
      {m \<in> set (trows (mail_domains s)). \<not> user_domain uid s (mdDomainID m)}"
    by (auto simp: purged_def)
  with user_domain_inj [OF assms] show ?thesis by (auto simp: user_mail_domain_iff owned_purged)
qed

lemma t_select_delete: "t_select P (t_delete Q t) = filter (\<lambda>r. \<not> Q r \<and> P r) (trows t)"
  by (simp add: t_select_def conj_commute)

lemma filter_drop_conj: "(\<And>r. P r \<Longrightarrow> Q r) \<Longrightarrow> filter (\<lambda>r. Q r \<and> P r) rs = filter P rs"
  by (rule filter_cong) auto

lemma view_gone:
  assumes "schema_ok s"
  shows "account_view uid (purged uid s) = no_rows"
  unfolding account_view_def no_rows_def owned_purged owned_purged_zone [OF assms] owned_purged_mail [OF assms]
  by (simp add: purged_def t_select_def filter_empty_conv)

lemma view_kept:
  assumes "schema_ok s" "v \<noteq> uid"
  shows "account_view v (purged uid s) = account_view v s"
proof -
  have "\<not> user_domain uid s i" if "user_domain v s i" for i
    using user_domain_inj [OF assms(1) that] assms(2) by blast
  moreover have "\<not> user_zone uid s i" if "user_zone v s i" for i
    using user_zone_inj [OF assms(1) that] assms(2) by blast
  moreover have "\<not> user_mail_domain uid s i" if "user_mail_domain v s i" for i
    using user_mail_domain_inj [OF assms(1) that] assms(2) by blast
  ultimately show ?thesis
    using assms(2)
    unfolding account_view_def owned_purged owned_purged_zone [OF assms(1)] owned_purged_mail [OF assms(1)]
    by (simp add: purged_def t_select_delete t_select_def filter_drop_conj)
       (auto intro!: filter_cong)
qed

section \<open>Deleting a domain\<close>

definition undomained :: "int \<Rightarrow> db \<Rightarrow> db" where
  "undomained i s = s\<lparr>
     domain_aliases := t_delete (\<lambda>a. alDomainID a = i) (domain_aliases s),
     dns_records := t_delete (\<lambda>r. t_exists (\<lambda>z. zDomainID z = i \<and> zID z = rZoneID r) (dns_zones s)) (dns_records s),
     dns_zones := t_delete (\<lambda>z. zDomainID z = i) (dns_zones s),
     ssl_orders := t_delete (\<lambda>ord. oDomainID ord = i) (ssl_orders s),
     containers := t_update (\<lambda>c. cDomainID c = i) (\<lambda>c. c\<lparr>cDomainID := 0, cWebPort := 0\<rparr>) (containers s),
     domains := t_delete (\<lambda>d. dID d = i)
       (t_update (\<lambda>d. dParentDomainID d = i) (\<lambda>d. d\<lparr>dParentDomainID := 0\<rparr>) (domains s))\<rparr>"

lemma DeleteDomain_undomained: "DeleteDomain s i = Inr s' \<longleftrightarrow> \<not> db_down s \<and> s' = undomained i s"
  by (auto simp: DeleteDomain_def DeleteDomain_stmts_def undomained_def)

lemma points_to_map:
  assumes "points_to ref rid rs qs" "\<And>q. rid (g q) = rid q" "\<And>r. ref (f r) = ref r"
  shows "points_to ref rid (map f rs) (map g qs)"
  using assms by (auto simp: points_to_iff)

lemma points_to_map_right:
  assumes "points_to ref rid rs qs" "\<And>q. rid (g q) = rid q"
  shows "points_to ref rid rs (map g qs)"
  using assms by (auto simp: points_to_iff)

lemma points_to_map_left:
  assumes "points_to ref rid rs qs" "\<And>r. ref (f r) = ref r"
  shows "points_to ref rid (map f rs) qs"
  using assms by (auto simp: points_to_iff)

lemma points_to_filter_left: "points_to ref rid rs qs \<Longrightarrow> points_to ref rid (filter P rs) qs"
  by (auto simp: points_to_iff)

lemma refs_undomained:
  assumes "refs_ok s"
  shows "refs_ok (undomained i s)"
  unfolding refs_ok_def undomained_def
  using assms [unfolded refs_ok_def]
  by (auto simp: t_exists_iff intro!: points_to_filter points_to_map_left points_to_map_right
      intro: points_to_filter_left)

text \<open>No container and no domain still refers to the deleted one.\<close>

definition links_to_domain :: "int \<Rightarrow> db \<Rightarrow> bool" where
  "links_to_domain i s \<longleftrightarrow> t_exists (\<lambda>c. cDomainID c = i) (containers s)
     \<or> t_exists (\<lambda>d. dParentDomainID d = i \<or> dID d = i) (domains s)
     \<or> t_exists (\<lambda>a. alDomainID a = i) (domain_aliases s) \<or> t_exists (\<lambda>z. zDomainID z = i) (dns_zones s)
     \<or> t_exists (\<lambda>ord. oDomainID ord = i) (ssl_orders s)"

lemma undomained_no_links: "i \<noteq> 0 \<Longrightarrow> \<not> links_to_domain i (undomained i s)"
  by (auto simp: links_to_domain_def undomained_def t_exists_iff)

lemma undomained_mail [simp]:
  "mail_domains (undomained i s) = mail_domains s" "mailboxes (undomained i s) = mailboxes s"
  "mail_aliases (undomained i s) = mail_aliases s" "db_down (undomained i s) = db_down s"
  by (simp_all add: undomained_def)

end
