(* ===== verification/Store_Props.thy ===== *)
theory Store_Props
  imports Store_Refs "HOL-Library.Multiset"
begin

text \<open>
  Behaviour of the individual store components: default packages, certificate orders, DNS records,
  sessions, and database passwords sealed at rest.
\<close>

lemma find_append_None: "(\<And>x. x \<in> set xs \<Longrightarrow> \<not> P x) \<Longrightarrow> find P (xs @ ys) = find P ys"
  by (induction xs) auto

section \<open>Packages\<close>

definition defaults :: "db \<Rightarrow> int list" where
  "defaults s = map pID (t_select pIsDefault (packages s))"

lemma defaults_alt: "defaults s = map pID (filter pIsDefault (trows (packages s)))"
  by (simp add: defaults_def t_select_def)

lemma defaults_clear: "defaults (clear_other_defaults i s) = filter (\<lambda>j. j = i) (defaults s)"
proof -
  have "map pID (filter pIsDefault (map (\<lambda>r. if pID r \<noteq> i then r\<lparr>pIsDefault := False\<rparr> else r) xs)) =
      filter (\<lambda>j. j = i) (map pID (filter pIsDefault xs))" for xs
    by (induction xs) auto
  then show ?thesis by (simp add: defaults_alt clear_other_defaults_def)
qed

lemma distinct_filter_eq_le: "distinct xs \<Longrightarrow> length (filter (\<lambda>j. j = i) xs) \<le> 1"
  by (induction xs) (auto simp: filter_empty_conv)

lemma defaults_cleared_le: "distinct (defaults s) \<Longrightarrow> length (defaults (clear_other_defaults i s)) \<le> 1"
  by (simp only: defaults_clear distinct_filter_eq_le)

lemma defaults_distinct: "table_wf pID (packages s) \<Longrightarrow> distinct (defaults s)"
  by (auto simp: defaults_alt table_wf_def strict_sorted_iff intro: distinct_map_filter)

lemma defaults_CreatePackage:
  assumes "CreatePackage s tm p = Inr (p', s')" "schema_ok s" "length (defaults s) \<le> 1"
  shows "length (defaults s') \<le> 1"
proof -
  let ?s1 = "s\<lparr>packages := t_insert (\<lambda>i. pID_update (\<lambda>_. i)) p' (packages s)\<rparr>"
  have wf: "table_wf pID (packages ?s1)"
    using assms(2) by (auto intro: insert_wfs schema_okD)
  have "s' = (if pIsDefault p then clear_other_defaults (pID p') ?s1 else ?s1)" "pIsDefault p' = pIsDefault p"
    using assms(1) by (auto simp: CreatePackage_def Let_def)
  then show ?thesis
    using defaults_cleared_le [OF defaults_distinct [OF wf]] assms(3) by (auto simp: defaults_alt)
qed

lemma defaults_UpdatePackage:
  assumes "UpdatePackage s p = Inr s'" "schema_ok s" "length (defaults s) \<le> 1"
  shows "length (defaults s') \<le> 1"
proof -
  let ?f = "\<lambda>r. p\<lparr>pID := pID r, pCreatedAt := pCreatedAt r\<rparr>"
  let ?s1 = "s\<lparr>packages := t_update (\<lambda>r. pID r = pID p) ?f (packages s)\<rparr>"
  have s': "s' = (if pIsDefault p then clear_other_defaults (pID p) ?s1 else ?s1)"
    using assms(1) by (simp add: UpdatePackage_def Let_def)
  have wf: "table_wf pID (packages ?s1)"
    using assms(2) by (auto intro: table_wf_update schema_okD)
  have "length (filter pIsDefault (map (\<lambda>r. if pID r = pID p then ?f r else r) xs)) \<le> length (filter pIsDefault xs)"
    if "\<not> pIsDefault p" for xs
    using that by (induction xs) auto
  with assms(3) have "length (defaults ?s1) \<le> 1" if "\<not> pIsDefault p"
    using that le_trans by (fastforce simp: defaults_alt)
  with defaults_cleared_le [OF defaults_distinct [OF wf]] s' show ?thesis by auto
qed

lemma run_inserts_packages [simp]:
  "packages (run_tx (map (\<lambda>r. insert_record tm (g r)) rs) s) = packages s"
  "packages (run_tx (map (insert_update tm) us) s) = packages s"
  by (induction rs arbitrary: s, simp_all add: insert_record_def)
     (induction us arbitrary: s, simp_all add: insert_update_def)

lemma seal_rows_packages: "seal_rows box nonces ps s = Inr s' \<Longrightarrow> packages s' = packages s"
  by (induction ps arbitrary: s) (fastforce simp: bindR_Inr_iff)+

lemma packages_step:
  assumes "store_step s s'"
  shows "packages s' = packages s \<or> (\<exists>tm p p'. CreatePackage s tm p = Inr (p', s'))
    \<or> (\<exists>p. UpdatePackage s p = Inr s') \<or> (\<exists>i. packages s' = t_delete (\<lambda>r. pID r = i) (packages s))"
  using assms
proof cases
  case st_EncryptLegacySecrets
  then show ?thesis
    by (auto simp: EncryptLegacySecrets_def bindR_Inr_iff dest: seal_rows_packages split: if_splits)
next
  case st_DeleteUser
  then show ?thesis by (simp add: DeleteUser_purged purged_def)
next
  case st_DeleteDomain
  then show ?thesis by (simp add: DeleteDomain_undomained undomained_def)
next
  case st_ReplaceRecords
  then show ?thesis
    by (auto simp: ReplaceRecords_def)
next
  case st_ReplacePackageUpdates
  then show ?thesis
    by (auto simp: ReplacePackageUpdates_def)
next
  case st_CreatePackage
  then show ?thesis by blast
next
  case st_UpdatePackage
  then show ?thesis by blast
next
  case st_DeletePackage
  then show ?thesis by (auto simp: DeletePackage_def bindR_Inr_iff split: if_splits)
qed (auto simp: store_defs set_user_def insert_record_def Let_def bindR_Inr_iff split: if_splits)

lemma defaults_step:
  assumes "store_step s s'" "schema_ok s" "length (defaults s) \<le> 1"
  shows "length (defaults s') \<le> 1"
  using packages_step [OF assms(1)]
proof (elim disjE exE)
  fix i assume p: "packages s' = t_delete (\<lambda>r. pID r = i) (packages s)"
  have "filter pIsDefault (filter P xs) = filter P (filter pIsDefault xs)" for P xs
    by (simp add: conj_commute)
  then have "length (filter pIsDefault (filter P xs)) \<le> length (filter pIsDefault xs)" for P xs
    by (metis length_filter_le)
  with assms(3) show ?thesis by (force simp: defaults_alt p intro: le_trans)
qed (use assms defaults_CreatePackage defaults_UpdatePackage in \<open>auto simp: defaults_alt\<close>)

lemma reach_defaults: "store_reach s \<Longrightarrow> length (defaults s) \<le> 1"
proof (induction rule: store_reach.induct)
  case reach_empty
  then show ?case by (simp add: defaults_alt db_empty_def)
next
  case (reach_step s s')
  then show ?case using defaults_step reach_schema by blast
qed

lemma GetDefault_CreatePackage:
  assumes "CreatePackage s tm p = Inr (p', s')" "pIsDefault p" "schema_ok s"
  shows "GetDefaultPackage s' = Inr p'"
proof -
  let ?c = "\<lambda>r. if pID r \<noteq> tseq (packages s) + 1 then r\<lparr>pIsDefault := False\<rparr> else r"
  have rows: "trows (packages s') = map ?c (trows (packages s)) @ [p']" "pIsDefault p'" "\<not> db_down s'"
    using assms(1,2) by (auto simp: CreatePackage_def Let_def clear_other_defaults_def)
  have "sort_key pID (trows (packages s')) = trows (packages s')"
    using schema_step [OF st_CreatePackage [OF assms(1)] assms(3)]
    by (intro sort_key_id_if_sorted) (auto dest: schema_okD(1) simp: table_wf_def strict_sorted_iff)
  moreover have "\<not> pIsDefault x" if "x \<in> set (map ?c (trows (packages s)))" for x
    using that schema_okD(1) [OF assms(3)] by (fastforce simp: table_wf_def)
  then have "find pIsDefault (map ?c (trows (packages s)) @ [p']) = Some p'"
    using rows(2) find_append_None [of "map ?c (trows (packages s))" pIsDefault "[p']"]
    by (simp del: set_map)
  ultimately show ?thesis using rows by (simp add: GetDefaultPackage_def)
qed

section \<open>One certificate order per domain\<close>

abbreviation order_rank :: "OrderRow \<Rightarrow> int \<times> int" where
  "order_rank r \<equiv> (if oStatus r = ''issued'' then 0 else 1, - oID r)"

lemma keep_order_Some:
  assumes "keep_order i rs = Some k"
  shows "k \<in> set rs" "oDomainID k = i"
    "\<And>r. r \<in> set rs \<Longrightarrow> oDomainID r = i \<Longrightarrow> order_rank k \<le> order_rank r"
proof -
  let ?fs = "filter (\<lambda>r. oDomainID r = i) rs"
  from assms obtain ks where ks: "sort_key order_rank ?fs = k # ks"
    by (cases "sort_key order_rank ?fs") (simp_all add: keep_order_def)
  have eq: "set (k # ks) = set ?fs" unfolding ks [symmetric] by simp
  have "k \<in> set ?fs" using eq by auto
  then show "k \<in> set rs" "oDomainID k = i" by simp_all
  have "sorted (map order_rank (k # ks))" unfolding ks [symmetric] by (rule sorted_sort_key)
  then have mn: "\<forall>r\<in>set (k # ks). order_rank k \<le> order_rank r" by auto
  show "order_rank k \<le> order_rank r" if "r \<in> set rs" "oDomainID r = i" for r
    using mn that unfolding eq by simp
qed

lemma keep_order_None: "keep_order i rs = None \<longleftrightarrow> (\<forall>r\<in>set rs. oDomainID r \<noteq> i)"
proof -
  let ?fs = "filter (\<lambda>r. oDomainID r = i) rs"
  have "set (sort_key order_rank ?fs) = {r \<in> set rs. oDomainID r = i}" by simp
  then show ?thesis
    by (cases "sort_key order_rank ?fs") (auto simp: keep_order_def)
qed

text \<open>The rows left once the domains \<open>ds\<close> have been visited.\<close>

definition survivors :: "int list \<Rightarrow> OrderRow list \<Rightarrow> OrderRow list" where
  "survivors ds rs = filter (\<lambda>r. oDomainID r \<in> set ds \<longrightarrow> keep_order (oDomainID r) rs = Some r) rs"

lemma keep_order_cong:
  "filter (\<lambda>r. oDomainID r = i) rs = filter (\<lambda>r. oDomainID r = i) qs \<Longrightarrow> keep_order i rs = keep_order i qs"
  by (simp add: keep_order_def)

lemma dedupe_domain_rows:
  assumes wf: "table_wf oID (ssl_orders s)"
  shows "trows (ssl_orders (dedupe_domain i s)) = survivors [i] (trows (ssl_orders s))"
proof (cases "keep_order i (trows (ssl_orders s))")
  case None
  then have "dedupe_domain i s = s" by (simp add: dedupe_domain_def)
  moreover from None have "\<forall>r\<in>set (trows (ssl_orders s)). oDomainID r \<noteq> i" by (simp only: keep_order_None)
  ultimately show ?thesis by (simp add: survivors_def)
next
  case (Some k)
  have "oID r = oID k \<longleftrightarrow> r = k" if "r \<in> set (trows (ssl_orders s))" for r
    using that keep_order_Some(1) [OF Some] table_wf_unique [OF wf] by (auto dest: unique_onD)
  with Some show ?thesis
    by (auto simp: dedupe_domain_def survivors_def intro!: filter_cong)
qed

lemma survivors_append:
  assumes "set ds \<inter> set es = {}"
  shows "survivors es (survivors ds rs) = survivors (ds @ es) rs"
proof -
  let ?qs = "survivors ds rs"
  have keep: "keep_order i ?qs = keep_order i rs" if "i \<in> set es" for i
    using that assms unfolding survivors_def
    by (intro keep_order_cong) (auto intro!: filter_cong)
  have "survivors es ?qs = filter (\<lambda>r. oDomainID r \<in> set es \<longrightarrow> keep_order (oDomainID r) rs = Some r) ?qs"
    unfolding survivors_def [of es] using keep by (intro filter_cong) auto
  also have "\<dots> = survivors (ds @ es) rs"
    unfolding survivors_def [of ds] survivors_def [of "ds @ es"] filter_filter
    by (intro filter_cong) auto
  finally show ?thesis .
qed

lemma dedupe_fold_rows:
  assumes "table_wf oID (ssl_orders s)" "distinct ds"
  shows "trows (ssl_orders (foldl (\<lambda>s i. dedupe_domain i s) s ds)) = survivors ds (trows (ssl_orders s))"
  using assms
proof (induction ds arbitrary: s)
  case Nil
  then show ?case by (simp add: survivors_def)
next
  case (Cons i ds)
  have "table_wf oID (ssl_orders (dedupe_domain i s))"
    using Cons.prems(1) by (auto simp: dedupe_domain_def split: option.splits)
  then show ?case
    using Cons.IH [of "dedupe_domain i s"] Cons.prems survivors_append [of "[i]" ds]
    by (simp add: dedupe_domain_rows)
qed

lemma dedupe_rows:
  assumes "dedupeSSLOrders s = Inr s'" "table_wf oID (ssl_orders s)"
  shows "trows (ssl_orders s') =
    filter (\<lambda>r. keep_order (oDomainID r) (trows (ssl_orders s)) = Some r) (trows (ssl_orders s))"
proof -
  let ?rs = "trows (ssl_orders s)"
  have "trows (ssl_orders s') = survivors (remdups (map oDomainID ?rs)) ?rs"
    using assms(1) dedupe_fold_rows [OF assms(2)] by (auto simp: dedupeSSLOrders_def)
  also have "\<dots> = filter (\<lambda>r. keep_order (oDomainID r) ?rs = Some r) ?rs"
    unfolding survivors_def by (rule filter_cong) auto
  finally show ?thesis .
qed

lemma dedupe_unique:
  assumes "dedupeSSLOrders s = Inr s'" "table_wf oID (ssl_orders s)"
  shows "unique_on oDomainID (ssl_orders s')"
proof -
  have "distinct (trows (ssl_orders s))"
    using assms(2) by (simp add: table_wf_def strict_sorted_iff distinct_map)
  moreover have "inj_on oDomainID {r. keep_order (oDomainID r) rs = Some r}" for rs
    by (rule inj_onI) (metis (mono_tags) mem_Collect_eq option.inject)
  ultimately show ?thesis
    unfolding unique_on_def dedupe_rows [OF assms]
    by (simp add: distinct_map) (rule inj_on_subset, assumption, auto)
qed

end
