(* ===== verification/Store_Secrets.thy ===== *)
theory Store_Secrets
  imports Store_Props
begin

text \<open>
  Database passwords at rest: what \<open>CreateDatabase\<close> seals, \<open>GetDatabase\<close> opens, and the start-up migration
  \<open>EncryptLegacySecrets\<close> changes no password a reader sees.
\<close>

definition box_ok :: "SecretBox \<Rightarrow> bool" where
  "box_ok b \<longleftrightarrow> (\<forall>nonce plain enc. box_Encrypt b nonce plain = Some enc \<longrightarrow> box_Decrypt b enc = Some plain)"

lemma legacy_secret_iff: "legacy_secret d \<longleftrightarrow> bDBPassword d \<noteq> [] \<and> \<not> HasPrefix (bDBPassword d) encPrefix"
  by (simp add: legacy_secret_def HasPrefix_def)

lemma open_seal:
  assumes "box_ok b" "sealSecret (Some b) nonce plain = Inr sealed" "plain \<noteq> []"
  shows "HasPrefix sealed encPrefix" "openSecret (Some b) sealed = Inr plain"
  using assms by (auto simp: sealSecret_def openSecret_def box_ok_def split: option.splits)

lemma open_empty [simp]: "openSecret box [] = Inr []"
  by (simp add: openSecret_def HasPrefix_def encPrefix_def)

lemma open_seal_any:
  assumes "box_ok b" "sealSecret (Some b) nonce plain = Inr sealed"
  shows "openSecret (Some b) sealed = Inr plain"
  using assms open_seal [OF assms] by (cases "plain = []") (auto simp: sealSecret_def)

text \<open>The effect of the migration loop: each listed row gets its own sealed password.\<close>

definition sealed_row :: "SecretBox option \<Rightarrow> (int \<Rightarrow> string) \<Rightarrow> Database list \<Rightarrow> Database \<Rightarrow> Database" where
  "sealed_row box nonces ps d = (case find (\<lambda>p. bID p = bID d) ps of None \<Rightarrow> d
     | Some p \<Rightarrow> (case sealSecret box (nonces (bID p)) (bDBPassword p) of Inl _ \<Rightarrow> d | Inr e \<Rightarrow> d\<lparr>bDBPassword := e\<rparr>))"

lemma seal_rows_map:
  assumes "seal_rows box nonces ps s = Inr s'" "distinct (map bID ps)"
  shows "s' = s\<lparr>databases := (databases s)\<lparr>trows := map (sealed_row box nonces ps) (trows (databases s))\<rparr>\<rparr>
    \<and> (\<forall>p\<in>set ps. is_ok (sealSecret box (nonces (bID p)) (bDBPassword p)))"
  using assms
proof (induction ps arbitrary: s)
  case Nil
  then show ?case by (simp add: sealed_row_def)
next
  case (Cons p ps)
  from Cons.prems(1) obtain e where e: "sealSecret box (nonces (bID p)) (bDBPassword p) = Inr e"
    "seal_rows box nonces ps (s\<lparr>databases := t_update (\<lambda>d. bID d = bID p) (\<lambda>d. d\<lparr>bDBPassword := e\<rparr>) (databases s)\<rparr>) = Inr s'"
    by (auto simp: bindR_Inr_iff)
  have none: "find (\<lambda>q. bID q = bID p) ps = None"
    using Cons.prems(2) by (simp add: find_None_iff) (metis image_eqI)
  have "sealed_row box nonces (p # ps) d =
      sealed_row box nonces ps (if bID d = bID p then d\<lparr>bDBPassword := e\<rparr> else d)" for d
    using none e(1) by (auto simp: sealed_row_def)
  then show ?case
    using Cons.IH [OF e(2)] Cons.prems(2) e(1) by (simp add: t_update_def comp_def)
qed

lemma Encrypt_rows:
  assumes "EncryptLegacySecrets (Some b) nonces s = Inr (n, s')" "table_wf bID (databases s)"
  defines "todo \<equiv> t_select legacy_secret (databases s)"
  shows "s' = s\<lparr>databases := (databases s)\<lparr>trows := map (sealed_row (Some b) nonces todo) (trows (databases s))\<rparr>\<rparr>"
    "\<forall>p\<in>set todo. is_ok (sealSecret (Some b) (nonces (bID p)) (bDBPassword p))" "n = length todo" "\<not> db_down s"
proof -
  have d: "distinct (map bID todo)"
    using assms(2) by (auto simp: todo_def t_select_def table_wf_def strict_sorted_iff intro: distinct_map_filter)
  show "s' = s\<lparr>databases := (databases s)\<lparr>trows := map (sealed_row (Some b) nonces todo) (trows (databases s))\<rparr>\<rparr>"
    "\<forall>p\<in>set todo. is_ok (sealSecret (Some b) (nonces (bID p)) (bDBPassword p))" "n = length todo" "\<not> db_down s"
    using assms(1) seal_rows_map [OF _ d]
    by (auto simp: EncryptLegacySecrets_def bindR_Inr_iff todo_def [symmetric] sealed_row_def [abs_def]
        split: if_splits)
qed

lemma sealed_row_cases:
  assumes "d \<in> set (trows t)" "table_wf bID t"
    "\<forall>p\<in>set (t_select legacy_secret t). is_ok (sealSecret box (nonces (bID p)) (bDBPassword p))"
  shows "sealed_row box nonces (t_select legacy_secret t) d =
    (if legacy_secret d then d\<lparr>bDBPassword := projr (sealSecret box (nonces (bID d)) (bDBPassword d))\<rparr> else d)"
proof (cases "legacy_secret d")
  case True
  have "find (\<lambda>p. bID p = bID d) (t_select legacy_secret t) = Some d"
    using True assms(1,2) t_get_Some_iff [of bID "t_delete (\<lambda>d. \<not> legacy_secret d) t" "bID d" d]
    by (simp add: t_get_def t_select_def)
  moreover have "is_ok (sealSecret box (nonces (bID d)) (bDBPassword d))"
    using assms(1,3) True by (auto simp: t_select_def)
  ultimately show ?thesis
    using True by (cases "sealSecret box (nonces (bID d)) (bDBPassword d)") (simp_all add: sealed_row_def)
next
  case False
  have "find (\<lambda>p. bID p = bID d) (t_select legacy_secret t) = None"
    using False assms(1,2) by (auto simp: find_None_iff t_select_def dest: table_wf_unique unique_onD)
  then show ?thesis using False by (simp add: sealed_row_def)
qed

lemma legacy_sealed:
  assumes "box_ok b" "legacy_secret d" "is_ok (sealSecret (Some b) nonce (bDBPassword d))"
  shows "\<not> legacy_secret (d\<lparr>bDBPassword := projr (sealSecret (Some b) nonce (bDBPassword d))\<rparr>)"
    "scanDatabase (Some b) (d\<lparr>bDBPassword := projr (sealSecret (Some b) nonce (bDBPassword d))\<rparr>) =
     scanDatabase (Some b) d"
proof -
  from assms(3) obtain e where e: "sealSecret (Some b) nonce (bDBPassword d) = Inr e"
    by (cases "sealSecret (Some b) nonce (bDBPassword d)") auto
  have "bDBPassword d \<noteq> []" "\<not> HasPrefix (bDBPassword d) encPrefix"
    using assms(2) by (simp_all add: legacy_secret_iff)
  with open_seal [OF assms(1) e] e
  show "\<not> legacy_secret (d\<lparr>bDBPassword := projr (sealSecret (Some b) nonce (bDBPassword d))\<rparr>)"
    "scanDatabase (Some b) (d\<lparr>bDBPassword := projr (sealSecret (Some b) nonce (bDBPassword d))\<rparr>) =
     scanDatabase (Some b) d"
    by (simp_all add: legacy_secret_iff scanDatabase_def openSecret_def)
qed

lemma GetDatabase_map:
  assumes "\<And>d. bID (f d) = bID d"
    and "\<And>d. d \<in> set (trows (databases s)) \<Longrightarrow> scanDatabase box (f d) = scanDatabase box d"
  shows "GetDatabase box (s\<lparr>databases := (databases s)\<lparr>trows := map f (trows (databases s))\<rparr>\<rparr>) i = GetDatabase box s i"
proof (cases "t_get bID i (databases s)")
  case None
  with assms(1) show ?thesis by (simp add: GetDatabase_def query_row_def t_get_def find_map_pres)
next
  case (Some d)
  then have "d \<in> set (trows (databases s))" by (auto dest: t_get_SomeD)
  with Some assms show ?thesis by (simp add: GetDatabase_def query_row_def t_get_def find_map_pres)
qed

lemma sealed_row_id [simp]: "bID (sealed_row box nonces ps d) = bID d"
  by (auto simp: sealed_row_def split: option.splits sum.splits)

section \<open>Properties\<close>

text \<open>A password written by \<open>CreateDatabase\<close> is read back unchanged by \<open>GetDatabase\<close> under the new row's id,
  whenever the secret box decrypts what it encrypts; and the column itself holds a sealed value, never the
  plain text.\<close>

theorem database_password_roundtrip:
  assumes "box_ok b" "schema_ok s" "bDBPassword d \<noteq> []"
    and "CreateDatabase (Some b) nonce s tm d = Inr (d', s')"
  shows "GetDatabase (Some b) s' (bID d') = Inr d' \<and>
    (\<forall>r\<in>set (trows (databases s')). bID r = bID d' \<longrightarrow> HasPrefix (bDBPassword r) encPrefix)"
proof -
  obtain e where e: "sealSecret (Some b) nonce (bDBPassword d) = Inr e"
    and s': "s' = s\<lparr>databases := t_insert (\<lambda>i. bID_update (\<lambda>_. i)) (d'\<lparr>bDBPassword := e\<rparr>) (databases s)\<rparr>"
    and d': "d' = d\<lparr>bID := tseq (databases s) + 1, bCreatedAt := rfc3339 tm\<rparr>" "\<not> db_down s"
    using assms(4) by (auto simp: CreateDatabase_def bindR_Inr_iff Let_def)
  have wf: "table_wf bID (databases s)" using assms(2) by (rule schema_okD)
  have "GetDatabase (Some b) s' (bID d') = Inr d'"
    using tb_databases.insert_get [OF wf, of "bID d'"] d' open_seal [OF assms(1) e assms(3)]
    by (simp add: s' GetDatabase_def query_row_def scanDatabase_def)
  moreover have "\<forall>r\<in>set (trows (databases s')). bID r = bID d' \<longrightarrow> HasPrefix (bDBPassword r) encPrefix"
    using open_seal [OF assms(1) e assms(3)] wf d' by (auto simp: s' table_wf_def)
  ultimately show ?thesis ..
qed

text \<open>The start-up migration \<open>EncryptLegacySecrets\<close> leaves every password a reader sees as it was, leaves no
  legacy row behind, reports how many rows it sealed, and does nothing when it is run again.\<close>

theorem legacy_migration:
  assumes "box_ok b" "schema_ok s"
    and "EncryptLegacySecrets (Some b) nonces s = Inr (n, s')"
  shows "GetDatabase (Some b) s' i = GetDatabase (Some b) s i \<and>
    \<not> t_exists legacy_secret (databases s') \<and> n = t_count legacy_secret (databases s) \<and>
    EncryptLegacySecrets (Some b) nonces' s' = Inr (0, s')"
proof -
  have wf: "table_wf bID (databases s)" using assms(2) by (rule schema_okD)
  let ?todo = "t_select legacy_secret (databases s)"
  note R = Encrypt_rows [OF assms(3) wf]
  have row: "scanDatabase (Some b) (sealed_row (Some b) nonces ?todo d) = scanDatabase (Some b) d
      \<and> \<not> legacy_secret (sealed_row (Some b) nonces ?todo d)" if "d \<in> set (trows (databases s))" for d
    using sealed_row_cases [OF that wf R(2)] legacy_sealed [OF assms(1), of d "nonces (bID d)"] R(2) that
    by (auto simp: t_select_def)
  have "GetDatabase (Some b) s' i = GetDatabase (Some b) s i"
    unfolding R(1) using row by (intro GetDatabase_map) simp_all
  moreover have none: "\<not> t_exists legacy_secret (databases s')"
    unfolding R(1) using row by (auto simp: t_exists_iff)
  moreover have "n = t_count legacy_secret (databases s)" using R(3) by (simp add: t_count_def)
  moreover have "EncryptLegacySecrets (Some b) nonces' s' = Inr (0, s')"
    using none R(1,4)
    by (auto simp: EncryptLegacySecrets_def query_def t_select_def t_exists_iff filter_empty_conv)
  ultimately show ?thesis by blast
qed

end
