(* ===== verification/Store_Keys.thy ===== *)
theory Store_Keys
  imports Store_Laws
begin

text \<open>
  Keys are never handed out twice: along any history of store calls the counter of a table never falls, and a row whose key is not
  above the counter of an earlier state was in the table then. A key that is free in some state stays free for ever.
\<close>

definition keys_fresh :: "('r \<Rightarrow> int) \<Rightarrow> 'r table \<Rightarrow> 'r table \<Rightarrow> bool" where
  "keys_fresh rid t t' \<longleftrightarrow> tseq t \<le> tseq t' \<and> (\<forall>r\<in>set (trows t'). rid r \<le> tseq t \<longrightarrow> rid r \<in> rid ` set (trows t))"

lemma keys_fresh_refl [simp]: "keys_fresh rid t t"
  by (simp add: keys_fresh_def)

lemma keys_fresh_trans: "keys_fresh rid t t' \<Longrightarrow> keys_fresh rid t' t'' \<Longrightarrow> keys_fresh rid t t''"
  unfolding keys_fresh_def by (fastforce elim!: imageE)

lemma keys_fresh_delete: "keys_fresh rid t0 t \<Longrightarrow> keys_fresh rid t0 (t_delete P t)"
  by (simp add: keys_fresh_def)

lemma keys_fresh_update: "keys_fresh rid t0 t \<Longrightarrow> (\<And>r. rid (f r) = rid r) \<Longrightarrow> keys_fresh rid t0 (t_update P f t)"
  by (auto simp: keys_fresh_def)

text \<open>Inserting goes through the interface of a table.\<close>

context sql_table
begin

lemma insert_fresh: "keys_fresh rid t0 t \<Longrightarrow> keys_fresh rid t0 (t_insert set_rid r t)"
  by (auto simp: keys_fresh_def rid_set)

end

lemmas insert_freshs = tb_packages.insert_fresh tb_users.insert_fresh tb_domains.insert_fresh tb_aliases.insert_fresh
  tb_zones.insert_fresh tb_records.insert_fresh tb_orders.insert_fresh tb_ftp.insert_fresh tb_databases.insert_fresh
  tb_providers.insert_fresh tb_audit.insert_fresh tb_targets.insert_fresh tb_attempts.insert_fresh tb_tokens.insert_fresh
  tb_maildomains.insert_fresh tb_mailboxes.insert_fresh tb_mailaliases.insert_fresh tb_cron.insert_fresh
  tb_updates.insert_fresh tb_containers.insert_fresh tb_ips.insert_fresh

definition no_key_reused :: "db \<Rightarrow> db \<Rightarrow> bool" where
  "no_key_reused s s' \<longleftrightarrow>
     keys_fresh pID (packages s) (packages s') \<and> keys_fresh uID (users s) (users s') \<and> keys_fresh dID (domains s) (domains s') \<and>
     keys_fresh alID (domain_aliases s) (domain_aliases s') \<and> keys_fresh zID (dns_zones s) (dns_zones s') \<and>
     keys_fresh rID (dns_records s) (dns_records s') \<and> keys_fresh oID (ssl_orders s) (ssl_orders s') \<and>
     keys_fresh fID (ftp_accounts s) (ftp_accounts s') \<and> keys_fresh bID (databases s) (databases s') \<and>
     keys_fresh vID (dns_providers s) (dns_providers s') \<and> keys_fresh aID (audit_log s) (audit_log s') \<and>
     keys_fresh tID (backup_targets s) (backup_targets s') \<and> keys_fresh lID (login_attempts s) (login_attempts s') \<and>
     keys_fresh kID (api_tokens s) (api_tokens s') \<and> keys_fresh mdID (mail_domains s) (mail_domains s') \<and>
     keys_fresh mbID (mailboxes s) (mailboxes s') \<and> keys_fresh maID (mail_aliases s) (mail_aliases s') \<and>
     keys_fresh jID (cron_jobs s) (cron_jobs s') \<and> keys_fresh xID (system_package_updates s) (system_package_updates s') \<and>
     keys_fresh cID (containers s) (containers s') \<and> keys_fresh iID (ips s) (ips s')"

lemma no_key_reused_refl [simp]: "no_key_reused s s"
  by (simp add: no_key_reused_def)

lemma no_key_reused_trans: "no_key_reused s s' \<Longrightarrow> no_key_reused s' s'' \<Longrightarrow> no_key_reused s s''"
  unfolding no_key_reused_def by (blast intro: keys_fresh_trans)

lemma fresh_upd:
  assumes "no_key_reused s0 s"
  shows "keys_fresh pID (packages s0) t1 \<Longrightarrow> no_key_reused s0 (s\<lparr>packages := t1\<rparr>)"
    "keys_fresh uID (users s0) t2 \<Longrightarrow> no_key_reused s0 (s\<lparr>users := t2\<rparr>)"
    "keys_fresh dID (domains s0) t3 \<Longrightarrow> no_key_reused s0 (s\<lparr>domains := t3\<rparr>)"
    "keys_fresh alID (domain_aliases s0) t4 \<Longrightarrow> no_key_reused s0 (s\<lparr>domain_aliases := t4\<rparr>)"
    "keys_fresh zID (dns_zones s0) t5 \<Longrightarrow> no_key_reused s0 (s\<lparr>dns_zones := t5\<rparr>)"
    "keys_fresh rID (dns_records s0) t6 \<Longrightarrow> no_key_reused s0 (s\<lparr>dns_records := t6\<rparr>)"
    "keys_fresh oID (ssl_orders s0) t7 \<Longrightarrow> no_key_reused s0 (s\<lparr>ssl_orders := t7\<rparr>)"
    "keys_fresh fID (ftp_accounts s0) t8 \<Longrightarrow> no_key_reused s0 (s\<lparr>ftp_accounts := t8\<rparr>)"
    "keys_fresh bID (databases s0) t9 \<Longrightarrow> no_key_reused s0 (s\<lparr>databases := t9\<rparr>)"
    "keys_fresh vID (dns_providers s0) t10 \<Longrightarrow> no_key_reused s0 (s\<lparr>dns_providers := t10\<rparr>)"
    "keys_fresh aID (audit_log s0) t11 \<Longrightarrow> no_key_reused s0 (s\<lparr>audit_log := t11\<rparr>)"
    "no_key_reused s0 (s\<lparr>sessions := l1\<rparr>)" "no_key_reused s0 (s\<lparr>totp_challenges := l2\<rparr>)" "no_key_reused s0 (s\<lparr>settings := l3\<rparr>)"
    "keys_fresh tID (backup_targets s0) t12 \<Longrightarrow> no_key_reused s0 (s\<lparr>backup_targets := t12\<rparr>)"
    "keys_fresh lID (login_attempts s0) t13 \<Longrightarrow> no_key_reused s0 (s\<lparr>login_attempts := t13\<rparr>)"
    "keys_fresh kID (api_tokens s0) t14 \<Longrightarrow> no_key_reused s0 (s\<lparr>api_tokens := t14\<rparr>)"
    "keys_fresh mdID (mail_domains s0) t15 \<Longrightarrow> no_key_reused s0 (s\<lparr>mail_domains := t15\<rparr>)"
    "keys_fresh mbID (mailboxes s0) t16 \<Longrightarrow> no_key_reused s0 (s\<lparr>mailboxes := t16\<rparr>)"
    "keys_fresh maID (mail_aliases s0) t17 \<Longrightarrow> no_key_reused s0 (s\<lparr>mail_aliases := t17\<rparr>)"
    "keys_fresh jID (cron_jobs s0) t18 \<Longrightarrow> no_key_reused s0 (s\<lparr>cron_jobs := t18\<rparr>)"
    "no_key_reused s0 (s\<lparr>suspension_actions := l4\<rparr>)"
    "keys_fresh xID (system_package_updates s0) t19 \<Longrightarrow> no_key_reused s0 (s\<lparr>system_package_updates := t19\<rparr>)"
    "keys_fresh cID (containers s0) t20 \<Longrightarrow> no_key_reused s0 (s\<lparr>containers := t20\<rparr>)"
    "keys_fresh iID (ips s0) t21 \<Longrightarrow> no_key_reused s0 (s\<lparr>ips := t21\<rparr>)"
    "no_key_reused s0 (s\<lparr>db_down := b\<rparr>)"
  using assms by (simp_all add: no_key_reused_def)

lemma no_key_reusedD:
  assumes "no_key_reused s s'"
  shows "keys_fresh pID (packages s) (packages s')" "keys_fresh uID (users s) (users s')" "keys_fresh dID (domains s) (domains s')"
    "keys_fresh alID (domain_aliases s) (domain_aliases s')" "keys_fresh zID (dns_zones s) (dns_zones s')"
    "keys_fresh rID (dns_records s) (dns_records s')" "keys_fresh oID (ssl_orders s) (ssl_orders s')"
    "keys_fresh fID (ftp_accounts s) (ftp_accounts s')" "keys_fresh bID (databases s) (databases s')"
    "keys_fresh vID (dns_providers s) (dns_providers s')" "keys_fresh aID (audit_log s) (audit_log s')"
    "keys_fresh tID (backup_targets s) (backup_targets s')" "keys_fresh lID (login_attempts s) (login_attempts s')"
    "keys_fresh kID (api_tokens s) (api_tokens s')" "keys_fresh mdID (mail_domains s) (mail_domains s')"
    "keys_fresh mbID (mailboxes s) (mailboxes s')" "keys_fresh maID (mail_aliases s) (mail_aliases s')"
    "keys_fresh jID (cron_jobs s) (cron_jobs s')" "keys_fresh xID (system_package_updates s) (system_package_updates s')"
    "keys_fresh cID (containers s) (containers s')" "keys_fresh iID (ips s) (ips s')"
  using assms unfolding no_key_reused_def by blast+

lemmas fresh_laws = keys_fresh_delete keys_fresh_update insert_freshs no_key_reusedD

lemma fresh_seal_rows: "seal_rows box nonces ps s = Inr s' \<Longrightarrow> no_key_reused s0 s \<Longrightarrow> no_key_reused s0 s'"
proof (induction ps arbitrary: s)
  case (Cons p ps)
  from Cons.prems(1) obtain enc where
    "seal_rows box nonces ps (s\<lparr>databases := t_update (\<lambda>d. bID d = bID p) (\<lambda>d. d\<lparr>bDBPassword := enc\<rparr>) (databases s)\<rparr>) = Inr s'"
    by (auto simp: bindR_Inr_iff)
  then show ?case
    by (rule Cons.IH) (use Cons.prems(2) in \<open>auto intro!: fresh_upd fresh_laws\<close>)
qed simp

lemma fresh_clear_other_defaults: "no_key_reused s0 s \<Longrightarrow> no_key_reused s0 (clear_other_defaults i s)"
  by (auto simp: clear_other_defaults_def intro!: fresh_upd fresh_laws)

lemma fresh_inserts:
  assumes "no_key_reused s0 s"
  shows "no_key_reused s0 (insert_record tm r s)" "no_key_reused s0 (insert_update tm u s)"
  using assms by (auto simp: insert_record_def insert_update_def intro!: fresh_upd fresh_laws)

lemma fresh_stmts:
  assumes "no_key_reused s0 s"
  shows "f \<in> set (DeleteDomain_stmts i) \<Longrightarrow> no_key_reused s0 (f s)" "f \<in> set (DeleteUser_stmts i) \<Longrightarrow> no_key_reused s0 (f s)"
  using assms by (auto simp: DeleteDomain_stmts_def DeleteUser_stmts_def intro!: fresh_upd fresh_laws)

lemma fresh_step: "store_step s s' \<Longrightarrow> no_key_reused s s'"
proof (induction rule: store_step.induct)
  case (st_EncryptLegacySecrets box nonces s n s')
  then show ?case
    by (auto simp: EncryptLegacySecrets_def bindR_Inr_iff dest: fresh_seal_rows [OF _ no_key_reused_refl] split: if_splits)
next
  case (st_DeleteDomain s i s')
  then show ?case by (auto simp: DeleteDomain_def intro: run_tx_inv [where I = "no_key_reused s"] fresh_stmts)
next
  case (st_DeleteUser s i s')
  then show ?case by (auto simp: DeleteUser_def intro: run_tx_inv [where I = "no_key_reused s"] fresh_stmts)
next
  case (st_ReplaceRecords s tm i rs s')
  then show ?case
    by (auto simp: ReplaceRecords_def intro!: run_tx_inv [where I = "no_key_reused s"] fresh_inserts fresh_upd fresh_laws)
next
  case (st_ReplacePackageUpdates s tm us s')
  then show ?case
    by (auto simp: ReplacePackageUpdates_def intro!: run_tx_inv [where I = "no_key_reused s"] fresh_inserts fresh_upd fresh_laws)
qed (auto simp: store_defs set_user_def Let_def bindR_Inr_iff
      split: if_splits intro!: fresh_clear_other_defaults fresh_inserts fresh_upd fresh_laws)

lemma fresh_steps: "store_step\<^sup>*\<^sup>* s s' \<Longrightarrow> no_key_reused s s'"
  by (induction rule: rtranclp_induct) (auto intro: no_key_reused_trans fresh_step)

lemma reach_steps_from: "store_step\<^sup>*\<^sup>* s s' \<Longrightarrow> store_reach s \<Longrightarrow> store_reach s'"
  by (induction rule: rtranclp_induct) (auto intro: reach_step)

end
