(* ===== verification/Store_Theorems.thy ===== *)
theory Store_Theorems
  imports Store_Secrets Store_Keys
begin

text \<open>
  The properties of the store that its callers rely on, with a concrete database on which
  each hypothesis holds.
\<close>

section \<open>Example rows\<close>

definition ex_user :: User where
  "ex_user = \<lparr>uID = 0, uUsername = ''alice'', uEmail = ''a@example.com'', uPasswordHash = ''h'', uRole = RoleUser,
     uPackageID = 1, uStatus = StatusActive, uOwnerID = 0, uHomeDir = ''/home/alice'', uQuotaDiskBytes = 0,
     uQuotaBandwidthBytes = 0, uCreatedAt = 0, uUpdatedAt = 0, uTOTPSecret = [], uTOTPEnabled = False,
     uTOTPBackupCodes = CodesEmpty\<rparr>"

definition ex_package :: Package where
  "ex_package = \<lparr>pID = 0, pName = ''default'', pDescription = [], pMaxDomains = 1, pMaxDatabases = 1,
     pMaxFTPAccounts = 1, pDiskQuotaBytes = 0, pBandwidthQuotaBytes = 0, pAllowSSL = True, pAllowDNS = True,
     pAllowTerminal = False, pAllowBackups = False, pAllowMail = True, pAllowWebmail = True,
     pAllowDatabases = True, pAllowFiles = True, pAllowFTP = True, pAllowCron = True, pAllowDocker = False,
     pMaxContainers = 0, pIsDefault = True, pCreatedAt = 0\<rparr>"

definition ex_domain :: Domain where
  "ex_domain = \<lparr>dID = 0, dUserID = 1, dDomain = ''a.test'', dDocumentRoot = ''/home/alice/a.test'', dPHPVersion = [],
     dWebServer = ''caddy'', dSSLEnabled = False, dSSLCertPath = [], dSSLKeyPath = [], dSSLProvider = [],
     dSSLAutoRenew = False, dProxyTarget = [], dPHPSettings = [], dPerf = perf_zero, dPHPPaths = [],
     dIPID = 0, dParentDomainID = 0, dCreatedAt = 0, dIPAddress = [], dUsername = []\<rparr>"

definition ex_database :: Database where
  "ex_database = \<lparr>bID = 0, bUserID = 1, bServer = ''mysql'', bName = ''shop'', bDBUser = ''shop'', bDBPassword = ''pw'',
     bCreatedAt = 0\<rparr>"

definition ex_mail_domain :: MailDomain where
  "ex_mail_domain = \<lparr>mdID = 0, mdDomainID = 1, mdDomain = ''a.test'', mdDKIMSelector = ''s'', mdDKIMPublicKey = ''k'',
     mdCreatedAt = 0\<rparr>"

definition ex_record :: DNSRecord where
  "ex_record = \<lparr>rID = 0, rZoneID = 1, rName = ''www'', rType = ''A'', rTTL = 300, rPriority = 0, rContent = ''192.0.2.1'',
     rProxied = False, rCreatedAt = 0\<rparr>"

definition ex_order :: "int \<Rightarrow> string \<Rightarrow> OrderRow" where
  "ex_order i status = \<lparr>oID = i, oDomainID = 1, oStatus = status, oProvider = ''letsencrypt'', oChallenge = ''http-01'',
     oCertPath = [], oKeyPath = [], oExpiresAt = None, oError = [], oCreatedAt = 0, oUpdatedAt = 0\<rparr>"

text \<open>A box that reverses the text.\<close>

definition ex_box :: SecretBox where
  "ex_box = \<lparr>box_Encrypt = (\<lambda>_ p. Some (rev p)), box_Decrypt = (\<lambda>e. Some (rev e))\<rparr>"

text \<open>Alice with a domain, a mail domain and a plain-text database password.\<close>

definition ex_db :: db where
  "ex_db = (case CreateUser db_empty 0 ex_user of Inl _ \<Rightarrow> db_empty | Inr (_, s1) \<Rightarrow>
     (case CreateDomain s1 0 ex_domain of Inl _ \<Rightarrow> db_empty | Inr (_, s2) \<Rightarrow>
     (case CreateMailDomain s2 0 ex_mail_domain of Inl _ \<Rightarrow> db_empty | Inr (_, s3) \<Rightarrow>
     (case CreateDatabase None [] s3 0 ex_database of Inl _ \<Rightarrow> db_empty | Inr (_, s4) \<Rightarrow> s4))))"

lemma reach_steps:
  assumes "store_reach s" shows "CreateUser s tm u = Inr (u', s') \<Longrightarrow> store_reach s'"
    "CreateDomain s tm d = Inr (d', s') \<Longrightarrow> store_reach s'"
    "CreateMailDomain s tm m = Inr (m', s') \<Longrightarrow> store_reach s'"
    "CreateDatabase box nonce s tm b = Inr (b', s') \<Longrightarrow> store_reach s'"
    "CreatePackage s tm p = Inr (p', s') \<Longrightarrow> store_reach s'"
  using assms by (blast intro: reach_step store_step.intros)+

lemma ex_db_reach: "store_reach ex_db"
  by (auto simp: ex_db_def intro: reach_empty split: sum.splits) (metis reach_empty reach_steps)

lemmas ex_rows = ex_user_def ex_domain_def ex_mail_domain_def ex_database_def ex_record_def

lemma ex_db_ops: "\<not> db_down ex_db"
  "map uID (trows (users ex_db)) = [1]" "map (\<lambda>d. (dID d, dUserID d)) (trows (domains ex_db)) = [(1, 1)]"
  "map (\<lambda>d. (mdID d, mdDomainID d, mdDomain d)) (trows (mail_domains ex_db)) = [(1, 1, ''a.test'')]"
  "map bDBPassword (trows (databases ex_db)) = [''pw'']" "map bUserID (trows (databases ex_db)) = [1]"
  by (simp_all add: ex_db_def store_defs sealSecret_def ex_rows Let_def db_empty_def exec_unique_def t_exists_def
      t_insert_def t_empty_def)

lemma ex_box_ok: "box_ok ex_box"
  by (simp add: box_ok_def ex_box_def)

section \<open>The schema\<close>

text \<open>C1: Whatever sequence of store calls is made, with outages of the database in between, every table keeps
  its constraints: keys ascend, and every \<open>UNIQUE\<close> column of the schema holds pairwise different values. And no key is
  handed out twice: from any state on, the counter of a table never falls, and a row whose key is not above the counter of the earlier state
  was in the table then, so that a key that has been deleted never comes back.\<close>

theorem store_schema_invariant: "store_reach s \<Longrightarrow> store_step\<^sup>*\<^sup>* s s' \<Longrightarrow> schema_ok s' \<and> no_key_reused s s'"
  using reach_schema reach_steps_from fresh_steps by blast

theorem store_schema_invariant_witness: "schema_ok ex_db \<and> map uID (trows (users ex_db)) = [1] \<and> no_key_reused ex_db (purged 1 ex_db)"
proof -
  have "DeleteUser ex_db 1 = Inr (purged 1 ex_db)" using ex_db_ops(1) by (simp add: DeleteUser_purged)
  then have "store_step\<^sup>*\<^sup>* ex_db (purged 1 ex_db)" by (blast intro: store_step.intros)
  then show ?thesis using store_schema_invariant [OF ex_db_reach] ex_db_ops by blast
qed

text \<open>There is never more than one default package, and a package created as the default is
  the one \<open>GetDefaultPackage\<close> returns from then on.\<close>

theorem one_default_package:
  assumes "store_reach s" "CreatePackage s tm p = Inr (p', s')" "pIsDefault p"
  shows "length (defaults s) \<le> 1 \<and> defaults s' = [pID p'] \<and> GetDefaultPackage s' = Inr p'"
proof -
  have sch: "schema_ok s" using assms(1) by (rule reach_schema)
  have le: "length (defaults s') \<le> 1"
    using reach_defaults [OF reach_step [OF assms(1) st_CreatePackage [OF assms(2)]]] .
  have "pID p' \<in> set (defaults s')"
    using assms(2,3) by (auto simp: CreatePackage_def Let_def defaults_alt clear_other_defaults_def)
  with le have "defaults s' = [pID p']" by (cases "defaults s'") auto
  then show ?thesis
    using reach_defaults [OF assms(1)] GetDefault_CreatePackage [OF assms(2,3) sch] by blast
qed

theorem one_default_package_witness:
  "\<exists>p' s'. CreatePackage ex_db 0 ex_package = Inr (p', s') \<and> GetDefaultPackage s' = Inr p'"
proof -
  have "\<not> t_exists (\<lambda>r. pName r = pName ex_package) (packages ex_db)"
    by (simp add: ex_db_def store_defs sealSecret_def Let_def db_empty_def exec_unique_def t_exists_def
        split: sum.splits)
  then obtain p' s' where c: "CreatePackage ex_db 0 ex_package = Inr (p', s')"
    using ex_db_ops(1) by (auto simp: CreatePackage_def Let_def exec_unique_def)
  have "pIsDefault ex_package" by (simp add: ex_package_def)
  from one_default_package [OF ex_db_reach c this] c show ?thesis by blast
qed

section \<open>Cascades\<close>

text \<open>C2: Deleting an account removes every row that belongs to it, directly or through its domains, zones and
  mail domains, and leaves every other account's rows exactly as they were. References that were sound stay sound: those of aliases, zones, records,
  certificate orders, domains, FTP accounts, databases, containers, jobs, tokens, sessions, challenges and suspension marks to what they belong to;
  those of mail domains, mailboxes and mail aliases, if no earlier deletion of a domain has left any behind; and the links of
  containers and sub-domains to a domain, if they stay within one account. The accounts a deleted reseller owned are not touched:
  they stay and keep naming the reseller, who is gone, as their owner.\<close>

theorem DeleteUser_complete:
  assumes "schema_ok s" "DeleteUser s uid = Inr s'"
  shows "account_view uid s' = no_rows \<and> (\<forall>v. v \<noteq> uid \<longrightarrow> account_view v s' = account_view v s)
    \<and> (refs_ok s \<longrightarrow> refs_ok s') \<and> (mail_refs_ok s \<longrightarrow> mail_refs_ok s') \<and> (links_own s \<longrightarrow> links_own s')
    \<and> (\<forall>r\<in>set (trows (users s)). uID r \<noteq> uid \<longrightarrow> r \<in> set (trows (users s'))) \<and> (\<forall>r\<in>set (trows (users s')). uID r \<noteq> uid)"
  using assms by (auto simp: DeleteUser_purged view_gone view_kept refs_purged mail_refs_purged links_purged) (simp_all add: purged_def)

theorem DeleteUser_complete_witness:
  "\<exists>s'. DeleteUser ex_db 1 = Inr s' \<and> account_view 1 s' = no_rows \<and> refs_ok s' \<and> mail_refs_ok s' \<and> links_own s'"
proof -
  have r: "refs_ok ex_db" "mail_refs_ok ex_db" "links_own ex_db"
    by (simp_all add: ex_db_def store_defs sealSecret_def ex_rows Let_def db_empty_def exec_unique_def t_exists_def
        t_insert_def t_empty_def refs_ok_def mail_refs_ok_def points_to_def links_own_def)
  have d: "DeleteUser ex_db 1 = Inr (purged 1 ex_db)" using ex_db_ops(1) by (simp add: DeleteUser_purged)
  from DeleteUser_complete [OF reach_schema [OF ex_db_reach] d] r d show ?thesis by blast
qed

text \<open>Deleting a domain removes its aliases, zones, records and certificate order, detaches the containers and
  the sub-domains that pointed at it, keeps every account's references intact and keeps all other domains.\<close>

theorem DeleteDomain_unlinks:
  assumes "refs_ok s" "i \<noteq> 0" "DeleteDomain s i = Inr s'"
  shows "\<not> links_to_domain i s' \<and> refs_ok s' \<and>
    map dDomain (trows (domains s')) = map dDomain (t_select (\<lambda>d. dID d \<noteq> i) (domains s))"
proof -
  have "map dDomain (filter (\<lambda>d. dID d \<noteq> i) (map (\<lambda>r. if dParentDomainID r = i then r\<lparr>dParentDomainID := 0\<rparr> else r) xs)) =
      map dDomain (filter (\<lambda>d. dID d \<noteq> i) xs)" for xs :: "DomainRow list"
    by (induction xs) auto
  then show ?thesis
    using assms by (auto simp: DeleteDomain_undomained undomained_no_links refs_undomained t_select_def)
      (simp add: undomained_def)
qed

theorem DeleteDomain_unlinks_witness: "\<exists>s'. DeleteDomain ex_db 1 = Inr s' \<and> \<not> links_to_domain 1 s' \<and> refs_ok s'"
proof -
  have r: "refs_ok ex_db"
    by (simp add: ex_db_def store_defs sealSecret_def ex_rows Let_def db_empty_def exec_unique_def t_exists_def
        t_insert_def t_empty_def refs_ok_def points_to_def)
  have d: "DeleteDomain ex_db 1 = Inr (undomained 1 ex_db)" using ex_db_ops(1) by (simp add: DeleteDomain_undomained)
  from DeleteDomain_unlinks [OF r _ d] d show ?thesis by simp
qed

text \<open>Deleting a domain does not delete its mail domain: the row stays behind without its domain, and
  enabling mail for the same name afterwards is refused with a conflict.\<close>

theorem DeleteDomain_leaves_mail:
  assumes "m \<in> set (trows (mail_domains s))" "mdDomainID m = i" "DeleteDomain s i = Inr s'"
    and "mdDomain d = mdDomain m"
  shows "\<not> mail_refs_ok s' \<and> CreateMailDomain s' tm d = Inl ErrConflict"
proof -
  have s': "s' = undomained i s" "\<not> db_down s" using assms(3) by (simp_all add: DeleteDomain_undomained)
  have "\<not> mail_refs_ok s'"
    using assms(1,2) unfolding s' mail_refs_ok_def points_to_iff by (auto simp: undomained_def)
  moreover have "t_exists (\<lambda>r. mdDomain r = mdDomain d) (mail_domains s')"
    using assms(1,4) by (auto simp: s' t_exists_iff)
  ultimately show ?thesis using s' by (simp add: CreateMailDomain_def exec_unique_def)
qed

theorem DeleteDomain_leaves_mail_witness:
  "\<exists>s'. DeleteDomain ex_db 1 = Inr s' \<and> CreateMailDomain s' 0 ex_mail_domain = Inl ErrConflict"
proof -
  obtain m where m: "m \<in> set (trows (mail_domains ex_db))" "mdDomainID m = 1" "mdDomain m = ''a.test''"
    using ex_db_ops(4) by (auto simp: map_eq_Cons_conv)
  have d: "DeleteDomain ex_db 1 = Inr (undomained 1 ex_db)" using ex_db_ops(1) by (simp add: DeleteDomain_undomained)
  have "mdDomain ex_mail_domain = mdDomain m" using m by (simp add: ex_mail_domain_def)
  from DeleteDomain_leaves_mail [OF m(1,2) d this] d show ?thesis by blast
qed

section \<open>Secrets: examples\<close>

theorem database_password_roundtrip_witness:
  "\<exists>d' s'. CreateDatabase (Some ex_box) [] db_empty 0 ex_database = Inr (d', s')
     \<and> GetDatabase (Some ex_box) s' (bID d') = Inr d' \<and> bDBPassword d' = ''pw''"
proof -
  obtain d' s' where c: "CreateDatabase (Some ex_box) [] db_empty 0 ex_database = Inr (d', s')"
    and p: "bDBPassword d' = ''pw''"
    by (simp add: CreateDatabase_def sealSecret_def ex_box_def ex_database_def Let_def exec_unique_def
        db_empty_def t_exists_def)
  have "bDBPassword ex_database \<noteq> []" by (simp add: ex_database_def)
  from database_password_roundtrip [OF ex_box_ok schema_ok_empty this c] c p show ?thesis by blast
qed

theorem legacy_migration_witness:
  "\<exists>s'. EncryptLegacySecrets (Some ex_box) (\<lambda>_. []) ex_db = Inr (1, s') \<and>
     GetDatabase (Some ex_box) s' 1 = GetDatabase (Some ex_box) ex_db 1"
proof -
  obtain b where b: "trows (databases ex_db) = [b]" "bDBPassword b = ''pw''"
    using ex_db_ops(5) by (auto simp: map_eq_Cons_conv)
  obtain s' where e: "EncryptLegacySecrets (Some ex_box) (\<lambda>_. []) ex_db = Inr (1, s')"
    using b ex_db_ops(1)
    by (simp add: EncryptLegacySecrets_def query_def t_select_def legacy_secret_def encPrefix_def sealSecret_def
        ex_box_def)
  from legacy_migration [OF ex_box_ok reach_schema [OF ex_db_reach] e] e show ?thesis by blast
qed

section \<open>Certificate orders, zones and records\<close>

text \<open>The clean-up that precedes the unique index leaves exactly one order per domain: the newest issued
  one if the domain has an issued order, otherwise the newest.\<close>

theorem dedupe_keeps_best:
  assumes "table_wf oID (ssl_orders s)" "dedupeSSLOrders s = Inr s'" "r \<in> set (trows (ssl_orders s))"
  shows "unique_on oDomainID (ssl_orders s') \<and>
    (\<exists>k\<in>set (trows (ssl_orders s')). oDomainID k = oDomainID r \<and> k \<in> set (trows (ssl_orders s)) \<and>
      (oStatus r = ''issued'' \<longrightarrow> oStatus k = ''issued'' \<and> oID r \<le> oID k) \<and>
      (oStatus k \<noteq> ''issued'' \<longrightarrow> oID r \<le> oID k))"
proof -
  let ?rs = "trows (ssl_orders s)"
  obtain k where k: "keep_order (oDomainID r) ?rs = Some k"
    using assms(3) keep_order_None [of "oDomainID r" ?rs] by (cases "keep_order (oDomainID r) ?rs") auto
  note K = keep_order_Some [OF k]
  have "k \<in> set (trows (ssl_orders s'))"
    using K(1,2) k unfolding dedupe_rows [OF assms(2,1)] by simp
  moreover have "order_rank k \<le> order_rank r" using K(3) assms(3) by blast
  then have "oStatus r = ''issued'' \<longrightarrow> oStatus k = ''issued'' \<and> oID r \<le> oID k"
    "oStatus k \<noteq> ''issued'' \<longrightarrow> oID r \<le> oID k"
    by (auto split: if_splits)
  ultimately show ?thesis using K(1,2) dedupe_unique [OF assms(2,1)] by blast
qed

theorem dedupe_keeps_best_witness:
  "\<exists>s'. dedupeSSLOrders (db_empty\<lparr>ssl_orders := \<lparr>trows = [ex_order 1 ''issued'', ex_order 2 ''failed''], tseq = 2\<rparr>\<rparr>) = Inr s'
     \<and> (\<exists>k\<in>set (trows (ssl_orders s')). oStatus k = ''issued'')"
proof -
  let ?s = "db_empty\<lparr>ssl_orders := \<lparr>trows = [ex_order 1 ''issued'', ex_order 2 ''failed''], tseq = 2\<rparr>\<rparr>"
  have wf: "table_wf oID (ssl_orders ?s)" by (simp add: table_wf_def ex_order_def)
  have r: "ex_order 1 ''issued'' \<in> set (trows (ssl_orders ?s))" by simp
  obtain s' where e: "dedupeSSLOrders ?s = Inr s'" by (simp add: dedupeSSLOrders_def exec_def db_empty_def)
  from dedupe_keeps_best [OF wf e r] e show ?thesis by (auto simp: ex_order_def)
qed

definition record_data :: "DNSRecord \<Rightarrow> string \<times> string \<times> int \<times> int \<times> string \<times> bool" where
  "record_data r = (rName r, rType r, rTTL r, rPriority r, rContent r, rProxied r)"

text \<open>The rows a run of inserts appends, with the ids they get.\<close>

fun inserted :: "gotime \<Rightarrow> int \<Rightarrow> int \<Rightarrow> DNSRecord list \<Rightarrow> DNSRecord list" where
  "inserted tm z n [] = []"
| "inserted tm z n (r # rs) = r\<lparr>rZoneID := z, rCreatedAt := rfc3339 tm, rID := n\<rparr> # inserted tm z (n + 1) rs"

lemma run_insert_records:
  "trows (dns_records (run_tx (map (\<lambda>r. insert_record tm (r\<lparr>rZoneID := z\<rparr>)) rs) s)) =
     trows (dns_records s) @ inserted tm z (tseq (dns_records s) + 1) rs"
  by (induction rs arbitrary: s) (simp_all add: insert_record_def algebra_simps)

lemma run_insert_down: "db_down (run_tx (map (\<lambda>r. insert_record tm (r\<lparr>rZoneID := z\<rparr>)) rs) s) = db_down s"
  by (induction rs arbitrary: s) (simp_all add: insert_record_def)

lemma inserted_data: "map record_data (inserted tm z n rs) = map record_data rs"
  "r \<in> set (inserted tm z n rs) \<Longrightarrow> rZoneID r = z"
  by (induction rs arbitrary: n) (auto simp: record_data_def)

text \<open>\<open>ReplaceRecords\<close> makes the zone hold exactly the given records, whatever zone they named and whatever
  the zone held before, and no other zone changes.\<close>

theorem ReplaceRecords_exact:
  assumes "ReplaceRecords s tm z rs = Inr s'"
  shows "(\<exists>out. ListRecords s' z = Inr out \<and> mset (map record_data out) = mset (map record_data rs)) \<and>
    (\<forall>y. y \<noteq> z \<longrightarrow> ListRecords s' y = ListRecords s y)"
proof -
  have down: "\<not> db_down s" "\<not> db_down s'" using assms run_insert_down by (auto simp: ReplaceRecords_def)
  have rows: "trows (dns_records s') = filter (\<lambda>r. rZoneID r \<noteq> z) (trows (dns_records s)) @
      inserted tm z (tseq (dns_records s) + 1) rs" (is "_ = ?old @ ?new")
    using assms by (auto simp: ReplaceRecords_def run_insert_records)
  have new: "filter (\<lambda>r. rZoneID r = y) ?new = (if y = z then ?new else [])" for y
    using inserted_data(2) by (auto simp: filter_id_conv filter_empty_conv)
  have "filter (\<lambda>r. rZoneID r = z) ?old = []" by (simp add: filter_empty_conv)
  moreover have "filter (\<lambda>r. rZoneID r = y) ?old = filter (\<lambda>r. rZoneID r = y) (trows (dns_records s))" if "y \<noteq> z" for y
    using that by (auto intro: filter_cong)
  ultimately show ?thesis
    using down by (auto simp: ListRecords_def query_def t_select_def rows new simp del: filter_filter
        simp flip: inserted_data(1) [of tm z "tseq (dns_records s) + 1" rs])
qed

theorem ReplaceRecords_exact_witness:
  "\<exists>s' out. ReplaceRecords db_empty 0 7 [ex_record] = Inr s' \<and> ListRecords s' 7 = Inr out
     \<and> mset (map record_data out) = {#record_data ex_record#}"
proof -
  obtain s' where e: "ReplaceRecords db_empty 0 7 [ex_record] = Inr s'"
    by (simp add: ReplaceRecords_def exec_def db_empty_def)
  from ReplaceRecords_exact [OF e] e show ?thesis by auto
qed

text \<open>\<open>UpdateZone\<close> loses the time of the last synchronisation: it hands the time to the driver as a Go value,
  which the reader cannot parse, so after changing a zone's provider the zone reads as never synchronised.\<close>

theorem UpdateZone_forgets_sync:
  assumes "schema_ok s" "GetZone s i = Inr z" "UpdateZone s (z\<lparr>zProvider := p\<rparr>) = Inr s'"
  shows "\<exists>z'. GetZone s' i = Inr z' \<and> zProvider z' = p \<and> zSyncedAt z' = None"
proof -
  obtain r where r: "t_get zID i (dns_zones s) = Some r" "z = scanZone s r" "\<not> db_down s"
    using assms(2) by (auto simp: GetZone_def)
  have "zID r = i" using r(1) by (auto dest: t_get_SomeD)
  then show ?thesis
    using r assms(3)
    by (auto simp: UpdateZone_def GetZone_def query_row_def t_get_update scanZone_def read_synced_def
        ZoneBase.defs DNSZone.defs split: option.splits)
qed

definition ex_zone_db :: db where
  "ex_zone_db = db_empty\<lparr>dns_zones := \<lparr>trows = [\<lparr>zID = 1, zDomainID = 1, zProvider = ''local'', zProviderZoneID = [],
     zCreatedAt = 0, zSyncedText = Some (Rfc 5)\<rparr>], tseq = 1\<rparr>\<rparr>"

theorem UpdateZone_forgets_sync_witness:
  "\<exists>z s' z'. GetZone ex_zone_db 1 = Inr z \<and> zSyncedAt z = Some (seconds 5) \<and>
     UpdateZone ex_zone_db (z\<lparr>zProvider := ''cloudflare''\<rparr>) = Inr s' \<and> GetZone s' 1 = Inr z' \<and> zSyncedAt z' = None"
proof -
  have sch: "schema_ok ex_zone_db"
    using schema_ok_empty by (auto simp: ex_zone_db_def table_wf_def intro!: schema_upd)
  obtain z where z: "GetZone ex_zone_db 1 = Inr z" "zSyncedAt z = Some (seconds 5)"
    by (auto simp: GetZone_def ex_zone_db_def query_row_def db_empty_def t_get_def scanZone_def read_synced_def
        parse_rfc3339_def ZoneBase.defs DNSZone.defs)
  obtain s' where u: "UpdateZone ex_zone_db (z\<lparr>zProvider := ''cloudflare''\<rparr>) = Inr s'"
    by (simp add: UpdateZone_def exec_def ex_zone_db_def db_empty_def)
  from UpdateZone_forgets_sync [OF sch z(1) u] z u show ?thesis by blast
qed

end
