(* ===== verification/Totp.thy ===== *)
theory Totp
  imports Prelude "HOL-Library.Word"
begin

text \<open>
  RFC 6238 codes and recovery codes: \<^verbatim>\<open>auth/totp.go\<close>, with the parts of the Go library it uses (base 32 without
  padding, SHA-1, HMAC, big-endian integers, \<open>fmt\<close> with \<open>%0*d\<close>) written out on machine words, so that codes
  evaluate. A byte is an \<open>8 word\<close>. The random source is an argument: the bytes it delivers, or \<open>None\<close> if it fails.
\<close>

unbundle bit_operations_syntax

section \<open>Bytes\<close>

type_synonym byte = "8 word"

definition bytes_of :: "string \<Rightarrow> byte list" where
  "bytes_of s = map (\<lambda>c. word_of_nat (of_char c)) s"

fun be32 :: "byte list \<Rightarrow> 32 word" where
  "be32 bs = foldl (\<lambda>acc b. push_bit 8 acc OR ucast b) 0 bs"

definition put32 :: "32 word \<Rightarrow> byte list" where
  "put32 w = [ucast (drop_bit 24 w), ucast (drop_bit 16 w), ucast (drop_bit 8 w), ucast w]"

definition PutUint64 :: "64 word \<Rightarrow> byte list" where
  "PutUint64 w = map (\<lambda>i. ucast (drop_bit i w)) [56, 48, 40, 32, 24, 16, 8, 0]"

section \<open>SHA-1 and HMAC\<close>

definition sha1_f :: "nat \<Rightarrow> 32 word \<Rightarrow> 32 word \<Rightarrow> 32 word \<Rightarrow> 32 word" where
  "sha1_f t b c d =
    (if t < 20 then (b AND c) OR (NOT b AND d)
     else if t < 40 then b XOR c XOR d
     else if t < 60 then (b AND c) OR (b AND d) OR (c AND d)
     else b XOR c XOR d)"

definition sha1_k :: "nat \<Rightarrow> 32 word" where
  "sha1_k t = (if t < 20 then 0x5a827999 else if t < 40 then 0x6ed9eba1
     else if t < 60 then 0x8f1bbcdc else 0xca62c1d6)"

text \<open>The message schedule, newest word first.\<close>

fun sha1_schedule :: "nat \<Rightarrow> 32 word list \<Rightarrow> 32 word list" where
  "sha1_schedule 0 ws = ws"
| "sha1_schedule (Suc n) ws =
     sha1_schedule n (word_rotl 1 (ws ! 2 XOR ws ! 7 XOR ws ! 13 XOR ws ! 15) # ws)"

type_synonym sha1_state = "32 word \<times> 32 word \<times> 32 word \<times> 32 word \<times> 32 word"

fun sha1_rounds :: "nat \<Rightarrow> 32 word list \<Rightarrow> sha1_state \<Rightarrow> sha1_state" where
  "sha1_rounds t [] st = st"
| "sha1_rounds t (w # ws) (a, b, c, d, e) =
     sha1_rounds (Suc t) ws (word_rotl 5 a + sha1_f t b c d + e + sha1_k t + w, a, word_rotl 30 b, c, d)"

fun chunks :: "nat \<Rightarrow> nat \<Rightarrow> 'a list \<Rightarrow> 'a list list" where
  "chunks 0 k xs = []"
| "chunks (Suc n) k xs = take k xs # chunks n k (drop k xs)"

definition sha1_block :: "sha1_state \<Rightarrow> byte list \<Rightarrow> sha1_state" where
  "sha1_block st bs =
    (let ws = rev (sha1_schedule 64 (rev (map be32 (chunks 16 4 bs)))) in
     case st of (a, b, c, d, e) \<Rightarrow> case sha1_rounds 0 ws st of (a', b', c', d', e') \<Rightarrow>
       (a + a', b + b', c + c', d + d', e + e'))"

definition sha1_pad :: "byte list \<Rightarrow> byte list" where
  "sha1_pad m = m @ [0x80] @ replicate ((119 - length m mod 64) mod 64) 0 @ PutUint64 (word_of_nat (8 * length m))"

definition sha1_Sum :: "byte list \<Rightarrow> byte list" where
  "sha1_Sum m = (let p = sha1_pad m in
    case foldl sha1_block (0x67452301, 0xefcdab89, 0x98badcfe, 0x10325476, 0xc3d2e1f0) (chunks (length p div 64) 64 p) of
      (a, b, c, d, e) \<Rightarrow> concat (map put32 [a, b, c, d, e]))"

definition hmac_sha1 :: "byte list \<Rightarrow> byte list \<Rightarrow> byte list" where
  "hmac_sha1 key msg =
    (let k = (if length key > 64 then sha1_Sum key else key);
         k' = k @ replicate (64 - length k) 0
     in sha1_Sum (map (\<lambda>b. b XOR 0x5c) k' @ sha1_Sum (map (\<lambda>b. b XOR 0x36) k' @ msg)))"

lemma length_put32 [simp]: "length (put32 w) = 4"
  by (simp add: put32_def)

lemma length_sha1_Sum [simp]: "length (sha1_Sum m) = 20"
  by (simp add: sha1_Sum_def Let_def split: prod.splits)

lemma length_hmac_sha1 [simp]: "length (hmac_sha1 k m) = 20"
  by (simp add: hmac_sha1_def Let_def)

section \<open>Base 32 without padding\<close>

definition b32_alphabet :: string where
  "b32_alphabet = ''ABCDEFGHIJKLMNOPQRSTUVWXYZ234567''"

definition b32_char :: "byte \<Rightarrow> char" where
  "b32_char b = b32_alphabet ! (unat (b AND 31))"

definition b32_value :: "char \<Rightarrow> byte option" where
  "b32_value c = (case find (\<lambda>i. b32_alphabet ! i = c) [0..<32] of None \<Rightarrow> None | Some i \<Rightarrow> Some (word_of_nat i))"

text \<open>The encoder, five bytes at a time; a shorter last group gives 2, 4, 5 or 7 characters.\<close>

definition b32_group :: "byte \<Rightarrow> byte \<Rightarrow> byte \<Rightarrow> byte \<Rightarrow> byte \<Rightarrow> string" where
  "b32_group b0 b1 b2 b3 b4 = map b32_char
    [drop_bit 3 b0, push_bit 2 b0 OR drop_bit 6 b1, drop_bit 1 b1, push_bit 4 b1 OR drop_bit 4 b2,
     push_bit 1 b2 OR drop_bit 7 b3, drop_bit 2 b3, push_bit 3 b3 OR drop_bit 5 b4, b4]"

fun b32_EncodeToString :: "byte list \<Rightarrow> string" where
  "b32_EncodeToString [] = []"
| "b32_EncodeToString [b0] = take 2 (b32_group b0 0 0 0 0)"
| "b32_EncodeToString [b0, b1] = take 4 (b32_group b0 b1 0 0 0)"
| "b32_EncodeToString [b0, b1, b2] = take 5 (b32_group b0 b1 b2 0 0)"
| "b32_EncodeToString [b0, b1, b2, b3] = take 7 (b32_group b0 b1 b2 b3 0)"
| "b32_EncodeToString (b0 # b1 # b2 # b3 # b4 # bs) = b32_group b0 b1 b2 b3 b4 @ b32_EncodeToString bs"

text \<open>The decoder, eight characters at a time: every character must be in the alphabet; a last group of
  1, 3 or 6 characters adds no byte.\<close>

definition b32_pack :: "byte list \<Rightarrow> byte list" where
  "b32_pack d = (let v = (\<lambda>i. if i < length d then d ! i else 0) in
    take (if length d = 8 then 5 else if length d = 7 then 4 else if length d = 5 then 3
          else if length d = 4 then 2 else if length d = 2 then 1 else 0)
     [push_bit 3 (v 0) OR drop_bit 2 (v 1), push_bit 6 (v 1) OR push_bit 1 (v 2) OR drop_bit 4 (v 3),
      push_bit 4 (v 3) OR drop_bit 1 (v 4), push_bit 7 (v 4) OR push_bit 2 (v 5) OR drop_bit 3 (v 6),
      push_bit 5 (v 6) OR v 7])"

fun b32_groups :: "byte list \<Rightarrow> byte list" where
  "b32_groups (d0 # d1 # d2 # d3 # d4 # d5 # d6 # d7 # ds) = b32_pack [d0, d1, d2, d3, d4, d5, d6, d7] @ b32_groups ds"
| "b32_groups ds = b32_pack ds"

fun b32_values :: "string \<Rightarrow> byte list option" where
  "b32_values [] = Some []"
| "b32_values (c # cs) = (case b32_value c of None \<Rightarrow> None
     | Some v \<Rightarrow> map_option ((#) v) (b32_values cs))"

definition b32_DecodeString :: "string \<Rightarrow> byte list option" where
  "b32_DecodeString s = map_option b32_groups (b32_values (filter (\<lambda>c. c \<noteq> CHR 0x0A \<and> c \<noteq> CHR 0x0D) s))"

section \<open>Codes\<close>

abbreviation totpDigits :: nat where "totpDigits \<equiv> 6"
abbreviation totpPeriod :: int where "totpPeriod \<equiv> seconds 30"

definition GenerateTOTPSecret :: "byte list option \<Rightarrow> string option" where
  "GenerateTOTPSecret rnd = map_option b32_EncodeToString rnd"

text \<open>Dynamic truncation (RFC 4226, section 5.3).\<close>

definition truncate_hash :: "byte list \<Rightarrow> 32 word" where
  "truncate_hash mac =
    (let offset = unat (last mac AND 0x0f) in
     push_bit 24 (ucast (mac ! offset AND 0x7f)) OR push_bit 16 (ucast (mac ! (offset + 1)))
     OR push_bit 8 (ucast (mac ! (offset + 2))) OR ucast (mac ! (offset + 3)))"

fun pow10 :: "nat \<Rightarrow> 32 word" where
  "pow10 0 = 1"
| "pow10 (Suc n) = pow10 n * 10"

definition totp_counter :: "gotime \<Rightarrow> 64 word" where
  "totp_counter t = word_of_int (t div nanos) div 30"

definition totpCodeAt :: "string \<Rightarrow> gotime \<Rightarrow> string option" where
  "totpCodeAt secret t =
    (case b32_DecodeString (ToUpper (TrimSpace secret)) of None \<Rightarrow> None
     | Some key \<Rightarrow>
         let sum = hmac_sha1 key (PutUint64 (totp_counter t)) in
         Some (zero_padded totpDigits (unat (truncate_hash sum mod pow10 totpDigits))))"

text \<open>The loop over the skews \<open>-1, 0, 1\<close>; a secret that does not decode ends it.\<close>

fun try_skews :: "string \<Rightarrow> string \<Rightarrow> gotime \<Rightarrow> int list \<Rightarrow> bool" where
  "try_skews secret code now [] = False"
| "try_skews secret code now (k # ks) =
     (case totpCodeAt secret (now + k * totpPeriod) of None \<Rightarrow> False
      | Some want \<Rightarrow> want = code \<or> try_skews secret code now ks)"

definition ValidateTOTPCode :: "string \<Rightarrow> gotime \<Rightarrow> string \<Rightarrow> bool" where
  "ValidateTOTPCode secret now code =
    (let code = TrimSpace code in length code = totpDigits \<and> try_skews secret code now [- 1, 0, 1])"

section \<open>Recovery codes\<close>

definition backupCodeAlphabet :: string where
  "backupCodeAlphabet = ''ABCDEFGHJKMNPQRSTUVWXYZ23456789''"

definition backup_char :: "byte \<Rightarrow> char" where
  "backup_char b = backupCodeAlphabet ! (unat b mod length backupCodeAlphabet)"

definition backup_code :: "byte list \<Rightarrow> string" where
  "backup_code raw = map backup_char (take 5 raw) @ (if length raw > 5 then ''-'' else []) @ map backup_char (drop 5 raw)"

text \<open>\<open>GenerateBackupCodes n\<close> reads ten random bytes per code; \<open>rnds\<close> are the successive reads.\<close>

fun GenerateBackupCodes :: "nat \<Rightarrow> byte list option list \<Rightarrow> string list option" where
  "GenerateBackupCodes 0 rnds = Some []"
| "GenerateBackupCodes (Suc n) (Some raw # rnds) = map_option ((#) (backup_code raw)) (GenerateBackupCodes n rnds)"
| "GenerateBackupCodes (Suc n) rnds = None"

section \<open>The enrolment URI\<close>

text \<open>\<open>url.PathEscape\<close> and \<open>url.QueryEscape\<close>: letters, digits and \<open>-_.~\<close> stay; a path segment also keeps
  \<open>$&+:=@\<close>; a query turns a space into \<open>+\<close>; every other byte becomes \<open>%XX\<close>.\<close>

definition is_alnum :: "char \<Rightarrow> bool" where
  "is_alnum c \<longleftrightarrow> (let n = (of_char c :: nat) in
     (48 \<le> n \<and> n \<le> 57) \<or> (65 \<le> n \<and> n \<le> 90) \<or> (97 \<le> n \<and> n \<le> 122))"

definition hex_upper :: "nat \<Rightarrow> char" where
  "hex_upper n = ''0123456789ABCDEF'' ! (n mod 16)"

definition percent :: "char \<Rightarrow> string" where
  "percent c = (let n = (of_char c :: nat) in [CHR ''%'', hex_upper (n div 16), hex_upper n])"

definition PathEscape :: "string \<Rightarrow> string" where
  "PathEscape s = concat (map (\<lambda>c. if is_alnum c \<or> c \<in> set ''-_.~$&+:=@'' then [c] else percent c) s)"

definition QueryEscape :: "string \<Rightarrow> string" where
  "QueryEscape s = concat (map (\<lambda>c. if is_alnum c \<or> c \<in> set ''-_.~'' then [c]
     else if c = CHR '' '' then ''+'' else percent c) s)"

text \<open>\<open>url.Values.Encode\<close> writes the keys in order.\<close>

definition query_encode :: "(string \<times> string) list \<Rightarrow> string" where
  "query_encode kvs = concat (map (\<lambda>(i, k, v). (if i = 0 then [] else ''&'') @ QueryEscape k @ ''='' @ QueryEscape v)
     (enumerate 0 (sort_key fst kvs)))"

definition TOTPURI :: "string \<Rightarrow> string \<Rightarrow> string \<Rightarrow> string" where
  "TOTPURI secret accountName issuer =
    ''otpauth://totp/'' @ PathEscape issuer @ '':'' @ PathEscape accountName @ ''?'' @
    query_encode [(''secret'', secret), (''issuer'', issuer), (''algorithm'', ''SHA1''),
      (''digits'', decimal totpDigits), (''period'', decimal 30)]"

end
