(* ===== verification/Auth.thy ===== *)
theory Auth
  imports Totp Store_Accounts
begin

text \<open>
  The authentication manager, \<^verbatim>\<open>auth/auth.go\<close>: password login with its three lockouts, the second factor,
  sessions, support sessions (impersonation) and revocation.

  bcrypt and the JWT library are third-party: the record \<open>Lib\<close> holds the functions the code calls. Random
  bytes and bcrypt salts are arguments. The state is the store and the failed-login log file. A call reads the
  clock once (\<open>tm\<close>). \<open>Login\<close> returns the challenge id together with \<open>ErrTOTPRequired\<close>, so that error carries it.
\<close>

datatype auth_error = ErrInvalidCredentials | ErrInvalidToken | ErrSuspended | ErrForbidden | ErrLockedOut
  | ErrTOTPRequired string | ErrTOTPNotEnrolled | ErrTOTPAlreadyEnabled | ErrTOTPInvalidCode
  | ErrRandom | ErrHash | ErrSign | ErrNotImpersonated | ErrStore store_error

abbreviation lockoutThreshold :: nat where "lockoutThreshold \<equiv> 5"
abbreviation userLockoutThreshold :: nat where "userLockoutThreshold \<equiv> 15"
abbreviation ipLockoutThreshold :: nat where "ipLockoutThreshold \<equiv> 30"
abbreviation knownAddressWindow :: int where "knownAddressWindow \<equiv> hours (30 * 24)"
abbreviation lockoutWindow :: int where "lockoutWindow \<equiv> minutes 15"
abbreviation totpChallengeTTL :: int where "totpChallengeTTL \<equiv> minutes 5"
abbreviation totpBackupCodes :: nat where "totpBackupCodes \<equiv> 8"

text \<open>The registered claims the code sets; times have second precision (\<open>jwt.NumericDate\<close>).\<close>

record Claims =
  Username :: string
  Role :: string
  Impersonator :: int
  SessionID :: string
  Subject :: int
  IssuedAt :: stamp
  ExpiresAt :: stamp
  Issuer :: string

text \<open>\<open>bcryptGenerate salt password\<close> fails for passwords over 72 bytes; \<open>jwtSign secret claims\<close>;
  \<open>jwtParse secret issuer now token\<close> is \<open>ParseWithClaims\<close> with the HS256 restriction.\<close>

record Lib =
  bcryptGenerate :: "string \<Rightarrow> string \<Rightarrow> string option"
  bcryptCompare :: "string \<Rightarrow> string \<Rightarrow> bool"
  jwtSign :: "string \<Rightarrow> Claims \<Rightarrow> string option"
  jwtParse :: "string \<Rightarrow> string \<Rightarrow> gotime \<Rightarrow> string \<Rightarrow> Claims option"

record Manager =
  m_secret :: string
  m_ttl :: int
  m_lib :: Lib

record AuthState =
  ast_db :: db
  ast_log :: string
  ast_log_opens :: bool

definition New :: "Lib \<Rightarrow> string \<Rightarrow> int \<Rightarrow> Manager option" where
  "New lib sec ttl = (if length sec < 16 then None else Some \<lparr>m_secret = sec, m_ttl = ttl, m_lib = lib\<rparr>)"

definition HashPassword :: "Lib \<Rightarrow> string \<Rightarrow> string \<Rightarrow> string option" where
  "HashPassword lib salt password = bcryptGenerate lib salt password"

definition CheckPassword :: "Lib \<Rightarrow> string \<Rightarrow> string \<Rightarrow> bool" where
  "CheckPassword lib hash password = bcryptCompare lib hash password"

section \<open>Failed attempts\<close>

text \<open>\<open>err == nil && n >= limit\<close>\<close>

definition at_least :: "nat res \<Rightarrow> nat \<Rightarrow> bool" where
  "at_least r limit \<longleftrightarrow> (case r of Inl _ \<Rightarrow> False | Inr n \<Rightarrow> n \<ge> limit)"

definition lockedOut :: "db \<Rightarrow> gotime \<Rightarrow> string \<Rightarrow> string \<Rightarrow> bool" where
  "lockedOut s tm username ip =
    (let since = tm - lockoutWindow in
     if at_least (CountRecentFailures s username ip since) lockoutThreshold then True
     else if at_least (CountRecentFailuresFromIP s ip since) ipLockoutThreshold then True
     else if at_least (CountRecentFailuresForUser s username since) userLockoutThreshold
       then \<not> (case HasRecentSuccess s username ip (tm - knownAddressWindow) of Inl _ \<Rightarrow> False | Inr known \<Rightarrow> known)
     else False)"

text \<open>The log line; \<open>show_time\<close> is \<open>Format(time.RFC3339)\<close>.\<close>

definition log_line :: "(stamp \<Rightarrow> string) \<Rightarrow> gotime \<Rightarrow> string \<Rightarrow> string \<Rightarrow> string" where
  "log_line show_time tm username ip =
    show_time (rfc3339 tm) @ '' aegis: authentication failure for '' @ username @ '' from '' @ ip @ [CHR 0x0A]"

definition logFailedAttempt :: "(stamp \<Rightarrow> string) \<Rightarrow> gotime \<Rightarrow> string \<Rightarrow> string \<Rightarrow> AuthState \<Rightarrow> AuthState" where
  "logFailedAttempt show_time tm username ip st =
    (if ast_log_opens st then st\<lparr>ast_log := ast_log st @ log_line show_time tm username ip\<rparr> else st)"

text \<open>\<open>_ = m.store.RecordLoginAttempt(\<dots>)\<close> and the other store calls whose error is dropped.\<close>

definition record_attempt :: "gotime \<Rightarrow> string \<Rightarrow> string \<Rightarrow> bool \<Rightarrow> AuthState \<Rightarrow> AuthState" where
  "record_attempt tm username ip ok st =
    st\<lparr>ast_db := ignore_err (ast_db st) (RecordLoginAttempt (ast_db st) tm username ip ok)\<rparr>"

definition drop_challenge :: "string \<Rightarrow> AuthState \<Rightarrow> AuthState" where
  "drop_challenge c st = st\<lparr>ast_db := ignore_err (ast_db st) (DeleteTOTPChallenge (ast_db st) c)\<rparr>"

definition ConfirmPassword ::
  "Manager \<Rightarrow> (stamp \<Rightarrow> string) \<Rightarrow> AuthState \<Rightarrow> gotime \<Rightarrow> User \<Rightarrow> string \<Rightarrow> string \<Rightarrow> (auth_error + unit) \<times> AuthState" where
  "ConfirmPassword m show_time st tm u password ip =
    (if lockedOut (ast_db st) tm (uUsername u) ip then (Inl ErrLockedOut, st)
     else if password = [] \<or> \<not> CheckPassword (m_lib m) (uPasswordHash u) password
     then (Inl ErrInvalidCredentials, logFailedAttempt show_time tm (uUsername u) ip (record_attempt tm (uUsername u) ip False st))
     else (Inr (), st))"

section \<open>Tokens\<close>

definition hex_digit :: "nat \<Rightarrow> char" where
  "hex_digit n = ''0123456789abcdef'' ! (n mod 16)"

definition hex_EncodeToString :: "byte list \<Rightarrow> string" where
  "hex_EncodeToString bs = concat (map (\<lambda>b. [hex_digit (unat b div 16), hex_digit (unat b)]) bs)"

definition newSessionID :: "byte list option \<Rightarrow> string option" where
  "newSessionID rnd = map_option hex_EncodeToString rnd"

definition mint :: "Manager \<Rightarrow> gotime \<Rightarrow> User \<Rightarrow> string \<Rightarrow> int \<Rightarrow> string option" where
  "mint m tm u sessionID impersonator = jwtSign (m_lib m) (m_secret m)
     \<lparr>Username = uUsername u, Role = uRole u, Impersonator = impersonator, SessionID = sessionID,
      Subject = uID u, IssuedAt = rfc3339 tm, ExpiresAt = rfc3339 (tm + m_ttl m), Issuer = ''aegis''\<rparr>"

definition Parse :: "Manager \<Rightarrow> gotime \<Rightarrow> string \<Rightarrow> auth_error + Claims" where
  "Parse m tm token = (case jwtParse (m_lib m) (m_secret m) ''aegis'' tm token of
     None \<Rightarrow> Inl ErrInvalidToken | Some c \<Rightarrow> Inr c)"

text \<open>Create a session for \<open>owner\<close> and mint its token: the tail of every path that signs someone in.\<close>

definition open_session ::
  "Manager \<Rightarrow> AuthState \<Rightarrow> gotime \<Rightarrow> byte list option \<Rightarrow> User \<Rightarrow> int \<Rightarrow> (auth_error + string) \<times> AuthState" where
  "open_session m st tm rnd u impersonator =
    (case newSessionID rnd of None \<Rightarrow> (Inl ErrRandom, st)
     | Some sid \<Rightarrow> (case CreateSession (ast_db st) tm sid (uID u) (tm + m_ttl m) of
          Inl e \<Rightarrow> (Inl (ErrStore e), st)
        | Inr s' \<Rightarrow> (case mint m tm u sid impersonator of
              None \<Rightarrow> (Inl ErrSign, st\<lparr>ast_db := s'\<rparr>)
            | Some token \<Rightarrow> (Inr token, st\<lparr>ast_db := s'\<rparr>))))"

definition completeLogin ::
  "Manager \<Rightarrow> AuthState \<Rightarrow> gotime \<Rightarrow> byte list option \<Rightarrow> User \<Rightarrow> (auth_error + User \<times> string) \<times> AuthState" where
  "completeLogin m st tm rnd u = (case open_session m st tm rnd u 0 of
     (Inl e, st') \<Rightarrow> (Inl e, st') | (Inr token, st') \<Rightarrow> (Inr (u, token), st'))"

section \<open>Login\<close>

definition Login :: "Manager \<Rightarrow> (stamp \<Rightarrow> string) \<Rightarrow> AuthState \<Rightarrow> gotime \<Rightarrow> byte list option \<Rightarrow> string \<Rightarrow> string \<Rightarrow> string
    \<Rightarrow> (auth_error + User \<times> string) \<times> AuthState" where
  "Login m show_time st tm rnd username password ip =
    (if lockedOut (ast_db st) tm username ip then (Inl ErrLockedOut, st)
     else case GetUserByUsername (ast_db st) username of
       Inl ErrNotFound \<Rightarrow>
         (Inl ErrInvalidCredentials, logFailedAttempt show_time tm username ip (record_attempt tm username ip False st))
     | Inl e \<Rightarrow> (Inl (ErrStore e), st)
     | Inr u \<Rightarrow>
         if \<not> CheckPassword (m_lib m) (uPasswordHash u) password
         then (Inl ErrInvalidCredentials, logFailedAttempt show_time tm username ip (record_attempt tm username ip False st))
         else if uStatus u = StatusSuspended then (Inl ErrSuspended, record_attempt tm username ip False st)
         else let st1 = record_attempt tm username ip True st in
           if uTOTPEnabled u
           then (case newSessionID rnd of None \<Rightarrow> (Inl ErrRandom, st1)
             | Some cid \<Rightarrow> (case CreateTOTPChallenge (ast_db st1) tm cid (uID u) (tm + totpChallengeTTL) of
                 Inl e \<Rightarrow> (Inl (ErrStore e), st1)
               | Inr s' \<Rightarrow> (Inl (ErrTOTPRequired cid), st1\<lparr>ast_db := s'\<rparr>)))
           else completeLogin m st1 tm rnd u)"

text \<open>\<open>consumeBackupCode\<close>: the first hash the code matches is taken out of the stored list; a failing write is ignored.\<close>

fun consume :: "Lib \<Rightarrow> string \<Rightarrow> string list \<Rightarrow> string list option" where
  "consume lib code [] = None"
| "consume lib code (h # hs) = (if CheckPassword lib h code then Some hs else map_option ((#) h) (consume lib code hs))"

definition consumeBackupCode :: "Lib \<Rightarrow> db \<Rightarrow> gotime \<Rightarrow> User \<Rightarrow> string \<Rightarrow> bool \<times> db" where
  "consumeBackupCode lib s tm u code =
    (let code = TrimSpace code in
     if code = [] then (False, s)
     else case uTOTPBackupCodes u of
       Codes hashes \<Rightarrow> (case consume lib code hashes of None \<Rightarrow> (False, s)
         | Some remaining \<Rightarrow> (True, ignore_err s (SetTOTPBackupCodes s tm (uID u) (Codes remaining))))
     | _ \<Rightarrow> (False, s))"

definition VerifyTOTPLogin :: "Manager \<Rightarrow> (stamp \<Rightarrow> string) \<Rightarrow> AuthState \<Rightarrow> gotime \<Rightarrow> byte list option \<Rightarrow> string \<Rightarrow> string \<Rightarrow> string
    \<Rightarrow> (auth_error + User \<times> string) \<times> AuthState" where
  "VerifyTOTPLogin m show_time st tm rnd challenge code ip =
    (case GetTOTPChallengeUser (ast_db st) tm challenge of Inl _ \<Rightarrow> (Inl ErrInvalidToken, st)
     | Inr uid \<Rightarrow> (case GetUserByID (ast_db st) uid of Inl _ \<Rightarrow> (Inl ErrInvalidToken, st)
     | Inr u \<Rightarrow>
         if lockedOut (ast_db st) tm (uUsername u) ip then (Inl ErrLockedOut, st)
         else if uStatus u = StatusSuspended then (Inl ErrSuspended, drop_challenge challenge st)
         else if ValidateTOTPCode (uTOTPSecret u) tm code
         then completeLogin m (drop_challenge challenge (record_attempt tm (uUsername u) ip True st)) tm rnd u
         else case consumeBackupCode (m_lib m) (ast_db st) tm u code of
           (True, s') \<Rightarrow> completeLogin m (drop_challenge challenge
              (record_attempt tm (uUsername u) ip True (st\<lparr>ast_db := s'\<rparr>))) tm rnd u
         | (False, s') \<Rightarrow> (Inl ErrTOTPInvalidCode,
              logFailedAttempt show_time tm (uUsername u) ip (record_attempt tm (uUsername u) ip False st))))"

section \<open>Enrolment\<close>

definition BeginTOTPEnroll :: "AuthState \<Rightarrow> gotime \<Rightarrow> byte list option \<Rightarrow> int \<Rightarrow> string
    \<Rightarrow> (auth_error + string \<times> string) \<times> AuthState" where
  "BeginTOTPEnroll st tm rnd userID username =
    (case GenerateTOTPSecret rnd of None \<Rightarrow> (Inl ErrRandom, st)
     | Some secret \<Rightarrow> (case SetTOTPSecret (ast_db st) tm userID secret of
          Inl e \<Rightarrow> (Inl (ErrStore e), st)
        | Inr s' \<Rightarrow> (Inr (secret, TOTPURI secret username ''Aegis''), st\<lparr>ast_db := s'\<rparr>)))"

text \<open>Hashing the codes one by one; the first failure aborts.\<close>

fun hash_codes :: "Lib \<Rightarrow> string list \<Rightarrow> string list \<Rightarrow> string list option" where
  "hash_codes lib salts [] = Some []"
| "hash_codes lib [] (c # cs) = None"
| "hash_codes lib (salt # salts) (c # cs) = (case HashPassword lib salt c of None \<Rightarrow> None
     | Some h \<Rightarrow> map_option ((#) h) (hash_codes lib salts cs))"

definition ConfirmTOTPEnroll :: "Manager \<Rightarrow> AuthState \<Rightarrow> gotime \<Rightarrow> byte list option list \<Rightarrow> string list \<Rightarrow> int \<Rightarrow> string
    \<Rightarrow> (auth_error + string list) \<times> AuthState" where
  "ConfirmTOTPEnroll m st tm rnds salts userID code =
    (case GetUserByID (ast_db st) userID of Inl e \<Rightarrow> (Inl (ErrStore e), st)
     | Inr u \<Rightarrow>
         if uTOTPEnabled u then (Inl ErrTOTPAlreadyEnabled, st)
         else if uTOTPSecret u = [] then (Inl ErrTOTPNotEnrolled, st)
         else if \<not> ValidateTOTPCode (uTOTPSecret u) tm code then (Inl ErrTOTPInvalidCode, st)
         else case GenerateBackupCodes totpBackupCodes rnds of None \<Rightarrow> (Inl ErrRandom, st)
           | Some codes \<Rightarrow> (case hash_codes (m_lib m) salts codes of None \<Rightarrow> (Inl ErrHash, st)
             | Some hashes \<Rightarrow> (case EnableTOTP (ast_db st) tm userID (Codes hashes) of
                 Inl e \<Rightarrow> (Inl (ErrStore e), st)
               | Inr s' \<Rightarrow> (Inr codes, st\<lparr>ast_db := s'\<rparr>))))"

definition DisableTOTP :: "Manager \<Rightarrow> AuthState \<Rightarrow> gotime \<Rightarrow> int \<Rightarrow> string \<Rightarrow> (auth_error + unit) \<times> AuthState" where
  "DisableTOTP m st tm userID password =
    (case GetUserByID (ast_db st) userID of Inl e \<Rightarrow> (Inl (ErrStore e), st)
     | Inr u \<Rightarrow>
         if \<not> CheckPassword (m_lib m) (uPasswordHash u) password then (Inl ErrInvalidCredentials, st)
         else case store_DisableTOTP (ast_db st) tm userID of
           Inl e \<Rightarrow> (Inl (ErrStore e), st) | Inr s' \<Rightarrow> (Inr (), st\<lparr>ast_db := s'\<rparr>))"

section \<open>Support sessions\<close>

definition Impersonate :: "Manager \<Rightarrow> AuthState \<Rightarrow> gotime \<Rightarrow> byte list option \<Rightarrow> int \<Rightarrow> int
    \<Rightarrow> (auth_error + string) \<times> AuthState" where
  "Impersonate m st tm rnd adminID targetID =
    (case GetUserByID (ast_db st) adminID of Inl e \<Rightarrow> (Inl (ErrStore e), st)
     | Inr admin \<Rightarrow>
         if uRole admin \<noteq> RoleAdmin then (Inl ErrForbidden, st)
         else case GetUserByID (ast_db st) targetID of Inl e \<Rightarrow> (Inl (ErrStore e), st)
           | Inr target \<Rightarrow>
               if uStatus target = StatusSuspended then (Inl ErrSuspended, st)
               else open_session m st tm rnd target adminID)"

definition drop_session :: "string \<Rightarrow> AuthState \<Rightarrow> AuthState" where
  "drop_session sid st = st\<lparr>ast_db := ignore_err (ast_db st) (DeleteSession (ast_db st) sid)\<rparr>"

definition Unimpersonate :: "Manager \<Rightarrow> AuthState \<Rightarrow> gotime \<Rightarrow> byte list option \<Rightarrow> string
    \<Rightarrow> (auth_error + string) \<times> AuthState" where
  "Unimpersonate m st tm rnd token =
    (case Parse m tm token of Inl _ \<Rightarrow> (Inl ErrInvalidToken, st)
     | Inr claims \<Rightarrow>
         let st1 = drop_session (SessionID claims) st in
         if Impersonator claims = 0 then (Inl ErrNotImpersonated, st1)
         else case GetUserByID (ast_db st1) (Impersonator claims) of Inl e \<Rightarrow> (Inl (ErrStore e), st1)
           | Inr admin \<Rightarrow> open_session m st1 tm rnd admin 0)"

section \<open>Verification and logout\<close>

definition Verify :: "Manager \<Rightarrow> db \<Rightarrow> gotime \<Rightarrow> string \<Rightarrow> auth_error + Claims \<times> User" where
  "Verify m s tm token =
    (case Parse m tm token of Inl e \<Rightarrow> Inl e
     | Inr claims \<Rightarrow> (case GetSessionUser s tm (SessionID claims) of Inl _ \<Rightarrow> Inl ErrInvalidToken
     | Inr uid \<Rightarrow> (case GetUserByID s uid of Inl _ \<Rightarrow> Inl ErrInvalidToken
     | Inr u \<Rightarrow> if uStatus u = StatusSuspended then Inl ErrSuspended else Inr (claims, u))))"

definition Logout :: "Manager \<Rightarrow> AuthState \<Rightarrow> gotime \<Rightarrow> string \<Rightarrow> (auth_error + unit) \<times> AuthState" where
  "Logout m st tm token =
    (case Parse m tm token of Inl _ \<Rightarrow> (Inr (), st)
     | Inr claims \<Rightarrow> (case DeleteSession (ast_db st) (SessionID claims) of
          Inl e \<Rightarrow> (Inl (ErrStore e), st) | Inr s' \<Rightarrow> (Inr (), st\<lparr>ast_db := s'\<rparr>)))"

fun HasRole :: "Claims \<Rightarrow> string list \<Rightarrow> bool" where
  "HasRole claims [] = False"
| "HasRole claims (r # roles) = (if Role claims = r then True else HasRole claims roles)"

definition IsImpersonating :: "Claims \<Rightarrow> bool" where
  "IsImpersonating claims \<longleftrightarrow> Impersonator claims > 0"

end
