(* ===== verification/Totp_Laws.thy ===== *)
theory Totp_Laws
  imports Totp
begin

text \<open>
  What the second factor relies on: secrets survive their base 32 text, codes are six digits, and a code is
  accepted exactly in the window of one 30 second step around now.
\<close>

section \<open>Base 32\<close>

lemma and_31: "(b :: byte) AND 31 = take_bit 5 b"
proof -
  have "(31 :: byte) = mask 5" by (simp add: mask_eq_exp_minus_1)
  then show ?thesis by (simp add: take_bit_eq_mask)
qed

lemma b32_value_char: "b32_value (b32_char b) = Some (take_bit 5 b)"
proof -
  have "unat (take_bit 5 b) = unat b mod 32" by (simp add: unsigned_take_bit_eq take_bit_eq_mod [of 5 "unat b"])
  then have "unat (take_bit 5 b) < 32" by simp
  moreover have "\<forall>i \<in> set [0..<32]. b32_value (b32_alphabet ! i) = Some (word_of_nat i)" by code_simp
  ultimately have "b32_value (b32_alphabet ! unat (take_bit 5 b)) = Some (word_of_nat (unat (take_bit 5 b)))"
    by simp
  then show ?thesis by (simp add: b32_char_def and_31)
qed

lemma b32_values_append:
  "b32_values xs = Some vs \<Longrightarrow> b32_values (xs @ ys) = map_option ((@) vs) (b32_values ys)"
proof (induction xs arbitrary: vs)
  case (Cons x xs)
  then obtain v ws where "b32_value x = Some v" "b32_values xs = Some ws" "vs = v # ws"
    by (auto split: option.splits)
  with Cons.IH [of ws] show ?case by (cases "b32_values ys") simp_all
qed (simp add: option.map_ident cong: option.map_cong)

lemma b32_values_chars: "b32_values (map b32_char bs) = Some (map (take_bit 5) bs)"
  by (induction bs) (simp_all add: b32_value_char)

lemma bit_byte_ge: "8 \<le> n \<Longrightarrow> \<not> bit (b :: byte) n"
  using bit_imp_le_length [of b n] by auto

lemma len8: "LENGTH(8) = 8"
  by simp

lemma nat_less_8: "n < 8 \<longleftrightarrow> n = 0 \<or> n = 1 \<or> n = 2 \<or> n = 3 \<or> n = 4 \<or> n = 5 \<or> n = 6 \<or> n = (7 :: nat)"
  by auto

lemma b32_unpack:
  fixes b0 b1 b2 b3 b4 :: byte
  shows "push_bit 3 (take_bit 5 (drop_bit 3 b0)) OR drop_bit 2 (take_bit 5 (push_bit 2 b0 OR drop_bit 6 b1)) = b0"
    "push_bit 6 (take_bit 5 (push_bit 2 b0 OR drop_bit 6 b1)) OR push_bit 1 (take_bit 5 (drop_bit 1 b1))
       OR drop_bit 4 (take_bit 5 (push_bit 4 b1 OR drop_bit 4 b2)) = b1"
    "push_bit 4 (take_bit 5 (push_bit 4 b1 OR drop_bit 4 b2)) OR drop_bit 1 (take_bit 5 (push_bit 1 b2 OR drop_bit 7 b3)) = b2"
    "push_bit 7 (take_bit 5 (push_bit 1 b2 OR drop_bit 7 b3)) OR push_bit 2 (take_bit 5 (drop_bit 2 b3))
       OR drop_bit 3 (take_bit 5 (push_bit 3 b3 OR drop_bit 5 b4)) = b3"
    "push_bit 5 (take_bit 5 (push_bit 3 b3 OR drop_bit 5 b4)) OR take_bit 5 b4 = b4"
  by (rule bit_word_eqI; simp only: bit_simps o_apply nat_less_8 len8; elim disjE; simp add: bit_byte_ge eval_nat_numeral)+

lemma b32_pack_8:
  "b32_pack [d0, d1, d2, d3, d4, d5, d6, d7] =
    [push_bit 3 d0 OR drop_bit 2 d1, push_bit 6 d1 OR push_bit 1 d2 OR drop_bit 4 d3,
     push_bit 4 d3 OR drop_bit 1 d4, push_bit 7 d4 OR push_bit 2 d5 OR drop_bit 3 d6, push_bit 5 d6 OR d7]"
  by (simp add: b32_pack_def Let_def)

lemma b32_pack_unpack:
  "b32_pack (map (take_bit 5) [drop_bit 3 b0, push_bit 2 b0 OR drop_bit 6 b1, drop_bit 1 b1, push_bit 4 b1 OR drop_bit 4 b2,
     push_bit 1 b2 OR drop_bit 7 b3, drop_bit 2 b3, push_bit 3 b3 OR drop_bit 5 b4, b4]) = [b0, b1, b2, b3, b4]"
  by (simp only: list.map b32_pack_8 b32_unpack)

text \<open>Secrets are 20 bytes, so only whole groups of five occur.\<close>

lemma b32_roundtrip_groups:
  "length bs mod 5 = 0 \<Longrightarrow> \<exists>vs. b32_values (b32_EncodeToString bs) = Some vs \<and> b32_groups vs = bs
     \<and> length (b32_EncodeToString bs) = 8 * (length bs div 5)"
proof (induction bs rule: b32_EncodeToString.induct)
  case (6 b0 b1 b2 b3 b4 bs)
  have "length bs mod 5 = 0" using "6.prems" by simp
  then obtain vs where vs: "b32_values (b32_EncodeToString bs) = Some vs" "b32_groups vs = bs"
    "length (b32_EncodeToString bs) = 8 * (length bs div 5)"
    using "6.IH" by auto
  let ?g = "map (take_bit 5) [drop_bit 3 b0, push_bit 2 b0 OR drop_bit 6 b1, drop_bit 1 b1, push_bit 4 b1 OR drop_bit 4 b2,
     push_bit 1 b2 OR drop_bit 7 b3, drop_bit 2 b3, push_bit 3 b3 OR drop_bit 5 b4, b4 :: byte]"
  have "b32_values (b32_group b0 b1 b2 b3 b4) = Some ?g"
    unfolding b32_group_def by (rule b32_values_chars)
  from b32_values_append [OF this, of "b32_EncodeToString bs"] vs(1)
  have v: "b32_values (b32_EncodeToString (b0 # b1 # b2 # b3 # b4 # bs)) = Some (?g @ vs)" by simp
  have "b32_groups (?g @ vs) = b32_pack ?g @ b32_groups vs" by simp
  then have "b32_groups (?g @ vs) = b0 # b1 # b2 # b3 # b4 # bs" unfolding b32_pack_unpack vs(2) by simp
  moreover have "length (b32_EncodeToString (b0 # b1 # b2 # b3 # b4 # bs)) = 8 * (length (b0 # b1 # b2 # b3 # b4 # bs) div 5)"
    using vs(3) div_add_self1 [of 5 "length bs"] by (simp add: b32_group_def del: div_add_self1)
  ultimately show ?case using v by blast
qed (simp_all add: b32_pack_def Let_def)

lemma b32_char_alphabet: "b32_char b \<in> set b32_alphabet"
proof -
  have "unat (b AND 31) = unat b mod 32"
    unfolding and_31 by (simp add: unsigned_take_bit_eq take_bit_eq_mod [of 5 "unat b"])
  then have "unat (b AND 31) < length b32_alphabet" by (simp add: b32_alphabet_def)
  then show ?thesis by (simp add: b32_char_def)
qed

lemma b32_encode_alphabet: "set (b32_EncodeToString bs) \<subseteq> set b32_alphabet"
proof (induction bs rule: b32_EncodeToString.induct)
  case (6 b0 b1 b2 b3 b4 bs)
  then show ?case by (simp add: b32_group_def b32_char_alphabet)
qed (auto simp: b32_group_def b32_char_alphabet)

lemma TrimSpace_id: "(\<And>c. c \<in> set s \<Longrightarrow> \<not> is_space c) \<Longrightarrow> TrimSpace s = s"
proof -
  assume a: "\<And>c. c \<in> set s \<Longrightarrow> \<not> is_space c"
  have "dropWhile is_space xs = xs" if "\<And>c. c \<in> set xs \<Longrightarrow> \<not> is_space c" for xs
    using that by (cases xs) auto
  from this [of s] this [of "rev s"] a show ?thesis by (simp add: TrimSpace_def)
qed

lemma b32_text_plain:
  assumes "set s \<subseteq> set b32_alphabet"
  shows "ToUpper (TrimSpace s) = s" "filter (\<lambda>c. c \<noteq> CHR 0x0A \<and> c \<noteq> CHR 0x0D) s = s"
proof -
  have alpha: "list_all (\<lambda>c. \<not> is_space c \<and> upper_char c = c \<and> c \<noteq> CHR 0x0A \<and> c \<noteq> CHR 0x0D) b32_alphabet"
    by code_simp
  then have c: "\<not> is_space c" "upper_char c = c" "c \<noteq> CHR 0x0A" "c \<noteq> CHR 0x0D" if "c \<in> set s" for c
    using that assms by (auto simp: list_all_iff)
  show "ToUpper (TrimSpace s) = s" using TrimSpace_id [of s] c by (simp add: ToUpper_def map_idI)
  show "filter (\<lambda>c. c \<noteq> CHR 0x0A \<and> c \<noteq> CHR 0x0D) s = s" using c by (simp add: filter_id_conv)
qed

lemma secret_decodes:
  assumes "length bs mod 5 = 0"
  shows "b32_DecodeString (ToUpper (TrimSpace (b32_EncodeToString bs))) = Some bs"
  using b32_roundtrip_groups [OF assms] b32_text_plain [OF b32_encode_alphabet, of bs]
  by (auto simp: b32_DecodeString_def)

section \<open>Decimal digits\<close>

lemma length_decimal: "n < 10 ^ Suc k \<Longrightarrow> length (decimal n) \<le> Suc k"
proof (induction k arbitrary: n)
  case 0
  then show ?case by (simp add: decimal.simps)
next
  case (Suc k)
  then have "n div 10 < 10 ^ Suc k" by (simp add: less_mult_imp_div_less)
  from Suc.IH [OF this] show ?case by (simp add: decimal.simps [of n])
qed

definition is_digit :: "char \<Rightarrow> bool" where
  "is_digit c \<longleftrightarrow> 48 \<le> (of_char c :: nat) \<and> (of_char c :: nat) \<le> 57"

lemma of_char_digit: "(of_char (digit n) :: nat) = 48 + n mod 10"
proof -
  have "48 + n mod 10 < 256" by (rule less_trans [of _ 58]) simp_all
  then show ?thesis by (simp add: digit_def)
qed

lemma digit_is_digit: "is_digit (digit n)"
proof -
  have "n mod 10 < 10" by simp
  then show ?thesis unfolding is_digit_def of_char_digit by linarith
qed

lemma digit_not_space: "is_digit c \<Longrightarrow> \<not> is_space c"
  by (auto simp: is_digit_def is_space_def)

lemma decimal_digits: "list_all is_digit (decimal n)"
proof (induction n rule: decimal.induct)
  case (1 n)
  then show ?case by (subst decimal.simps) (simp add: digit_is_digit)
qed

lemma zero_padded_six: "n < 10 ^ 6 \<Longrightarrow> length (zero_padded 6 n) = 6 \<and> list_all is_digit (zero_padded 6 n)"
  using length_decimal [of n 5] decimal_digits [of n]
  by (auto simp: zero_padded_def list_all_iff is_digit_def)

lemma pow10_six: "pow10 6 = 1000000"
  by (simp add: eval_nat_numeral)

lemma totpCodeAt_form:
  assumes "totpCodeAt secret t = Some code"
  shows "length code = 6 \<and> list_all is_digit code"
proof -
  have "unat (w mod pow10 6) < 10 ^ 6" for w :: "32 word"
  proof -
    have "w mod 1000000 < 1000000" by (rule word_mod_less_divisor) simp
    then show ?thesis unfolding pow10_six by (simp add: word_less_nat_alt)
  qed
  then show ?thesis
    using assms zero_padded_six by (auto simp: totpCodeAt_def Let_def split: option.splits)
qed

lemma code_trimmed: "totpCodeAt secret t = Some code \<Longrightarrow> TrimSpace code = code"
proof -
  assume "totpCodeAt secret t = Some code"
  then have "list_all is_digit code" using totpCodeAt_form by blast
  then show ?thesis by (intro TrimSpace_id) (auto simp: list_all_iff dest: digit_not_space)
qed

section \<open>The window\<close>

text \<open>A code depends on the time only through its 30 second step.\<close>

lemma totp_counter_step:
  assumes "0 \<le> t" "t < seconds (2 ^ 63)"
  shows "totp_counter t = word_of_int (t div totpPeriod)"
proof -
  let ?a = "t div nanos"
  have "?a * nanos \<le> t" using parse_rfc3339_le [of t] by (simp add: parse_rfc3339_def rfc3339_def)
  with assms have a: "0 \<le> ?a" "?a < 2 ^ 63" by simp_all
  have "unat (word_of_int ?a :: 64 word) = nat ?a"
    using a by (simp add: unat_eq_nat_uint uint_word_of_int)
  then have "unat (totp_counter t) = nat ?a div 30"
    by (simp add: totp_counter_def unat_div)
  also have "\<dots> = nat (?a div 30)" using a by (simp add: nat_div_distrib)
  finally have "unat (totp_counter t) = nat (t div totpPeriod)"
    by (simp add: zdiv_zmult2_eq [symmetric] mult.commute)
  moreover have "t div totpPeriod = ?a div 30" by (simp add: zdiv_zmult2_eq [symmetric] mult.commute)
  then have "unat (word_of_int (t div totpPeriod) :: 64 word) = nat (t div totpPeriod)"
    using a by (simp add: unat_eq_nat_uint uint_word_of_int)
  ultimately show ?thesis by (metis unsigned_word_eqI)
qed

lemma totpCodeAt_cong: "totp_counter t = totp_counter t' \<Longrightarrow> totpCodeAt secret t = totpCodeAt secret t'"
  by (simp add: totpCodeAt_def cong: option.case_cong)

lemma totpCodeAt_None: "totpCodeAt secret t = None \<longleftrightarrow> totpCodeAt secret t' = None"
  by (auto simp: totpCodeAt_def Let_def split: option.splits)

lemma Validate_iff:
  assumes "totpCodeAt secret now \<noteq> None"
  shows "ValidateTOTPCode secret now code \<longleftrightarrow>
    (\<exists>k\<in>{- 1, 0, 1}. totpCodeAt secret (now + k * totpPeriod) = Some (TrimSpace code))"
proof -
  have S: "\<exists>c. totpCodeAt secret (now + k * totpPeriod) = Some c" for k
    using totpCodeAt_None [of secret now "now + k * totpPeriod"] assms by auto
  obtain c1 c2 c3 where "totpCodeAt secret (now + (- 1) * totpPeriod) = Some c1"
    "totpCodeAt secret (now + 0 * totpPeriod) = Some c2" "totpCodeAt secret (now + 1 * totpPeriod) = Some c3"
    using S by blast
  moreover from this have "length c1 = 6" "length c2 = 6" "length c3 = 6"
    using totpCodeAt_form by blast+
  ultimately show ?thesis by (auto simp: ValidateTOTPCode_def Let_def)
qed

lemma near_steps:
  fixes t now :: int
  assumes "\<bar>t - now\<bar> \<le> P" "0 < P"
  obtains k where "k \<in> {- 1, 0, 1}" "t div P = (now + k * P) div P"
proof -
  let ?k = "t div P - now div P"
  have "(now - P) div P \<le> t div P" "t div P \<le> (now + P) div P"
    using assms by (intro zdiv_mono1; linarith)+
  moreover have "(now - P) div P = now div P - 1" "(now + P) div P = now div P + 1"
    using assms(2) div_mult_self1 [of P now "- 1"] div_mult_self1 [of P now 1] by (simp_all add: algebra_simps)
  ultimately have "?k \<in> {- 1, 0, 1}" by auto
  moreover have "t div P = (now + ?k * P) div P" using assms(2) by simp
  ultimately show ?thesis using that by blast
qed

section \<open>Properties\<close>

text \<open>A fresh secret decodes to the very random bytes it was made from, so the panel and the
  authenticator app work with the same key; it is 32 characters long.\<close>

theorem secret_roundtrip:
  assumes "length rnd = 20" "GenerateTOTPSecret (Some rnd) = Some secret"
  shows "length secret = 32 \<and> b32_DecodeString (ToUpper (TrimSpace secret)) = Some rnd"
  using assms secret_decodes [of rnd] b32_roundtrip_groups [of rnd] by (auto simp: GenerateTOTPSecret_def)

theorem secret_roundtrip_witness:
  "\<exists>secret. GenerateTOTPSecret (Some (replicate 20 7)) = Some secret \<and> length secret = 32"
proof -
  have l: "length (replicate 20 (7 :: byte)) = 20" by simp
  obtain secret where g: "GenerateTOTPSecret (Some (replicate 20 7)) = Some secret"
    by (simp add: GenerateTOTPSecret_def)
  from secret_roundtrip [OF l g] g show ?thesis by blast
qed

text \<open>A code an authenticator shows at time \<open>t\<close> is six digits and is accepted by a panel whose clock differs by at
  most 30 seconds in either direction; conversely every accepted code is the code of the current, the
  previous or the next step.\<close>

theorem totp_window:
  assumes "totpCodeAt secret t = Some code" "\<bar>t - now\<bar> \<le> totpPeriod"
    and "totpPeriod \<le> now" "now < seconds (2 ^ 62)"
  shows "length code = 6 \<and> list_all is_digit code \<and> ValidateTOTPCode secret now code \<and>
    (\<forall>c. ValidateTOTPCode secret now c \<longrightarrow>
       (\<exists>k\<in>{- 1, 0, 1}. totpCodeAt secret (now + k * totpPeriod) = Some (TrimSpace c)))"
proof -
  have ne: "totpCodeAt secret now \<noteq> None" using assms(1) totpCodeAt_None [of secret t now] by auto
  obtain k where k: "k \<in> {- 1, 0, 1}" "t div totpPeriod = (now + k * totpPeriod) div totpPeriod"
    using near_steps [OF assms(2)] by auto
  have "totp_counter t = totp_counter (now + k * totpPeriod)"
    using assms(2-4) k by (subst (1 2) totp_counter_step) auto
  then have "totpCodeAt secret (now + k * totpPeriod) = Some (TrimSpace code)"
    using assms(1) totpCodeAt_cong code_trimmed by metis
  with k(1) ne assms(1) show ?thesis using Validate_iff [OF ne] totpCodeAt_form by blast
qed

theorem totp_window_witness:
  "\<exists>code. totpCodeAt (b32_EncodeToString (replicate 20 7)) (seconds 1000) = Some code
     \<and> ValidateTOTPCode (b32_EncodeToString (replicate 20 7)) (seconds 1020) code"
proof -
  obtain code where c: "totpCodeAt (b32_EncodeToString (replicate 20 7)) (seconds 1000) = Some code"
    using secret_decodes [of "replicate 20 7"] by (auto simp: totpCodeAt_def Let_def)
  from totp_window [OF c, of "seconds 1020"] c show ?thesis by simp
qed

lemma backup_char_alphabet: "backup_char b \<in> set backupCodeAlphabet"
  by (simp add: backup_char_def backupCodeAlphabet_def nth_mem del: set_simps)

end
