(* ===== verification/Auth_Laws.thy ===== *)
theory Auth_Laws
  imports Auth Totp_Laws Store_Theorems
begin

text \<open>
  Properties of the authentication manager. The library contracts are \<open>jwt_ok\<close> (a token parses to the
  claims that were signed, until it expires and only for its issuer) and, where needed, \<open>bcrypt_ok\<close> (a
  hash matches the password it was made from).
\<close>

definition jwt_ok :: "Lib \<Rightarrow> bool" where
  "jwt_ok lib \<longleftrightarrow> (\<forall>sec c tok. jwtSign lib sec c = Some tok \<longrightarrow>
     (\<forall>iss now. jwtParse lib sec iss now tok =
        (if Issuer c = iss \<and> now < parse_rfc3339 (ExpiresAt c) then Some c else None)))"

definition bcrypt_ok :: "Lib \<Rightarrow> bool" where
  "bcrypt_ok lib \<longleftrightarrow> (\<forall>salt p h. bcryptGenerate lib salt p = Some h \<longrightarrow> bcryptCompare lib h p)"

section \<open>Helper steps\<close>

lemma record_attempt_db [simp]:
  "ast_db (record_attempt tm n ip ok st) = (if db_down (ast_db st) then ast_db st else
     (ast_db st)\<lparr>login_attempts := t_insert (\<lambda>i. lID_update (\<lambda>_. i))
       \<lparr>lID = 0, lUsername = n, lIP = ip, lSuccess = ok, lCreatedAt = rfc3339 tm\<rparr> (login_attempts (ast_db st))\<rparr>)"
  by (simp add: record_attempt_def RecordLoginAttempt_def)

lemma drop_challenge_db [simp]:
  "ast_db (drop_challenge c st) = (if db_down (ast_db st) then ast_db st else
     (ast_db st)\<lparr>totp_challenges := filter (\<lambda>r. sID r \<noteq> c) (totp_challenges (ast_db st))\<rparr>)"
  by (simp add: drop_challenge_def DeleteTOTPChallenge_def)

lemma drop_session_db [simp]:
  "ast_db (drop_session sid st) = (if db_down (ast_db st) then ast_db st else
     (ast_db st)\<lparr>sessions := filter (\<lambda>r. sID r \<noteq> sid) (sessions (ast_db st))\<rparr>)"
  by (simp add: drop_session_def DeleteSession_def)

lemma log_db [simp]: "ast_db (logFailedAttempt show_time tm n ip st) = ast_db st"
  by (simp add: logFailedAttempt_def)

lemma users_only:
  assumes "users s' = users s" "db_down s' = db_down s"
  shows "GetUserByID s' i = GetUserByID s i" "GetUserByUsername s' n = GetUserByUsername s n"
  using assms by (simp_all add: GetUserByID_def GetUserByUsername_def query_row_def)

lemma by_name_by_id:
  assumes "schema_ok s" "GetUserByUsername s n = Inr u"
  shows "GetUserByID s (uID u) = Inr u" "uUsername u = n"
proof -
  obtain r where r: "find (\<lambda>r. uUsername r = n) (trows (users s)) = Some r" "u = scanUser r" "\<not> db_down s"
    using assms(2) by (auto simp: GetUserByUsername_def)
  then have m: "r \<in> set (trows (users s))" "uUsername r = n" by (auto simp: find_Some_iff)
  then have "t_get uID (uID r) (users s) = Some r"
    using t_get_Some_iff [OF schema_okD(3) [OF assms(1)]] by simp
  with r m show "GetUserByID s (uID u) = Inr u" "uUsername u = n"
    by (simp_all add: GetUserByID_def query_row_def scanUser_def User.truncate_def)
qed

lemma GetUserByID_id: "GetUserByID s i = Inr u \<Longrightarrow> uID u = i"
  by (auto simp: GetUserByID_def scanUser_def User.truncate_def dest: t_get_SomeD)

lemma open_session_ok:
  "open_session m st tm rnd u imp = (Inr token, st') \<longleftrightarrow>
    (\<exists>sid s'. newSessionID rnd = Some sid \<and> CreateSession (ast_db st) tm sid (uID u) (tm + m_ttl m) = Inr s' \<and>
       mint m tm u sid imp = Some token \<and> st' = st\<lparr>ast_db := s'\<rparr>)"
  by (auto simp: open_session_def split: option.splits sum.splits)

lemma CreateSession_ok:
  "CreateSession s tm sid uid e = Inr s' \<longleftrightarrow> \<not> db_down s \<and> (\<forall>r\<in>set (sessions s). sID r \<noteq> sid) \<and>
     s' = s\<lparr>sessions := sessions s @ [\<lparr>sID = sid, sUserID = uid, sExpiresAt = rfc3339 e, sCreatedAt = rfc3339 tm\<rparr>]\<rparr>"
  by (auto simp: CreateSession_def list_ex_iff)

lemma session_after_create:
  assumes "CreateSession s tm sid uid e = Inr s'"
  shows "GetSessionUser s' now sid = (if now \<le> parse_rfc3339 (rfc3339 e) then Inr uid else Inl ErrNotFound)"
proof -
  have "find (\<lambda>r. sID r = sid) (sessions s') =
      Some \<lparr>sID = sid, sUserID = uid, sExpiresAt = rfc3339 e, sCreatedAt = rfc3339 tm\<rparr>"
    using assms find_append_None [of "sessions s" "\<lambda>r. sID r = sid"] by (simp add: CreateSession_ok)
  with assms show ?thesis by (auto simp: GetSessionUser_def live_row_def query_row_def CreateSession_ok)
qed

section \<open>Tokens\<close>

text \<open>What a token minted by \<open>open_session\<close> verifies to.\<close>

lemma verify_open_session:
  assumes "jwt_ok (m_lib m)" "open_session m st tm rnd u imp = (Inr token, st')"
    and "GetUserByID (ast_db st) (uID u) = Inr u" "uStatus u \<noteq> StatusSuspended"
    and "now < parse_rfc3339 (rfc3339 (tm + m_ttl m))"
  shows "\<exists>c. Verify m (ast_db st') now token = Inr (c, u) \<and> Parse m now token = Inr c \<and> Username c = uUsername u \<and>
    Role c = uRole u \<and> Impersonator c = imp \<and> Some (SessionID c) = newSessionID rnd"
proof -
  obtain sid s' where o: "newSessionID rnd = Some sid" "CreateSession (ast_db st) tm sid (uID u) (tm + m_ttl m) = Inr s'"
    "mint m tm u sid imp = Some token" "st' = st\<lparr>ast_db := s'\<rparr>"
    using assms(2) by (auto simp: open_session_ok)
  let ?c = "\<lparr>Username = uUsername u, Role = uRole u, Impersonator = imp, SessionID = sid, Subject = uID u,
    IssuedAt = rfc3339 tm, ExpiresAt = rfc3339 (tm + m_ttl m), Issuer = ''aegis''\<rparr>"
  have p: "Parse m now token = Inr ?c"
    using assms(1,5) o(3) by (simp add: Parse_def mint_def jwt_ok_def)
  have u: "GetUserByID s' (uID u) = Inr u"
    using assms(3) o(2) users_only(1) [of s' "ast_db st"] by (simp add: CreateSession_ok)
  have "Verify m s' now token = Inr (?c, u)"
    using p u session_after_create [OF o(2), of now] assms(4,5) by (simp add: Verify_def)
  with p o(1,4) show ?thesis by simp
qed

lemma Verify_ok:
  "Verify m s tm token = Inr (c, u) \<longleftrightarrow> Parse m tm token = Inr c \<and>
     (\<exists>uid. GetSessionUser s tm (SessionID c) = Inr uid \<and> GetUserByID s uid = Inr u) \<and> uStatus u \<noteq> StatusSuspended"
  by (auto simp: Verify_def split: sum.splits)

text \<open>A token whose session is gone never verifies again.\<close>

lemma no_session_no_verify:
  assumes "\<forall>r\<in>set (sessions s). sID r \<noteq> SessionID c" "Parse m now token = Inr c"
  shows "Verify m s now token = Inl ErrInvalidToken"
proof -
  have "find (\<lambda>r. sID r = SessionID c) (sessions s) = None" using assms(1) by (auto simp: find_None_iff)
  then have "isl (GetSessionUser s now (SessionID c))"
    by (simp add: GetSessionUser_def live_row_def query_row_def)
  with assms(2) show ?thesis by (auto simp: Verify_def isl_def)
qed

lemma Parse_stable:
  assumes "jwt_ok (m_lib m)" "mint m tm u sid imp = Some token"
    "Parse m now token = Inr c" "Parse m now' token = Inr c'"
  shows "c' = c"
  using assms by (auto simp: Parse_def jwt_ok_def mint_def split: option.splits if_splits)

lemma dead_token:
  assumes "jwt_ok (m_lib m)" "mint m tm u sid imp = Some token" "Parse m t token = Inr c"
    and "\<forall>r\<in>set (sessions s). sID r \<noteq> SessionID c"
  shows "Verify m s now token = Inl ErrInvalidToken"
proof (cases "Parse m now token")
  case (Inl e)
  then show ?thesis by (auto simp: Verify_def Parse_def split: option.splits)
next
  case (Inr c')
  then have "c' = c" using Parse_stable [OF assms(1-3)] by blast
  with Inr assms(4) show ?thesis using no_session_no_verify by blast
qed

end
