(* ===== verification/Auth_Theorems.thy ===== *)
theory Auth_Theorems
  imports Auth_Laws
begin

text \<open>
  The properties of login, second factor, sessions and support sessions, with concrete runs.
\<close>

section \<open>A library for concrete runs\<close>

text \<open>Tokens are numbered: the claims of a fixed list sign to their position. Passwords are their own hash.\<close>

definition ex_lib :: "Claims list \<Rightarrow> Lib" where
  "ex_lib cs = \<lparr>bcryptGenerate = (\<lambda>salt p. Some p), bcryptCompare = (\<lambda>h p. h = p),
     jwtSign = (\<lambda>sec c. map_option (\<lambda>i. replicate i (CHR ''x'')) (find (\<lambda>i. cs ! i = c) [0..<length cs])),
     jwtParse = (\<lambda>sec iss now tok. if length tok < length cs \<and> tok = replicate (length tok) (CHR ''x'')
        \<and> Issuer (cs ! length tok) = iss \<and> now < parse_rfc3339 (ExpiresAt (cs ! length tok))
        then Some (cs ! length tok) else None)\<rparr>"

lemma ex_lib_jwt_ok: "jwt_ok (ex_lib cs)"
  by (auto simp: jwt_ok_def ex_lib_def find_Some_iff)

definition ex_claims :: "User \<Rightarrow> byte list \<Rightarrow> int \<Rightarrow> stamp \<Rightarrow> Claims" where
  "ex_claims u rnd imp t = \<lparr>Username = uUsername u, Role = uRole u, Impersonator = imp, SessionID = hex_EncodeToString rnd,
     Subject = uID u, IssuedAt = t, ExpiresAt = t + 3600, Issuer = ''aegis''\<rparr>"

definition ex_mgr :: "Claims list \<Rightarrow> Manager" where
  "ex_mgr cs = \<lparr>m_secret = ''0123456789abcdef'', m_ttl = hours 1, m_lib = ex_lib cs\<rparr>"

definition ex_row :: "int \<Rightarrow> string \<Rightarrow> string \<Rightarrow> UserRow" where
  "ex_row i name role = \<lparr>uID = i, uUsername = name, uEmail = [], uPasswordHash = ''pw'', uRole = role, uPackageID = 1,
     uStatus = StatusActive, uOwnerID = 0, uHomeDir = [], uQuotaDiskBytes = 0, uQuotaBandwidthBytes = 0, uCreatedAt = 0,
     uUpdatedAt = 0, uTOTPSecret = [], uTOTPEnabled = False, uTOTPBackupCodes = Codes [], uSuspendedByQuota = False\<rparr>"

text \<open>An administrator \<open>root\<close> (id 1), a user \<open>alice\<close> (id 2), and \<open>bob\<close> (id 3) who uses the second factor with one
  recovery code left.\<close>

definition ex_bob :: UserRow where
  "ex_bob = (ex_row 3 ''bob'' RoleUser)\<lparr>uTOTPSecret := b32_EncodeToString (replicate 20 7), uTOTPEnabled := True,
     uTOTPBackupCodes := Codes [''AAAAA-BBBBB'']\<rparr>"

definition ex_state :: AuthState where
  "ex_state = \<lparr>ast_db = db_empty\<lparr>users := \<lparr>trows = [ex_row 1 ''root'' RoleAdmin, ex_row 2 ''alice'' RoleUser, ex_bob],
     tseq = 3\<rparr>\<rparr>, ast_log = [], ast_log_opens = True\<rparr>"

lemma ex_state_schema: "schema_ok (ast_db ex_state)"
  using schema_ok_empty
  by (auto simp: ex_state_def table_wf_def unique_on_def ex_row_def ex_bob_def intro!: schema_upd)

section \<open>Password login\<close>

lemma Login_ok:
  assumes "Login m show_time st tm rnd username password ip = (Inr (u, token), st')"
  shows "\<not> lockedOut (ast_db st) tm username ip" "GetUserByUsername (ast_db st) username = Inr u"
    "CheckPassword (m_lib m) (uPasswordHash u) password" "uStatus u \<noteq> StatusSuspended" "\<not> uTOTPEnabled u"
    "open_session m (record_attempt tm username ip True st) tm rnd u 0 = (Inr token, st')"
  using assms
  by (auto simp: Login_def Let_def completeLogin_def split: if_splits sum.splits store_error.splits option.splits prod.splits)

text \<open>C3: Whoever gets a token from \<open>Login\<close> was not locked out, gave the right password for an active account without a
  second factor, and the token then verifies as exactly that account, with its role and no impersonator, until
  the session's time to live is over.\<close>

theorem login_token_verifies:
  assumes "jwt_ok (m_lib m)" "schema_ok (ast_db st)"
    and "Login m show_time st tm rnd username password ip = (Inr (u, token), st')"
    and "now < parse_rfc3339 (rfc3339 (tm + m_ttl m))"
  shows "\<not> lockedOut (ast_db st) tm username ip \<and> CheckPassword (m_lib m) (uPasswordHash u) password \<and>
    uUsername u = username \<and> uStatus u \<noteq> StatusSuspended \<and> \<not> uTOTPEnabled u \<and>
    (\<exists>c. Verify m (ast_db st') now token = Inr (c, u) \<and> Role c = uRole u \<and> \<not> IsImpersonating c)"
proof -
  note L = Login_ok [OF assms(3)]
  note U = by_name_by_id [OF assms(2) L(2)]
  have "GetUserByID (ast_db (record_attempt tm username ip True st)) (uID u) = Inr u"
    using U(1) users_only(1) [of "ast_db (record_attempt tm username ip True st)" "ast_db st"] by simp
  from verify_open_session [OF assms(1) L(6) this L(4) assms(4)] L U(2)
  show ?thesis by (auto simp: IsImpersonating_def)
qed

lemma ex_login:
  "\<exists>u token st'. Login (ex_mgr [ex_claims (scanUser (ex_row 2 ''alice'' RoleUser)) [1, 2] 0 100]) (\<lambda>_. []) ex_state (seconds 100)
     (Some [1, 2]) ''alice'' ''pw'' ''192.0.2.1'' = (Inr (u, token), st')"
  by (simp add: Login_def lockedOut_def at_least_def store_defs query_def ex_state_def db_empty_def t_count_def t_select_def
      query_row_def ex_row_def scanUser_def User.truncate_def CheckPassword_def ex_mgr_def ex_lib_def Let_def completeLogin_def
      open_session_def newSessionID_def mint_def record_attempt_def exec_def ex_claims_def rfc3339_def)

theorem login_token_verifies_witness:
  "\<exists>m u token st'. Login m (\<lambda>_. []) ex_state (seconds 100) (Some [1, 2]) ''alice'' ''pw'' ''192.0.2.1'' = (Inr (u, token), st')
     \<and> (\<exists>c. Verify m (ast_db st') (seconds 200) token = Inr (c, u))"
proof -
  let ?m = "ex_mgr [ex_claims (scanUser (ex_row 2 ''alice'' RoleUser)) [1, 2] 0 100]"
  obtain u token st' where l: "Login ?m (\<lambda>_. []) ex_state (seconds 100) (Some [1, 2]) ''alice'' ''pw'' ''192.0.2.1'' = (Inr (u, token), st')"
    using ex_login by blast
  have "jwt_ok (m_lib ?m)" by (simp add: ex_mgr_def ex_lib_jwt_ok)
  moreover have "seconds 200 < parse_rfc3339 (rfc3339 (seconds 100 + m_ttl ?m))"
    by (simp add: ex_mgr_def rfc3339_def parse_rfc3339_def)
  ultimately show ?thesis using login_token_verifies [OF _ ex_state_schema l] l by blast
qed

text \<open>Logging out revokes the token for good: it never verifies again, whatever the time.\<close>

theorem logout_revokes:
  assumes "jwt_ok (m_lib m)" "Login m show_time st tm rnd username password ip = (Inr (u, token), st')"
    and "Parse m t token = Inr c" "Logout m st' t token = (Inr (), st'')"
  shows "Verify m (ast_db st'') now token = Inl ErrInvalidToken"
proof -
  obtain sid where m: "mint m tm u sid 0 = Some token"
    using Login_ok(6) [OF assms(2)] by (auto simp: open_session_ok)
  have "\<forall>r\<in>set (sessions (ast_db st'')). sID r \<noteq> SessionID c"
    using assms(3,4) by (auto simp: Logout_def DeleteSession_def split: sum.splits)
  with dead_token [OF assms(1) m assms(3)] show ?thesis by blast
qed

theorem logout_revokes_witness:
  "\<exists>m u token st' st''. Login m (\<lambda>_. []) ex_state (seconds 100) (Some [1, 2]) ''alice'' ''pw'' ''192.0.2.1'' = (Inr (u, token), st')
     \<and> Logout m st' (seconds 150) token = (Inr (), st'') \<and> Verify m (ast_db st'') (seconds 200) token = Inl ErrInvalidToken"
proof -
  let ?m = "ex_mgr [ex_claims (scanUser (ex_row 2 ''alice'' RoleUser)) [1, 2] 0 100]"
  obtain u token st' where l: "Login ?m (\<lambda>_. []) ex_state (seconds 100) (Some [1, 2]) ''alice'' ''pw'' ''192.0.2.1'' = (Inr (u, token), st')"
    using ex_login by blast
  have j: "jwt_ok (m_lib ?m)" by (simp add: ex_mgr_def ex_lib_jwt_ok)
  obtain sid where "mint ?m (seconds 100) u sid 0 = Some token"
    using Login_ok(6) [OF l] by (auto simp: open_session_ok)
  then obtain c where p: "Parse ?m (seconds 150) token = Inr c"
    using j by (auto simp: Parse_def mint_def jwt_ok_def ex_mgr_def rfc3339_def parse_rfc3339_def)
  have "\<not> db_down (ast_db st')" using Login_ok(6) [OF l] by (auto simp: open_session_ok CreateSession_ok)
  then obtain st'' where o: "Logout ?m st' (seconds 150) token = (Inr (), st'')"
    using p by (simp add: Logout_def DeleteSession_def exec_def)
  from logout_revokes [OF j l p o] l o show ?thesis by blast
qed

section \<open>Lockout\<close>

lemma count_insert:
  "t_count P (t_insert set_rid r t) = t_count P t + (if P (set_rid (tseq t + 1) r) then 1 else 0)"
  by (simp add: t_count_def t_select_def)

definition recent_failure :: "gotime \<Rightarrow> string \<Rightarrow> string \<Rightarrow> LoginAttempt \<Rightarrow> bool" where
  "recent_failure since n ip a \<longleftrightarrow> lUsername a = n \<and> lIP a = ip \<and> \<not> lSuccess a \<and> lCreatedAt a > rfc3339 since"

lemma Login_rejected:
  assumes "Login m show_time st tm rnd n pw ip = (Inl ErrInvalidCredentials, st')"
  shows "ast_db st' = ast_db (record_attempt tm n ip False st)"
  using assms by (auto simp: Login_def Let_def completeLogin_def open_session_def
      split: if_splits sum.splits store_error.splits option.splits prod.splits)

text \<open>A series of attempts on one account from one address: (time, random bytes, password).\<close>

fun try_logins :: "Manager \<Rightarrow> (stamp \<Rightarrow> string) \<Rightarrow> string \<Rightarrow> string \<Rightarrow> AuthState \<Rightarrow> (gotime \<times> byte list option \<times> string) list
    \<Rightarrow> (auth_error + User \<times> string) list \<times> AuthState" where
  "try_logins m show_time n ip st [] = ([], st)"
| "try_logins m show_time n ip st ((tm, rnd, pw) # as) =
     (let (r, st1) = Login m show_time st tm rnd n pw ip; (rs, st2) = try_logins m show_time n ip st1 as in (r # rs, st2))"

lemma try_logins_count:
  assumes "try_logins m show_time n ip st as = (rs, st')" "\<forall>r\<in>set rs. r = Inl ErrInvalidCredentials"
    and "\<forall>a\<in>set as. rfc3339 since < rfc3339 (fst a)" "\<not> db_down (ast_db st)"
  shows "length as + t_count (recent_failure since n ip) (login_attempts (ast_db st))
      \<le> t_count (recent_failure since n ip) (login_attempts (ast_db st')) \<and> \<not> db_down (ast_db st')"
  using assms
proof (induction as arbitrary: st rs)
  case (Cons a as)
  obtain tm rnd pw where a: "a = (tm, rnd, pw)" by (cases a)
  obtain r st1 where l: "Login m show_time st tm rnd n pw ip = (r, st1)" by fastforce
  obtain rs' where t: "try_logins m show_time n ip st1 as = (rs', st')" "rs = r # rs'"
    using Cons.prems(1) l by (auto simp: a split: prod.splits)
  have "ast_db st1 = ast_db (record_attempt tm n ip False st)"
    using Cons.prems(2) l t(2) Login_rejected by auto
  then have "\<not> db_down (ast_db st1)" "t_count (recent_failure since n ip) (login_attempts (ast_db st1)) =
      Suc (t_count (recent_failure since n ip) (login_attempts (ast_db st)))"
    using Cons.prems(3,4) by (simp_all add: count_insert recent_failure_def a)
  with Cons.IH [OF t(1)] Cons.prems t(2) show ?case by auto
qed simp

text \<open>C20: Five failed passwords on an account from one address within the window of 15 minutes lock that address out of
  that account: the next attempt is refused whatever password it brings, and leaves no trace in the state.\<close>

theorem five_failures_lock:
  assumes "try_logins m show_time n ip st as = (rs, st')" "\<forall>r\<in>set rs. r = Inl ErrInvalidCredentials"
    and "length as \<ge> 5" "\<forall>a\<in>set as. rfc3339 (tm - lockoutWindow) < rfc3339 (fst a)" "\<not> db_down (ast_db st)"
  shows "Login m show_time st' tm rnd n pw ip = (Inl ErrLockedOut, st')"
proof -
  have "t_count (recent_failure (tm - lockoutWindow) n ip) (login_attempts (ast_db st')) \<ge> 5" "\<not> db_down (ast_db st')"
    using try_logins_count [OF assms(1,2,4,5)] assms(3) by auto
  then have "lockedOut (ast_db st') tm n ip"
    by (simp add: lockedOut_def at_least_def CountRecentFailures_def query_def recent_failure_def [abs_def])
  then show ?thesis by (simp add: Login_def)
qed

theorem five_failures_lock_witness:
  "\<exists>rs st'. try_logins (ex_mgr []) (\<lambda>_. []) ''alice'' ''192.0.2.1'' ex_state (replicate 5 (seconds 1000, None, ''guess'')) = (rs, st')
     \<and> Login (ex_mgr []) (\<lambda>_. []) st' (seconds 1010) None ''alice'' ''pw'' ''192.0.2.1'' = (Inl ErrLockedOut, st')"
proof -
  let ?t = "try_logins (ex_mgr []) (\<lambda>_. []) ''alice'' ''192.0.2.1'' ex_state (replicate 5 (seconds 1000, None, ''guess''))"
  obtain rs st' where t: "?t = (rs, st')" by fastforce
  have "fst ?t = replicate 5 (Inl ErrInvalidCredentials)"
    by (simp add: eval_nat_numeral Login_def lockedOut_def at_least_def store_defs query_def ex_state_def db_empty_def t_count_def
        t_select_def query_row_def ex_row_def scanUser_def User.truncate_def CheckPassword_def ex_mgr_def ex_lib_def Let_def
        logFailedAttempt_def record_attempt_def exec_def)
  then have r: "\<forall>r\<in>set rs. r = Inl ErrInvalidCredentials" using t by auto
  have w: "\<forall>a\<in>set (replicate 5 (seconds 1000, None :: byte list option, ''guess'')).
      rfc3339 (seconds 1010 - lockoutWindow) < rfc3339 (fst a)"
    by (simp add: rfc3339_def)
  have d: "\<not> db_down (ast_db ex_state)" by (simp add: ex_state_def db_empty_def)
  from five_failures_lock [OF t r _ w d] t show ?thesis by auto
qed

text \<open>The failed attempts among \<open>attempts\<close> of the last 15 minutes that satisfy \<open>P\<close>.\<close>

definition failures_lately :: "gotime \<Rightarrow> (LoginAttempt \<Rightarrow> bool) \<Rightarrow> LoginAttempt list \<Rightarrow> LoginAttempt list" where
  "failures_lately tm P attempts = filter (\<lambda>a. \<not> lSuccess a \<and> rfc3339 (tm - minutes 15) < lCreatedAt a \<and> P a) attempts"

lemma Login_locked: "fst (Login m show_time st tm rnd n pw ip) = Inl ErrLockedOut \<longleftrightarrow> lockedOut (ast_db st) tm n ip"
  by (auto simp: Login_def completeLogin_def open_session_def Let_def split: sum.splits store_error.splits option.splits prod.splits)

lemma lockedOut_counts:
  assumes "\<not> db_down s" "HasRecentSuccess s n ip (tm - knownAddressWindow) = Inr True"
  shows "lockedOut s tm n ip \<longleftrightarrow>
    length (failures_lately tm (\<lambda>a. lUsername a = n \<and> lIP a = ip) (trows (login_attempts s))) \<ge> 5 \<or>
    length (failures_lately tm (\<lambda>a. lIP a = ip) (trows (login_attempts s))) \<ge> 30"
proof -
  have f: "failures_lately tm P as = filter (\<lambda>a. P a \<and> \<not> lSuccess a \<and> lCreatedAt a > rfc3339 (tm - lockoutWindow)) as" for P as
    unfolding failures_lately_def by (rule filter_cong) auto
  show ?thesis using assms
    by (simp add: lockedOut_def at_least_def CountRecentFailures_def CountRecentFailuresFromIP_def query_def t_count_def t_select_def f conj_assoc Let_def)
qed

text \<open>C21: Guessing from elsewhere does not lock the owner out of an address they have used. For an address with a successful login on
  the account within 30 days, \<open>Login\<close> refuses as locked out exactly when that address itself has had 5 failures on this account, or
  30 on any accounts, in the last 15 minutes; failures from other addresses, any number of them and on whatever account, change
  nothing.\<close>

theorem owner_not_locked:
  assumes "\<not> db_down (ast_db st)"
    and "known \<in> set (trows (login_attempts (ast_db st)))" "lUsername known = n" "lIP known = ip" "lSuccess known"
      "rfc3339 (tm - hours (30 * 24)) < lCreatedAt known"
  shows "(fst (Login m show_time st tm rnd n pw ip) = Inl ErrLockedOut \<longleftrightarrow>
      length (failures_lately tm (\<lambda>a. lUsername a = n \<and> lIP a = ip) (trows (login_attempts (ast_db st)))) \<ge> 5 \<or>
      length (failures_lately tm (\<lambda>a. lIP a = ip) (trows (login_attempts (ast_db st)))) \<ge> 30) \<and>
    (\<forall>st' others. trows (login_attempts (ast_db st')) = trows (login_attempts (ast_db st)) @ others \<and> \<not> db_down (ast_db st') \<and>
        (\<forall>a\<in>set others. lIP a \<noteq> ip) \<longrightarrow>
      (fst (Login m show_time st' tm rnd n pw ip) = Inl ErrLockedOut \<longleftrightarrow> fst (Login m show_time st tm rnd n pw ip) = Inl ErrLockedOut))"
proof -
  have k: "HasRecentSuccess s n ip (tm - knownAddressWindow) = Inr True" if "known \<in> set (trows (login_attempts s))" "\<not> db_down s" for s
    using that assms(3-6) by (auto simp: HasRecentSuccess_def query_def t_count_def t_select_def filter_empty_conv)
  have "failures_lately tm (\<lambda>a. lIP a = ip) (as @ others) = failures_lately tm (\<lambda>a. lIP a = ip) as"
    "failures_lately tm (\<lambda>a. lUsername a = n \<and> lIP a = ip) (as @ others) = failures_lately tm (\<lambda>a. lUsername a = n \<and> lIP a = ip) as"
    if "\<forall>a\<in>set others. lIP a \<noteq> ip" for as others
    using that by (auto simp: failures_lately_def filter_empty_conv)
  with k assms(1,2) show ?thesis by (simp add: Login_locked lockedOut_counts)
qed

definition ex_attempt :: "string \<Rightarrow> bool \<Rightarrow> int \<Rightarrow> LoginAttempt" where
  "ex_attempt ip ok i = \<lparr>lID = i, lUsername = ''alice'', lIP = ip, lSuccess = ok, lCreatedAt = 1000\<rparr>"

text \<open>Alice's address has a success and three failures; forty failures come from elsewhere.\<close>

definition ex_attempts :: "LoginAttempt list" where
  "ex_attempts = ex_attempt ''192.0.2.1'' True 1 # replicate 3 (ex_attempt ''192.0.2.1'' False 2) @ replicate 40 (ex_attempt ''203.0.113.9'' False 5)"

theorem owner_not_locked_witness:
  "fst (Login (ex_mgr []) (\<lambda>_. []) (ex_state\<lparr>ast_db := (ast_db ex_state)\<lparr>login_attempts := \<lparr>trows = ex_attempts, tseq = 44\<rparr>\<rparr>\<rparr>)
      (seconds 1010) None ''alice'' ''pw'' ''192.0.2.1'') \<noteq> Inl ErrLockedOut"
proof -
  let ?st = "ex_state\<lparr>ast_db := (ast_db ex_state)\<lparr>login_attempts := \<lparr>trows = ex_attempts, tseq = 44\<rparr>\<rparr>\<rparr>"
  have ex: "lUsername (ex_attempt ''192.0.2.1'' True 1) = ''alice''" "lIP (ex_attempt ''192.0.2.1'' True 1) = ''192.0.2.1''"
    "lSuccess (ex_attempt ''192.0.2.1'' True 1)" by (simp_all add: ex_attempt_def)
  have "length (failures_lately (seconds 1010) (\<lambda>a. P a \<and> lIP a = ''192.0.2.1'') ex_attempts) \<le> 3" for P
  proof -
    have "failures_lately (seconds 1010) (\<lambda>a. P a \<and> lIP a = ''192.0.2.1'') ex_attempts =
        failures_lately (seconds 1010) P (replicate 3 (ex_attempt ''192.0.2.1'' False 2))"
      by (simp add: failures_lately_def ex_attempts_def ex_attempt_def filter_replicate)
    then show ?thesis by (simp add: failures_lately_def filter_replicate)
  qed
  from this [of "\<lambda>a. lUsername a = ''alice''"] this [of "\<lambda>_. True"]
  have "\<not> length (failures_lately (seconds 1010) (\<lambda>a. lUsername a = ''alice'' \<and> lIP a = ''192.0.2.1'') ex_attempts) \<ge> 5"
    "\<not> length (failures_lately (seconds 1010) (\<lambda>a. lIP a = ''192.0.2.1'') ex_attempts) \<ge> 30" by simp_all
  moreover have d: "\<not> db_down (ast_db ?st)" by (simp add: ex_state_def db_empty_def)
  have k: "ex_attempt ''192.0.2.1'' True 1 \<in> set (trows (login_attempts (ast_db ?st)))" by (simp add: ex_attempts_def)
  have t: "rfc3339 (seconds 1010 - hours (30 * 24)) < lCreatedAt (ex_attempt ''192.0.2.1'' True 1)" by (simp add: ex_attempt_def rfc3339_def)
  have "trows (login_attempts (ast_db ?st)) = ex_attempts" by simp
  ultimately show ?thesis
    using conjunct1 [OF owner_not_locked [OF d k ex t, of "ex_mgr []" "\<lambda>_. []" None "''pw''"]] by metis
qed

section \<open>The second factor\<close>

lemma challenge_after_create:
  assumes "CreateTOTPChallenge s t cid uid e = Inr s'"
  shows "GetTOTPChallengeUser s' now cid = (if now \<le> parse_rfc3339 (rfc3339 e) then Inr uid else Inl ErrNotFound)"
    "sessions s' = sessions s"
  using assms find_append_None [of "totp_challenges s" "\<lambda>r. sID r = cid"]
  by (auto simp: CreateTOTPChallenge_def GetTOTPChallengeUser_def live_row_def query_row_def list_ex_iff split: if_splits)

text \<open>C9: The password alone never signs in an account with a second factor: \<open>Login\<close> opens no session for it. With
  the right password, on an active account, it hands out a challenge that belongs to the account and dies after five minutes.\<close>

theorem second_factor_required:
  assumes "GetUserByUsername (ast_db st) n = Inr u" "uTOTPEnabled u"
    and "Login m show_time st tm rnd n pw ip = (r, st')"
  shows "isl r \<and> sessions (ast_db st') = sessions (ast_db st) \<and>
    (\<forall>cid. r = Inl (ErrTOTPRequired cid) \<longrightarrow> CheckPassword (m_lib m) (uPasswordHash u) pw \<and> uStatus u \<noteq> StatusSuspended \<and>
       (\<forall>now. tm + totpChallengeTTL < now \<longrightarrow> GetTOTPChallengeUser (ast_db st') now cid = Inl ErrNotFound) \<and>
       GetTOTPChallengeUser (ast_db st') tm cid = Inr (uID u))"
proof -
  have "parse_rfc3339 (rfc3339 (tm + totpChallengeTTL)) \<le> tm + totpChallengeTTL" by (rule parse_rfc3339_le)
  moreover have "tm \<le> parse_rfc3339 (rfc3339 (tm + totpChallengeTTL))"
    using parse_rfc3339_close [of "tm + totpChallengeTTL"] by simp
  ultimately show ?thesis
    using assms
    by (auto simp: Login_def Let_def challenge_after_create
        split: if_splits sum.splits store_error.splits option.splits)
qed

theorem second_factor_required_witness:
  "\<exists>cid st'. Login (ex_mgr []) (\<lambda>_. []) ex_state (seconds 1000) (Some [9]) ''bob'' ''pw'' ''192.0.2.1'' = (Inl (ErrTOTPRequired cid), st')
     \<and> sessions (ast_db st') = [] \<and> GetTOTPChallengeUser (ast_db st') (seconds 1000) cid = Inr 3"
proof -
  have g: "GetUserByUsername (ast_db ex_state) ''bob'' = Inr (scanUser ex_bob)"
    by (simp add: GetUserByUsername_def query_row_def ex_state_def db_empty_def ex_row_def ex_bob_def)
  have t: "uTOTPEnabled (scanUser ex_bob)" "uID (scanUser ex_bob) = 3"
    by (simp_all add: ex_bob_def ex_row_def scanUser_def User.truncate_def)
  obtain cid st' where l: "Login (ex_mgr []) (\<lambda>_. []) ex_state (seconds 1000) (Some [9]) ''bob'' ''pw'' ''192.0.2.1'' = (Inl (ErrTOTPRequired cid), st')"
    using g t by (simp add: Login_def lockedOut_def at_least_def store_defs query_def t_count_def t_select_def
      query_row_def CheckPassword_def ex_mgr_def ex_lib_def Let_def record_attempt_def exec_def newSessionID_def
      ex_state_def db_empty_def ex_bob_def ex_row_def scanUser_def User.truncate_def)
  have "sessions (ast_db ex_state) = []" by (simp add: ex_state_def db_empty_def)
  with second_factor_required [OF g t(1) l] l t(2) show ?thesis by auto
qed

lemma consume_Some:
  "consume lib code hs = Some rs \<Longrightarrow> \<exists>xs h ys. hs = xs @ h # ys \<and> rs = xs @ ys \<and> CheckPassword lib h code
     \<and> (\<forall>x\<in>set xs. \<not> CheckPassword lib x code)"
proof (induction hs arbitrary: rs)
  case (Cons h hs)
  show ?case
  proof (cases "CheckPassword lib h code")
    case True
    with Cons.prems show ?thesis by (intro exI [of _ "[]"] exI [of _ h] exI [of _ hs]) auto
  next
    case False
    with Cons.prems obtain rs' where "consume lib code hs = Some rs'" "rs = h # rs'" by auto
    with Cons.IH [of rs'] obtain xs k ys where "hs = xs @ k # ys" "rs' = xs @ ys" "CheckPassword lib k code"
      "\<forall>x\<in>set xs. \<not> CheckPassword lib x code" by blast
    with False \<open>rs = h # rs'\<close> show ?thesis
      by (intro exI [of _ "h # xs"] exI [of _ k] exI [of _ ys]) auto
  qed
qed simp

lemma consume_None: "consume lib code hs = None \<longleftrightarrow> (\<forall>h\<in>set hs. \<not> CheckPassword lib h code)"
  by (induction hs) auto

text \<open>The store after a challenge was redeemed.\<close>

lemma VerifyTOTPLogin_ok:
  assumes "VerifyTOTPLogin m show_time st tm rnd ch code ip = (Inr (u, token), st')"
  obtains uid s1 st1 where "GetTOTPChallengeUser (ast_db st) tm ch = Inr uid" "GetUserByID (ast_db st) uid = Inr u"
    "\<not> lockedOut (ast_db st) tm (uUsername u) ip" "uStatus u \<noteq> StatusSuspended"
    "ValidateTOTPCode (uTOTPSecret u) tm code \<and> s1 = ast_db st \<or>
     \<not> ValidateTOTPCode (uTOTPSecret u) tm code \<and> consumeBackupCode (m_lib m) (ast_db st) tm u code = (True, s1)"
    "st1 = drop_challenge ch (record_attempt tm (uUsername u) ip True (st\<lparr>ast_db := s1\<rparr>))"
    "open_session m st1 tm rnd u 0 = (Inr token, st')"
proof -
  obtain uid where u: "GetTOTPChallengeUser (ast_db st) tm ch = Inr uid" "GetUserByID (ast_db st) uid = Inr u"
    "\<not> lockedOut (ast_db st) tm (uUsername u) ip" "uStatus u \<noteq> StatusSuspended"
    using assms by (auto simp: VerifyTOTPLogin_def completeLogin_def
        split: sum.splits if_splits prod.splits bool.splits)
  show ?thesis
  proof (cases "ValidateTOTPCode (uTOTPSecret u) tm code")
    case True
    with assms u show ?thesis
      by (intro that [OF u, of "ast_db st"]) (auto simp: VerifyTOTPLogin_def completeLogin_def split: sum.splits prod.splits)
  next
    case False
    obtain b s1 where c: "consumeBackupCode (m_lib m) (ast_db st) tm u code = (b, s1)" by fastforce
    with False assms u show ?thesis
      by (intro that [OF u, of s1]) (auto simp: VerifyTOTPLogin_def completeLogin_def split: sum.splits prod.splits bool.splits)
  qed
qed

lemma consumed_keeps:
  assumes "consumeBackupCode lib s tm u code = (b, s1)"
  shows "db_down s1 = db_down s" "sessions s1 = sessions s" "totp_challenges s1 = totp_challenges s"
  using assms by (auto simp: consumeBackupCode_def Let_def SetTOTPBackupCodes_def set_user_def
      split: if_splits codes_text.splits option.splits)

text \<open>C10: A second-factor login succeeds only for a live challenge, with a code valid at that moment or an unused
  recovery code of the account, and it uses the challenge up: the same challenge is refused at any later time.\<close>

theorem second_factor_redeems:
  assumes "VerifyTOTPLogin m show_time st tm rnd ch code ip = (Inr (u, token), st')"
  shows "(\<exists>uid. GetTOTPChallengeUser (ast_db st) tm ch = Inr uid \<and> GetUserByID (ast_db st) uid = Inr u) \<and>
    (ValidateTOTPCode (uTOTPSecret u) tm code \<or>
     (\<exists>hs h. uTOTPBackupCodes u = Codes hs \<and> h \<in> set hs \<and> CheckPassword (m_lib m) h (TrimSpace code))) \<and>
    (\<forall>m' now rnd' code' ip'. fst (VerifyTOTPLogin m' show_time st' now rnd' ch code' ip') = Inl ErrInvalidToken)"
proof -
  obtain uid s1 st1 where V: "GetTOTPChallengeUser (ast_db st) tm ch = Inr uid" "GetUserByID (ast_db st) uid = Inr u"
    "ValidateTOTPCode (uTOTPSecret u) tm code \<and> s1 = ast_db st \<or>
     \<not> ValidateTOTPCode (uTOTPSecret u) tm code \<and> consumeBackupCode (m_lib m) (ast_db st) tm u code = (True, s1)"
    "st1 = drop_challenge ch (record_attempt tm (uUsername u) ip True (st\<lparr>ast_db := s1\<rparr>))"
    "open_session m st1 tm rnd u 0 = (Inr token, st')"
    using VerifyTOTPLogin_ok [OF assms] by metis
  have "\<not> db_down (ast_db st)" using V(2) by (simp add: GetUserByID_def)
  then have "\<not> db_down s1" using V(3) consumed_keeps(1) by metis
  then have "\<forall>r\<in>set (totp_challenges (ast_db st')). sID r \<noteq> ch" "\<not> db_down (ast_db st')"
    using V(4,5) by (auto simp: open_session_ok CreateSession_ok)
  then have "GetTOTPChallengeUser (ast_db st') now ch = Inl ErrNotFound" for now
    by (auto simp: GetTOTPChallengeUser_def query_row_def live_row_def find_None_iff split: option.splits)
       (auto simp: find_Some_iff)
  moreover have "\<exists>hs h. uTOTPBackupCodes u = Codes hs \<and> h \<in> set hs \<and> CheckPassword (m_lib m) h (TrimSpace code)"
    if "consumeBackupCode (m_lib m) (ast_db st) tm u code = (True, s1)"
    using that by (auto simp: consumeBackupCode_def Let_def dest!: consume_Some
        split: if_splits codes_text.splits option.splits)
  ultimately show ?thesis using V(1-3) by (auto simp: VerifyTOTPLogin_def)
qed

text \<open>Bob redeems a challenge with his recovery code.\<close>

definition ex_challenged :: AuthState where
  "ex_challenged = ex_state\<lparr>ast_db := (ast_db ex_state)\<lparr>totp_challenges :=
     [\<lparr>sID = ''c'', sUserID = 3, sExpiresAt = 1100, sCreatedAt = 1000\<rparr>]\<rparr>\<rparr>"

lemma ex_recovery:
  "\<exists>u token st'. VerifyTOTPLogin (ex_mgr [ex_claims (scanUser ex_bob) [5] 0 1000]) (\<lambda>_. []) ex_challenged (seconds 1000) (Some [5])
     ''c'' ''AAAAA-BBBBB'' ''192.0.2.1'' = (Inr (u, token), st')"
proof -
  have t: "TrimSpace ''AAAAA-BBBBB'' = ''AAAAA-BBBBB''" by code_simp
  have v: "\<not> ValidateTOTPCode x y ''AAAAA-BBBBB''" for x y by (simp add: ValidateTOTPCode_def t)
  show ?thesis
    by (simp add: VerifyTOTPLogin_def v consumeBackupCode_def t lockedOut_def at_least_def store_defs set_user_def query_def ex_challenged_def
      ex_state_def db_empty_def t_count_def t_select_def t_get_def live_row_def parse_rfc3339_def
      query_row_def ex_bob_def ex_row_def scanUser_def User.truncate_def CheckPassword_def ex_mgr_def ex_lib_def Let_def completeLogin_def
      open_session_def newSessionID_def mint_def record_attempt_def drop_challenge_def exec_def ex_claims_def rfc3339_def)
qed

theorem second_factor_redeems_witness:
  "\<exists>m u token st'. VerifyTOTPLogin m (\<lambda>_. []) ex_challenged (seconds 1000) (Some [5]) ''c'' ''AAAAA-BBBBB'' ''192.0.2.1'' = (Inr (u, token), st')
     \<and> fst (VerifyTOTPLogin m (\<lambda>_. []) st' (seconds 1001) (Some [6]) ''c'' ''AAAAA-BBBBB'' ''192.0.2.1'') = Inl ErrInvalidToken"
proof -
  obtain m u token st' where v: "VerifyTOTPLogin m (\<lambda>_. []) ex_challenged (seconds 1000) (Some [5]) ''c'' ''AAAAA-BBBBB'' ''192.0.2.1''
      = (Inr (u, token), st')" using ex_recovery by blast
  from second_factor_redeems [OF v] v show ?thesis by blast
qed

text \<open>A recovery code works once: when it signs somebody in and no other stored hash matches it, the hash is removed
  from the account, and the code is refused from then on.\<close>

theorem recovery_code_once:
  assumes "VerifyTOTPLogin m show_time st tm rnd ch code ip = (Inr (u, token), st')"
    and "\<not> ValidateTOTPCode (uTOTPSecret u) tm code" "uTOTPBackupCodes u = Codes hs"
    and "length (filter (\<lambda>h. CheckPassword (m_lib m) h (TrimSpace code)) hs) = 1"
  shows "\<exists>u' hs'. GetUserByID (ast_db st') (uID u) = Inr u' \<and> uTOTPBackupCodes u' = Codes hs' \<and> length hs' + 1 = length hs \<and>
    set hs' \<subseteq> set hs \<and> consumeBackupCode (m_lib m) (ast_db st') tm' u' code = (False, ast_db st')"
proof -
  obtain uid s1 st1 where V: "GetUserByID (ast_db st) uid = Inr u"
    "consumeBackupCode (m_lib m) (ast_db st) tm u code = (True, s1)"
    "st1 = drop_challenge ch (record_attempt tm (uUsername u) ip True (st\<lparr>ast_db := s1\<rparr>))"
    "open_session m st1 tm rnd u 0 = (Inr token, st')"
    using VerifyTOTPLogin_ok [OF assms(1)] assms(2) by metis
  have up: "\<not> db_down (ast_db st)" using V(1) by (simp add: GetUserByID_def)
  obtain rs where rs: "consume (m_lib m) (TrimSpace code) hs = Some rs"
    "s1 = (ast_db st)\<lparr>users := t_update (\<lambda>r. uID r = uID u) (\<lambda>r. r\<lparr>uTOTPBackupCodes := Codes rs, uUpdatedAt := rfc3339 tm\<rparr>) (users (ast_db st))\<rparr>"
    using V(2) assms(3) up
    by (auto simp: consumeBackupCode_def Let_def SetTOTPBackupCodes_def set_user_def exec_def split: if_splits option.splits)
  obtain xs h ys where split: "hs = xs @ h # ys" "rs = xs @ ys" "CheckPassword (m_lib m) h (TrimSpace code)"
    using consume_Some [OF rs(1)] by blast
  have none: "\<forall>k\<in>set rs. \<not> CheckPassword (m_lib m) k (TrimSpace code)"
    using assms(4) split by (auto simp: filter_empty_conv)
  have users: "users (ast_db st') = users s1" "\<not> db_down (ast_db st')"
    using V(3,4) rs(2) up by (auto simp: open_session_ok CreateSession_ok)
  obtain r where r: "t_get uID uid (users (ast_db st)) = Some r" "u = scanUser r"
    using V(1) by (auto simp: GetUserByID_def)
  then have id: "uID u = uid" "uID r = uid" by (auto simp: scanUser_def User.truncate_def dest: t_get_SomeD)
  have get: "GetUserByID (ast_db st') (uID u) = Inr (scanUser (r\<lparr>uTOTPBackupCodes := Codes rs, uUpdatedAt := rfc3339 tm\<rparr>))"
    using r(1) id users rs(2) by (simp add: GetUserByID_def query_row_def t_get_update)
  let ?u' = "scanUser (r\<lparr>uTOTPBackupCodes := Codes rs, uUpdatedAt := rfc3339 tm\<rparr>)"
  have codes: "uTOTPBackupCodes ?u' = Codes rs" by (simp add: scanUser_def User.truncate_def)
  have "consume (m_lib m) (TrimSpace code) rs = None" using none by (simp add: consume_None)
  then have "consumeBackupCode (m_lib m) (ast_db st') tm' ?u' code = (False, ast_db st')"
    using codes by (simp add: consumeBackupCode_def Let_def)
  with get codes split show ?thesis by auto
qed

theorem recovery_code_once_witness:
  "\<exists>m u token st' u'. VerifyTOTPLogin m (\<lambda>_. []) ex_challenged (seconds 1000) (Some [5]) ''c'' ''AAAAA-BBBBB'' ''192.0.2.1'' = (Inr (u, token), st')
     \<and> GetUserByID (ast_db st') (uID u) = Inr u' \<and> uTOTPBackupCodes u' = Codes []"
proof -
  let ?m = "ex_mgr [ex_claims (scanUser ex_bob) [5] 0 1000]"
  obtain u token st' where v: "VerifyTOTPLogin ?m (\<lambda>_. []) ex_challenged (seconds 1000) (Some [5]) ''c'' ''AAAAA-BBBBB'' ''192.0.2.1''
      = (Inr (u, token), st')" using ex_recovery by blast
  have t: "TrimSpace ''AAAAA-BBBBB'' = ''AAAAA-BBBBB''" by code_simp
  obtain uid where g: "GetTOTPChallengeUser (ast_db ex_challenged) (seconds 1000) ''c'' = Inr uid"
    "GetUserByID (ast_db ex_challenged) uid = Inr u"
    using VerifyTOTPLogin_ok [OF v] by metis
  then have u: "u = scanUser ex_bob"
    by (auto simp: ex_challenged_def ex_state_def db_empty_def GetTOTPChallengeUser_def GetUserByID_def live_row_def
        query_row_def t_get_def ex_bob_def ex_row_def parse_rfc3339_def)
  then have c: "uTOTPBackupCodes u = Codes [''AAAAA-BBBBB'']"
    by (simp add: ex_bob_def ex_row_def scanUser_def User.truncate_def)
  have n: "\<not> ValidateTOTPCode (uTOTPSecret u) (seconds 1000) ''AAAAA-BBBBB''" by (simp add: ValidateTOTPCode_def t)
  have l: "length (filter (\<lambda>h. CheckPassword (m_lib ?m) h (TrimSpace ''AAAAA-BBBBB'')) [''AAAAA-BBBBB'']) = 1"
    by (simp add: t CheckPassword_def ex_mgr_def ex_lib_def)
  from recovery_code_once [OF v n c l] v show ?thesis by fastforce
qed

section \<open>Support sessions\<close>

lemma Impersonate_ok:
  assumes "Impersonate m st tm rnd adminID targetID = (Inr token, st')"
  obtains admin target where "GetUserByID (ast_db st) adminID = Inr admin" "uRole admin = RoleAdmin"
    "GetUserByID (ast_db st) targetID = Inr target" "uStatus target \<noteq> StatusSuspended"
    "open_session m st tm rnd target adminID = (Inr token, st')"
  using assms by (auto simp: Impersonate_def split: sum.splits if_splits)

text \<open>A support session is a detour: only an administrator gets one, its token acts as the (active) target but names the
  administrator, and ending it returns a token for that very administrator with no impersonator, while the support
  token is dead from then on.\<close>

theorem impersonation_roundtrip:
  assumes "jwt_ok (m_lib m)" "adminID > 0" "Impersonate m st tm rnd adminID targetID = (Inr token, st1)"
    and "tm1 < parse_rfc3339 (rfc3339 (tm + m_ttl m))" "Unimpersonate m st1 tm1 rnd1 token = (Inr token', st2)"
    and "now < parse_rfc3339 (rfc3339 (tm1 + m_ttl m))" "newSessionID rnd1 \<noteq> newSessionID rnd"
  shows "\<exists>admin target c. GetUserByID (ast_db st) adminID = Inr admin \<and> uRole admin = RoleAdmin \<and>
    GetUserByID (ast_db st) targetID = Inr target \<and>
    Verify m (ast_db st1) tm1 token = Inr (c, target) \<and> IsImpersonating c \<and> Impersonator c = adminID \<and>
    (uStatus admin \<noteq> StatusSuspended \<longrightarrow>
      (\<exists>c'. Verify m (ast_db st2) now token' = Inr (c', admin) \<and> \<not> IsImpersonating c' \<and> Role c' = RoleAdmin)) \<and>
    Verify m (ast_db st2) now token = Inl ErrInvalidToken"
proof -
  obtain admin target where I: "GetUserByID (ast_db st) adminID = Inr admin" "uRole admin = RoleAdmin"
    "GetUserByID (ast_db st) targetID = Inr target" "uStatus target \<noteq> StatusSuspended"
    "open_session m st tm rnd target adminID = (Inr token, st1)"
    using Impersonate_ok [OF assms(3)] .
  have t: "GetUserByID (ast_db st) (uID target) = Inr target" using I(3) GetUserByID_id by simp
  obtain c where c: "Verify m (ast_db st1) tm1 token = Inr (c, target)" "Parse m tm1 token = Inr c" "Impersonator c = adminID"
    "Some (SessionID c) = newSessionID rnd"
    using verify_open_session [OF assms(1) I(5) t I(4) assms(4)] by auto
  let ?sd = "drop_session (SessionID c) st1"
  have st1: "users (ast_db st1) = users (ast_db st)" "db_down (ast_db st1) = db_down (ast_db st)" "\<not> db_down (ast_db st1)"
    using I(5) by (auto simp: open_session_ok CreateSession_ok)
  then have a: "GetUserByID (ast_db ?sd) adminID = Inr admin"
    using I(1) users_only(1) [of "ast_db ?sd" "ast_db st"] by simp
  then have o: "open_session m ?sd tm1 rnd1 admin 0 = (Inr token', st2)"
    using assms(2,5) c(2,3) by (simp add: Unimpersonate_def)
  have "uID admin = adminID" using I(1) by (rule GetUserByID_id)
  then have ret: "\<exists>c'. Verify m (ast_db st2) now token' = Inr (c', admin) \<and> Impersonator c' = 0 \<and> Role c' = uRole admin"
    if "uStatus admin \<noteq> StatusSuspended"
    using verify_open_session [OF assms(1) o _ that assms(6)] a by auto
  have gone: "\<forall>r\<in>set (sessions (ast_db st2)). sID r \<noteq> SessionID c"
    using o st1(3) c(4) assms(7) by (auto simp: open_session_ok CreateSession_ok)
  obtain sid where "mint m tm target sid adminID = Some token" using I(5) by (auto simp: open_session_ok)
  then have "Verify m (ast_db st2) now token = Inl ErrInvalidToken"
    using dead_token [OF assms(1) _ c(2) gone] by blast
  with I c ret assms(2) show ?thesis by (auto simp: IsImpersonating_def)
qed

lemma hex_one: "hex_EncodeToString [1] = ''01''" "hex_EncodeToString [2] = ''02''"
  by code_simp+

theorem impersonation_roundtrip_witness:
  "\<exists>m token st1 token' st2 c. Impersonate m ex_state (seconds 100) (Some [1]) 1 2 = (Inr token, st1) \<and>
     Unimpersonate m st1 (seconds 200) (Some [2]) token = (Inr token', st2) \<and> Verify m (ast_db st1) (seconds 200) token = Inr (c, scanUser (ex_row 2 ''alice'' RoleUser)) \<and>
     Verify m (ast_db st2) (seconds 300) token = Inl ErrInvalidToken"
proof -
  let ?alice = "scanUser (ex_row 2 ''alice'' RoleUser)" and ?root = "scanUser (ex_row 1 ''root'' RoleAdmin)"
  let ?m = "ex_mgr [ex_claims ?alice [1] 1 100, ex_claims ?root [2] 0 200]"
  have g: "GetUserByID (ast_db ex_state) 1 = Inr ?root" "GetUserByID (ast_db ex_state) 2 = Inr ?alice"
    by (simp_all add: GetUserByID_def query_row_def ex_state_def db_empty_def t_get_def ex_row_def)
  obtain token st1 where i: "Impersonate ?m ex_state (seconds 100) (Some [1]) 1 2 = (Inr token, st1)" "token = []"
      "sessions (ast_db st1) = [\<lparr>sID = ''01'', sUserID = 2, sExpiresAt = 3700, sCreatedAt = 100\<rparr>]"
      "users (ast_db st1) = users (ast_db ex_state)" "\<not> db_down (ast_db st1)"
    using g by (simp add: Impersonate_def open_session_def newSessionID_def CreateSession_def ex_state_def db_empty_def mint_def ex_mgr_def
      ex_lib_def ex_claims_def ex_row_def scanUser_def User.truncate_def rfc3339_def hex_one)
  have down: "\<not> db_down (ast_db ex_state)" by (simp add: ex_state_def db_empty_def)
  have g1: "GetUserByID (ast_db (drop_session ''01'' st1)) 1 = Inr ?root"
    using g(1) i(4,5) down users_only(1) [of "ast_db (drop_session ''01'' st1)" "ast_db ex_state"] by simp
  obtain token' st2 where u: "Unimpersonate ?m st1 (seconds 200) (Some [2]) token = (Inr token', st2)"
    using g1 i by (auto simp: Unimpersonate_def Parse_def ex_mgr_def ex_lib_def ex_claims_def parse_rfc3339_def hex_one Let_def open_session_def
      newSessionID_def CreateSession_def mint_def rfc3339_def ex_row_def scanUser_def User.truncate_def)
  have j: "jwt_ok (m_lib ?m)" by (simp add: ex_mgr_def ex_lib_jwt_ok)
  have n: "newSessionID (Some [2]) \<noteq> newSessionID (Some [1])" by (simp add: newSessionID_def hex_one)
  have x: "seconds 200 < parse_rfc3339 (rfc3339 (seconds 100 + m_ttl ?m))" "seconds 300 < parse_rfc3339 (rfc3339 (seconds 200 + m_ttl ?m))"
    by (simp_all add: ex_mgr_def rfc3339_def parse_rfc3339_def)
  have "(1 :: int) > 0" by simp
  from impersonation_roundtrip [OF j this i(1) x(1) u x(2) n] g obtain c where
    "Verify ?m (ast_db st1) (seconds 200) token = Inr (c, ?alice)" "Verify ?m (ast_db st2) (seconds 300) token = Inl ErrInvalidToken"
    by auto
  with i(1) u show ?thesis by blast
qed

section \<open>Weak spots\<close>

text \<open>Starting an enrolment on an account whose second factor is already enabled replaces the live secret at once, with no
  password or code asked: the account then accepts the codes of the new secret.\<close>

theorem enroll_replaces_live_secret:
  assumes "GetUserByID (ast_db st) i = Inr u" "uTOTPEnabled u" "length rnd = 20"
  shows "\<exists>secret uri st' u'. BeginTOTPEnroll st tm (Some rnd) i (uUsername u) = (Inr (secret, uri), st') \<and>
    b32_DecodeString (ToUpper (TrimSpace secret)) = Some rnd \<and>
    GetUserByID (ast_db st') i = Inr u' \<and> uTOTPEnabled u' \<and> uTOTPSecret u' = secret"
proof -
  obtain r where r: "t_get uID i (users (ast_db st)) = Some r" "u = scanUser r" "\<not> db_down (ast_db st)"
    using assms(1) by (auto simp: GetUserByID_def)
  have "uID r = i" using r(1) by (auto dest: t_get_SomeD)
  moreover have "b32_DecodeString (ToUpper (TrimSpace (b32_EncodeToString rnd))) = Some rnd"
    using assms(3) by (intro secret_decodes) simp
  ultimately show ?thesis
    using r assms(2)
    by (auto simp: BeginTOTPEnroll_def GenerateTOTPSecret_def SetTOTPSecret_def set_user_def exec_def GetUserByID_def query_row_def
        t_get_update scanUser_def User.truncate_def)
qed

theorem enroll_replaces_live_secret_witness:
  "\<exists>secret uri st' u'. BeginTOTPEnroll ex_state 0 (Some (replicate 20 9)) 3 ''bob'' = (Inr (secret, uri), st') \<and>
     GetUserByID (ast_db st') 3 = Inr u' \<and> uTOTPEnabled u' \<and> uTOTPSecret u' = secret"
proof -
  have g: "GetUserByID (ast_db ex_state) 3 = Inr (scanUser ex_bob)"
    by (simp add: GetUserByID_def query_row_def ex_state_def db_empty_def t_get_def ex_row_def ex_bob_def)
  have t: "uTOTPEnabled (scanUser ex_bob)" "uUsername (scanUser ex_bob) = ''bob''"
    by (simp_all add: ex_bob_def ex_row_def scanUser_def User.truncate_def)
  have l: "length (replicate 20 (9 :: byte)) = 20" by simp
  show ?thesis using enroll_replaces_live_secret [OF g t(1) l, of 0] unfolding t(2) by blast
qed

text \<open>The failed-login log can be forged: a login attempt for a made-up user name that contains a line break
  writes, besides its own line, a complete line that blames any address the sender likes.\<close>

theorem log_line_forged:
  assumes "ast_log_opens st" "\<not> lockedOut (ast_db st) tm forged ip" "GetUserByUsername (ast_db st) forged = Inl ErrNotFound"
    and "forged = n1 @ '' from '' @ victim @ [CHR 0x0A] @ show_time (rfc3339 tm) @ '' aegis: authentication failure for '' @ n2"
  shows "ast_log (snd (Login m show_time st tm rnd forged pw ip)) =
    ast_log st @ log_line show_time tm n1 victim @ log_line show_time tm n2 ip"
  using assms(1-3) unfolding assms(4)
  by (simp add: Login_def logFailedAttempt_def record_attempt_def log_line_def)

theorem log_line_forged_witness:
  "ast_log (snd (Login (ex_mgr []) (\<lambda>_. ''now'') ex_state 0 None (''x from 198.51.100.7'' @ [CHR 0x0A] @ ''now aegis: authentication failure for y'') ''p'' ''192.0.2.1''))
   = log_line (\<lambda>_. ''now'') 0 ''x'' ''198.51.100.7'' @ log_line (\<lambda>_. ''now'') 0 ''y'' ''192.0.2.1''"
proof -
  let ?n = "''x from 198.51.100.7'' @ [CHR 0x0A] @ ''now aegis: authentication failure for y''"
  have l: "\<not> lockedOut (ast_db ex_state) 0 ?n ''192.0.2.1''"
    by (simp add: lockedOut_def at_least_def store_defs query_def ex_state_def db_empty_def t_count_def t_select_def)
  have g: "GetUserByUsername (ast_db ex_state) ?n = Inl ErrNotFound"
    by (simp add: GetUserByUsername_def query_row_def ex_state_def db_empty_def ex_row_def ex_bob_def)
  have o1: "ast_log_opens ex_state" "ast_log ex_state = []" by (simp_all add: ex_state_def)
  have n: "?n = ''x'' @ '' from '' @ ''198.51.100.7'' @ [CHR 0x0A] @ (\<lambda>_. ''now'') (rfc3339 0) @ '' aegis: authentication failure for '' @ ''y''"
    by simp
  show ?thesis using log_line_forged [OF o1(1) l g n] o1(2) by simp
qed

end
