(* ===== verification/Suspend.thy ===== *)
theory Suspend
  imports Store_Services
begin

text \<open>
  Suspending and restoring accounts, \<^verbatim>\<open>svc/suspend.go\<close>.

  The suspender drives the host through its field \<open>run\<close> (a system command with its output, \<open>None\<close> for a failure) and
  through the services it holds, any of which may be absent (\<open>nil\<close>). They act on a host state of any type \<open>'h\<close> and
  read the store; the record \<open>Services\<close> holds them. What the suspender itself keeps is \<open>applied\<close>.
\<close>

record 'h Services =
  sv_run :: "string list \<Rightarrow> 'h \<Rightarrow> string option \<times> 'h"
  sv_Apply :: "(db \<Rightarrow> int \<Rightarrow> 'h \<Rightarrow> string option \<times> 'h) option"        \<comment> \<open>Domains.Apply: an error message or none\<close>
  sv_Pause :: "(User \<Rightarrow> 'h \<Rightarrow> 'h) option"                              \<comment> \<open>Cron\<close>
  sv_Resume :: "(db \<Rightarrow> User \<Rightarrow> 'h \<Rightarrow> string option \<times> 'h) option"
  sv_SetLocked :: "(Database \<Rightarrow> bool \<Rightarrow> 'h \<Rightarrow> string option \<times> 'h) option"  \<comment> \<open>Databases\<close>
  sv_RevokeUser :: "(int \<Rightarrow> 'h \<Rightarrow> 'h) option"                          \<comment> \<open>WebFTP\<close>
  sv_box :: "SecretBox option"

record 'h Suspender =
  ss_db :: db
  ss_host :: 'h
  ss_applied :: "int \<Rightarrow> bool"
  ss_warnings :: "string list"

definition on_db :: "(db \<Rightarrow> db res) \<Rightarrow> 'h Suspender \<Rightarrow> 'h Suspender" where
  "on_db f st = st\<lparr>ss_db := ignore_err (ss_db st) (f (ss_db st))\<rparr>"

definition warn :: "string \<Rightarrow> 'h Suspender \<Rightarrow> 'h Suspender" where
  "warn m st = st\<lparr>ss_warnings := ss_warnings st @ [m]\<rparr>"

text \<open>A host action that may report an error; the error becomes a warning, or is dropped (\<open>None\<close>).\<close>

definition host_step :: "('h \<Rightarrow> string option \<times> 'h) \<Rightarrow> string option \<Rightarrow> 'h Suspender \<Rightarrow> 'h Suspender" where
  "host_step f label st = (case f (ss_host st) of (e, h) \<Rightarrow>
     (case (label, e) of (Some l, Some m) \<Rightarrow> warn (l @ m) (st\<lparr>ss_host := h\<rparr>) | _ \<Rightarrow> st\<lparr>ss_host := h\<rparr>))"

definition run_cmd :: "'h Services \<Rightarrow> string list \<Rightarrow> 'h Suspender \<Rightarrow> string option \<times> 'h Suspender" where
  "run_cmd sv cmd st = (case sv_run sv cmd (ss_host st) of (out, h) \<Rightarrow> (out, st\<lparr>ss_host := h\<rparr>))"

abbreviation run_ignore :: "'h Services \<Rightarrow> string list \<Rightarrow> 'h Suspender \<Rightarrow> 'h Suspender" where
  "run_ignore sv cmd st \<equiv> snd (run_cmd sv cmd st)"

text \<open>A command whose failure is only worth a warning.\<close>

definition run_warn :: "'h Services \<Rightarrow> string list \<Rightarrow> string \<Rightarrow> 'h Suspender \<Rightarrow> 'h Suspender" where
  "run_warn sv cmd label st = (case run_cmd sv cmd st of (None, st') \<Rightarrow> warn label st' | (Some _, st') \<Rightarrow> st')"

definition containerName :: "int \<Rightarrow> string" where
  "containerName i = ''aegis-c'' @ decimal_int i"

definition accountNames :: "db \<Rightarrow> User \<Rightarrow> string list" where
  "accountNames s u = uUsername u #
    (case ListFTPAccounts s (uID u) of Inl _ \<Rightarrow> []
     | Inr ftps \<Rightarrow> filter (\<lambda>n. n \<noteq> uUsername u) (map fUsername ftps))"

section \<open>Mailboxes\<close>

fun visit_domains :: "(Mailbox \<Rightarrow> 'h Suspender \<Rightarrow> 'h Suspender) \<Rightarrow> Domain list \<Rightarrow> 'h Suspender \<Rightarrow> 'h Suspender" where
  "visit_domains fn [] st = st"
| "visit_domains fn (d # ds) st =
     (case GetMailDomainByDomainID (ss_db st) (dID d) of Inl _ \<Rightarrow> visit_domains fn ds st
      | Inr md \<Rightarrow> (case ListMailboxes (ss_db st) (mdID md) of Inl _ \<Rightarrow> visit_domains fn ds st
          | Inr boxes \<Rightarrow> visit_domains fn ds (fold fn boxes st)))"

definition forEachMailbox :: "User \<Rightarrow> (Mailbox \<Rightarrow> 'h Suspender \<Rightarrow> 'h Suspender) \<Rightarrow> 'h Suspender \<Rightarrow> 'h Suspender" where
  "forEachMailbox u fn st = (case ListDomains (ss_db st) (uID u) of Inl _ \<Rightarrow> st | Inr doms \<Rightarrow> visit_domains fn doms st)"

definition disable_mailbox :: "User \<Rightarrow> Mailbox \<Rightarrow> 'h Suspender \<Rightarrow> 'h Suspender" where
  "disable_mailbox u mb st =
    (if \<not> mbEnabled mb then st
     else case RecordSuspensionAction (ss_db st) (uID u) SuspendKindMailbox (mbID mb) of
       Inl _ \<Rightarrow> warn (''record mailbox '' @ mbLocalpart mb) st
     | Inr s1 \<Rightarrow> (case SetMailboxEnabled s1 (mbID mb) False of
          Inl _ \<Rightarrow> warn (''disable mailbox '' @ mbLocalpart mb) (st\<lparr>ss_db := s1\<rparr>)
        | Inr s2 \<Rightarrow> st\<lparr>ss_db := s2\<rparr>))"

definition enable_mailbox :: "int \<Rightarrow> 'h Suspender \<Rightarrow> 'h Suspender" where
  "enable_mailbox i st = (case SetMailboxEnabled (ss_db st) i True of
     Inl _ \<Rightarrow> warn (''re-enable mailbox '' @ decimal_int i) st | Inr s' \<Rightarrow> st\<lparr>ss_db := s'\<rparr>)"

section \<open>Containers and sites\<close>

definition stop_container :: "'h Services \<Rightarrow> User \<Rightarrow> Container \<Rightarrow> 'h Suspender \<Rightarrow> 'h Suspender" where
  "stop_container sv u c st =
    (let name = containerName (cID c) in
     case run_cmd sv [''docker'', ''inspect'', ''-f'', ''{{.State.Running}}'', name] st of
       (None, st1) \<Rightarrow> st1
     | (Some out, st1) \<Rightarrow>
         let running = (TrimSpace out = ''true'');
             st2 = (if running then on_db (\<lambda>s. RecordSuspensionAction s (uID u) SuspendKindContainer (cID c)) st1 else st1);
             st3 = run_ignore sv [''docker'', ''update'', ''--restart=no'', name] st2
         in if running then run_warn sv [''docker'', ''stop'', name] (''stop container '' @ cName c) st3 else st3)"

definition start_container :: "'h Services \<Rightarrow> int list \<Rightarrow> Container \<Rightarrow> 'h Suspender \<Rightarrow> 'h Suspender" where
  "start_container sv stopped c st =
    (let name = containerName (cID c);
         policy = (if cRestartPolicy c = [] then ''no'' else cRestartPolicy c);
         st1 = run_ignore sv [''docker'', ''update'', ''--restart='' @ policy, name] st
     in if cID c \<in> set stopped then run_warn sv [''docker'', ''start'', name] (''start container '' @ cName c) st1 else st1)"

definition apply_domains :: "'h Services \<Rightarrow> User \<Rightarrow> 'h Suspender \<Rightarrow> 'h Suspender" where
  "apply_domains sv u st = (case sv_Apply sv of None \<Rightarrow> st
     | Some apply_one \<Rightarrow> (case ListDomains (ss_db st) (uID u) of
          Inl _ \<Rightarrow> warn ''list domains'' st
        | Inr doms \<Rightarrow> fold (\<lambda>d st. host_step (apply_one (ss_db st) (dID d)) (Some (''domain '' @ dDomain d @ '': '')) st) doms st))"

definition lock_databases :: "'h Services \<Rightarrow> User \<Rightarrow> bool \<Rightarrow> 'h Suspender \<Rightarrow> 'h Suspender" where
  "lock_databases sv u locked st = (case sv_SetLocked sv of None \<Rightarrow> st
     | Some set_locked \<Rightarrow> (case ListDatabases (sv_box sv) (ss_db st) (uID u) of Inl _ \<Rightarrow> st
        | Inr dbs \<Rightarrow> fold (\<lambda>d. host_step (set_locked d locked)
            (Some ((if locked then ''lock database '' else ''unlock database '') @ bServer d @ ''/'' @ bName d @ '': ''))) dbs st))"

section \<open>Enforcing and lifting\<close>

text \<open>Sessions first, then every system login is locked, the sites are re-rendered, cron and databases are cut.\<close>

definition cut_sessions :: "'h Services \<Rightarrow> User \<Rightarrow> 'h Suspender \<Rightarrow> 'h Suspender" where
  "cut_sessions sv u st =
    (let st1 = on_db (\<lambda>s. DeleteUserSessions s (uID u)) (st\<lparr>ss_warnings := []\<rparr>)
     in case sv_RevokeUser sv of None \<Rightarrow> st1 | Some revoke \<Rightarrow> st1\<lparr>ss_host := revoke (uID u) (ss_host st1)\<rparr>)"

definition cut_access :: "'h Services \<Rightarrow> User \<Rightarrow> string list \<Rightarrow> 'h Suspender \<Rightarrow> 'h Suspender" where
  "cut_access sv u names st =
    (let st1 = fold (\<lambda>n. run_ignore sv [''usermod'', ''-L'', n]) names st;
         st2 = apply_domains sv u st1;
         st3 = (case sv_Pause sv of None \<Rightarrow> st2 | Some pause \<Rightarrow> st2\<lparr>ss_host := pause u (ss_host st2)\<rparr>)
     in lock_databases sv u True st3)"

definition stop_containers :: "'h Services \<Rightarrow> User \<Rightarrow> 'h Suspender \<Rightarrow> 'h Suspender" where
  "stop_containers sv u st = (case ListContainers (ss_db st) (uID u) of Inl _ \<Rightarrow> st | Inr cs \<Rightarrow> fold (stop_container sv u) cs st)"

definition enforce :: "'h Services \<Rightarrow> User \<Rightarrow> 'h Suspender \<Rightarrow> 'h Suspender" where
  "enforce sv u st =
    (let st1 = cut_sessions sv u st;
         names = accountNames (ss_db st1) u;
         st2 = stop_containers sv u (cut_access sv u names st1);
         st3 = forEachMailbox u (disable_mailbox u) st2
     in fold (\<lambda>n. run_ignore sv [''pkill'', ''-KILL'', ''-u'', n]) names st3)"

text \<open>The FTP logins \<open>lift\<close> unlocks, in order: the enabled ones that are not the owner's own, then the owner
  unless an account under the owner's name is disabled.\<close>

definition logins_to_unlock :: "db \<Rightarrow> User \<Rightarrow> string list" where
  "logins_to_unlock s u =
    (case ListFTPAccounts s (uID u) of Inl _ \<Rightarrow> [uUsername u]
     | Inr ftps \<Rightarrow> map fUsername (filter (\<lambda>a. fUsername a \<noteq> uUsername u \<and> fEnabled a) ftps) @
         (if foldl (\<lambda>on a. if fUsername a = uUsername u then fEnabled a else on) True ftps then [uUsername u] else []))"

definition restore_access :: "'h Services \<Rightarrow> User \<Rightarrow> 'h Suspender \<Rightarrow> 'h Suspender" where
  "restore_access sv u st =
    (let st1 = fold (\<lambda>n. run_ignore sv [''usermod'', ''-U'', n]) (logins_to_unlock (ss_db st) u) (st\<lparr>ss_warnings := []\<rparr>);
         st2 = lock_databases sv u False st1;
         st3 = (case sv_Resume sv of None \<Rightarrow> st2
                | Some resume \<Rightarrow> host_step (resume (ss_db st2) u) (Some ''restore crontab: '') st2)
     in apply_domains sv u st3)"

definition start_containers :: "'h Services \<Rightarrow> User \<Rightarrow> 'h Suspender \<Rightarrow> 'h Suspender" where
  "start_containers sv u st =
    (let stopped = (case ListSuspensionActions (ss_db st) (uID u) SuspendKindContainer of Inl _ \<Rightarrow> [] | Inr ids \<Rightarrow> ids)
     in case ListContainers (ss_db st) (uID u) of Inl _ \<Rightarrow> st | Inr cs \<Rightarrow> fold (start_container sv stopped) cs st)"

definition enable_recorded :: "User \<Rightarrow> 'h Suspender \<Rightarrow> 'h Suspender" where
  "enable_recorded u st = (case ListSuspensionActions (ss_db st) (uID u) SuspendKindMailbox of Inl _ \<Rightarrow> st
     | Inr ids \<Rightarrow> fold enable_mailbox ids st)"

definition lift :: "'h Services \<Rightarrow> User \<Rightarrow> 'h Suspender \<Rightarrow> 'h Suspender" where
  "lift sv u st = on_db (\<lambda>s. ClearSuspensionActions s (uID u))
     (enable_recorded u (start_containers sv u (restore_access sv u st)))"

definition Suspend :: "'h Services \<Rightarrow> gotime \<Rightarrow> User \<Rightarrow> 'h Suspender \<Rightarrow> (store_error + User) \<times> 'h Suspender" where
  "Suspend sv tm u st = (case SetUserStatus (ss_db st) tm (uID u) StatusSuspended of
     Inl e \<Rightarrow> (Inl e, st)
   | Inr s1 \<Rightarrow> let st1 = on_db (\<lambda>s. SetSuspendedByQuota s (uID u) False) (st\<lparr>ss_db := s1\<rparr>);
       u' = u\<lparr>uStatus := StatusSuspended\<rparr>
     in (Inr u', enforce sv u' (st1\<lparr>ss_applied := (ss_applied st1)(uID u := True)\<rparr>)))"

definition Unsuspend :: "'h Services \<Rightarrow> gotime \<Rightarrow> User \<Rightarrow> 'h Suspender \<Rightarrow> (store_error + User) \<times> 'h Suspender" where
  "Unsuspend sv tm u st = (case SetUserStatus (ss_db st) tm (uID u) StatusActive of
     Inl e \<Rightarrow> (Inl e, st)
   | Inr s1 \<Rightarrow> let st1 = on_db (\<lambda>s. SetSuspendedByQuota s (uID u) False) (st\<lparr>ss_db := s1\<rparr>);
       u' = u\<lparr>uStatus := StatusActive\<rparr>
     in (Inr u', lift sv u' (st1\<lparr>ss_applied := (ss_applied st1)(uID u := False)\<rparr>)))"

definition reconcile_user :: "'h Services \<Rightarrow> User \<Rightarrow> 'h Suspender \<Rightarrow> 'h Suspender" where
  "reconcile_user sv u st =
    (let suspended = (case IsManuallySuspended (ss_db st) (uID u) of Inl _ \<Rightarrow> False | Inr b \<Rightarrow> b) in
     if suspended \<and> \<not> ss_applied st (uID u)
     then enforce sv u (st\<lparr>ss_applied := (ss_applied st)(uID u := True)\<rparr>)
     else if \<not> suspended \<and> ss_applied st (uID u)
     then lift sv u (st\<lparr>ss_applied := (ss_applied st)(uID u := False)\<rparr>)
     else st)"

definition Reconcile :: "'h Services \<Rightarrow> 'h Suspender \<Rightarrow> 'h Suspender" where
  "Reconcile sv st = (case ListUsers (ss_db st) 0 of Inl _ \<Rightarrow> st | Inr us \<Rightarrow> fold (reconcile_user sv) us st)"

end
