(* ===== verification/Suspend_Laws.thy ===== *)
theory Suspend_Laws
  imports Suspend Auth_Laws
begin

text \<open>
  What suspending changes in the store, and that lifting it restores exactly that. The host services are arbitrary: every
  statement holds whatever commands, web server, databases and cron do.
\<close>

section \<open>Host steps leave the store alone\<close>

named_theorems host_simps \<open>projections of the suspender state after a host step\<close>

lemma warn_sel [simp, host_simps]: "ss_db (warn m st) = ss_db st" "ss_applied (warn m st) = ss_applied st"
  by (simp_all add: warn_def)

lemma run_cmd_sel [simp, host_simps]:
  "ss_db (snd (run_cmd sv c st)) = ss_db st" "ss_applied (snd (run_cmd sv c st)) = ss_applied st"
  by (simp_all add: run_cmd_def split: prod.splits)

lemma run_cmd_pair [simp]:
  "run_cmd sv c st = (out, st') \<Longrightarrow> ss_db st' = ss_db st" "run_cmd sv c st = (out, st') \<Longrightarrow> ss_applied st' = ss_applied st"
  using run_cmd_sel [of sv c st] by auto

lemma run_warn_sel [simp, host_simps]: "ss_db (run_warn sv c l st) = ss_db st" "ss_applied (run_warn sv c l st) = ss_applied st"
  by (auto simp: run_warn_def split: prod.splits option.splits)

lemma host_step_sel [simp, host_simps]: "ss_db (host_step f l st) = ss_db st" "ss_applied (host_step f l st) = ss_applied st"
  by (auto simp: host_step_def split: prod.splits option.splits)

lemma fold_same:
  assumes "\<And>x st. g (f x st) = g st"
  shows "g (fold f xs st) = g st"
  using assms by (induction xs arbitrary: st) simp_all

lemma fold_host_sel [simp, host_simps]:
  "ss_db (fold (\<lambda>n. run_ignore sv (cmd n)) ns st) = ss_db st"
  "ss_applied (fold (\<lambda>n. run_ignore sv (cmd n)) ns st) = ss_applied st"
  by (simp_all add: fold_same [where g = ss_db] fold_same [where g = ss_applied])

lemma apply_domains_sel [simp, host_simps]:
  "ss_db (apply_domains sv u st) = ss_db st" "ss_applied (apply_domains sv u st) = ss_applied st"
  by (auto simp: apply_domains_def fold_same [where g = ss_db] fold_same [where g = ss_applied] split: option.splits sum.splits)

lemma lock_databases_sel [simp, host_simps]:
  "ss_db (lock_databases sv u b st) = ss_db st" "ss_applied (lock_databases sv u b st) = ss_applied st"
  by (auto simp: lock_databases_def fold_same [where g = ss_db] fold_same [where g = ss_applied] split: option.splits sum.splits)

lemma start_container_sel [simp, host_simps]:
  "ss_db (start_container sv ids c st) = ss_db st" "ss_applied (start_container sv ids c st) = ss_applied st"
  by (simp_all add: start_container_def Let_def)

lemma on_db_sel [simp]: "ss_db (on_db f st) = ignore_err (ss_db st) (f (ss_db st))" "ss_applied (on_db f st) = ss_applied st"
  by (simp_all add: on_db_def)

section \<open>Disabling mailboxes\<close>

definition recorded :: "int \<Rightarrow> string \<Rightarrow> db \<Rightarrow> int set" where
  "recorded uid kind s = saRef ` {a \<in> set (suspension_actions s). saUserID a = uid \<and> saKind a = kind}"

lemma recorded_iff:
  "i \<in> recorded uid kind s \<longleftrightarrow> \<lparr>saUserID = uid, saKind = kind, saRef = i\<rparr> \<in> set (suspension_actions s)"
proof
  assume "i \<in> recorded uid kind s"
  then obtain a where "a \<in> set (suspension_actions s)" "saUserID a = uid" "saKind a = kind" "saRef a = i"
    by (auto simp: recorded_def)
  moreover have "a = \<lparr>saUserID = saUserID a, saKind = saKind a, saRef = saRef a\<rparr>" by simp
  ultimately show "\<lparr>saUserID = uid, saKind = kind, saRef = i\<rparr> \<in> set (suspension_actions s)" by metis
qed (force simp: recorded_def)

abbreviation switched_off :: "int set \<Rightarrow> MailboxRow table \<Rightarrow> MailboxRow table" where
  "switched_off E t \<equiv> t_update (\<lambda>m. mbID m \<in> E) (\<lambda>m. m\<lparr>mbEnabled := False\<rparr>) t"

text \<open>\<open>s'\<close> is \<open>s\<close> with the mailboxes \<open>E\<close>, all enabled before, switched off and noted as such.\<close>

definition mail_cut :: "int \<Rightarrow> db \<Rightarrow> int set \<Rightarrow> db \<Rightarrow> bool" where
  "mail_cut uid s E s' \<longleftrightarrow> (\<exists>acts. s' = s\<lparr>mailboxes := switched_off E (mailboxes s), suspension_actions := suspension_actions s @ acts\<rparr>
     \<and> (\<forall>a\<in>set acts. saUserID a = uid)) \<and> recorded uid SuspendKindMailbox s' = recorded uid SuspendKindMailbox s \<union> E
     \<and> (\<forall>m\<in>set (trows (mailboxes s)). mbID m \<in> E \<longrightarrow> mbEnabled m)"

lemma mail_cut_refl: "mail_cut uid s {} s"
  by (auto simp: mail_cut_def t_update_def intro!: exI [of _ "[]"])

lemma switched_off_insert: "t_update (\<lambda>m. mbID m = i) (\<lambda>m. m\<lparr>mbEnabled := False\<rparr>) (switched_off E t) = switched_off (insert i E) t"
  by (auto simp: t_update_def)

lemma mail_cut_step:
  assumes "mail_cut (uID u) s E (ss_db st)" "\<not> db_down s" "table_wf mbID (mailboxes s)"
    and "mbEnabled mb \<Longrightarrow> \<exists>r\<in>set (trows (mailboxes s)). mbID r = mbID mb \<and> mbEnabled r"
  shows "mail_cut (uID u) s (if mbEnabled mb then insert (mbID mb) E else E) (ss_db (disable_mailbox u mb st))"
proof (cases "mbEnabled mb")
  case True
  obtain acts where s': "ss_db st = s\<lparr>mailboxes := switched_off E (mailboxes s), suspension_actions := suspension_actions s @ acts\<rparr>"
    "\<forall>a\<in>set acts. saUserID a = uID u" "recorded (uID u) SuspendKindMailbox (ss_db st) = recorded (uID u) SuspendKindMailbox s \<union> E"
    "\<forall>m\<in>set (trows (mailboxes s)). mbID m \<in> E \<longrightarrow> mbEnabled m"
    using assms(1) by (auto simp: mail_cut_def)
  let ?a = "\<lparr>saUserID = uID u, saKind = SuspendKindMailbox, saRef = mbID mb\<rparr>"
  let ?new = "if ?a \<in> set (suspension_actions s @ acts) then [] else [?a]"
  have db: "ss_db (disable_mailbox u mb st) = s\<lparr>mailboxes := switched_off (insert (mbID mb) E) (mailboxes s),
      suspension_actions := suspension_actions s @ acts @ ?new\<rparr>"
    using True assms(2) s'(1)
    by (simp add: disable_mailbox_def RecordSuspensionAction_def SetMailboxEnabled_def exec_def Let_def switched_off_insert)
  have "recorded (uID u) SuspendKindMailbox (ss_db (disable_mailbox u mb st)) =
      insert (mbID mb) (recorded (uID u) SuspendKindMailbox (ss_db st))"
    unfolding db s'(1) by (auto simp: set_eq_iff recorded_iff)
  moreover have "\<forall>m\<in>set (trows (mailboxes s)). mbID m \<in> insert (mbID mb) E \<longrightarrow> mbEnabled m"
    using s'(4) assms(4) [OF True] table_wf_unique [OF assms(3)] by (auto dest: unique_onD)
  ultimately show ?thesis
    unfolding mail_cut_def using True db s'(2,3)
    by (auto intro!: exI [of _ "acts @ ?new"])
next
  case False
  with assms(1) show ?thesis by (simp add: disable_mailbox_def)
qed

lemma mail_cut_fold:
  assumes "mail_cut (uID u) s E (ss_db st)" "\<not> db_down s" "table_wf mbID (mailboxes s)"
    and "\<forall>mb\<in>set boxes. mbEnabled mb \<longrightarrow> (\<exists>r\<in>set (trows (mailboxes s)). mbID r = mbID mb \<and> mbEnabled r)"
  shows "mail_cut (uID u) s (E \<union> {mbID mb |mb. mb \<in> set boxes \<and> mbEnabled mb}) (ss_db (fold (disable_mailbox u) boxes st))"
  using assms
proof (induction boxes arbitrary: E st)
  case (Cons mb boxes)
  let ?E = "if mbEnabled mb then insert (mbID mb) E else E"
  have "mail_cut (uID u) s ?E (ss_db (disable_mailbox u mb st))"
    using mail_cut_step [OF Cons.prems(1-3)] Cons.prems(4) by simp
  from Cons.IH [OF this Cons.prems(2,3)] Cons.prems(4)
  have "mail_cut (uID u) s (?E \<union> {mbID mb |mb. mb \<in> set boxes \<and> mbEnabled mb}) (ss_db (fold (disable_mailbox u) (mb # boxes) st))"
    by simp
  moreover have "?E \<union> {mbID mb |mb. mb \<in> set boxes \<and> mbEnabled mb} = E \<union> {mbID mb' |mb'. mb' \<in> set (mb # boxes) \<and> mbEnabled mb'}"
    by auto
  ultimately show ?case by simp
qed simp

text \<open>The mailboxes a snapshot of a mail domain shows are those of the table.\<close>

lemma ListMailboxes_rows:
  assumes "ListMailboxes s i = Inr boxes" "mb \<in> set boxes"
  shows "\<exists>r\<in>set (trows (mailboxes s)). mbID r = mbID mb \<and> mbEnabled r = mbEnabled mb"
proof -
  have "mb \<in> set (List.map_filter (scanMailbox s) (t_select (\<lambda>m. i > 0 \<longrightarrow> mbMailDomainID m = i) (mailboxes s)))"
    using assms by (auto simp: ListMailboxes_def)
  then obtain r where "r \<in> set (trows (mailboxes s))" "scanMailbox s r = Some mb"
    by (auto simp: t_select_def map_filter_def split: if_splits)
  then show ?thesis by (intro bexI [of _ r]) (auto simp: scanMailbox_def MailboxRow.extend_def)
qed

lemma mail_cut_snapshot:
  assumes "mail_cut uid s E s'" "ListMailboxes s' i = Inr boxes" "mb \<in> set boxes" "mbEnabled mb"
  shows "\<exists>r\<in>set (trows (mailboxes s)). mbID r = mbID mb \<and> mbEnabled r"
proof -
  obtain r where r: "r \<in> set (trows (mailboxes s'))" "mbID r = mbID mb" "mbEnabled r"
    using ListMailboxes_rows [OF assms(2,3)] assms(4) by auto
  have "mailboxes s' = switched_off E (mailboxes s)" using assms(1) by (auto simp: mail_cut_def)
  with r show ?thesis by (auto split: if_splits)
qed

lemma mail_cut_same:
  assumes "mail_cut uid s E s'"
  shows "db_down s' = db_down s" "mail_domains s' = mail_domains s" "domains s' = domains s" "users s' = users s"
    "GetMailDomainByDomainID s' i = GetMailDomainByDomainID s i"
  using assms by (auto simp: mail_cut_def GetMailDomainByDomainID_def query_row_def)

lemma mail_cut_visit:
  assumes "mail_cut (uID u) s E (ss_db st)" "\<not> db_down s" "table_wf mbID (mailboxes s)"
  shows "\<exists>E'. mail_cut (uID u) s E' (ss_db (visit_domains (disable_mailbox u) ds st)) \<and> E \<subseteq> E' \<and>
    (\<forall>d\<in>set ds. \<forall>md. GetMailDomainByDomainID s (dID d) = Inr md \<longrightarrow>
      (\<forall>m\<in>set (trows (mailboxes s)). mbMailDomainID m = mdID md \<and> mbEnabled m \<and> mdID md > 0 \<and>
         (\<exists>d. t_get mdID (mdID md) (mail_domains s) = Some d) \<longrightarrow> mbID m \<in> E'))"
  using assms
proof (induction ds arbitrary: E st)
  case Nil
  then show ?case by auto
next
  case (Cons d ds)
  show ?case
  proof (cases "GetMailDomainByDomainID s (dID d)")
    case (Inl e)
    then have "visit_domains (disable_mailbox u) (d # ds) st = visit_domains (disable_mailbox u) ds st"
      using mail_cut_same(5) [OF Cons.prems(1)] by simp
    with Cons.IH [OF Cons.prems] Inl show ?thesis by auto
  next
    case (Inr md)
    have "\<not> db_down (ss_db st)" using Cons.prems(2) mail_cut_same(1) [OF Cons.prems(1)] by simp
    then obtain boxes where b: "ListMailboxes (ss_db st) (mdID md) = Inr boxes"
      by (simp add: ListMailboxes_def query_def)
    let ?st = "fold (disable_mailbox u) boxes st" and ?B = "{mbID mb |mb. mb \<in> set boxes \<and> mbEnabled mb}"
    have v: "visit_domains (disable_mailbox u) (d # ds) st = visit_domains (disable_mailbox u) ds ?st"
      using Inr b mail_cut_same(5) [OF Cons.prems(1)] by simp
    have snap: "\<forall>mb\<in>set boxes. mbEnabled mb \<longrightarrow> (\<exists>r\<in>set (trows (mailboxes s)). mbID r = mbID mb \<and> mbEnabled r)"
      using mail_cut_snapshot [OF Cons.prems(1) b] by blast
    have cut: "mail_cut (uID u) s (E \<union> ?B) (ss_db ?st)"
      by (rule mail_cut_fold [OF Cons.prems(1-3) snap])
    from Cons.IH [OF this Cons.prems(2,3)] obtain E' where E': "mail_cut (uID u) s E' (ss_db (visit_domains (disable_mailbox u) ds ?st))"
      "E \<union> ?B \<subseteq> E'" "\<forall>d\<in>set ds. \<forall>md. GetMailDomainByDomainID s (dID d) = Inr md \<longrightarrow>
      (\<forall>m\<in>set (trows (mailboxes s)). mbMailDomainID m = mdID md \<and> mbEnabled m \<and> mdID md > 0 \<and>
         (\<exists>d. t_get mdID (mdID md) (mail_domains s) = Some d) \<longrightarrow> mbID m \<in> E')" by blast
    have here: "mbID m \<in> E'" if m: "m \<in> set (trows (mailboxes s))" "mbMailDomainID m = mdID md" "mbEnabled m"
      "mdID md > 0" "t_get mdID (mdID md) (mail_domains s) = Some dd" for m dd
    proof (cases "mbID m \<in> E")
      case False
      have row: "m \<in> set (trows (mailboxes (ss_db st)))"
        using Cons.prems(1) False m(1) by (force simp: mail_cut_def)
      have "\<exists>mb. scanMailbox (ss_db st) m = Some mb \<and> mbID mb = mbID m \<and> mbEnabled mb = mbEnabled m"
        using m(2,5) mail_cut_same(2) [OF Cons.prems(1)] by (simp add: scanMailbox_def MailboxRow.extend_def)
      then obtain mb where mb: "scanMailbox (ss_db st) m = Some mb" "mbID mb = mbID m" "mbEnabled mb = mbEnabled m" by blast
      have "m \<in> set (t_select (\<lambda>m. mdID md > 0 \<longrightarrow> mbMailDomainID m = mdID md) (mailboxes (ss_db st)))"
        using row m(2) by (simp add: t_select_def)
      then have "mb \<in> set boxes" using b mb(1)
        by (force simp: ListMailboxes_def map_filter_def)
      with mb m(3) have "mbID m \<in> ?B" by (auto intro!: exI [of _ mb])
      with E'(2) show ?thesis by blast
    qed (use E'(2) in blast)
    with v E' Inr show ?thesis by (intro exI [of _ E']) auto
  qed
qed

section \<open>Enforcing and lifting in the store\<close>

lemma stop_container_eq:
  "ss_db (stop_container sv u c st) =
    (case fst (run_cmd sv [''docker'', ''inspect'', ''-f'', ''{{.State.Running}}'', containerName (cID c)] st) of None \<Rightarrow> ss_db st
     | Some out \<Rightarrow> if TrimSpace out = ''true''
         then ignore_err (ss_db st) (RecordSuspensionAction (ss_db st) (uID u) SuspendKindContainer (cID c)) else ss_db st)"
  by (cases "run_cmd sv [''docker'', ''inspect'', ''-f'', ''{{.State.Running}}'', containerName (cID c)] st"; cases "fst (run_cmd sv [''docker'', ''inspect'', ''-f'', ''{{.State.Running}}'', containerName (cID c)] st)")
     (simp_all add: stop_container_def Let_def)

lemma stop_container_db:
  "\<exists>acts. ss_db (stop_container sv u c st) = (ss_db st)\<lparr>suspension_actions := suspension_actions (ss_db st) @ acts\<rparr>
     \<and> (\<forall>a\<in>set acts. saUserID a = uID u \<and> saKind a = SuspendKindContainer)"
proof -
  let ?s = "ss_db st" and ?a = "\<lparr>saUserID = uID u, saKind = SuspendKindContainer, saRef = cID c\<rparr>"
  have rec: "ignore_err ?s (RecordSuspensionAction ?s (uID u) SuspendKindContainer (cID c)) =
      (if db_down ?s \<or> ?a \<in> set (suspension_actions ?s) then ?s
       else ?s\<lparr>suspension_actions := suspension_actions ?s @ [?a]\<rparr>)"
    by (simp add: RecordSuspensionAction_def exec_def Let_def)
  have "ss_db (stop_container sv u c st) = ?s \<or>
      ss_db (stop_container sv u c st) = ?s\<lparr>suspension_actions := suspension_actions ?s @ [?a]\<rparr>"
    unfolding stop_container_eq rec by (simp split: option.split)
  then show ?thesis
  proof
    assume "ss_db (stop_container sv u c st) = ?s"
    then show ?thesis by (intro exI [of _ "[]"]) simp
  next
    assume "ss_db (stop_container sv u c st) = ?s\<lparr>suspension_actions := suspension_actions ?s @ [?a]\<rparr>"
    then show ?thesis by (intro exI [of _ "[?a]"]) simp
  qed
qed

lemma stop_fold_db:
  "\<exists>acts. ss_db (fold (stop_container sv u) cs st) = (ss_db st)\<lparr>suspension_actions := suspension_actions (ss_db st) @ acts\<rparr>
     \<and> (\<forall>a\<in>set acts. saUserID a = uID u \<and> saKind a = SuspendKindContainer)"
proof (induction cs arbitrary: st)
  case Nil
  show ?case by (intro exI [of _ "[]"]) simp
next
  case (Cons c cs)
  obtain acts where a: "ss_db (stop_container sv u c st) = (ss_db st)\<lparr>suspension_actions := suspension_actions (ss_db st) @ acts\<rparr>"
    "\<forall>a\<in>set acts. saUserID a = uID u \<and> saKind a = SuspendKindContainer"
    using stop_container_db by blast
  obtain acts' where "ss_db (fold (stop_container sv u) cs (stop_container sv u c st)) =
      (ss_db (stop_container sv u c st))\<lparr>suspension_actions := suspension_actions (ss_db (stop_container sv u c st)) @ acts'\<rparr>"
    "\<forall>a\<in>set acts'. saUserID a = uID u \<and> saKind a = SuspendKindContainer"
    using Cons.IH by blast
  with a show ?case by (intro exI [of _ "acts @ acts'"]) auto
qed

lemma cut_sel [simp]:
  "ss_db (cut_sessions sv u st) = ignore_err (ss_db st) (DeleteUserSessions (ss_db st) (uID u))"
  "ss_applied (cut_sessions sv u st) = ss_applied st"
  "ss_db (cut_access sv u names st) = ss_db st" "ss_applied (cut_access sv u names st) = ss_applied st"
  by (simp_all add: cut_sessions_def cut_access_def Let_def split: option.splits)

lemma cut_db:
  assumes "\<not> db_down (ss_db st)"
  shows "\<exists>acts. ss_db (stop_containers sv u (cut_access sv u names (cut_sessions sv u st))) =
      (ss_db st)\<lparr>sessions := filter (\<lambda>r. sUserID r \<noteq> uID u) (sessions (ss_db st)),
        suspension_actions := suspension_actions (ss_db st) @ acts\<rparr>
    \<and> (\<forall>a\<in>set acts. saUserID a = uID u \<and> saKind a = SuspendKindContainer)"
proof -
  let ?st = "cut_access sv u names (cut_sessions sv u st)"
  have s: "ss_db ?st = (ss_db st)\<lparr>sessions := filter (\<lambda>r. sUserID r \<noteq> uID u) (sessions (ss_db st))\<rparr>"
    using assms by (simp add: DeleteUserSessions_def)
  obtain cs where "stop_containers sv u ?st = fold (stop_container sv u) cs ?st"
    using assms s by (simp add: stop_containers_def ListContainers_def query_def)
  with stop_fold_db [of sv u cs ?st] s show ?thesis by simp
qed

text \<open>The mailboxes of an account, and the assumption that a domain has one mail domain.\<close>

abbreviation owns_mailbox :: "int \<Rightarrow> db \<Rightarrow> MailboxRow \<Rightarrow> bool" where
  "owns_mailbox uid s m \<equiv> user_mail_domain uid s (mbMailDomainID m)"

definition suspended_db :: "int \<Rightarrow> db \<Rightarrow> int set \<Rightarrow> db \<Rightarrow> bool" where
  "suspended_db uid s E s' \<longleftrightarrow> (\<exists>acts. s' = s\<lparr>sessions := filter (\<lambda>r. sUserID r \<noteq> uid) (sessions s),
       mailboxes := switched_off E (mailboxes s), suspension_actions := suspension_actions s @ acts\<rparr>
     \<and> (\<forall>a\<in>set acts. saUserID a = uid)) \<and> recorded uid SuspendKindMailbox s' = recorded uid SuspendKindMailbox s \<union> E
     \<and> (\<forall>m\<in>set (trows (mailboxes s)). mbID m \<in> E \<longrightarrow> mbEnabled m)"

lemma cut_suspended:
  assumes "mail_cut uid s7 E s'" "s7 = s\<lparr>sessions := filter (\<lambda>r. sUserID r \<noteq> uid) (sessions s),
      suspension_actions := suspension_actions s @ acts\<rparr>"
    "\<forall>a\<in>set acts. saUserID a = uid \<and> saKind a = SuspendKindContainer"
    and "recorded uid SuspendKindMailbox s7 = recorded uid SuspendKindMailbox s"
  shows "suspended_db uid s E s'"
proof -
  obtain acts' where a: "s' = s7\<lparr>mailboxes := switched_off E (mailboxes s7), suspension_actions := suspension_actions s7 @ acts'\<rparr>"
    "\<forall>a\<in>set acts'. saUserID a = uid" "recorded uid SuspendKindMailbox s' = recorded uid SuspendKindMailbox s7 \<union> E"
    "\<forall>m\<in>set (trows (mailboxes s7)). mbID m \<in> E \<longrightarrow> mbEnabled m"
    using assms(1) by (auto simp: mail_cut_def)
  then have "s' = s\<lparr>sessions := filter (\<lambda>r. sUserID r \<noteq> uid) (sessions s), mailboxes := switched_off E (mailboxes s),
      suspension_actions := suspension_actions s @ acts @ acts'\<rparr>"
    using assms(2) by simp
  moreover have "\<forall>a\<in>set (acts @ acts'). saUserID a = uid" using a(2) assms(3) by auto
  ultimately show ?thesis using a(3,4) assms(2,4) unfolding suspended_db_def by auto
qed

lemma list_domains_set:
  assumes "\<not> db_down s" "uid > 0"
  shows "\<exists>doms. ListDomains s uid = Inr doms \<and> dID ` set doms = {i. user_domain uid s i}"
  using assms
  by (auto simp: ListDomains_def query_def t_select_def user_domain_iff image_iff scanDomain_def DomainRow.extend_def)

lemma mail_domain_found:
  assumes "\<not> db_down s" "unique_on mdDomainID (mail_domains s)" "md \<in> set (trows (mail_domains s))"
  shows "GetMailDomainByDomainID s (mdDomainID md) = Inr md"
proof -
  have "\<exists>md'. find (\<lambda>d. mdDomainID d = mdDomainID md) (trows (mail_domains s)) = Some md'"
    using assms(3) by (cases "find (\<lambda>d. mdDomainID d = mdDomainID md) (trows (mail_domains s))") (auto simp: find_None_iff)
  then obtain md' where f: "find (\<lambda>d. mdDomainID d = mdDomainID md) (trows (mail_domains s)) = Some md'" by blast
  then have "md' \<in> set (trows (mail_domains s))" "mdDomainID md' = mdDomainID md" by (auto simp: find_Some_iff)
  then have "md' = md" using assms(2,3) by (auto dest: unique_onD)
  with f assms(1) show ?thesis by (simp add: GetMailDomainByDomainID_def query_row_def)
qed

lemma enforce_db:
  assumes "\<not> db_down (ss_db st)" "schema_ok (ss_db st)" "uID u > 0"
  shows "\<exists>E. suspended_db (uID u) (ss_db st) E (ss_db (enforce sv u st)) \<and>
    (unique_on mdDomainID (mail_domains (ss_db st)) \<longrightarrow>
       (\<forall>m\<in>set (trows (mailboxes (ss_db st))). owns_mailbox (uID u) (ss_db st) m \<and> mbEnabled m \<longrightarrow> mbID m \<in> E))"
proof -
  let ?s0 = "ss_db st"
  define st7 where "st7 = stop_containers sv u (cut_access sv u (accountNames (ss_db (cut_sessions sv u st)) u) (cut_sessions sv u st))"
  have e: "ss_db (enforce sv u st) = ss_db (forEachMailbox u (disable_mailbox u) st7)"
    unfolding enforce_def Let_def st7_def by simp
  obtain acts where a: "ss_db st7 = ?s0\<lparr>sessions := filter (\<lambda>r. sUserID r \<noteq> uID u) (sessions ?s0),
      suspension_actions := suspension_actions ?s0 @ acts\<rparr>"
    "\<forall>a\<in>set acts. saUserID a = uID u \<and> saKind a = SuspendKindContainer"
    using cut_db [OF assms(1), of sv u] unfolding st7_def by blast
  have up: "\<not> db_down (ss_db st7)" using a(1) assms(1) by simp
  have wf: "table_wf mbID (mailboxes (ss_db st7))" "table_wf mdID (mail_domains ?s0)" using a(1) schema_okD assms(2) by auto
  obtain doms where doms: "ListDomains (ss_db st7) (uID u) = Inr doms" "dID ` set doms = {i. user_domain (uID u) (ss_db st7) i}"
    using list_domains_set [OF up assms(3)] by blast
  obtain E where E: "mail_cut (uID u) (ss_db st7) E (ss_db (visit_domains (disable_mailbox u) doms st7))"
    "\<forall>d\<in>set doms. \<forall>md. GetMailDomainByDomainID (ss_db st7) (dID d) = Inr md \<longrightarrow>
      (\<forall>m\<in>set (trows (mailboxes (ss_db st7))). mbMailDomainID m = mdID md \<and> mbEnabled m \<and> mdID md > 0 \<and>
         (\<exists>d. t_get mdID (mdID md) (mail_domains (ss_db st7)) = Some d) \<longrightarrow> mbID m \<in> E)"
    using mail_cut_visit [OF mail_cut_refl up wf(1)] by blast
  have db: "ss_db (enforce sv u st) = ss_db (visit_domains (disable_mailbox u) doms st7)"
    unfolding e forEachMailbox_def doms(1) by simp
  have rec0: "recorded (uID u) SuspendKindMailbox (ss_db st7) = recorded (uID u) SuspendKindMailbox ?s0"
    using a by (auto simp: set_eq_iff recorded_iff)
  have "suspended_db (uID u) ?s0 E (ss_db (enforce sv u st))"
    using cut_suspended [OF E(1) a rec0] unfolding db .
  moreover have "mbID m \<in> E" if one: "unique_on mdDomainID (mail_domains ?s0)"
    and m: "m \<in> set (trows (mailboxes ?s0))" "owns_mailbox (uID u) ?s0 m" "mbEnabled m" for m
  proof -
    obtain md where md: "md \<in> set (trows (mail_domains ?s0))" "user_domain (uID u) ?s0 (mdDomainID md)" "mdID md = mbMailDomainID m"
      using m(2) by (auto simp: user_mail_domain_iff)
    have "GetMailDomainByDomainID (ss_db st7) (mdDomainID md) = Inr md"
      using mail_domain_found [OF up, of md] one md(1) a(1) by simp
    moreover have "mdDomainID md \<in> dID ` set doms" using md(2) doms(2) a(1) by (simp add: user_domain_def)
    moreover have "mdID md > 0" "t_get mdID (mdID md) (mail_domains (ss_db st7)) = Some md"
      using wf(2) md(1) a(1) by (auto simp: table_wf_def t_get_Some_iff [OF wf(2)])
    ultimately show ?thesis using E(2) m md(3) a(1) by auto
  qed
  ultimately show ?thesis by blast
qed

lemma restore_sel [simp]:
  "ss_db (restore_access sv u st) = ss_db st" "ss_applied (restore_access sv u st) = ss_applied st"
  "ss_db (start_containers sv u st) = ss_db st" "ss_applied (start_containers sv u st) = ss_applied st"
  by (auto simp: restore_access_def start_containers_def Let_def fold_same [where g = ss_db] fold_same [where g = ss_applied]
      split: option.splits sum.splits)

abbreviation switched_on :: "int set \<Rightarrow> MailboxRow table \<Rightarrow> MailboxRow table" where
  "switched_on E t \<equiv> t_update (\<lambda>m. mbID m \<in> E) (\<lambda>m. m\<lparr>mbEnabled := True\<rparr>) t"

lemma enable_fold_db:
  assumes "\<not> db_down (ss_db st)"
  shows "ss_db (fold enable_mailbox ids st) = (ss_db st)\<lparr>mailboxes := switched_on (set ids) (mailboxes (ss_db st))\<rparr>"
  using assms
proof (induction ids arbitrary: st)
  case Nil
  show ?case by (simp add: t_update_def)
next
  case (Cons i ids)
  have "ss_db (enable_mailbox i st) = (ss_db st)\<lparr>mailboxes := switched_on {i} (mailboxes (ss_db st))\<rparr>"
    using Cons.prems by (simp add: enable_mailbox_def SetMailboxEnabled_def exec_def)
  moreover have "switched_on (set ids) (switched_on {i} t) = switched_on (set (i # ids)) t" for t
    by (auto simp: t_update_def)
  ultimately show ?case using Cons.IH [of "enable_mailbox i st"] Cons.prems by simp
qed

lemma lift_db:
  assumes "\<not> db_down (ss_db st)"
  shows "ss_db (lift sv u st) = (ss_db st)\<lparr>
    mailboxes := switched_on (recorded (uID u) SuspendKindMailbox (ss_db st)) (mailboxes (ss_db st)),
    suspension_actions := filter (\<lambda>a. saUserID a \<noteq> uID u) (suspension_actions (ss_db st))\<rparr>"
proof -
  let ?st = "start_containers sv u (restore_access sv u st)"
  obtain ids where "ListSuspensionActions (ss_db ?st) (uID u) SuspendKindMailbox = Inr ids"
    "set ids = recorded (uID u) SuspendKindMailbox (ss_db st)"
    using assms by (auto simp: ListSuspensionActions_def query_def recorded_def image_iff)
  with enable_fold_db [of ?st ids] assms show ?thesis
    by (simp add: lift_def enable_recorded_def ClearSuspensionActions_def)
qed

lemma applied_sel [simp]:
  "ss_applied (enforce sv u st) = ss_applied st" "ss_applied (lift sv u st) = ss_applied st"
proof -
  have d: "ss_applied (disable_mailbox u mb st) = ss_applied st" for mb and st :: "'a Suspender"
    by (simp add: disable_mailbox_def split: sum.splits)
  have v: "ss_applied (visit_domains (disable_mailbox u) ds st) = ss_applied st" for ds and st :: "'a Suspender"
    by (induction ds arbitrary: st) (auto simp: d fold_same [where g = ss_applied] split: sum.splits)
  have c: "ss_applied (stop_container sv u c st) = ss_applied st" for c st
    by (auto simp: stop_container_def Let_def split: prod.splits option.splits)
  have e: "ss_applied (enable_mailbox i st) = ss_applied st" for i and st :: "'a Suspender"
    by (simp add: enable_mailbox_def split: sum.splits)
  show "ss_applied (enforce sv u st) = ss_applied st"
    by (auto simp: enforce_def Let_def forEachMailbox_def v stop_containers_def c fold_same [where g = ss_applied] split: sum.splits)
  show "ss_applied (lift sv u st) = ss_applied st"
    by (auto simp: lift_def enable_recorded_def e fold_same [where g = ss_applied] split: sum.splits)
qed

section \<open>The account row\<close>

lemma set_status_db:
  assumes "\<not> db_down s"
  shows "\<exists>s1. SetUserStatus s tm i status = Inr s1 \<and> ignore_err s1 (SetSuspendedByQuota s1 i False) =
    s\<lparr>users := t_update (\<lambda>r. uID r = i) (\<lambda>r. r\<lparr>uStatus := status, uUpdatedAt := rfc3339 tm, uSuspendedByQuota := False\<rparr>) (users s)\<rparr>"
  using assms by (auto simp: SetUserStatus_def SetSuspendedByQuota_def set_user_def exec_def t_update_def)

abbreviation status_row :: "int \<Rightarrow> string \<Rightarrow> gotime \<Rightarrow> db \<Rightarrow> db" where
  "status_row i status tm s \<equiv>
    s\<lparr>users := t_update (\<lambda>r. uID r = i) (\<lambda>r. r\<lparr>uStatus := status, uUpdatedAt := rfc3339 tm, uSuspendedByQuota := False\<rparr>) (users s)\<rparr>"

lemma Suspend_db:
  assumes "\<not> db_down (ss_db st)"
  shows "\<exists>st1. Suspend sv tm u st = (Inr (u\<lparr>uStatus := StatusSuspended\<rparr>), enforce sv (u\<lparr>uStatus := StatusSuspended\<rparr>) st1) \<and>
    ss_db st1 = status_row (uID u) StatusSuspended tm (ss_db st) \<and> ss_applied st1 = (ss_applied st)(uID u := True)"
  using set_status_db [OF assms, of tm "uID u" StatusSuspended]
  by (auto simp: Suspend_def Let_def on_db_def)

lemma Unsuspend_db:
  assumes "\<not> db_down (ss_db st)"
  shows "\<exists>st1. Unsuspend sv tm u st = (Inr (u\<lparr>uStatus := StatusActive\<rparr>), lift sv (u\<lparr>uStatus := StatusActive\<rparr>) st1) \<and>
    ss_db st1 = status_row (uID u) StatusActive tm (ss_db st) \<and> ss_applied st1 = (ss_applied st)(uID u := False)"
  using set_status_db [OF assms, of tm "uID u" StatusActive]
  by (auto simp: Unsuspend_def Let_def on_db_def)

lemma schema_status_row: "schema_ok s \<Longrightarrow> schema_ok (status_row i status tm s)"
  by (auto intro!: schema_upd table_laws)

lemma on_off:
  assumes "\<forall>m\<in>set (trows t). mbID m \<in> E \<longrightarrow> mbEnabled m"
  shows "switched_on E (switched_off E t) = t"
proof -
  have "map (\<lambda>r. if mbID r \<in> E then r\<lparr>mbEnabled := True\<rparr> else r) (map (\<lambda>r. if mbID r \<in> E then r\<lparr>mbEnabled := False\<rparr> else r) xs) = xs"
    if "\<forall>m\<in>set xs. mbID m \<in> E \<longrightarrow> mbEnabled m" for xs :: "MailboxRow list"
    using that by (induction xs) auto
  from this [OF assms] show ?thesis by (simp add: t_update_def)
qed

end
