(* ===== verification/Suspend_Theorems.thy ===== *)
theory Suspend_Theorems
  imports Suspend_Laws
begin

text \<open>
  Suspending cuts an account off, restoring undoes exactly that, and reconciling is idempotent.
\<close>

section \<open>A concrete account\<close>

text \<open>Alice's database with one enabled and one disabled mailbox; a host on which every command fails.\<close>

definition ex_mailbox :: "int \<Rightarrow> bool \<Rightarrow> MailboxRow" where
  "ex_mailbox i on = \<lparr>mbID = i, mbMailDomainID = 1, mbLocalpart = decimal_int i, mbPasswordHash = [], mbQuotaBytes = 0,
     mbEnabled = on, mbCreatedAt = 0\<rparr>"

definition ex_mail_db :: db where
  "ex_mail_db = ex_db\<lparr>mailboxes := \<lparr>trows = [ex_mailbox 1 True, ex_mailbox 2 False], tseq = 2\<rparr>,
     sessions := [\<lparr>sID = ''x'', sUserID = 1, sExpiresAt = 9, sCreatedAt = 0\<rparr>]\<rparr>"

definition ex_services :: "unit Services" where
  "ex_services = \<lparr>sv_run = (\<lambda>cmd h. (None, h)), sv_Apply = None, sv_Pause = None, sv_Resume = None, sv_SetLocked = None,
     sv_RevokeUser = None, sv_box = None\<rparr>"

definition ex_suspender :: "unit Suspender" where
  "ex_suspender = \<lparr>ss_db = ex_mail_db, ss_host = (), ss_applied = (\<lambda>_. False), ss_warnings = []\<rparr>"

lemma ex_suspender_ok:
  "\<not> db_down (ss_db ex_suspender)" "schema_ok (ss_db ex_suspender)" "suspension_actions (ss_db ex_suspender) = []"
  "\<exists>r. t_get uID 1 (users (ss_db ex_suspender)) = Some r" "unique_on mdDomainID (mail_domains (ss_db ex_suspender))"
proof -
  have "decimal_int 1 \<noteq> decimal_int 2" by code_simp
  then have u: "unique_on (\<lambda>m. (mbMailDomainID m, mbLocalpart m)) \<lparr>trows = [ex_mailbox 1 True, ex_mailbox 2 False], tseq = 2\<rparr>"
    by (simp add: unique_on_def ex_mailbox_def)
  show "schema_ok (ss_db ex_suspender)"
    using reach_schema [OF ex_db_reach] u
    by (auto simp: ex_suspender_def ex_mail_db_def table_wf_def ex_mailbox_def intro!: schema_upd)
  show "\<not> db_down (ss_db ex_suspender)" using ex_db_ops(1) by (simp add: ex_suspender_def ex_mail_db_def)
  show "suspension_actions (ss_db ex_suspender) = []"
    by (simp add: ex_suspender_def ex_mail_db_def ex_db_def store_defs sealSecret_def ex_rows Let_def db_empty_def
        exec_unique_def t_exists_def t_insert_def t_empty_def)
  show "\<exists>r. t_get uID 1 (users (ss_db ex_suspender)) = Some r"
    using ex_db_ops(2) by (auto simp: ex_suspender_def ex_mail_db_def t_get_def map_eq_Cons_conv)
  show "unique_on mdDomainID (mail_domains (ss_db ex_suspender))"
    using ex_db_ops(4) by (auto simp: ex_suspender_def ex_mail_db_def unique_on_def map_eq_Cons_conv)
qed

section \<open>Cut off\<close>

lemma owned_status [simp]: "user_mail_domain uid (status_row i st tm s) j = user_mail_domain uid s j"
  by (simp add: user_mail_domain_def user_domain_def)

text \<open>C11: Once \<open>Suspend\<close> has run, the account counts as manually suspended, every mailbox of its mail domains is disabled, all
  its panel sessions are gone, and no token whatsoever verifies as that account. (A domain has at most one mail domain, which
  \<open>EnableDomain\<close> sees to.)\<close>

theorem suspend_cuts_off:
  assumes "\<not> db_down (ss_db st)" "schema_ok (ss_db st)" "unique_on mdDomainID (mail_domains (ss_db st))"
    and "uID u > 0" "t_get uID (uID u) (users (ss_db st)) = Some row" "Suspend sv tm u st = (r, st')"
  shows "IsManuallySuspended (ss_db st') (uID u) = Inr True \<and>
    (\<forall>m\<in>set (trows (mailboxes (ss_db st'))). owns_mailbox (uID u) (ss_db st') m \<longrightarrow> \<not> mbEnabled m) \<and>
    (\<forall>x\<in>set (sessions (ss_db st')). sUserID x \<noteq> uID u) \<and>
    (\<forall>mgr now token c v. Verify mgr (ss_db st') now token = Inr (c, v) \<longrightarrow> uID v \<noteq> uID u)"
proof -
  let ?u = "u\<lparr>uStatus := StatusSuspended\<rparr>" and ?s1 = "status_row (uID u) StatusSuspended tm (ss_db st)"
  obtain st1 where s: "st' = enforce sv ?u st1" "ss_db st1 = ?s1"
    using Suspend_db [OF assms(1), of sv tm u] assms(6) by auto
  have "\<not> db_down (ss_db st1)" "schema_ok (ss_db st1)" "uID ?u > 0"
    using s(2) assms(1,2,4) schema_status_row by auto
  from enforce_db [OF this, of sv] obtain E acts where E:
    "ss_db st' = ?s1\<lparr>sessions := filter (\<lambda>r. sUserID r \<noteq> uID u) (sessions ?s1), mailboxes := switched_off E (mailboxes ?s1),
       suspension_actions := suspension_actions ?s1 @ acts\<rparr>"
    "\<forall>m\<in>set (trows (mailboxes (ss_db st))). owns_mailbox (uID u) (ss_db st) m \<and> mbEnabled m \<longrightarrow> mbID m \<in> E"
    using assms(3) unfolding suspended_db_def s by auto
  have row: "t_get uID (uID u) (users (ss_db st')) =
      Some (row\<lparr>uStatus := StatusSuspended, uUpdatedAt := rfc3339 tm, uSuspendedByQuota := False\<rparr>)"
    using assms(5) unfolding E(1) by (auto simp: t_get_update dest: t_get_SomeD)
  have susp: "IsManuallySuspended (ss_db st') (uID u) = Inr True"
    using row assms(1) by (simp add: IsManuallySuspended_def query_row_def E(1))
  have mail: "\<forall>m\<in>set (trows (mailboxes (ss_db st'))). owns_mailbox (uID u) (ss_db st') m \<longrightarrow> \<not> mbEnabled m"
    using E(2) unfolding E(1) by (auto simp: user_mail_domain_def user_domain_def)
  have "\<forall>x\<in>set (sessions (ss_db st')). sUserID x \<noteq> uID u" unfolding E(1) by simp
  moreover have "uID v \<noteq> uID u" if v: "Verify mgr (ss_db st') now token = Inr (c, v)" for mgr now token c v
  proof
    assume "uID v = uID u"
    with v have "GetUserByID (ss_db st') (uID u) = Inr v" using GetUserByID_id by (fastforce simp: Verify_ok)
    with row have "uStatus v = StatusSuspended" by (auto simp: GetUserByID_def scanUser_def User.truncate_def)
    with v show False by (simp add: Verify_ok)
  qed
  ultimately show ?thesis using susp mail by blast
qed

theorem suspend_cuts_off_witness:
  "\<exists>r st'. Suspend ex_services 0 (ex_user\<lparr>uID := 1\<rparr>) ex_suspender = (r, st') \<and> IsManuallySuspended (ss_db st') 1 = Inr True \<and> sessions (ss_db st') = []"
proof -
  obtain row where "t_get uID (uID (ex_user\<lparr>uID := 1\<rparr>)) (users (ss_db ex_suspender)) = Some row" using ex_suspender_ok(4) by auto
  moreover obtain r st' where s: "Suspend ex_services 0 (ex_user\<lparr>uID := 1\<rparr>) ex_suspender = (r, st')" by fastforce
  ultimately have c: "IsManuallySuspended (ss_db st') 1 = Inr True" "\<forall>x\<in>set (sessions (ss_db st')). sUserID x \<noteq> 1"
    using suspend_cuts_off [OF ex_suspender_ok(1,2,5), of "ex_user\<lparr>uID := 1\<rparr>"] by auto
  obtain st1 where "st' = enforce ex_services (ex_user\<lparr>uID := 1, uStatus := StatusSuspended\<rparr>) st1" "ss_db st1 = status_row 1 StatusSuspended 0 (ss_db ex_suspender)"
    using Suspend_db [OF ex_suspender_ok(1), of ex_services 0 "ex_user\<lparr>uID := 1\<rparr>"] s by auto
  moreover from this have "\<exists>E. suspended_db 1 (ss_db st1) E (ss_db st')"
    using enforce_db [of st1 "ex_user\<lparr>uID := 1, uStatus := StatusSuspended\<rparr>" ex_services] ex_suspender_ok(1,2) schema_status_row by auto
  ultimately have "sessions (ss_db st') = filter (\<lambda>r. sUserID r \<noteq> 1) (sessions (ss_db ex_suspender))" by (auto simp: suspended_db_def)
  then have "sessions (ss_db st') = []" by (simp add: ex_suspender_def ex_mail_db_def)
  with s c show ?thesis by blast
qed

section \<open>Restored\<close>

text \<open>C12: Unsuspending restores exactly what suspending changed: starting from an account with no pending suspension notes, the
  store after \<open>Suspend\<close> and \<open>Unsuspend\<close> is the store before, except that the account is active and its sessions were
  ended. In particular a mailbox the administrator had disabled stays disabled.\<close>

theorem unsuspend_restores:
  assumes "\<not> db_down (ss_db st)" "schema_ok (ss_db st)" "uID u > 0"
    and "\<forall>a\<in>set (suspension_actions (ss_db st)). saUserID a \<noteq> uID u"
    and "Suspend sv tm u st = (r, st1)" "Unsuspend sv tm' u' st1 = (r', st2)" "uID u' = uID u"
  shows "ss_db st2 = (status_row (uID u) StatusActive tm' (ss_db st))\<lparr>sessions := filter (\<lambda>x. sUserID x \<noteq> uID u) (sessions (ss_db st))\<rparr>"
proof -
  let ?u = "u\<lparr>uStatus := StatusSuspended\<rparr>" and ?s0 = "ss_db st" and ?s1 = "status_row (uID u) StatusSuspended tm (ss_db st)"
  obtain sta where s: "st1 = enforce sv ?u sta" "ss_db sta = ?s1"
    using Suspend_db [OF assms(1), of sv tm u] assms(5) by auto
  have "\<not> db_down (ss_db sta)" "schema_ok (ss_db sta)" "uID ?u > 0"
    using s(2) assms(1-3) schema_status_row by auto
  from enforce_db [OF this, of sv] obtain E acts where E:
    "ss_db st1 = ?s1\<lparr>sessions := filter (\<lambda>r. sUserID r \<noteq> uID u) (sessions ?s1), mailboxes := switched_off E (mailboxes ?s1),
       suspension_actions := suspension_actions ?s1 @ acts\<rparr>" "\<forall>a\<in>set acts. saUserID a = uID u"
    "recorded (uID u) SuspendKindMailbox (ss_db st1) = recorded (uID u) SuspendKindMailbox ?s1 \<union> E"
    "\<forall>m\<in>set (trows (mailboxes ?s0)). mbID m \<in> E \<longrightarrow> mbEnabled m"
    unfolding suspended_db_def s by auto
  have none: "recorded (uID u) SuspendKindMailbox ?s1 = {}"
    using assms(4) by (auto simp: recorded_def)
  obtain stb where b: "st2 = lift sv (u'\<lparr>uStatus := StatusActive\<rparr>) stb" "ss_db stb = status_row (uID u) StatusActive tm' (ss_db st1)"
    using Unsuspend_db [of st1 sv tm' u'] assms(1,6,7) E(1) by auto
  have rec: "recorded (uID u) SuspendKindMailbox (ss_db stb) = E"
  proof -
    have "recorded (uID u) SuspendKindMailbox (ss_db stb) = recorded (uID u) SuspendKindMailbox (ss_db st1)"
      by (simp add: b(2) recorded_def)
    with E(3) none show ?thesis by simp
  qed
  have "ss_db st2 = (ss_db stb)\<lparr>mailboxes := switched_on E (mailboxes (ss_db stb)),
      suspension_actions := filter (\<lambda>a. saUserID a \<noteq> uID u) (suspension_actions (ss_db stb))\<rparr>"
    using lift_db [of stb sv "u'\<lparr>uStatus := StatusActive\<rparr>"] b E(1) assms(1,7) rec by simp
  moreover have "filter (\<lambda>a. saUserID a \<noteq> uID u) (suspension_actions ?s0 @ acts) = suspension_actions ?s0"
    using assms(4) E(2) by (simp add: filter_id_conv filter_empty_conv)
  moreover have "users (ss_db stb) = users (status_row (uID u) StatusActive tm' ?s0)"
    unfolding b(2) E(1) by (simp add: t_update_def)
  ultimately show ?thesis
    using b(2) E(1) on_off [OF E(4)] by simp
qed

theorem unsuspend_restores_witness:
  "\<exists>r st1 r' st2. Suspend ex_services 0 (ex_user\<lparr>uID := 1\<rparr>) ex_suspender = (r, st1) \<and>
     Unsuspend ex_services 1 (ex_user\<lparr>uID := 1\<rparr>) st1 = (r', st2) \<and> map mbEnabled (trows (mailboxes (ss_db st2))) = [True, False]"
proof -
  obtain r st1 where s: "Suspend ex_services 0 (ex_user\<lparr>uID := 1\<rparr>) ex_suspender = (r, st1)" by fastforce
  obtain r' st2 where t: "Unsuspend ex_services 1 (ex_user\<lparr>uID := 1\<rparr>) st1 = (r', st2)" by fastforce
  have "mailboxes (ss_db st2) = mailboxes (ss_db ex_suspender)"
    using unsuspend_restores [OF ex_suspender_ok(1,2) _ _ s t] ex_suspender_ok(3) by simp
  then have "map mbEnabled (trows (mailboxes (ss_db st2))) = [True, False]"
    by (simp add: ex_suspender_def ex_mail_db_def ex_mailbox_def)
  with s t show ?thesis by (intro exI conjI)
qed

section \<open>Reconciling\<close>

lemma users_sel:
  "users (ss_db (enforce sv u st)) = users (ss_db st) \<and> db_down (ss_db (enforce sv u st)) = db_down (ss_db st)"
  "users (ss_db (lift sv u st)) = users (ss_db st) \<and> db_down (ss_db (lift sv u st)) = db_down (ss_db st)"
proof -
  let ?g = "\<lambda>st. (users (ss_db st), db_down (ss_db st))"
  have d: "?g (disable_mailbox u mb st) = ?g st" for mb and st :: "'a Suspender"
    by (auto simp: disable_mailbox_def RecordSuspensionAction_def SetMailboxEnabled_def exec_def Let_def split: sum.splits)
  have v: "?g (visit_domains (disable_mailbox u) ds st) = ?g st" for ds and st :: "'a Suspender"
  proof (induction ds arbitrary: st)
    case (Cons d ds)
    have "?g (fold (disable_mailbox u) xs st) = ?g st" for xs and st :: "'a Suspender"
      by (rule fold_same [of ?g]) (rule d)
    with Cons.IH show ?case by (auto split: sum.splits)
  qed simp
  have c: "?g (stop_container sv u c st) = ?g st" for c st
    using stop_container_db [of sv u c st] by auto
  have e: "?g (enable_mailbox i st) = ?g st" for i and st :: "'a Suspender"
    by (auto simp: enable_mailbox_def SetMailboxEnabled_def exec_def split: sum.splits)
  have cs: "?g (cut_sessions sv u st) = ?g st" by (simp add: DeleteUserSessions_def)
  have sc: "?g (stop_containers sv u st) = ?g st" for st
  proof -
    have "?g (fold (stop_container sv u) cs st) = ?g st" for cs by (rule fold_same [of ?g]) (rule c)
    then show ?thesis by (auto simp: stop_containers_def split: sum.splits)
  qed
  have "?g (enforce sv u st) = ?g st"
    using v cs sc by (simp add: enforce_def Let_def forEachMailbox_def split: sum.splits)
  then show "users (ss_db (enforce sv u st)) = users (ss_db st) \<and> db_down (ss_db (enforce sv u st)) = db_down (ss_db st)" by simp
  have "?g (enable_recorded u st) = ?g st" for st :: "'a Suspender"
  proof -
    have "?g (fold enable_mailbox ids st) = ?g st" for ids by (rule fold_same [of ?g]) (rule e)
    then show ?thesis by (auto simp: enable_recorded_def split: sum.splits)
  qed
  then show "users (ss_db (lift sv u st)) = users (ss_db st) \<and> db_down (ss_db (lift sv u st)) = db_down (ss_db st)"
    by (simp add: lift_def ClearSuspensionActions_def)
qed

definition wants_suspended :: "db \<Rightarrow> int \<Rightarrow> bool" where
  "wants_suspended s i = (case IsManuallySuspended s i of Inl _ \<Rightarrow> False | Inr b \<Rightarrow> b)"

lemma wants_cong: "users s' = users s \<Longrightarrow> db_down s' = db_down s \<Longrightarrow> wants_suspended s' = wants_suspended s"
  by (simp add: fun_eq_iff wants_suspended_def IsManuallySuspended_def query_row_def)

lemma reconcile_user_sel:
  "users (ss_db (reconcile_user sv u st)) = users (ss_db st)" "db_down (ss_db (reconcile_user sv u st)) = db_down (ss_db st)"
  "ss_applied (reconcile_user sv u st) = (ss_applied st)(uID u := wants_suspended (ss_db st) (uID u))"
  using users_sel [of sv u] by (auto simp: reconcile_user_def Let_def wants_suspended_def fun_eq_iff)

lemma reconcile_fold:
  "users (ss_db (fold (reconcile_user sv) us st)) = users (ss_db st) \<and> db_down (ss_db (fold (reconcile_user sv) us st)) = db_down (ss_db st) \<and>
   (\<forall>i. ss_applied (fold (reconcile_user sv) us st) i = (if i \<in> uID ` set us then wants_suspended (ss_db st) i else ss_applied st i))"
proof (induction us arbitrary: st)
  case (Cons u us)
  have "wants_suspended (ss_db (reconcile_user sv u st)) = wants_suspended (ss_db st)"
    by (intro wants_cong reconcile_user_sel)
  with Cons.IH [of "reconcile_user sv u st"] show ?case by (auto simp: reconcile_user_sel)
qed simp

text \<open>Reconciling is idempotent: a second run right after the first changes nothing at all, in the store or on the host,
  whatever the host services do.\<close>

theorem reconcile_idempotent:
  "Reconcile sv (Reconcile sv st) = Reconcile sv st"
proof (cases "ListUsers (ss_db st) 0")
  case (Inl e)
  then show ?thesis by (simp add: Reconcile_def)
next
  case (Inr us)
  let ?st = "fold (reconcile_user sv) us st"
  note F = reconcile_fold [of sv us st]
  have r: "Reconcile sv st = ?st" using Inr by (simp add: Reconcile_def)
  have l: "ListUsers (ss_db ?st) 0 = Inr us"
    using Inr F by (simp add: ListUsers_def query_def split: if_splits)
  have w: "wants_suspended (ss_db ?st) = wants_suspended (ss_db st)" using F by (intro wants_cong) simp_all
  have "reconcile_user sv u ?st = ?st" if "u \<in> set us" for u
    using F that w by (simp add: reconcile_user_def Let_def wants_suspended_def fun_eq_iff)
  moreover have "fold (reconcile_user sv) vs ?st = ?st" if "\<And>u. u \<in> set vs \<Longrightarrow> reconcile_user sv u ?st = ?st" for vs
    using that by (induction vs) simp_all
  ultimately have "fold (reconcile_user sv) us ?st = ?st" by blast
  then show ?thesis using r l by (simp add: Reconcile_def)
qed

end
