(* ===== verification/Limiter.thy ===== *)
theory Limiter
  imports Prelude "HOL-Library.AList"
begin

text \<open>
  The sliding-window counter of bad API tokens, \<^verbatim>\<open>api/ratelimit.go\<close>. Every method runs under the mutex, so a history is
  a sequence of calls; each call reads the clock once. The Go map is an association list with distinct keys. The abstract
  specification is the list of all failures ever recorded: \<open>blocked\<close> counts those of the key inside the window.
\<close>

record failLimiter =
  l_window :: int
  l_max :: int
  l_hits :: "(string \<times> gotime list) list"

definition newFailLimiter :: "int \<Rightarrow> int \<Rightarrow> failLimiter" where
  "newFailLimiter window mx = \<lparr>l_window = window, l_max = mx, l_hits = []\<rparr>"

definition hits_of :: "failLimiter \<Rightarrow> string \<Rightarrow> gotime list" where
  "hits_of l key = (case map_of (l_hits l) key of None \<Rightarrow> [] | Some ts \<Rightarrow> ts)"

definition prune :: "failLimiter \<Rightarrow> string \<Rightarrow> gotime \<Rightarrow> gotime list \<times> failLimiter" where
  "prune l key tm =
    (let cutoff = tm - l_window l;
         kept = filter (\<lambda>t. t > cutoff) (hits_of l key)
     in if kept = [] then ([], l\<lparr>l_hits := AList.delete key (l_hits l)\<rparr>)
        else (kept, l\<lparr>l_hits := AList.update key kept (l_hits l)\<rparr>))"

definition blocked :: "failLimiter \<Rightarrow> string \<Rightarrow> gotime \<Rightarrow> bool \<times> failLimiter" where
  "blocked l key tm = (case prune l key tm of (kept, l') \<Rightarrow> (int (length kept) \<ge> l_max l, l'))"

definition make_room :: "failLimiter \<Rightarrow> gotime \<Rightarrow> failLimiter" where
  "make_room l tm =
    (if length (l_hits l) > 20000 then
       (let l' = fold (\<lambda>k l. snd (prune l k tm)) (map fst (l_hits l)) l
        in if length (l_hits l') > 20000 then l'\<lparr>l_hits := []\<rparr> else l')
     else l)"

definition fail :: "failLimiter \<Rightarrow> string \<Rightarrow> gotime \<Rightarrow> failLimiter" where
  "fail l key tm = (case prune (make_room l tm) key tm of (kept, l') \<Rightarrow>
     l'\<lparr>l_hits := AList.update key (kept @ [tm]) (l_hits l')\<rparr>)"

section \<open>Histories\<close>

datatype limiter_call = CallBlocked string gotime | CallFail string gotime

fun call_time :: "limiter_call \<Rightarrow> gotime" where
  "call_time (CallBlocked k t) = t"
| "call_time (CallFail k t) = t"

fun limiter_step :: "limiter_call \<Rightarrow> failLimiter \<Rightarrow> failLimiter" where
  "limiter_step (CallBlocked k t) l = snd (blocked l k t)"
| "limiter_step (CallFail k t) l = fail l k t"

text \<open>The abstract counter: the times at which a key failed.\<close>

fun failures :: "string \<Rightarrow> limiter_call list \<Rightarrow> gotime list" where
  "failures k [] = []"
| "failures k (CallFail j t # cs) = (if j = k then t # failures k cs else failures k cs)"
| "failures k (CallBlocked j t # cs) = failures k cs"

fun failing_keys :: "limiter_call list \<Rightarrow> string list" where
  "failing_keys [] = []"
| "failing_keys (CallFail j t # cs) = j # failing_keys cs"
| "failing_keys (CallBlocked j t # cs) = failing_keys cs"

lemma failures_append [simp]: "failures k (xs @ ys) = failures k xs @ failures k ys"
  by (induction xs rule: failures.induct) auto

lemma failing_keys_append [simp]: "failing_keys (xs @ ys) = failing_keys xs @ failing_keys ys"
  by (induction xs rule: failing_keys.induct) auto

section \<open>The table\<close>

definition limiter_wf :: "failLimiter \<Rightarrow> bool" where
  "limiter_wf l \<longleftrightarrow> distinct (map fst (l_hits l))"

lemma prune_fst: "fst (prune l key tm) = filter (\<lambda>t. t > tm - l_window l) (hits_of l key)"
  by (simp add: prune_def Let_def)

lemma prune_hits:
  assumes "limiter_wf l"
  shows "hits_of (snd (prune l key tm)) j = (if j = key then fst (prune l key tm) else hits_of l j)"
  using assms by (auto simp: prune_def Let_def hits_of_def update_conv' delete_conv' split: option.splits)

lemma prune_same [simp]:
  "l_window (snd (prune l key tm)) = l_window l" "l_max (snd (prune l key tm)) = l_max l"
  by (simp_all add: prune_def Let_def)

lemma prune_wf: "limiter_wf l \<Longrightarrow> limiter_wf (snd (prune l key tm))"
  by (simp add: limiter_wf_def prune_def Let_def distinct_update distinct_delete)

lemma prune_keys: "set (map fst (l_hits (snd (prune l key tm)))) \<subseteq> set (map fst (l_hits l))"
proof (cases "fst (prune l key tm) = []")
  case True
  then have "l_hits (snd (prune l key tm)) = AList.delete key (l_hits l)" by (auto simp: prune_def Let_def)
  then show ?thesis by (simp add: delete_keys)
next
  case False
  then have "hits_of l key \<noteq> []" by (auto simp: prune_fst)
  then have k: "key \<in> set (map fst (l_hits l))"
    by (auto simp: hits_of_def split: option.splits dest!: map_of_SomeD intro: rev_image_eqI)
  have "l_hits (snd (prune l key tm)) = AList.update key (fst (prune l key tm)) (l_hits l)"
    using False by (auto simp: prune_def Let_def)
  with k show ?thesis by (simp add: update_keys)
qed

lemma prune_length:
  assumes "limiter_wf l"
  shows "length (l_hits (snd (prune l key tm))) \<le> length (l_hits l)"
proof -
  have "length (map fst (l_hits (snd (prune l key tm)))) \<le> length (map fst (l_hits l))"
    using prune_keys [of l key tm] prune_wf [OF assms, of key tm] assms unfolding limiter_wf_def
    by (metis List.finite_set card_mono distinct_card)
  then show ?thesis by simp
qed

lemma fold_prune_wf:
  "limiter_wf l \<Longrightarrow> limiter_wf (fold (\<lambda>k l. snd (prune l k tm)) ks l)"
  by (induction ks arbitrary: l) (simp_all add: prune_wf)

lemma fold_prune_same [simp]:
  "l_window (fold (\<lambda>k l. snd (prune l k tm)) ks l) = l_window l"
  "l_max (fold (\<lambda>k l. snd (prune l k tm)) ks l) = l_max l"
  by (induction ks arbitrary: l) simp_all

lemma make_room_wf: "limiter_wf l \<Longrightarrow> limiter_wf (make_room l tm)"
  using fold_prune_wf [of l tm] by (simp add: make_room_def Let_def limiter_wf_def)

lemma make_room_length: "length (l_hits (make_room l tm)) \<le> 20000"
  by (simp add: make_room_def Let_def)

lemma make_room_same [simp]: "l_window (make_room l tm) = l_window l" "l_max (make_room l tm) = l_max l"
  by (simp_all add: make_room_def Let_def)

lemma make_room_id: "length (l_hits l) \<le> 20000 \<Longrightarrow> make_room l tm = l"
  by (simp add: make_room_def)

lemma update_length: "length (AList.update k v al) \<le> Suc (length al)"
  by (induction al) auto

lemma blocked_simps: "fst (blocked l k tm) \<longleftrightarrow> l_max l \<le> int (length (fst (prune l k tm)))"
  "snd (blocked l k tm) = snd (prune l k tm)"
  by (simp_all add: blocked_def split: prod.split)

lemma fail_hits: "l_hits (fail l k tm) =
    AList.update k (fst (prune (make_room l tm) k tm) @ [tm]) (l_hits (snd (prune (make_room l tm) k tm)))"
  by (simp add: fail_def split: prod.split)

lemma fail_same [simp]: "l_window (fail l k tm) = l_window l" "l_max (fail l k tm) = l_max l"
  using prune_same [of "make_room l tm" k tm] by (simp_all add: fail_def case_prod_beta)

lemma limiter_step_wf: "limiter_wf l \<Longrightarrow> limiter_wf (limiter_step c l)"
proof (cases c)
  case (CallFail k tm)
  assume "limiter_wf l"
  then have "limiter_wf (snd (prune (make_room l tm) k tm))" by (intro prune_wf make_room_wf)
  with CallFail show ?thesis by (simp add: limiter_wf_def fail_hits distinct_update)
qed (simp add: blocked_simps prune_wf)

lemma limiter_step_same [simp]: "l_window (limiter_step c l) = l_window l" "l_max (limiter_step c l) = l_max l"
  by (cases c; simp add: blocked_simps)+

lemma limiter_step_length:
  assumes wf: "limiter_wf l" and "length (l_hits l) \<le> 20001"
  shows "length (l_hits (limiter_step c l)) \<le> 20001"
proof (cases c)
  case (CallBlocked k tm)
  then show ?thesis using prune_length [OF wf, of k tm] assms(2) by (simp add: blocked_simps)
next
  case (CallFail k tm)
  have "length (l_hits (snd (prune (make_room l tm) k tm))) \<le> 20000"
    using prune_length [OF make_room_wf [OF wf], of tm k tm] make_room_length [of l tm] by linarith
  then show ?thesis
    using update_length [of k _ "l_hits (snd (prune (make_room l tm) k tm))"] le_trans
    by (fastforce simp: CallFail fail_hits)
qed

text \<open>What relates the table to the history: inside every window that ends now or later, a key's entries are its failures.\<close>

definition tracks :: "failLimiter \<Rightarrow> limiter_call list \<Rightarrow> gotime \<Rightarrow> bool" where
  "tracks l cs tm \<longleftrightarrow> limiter_wf l \<and> set (map fst (l_hits l)) \<subseteq> set (failing_keys cs) \<and>
     (\<forall>k now. tm \<le> now \<longrightarrow> filter (\<lambda>t. t > now - l_window l) (hits_of l k) = filter (\<lambda>t. t > now - l_window l) (failures k cs))"

lemma tracks_later: "tracks l cs tm \<Longrightarrow> tm \<le> tm' \<Longrightarrow> tracks l cs tm'"
  by (auto simp: tracks_def)

lemma tracks_prune:
  assumes "tracks l cs tm"
  shows "tracks (snd (prune l k tm)) cs tm"
proof -
  have "filter (\<lambda>t. t > now - l_window l) (filter (\<lambda>t. t > tm - l_window l) xs) = filter (\<lambda>t. t > now - l_window l) xs"
    if "tm \<le> now" for now xs using that by (induction xs) auto
  then show ?thesis
    using assms subset_trans [OF prune_keys [of l k tm]] by (simp add: tracks_def prune_wf prune_hits prune_fst)
qed

lemma tracks_fail:
  assumes tr: "tracks l cs tm" and few: "length (l_hits l) \<le> 20000"
  shows "tracks (fail l k tm) (cs @ [CallFail k tm]) tm"
proof -
  define l1 where "l1 = snd (prune l k tm)"
  have l1: "tracks l1 cs tm" unfolding l1_def using tr by (rule tracks_prune)
  have wf: "limiter_wf l" using tr by (simp add: tracks_def)
  have h1: "hits_of l1 k = fst (prune l k tm)" unfolding l1_def by (simp add: prune_hits [OF wf])
  have hits: "l_hits (fail l k tm) = AList.update k (hits_of l1 k @ [tm]) (l_hits l1)"
    unfolding h1 unfolding l1_def by (simp add: fail_hits make_room_id few)
  have w: "l_window l1 = l_window l" by (simp add: l1_def)
  have "hits_of (fail l k tm) j = (if j = k then hits_of l1 k @ [tm] else hits_of l1 j)" for j
    by (simp add: hits_of_def [of "fail l k tm"] hits update_conv' hits_of_def [of l1 j])
  moreover have "limiter_wf (fail l k tm)" using limiter_step_wf [OF wf, of "CallFail k tm"] by simp
  ultimately show ?thesis using l1 by (auto simp: tracks_def hits update_keys w)
qed

lemma tracks_history:
  assumes "sorted (map call_time cs)" "\<And>c. c \<in> set cs \<Longrightarrow> call_time c \<le> tm" "card (set (failing_keys cs)) \<le> 20000"
  shows "tracks (fold limiter_step cs (newFailLimiter window mx)) cs tm"
  using assms
proof (induction cs arbitrary: tm rule: rev_induct)
  case Nil
  then show ?case by (simp add: tracks_def newFailLimiter_def limiter_wf_def hits_of_def)
next
  case (snoc c cs)
  let ?l = "fold limiter_step cs (newFailLimiter window mx)"
  have "card (set (failing_keys cs)) \<le> card (set (failing_keys (cs @ [c])))" by (rule card_mono) auto
  with snoc.prems have keys: "card (set (failing_keys cs)) \<le> 20000" by simp
  have tr: "tracks ?l cs (call_time c)"
    using snoc.prems(1) keys by (intro snoc.IH) (auto simp: sorted_append)
  have "length (map fst (l_hits ?l)) \<le> card (set (failing_keys cs))"
    using tr by (simp only: tracks_def limiter_wf_def distinct_card [symmetric]) (simp add: card_mono)
  with keys have few: "length (l_hits ?l) \<le> 20000" by simp
  have "tracks (limiter_step c ?l) (cs @ [c]) (call_time c)"
  proof (cases c)
    case (CallBlocked k t)
    then have "tracks (snd (prune ?l k t)) cs t" using tr tracks_prune by simp
    then show ?thesis using CallBlocked by (simp add: blocked_simps tracks_def)
  qed (use tr few tracks_fail in simp)
  then show ?case using snoc.prems(2) by (auto intro: tracks_later)
qed

text \<open>C13: The limiter implements the count of recorded failures: after any history of calls in time order with at most
  20000 failing addresses, an address is blocked exactly when it failed \<open>max\<close> times within the window. Whatever the history,
  the table never holds more than 20001 addresses.\<close>

theorem limiter_counts_window:
  "(sorted (map call_time (cs @ [CallBlocked k now])) \<and> card (set (failing_keys cs)) \<le> 20000 \<longrightarrow>
      fst (blocked (fold limiter_step cs (newFailLimiter window mx)) k now) =
        (mx \<le> int (length (filter (\<lambda>t. t > now - window) (failures k cs))))) \<and>
   length (l_hits (fold limiter_step cs (newFailLimiter window mx))) \<le> 20001"
proof -
  let ?l = "\<lambda>cs. fold limiter_step cs (newFailLimiter window mx)"
  have new: "limiter_wf (newFailLimiter window mx)" "l_window (newFailLimiter window mx) = window" "l_max (newFailLimiter window mx) = mx"
    by (simp_all add: newFailLimiter_def limiter_wf_def)
  have wf: "limiter_wf (?l cs)" and same: "l_window (?l cs) = window" "l_max (?l cs) = mx" for cs
    by (induction cs rule: rev_induct) (simp_all add: limiter_step_wf new)
  have len: "length (l_hits (?l cs)) \<le> 20001" for cs
  proof (induction cs rule: rev_induct)
    case (snoc c cs)
    then show ?case using limiter_step_length [OF wf] by simp
  qed (simp add: newFailLimiter_def)
  moreover have "fst (blocked (?l cs) k now) = (mx \<le> int (length (filter (\<lambda>t. t > now - window) (failures k cs))))"
    if "sorted (map call_time (cs @ [CallBlocked k now]))" "card (set (failing_keys cs)) \<le> 20000"
  proof -
    have "tracks (?l cs) cs now" using that by (intro tracks_history) (auto simp: sorted_append)
    then show ?thesis by (simp add: blocked_simps prune_fst tracks_def same)
  qed
  ultimately show ?thesis by blast
qed

theorem limiter_counts_window_witness:
  "fst (blocked (fold limiter_step [CallFail ''a'' 1, CallFail ''b'' 2, CallFail ''a'' 5] (newFailLimiter 10 2)) ''a'' 10) \<and>
   \<not> fst (blocked (fold limiter_step [CallFail ''a'' 1, CallFail ''b'' 2, CallFail ''a'' 5] (newFailLimiter 10 2)) ''a'' 11)"
  using limiter_counts_window [of "[CallFail ''a'' 1, CallFail ''b'' 2, CallFail ''a'' 5]" "''a''" 10 10 2]
    limiter_counts_window [of "[CallFail ''a'' 1, CallFail ''b'' 2, CallFail ''a'' 5]" "''a''" 11 10 2]
  by (simp add: card_insert_if)

end
