(* ===== verification/Net.thy ===== *)
theory Net
  imports Prelude
begin

text \<open>
  The parts of Go's \<open>net\<close>, \<open>strings\<close> and \<open>strconv\<close> packages that read requests (\<open>SplitHostPort\<close>, \<open>ParseIP\<close>,
  \<open>IsLoopback\<close>, \<open>Split\<close>, \<open>Join\<close>, \<open>ParseInt\<close>) and \<open>ClientIP\<close> of \<^verbatim>\<open>svc/clientip.go\<close>.
\<close>

section \<open>Splitting and joining\<close>

fun Split :: "char \<Rightarrow> string \<Rightarrow> string list" where
  "Split c [] = [[]]"
| "Split c (x # xs) = (if x = c then [] # Split c xs
     else (case Split c xs of p # ps \<Rightarrow> (x # p) # ps | [] \<Rightarrow> [[x]]))"

fun Join :: "string \<Rightarrow> string list \<Rightarrow> string" where
  "Join sep [] = []"
| "Join sep [p] = p"
| "Join sep (p # ps) = p @ sep @ Join sep ps"

lemma Split_not_Nil [simp]: "Split c s \<noteq> []"
  by (induction s) (auto split: list.splits)

lemma Split_append: "Split c (xs @ c # ys) = Split c xs @ Split c ys"
  by (induction xs) (auto split: list.splits)

lemma Split_none: "c \<notin> set s \<Longrightarrow> Split c s = [s]"
  by (induction s) auto

lemma Join_snoc: "ps \<noteq> [] \<Longrightarrow> Join sep (ps @ [p]) = Join sep ps @ sep @ p"
  by (induction sep ps rule: Join.induct) auto

section \<open>IP addresses\<close>

text \<open>A parsed address: four bytes, or eight 16 bit groups.\<close>

datatype ip = IPv4 "nat list" | IPv6 "nat list"

definition is_dec :: "char \<Rightarrow> bool" where
  "is_dec c \<longleftrightarrow> 48 \<le> (of_char c :: nat) \<and> (of_char c :: nat) \<le> 57"

definition dec_value :: "char \<Rightarrow> nat" where
  "dec_value c = of_char c - 48"

definition hex_value :: "char \<Rightarrow> nat option" where
  "hex_value c = (let n = (of_char c :: nat) in
     if 48 \<le> n \<and> n \<le> 57 then Some (n - 48)
     else if 97 \<le> n \<and> n \<le> 102 then Some (n - 87)
     else if 65 \<le> n \<and> n \<le> 70 then Some (n - 55) else None)"

text \<open>One decimal field: one to three digits, no leading zero, at most 255.\<close>

definition parse_octet :: "string \<Rightarrow> nat option" where
  "parse_octet s = (if s = [] \<or> length s > 3 \<or> \<not> list_all is_dec s \<or> (length s > 1 \<and> hd s = CHR ''0'') then None
     else let n = foldl (\<lambda>acc c. acc * 10 + dec_value c) 0 s in if n \<le> 255 then Some n else None)"

fun all_some :: "'a option list \<Rightarrow> 'a list option" where
  "all_some [] = Some []"
| "all_some (None # xs) = None"
| "all_some (Some x # xs) = map_option ((#) x) (all_some xs)"

definition parse4 :: "string \<Rightarrow> nat list option" where
  "parse4 s = (let fs = Split (CHR ''.'') s in if length fs = 4 then all_some (map parse_octet fs) else None)"

fun span_hex :: "string \<Rightarrow> nat list \<times> string" where
  "span_hex [] = ([], [])"
| "span_hex (c # cs) = (case hex_value c of None \<Rightarrow> ([], c # cs)
     | Some v \<Rightarrow> (case span_hex cs of (vs, rest) \<Rightarrow> (v # vs, rest)))"

lemma span_hex_length: "span_hex s = (vs, rest) \<Longrightarrow> length s = length vs + length rest"
  by (induction s arbitrary: vs rest) (auto split: option.splits prod.splits)

lemma span_hex_shorter:
  assumes "(vs, rest) = span_hex s" "vs \<noteq> []"
  shows "length rest < length s"
  using span_hex_length [OF assms(1) [symmetric]] assms(2) by (cases vs) auto

text \<open>
  The loop of the IPv6 parser. \<open>gs\<close> are the groups read so far and \<open>ell\<close> where \<open>::\<close> stood. The result is the groups and
  the position of the ellipsis once the text is used up.
\<close>

function parse6_loop :: "string \<Rightarrow> nat list \<Rightarrow> nat option \<Rightarrow> (nat list \<times> nat option) option" where
  "parse6_loop s gs ell =
    (if length gs \<ge> 8 then (if s = [] then Some (gs, ell) else None)
     else case span_hex s of (vs, rest) \<Rightarrow>
       if vs = [] \<or> length vs > 4 then None
       else if rest \<noteq> [] \<and> hd rest = CHR ''.''
       then (if (ell = None \<and> length gs \<noteq> 6) \<or> length gs > 6 then None
             else case parse4 s of Some [a, b, c, d] \<Rightarrow> Some (gs @ [a * 256 + b, c * 256 + d], ell) | _ \<Rightarrow> None)
       else let gs' = gs @ [foldl (\<lambda>acc v. acc * 16 + v) 0 vs] in
         if rest = [] then Some (gs', ell)
         else if hd rest \<noteq> CHR '':'' \<or> tl rest = [] then None
         else if hd (tl rest) = CHR '':''
         then (if ell \<noteq> None then None
               else if tl (tl rest) = [] then Some (gs', Some (length gs'))
               else parse6_loop (tl (tl rest)) gs' (Some (length gs')))
         else parse6_loop (tl rest) gs' ell)"
  by pat_completeness auto
termination
  by (relation "measure (\<lambda>(s, gs, ell). length s)") (auto dest!: span_hex_shorter)

declare parse6_loop.simps [simp del]

definition expand6 :: "nat list \<Rightarrow> nat option \<Rightarrow> nat list option" where
  "expand6 gs ell = (case ell of
     None \<Rightarrow> if length gs = 8 then Some gs else None
   | Some e \<Rightarrow> if length gs < 8 then Some (take e gs @ replicate (8 - length gs) 0 @ drop e gs) else None)"

definition parse6 :: "string \<Rightarrow> nat list option" where
  "parse6 s = (if HasPrefix s ''::'' then
       (if drop 2 s = [] then Some (replicate 8 0)
        else Option.bind (parse6_loop (drop 2 s) [] (Some 0)) (\<lambda>(gs, ell). expand6 gs ell))
     else Option.bind (parse6_loop s [] None) (\<lambda>(gs, ell). expand6 gs ell))"

text \<open>The first of \<open>.\<close> and \<open>:\<close> decides the family; a zone (\<open>%\<close>) is refused.\<close>

definition ParseIP :: "string \<Rightarrow> ip option" where
  "ParseIP s = (case find (\<lambda>c. c \<in> {CHR ''.'', CHR '':'', CHR ''%''}) s of
     Some c \<Rightarrow> if c = CHR ''.'' then map_option IPv4 (parse4 s)
       else if c = CHR '':'' \<and> CHR ''%'' \<notin> set s then map_option IPv6 (parse6 s) else None
   | None \<Rightarrow> None)"

definition IsLoopback :: "ip \<Rightarrow> bool" where
  "IsLoopback a = (case a of IPv4 bs \<Rightarrow> hd bs = 127
     | IPv6 gs \<Rightarrow> gs = [0, 0, 0, 0, 0, 0, 0, 1] \<or> (take 6 gs = [0, 0, 0, 0, 0, 0xffff] \<and> gs ! 6 div 256 = 127))"

text \<open>\<open>net.SplitHostPort\<close>: the host, or \<open>None\<close> for an error.\<close>

definition last_index :: "char \<Rightarrow> string \<Rightarrow> nat option" where
  "last_index c s = (if c \<in> set s then Some (length s - 1 - length (takeWhile (\<lambda>x. x \<noteq> c) (rev s))) else None)"

definition SplitHostPort :: "string \<Rightarrow> string option" where
  "SplitHostPort s = (case last_index (CHR '':'') s of None \<Rightarrow> None
     | Some i \<Rightarrow>
         if s \<noteq> [] \<and> hd s = CHR ''['' then
           (let e = length (takeWhile (\<lambda>x. x \<noteq> CHR '']'') s) in
            if e = length s \<or> e + 1 \<noteq> i \<or> CHR ''['' \<in> set (tl s) \<or> CHR '']'' \<in> set (drop (e + 1) s) then None
            else Some (take (e - 1) (tl s)))
         else (let host = take i s in
            if CHR '':'' \<in> set host \<or> CHR ''['' \<in> set s \<or> CHR '']'' \<in> set s then None else Some host))"

text \<open>\<open>strconv.ParseInt(s, 10, 64)\<close>: an optional sign, then digits only, within 64 bits.\<close>

definition ParseInt :: "string \<Rightarrow> int option" where
  "ParseInt s =
    (let neg = (HasPrefix s ''-'');
         ds = (if neg \<or> HasPrefix s ''+'' then tl s else s) in
     if ds = [] \<or> \<not> list_all is_dec ds then None
     else let n = foldl (\<lambda>acc c. acc * 10 + int (dec_value c)) 0 ds in
       if neg then (if n \<le> 2 ^ 63 then Some (- n) else None) else (if n < 2 ^ 63 then Some n else None))"

section \<open>The client's address\<close>

text \<open>What the code reads of a request.\<close>

record Request =
  RemoteAddr :: string
  ForwardedFor :: "string list"   \<comment> \<open>the values of \<open>X-Forwarded-For\<close>, one per header line\<close>
  Authorization :: string
  QueryToken :: string
  PathIDText :: string
  URLPath :: string

definition ClientIP :: "Request \<Rightarrow> string" where
  "ClientIP r =
    (let host = (case SplitHostPort (RemoteAddr r) of None \<Rightarrow> RemoteAddr r | Some h \<Rightarrow> h) in
     case ParseIP host of None \<Rightarrow> host
     | Some a \<Rightarrow>
         if \<not> IsLoopback a then host
         else let xff = Join '','' (ForwardedFor r) in
           if xff = [] then host
           else let entry = TrimSpace (last (Split (CHR '','') xff)) in
             if ParseIP entry \<noteq> None then entry else host)"

text \<open>The TCP peer the panel sees.\<close>

definition peer :: "Request \<Rightarrow> string" where
  "peer r = (case SplitHostPort (RemoteAddr r) of None \<Rightarrow> RemoteAddr r | Some h \<Rightarrow> h)"

definition from_loopback :: "Request \<Rightarrow> bool" where
  "from_loopback r = (case ParseIP (peer r) of None \<Rightarrow> False | Some a \<Rightarrow> IsLoopback a)"

lemma ClientIP_cases:
  "ClientIP r = (if from_loopback r \<and> Join '','' (ForwardedFor r) \<noteq> [] \<and>
       ParseIP (TrimSpace (last (Split (CHR '','') (Join '','' (ForwardedFor r))))) \<noteq> None
     then TrimSpace (last (Split (CHR '','') (Join '','' (ForwardedFor r)))) else peer r)"
  by (auto simp: ClientIP_def peer_def from_loopback_def Let_def split: option.splits)

lemma last_entry:
  assumes "CHR '','' \<notin> set e"
  shows "last (Split (CHR '','') (xs @ CHR '','' # e)) = e"
  using assms by (simp add: Split_append Split_none)

lemma no_comma_ip: "ParseIP s \<noteq> None \<Longrightarrow> TrimSpace s = s \<Longrightarrow> s \<noteq> []"
  by (auto simp: ParseIP_def)

text \<open>C22: A client cannot choose the address the panel sees. A peer that is not loopback is taken as it is, whatever
  \<open>X-Forwarded-For\<close> it sends. Behind the local proxy the address is the one the proxy wrote last, whether it appended it
  to the client's own header line or added a line, whatever the client sent before.\<close>

theorem forwarded_for_not_spoofable:
  assumes "ParseIP client \<noteq> None" "CHR '','' \<notin> set client" "TrimSpace ('' '' @ client) = client" "TrimSpace client = client"
  shows "(\<not> from_loopback r \<longrightarrow> ClientIP (r\<lparr>ForwardedFor := forged\<rparr>) = peer r) \<and>
    (from_loopback r \<longrightarrow> ClientIP (r\<lparr>ForwardedFor := forged @ [client]\<rparr>) = client \<and>
       ClientIP (r\<lparr>ForwardedFor := forged @ [line @ '', '' @ client]\<rparr>) = client)"
proof -
  have sel: "peer (r\<lparr>ForwardedFor := x\<rparr>) = peer r" "from_loopback (r\<lparr>ForwardedFor := x\<rparr>) = from_loopback r" for x
    by (simp_all add: peer_def from_loopback_def cong: option.case_cong)
  have ne: "client \<noteq> []" using assms(1,4) by (rule no_comma_ip)
  have 1: "last (Split (CHR '','') (Join '','' (forged @ [client]))) = client"
    using last_entry [OF assms(2), of "Join '','' forged"] assms(2)
    by (cases "forged = []") (simp_all add: Join_snoc Split_none)
  have nc: "CHR '','' \<notin> set ('' '' @ client)" using assms(2) by simp
  have 2: "last (Split (CHR '','') (Join '','' (forged @ [line @ '', '' @ client]))) = '' '' @ client"
  proof (cases "forged = []")
    case True
    then show ?thesis using last_entry [OF nc, of line] by simp
  next
    case False
    then show ?thesis
      using last_entry [OF nc, of "Join '','' forged @ CHR '','' # line"] by (simp add: Join_snoc)
  qed
  have "Join '','' (forged @ [client]) \<noteq> []" "Join '','' (forged @ [line @ '', '' @ client]) \<noteq> []"
    using ne by (cases "forged = []"; simp add: Join_snoc)+
  then show ?thesis using 1 2 assms by (simp add: ClientIP_cases sel)
qed

theorem forwarded_for_not_spoofable_witness:
  "ClientIP \<lparr>RemoteAddr = ''127.0.0.1:5000'', ForwardedFor = [''1.2.3.4'', ''8.8.8.8, 192.0.2.7''], Authorization = [],
     QueryToken = [], PathIDText = [], URLPath = []\<rparr> = ''192.0.2.7''"
proof -
  let ?r = "\<lparr>RemoteAddr = ''127.0.0.1:5000'', ForwardedFor = [], Authorization = [], QueryToken = [], PathIDText = [], URLPath = []\<rparr>"
  have "ParseIP ''192.0.2.7'' \<noteq> None" "TrimSpace ('' '' @ ''192.0.2.7'') = ''192.0.2.7''" "TrimSpace ''192.0.2.7'' = ''192.0.2.7''"
    "from_loopback ?r" by code_simp+
  moreover have "CHR '','' \<notin> set ''192.0.2.7''" by simp
  ultimately show ?thesis
    using forwarded_for_not_spoofable [of "''192.0.2.7''" ?r "[''1.2.3.4'']" "''8.8.8.8''"] by simp
qed

end
