(* ===== verification/Paths.thy ===== *)
theory Paths
  imports Net
begin

text \<open>
  \<open>path/filepath\<close> as the sources use it: \<open>Clean\<close> and \<open>Join\<close> (lexical, with the separator \<open>/\<close>), and the facts about
  cleaned paths that the guards of the panel rest on.
\<close>

text \<open>The component stack, top first: empty and \<open>.\<close> components vanish, \<open>..\<close> removes the component before it, is dropped at the
  root, and is kept at the start of a relative path.\<close>

definition push_component :: "bool \<Rightarrow> string \<Rightarrow> string list \<Rightarrow> string list" where
  "push_component rooted c stack =
    (if c = [] \<or> c = ''.'' then stack
     else if c = ''..'' then
       (case stack of [] \<Rightarrow> if rooted then [] else [''..'']
        | t # rest \<Rightarrow> if t = ''..'' then ''..'' # stack else rest)
     else c # stack)"

definition clean_stack :: "bool \<Rightarrow> string list \<Rightarrow> string list" where
  "clean_stack rooted cs = rev (fold (push_component rooted) cs [])"

abbreviation is_rooted :: "string \<Rightarrow> bool" where
  "is_rooted p \<equiv> HasPrefix p ''/''"

abbreviation components :: "string \<Rightarrow> string list" where
  "components p \<equiv> clean_stack (is_rooted p) (Split (CHR ''/'') p)"

definition Clean :: "string \<Rightarrow> string" where
  "Clean p = (let s = (if is_rooted p then ''/'' else []) @ Join ''/'' (components p) in if s = [] then ''.'' else s)"

definition filepath_Join :: "string list \<Rightarrow> string" where
  "filepath_Join elems = (let es = filter (\<lambda>e. e \<noteq> []) elems in if es = [] then [] else Clean (Join ''/'' es))"

section \<open>Cleaned paths\<close>

text \<open>A clean component is not empty, not \<open>.\<close>, has no separator; in a rooted path it is not \<open>..\<close> either.\<close>

definition plain :: "string \<Rightarrow> bool" where
  "plain c \<longleftrightarrow> c \<noteq> [] \<and> c \<noteq> ''.'' \<and> c \<noteq> ''..'' \<and> CHR ''/'' \<notin> set c"

lemma Split_no_sep: "p \<in> set (Split c s) \<Longrightarrow> c \<notin> set p"
proof (induction s arbitrary: p)
  case (Cons x xs)
  then show ?case by (cases "Split c xs") (auto split: if_splits)
qed simp

lemma fold_push_plain:
  "list_all plain stack \<Longrightarrow> \<forall>c\<in>set cs. CHR ''/'' \<notin> set c \<Longrightarrow> list_all plain (fold (push_component True) cs stack)"
proof (induction cs arbitrary: stack)
  case (Cons c cs)
  from Cons.prems have "list_all plain (push_component True c stack)"
    by (auto simp: push_component_def plain_def list_all_iff split: list.splits)
  with Cons show ?case by simp
qed simp

lemma components_plain: "is_rooted p \<Longrightarrow> list_all plain (components p)"
  using fold_push_plain [of "[]" "Split (CHR ''/'') p"] Split_no_sep
  by (auto simp: clean_stack_def list_all_iff)

lemma Split_Join:
  assumes "list_all (\<lambda>c. CHR ''/'' \<notin> set c) cs" "cs \<noteq> []"
  shows "Split (CHR ''/'') (Join ''/'' cs) = cs"
  using assms
proof (induction "''/''" cs rule: Join.induct)
  case (3 p q ps)
  then show ?case using Split_append [of "CHR ''/''" p] by (simp add: Split_none)
qed (simp_all add: Split_none)

lemma push_plain: "plain c \<Longrightarrow> push_component rooted c stack = c # stack"
  by (simp add: push_component_def plain_def)

lemma fold_push_id: "list_all plain cs \<Longrightarrow> fold (push_component rooted) cs stack = rev cs @ stack"
  by (induction cs arbitrary: stack) (simp_all add: push_plain)

lemma Clean_rooted: "is_rooted p \<Longrightarrow> Clean p = ''/'' @ Join ''/'' (components p)"
  by (simp add: Clean_def)

lemma components_of_plain:
  assumes "list_all plain cs"
  shows "components (''/'' @ Join ''/'' cs) = cs"
proof -
  have r: "is_rooted (''/'' @ Join ''/'' cs)" by (rule HasPrefix_append)
  have ns: "list_all (\<lambda>c. CHR ''/'' \<notin> set c) cs" using assms by (simp add: list_all_iff plain_def)
  have "fold (push_component True) (Split (CHR ''/'') (''/'' @ Join ''/'' cs)) [] = rev cs"
  proof (cases "cs = []")
    case False
    have "Split (CHR ''/'') (CHR ''/'' # Join ''/'' cs) = [] # cs" using Split_Join [OF ns False] by simp
    then show ?thesis using fold_push_id [OF assms, of True "[]"] by (simp add: push_component_def)
  qed (simp add: push_component_def)
  with r show ?thesis by (simp add: clean_stack_def)
qed

text \<open>\<open>Clean\<close> is idempotent on absolute paths, and two absolute paths with the same components clean to the same text.\<close>

lemma Clean_idem: "is_rooted p \<Longrightarrow> Clean (Clean p) = Clean p"
  using components_of_plain [OF components_plain, of p]
  by (simp add: Clean_rooted HasPrefix_append [of "''/''", simplified])

lemma Clean_inj:
  assumes "is_rooted p" "is_rooted q" "Clean p = Clean q"
  shows "components p = components q"
proof -
  have "''/'' @ Join ''/'' (components p) = ''/'' @ Join ''/'' (components q)" using assms by (simp add: Clean_rooted)
  then show ?thesis using components_of_plain [OF components_plain [OF assms(1)]] components_of_plain [OF components_plain [OF assms(2)]]
    by metis
qed

end
