(* ===== verification/Go_Text.thy ===== *)
theory Go_Text
  imports Net
begin

text \<open>
  More of Go's text functions: \<open>strings.Fields\<close> and the lines a \<open>bufio.Scanner\<close> with a buffer of one mebibyte delivers.
\<close>

fun fields_from :: "string \<Rightarrow> string \<Rightarrow> string list" where
  "fields_from cur [] = (if cur = [] then [] else [rev cur])"
| "fields_from cur (c # cs) =
     (if is_space c then (if cur = [] then fields_from [] cs else rev cur # fields_from [] cs)
      else fields_from (c # cur) cs)"

definition Fields :: "string \<Rightarrow> string list" where
  "Fields s = fields_from [] s"

lemma fields_from_words: "\<forall>c\<in>set cur. \<not> is_space c \<Longrightarrow> w \<in> set (fields_from cur s) \<Longrightarrow> w \<noteq> [] \<and> (\<forall>c\<in>set w. \<not> is_space c)"
proof (induction s arbitrary: cur)
  case Nil
  then show ?case by (simp split: if_splits)
next
  case (Cons c cs)
  show ?case
  proof (cases "is_space c")
    case True
    then have "w = rev cur \<and> cur \<noteq> [] \<or> w \<in> set (fields_from [] cs)" using Cons.prems(2) by (simp split: if_splits)
    with Cons.IH [of "[]"] Cons.prems(1) show ?thesis by fastforce
  next
    case False
    with Cons.IH [of "c # cur"] Cons.prems show ?thesis by simp
  qed
qed

lemma Fields_words: "w \<in> set (Fields s) \<Longrightarrow> w \<noteq> [] \<and> (\<forall>c\<in>set w. \<not> is_space c)"
  using fields_from_words [of "[]" w s] by (simp add: Fields_def)

abbreviation newline :: char where "newline \<equiv> CHR 0x0A"

definition strip_cr :: "string \<Rightarrow> string" where
  "strip_cr l = (if l \<noteq> [] \<and> last l = CHR 0x0D then butlast l else l)"

text \<open>The scanner stops at a line that does not fit its buffer.\<close>

definition scan_lines :: "string \<Rightarrow> string list" where
  "scan_lines s = (let ls = Split newline s; ls' = (if last ls = [] then butlast ls else ls)
     in map strip_cr (takeWhile (\<lambda>l. length l < 2 ^ 20) ls'))"

end
