(* ===== verification/Quota.thy ===== *)
theory Quota
  imports Suspend Paths Go_Text "HOL-Library.Word"
begin

text \<open>
  Disk and bandwidth quotas, \<^verbatim>\<open>svc/quota.go\<close>. The output of \<open>du\<close> for a directory (\<open>None\<close> for a failing command) and the
  contents of a log file (\<open>None\<close> when it cannot be opened) are functions of the path; the pass reads them while it runs.
\<close>

section \<open>Usage\<close>

definition quota_home :: "string \<Rightarrow> User \<Rightarrow> string" where
  "quota_home homeRoot u = (if uHomeDir u = [] then filepath_Join [homeRoot, uUsername u] else uHomeDir u)"

definition DiskUsage :: "string \<Rightarrow> (string \<Rightarrow> string option) \<Rightarrow> User \<Rightarrow> int option" where
  "DiskUsage homeRoot du u = (case du (quota_home homeRoot u) of None \<Rightarrow> None
     | Some out \<Rightarrow> (case Fields out of [] \<Rightarrow> Some 0 | f # _ \<Rightarrow> ParseInt f))"

definition re_space :: "char \<Rightarrow> bool" where
  "re_space c \<longleftrightarrow> (of_char c :: nat) \<in> {9, 10, 12, 13, 32}"

text \<open>The expression \<open>"\s+\d{3}\s+(\d+)\s+"\<close> at the start of the text: the group, or none.\<close>

definition match_bytes :: "string \<Rightarrow> string option" where
  "match_bytes s = (case s of [] \<Rightarrow> None
   | q # s1 \<Rightarrow>
      let s2 = dropWhile re_space s1; status = takeWhile is_dec s2; s3 = dropWhile is_dec s2;
          s4 = dropWhile re_space s3; bytes = takeWhile is_dec s4; s5 = dropWhile is_dec s4; s6 = dropWhile re_space s5
      in if q = CHR 0x22 \<and> s2 \<noteq> s1 \<and> length status = 3 \<and> s4 \<noteq> s3 \<and> bytes \<noteq> [] \<and> s6 \<noteq> s5 \<and> s6 \<noteq> [] \<and> hd s6 = CHR 0x22
         then Some bytes else None)"

fun find_bytes :: "string \<Rightarrow> string option" where
  "find_bytes [] = None"
| "find_bytes (c # cs) = (case match_bytes (c # cs) of Some b \<Rightarrow> Some b | None \<Rightarrow> find_bytes cs)"

definition line_bytes :: "string \<Rightarrow> 64 word" where
  "line_bytes l = (case find_bytes l of None \<Rightarrow> 0 | Some b \<Rightarrow> (case ParseInt b of None \<Rightarrow> 0 | Some n \<Rightarrow> of_int n))"

definition BandwidthUsage :: "(string \<Rightarrow> string option) \<Rightarrow> db \<Rightarrow> User \<Rightarrow> int res" where
  "BandwidthUsage log s u = (case ListDomains s (uID u) of Inl e \<Rightarrow> Inl e
   | Inr doms \<Rightarrow> Inr (sint (sum_list (map (\<lambda>d. case log (''/var/log/nginx/'' @ dDomain d @ ''.access.log'') of None \<Rightarrow> 0
        | Some content \<Rightarrow> sum_list (map line_bytes (scan_lines content))) doms) :: 64 word)))"

record Usage =
  DiskUsedBytes :: int
  DiskQuotaBytes :: int
  BandwidthUsedBytes :: int
  BandwidthQuotaBytes :: int

definition UsageFor :: "string \<Rightarrow> (string \<Rightarrow> string option) \<Rightarrow> (string \<Rightarrow> string option) \<Rightarrow> db \<Rightarrow> User \<Rightarrow> Usage" where
  "UsageFor homeRoot du log s u = \<lparr>DiskUsedBytes = (case DiskUsage homeRoot du u of None \<Rightarrow> 0 | Some n \<Rightarrow> n),
     DiskQuotaBytes = uQuotaDiskBytes u, BandwidthUsedBytes = (case BandwidthUsage log s u of Inl _ \<Rightarrow> 0 | Inr n \<Rightarrow> n),
     BandwidthQuotaBytes = uQuotaBandwidthBytes u\<rparr>"

section \<open>Enforcement\<close>

definition mark_user :: "gotime \<Rightarrow> int \<Rightarrow> string \<Rightarrow> bool \<Rightarrow> db \<Rightarrow> db" where
  "mark_user tm uid status byQuota s =
    (let s1 = ignore_err s (SetUserStatus s tm uid status) in ignore_err s1 (SetSuspendedByQuota s1 uid byQuota))"

definition enforce_user :: "string \<Rightarrow> (string \<Rightarrow> string option) \<Rightarrow> gotime \<Rightarrow> User \<Rightarrow> db \<Rightarrow> db" where
  "enforce_user homeRoot du tm u s =
    (if uRole u = RoleAdmin then s
     else let byQuota = (case IsSuspendedByQuota s (uID u) of Inl _ \<Rightarrow> False | Inr b \<Rightarrow> b) in
       if uStatus u = StatusSuspended \<and> \<not> byQuota then s
       else if uQuotaDiskBytes u \<le> 0 then (if byQuota then mark_user tm (uID u) StatusActive False s else s)
       else case DiskUsage homeRoot du u of None \<Rightarrow> s
         | Some used \<Rightarrow>
            let over = used > uQuotaDiskBytes u in
            if over \<and> uStatus u = StatusActive then mark_user tm (uID u) StatusSuspended True s
            else if \<not> over \<and> byQuota then mark_user tm (uID u) StatusActive False s
            else s)"

definition Enforce :: "string \<Rightarrow> (string \<Rightarrow> string option) \<Rightarrow> gotime \<Rightarrow> db \<Rightarrow> store_error option \<times> db" where
  "Enforce homeRoot du tm s = (case ListUsers s 0 of Inl e \<Rightarrow> (Some e, s)
     | Inr us \<Rightarrow> (None, fold (enforce_user homeRoot du tm) us s))"

end
