(* ===== verification/Os.thy ===== *)
theory Os
  imports Paths "HOL-Library.Word" "HOL-Library.AList" "HOL-Library.Sublist"
begin

text \<open>
  The file system the panel works on, and the operating system calls of Go's \<open>os\<close> and \<open>filepath\<close> packages that
  \<^verbatim>\<open>svc/files.go\<close> and \<^verbatim>\<open>svc/archive.go\<close> make.

  A file system is a list of nodes under their real paths (the component lists from the root). Names are looked up
  the way the kernel does it: component by component, following symbolic links, at most 40 of them (\<open>EvalSymlinks\<close> of
  Go follows 255). Every call runs under an identity; whether the kernel lets that identity look an entry up or change it
  is part of the identity and may depend on the file system.
\<close>

unbundle bit_operations_syntax

type_synonym path = "string list"
type_synonym mode = "32 word"

datatype kind = Dir | Reg string | Sym string

record node =
  n_kind :: kind
  n_perm :: mode
  n_uid :: int
  n_gid :: int
  n_mtime :: gotime

type_synonym fs = "(path \<times> node) list"

definition peek :: "fs \<Rightarrow> path \<Rightarrow> node option" where
  "peek fs p = map_of fs p"

definition put :: "path \<Rightarrow> node \<Rightarrow> fs \<Rightarrow> fs" where
  "put p nd fs = AList.update p nd fs"

datatype os_error = ENOENT | EEXIST | EACCES | EPERM | ENOTDIR | EISDIR | ELOOP | ENOTEMPTY | EINVAL

record Ident =
  i_uid :: int
  i_gid :: int
  i_umask :: mode
  i_now :: gotime
  i_look :: "fs \<Rightarrow> path \<Rightarrow> bool"
  i_change :: "fs \<Rightarrow> path \<Rightarrow> bool"

section \<open>Looking names up\<close>

text \<open>Where the target of a link is looked up from.\<close>

definition link_base :: "string \<Rightarrow> path \<Rightarrow> path" where
  "link_base t cur = (if is_rooted t then [] else cur)"

text \<open>\<open>walk who fs n cur cs\<close> follows the components \<open>cs\<close> from the directory \<open>cur\<close> through at most \<open>n\<close> links.\<close>

function walk :: "Ident \<Rightarrow> fs \<Rightarrow> nat \<Rightarrow> path \<Rightarrow> string list \<Rightarrow> os_error + path" where
  "walk who fs n cur [] = Inr cur"
| "walk who fs n cur (c # cs) =
    (if c = [] \<or> c = ''.'' then walk who fs n cur cs
     else if c = ''..'' then walk who fs n (butlast cur) cs
     else if \<not> i_look who fs (cur @ [c]) then Inl EACCES
     else case peek fs (cur @ [c]) of None \<Rightarrow> Inl ENOENT
       | Some nd \<Rightarrow> (case n_kind nd of
            Dir \<Rightarrow> walk who fs n (cur @ [c]) cs
          | Reg _ \<Rightarrow> if cs = [] then Inr (cur @ [c]) else Inl ENOTDIR
          | Sym t \<Rightarrow> if n = 0 then Inl ELOOP else if t = [] then Inl ENOENT
              else walk who fs (n - 1) (link_base t cur) (Split (CHR ''/'') t @ cs)))"
  by pat_completeness auto
termination by (relation "measures [\<lambda>(_, _, n, _, _). n, \<lambda>(_, _, _, _, cs). length cs]") auto

abbreviation kernel_links :: nat where "kernel_links \<equiv> 40"

definition parts :: "string \<Rightarrow> string list" where
  "parts p = filter (\<lambda>c. c \<noteq> []) (Split (CHR ''/'') p)"

definition path_text :: "path \<Rightarrow> string" where
  "path_text p = ''/'' @ Join ''/'' p"

definition EvalSymlinks :: "Ident \<Rightarrow> fs \<Rightarrow> string \<Rightarrow> os_error + string" where
  "EvalSymlinks who fs p = map_sum id path_text (walk who fs 255 [] (Split (CHR ''/'') p))"

text \<open>The entry a call acts on when it does not follow a link in the last place: the directory is looked up, the name in it need
  not exist.\<close>

definition entry :: "Ident \<Rightarrow> fs \<Rightarrow> string list \<Rightarrow> os_error + path" where
  "entry who fs cs = (if cs = [] then Inr []
     else bindR (walk who fs kernel_links [] (butlast cs)) (\<lambda>d.
       if last cs = ''.'' then Inr d else if last cs = ''..'' then Inr (butlast d)
       else case peek fs d of None \<Rightarrow> Inl ENOENT
         | Some nd \<Rightarrow> if n_kind nd \<noteq> Dir then Inl ENOTDIR
             else if \<not> i_look who fs (d @ [last cs]) then Inl EACCES else Inr (d @ [last cs])))"

definition node_at :: "fs \<Rightarrow> path \<Rightarrow> os_error + path \<times> node" where
  "node_at fs p = (case peek fs p of None \<Rightarrow> Inl ENOENT | Some nd \<Rightarrow> Inr (p, nd))"

definition stat_parts :: "Ident \<Rightarrow> fs \<Rightarrow> string list \<Rightarrow> os_error + path \<times> node" where
  "stat_parts who fs cs = bindR (walk who fs kernel_links [] cs) (node_at fs)"

definition lstat_parts :: "Ident \<Rightarrow> fs \<Rightarrow> string list \<Rightarrow> os_error + path \<times> node" where
  "lstat_parts who fs cs = bindR (entry who fs cs) (node_at fs)"

definition os_Stat :: "Ident \<Rightarrow> fs \<Rightarrow> string \<Rightarrow> os_error + path \<times> node" where
  "os_Stat who fs p = stat_parts who fs (parts p)"

definition os_Lstat :: "Ident \<Rightarrow> fs \<Rightarrow> string \<Rightarrow> os_error + path \<times> node" where
  "os_Lstat who fs p = lstat_parts who fs (parts p)"

section \<open>Changing entries\<close>

definition new_node :: "Ident \<Rightarrow> kind \<Rightarrow> mode \<Rightarrow> node" where
  "new_node who k perm = \<lparr>n_kind = k, n_perm = perm AND NOT (i_umask who), n_uid = i_uid who, n_gid = i_gid who, n_mtime = i_now who\<rparr>"

definition mkdir_parts :: "Ident \<Rightarrow> mode \<Rightarrow> string list \<Rightarrow> fs \<Rightarrow> os_error + fs" where
  "mkdir_parts who perm cs fs = bindR (entry who fs cs) (\<lambda>e.
     if peek fs e \<noteq> None then Inl EEXIST
     else if \<not> i_change who fs e then Inl EACCES
     else Inr (put e (new_node who Dir perm) fs))"

text \<open>\<open>os.MkdirAll\<close>, on the components in reverse: nothing to do when the directory is there; otherwise its parents first.\<close>

fun mkdir_all :: "Ident \<Rightarrow> mode \<Rightarrow> string list \<Rightarrow> fs \<Rightarrow> os_error option \<times> fs" where
  "mkdir_all who perm [] fs = (None, fs)"
| "mkdir_all who perm (c # rs) fs =
    (case stat_parts who fs (rev (c # rs)) of
       Inr (_, nd) \<Rightarrow> (if n_kind nd = Dir then None else Some ENOTDIR, fs)
     | Inl _ \<Rightarrow> (case mkdir_all who perm rs fs of
          (Some e, fs1) \<Rightarrow> (Some e, fs1)
        | (None, fs1) \<Rightarrow> (case mkdir_parts who perm (rev (c # rs)) fs1 of
             Inr fs2 \<Rightarrow> (None, fs2)
           | Inl e \<Rightarrow> (case lstat_parts who fs1 (rev (c # rs)) of
                Inr (_, nd) \<Rightarrow> (if n_kind nd = Dir then None else Some e, fs1)
              | Inl _ \<Rightarrow> (Some e, fs1)))))"

definition os_MkdirAll :: "Ident \<Rightarrow> mode \<Rightarrow> string \<Rightarrow> fs \<Rightarrow> os_error option \<times> fs" where
  "os_MkdirAll who perm p fs = mkdir_all who perm (rev (parts p)) fs"

text \<open>\<open>os.Open\<close>: the file behind the name, links followed.\<close>

definition os_Open :: "Ident \<Rightarrow> fs \<Rightarrow> string \<Rightarrow> os_error + path \<times> node" where
  "os_Open who fs p = os_Stat who fs p"

text \<open>\<open>os.OpenFile\<close> with \<open>O_CREATE|O_WRONLY|O_TRUNC|O_NOFOLLOW\<close>: the handle is the real path of the file.\<close>

definition os_Create :: "Ident \<Rightarrow> mode \<Rightarrow> string \<Rightarrow> fs \<Rightarrow> os_error + path \<times> fs" where
  "os_Create who perm p fs = bindR (entry who fs (parts p)) (\<lambda>e. case peek fs e of
     None \<Rightarrow> if \<not> i_change who fs e then Inl EACCES else Inr (e, put e (new_node who (Reg []) perm) fs)
   | Some nd \<Rightarrow> (case n_kind nd of Dir \<Rightarrow> Inl EISDIR | Sym _ \<Rightarrow> Inl ELOOP
       | Reg _ \<Rightarrow> if \<not> i_change who fs e then Inl EACCES
           else Inr (e, put e (nd\<lparr>n_kind := Reg [], n_mtime := i_now who\<rparr>) fs)))"

text \<open>Writing to an open file appends at its end (the handles here are written from the start, once).\<close>

definition os_Write :: "path \<Rightarrow> string \<Rightarrow> fs \<Rightarrow> fs" where
  "os_Write h data fs = (case peek fs h of None \<Rightarrow> fs
     | Some nd \<Rightarrow> (case n_kind nd of Reg old \<Rightarrow> put h (nd\<lparr>n_kind := Reg (old @ data)\<rparr>) fs | _ \<Rightarrow> fs))"

definition below :: "path \<Rightarrow> fs \<Rightarrow> path list" where
  "below e fs = filter (\<lambda>q. strict_prefix e q) (map fst fs)"

definition os_Remove :: "Ident \<Rightarrow> string \<Rightarrow> fs \<Rightarrow> os_error + fs" where
  "os_Remove who p fs = bindR (entry who fs (parts p)) (\<lambda>e.
     if peek fs e = None then Inl ENOENT
     else if \<not> i_change who fs e then Inl EACCES
     else if below e fs \<noteq> [] then Inl ENOTEMPTY
     else Inr (AList.delete e fs))"

text \<open>\<open>os.RemoveAll\<close> removes what it may and reports an error when something stays. A missing entry is no error.\<close>

definition os_RemoveAll :: "Ident \<Rightarrow> string \<Rightarrow> fs \<Rightarrow> os_error option \<times> fs" where
  "os_RemoveAll who p fs = (case entry who fs (parts p) of
     Inl ENOENT \<Rightarrow> (None, fs) | Inl e \<Rightarrow> (Some e, fs)
   | Inr e \<Rightarrow>
      let gone = (\<lambda>q. prefix e q \<and> list_all (\<lambda>q'. prefix q q' \<longrightarrow> i_change who fs q') (map fst fs));
          fs' = filter (\<lambda>(q, _). \<not> gone q) fs
      in (if peek fs' e = None then None else Some EACCES, fs'))"

definition move :: "path \<Rightarrow> path \<Rightarrow> fs \<Rightarrow> fs" where
  "move old new fs = map (\<lambda>(q, nd). if prefix old q then (new @ drop (length old) q, nd) else (q, nd))
     (filter (\<lambda>(q, _). \<not> prefix new q \<or> prefix old q) fs)"

text \<open>\<open>os.Rename\<close>: Go refuses a directory as the new name; the kernel refuses moving a directory over a file or into itself.\<close>

definition os_Rename :: "Ident \<Rightarrow> string \<Rightarrow> string \<Rightarrow> fs \<Rightarrow> os_error + fs" where
  "os_Rename who old new fs =
    bindR (lstat_parts who fs (parts old)) (\<lambda>(eo, nd).
    bindR (entry who fs (parts new)) (\<lambda>en.
      if (case peek fs en of Some nd' \<Rightarrow> n_kind nd' = Dir | None \<Rightarrow> False) then Inl EEXIST
      else if eo = en then Inr fs
      else if n_kind nd = Dir \<and> prefix eo en then Inl EINVAL
      else if n_kind nd = Dir \<and> peek fs en \<noteq> None then Inl ENOTDIR
      else if \<not> i_change who fs eo \<or> \<not> i_change who fs en then Inl EACCES
      else Inr (move eo en fs)))"

definition os_Chmod :: "Ident \<Rightarrow> mode \<Rightarrow> string \<Rightarrow> fs \<Rightarrow> os_error + fs" where
  "os_Chmod who perm p fs = bindR (stat_parts who fs (parts p)) (\<lambda>(e, nd).
     if \<not> i_change who fs e then Inl EPERM else Inr (put e (nd\<lparr>n_perm := perm\<rparr>) fs))"

text \<open>\<open>os.Chown\<close> (links followed) and \<open>os.Lchown\<close>; \<open>-1\<close> keeps an id.\<close>

definition set_owner :: "int \<Rightarrow> int \<Rightarrow> node \<Rightarrow> node" where
  "set_owner uid gid nd = nd\<lparr>n_uid := (if uid = -1 then n_uid nd else uid), n_gid := (if gid = -1 then n_gid nd else gid)\<rparr>"

definition os_Chown :: "Ident \<Rightarrow> int \<Rightarrow> int \<Rightarrow> string \<Rightarrow> fs \<Rightarrow> os_error + fs" where
  "os_Chown who uid gid p fs = bindR (stat_parts who fs (parts p)) (\<lambda>(e, nd).
     if \<not> i_change who fs e then Inl EPERM else Inr (put e (set_owner uid gid nd) fs))"

definition os_Lchown :: "Ident \<Rightarrow> int \<Rightarrow> int \<Rightarrow> string \<Rightarrow> fs \<Rightarrow> os_error + fs" where
  "os_Lchown who uid gid p fs = bindR (lstat_parts who fs (parts p)) (\<lambda>(e, nd).
     if \<not> i_change who fs e then Inl EPERM else Inr (put e (set_owner uid gid nd) fs))"

text \<open>\<open>os.ReadDir\<close>: the names in a directory, sorted.\<close>

definition children :: "path \<Rightarrow> fs \<Rightarrow> string list" where
  "children d fs = sort (remdups (map last (filter (\<lambda>q. q \<noteq> [] \<and> butlast q = d) (map fst fs))))"

text \<open>The names \<open>filepath.Walk\<close> visits below a directory, in its order: each directory before its contents, names sorted.\<close>

definition tree_paths :: "path \<Rightarrow> fs \<Rightarrow> path list" where
  "tree_paths e fs = sort (remdups (filter (prefix e) (map fst fs)))"

section \<open>Lexical paths\<close>

fun drop_common :: "string list \<Rightarrow> string list \<Rightarrow> string list \<times> string list" where
  "drop_common (a # as) (b # bs) = (if a = b then drop_common as bs else (a # as, b # bs))"
| "drop_common as bs = (as, bs)"

text \<open>\<open>filepath.Rel\<close>\<close>

definition Rel :: "string \<Rightarrow> string \<Rightarrow> string option" where
  "Rel base targ =
    (if Clean base = Clean targ then Some ''.''
     else if is_rooted base \<noteq> is_rooted targ then None
     else case drop_common (components base) (components targ) of
         ([], ts) \<Rightarrow> Some (Join ''/'' ts)
       | (b # bs, ts) \<Rightarrow> if b = ''..'' then None else Some (Join ''/'' (map (\<lambda>_. ''..'') (b # bs) @ ts)))"

text \<open>\<open>filepath.Dir\<close> and \<open>filepath.Base\<close> of a cleaned absolute path.\<close>

definition path_Dir :: "string \<Rightarrow> string" where
  "path_Dir p = Clean (rev (dropWhile (\<lambda>c. c \<noteq> CHR ''/'') (rev p)))"

definition path_Base :: "string \<Rightarrow> string" where
  "path_Base p = (if p = [] then ''.'' else
     let q = rev (dropWhile (\<lambda>c. c = CHR ''/'') (rev p)) in
     if q = [] then ''/'' else rev (takeWhile (\<lambda>c. c \<noteq> CHR ''/'') (rev q)))"

definition escapes :: "string \<Rightarrow> string \<Rightarrow> bool" where
  "escapes root p = (case Rel root p of None \<Rightarrow> True | Some rel \<Rightarrow> rel = ''..'' \<or> HasPrefix rel ''../'')"

end
