(* ===== verification/Files.thy ===== *)
theory Files
  imports Os Store_Model
begin

text \<open>
  The file manager, \<^verbatim>\<open>svc/files.go\<close>: every operation resolves a panel path inside the home of the account (\<open>Resolve\<close>,
  \<open>guardSymlinks\<close>) and then works under the identity of that account.

  An operation takes the file system and returns its result with the new file system. What the code calls and the
  repository does not hold are fields of \<open>FilesEnv\<close>: the identity switch (\<open>runAs\<close>, \<open>None\<close> when there is no such account or
  the switch is refused), the identity of the panel itself, the account files, and the archive libraries.
\<close>

datatype file_error = ErrForbidden | FileText string | FileOS os_error | NoAccount | TooLarge nat | BadArchive

text \<open>What goes into an archive, and what comes out: a zip entry declares its size; its data arrives in pieces, possibly followed
  by an error of the decoder.\<close>

record aentry =
  a_name :: string
  a_isdir :: bool
  a_perm :: mode
  a_data :: string

record zentry =
  z_name :: string
  z_isdir :: bool
  z_islink :: bool
  z_perm :: mode
  z_size :: "64 word"
  z_opens :: bool
  z_chunks :: "string list"
  z_err :: bool

datatype tar_type = TypeDir | TypeReg | TypeOther

record tentry =
  t_name :: string
  t_type :: tar_type
  t_mode :: "64 word"
  t_chunks :: "string list"
  t_err :: bool

record Codec =
  c_zip :: "aentry list \<Rightarrow> string"
  c_tar :: "string \<Rightarrow> aentry list \<Rightarrow> string"
  c_unzip :: "string \<Rightarrow> zentry list option"
  c_untar :: "string \<Rightarrow> string \<Rightarrow> (tentry list \<times> bool) option"
  c_unpack :: "string \<Rightarrow> string \<Rightarrow> (string list \<times> bool) option"

record FilesEnv =
  f_HomeRoot :: string
  f_runAs :: "string \<Rightarrow> Ident option"
  f_panel :: Ident
  f_passwd :: "string list option"
  f_group :: "string list option"
  f_codec :: Codec

type_synonym 'a file_res = "(file_error + 'a) \<times> fs"

section \<open>Paths\<close>

definition homeRoot :: "FilesEnv \<Rightarrow> User \<Rightarrow> string" where
  "homeRoot env u = (if uHomeDir u \<noteq> [] then uHomeDir u else filepath_Join [f_HomeRoot env, uUsername u])"

text \<open>The loop of \<open>guardSymlinks\<close>, on the components in reverse: the nearest ancestor that can be resolved decides.\<close>

fun guard_up :: "Ident \<Rightarrow> fs \<Rightarrow> string \<Rightarrow> string list \<Rightarrow> bool" where
  "guard_up who fs root [] = (case EvalSymlinks who fs (path_text []) of Inr ev \<Rightarrow> \<not> escapes root ev | Inl _ \<Rightarrow> True)"
| "guard_up who fs root (c # rs) = (case EvalSymlinks who fs (path_text (rev (c # rs))) of
     Inr ev \<Rightarrow> \<not> escapes root ev | Inl _ \<Rightarrow> guard_up who fs root rs)"

definition guardSymlinks :: "Ident \<Rightarrow> fs \<Rightarrow> string \<Rightarrow> string \<Rightarrow> bool" where
  "guardSymlinks who fs root absp = guard_up who fs root (rev (components absp))"

definition Resolve :: "FilesEnv \<Rightarrow> fs \<Rightarrow> User \<Rightarrow> string \<Rightarrow> file_error + string" where
  "Resolve env fs u rel =
    (let root = homeRoot env u in
     if rel = [] \<or> rel = ''/'' then Inr root
     else let absp = filepath_Join [root, TrimPrefix (Clean (''/'' @ rel)) ''/''] in
       if escapes root absp then Inl ErrForbidden
       else if \<not> guardSymlinks (f_panel env) fs root absp then Inl ErrForbidden
       else Inr absp)"

definition as_account :: "FilesEnv \<Rightarrow> User \<Rightarrow> (Ident \<Rightarrow> fs \<Rightarrow> 'a file_res) \<Rightarrow> fs \<Rightarrow> 'a file_res" where
  "as_account env u fn fs = (case f_runAs env (uUsername u) of None \<Rightarrow> (Inl NoAccount, fs) | Some who \<Rightarrow> fn who fs)"

text \<open>Resolving first, then the work.\<close>

definition with_path :: "FilesEnv \<Rightarrow> User \<Rightarrow> string \<Rightarrow> (string \<Rightarrow> fs \<Rightarrow> 'a file_res) \<Rightarrow> fs \<Rightarrow> 'a file_res" where
  "with_path env u rel k fs = (case Resolve env fs u rel of Inl e \<Rightarrow> (Inl e, fs) | Inr absp \<Rightarrow> k absp fs)"

abbreviation lift_os :: "fs \<Rightarrow> os_error + fs \<Rightarrow> unit file_res" where
  "lift_os fs r \<equiv> (case r of Inl e \<Rightarrow> (Inl (FileOS e), fs) | Inr fs' \<Rightarrow> (Inr (), fs'))"

abbreviation lift_opt :: "os_error option \<times> fs \<Rightarrow> unit file_res" where
  "lift_opt r \<equiv> (case r of (Some e, fs') \<Rightarrow> (Inl (FileOS e), fs') | (None, fs') \<Rightarrow> (Inr (), fs'))"

abbreviation bindF :: "'a file_res \<Rightarrow> ('a \<Rightarrow> fs \<Rightarrow> 'b file_res) \<Rightarrow> 'b file_res" where
  "bindF r k \<equiv> (case r of (Inl e, fs') \<Rightarrow> (Inl e, fs') | (Inr x, fs') \<Rightarrow> k x fs')"

abbreviation permOf :: "mode \<Rightarrow> mode" where "permOf m \<equiv> m AND 0x1FF"

section \<open>Reading\<close>

definition OpenRead :: "FilesEnv \<Rightarrow> User \<Rightarrow> string \<Rightarrow> fs \<Rightarrow> (path \<times> node) file_res" where
  "OpenRead env u rel = with_path env u rel (\<lambda>absp. as_account env u (\<lambda>who fs.
     (case os_Open who fs absp of Inl e \<Rightarrow> Inl (FileOS e) | Inr h \<Rightarrow> Inr h, fs)))"

definition node_data :: "node \<Rightarrow> string" where
  "node_data nd = (case n_kind nd of Reg d \<Rightarrow> d | _ \<Rightarrow> [])"

abbreviation maxReadSize :: nat where "maxReadSize \<equiv> 2 * 2 ^ 20"

definition Read :: "FilesEnv \<Rightarrow> User \<Rightarrow> string \<Rightarrow> fs \<Rightarrow> string file_res" where
  "Read env u rel fs = bindF (OpenRead env u rel fs) (\<lambda>(h, nd) fs'.
     (if n_kind nd = Dir then Inl (FileText ''is a directory'')
      else if length (node_data nd) > maxReadSize then Inl (TooLarge (length (node_data nd)))
      else Inr (take (maxReadSize + 1) (node_data nd)), fs'))"

record Entry =
  e_Name :: string
  e_Path :: string
  e_Type :: string
  e_Size :: nat
  e_Mode :: string
  e_ModTime :: gotime
  e_Owner :: string
  e_Group :: string

fun octal_digits :: "nat \<Rightarrow> string" where
  "octal_digits n = (if n < 8 then [digit n] else octal_digits (n div 8) @ [digit (n mod 8)])"

declare octal_digits.simps [simp del]

text \<open>\<open>parsePasswd\<close> and \<open>parseGroup\<close>: the third field of a line is the id, the first the name; later lines win.\<close>

definition parseIDs :: "string list option \<Rightarrow> (int \<times> string) list" where
  "parseIDs ls = (case ls of None \<Rightarrow> [] | Some ls \<Rightarrow> foldl (\<lambda>out l. let fields = Split (CHR '':'') l in
     if length fields < 3 then out
     else case ParseInt (fields ! 2) of None \<Rightarrow> out | Some i \<Rightarrow> AList.update i (fields ! 0) out) [] ls)"

definition lookupName :: "string list option \<Rightarrow> int \<Rightarrow> string" where
  "lookupName ls i = (case map_of (parseIDs ls) i of None \<Rightarrow> decimal_int i | Some n \<Rightarrow> n)"

definition lookupID :: "string list option \<Rightarrow> string \<Rightarrow> int option" where
  "lookupID ls name = (if name = [] then Some (-1) else map_option fst (find (\<lambda>(_, n). n = name) (parseIDs ls)))"

definition mk_entry :: "FilesEnv \<Rightarrow> string \<Rightarrow> string \<Rightarrow> string \<Rightarrow> node \<Rightarrow> Entry" where
  "mk_entry env name path ty nd = \<lparr>e_Name = name, e_Path = path, e_Type = ty, e_Size = length (node_data nd),
     e_Mode = octal_digits (unat (permOf (n_perm nd))), e_ModTime = n_mtime nd, e_Owner = lookupName (f_passwd env) (n_uid nd),
     e_Group = lookupName (f_group env) (n_gid nd)\<rparr>"

definition entry_type :: "node \<Rightarrow> string" where
  "entry_type nd = (case n_kind nd of Dir \<Rightarrow> ''dir'' | Sym _ \<Rightarrow> ''symlink'' | Reg _ \<Rightarrow> ''file'')"

definition list_dir :: "FilesEnv \<Rightarrow> User \<Rightarrow> string \<Rightarrow> Ident \<Rightarrow> fs \<Rightarrow> Entry list file_res" where
  "list_dir env u dir who fs = (case os_Stat who fs dir of Inl e \<Rightarrow> (Inl (FileOS e), fs)
   | Inr (d, nd) \<Rightarrow> if n_kind nd \<noteq> Dir then (Inl (FileText ''not a directory''), fs)
       else let row = (\<lambda>name. case os_Lstat who fs (filepath_Join [dir, name]) of Inl _ \<Rightarrow> None
              | Inr (_, c) \<Rightarrow> Some (mk_entry env name (filepath_Join [TrimPrefix dir (uHomeDir u), name]) (entry_type c) c));
              rows = List.map_filter row (children d fs)
         in (Inr (sort_key (\<lambda>e. (e_Type e \<noteq> ''dir'', e_Name e)) rows), fs))"

text \<open>A missing home is created (488 is \<open>0750\<close>) and handed to the account, both as the panel.\<close>

definition lazy_home :: "FilesEnv \<Rightarrow> User \<Rightarrow> string \<Rightarrow> fs \<Rightarrow> unit file_res" where
  "lazy_home env u dir fs =
    (if (case os_Stat (f_panel env) fs dir of Inl ENOENT \<Rightarrow> True | _ \<Rightarrow> False) \<and> dir = homeRoot env u
     then (case os_MkdirAll (f_panel env) 488 dir fs of
         (Some e, fs1) \<Rightarrow> (Inl (FileOS ENOENT), fs1)
       | (None, fs1) \<Rightarrow> (Inr (), case f_runAs env (uUsername u) of None \<Rightarrow> fs1
            | Some who \<Rightarrow> ignore_err fs1 (os_Chown (f_panel env) (i_uid who) (i_gid who) dir fs1)))
     else (Inr (), fs))"

definition files_List :: "FilesEnv \<Rightarrow> User \<Rightarrow> string \<Rightarrow> fs \<Rightarrow> Entry list file_res" where
  "files_List env u rel = with_path env u rel (\<lambda>dir fs.
     bindF (lazy_home env u dir fs) (\<lambda>_. as_account env u (list_dir env u dir)))"

definition files_Stat :: "FilesEnv \<Rightarrow> User \<Rightarrow> string \<Rightarrow> fs \<Rightarrow> Entry file_res" where
  "files_Stat env u rel = with_path env u rel (\<lambda>absp. as_account env u (\<lambda>who fs.
     (case os_Lstat who fs absp of Inl e \<Rightarrow> Inl (FileOS e)
      | Inr (_, nd) \<Rightarrow> Inr (mk_entry env (path_Base absp) rel (if n_kind nd = Dir then ''dir'' else ''file'') nd), fs)))"

definition Contains :: "string \<Rightarrow> string \<Rightarrow> bool" where
  "Contains s sub \<longleftrightarrow> list_ex (\<lambda>t. HasPrefix t sub) (suffixes s)"

text \<open>The name of a node found below \<open>absp\<close>, whose real path is \<open>e\<close>.\<close>

definition walk_name :: "string \<Rightarrow> path \<Rightarrow> path \<Rightarrow> string" where
  "walk_name absp e q = path_text (components absp @ drop (length e) q)"

definition search_hits :: "User \<Rightarrow> string \<Rightarrow> string \<Rightarrow> Ident \<Rightarrow> fs \<Rightarrow> path \<Rightarrow> string list" where
  "search_hits u absp needle who fs e =
    take 200 (List.map_filter (\<lambda>q. let name = walk_name absp e q in
        case os_Lstat who fs name of Inl _ \<Rightarrow> None
        | Inr _ \<Rightarrow> if Contains (ToLower (path_Base name)) needle then Rel (uHomeDir u) name else None) (tree_paths e fs))"

definition Search :: "FilesEnv \<Rightarrow> User \<Rightarrow> string \<Rightarrow> string \<Rightarrow> fs \<Rightarrow> string list file_res" where
  "Search env u rel needle = with_path env u rel (\<lambda>absp fs.
     if ToLower needle = [] then (Inl (FileText ''empty search term''), fs)
     else as_account env u (\<lambda>who fs. (Inr (case os_Lstat who fs absp of Inl _ \<Rightarrow> []
         | Inr (e, _) \<Rightarrow> search_hits u absp (ToLower needle) who fs e), fs)) fs)"

section \<open>Changing\<close>

definition OpenWrite :: "FilesEnv \<Rightarrow> User \<Rightarrow> string \<Rightarrow> mode \<Rightarrow> fs \<Rightarrow> path file_res" where
  "OpenWrite env u rel mode = with_path env u rel (\<lambda>absp. as_account env u (\<lambda>who fs.
     case os_Create who (permOf mode) absp fs of Inl e \<Rightarrow> (Inl (FileOS e), fs) | Inr (h, fs') \<Rightarrow> (Inr h, fs')))"

text \<open>The directory, then the file, then its contents; 493 is \<open>0755\<close>.\<close>

definition write_at :: "string \<Rightarrow> mode \<Rightarrow> string \<Rightarrow> Ident \<Rightarrow> fs \<Rightarrow> unit file_res" where
  "write_at absp mode data who fs = bindF (lift_opt (os_MkdirAll who 493 (path_Dir absp) fs)) (\<lambda>_ fs1.
     case os_Create who mode absp fs1 of Inl e \<Rightarrow> (Inl (FileOS e), fs1) | Inr (h, fs2) \<Rightarrow> (Inr (), os_Write h data fs2))"

definition Write :: "FilesEnv \<Rightarrow> User \<Rightarrow> string \<Rightarrow> string \<Rightarrow> mode \<Rightarrow> fs \<Rightarrow> unit file_res" where
  "Write env u rel data mode = with_path env u rel (\<lambda>absp.
     as_account env u (write_at absp (permOf (if mode = 0 then 420 else mode)) data))"

definition Mkdir :: "FilesEnv \<Rightarrow> User \<Rightarrow> string \<Rightarrow> mode \<Rightarrow> fs \<Rightarrow> unit file_res" where
  "Mkdir env u rel mode = with_path env u rel (\<lambda>absp.
     as_account env u (\<lambda>who fs. lift_opt (os_MkdirAll who (permOf (if mode = 0 then 493 else mode)) absp fs)))"

definition Rename :: "FilesEnv \<Rightarrow> User \<Rightarrow> string \<Rightarrow> string \<Rightarrow> fs \<Rightarrow> unit file_res" where
  "Rename env u oldRel newRel = with_path env u oldRel (\<lambda>oldAbs. with_path env u newRel (\<lambda>newAbs.
     as_account env u (\<lambda>who fs. lift_os fs (os_Rename who oldAbs newAbs fs))))"

definition Delete :: "FilesEnv \<Rightarrow> User \<Rightarrow> string \<Rightarrow> fs \<Rightarrow> unit file_res" where
  "Delete env u rel = with_path env u rel (\<lambda>absp. as_account env u (\<lambda>who fs.
     case os_Lstat who fs absp of Inl e \<Rightarrow> (Inl (FileOS e), fs)
     | Inr (_, nd) \<Rightarrow> if n_kind nd = Dir then lift_opt (os_RemoveAll who absp fs) else lift_os fs (os_Remove who absp fs)))"

text \<open>\<open>strconv.ParseUint(s, 8, 32)\<close>\<close>

definition parse_octal :: "string \<Rightarrow> nat option" where
  "parse_octal s = (if s = [] \<or> \<not> list_all (\<lambda>c. is_dec c \<and> dec_value c < 8) s then None
     else let n = foldl (\<lambda>acc c. acc * 8 + dec_value c) 0 s in if n < 2 ^ 32 then Some n else None)"

text \<open>A walk over the tree below \<open>absp\<close> that stops at the first error; \<open>f\<close> acts on what is at each name.\<close>

fun walk_tree :: "(string \<Rightarrow> node \<Rightarrow> fs \<Rightarrow> os_error + fs) \<Rightarrow> Ident \<Rightarrow> string list \<Rightarrow> fs \<Rightarrow> unit file_res" where
  "walk_tree f who [] fs = (Inr (), fs)"
| "walk_tree f who (p # ps) fs = (case os_Lstat who fs p of Inl e \<Rightarrow> (Inl (FileOS e), fs)
     | Inr (_, nd) \<Rightarrow> (case f p nd fs of Inl e \<Rightarrow> (Inl (FileOS e), fs) | Inr fs' \<Rightarrow> walk_tree f who ps fs'))"

definition over_tree :: "(string \<Rightarrow> node \<Rightarrow> fs \<Rightarrow> os_error + fs) \<Rightarrow> Ident \<Rightarrow> string \<Rightarrow> fs \<Rightarrow> unit file_res" where
  "over_tree f who absp fs = (case os_Lstat who fs absp of Inl e \<Rightarrow> (Inl (FileOS e), fs)
     | Inr (e, _) \<Rightarrow> walk_tree f who (map (walk_name absp e) (tree_paths e fs)) fs)"

abbreviation is_link :: "node \<Rightarrow> bool" where "is_link nd \<equiv> (case n_kind nd of Sym _ \<Rightarrow> True | _ \<Rightarrow> False)"

definition Chmod :: "FilesEnv \<Rightarrow> User \<Rightarrow> string \<Rightarrow> string \<Rightarrow> bool \<Rightarrow> fs \<Rightarrow> unit file_res" where
  "Chmod env u rel modeStr recursive = with_path env u rel (\<lambda>absp fs. case parse_octal modeStr of
     None \<Rightarrow> (Inl (FileText ''invalid mode: use octal like 755''), fs)
   | Some m \<Rightarrow> if m > 0x1FF then (Inl (FileText ''invalid mode: setuid, setgid and sticky bits are not allowed''), fs)
       else as_account env u (\<lambda>who fs.
         if \<not> recursive then lift_os fs (os_Chmod who (of_nat m) absp fs)
         else over_tree (\<lambda>p nd fs. if is_link nd then Inr fs else os_Chmod who (of_nat m) p fs) who absp fs) fs)"

definition Chown :: "FilesEnv \<Rightarrow> User \<Rightarrow> string \<Rightarrow> string \<Rightarrow> string \<Rightarrow> bool \<Rightarrow> fs \<Rightarrow> unit file_res" where
  "Chown env u rel owner grp recursive = with_path env u rel (\<lambda>absp fs. case lookupID (f_passwd env) owner of
     None \<Rightarrow> (Inl (FileText ''unknown user''), fs)
   | Some uid \<Rightarrow> (case lookupID (f_group env) grp of None \<Rightarrow> (Inl (FileText ''unknown group''), fs)
   | Some gid \<Rightarrow> (case as_account env u (\<lambda>who fs.
         if \<not> recursive then lift_os fs (os_Chown who uid gid absp fs)
         else over_tree (\<lambda>p nd fs. if is_link nd then os_Lchown who uid gid p fs else os_Chown who uid gid p fs) who absp fs) fs of
       (Inl (FileOS EPERM), fs') \<Rightarrow> (Inl (FileText ''you can only assign files to your own account''), fs') | r \<Rightarrow> r)))"

section \<open>Zip archives\<close>

text \<open>The entries for what is below \<open>absp\<close>: names relative to \<open>base\<close>, without the archive itself, the base and links. The error, if
  any, comes with the entries before it.\<close>

fun tree_entries :: "(node \<Rightarrow> bool) \<Rightarrow> string \<Rightarrow> string \<Rightarrow> Ident \<Rightarrow> fs \<Rightarrow> string list \<Rightarrow> file_error option \<times> aentry list" where
  "tree_entries skip base dst who fs [] = (None, [])"
| "tree_entries skip base dst who fs (p # ps) =
    (case os_Lstat who fs p of Inl e \<Rightarrow> (Some (FileOS e), [])
     | Inr (_, nd) \<Rightarrow>
        if p = dst \<or> skip nd then tree_entries skip base dst who fs ps
        else case Rel base p of None \<Rightarrow> (Some (FileText ''Rel''), [])
          | Some rel \<Rightarrow> if rel = ''.'' then tree_entries skip base dst who fs ps
              else let isdir = (n_kind nd = Dir);
                       a = \<lparr>a_name = (if isdir then rel @ ''/'' else rel), a_isdir = isdir, a_perm = n_perm nd, a_data = node_data nd\<rparr>
                   in (case (if isdir then None else case os_Open who fs p of Inl e \<Rightarrow> Some e | Inr _ \<Rightarrow> None) of Some e \<Rightarrow> (Some (FileOS e), [])
                     | None \<Rightarrow> map_prod id ((#) a) (tree_entries skip base dst who fs ps)))"

definition zipTree :: "Codec \<Rightarrow> string \<Rightarrow> string \<Rightarrow> Ident \<Rightarrow> fs \<Rightarrow> unit file_res" where
  "zipTree codec src dst who fs = (case os_Create who 420 dst fs of Inl e \<Rightarrow> (Inl (FileOS e), fs)
   | Inr (h, fs1) \<Rightarrow> (case os_Lstat who fs1 src of Inl e \<Rightarrow> (Inl (FileOS e), os_Write h (c_zip codec []) fs1)
     | Inr (e, nd) \<Rightarrow>
        let base = (if n_kind nd = Dir then src else path_Dir src);
            (err, es) = tree_entries is_link base dst who fs1 (map (walk_name src e) (tree_paths e fs1));
            fs2 = os_Write h (c_zip codec es) fs1
        in (case err of None \<Rightarrow> (Inr (), fs2) | Some e \<Rightarrow> (Inl e, fs2))))"

definition Zip :: "FilesEnv \<Rightarrow> User \<Rightarrow> string \<Rightarrow> string \<Rightarrow> fs \<Rightarrow> unit file_res" where
  "Zip env u rel name = with_path env u rel (\<lambda>src.
     with_path env u (''/'' @ (if HasSuffix (ToLower name) ''.zip'' then name else name @ ''.zip'')) (\<lambda>dst.
       as_account env u (zipTree (f_codec env) src dst)))"

abbreviation maxUnzipBytes :: nat where "maxUnzipBytes \<equiv> 4 * 2 ^ 30"

text \<open>The declared sizes, added up in 64 bits.\<close>

fun sizes_ok :: "64 word \<Rightarrow> zentry list \<Rightarrow> bool" where
  "sizes_ok acc [] = True"
| "sizes_ok acc (z # zs) = (let acc' = acc + z_size z in
     if acc' > of_nat maxUnzipBytes then False else sizes_ok acc' zs)"

text \<open>Copying one entry: the zip reader fails once it has delivered more than the declared size, and at the end when it delivered
  less.\<close>

fun zip_copy :: "path \<Rightarrow> 64 word \<Rightarrow> nat \<Rightarrow> bool \<Rightarrow> string list \<Rightarrow> fs \<Rightarrow> bool \<times> fs" where
  "zip_copy h declared nread err [] fs = (\<not> err \<and> nread = unat declared, fs)"
| "zip_copy h declared nread err (c # cs) fs =
    (if nread + length c > unat declared then (False, fs)
     else zip_copy h declared (nread + length c) err cs (os_Write h c fs))"

definition safeTarget :: "Ident \<Rightarrow> fs \<Rightarrow> string \<Rightarrow> string \<Rightarrow> string \<Rightarrow> string option" where
  "safeTarget who fs root destAbs name = (let target = filepath_Join [destAbs, name] in
     if escapes destAbs target then None
     else if \<not> guardSymlinks who fs root target then None else Some target)"

definition unzip_entry :: "string \<Rightarrow> string \<Rightarrow> Ident \<Rightarrow> zentry \<Rightarrow> fs \<Rightarrow> unit file_res" where
  "unzip_entry root destAbs who z fs = (case safeTarget who fs root destAbs (z_name z) of
     None \<Rightarrow> (Inl (FileText ''zip contains unsafe paths''), fs)
   | Some target \<Rightarrow>
      if z_isdir z then lift_opt (os_MkdirAll who 493 target fs)
      else if z_islink z then (Inr (), fs)
      else bindF (lift_opt (os_MkdirAll who 493 (path_Dir target) fs)) (\<lambda>_ fs1.
        if \<not> z_opens z then (Inl BadArchive, fs1)
        else case os_Create who (permOf (z_perm z)) target fs1 of Inl e \<Rightarrow> (Inl (FileOS e), fs1)
          | Inr (h, fs2) \<Rightarrow> (case zip_copy h (z_size z) 0 (z_err z) (z_chunks z) fs2 of
               (ok, fs3) \<Rightarrow> (if ok then Inr () else Inl BadArchive, fs3))))"

fun each_entry :: "('e \<Rightarrow> fs \<Rightarrow> unit file_res) \<Rightarrow> 'e list \<Rightarrow> fs \<Rightarrow> unit file_res" where
  "each_entry f [] fs = (Inr (), fs)"
| "each_entry f (x # xs) fs = bindF (f x fs) (\<lambda>_. each_entry f xs)"

definition unzipInto :: "Codec \<Rightarrow> string \<Rightarrow> string \<Rightarrow> string \<Rightarrow> Ident \<Rightarrow> fs \<Rightarrow> unit file_res" where
  "unzipInto codec root zipAbs destAbs who fs = (case os_Open who fs zipAbs of Inl e \<Rightarrow> (Inl (FileOS e), fs)
   | Inr (_, nd) \<Rightarrow> (case c_unzip codec (node_data nd) of None \<Rightarrow> (Inl BadArchive, fs)
     | Some zs \<Rightarrow> if \<not> sizes_ok 0 zs then (Inl (FileText ''archive expands to more than 4 GiB''), fs)
         else each_entry (unzip_entry root destAbs who) zs fs))"

definition Unzip :: "FilesEnv \<Rightarrow> User \<Rightarrow> string \<Rightarrow> string \<Rightarrow> fs \<Rightarrow> unit file_res" where
  "Unzip env u zipRel destRel = with_path env u zipRel (\<lambda>zipAbs. with_path env u destRel (\<lambda>destAbs.
     as_account env u (unzipInto (f_codec env) (homeRoot env u) zipAbs destAbs)))"

end
