(* ===== verification/Ftp.thy ===== *)
theory Ftp
  imports Paths Auth Store_Services
begin

text \<open>
  System accounts and FTP logins: \<^verbatim>\<open>svc/accounts.go\<close> (the passwd and group files), \<^verbatim>\<open>svc/accounts_guard.go\<close> (which
  accounts the panel may touch), \<^verbatim>\<open>svc/tenant.go\<close> (creating an account) and \<^verbatim>\<open>svc/ftp.go\<close>.

  The host is a state of any type \<open>'h\<close>; the record \<open>Host\<close> holds what the code does to it: system commands (their output,
  \<open>None\<close> for a failure), \<open>chpasswd\<close> with its standard input, the account database and files. \<open>EnsureVsftpd\<close>, which writes the
  FTP server's own configuration and restarts it, is one of these actions; its error is dropped at its only call here.
\<close>

record 'h Host =
  h_run :: "string list \<Rightarrow> 'h \<Rightarrow> string option \<times> 'h"
  h_chpasswd :: "string \<Rightarrow> 'h \<Rightarrow> string option \<times> 'h"           \<comment> \<open>standard input; an error message or none\<close>
  h_UIDFor :: "string \<Rightarrow> 'h \<Rightarrow> int option"                      \<comment> \<open>\<open>id -u\<close>\<close>
  h_Lookup :: "string \<Rightarrow> 'h \<Rightarrow> (string \<times> string) option"         \<comment> \<open>\<open>user.Lookup\<close>: uid text and home\<close>
  h_passwd :: "'h \<Rightarrow> string list option"                       \<comment> \<open>the lines of \<open>/etc/passwd\<close>\<close>
  h_group :: "'h \<Rightarrow> string list option"                        \<comment> \<open>the lines of \<open>/etc/group\<close>\<close>
  h_MkdirAll :: "string \<Rightarrow> 'h \<Rightarrow> bool \<times> 'h"
  h_WriteFile :: "string \<Rightarrow> string \<Rightarrow> 'h \<Rightarrow> bool \<times> 'h"
  h_Remove :: "string \<Rightarrow> 'h \<Rightarrow> 'h"
  h_Chmod :: "string \<Rightarrow> nat \<Rightarrow> 'h \<Rightarrow> 'h"
  h_EnsureVsftpd :: "'h \<Rightarrow> 'h"

section \<open>Names\<close>

definition is_lower :: "char \<Rightarrow> bool" where
  "is_lower c \<longleftrightarrow> 97 \<le> (of_char c :: nat) \<and> (of_char c :: nat) \<le> 122"

text \<open>The regular expression \<open>^[a-z][a-z0-9_]{2,29}$\<close>.\<close>

definition ValidUsername :: "string \<Rightarrow> bool" where
  "ValidUsername u \<longleftrightarrow> (case u of [] \<Rightarrow> False
     | c # cs \<Rightarrow> is_lower c \<and> 2 \<le> length cs \<and> length cs \<le> 29 \<and> list_all (\<lambda>x. is_lower x \<or> is_dec x \<or> x = CHR ''_'') cs)"

definition reservedAccountNames :: "string list" where
  "reservedAccountNames = [''root'', ''daemon'', ''bin'', ''sys'', ''sync'', ''games'', ''man'', ''lp'', ''mail'', ''news'', ''uucp'',
     ''proxy'', ''backup'', ''list'', ''irc'', ''gnats'', ''nobody'', ''mysql'', ''mariadb'', ''postgres'', ''postgresql'', ''www'',
     ''wwwrun'', ''ftp'', ''ssh'', ''sshd'', ''vsftpd'', ''dovecot'', ''dovenull'', ''postfix'', ''vmail'', ''opendkim'', ''opendmarc'',
     ''spamd'', ''clamav'', ''fail2ban'', ''chrony'', ''ntp'', ''messagebus'', ''syslog'', ''tss'', ''uuidd'', ''tcpdump'', ''polkitd'',
     ''landscape'', ''ubuntu'', ''debian'', ''caddy'', ''nginx'', ''apache'', ''httpd'', ''redis'', ''memcache'', ''git'', ''docker'',
     ''containerd'', ''aegis'', ''tmp'']"

definition ReservedAccountName :: "string \<Rightarrow> bool" where
  "ReservedAccountName name \<longleftrightarrow> ToLower (TrimSpace name) \<in> set reservedAccountNames"

section \<open>The account files\<close>

text \<open>\<open>parseGroup\<close>: gid to name, later lines win.\<close>

definition parseGroup :: "'h Host \<Rightarrow> 'h \<Rightarrow> (int \<times> string) list" where
  "parseGroup H h = (case h_group H h of None \<Rightarrow> []
     | Some ls \<Rightarrow> foldl (\<lambda>out l. let fields = Split (CHR '':'') l in
         if length fields < 3 then out
         else case ParseInt (fields ! 2) of None \<Rightarrow> out | Some gid \<Rightarrow> (gid, fields ! 0) # filter (\<lambda>(g, _). g \<noteq> gid) out) [] ls)"

definition primaryGroup :: "'h Host \<Rightarrow> 'h \<Rightarrow> string \<Rightarrow> string" where
  "primaryGroup H h username = (case h_passwd H h of None \<Rightarrow> username
     | Some ls \<Rightarrow> (case find (\<lambda>l. let fields = Split (CHR '':'') l in length fields \<ge> 4 \<and> fields ! 0 = username) ls of
          None \<Rightarrow> username
        | Some l \<Rightarrow> (case ParseInt (Split (CHR '':'') l ! 3) of None \<Rightarrow> username
            | Some gid \<Rightarrow> (case map_of (parseGroup H h) gid of None \<Rightarrow> username | Some name \<Rightarrow> name))))"

definition groupExists :: "'h Host \<Rightarrow> 'h \<Rightarrow> string \<Rightarrow> bool" where
  "groupExists H h name \<longleftrightarrow> name = [] \<or> name \<in> snd ` set (parseGroup H h)"

definition OwnerSpec :: "'h Host \<Rightarrow> 'h \<Rightarrow> string \<Rightarrow> string" where
  "OwnerSpec H h username = username @ '':'' @ primaryGroup H h username"

section \<open>Creating and guarding accounts\<close>

datatype ftp_error = FtpText string | FtpHost string | FtpInUse | FtpRefused | FtpHash | FtpStore store_error

text \<open>488 is the mode \<open>0750\<close>.\<close>

definition ProvisionAccountIn :: "'h Host \<Rightarrow> string \<Rightarrow> string \<Rightarrow> string \<Rightarrow> string \<Rightarrow> 'h \<Rightarrow> bool \<times> 'h" where
  "ProvisionAccountIn H username home shell grp h =
    (let args = [''-m'', ''-d'', home, ''-s'', shell] @
           (if grp \<noteq> [] then [''-g'', grp] else if groupExists H h username then [''-g'', username] else [''-U'']) @ [username] in
     case h_run H (''useradd'' # args) h of
       (None, h1) \<Rightarrow> (False, h1) | (Some _, h1) \<Rightarrow> (True, h_Chmod H home 488 h1))"

definition ProvisionAccount :: "'h Host \<Rightarrow> string \<Rightarrow> string \<Rightarrow> string \<Rightarrow> 'h \<Rightarrow> bool \<times> 'h" where
  "ProvisionAccount H username home shell h = ProvisionAccountIn H username home shell [] h"

abbreviation minPanelUID :: int where "minPanelUID \<equiv> 1000"

definition loginHome :: "'h Host \<Rightarrow> string \<Rightarrow> 'h \<Rightarrow> string" where
  "loginHome H username h = (case h_Lookup H username h of None \<Rightarrow> [] | Some (_, home) \<Rightarrow> home)"

text \<open>Whether an existing account may be reused for this login.\<close>

definition checkLoginReuse :: "int \<Rightarrow> string \<Rightarrow> string \<Rightarrow> bool" where
  "checkLoginReuse uid existingHome wantHome =
    (if uid < minPanelUID then False
     else if existingHome = [] \<or> Clean existingHome \<noteq> Clean wantHome then False else True)"

text \<open>Whether the panel may modify the account (\<open>nil\<close> of \<open>managedLoginError\<close>).\<close>

definition managedLogin :: "'h Host \<Rightarrow> string \<Rightarrow> string \<Rightarrow> 'h \<Rightarrow> bool" where
  "managedLogin H username homeRoot h =
    (if ReservedAccountName username then False
     else case h_Lookup H username h of None \<Rightarrow> True
       | Some (uidText, home) \<Rightarrow> (case ParseInt uidText of None \<Rightarrow> False
          | Some uid \<Rightarrow> if uid < minPanelUID then False
              else HasPrefix (Clean home @ ''/'') (Clean homeRoot @ ''/'')))"

section \<open>FTP\<close>

text \<open>The standard input \<open>SetSystemPassword\<close> gives to \<open>chpasswd\<close>.\<close>

definition chpasswd_input :: "string \<Rightarrow> string \<Rightarrow> string" where
  "chpasswd_input username password = username @ '':'' @ password @ [CHR 0x0A]"

definition SetSystemPassword :: "'h Host \<Rightarrow> string \<Rightarrow> string \<Rightarrow> 'h \<Rightarrow> string option \<times> 'h" where
  "SetSystemPassword H username password h = h_chpasswd H (chpasswd_input username password) h"

definition userConf :: "string \<Rightarrow> string \<Rightarrow> string" where
  "userConf ownerUsername home = ''# managed by Aegis - do not edit'' @ [CHR 0x0A] @
     ''guest_enable=YES'' @ [CHR 0x0A] @ ''guest_username='' @ ownerUsername @ [CHR 0x0A] @
     ''virtual_use_local_privs=YES'' @ [CHR 0x0A] @ ''local_root='' @ home @ [CHR 0x0A] @ ''local_umask=022'' @ [CHR 0x0A]"

abbreviation vsftpdUserConfDir :: string where "vsftpdUserConfDir \<equiv> ''/etc/vsftpd_user_conf''"

definition WriteUserConf :: "'h Host \<Rightarrow> string \<Rightarrow> string \<Rightarrow> string \<Rightarrow> 'h \<Rightarrow> bool \<times> 'h" where
  "WriteUserConf H loginName ownerUsername home h =
    (if \<not> ValidUsername loginName then (False, h)
     else if list_ex (\<lambda>v. v = [] \<or> CHR 0x0D \<in> set v \<or> CHR 0x0A \<in> set v) [ownerUsername, home] then (False, h)
     else case h_MkdirAll H vsftpdUserConfDir h of (False, h1) \<Rightarrow> (False, h1)
       | (True, h1) \<Rightarrow> h_WriteFile H (filepath_Join [vsftpdUserConfDir, loginName]) (userConf ownerUsername home) h1)"

definition removeUserConf :: "'h Host \<Rightarrow> string \<Rightarrow> 'h \<Rightarrow> 'h" where
  "removeUserConf H loginName h =
    (if \<not> ValidUsername loginName then h else h_Remove H (filepath_Join [vsftpdUserConfDir, loginName]) h)"

text \<open>The system account: an existing one must pass \<open>checkLoginReuse\<close>, a missing one is created in the owner's group.\<close>

definition ensure_account :: "'h Host \<Rightarrow> User \<Rightarrow> string \<Rightarrow> string \<Rightarrow> 'h \<Rightarrow> (ftp_error + unit) \<times> 'h" where
  "ensure_account H owner username home h = (case h_UIDFor H username h of
     Some uid \<Rightarrow> (if checkLoginReuse uid (loginHome H username h) home then Inr () else Inl FtpInUse, h)
   | None \<Rightarrow> (case ProvisionAccountIn H username home ''/sbin/nologin'' (primaryGroup H h (uUsername owner)) h of
        (True, h1) \<Rightarrow> (Inr (), h1) | (False, h1) \<Rightarrow> (Inl (FtpHost ''create system user''), h1)))"

text \<open>From the password on: chpasswd, the directory, the per-user configuration, the row.\<close>

definition finish_account :: "'h Host \<Rightarrow> Lib \<Rightarrow> string \<Rightarrow> gotime \<Rightarrow> User \<Rightarrow> string \<Rightarrow> string \<Rightarrow> string \<Rightarrow> string \<Rightarrow> db \<Rightarrow> 'h
    \<Rightarrow> (ftp_error + FTPAccount) \<times> db \<times> 'h" where
  "finish_account H lib salt tm owner username password home dirMode s h =
    (case SetSystemPassword H username password h of (Some e, h1) \<Rightarrow> (Inl (FtpHost e), s, h1)
     | (None, h1) \<Rightarrow>
       let h2 = snd (h_MkdirAll H home h1);
           h3 = snd (h_run H [''chown'', ''-R'', OwnerSpec H h2 (uUsername owner), home] h2);
           h4 = snd (h_run H [''chmod'', dirMode, home] h3) in
       (case WriteUserConf H username (uUsername owner) home h4 of (False, h5) \<Rightarrow> (Inl (FtpHost ''ftp user config''), s, h5)
        | (True, h5) \<Rightarrow> (case bcryptGenerate lib salt password of None \<Rightarrow> (Inl FtpHash, s, h5)
            | Some hash \<Rightarrow> (case CreateFTPAccount s tm \<lparr>fID = 0, fUserID = uID owner, fUsername = username, fPasswordHash = hash,
                  fHomeDir = home, fEnabled = True, fCreatedAt = 0\<rparr> of
                Inl e \<Rightarrow> (Inl (FtpStore e), s, h5)
              | Inr (acct, s') \<Rightarrow> (Inr acct, s', h_EnsureVsftpd H h5)))))"

definition provision :: "'h Host \<Rightarrow> Lib \<Rightarrow> string \<Rightarrow> gotime \<Rightarrow> User \<Rightarrow> string \<Rightarrow> string \<Rightarrow> string \<Rightarrow> string \<Rightarrow> db \<Rightarrow> 'h
    \<Rightarrow> (ftp_error + FTPAccount) \<times> db \<times> 'h" where
  "provision H lib salt tm owner username password home dirMode s h =
    (if \<not> ValidUsername username then (Inl (FtpText ''invalid username''), s, h)
     else if length password < 8 then (Inl (FtpText ''password must be at least 8 characters''), s, h)
     else if \<not> isl (GetFTPAccountByUsername s username) then (Inl (FtpText ''ftp account already exists''), s, h)
     else if ReservedAccountName username \<and> username \<noteq> uUsername owner then (Inl (FtpText ''that name is reserved''), s, h)
     else case ensure_account H owner username home h of (Inl e, h1) \<Rightarrow> (Inl e, s, h1)
       | (Inr _, h1) \<Rightarrow> finish_account H lib salt tm owner username password home dirMode s h1)"

definition ftp_Create :: "'h Host \<Rightarrow> Lib \<Rightarrow> string \<Rightarrow> string \<Rightarrow> gotime \<Rightarrow> User \<Rightarrow> string \<Rightarrow> string \<Rightarrow> bool \<Rightarrow> db \<Rightarrow> 'h
    \<Rightarrow> (ftp_error + FTPAccount) \<times> db \<times> 'h" where
  "ftp_Create H lib homeRoot salt tm owner username password extra s h =
    (let home = filepath_Join [homeRoot, uUsername owner];
         home' = (if extra then filepath_Join [home, username] else home)
     in provision H lib salt tm owner username password home' ''750'' s h)"

definition ftp_CreateScoped :: "'h Host \<Rightarrow> Lib \<Rightarrow> string \<Rightarrow> gotime \<Rightarrow> User \<Rightarrow> string \<Rightarrow> string \<Rightarrow> string \<Rightarrow> db \<Rightarrow> 'h
    \<Rightarrow> (ftp_error + FTPAccount) \<times> db \<times> 'h" where
  "ftp_CreateScoped H lib salt tm owner username password home s h = provision H lib salt tm owner username password home ''770'' s h"

definition ftp_ResetPassword :: "'h Host \<Rightarrow> Lib \<Rightarrow> string \<Rightarrow> string \<Rightarrow> FTPAccount \<Rightarrow> string \<Rightarrow> db \<Rightarrow> 'h
    \<Rightarrow> (ftp_error + FTPAccount) \<times> db \<times> 'h" where
  "ftp_ResetPassword H lib homeRoot salt acct password s h =
    (if length password < 8 then (Inl (FtpText ''password must be at least 8 characters''), s, h)
     else if \<not> managedLogin H (fUsername acct) homeRoot h then (Inl FtpRefused, s, h)
     else case SetSystemPassword H (fUsername acct) password h of (Some e, h1) \<Rightarrow> (Inl (FtpHost e), s, h1)
       | (None, h1) \<Rightarrow> (case bcryptGenerate lib salt password of None \<Rightarrow> (Inl FtpHash, s, h1)
          | Some hash \<Rightarrow> let acct' = acct\<lparr>fPasswordHash := hash\<rparr> in (case UpdateFTPAccount s acct' of
              Inl e \<Rightarrow> (Inl (FtpStore e), s, h1) | Inr s' \<Rightarrow> (Inr acct', s', h1))))"

definition ftp_Delete :: "'h Host \<Rightarrow> string \<Rightarrow> FTPAccount \<Rightarrow> db \<Rightarrow> 'h \<Rightarrow> (ftp_error + unit) \<times> db \<times> 'h" where
  "ftp_Delete H homeRoot acct s h =
    (let isPanelUser = \<not> isl (GetUserByUsername s (fUsername acct));
         h1 = (if isPanelUser \<or> \<not> managedLogin H (fUsername acct) homeRoot h then h
               else snd (h_run H [''userdel'', fUsername acct] h));
         h2 = removeUserConf H (fUsername acct) h1
     in case DeleteFTPAccount s (fID acct) of Inl e \<Rightarrow> (Inl (FtpStore e), s, h2) | Inr s' \<Rightarrow> (Inr (), s', h2))"

definition ToggleEnabled :: "'h Host \<Rightarrow> string \<Rightarrow> FTPAccount \<Rightarrow> bool \<Rightarrow> db \<Rightarrow> 'h \<Rightarrow> (ftp_error + FTPAccount) \<times> db \<times> 'h" where
  "ToggleEnabled H homeRoot acct enabled s h =
    (if \<not> managedLogin H (fUsername acct) homeRoot h then (Inl FtpRefused, s, h)
     else let acct' = acct\<lparr>fEnabled := enabled\<rparr>;
            h1 = snd (h_run H [''usermod'', if enabled then ''-U'' else ''-L'', fUsername acct] h) in
       (case UpdateFTPAccount s acct' of Inl e \<Rightarrow> (Inl (FtpStore e), s, h1) | Inr s' \<Rightarrow> (Inr acct', s', h1)))"

end
