(* ===== verification/Cron.thy ===== *)
theory Cron
  imports Files Ftp Go_Text
begin

text \<open>
  Scheduled jobs, \<^verbatim>\<open>svc/cron.go\<close>. The panel keeps the jobs in the store and regenerates the whole crontab of the account from
  them. What it asks of the host is in the record \<open>CronHost\<close>: whether \<open>crontab\<close> is installed, whether a temporary file can be
  written, and installing its contents with \<open>crontab -u\<close>.
\<close>

record 'h CronHost =
  ch_host :: "'h Host"
  ch_LookPath :: "string \<Rightarrow> 'h \<Rightarrow> bool"
  ch_temp :: "'h \<Rightarrow> bool"
  ch_install :: "string \<Rightarrow> string \<Rightarrow> 'h \<Rightarrow> bool \<times> 'h"

datatype cron_error = CronText string | CronPath file_error | CronStore store_error | CronHostErr string

text \<open>The expression \<open>^[0-9*/,-]+$\<close>\<close>

definition cron_char :: "char \<Rightarrow> bool" where
  "cron_char c \<longleftrightarrow> is_dec c \<or> c \<in> set ''*/,-''"

definition ValidSchedule :: "string \<Rightarrow> bool" where
  "ValidSchedule s \<longleftrightarrow> (let fields = Fields s in length fields = 5 \<and> list_all (\<lambda>f. f \<noteq> [] \<and> list_all cron_char f) fields)"

definition cron_validate :: "FilesEnv \<Rightarrow> fs \<Rightarrow> User \<Rightarrow> string \<Rightarrow> string \<Rightarrow> cron_error + CronJob" where
  "cron_validate env fs u schedule0 command0 =
    (let schedule = TrimSpace schedule0; command = TrimSpace command0; home = homeRoot env u;
         job = (\<lambda>cmd. \<lparr>jID = 0, jUserID = 0, jSchedule = schedule, jCommand = cmd, jLogPath = filepath_Join [home, ''logs'', ''cron''],
           jEnabled = False, jCreatedAt = 0\<rparr>)
     in if \<not> ValidSchedule schedule then Inl (CronText ''invalid schedule'')
        else if command = [] then Inl (CronText ''command is required'')
        else case Fields command of [] \<Rightarrow> Inr (job command)
          | f # rest \<Rightarrow>
              if HasPrefix f ''/'' \<or> HasPrefix f ''./'' then
                (case Resolve env fs u (TrimPrefix f home) of Inl e \<Rightarrow> Inl (CronPath e)
                 | Inr resolved \<Rightarrow> Inr (job (Join '' '' (resolved # rest))))
              else Inr (job command))"

section \<open>The crontab\<close>

definition cron_header :: string where
  "cron_header = ''# Managed by Aegis. Do not edit by hand; changes are overwritten.'' @ [newline]"

definition cron_line :: "string \<Rightarrow> CronJob \<Rightarrow> string" where
  "cron_line logDir j = jSchedule j @ '' '' @ jCommand j @ '' >> '' @
     (if jLogPath j = [] then filepath_Join [logDir, ''cron''] else jLogPath j) @ '' 2>&1'' @ [newline]"

definition crontab_text :: "string \<Rightarrow> CronJob list \<Rightarrow> string" where
  "crontab_text logDir jobs = cron_header @ concat (map (cron_line logDir) (filter jEnabled jobs))"

definition log_dir :: "FilesEnv \<Rightarrow> User \<Rightarrow> string" where
  "log_dir env u = filepath_Join [homeRoot env u, ''logs'']"

definition writeCrontab :: "'h CronHost \<Rightarrow> FilesEnv \<Rightarrow> db \<Rightarrow> User \<Rightarrow> 'h \<Rightarrow> cron_error option \<times> 'h" where
  "writeCrontab C env s u h = (case ListCronJobs s (uID u) of Inl e \<Rightarrow> (Some (CronStore e), h)
   | Inr jobs \<Rightarrow>
      let logDir = log_dir env u;
          h1 = (case h_MkdirAll (ch_host C) logDir h of (True, h') \<Rightarrow>
                  snd (h_run (ch_host C) [''chown'', ''-R'', OwnerSpec (ch_host C) h' (uUsername u), logDir] h') | (False, h') \<Rightarrow> h')
      in if \<not> ch_LookPath C ''crontab'' h1 then (Some (CronText ''crontab is not installed''), h1)
         else if \<not> ch_temp C h1 then (Some (CronHostErr ''temporary file''), h1)
         else case ch_install C (uUsername u) (crontab_text logDir jobs) h1 of
             (True, h2) \<Rightarrow> (None, h2) | (False, h2) \<Rightarrow> (Some (CronHostErr ''install crontab''), h2))"

section \<open>Operations\<close>

definition cron_Create :: "'h CronHost \<Rightarrow> FilesEnv \<Rightarrow> gotime \<Rightarrow> fs \<Rightarrow> User \<Rightarrow> string \<Rightarrow> string \<Rightarrow> db \<Rightarrow> 'h
    \<Rightarrow> (cron_error + CronJob) \<times> db \<times> 'h" where
  "cron_Create C env tm fs u schedule command s h = (case cron_validate env fs u schedule command of Inl e \<Rightarrow> (Inl e, s, h)
   | Inr job \<Rightarrow> (case CreateCronJob s tm (job\<lparr>jUserID := uID u, jEnabled := True\<rparr>) of Inl e \<Rightarrow> (Inl (CronStore e), s, h)
   | Inr (job', s1) \<Rightarrow> (case writeCrontab C env s1 u h of (Some e, h1) \<Rightarrow> (Inl e, s1, h1) | (None, h1) \<Rightarrow> (Inr job', s1, h1))))"

definition store_then_write :: "'h CronHost \<Rightarrow> FilesEnv \<Rightarrow> User \<Rightarrow> CronJob \<Rightarrow> db res \<Rightarrow> db \<Rightarrow> 'h \<Rightarrow> (cron_error + CronJob) \<times> db \<times> 'h" where
  "store_then_write C env u job r s h = (case r of Inl e \<Rightarrow> (Inl (CronStore e), s, h)
   | Inr s1 \<Rightarrow> (case writeCrontab C env s1 u h of (Some e, h1) \<Rightarrow> (Inl e, s1, h1) | (None, h1) \<Rightarrow> (Inr job, s1, h1)))"

definition cron_Update :: "'h CronHost \<Rightarrow> FilesEnv \<Rightarrow> fs \<Rightarrow> User \<Rightarrow> CronJob \<Rightarrow> string \<Rightarrow> string \<Rightarrow> db \<Rightarrow> 'h
    \<Rightarrow> (cron_error + CronJob) \<times> db \<times> 'h" where
  "cron_Update C env fs u job schedule command s h = (case cron_validate env fs u schedule command of Inl e \<Rightarrow> (Inl e, s, h)
   | Inr upd \<Rightarrow>
      let job' = job\<lparr>jSchedule := jSchedule upd, jCommand := jCommand upd, jLogPath := jLogPath upd\<rparr>
      in store_then_write C env u job' (UpdateCronJob s job') s h)"

definition cron_Toggle :: "'h CronHost \<Rightarrow> FilesEnv \<Rightarrow> User \<Rightarrow> CronJob \<Rightarrow> bool \<Rightarrow> db \<Rightarrow> 'h \<Rightarrow> (cron_error + CronJob) \<times> db \<times> 'h" where
  "cron_Toggle C env u job enabled s h =
    (let job' = job\<lparr>jEnabled := enabled\<rparr> in store_then_write C env u job' (UpdateCronJob s job') s h)"

definition cron_Delete :: "'h CronHost \<Rightarrow> FilesEnv \<Rightarrow> User \<Rightarrow> CronJob \<Rightarrow> db \<Rightarrow> 'h \<Rightarrow> (cron_error + CronJob) \<times> db \<times> 'h" where
  "cron_Delete C env u job s h = store_then_write C env u job (DeleteCronJob s (jID job)) s h"

definition Pause :: "'h CronHost \<Rightarrow> User \<Rightarrow> 'h \<Rightarrow> 'h" where
  "Pause C u h = snd (h_run (ch_host C) [''crontab'', ''-r'', ''-u'', uUsername u] h)"

definition Resume :: "'h CronHost \<Rightarrow> FilesEnv \<Rightarrow> db \<Rightarrow> User \<Rightarrow> 'h \<Rightarrow> cron_error option \<times> 'h" where
  "Resume C env s u h = writeCrontab C env s u h"

section \<open>The log of a job\<close>

abbreviation maxLogLines :: nat where "maxLogLines \<equiv> 500"

record LogResult =
  lr_Log :: string
  lr_HasRun :: bool
  lr_UpdatedAt :: gotime

abbreviation no_log :: LogResult where "no_log \<equiv> \<lparr>lr_Log = [], lr_HasRun = False, lr_UpdatedAt = 0\<rparr>"

definition too_long :: "string \<Rightarrow> bool" where
  "too_long s \<longleftrightarrow> list_ex (\<lambda>l. length l \<ge> 2 ^ 20) (Split newline s)"

text \<open>The panel opens the file under its own identity.\<close>

definition TailLog :: "FilesEnv \<Rightarrow> fs \<Rightarrow> CronJob \<Rightarrow> file_error + LogResult" where
  "TailLog env fs job =
    (if jLogPath job = [] then Inr no_log
     else case os_Stat (f_panel env) fs (jLogPath job) of Inl ENOENT \<Rightarrow> Inr no_log | Inl e \<Rightarrow> Inl (FileOS e)
       | Inr (_, nd) \<Rightarrow>
          if n_kind nd = Dir then Inl (FileOS EISDIR)
          else if too_long (node_data nd) then Inl (FileText ''token too long'')
          else let ls = scan_lines (node_data nd)
            in Inr \<lparr>lr_Log = Join [newline] (drop (length ls - maxLogLines) ls), lr_HasRun = True, lr_UpdatedAt = n_mtime nd\<rparr>)"

end
