(* ===== verification/Archives.thy ===== *)
theory Archives
  imports Files
begin

text \<open>
  Archives of every format, \<^verbatim>\<open>svc/archive.go\<close>. The decoders are the functions of \<open>Codec\<close>: a tar archive (after
  decompression) is its entries and whether reading ends in an error, a single compressed file is its data in pieces.
\<close>

abbreviation fmtZip :: string where "fmtZip \<equiv> ''zip''"
abbreviation fmtTar :: string where "fmtTar \<equiv> ''tar''"
abbreviation fmtTarGz :: string where "fmtTarGz \<equiv> ''tar.gz''"
abbreviation fmtTarBz2 :: string where "fmtTarBz2 \<equiv> ''tar.bz2''"
abbreviation fmtTarZst :: string where "fmtTarZst \<equiv> ''tar.zst''"
abbreviation fmtGz :: string where "fmtGz \<equiv> ''gz''"
abbreviation fmtBz2 :: string where "fmtBz2 \<equiv> ''bz2''"
abbreviation fmtZst :: string where "fmtZst \<equiv> ''zst''"
abbreviation maxArchiveEntries :: nat where "maxArchiveEntries \<equiv> 500000"

definition archiveSuffixes :: "(string \<times> string) list" where
  "archiveSuffixes = [(''.tar.gz'', fmtTarGz), (''.tgz'', fmtTarGz), (''.tar.bz2'', fmtTarBz2), (''.tbz2'', fmtTarBz2),
     (''.tbz'', fmtTarBz2), (''.tar.zst'', fmtTarZst), (''.tzst'', fmtTarZst), (''.tar'', fmtTar), (''.zip'', fmtZip),
     (''.gz'', fmtGz), (''.bz2'', fmtBz2), (''.zst'', fmtZst)]"

definition archiveFormat :: "string \<Rightarrow> string" where
  "archiveFormat name = (case find (\<lambda>(s, _). HasSuffix (ToLower name) s) archiveSuffixes of None \<Rightarrow> [] | Some (_, f) \<Rightarrow> f)"

section \<open>Packing\<close>

text \<open>\<open>tarTree\<close>: the entries of a tar archive; the owner is left out of the headers.\<close>

definition tarTree :: "string \<Rightarrow> string \<Rightarrow> Ident \<Rightarrow> fs \<Rightarrow> file_error option \<times> aentry list" where
  "tarTree src skip who fs = (case os_Lstat who fs src of Inl e \<Rightarrow> (Some (FileOS e), [])
   | Inr (e, nd) \<Rightarrow> tree_entries is_link (if n_kind nd = Dir then src else path_Dir src) skip who fs
       (map (walk_name src e) (tree_paths e fs)))"

definition archiveTree :: "Codec \<Rightarrow> string \<Rightarrow> string \<Rightarrow> string \<Rightarrow> Ident \<Rightarrow> fs \<Rightarrow> unit file_res" where
  "archiveTree codec src dst format who fs =
    (if format = fmtZip then zipTree codec src dst who fs
     else case os_Create who 420 dst fs of Inl e \<Rightarrow> (Inl (FileOS e), fs)
       | Inr (h, fs1) \<Rightarrow> (case tarTree src dst who fs1 of (err, es) \<Rightarrow>
           let fs2 = os_Write h (c_tar codec format es) fs1
           in case err of None \<Rightarrow> (Inr (), fs2) | Some e \<Rightarrow> (Inl e, fs2)))"

text \<open>A failed archive is removed again.\<close>

definition Archive :: "FilesEnv \<Rightarrow> User \<Rightarrow> string \<Rightarrow> string \<Rightarrow> fs \<Rightarrow> unit file_res" where
  "Archive env u rel name fs =
    (let format = archiveFormat name in
     if format \<notin> {[], fmtZip, fmtTar, fmtTarGz, fmtTarZst} then (Inl (FileText ''cannot create such archives''), fs)
     else let name' = (if format = [] then name @ ''.zip'' else name); format' = (if format = [] then fmtZip else format) in
       with_path env u rel (\<lambda>src. with_path env u (''/'' @ name') (\<lambda>dst.
         as_account env u (\<lambda>who fs. case archiveTree (f_codec env) src dst format' who fs of
             (Inl e, fs1) \<Rightarrow> (Inl e, ignore_err fs1 (os_Remove who dst fs1))
           | (Inr _, fs1) \<Rightarrow> (Inr (), fs1)))) fs)"

section \<open>Unpacking\<close>

text \<open>The copy of \<open>writeFileFrom\<close>: every piece goes to the file and then to the budget, which refuses it when it is larger than what
  is left. The result is whether all went well, what is left, and the file system.\<close>

fun budget_copy :: "path \<Rightarrow> bool \<Rightarrow> string list \<Rightarrow> int \<Rightarrow> fs \<Rightarrow> bool \<times> int \<times> fs" where
  "budget_copy h err [] left fs = (\<not> err, left, fs)"
| "budget_copy h err (c # cs) left fs = (let fs1 = os_Write h c fs in
     if int (length c) > left then (False, left, fs1)
     else budget_copy h err cs (left - int (length c)) fs1)"

definition writeFileFrom :: "string \<Rightarrow> string list \<Rightarrow> bool \<Rightarrow> mode \<Rightarrow> Ident \<Rightarrow> int \<Rightarrow> fs \<Rightarrow> int file_res" where
  "writeFileFrom target chunks err mode who left fs = bindF (lift_opt (os_MkdirAll who 493 (path_Dir target) fs)) (\<lambda>_ fs1.
     case os_Create who (permOf mode) target fs1 of Inl e \<Rightarrow> (Inl (FileOS e), fs1)
     | Inr (h, fs2) \<Rightarrow> (case budget_copy h err chunks left fs2 of
          (ok, left', fs3) \<Rightarrow> (if ok then Inr left' else Inl BadArchive, fs3)))"

definition untar_entry :: "string \<Rightarrow> string \<Rightarrow> Ident \<Rightarrow> tentry \<Rightarrow> int \<Rightarrow> fs \<Rightarrow> int file_res" where
  "untar_entry root destAbs who t left fs = (case safeTarget who fs root destAbs (t_name t) of
     None \<Rightarrow> (Inl (FileText ''archive contains unsafe paths''), fs)
   | Some target \<Rightarrow> (case t_type t of
        TypeDir \<Rightarrow> bindF (lift_opt (os_MkdirAll who 493 target fs)) (\<lambda>_ fs1. (Inr left, fs1))
      | TypeReg \<Rightarrow> writeFileFrom target (t_chunks t) (t_err t) (ucast (t_mode t)) who left fs
      | TypeOther \<Rightarrow> (Inr left, fs)))"

fun untar_loop :: "string \<Rightarrow> string \<Rightarrow> Ident \<Rightarrow> bool \<Rightarrow> nat \<Rightarrow> tentry list \<Rightarrow> int \<Rightarrow> fs \<Rightarrow> unit file_res" where
  "untar_loop root destAbs who err n [] left fs = (if err then Inl BadArchive else Inr (), fs)"
| "untar_loop root destAbs who err n (t # ts) left fs =
    (if n \<ge> maxArchiveEntries then (Inl (FileText ''archive has too many entries''), fs)
     else bindF (untar_entry root destAbs who t left fs) (untar_loop root destAbs who err (Suc n) ts))"

definition untar :: "string \<Rightarrow> string \<Rightarrow> Ident \<Rightarrow> tentry list \<times> bool \<Rightarrow> fs \<Rightarrow> unit file_res" where
  "untar root destAbs who tr fs = untar_loop root destAbs who (snd tr) 0 (fst tr) (int maxUnzipBytes) fs"

text \<open>The name without its last extension: \<open>base[:strings.LastIndex(base, ".")]\<close>.\<close>

definition strip_extension :: "string \<Rightarrow> string" where
  "strip_extension base = rev (drop 1 (dropWhile (\<lambda>c. c \<noteq> CHR ''.'') (rev base)))"

definition extractInto :: "Codec \<Rightarrow> string \<Rightarrow> string \<Rightarrow> string \<Rightarrow> string \<Rightarrow> Ident \<Rightarrow> fs \<Rightarrow> unit file_res" where
  "extractInto codec root archAbs destAbs format who fs =
    (if format = fmtZip then unzipInto codec root archAbs destAbs who fs
     else case os_Open who fs archAbs of Inl e \<Rightarrow> (Inl (FileOS e), fs)
       | Inr (_, nd) \<Rightarrow>
         if format \<in> {fmtGz, fmtBz2, fmtZst} then
           (case c_unpack codec format (node_data nd) of None \<Rightarrow> (Inl BadArchive, fs)
            | Some (chunks, err) \<Rightarrow>
               let out = strip_extension (path_Base archAbs) in
               if out = [] then (Inl (FileText ''cannot derive a file name from the archive name''), fs)
               else case safeTarget who fs root destAbs out of
                   None \<Rightarrow> (Inl (FileText ''archive contains unsafe paths''), fs)
                 | Some target \<Rightarrow> bindF (writeFileFrom target chunks err 420 who (int maxUnzipBytes) fs) (\<lambda>_ fs1. (Inr (), fs1)))
         else (case c_untar codec format (node_data nd) of None \<Rightarrow> (Inl BadArchive, fs)
            | Some tr \<Rightarrow> untar root destAbs who tr fs))"

definition Extract :: "FilesEnv \<Rightarrow> User \<Rightarrow> string \<Rightarrow> string \<Rightarrow> fs \<Rightarrow> unit file_res" where
  "Extract env u archiveRel destRel = with_path env u archiveRel (\<lambda>archAbs. with_path env u destRel (\<lambda>destAbs fs.
     let format = archiveFormat archAbs in
     if format = [] then (Inl (FileText ''unsupported archive type''), fs)
     else as_account env u (extractInto (f_codec env) (homeRoot env u) archAbs destAbs format) fs))"

end
