(* ===== verification/Api.thy ===== *)
theory Api
  imports Auth Limiter Net Suspend Quota Cron Archives
begin

text \<open>
  The HTTP layer: API tokens (\<^verbatim>\<open>svc/apitokens.go\<close>), who a request acts as and what it may reach (\<^verbatim>\<open>api/server.go\<close>,
  \<^verbatim>\<open>api/handlers_features.go\<close>) and the authentication handlers (\<^verbatim>\<open>api/handlers_auth.go\<close>).

  A handler takes the request, its context (the acting user and claims \<open>withAuth\<close> put there) and the server state, and
  returns the status and body it writes with the new state. A request body is what \<open>readJSON\<close> decoded (\<open>None\<close> for a body
  it refuses). Error texts are kept by the error they come from. A handler that dereferences a missing context value
  panics, which \<open>withCommon\<close> turns into status 500.
\<close>

section \<open>Random strings\<close>

text \<open>\<open>draw i\<close> is the result of the \<open>i\<close>-th \<open>rand.Int\<close>: an index, or \<open>None\<close> for a failing source.\<close>

definition chars :: string where
  "chars = ''abcdefghijklmnopqrstuvwxyzABCDEFGHIJKLMNOPQRSTUVWXYZ0123456789''"

fun RandomString :: "nat \<Rightarrow> (nat \<Rightarrow> nat option) \<Rightarrow> string option" where
  "RandomString 0 draw = Some []"
| "RandomString (Suc n) draw = (case draw 0 of None \<Rightarrow> None
     | Some k \<Rightarrow> map_option ((#) (chars ! (k mod length chars))) (RandomString n (\<lambda>i. draw (Suc i))))"

definition good_password :: "string \<Rightarrow> bool" where
  "good_password p \<longleftrightarrow> list_ex (\<lambda>c. c \<in> set ''ABCDEFGHIJKLMNOPQRSTUVWXYZ'') p \<and>
     list_ex (\<lambda>c. c \<in> set ''abcdefghijklmnopqrstuvwxyz'') p \<and> list_ex (\<lambda>c. c \<in> set ''0123456789'') p"

fun try_passwords :: "nat \<Rightarrow> (nat \<Rightarrow> nat option) \<Rightarrow> string option" where
  "try_passwords 0 draw = None"
| "try_passwords (Suc n) draw = (case RandomString 20 draw of None \<Rightarrow> None
     | Some p \<Rightarrow> if good_password p then Some p else try_passwords n (\<lambda>i. draw (i + 20)))"

definition RandomPassword :: "(nat \<Rightarrow> nat option) \<Rightarrow> string option" where
  "RandomPassword draw = try_passwords 10 draw"

section \<open>API tokens\<close>

datatype token_error = NotAnAPIToken | InvalidToken | TokenRandom | TokenHash | TokenStore store_error

abbreviation tokenPrefix :: string where "tokenPrefix \<equiv> ''aegis_''"

definition token_Create :: "Lib \<Rightarrow> db \<Rightarrow> gotime \<Rightarrow> (nat \<Rightarrow> nat option) \<Rightarrow> string \<Rightarrow> User \<Rightarrow> string \<Rightarrow> int
    \<Rightarrow> token_error + APIToken \<times> string \<times> db" where
  "token_Create lib s tm draw salt user label ttl =
    (case RandomString 32 draw of None \<Rightarrow> Inl TokenRandom
     | Some r \<Rightarrow> let raw = tokenPrefix @ r in
       (case bcryptGenerate lib salt raw of None \<Rightarrow> Inl TokenHash
        | Some hash \<Rightarrow>
          let t = \<lparr>kID = 0, kUserID = uID user, kLabel = label, kTokenHash = hash, kScopes = ''*'', kLastUsedAt = None,
                kExpiresAt = (if ttl > 0 then Some (rfc3339 (tm + ttl)) else None), kCreatedAt = 0\<rparr>
          in case CreateAPIToken s tm t of Inl e \<Rightarrow> Inl (TokenStore e)
             | Inr (t', s') \<Rightarrow> Inr (t', raw, s')))"

definition token_Verify :: "Lib \<Rightarrow> db \<Rightarrow> gotime \<Rightarrow> string \<Rightarrow> (token_error + User) \<times> db" where
  "token_Verify lib s tm raw =
    (if \<not> HasPrefix raw tokenPrefix then (Inl NotAnAPIToken, s)
     else case AllActiveAPITokens s tm of Inl e \<Rightarrow> (Inl (TokenStore e), s)
       | Inr tokens \<Rightarrow> (case find (\<lambda>t. bcryptCompare lib (kTokenHash t) raw) tokens of
            None \<Rightarrow> (Inl InvalidToken, s)
          | Some t \<Rightarrow> let s' = ignore_err s (TouchAPIToken s tm (kID t)) in
              (case GetUserByID s' (kUserID t) of Inl e \<Rightarrow> (Inl (TokenStore e), s') | Inr u \<Rightarrow> (Inr u, s'))))"

definition token_List :: "db \<Rightarrow> int \<Rightarrow> APIToken list res" where
  "token_List s userID = ListAPITokens s userID"

definition token_Delete :: "db \<Rightarrow> int \<Rightarrow> db res" where
  "token_Delete s i = DeleteAPIToken s i"

section \<open>Server state, responses, context\<close>

text \<open>The manager and everything else that does not change while requests are served, and the state that does. \<open>'h\<close> is the
  state of the host.\<close>

record 'h Server =
  srv_db :: db
  srv_log :: string
  srv_log_opens :: bool
  srv_fails :: "failLimiter option"
  srv_host :: 'h
  srv_applied :: "int \<Rightarrow> bool"

definition auth_state :: "'h Server \<Rightarrow> AuthState" where
  "auth_state srv = \<lparr>ast_db = srv_db srv, ast_log = srv_log srv, ast_log_opens = srv_log_opens srv\<rparr>"

definition with_auth :: "'h Server \<Rightarrow> AuthState \<Rightarrow> 'h Server" where
  "with_auth srv st = srv\<lparr>srv_db := ast_db st, srv_log := ast_log st\<rparr>"

datatype msg = Text string | AuthErr auth_error | StoreErr store_error | HostErr string | TokenErr token_error
  | CronErr cron_error | FileErr file_error

datatype body = BErr msg | BLogin string User | BChallenge string | BSecret string string | BCodes "string list"
  | BStatus string | BToken string | BMe User string bool string "string \<Rightarrow> bool" | BAudit "AuditEntry list"
  | BUser User | BUsers "User list" | BPackage Package | BPackages "Package list" | BDone string "string list"
  | BTokens "APIToken list" | BTokenNew APIToken string | BJob CronJob | BJobs "CronJob list" | BLog LogResult | BUsage Usage
  | BEntries "Entry list" | BData string | BNames "string list" | BDownload string string

type_synonym response = "nat \<times> body"

record Ctx =
  ctxUser :: "User option"
  ctxClaims :: "Claims option"

type_synonym 'h handler = "Ctx \<Rightarrow> 'h Server \<Rightarrow> response \<times> 'h Server"

abbreviation no_ctx :: Ctx where "no_ctx \<equiv> \<lparr>ctxUser = None, ctxClaims = None\<rparr>"

definition writeErr :: "nat \<Rightarrow> string \<Rightarrow> 'h Server \<Rightarrow> response \<times> 'h Server" where
  "writeErr status m srv = ((status, BErr (Text m)), srv)"

text \<open>What \<open>withCommon\<close> answers for a panic.\<close>

definition panicked :: "'h Server \<Rightarrow> response \<times> 'h Server" where
  "panicked srv = writeErr 500 ''internal server error'' srv"

definition bearerToken :: "Request \<Rightarrow> string" where
  "bearerToken r = (if HasPrefix (Authorization r) ''Bearer '' then TrimPrefix (Authorization r) ''Bearer '' else QueryToken r)"

definition pathID :: "Request \<Rightarrow> string + int" where
  "pathID r = (if PathIDText r = [] then Inl ''missing id''
     else case ParseInt (PathIDText r) of None \<Rightarrow> Inl ''invalid id'' | Some i \<Rightarrow> Inr i)"

definition audit :: "Request \<Rightarrow> gotime \<Rightarrow> Ctx \<Rightarrow> string \<Rightarrow> string \<Rightarrow> string \<Rightarrow> 'h Server \<Rightarrow> 'h Server" where
  "audit r tm ctx action target detail srv =
    (let (actor, name) = (case ctxUser ctx of None \<Rightarrow> (0, ''anonymous'') | Some u \<Rightarrow> (uID u, uUsername u));
         name' = (case ctxClaims ctx of None \<Rightarrow> name
           | Some c \<Rightarrow> if IsImpersonating c then name @ '' (via '' @ Username c @ '')'' else name)
     in srv\<lparr>srv_db := ignore_err (srv_db srv) (AppendAudit (srv_db srv) tm actor name' action target detail (ClientIP r))\<rparr>)"

section \<open>Who a request acts as\<close>

definition token_claims :: "User \<Rightarrow> Claims" where
  "token_claims u = \<lparr>Username = uUsername u, Role = uRole u, Impersonator = 0, SessionID = [], Subject = 0, IssuedAt = 0,
     ExpiresAt = 0, Issuer = []\<rparr>"

text \<open>The check of the limiter: it also prunes the caller's entries.\<close>

definition check_blocked :: "string \<Rightarrow> gotime \<Rightarrow> 'h Server \<Rightarrow> bool \<times> 'h Server" where
  "check_blocked ip tm srv = (case srv_fails srv of None \<Rightarrow> (False, srv)
     | Some l \<Rightarrow> (case blocked l ip tm of (b, l') \<Rightarrow> (b, srv\<lparr>srv_fails := Some l'\<rparr>)))"

definition record_fail :: "string \<Rightarrow> gotime \<Rightarrow> 'h Server \<Rightarrow> 'h Server" where
  "record_fail ip tm srv = srv\<lparr>srv_fails := map_option (\<lambda>l. fail l ip tm) (srv_fails srv)\<rparr>"

definition resolveBearer :: "Manager \<Rightarrow> Request \<Rightarrow> gotime \<Rightarrow> string \<Rightarrow> 'h Server
    \<Rightarrow> ((nat \<times> msg) + User \<times> Claims) \<times> 'h Server" where
  "resolveBearer m r tm token srv =
    (if HasPrefix token ''aegis_'' then
       (let ip = ClientIP r in case check_blocked ip tm srv of (b, srv1) \<Rightarrow>
        if b then (Inl (429, Text ''too many invalid api tokens''), srv1)
        else case token_Verify (m_lib m) (srv_db srv1) tm token of
            (Inl _, s') \<Rightarrow> (Inl (401, Text ''invalid api token''), record_fail ip tm (srv1\<lparr>srv_db := s'\<rparr>))
          | (Inr user, s') \<Rightarrow>
              if uStatus user = StatusSuspended then (Inl (403, Text ''account is suspended''), srv1\<lparr>srv_db := s'\<rparr>)
              else (Inr (user, token_claims user), srv1\<lparr>srv_db := s'\<rparr>))
     else case Verify m (srv_db srv) tm token of
         Inl e \<Rightarrow> (Inl (if e = ErrSuspended then 403 else 401, AuthErr e), srv)
       | Inr (claims, user) \<Rightarrow> (Inr (user, claims), srv))"

definition withAuth :: "Manager \<Rightarrow> Request \<Rightarrow> gotime \<Rightarrow> 'h handler \<Rightarrow> 'h Server \<Rightarrow> response \<times> 'h Server" where
  "withAuth m r tm next srv =
    (let token = bearerToken r in
     if token = [] then writeErr 401 ''missing bearer token'' srv
     else case resolveBearer m r tm token srv of
         (Inl (status, e), srv1) \<Rightarrow> ((status, BErr e), srv1)
       | (Inr (user, claims), srv1) \<Rightarrow> next \<lparr>ctxUser = Some user, ctxClaims = Some claims\<rparr> srv1)"

definition withRole :: "'h handler \<Rightarrow> string list \<Rightarrow> 'h handler" where
  "withRole next roles ctx srv = (case ctxClaims ctx of
     None \<Rightarrow> writeErr 403 ''insufficient permissions'' srv
   | Some claims \<Rightarrow> if HasRole claims roles then next ctx srv else writeErr 403 ''insufficient permissions'' srv)"

definition canManageUser :: "User \<Rightarrow> User \<Rightarrow> bool" where
  "canManageUser actor target =
    (if uRole actor = RoleAdmin then True
     else if uRole actor = RoleReseller then uOwnerID target = uID actor \<or> uID target = uID actor
     else uID target = uID actor)"

section \<open>What a package grants\<close>

abbreviation all_features :: "string list" where
  "all_features \<equiv> [''ssl'', ''dns'', ''terminal'', ''backups'', ''mail'', ''webmail'', ''databases'', ''files'', ''ftp'',
     ''cron'', ''docker'']"

definition packageFor :: "db \<Rightarrow> User \<Rightarrow> Package option" where
  "packageFor s u =
    (let fallback = (case GetDefaultPackage s of Inl _ \<Rightarrow> None | Inr pkg \<Rightarrow> Some pkg) in
     if uPackageID u > 0 then (case GetPackage s (uPackageID u) of Inr pkg \<Rightarrow> Some pkg | Inl _ \<Rightarrow> fallback) else fallback)"

definition packageAllows :: "db \<Rightarrow> User \<Rightarrow> bool \<Rightarrow> bool" where
  "packageAllows s u flag =
    (if uRole u = RoleAdmin \<or> uRole u = RoleReseller then True
     else case packageFor s u of None \<Rightarrow> True | Some pkg \<Rightarrow> flag)"

text \<open>A Go map from feature names; a missing key reads as false.\<close>

definition featuresFor :: "db \<Rightarrow> User \<Rightarrow> string \<Rightarrow> bool" where
  "featuresFor s u feature =
    (if uRole u = RoleAdmin \<or> uRole u = RoleReseller then feature \<in> set all_features
     else case packageFor s u of None \<Rightarrow> feature \<in> set all_features
       | Some pkg \<Rightarrow> (case map_of [(''ssl'', pAllowSSL pkg), (''dns'', pAllowDNS pkg), (''terminal'', pAllowTerminal pkg),
            (''backups'', pAllowBackups pkg), (''mail'', pAllowMail pkg), (''webmail'', pAllowWebmail pkg),
            (''databases'', pAllowDatabases pkg), (''files'', pAllowFiles pkg), (''ftp'', pAllowFTP pkg),
            (''cron'', pAllowCron pkg), (''docker'', pAllowDocker pkg)] feature of None \<Rightarrow> False | Some b \<Rightarrow> b))"

definition withFeature :: "string \<Rightarrow> 'h handler \<Rightarrow> 'h handler" where
  "withFeature feature next ctx srv = (case ctxUser ctx of
     None \<Rightarrow> writeErr 401 ''missing bearer token'' srv
   | Some u \<Rightarrow> if \<not> packageAllows (srv_db srv) u (featuresFor (srv_db srv) u feature)
       then writeErr 403 ''your package does not include access to this feature'' srv
       else next ctx srv)"

section \<open>Authentication handlers\<close>

definition publicUser :: "User \<Rightarrow> User" where
  "publicUser u = \<lparr>uID = uID u, uUsername = uUsername u, uEmail = uEmail u, uPasswordHash = [], uRole = uRole u,
     uPackageID = uPackageID u, uStatus = uStatus u, uOwnerID = uOwnerID u, uHomeDir = uHomeDir u,
     uQuotaDiskBytes = uQuotaDiskBytes u, uQuotaBandwidthBytes = uQuotaBandwidthBytes u, uCreatedAt = uCreatedAt u,
     uUpdatedAt = uUpdatedAt u, uTOTPSecret = [], uTOTPEnabled = uTOTPEnabled u, uTOTPBackupCodes = CodesEmpty\<rparr>"

text \<open>What every handler needs besides the request: the manager, how times are shown, and the random bytes and bcrypt salts
  drawn for this request.\<close>

record Env =
  env_mgr :: Manager
  env_show :: "stamp \<Rightarrow> string"
  env_rnd :: "byte list option"
  env_codes_rnd :: "byte list option list"
  env_salts :: "string list"

definition bad_body :: "'h Server \<Rightarrow> response \<times> 'h Server" where
  "bad_body srv = writeErr 400 ''invalid request body'' srv"

definition handleLogin :: "Env \<Rightarrow> Request \<Rightarrow> gotime \<Rightarrow> (string \<times> string) option \<Rightarrow> 'h handler" where
  "handleLogin env r tm req ctx srv = (case req of None \<Rightarrow> bad_body srv
   | Some (username, password) \<Rightarrow>
      if username = [] \<or> password = [] then writeErr 400 ''username and password are required'' srv
      else case Login (env_mgr env) (env_show env) (auth_state srv) tm (env_rnd env) username password (ClientIP r) of
        (Inl (ErrTOTPRequired cid), st) \<Rightarrow> ((200, BChallenge cid), with_auth srv st)
      | (Inl ErrInvalidCredentials, st) \<Rightarrow> writeErr 401 ''invalid username or password'' (with_auth srv st)
      | (Inl ErrLockedOut, st) \<Rightarrow> ((429, BErr (AuthErr ErrLockedOut)), with_auth srv st)
      | (Inl e, st) \<Rightarrow> ((403, BErr (AuthErr e)), with_auth srv st)
      | (Inr (user, token), st) \<Rightarrow>
          ((200, BLogin token (publicUser user)),
           audit r tm ctx ''auth.login'' (uUsername user) ''login'' (with_auth srv st)))"

definition handleTOTPVerify :: "Env \<Rightarrow> Request \<Rightarrow> gotime \<Rightarrow> (string \<times> string) option \<Rightarrow> 'h handler" where
  "handleTOTPVerify env r tm req ctx srv = (case req of None \<Rightarrow> bad_body srv
   | Some (challenge, code) \<Rightarrow>
      if challenge = [] \<or> code = [] then writeErr 400 ''challenge and code are required'' srv
      else case VerifyTOTPLogin (env_mgr env) (env_show env) (auth_state srv) tm (env_rnd env) challenge code (ClientIP r) of
        (Inl ErrLockedOut, st) \<Rightarrow> ((429, BErr (AuthErr ErrLockedOut)), with_auth srv st)
      | (Inl e, st) \<Rightarrow> writeErr 401 ''invalid or expired code'' (with_auth srv st)
      | (Inr (user, token), st) \<Rightarrow>
          ((200, BLogin token (publicUser user)),
           audit r tm ctx ''auth.login'' (uUsername user) ''login (2fa)'' (with_auth srv st)))"

definition handleTOTPEnroll :: "Env \<Rightarrow> gotime \<Rightarrow> 'h handler" where
  "handleTOTPEnroll env tm ctx srv = (case ctxUser ctx of None \<Rightarrow> panicked srv
   | Some user \<Rightarrow> (case BeginTOTPEnroll (auth_state srv) tm (env_rnd env) (uID user) (uUsername user) of
        (Inl e, st) \<Rightarrow> ((500, BErr (AuthErr e)), with_auth srv st)
      | (Inr (secret, uri), st) \<Rightarrow> ((200, BSecret secret uri), with_auth srv st)))"

definition handleTOTPConfirm :: "Env \<Rightarrow> Request \<Rightarrow> gotime \<Rightarrow> string option \<Rightarrow> 'h handler" where
  "handleTOTPConfirm env r tm req ctx srv = (case req of None \<Rightarrow> bad_body srv
   | Some code \<Rightarrow> (case ctxUser ctx of None \<Rightarrow> panicked srv
   | Some user \<Rightarrow> (case ConfirmTOTPEnroll (env_mgr env) (auth_state srv) tm (env_codes_rnd env) (env_salts env) (uID user) code of
        (Inl ErrTOTPInvalidCode, st) \<Rightarrow> writeErr 400 ''that code didn't match'' (with_auth srv st)
      | (Inl e, st) \<Rightarrow> ((400, BErr (AuthErr e)), with_auth srv st)
      | (Inr codes, st) \<Rightarrow> ((200, BCodes codes), audit r tm ctx ''auth.totp_enabled'' (uUsername user) [] (with_auth srv st)))))"

definition handleTOTPDisable :: "Env \<Rightarrow> Request \<Rightarrow> gotime \<Rightarrow> string option \<Rightarrow> 'h handler" where
  "handleTOTPDisable env r tm req ctx srv = (case req of None \<Rightarrow> bad_body srv
   | Some password \<Rightarrow> (case ctxUser ctx of None \<Rightarrow> panicked srv
   | Some user \<Rightarrow> (case ConfirmPassword (env_mgr env) (env_show env) (auth_state srv) tm user password (ClientIP r) of
        (Inl ErrLockedOut, st) \<Rightarrow> ((429, BErr (AuthErr ErrLockedOut)), with_auth srv st)
      | (Inl e, st) \<Rightarrow> writeErr 401 ''incorrect password'' (with_auth srv st)
      | (Inr _, st) \<Rightarrow> (case DisableTOTP (env_mgr env) st tm (uID user) password of
            (Inl ErrInvalidCredentials, st') \<Rightarrow> writeErr 401 ''incorrect password'' (with_auth srv st')
          | (Inl e, st') \<Rightarrow> ((400, BErr (AuthErr e)), with_auth srv st')
          | (Inr _, st') \<Rightarrow>
              ((200, BStatus ''ok''), audit r tm ctx ''auth.totp_disabled'' (uUsername user) [] (with_auth srv st'))))))"

definition handleMe :: "'h handler" where
  "handleMe ctx srv = (case (ctxUser ctx, ctxClaims ctx) of
     (Some user, Some claims) \<Rightarrow>
       let acting = (if IsImpersonating claims then
             (case GetUserByID (srv_db srv) (Impersonator claims) of Inr imp \<Rightarrow> imp | Inl _ \<Rightarrow> user) else user)
       in ((200, BMe (publicUser user) (Role claims) (IsImpersonating claims) (uUsername acting) (featuresFor (srv_db srv) user)), srv)
   | _ \<Rightarrow> panicked srv)"

definition handleLogout :: "Env \<Rightarrow> Request \<Rightarrow> gotime \<Rightarrow> 'h handler" where
  "handleLogout env r tm ctx srv =
    (let srv1 = with_auth srv (snd (Logout (env_mgr env) (auth_state srv) tm (bearerToken r))) in
     case ctxUser ctx of None \<Rightarrow> panicked srv1
     | Some user \<Rightarrow> ((200, BStatus ''ok''), audit r tm ctx ''auth.logout'' (uUsername user) [] srv1))"

definition handleImpersonate :: "Env \<Rightarrow> Request \<Rightarrow> gotime \<Rightarrow> int option \<Rightarrow> 'h handler" where
  "handleImpersonate env r tm req ctx srv = (case ctxUser ctx of None \<Rightarrow> panicked srv
   | Some actor \<Rightarrow>
      if uRole actor \<noteq> RoleAdmin then writeErr 403 ''only admins can impersonate'' srv
      else case req of None \<Rightarrow> bad_body srv
      | Some uid \<Rightarrow> (case GetUserByID (srv_db srv) uid of Inl _ \<Rightarrow> writeErr 404 ''user not found'' srv
      | Inr target \<Rightarrow> (case Impersonate (env_mgr env) (auth_state srv) tm (env_rnd env) (uID actor) (uID target) of
            (Inl e, st) \<Rightarrow> ((403, BErr (AuthErr e)), with_auth srv st)
          | (Inr token, st) \<Rightarrow> ((200, BToken token), audit r tm ctx ''admin.impersonate'' (uUsername target)
              (''admin '' @ uUsername actor @ '' logged in as '' @ uUsername target) (with_auth srv st)))))"

definition handleUnimpersonate :: "Env \<Rightarrow> Request \<Rightarrow> gotime \<Rightarrow> 'h handler" where
  "handleUnimpersonate env r tm ctx srv =
    (let adminName = (case ctxClaims ctx of None \<Rightarrow> ''admin''
           | Some c \<Rightarrow> if Impersonator c > 0 then (case GetUserByID (srv_db srv) (Impersonator c) of
               Inr admin \<Rightarrow> uUsername admin | Inl _ \<Rightarrow> ''admin'') else ''admin'') in
     case Unimpersonate (env_mgr env) (auth_state srv) tm (env_rnd env) (bearerToken r) of
       (Inl e, st) \<Rightarrow> ((400, BErr (AuthErr e)), with_auth srv st)
     | (Inr token, st) \<Rightarrow> (case ctxUser ctx of None \<Rightarrow> panicked (with_auth srv st)
          | Some user \<Rightarrow> ((200, BToken token), audit r tm ctx ''admin.unimpersonate'' (uUsername user)
              (adminName @ '' ended support session'') (with_auth srv st))))"

definition handleAudit :: "'h handler" where
  "handleAudit ctx srv = (case ListAudit (srv_db srv) 200 0 of
     Inl e \<Rightarrow> ((500, BErr (StoreErr e)), srv) | Inr entries \<Rightarrow> ((200, BAudit entries), srv))"

end
