(* ===== verification/Api_Theorems.thy ===== *)
theory Api_Theorems
  imports Api Auth_Theorems
begin

text \<open>
  Properties of the HTTP layer: which requests pass \<open>withAuth\<close> and as whom, the life of an API token, that a login opens the
  panel to exactly the account that signed in, what a package change does, and what the audit log says of a support session.
\<close>

section \<open>Tokens and requests\<close>

lemma TouchAPIToken_ok: "ignore_err s (TouchAPIToken s tm i) = (if db_down s then s else s\<lparr>api_tokens :=
     t_update (\<lambda>k. kID k = i) (\<lambda>k. k\<lparr>kLastUsedAt := Some (rfc3339 tm)\<rparr>) (api_tokens s)\<rparr>)"
  by (simp add: TouchAPIToken_def)

lemma token_Verify_db: "\<exists>ts. snd (token_Verify lib s tm raw) = s\<lparr>api_tokens := ts\<rparr>"
  by (auto simp: token_Verify_def TouchAPIToken_ok Let_def split: sum.splits option.splits intro: exI [of _ "api_tokens s"])

lemma token_Verify_ok:
  assumes "token_Verify lib s tm raw = (Inr u, s')"
  shows "\<exists>k\<in>set (trows (api_tokens s)). kUserID k = uID u \<and> token_live tm k \<and> bcryptCompare lib (kTokenHash k) raw"
    "GetUserByID s (uID u) = Inr u" "users s' = users s" "db_down s' = db_down s"
proof -
  from assms obtain k where k: "\<not> db_down s" "find (\<lambda>t. bcryptCompare lib (kTokenHash t) raw) (t_select (token_live tm) (api_tokens s)) = Some k"
      "s' = ignore_err s (TouchAPIToken s tm (kID k))" "GetUserByID s' (kUserID k) = Inr u"
    by (auto simp: token_Verify_def AllActiveAPITokens_def query_def Let_def split: if_splits sum.splits option.splits)
  then show s: "users s' = users s" "db_down s' = db_down s" by (simp_all add: TouchAPIToken_ok)
  from k(4) have "GetUserByID s (kUserID k) = Inr u" using users_only(1) [OF s] by simp
  moreover have "k \<in> set (t_select (token_live tm) (api_tokens s))" "bcryptCompare lib (kTokenHash k) raw"
    using k(2) by (auto simp: find_Some_iff)
  ultimately show "\<exists>k\<in>set (trows (api_tokens s)). kUserID k = uID u \<and> token_live tm k \<and> bcryptCompare lib (kTokenHash k) raw"
    "GetUserByID s (uID u) = Inr u"
    using GetUserByID_id by (fastforce simp: t_select_def)+
qed

lemma session_row:
  assumes "GetSessionUser s tm sid = Inr uid"
  shows "\<exists>x\<in>set (sessions s). sID x = sid \<and> sUserID x = uid \<and> tm \<le> parse_rfc3339 (sExpiresAt x)"
  using assms by (auto simp: GetSessionUser_def live_row_def query_row_def find_Some_iff split: if_splits option.splits)

lemma check_blocked_db [simp]: "srv_db (snd (check_blocked ip tm srv)) = srv_db srv"
  by (auto simp: check_blocked_def split: option.splits prod.splits)

lemma check_blockedE:
  obtains b srv1 where "check_blocked ip tm srv = (b, srv1)" "srv_db srv1 = srv_db srv"
  using check_blocked_db [of ip tm srv] by (cases "check_blocked ip tm srv") auto

lemma record_fail_db [simp]: "srv_db (record_fail ip tm srv) = srv_db srv"
  by (simp add: record_fail_def)

text \<open>What a bearer token is worth: the credential behind it.\<close>

definition credential :: "Manager \<Rightarrow> db \<Rightarrow> gotime \<Rightarrow> string \<Rightarrow> User \<Rightarrow> Claims \<Rightarrow> bool" where
  "credential m s tm token u c \<longleftrightarrow>
    (if HasPrefix token ''aegis_''
     then (\<exists>k\<in>set (trows (api_tokens s)). kUserID k = uID u \<and> token_live tm k \<and> bcryptCompare (m_lib m) (kTokenHash k) token)
       \<and> Role c = uRole u \<and> \<not> IsImpersonating c
     else Parse m tm token = Inr c \<and>
       (\<exists>x\<in>set (sessions s). sID x = SessionID c \<and> sUserID x = uID u \<and> tm \<le> parse_rfc3339 (sExpiresAt x)))"

lemma resolveBearer_ok:
  assumes "resolveBearer m r tm token srv = (Inr (u, c), srv')"
  shows "credential m (srv_db srv) tm token u c \<and> GetUserByID (srv_db srv) (uID u) = Inr u \<and> uStatus u \<noteq> StatusSuspended"
proof (cases "HasPrefix token ''aegis_''")
  case True
  obtain b srv1 where cb: "check_blocked (ClientIP r) tm srv = (b, srv1)" "srv_db srv1 = srv_db srv" by (rule check_blockedE)
  from True assms obtain s' where v: "token_Verify (m_lib m) (srv_db srv) tm token = (Inr u, s')" "uStatus u \<noteq> StatusSuspended" "c = token_claims u"
    by (auto simp: cb resolveBearer_def Let_def split: prod.splits sum.splits if_splits)
  with token_Verify_ok [OF v(1)] True show ?thesis
    by (auto simp: credential_def token_claims_def IsImpersonating_def)
next
  case False
  with assms have v: "Verify m (srv_db srv) tm token = Inr (c, u)"
    by (auto simp: resolveBearer_def split: sum.splits prod.splits)
  then obtain uid where "Parse m tm token = Inr c" "GetSessionUser (srv_db srv) tm (SessionID c) = Inr uid"
      "GetUserByID (srv_db srv) uid = Inr u" "uStatus u \<noteq> StatusSuspended"
    by (auto simp: Verify_ok)
  with False GetUserByID_id session_row show ?thesis by (fastforce simp: credential_def)
qed

lemma resolveBearer_frame:
  "\<exists>ts. srv_db (snd (resolveBearer m r tm token srv)) = (srv_db srv)\<lparr>api_tokens := ts\<rparr>"
proof -
  obtain b srv1 where cb: "check_blocked (ClientIP r) tm srv = (b, srv1)" "srv_db srv1 = srv_db srv" by (rule check_blockedE)
  obtain ts where ts: "snd (token_Verify (m_lib m) (srv_db srv) tm token) = (srv_db srv)\<lparr>api_tokens := ts\<rparr>"
    using token_Verify_db by blast
  have "srv_db (snd (resolveBearer m r tm token srv)) \<in>
      {(srv_db srv)\<lparr>api_tokens := ts\<rparr>, (srv_db srv)\<lparr>api_tokens := api_tokens (srv_db srv)\<rparr>}"
    using ts by (auto simp: resolveBearer_def Let_def cb split: prod.splits sum.splits)
  then show ?thesis by blast
qed

lemma resolveBearer_status:
  assumes "resolveBearer m r tm token srv = (Inl (status, e), srv')"
  shows "status \<in> {401, 403, 429}"
  using assms by (auto simp: resolveBearer_def Let_def split: prod.splits sum.splits if_splits)

text \<open>C4: The authentication gate. Whatever request arrives, \<open>withAuth\<close> either answers 401, 403 or 429, having changed nothing
  in the store but the marks on API tokens, or runs the handler as an account that exists, is not suspended, and is the one
  the bearer token stands for: a live API token of that account, or a signed token whose session row is still there.\<close>

theorem withAuth_gate:
  "(\<exists>status e srv1 ts. withAuth m r tm next srv = ((status, BErr e), srv1) \<and> status \<in> {401, 403, 429} \<and>
      srv_db srv1 = (srv_db srv)\<lparr>api_tokens := ts\<rparr>) \<or>
   (\<exists>u c srv1 ts. withAuth m r tm next srv = next \<lparr>ctxUser = Some u, ctxClaims = Some c\<rparr> srv1 \<and>
      srv_db srv1 = (srv_db srv)\<lparr>api_tokens := ts\<rparr> \<and> GetUserByID (srv_db srv) (uID u) = Inr u \<and>
      uStatus u \<noteq> StatusSuspended \<and> credential m (srv_db srv) tm (bearerToken r) u c)"
proof (cases "bearerToken r = []")
  case True
  then have "withAuth m r tm next srv = ((401, BErr (Text ''missing bearer token'')), srv)"
    by (simp add: withAuth_def writeErr_def)
  moreover have "srv_db srv = (srv_db srv)\<lparr>api_tokens := api_tokens (srv_db srv)\<rparr>" by simp
  ultimately show ?thesis by blast
next
  case False
  obtain res srv1 where r: "resolveBearer m r tm (bearerToken r) srv = (res, srv1)" by fastforce
  obtain ts where ts: "srv_db srv1 = (srv_db srv)\<lparr>api_tokens := ts\<rparr>"
    using resolveBearer_frame [of m r tm "bearerToken r" srv] r by auto
  show ?thesis
  proof (cases res)
    case (Inl p)
    then obtain status e where p: "res = Inl (status, e)" by (cases p) auto
    with False r have "withAuth m r tm next srv = ((status, BErr e), srv1)" by (simp add: withAuth_def)
    moreover have "status \<in> {401, 403, 429}" using resolveBearer_status r p by blast
    ultimately show ?thesis using ts by blast
  next
    case (Inr p)
    then obtain u c where p: "res = Inr (u, c)" by (cases p) auto
    with False r have "withAuth m r tm next srv = next \<lparr>ctxUser = Some u, ctxClaims = Some c\<rparr> srv1" by (simp add: withAuth_def)
    with ts resolveBearer_ok [OF r [unfolded p]] show ?thesis by blast
  qed
qed

section \<open>The life of an API token\<close>

lemma CreateAPIToken_ok:
  assumes "token_Create lib s tm draw salt u label ttl = Inr (t, raw, s')"
  obtains r hash where "RandomString 32 draw = Some r" "raw = tokenPrefix @ r" "bcryptGenerate lib salt raw = Some hash" "\<not> db_down s"
    "kID t = tseq (api_tokens s) + 1"
    "s' = s\<lparr>api_tokens := \<lparr>trows = trows (api_tokens s) @ [\<lparr>kID = kID t, kUserID = uID u, kLabel = label, kTokenHash = hash, kScopes = ''*'',
       kLastUsedAt = None, kExpiresAt = (if ttl > 0 then Some (rfc3339 (tm + ttl)) else None), kCreatedAt = rfc3339 tm\<rparr>], tseq = kID t\<rparr>\<rparr>"
proof -
  obtain r where r: "RandomString 32 draw = Some r" using assms by (cases "RandomString 32 draw") (simp_all add: token_Create_def)
  obtain hash where h: "bcryptGenerate lib salt (tokenPrefix @ r) = Some hash"
    using assms r by (cases "bcryptGenerate lib salt (tokenPrefix @ r)") (simp_all add: token_Create_def Let_def)
  have up: "\<not> db_down s" using assms r h by (cases "db_down s") (simp_all add: token_Create_def Let_def CreateAPIToken_def exec_def)
  have e: "raw = tokenPrefix @ r" "kID t = tseq (api_tokens s) + 1"
    "s' = s\<lparr>api_tokens := \<lparr>trows = trows (api_tokens s) @ [\<lparr>kID = kID t, kUserID = uID u, kLabel = label, kTokenHash = hash, kScopes = ''*'',
       kLastUsedAt = None, kExpiresAt = (if ttl > 0 then Some (rfc3339 (tm + ttl)) else None), kCreatedAt = rfc3339 tm\<rparr>], tseq = kID t\<rparr>\<rparr>"
    using assms r h up by (auto simp: token_Create_def Let_def CreateAPIToken_def exec_def t_insert_def)
  show ?thesis using r e(1) h [folded e(1)] up e(2,3) by (rule that)
qed

lemma RandomString_length: "RandomString n draw = Some s \<Longrightarrow> length s = n"
  by (induction n arbitrary: draw s) (auto split: option.splits)

abbreviation matching :: "Lib \<Rightarrow> db \<Rightarrow> gotime \<Rightarrow> string \<Rightarrow> APIToken option" where
  "matching lib s tm raw \<equiv> find (\<lambda>k. bcryptCompare lib (kTokenHash k) raw) (t_select (token_live tm) (api_tokens s))"

lemma token_Verify_known:
  assumes "HasPrefix raw tokenPrefix" "\<not> db_down s" "matching lib s tm raw = Some k" "GetUserByID s (kUserID k) = Inr u"
  shows "fst (token_Verify lib s tm raw) = Inr u"
proof -
  have "GetUserByID (ignore_err s (TouchAPIToken s tm (kID k))) (kUserID k) = Inr u"
    using assms(4) users_only(1) [of "ignore_err s (TouchAPIToken s tm (kID k))" s] by (simp add: TouchAPIToken_ok)
  with assms show ?thesis by (simp add: token_Verify_def AllActiveAPITokens_def query_def Let_def)
qed

lemma token_Verify_unknown:
  assumes "HasPrefix raw tokenPrefix" "\<not> db_down s" "matching lib s tm raw = None"
  shows "fst (token_Verify lib s tm raw) = Inl InvalidToken"
  using assms by (simp add: token_Verify_def AllActiveAPITokens_def query_def)

lemma matching_none: "\<forall>k\<in>set (trows (api_tokens s)). \<not> bcryptCompare lib (kTokenHash k) raw \<Longrightarrow> matching lib s tm raw = None"
  by (simp add: find_None_iff t_select_def)

text \<open>The life of an API token: it is 38 characters, kept only as a hash; until its expiry date it verifies as the account it
  was made for, and after that date, or once deleted, it is refused. (Provided no other token's hash happens to match it.)\<close>

theorem api_token_life:
  assumes "bcrypt_ok lib" "schema_ok s" "token_Create lib s tm draw salt u label ttl = Inr (t, raw, s')" "GetUserByID s (uID u) = Inr u"
    and "\<forall>k\<in>set (trows (api_tokens s)). \<not> bcryptCompare lib (kTokenHash k) raw"
  shows "length raw = 38 \<and>
    (ttl \<le> 0 \<or> rfc3339 now < rfc3339 (tm + ttl) \<longrightarrow> fst (token_Verify lib s' now raw) = Inr u) \<and>
    (ttl > 0 \<and> rfc3339 (tm + ttl) \<le> rfc3339 now \<longrightarrow> fst (token_Verify lib s' now raw) = Inl InvalidToken) \<and>
    (\<forall>s''. token_Delete s' (kID t) = Inr s'' \<longrightarrow> fst (token_Verify lib s'' now raw) = Inl InvalidToken)"
proof -
  obtain r hash where c: "RandomString 32 draw = Some r" "raw = tokenPrefix @ r" "bcryptGenerate lib salt raw = Some hash" "\<not> db_down s"
    "kID t = tseq (api_tokens s) + 1"
    "s' = s\<lparr>api_tokens := \<lparr>trows = trows (api_tokens s) @ [\<lparr>kID = kID t, kUserID = uID u, kLabel = label, kTokenHash = hash, kScopes = ''*'',
       kLastUsedAt = None, kExpiresAt = (if ttl > 0 then Some (rfc3339 (tm + ttl)) else None), kCreatedAt = rfc3339 tm\<rparr>], tseq = kID t\<rparr>\<rparr>"
    using assms(3) by (rule CreateAPIToken_ok)
  define k where "k = \<lparr>kID = kID t, kUserID = uID u, kLabel = label, kTokenHash = hash, kScopes = ''*'',
    kLastUsedAt = None, kExpiresAt = (if ttl > 0 then Some (rfc3339 (tm + ttl)) else None), kCreatedAt = rfc3339 tm\<rparr>"
  have s': "trows (api_tokens s') = trows (api_tokens s) @ [k]" "users s' = users s" "db_down s' = db_down s"
    using c(6) by (simp_all add: k_def)
  have k: "kUserID k = uID u" "kID k = kID t" "bcryptCompare lib (kTokenHash k) raw"
    "token_live now k \<longleftrightarrow> ttl \<le> 0 \<or> rfc3339 now < rfc3339 (tm + ttl)"
    using assms(1) c(3) by (auto simp: k_def bcrypt_ok_def token_live_def)
  have pre: "HasPrefix raw tokenPrefix" unfolding c(2) by (rule HasPrefix_append)
  have sel: "t_select (token_live now) (api_tokens s') = t_select (token_live now) (api_tokens s) @ (if token_live now k then [k] else [])"
    by (simp add: t_select_def s')
  then have m: "matching lib s' now raw = (if token_live now k then Some k else None)"
    using find_append_None [of "t_select (token_live now) (api_tokens s)" "\<lambda>k. bcryptCompare lib (kTokenHash k) raw"]
      matching_none [OF assms(5), of now] assms(5) k(3) by (simp add: t_select_def)
  have "GetUserByID s' (uID u) = Inr u" using assms(4) users_only(1) [OF s'(2,3)] by simp
  then have "token_live now k \<Longrightarrow> fst (token_Verify lib s' now raw) = Inr u"
    using token_Verify_known [OF pre] m k(1) s'(3) c(4) by simp
  moreover have "\<not> token_live now k \<Longrightarrow> fst (token_Verify lib s' now raw) = Inl InvalidToken"
    using token_Verify_unknown [OF pre] m s'(3) c(4) by simp
  moreover have "fst (token_Verify lib s'' now raw) = Inl InvalidToken" if "token_Delete s' (kID t) = Inr s''" for s''
  proof -
    have "\<forall>k\<in>set (trows (api_tokens s'')). \<not> bcryptCompare lib (kTokenHash k) raw" "\<not> db_down s''"
      using that assms(5) c(4) s' k(2) by (auto simp: token_Delete_def DeleteAPIToken_def)
    then show ?thesis using token_Verify_unknown [OF pre] matching_none by blast
  qed
  moreover have "length raw = 38" using RandomString_length [OF c(1)] c(2) by simp
  ultimately show ?thesis using k(4) by auto
qed

theorem api_token_life_witness:
  "\<exists>t raw s'. token_Create (ex_lib []) (ast_db ex_state) 0 (\<lambda>i. Some i) [] (scanUser (ex_row 2 ''alice'' RoleUser)) ''ci'' (hours 1) = Inr (t, raw, s') \<and>
     fst (token_Verify (ex_lib []) s' (minutes 59) raw) = Inr (scanUser (ex_row 2 ''alice'' RoleUser)) \<and>
     fst (token_Verify (ex_lib []) s' (hours 1) raw) = Inl InvalidToken"
proof -
  let ?u = "scanUser (ex_row 2 ''alice'' RoleUser)"
  have g: "GetUserByID (ast_db ex_state) (uID ?u) = Inr ?u"
    by (simp add: GetUserByID_def query_row_def ex_state_def db_empty_def t_get_def ex_row_def scanUser_def User.truncate_def)
  have "\<exists>r. RandomString n draw = Some r" if "\<forall>i. draw i \<noteq> None" for n draw
    using that by (induction n arbitrary: draw) (fastforce split: option.splits)+
  then obtain r where "RandomString 32 (\<lambda>i. Some i) = Some r" by blast
  moreover have "\<not> db_down (ast_db ex_state)" by (simp add: ex_state_def db_empty_def)
  ultimately obtain t raw s' where c: "token_Create (ex_lib []) (ast_db ex_state) 0 (\<lambda>i. Some i) [] ?u ''ci'' (hours 1) = Inr (t, raw, s')"
    by (simp add: token_Create_def ex_lib_def CreateAPIToken_def exec_def Let_def)
  have "bcrypt_ok (ex_lib [])" by (simp add: bcrypt_ok_def ex_lib_def)
  moreover have "\<forall>k\<in>set (trows (api_tokens (ast_db ex_state))). \<not> bcryptCompare (ex_lib []) (kTokenHash k) raw"
    by (simp add: ex_state_def db_empty_def)
  ultimately have "fst (token_Verify (ex_lib []) s' (minutes 59) raw) = Inr ?u" "fst (token_Verify (ex_lib []) s' (hours 1) raw) = Inl InvalidToken"
    using api_token_life [OF _ ex_state_schema c g, of "minutes 59"] api_token_life [OF _ ex_state_schema c g, of "hours 1"]
    by (simp_all add: rfc3339_def)
  with c show ?thesis by blast
qed

section \<open>Signed-in requests\<close>

lemma withAuth_session:
  assumes "Verify m (srv_db srv) now (bearerToken r) = Inr (c, u)" "bearerToken r \<noteq> []" "\<not> HasPrefix (bearerToken r) tokenPrefix"
  shows "withAuth m r now next srv = next \<lparr>ctxUser = Some u, ctxClaims = Some c\<rparr> srv"
  using assms by (simp add: withAuth_def resolveBearer_def)

lemma auth_state_sel [simp]: "ast_db (auth_state srv) = srv_db srv" "srv_db (with_auth srv st) = ast_db st"
  by (simp_all add: auth_state_def with_auth_def)

lemma audit_db:
  "srv_db (audit r tm ctx action target detail srv) = (if db_down (srv_db srv) then srv_db srv else (srv_db srv)\<lparr>audit_log :=
     audit_log (srv_db (audit r tm ctx action target detail srv))\<rparr>)"
  by (simp add: audit_def AppendAudit_def exec_def split: prod.splits)

lemma Verify_same:
  assumes "users s' = users s" "sessions s' = sessions s" "db_down s' = db_down s"
  shows "Verify m s' now token = Verify m s now token"
proof -
  have "GetSessionUser s' now i = GetSessionUser s now i" for i
    using assms(2,3) by (simp add: GetSessionUser_def query_row_def)
  then show ?thesis using users_only(1) [OF assms(1,3)] by (simp add: Verify_def split: sum.split)
qed

lemma Verify_audit: "Verify m (srv_db (audit r tm ctx action target detail srv)) now token = Verify m (srv_db srv) now token"
  by (rule Verify_same; subst audit_db; simp)

lemma publicUser_secretless: "uPasswordHash (publicUser u) = []" "uTOTPSecret (publicUser u) = []" "uTOTPBackupCodes (publicUser u) = CodesEmpty"
  by (simp_all add: publicUser_def)

lemma handleLogin_ok:
  assumes "handleLogin env r tm (Some (name, pw)) ctx srv = ((200, BLogin token pu), srv')"
  obtains u st where "Login (env_mgr env) (env_show env) (auth_state srv) tm (env_rnd env) name pw (ClientIP r) = (Inr (u, token), st)"
    "pu = publicUser u" "srv' = audit r tm ctx ''auth.login'' (uUsername u) ''login'' (with_auth srv st)"
  using assms by (auto simp: handleLogin_def writeErr_def split: if_splits prod.splits sum.splits auth_error.splits)

text \<open>A login opens the panel: the token \<open>handleLogin\<close> returns makes every later request run as the account that gave its
  password, with that account's role, until the session expires. The user record sent to the browser holds neither the
  password hash nor anything of the second factor.\<close>

theorem login_then_request:
  assumes "jwt_ok (m_lib (env_mgr env))" "schema_ok (srv_db srv)"
    and "handleLogin env r tm (Some (name, pw)) no_ctx srv = ((200, BLogin token pu), srv')"
    and "token \<noteq> []" "\<not> HasPrefix token tokenPrefix" "bearerToken r' = token"
    and "now < parse_rfc3339 (rfc3339 (tm + m_ttl (env_mgr env)))"
  shows "(\<exists>u c. withAuth (env_mgr env) r' now next srv' = next \<lparr>ctxUser = Some u, ctxClaims = Some c\<rparr> srv' \<and>
      uUsername u = name \<and> CheckPassword (m_lib (env_mgr env)) (uPasswordHash u) pw \<and> Role c = uRole u \<and> \<not> IsImpersonating c \<and>
      pu = publicUser u) \<and>
    uPasswordHash pu = [] \<and> uTOTPSecret pu = [] \<and> uTOTPBackupCodes pu = CodesEmpty"
proof -
  obtain u st where h: "Login (env_mgr env) (env_show env) (auth_state srv) tm (env_rnd env) name pw (ClientIP r) = (Inr (u, token), st)"
    "pu = publicUser u" "srv' = audit r tm no_ctx ''auth.login'' (uUsername u) ''login'' (with_auth srv st)"
    using assms(3) by (rule handleLogin_ok)
  note L = Login_ok [OF h(1)]
  have U: "GetUserByID (srv_db srv) (uID u) = Inr u" "uUsername u = name" using by_name_by_id [of "srv_db srv"] assms(2) L(2) by auto
  let ?st = "record_attempt tm name (ClientIP r) True (auth_state srv)"
  have "GetUserByID (ast_db ?st) (uID u) = Inr u" using U(1) users_only(1) [of "ast_db ?st" "srv_db srv"] by simp
  from verify_open_session [OF assms(1) L(6) this L(4) assms(7)] obtain c where
    c: "Verify (env_mgr env) (ast_db st) now token = Inr (c, u)" "Role c = uRole u" "Impersonator c = 0" by blast
  then have "withAuth (env_mgr env) r' now next srv' = next \<lparr>ctxUser = Some u, ctxClaims = Some c\<rparr> srv'"
    using assms(4-6) by (intro withAuth_session) (simp_all add: h(3) Verify_audit)
  moreover have "\<not> IsImpersonating c" using c(3) by (simp add: IsImpersonating_def)
  ultimately show ?thesis using c(2) U(2) L(3) h(2) publicUser_secretless by blast
qed

text \<open>A server with the accounts of \<open>ex_state\<close>; its manager signs one token for \<open>alice\<close>.\<close>

definition ex_server :: "unit Server" where
  "ex_server = \<lparr>srv_db = ast_db ex_state, srv_log = [], srv_log_opens = True, srv_fails = None, srv_host = (), srv_applied = (\<lambda>_. False)\<rparr>"

abbreviation ex_alice :: User where "ex_alice \<equiv> scanUser (ex_row 2 ''alice'' RoleUser)"

definition ex_signer :: "int \<Rightarrow> Manager" where
  "ex_signer imp = ex_mgr [ex_claims (scanUser (ex_row 1 ''root'' RoleAdmin)) [9] 0 0, ex_claims ex_alice [1, 2] imp 100]"

definition ex_env :: Env where
  "ex_env = \<lparr>env_mgr = ex_signer 0, env_show = (\<lambda>_. []), env_rnd = Some [1, 2], env_codes_rnd = [], env_salts = []\<rparr>"

definition ex_request :: "string \<Rightarrow> Request" where
  "ex_request token = \<lparr>RemoteAddr = ''192.0.2.1:40000'', ForwardedFor = [], Authorization = ''Bearer '' @ token, QueryToken = [],
     PathIDText = [], URLPath = []\<rparr>"

lemma ex_signer_ok: "jwt_ok (m_lib (ex_signer imp))" "seconds 200 < parse_rfc3339 (rfc3339 (seconds 100 + m_ttl (ex_signer imp)))"
  by (simp_all add: ex_signer_def ex_mgr_def ex_lib_jwt_ok rfc3339_def parse_rfc3339_def)

lemma ex_server_auth [simp]: "auth_state ex_server = ex_state" "srv_db ex_server = ast_db ex_state"
  by (simp_all add: auth_state_def ex_server_def ex_state_def)

lemma ex_request_token [simp]: "bearerToken (ex_request token) = token"
  using TrimPrefix_append [of "''Bearer ''" token] HasPrefix_append [of "''Bearer ''" token]
  by (simp add: bearerToken_def ex_request_def)

lemma ex_token: "mint (ex_signer imp) (seconds 100) ex_alice ''0102'' imp = Some ''x''"
proof -
  have "hex_EncodeToString [1, 2] = ''0102''" by code_simp
  then show ?thesis
    by (simp add: mint_def ex_signer_def ex_mgr_def ex_lib_def ex_claims_def ex_row_def scanUser_def User.truncate_def rfc3339_def)
qed

lemma ex_session:
  "newSessionID (Some [1, 2]) = Some ''0102''" "\<exists>s'. CreateSession (ast_db (record_attempt tm n ip ok ex_state)) tm ''0102'' 2 e = Inr s'"
proof -
  show "newSessionID (Some [1, 2]) = Some ''0102''" by (simp add: newSessionID_def) code_simp
  show "\<exists>s'. CreateSession (ast_db (record_attempt tm n ip ok ex_state)) tm ''0102'' 2 e = Inr s'"
    by (simp add: CreateSession_def exec_def ex_state_def db_empty_def)
qed

theorem login_then_request_witness:
  "\<exists>pu srv'. handleLogin ex_env (ex_request []) (seconds 100) (Some (''alice'', ''pw'')) no_ctx ex_server = ((200, BLogin ''x'' pu), srv') \<and>
     (\<exists>u c. withAuth (ex_signer 0) (ex_request ''x'') (seconds 200) handleMe srv' = handleMe \<lparr>ctxUser = Some u, ctxClaims = Some c\<rparr> srv' \<and>
        uUsername u = ''alice'')"
proof -
  have ip: "ClientIP (ex_request []) = ''192.0.2.1''" by code_simp
  have u: "uID ex_alice = 2" "uStatus ex_alice = StatusActive" "\<not> uTOTPEnabled ex_alice" "uPasswordHash ex_alice = ''pw''"
    by (simp_all add: scanUser_def User.truncate_def ex_row_def)
  have g: "GetUserByUsername (ast_db ex_state) ''alice'' = Inr ex_alice" "\<not> lockedOut (ast_db ex_state) (seconds 100) ''alice'' ''192.0.2.1''"
    "CheckPassword (m_lib (ex_signer 0)) ''pw'' ''pw''"
    by (simp_all add: lockedOut_def at_least_def store_defs query_def query_row_def ex_state_def db_empty_def t_count_def t_select_def ex_row_def
      CheckPassword_def ex_signer_def ex_mgr_def ex_lib_def)
  obtain st' where "open_session (ex_signer 0) (record_attempt (seconds 100) ''alice'' ''192.0.2.1'' True ex_state) (seconds 100) (Some [1, 2]) ex_alice 0 =
      (Inr ''x'', st')"
    using ex_session ex_token [of 0] u(1) unfolding open_session_ok by metis
  then obtain srv' where h: "handleLogin ex_env (ex_request []) (seconds 100) (Some (''alice'', ''pw'')) no_ctx ex_server =
      ((200, BLogin ''x'' (publicUser ex_alice)), srv')"
    using g u by (simp add: handleLogin_def ip ex_env_def Login_def completeLogin_def Let_def)
  have e: "env_mgr ex_env = ex_signer 0" by (simp add: ex_env_def)
  have n: "\<not> HasPrefix ''x'' tokenPrefix" by (simp add: HasPrefix_def)
  have "\<exists>u c. withAuth (ex_signer 0) (ex_request ''x'') (seconds 200) handleMe srv' = handleMe \<lparr>ctxUser = Some u, ctxClaims = Some c\<rparr> srv' \<and>
      uUsername u = ''alice''"
    using login_then_request [of ex_env ex_server "ex_request []" "seconds 100" "''alice''" "''pw''" "''x''" _ srv' "ex_request ''x''" "seconds 200" handleMe]
      h ex_signer_ok ex_state_schema n unfolding e by fastforce
  with h show ?thesis by blast
qed

section \<open>Packages\<close>

text \<open>The flag a package has for a panel area.\<close>

definition grants :: "Package \<Rightarrow> string \<Rightarrow> bool" where
  "grants p feature = (feature = ''ssl'' \<and> pAllowSSL p \<or> feature = ''dns'' \<and> pAllowDNS p \<or> feature = ''terminal'' \<and> pAllowTerminal p \<or>
     feature = ''backups'' \<and> pAllowBackups p \<or> feature = ''mail'' \<and> pAllowMail p \<or> feature = ''webmail'' \<and> pAllowWebmail p \<or>
     feature = ''databases'' \<and> pAllowDatabases p \<or> feature = ''files'' \<and> pAllowFiles p \<or> feature = ''ftp'' \<and> pAllowFTP p \<or>
     feature = ''cron'' \<and> pAllowCron p \<or> feature = ''docker'' \<and> pAllowDocker p)"

lemma featuresFor_package:
  assumes "uRole u \<noteq> RoleAdmin" "uRole u \<noteq> RoleReseller" "packageFor s u = Some p"
  shows "featuresFor s u feature = grants p feature"
  using assms by (simp add: featuresFor_def grants_def)

lemma packageFor_update:
  assumes "schema_ok s" "UpdatePackage s p = Inr s'" "uPackageID u = pID p" "pID p > 0" "t_get pID (pID p) (packages s) = Some q"
  shows "packageFor s' u = Some (p\<lparr>pCreatedAt := pCreatedAt q\<rparr>)"
proof -
  have "\<not> db_down s" and pk: "packages s' = (if pIsDefault p then t_update (\<lambda>r. pID r \<noteq> pID p) (\<lambda>r. r\<lparr>pIsDefault := False\<rparr>) else id)
      (t_update (\<lambda>r. pID r = pID p) (\<lambda>r. p\<lparr>pID := pID r, pCreatedAt := pCreatedAt r\<rparr>) (packages s))" "db_down s' = db_down s"
    using assms(2) by (auto simp: UpdatePackage_def exec_unique_def clear_other_defaults_def Let_def split: if_splits)
  moreover have "pID q = pID p" using assms(5) by (auto dest: t_get_SomeD)
  ultimately have "GetPackage s' (pID p) = Inr (p\<lparr>pCreatedAt := pCreatedAt q\<rparr>)"
    using assms(5) by (simp add: GetPackage_def query_row_def pk t_get_update)
  then show ?thesis using assms(3,4) by (simp add: packageFor_def)
qed

text \<open>Changing a package takes effect on the very next request: an account on that package that is neither administrator
  nor reseller reaches a panel area exactly when the new flag grants it, and is refused with 403 otherwise, whatever the
  other packages say.\<close>

theorem plan_change_takes_effect:
  assumes "schema_ok (srv_db srv)" "UpdatePackage (srv_db srv) p = Inr s'" "uPackageID u = pID p" "pID p > 0"
    and "t_get pID (pID p) (packages (srv_db srv)) = Some q" "uRole u = RoleUser"
  shows "withFeature feature next \<lparr>ctxUser = Some u, ctxClaims = c\<rparr> (srv\<lparr>srv_db := s'\<rparr>) =
    (if grants p feature then next \<lparr>ctxUser = Some u, ctxClaims = c\<rparr> (srv\<lparr>srv_db := s'\<rparr>)
     else writeErr 403 ''your package does not include access to this feature'' (srv\<lparr>srv_db := s'\<rparr>))"
proof -
  have p: "packageFor s' u = Some (p\<lparr>pCreatedAt := pCreatedAt q\<rparr>)" using packageFor_update [OF assms(1-5)] .
  then have "featuresFor s' u feature = grants p feature"
    using featuresFor_package [of u s'] assms(6) by (simp add: grants_def)
  with p assms(6) show ?thesis by (simp add: withFeature_def packageAllows_def)
qed

theorem plan_change_takes_effect_witness:
  "\<exists>p s s'. CreatePackage db_empty 0 ex_package = Inr (p, s) \<and> UpdatePackage s (p\<lparr>pAllowDNS := False\<rparr>) = Inr s' \<and>
     withFeature ''dns'' handleMe \<lparr>ctxUser = Some ex_alice, ctxClaims = None\<rparr> (ex_server\<lparr>srv_db := s'\<rparr>) =
       writeErr 403 ''your package does not include access to this feature'' (ex_server\<lparr>srv_db := s'\<rparr>)"
proof -
  obtain p s where c: "CreatePackage db_empty 0 ex_package = Inr (p, s)" "pID p = 1" "t_get pID 1 (packages s) = Some p" "\<not> db_down s"
    by (simp add: CreatePackage_def exec_unique_def t_exists_def t_get_def clear_other_defaults_def ex_package_def db_empty_def Let_def)
  then have "schema_ok s" using reach_schema reach_steps(5) [OF reach_empty] by blast
  moreover obtain s' where u: "UpdatePackage s (p\<lparr>pAllowDNS := False\<rparr>) = Inr s'"
    using c by (auto simp: UpdatePackage_def exec_unique_def t_exists_def CreatePackage_def clear_other_defaults_def ex_package_def db_empty_def Let_def)
  moreover have "uPackageID ex_alice = 1" "uRole ex_alice = RoleUser" by (simp_all add: scanUser_def User.truncate_def ex_row_def)
  ultimately have "withFeature ''dns'' handleMe \<lparr>ctxUser = Some ex_alice, ctxClaims = None\<rparr> (ex_server\<lparr>srv_db := s\<rparr>\<lparr>srv_db := s'\<rparr>) =
       writeErr 403 ''your package does not include access to this feature'' (ex_server\<lparr>srv_db := s\<rparr>\<lparr>srv_db := s'\<rparr>)"
    using plan_change_takes_effect [of "ex_server\<lparr>srv_db := s\<rparr>" "p\<lparr>pAllowDNS := False\<rparr>" s' ex_alice p "''dns''" handleMe None] c(2,3)
    by (simp add: grants_def)
  with c(1) u show ?thesis by auto
qed

section \<open>Support sessions in the audit log\<close>

text \<open>What the audit log says of a support session. Every action an administrator takes while logged in as a user is
  recorded under the user's id and under the name \<open>user (via user)\<close>: the claims of a support token carry the user's name,
  so the administrator appears nowhere in the entry.\<close>

theorem support_session_audited_as_user:
  assumes "jwt_ok (m_lib m)" "adminID > 0" "Impersonate m (auth_state srv) tm rnd adminID targetID = (Inr token, st1)"
    and "token \<noteq> []" "\<not> HasPrefix token tokenPrefix" "bearerToken r = token" "now < parse_rfc3339 (rfc3339 (tm + m_ttl m))"
    and "GetUserByID (srv_db srv) targetID = Inr target"
    and "withAuth m r now (\<lambda>ctx s. (resp, audit r now ctx action on detail s)) (with_auth srv st1) = (resp', srv')"
  shows "\<exists>e. trows (audit_log (srv_db srv')) = trows (audit_log (srv_db srv)) @ [e] \<and> aActorID e = targetID \<and>
    aActorName e = uUsername target @ '' (via '' @ uUsername target @ '')'' \<and> aAction e = action \<and> aTarget e = on \<and> aDetail e = detail"
proof -
  obtain target' where I: "GetUserByID (srv_db srv) targetID = Inr target'" "uStatus target' \<noteq> StatusSuspended"
    "open_session m (auth_state srv) tm rnd target' adminID = (Inr token, st1)"
    using Impersonate_ok [OF assms(3)] by auto
  have t: "target' = target" "uID target = targetID" using I(1) assms(8) GetUserByID_id by simp_all
  have "GetUserByID (ast_db (auth_state srv)) (uID target) = Inr target" using assms(8) t(2) by simp
  from verify_open_session [OF assms(1) I(3) [unfolded t(1)] this I(2) [unfolded t(1)] assms(7)] obtain c where
    c: "Verify m (ast_db st1) now token = Inr (c, target)" "Username c = uUsername target" "Impersonator c = adminID" by blast
  have "withAuth m r now hd (with_auth srv st1) = hd \<lparr>ctxUser = Some target, ctxClaims = Some c\<rparr> (with_auth srv st1)" for hd
    using c(1) assms(4-6) by (intro withAuth_session) simp_all
  then have s: "srv' = audit r now \<lparr>ctxUser = Some target, ctxClaims = Some c\<rparr> action on detail (with_auth srv st1)"
    using assms(9) by simp
  have "\<not> db_down (ast_db st1)" "audit_log (ast_db st1) = audit_log (srv_db srv)"
    using I(3) by (auto simp: open_session_ok CreateSession_ok)
  then show ?thesis using c(2,3) assms(2) t(2) by (simp add: s audit_def AppendAudit_def IsImpersonating_def)
qed

theorem support_session_audited_as_user_witness:
  "\<exists>st1 resp srv' e. Impersonate (ex_signer 1) (auth_state ex_server) (seconds 100) (Some [1, 2]) 1 2 = (Inr ''x'', st1) \<and>
     withAuth (ex_signer 1) (ex_request ''x'') (seconds 200) (\<lambda>ctx s. ((200, BStatus ''ok''), audit (ex_request ''x'') (seconds 200) ctx ''dns.update'' [] [] s))
       (with_auth ex_server st1) = (resp, srv') \<and>
     trows (audit_log (srv_db srv')) = [e] \<and> aActorName e = ''alice (via alice)''"
proof -
  let ?h = "\<lambda>ctx s :: unit Server. ((200, BStatus ''ok''), audit (ex_request ''x'') (seconds 200) ctx ''dns.update'' [] [] s)"
  have g: "GetUserByID (ast_db ex_state) 1 = Inr (scanUser (ex_row 1 ''root'' RoleAdmin))" "GetUserByID (ast_db ex_state) 2 = Inr ex_alice"
    by (simp_all add: GetUserByID_def query_row_def ex_state_def db_empty_def t_get_def ex_row_def)
  have u: "uID ex_alice = 2" "uStatus ex_alice = StatusActive" "uUsername ex_alice = ''alice''" "uRole (scanUser (ex_row 1 ''root'' RoleAdmin)) = RoleAdmin"
    by (simp_all add: scanUser_def User.truncate_def ex_row_def)
  obtain s' where "CreateSession (ast_db ex_state) (seconds 100) ''0102'' 2 (seconds 100 + m_ttl (ex_signer 1)) = Inr s'"
    by (simp add: CreateSession_def exec_def ex_state_def db_empty_def)
  then obtain st1 where i: "Impersonate (ex_signer 1) ex_state (seconds 100) (Some [1, 2]) 1 2 = (Inr ''x'', st1)"
    using g u ex_session(1) ex_token [of 1] by (simp add: Impersonate_def open_session_def)
  have n: "\<not> HasPrefix ''x'' tokenPrefix" by (simp add: HasPrefix_def)
  obtain resp srv' where w: "withAuth (ex_signer 1) (ex_request ''x'') (seconds 200) ?h (with_auth ex_server st1) = (resp, srv')" by fastforce
  have "\<exists>e. trows (audit_log (srv_db srv')) = trows (audit_log (srv_db ex_server)) @ [e] \<and> aActorID e = 2 \<and>
      aActorName e = uUsername ex_alice @ '' (via '' @ uUsername ex_alice @ '')'' \<and> aAction e = ''dns.update'' \<and> aTarget e = [] \<and> aDetail e = []"
    by (rule support_session_audited_as_user [OF ex_signer_ok(1) _ _ _ n _ ex_signer_ok(2) _ w, where adminID = 1 and rnd = "Some [1, 2]"]) (use i g in simp_all)
  then obtain e where e: "trows (audit_log (srv_db srv')) = [e]" "aActorName e = ''alice (via alice)''"
    by (auto simp: u ex_state_def db_empty_def)
  with i w e show ?thesis by auto
qed

end
