(* ===== verification/Ftp_Theorems.thy ===== *)
theory Ftp_Theorems
  imports Ftp
begin

text \<open>
  What the account guards promise: an FTP login never takes over an existing system account, and the panel changes no system
  account that is not its own.
\<close>

section \<open>Paths of accounts\<close>

lemma components_Clean: "is_rooted p \<Longrightarrow> components (Clean p) = components p" "is_rooted p \<Longrightarrow> is_rooted (Clean p)"
  using components_of_plain [OF components_plain, of p] HasPrefix_append [of "''/''"] by (simp_all add: Clean_rooted)

lemma components_child:
  assumes "is_rooted r" "plain n"
  shows "components (filepath_Join [r, n]) = components r @ [n]" "is_rooted (filepath_Join [r, n])"
proof -
  have ne: "r \<noteq> []" "n \<noteq> []" using assms by (auto simp: HasPrefix_def plain_def)
  have j: "filepath_Join [r, n] = Clean (r @ ''/'' @ n)" using ne by (simp add: filepath_Join_def)
  have rt: "is_rooted (r @ ''/'' @ n)" using assms(1) by (cases r) (auto simp: HasPrefix_def)
  have "Split (CHR ''/'') (r @ ''/'' @ n) = Split (CHR ''/'') r @ [n]"
    using assms(2) by (simp add: Split_append Split_none plain_def)
  then have "components (r @ ''/'' @ n) = components r @ [n]"
    using rt assms by (simp add: clean_stack_def push_plain)
  with rt j components_Clean show "components (filepath_Join [r, n]) = components r @ [n]" "is_rooted (filepath_Join [r, n])"
    by simp_all
qed

lemma ValidUsername_plain: "ValidUsername u \<Longrightarrow> plain u"
proof -
  assume v: "ValidUsername u"
  then obtain c cs where u: "u = c # cs" "length cs \<ge> 2" "is_lower c" "list_all (\<lambda>x. is_lower x \<or> is_dec x \<or> x = CHR ''_'') cs"
    by (auto simp: ValidUsername_def split: list.splits)
  have "\<not> (is_lower (CHR ''/'') \<or> is_dec (CHR ''/'') \<or> CHR ''/'' = CHR ''_'')" "\<not> is_lower (CHR ''/'')"
    by (simp_all add: is_lower_def is_dec_def)
  then have "CHR ''/'' \<notin> set u" using u by (auto simp: list_all_iff)
  with u show "plain u" by (auto simp: plain_def)
qed

text \<open>The prefix test of the guard, on components.\<close>

lemma inside_root:
  assumes "is_rooted home" "is_rooted root" "components root \<noteq> []"
  shows "HasPrefix (Clean home @ ''/'') (Clean root @ ''/'') \<longleftrightarrow> (\<exists>cs. components home = components root @ cs)"
proof
  have ns: "list_all (\<lambda>c. CHR ''/'' \<notin> set c) (components p)" if "is_rooted p" for p
    using components_plain [OF that] by (simp add: list_all_iff plain_def)
  have sp: "Split (CHR ''/'') (Clean p @ ''/'' @ t) = [] # components p @ Split (CHR ''/'') t" if "is_rooted p" "components p \<noteq> []" for p t
    using Split_append [of "CHR ''/''" "Join ''/'' (components p)" t] Split_Join [OF ns [OF that(1)] that(2)] that by (simp add: Clean_rooted)
  assume "HasPrefix (Clean home @ ''/'') (Clean root @ ''/'')"
  then obtain t where t: "Clean home @ ''/'' = Clean root @ ''/'' @ t" by (auto simp: HasPrefix_iff)
  have "Split (CHR ''/'') (Clean home @ ''/'' @ []) = [] # components root @ Split (CHR ''/'') t"
    using t sp [OF assms(2,3), of t] by simp
  moreover have "components home \<noteq> []"
  proof
    assume "components home = []"
    then have "Clean home = ''/''" using assms(1) by (simp add: Clean_rooted)
    with t have "[[], [], []] = [] # components root @ Split (CHR ''/'') t"
      using sp [OF assms(2,3), of t] by (metis Split.simps append.assoc append_Cons append_Nil)
    then have "hd (components root) = []" using assms(3) by (cases "components root") auto
    with components_plain [OF assms(2)] assms(3) show False by (cases "components root") (auto simp: plain_def)
  qed
  ultimately have "components home @ [[]] = components root @ Split (CHR ''/'') t"
    using sp [OF assms(1), of "[]"] by simp
  then have "components home = components root @ butlast (Split (CHR ''/'') t)"
    by (metis Split_not_Nil butlast_append butlast_snoc)
  then show "\<exists>cs. components home = components root @ cs" ..
next
  assume "\<exists>cs. components home = components root @ cs"
  then obtain cs where cs: "components home = components root @ cs" ..
  have "Join ''/'' (as @ bs) @ ''/'' = Join ''/'' as @ ''/'' @ (if bs = [] then [] else Join ''/'' bs @ ''/'')" if "as \<noteq> []" for as bs
    using that by (induction "''/''" as rule: Join.induct) (cases bs; simp)+
  from this [OF assms(3), of cs] have "Clean home @ ''/'' = (Clean root @ ''/'') @ (if cs = [] then [] else Join ''/'' cs @ ''/'')"
    using assms(1,2) cs by (simp add: Clean_rooted)
  then show "HasPrefix (Clean home @ ''/'') (Clean root @ ''/'')" by (metis HasPrefix_append)
qed

section \<open>No takeover\<close>

text \<open>A customer cannot take over a system account by creating an FTP login of that name. If the account exists, then unless
  it is an ordinary account whose home is exactly the directory this login would get (a leftover of the same login), the
  creation fails and has changed neither the host nor the store. System accounts (uid below 1000) and other customers'
  accounts are therefore never touched.\<close>

theorem ftp_no_takeover:
  assumes "is_rooted homeRoot" "ValidUsername (uUsername owner)" "h_UIDFor H username h = Some uid" "is_rooted (loginHome H username h)"
    and "uid < 1000 \<or> components (loginHome H username h) \<noteq> components homeRoot @ [uUsername owner, username]"
  shows "\<exists>e. ftp_Create H lib homeRoot salt tm owner username password True s h = (Inl e, s, h)"
proof (cases "ValidUsername username")
  case False
  then show ?thesis by (simp add: ftp_Create_def Let_def provision_def)
next
  case True
  let ?home = "filepath_Join [homeRoot, uUsername owner]" and ?want = "filepath_Join [filepath_Join [homeRoot, uUsername owner], username]"
  have h: "components ?home = components homeRoot @ [uUsername owner]" "is_rooted ?home"
    using components_child [OF assms(1) ValidUsername_plain [OF assms(2)]] .
  have w: "components ?want = components ?home @ [username]" "is_rooted ?want"
    using components_child [OF h(2) ValidUsername_plain [OF True]] .
  have "components (loginHome H username h) = components ?want" if "Clean (loginHome H username h) = Clean ?want"
    using Clean_inj [OF assms(4) w(2) that] .
  then have "\<not> checkLoginReuse uid (loginHome H username h) ?want"
    using assms(5) h(1) w(1) by (auto simp: checkLoginReuse_def)
  then have "ensure_account H owner username ?want h = (Inl FtpInUse, h)" using assms(3) by (simp add: ensure_account_def)
  then show ?thesis by (simp add: ftp_Create_def Let_def provision_def)
qed

text \<open>A host with the accounts \<open>root\<close> and \<open>bob\<close> on which every action succeeds and does nothing.\<close>

definition ex_host :: "unit Host" where
  "ex_host = \<lparr>h_run = (\<lambda>_ h. (Some [], h)), h_chpasswd = (\<lambda>_ h. (None, h)),
     h_UIDFor = (\<lambda>n h. if n = ''root'' then Some 0 else if n = ''bob'' then Some 1001 else None),
     h_Lookup = (\<lambda>n h. if n = ''root'' then Some (''0'', ''/root'') else if n = ''bob'' then Some (''1001'', ''/home/bob'') else None),
     h_passwd = (\<lambda>h. None), h_group = (\<lambda>h. None), h_MkdirAll = (\<lambda>_ h. (True, h)), h_WriteFile = (\<lambda>_ _ h. (True, h)),
     h_Remove = (\<lambda>_ h. h), h_Chmod = (\<lambda>_ _ h. h), h_EnsureVsftpd = (\<lambda>h. h)\<rparr>"

definition ex_owner :: User where
  "ex_owner = \<lparr>uID = 2, uUsername = ''alice'', uEmail = [], uPasswordHash = [], uRole = RoleUser, uPackageID = 1,
     uStatus = StatusActive, uOwnerID = 0, uHomeDir = ''/home/alice'', uQuotaDiskBytes = 0, uQuotaBandwidthBytes = 0, uCreatedAt = 0,
     uUpdatedAt = 0, uTOTPSecret = [], uTOTPEnabled = False, uTOTPBackupCodes = Codes []\<rparr>"

theorem ftp_no_takeover_witness:
  "\<forall>lib salt. \<exists>e. ftp_Create ex_host lib ''/home'' salt 0 ex_owner ''bob'' ''long enough'' True db_empty () = (Inl e, db_empty, ())"
proof (intro allI, rule ftp_no_takeover)
  have "loginHome ex_host ''bob'' () = ''/home/bob''" by (simp add: loginHome_def ex_host_def)
  moreover have "is_rooted ''/home/bob''" "components ''/home/bob'' = [''home'', ''bob'']" "components ''/home'' = [''home'']" by code_simp+
  ultimately show "is_rooted (loginHome ex_host ''bob'' ())"
    "1001 < (1000 :: int) \<or> components (loginHome ex_host ''bob'' ()) \<noteq> components ''/home'' @ [uUsername ex_owner, ''bob'']" by simp_all
  show "is_rooted ''/home''" by code_simp
  show "ValidUsername (uUsername ex_owner)" by (simp add: ValidUsername_def ex_owner_def is_lower_def)
  show "h_UIDFor ex_host ''bob'' () = Some 1001" by (simp add: ex_host_def)
qed

section \<open>Only the panel's own accounts\<close>

text \<open>Changing the password of an FTP account, switching it off or on and deleting it leave a system account alone that is not
  the panel's: unless its uid is at least 1000 and its home lies inside the panel's home directory (component by component:
  \<open>/home2/x\<close> is not inside \<open>/home\<close>), the first two fail with nothing changed, and deletion removes the row and the
  per-user FTP file only.\<close>

theorem ftp_guard_confines:
  assumes "is_rooted homeRoot" "components homeRoot \<noteq> []" "is_rooted home" "h_Lookup H (fUsername acct) h = Some (uidText, home)"
    and "\<not> (\<exists>uid cs. ParseInt uidText = Some uid \<and> uid \<ge> 1000 \<and> components home = components homeRoot @ cs)"
  shows "(\<exists>e. ftp_ResetPassword H lib homeRoot salt acct password s h = (Inl e, s, h)) \<and>
    ToggleEnabled H homeRoot acct enabled s h = (Inl FtpRefused, s, h) \<and>
    snd (snd (ftp_Delete H homeRoot acct s h)) = removeUserConf H (fUsername acct) h"
proof -
  have "\<not> managedLogin H (fUsername acct) homeRoot h"
    using assms(4,5) inside_root [OF assms(3,1,2)] by (auto simp: managedLogin_def not_less split: option.splits)
  then show ?thesis by (auto simp: ftp_ResetPassword_def ToggleEnabled_def ftp_Delete_def Let_def split: sum.splits)
qed

theorem ftp_guard_confines_witness:
  "ToggleEnabled ex_host ''/home'' \<lparr>fID = 1, fUserID = 2, fUsername = ''root'', fPasswordHash = [], fHomeDir = [], fEnabled = True, fCreatedAt = 0\<rparr>
     False db_empty () = (Inl FtpRefused, db_empty, ())"
proof -
  let ?a = "\<lparr>fID = 1, fUserID = 2, fUsername = ''root'', fPasswordHash = [], fHomeDir = [], fEnabled = True, fCreatedAt = 0\<rparr>"
  have "is_rooted ''/home''" "components ''/home'' \<noteq> []" "is_rooted ''/root''" "ParseInt ''0'' = Some 0" by code_simp+
  moreover have "h_Lookup ex_host (fUsername ?a) () = Some (''0'', ''/root'')" by (simp add: ex_host_def)
  ultimately show ?thesis using ftp_guard_confines [of "''/home''" "''/root''" ex_host ?a "()" "''0''"] by simp
qed

end
