(* ===== verification/Api_Users.thy ===== *)
theory Api_Users
  imports Api Ftp
begin

text \<open>
  The account and package handlers, \<^verbatim>\<open>api/handlers_users.go\<close>. They run behind \<open>withAuth\<close> (and, but for the password
  change, \<open>withRole\<close>) and drive the store, the suspender, the system accounts and the FTP service. Deleting an account and its
  preview go through \<^verbatim>\<open>svc/purge.go\<close> and are not part of this theory.
\<close>

text \<open>What these handlers use besides \<open>Env\<close>: the host, the suspender's services (\<open>None\<close> when there is no suspender) and the
  configured root of the home directories.\<close>

record 'h UEnv = Env +
  ue_host :: "'h Host"
  ue_services :: "'h Services option"
  ue_HomeRoot :: string
  ue_salt :: string
  ue_ftp_salt :: string

definition suspender :: "'h Server \<Rightarrow> 'h Suspender" where
  "suspender srv = \<lparr>ss_db = srv_db srv, ss_host = srv_host srv, ss_applied = srv_applied srv, ss_warnings = []\<rparr>"

definition with_suspender :: "'h Server \<Rightarrow> 'h Suspender \<Rightarrow> 'h Server" where
  "with_suspender srv st = srv\<lparr>srv_db := ss_db st, srv_host := ss_host st, srv_applied := ss_applied st\<rparr>"

section \<open>Users\<close>

definition handleUsersList :: "'h handler" where
  "handleUsersList ctx srv = (case ctxUser ctx of None \<Rightarrow> panicked srv
   | Some actor \<Rightarrow> (case ListUsers (srv_db srv) (if uRole actor = RoleAdmin then 0 else uID actor) of
        Inl e \<Rightarrow> ((500, BErr (StoreErr e)), srv) | Inr us \<Rightarrow> ((200, BUsers (map publicUser us)), srv)))"

record createUserReq =
  cu_Username :: string
  cu_Email :: string
  cu_Password :: string
  cu_Role :: string
  cu_PackageID :: int

text \<open>The checks of a creation request, in their order: the refusal, or the role of the new account.\<close>

definition create_refused :: "User \<Rightarrow> db \<Rightarrow> createUserReq \<Rightarrow> (nat \<times> string) + string" where
  "create_refused actor s req =
    (let role = (if cu_Role req = [] then RoleUser else cu_Role req) in
     if \<not> ValidUsername (cu_Username req) then Inl (400, ''invalid username'')
     else if ReservedAccountName (cu_Username req) then Inl (400, ''that username is reserved; choose another'')
     else if length (cu_Password req) < 8 then Inl (400, ''password must be at least 8 characters'')
     else if role \<noteq> RoleUser \<and> role \<noteq> RoleReseller \<and> role \<noteq> RoleAdmin then Inl (400, ''invalid role'')
     else if uRole actor = RoleReseller \<and> role \<noteq> RoleUser then Inl (403, ''resellers can only create user accounts'')
     else if uRole actor \<noteq> RoleAdmin \<and> role = RoleAdmin then Inl (403, ''only admins can create admin accounts'')
     else if \<not> isl (GetUserByUsername s (cu_Username req)) then Inl (409, ''username already exists'')
     else Inr role)"

text \<open>The new record: package (the default one when none is named), home directory and the package's quotas.\<close>

definition new_user :: "string \<Rightarrow> User \<Rightarrow> db \<Rightarrow> createUserReq \<Rightarrow> string \<Rightarrow> string \<Rightarrow> User" where
  "new_user home_root actor s req role hash =
    (let pkgID = (if cu_PackageID req = 0 then (case GetDefaultPackage s of Inr pkg \<Rightarrow> pID pkg | Inl _ \<Rightarrow> 0) else cu_PackageID req);
         u = \<lparr>uID = 0, uUsername = cu_Username req, uEmail = cu_Email req, uPasswordHash = hash, uRole = role, uPackageID = pkgID,
           uStatus = StatusActive, uOwnerID = uID actor, uHomeDir = filepath_Join [home_root, cu_Username req], uQuotaDiskBytes = 0,
           uQuotaBandwidthBytes = 0, uCreatedAt = 0, uUpdatedAt = 0, uTOTPSecret = [], uTOTPEnabled = False, uTOTPBackupCodes = CodesEmpty\<rparr>
     in if pkgID > 0 then (case GetPackage s pkgID of
            Inr pkg \<Rightarrow> u\<lparr>uQuotaDiskBytes := pDiskQuotaBytes pkg, uQuotaBandwidthBytes := pBandwidthQuotaBytes pkg\<rparr> | Inl _ \<Rightarrow> u)
        else u)"

definition createSystemUser :: "'h Host \<Rightarrow> User \<Rightarrow> string \<Rightarrow> 'h \<Rightarrow> string option \<times> 'h" where
  "createSystemUser H u password h = (case ProvisionAccount H (uUsername u) (uHomeDir u) ''/sbin/nologin'' h of
     (False, h1) \<Rightarrow> (Some ''useradd'', h1) | (True, h1) \<Rightarrow> SetSystemPassword H (uUsername u) password h1)"

definition handleUsersCreate :: "'h UEnv \<Rightarrow> Request \<Rightarrow> gotime \<Rightarrow> createUserReq option \<Rightarrow> 'h handler" where
  "handleUsersCreate env r tm req ctx srv = (case req of None \<Rightarrow> bad_body srv
   | Some req \<Rightarrow> (case ctxUser ctx of None \<Rightarrow> panicked srv
   | Some actor \<Rightarrow> (case create_refused actor (srv_db srv) req of Inl (status, m) \<Rightarrow> writeErr status m srv
   | Inr role \<Rightarrow> (case HashPassword (m_lib (env_mgr env)) (ue_salt env) (cu_Password req) of None \<Rightarrow> ((500, BErr (AuthErr ErrHash)), srv)
   | Some hash \<Rightarrow>
      let u = new_user (ue_HomeRoot env) actor (srv_db srv) req role hash in
      (case createSystemUser (ue_host env) u (cu_Password req) (srv_host srv) of
         (Some e, h1) \<Rightarrow> ((500, BErr (HostErr e)), srv\<lparr>srv_host := h1\<rparr>)
       | (None, h1) \<Rightarrow> (case CreateUser (srv_db srv) tm u of
            Inl e \<Rightarrow> ((409, BErr (StoreErr e)), srv\<lparr>srv_host := h1\<rparr>)
          | Inr (u', s1) \<Rightarrow>
              (case ftp_Create (ue_host env) (m_lib (env_mgr env)) (ue_HomeRoot env) (ue_ftp_salt env) tm u' (uUsername u')
                  (cu_Password req) False s1 h1 of
                (_, s2, h2) \<Rightarrow> ((201, BUser (publicUser u')),
                  audit r tm ctx ''user.create'' (uUsername u') (''role='' @ role) (srv\<lparr>srv_db := s2, srv_host := h2\<rparr>)))))))))"

text \<open>The common start of the handlers that take an id: the account, or the refusal.\<close>

definition target_user :: "Request \<Rightarrow> Ctx \<Rightarrow> string \<Rightarrow> db \<Rightarrow> (nat \<times> string) + User \<times> User" where
  "target_user r ctx denied s = (case pathID r of Inl m \<Rightarrow> Inl (400, m)
   | Inr i \<Rightarrow> (case GetUserByID s i of Inl _ \<Rightarrow> Inl (404, ''user not found'')
   | Inr u \<Rightarrow> (case ctxUser ctx of None \<Rightarrow> Inl (500, ''internal server error'')
   | Some actor \<Rightarrow> if \<not> canManageUser actor u then Inl (403, denied) else Inr (actor, u))))"

definition handleUsersGet :: "Request \<Rightarrow> 'h handler" where
  "handleUsersGet r ctx srv = (case target_user r ctx ''cannot access this account'' (srv_db srv) of
     Inl (status, m) \<Rightarrow> writeErr status m srv | Inr (actor, u) \<Rightarrow> ((200, BUser (publicUser u)), srv))"

record updateUserReq =
  uu_Email :: "string option"
  uu_Role :: "string option"
  uu_PackageID :: "int option"
  uu_Status :: "string option"

text \<open>Applying the request to the record: the refusal, or the new record and the status to move to (empty for none).\<close>

definition update_user :: "User \<Rightarrow> db \<Rightarrow> updateUserReq \<Rightarrow> User \<Rightarrow> (nat \<times> string) + User \<times> string" where
  "update_user actor s req u =
    (let u1 = (case uu_Email req of None \<Rightarrow> u | Some e \<Rightarrow> u\<lparr>uEmail := e\<rparr>) in
     if uu_Role req \<noteq> None \<and> uRole actor \<noteq> RoleAdmin then Inl (403, ''only admins can change roles'')
     else let u2 = (case uu_Role req of None \<Rightarrow> u1 | Some role \<Rightarrow> u1\<lparr>uRole := role\<rparr>) in
       (case (case uu_PackageID req of None \<Rightarrow> Inr u2
            | Some pid \<Rightarrow> (case GetPackage s pid of Inl _ \<Rightarrow> Inl (400, ''invalid package'')
               | Inr pkg \<Rightarrow> Inr (u2\<lparr>uPackageID := pid, uQuotaDiskBytes := pDiskQuotaBytes pkg, uQuotaBandwidthBytes := pBandwidthQuotaBytes pkg\<rparr>)))
        of Inl e \<Rightarrow> Inl e
        | Inr u3 \<Rightarrow> (case uu_Status req of None \<Rightarrow> Inr (u3, [])
            | Some st \<Rightarrow>
               if st \<noteq> StatusActive \<and> st \<noteq> StatusSuspended then Inl (400, ''invalid status'')
               else let change = (if st = uStatus u3 then [] else st) in
                 if change = StatusSuspended \<and> uID u3 = uID actor then Inl (400, ''you cannot suspend your own account'')
                 else Inr (u3, change))))"

definition change_status :: "'h UEnv \<Rightarrow> gotime \<Rightarrow> User \<Rightarrow> string \<Rightarrow> 'h Server \<Rightarrow> (store_error + User) \<times> 'h Server" where
  "change_status env tm u status srv = (case ue_services env of None \<Rightarrow> (Inr u, srv)
   | Some sv \<Rightarrow> if status = [] then (Inr u, srv)
       else (case (if status = StatusSuspended then Suspend sv tm u (suspender srv) else Unsuspend sv tm u (suspender srv)) of
          (res, st) \<Rightarrow> (res, with_suspender srv st)))"

definition handleUsersUpdate :: "'h UEnv \<Rightarrow> Request \<Rightarrow> gotime \<Rightarrow> updateUserReq option \<Rightarrow> 'h handler" where
  "handleUsersUpdate env r tm req ctx srv = (case target_user r ctx ''cannot manage this account'' (srv_db srv) of
     Inl (status, m) \<Rightarrow> writeErr status m srv
   | Inr (actor, u) \<Rightarrow> (case req of None \<Rightarrow> bad_body srv
   | Some req \<Rightarrow> (case update_user actor (srv_db srv) req u of Inl (status, m) \<Rightarrow> writeErr status m srv
   | Inr (u', change) \<Rightarrow> (case UpdateUser (srv_db srv) tm u' of Inl e \<Rightarrow> ((500, BErr (StoreErr e)), srv)
   | Inr s1 \<Rightarrow> (case change_status env tm u' change (srv\<lparr>srv_db := s1\<rparr>) of
        (Inl e, srv1) \<Rightarrow> ((500, BErr (StoreErr e)), srv1)
      | (Inr u'', srv1) \<Rightarrow> ((200, BUser (publicUser u'')), audit r tm ctx ''user.update'' (uUsername u'') [] srv1))))))"

text \<open>Changing one's own password asks for the current one; managing another account does not.\<close>

definition confirm_own :: "'h UEnv \<Rightarrow> Request \<Rightarrow> gotime \<Rightarrow> User \<Rightarrow> User \<Rightarrow> string \<Rightarrow> 'h Server \<Rightarrow> (auth_error + unit) \<times> AuthState" where
  "confirm_own env r tm actor u current srv =
    (if uID actor = uID u then ConfirmPassword (env_mgr env) (env_show env) (auth_state srv) tm u current (ClientIP r)
     else (Inr (), auth_state srv))"

definition store_password :: "'h UEnv \<Rightarrow> Request \<Rightarrow> gotime \<Rightarrow> Ctx \<Rightarrow> User \<Rightarrow> string \<Rightarrow> 'h Server \<Rightarrow> response \<times> 'h Server" where
  "store_password env r tm ctx u password srv =
    (case HashPassword (m_lib (env_mgr env)) (ue_salt env) password of None \<Rightarrow> ((500, BErr (AuthErr ErrHash)), srv)
     | Some hash \<Rightarrow> (case SetUserPassword (srv_db srv) tm (uID u) hash of Inl e \<Rightarrow> ((500, BErr (StoreErr e)), srv)
       | Inr s1 \<Rightarrow>
           let s2 = ignore_err s1 (DeleteUserSessions s1 (uID u));
               h1 = snd (SetSystemPassword (ue_host env) (uUsername u) password (srv_host srv))
           in ((200, BStatus ''ok''), audit r tm ctx ''user.reset-password'' (uUsername u) [] (srv\<lparr>srv_db := s2, srv_host := h1\<rparr>))))"

definition handleUsersResetPassword :: "'h UEnv \<Rightarrow> Request \<Rightarrow> gotime \<Rightarrow> (string \<times> string) option \<Rightarrow> 'h handler" where
  "handleUsersResetPassword env r tm req ctx srv = (case target_user r ctx ''cannot manage this account'' (srv_db srv) of
     Inl (status, m) \<Rightarrow> writeErr status m srv
   | Inr (actor, u) \<Rightarrow> (case req of None \<Rightarrow> bad_body srv
   | Some (password, current) \<Rightarrow>
      if length password < 8 then writeErr 400 ''password must be at least 8 characters'' srv
      else case confirm_own env r tm actor u current srv of
        (Inl ErrLockedOut, st) \<Rightarrow> ((429, BErr (AuthErr ErrLockedOut)), with_auth srv st)
      | (Inl e, st) \<Rightarrow> writeErr 403 ''your current password is required and must be correct'' (with_auth srv st)
      | (Inr _, st) \<Rightarrow> store_password env r tm ctx u password (with_auth srv st)))"

definition handleUsersSuspend :: "'h UEnv \<Rightarrow> Request \<Rightarrow> gotime \<Rightarrow> 'h handler" where
  "handleUsersSuspend env r tm ctx srv = (case target_user r ctx ''cannot manage this account'' (srv_db srv) of
     Inl (status, m) \<Rightarrow> writeErr status m srv
   | Inr (actor, u) \<Rightarrow> (case ue_services env of None \<Rightarrow> writeErr 503 ''suspension is not available'' srv
   | Some sv \<Rightarrow>
      let lift = HasSuffix (URLPath r) ''/unsuspend''; status = (if lift then StatusActive else StatusSuspended) in
      if \<not> lift \<and> uID u = uID actor then writeErr 400 ''you cannot suspend your own account'' srv
      else case (if lift then Unsuspend sv tm u (suspender srv) else Suspend sv tm u (suspender srv)) of
        (Inl e, st) \<Rightarrow> ((500, BErr (StoreErr e)), with_suspender srv st)
      | (Inr u', st) \<Rightarrow> ((200, BDone status (ss_warnings st)),
          audit r tm ctx (''user.'' @ status) (uUsername u') [] (with_suspender srv st))))"

section \<open>Packages\<close>

definition handlePackagesList :: "'h handler" where
  "handlePackagesList ctx srv = (case ListPackages (srv_db srv) of
     Inl e \<Rightarrow> ((500, BErr (StoreErr e)), srv) | Inr pkgs \<Rightarrow> ((200, BPackages pkgs), srv))"

definition handlePackagesCreate :: "Request \<Rightarrow> gotime \<Rightarrow> Package option \<Rightarrow> 'h handler" where
  "handlePackagesCreate r tm req ctx srv = (case req of None \<Rightarrow> bad_body srv
   | Some p \<Rightarrow> if pName p = [] then writeErr 400 ''package name is required'' srv
       else case CreatePackage (srv_db srv) tm p of Inl e \<Rightarrow> ((409, BErr (StoreErr e)), srv)
         | Inr (p', s') \<Rightarrow> ((201, BPackage p'), audit r tm ctx ''package.create'' (pName p') [] (srv\<lparr>srv_db := s'\<rparr>)))"

text \<open>The body is decoded onto the stored package, so the request is a function on packages.\<close>

definition handlePackagesUpdate :: "Request \<Rightarrow> gotime \<Rightarrow> (Package \<Rightarrow> Package) option \<Rightarrow> 'h handler" where
  "handlePackagesUpdate r tm req ctx srv = (case pathID r of Inl m \<Rightarrow> writeErr 400 m srv
   | Inr i \<Rightarrow> (case GetPackage (srv_db srv) i of Inl _ \<Rightarrow> writeErr 404 ''package not found'' srv
   | Inr pkg \<Rightarrow> (case req of None \<Rightarrow> bad_body srv
   | Some decode \<Rightarrow> (case UpdatePackage (srv_db srv) (decode pkg) of Inl e \<Rightarrow> ((500, BErr (StoreErr e)), srv)
       | Inr s' \<Rightarrow> ((200, BPackage (decode pkg)), audit r tm ctx ''package.update'' (pName (decode pkg)) [] (srv\<lparr>srv_db := s'\<rparr>))))))"

definition handlePackagesDelete :: "Request \<Rightarrow> gotime \<Rightarrow> 'h handler" where
  "handlePackagesDelete r tm ctx srv = (case pathID r of Inl m \<Rightarrow> writeErr 400 m srv
   | Inr i \<Rightarrow> (case GetPackage (srv_db srv) i of Inl _ \<Rightarrow> writeErr 404 ''package not found'' srv
   | Inr pkg \<Rightarrow> (case DeletePackage (srv_db srv) i of Inl e \<Rightarrow> ((409, BErr (StoreErr e)), srv)
       | Inr s' \<Rightarrow> ((200, BStatus ''ok''), audit r tm ctx ''package.delete'' (pName pkg) [] (srv\<lparr>srv_db := s'\<rparr>)))))"

end
