(* ===== verification/Users_Theorems.thy ===== *)
theory Users_Theorems
  imports Api_Users Api_Theorems Suspend_Theorems Ftp_Theorems
begin

text \<open>
  Properties of the account handlers: a reseller stays within the accounts it owns and cannot hand out roles, a password change
  is authorised and ends the sessions of the account, and what the standard input of \<open>chpasswd\<close> allows.
\<close>

section \<open>What the handlers do to the table of users\<close>

text \<open>The requests of the account handlers.\<close>

datatype user_call = UCreate "createUserReq option" | UUpdate "updateUserReq option" | UReset "(string \<times> string) option" | USuspend

fun serve_user :: "'h UEnv \<Rightarrow> Request \<Rightarrow> gotime \<Rightarrow> user_call \<Rightarrow> 'h handler" where
  "serve_user env r tm (UCreate req) = handleUsersCreate env r tm req"
| "serve_user env r tm (UUpdate req) = handleUsersUpdate env r tm req"
| "serve_user env r tm (UReset req) = handleUsersResetPassword env r tm req"
| "serve_user env r tm USuspend = handleUsersSuspend env r tm"

text \<open>From the point of view of the account \<open>a\<close>: every row that is neither its own nor owned by it is kept as it is, and no row
  has a new role or owner, except new accounts with role \<open>user\<close> owned by \<open>a\<close>.\<close>

definition confined :: "int \<Rightarrow> db \<Rightarrow> db \<Rightarrow> bool" where
  "confined a s s' \<longleftrightarrow>
    (\<forall>r\<in>set (trows (users s)). uOwnerID r \<noteq> a \<and> uID r \<noteq> a \<longrightarrow> r \<in> set (trows (users s'))) \<and>
    (\<forall>r'\<in>set (trows (users s')). (\<exists>r\<in>set (trows (users s)). uID r = uID r' \<and> uRole r = uRole r' \<and> uOwnerID r = uOwnerID r') \<or>
       uRole r' = RoleUser \<and> uOwnerID r' = a)"

lemma confined_same: "users s' = users s \<Longrightarrow> confined a s s'"
  by (auto simp: confined_def)

lemma confined_trans: "confined a s s' \<Longrightarrow> confined a s' s'' \<Longrightarrow> confined a s s''"
  unfolding confined_def by metis

lemma confined_update:
  assumes "users s' = t_update (\<lambda>r. uID r = i) f (users s)"
    and "\<And>r. r \<in> set (trows (users s)) \<Longrightarrow> uID r = i \<Longrightarrow>
      (uOwnerID r = a \<or> uID r = a) \<and> uID (f r) = uID r \<and> uRole (f r) = uRole r \<and> uOwnerID (f r) = uOwnerID r"
  shows "confined a s s'"
  unfolding confined_def assms(1) trows_simps set_map
proof (intro conjI ballI impI)
  fix r assume "r \<in> set (trows (users s))" "uOwnerID r \<noteq> a \<and> uID r \<noteq> a"
  with assms(2) show "r \<in> (\<lambda>r. if uID r = i then f r else r) ` set (trows (users s))" by (intro rev_image_eqI) auto
next
  fix r' assume "r' \<in> (\<lambda>r. if uID r = i then f r else r) ` set (trows (users s))"
  then obtain r where "r \<in> set (trows (users s))" "r' = (if uID r = i then f r else r)" by auto
  then show "(\<exists>r\<in>set (trows (users s)). uID r = uID r' \<and> uRole r = uRole r' \<and> uOwnerID r = uOwnerID r') \<or>
      uRole r' = RoleUser \<and> uOwnerID r' = a" using assms(2) [of r] by (intro disjI1 bexI [of _ r]) auto
qed

lemma audit_users [simp]: "users (srv_db (audit r tm ctx action target detail srv)) = users (srv_db srv)"
  by (subst audit_db) simp

text \<open>The account an id handler acts on.\<close>

lemma target_user_ok:
  assumes "target_user r ctx denied s = Inr (actor, u)"
  shows "ctxUser ctx = Some actor" "canManageUser actor u" "GetUserByID s (uID u) = Inr u" "pathID r = Inr (uID u)"
proof -
  obtain i where i: "pathID r = Inr i" "GetUserByID s i = Inr u" "ctxUser ctx = Some actor" "canManageUser actor u"
    using assms by (auto simp: target_user_def split: sum.splits option.splits if_splits)
  then have "uID u = i" using GetUserByID_id by blast
  with i show "ctxUser ctx = Some actor" "canManageUser actor u" "GetUserByID s (uID u) = Inr u" "pathID r = Inr (uID u)" by simp_all
qed

lemma GetUserByID_row:
  assumes "GetUserByID s i = Inr u"
  obtains row where "t_get uID i (users s) = Some row" "u = scanUser row" "\<not> db_down s"
  using assms by (cases "t_get uID i (users s)") (auto simp: GetUserByID_def query_row_def split: if_splits)

lemma managed_row:
  assumes "schema_ok s" "GetUserByID s (uID u) = Inr u" "canManageUser actor u" "uRole actor = RoleReseller" "r \<in> set (trows (users s))" "uID r = uID u"
  shows "uOwnerID r = uID actor \<or> uID r = uID actor" "uRole r = uRole u" "uOwnerID r = uOwnerID u"
proof -
  have "t_get uID (uID u) (users s) = Some r" using t_get_Some_iff [OF schema_okD(3) [OF assms(1)]] assms(5,6) by simp
  then have u: "u = scanUser r" using assms(2) by (simp add: GetUserByID_def query_row_def split: if_splits)
  then show "uRole r = uRole u" "uOwnerID r = uOwnerID u" by (simp_all add: scanUser_def User.truncate_def)
  with assms(3,4,6) show "uOwnerID r = uID actor \<or> uID r = uID actor" by (auto simp: canManageUser_def)
qed

lemma suspender_sel [simp]: "ss_db (suspender srv) = srv_db srv" "srv_db (with_suspender srv st) = ss_db st"
  by (simp_all add: suspender_def with_suspender_def)

lemma status_users:
  assumes "(if suspend then Suspend sv tm u st else Unsuspend sv tm u st) = (res, st')"
  shows "users (ss_db st') = users (ss_db st) \<or>
    users (ss_db st') = t_update (\<lambda>r. uID r = uID u)
      (\<lambda>r. r\<lparr>uStatus := (if suspend then StatusSuspended else StatusActive), uUpdatedAt := rfc3339 tm, uSuspendedByQuota := False\<rparr>) (users (ss_db st))"
proof (cases "db_down (ss_db st)")
  case True
  then show ?thesis using assms by (auto simp: Suspend_def Unsuspend_def SetUserStatus_def set_user_def exec_def split: if_splits)
next
  case False
  then show ?thesis
    using assms Suspend_db [OF False, of sv tm u] Unsuspend_db [OF False, of sv tm u] by (auto simp: users_sel split: if_splits)
qed

lemma suspend_confined:
  assumes "schema_ok (ss_db st)" "GetUserByID (ss_db st) (uID u) = Inr v" "uID v = uID u" "canManageUser actor v" "uRole actor = RoleReseller"
    and "(if suspend then Suspend sv tm u st else Unsuspend sv tm u st) = (res, st')"
  shows "confined (uID actor) (ss_db st) (ss_db st')"
  using status_users [OF assms(6)]
proof
  assume "users (ss_db st') = t_update (\<lambda>r. uID r = uID u)
      (\<lambda>r. r\<lparr>uStatus := (if suspend then StatusSuspended else StatusActive), uUpdatedAt := rfc3339 tm, uSuspendedByQuota := False\<rparr>) (users (ss_db st))"
  then show ?thesis
    by (rule confined_update) (use managed_row(1) [OF assms(1) _ assms(4,5)] assms(2,3) in \<open>auto\<close>)
qed (rule confined_same)

lemma ftp_users:
  assumes "ftp_Create H lib root salt tm owner n pw extra s h = (res, s', h')"
  shows "users s' = users s"
  using assms by (auto simp: ftp_Create_def provision_def finish_account_def CreateFTPAccount_def Let_def bindR_def exec_unique_def exec_def
      split: if_splits sum.splits option.splits prod.splits bool.splits)

section \<open>Resellers\<close>

lemma new_user_row:
  assumes "create_refused actor s req = Inr role" "uRole actor = RoleReseller" "CreateUser s tm (new_user root actor s req role hash) = Inr (u', s1)"
  shows "confined (uID actor) s s1"
proof -
  let ?u = "new_user root actor s req role hash"
  have "role = RoleUser" using assms(1,2) by (auto simp: create_refused_def Let_def split: if_splits)
  then have u: "uRole ?u = RoleUser" "uOwnerID ?u = uID actor" by (auto simp: new_user_def Let_def split: sum.splits)
  obtain row where "trows (users s1) = trows (users s) @ [row]" "uRole row = uRole ?u" "uOwnerID row = uOwnerID ?u"
    using assms(3) by (auto simp: CreateUser_def exec_unique_def Let_def split: if_splits)
  with u show ?thesis by (auto simp: confined_def)
qed

lemma create_confined:
  assumes "ctxUser ctx = Some actor" "uRole actor = RoleReseller" "handleUsersCreate env r tm (Some req) ctx srv = (resp, srv')"
  shows "confined (uID actor) (srv_db srv) (srv_db srv')"
proof (cases "create_refused actor (srv_db srv) req")
  case (Inl p)
  then show ?thesis using assms by (cases p) (auto simp: handleUsersCreate_def writeErr_def intro: confined_same)
next
  case role: (Inr role)
  show ?thesis
  proof (cases "HashPassword (m_lib (env_mgr env)) (ue_salt env) (cu_Password req)")
    case None
    then show ?thesis using assms role by (auto simp: handleUsersCreate_def intro: confined_same)
  next
    case hash: (Some hash)
    let ?u = "new_user (ue_HomeRoot env) actor (srv_db srv) req role hash"
    obtain e h1 where sys: "createSystemUser (ue_host env) ?u (cu_Password req) (srv_host srv) = (e, h1)" by fastforce
    show ?thesis
    proof (cases "e = None \<and> \<not> isl (CreateUser (srv_db srv) tm ?u)")
      case True
      then obtain u' s1 where c: "CreateUser (srv_db srv) tm ?u = Inr (u', s1)" by (cases "CreateUser (srv_db srv) tm ?u") auto
      obtain x s2 h2 where f: "ftp_Create (ue_host env) (m_lib (env_mgr env)) (ue_HomeRoot env) (ue_ftp_salt env) tm u' (uUsername u')
          (cu_Password req) False s1 h1 = (x, s2, h2)" by (cases "ftp_Create (ue_host env) (m_lib (env_mgr env)) (ue_HomeRoot env)
          (ue_ftp_salt env) tm u' (uUsername u') (cu_Password req) False s1 h1") auto
      have "users (srv_db srv') = users s1"
        using assms role hash sys True c f ftp_users [OF f] by (auto simp: handleUsersCreate_def Let_def)
      with new_user_row [OF role assms(2) c] show ?thesis by (simp add: confined_def)
    next
      case False
      with assms role hash sys show ?thesis
        by (cases e; cases "CreateUser (srv_db srv) tm ?u") (auto simp: handleUsersCreate_def Let_def intro: confined_same)
    qed
  qed
qed

lemma update_user_role:
  assumes "update_user actor s req u = Inr (u', change)" "uRole actor = RoleReseller"
  shows "uID u' = uID u" "uRole u' = uRole u" "uOwnerID u' = uOwnerID u"
  using assms by (auto simp: update_user_def Let_def split: option.splits sum.splits if_splits)

lemma change_status_confined:
  assumes "schema_ok (srv_db srv)" "GetUserByID (srv_db srv) (uID u) = Inr v" "canManageUser actor v" "uRole actor = RoleReseller"
    and "change_status env tm u change srv = (res, srv')"
  shows "confined (uID actor) (srv_db srv) (srv_db srv')"
proof (cases "change = [] \<or> ue_services env = None")
  case True
  then show ?thesis using assms(5) by (auto simp: change_status_def split: option.splits intro: confined_same)
next
  case False
  then obtain sv st where "(if change = StatusSuspended then Suspend sv tm u (suspender srv) else Unsuspend sv tm u (suspender srv)) = (res, st)"
      "srv' = with_suspender srv st"
    using assms(5) by (auto simp: change_status_def split: prod.splits)
  then show ?thesis using suspend_confined [of "suspender srv" u v actor] assms GetUserByID_id by simp
qed

lemma UpdateUser_users:
  assumes "UpdateUser s tm u = Inr s'"
  shows "users s' = t_update (\<lambda>r. uID r = uID u) (\<lambda>r. r\<lparr>uEmail := uEmail u, uRole := uRole u, uPackageID := uPackageID u,
        uStatus := uStatus u, uHomeDir := uHomeDir u, uQuotaDiskBytes := uQuotaDiskBytes u,
        uQuotaBandwidthBytes := uQuotaBandwidthBytes u, uUpdatedAt := rfc3339 tm\<rparr>) (users s)" "db_down s' = db_down s"
  using assms by (auto simp: UpdateUser_def)

lemma update_confined:
  assumes "schema_ok (srv_db srv)" "uRole actor = RoleReseller" "target_user r ctx ''cannot manage this account'' (srv_db srv) = Inr (actor, u)"
    and "update_user actor (srv_db srv) req u = Inr (u', change)" "UpdateUser (srv_db srv) tm u' = Inr s1"
    and "change_status env tm u' change (srv\<lparr>srv_db := s1\<rparr>) = (res, srv')"
  shows "confined (uID actor) (srv_db srv) (srv_db srv')"
proof -
  note T = target_user_ok [OF assms(3)] and R = update_user_role [OF assms(4,2)] and S = UpdateUser_users [OF assms(5)]
  have c1: "confined (uID actor) (srv_db srv) s1"
    by (rule confined_update [OF S(1)]) (use managed_row [OF assms(1) T(3,2) assms(2)] R in auto)
  obtain row where row: "t_get uID (uID u) (users (srv_db srv)) = Some row" "u = scanUser row" "\<not> db_down (srv_db srv)"
    using T(3) by (rule GetUserByID_row)
  then obtain v where v: "GetUserByID s1 (uID u') = Inr v" "uID v = uID u" "uOwnerID v = uOwnerID u"
    using R S by (auto simp: GetUserByID_def query_row_def t_get_update scanUser_def User.truncate_def dest: t_get_SomeD)
  have "canManageUser actor v" using T(2) v assms(2) by (simp add: canManageUser_def)
  moreover have "schema_ok s1" using schema_step [OF st_UpdateUser] assms(1,5) by blast
  ultimately have "confined (uID actor) s1 (srv_db srv')"
    using change_status_confined [of "srv\<lparr>srv_db := s1\<rparr>" u' v actor env tm change res srv'] v(1) assms(2,6) by simp
  with c1 show ?thesis by (rule confined_trans)
qed

lemma handleUsersUpdate_confined:
  assumes "schema_ok (srv_db srv)" "ctxUser ctx = Some actor" "uRole actor = RoleReseller" "handleUsersUpdate env r tm (Some req) ctx srv = (resp, srv')"
  shows "confined (uID actor) (srv_db srv) (srv_db srv')"
proof (cases "target_user r ctx ''cannot manage this account'' (srv_db srv)")
  case (Inl p)
  then show ?thesis using assms(4) by (cases p) (auto simp: handleUsersUpdate_def writeErr_def intro: confined_same)
next
  case (Inr p)
  then obtain u where t: "target_user r ctx ''cannot manage this account'' (srv_db srv) = Inr (actor, u)"
    using target_user_ok(1) assms(2) by (cases p) fastforce
  show ?thesis
  proof (cases "update_user actor (srv_db srv) req u")
    case (Inl q)
    with t show ?thesis using assms(4) by (cases q) (auto simp: handleUsersUpdate_def writeErr_def intro: confined_same)
  next
    case (Inr q)
    then obtain u' change where q: "update_user actor (srv_db srv) req u = Inr (u', change)" by (cases q) auto
    show ?thesis
    proof (cases "UpdateUser (srv_db srv) tm u'")
      case (Inl e)
      with t q show ?thesis using assms(4) by (auto simp: handleUsersUpdate_def intro: confined_same)
    next
      case s1: (Inr s1)
      obtain res srv1 where c: "change_status env tm u' change (srv\<lparr>srv_db := s1\<rparr>) = (res, srv1)" by fastforce
      have "users (srv_db srv') = users (srv_db srv1)"
        using assms(4) t q s1 c by (cases res) (auto simp: handleUsersUpdate_def)
      with update_confined [OF assms(1,3) t q s1 c] show ?thesis by (simp add: confined_def)
    qed
  qed
qed

lemma suspend_handler_confined:
  assumes "schema_ok (srv_db srv)" "ctxUser ctx = Some actor" "uRole actor = RoleReseller" "handleUsersSuspend env r tm ctx srv = (resp, srv')"
  shows "confined (uID actor) (srv_db srv) (srv_db srv')"
proof (cases "target_user r ctx ''cannot manage this account'' (srv_db srv)")
  case (Inl p)
  then show ?thesis using assms(4) by (cases p) (auto simp: handleUsersSuspend_def writeErr_def intro: confined_same)
next
  case (Inr p)
  then obtain u where t: "target_user r ctx ''cannot manage this account'' (srv_db srv) = Inr (actor, u)"
    using target_user_ok(1) assms(2) by (cases p) fastforce
  let ?lift = "HasSuffix (URLPath r) ''/unsuspend''"
  show ?thesis
  proof (cases "ue_services env = None \<or> (\<not> ?lift \<and> uID u = uID actor)")
    case True
    with t show ?thesis using assms(4) by (auto simp: handleUsersSuspend_def writeErr_def Let_def split: option.splits intro: confined_same)
  next
    case False
    then obtain sv where sv: "ue_services env = Some sv" by auto
    obtain res st where s: "(if \<not> ?lift then Suspend sv tm u (suspender srv) else Unsuspend sv tm u (suspender srv)) = (res, st)" by fastforce
    then have "users (srv_db srv') = users (ss_db st)"
      using assms(4) t sv False by (cases ?lift; cases res) (auto simp: handleUsersSuspend_def Let_def)
    moreover have "confined (uID actor) (srv_db srv) (ss_db st)"
      using suspend_confined [OF _ _ _ _ _ s, of u actor] target_user_ok(2,3) [OF t] assms(1,3) by simp
    ultimately show ?thesis by (simp add: confined_def)
  qed
qed

section \<open>Password changes\<close>

lemma ConfirmPassword_cases:
  assumes "ConfirmPassword m show_time st tm u pw ip = (res, st')"
  shows "users (ast_db st') = users (ast_db st)" "sessions (ast_db st') = sessions (ast_db st)"
    "res = Inr () \<Longrightarrow> st' = st \<and> CheckPassword (m_lib m) (uPasswordHash u) pw"
  using assms by (auto simp: ConfirmPassword_def split: if_splits)

lemma confirmed_cases:
  assumes "(if own then ConfirmPassword m show_time (auth_state srv) tm u pw ip else (Inr (), auth_state srv)) = (res, st)"
  shows "users (ast_db st) = users (srv_db srv)" "sessions (ast_db st) = sessions (srv_db srv)"
    "res = Inr () \<Longrightarrow> st = auth_state srv \<and> (own \<longrightarrow> CheckPassword (m_lib m) (uPasswordHash u) pw)"
proof -
  have own: "ConfirmPassword m show_time (auth_state srv) tm u pw ip = (res, st)" if own using assms that by (simp only: if_True)
  have other: "res = Inr () \<and> st = auth_state srv" if "\<not> own" using assms that by (simp only: if_False prod.inject)
  show "users (ast_db st) = users (srv_db srv)" "sessions (ast_db st) = sessions (srv_db srv)"
    using ConfirmPassword_cases(1,2) [OF own] other by (metis auth_state_sel(1))+
  show "st = auth_state srv \<and> (own \<longrightarrow> CheckPassword (m_lib m) (uPasswordHash u) pw)" if "res = Inr ()"
    using that ConfirmPassword_cases(3) [OF own] other by blast
qed

text \<open>What the handler has done when it has done anything: a password of at least 8 characters, confirmed with the current one by
  the account itself, the new hash in the row, no session left, the password handed to the host.\<close>

definition password_changed :: "'h UEnv \<Rightarrow> gotime \<Rightarrow> User \<Rightarrow> User \<Rightarrow> string \<Rightarrow> string \<Rightarrow> 'h Server \<Rightarrow> 'h Server \<Rightarrow> bool" where
  "password_changed env tm actor u pw current srv srv' \<longleftrightarrow>
    canManageUser actor u \<and> 8 \<le> length pw \<and>
    (uID actor = uID u \<longrightarrow> CheckPassword (m_lib (env_mgr env)) (uPasswordHash u) current) \<and>
    (\<exists>hash. bcryptGenerate (m_lib (env_mgr env)) (ue_salt env) pw = Some hash \<and>
      users (srv_db srv') = t_update (\<lambda>r. uID r = uID u) (\<lambda>r. r\<lparr>uPasswordHash := hash, uUpdatedAt := rfc3339 tm\<rparr>) (users (srv_db srv))) \<and>
    sessions (srv_db srv') = filter (\<lambda>x. sUserID x \<noteq> uID u) (sessions (srv_db srv)) \<and>
    srv_host srv' = snd (h_chpasswd (ue_host env) (chpasswd_input (uUsername u) pw) (srv_host srv))"

lemma audit_sel [simp]: "sessions (srv_db (audit r tm ctx action target detail srv)) = sessions (srv_db srv)"
  "srv_host (audit r tm ctx action target detail srv) = srv_host srv"
  by (subst audit_db, simp) (simp add: audit_def Let_def split: prod.splits)

lemma with_auth_host [simp]: "srv_host (with_auth srv st) = srv_host srv"
  by (simp add: with_auth_def)

lemma store_password_cases:
  assumes "store_password env r tm ctx u pw srv = (resp, srv')" "canManageUser actor u" "8 \<le> length pw"
    "uID actor = uID u \<longrightarrow> CheckPassword (m_lib (env_mgr env)) (uPasswordHash u) current"
  shows "srv' = srv \<and> fst resp \<noteq> 200 \<or> password_changed env tm actor u pw current srv srv'"
proof (cases "db_down (srv_db srv) \<or> HashPassword (m_lib (env_mgr env)) (ue_salt env) pw = None")
  case True
  then show ?thesis using assms(1) by (auto simp: store_password_def SetUserPassword_def set_user_def exec_def split: option.splits)
next
  case False
  then obtain hash where h: "HashPassword (m_lib (env_mgr env)) (ue_salt env) pw = Some hash" and up: "\<not> db_down (srv_db srv)" by auto
  let ?s1 = "(srv_db srv)\<lparr>users := t_update (\<lambda>r. uID r = uID u) (\<lambda>r. r\<lparr>uPasswordHash := hash, uUpdatedAt := rfc3339 tm\<rparr>) (users (srv_db srv))\<rparr>"
  have "SetUserPassword (srv_db srv) tm (uID u) hash = Inr ?s1"
    "ignore_err ?s1 (DeleteUserSessions ?s1 (uID u)) = ?s1\<lparr>sessions := filter (\<lambda>x. sUserID x \<noteq> uID u) (sessions (srv_db srv))\<rparr>"
    using up by (simp_all add: SetUserPassword_def set_user_def DeleteUserSessions_def exec_def)
  then have "users (srv_db srv') = users ?s1" "sessions (srv_db srv') = filter (\<lambda>x. sUserID x \<noteq> uID u) (sessions (srv_db srv))"
      "srv_host srv' = snd (SetSystemPassword (ue_host env) (uUsername u) pw (srv_host srv))"
    using assms(1) h by (auto simp: store_password_def Let_def)
  then have "password_changed env tm actor u pw current srv srv'"
    using h assms(2-4) by (simp add: password_changed_def SetSystemPassword_def HashPassword_def)
  then show ?thesis ..
qed

lemma with_auth_id [simp]: "with_auth srv (auth_state srv) = srv"
  by (simp add: with_auth_def auth_state_def)

lemma reset_cases:
  assumes "handleUsersResetPassword env r tm (Some (pw, current)) ctx srv = (resp, srv')"
  shows "(users (srv_db srv') = users (srv_db srv) \<and> sessions (srv_db srv') = sessions (srv_db srv) \<and> srv_host srv' = srv_host srv \<and> fst resp \<noteq> 200) \<or>
    (\<exists>actor u. target_user r ctx ''cannot manage this account'' (srv_db srv) = Inr (actor, u) \<and> password_changed env tm actor u pw current srv srv')"
proof (cases "target_user r ctx ''cannot manage this account'' (srv_db srv)")
  case (Inl p)
  then show ?thesis using assms by (cases p) (auto simp: handleUsersResetPassword_def writeErr_def target_user_def pathID_def
      split: sum.splits option.splits if_splits)
next
  case (Inr p)
  then obtain actor u where t: "target_user r ctx ''cannot manage this account'' (srv_db srv) = Inr (actor, u)" by (cases p) auto
  obtain res st where c: "confirm_own env r tm actor u current srv = (res, st)" by fastforce
  note C = confirmed_cases [OF c [unfolded confirm_own_def]]
  show ?thesis
  proof (cases "8 \<le> length pw \<and> res = Inr ()")
    case True
    then have "store_password env r tm ctx u pw srv = (resp, srv')" using assms t c C(3) by (simp add: handleUsersResetPassword_def)
    from store_password_cases [OF this target_user_ok(2) [OF t]] True C(3) t show ?thesis by blast
  next
    case False
    then have "srv' \<in> {srv, with_auth srv st} \<and> fst resp \<noteq> 200"
      using assms t c by (cases res) (auto simp: handleUsersResetPassword_def writeErr_def split: auth_error.splits if_splits)
    with C(1,2) show ?thesis by auto
  qed
qed

text \<open>C15: A password changes only with authority. When the handler changes anything at all, the acting user manages the account
  and, if it is their own, has given its current password; the account then has the new hash and no session is left, so
  every token of it is dead. Otherwise rows, sessions and the host are as they were and the answer is an error.\<close>

theorem password_change_authorised:
  "(users (srv_db (snd (handleUsersResetPassword env r tm (Some (pw, current)) ctx srv))) = users (srv_db srv) \<and>
    sessions (srv_db (snd (handleUsersResetPassword env r tm (Some (pw, current)) ctx srv))) = sessions (srv_db srv) \<and>
    srv_host (snd (handleUsersResetPassword env r tm (Some (pw, current)) ctx srv)) = srv_host srv \<and>
    fst (fst (handleUsersResetPassword env r tm (Some (pw, current)) ctx srv)) \<noteq> 200) \<or>
   (\<exists>actor u. ctxUser ctx = Some actor \<and> GetUserByID (srv_db srv) (uID u) = Inr u \<and>
      password_changed env tm actor u pw current srv (snd (handleUsersResetPassword env r tm (Some (pw, current)) ctx srv)))"
proof -
  obtain resp srv' where h: "handleUsersResetPassword env r tm (Some (pw, current)) ctx srv = (resp, srv')" by fastforce
  from reset_cases [OF h] target_user_ok show ?thesis unfolding h by fastforce
qed

section \<open>The reseller's reach\<close>

lemma no_body: "srv_db (snd (bad_body srv)) = srv_db srv" "srv_db (snd (writeErr n m srv)) = srv_db srv" "srv_db (snd (panicked srv)) = srv_db srv"
  by (simp_all add: bad_body_def writeErr_def panicked_def)

lemma reset_confined:
  assumes "schema_ok (srv_db srv)" "ctxUser ctx = Some actor" "uRole actor = RoleReseller"
    and "handleUsersResetPassword env r tm (Some (pw, current)) ctx srv = (resp, srv')"
  shows "confined (uID actor) (srv_db srv) (srv_db srv')"
  using reset_cases [OF assms(4)]
proof
  assume "\<exists>actor u. target_user r ctx ''cannot manage this account'' (srv_db srv) = Inr (actor, u) \<and> password_changed env tm actor u pw current srv srv'"
  then obtain u where t: "target_user r ctx ''cannot manage this account'' (srv_db srv) = Inr (actor, u)"
      and p: "password_changed env tm actor u pw current srv srv'"
    using target_user_ok(1) assms(2) by fastforce
  from p obtain hash where "users (srv_db srv') =
      t_update (\<lambda>r. uID r = uID u) (\<lambda>r. r\<lparr>uPasswordHash := hash, uUpdatedAt := rfc3339 tm\<rparr>) (users (srv_db srv))"
    by (auto simp: password_changed_def)
  then show ?thesis
    by (rule confined_update) (use managed_row(1) [OF assms(1) target_user_ok(3,2) [OF t] assms(3)] in auto)
qed (simp add: confined_same)

text \<open>C14: A reseller stays within its own accounts. Whatever a reseller asks of the handlers that create, change, re-password,
  suspend and restore accounts, the rows of accounts it neither is nor owns stay as they are, nobody's role or owner changes,
  and the only accounts that appear have the role \<open>user\<close> and belong to that reseller.\<close>

theorem reseller_confined:
  assumes "schema_ok (srv_db srv)" "ctxUser ctx = Some actor" "uRole actor = RoleReseller"
  shows "confined (uID actor) (srv_db srv) (srv_db (snd (serve_user env r tm call ctx srv)))"
proof (cases call)
  case (UCreate req)
  then show ?thesis
    using create_confined [OF assms(2,3), where srv' = "snd (serve_user env r tm call ctx srv)"]
    by (cases req) (simp add: handleUsersCreate_def no_body confined_same, metis prod.collapse serve_user.simps(1))
next
  case (UUpdate req)
  show ?thesis
  proof (cases req)
    case None
    then show ?thesis using UUpdate by (auto simp: handleUsersUpdate_def no_body confined_same split: sum.split prod.split)
  next
    case (Some q)
    then show ?thesis using UUpdate handleUsersUpdate_confined [OF assms] by (metis prod.collapse serve_user.simps(2))
  qed
next
  case (UReset req)
  show ?thesis
  proof (cases req)
    case None
    then show ?thesis using UReset by (auto simp: handleUsersResetPassword_def no_body confined_same split: sum.split prod.split)
  next
    case (Some q)
    then show ?thesis using UReset reset_confined [OF assms] by (cases q) (metis prod.collapse serve_user.simps(3))
  qed
next
  case USuspend
  then show ?thesis using suspend_handler_confined [OF assms] by (metis prod.collapse serve_user.simps(4))
qed

definition ex_uenv :: "unit UEnv" where
  "ex_uenv = \<lparr>env_mgr = ex_signer 0, env_show = (\<lambda>_. []), env_rnd = Some [1, 2], env_codes_rnd = [], env_salts = [],
     ue_host = ex_host, ue_services = Some ex_services, ue_HomeRoot = ''/home'', ue_salt = [], ue_ftp_salt = []\<rparr>"

theorem reseller_confined_witness:
  "confined 1 (srv_db ex_server) (srv_db (snd (serve_user ex_uenv ((ex_request [])\<lparr>PathIDText := ''2''\<rparr>) 0
     (UCreate (Some \<lparr>cu_Username = ''carol'', cu_Email = [], cu_Password = ''long enough'', cu_Role = [], cu_PackageID = 0\<rparr>))
     \<lparr>ctxUser = Some (scanUser (ex_row 1 ''root'' RoleReseller)), ctxClaims = None\<rparr> ex_server)))"
proof -
  have "uID (scanUser (ex_row 1 ''root'' RoleReseller)) = 1" "uRole (scanUser (ex_row 1 ''root'' RoleReseller)) = RoleReseller"
    by (simp_all add: scanUser_def User.truncate_def ex_row_def)
  then show ?thesis
    using reseller_confined [of ex_server "\<lparr>ctxUser = Some (scanUser (ex_row 1 ''root'' RoleReseller)), ctxClaims = None\<rparr>"
        "scanUser (ex_row 1 ''root'' RoleReseller)"] ex_state_schema by (simp del: serve_user.simps)
qed

section \<open>The standard input of chpasswd\<close>

text \<open>The documented behaviour of \<open>chpasswd\<close> that matters here: it takes one \<open>user:password\<close> pair per line, and where all users
  exist each gets the password of its last line. \<open>pw\<close> reads the account's password on the host.\<close>

definition chpasswd_lines :: "string \<Rightarrow> string list" where
  "chpasswd_lines input = filter (\<lambda>l. l \<noteq> []) (Split (CHR 0x0A) input)"

definition chpasswd_ok :: "'h Host \<Rightarrow> ('h \<Rightarrow> string \<Rightarrow> string option) \<Rightarrow> bool" where
  "chpasswd_ok H pw \<longleftrightarrow> (\<forall>input h xs u p ys.
     (\<forall>l\<in>set (chpasswd_lines input). \<exists>u p. l = u @ '':'' @ p \<and> CHR '':'' \<notin> set u \<and> pw h u \<noteq> None) \<longrightarrow>
     chpasswd_lines input = xs @ (u @ '':'' @ p) # ys \<longrightarrow> CHR '':'' \<notin> set u \<longrightarrow> (\<forall>l\<in>set ys. \<not> HasPrefix l (u @ '':'')) \<longrightarrow>
     pw (snd (h_chpasswd H input h)) u = Some p)"

lemma injected_lines:
  assumes "CHR 0x0A \<notin> set name" "CHR 0x0A \<notin> set p1" "CHR 0x0A \<notin> set victim" "CHR 0x0A \<notin> set p2"
  shows "chpasswd_lines (chpasswd_input name (p1 @ [CHR 0x0A] @ victim @ '':'' @ p2)) = [name @ '':'' @ p1, victim @ '':'' @ p2]"
proof -
  have "Split (CHR 0x0A) ((name @ '':'' @ p1) @ CHR 0x0A # (victim @ '':'' @ p2) @ CHR 0x0A # []) =
      [name @ '':'' @ p1, victim @ '':'' @ p2, []]"
    using assms by (simp only: Split_append) (simp add: Split_none)
  moreover have "chpasswd_input name (p1 @ [CHR 0x0A] @ victim @ '':'' @ p2) = (name @ '':'' @ p1) @ CHR 0x0A # (victim @ '':'' @ p2) @ CHR 0x0A # []"
    by (simp add: chpasswd_input_def)
  ultimately show ?thesis by (simp add: chpasswd_lines_def)
qed

text \<open>C19: A password may contain a line break, and \<open>SetSystemPassword\<close> passes it on: an ordinary user who changes their own
  password to one whose second line is the name of any system account, \<open>root\<close> included, a colon and a text, sets the password of
  that account to that text.\<close>

theorem password_change_sets_root:
  assumes "chpasswd_ok (ue_host env) pw" "pw (srv_host srv) name \<noteq> None" "pw (srv_host srv) victim \<noteq> None"
    and "GetUserByID (srv_db srv) (uID u) = Inr u" "uUsername u = name" "uRole u = RoleUser"
    and "set name \<inter> {CHR 0x0A, CHR '':''} = {}" "set victim \<inter> {CHR 0x0A, CHR '':''} = {}" "CHR 0x0A \<notin> set p1" "CHR 0x0A \<notin> set p2"
    and "ctxUser ctx = Some u" "pathID r = Inr (uID u)"
    and "handleUsersResetPassword env r tm (Some (p1 @ [CHR 0x0A] @ victim @ '':'' @ p2, current)) ctx srv = ((200, b), srv')"
  shows "pw (srv_host srv') victim = Some p2"
proof -
  let ?p = "p1 @ [CHR 0x0A] @ victim @ '':'' @ p2"
  obtain actor v where t: "target_user r ctx ''cannot manage this account'' (srv_db srv) = Inr (actor, v)"
      and c: "password_changed env tm actor v ?p current srv srv'"
    using reset_cases [OF assms(13)] by auto
  have "v = u" using target_user_ok(3,4) [OF t] assms(4,12) by (metis sum.inject(2))
  then have h: "srv_host srv' = snd (h_chpasswd (ue_host env) (chpasswd_input name ?p) (srv_host srv))"
    using c assms(5) by (simp add: password_changed_def)
  have ls: "chpasswd_lines (chpasswd_input name ?p) = [name @ '':'' @ p1, victim @ '':'' @ p2]"
    using assms(7-10) by (intro injected_lines) auto
  have cs: "CHR '':'' \<notin> set name" "CHR '':'' \<notin> set victim" using assms(7,8) by auto
  have "\<forall>l\<in>set (chpasswd_lines (chpasswd_input name ?p)). \<exists>u p. l = u @ '':'' @ p \<and> CHR '':'' \<notin> set u \<and> pw (srv_host srv) u \<noteq> None"
    unfolding ls set_simps using cs assms(2,3) by blast
  moreover have "chpasswd_lines (chpasswd_input name ?p) = [name @ '':'' @ p1] @ (victim @ '':'' @ p2) # []" using ls by simp
  moreover have "\<forall>l\<in>set ([] :: string list). \<not> HasPrefix l (victim @ '':'')" by simp
  ultimately show ?thesis using assms(1) cs(2) unfolding chpasswd_ok_def h by blast
qed

text \<open>A host whose state is the table of passwords, with \<open>chpasswd\<close> as documented.\<close>

definition set_line :: "string \<Rightarrow> (string \<Rightarrow> string option) \<Rightarrow> string \<Rightarrow> string option" where
  "set_line l h = h(takeWhile (\<lambda>c. c \<noteq> CHR '':'') l \<mapsto> drop 1 (dropWhile (\<lambda>c. c \<noteq> CHR '':'') l))"

definition ex_pw_host :: "(string \<Rightarrow> string option) Host" where
  "ex_pw_host = \<lparr>h_run = (\<lambda>_ h. (Some [], h)), h_chpasswd = (\<lambda>input h. (None, fold set_line (chpasswd_lines input) h)),
     h_UIDFor = (\<lambda>n h. None), h_Lookup = (\<lambda>n h. None), h_passwd = (\<lambda>h. None), h_group = (\<lambda>h. None),
     h_MkdirAll = (\<lambda>_ h. (True, h)), h_WriteFile = (\<lambda>_ _ h. (True, h)), h_Remove = (\<lambda>_ h. h), h_Chmod = (\<lambda>_ _ h. h), h_EnsureVsftpd = (\<lambda>h. h)\<rparr>"

lemma split_pair: "CHR '':'' \<notin> set u \<Longrightarrow> takeWhile (\<lambda>c. c \<noteq> CHR '':'') (u @ '':'' @ p) = u"
  "CHR '':'' \<notin> set u \<Longrightarrow> dropWhile (\<lambda>c. c \<noteq> CHR '':'') (u @ '':'' @ p) = '':'' @ p"
  by (induction u) auto

lemma fold_set_line: "\<forall>l\<in>set ls. takeWhile (\<lambda>c. c \<noteq> CHR '':'') l \<noteq> u \<Longrightarrow> fold set_line ls g u = g u"
  by (induction ls arbitrary: g) (auto simp: set_line_def)

lemma ex_pw_host_ok: "chpasswd_ok ex_pw_host (\<lambda>h. h)"
  unfolding chpasswd_ok_def
proof (intro allI impI)
  fix input h xs u p ys
  assume a: "\<forall>l\<in>set (chpasswd_lines input). \<exists>u p. l = u @ '':'' @ p \<and> CHR '':'' \<notin> set u \<and> (h :: string \<Rightarrow> string option) u \<noteq> None"
    and ls: "chpasswd_lines input = xs @ (u @ '':'' @ p) # ys" and u: "CHR '':'' \<notin> set u" and ys: "\<forall>l\<in>set ys. \<not> HasPrefix l (u @ '':'')"
  have "takeWhile (\<lambda>c. c \<noteq> CHR '':'') l \<noteq> u" if l: "l \<in> set ys" for l
  proof
    assume e: "takeWhile (\<lambda>c. c \<noteq> CHR '':'') l = u"
    have "l \<in> set (chpasswd_lines input)" unfolding ls set_append using l by simp
    with a obtain v q where v: "l = v @ '':'' @ q" "CHR '':'' \<notin> set v" by blast
    with e have "l = (u @ '':'') @ q" using split_pair(1) [OF v(2), of q] by simp
    with ys l HasPrefix_append show False by metis
  qed
  then have "fold set_line ys g u = g u" for g by (intro fold_set_line) blast
  then show "snd (h_chpasswd ex_pw_host input h) u = Some p"
    using split_pair [OF u, of p] by (simp add: ex_pw_host_def ls set_line_def)
qed

definition ex_pw_env :: "(string \<Rightarrow> string option) UEnv" where
  "ex_pw_env = \<lparr>env_mgr = ex_signer 0, env_show = (\<lambda>_. []), env_rnd = None, env_codes_rnd = [], env_salts = [],
     ue_host = ex_pw_host, ue_services = None, ue_HomeRoot = ''/home'', ue_salt = [], ue_ftp_salt = []\<rparr>"

definition ex_pw_server :: "(string \<Rightarrow> string option) Server" where
  "ex_pw_server = \<lparr>srv_db = ast_db ex_state, srv_log = [], srv_log_opens = True, srv_fails = None,
     srv_host = [''root'' \<mapsto> ''secret'', ''alice'' \<mapsto> ''pw''], srv_applied = (\<lambda>_. False)\<rparr>"

theorem password_change_sets_root_witness:
  "\<exists>b srv'. handleUsersResetPassword ex_pw_env ((ex_request [])\<lparr>PathIDText := ''2''\<rparr>) 0
       (Some (''12345678'' @ [CHR 0x0A] @ ''root:'' @ ''owned'', ''pw'')) \<lparr>ctxUser = Some ex_alice, ctxClaims = None\<rparr> ex_pw_server = ((200, b), srv') \<and>
     srv_host srv' ''root'' = Some ''owned''"
proof -
  let ?r = "(ex_request [])\<lparr>PathIDText := ''2''\<rparr>" and ?ctx = "\<lparr>ctxUser = Some ex_alice, ctxClaims = None\<rparr>"
  let ?p = "''12345678'' @ [CHR 0x0A] @ ''root:'' @ ''owned''"
  have id: "pathID ?r = Inr 2" by (simp add: pathID_def ex_request_def) code_simp
  have u: "uID ex_alice = 2" "uUsername ex_alice = ''alice''" "uRole ex_alice = RoleUser" "uPasswordHash ex_alice = ''pw''"
    by (simp_all add: scanUser_def User.truncate_def ex_row_def)
  have g: "GetUserByID (srv_db ex_pw_server) 2 = Inr ex_alice" "\<not> db_down (srv_db ex_pw_server)"
    by (simp_all add: ex_pw_server_def GetUserByID_def query_row_def ex_state_def db_empty_def t_get_def ex_row_def)
  have "target_user ?r ?ctx ''cannot manage this account'' (srv_db ex_pw_server) = Inr (ex_alice, ex_alice)"
    using id g(1) by (simp add: target_user_def canManageUser_def)
  moreover have "\<not> lockedOut (ast_db ex_state) 0 ''alice'' (ClientIP ?r)" "CheckPassword (m_lib (ex_signer 0)) ''pw'' ''pw''"
    by (simp_all add: lockedOut_def at_least_def store_defs query_def ex_state_def db_empty_def t_count_def t_select_def
      CheckPassword_def ex_signer_def ex_mgr_def ex_lib_def)
  ultimately obtain b srv' where h: "handleUsersResetPassword ex_pw_env ?r 0 (Some (?p, ''pw'')) ?ctx ex_pw_server = ((200, b), srv')"
    using u g(2) by (auto simp: handleUsersResetPassword_def confirm_own_def ConfirmPassword_def auth_state_def ex_pw_server_def ex_pw_env_def with_auth_def
      store_password_def HashPassword_def ex_signer_def ex_mgr_def ex_lib_def SetUserPassword_def set_user_def exec_def Let_def)
  from h have h': "handleUsersResetPassword ex_pw_env ?r 0 (Some (''12345678'' @ [CHR 0x0A] @ ''root'' @ '':'' @ ''owned'', ''pw'')) ?ctx ex_pw_server = ((200, b), srv')"
    by simp
  have "srv_host srv' ''root'' = Some ''owned''"
    by (rule password_change_sets_root [OF _ _ _ _ _ _ _ _ _ _ _ _ h', where pw = "\<lambda>h. h" and name = "''alice''" and u = ex_alice])
      (use ex_pw_host_ok u g id in \<open>simp_all add: ex_pw_env_def ex_pw_server_def\<close>)
  with h show ?thesis by blast
qed

end
