(* ===== verification/Api_Services.thy ===== *)
theory Api_Services
  imports Api
begin

text \<open>
  The handlers of API tokens (\<^verbatim>\<open>api/handlers_tokens.go\<close>), scheduled jobs (\<^verbatim>\<open>api/handlers_cron.go\<close>), quotas
  (\<^verbatim>\<open>api/handlers_quota.go\<close>) and files (\<^verbatim>\<open>api/handlers_files.go\<close>; not the thumbnails).

  The host state of the server holds the file system (\<open>se_fs\<close>, \<open>se_set_fs\<close>). Query parameters are arguments, empty when absent.
\<close>

record 'h SEnv = Env +
  se_cron :: "'h CronHost"
  se_files :: FilesEnv
  se_fs :: "'h \<Rightarrow> fs"
  se_set_fs :: "fs \<Rightarrow> 'h \<Rightarrow> 'h"
  se_du :: "'h \<Rightarrow> string \<Rightarrow> string option"
  se_log :: "'h \<Rightarrow> string \<Rightarrow> string option"
  se_draw :: "nat \<Rightarrow> nat option"
  se_salt :: string

abbreviation with_user :: "Ctx \<Rightarrow> 'h Server \<Rightarrow> (User \<Rightarrow> response \<times> 'h Server) \<Rightarrow> response \<times> 'h Server" where
  "with_user ctx srv k \<equiv> (case ctxUser ctx of None \<Rightarrow> panicked srv | Some u \<Rightarrow> k u)"

abbreviation status_ok :: response where "status_ok \<equiv> (200, BStatus ''ok'')"

section \<open>API tokens\<close>

definition handleTokensList :: "'h handler" where
  "handleTokensList ctx srv = with_user ctx srv (\<lambda>u. case token_List (srv_db srv) (uID u) of
     Inl e \<Rightarrow> ((500, BErr (StoreErr e)), srv) | Inr ts \<Rightarrow> ((200, BTokens ts), srv))"

record tokenCreateReq =
  tc_Label :: string
  tc_TTLDays :: "64 word"

text \<open>\<open>time.Duration(days) * 24 * time.Hour\<close>, in 64 bits; 0 unless the number of days is positive.\<close>

definition token_ttl :: "64 word \<Rightarrow> int" where
  "token_ttl days = (if sint days > 0 then sint (days * 24 * 3600000000000) else 0)"

definition handleTokensCreate :: "'h SEnv \<Rightarrow> Request \<Rightarrow> gotime \<Rightarrow> tokenCreateReq option \<Rightarrow> 'h handler" where
  "handleTokensCreate env r tm req ctx srv = with_user ctx srv (\<lambda>u. case req of None \<Rightarrow> bad_body srv
   | Some req \<Rightarrow> (case token_Create (m_lib (env_mgr env)) (srv_db srv) tm (se_draw env) (se_salt env) u (tc_Label req) (token_ttl (tc_TTLDays req)) of
        Inl e \<Rightarrow> ((400, BErr (TokenErr e)), srv)
      | Inr (t, raw, s') \<Rightarrow> ((201, BTokenNew t raw), audit r tm ctx ''token.create'' (kLabel t) [] (srv\<lparr>srv_db := s'\<rparr>))))"

definition handleTokensDelete :: "Request \<Rightarrow> gotime \<Rightarrow> 'h handler" where
  "handleTokensDelete r tm ctx srv = (case pathID r of Inl m \<Rightarrow> writeErr 400 m srv
   | Inr i \<Rightarrow> (case GetAPIToken (srv_db srv) i of Inl _ \<Rightarrow> writeErr 404 ''token not found'' srv
   | Inr t \<Rightarrow> with_user ctx srv (\<lambda>u.
       if kUserID t \<noteq> uID u \<and> uRole u \<noteq> RoleAdmin then writeErr 403 ''cannot manage this token'' srv
       else case token_Delete (srv_db srv) (kID t) of Inl e \<Rightarrow> ((500, BErr (StoreErr e)), srv)
         | Inr s' \<Rightarrow> (status_ok, audit r tm ctx ''token.delete'' (kLabel t) [] (srv\<lparr>srv_db := s'\<rparr>)))))"

section \<open>Scheduled jobs\<close>

definition handleCronList :: "'h handler" where
  "handleCronList ctx srv = with_user ctx srv (\<lambda>u.
     case ListCronJobs (srv_db srv) (if uRole u = RoleAdmin then 0 else uID u) of
       Inl e \<Rightarrow> ((500, BErr (StoreErr e)), srv) | Inr jobs \<Rightarrow> ((200, BJobs jobs), srv))"

definition handleCronCreate :: "'h SEnv \<Rightarrow> Request \<Rightarrow> gotime \<Rightarrow> (string \<times> string) option \<Rightarrow> 'h handler" where
  "handleCronCreate env r tm req ctx srv = with_user ctx srv (\<lambda>u. case req of None \<Rightarrow> bad_body srv
   | Some (schedule, command) \<Rightarrow>
      (case cron_Create (se_cron env) (se_files env) tm (se_fs env (srv_host srv)) u schedule command (srv_db srv) (srv_host srv) of
         (Inl e, s1, h1) \<Rightarrow> ((400, BErr (CronErr e)), srv\<lparr>srv_db := s1, srv_host := h1\<rparr>)
       | (Inr job, s1, h1) \<Rightarrow> ((201, BJob job), audit r tm ctx ''cron.create'' schedule command (srv\<lparr>srv_db := s1, srv_host := h1\<rparr>))))"

definition ownsCronJob :: "Request \<Rightarrow> User \<Rightarrow> db \<Rightarrow> CronJob option" where
  "ownsCronJob r u s = (case pathID r of Inl _ \<Rightarrow> None
   | Inr i \<Rightarrow> (case GetCronJob s i of Inl _ \<Rightarrow> None
   | Inr job \<Rightarrow> if jUserID job \<noteq> uID u \<and> uRole u \<noteq> RoleAdmin then None else Some job))"

text \<open>The account whose crontab is regenerated: for an administrator, the owner of the job.\<close>

definition cron_owner :: "User \<Rightarrow> CronJob \<Rightarrow> db \<Rightarrow> User" where
  "cron_owner u job s = (if uRole u = RoleAdmin \<and> uID u \<noteq> jUserID job
     then (case GetUserByID s (jUserID job) of Inr o' \<Rightarrow> o' | Inl _ \<Rightarrow> u) else u)"

text \<open>The common shape of changing a job: find it, act for its owner, record it.\<close>

definition change_job :: "Request \<Rightarrow> gotime \<Rightarrow> nat \<Rightarrow> (User \<Rightarrow> CronJob \<Rightarrow> db \<Rightarrow> 'h \<Rightarrow> (cron_error + CronJob) \<times> db \<times> 'h) \<Rightarrow>
    string \<Rightarrow> (CronJob \<Rightarrow> string \<times> string) \<Rightarrow> (CronJob \<Rightarrow> body) \<Rightarrow> User \<Rightarrow> CronJob \<Rightarrow> 'h handler" where
  "change_job r tm bad op action note answer u job ctx srv =
    (case op (cron_owner u job (srv_db srv)) job (srv_db srv) (srv_host srv) of
       (Inl e, s1, h1) \<Rightarrow> ((bad, BErr (CronErr e)), srv\<lparr>srv_db := s1, srv_host := h1\<rparr>)
     | (Inr job', s1, h1) \<Rightarrow> ((200, answer job'),
         audit r tm ctx action (fst (note job')) (snd (note job')) (srv\<lparr>srv_db := s1, srv_host := h1\<rparr>)))"

abbreviation with_job :: "Request \<Rightarrow> Ctx \<Rightarrow> 'h Server \<Rightarrow> (User \<Rightarrow> CronJob \<Rightarrow> response \<times> 'h Server) \<Rightarrow> response \<times> 'h Server" where
  "with_job r ctx srv k \<equiv> with_user ctx srv (\<lambda>u. case ownsCronJob r u (srv_db srv) of None \<Rightarrow> writeErr 404 ''job not found'' srv
     | Some job \<Rightarrow> k u job)"

definition handleCronUpdate :: "'h SEnv \<Rightarrow> Request \<Rightarrow> gotime \<Rightarrow> (string \<times> string) option \<Rightarrow> 'h handler" where
  "handleCronUpdate env r tm req ctx srv = with_job r ctx srv (\<lambda>u job. case req of None \<Rightarrow> bad_body srv
   | Some (schedule, command) \<Rightarrow> change_job r tm 400
       (\<lambda>owner job. cron_Update (se_cron env) (se_files env) (se_fs env (srv_host srv)) owner job schedule command)
       ''cron.update'' (\<lambda>_. (schedule, command)) BJob u job ctx srv)"

definition handleCronToggle :: "'h SEnv \<Rightarrow> Request \<Rightarrow> gotime \<Rightarrow> bool option \<Rightarrow> 'h handler" where
  "handleCronToggle env r tm req ctx srv = with_job r ctx srv (\<lambda>u job. case req of None \<Rightarrow> bad_body srv
   | Some enabled \<Rightarrow> change_job r tm 500 (\<lambda>owner job. cron_Toggle (se_cron env) (se_files env) owner job enabled)
       ''cron.toggle'' (\<lambda>j. (jSchedule j, (if enabled then ''enabled'' else ''disabled'') @ '': '' @ jCommand j)) BJob u job ctx srv)"

definition handleCronDelete :: "'h SEnv \<Rightarrow> Request \<Rightarrow> gotime \<Rightarrow> 'h handler" where
  "handleCronDelete env r tm ctx srv = with_job r ctx srv (\<lambda>u job.
     change_job r tm 500 (cron_Delete (se_cron env) (se_files env)) ''cron.delete'' (\<lambda>j. (jSchedule j, jCommand j)) (\<lambda>_. BStatus ''ok'') u job ctx srv)"

definition handleCronLog :: "'h SEnv \<Rightarrow> Request \<Rightarrow> 'h handler" where
  "handleCronLog env r ctx srv = with_job r ctx srv (\<lambda>u job. case TailLog (se_files env) (se_fs env (srv_host srv)) job of
     Inl e \<Rightarrow> ((500, BErr (FileErr e)), srv) | Inr res \<Rightarrow> ((200, BLog res), srv))"

section \<open>Quotas\<close>

definition handleQuotaUsage :: "'h SEnv \<Rightarrow> string \<Rightarrow> 'h handler" where
  "handleQuotaUsage env user_id ctx srv = with_user ctx srv (\<lambda>u.
     let answer = (\<lambda>target. ((200, BUsage (UsageFor (f_HomeRoot (se_files env)) (se_du env (srv_host srv)) (se_log env (srv_host srv))
           (srv_db srv) target)), srv))
     in if user_id = [] then answer u
        else case ParseInt user_id of None \<Rightarrow> writeErr 400 ''invalid user_id'' srv
          | Some i \<Rightarrow> if i \<noteq> uID u \<and> uRole u \<noteq> RoleAdmin then writeErr 403 ''cannot view this account's usage'' srv
              else case GetUserByID (srv_db srv) i of Inl _ \<Rightarrow> writeErr 404 ''user not found'' srv | Inr other \<Rightarrow> answer other)"

definition handleQuotaEnforce :: "'h SEnv \<Rightarrow> Request \<Rightarrow> gotime \<Rightarrow> 'h handler" where
  "handleQuotaEnforce env r tm ctx srv =
    (case Enforce (f_HomeRoot (se_files env)) (se_du env (srv_host srv)) tm (srv_db srv) of
       (Some e, s1) \<Rightarrow> ((500, BErr (StoreErr e)), srv\<lparr>srv_db := s1\<rparr>)
     | (None, s1) \<Rightarrow> (status_ok, audit r tm ctx ''quota.enforce'' [] ''manual run'' (srv\<lparr>srv_db := s1\<rparr>)))"

section \<open>Files\<close>

definition fileUser :: "Ctx \<Rightarrow> string \<Rightarrow> db \<Rightarrow> store_error + User option" where
  "fileUser ctx q_user s = (case ctxUser ctx of None \<Rightarrow> Inr None
   | Some actor \<Rightarrow> if q_user \<noteq> [] \<and> uRole actor = RoleAdmin then map_sum id Some (GetUserByUsername s q_user) else Inr (Some actor))"

abbreviation for_user :: "Ctx \<Rightarrow> string \<Rightarrow> 'h Server \<Rightarrow> (User \<Rightarrow> response \<times> 'h Server) \<Rightarrow> response \<times> 'h Server" where
  "for_user ctx q_user srv k \<equiv> (case fileUser ctx q_user (srv_db srv) of Inl _ \<Rightarrow> writeErr 404 ''user not found'' srv
     | Inr None \<Rightarrow> panicked srv | Inr (Some u) \<Rightarrow> k u)"

text \<open>An operation on the file system of the host; an error is answered with the given status.\<close>

definition on_files :: "'h SEnv \<Rightarrow> nat \<Rightarrow> (fs \<Rightarrow> 'a file_res) \<Rightarrow> ('a \<Rightarrow> 'h Server \<Rightarrow> response \<times> 'h Server) \<Rightarrow> 'h Server \<Rightarrow> response \<times> 'h Server" where
  "on_files env bad op k srv = (case op (se_fs env (srv_host srv)) of (r, fs') \<Rightarrow>
     let srv' = srv\<lparr>srv_host := se_set_fs env fs' (srv_host srv)\<rparr>
     in (case r of Inl e \<Rightarrow> ((bad, BErr (FileErr e)), srv') | Inr x \<Rightarrow> k x srv'))"

definition handleFilesList :: "'h SEnv \<Rightarrow> string \<Rightarrow> string \<Rightarrow> 'h handler" where
  "handleFilesList env q_user path ctx srv = for_user ctx q_user srv (\<lambda>u.
     on_files env 400 (files_List (se_files env) u path) (\<lambda>es srv. ((200, BEntries es), srv)) srv)"

definition handleFilesRead :: "'h SEnv \<Rightarrow> string \<Rightarrow> string \<Rightarrow> 'h handler" where
  "handleFilesRead env q_user path ctx srv = for_user ctx q_user srv (\<lambda>u.
     on_files env 400 (Read (se_files env) u path) (\<lambda>data srv. ((200, BData data), srv)) srv)"

text \<open>\<open>mode, _ := strconv.ParseUint(s, 8, 32)\<close>: 0 for a bad number, the largest value when it is out of range.\<close>

definition octal_mode :: "string \<Rightarrow> mode" where
  "octal_mode s = (case parse_octal s of Some n \<Rightarrow> of_nat n
     | None \<Rightarrow> if s \<noteq> [] \<and> list_all (\<lambda>c. is_dec c \<and> dec_value c < 8) s then -1 else 0)"

definition handleFilesWrite :: "'h SEnv \<Rightarrow> Request \<Rightarrow> gotime \<Rightarrow> string \<Rightarrow> (string \<times> string \<times> string) option \<Rightarrow> 'h handler" where
  "handleFilesWrite env r tm q_user req ctx srv = for_user ctx q_user srv (\<lambda>u. case req of None \<Rightarrow> bad_body srv
   | Some (path, content, mode) \<Rightarrow> on_files env 400 (Write (se_files env) u path content (octal_mode mode))
       (\<lambda>_ srv. (status_ok, audit r tm ctx ''file.write'' path [] srv)) srv)"

definition handleFilesMkdir :: "'h SEnv \<Rightarrow> Request \<Rightarrow> gotime \<Rightarrow> string \<Rightarrow> (string \<times> string) option \<Rightarrow> 'h handler" where
  "handleFilesMkdir env r tm q_user req ctx srv = for_user ctx q_user srv (\<lambda>u. case req of None \<Rightarrow> bad_body srv
   | Some (path, mode) \<Rightarrow> on_files env 400 (Mkdir (se_files env) u path (octal_mode mode))
       (\<lambda>_ srv. ((201, BStatus ''ok''), audit r tm ctx ''file.mkdir'' path [] srv)) srv)"

definition handleFilesRename :: "'h SEnv \<Rightarrow> Request \<Rightarrow> gotime \<Rightarrow> string \<Rightarrow> (string \<times> string) option \<Rightarrow> 'h handler" where
  "handleFilesRename env r tm q_user req ctx srv = for_user ctx q_user srv (\<lambda>u. case req of None \<Rightarrow> bad_body srv
   | Some (old, new) \<Rightarrow> on_files env 400 (Rename (se_files env) u old new)
       (\<lambda>_ srv. (status_ok, audit r tm ctx ''file.rename'' (old @ '' '' @ [CHR 0xE2, CHR 0x86, CHR 0x92] @ '' '' @ new) [] srv)) srv)"

definition handleFilesDelete :: "'h SEnv \<Rightarrow> Request \<Rightarrow> gotime \<Rightarrow> string \<Rightarrow> string option \<Rightarrow> 'h handler" where
  "handleFilesDelete env r tm q_user req ctx srv = for_user ctx q_user srv (\<lambda>u. case req of None \<Rightarrow> bad_body srv
   | Some path \<Rightarrow> on_files env 400 (Delete (se_files env) u path)
       (\<lambda>_ srv. (status_ok, audit r tm ctx ''file.delete'' path [] srv)) srv)"

definition handleFilesChmod :: "'h SEnv \<Rightarrow> Request \<Rightarrow> gotime \<Rightarrow> string \<Rightarrow> (string \<times> string \<times> bool) option \<Rightarrow> 'h handler" where
  "handleFilesChmod env r tm q_user req ctx srv = for_user ctx q_user srv (\<lambda>u. case req of None \<Rightarrow> bad_body srv
   | Some (path, mode, recursive) \<Rightarrow> on_files env 400 (Chmod (se_files env) u path mode recursive)
       (\<lambda>_ srv. (status_ok, audit r tm ctx ''file.chmod'' (path @ '' '' @ mode) (if recursive then ''recursive'' else []) srv)) srv)"

definition handleFilesChown :: "'h SEnv \<Rightarrow> Request \<Rightarrow> gotime \<Rightarrow> string \<Rightarrow> (string \<times> string \<times> string \<times> bool) option \<Rightarrow> 'h handler" where
  "handleFilesChown env r tm q_user req ctx srv = for_user ctx q_user srv (\<lambda>u. case req of None \<Rightarrow> bad_body srv
   | Some (path, owner, grp, recursive) \<Rightarrow> on_files env 400 (Chown (se_files env) u path owner grp recursive)
       (\<lambda>_ srv. (status_ok, audit r tm ctx ''file.chown'' path (''owner='' @ owner @ '' group='' @ grp @ '' recursive='' @
          (if recursive then ''true'' else ''false'')) srv)) srv)"

definition handleFilesSearch :: "'h SEnv \<Rightarrow> string \<Rightarrow> (string \<times> string) option \<Rightarrow> 'h handler" where
  "handleFilesSearch env q_user req ctx srv = for_user ctx q_user srv (\<lambda>u. case req of None \<Rightarrow> bad_body srv
   | Some (path, needle) \<Rightarrow> on_files env 400 (Search (se_files env) u path needle) (\<lambda>hits srv. ((200, BNames hits), srv)) srv)"

definition handleFilesZip :: "'h SEnv \<Rightarrow> Request \<Rightarrow> gotime \<Rightarrow> string \<Rightarrow> (string \<times> string) option \<Rightarrow> 'h handler" where
  "handleFilesZip env r tm q_user req ctx srv = for_user ctx q_user srv (\<lambda>u. case req of None \<Rightarrow> bad_body srv
   | Some (path, name) \<Rightarrow> on_files env 400 (Archive (se_files env) u path name)
       (\<lambda>_ srv. (status_ok, audit r tm ctx ''file.zip'' path [] srv)) srv)"

definition handleFilesUnzip :: "'h SEnv \<Rightarrow> Request \<Rightarrow> gotime \<Rightarrow> string \<Rightarrow> (string \<times> string) option \<Rightarrow> 'h handler" where
  "handleFilesUnzip env r tm q_user req ctx srv = for_user ctx q_user srv (\<lambda>u. case req of None \<Rightarrow> bad_body srv
   | Some (path, dest) \<Rightarrow> on_files env 400 (Extract (se_files env) u path dest)
       (\<lambda>_ srv. (status_ok, audit r tm ctx ''file.unzip'' path [] srv)) srv)"

definition handleFilesDownload :: "'h SEnv \<Rightarrow> string \<Rightarrow> string \<Rightarrow> 'h handler" where
  "handleFilesDownload env q_user path ctx srv = for_user ctx q_user srv (\<lambda>u.
     case OpenRead (se_files env) u path (se_fs env (srv_host srv)) of
       (Inl file_error.ErrForbidden, _) \<Rightarrow> ((400, BErr (FileErr file_error.ErrForbidden)), srv)
     | (Inl e, _) \<Rightarrow> writeErr 404 ''not found'' srv
     | (Inr (h, nd), _) \<Rightarrow> if n_kind nd = Dir then writeErr 400 ''cannot download a directory; zip it first'' srv
         else ((200, BDownload (case Resolve (se_files env) (se_fs env (srv_host srv)) u path of Inr p \<Rightarrow> path_Base p | Inl _ \<Rightarrow> []) (node_data nd)), srv))"

text \<open>The files of an upload, one after the other: each is created as the account and then filled. Reading the upload itself
  may fail (\<open>None\<close>).\<close>

fun upload_files :: "FilesEnv \<Rightarrow> User \<Rightarrow> string \<Rightarrow> (string \<times> string option) list \<Rightarrow> fs \<Rightarrow> (nat \<times> msg) option \<times> fs" where
  "upload_files env u destDir [] fs = (None, fs)"
| "upload_files env u destDir ((name, None) # files) fs = (Some (400, Text ''open upload''), fs)"
| "upload_files env u destDir ((name, Some content) # files) fs =
     (case OpenWrite env u (TrimSuffix destDir ''/'' @ ''/'' @ name) 420 fs of
        (Inl file_error.ErrForbidden, fs1) \<Rightarrow> (Some (403, FileErr file_error.ErrForbidden), fs1)
      | (Inl e, fs1) \<Rightarrow> (Some (400, FileErr e), fs1)
      | (Inr h, fs1) \<Rightarrow> upload_files env u destDir files (os_Write h content fs1))"

definition handleFilesUpload :: "'h SEnv \<Rightarrow> Request \<Rightarrow> gotime \<Rightarrow> string \<Rightarrow> (string \<times> (string \<times> string option) list) option \<Rightarrow> 'h handler" where
  "handleFilesUpload env r tm q_user req ctx srv = for_user ctx q_user srv (\<lambda>u. case req of None \<Rightarrow> writeErr 400 ''upload too large'' srv
   | Some (destDir, files) \<Rightarrow> (case upload_files (se_files env) u destDir files (se_fs env (srv_host srv)) of (r1, fs1) \<Rightarrow>
       let srv1 = srv\<lparr>srv_host := se_set_fs env fs1 (srv_host srv)\<rparr>; names = map fst files
       in (case r1 of Some (status, m) \<Rightarrow> ((status, BErr m), srv1)
         | None \<Rightarrow> ((200, BNames names), audit r tm ctx ''file.upload'' (Join '','' names) (''to='' @ destDir) srv1))))"

end
