(* ===== verification/Path_Laws.thy ===== *)
theory Path_Laws
  imports Os
begin

text \<open>
  Facts about real paths and the texts that name them: the text of a list of plain components, its components, its directory,
  joining, and what \<open>Rel\<close> says about one path lying inside another.
\<close>

section \<open>Texts of real paths\<close>

definition plains :: "path \<Rightarrow> bool" where
  "plains p = list_all plain p"

lemma plains_simps [simp]: "plains []" "plains (p @ q) \<longleftrightarrow> plains p \<and> plains q" "plains (c # p) \<longleftrightarrow> plain c \<and> plains p"
  by (simp_all add: plains_def)

lemma plains_butlast: "plains p \<Longrightarrow> plains (butlast p)"
  by (auto simp: plains_def list_all_iff dest: in_set_butlastD)

lemma plains_take: "plains p \<Longrightarrow> plains (take k p)"
  by (auto simp: plains_def list_all_iff dest: in_set_takeD)

lemma plains_rev [simp]: "plains (rev p) = plains p"
  by (simp add: plains_def)

lemma rooted_text [simp]: "is_rooted (path_text p)"
  unfolding path_text_def by (rule HasPrefix_append)

lemma components_text: "plains p \<Longrightarrow> components (path_text p) = p"
  unfolding path_text_def plains_def by (rule components_of_plain)

lemma clean_stack_text [simp]: "plains p \<Longrightarrow> clean_stack True (Split (CHR ''/'') (path_text p)) = p"
  using components_text by simp

lemma Split_text: "plains p \<Longrightarrow> Split (CHR ''/'') (path_text p) = (if p = [] then [[], []] else [] # p)"
proof (cases "p = []")
  case False
  assume "plains p"
  then have "list_all (\<lambda>c. CHR ''/'' \<notin> set c) p" by (simp add: plains_def list_all_iff plain_def)
  from Split_Join [OF this False] False show ?thesis by (simp add: path_text_def)
qed (simp add: path_text_def)

lemma parts_text [simp]: "plains p \<Longrightarrow> parts (path_text p) = p"
  by (auto simp: parts_def Split_text plains_def list_all_iff plain_def filter_id_conv)

lemma walk_text: "plains p \<Longrightarrow> walk who fs n cur (Split (CHR ''/'') (path_text p)) = walk who fs n cur p"
  by (simp add: Split_text)

lemma Clean_text: "is_rooted p \<Longrightarrow> Clean p = path_text (components p)"
  unfolding path_text_def by (rule Clean_rooted)

lemma plains_components: "is_rooted p \<Longrightarrow> plains (components p)"
  unfolding plains_def by (rule components_plain)

lemma walk_plains:
  assumes "walk who fs n cur cs = Inr d" "plains cur" "\<forall>c\<in>set cs. CHR ''/'' \<notin> set c"
  shows "plains d"
  using assms
proof (induction who fs n cur cs rule: walk.induct)
  case (2 who fs n cur c cs)
  have s: "CHR ''/'' \<notin> set x" if "x \<in> set (Split (CHR ''/'') t @ cs)" for x t
    using that "2.prems"(3) Split_no_sep by fastforce
  show ?case
  proof (cases "c = [] \<or> c = ''.'' \<or> c = ''..''")
    case True
    with 2 show ?thesis by (auto simp: plains_butlast)
  next
    case False
    then have "plain c" using "2.prems"(3) by (simp add: plain_def)
    moreover have "plains (link_base t cur)" for t using "2.prems"(2) by (simp add: link_base_def)
    ultimately show ?thesis using 2 False s by (auto simp: plain_def split: if_splits option.splits kind.splits)
  qed
qed simp

lemma drop_common_spec: "drop_common as bs = (as', bs') \<Longrightarrow> \<exists>c. as = c @ as' \<and> bs = c @ bs'"
proof (induction as bs rule: drop_common.induct)
  case (1 a as b bs)
  show ?case
  proof (cases "a = b")
    case True
    with 1 obtain c where "as = c @ as'" "bs = c @ bs'" by auto
    with True show ?thesis by (intro exI [of _ "a # c"]) simp
  qed (use 1 in auto)
qed auto

lemma Join_dots: "Join ''/'' (''..'' # xs) = ''..'' \<or> HasPrefix (Join ''/'' (''..'' # xs)) ''../''"
  by (cases xs) (simp_all add: HasPrefix_def)

lemma inside_text:
  assumes "is_rooted root" "plains d" "\<not> escapes root (path_text d)"
  shows "prefix (components root) d"
proof (cases "Clean root = Clean (path_text d)")
  case True
  then have "components root = components (path_text d)" using Clean_inj [OF assms(1) rooted_text] by blast
  with assms(2) show ?thesis by simp
next
  case False
  obtain rs ds where rd: "drop_common (components root) d = (rs, ds)" by fastforce
  have "rs = []"
  proof (rule ccontr)
    assume "rs \<noteq> []"
    then obtain b bs where b: "rs = b # bs" by (cases rs) auto
    have "escapes root (path_text d)"
      using False assms(1,2) rd b Join_dots by (auto simp: escapes_def Rel_def)
    with assms(3) show False ..
  qed
  with drop_common_spec [OF rd] show ?thesis by (auto simp: prefix_def)
qed

lemma EvalSymlinks_text: "plains p \<Longrightarrow> EvalSymlinks who fs (path_text p) = map_sum id path_text (walk who fs 255 [] p)"
  by (simp add: EvalSymlinks_def walk_text del: walk.simps)

lemma no_slash: "plains cs \<Longrightarrow> \<forall>c\<in>set cs. CHR ''/'' \<notin> set c"
  by (simp add: plains_def list_all_iff plain_def)

lemma Clean_slash: "is_rooted p \<Longrightarrow> Clean (p @ ''/'') = Clean p"
proof -
  assume r: "is_rooted p"
  then have r': "is_rooted (p @ ''/'')" by (auto simp: HasPrefix_iff)
  have "Split (CHR ''/'') (p @ ''/'') = Split (CHR ''/'') p @ [[]]" using Split_append [of "CHR ''/''" p "[]"] by simp
  then have "components (p @ ''/'') = components p" using r r' by (simp add: clean_stack_def push_component_def)
  with r r' show ?thesis by (simp add: Clean_rooted)
qed

lemma Clean_of_text: "plains cs \<Longrightarrow> Clean (path_text cs) = path_text cs"
  by (simp add: Clean_text)

lemma path_Dir_text:
  assumes "plains (xs @ [c])"
  shows "path_Dir (path_text (xs @ [c])) = path_text xs"
proof -
  have c: "\<forall>x\<in>set (rev c). x \<noteq> CHR ''/''" using assms by (auto simp: plain_def)
  show ?thesis
  proof (cases "xs = []")
    case True
    have "dropWhile (\<lambda>x. x \<noteq> CHR ''/'') (rev c @ ''/'') = ''/''" using c by (subst dropWhile_append2) auto
    with True Clean_of_text [of "[]"] show ?thesis by (simp add: path_Dir_def path_text_def)
  next
    case False
    have "path_text (xs @ [c]) = path_text xs @ ''/'' @ c" using False by (simp add: path_text_def Join_snoc)
    moreover have "dropWhile (\<lambda>x. x \<noteq> CHR ''/'') (rev c @ ''/'' @ rev (path_text xs)) = ''/'' @ rev (path_text xs)"
      using c by (subst dropWhile_append2) auto
    ultimately have "path_Dir (path_text (xs @ [c])) = Clean (path_text xs @ ''/'')" by (simp add: path_Dir_def)
    then show ?thesis using Clean_slash Clean_of_text assms by simp
  qed
qed

end
