(* ===== verification/Files_Laws.thy ===== *)
theory Files_Laws
  imports Archives Path_Laws
begin

text \<open>
  Why the file manager stays in the home of the account: what a successful lookup says about its prefixes (\<open>walk_split\<close>), about
  more links, more permissions and more files (\<open>walk_more\<close>, \<open>walk_sees\<close>, \<open>walk_put\<close>), what \<open>guardSymlinks\<close> establishes
  (\<open>safe\<close>), and that creating files and directories below a guarded path keeps it.
\<close>

section \<open>Real paths and lookups\<close>

definition is_dir :: "fs \<Rightarrow> path \<Rightarrow> bool" where
  "is_dir fs p = (case peek fs p of None \<Rightarrow> False | Some nd \<Rightarrow> n_kind nd = Dir)"

text \<open>A file system: the root is a directory and everything else is in a directory.\<close>

definition fs_ok :: "fs \<Rightarrow> bool" where
  "fs_ok fs \<longleftrightarrow> is_dir fs [] \<and> list_all (\<lambda>(p, _). p = [] \<or> is_dir fs (butlast p)) fs"

lemma peek_put [simp]: "peek (put e nd fs) p = (if p = e then Some nd else peek fs p)"
  by (simp add: peek_def put_def update_conv')

lemma fs_ok_parent: "fs_ok fs \<Longrightarrow> peek fs p = Some nd \<Longrightarrow> p \<noteq> [] \<Longrightarrow> is_dir fs (butlast p)"
  by (auto simp: fs_ok_def peek_def list_all_iff dest!: map_of_SomeD)

lemma fs_ok_prefix:
  assumes "fs_ok fs" "peek fs (p @ q) \<noteq> None"
  shows "peek fs p \<noteq> None"
  using assms(2)
proof (induction q rule: rev_induct)
  case (snoc x xs)
  then obtain nd where "peek fs (p @ xs @ [x]) = Some nd" by auto
  then have "is_dir fs (butlast (p @ xs @ [x]))" using fs_ok_parent [OF assms(1)] by blast
  then have "peek fs (p @ xs) \<noteq> None" by (auto simp: is_dir_def butlast_append split: option.splits)
  then show ?case by (rule snoc.IH)
qed simp

text \<open>The kernel decides whether an entry may be looked up by the directories above it.\<close>

definition looks_local :: "Ident \<Rightarrow> bool" where
  "looks_local who \<longleftrightarrow> (\<forall>fs fs' p. (\<forall>q. strict_prefix q p \<longrightarrow> peek fs q = peek fs' q) \<longrightarrow> i_look who fs p = i_look who fs' p)"

definition sees :: "Ident \<Rightarrow> Ident \<Rightarrow> bool" where
  "sees g who \<longleftrightarrow> (\<forall>fs p. i_look who fs p \<longrightarrow> i_look g fs p)"

lemma sees_refl [simp]: "sees g g" by (simp add: sees_def)

lemma walk_split:
  assumes "walk who fs n cur (xs @ ys) = Inr d"
  shows "\<exists>e m. m \<le> n \<and> walk who fs n cur xs = Inr e \<and> walk who fs m e ys = Inr d"
  using assms
proof (induction who fs n cur xs rule: walk.induct)
  case (2 who fs n cur c cs)
  show ?case
  proof (cases "c \<noteq> [] \<and> c \<noteq> ''.'' \<and> c \<noteq> ''..'' \<and> (\<exists>nd t. peek fs (cur @ [c]) = Some nd \<and> n_kind nd = Sym t)")
    case True
    then obtain nd t where t: "peek fs (cur @ [c]) = Some nd" "n_kind nd = Sym t" by blast
    let ?b = "link_base t cur"
    from True t "2.prems" have w: "walk who fs (n - 1) ?b ((Split (CHR ''/'') t @ cs) @ ys) = Inr d"
        and c: "walk who fs n cur (c # cs) = walk who fs (n - 1) ?b (Split (CHR ''/'') t @ cs)" "n \<noteq> 0" "t \<noteq> []" "i_look who fs (cur @ [c])"
      by (simp_all split: if_splits)
    then obtain e m where "m \<le> n - 1" "walk who fs (n - 1) ?b (Split (CHR ''/'') t @ cs) = Inr e" "walk who fs m e ys = Inr d"
      using "2.IH"(4) [OF _ _ _ t c(2,3) w] True by auto
    with c(1) show ?thesis by (intro exI [of _ e] exI [of _ m]) simp
  next
    case False
    then show ?thesis using 2 by (auto split: if_splits option.splits kind.splits)
  qed
qed auto

text \<open>One step of a lookup.\<close>

lemma walk_dot: "c = [] \<or> c = ''.'' \<Longrightarrow> walk who fs n cur (c # cs) = walk who fs n cur cs"
  by auto

lemma walk_dotdot: "walk who fs n cur (''..'' # cs) = walk who fs n (butlast cur) cs"
  by simp

lemma walk_name_step:
  assumes "c \<noteq> [] \<and> c \<noteq> ''.'' \<and> c \<noteq> ''..''"
  shows "walk who fs n cur (c # cs) = (if \<not> i_look who fs (cur @ [c]) then Inl EACCES
     else case peek fs (cur @ [c]) of None \<Rightarrow> Inl ENOENT
       | Some nd \<Rightarrow> (case n_kind nd of
            Dir \<Rightarrow> walk who fs n (cur @ [c]) cs
          | Reg _ \<Rightarrow> if cs = [] then Inr (cur @ [c]) else Inl ENOTDIR
          | Sym t \<Rightarrow> if n = 0 then Inl ELOOP else if t = [] then Inl ENOENT
              else walk who fs (n - 1) (link_base t cur) (Split (CHR ''/'') t @ cs)))"
  using assms by (subst walk.simps(2)) (simp only: if_False HOL.simp_thms)

lemma walk_more: "walk who fs n cur cs = Inr d \<Longrightarrow> n \<le> m \<Longrightarrow> walk who fs m cur cs = Inr d"
proof (induction who fs n cur cs arbitrary: m rule: walk.induct)
  case (2 who fs n cur c cs)
  consider "c = [] \<or> c = ''.''" | "c = ''..''" | "c \<noteq> [] \<and> c \<noteq> ''.'' \<and> c \<noteq> ''..''" by blast
  then show ?case
  proof cases
    case 1
    with "2.IH"(1) [OF 1] "2.prems" show ?thesis by (simp only: walk_dot)
  next
    case c: 2
    with "2.IH"(2) [of m] "2.prems" show ?thesis by (simp only: walk_dotdot) simp
  next
    case c: 3
    then obtain x where x: "peek fs (cur @ [c]) = Some x" "i_look who fs (cur @ [c])"
      using "2.prems"(1) by (auto simp: walk_name_step [OF c] simp del: walk.simps split: if_splits option.splits)
    show ?thesis
    proof (cases "n_kind x")
      case (Sym t)
      then have t: "n \<noteq> 0" "t \<noteq> []" "walk who fs (n - 1) (link_base t cur) (Split (CHR ''/'') t @ cs) = Inr d"
        using "2.prems"(1) x c by (simp_all add: walk_name_step [OF c] del: walk.simps split: if_splits)
      then have "walk who fs (m - 1) (link_base t cur) (Split (CHR ''/'') t @ cs) = Inr d"
        using "2.IH"(4) [of x t "m - 1"] "2.prems"(2) c x Sym by simp
      with t "2.prems"(2) x Sym show ?thesis by (simp add: walk_name_step [OF c] del: walk.simps)
    qed (use "2.prems" "2.IH"(3) [of x m] c x in \<open>simp_all add: walk_name_step [OF c] del: walk.simps split: if_splits\<close>)
  qed
qed simp

lemma walk_sees: "walk who fs n cur cs = Inr d \<Longrightarrow> sees g who \<Longrightarrow> walk g fs n cur cs = Inr d"
proof (induction who fs n cur cs rule: walk.induct)
  case (2 who fs n cur c cs)
  then show ?case by (auto simp: sees_def split: if_splits option.splits kind.splits)
qed simp

lemma look_put:
  assumes "looks_local who" "fs_ok fs" "peek fs e = None" "peek fs p \<noteq> None"
  shows "i_look who (put e nd fs) p = i_look who fs p"
proof -
  have "peek (put e nd fs) q = peek fs q" if "strict_prefix q p" for q
  proof -
    note that
    then have "prefix q p" by simp
    then obtain r where "p = q @ r" unfolding prefix_def by blast
    then have "q \<noteq> e" using fs_ok_prefix [OF assms(2), of q r] assms(3,4) by auto
    then show ?thesis by simp
  qed
  with assms(1) show ?thesis unfolding looks_local_def by blast
qed

lemma walk_put:
  assumes "walk who fs n cur cs = Inr d" "looks_local who" "fs_ok fs" "peek fs e = None"
  shows "walk who (put e nd fs) n cur cs = Inr d"
  using assms
proof (induction who fs n cur cs rule: walk.induct)
  case (2 who fs n cur c cs)
  show ?case
  proof (cases "c = [] \<or> c = ''.'' \<or> c = ''..''")
    case True
    with 2 show ?thesis by auto
  next
    case False
    then obtain x where x: "peek fs (cur @ [c]) = Some x" "i_look who fs (cur @ [c])"
      using "2.prems"(1) by (auto split: if_splits option.splits)
    have l: "i_look who (put e nd fs) (cur @ [c])" using look_put [OF "2.prems"(2,3,4)] x by auto
    have n: "cur @ [c] \<noteq> e" using x "2.prems"(4) by auto
    show ?thesis using 2 False x l n by (cases "n_kind x") (auto split: if_splits)
  qed
qed simp

section \<open>Guarded paths\<close>

text \<open>Everything that lies outside \<open>R\<close> is as before, and no link is new.\<close>

definition inside :: "path \<Rightarrow> fs \<Rightarrow> fs \<Rightarrow> bool" where
  "inside R fs fs' \<longleftrightarrow> (\<forall>p. \<not> prefix R p \<longrightarrow> peek fs' p = peek fs p) \<and>
     (\<forall>p nd t. peek fs' p = Some nd \<and> n_kind nd = Sym t \<longrightarrow> (\<exists>nd'. peek fs p = Some nd' \<and> n_kind nd' = Sym t))"

lemma inside_refl [simp]: "inside R fs fs"
  by (auto simp: inside_def)

lemma inside_trans: "inside R fs fs' \<Longrightarrow> inside R fs' fs'' \<Longrightarrow> inside R fs fs''"
  unfolding inside_def by metis

lemma inside_put: "prefix R e \<Longrightarrow> (\<And>t. n_kind nd \<noteq> Sym t) \<Longrightarrow> inside R fs (put e nd fs)"
  by (auto simp: inside_def)

text \<open>What \<open>guardSymlinks\<close> establishes for the components \<open>cs\<close>: the first \<open>a\<close> of them can be looked up, and from there on whatever can be
  looked up lies in \<open>R\<close>.\<close>

definition safe :: "Ident \<Rightarrow> fs \<Rightarrow> path \<Rightarrow> string list \<Rightarrow> nat \<Rightarrow> bool" where
  "safe g fs R cs a \<longleftrightarrow> a \<le> length cs \<and> is_ok (walk g fs 255 [] (take a cs)) \<and>
     (\<forall>k d. a \<le> k \<and> k \<le> length cs \<and> walk g fs 255 [] (take k cs) = Inr d \<longrightarrow> prefix R d)"

lemma guard_safe:
  assumes "guard_up g fs root (rev cs)" "plains cs" "is_rooted root"
  shows "\<exists>a. safe g fs (components root) cs a"
  using assms
proof (induction cs rule: rev_induct)
  case Nil
  then have "prefix (components root) []"
    by (intro inside_text) (simp_all add: EvalSymlinks_text)
  then show ?case by (auto simp: safe_def)
next
  case (snoc c cs)
  show ?case
  proof (cases "walk g fs 255 [] (cs @ [c])")
    case (Inr d)
    then have "\<not> escapes root (path_text d)" using snoc.prems(1,2) by (simp add: EvalSymlinks_text del: walk.simps)
    moreover have "plains d" using walk_plains [OF Inr] no_slash snoc.prems(2) by simp
    ultimately have "prefix (components root) d" using inside_text snoc.prems(3) by blast
    with Inr show ?thesis by (intro exI [of _ "length (cs @ [c])"]) (auto simp: safe_def)
  next
    case (Inl e)
    then have "guard_up g fs root (rev cs)" using snoc.prems(1,2) by (simp add: EvalSymlinks_text del: walk.simps)
    then obtain a where a: "safe g fs (components root) cs a" using snoc.IH snoc.prems by auto
    then have "safe g fs (components root) (cs @ [c]) a"
      using Inl by (auto simp: safe_def le_Suc_eq)
    then show ?thesis ..
  qed
qed

lemma not_isl_Inr: "is_ok r \<Longrightarrow> \<exists>x. r = Inr x"
  by (cases r) auto

lemma walk_one:
  assumes "walk g fs m d [c] = Inr x" "plain c"
  obtains nd where "peek fs (d @ [c]) = Some nd" "(\<And>t. n_kind nd \<noteq> Sym t) \<Longrightarrow> x = d @ [c]"
proof -
  have c: "c \<noteq> [] \<and> c \<noteq> ''.'' \<and> c \<noteq> ''..''" using assms(2) by (simp add: plain_def)
  obtain nd where nd: "peek fs (d @ [c]) = Some nd"
    using assms(1) by (auto simp: walk_name_step [OF c] simp del: walk.simps(2) split: if_splits option.splits)
  with assms(1) have "x = d @ [c]" if "\<And>t. n_kind nd \<noteq> Sym t"
    using that by (cases "n_kind nd") (auto simp: walk_name_step [OF c] simp del: walk.simps(2) split: if_splits)
  with nd that show ?thesis by blast
qed

lemma walk_last:
  assumes "walk g fs n [] (xs @ [c]) = Inr x" "walk g fs n [] xs = Inr d" "plain c"
  obtains nd where "peek fs (d @ [c]) = Some nd" "(\<And>t. n_kind nd \<noteq> Sym t) \<Longrightarrow> x = d @ [c]"
  using walk_split [OF assms(1)] assms(2) walk_one [OF _ assms(3)] by force

lemma entryD:
  assumes "entry who fs (xs @ [c]) = Inr e" "plain c"
  obtains d where "walk who fs kernel_links [] xs = Inr d" "e = d @ [c]" "is_dir fs d"
  using assms by (auto simp: entry_def bindR_Inr_iff plain_def is_dir_def simp del: walk.simps split: option.splits if_splits)

lemma kernel_sees: "walk who fs kernel_links [] xs = Inr d \<Longrightarrow> sees g who \<Longrightarrow> walk g fs 255 [] xs = Inr d"
  using walk_more [OF walk_sees, of who fs kernel_links "[]" xs d g 255] by simp

lemma prefix_snocI: "prefix R d \<Longrightarrow> prefix R (d @ [c])"
  by (simp add: prefix_prefix)

lemma entry_guarded:
  assumes "safe g fs R (xs @ [c] @ ys) a" "sees g who" "plain c" "entry who fs (xs @ [c]) = Inr e" "peek fs e = None"
  shows "a \<le> length xs" "walk g fs 255 [] xs = Inr (butlast e)" "prefix R (butlast e)" "e = butlast e @ [c]"
proof -
  obtain d where d: "walk who fs kernel_links [] xs = Inr d" "e = d @ [c]" using entryD [OF assms(4,3)] .
  then have w: "walk g fs 255 [] xs = Inr d" using kernel_sees assms(2) by blast
  show a: "a \<le> length xs"
  proof (rule ccontr)
    assume "\<not> a \<le> length xs"
    then have "take a (xs @ [c] @ ys) = (xs @ [c]) @ take (a - Suc (length xs)) ys" by (simp add: take_Cons')
    then obtain x where "walk g fs 255 [] ((xs @ [c]) @ take (a - Suc (length xs)) ys) = Inr x"
      using assms(1) unfolding safe_def by (metis not_isl_Inr)
    then obtain y where "walk g fs 255 [] (xs @ [c]) = Inr y" using walk_split by blast
    then obtain nd where "peek fs (d @ [c]) = Some nd" using walk_last w assms(3) by blast
    with d(2) assms(5) show False by simp
  qed
  have "take (length xs) (xs @ [c] @ ys) = xs" by simp
  then have "prefix R d" using assms(1) a w unfolding safe_def
    by (metis le_add1 length_append)
  then show "prefix R (butlast e)" "walk g fs 255 [] xs = Inr (butlast e)" "e = butlast e @ [c]" using w d(2) by simp_all
qed

lemma entry_there:
  assumes "safe g fs R (xs @ [c]) a" "sees g who" "plain c" "entry who fs (xs @ [c]) = Inr e" "peek fs e = Some nd" "\<And>t. n_kind nd \<noteq> Sym t"
  shows "prefix R e"
proof -
  obtain d where d: "walk who fs kernel_links [] xs = Inr d" "e = d @ [c]" using entryD [OF assms(4,3)] .
  then have w: "walk g fs 255 [] xs = Inr d" using kernel_sees assms(2) by blast
  show ?thesis
  proof (cases "a \<le> length xs")
    case True
    then have "prefix R d" using assms(1) w unfolding safe_def by (metis append_eq_conv_conj le_add1 length_append)
    with d(2) show ?thesis by (simp add: prefix_snocI)
  next
    case False
    then have a: "a = length (xs @ [c])" using assms(1) by (simp add: safe_def)
    then obtain x where x: "walk g fs 255 [] (xs @ [c]) = Inr x" using assms(1) by (auto simp: safe_def simp del: walk.simps dest: not_isl_Inr)
    then have "x = e" using walk_last [OF x w assms(3)] d(2) assms(5,6) by (metis option.inject)
    with x assms(1) a show ?thesis unfolding safe_def by (metis order_refl take_all)
  qed
qed

section \<open>Creating below a guarded path\<close>

lemma is_dir_put: "peek fs e = None \<Longrightarrow> is_dir fs p \<Longrightarrow> is_dir (put e nd fs) p"
  by (auto simp: is_dir_def split: option.splits)

lemma put_keys: "x \<in> set (put e nd fs) \<Longrightarrow> x = (e, nd) \<or> x \<in> set fs"
  by (induction fs) (auto simp: put_def split: if_splits)

lemma fs_okI: "is_dir fs [] \<Longrightarrow> (\<And>p x. (p, x) \<in> set fs \<Longrightarrow> p = [] \<or> is_dir fs (butlast p)) \<Longrightarrow> fs_ok fs"
  by (auto simp: fs_ok_def list_all_iff)

lemma fs_ok_put:
  assumes "fs_ok fs" "peek fs e = None" "e \<noteq> []" "is_dir fs (butlast e)"
  shows "fs_ok (put e nd fs)"
proof (rule fs_okI)
  show "is_dir (put e nd fs) []" using assms(1) is_dir_put [OF assms(2)] by (simp add: fs_ok_def)
  fix p x assume "(p, x) \<in> set (put e nd fs)"
  then have "p = e \<or> (p, x) \<in> set fs" using put_keys by blast
  then have "p = [] \<or> is_dir fs (butlast p)" using assms(1,4) by (auto simp: fs_ok_def list_all_iff)
  then show "p = [] \<or> is_dir (put e nd fs) (butlast p)" using is_dir_put [OF assms(2)] by blast
qed

lemma fs_ok_replace:
  assumes "fs_ok fs" "peek fs e = Some old" "n_kind old \<noteq> Dir \<or> n_kind nd = Dir"
  shows "fs_ok (put e nd fs)"
proof -
  have d: "is_dir (put e nd fs) p" if "is_dir fs p" for p using that assms(2,3) by (auto simp: is_dir_def split: option.splits)
  have e: "e = [] \<or> is_dir fs (butlast e)" using fs_ok_parent [OF assms(1,2)] by blast
  show ?thesis
  proof (rule fs_okI)
    show "is_dir (put e nd fs) []" using assms(1) d by (simp add: fs_ok_def)
    fix p x assume "(p, x) \<in> set (put e nd fs)"
    then have "p = e \<or> (p, x) \<in> set fs" using put_keys by blast
    then have "p = [] \<or> is_dir fs (butlast p)" using assms(1) e by (auto simp: fs_ok_def list_all_iff)
    then show "p = [] \<or> is_dir (put e nd fs) (butlast p)" using d by blast
  qed
qed

text \<open>A new entry at the next component of a guarded path keeps it guarded: nothing is below the entry yet.\<close>

lemma safe_put:
  assumes "safe g fs R (xs @ c # ys) a" "looks_local g" "fs_ok fs" "plains (xs @ c # ys)"
    and "a \<le> length xs" "walk g fs 255 [] xs = Inr d" "peek fs (d @ [c]) = None" "prefix R d" "\<And>t. n_kind nd \<noteq> Sym t"
  shows "safe g (put (d @ [c]) nd fs) R (xs @ c # ys) a"
proof -
  let ?fs = "put (d @ [c]) nd fs"
  note keep = walk_put [OF _ assms(2,3,7)]
  have "prefix R x" if k: "a \<le> k" "k \<le> length (xs @ c # ys)" and x: "walk g ?fs 255 [] (take k (xs @ c # ys)) = Inr x" for k x
  proof (cases "k \<le> length xs")
    case True
    then have "take k (xs @ c # ys) = take k xs" by simp
    moreover obtain y where "walk g fs 255 [] (take k xs) = Inr y"
      using walk_split [of g fs 255 "[]" "take k xs" "drop k xs" d] assms(6) by auto
    ultimately show ?thesis using keep x k assms(1) unfolding safe_def by (metis Inr_inject)
  next
    case False
    then have "take k (xs @ c # ys) = (xs @ [c]) @ take (k - Suc (length xs)) ys" by (simp add: take_Cons')
    then obtain y m where y: "walk g ?fs 255 [] (xs @ [c]) = Inr y" "walk g ?fs m y (take (k - Suc (length xs)) ys) = Inr x"
      using walk_split x by metis
    have yd: "y = d @ [c]" using walk_last [OF y(1) keep [OF assms(6)]] assms(4,9) by (auto simp: plains_def)
    show ?thesis
    proof (cases "take (k - Suc (length xs)) ys")
      case Nil
      then have "x = d @ [c]" using y(2) [unfolded Nil] yd by simp
      with prefix_snocI [OF assms(8)] show ?thesis by simp
    next
      case (Cons b bs)
      then have b: "plain b" using assms(4) by (metis in_set_takeD list.set_intros(1) list_all_iff plains_def plains_simps(2,3))
      obtain z m' where "walk g ?fs m' y [b] = Inr z" using walk_split [of g ?fs m y "[b]" bs x] y(2) Cons by auto
      then obtain n where "peek ?fs (y @ [b]) = Some n" using walk_one b by blast
      then have "peek fs ((d @ [c]) @ [b]) \<noteq> None" using yd by (simp split: if_splits)
      then have "peek fs (d @ [c]) \<noteq> None" by (rule fs_ok_prefix [OF assms(3)])
      with assms(7) show ?thesis by simp
    qed
  qed
  moreover have "is_ok (walk g ?fs 255 [] (take a (xs @ c # ys)))"
    using keep not_isl_Inr assms(1) unfolding safe_def by (metis sum.disc(2))
  ultimately show ?thesis using assms(1) unfolding safe_def by blast
qed

text \<open>The invariant of an operation below the guarded components \<open>cs\<close>, and what it has done so far.\<close>

definition guarded :: "Ident \<Rightarrow> fs \<Rightarrow> path \<Rightarrow> string list \<Rightarrow> bool" where
  "guarded g fs R cs \<longleftrightarrow> fs_ok fs \<and> plains cs \<and> (\<exists>a. safe g fs R cs a)"

lemma mkdir_guarded:
  assumes "guarded g fs R (xs @ c # ys)" "looks_local g" "sees g who" "mkdir_parts who perm (xs @ [c]) fs = Inr fs'"
  shows "guarded g fs' R (xs @ c # ys) \<and> inside R fs fs'"
proof -
  obtain e where e: "entry who fs (xs @ [c]) = Inr e" "peek fs e = None" "fs' = put e (new_node who Dir perm) fs"
    using assms(4) by (auto simp: mkdir_parts_def bindR_Inr_iff split: if_splits)
  obtain a where a: "safe g fs R (xs @ c # ys) a" and f: "fs_ok fs" "plains (xs @ c # ys)" using assms(1) by (auto simp: guarded_def)
  then have c: "plain c" by simp
  note G = entry_guarded [OF _ assms(3) c e(1,2), of R ys a, simplified, OF a]
  have k: "n_kind (new_node who Dir perm) \<noteq> Sym t" for t by (simp add: new_node_def)
  have "safe g fs' R (xs @ c # ys) a"
    using safe_put [OF a assms(2) f G(1,2) _ G(3) k] e(2,3) G(4) by metis
  moreover have "is_dir fs (butlast e)" using entryD [OF e(1) c] by (metis butlast_snoc)
  then have "fs_ok fs'" using fs_ok_put [OF f(1) e(2)] G(4) e(3) by (metis append_is_Nil_conv list.distinct(1))
  moreover have "inside R fs fs'" using inside_put [OF _ k] prefix_snocI [OF G(3), of c] G(4) e(3) by metis
  ultimately show ?thesis using f(2) by (auto simp: guarded_def)
qed

lemma mkdir_all_guarded:
  assumes "guarded g fs R (xs @ ys)" "looks_local g" "sees g who" "mkdir_all who perm (rev xs) fs = (r, fs')"
  shows "guarded g fs' R (xs @ ys) \<and> inside R fs fs'"
  using assms(1,4)
proof (induction xs arbitrary: ys r fs' rule: rev_induct)
  case (snoc c xs)
  obtain r1 fs1 where m: "mkdir_all who perm (rev xs) fs = (r1, fs1)" by fastforce
  from snoc.IH [of "c # ys"] snoc.prems(1) m have g1: "guarded g fs1 R (xs @ c # ys)" "inside R fs fs1" by simp_all
  consider "fs' = fs" | "fs' = fs1" | "mkdir_parts who perm (xs @ [c]) fs1 = Inr fs'"
    using snoc.prems(2) m by (auto split: sum.splits option.splits if_splits)
  then show ?case
  proof cases
    case 3
    with mkdir_guarded [OF g1(1) assms(2,3) 3] g1(2) show ?thesis by (auto intro: inside_trans)
  qed (use snoc.prems(1) g1 in auto)
qed simp

lemma os_CreateD:
  assumes "os_Create who perm p fs = Inr (h, fs')"
  shows "\<exists>nd. entry who fs (parts p) = Inr h \<and> fs' = put h nd fs \<and> n_kind nd = Reg [] \<and>
    (peek fs h = None \<or> (\<exists>old d. peek fs h = Some old \<and> n_kind old = Reg d))"
proof -
  obtain e where e: "entry who fs (parts p) = Inr e" using assms by (cases "entry who fs (parts p)") (auto simp: os_Create_def)
  show ?thesis
  proof (cases "peek fs e")
    case None
    with assms e have "h = e \<and> fs' = put e (new_node who (Reg []) perm) fs" by (auto simp: os_Create_def split: if_splits)
    with e None show ?thesis by (intro exI [of _ "new_node who (Reg []) perm"]) (simp add: new_node_def)
  next
    case (Some nd)
    then obtain d where "n_kind nd = Reg d" "h = e" "fs' = put e (nd\<lparr>n_kind := Reg [], n_mtime := i_now who\<rparr>) fs"
      using assms e by (cases "n_kind nd") (auto simp: os_Create_def split: if_splits)
    with e Some show ?thesis by (intro exI [of _ "nd\<lparr>n_kind := Reg [], n_mtime := i_now who\<rparr>"]) simp
  qed
qed

lemma create_guarded:
  assumes "guarded g fs R (xs @ [c])" "looks_local g" "sees g who" "os_Create who perm (path_text (xs @ [c])) fs = Inr (h, fs')"
  shows "prefix R h \<and> fs_ok fs' \<and> inside R fs fs' \<and> (\<exists>nd. peek fs' h = Some nd \<and> n_kind nd = Reg [])"
proof -
  obtain a where a: "safe g fs R (xs @ [c]) a" and f: "fs_ok fs" "plains (xs @ [c])" using assms(1) by (auto simp: guarded_def)
  then have c: "plain c" by simp
  obtain nd where e: "entry who fs (xs @ [c]) = Inr h" "fs' = put h nd fs" "n_kind nd = Reg []"
      "peek fs h = None \<or> (\<exists>old d. peek fs h = Some old \<and> n_kind old = Reg d)"
    using os_CreateD [OF assms(4)] f(2) by (metis parts_text)
  have "prefix R h \<and> fs_ok fs'"
  proof (cases "peek fs h")
    case None
    note G = entry_guarded [OF _ assms(3) c e(1) None, of R "[]" a, simplified, OF a]
    have "is_dir fs (butlast h)" using entryD [OF e(1) c] by (metis butlast_snoc)
    then show ?thesis using fs_ok_put [OF f(1) None] prefix_snocI [OF G(3), of c] G(4) e(2)
      by (metis append_is_Nil_conv list.distinct(1))
  next
    case (Some old)
    then obtain d where d: "n_kind old = Reg d" using e(4) by auto
    then have "prefix R h" using entry_there [OF a assms(3) c e(1) Some] by simp
    moreover have "fs_ok fs'" using fs_ok_replace [OF f(1) Some] d e(2) by simp
    ultimately show ?thesis ..
  qed
  moreover have "inside R fs fs'" using inside_put [of R h nd fs] calculation e(2,3) by simp
  ultimately show ?thesis using e(2,3) by simp
qed

lemma write_inside:
  assumes "prefix R h" "fs_ok fs"
  shows "fs_ok (os_Write h data fs)" "inside R fs (os_Write h data fs)"
  using assms fs_ok_replace [OF assms(2)] inside_put [OF assms(1)]
  by (auto simp: os_Write_def split: option.splits kind.splits)

end
