(* ===== verification/Files_Theorems.thy ===== *)
theory Files_Theorems
  imports Files_Laws
begin

text \<open>
  Properties of the file manager: writing, creating directories, changing modes, zipping and unpacking archives touches nothing
  outside the home of the account and creates no links (\<open>files_stay_home\<close>); deleting and renaming do not have that property
  (\<open>delete_escapes_home\<close>); a tar archive cannot write more than its budget (\<open>untar_within_budget\<close>), while the size check
  of a zip archive can be overflown (\<open>zip_budget_wraps\<close>).
\<close>

section \<open>Every operation keeps to the home directory\<close>

definition kept :: "path \<Rightarrow> fs \<Rightarrow> fs \<Rightarrow> bool" where
  "kept R fs fs' \<longleftrightarrow> fs_ok fs' \<and> inside R fs fs'"

lemma kept_trans: "kept R fs fs' \<Longrightarrow> kept R fs' fs'' \<Longrightarrow> kept R fs fs''"
  unfolding kept_def by (blast intro: inside_trans)

lemma kept_refl: "fs_ok fs \<Longrightarrow> kept R fs fs"
  by (simp add: kept_def)

lemma guarded_ok: "guarded g fs R cs \<Longrightarrow> fs_ok fs"
  by (simp add: guarded_def)

lemma MkdirAll_kept:
  assumes "guarded g fs R cs" "looks_local g" "sees g who" "os_MkdirAll who perm (path_text cs) fs = (r, fs')"
  shows "guarded g fs' R cs" "kept R fs fs'"
  using mkdir_all_guarded [of g fs R cs "[]" who perm r fs'] assms
  by (auto simp: os_MkdirAll_def kept_def guarded_def)

lemma MkdirAll_dir_kept:
  assumes "guarded g fs R cs" "looks_local g" "sees g who" "os_MkdirAll who perm (path_Dir (path_text cs)) fs = (r, fs')"
  shows "guarded g fs' R cs" "kept R fs fs'"
proof -
  have "guarded g fs' R cs \<and> inside R fs fs'"
  proof (cases cs rule: rev_cases)
    case Nil
    have "path_Dir (path_text []) = path_text []" using Clean_of_text [of "[]"] by (simp add: path_Dir_def path_text_def)
    with Nil assms show ?thesis by (simp add: os_MkdirAll_def)
  next
    case (snoc xs c)
    have p: "plains (xs @ [c])" using assms(1) snoc by (simp add: guarded_def)
    then have "mkdir_all who perm (rev xs) fs = (r, fs')" using assms(4) snoc path_Dir_text [OF p] by (simp add: os_MkdirAll_def)
    with mkdir_all_guarded [of g fs R xs "[c]" who perm r fs'] assms(1-3) snoc show ?thesis by simp
  qed
  then show "guarded g fs' R cs" "kept R fs fs'" by (simp_all add: kept_def guarded_def)
qed

lemma Create_kept:
  assumes "guarded g fs R cs" "looks_local g" "sees g who" "os_Create who perm (path_text cs) fs = Inr (h, fs')"
  shows "prefix R h" "kept R fs fs'"
proof -
  have "prefix R h \<and> fs_ok fs' \<and> inside R fs fs'"
  proof (cases cs rule: rev_cases)
    case Nil
    have "is_dir fs []" using guarded_ok [OF assms(1)] by (simp add: fs_ok_def)
    with Nil assms(4) show ?thesis by (auto simp: os_Create_def entry_def is_dir_def split: option.splits)
  next
    case (snoc xs c)
    with create_guarded [of g fs R xs c who perm h fs'] assms show ?thesis by auto
  qed
  then show "prefix R h" "kept R fs fs'" by (simp_all add: kept_def)
qed

lemma Write_kept: "kept R fs fs' \<Longrightarrow> prefix R h \<Longrightarrow> kept R fs (os_Write h data fs')"
  using write_inside [of R h fs' data] by (auto simp: kept_def intro: inside_trans)

lemma zip_copy_kept: "prefix R h \<Longrightarrow> kept R fs fs1 \<Longrightarrow> kept R fs (snd (zip_copy h declared nread err cs fs1))"
  by (induction h declared nread err cs fs1 rule: zip_copy.induct) (auto intro: Write_kept)

lemma budget_copy_kept: "prefix R h \<Longrightarrow> kept R fs fs1 \<Longrightarrow> kept R fs (snd (snd (budget_copy h err cs left fs1)))"
  by (induction h err cs left fs1 rule: budget_copy.induct) (auto simp: Let_def intro: Write_kept)

text \<open>A file created under a guarded path: its directories, the file, and what is then written to it.\<close>

lemma file_kept:
  assumes "guarded g fs R cs" "looks_local g" "sees g who" "fs_ok fs"
    and "\<And>h fs2. prefix R h \<Longrightarrow> kept R fs fs2 \<Longrightarrow> kept R fs (snd (k h fs2))"
  shows "kept R fs (snd (bindF (lift_opt (os_MkdirAll who p (path_Dir (path_text cs)) fs)) (\<lambda>_ fs1.
    case os_Create who perm (path_text cs) fs1 of Inl e \<Rightarrow> (Inl (FileOS e), fs1) | Inr (h, fs2) \<Rightarrow> k h fs2)))"
proof -
  obtain r fs1 where m: "os_MkdirAll who p (path_Dir (path_text cs)) fs = (r, fs1)" by fastforce
  note M = MkdirAll_dir_kept [OF assms(1-3) m]
  show ?thesis
  proof (cases "os_Create who perm (path_text cs) fs1")
    case (Inl e)
    with m M show ?thesis by (cases r) simp_all
  next
    case (Inr y)
    then obtain h fs2 where y: "os_Create who perm (path_text cs) fs1 = Inr (h, fs2)" by (cases y) auto
    with m M assms(5) [of h fs2] Create_kept [OF M(1) assms(2,3) y] show ?thesis by (cases r) (auto intro: kept_trans)
  qed
qed

text \<open>The account's home: an absolute, clean path that is a directory and no link (nor is anything above it).\<close>

definition home_ok :: "FilesEnv \<Rightarrow> User \<Rightarrow> fs \<Rightarrow> bool" where
  "home_ok env u fs \<longleftrightarrow> is_rooted (homeRoot env u) \<and> Clean (homeRoot env u) = homeRoot env u \<and> is_dir fs (components (homeRoot env u))"

definition panel_sees_all :: "FilesEnv \<Rightarrow> bool" where
  "panel_sees_all env \<longleftrightarrow> (\<forall>fs p. i_look (f_panel env) fs p)"

lemma panel_looks: "panel_sees_all env \<Longrightarrow> looks_local (f_panel env) \<and> sees (f_panel env) who"
  by (simp add: panel_sees_all_def looks_local_def sees_def)

lemma dir_prefix:
  assumes "fs_ok fs" "is_dir fs (p @ q)"
  shows "is_dir fs p"
  using assms(2)
proof (induction q rule: rev_induct)
  case (snoc x xs)
  then obtain nd where "peek fs (p @ xs @ [x]) = Some nd" by (auto simp: is_dir_def split: option.splits)
  then have "is_dir fs (butlast (p @ xs @ [x]))" by (rule fs_ok_parent [OF assms(1)]) simp
  then show ?case using snoc.IH by (simp add: butlast_append)
qed simp

lemma walk_real:
  assumes "fs_ok fs" "\<And>fs p. i_look g fs p" "is_dir fs (cur @ p)" "plains p"
  shows "walk g fs n cur p = Inr (cur @ p)"
  using assms(3,4)
proof (induction p arbitrary: cur)
  case (Cons c p)
  then have c: "c \<noteq> [] \<and> c \<noteq> ''.'' \<and> c \<noteq> ''..''" by (simp add: plain_def)
  have "is_dir fs (cur @ [c])" using dir_prefix [OF assms(1), of "cur @ [c]" p] Cons.prems(1) by simp
  then have "walk g fs n cur (c # p) = walk g fs n (cur @ [c]) p"
    using assms(2) by (auto simp: walk_name_step [OF c] is_dir_def simp del: walk.simps split: option.splits)
  with Cons show ?case by simp
qed simp

lemma Join_text:
  assumes "is_rooted a"
  shows "\<exists>cs. filepath_Join [a, b] = path_text cs \<and> plains cs"
proof -
  have "a \<noteq> []" using assms by (auto simp: HasPrefix_def)
  then have "\<exists>p. filepath_Join [a, b] = Clean p \<and> is_rooted p"
    using assms by (cases "b = []") (auto simp: filepath_Join_def HasPrefix_iff)
  then obtain p where "filepath_Join [a, b] = Clean p" "is_rooted p" by blast
  then show ?thesis using Clean_text plains_components by (intro exI [of _ "components p"]) simp
qed

lemma guardSymlinks_guarded:
  assumes "guardSymlinks g fs root (path_text cs)" "plains cs" "is_rooted root" "fs_ok fs"
  shows "guarded g fs (components root) cs"
  using guard_safe [of g fs root cs] assms by (simp add: guardSymlinks_def guarded_def)

lemma Resolve_guarded:
  assumes "Resolve env fs u rel = Inr p" "home_ok env u fs" "fs_ok fs" "panel_sees_all env"
  obtains cs where "p = path_text cs" "guarded (f_panel env) fs (components (homeRoot env u)) cs"
proof (cases "rel = [] \<or> rel = ''/''")
  case True
  let ?R = "components (homeRoot env u)"
  have h: "is_rooted (homeRoot env u)" "is_dir fs ?R" "plains ?R" using assms(2) plains_components by (auto simp: home_ok_def)
  have p: "p = path_text ?R" using assms(1,2) True Clean_text by (auto simp: Resolve_def home_ok_def)
  have "walk (f_panel env) fs 255 [] ?R = Inr ?R" using walk_real [OF assms(3), of "f_panel env" "[]" ?R] assms(4) h by (simp add: panel_sees_all_def)
  then have "safe (f_panel env) fs ?R ?R (length ?R)" by (auto simp: safe_def simp del: walk.simps)
  with p h(3) assms(3) that show ?thesis by (auto simp: guarded_def)
next
  case False
  let ?j = "filepath_Join [homeRoot env u, TrimPrefix (Clean (''/'' @ rel)) ''/'']"
  have r: "is_rooted (homeRoot env u)" using assms(2) by (simp add: home_ok_def)
  have "p = ?j" "guardSymlinks (f_panel env) fs (homeRoot env u) ?j"
    using assms(1) False by (auto simp: Resolve_def Let_def split: if_splits)
  moreover obtain cs where "?j = path_text cs" "plains cs" using Join_text [OF r] by blast
  ultimately show ?thesis using that guardSymlinks_guarded r assms(3) by metis
qed

lemma safeTarget_guarded:
  assumes "safeTarget who fs root (path_text ds) name = Some target" "is_rooted root" "fs_ok fs"
  obtains cs where "target = path_text cs" "guarded who fs (components root) cs"
proof -
  let ?j = "filepath_Join [path_text ds, name]"
  have "target = ?j" "guardSymlinks who fs root ?j" using assms(1) by (auto simp: safeTarget_def Let_def split: if_splits)
  moreover obtain cs where "?j = path_text cs" "plains cs" using Join_text [OF rooted_text] by blast
  ultimately show ?thesis using that guardSymlinks_guarded assms(2,3) by metis
qed

section \<open>Archives\<close>

lemma unzip_entry_kept:
  assumes "is_rooted root" "looks_local who" "fs_ok fs"
  shows "kept (components root) fs (snd (unzip_entry root (path_text ds) who z fs))"
proof (cases "safeTarget who fs root (path_text ds) (z_name z)")
  case None
  with assms(3) show ?thesis by (simp add: unzip_entry_def kept_refl)
next
  case (Some target)
  then obtain cs where t: "target = path_text cs" "guarded who fs (components root) cs" using safeTarget_guarded assms(1,3) by metis
  let ?R = "components root"
  let ?k = "\<lambda>h fs2. case zip_copy h (z_size z) 0 (z_err z) (z_chunks z) fs2 of (ok, fs3) \<Rightarrow> (if ok then Inr () else Inl BadArchive, fs3)"
  have k: "kept ?R fs (snd (?k h fs2))" if "prefix ?R h" "kept ?R fs fs2" for h fs2
    using zip_copy_kept [OF that, of "z_size z" 0 "z_err z" "z_chunks z"] by (auto split: prod.splits)
  note F = file_kept [OF t(2) assms(2) sees_refl assms(3), of ?k "permOf (z_perm z)" 493, OF k]
  obtain r fs1 where m: "os_MkdirAll who 493 (path_Dir (path_text cs)) fs = (r, fs1)" by fastforce
  note M = MkdirAll_dir_kept [OF t(2) assms(2) sees_refl m]
  obtain r' fs' where m': "os_MkdirAll who 493 (path_text cs) fs = (r', fs')" by fastforce
  note M' = MkdirAll_kept [OF t(2) assms(2) sees_refl m']
  have z: "kept ?R fs (snd (unzip_entry root (path_text ds) who z fs))" if "\<not> z_isdir z" "\<not> z_islink z" "z_opens z"
    using F that Some t(1) by (simp add: unzip_entry_def cong del: prod.case_cong_weak sum.case_cong_weak)
  have z': "kept ?R fs (snd (unzip_entry root (path_text ds) who z fs))" if "\<not> z_isdir z" "\<not> z_islink z" "\<not> z_opens z"
    using that Some t(1) m M by (cases r) (simp_all add: unzip_entry_def)
  show ?thesis using z z' Some t(1) m' M' assms(3) by (cases r') (auto simp: unzip_entry_def kept_refl split: if_splits)
qed

lemma each_entry_kept:
  assumes "\<And>x fs1. fs_ok fs1 \<Longrightarrow> kept R fs1 (snd (f x fs1))" "fs_ok fs"
  shows "kept R fs (snd (each_entry f xs fs))"
  using assms(2)
proof (induction xs arbitrary: fs)
  case (Cons x xs)
  have "kept R fs (snd (f x fs))" using assms(1) Cons.prems by blast
  with Cons.IH [of "snd (f x fs)"] show ?case by (auto simp: kept_def split: prod.splits sum.splits intro: inside_trans)
qed (simp add: kept_refl)

lemma unzipInto_kept:
  assumes "is_rooted root" "looks_local who" "fs_ok fs"
  shows "kept (components root) fs (snd (unzipInto codec root zipAbs (path_text ds) who fs))"
  using each_entry_kept [of "components root" "unzip_entry root (path_text ds) who" fs] unzip_entry_kept [OF assms(1,2)] assms(3)
  by (auto simp: unzipInto_def kept_refl split: sum.splits option.splits)

lemma writeFileFrom_kept:
  assumes "guarded who fs R cs" "looks_local who" "fs_ok fs"
  shows "kept R fs (snd (writeFileFrom (path_text cs) chunks err mode who left fs))"
  unfolding writeFileFrom_def
proof (rule file_kept [OF assms(1,2) sees_refl assms(3)])
  fix h fs2 assume "prefix R h" "kept R fs fs2"
  then show "kept R fs (snd (case budget_copy h err chunks left fs2 of (ok, left', fs3) \<Rightarrow> (if ok then Inr left' else Inl BadArchive, fs3)))"
    using budget_copy_kept [of R h fs fs2 err chunks left] by (auto split: prod.splits)
qed

lemma untar_entry_kept:
  assumes "is_rooted root" "looks_local who" "fs_ok fs"
  shows "kept (components root) fs (snd (untar_entry root (path_text ds) who t left fs))"
proof (cases "safeTarget who fs root (path_text ds) (t_name t)")
  case None
  with assms(3) show ?thesis by (simp add: untar_entry_def kept_refl)
next
  case (Some target)
  then obtain cs where t: "target = path_text cs" "guarded who fs (components root) cs" using safeTarget_guarded assms(1,3) by metis
  obtain r fs1 where m: "os_MkdirAll who 493 (path_text cs) fs = (r, fs1)" by fastforce
  note M = MkdirAll_kept [OF t(2) assms(2) sees_refl m]
  show ?thesis using Some t(1) m M(2) writeFileFrom_kept [OF t(2) assms(2,3)] assms(3)
    by (cases r) (auto simp: untar_entry_def kept_refl split: tar_type.splits)
qed

lemma untar_loop_kept:
  assumes "is_rooted root" "looks_local who" "fs_ok fs"
  shows "kept (components root) fs (snd (untar_loop root (path_text ds) who err n ts left fs))"
  using assms(3)
proof (induction ts arbitrary: n left fs)
  case (Cons t ts)
  obtain r fs1 where u: "untar_entry root (path_text ds) who t left fs = (r, fs1)" by fastforce
  then have "kept (components root) fs fs1" using untar_entry_kept [OF assms(1,2) Cons.prems, of ds t left] by simp
  with Cons u show ?case by (cases r) (auto simp: kept_def kept_refl intro: inside_trans)
qed (simp add: kept_refl)

lemma extractInto_kept:
  assumes "is_rooted root" "looks_local who" "fs_ok fs"
  shows "kept (components root) fs (snd (extractInto codec root archAbs (path_text ds) format who fs))"
proof -
  let ?out = "strip_extension (path_Base archAbs)"
  have s: "kept (components root) fs (snd (bindF (writeFileFrom target chunks err 420 who (int maxUnzipBytes) fs) (\<lambda>_ fs1. (Inr (), fs1))))"
    if t: "safeTarget who fs root (path_text ds) ?out = Some target" for target chunks err
  proof -
    obtain cs where "target = path_text cs" "guarded who fs (components root) cs" using safeTarget_guarded t assms(1,3) by metis
    then show ?thesis using writeFileFrom_kept [OF _ assms(2,3), of "components root" cs chunks err 420 "int maxUnzipBytes"]
      by (auto split: prod.splits sum.splits)
  qed
  show ?thesis using s unzipInto_kept [OF assms] untar_loop_kept [OF assms] assms(3)
    by (auto simp: extractInto_def untar_def Let_def kept_refl split: sum.splits option.splits)
qed

section \<open>Changing modes in a whole tree\<close>

text \<open>The names in a file system: not empty, without slashes, and neither of the two names of directories.\<close>

definition names_ok :: "fs \<Rightarrow> bool" where
  "names_ok fs \<longleftrightarrow> list_all (\<lambda>(p, _). plains p) fs"

definition same_kinds :: "fs \<Rightarrow> fs \<Rightarrow> bool" where
  "same_kinds fs fs' \<longleftrightarrow> (\<forall>p. map_option n_kind (peek fs' p) = map_option n_kind (peek fs p))"

lemma same_kindsD: "same_kinds fs fs' \<Longrightarrow> peek fs' p = Some nd \<Longrightarrow> \<exists>nd'. peek fs p = Some nd' \<and> n_kind nd' = n_kind nd"
  unfolding same_kinds_def by (metis map_option_eq_Some)

lemma walk_kinds:
  assumes "walk who fs' n cur cs = Inr d" "same_kinds fs fs'" "\<And>p. i_look g fs p"
  shows "walk g fs n cur cs = Inr d"
  using assms
proof (induction who fs' n cur cs rule: walk.induct)
  case (2 who fs' n cur c cs)
  show ?case
  proof (cases "c = [] \<or> c = ''.'' \<or> c = ''..''")
    case True
    with 2 show ?thesis by auto
  next
    case False
    then obtain x where x: "peek fs' (cur @ [c]) = Some x" "i_look who fs' (cur @ [c])"
      using "2.prems"(1) by (auto split: if_splits option.splits)
    then obtain y where y: "peek fs (cur @ [c]) = Some y" "n_kind y = n_kind x" using same_kindsD [OF "2.prems"(2)] by blast
    show ?thesis using 2 False x y by (cases "n_kind x") (auto split: if_splits)
  qed
qed simp

lemma dir_above:
  assumes "fs_ok fs" "peek fs (d @ c # s) = Some nd" "s \<noteq> []"
  shows "is_dir fs (d @ [c])"
proof -
  obtain c' s' where s: "s = c' # s'" using assms(3) by (cases s) auto
  have "peek fs ((d @ [c, c']) @ s') \<noteq> None" using assms(2) s by simp
  then have "peek fs (d @ [c, c']) \<noteq> None" by (rule fs_ok_prefix [OF assms(1)])
  then obtain x where "peek fs (d @ [c, c']) = Some x" by blast
  from fs_ok_parent [OF assms(1) this] show ?thesis by (simp add: butlast_append)
qed

lemma walk_along:
  assumes "walk g fs n d s = Inr x" "plains s" "fs_ok fs" "peek fs (d @ s) = Some nd" "\<And>t. n_kind nd \<noteq> Sym t"
  shows "x = d @ s"
  using assms(1,2,4)
proof (induction s arbitrary: d)
  case (Cons c s)
  have c: "c \<noteq> [] \<and> c \<noteq> ''.'' \<and> c \<noteq> ''..''" using Cons.prems(2) by (simp add: plain_def)
  show ?case
  proof (cases "s = []")
    case True
    then obtain nd' where "peek fs (d @ [c]) = Some nd'" "(\<And>t. n_kind nd' \<noteq> Sym t) \<Longrightarrow> x = d @ [c]"
      using walk_one [of g fs n d c x] Cons.prems(1,2) by auto
    then show ?thesis using Cons.prems(3) True assms(5) by simp
  next
    case False
    then have "is_dir fs (d @ [c])" using dir_above [OF assms(3)] Cons.prems(3) by blast
    then have "walk g fs n (d @ [c]) s = Inr x"
      using Cons.prems(1) by (auto simp: walk_name_step [OF c] is_dir_def simp del: walk.simps split: if_splits option.splits)
    then show ?thesis using Cons.IH [of "d @ [c]"] Cons.prems by simp
  qed
qed simp

lemma chmod_in_tree:
  assumes G: "guarded g fs R cs" and g: "\<And>fs p. i_look g fs p" and names: "plains s"
    and e: "os_Lstat who fs (path_text cs) = Inr (e, nd0)" and q: "peek fs (e @ s) \<noteq> None"
    and k: "same_kinds fs fs1" "fs_ok fs1"
    and l: "os_Lstat who fs1 (path_text (cs @ s)) = Inr (e1, nd1)" "\<not> is_link nd1"
    and ch: "os_Chmod who m (path_text (cs @ s)) fs1 = Inr fs2"
  obtains x nd where "prefix R x" "peek fs1 x = Some nd" "fs2 = put x (nd\<lparr>n_perm := m\<rparr>) fs1"
proof -
  obtain a where a: "safe g fs R cs a" and p: "plains cs" "fs_ok fs" using G by (auto simp: guarded_def)
  have sees: "sees g who'" for who' using g by (simp add: sees_def)
  have up: "walk g fs 255 [] ys = Inr y" if "walk who fs1 kernel_links [] ys = Inr y" for ys y
    using walk_more [OF walk_kinds [OF that k(1) g]] by simp
  obtain x nd where x: "walk who fs1 kernel_links [] (cs @ s) = Inr x" "peek fs1 x = Some nd" "fs2 = put x (nd\<lparr>n_perm := m\<rparr>) fs1"
    using ch p(1) names by (auto simp: os_Chmod_def stat_parts_def bindR_Inr_iff node_at_def simp del: walk.simps split: option.splits if_splits)
  note w = up [OF x(1)]
  obtain y j where y: "walk g fs 255 [] cs = Inr y" "walk g fs j y s = Inr x" using walk_split [OF w] by blast
  have Ry: "prefix R y" using a y(1) unfolding safe_def by (metis order_refl take_all)
  have "prefix R x"
  proof (cases s rule: rev_cases)
    case Nil
    then show ?thesis using y Ry by simp
  next
    case (snoc s' c)
    have cs_e: "entry who fs cs = Inr e" using e p(1) by (auto simp: os_Lstat_def lstat_parts_def bindR_Inr_iff node_at_def split: option.splits)
    obtain nde where nde: "peek fs (e @ s) = Some nde" using q by blast
    have de: "is_dir fs e"
    proof -
      have "s \<noteq> []" using snoc by simp
      then obtain h t where "s = h # t" by (cases s) auto
      then have "peek fs ((e @ [h]) @ t) \<noteq> None" using nde by simp
      then obtain z where "peek fs (e @ [h]) = Some z" using fs_ok_prefix [OF p(2)] by blast
      from fs_ok_parent [OF p(2) this] show ?thesis by simp
    qed
    have ye: "y = e"
    proof (cases cs rule: rev_cases)
      case Nil
      then show ?thesis using y(1) cs_e by (simp add: entry_def)
    next
      case (snoc xs b)
      then have b: "plain b" using p(1) by simp
      obtain d where d: "walk who fs kernel_links [] xs = Inr d" "e = d @ [b]" using entryD [OF cs_e [unfolded snoc] b] .
      then have "walk g fs 255 [] xs = Inr d" using kernel_sees sees by blast
      with y(1) snoc b obtain z where "peek fs (d @ [b]) = Some z" "(\<And>t. n_kind z \<noteq> Sym t) \<Longrightarrow> y = d @ [b]" by (metis walk_last)
      then show ?thesis using de d(2) by (auto simp: is_dir_def)
    qed
    have pl: "plain c" "plains s'" using names snoc by simp_all
    have ds: "is_dir fs (e @ s')" using fs_ok_parent [OF p(2) nde] snoc by (simp add: butlast_append)
    have en: "entry who fs1 ((cs @ s') @ [c]) = Inr e1" "peek fs1 e1 = Some nd1"
      using l(1) p(1) names snoc by (auto simp: os_Lstat_def lstat_parts_def bindR_Inr_iff node_at_def split: option.splits)
    obtain d where d: "walk who fs1 kernel_links [] (cs @ s') = Inr d" "e1 = d @ [c]" using entryD [OF en(1) pl(1)] .
    obtain y' j' where "walk g fs 255 [] cs = Inr y'" "walk g fs j' y' s' = Inr d" using walk_split [OF up [OF d(1)]] by blast
    then have "walk g fs j' e s' = Inr d" using y(1) ye by simp
    moreover obtain nd2 where "peek fs (e @ s') = Some nd2" "n_kind nd2 = Dir" using ds by (auto simp: is_dir_def split: option.splits)
    ultimately have "d = e @ s'" using walk_along [OF _ pl(2) p(2)] by (metis kind.distinct(5) kind.distinct(3) kind.distinct(1))
    then have "e1 = e @ s" using d(2) snoc by simp
    then have "\<And>t. n_kind nde \<noteq> Sym t" using same_kindsD [OF k(1) en(2)] nde l(2) by auto
    then have "x = e @ s" using walk_along [OF _ names p(2) nde] y(2) ye by blast
    then show ?thesis using Ry ye by (simp add: prefix_prefix)
  qed
  with x that show thesis by blast
qed

lemma walk_tree_chmod:
  assumes G: "guarded g fs R cs" and g: "\<And>fs p. i_look g fs p"
    and e: "os_Lstat who fs (path_text cs) = Inr (e, nd0)"
    and qs: "\<And>s. s \<in> set ss \<Longrightarrow> plains s \<and> peek fs (e @ s) \<noteq> None"
    and k: "same_kinds fs fs1" "kept R fs fs1"
  shows "kept R fs (snd (walk_tree (\<lambda>p nd fs. if is_link nd then Inr fs else os_Chmod who m p fs) who (map (\<lambda>s. path_text (cs @ s)) ss) fs1))"
  using qs k
proof (induction ss arbitrary: fs1)
  case (Cons s ss)
  show ?case
  proof (cases "os_Lstat who fs1 (path_text (cs @ s))")
    case (Inl er)
    then show ?thesis using Cons.prems(3) by simp
  next
    case (Inr y)
    obtain e1 nd1 where y: "y = (e1, nd1)" by (cases y)
    note ls = Inr [unfolded y]
    show ?thesis
    proof (cases "is_link nd1")
      case True
      then show ?thesis using Inr y Cons.IH [OF _ Cons.prems(2,3)] Cons.prems(1) by simp
    next
      case link: False
      show ?thesis
      proof (cases "os_Chmod who m (path_text (cs @ s)) fs1")
        case (Inl er)
        then show ?thesis using Inr y link Cons.prems(3) by simp
      next
        case (Inr fs2)
        have ok: "fs_ok fs1" using Cons.prems(3) by (simp add: kept_def)
        obtain x nd where x: "prefix R x" "peek fs1 x = Some nd" "fs2 = put x (nd\<lparr>n_perm := m\<rparr>) fs1"
          using chmod_in_tree [OF G g _ e _ Cons.prems(2) ok ls link Inr] Cons.prems(1) [of s] by auto
        have "same_kinds fs fs2" using Cons.prems(2) x(2,3) by (auto simp: same_kinds_def) (metis option.simps(9))
        moreover have "kept R fs1 fs2" using x fs_ok_replace [OF ok x(2)] by (auto simp: kept_def inside_def)
        ultimately have "kept R fs (snd (walk_tree (\<lambda>p nd fs. if is_link nd then Inr fs else os_Chmod who m p fs) who (map (\<lambda>s. path_text (cs @ s)) ss) fs2))"
          using Cons.IH [of fs2] Cons.prems(1) kept_trans [OF Cons.prems(3)] by simp
        then show ?thesis using Inr ls link by simp
      qed
    qed
  qed
qed simp

lemma Chmod_tree_kept:
  assumes "guarded g fs R cs" "\<And>fs p. i_look g fs p" "names_ok fs"
  shows "kept R fs (snd (over_tree (\<lambda>p nd fs. if is_link nd then Inr fs else os_Chmod who m p fs) who (path_text cs) fs))"
proof (cases "os_Lstat who fs (path_text cs)")
  case (Inl er)
  then show ?thesis using guarded_ok [OF assms(1)] by (simp add: over_tree_def kept_refl)
next
  case (Inr y)
  obtain e nd where y: "y = (e, nd)" by (cases y)
  let ?ss = "map (drop (length e)) (tree_paths e fs)"
  have p: "plains cs" using assms(1) by (simp add: guarded_def)
  have "plains s \<and> peek fs (e @ s) \<noteq> None" if s: "s \<in> set ?ss" for s
  proof -
    obtain q where q: "q \<in> set (map fst fs)" "prefix e q" "s = drop (length e) q" using s by (auto simp: tree_paths_def)
    then have "q = e @ s" by (auto simp: prefix_def)
    moreover have "plains q" using q(1) assms(3) by (auto simp: names_ok_def list_all_iff)
    moreover have "peek fs q \<noteq> None" using q(1) by (simp add: peek_def map_of_eq_None_iff)
    ultimately show ?thesis by simp
  qed
  from walk_tree_chmod [OF assms(1,2) Inr [unfolded y] this, where ?fs1.0 = fs and m = m and ss = ?ss]
  show ?thesis using guarded_ok [OF assms(1)] Inr y p
    by (simp add: over_tree_def walk_name_def [abs_def] components_text kept_refl same_kinds_def comp_def)
qed

section \<open>The file manager\<close>

text \<open>The operations that create or change files.\<close>

datatype file_call = FWrite string string mode | FOpenWrite string mode | FMkdir string mode | FChmod string string bool
  | FZip string string | FUnzip string string | FExtract string string

fun run_file :: "FilesEnv \<Rightarrow> User \<Rightarrow> file_call \<Rightarrow> fs \<Rightarrow> fs" where
  "run_file env u (FWrite rel data mode) fs = snd (Write env u rel data mode fs)"
| "run_file env u (FOpenWrite rel mode) fs = snd (OpenWrite env u rel mode fs)"
| "run_file env u (FMkdir rel mode) fs = snd (Mkdir env u rel mode fs)"
| "run_file env u (FChmod rel mode recursive) fs = snd (Chmod env u rel mode recursive fs)"
| "run_file env u (FZip rel name) fs = snd (Zip env u rel name fs)"
| "run_file env u (FUnzip rel dest) fs = snd (Unzip env u rel dest fs)"
| "run_file env u (FExtract rel dest) fs = snd (Extract env u rel dest fs)"

definition deep_chmod :: "file_call \<Rightarrow> bool" where
  "deep_chmod call = (case call of FChmod _ _ recursive \<Rightarrow> recursive | _ \<Rightarrow> False)"

definition accounts_local :: "FilesEnv \<Rightarrow> bool" where
  "accounts_local env \<longleftrightarrow> (\<forall>name who. f_runAs env name = Some who \<longrightarrow> looks_local who)"

text \<open>Resolving a path and working on it as the account keeps to the home when the work does.\<close>

lemma with_path_kept:
  assumes "home_ok env u fs" "fs_ok fs" "panel_sees_all env"
    and "\<And>cs. guarded (f_panel env) fs (components (homeRoot env u)) cs \<Longrightarrow> kept (components (homeRoot env u)) fs (snd (k (path_text cs) fs))"
  shows "kept (components (homeRoot env u)) fs (snd (with_path env u rel k fs))"
proof (cases "Resolve env fs u rel")
  case (Inl e)
  with assms(2) show ?thesis by (simp add: with_path_def kept_refl)
next
  case (Inr p)
  then obtain cs where "p = path_text cs" "guarded (f_panel env) fs (components (homeRoot env u)) cs"
    using Resolve_guarded assms(1-3) by metis
  with assms(4) Inr show ?thesis by (simp add: with_path_def)
qed

lemma as_account_kept:
  assumes "fs_ok fs" "accounts_local env" "\<And>who. looks_local who \<Longrightarrow> kept R fs (snd (fn who fs))"
  shows "kept R fs (snd (as_account env u fn fs))"
  using assms by (auto simp: as_account_def accounts_local_def kept_refl split: option.splits)

lemma Chmod_kept:
  assumes "guarded g fs R cs" "sees g who"
  shows "kept R fs (snd (lift_os fs (os_Chmod who m (path_text cs) fs)))"
proof (cases "os_Chmod who m (path_text cs) fs")
  case (Inl e)
  with guarded_ok [OF assms(1)] show ?thesis by (simp add: kept_refl)
next
  case (Inr fs')
  obtain a where a: "safe g fs R cs a" and p: "plains cs" "fs_ok fs" using assms(1) by (auto simp: guarded_def)
  with Inr obtain e nd where e: "walk who fs kernel_links [] cs = Inr e" "peek fs e = Some nd" "fs' = put e (nd\<lparr>n_perm := m\<rparr>) fs"
    by (auto simp: os_Chmod_def stat_parts_def bindR_Inr_iff node_at_def simp del: walk.simps split: option.splits if_splits)
  have "walk g fs 255 [] (take (length cs) cs) = Inr e" using kernel_sees [OF e(1) assms(2)] by simp
  then have "prefix R e" using a unfolding safe_def by blast
  then have "inside R fs fs'" using e(2,3) by (auto simp: inside_def)
  moreover have "fs_ok fs'" using fs_ok_replace [OF p(2) e(2)] e(3) by auto
  ultimately show ?thesis using Inr by (simp add: kept_def)
qed

lemma zipTree_kept:
  assumes "guarded g fs R cs" "looks_local g" "sees g who"
  shows "kept R fs (snd (zipTree codec src (path_text cs) who fs))"
proof (cases "os_Create who 420 (path_text cs) fs")
  case (Inl e)
  with guarded_ok [OF assms(1)] show ?thesis by (simp add: zipTree_def kept_refl)
next
  case (Inr y)
  then obtain h fs1 where y: "os_Create who 420 (path_text cs) fs = Inr (h, fs1)" by (cases y) auto
  note C = Create_kept [OF assms(1-3) y]
  show ?thesis using y Write_kept [OF C(2,1)] by (auto simp: zipTree_def Let_def split: sum.splits prod.splits option.splits)
qed

lemma files_stay_home_call:
  assumes "fs_ok fs" "home_ok env u fs" "panel_sees_all env" "accounts_local env" "deep_chmod call \<longrightarrow> names_ok fs"
  shows "inside (components (homeRoot env u)) fs (run_file env u call fs)"
proof -
  let ?R = "components (homeRoot env u)"
  note W = with_path_kept [OF assms(2,1,3)] and A = as_account_kept [OF assms(1,4)]
  note P = panel_looks [OF assms(3)]
  have r: "is_rooted (homeRoot env u)" using assms(2) by (simp add: home_ok_def)
  have "kept ?R fs (run_file env u call fs)"
  proof (cases call)
    case (FWrite rel data mode)
    have "kept ?R fs (snd (write_at (path_text cs) m data who fs))" if "guarded (f_panel env) fs ?R cs" for cs m who
      unfolding write_at_def by (rule file_kept [OF that]) (use P assms(1) Write_kept in auto)
    with FWrite show ?thesis by (auto simp: Write_def intro!: W A)
  next
    case (FOpenWrite rel mode)
    have "kept ?R fs (snd (case os_Create who m (path_text cs) fs of Inl e \<Rightarrow> (Inl (FileOS e), fs) | Inr (h, fs') \<Rightarrow> (Inr h, fs')))"
      if "guarded (f_panel env) fs ?R cs" for cs m who
      using Create_kept(2) [OF that] P assms(1) by (auto simp: kept_refl split: sum.splits)
    with FOpenWrite show ?thesis by (auto simp: OpenWrite_def intro!: W A)
  next
    case (FMkdir rel mode)
    have "kept ?R fs (snd (lift_opt (os_MkdirAll who m (path_text cs) fs)))" if "guarded (f_panel env) fs ?R cs" for cs m who
      using MkdirAll_kept(2) [OF that] P by (auto split: prod.splits option.splits)
    with FMkdir show ?thesis by (auto simp: Mkdir_def intro!: W A)
  next
    case (FChmod rel mode recursive)
    have g: "i_look (f_panel env) fs' p" for fs' p using assms(3) by (simp add: panel_sees_all_def)
    have "kept ?R fs (snd (if \<not> recursive then lift_os fs (os_Chmod who m (path_text cs) fs)
        else over_tree (\<lambda>p nd fs. if is_link nd then Inr fs else os_Chmod who m p fs) who (path_text cs) fs))"
      if "guarded (f_panel env) fs ?R cs" for cs m who
      using Chmod_kept [OF that] Chmod_tree_kept [OF that g] P assms(5) FChmod by (auto simp: deep_chmod_def)
    with FChmod show ?thesis using assms(1) by (auto simp: Chmod_def kept_refl split: option.splits intro!: W A)
  next
    case (FZip rel name)
    then show ?thesis using P zipTree_kept by (auto simp: Zip_def intro!: W A)
  next
    case (FUnzip rel dest)
    then show ?thesis using unzipInto_kept [OF r _ assms(1)] by (auto simp: Unzip_def intro!: W A)
  next
    case (FExtract rel dest)
    then show ?thesis using extractInto_kept [OF r _ assms(1)] assms(1) by (auto simp: Extract_def Let_def kept_refl intro!: W A)
  qed
  then show ?thesis by (simp add: kept_def)
qed

text \<open>C5: The file manager stays in the home directory. Writing, uploading, creating directories, changing the mode of a file or of a
  whole tree, zipping and unpacking any archive, whatever the path, the archive and the symbolic links already in the tree: nothing outside
  the home of the account changes and no symbolic link is created. (The home is a real directory; the panel may look everywhere, as root
  does; the kernel decides lookups of the account by the directories above a name; for changing a whole tree, the names in the
  file system are names. Renaming, deleting and changing owners are not among these calls: they act on an entry itself and can reach outside.)\<close>

theorem files_stay_home:
  assumes "fs_ok fs" "home_ok env u fs" "panel_sees_all env" "accounts_local env" "deep_chmod call \<longrightarrow> names_ok fs"
  shows "inside (components (homeRoot env u)) fs (run_file env u call fs)"
  using assms by (rule files_stay_home_call)

section \<open>An example home\<close>

definition ex_node :: "kind \<Rightarrow> node" where
  "ex_node k = \<lparr>n_kind = k, n_perm = 493, n_uid = 1000, n_gid = 1000, n_mtime = 0\<rparr>"

definition ex_fs :: fs where
  "ex_fs = map (map_prod id ex_node) [([], Dir), ([''home''], Dir), ([''home'', ''alice''], Dir), ([''home'', ''alice'', ''docs''], Dir),
     ([''home'', ''alice'', ''out''], Sym ''/etc''), ([''etc''], Dir), ([''etc'', ''passwd''], Reg ''root''), ([''tmp''], Dir),
     ([''home'', ''alice'', ''t''], Sym ''/tmp''), ([''tmp'', ''x''], Sym ''/home/alice/docs''),
     ([''home'', ''alice'', ''old.zip''], Dir), ([''home'', ''alice'', ''a.zip''], Reg ''PK'')]"

definition ex_ident :: Ident where
  "ex_ident = \<lparr>i_uid = 1000, i_gid = 1000, i_umask = 18, i_now = 0, i_look = (\<lambda>_ _. True), i_change = (\<lambda>_ _. True)\<rparr>"

definition ex_codec :: "zentry list \<Rightarrow> Codec" where
  "ex_codec zs = \<lparr>c_zip = (\<lambda>_. ''PK''), c_tar = (\<lambda>_ _. ''tar''), c_unzip = (\<lambda>_. Some zs), c_untar = (\<lambda>_ _. None), c_unpack = (\<lambda>_ _. None)\<rparr>"

definition ex_files :: "zentry list \<Rightarrow> FilesEnv" where
  "ex_files zs = \<lparr>f_HomeRoot = ''/home'', f_runAs = (\<lambda>_. Some ex_ident), f_panel = ex_ident, f_passwd = None, f_group = None, f_codec = ex_codec zs\<rparr>"

definition ex_owner_of_files :: User where
  "ex_owner_of_files = \<lparr>uID = 2, uUsername = ''alice'', uEmail = [], uPasswordHash = [], uRole = RoleUser, uPackageID = 0,
     uStatus = StatusActive, uOwnerID = 0, uHomeDir = ''/home/alice'', uQuotaDiskBytes = 0, uQuotaBandwidthBytes = 0, uCreatedAt = 0,
     uUpdatedAt = 0, uTOTPSecret = [], uTOTPEnabled = False, uTOTPBackupCodes = CodesEmpty\<rparr>"

lemma ex_files_ok:
  "fs_ok ex_fs" "home_ok (ex_files zs) ex_owner_of_files ex_fs" "panel_sees_all (ex_files zs)" "accounts_local (ex_files zs)"
proof -
  show "fs_ok ex_fs" by code_simp
  have "homeRoot (ex_files zs) ex_owner_of_files = ''/home/alice''" by (simp add: homeRoot_def ex_owner_of_files_def)
  moreover have "is_rooted ''/home/alice'' \<and> Clean ''/home/alice'' = ''/home/alice'' \<and> is_dir ex_fs (components ''/home/alice'')" by code_simp
  ultimately show "home_ok (ex_files zs) ex_owner_of_files ex_fs" unfolding home_ok_def by metis
  show "panel_sees_all (ex_files zs)" by (simp add: panel_sees_all_def ex_files_def ex_ident_def)
  show "accounts_local (ex_files zs)" by (simp add: accounts_local_def ex_files_def looks_local_def ex_ident_def)
qed

theorem files_stay_home_witness:
  "inside (components (homeRoot (ex_files []) ex_owner_of_files)) ex_fs
     (run_file (ex_files []) ex_owner_of_files (FWrite ''/site/../docs/a/b.txt'' ''hello'' 0) ex_fs) \<and>
   map_option n_kind (peek (run_file (ex_files []) ex_owner_of_files (FWrite ''/site/../docs/a/b.txt'' ''hello'' 0) ex_fs)
     [''home'', ''alice'', ''docs'', ''a'', ''b.txt'']) = Some (Reg ''hello'') \<and>
   inside (components (homeRoot (ex_files []) ex_owner_of_files)) ex_fs
     (run_file (ex_files []) ex_owner_of_files (FWrite ''/out/evil'' ''x'' 0) ex_fs) \<and>
   inside (components (homeRoot (ex_files []) ex_owner_of_files)) ex_fs (run_file (ex_files []) ex_owner_of_files (FChmod ''/'' ''700'' True) ex_fs)"
proof (intro conjI)
  show "map_option n_kind (peek (run_file (ex_files []) ex_owner_of_files (FWrite ''/site/../docs/a/b.txt'' ''hello'' 0) ex_fs)
     [''home'', ''alice'', ''docs'', ''a'', ''b.txt'']) = Some (Reg ''hello'')" by code_simp
  have "names_ok ex_fs" by code_simp
  then show "inside (components (homeRoot (ex_files []) ex_owner_of_files)) ex_fs (run_file (ex_files []) ex_owner_of_files (FChmod ''/'' ''700'' True) ex_fs)"
    by (intro files_stay_home ex_files_ok) simp
qed (rule files_stay_home [OF ex_files_ok], simp add: deep_chmod_def)+

text \<open>What the guard does not cover: deleting acts on the entry itself, while the guard looks at where its target is. With a link
  \<open>t\<close> to a directory outside and, in it, a link back into the home, \<open>Delete\<close> removes an entry outside the home.\<close>

theorem delete_escapes_home:
  "\<exists>env u fs rel. fs_ok fs \<and> home_ok env u fs \<and> panel_sees_all env \<and> accounts_local env \<and>
     fst (Delete env u rel fs) = Inr () \<and> \<not> inside (components (homeRoot env u)) fs (snd (Delete env u rel fs))"
proof -
  let ?env = "ex_files []" and ?u = ex_owner_of_files
  have "peek (snd (Delete ?env ?u ''/t/x'' ex_fs)) [''tmp'', ''x''] \<noteq> peek ex_fs [''tmp'', ''x'']"
    "\<not> prefix (components (homeRoot ?env ?u)) [''tmp'', ''x'']" "fst (Delete ?env ?u ''/t/x'' ex_fs) = Inr ()" by code_simp+
  moreover from this have "\<not> inside (components (homeRoot ?env ?u)) ex_fs (snd (Delete ?env ?u ''/t/x'' ex_fs))"
    unfolding inside_def by blast
  ultimately show ?thesis using ex_files_ok(1) ex_files_ok(2-4) [of "[]"] by blast
qed

text \<open>A failed \<open>Archive\<close> removes its destination, also when it is not the archive it was writing: the attempt to write an archive
  over an existing empty directory fails and removes the directory.\<close>

theorem failed_archive_removes_directory:
  "\<exists>env u fs name p. fs_ok fs \<and> home_ok env u fs \<and> is_dir fs p \<and> is_ok (Resolve env fs u name) \<and>
     isl (fst (Archive env u ''/docs'' name fs)) \<and> peek (snd (Archive env u ''/docs'' name fs)) p = None"
proof -
  have "is_dir ex_fs [''home'', ''alice'', ''old.zip'']" "is_ok (Resolve (ex_files []) ex_fs ex_owner_of_files ''old.zip'')"
    "isl (fst (Archive (ex_files []) ex_owner_of_files ''/docs'' ''old.zip'' ex_fs))"
    "peek (snd (Archive (ex_files []) ex_owner_of_files ''/docs'' ''old.zip'' ex_fs)) [''home'', ''alice'', ''old.zip''] = None"
    by code_simp+
  then show ?thesis using ex_files_ok(1,2) by blast
qed

section \<open>How much an archive may write\<close>

text \<open>The bytes of all files.\<close>

definition disk :: "fs \<Rightarrow> nat" where
  "disk fs = sum_list (map (\<lambda>(_, nd). length (node_data nd)) fs)"

definition size_at :: "fs \<Rightarrow> path \<Rightarrow> nat" where
  "size_at fs p = (case peek fs p of None \<Rightarrow> 0 | Some nd \<Rightarrow> length (node_data nd))"

lemma disk_put: "disk (put e nd fs) + size_at fs e = disk fs + length (node_data nd)"
proof (induction fs)
  case (Cons x fs)
  then show ?case by (cases x) (auto simp: disk_def put_def size_at_def peek_def split: option.splits)
qed (simp add: disk_def put_def size_at_def peek_def)

lemma disk_mkdir: "mkdir_parts who perm cs fs = Inr fs' \<Longrightarrow> disk fs' = disk fs"
proof -
  assume "mkdir_parts who perm cs fs = Inr fs'"
  then obtain e where e: "peek fs e = None" "fs' = put e (new_node who Dir perm) fs"
    by (auto simp: mkdir_parts_def bindR_Inr_iff split: if_splits)
  then show ?thesis using disk_put [of e "new_node who Dir perm" fs] by (simp add: size_at_def new_node_def node_data_def)
qed

lemma disk_mkdir_all: "mkdir_all who perm cs fs = (r, fs') \<Longrightarrow> disk fs' = disk fs"
proof (induction cs arbitrary: r fs')
  case (Cons c cs)
  obtain r1 fs1 where m: "mkdir_all who perm cs fs = (r1, fs1)" by fastforce
  then have "disk fs1 = disk fs" by (rule Cons.IH)
  with Cons.prems m disk_mkdir show ?case by (fastforce split: sum.splits option.splits)
qed simp

lemma disk_MkdirAll: "os_MkdirAll who perm p fs = (r, fs') \<Longrightarrow> disk fs' = disk fs"
  by (simp add: os_MkdirAll_def disk_mkdir_all)

lemma disk_Create: "os_Create who perm p fs = Inr (h, fs') \<Longrightarrow> disk fs' \<le> disk fs"
proof -
  assume "os_Create who perm p fs = Inr (h, fs')"
  then obtain nd where "fs' = put h nd fs" "n_kind nd = Reg []" using os_CreateD by blast
  then show ?thesis using disk_put [of h nd fs] by (simp add: node_data_def)
qed

lemma disk_Write: "disk (os_Write h data fs) \<le> disk fs + length data"
proof (cases "\<exists>nd d. peek fs h = Some nd \<and> n_kind nd = Reg d")
  case True
  then obtain nd d where "peek fs h = Some nd" "n_kind nd = Reg d" by blast
  then show ?thesis using disk_put [of h "nd\<lparr>n_kind := Reg (d @ data)\<rparr>" fs]
    by (simp add: os_Write_def size_at_def node_data_def)
qed (auto simp: os_Write_def split: option.splits kind.splits)

lemma budget_copy_disk:
  assumes "budget_copy h err cs left fs = (ok, left', fs')" "\<forall>c\<in>set cs. length c \<le> B" "left \<ge> 0"
  shows "left' \<ge> 0 \<and> int (disk fs') + left' \<le> int (disk fs) + left + (if ok then 0 else int B)"
  using assms
proof (induction h err cs left fs rule: budget_copy.induct)
  case (2 h err c cs left fs)
  have w: "int (disk (os_Write h c fs)) \<le> int (disk fs) + int (length c)" using disk_Write [of h c fs] by linarith
  show ?case
  proof (cases "int (length c) > left")
    case True
    with 2 w show ?thesis by (auto simp: Let_def)
  next
    case False
    with 2 have "left' \<ge> 0 \<and> int (disk fs') + left' \<le> int (disk (os_Write h c fs)) + (left - int (length c)) + (if ok then 0 else int B)"
      by (simp add: Let_def)
    with w show ?thesis by simp
  qed
qed auto

lemma untar_entry_disk:
  assumes "untar_entry root dest who t left fs = (r, fs')" "\<forall>c\<in>set (t_chunks t). length c \<le> B" "left \<ge> 0"
  shows "(case r of Inr left' \<Rightarrow> left' \<ge> 0 \<and> int (disk fs') + left' \<le> int (disk fs) + left
    | Inl _ \<Rightarrow> int (disk fs') \<le> int (disk fs) + left + int B)"
proof (cases "safeTarget who fs root dest (t_name t)")
  case None
  with assms show ?thesis by (auto simp: untar_entry_def)
next
  case (Some target)
  obtain rd fsd where md: "os_MkdirAll who 493 target fs = (rd, fsd)" by fastforce
  obtain r1 fs1 where m: "os_MkdirAll who 493 (path_Dir target) fs = (r1, fs1)" by fastforce
  note D = disk_MkdirAll [OF md] disk_MkdirAll [OF m]
  show ?thesis
  proof (cases "t_type t = TypeReg \<and> r1 = None \<and> is_ok (os_Create who (permOf (ucast (t_mode t))) target fs1)")
    case True
    then obtain h fs2 where c: "os_Create who (permOf (ucast (t_mode t))) target fs1 = Inr (h, fs2)" by (auto dest!: not_isl_Inr)
    obtain ok left' fs3 where b: "budget_copy h (t_err t) (t_chunks t) left fs2 = (ok, left', fs3)" by (cases "budget_copy h (t_err t) (t_chunks t) left fs2") auto
    show ?thesis using assms(1) Some True m c b D disk_Create [OF c] budget_copy_disk [OF b assms(2,3)]
      by (auto simp: untar_entry_def writeFileFrom_def split: if_splits)
  next
    case False
    then show ?thesis using assms(1,3) Some md m D
      by (cases "t_type t"; cases rd; cases r1) (auto simp: untar_entry_def writeFileFrom_def split: sum.splits)
  qed
qed

text \<open>C18: Unpacking a tar archive, whatever it contains, never writes more than its budget of 4 GiB and the one piece that exceeded it:
  the disk grows by at most that.\<close>

theorem untar_within_budget:
  assumes "\<forall>t\<in>set (fst tr). \<forall>c\<in>set (t_chunks t). length c \<le> B"
  shows "disk (snd (untar root dest who tr fs)) \<le> disk fs + maxUnzipBytes + B"
proof -
  have "int (disk (snd (untar_loop root dest who err n ts left fs))) \<le> int (disk fs) + left + int B"
    if "\<forall>t\<in>set ts. \<forall>c\<in>set (t_chunks t). length c \<le> B" "left \<ge> 0" for err n ts left fs
    using that
  proof (induction ts arbitrary: n left fs)
    case (Cons t ts)
    obtain r fs1 where u: "untar_entry root dest who t left fs = (r, fs1)" by fastforce
    have "\<forall>c\<in>set (t_chunks t). length c \<le> B" using Cons.prems(1) by simp
    note U = untar_entry_disk [OF u this Cons.prems(2)]
    show ?case
    proof (cases r)
      case (Inr left')
      with U Cons.IH [of left' "Suc n" fs1] Cons.prems u show ?thesis by simp
    qed (use U Cons.prems(2) u in simp)
  qed simp
  from this [OF assms, of "int maxUnzipBytes" "snd tr" 0 fs] have "int (disk (snd (untar root dest who tr fs))) \<le> int (disk fs + maxUnzipBytes + B)"
    by (simp add: untar_def)
  then show ?thesis by linarith
qed

theorem untar_within_budget_witness:
  "disk (snd (untar ''/home/alice'' ''/home/alice'' ex_ident
     ([\<lparr>t_name = ''a/b'', t_type = TypeReg, t_mode = 420, t_chunks = [''one'', ''two''], t_err = False\<rparr>], False) ex_fs)) \<le>
   disk ex_fs + maxUnzipBytes + 3"
  by (rule untar_within_budget) simp

lemma size_le_disk: "size_at fs p \<le> disk fs"
proof (induction fs)
  case (Cons x fs)
  then show ?case by (cases x) (auto simp: disk_def size_at_def peek_def split: option.splits)
qed (simp add: size_at_def peek_def)

text \<open>An entry that comes in one piece no longer than its declared size is written whole.\<close>

lemma unzip_one_piece:
  assumes "\<not> z_isdir z" "\<not> z_islink z" "z_opens z" "z_chunks z = [c]" "length c \<le> unat (z_size z)"
    and "safeTarget who fs root dest (z_name z) = Some target" "os_MkdirAll who 493 (path_Dir target) fs = (None, fs1)"
    and "os_Create who (permOf (z_perm z)) target fs1 = Inr (h, fs2)"
  shows "size_at (snd (unzip_entry root dest who z fs)) h = length c"
proof -
  obtain nd where "fs2 = put h nd fs1" "n_kind nd = Reg []" using os_CreateD [OF assms(8)] by blast
  then have "size_at (os_Write h c fs2) h = length c" by (simp add: os_Write_def size_at_def node_data_def)
  with assms show ?thesis by (simp add: unzip_entry_def cong del: prod.case_cong_weak sum.case_cong_weak)
qed

definition bomb_entry :: "string \<Rightarrow> 64 word \<Rightarrow> string \<Rightarrow> zentry" where
  "bomb_entry name declared data = \<lparr>z_name = name, z_isdir = False, z_islink = False, z_perm = 420, z_size = declared, z_opens = True,
     z_chunks = [data], z_err = False\<rparr>"

text \<open>Two entries: one byte, and one that declares \<open>2\<^sup>64 - 1\<close> bytes.\<close>

definition bomb :: "string \<Rightarrow> zentry list" where
  "bomb data = [bomb_entry ''one'' 1 ''x'', bomb_entry ''big'' (-1) data]"

lemma bomb_passes: "sizes_ok 0 (bomb data)"
  by (simp add: bomb_def bomb_entry_def)

lemma bomb_written:
  assumes "length data < 2 ^ 64"
  shows "length data \<le> disk (snd (unzipInto (ex_codec (bomb data)) ''/home/alice'' ''/home/alice/a.zip'' ''/home/alice'' ex_ident ex_fs))"
proof -
  let ?e = "unzip_entry ''/home/alice'' ''/home/alice'' ex_ident"
  let ?one = "?e (bomb_entry ''one'' 1 ''x'') ex_fs"
  obtain fs1 where one: "?one = (Inr (), fs1)"
  proof -
    have "fst ?one = Inr ()" by code_simp
    then show ?thesis using that by (cases ?one) auto
  qed
  have "safeTarget ex_ident (snd ?one) ''/home/alice'' ''/home/alice'' ''big'' = Some ''/home/alice/big''" by code_simp
  then have t: "safeTarget ex_ident fs1 ''/home/alice'' ''/home/alice'' ''big'' = Some ''/home/alice/big''" using one by simp
  have "fst (os_MkdirAll ex_ident 493 (path_Dir ''/home/alice/big'') (snd ?one)) = None" by code_simp
  then obtain fs2 where m: "os_MkdirAll ex_ident 493 (path_Dir ''/home/alice/big'') fs1 = (None, fs2)"
    using one by (metis prod.collapse snd_conv)
  have "is_ok (os_Create ex_ident (permOf 420) ''/home/alice/big'' (snd (os_MkdirAll ex_ident 493 (path_Dir ''/home/alice/big'') (snd ?one))))"
    by code_simp
  then obtain h fs3 where c: "os_Create ex_ident (permOf 420) ''/home/alice/big'' fs2 = Inr (h, fs3)"
    using one m not_isl_Inr by (metis prod.collapse snd_conv)
  have l: "length data \<le> unat (-1 :: 64 word)" using assms by (simp add: unsigned_minus_1_eq_mask mask_eq_exp_minus_1)
  have "size_at (snd (?e (bomb_entry ''big'' (-1) data) fs1)) h = length data"
    by (rule unzip_one_piece [OF _ _ _ _ _ _ m]) (use t c l in \<open>simp_all add: bomb_entry_def\<close>)
  then have "length data \<le> disk (snd (?e (bomb_entry ''big'' (-1) data) fs1))" using size_le_disk by metis
  moreover have "is_ok (os_Open ex_ident ex_fs ''/home/alice/a.zip'')" by code_simp
  ultimately show ?thesis
    using bomb_passes [of data] one
    by (auto simp: unzipInto_def ex_codec_def bomb_def dest!: not_isl_Inr split: prod.splits sum.splits)
qed

text \<open>The size check of a zip archive adds the declared sizes in 64 bits without looking for overflow. An archive whose two
  entries declare 1 and \<open>2\<^sup>64 - 1\<close> bytes passes the 4 GiB check with the sum 0, and then writes any amount of data.\<close>

theorem zip_budget_wraps:
  assumes "n < 2 ^ 64"
  shows "\<exists>env u fs. fs_ok fs \<and> home_ok env u fs \<and> disk fs = 6 \<and> n \<le> disk (snd (Unzip env u ''/a.zip'' ''/'' fs))"
proof -
  define data where "data = replicate n (CHR ''0'')"
  have "Resolve (ex_files zs) ex_fs ex_owner_of_files ''/a.zip'' = Inr ''/home/alice/a.zip''"
    "Resolve (ex_files zs) ex_fs ex_owner_of_files ''/'' = Inr ''/home/alice''" "homeRoot (ex_files zs) ex_owner_of_files = ''/home/alice''"
    "disk ex_fs = 6" for zs
  proof -
    have "Resolve (ex_files []) ex_fs ex_owner_of_files ''/a.zip'' = Inr ''/home/alice/a.zip''" by code_simp
    moreover have "f_panel (ex_files zs) = f_panel (ex_files [])" "homeRoot (ex_files zs) ex_owner_of_files = homeRoot (ex_files []) ex_owner_of_files"
      by (simp_all add: ex_files_def homeRoot_def)
    ultimately show "Resolve (ex_files zs) ex_fs ex_owner_of_files ''/a.zip'' = Inr ''/home/alice/a.zip''" by (simp only: Resolve_def)
    show "homeRoot (ex_files zs) ex_owner_of_files = ''/home/alice''" by (simp add: homeRoot_def ex_owner_of_files_def)
    then show "Resolve (ex_files zs) ex_fs ex_owner_of_files ''/'' = Inr ''/home/alice''" by (simp add: Resolve_def)
    show "disk ex_fs = 6" by code_simp
  qed
  moreover have "snd (Unzip (ex_files (bomb data)) ex_owner_of_files ''/a.zip'' ''/'' ex_fs) =
      snd (unzipInto (ex_codec (bomb data)) ''/home/alice'' ''/home/alice/a.zip'' ''/home/alice'' ex_ident ex_fs)"
    using calculation by (simp add: Unzip_def with_path_def as_account_def) (simp add: ex_files_def)
  moreover have "length data = n" by (simp add: data_def)
  ultimately show ?thesis using bomb_written [of data] assms ex_files_ok(1,2) by metis
qed

theorem zip_budget_wraps_witness:
  "\<exists>env u fs. fs_ok fs \<and> home_ok env u fs \<and> disk fs = 6 \<and> 1000 * maxUnzipBytes \<le> disk (snd (Unzip env u ''/a.zip'' ''/'' fs))"
  by (rule zip_budget_wraps) simp

end
