(* ===== verification/Cron_Theorems.thy ===== *)
theory Cron_Theorems
  imports Cron Store_Theorems Files_Theorems Ftp_Theorems
begin

text \<open>
  Properties of scheduled jobs: the installed crontab is the one of the store after every successful operation
  (\<open>crontab_in_sync\<close>), a failed installation leaves the job behind (\<open>failed_create_keeps_job\<close>), and whose files the log
  of a job may show (\<open>cron_log_reads_as_root\<close>).
\<close>

datatype cron_call = CCreate string string | CUpdate CronJob string string | CToggle CronJob bool | CDelete CronJob

fun run_cron :: "'h CronHost \<Rightarrow> FilesEnv \<Rightarrow> gotime \<Rightarrow> fs \<Rightarrow> User \<Rightarrow> cron_call \<Rightarrow> db \<Rightarrow> 'h \<Rightarrow> (cron_error + CronJob) \<times> db \<times> 'h" where
  "run_cron C env tm fs u (CCreate schedule command) s h = cron_Create C env tm fs u schedule command s h"
| "run_cron C env tm fs u (CUpdate job schedule command) s h = cron_Update C env fs u job schedule command s h"
| "run_cron C env tm fs u (CToggle job enabled) s h = cron_Toggle C env u job enabled s h"
| "run_cron C env tm fs u (CDelete job) s h = cron_Delete C env u job s h"

text \<open>What \<open>crontab -u user file\<close> promises, with \<open>ct\<close> the crontab of each account: after a success the file is the crontab.\<close>

definition crontab_ok :: "'h CronHost \<Rightarrow> ('h \<Rightarrow> string \<Rightarrow> string option) \<Rightarrow> bool" where
  "crontab_ok C ct \<longleftrightarrow> (\<forall>u c h h'. ch_install C u c h = (True, h') \<longrightarrow> ct h' u = Some c)"

lemma writeCrontab_ok:
  assumes "writeCrontab C env s u h = (None, h')" "crontab_ok C ct"
  shows "\<exists>jobs. ListCronJobs s (uID u) = Inr jobs \<and> ct h' (uUsername u) = Some (crontab_text (log_dir env u) jobs)"
  using assms by (auto simp: writeCrontab_def crontab_ok_def Let_def split: sum.splits if_splits prod.splits bool.splits)

lemma store_then_write_ok:
  assumes "store_then_write C env u job r s h = (Inr job', s', h')" "crontab_ok C ct"
  shows "r = Inr s' \<and> job' = job \<and> (\<exists>jobs. ListCronJobs s' (uID u) = Inr jobs \<and> ct h' (uUsername u) = Some (crontab_text (log_dir env u) jobs))"
  using assms writeCrontab_ok by (fastforce simp: store_then_write_def split: sum.splits prod.splits option.splits)

lemma cron_Create_ok:
  assumes "cron_Create C env tm fs u schedule command s h = (Inr job, s', h')" "crontab_ok C ct"
  obtains j where "cron_validate env fs u schedule command = Inr j" "CreateCronJob s tm (j\<lparr>jUserID := uID u, jEnabled := True\<rparr>) = Inr (job, s')"
    "\<exists>jobs. ListCronJobs s' (uID u) = Inr jobs \<and> ct h' (uUsername u) = Some (crontab_text (log_dir env u) jobs)"
  using assms writeCrontab_ok by (fastforce simp: cron_Create_def split: sum.splits prod.splits option.splits)

text \<open>The crontab that the jobs \<open>jobs\<close> of an account with the home directory \<open>home\<close> ask for, written out: a job that is
  switched on has one line, its schedule, its command and where its output goes, and one that is switched off has none.\<close>

fun wanted_lines :: "string \<Rightarrow> CronJob list \<Rightarrow> string list" where
  "wanted_lines home [] = []"
| "wanted_lines home (j # jobs) =
    (if jEnabled j then [jSchedule j @ '' '' @ jCommand j @ '' >> '' @
        (if jLogPath j = [] then filepath_Join [filepath_Join [home, ''logs''], ''cron''] else jLogPath j) @ '' 2>&1'' @ [CHR 0x0A]] else [])
      @ wanted_lines home jobs"

text \<open>The command a request asks to run: as it was given, or with a path at its beginning replaced by the file of the account that the
  path resolves to.\<close>

definition command_asked :: "FilesEnv \<Rightarrow> fs \<Rightarrow> User \<Rightarrow> string \<Rightarrow> string \<Rightarrow> bool" where
  "command_asked env fs u command stored \<longleftrightarrow> TrimSpace command \<noteq> [] \<and>
    (stored = TrimSpace command \<or>
     (\<exists>f rest p. Fields (TrimSpace command) = f # rest \<and> (HasPrefix f ''/'' \<or> HasPrefix f ''./'') \<and>
        Resolve env fs u (TrimPrefix f (homeRoot env u)) = Inr p \<and> stored = Join '' '' (p # rest)))"

text \<open>What the table of jobs holds after a call that answered \<open>job\<close>.\<close>

definition jobs_after :: "FilesEnv \<Rightarrow> User \<Rightarrow> cron_call \<Rightarrow> CronJob \<Rightarrow> CronJob list \<Rightarrow> CronJob list" where
  "jobs_after env u call job rows = (case call of
     CCreate schedule _ \<Rightarrow> rows @ [\<lparr>jID = jID job, jUserID = uID u, jSchedule = TrimSpace schedule, jCommand = jCommand job,
       jLogPath = filepath_Join [homeRoot env u, ''logs'', ''cron''], jEnabled = True, jCreatedAt = jCreatedAt job\<rparr>]
   | CUpdate old schedule _ \<Rightarrow> map (\<lambda>j. if jID j = jID old then \<lparr>jID = jID j, jUserID = jUserID j, jSchedule = TrimSpace schedule,
       jCommand = jCommand job, jLogPath = filepath_Join [homeRoot env u, ''logs'', ''cron''], jEnabled = jEnabled old,
       jCreatedAt = jCreatedAt j\<rparr> else j) rows
   | CToggle old enabled \<Rightarrow> map (\<lambda>j. if jID j = jID old then \<lparr>jID = jID j, jUserID = jUserID j, jSchedule = jSchedule old,
       jCommand = jCommand old, jLogPath = jLogPath old, jEnabled = enabled, jCreatedAt = jCreatedAt j\<rparr> else j) rows
   | CDelete old \<Rightarrow> filter (\<lambda>j. jID j \<noteq> jID old) rows)"

lemma crontab_text_lines:
  "crontab_text (log_dir env u) jobs = cron_header @ concat (wanted_lines (homeRoot env u) jobs)"
  by (induction jobs) (simp_all add: crontab_text_def cron_line_def log_dir_def)

lemma ListCronJobs_own:
  "ListCronJobs s uid = Inr jobs \<Longrightarrow> uid > 0 \<Longrightarrow> jobs = sort_key jID (filter (\<lambda>j. jUserID j = uid) (trows (cron_jobs s)))"
  by (auto simp: ListCronJobs_def query_def t_select_def split: if_splits)

lemma cron_validate_ok:
  assumes "cron_validate env fs u schedule command = Inr j"
  shows "ValidSchedule (TrimSpace schedule)" "command_asked env fs u command (jCommand j)"
    "jSchedule j = TrimSpace schedule" "jLogPath j = filepath_Join [homeRoot env u, ''logs'', ''cron'']"
  using assms by (auto simp: cron_validate_def command_asked_def Let_def split: list.splits sum.splits if_splits)

text \<open>What the operations of the store do to the table.\<close>

lemma CreateCronJob_rows:
  "CreateCronJob s tm j = Inr (job, s') \<Longrightarrow> job = j\<lparr>jID := tseq (cron_jobs s) + 1, jCreatedAt := rfc3339 tm\<rparr> \<and>
    trows (cron_jobs s') = trows (cron_jobs s) @ [job]"
  by (auto simp: CreateCronJob_def t_insert_def Let_def bindR_Inr_iff exec_def split: if_splits)

lemma UpdateCronJob_rows:
  "UpdateCronJob s job = Inr s' \<Longrightarrow> trows (cron_jobs s') = map (\<lambda>j. if jID j = jID job then \<lparr>jID = jID j, jUserID = jUserID j,
     jSchedule = jSchedule job, jCommand = jCommand job, jLogPath = jLogPath job, jEnabled = jEnabled job, jCreatedAt = jCreatedAt j\<rparr> else j)
     (trows (cron_jobs s))"
  by (auto simp: UpdateCronJob_def t_update_def exec_def split: if_splits)

lemma DeleteCronJob_rows:
  "DeleteCronJob s i = Inr s' \<Longrightarrow> trows (cron_jobs s') = filter (\<lambda>j. jID j \<noteq> i) (trows (cron_jobs s))"
  by (auto simp: DeleteCronJob_def t_delete_def exec_def split: if_splits)

text \<open>Every operation stores what it was asked to, and installs the crontab of what is stored then.\<close>

lemma run_cron_installs:
  assumes "crontab_ok C ct" "run_cron C env tm fs u call s h = (Inr job, s', h')"
  shows "\<exists>jobs. ListCronJobs s' (uID u) = Inr jobs \<and> ct h' (uUsername u) = Some (crontab_text (log_dir env u) jobs)"
  using assms
  by (cases call) (auto simp: cron_Update_def cron_Toggle_def cron_Delete_def Let_def split: sum.splits
      dest: store_then_write_ok elim: cron_Create_ok)

lemma run_cron_stores:
  assumes "crontab_ok C ct" "run_cron C env tm fs u call s h = (Inr job, s', h')"
  shows "trows (cron_jobs s') = jobs_after env u call job (trows (cron_jobs s))"
proof (cases call)
  case (CCreate schedule command)
  with assms obtain j where v: "cron_validate env fs u schedule command = Inr j"
      and c: "CreateCronJob s tm (j\<lparr>jUserID := uID u, jEnabled := True\<rparr>) = Inr (job, s')" by (auto elim: cron_Create_ok)
  from CreateCronJob_rows [OF c] cron_validate_ok [OF v] show ?thesis using CCreate by (simp add: jobs_after_def)
next
  case (CUpdate old schedule command)
  with assms obtain j where v: "cron_validate env fs u schedule command = Inr j"
      and c: "UpdateCronJob s job = Inr s'" and job: "job = old\<lparr>jSchedule := jSchedule j, jCommand := jCommand j, jLogPath := jLogPath j\<rparr>"
    by (auto simp: cron_Update_def Let_def split: sum.splits dest!: store_then_write_ok)
  from UpdateCronJob_rows [OF c] job cron_validate_ok [OF v] show ?thesis using CUpdate by (simp add: jobs_after_def)
next
  case (CToggle old enabled)
  with assms have "UpdateCronJob s (old\<lparr>jEnabled := enabled\<rparr>) = Inr s'"
    by (auto simp: cron_Toggle_def Let_def dest!: store_then_write_ok)
  from UpdateCronJob_rows [OF this] show ?thesis using CToggle by (simp add: jobs_after_def)
next
  case (CDelete old)
  with assms have "DeleteCronJob s (jID old) = Inr s'" by (auto simp: cron_Delete_def dest!: store_then_write_ok)
  from DeleteCronJob_rows [OF this] show ?thesis using CDelete by (simp add: jobs_after_def)
qed

lemma run_cron_asked:
  assumes "crontab_ok C ct" "run_cron C env tm fs u call s h = (Inr job, s', h')"
  shows "case call of CCreate schedule command \<Rightarrow> ValidSchedule (TrimSpace schedule) \<and> command_asked env fs u command (jCommand job) \<and>
      jID job = tseq (cron_jobs s) + 1
    | CUpdate _ schedule command \<Rightarrow> ValidSchedule (TrimSpace schedule) \<and> command_asked env fs u command (jCommand job) | _ \<Rightarrow> True"
proof (cases call)
  case (CCreate schedule command)
  with assms obtain j where v: "cron_validate env fs u schedule command = Inr j"
      and c: "CreateCronJob s tm (j\<lparr>jUserID := uID u, jEnabled := True\<rparr>) = Inr (job, s')" by (auto elim: cron_Create_ok)
  show ?thesis using CCreate cron_validate_ok(1,2) [OF v] CreateCronJob_rows [OF c] by simp
next
  case (CUpdate old schedule command)
  with assms obtain j where v: "cron_validate env fs u schedule command = Inr j"
      and job: "job = old\<lparr>jSchedule := jSchedule j, jCommand := jCommand j, jLogPath := jLogPath j\<rparr>"
    by (auto simp: cron_Update_def Let_def split: sum.splits dest!: store_then_write_ok)
  show ?thesis using CUpdate cron_validate_ok(1,2) [OF v] job by simp
qed simp_all

text \<open>C17: A successful operation on the jobs of an account stores exactly what was asked for - a new job is added, switched on, an
  edited one gets the new schedule, command and log, a toggled one its new switch, a deleted one goes, and every other job stays as
  it was - and the crontab installed then is the header and, in the order the jobs were made, the line of each job of the account
  in the store that is switched on, and nothing else. The schedule of a new or an edited job is valid.\<close>

theorem crontab_in_sync:
  assumes "crontab_ok C ct" "run_cron C env tm fs u call s h = (Inr job, s', h')" "uID u > 0"
  shows "trows (cron_jobs s') = jobs_after env u call job (trows (cron_jobs s)) \<and>
    ct h' (uUsername u) = Some (''# Managed by Aegis. Do not edit by hand; changes are overwritten.'' @ [CHR 0x0A] @
      concat (wanted_lines (homeRoot env u) (sort_key jID (filter (\<lambda>j. jUserID j = uID u) (trows (cron_jobs s')))))) \<and>
    (case call of CCreate schedule command \<Rightarrow> ValidSchedule (TrimSpace schedule) \<and> command_asked env fs u command (jCommand job) \<and>
        jID job = tseq (cron_jobs s) + 1
     | CUpdate _ schedule command \<Rightarrow> ValidSchedule (TrimSpace schedule) \<and> command_asked env fs u command (jCommand job) | _ \<Rightarrow> True)"
proof -
  from run_cron_installs [OF assms(1,2)] obtain jobs where j: "ListCronJobs s' (uID u) = Inr jobs"
      "ct h' (uUsername u) = Some (crontab_text (log_dir env u) jobs)" by blast
  show ?thesis
    using run_cron_stores [OF assms(1,2)] run_cron_asked [OF assms(1,2)] j(2)
    by (simp only: ListCronJobs_own [OF j(1) assms(3)] crontab_text_lines cron_header_def append_assoc simp_thms)
qed

text \<open>A host that keeps the crontabs of the accounts.\<close>

definition null_host :: "'h Host" where
  "null_host = \<lparr>h_run = (\<lambda>_ h. (None, h)), h_chpasswd = (\<lambda>_ h. (None, h)), h_UIDFor = (\<lambda>_ _. None), h_Lookup = (\<lambda>_ _. None),
     h_passwd = (\<lambda>_. None), h_group = (\<lambda>_. None), h_MkdirAll = (\<lambda>_ h. (True, h)), h_WriteFile = (\<lambda>_ _ h. (True, h)),
     h_Remove = (\<lambda>_ h. h), h_Chmod = (\<lambda>_ _ h. h), h_EnsureVsftpd = (\<lambda>h. h)\<rparr>"

definition ex_cron_host :: "bool \<Rightarrow> (string \<Rightarrow> string option) CronHost" where
  "ex_cron_host works = \<lparr>ch_host = null_host, ch_LookPath = (\<lambda>_ _. True), ch_temp = (\<lambda>_. True),
     ch_install = (\<lambda>u c h. if works then (True, h(u \<mapsto> c)) else (False, h))\<rparr>"

lemma ex_cron_ok: "crontab_ok (ex_cron_host works) (\<lambda>h. h)"
  by (auto simp: crontab_ok_def ex_cron_host_def)

text \<open>Alice has two jobs, one of them switched off, and edits the other: the crontab has its new line alone.\<close>

definition ex_jobs :: db where
  "ex_jobs = db_empty\<lparr>cron_jobs := \<lparr>trows = [
     \<lparr>jID = 1, jUserID = 2, jSchedule = ''0 1 * * *'', jCommand = ''true'', jLogPath = ''/home/alice/logs/cron'', jEnabled = True, jCreatedAt = 0\<rparr>,
     \<lparr>jID = 2, jUserID = 2, jSchedule = ''0 2 * * *'', jCommand = ''date'', jLogPath = ''/home/alice/logs/cron'', jEnabled = False, jCreatedAt = 0\<rparr>],
     tseq = 2\<rparr>\<rparr>"

theorem crontab_in_sync_witness:
  "\<exists>job s' h'. run_cron (ex_cron_host True) (ex_files []) 0 ex_fs ex_owner_of_files
      (CUpdate (hd (trows (cron_jobs ex_jobs))) '' */5 * * * * '' ''curl x'') ex_jobs Map.empty = (Inr job, s', h') \<and>
     h' ''alice'' = Some (''# Managed by Aegis. Do not edit by hand; changes are overwritten.'' @ [CHR 0x0A] @
       ''*/5 * * * * curl x >> /home/alice/logs/cron 2>&1'' @ [CHR 0x0A])"
proof -
  let ?call = "CUpdate (hd (trows (cron_jobs ex_jobs))) '' */5 * * * * '' ''curl x''"
  let ?r = "run_cron (ex_cron_host True) (ex_files []) 0 ex_fs ex_owner_of_files ?call ex_jobs Map.empty"
  let ?rows = "sort_key jID (filter (\<lambda>j. jUserID j = uID ex_owner_of_files) (trows (cron_jobs (fst (snd ?r)))))"
  have ok: "is_ok (fst ?r) \<and> concat (wanted_lines (homeRoot (ex_files []) ex_owner_of_files) ?rows)
      = ''*/5 * * * * curl x >> /home/alice/logs/cron 2>&1'' @ [CHR 0x0A]" by code_simp
  then obtain job s' h' where r: "?r = (Inr job, s', h')" using not_isl_Inr by (metis prod.collapse)
  have i: "uID ex_owner_of_files > 0" "uUsername ex_owner_of_files = ''alice''" by (simp_all add: ex_owner_of_files_def)
  from crontab_in_sync [OF ex_cron_ok r i(1)] ok show ?thesis using r i(2) by simp
qed

text \<open>When the crontab cannot be installed, creating a job reports an error and yet leaves the job in the store, enabled: the next
  crontab that can be installed runs it.\<close>

theorem failed_create_keeps_job:
  assumes "cron_Create C env tm fs u schedule command s h = (Inl (CronHostErr e), s', h')"
  shows "\<exists>job\<in>set (trows (cron_jobs s')). jID job = tseq (cron_jobs s) + 1 \<and> jUserID job = uID u \<and> jEnabled job"
  using assms
  by (auto simp: cron_Create_def cron_validate_def CreateCronJob_def exec_def bindR_def Let_def
      split: sum.splits option.splits prod.splits if_splits list.splits)

theorem failed_create_keeps_job_witness:
  "\<exists>s' h'. cron_Create (ex_cron_host False) (ex_files []) 0 ex_fs ex_owner_of_files ''0 1 * * *'' ''curl x'' db_empty Map.empty =
      (Inl (CronHostErr ''install crontab''), s', h') \<and> (\<exists>job\<in>set (trows (cron_jobs s')). jUserID job = 2 \<and> jEnabled job)"
proof -
  let ?r = "cron_Create (ex_cron_host False) (ex_files []) 0 ex_fs ex_owner_of_files ''0 1 * * *'' ''curl x'' db_empty Map.empty"
  have "fst ?r = Inl (CronHostErr ''install crontab'')" by code_simp
  then obtain s' h' where r: "?r = (Inl (CronHostErr ''install crontab''), s', h')" by (metis prod.collapse)
  have "uID ex_owner_of_files = 2" by (simp add: ex_owner_of_files_def)
  with failed_create_keeps_job [OF r] r show ?thesis by auto
qed

text \<open>The log of a job is read under the identity of the panel, links followed: whatever file its path leads to, readable by the
  account or not, inside its home or not, the last lines of that file are returned. The path is \<open>logs/cron\<close> in the home, which
  belongs to the account.\<close>

theorem cron_log_reads_as_root:
  assumes "os_Stat (f_panel env) fs (jLogPath job) = Inr (p, nd)" "n_kind nd = Reg content" "jLogPath job \<noteq> []" "\<not> too_long content"
  shows "\<exists>res. TailLog env fs job = Inr res \<and>
    lr_Log res = Join [newline] (drop (length (scan_lines content) - maxLogLines) (scan_lines content))"
  using assms by (simp add: TailLog_def node_data_def Let_def)

text \<open>Alice has replaced her log by a link to a file that she may not open.\<close>

definition ex_log_fs :: fs where
  "ex_log_fs = map (map_prod id ex_node) [([''home'', ''alice'', ''logs''], Dir), ([''home'', ''alice'', ''logs'', ''cron''], Sym ''/etc/shadow''),
     ([''etc'', ''shadow''], Reg ''root:hash'')] @ ex_fs"

definition ex_log_job :: CronJob where
  "ex_log_job = \<lparr>jID = 1, jUserID = 2, jSchedule = ''0 1 * * *'', jCommand = ''true'', jLogPath = ''/home/alice/logs/cron'', jEnabled = True, jCreatedAt = 0\<rparr>"

theorem cron_log_reads_as_root_witness:
  "let alice = ex_ident\<lparr>i_look := (\<lambda>_ p. p \<noteq> [''etc'', ''shadow''])\<rparr> in
   os_Stat alice ex_log_fs ''/home/alice/logs/cron'' = Inl EACCES \<and>
   (\<exists>res. TailLog (ex_files []) ex_log_fs ex_log_job = Inr res \<and> lr_Log res = ''root:hash'')"
proof -
  have a: "os_Stat (ex_ident\<lparr>i_look := (\<lambda>_ p. p \<noteq> [''etc'', ''shadow''])\<rparr>) ex_log_fs ''/home/alice/logs/cron'' = Inl EACCES" by code_simp
  have s: "os_Stat (f_panel (ex_files [])) ex_log_fs (jLogPath ex_log_job) = Inr ([''etc'', ''shadow''], ex_node (Reg ''root:hash''))" by code_simp
  have "\<not> too_long ''root:hash''" "Join [newline] (drop (length (scan_lines ''root:hash'') - maxLogLines) (scan_lines ''root:hash'')) = ''root:hash''"
    by (simp_all add: too_long_def scan_lines_def strip_cr_def)
  then show ?thesis using a cron_log_reads_as_root [OF s] by (simp add: ex_node_def ex_log_job_def)
qed

end
