(* ===== verification/Quota_Theorems.thy ===== *)
theory Quota_Theorems
  imports Quota Suspend_Theorems
begin

text \<open>
  What a pass of the quota enforcement does to the accounts: row by row (\<open>quota_row\<close>), never to administrators or to manual
  suspensions, and nothing more when it runs again.
\<close>

definition quota_row :: "string \<Rightarrow> (string \<Rightarrow> string option) \<Rightarrow> gotime \<Rightarrow> UserRow \<Rightarrow> UserRow" where
  "quota_row homeRoot du tm r =
    (let mark = (\<lambda>status b. r\<lparr>uStatus := status, uUpdatedAt := rfc3339 tm, uSuspendedByQuota := b\<rparr>) in
     if uRole r = RoleAdmin \<or> (uStatus r = StatusSuspended \<and> \<not> uSuspendedByQuota r) then r
     else if uQuotaDiskBytes r \<le> 0 then (if uSuspendedByQuota r then mark StatusActive False else r)
     else case DiskUsage homeRoot du (scanUser r) of None \<Rightarrow> r
       | Some used \<Rightarrow> if used > uQuotaDiskBytes r then (if uStatus r = StatusActive then mark StatusSuspended True else r)
           else if uSuspendedByQuota r then mark StatusActive False else r)"

lemma quota_row_key [simp]: "uID (quota_row homeRoot du tm r) = uID r"
  by (auto simp: quota_row_def Let_def split: option.splits)

lemma quota_row_idem: "quota_row homeRoot du tm' (quota_row homeRoot du tm r) = quota_row homeRoot du tm r"
proof -
  have h: "DiskUsage homeRoot du (scanUser (r\<lparr>uStatus := st, uUpdatedAt := x, uSuspendedByQuota := b\<rparr>)) = DiskUsage homeRoot du (scanUser r)" for st x b
    by (simp add: DiskUsage_def quota_home_def scanUser_def User.truncate_def)
  show ?thesis
    by (cases "DiskUsage homeRoot du (scanUser r)") (auto simp: quota_row_def Let_def h)
qed

lemma scanUser_sel [simp]:
  "uID (scanUser r) = uID r" "uRole (scanUser r) = uRole r" "uStatus (scanUser r) = uStatus r" "uQuotaDiskBytes (scanUser r) = uQuotaDiskBytes r"
  by (simp_all add: scanUser_def User.truncate_def)

lemma t_update_one:
  assumes "table_wf uID t" "t_get uID i t = Some r" "f r = g r"
  shows "t_update (\<lambda>x. uID x = i) f t = t_update (\<lambda>x. uID x = i) g t"
proof -
  have "f x = g x" if "x \<in> set (trows t)" "uID x = i" for x
    using that assms t_get_Some_iff [OF assms(1), of i r] t_get_Some_iff [OF assms(1), of i x] by auto
  then show ?thesis by (simp add: t_update_def)
qed

lemma t_update_id: "t_update P (\<lambda>r. r) t = t"
  by (simp add: t_update_def)

lemma t_update_twice:
  assumes "\<And>r. P (f r) = P r"
  shows "t_update P g (t_update P f t) = t_update P (\<lambda>r. g (f r)) t"
  by (simp add: t_update_def assms)

lemma mark_user_eq:
  assumes "\<not> db_down s"
  shows "mark_user tm uid status b s = s\<lparr>users := t_update (\<lambda>r. uID r = uid)
    (\<lambda>r. r\<lparr>uStatus := status, uUpdatedAt := rfc3339 tm, uSuspendedByQuota := b\<rparr>) (users s)\<rparr>"
  using assms by (simp add: mark_user_def SetUserStatus_def SetSuspendedByQuota_def set_user_def exec_def t_update_twice)

lemma enforce_user_eq:
  assumes "\<not> db_down s" "table_wf uID (users s)" "t_get uID (uID r) (users s) = Some r"
  shows "enforce_user homeRoot du tm (scanUser r) s =
    s\<lparr>users := t_update (\<lambda>x. uID x = uID r) (quota_row homeRoot du tm) (users s)\<rparr>"
proof -
  have b: "IsSuspendedByQuota s (uID r) = Inr (uSuspendedByQuota r)" using assms by (simp add: IsSuspendedByQuota_def)
  let ?q = "quota_row homeRoot du tm" and ?e = "enforce_user homeRoot du tm (scanUser r) s"
  let ?m = "\<lambda>st v r. r\<lparr>uStatus := st, uUpdatedAt := rfc3339 tm, uSuspendedByQuota := v\<rparr>"
  have "(?q r = r \<and> ?e = s) \<or> (\<exists>st v. ?q r = ?m st v r \<and> ?e = mark_user tm (uID r) st v s)"
  proof (cases "uRole r = RoleAdmin \<or> (uStatus r = StatusSuspended \<and> \<not> uSuspendedByQuota r) \<or> uQuotaDiskBytes r \<le> 0")
    case True
    then show ?thesis by (cases "uSuspendedByQuota r") (auto simp: enforce_user_def quota_row_def Let_def b)
  next
    case False
    note quiet = False
    show ?thesis
    proof (cases "DiskUsage homeRoot du (scanUser r)")
      case None
      with quiet have "?q r = r" "?e = s" by (simp_all add: enforce_user_def quota_row_def Let_def b)
      then show ?thesis by blast
    next
      case (Some used)
      consider "used > uQuotaDiskBytes r" "uStatus r = StatusActive" | "\<not> used > uQuotaDiskBytes r" "uSuspendedByQuota r"
        | "used > uQuotaDiskBytes r" "uStatus r \<noteq> StatusActive" | "\<not> used > uQuotaDiskBytes r" "\<not> uSuspendedByQuota r" by blast
      then show ?thesis
      proof cases
        case 1
        with quiet Some have "?q r = ?m StatusSuspended True r" "?e = mark_user tm (uID r) StatusSuspended True s"
          by (simp_all add: enforce_user_def quota_row_def Let_def b)
        then show ?thesis by blast
      next
        case 2
        with quiet Some have "?q r = ?m StatusActive False r" "?e = mark_user tm (uID r) StatusActive False s"
          by (simp_all add: enforce_user_def quota_row_def Let_def b)
        then show ?thesis by blast
      next
        case 3
        with quiet Some have "?q r = r" "?e = s" by (simp_all add: enforce_user_def quota_row_def Let_def b)
        then show ?thesis by blast
      next
        case 4
        with quiet Some have "?q r = r" "?e = s" by (simp_all add: enforce_user_def quota_row_def Let_def b)
        then show ?thesis by blast
      qed
    qed
  qed
  then consider "?q r = r" "?e = s" | st v where "?q r = ?m st v r" "?e = mark_user tm (uID r) st v s" by blast
  then show ?thesis
  proof cases
    case 1
    with t_update_one [OF assms(2,3), of ?q "\<lambda>r. r"] show ?thesis by (simp add: t_update_id)
  next
    case 2
    with t_update_one [OF assms(2,3), of ?q "?m st v"] show ?thesis by (simp add: mark_user_eq [OF assms(1)])
  qed
qed

lemma enforce_fold_eq:
  assumes "\<not> db_down s" "table_wf uID (users s)" "distinct (map uID us)"
    and "\<And>u. u \<in> set us \<Longrightarrow> \<exists>r. u = scanUser r \<and> t_get uID (uID r) (users s) = Some r"
  shows "fold (enforce_user homeRoot du tm) us s =
    s\<lparr>users := t_update (\<lambda>x. uID x \<in> uID ` set us) (quota_row homeRoot du tm) (users s)\<rparr>"
  using assms
proof (induction us arbitrary: s)
  case (Cons u us)
  obtain r where r: "u = scanUser r" "t_get uID (uID r) (users s) = Some r" using Cons.prems(4) by auto
  let ?q = "quota_row homeRoot du tm"
  let ?s = "s\<lparr>users := t_update (\<lambda>x. uID x = uID r) ?q (users s)\<rparr>"
  have e: "enforce_user homeRoot du tm u s = ?s" using enforce_user_eq [OF Cons.prems(1,2) r(2)] r(1) by simp
  have g: "\<exists>q. v = scanUser q \<and> t_get uID (uID q) (users ?s) = Some q" if v: "v \<in> set us" for v
  proof -
    obtain q where q: "v = scanUser q" "t_get uID (uID q) (users s) = Some q" using Cons.prems(4) v by auto
    moreover have "uID q \<noteq> uID r" using Cons.prems(3) v q(1) r(1) by force
    ultimately show ?thesis by (intro exI [of _ q]) (simp add: t_get_update)
  qed
  have "fold (enforce_user homeRoot du tm) us ?s = ?s\<lparr>users := t_update (\<lambda>x. uID x \<in> uID ` set us) ?q (users ?s)\<rparr>"
    using Cons.IH [of ?s] Cons.prems g by (simp add: table_wf_update)
  moreover have "t_update (\<lambda>x. uID x \<in> uID ` set us) ?q (t_update (\<lambda>x. uID x = uID r) ?q (users s)) =
      t_update (\<lambda>x. uID x \<in> uID ` set (u # us)) ?q (users s)"
    using Cons.prems(3) r(1) by (auto simp: t_update_def)
  ultimately show ?case using e by simp
qed (simp add: t_update_def)

lemma Enforce_eq:
  assumes "\<not> db_down s" "schema_ok s"
  shows "Enforce homeRoot du tm s = (None, s\<lparr>users := t_update (\<lambda>_. True) (quota_row homeRoot du tm) (users s)\<rparr>)"
proof -
  let ?us = "sort_key uUsername (map scanUser (trows (users s)))"
  note wf = schema_okD(3) [OF assms(2)]
  have "distinct (map uID (trows (users s)))" using table_wf_unique [OF wf] by (simp add: unique_on_def)
  moreover have "mset (map uID ?us) = mset (map uID (trows (users s)))" by (simp add: multiset.map_comp comp_def)
  ultimately have d: "distinct (map uID ?us)" using mset_eq_imp_distinct_iff by blast
  have "fold (enforce_user homeRoot du tm) ?us s = s\<lparr>users := t_update (\<lambda>x. uID x \<in> uID ` set ?us) (quota_row homeRoot du tm) (users s)\<rparr>"
    by (rule enforce_fold_eq [OF assms(1) wf d]) (use t_get_Some_iff [OF wf] in auto)
  moreover have "t_update (\<lambda>x. uID x \<in> uID ` set ?us) (quota_row homeRoot du tm) (users s) = t_update (\<lambda>_. True) (quota_row homeRoot du tm) (users s)"
    by (auto simp: t_update_def image_image)
  ultimately show ?thesis using assms(1) by (simp add: Enforce_def ListUsers_def query_def t_select_def)
qed

lemma schema_quota: "schema_ok s \<Longrightarrow> schema_ok (s\<lparr>users := t_update (\<lambda>_. True) (quota_row homeRoot du tm) (users s)\<rparr>)"
  by (auto intro!: schema_upd table_laws simp: quota_row_def Let_def split: option.splits)

text \<open>C16: A pass of the quota enforcement. Nothing but the table of users changes; administrators and accounts suspended by hand stay as
  they are; an active account over its disk quota is suspended and marked, a marked account that is within its quota again (or
  has none) is active and unmarked; an account whose usage cannot be measured stays as it is; and a second pass with the
  same usage changes nothing.\<close>

theorem quota_pass:
  assumes "\<not> db_down s" "schema_ok s"
  shows "\<exists>s'. Enforce homeRoot du tm s = (None, s') \<and> s' = s\<lparr>users := users s'\<rparr> \<and> map uID (trows (users s')) = map uID (trows (users s)) \<and>
    (\<forall>r\<in>set (trows (users s)). \<exists>r'. t_get uID (uID r) (users s') = Some r' \<and>
      (let manual = (uStatus r = StatusSuspended \<and> \<not> uSuspendedByQuota r); used = DiskUsage homeRoot du (scanUser r); quota = uQuotaDiskBytes r in
       (uRole r = RoleAdmin \<or> manual \<longrightarrow> r' = r) \<and>
       (uRole r \<noteq> RoleAdmin \<and> uStatus r = StatusActive \<and> quota > 0 \<and> (\<exists>n. used = Some n \<and> n > quota) \<longrightarrow>
          uStatus r' = StatusSuspended \<and> uSuspendedByQuota r') \<and>
       (uRole r \<noteq> RoleAdmin \<and> \<not> manual \<and> uSuspendedByQuota r \<and> (quota \<le> 0 \<or> (\<exists>n. used = Some n \<and> n \<le> quota)) \<longrightarrow>
          uStatus r' = StatusActive \<and> \<not> uSuspendedByQuota r') \<and>
       (quota > 0 \<and> used = None \<longrightarrow> r' = r))) \<and>
    Enforce homeRoot du tm' s' = (None, s')"
proof -
  let ?q = "quota_row homeRoot du tm"
  define s' where "s' = s\<lparr>users := t_update (\<lambda>_. True) ?q (users s)\<rparr>"
  note wf = schema_okD(3) [OF assms(2)]
  have e: "Enforce homeRoot du tm s = (None, s')" unfolding s'_def by (rule Enforce_eq [OF assms])
  have wf': "table_wf uID (users s')" using wf by (simp add: s'_def table_wf_update)
  have keys: "map uID (trows (users s')) = map uID (trows (users s))" by (simp add: s'_def)
  have row: "t_get uID (uID r) (users s') = Some (?q r)" if "r \<in> set (trows (users s))" for r
    using t_get_Some_iff [OF wf, of "uID r" r] that by (simp add: s'_def t_get_update)
  have "schema_ok s'" using assms(2) unfolding s'_def by (rule schema_quota)
  then have "Enforce homeRoot du tm' s' = (None, s'\<lparr>users := t_update (\<lambda>_. True) (quota_row homeRoot du tm') (users s')\<rparr>)"
    using assms(1) by (intro Enforce_eq) (simp_all add: s'_def)
  also have "t_update (\<lambda>_. True) (quota_row homeRoot du tm') (users s') = users s'"
    by (simp add: s'_def t_update_def quota_row_idem)
  finally have again: "Enforce homeRoot du tm' s' = (None, s')" by simp
  show ?thesis
  proof (intro exI [of _ s'] conjI ballI)
    fix r assume "r \<in> set (trows (users s))"
    then show "\<exists>r'. t_get uID (uID r) (users s') = Some r' \<and> (let manual = (uStatus r = StatusSuspended \<and> \<not> uSuspendedByQuota r);
        used = DiskUsage homeRoot du (scanUser r); quota = uQuotaDiskBytes r in
       (uRole r = RoleAdmin \<or> manual \<longrightarrow> r' = r) \<and>
       (uRole r \<noteq> RoleAdmin \<and> uStatus r = StatusActive \<and> quota > 0 \<and> (\<exists>n. used = Some n \<and> n > quota) \<longrightarrow>
          uStatus r' = StatusSuspended \<and> uSuspendedByQuota r') \<and>
       (uRole r \<noteq> RoleAdmin \<and> \<not> manual \<and> uSuspendedByQuota r \<and> (quota \<le> 0 \<or> (\<exists>n. used = Some n \<and> n \<le> quota)) \<longrightarrow>
          uStatus r' = StatusActive \<and> \<not> uSuspendedByQuota r') \<and>
       (quota > 0 \<and> used = None \<longrightarrow> r' = r))"
      by (intro exI [of _ "?q r"]) (auto simp: row quota_row_def Let_def)
  qed (use e keys again in \<open>simp_all add: s'_def\<close>)
qed

text \<open>An account with a quota of ten bytes that uses twenty.\<close>

definition ex_quota_row :: UserRow where
  "ex_quota_row = \<lparr>uID = 1, uUsername = ''alice'', uEmail = [], uPasswordHash = [], uRole = RoleUser, uPackageID = 0, uStatus = StatusActive,
     uOwnerID = 0, uHomeDir = [], uQuotaDiskBytes = 10, uQuotaBandwidthBytes = 0, uCreatedAt = 0, uUpdatedAt = 0, uTOTPSecret = [],
     uTOTPEnabled = False, uTOTPBackupCodes = Codes [], uSuspendedByQuota = False\<rparr>"

definition ex_quota_db :: db where
  "ex_quota_db = db_empty\<lparr>users := \<lparr>trows = [ex_quota_row], tseq = 1\<rparr>\<rparr>"

theorem quota_pass_witness:
  "\<exists>s' r'. Enforce ''/home'' (\<lambda>_. Some ''20 /home/alice'') 5 ex_quota_db = (None, s') \<and> t_get uID 1 (users s') = Some r' \<and>
     uStatus r' = StatusSuspended \<and> uSuspendedByQuota r' \<and> Enforce ''/home'' (\<lambda>_. Some ''20 /home/alice'') 6 s' = (None, s')"
proof -
  have "\<not> db_down ex_quota_db" by (simp add: ex_quota_db_def db_empty_def)
  moreover have "schema_ok ex_quota_db"
    using schema_ok_empty by (auto simp: ex_quota_db_def ex_quota_row_def table_wf_def unique_on_def intro!: schema_upd)
  moreover have "DiskUsage ''/home'' (\<lambda>_. Some ''20 /home/alice'') (scanUser ex_quota_row) = Some 20" by code_simp
  moreover have "ex_quota_row \<in> set (trows (users ex_quota_db))" "uRole ex_quota_row \<noteq> RoleAdmin" "uStatus ex_quota_row = StatusActive"
      "uQuotaDiskBytes ex_quota_row = 10" "uID ex_quota_row = 1"
    by (simp_all add: ex_quota_db_def ex_quota_row_def)
  ultimately show ?thesis
    using quota_pass [of ex_quota_db "''/home''" "\<lambda>_. Some ''20 /home/alice''" 5 6] by (fastforce simp: Let_def)
qed

end
