(* ===== verification/Services_Theorems.thy ===== *)
theory Services_Theorems
  imports Api_Services Api_Theorems Files_Theorems Cron_Theorems Quota_Theorems
begin

text \<open>
  Properties of the service handlers: how long an API token really lives (\<open>token_lifetime\<close>), and that file requests of
  ordinary accounts reach no further than their own home (\<open>file_requests_stay_home\<close>).
\<close>

section \<open>The lifetime of a token\<close>

lemma sint_small:
  assumes "- (2 ^ 63) \<le> k" "k < 2 ^ 63"
  shows "sint (of_int k :: 64 word) = k"
  using signed_take_bit_int_eq_self [of 63 k] assms by (simp add: sint_sbintrunc')

lemma token_ttl_small:
  assumes "0 < n" "n \<le> 106751"
  shows "token_ttl (of_int n) = n * 86400000000000"
proof -
  have p: "(of_int n :: 64 word) * 24 * 3600000000000 = of_int (n * 86400000000000)" by simp
  have "sint (of_int n :: 64 word) = n" using assms by (intro sint_small) simp_all
  moreover have "sint (of_int (n * 86400000000000) :: 64 word) = n * 86400000000000" using assms by (intro sint_small) simp_all
  ultimately show ?thesis using assms(1) unfolding token_ttl_def p by simp
qed

lemma token_ttl_large:
  assumes "106752 \<le> n" "n \<le> 213503"
  shows "token_ttl (of_int n) < 0"
proof -
  have "(of_int n :: 64 word) * 24 * 3600000000000 = of_int (n * 86400000000000)" by simp
  also have "\<dots> = of_int (n * 86400000000000 - 2 ^ 64)" by simp
  finally have p: "(of_int n :: 64 word) * 24 * 3600000000000 = of_int (n * 86400000000000 - 2 ^ 64)" .
  have "sint (of_int n :: 64 word) = n" using assms by (intro sint_small) simp_all
  moreover have "sint (of_int (n * 86400000000000 - 2 ^ 64) :: 64 word) = n * 86400000000000 - 2 ^ 64" using assms by (intro sint_small) simp_all
  ultimately show ?thesis using assms unfolding token_ttl_def p by simp
qed

text \<open>The lifetime of a token asked for with \<open>ttl_days\<close>. Up to 106751 days the token expires exactly that many days later; from
  106752 days on (up to 213503) the multiplication overflows 64 bits and becomes negative, and the token never expires.\<close>

theorem token_lifetime:
  assumes "handleTokensCreate env r tm (Some \<lparr>tc_Label = label, tc_TTLDays = of_int days\<rparr>) ctx srv = ((201, BTokenNew t raw), srv')"
    and "0 < days" "days \<le> 213503"
  shows "kExpiresAt t = (if days \<le> 106751 then Some (rfc3339 (tm + days * 86400000000000)) else None)"
proof -
  obtain u s' where u: "token_Create (m_lib (env_mgr env)) (srv_db srv) tm (se_draw env) (se_salt env) u label (token_ttl (of_int days)) = Inr (t, raw, s')"
    using assms(1) by (auto simp: handleTokensCreate_def bad_body_def writeErr_def panicked_def split: option.splits sum.splits prod.splits)
  have "kExpiresAt t = (if token_ttl (of_int days) > 0 then Some (rfc3339 (tm + token_ttl (of_int days))) else None)"
    using u by (auto simp: token_Create_def CreateAPIToken_def bindR_Inr_iff exec_def Let_def split: option.splits sum.splits if_splits)
  then show ?thesis using token_ttl_small [of days] token_ttl_large [of days] assms(2,3) by (cases "days \<le> 106751") auto
qed

text \<open>A server whose host is a file system.\<close>

definition ex_senv :: "fs SEnv" where
  "ex_senv = \<lparr>env_mgr = ex_signer 0, env_show = (\<lambda>_. []), env_rnd = None, env_codes_rnd = [], env_salts = [],
     se_cron = \<lparr>ch_host = null_host, ch_LookPath = (\<lambda>_ _. False), ch_temp = (\<lambda>_. False), ch_install = (\<lambda>_ _ h. (False, h))\<rparr>,
     se_files = ex_files [], se_fs = (\<lambda>h. h), se_set_fs = (\<lambda>fs _. fs), se_du = (\<lambda>_ _. None), se_log = (\<lambda>_ _. None),
     se_draw = (\<lambda>_. Some 0), se_salt = []\<rparr>"

definition ex_fs_server :: "fs Server" where
  "ex_fs_server = \<lparr>srv_db = ast_db ex_state, srv_log = [], srv_log_opens = True, srv_fails = None, srv_host = ex_fs, srv_applied = (\<lambda>_. False)\<rparr>"

definition ex_ctx :: Ctx where
  "ex_ctx = \<lparr>ctxUser = Some ex_owner_of_files, ctxClaims = None\<rparr>"

theorem token_lifetime_witness:
  "\<exists>t raw srv'. handleTokensCreate ex_senv (ex_request ''x'') 0 (Some \<lparr>tc_Label = ''ci'', tc_TTLDays = of_int 200000\<rparr>) ex_ctx ex_fs_server =
     ((201, BTokenNew t raw), srv') \<and> kExpiresAt t = None"
proof -
  let ?r = "handleTokensCreate ex_senv (ex_request ''x'') 0 (Some \<lparr>tc_Label = ''ci'', tc_TTLDays = of_int 200000\<rparr>) ex_ctx ex_fs_server"
  have "case fst ?r of (status, BTokenNew t raw) \<Rightarrow> status = 201 | _ \<Rightarrow> False" by code_simp
  then obtain t raw where "fst ?r = (201, BTokenNew t raw)" by (auto split: prod.splits body.splits)
  then have r: "?r = ((201, BTokenNew t raw), snd ?r)" by (metis prod.collapse)
  have "kExpiresAt t = None" using token_lifetime [OF r] by simp
  with r show ?thesis by blast
qed

section \<open>File requests\<close>

text \<open>The requests that create or change files.\<close>

datatype file_request = HWrite "(string \<times> string \<times> string) option" | HMkdir "(string \<times> string) option" | HUnzip "(string \<times> string) option"
  | HUpload "(string \<times> (string \<times> string option) list) option"

fun serve_file :: "'h SEnv \<Rightarrow> Request \<Rightarrow> gotime \<Rightarrow> string \<Rightarrow> file_request \<Rightarrow> 'h handler" where
  "serve_file env r tm q_user (HWrite req) = handleFilesWrite env r tm q_user req"
| "serve_file env r tm q_user (HMkdir req) = handleFilesMkdir env r tm q_user req"
| "serve_file env r tm q_user (HUnzip req) = handleFilesUnzip env r tm q_user req"
| "serve_file env r tm q_user (HUpload req) = handleFilesUpload env r tm q_user req"

definition fs_lens :: "'h SEnv \<Rightarrow> bool" where
  "fs_lens env \<longleftrightarrow> (\<forall>fs h. se_fs env (se_set_fs env fs h) = fs)"

lemma audit_host [simp]: "srv_host (audit r tm ctx action target detail srv) = srv_host srv"
  by (simp add: audit_def Let_def split: prod.splits)

lemma dirs_stay:
  assumes "os_Create who perm p fs = Inr (h, fs1)" "is_dir fs d"
  shows "is_dir (os_Write h data fs1) d"
proof -
  obtain nd where nd: "fs1 = put h nd fs" "n_kind nd = Reg []" "peek fs h = None \<or> (\<exists>old x. peek fs h = Some old \<and> n_kind old = Reg x)"
    using os_CreateD [OF assms(1)] by blast
  then have "h \<noteq> d" using assms(2) by (auto simp: is_dir_def)
  with nd assms(2) show ?thesis by (simp add: is_dir_def os_Write_def)
qed

lemma OpenWrite_kept:
  assumes "fs_ok fs" "home_ok env u fs" "panel_sees_all env" "accounts_local env" "OpenWrite env u rel mode fs = (r, fs1)"
  shows "case r of Inl _ \<Rightarrow> fs1 = fs
    | Inr h \<Rightarrow> kept (components (homeRoot env u)) fs (os_Write h data fs1) \<and> home_ok env u (os_Write h data fs1)"
proof (cases r)
  case (Inl e)
  with assms(5) show ?thesis by (auto simp: OpenWrite_def with_path_def as_account_def split: sum.splits option.splits)
next
  case (Inr h)
  then obtain p who where p: "Resolve env fs u rel = Inr p" "os_Create who (permOf mode) p fs = Inr (h, fs1)"
    using assms(5) by (auto simp: OpenWrite_def with_path_def as_account_def split: sum.splits option.splits)
  then obtain cs where cs: "p = path_text cs" "guarded (f_panel env) fs (components (homeRoot env u)) cs"
    using Resolve_guarded assms(1-3) by metis
  have "prefix (components (homeRoot env u)) h" "kept (components (homeRoot env u)) fs fs1"
    using Create_kept [OF cs(2)] panel_looks [OF assms(3)] p(2) cs(1) by auto
  moreover have "home_ok env u (os_Write h data fs1)"
    using dirs_stay [OF p(2), of "components (homeRoot env u)" data] assms(2) unfolding home_ok_def by blast
  ultimately show ?thesis using Inr by (simp add: Write_kept)
qed

lemma upload_kept:
  assumes "panel_sees_all env" "accounts_local env" "fs_ok fs" "home_ok env u fs"
  shows "kept (components (homeRoot env u)) fs (snd (upload_files env u destDir files fs))"
  using assms(3,4)
proof (induction files arbitrary: fs)
  case (Cons x files)
  obtain name content where f: "x = (name, content)" by fastforce
  show ?case
  proof (cases content)
    case None
    with f Cons.prems(1) show ?thesis by (simp add: kept_refl)
  next
    case (Some data)
    obtain r fs1 where o: "OpenWrite env u (TrimSuffix destDir ''/'' @ ''/'' @ name) 420 fs = (r, fs1)" by fastforce
    note K = OpenWrite_kept [OF Cons.prems assms(1,2) o, of data]
    show ?thesis
    proof (cases r)
      case (Inl e)
      with K o f Some Cons.prems(1) show ?thesis by (cases e) (simp_all add: kept_refl)
    next
      case (Inr h)
      then have k: "kept (components (homeRoot env u)) fs (os_Write h data fs1)" "home_ok env u (os_Write h data fs1)" using K by simp_all
      then have "kept (components (homeRoot env u)) (os_Write h data fs1) (snd (upload_files env u destDir files (os_Write h data fs1)))"
        using Cons.IH by (simp add: kept_def)
      with k Inr o f Some show ?thesis by (auto intro: kept_trans)
    qed
  qed
qed (simp add: kept_refl)

lemma on_files_fs:
  assumes "on_files env bad op k srv = (resp, srv')" "fs_lens env" "\<And>x s. srv_host (snd (k x s)) = srv_host s"
  shows "se_fs env (srv_host srv') = snd (op (se_fs env (srv_host srv)))"
proof -
  obtain r fs' where o: "op (se_fs env (srv_host srv)) = (r, fs')" by fastforce
  let ?s = "srv\<lparr>srv_host := se_set_fs env fs' (srv_host srv)\<rparr>"
  have "srv_host srv' = se_set_fs env fs' (srv_host srv)"
  proof (cases r)
    case (Inr x)
    then have "k x ?s = (resp, srv')" using assms(1) o by (simp add: on_files_def Let_def)
    with assms(3) [of x ?s] show ?thesis by simp
  qed (use assms(1) o in \<open>auto simp: on_files_def Let_def\<close>)
  with assms(2) o show ?thesis by (simp add: fs_lens_def)
qed

lemma on_files_audit:
  assumes "on_files env bad op (\<lambda>_ s. (status, audit r tm ctx a b c s)) srv = (resp, srv')" "fs_lens env"
  shows "se_fs env (srv_host srv') = snd (op (se_fs env (srv_host srv)))"
  by (rule on_files_fs [OF assms]) simp

text \<open>File requests of an account that is not an administrator, whatever they ask for (a \<open>user\<close> parameter naming somebody else, any
  path, any archive, any upload), leave everything outside the home directory of that account as it is.\<close>

theorem file_requests_stay_home:
  assumes "ctxUser ctx = Some u" "uRole u \<noteq> RoleAdmin" "serve_file env r tm q_user req ctx srv = (resp, srv')"
    and "fs_ok (se_fs env (srv_host srv))" "home_ok (se_files env) u (se_fs env (srv_host srv))"
    and "panel_sees_all (se_files env)" "accounts_local (se_files env)" "fs_lens env"
  shows "inside (components (homeRoot (se_files env) u)) (se_fs env (srv_host srv)) (se_fs env (srv_host srv'))"
proof -
  let ?fs = "se_fs env (srv_host srv)" and ?R = "components (homeRoot (se_files env) u)"
  have u: "fileUser ctx q_user (srv_db srv) = Inr (Some u)" using assms(1,2) by (simp add: fileUser_def)
  note H = files_stay_home_call [OF assms(4-7)]
  show ?thesis
  proof (cases req)
    case (HWrite x)
    then show ?thesis using assms(3) u H [of "FWrite _ _ _"]
      by (cases x) (auto simp: deep_chmod_def handleFilesWrite_def bad_body_def writeErr_def dest!: on_files_audit [OF _ assms(8)])
  next
    case (HMkdir x)
    then show ?thesis using assms(3) u H [of "FMkdir _ _"]
      by (cases x) (auto simp: deep_chmod_def handleFilesMkdir_def bad_body_def writeErr_def dest!: on_files_audit [OF _ assms(8)])
  next
    case (HUnzip x)
    then show ?thesis using assms(3) u H [of "FExtract _ _"]
      by (cases x) (auto simp: deep_chmod_def handleFilesUnzip_def bad_body_def writeErr_def dest!: on_files_audit [OF _ assms(8)])
  next
    case (HUpload x)
    show ?thesis
    proof (cases x)
      case None
      with HUpload assms(3) u show ?thesis by (auto simp: handleFilesUpload_def writeErr_def)
    next
      case (Some y)
      then obtain dest files where y: "x = Some (dest, files)" by (cases y) auto
      obtain r1 fs1 where f: "upload_files (se_files env) u dest files ?fs = (r1, fs1)" by fastforce
      then have "inside ?R ?fs fs1" using upload_kept [OF assms(6,7,4,5), of dest files] by (simp add: kept_def)
      moreover have "srv_host srv' = se_set_fs env fs1 (srv_host srv)"
        using assms(3) HUpload u y f by (cases r1) (auto simp: handleFilesUpload_def Let_def)
      ultimately show ?thesis using assms(8) by (simp add: fs_lens_def)
    qed
  qed
qed

theorem file_requests_stay_home_witness:
  "\<exists>resp srv'. serve_file ex_senv (ex_request ''x'') 0 ''root'' (HUpload (Some (''/docs/'', [(''../../../etc/passwd'', Some ''x'')]))) ex_ctx ex_fs_server =
      (resp, srv') \<and> inside (components (homeRoot (ex_files []) ex_owner_of_files)) ex_fs (srv_host srv')"
proof -
  obtain resp srv' where r: "serve_file ex_senv (ex_request ''x'') 0 ''root'' (HUpload (Some (''/docs/'', [(''../../../etc/passwd'', Some ''x'')])))
      ex_ctx ex_fs_server = (resp, srv')" by fastforce
  have e: "se_files ex_senv = ex_files []" "se_fs ex_senv = (\<lambda>h. h)" "srv_host ex_fs_server = ex_fs" "fs_lens ex_senv"
    by (simp_all add: ex_senv_def ex_fs_server_def fs_lens_def)
  have "ctxUser ex_ctx = Some ex_owner_of_files" "uRole ex_owner_of_files \<noteq> RoleAdmin" by (simp_all add: ex_ctx_def ex_owner_of_files_def)
  from file_requests_stay_home [OF this r] show ?thesis using e ex_files_ok(1) ex_files_ok(2-4) [of "[]"] r by simp
qed

end
