(* ===== verification/Credentials.thy ===== *)
theory Credentials
  imports Api_Theorems Suspend_Theorems
begin

text \<open>
  The contract every way of presenting a credential promises the rest of the panel: it stands for an account that is in the
  store now and that is not suspended. Session tokens (\<open>Verify\<close> of \<^verbatim>\<open>auth/auth.go\<close>), API tokens (\<open>Verify\<close> of
  \<^verbatim>\<open>svc/apitokens.go\<close> with the check of \<open>resolveBearer\<close>) and bearer tokens (\<open>resolveBearer\<close> of \<^verbatim>\<open>api/server.go\<close>) are its
  interpretations; what a suspension or a deletion means for all of them is proved once.
\<close>

locale credential_check =
  fixes check :: "db \<Rightarrow> gotime \<Rightarrow> string \<Rightarrow> User option"
  assumes existing: "check s tm token = Some u \<Longrightarrow> GetUserByID s (uID u) = Inr u"
    and active: "check s tm token = Some u \<Longrightarrow> uStatus u \<noteq> StatusSuspended"
begin

lemma row_behind:
  assumes "check s tm token = Some u"
  shows "\<exists>row. t_get uID (uID u) (users s) = Some row \<and> uStatus row \<noteq> StatusSuspended"
  using existing [OF assms] active [OF assms]
  by (auto simp: GetUserByID_def query_row_def scanUser_def User.truncate_def split: if_splits option.splits)

lemma suspended_refused:
  assumes "t_get uID i (users s) = Some row" "uStatus row = StatusSuspended" "check s tm token = Some u"
  shows "uID u \<noteq> i"
  using row_behind [OF assms(3)] assms(1,2) by auto

lemma deleted_refused:
  assumes "\<forall>row\<in>set (trows (users s)). uID row \<noteq> i" "check s tm token = Some u"
  shows "uID u \<noteq> i"
  using row_behind [OF assms(2)] assms(1) by (auto dest: t_get_SomeD)

lemma down_refuses:
  assumes "db_down s"
  shows "check s tm token = None"
proof (cases "check s tm token")
  case (Some u)
  with existing [OF Some] assms show ?thesis by (simp add: GetUserByID_def query_row_def)
qed

end

definition session_check :: "Manager \<Rightarrow> db \<Rightarrow> gotime \<Rightarrow> string \<Rightarrow> User option" where
  "session_check m s tm token = (case Verify m s tm token of Inl _ \<Rightarrow> None | Inr (c, u) \<Rightarrow> Some u)"

definition api_token_check :: "Lib \<Rightarrow> db \<Rightarrow> gotime \<Rightarrow> string \<Rightarrow> User option" where
  "api_token_check lib s tm token = (case fst (token_Verify lib s tm token) of Inl _ \<Rightarrow> None
     | Inr u \<Rightarrow> if uStatus u = StatusSuspended then None else Some u)"

definition bearer_check :: "Manager \<Rightarrow> Request \<Rightarrow> 'h Server \<Rightarrow> db \<Rightarrow> gotime \<Rightarrow> string \<Rightarrow> User option" where
  "bearer_check m r srv s tm token = (case fst (resolveBearer m r tm token (srv\<lparr>srv_db := s\<rparr>)) of
     Inl _ \<Rightarrow> None | Inr (u, c) \<Rightarrow> Some u)"

interpretation session_tokens: credential_check "session_check m" for m
proof
  fix s tm token u assume "session_check m s tm token = Some u"
  then obtain c where "Verify m s tm token = Inr (c, u)" by (auto simp: session_check_def split: sum.splits)
  then show "GetUserByID s (uID u) = Inr u" "uStatus u \<noteq> StatusSuspended"
    using GetUserByID_id by (fastforce simp: Verify_ok)+
qed

interpretation api_keys: credential_check "api_token_check lib" for lib
proof
  fix s tm token u assume "api_token_check lib s tm token = Some u"
  then obtain s' where "token_Verify lib s tm token = (Inr u, s')" "uStatus u \<noteq> StatusSuspended"
    by (cases "token_Verify lib s tm token") (auto simp: api_token_check_def split: sum.splits if_splits)
  then show "GetUserByID s (uID u) = Inr u" "uStatus u \<noteq> StatusSuspended" using token_Verify_ok(2) by simp_all
qed

interpretation bearer_tokens: credential_check "bearer_check m r srv" for m r srv
proof
  fix s tm token u assume "bearer_check m r srv s tm token = Some u"
  then obtain c srv' where "resolveBearer m r tm token (srv\<lparr>srv_db := s\<rparr>) = (Inr (u, c), srv')"
    by (cases "resolveBearer m r tm token (srv\<lparr>srv_db := s\<rparr>)") (auto simp: bearer_check_def split: sum.splits)
  then show "GetUserByID s (uID u) = Inr u" "uStatus u \<noteq> StatusSuspended" using resolveBearer_ok by fastforce+
qed

text \<open>A request that \<open>withAuth\<close> lets through ran as the account its bearer token checks as.\<close>

lemma withAuth_cases:
  obtains (refused) status e srv1 where "withAuth m r tm next srv = ((status, BErr e), srv1)" "status \<in> {401, 403, 429}"
      "bearer_check m r srv (srv_db srv) tm (bearerToken r) = None \<or> bearerToken r = []"
  | (runs) u c srv1 where "withAuth m r tm next srv = next \<lparr>ctxUser = Some u, ctxClaims = Some c\<rparr> srv1"
      "bearer_check m r srv (srv_db srv) tm (bearerToken r) = Some u"
proof (cases "bearerToken r = []")
  case True
  then show ?thesis by (intro refused) (auto simp: withAuth_def writeErr_def)
next
  case False
  obtain res srv1 where r: "resolveBearer m r tm (bearerToken r) srv = (res, srv1)" by fastforce
  have s: "srv\<lparr>srv_db := srv_db srv\<rparr> = srv" by simp
  show ?thesis
  proof (cases res)
    case (Inl p)
    then obtain status e where p: "res = Inl (status, e)" by (cases p) auto
    show ?thesis using False r p resolveBearer_status [OF r [unfolded p]]
      by (intro refused [of status e srv1]) (simp_all add: withAuth_def bearer_check_def)
  next
    case (Inr p)
    then obtain u c where "res = Inr (u, c)" by (cases p) auto
    then show ?thesis using False r by (intro runs [of u c srv1]) (simp_all add: withAuth_def bearer_check_def)
  qed
qed

end
