(* ===== verification/Http.thy ===== *)
theory Http
  imports Go_Text Paths "HOL-Library.AList"
begin

text \<open>
  The parts of Go's \<open>net/http\<close>, \<open>net/url\<close> and \<open>strings\<close> packages the native site server works with: header maps with
  canonical keys, the URL of a request and \<open>URL.RequestURI\<close>, and the request itself.

  A header map is kept as a list of its entries, in some order the program cannot rely on.
\<close>

section \<open>Text\<close>

definition EqualFold :: "string \<Rightarrow> string \<Rightarrow> bool" where
  "EqualFold a b \<longleftrightarrow> ToLower a = ToLower b"

definition IndexByte :: "char \<Rightarrow> string \<Rightarrow> nat option" where
  "IndexByte c s = (if c \<in> set s then Some (length (takeWhile (\<lambda>x. x \<noteq> c) s)) else None)"

fun Contains :: "string \<Rightarrow> string \<Rightarrow> bool" where
  "Contains [] sub = (sub = [])"
| "Contains (c # s) sub = (HasPrefix (c # s) sub \<or> Contains s sub)"

definition TrimSet :: "char list \<Rightarrow> string \<Rightarrow> string" where
  "TrimSet cs s = rev (dropWhile (\<lambda>c. c \<in> set cs) (rev (dropWhile (\<lambda>c. c \<in> set cs) s)))"

text \<open>\<open>strings.Cut\<close> at a character.\<close>

definition Cut :: "char \<Rightarrow> string \<Rightarrow> (string \<times> string) option" where
  "Cut c s = (case dropWhile (\<lambda>x. x \<noteq> c) s of [] \<Rightarrow> None | _ # rest \<Rightarrow> Some (takeWhile (\<lambda>x. x \<noteq> c) s, rest))"

lemma Cut_append: "c \<notin> set a \<Longrightarrow> Cut c (a @ c # b) = Some (a, b)"
  by (induction a) (auto simp: Cut_def split: list.splits)

section \<open>Headers\<close>

type_synonym Header = "(string \<times> string list) list"

definition token_char :: "char \<Rightarrow> bool" where
  "token_char c \<longleftrightarrow> c \<in> set ''!#$%&*+-.^_`|~0123456789abcdefghijklmnopqrstuvwxyzABCDEFGHIJKLMNOPQRSTUVWXYZ'' \<or> c = CHR 0x27"

fun canon_from :: "bool \<Rightarrow> string \<Rightarrow> string" where
  "canon_from upper [] = []"
| "canon_from upper (c # cs) = (let c' = (if upper then upper_char c else lower_char c) in c' # canon_from (c' = CHR ''-'') cs)"

definition CanonicalHeaderKey :: "string \<Rightarrow> string" where
  "CanonicalHeaderKey k = (if list_all token_char k then canon_from True k else k)"

definition h_Values :: "Header \<Rightarrow> string \<Rightarrow> string list" where
  "h_Values h k = (case map_of h (CanonicalHeaderKey k) of None \<Rightarrow> [] | Some vs \<Rightarrow> vs)"

definition h_Get :: "Header \<Rightarrow> string \<Rightarrow> string" where
  "h_Get h k = (case h_Values h k of [] \<Rightarrow> [] | v # _ \<Rightarrow> v)"

definition h_Set :: "string \<Rightarrow> string \<Rightarrow> Header \<Rightarrow> Header" where
  "h_Set k v h = AList.update (CanonicalHeaderKey k) [v] h"

definition h_Add :: "string \<Rightarrow> string \<Rightarrow> Header \<Rightarrow> Header" where
  "h_Add k v h = AList.update (CanonicalHeaderKey k) (h_Values h k @ [v]) h"

definition h_Del :: "string \<Rightarrow> Header \<Rightarrow> Header" where
  "h_Del k h = AList.delete (CanonicalHeaderKey k) h"

definition same_key :: "string \<Rightarrow> string \<Rightarrow> bool" where
  "same_key a b \<longleftrightarrow> CanonicalHeaderKey a = CanonicalHeaderKey b"

lemma h_Values_simps [simp]:
  "h_Values [] k = []"
  "h_Values (h_Set k v h) k' = (if same_key k k' then [v] else h_Values h k')"
  "h_Values (h_Add k v h) k' = (if same_key k k' then h_Values h k @ [v] else h_Values h k')"
  "h_Values (h_Del k h) k' = (if same_key k k' then [] else h_Values h k')"
  by (auto simp: h_Values_def h_Set_def h_Add_def h_Del_def same_key_def update_conv' delete_conv' split: option.splits)

lemma h_Get_simps [simp]:
  "h_Get [] k = []"
  "h_Get (h_Set k v h) k' = (if same_key k k' then v else h_Get h k')"
  "h_Get (h_Del k h) k' = (if same_key k k' then [] else h_Get h k')"
  by (simp_all add: h_Get_def)

text \<open>Copying one header map into another: \<open>for k, vals \<dots> for v in vals: h.Add(k, v)\<close>.\<close>

definition h_copy :: "Header \<Rightarrow> Header \<Rightarrow> Header" where
  "h_copy src h = fold (\<lambda>(k, vs). fold (h_Add k) vs) src h"

section \<open>Cookies\<close>

text \<open>\<open>Request.Cookies\<close>: the parts of the \<open>Cookie\<close> lines whose name is a token and whose value, without the quotes around it, has
  only bytes allowed in a cookie. Parts that are not of this form are skipped.\<close>

definition TrimString :: "string \<Rightarrow> string" where
  "TrimString s = TrimSet [CHR '' '', CHR 0x09, CHR 0x0A, CHR 0x0D] s"

definition cookie_value_ok :: "string \<Rightarrow> bool" where
  "cookie_value_ok raw =
    (let v = (if length raw > 1 \<and> hd raw = CHR 0x22 \<and> last raw = CHR 0x22 then butlast (tl raw) else raw) in
     list_all (\<lambda>c. (0x20 :: nat) \<le> of_char c \<and> (of_char c :: nat) < 0x7f \<and> c \<noteq> CHR 0x22 \<and> c \<noteq> CHR '';'' \<and> c \<noteq> CHR 0x5C) v)"

definition cookie_part :: "string \<Rightarrow> (string \<times> string) option" where
  "cookie_part part =
    (let p = TrimString part; (name, val) = (case Cut (CHR ''='') p of None \<Rightarrow> (p, []) | Some nv \<Rightarrow> nv); n = TrimString name in
     if p = [] \<or> n = [] \<or> \<not> list_all token_char n \<or> \<not> cookie_value_ok val then None else Some (n, val))"

definition Cookies :: "Header \<Rightarrow> (string \<times> string) list" where
  "Cookies h = List.map_filter cookie_part (concat (map (\<lambda>line. Split (CHR '';'') (TrimString line)) (h_Values h ''Cookie'')))"

section \<open>URLs\<close>

record URL =
  uPath :: string
  uRawPath :: string
  uRawQuery :: string
  uForceQuery :: bool

definition unreserved :: "char \<Rightarrow> bool" where
  "unreserved c \<longleftrightarrow> c \<in> set ''abcdefghijklmnopqrstuvwxyzABCDEFGHIJKLMNOPQRSTUVWXYZ0123456789-_.~''"

definition shouldEscape :: "char \<Rightarrow> bool" where
  "shouldEscape c \<longleftrightarrow> \<not> (unreserved c \<or> c \<in> set ''$&+,/:;=@'')"

definition upper_hex :: "nat \<Rightarrow> char" where
  "upper_hex n = ''0123456789ABCDEF'' ! (n mod 16)"

definition escape_path :: "string \<Rightarrow> string" where
  "escape_path s = concat (map (\<lambda>c. if shouldEscape c then let n = (of_char c :: nat) in [CHR ''%'', upper_hex (n div 16), upper_hex n] else [c]) s)"

definition validEncoded :: "string \<Rightarrow> bool" where
  "validEncoded s = list_all (\<lambda>c. c \<in> set ''!$&()*+,;=:@[]%'' \<or> c = CHR 0x27 \<or> \<not> shouldEscape c) s"

fun unescape :: "string \<Rightarrow> string option" where
  "unescape [] = Some []"
| "unescape (c # s) = (if c = CHR ''%''
     then (case s of a # b # rest \<Rightarrow> (case (hex_value a, hex_value b) of
              (Some x, Some y) \<Rightarrow> map_option ((#) (char_of (16 * x + y))) (unescape rest) | _ \<Rightarrow> None)
          | _ \<Rightarrow> None)
     else map_option ((#) c) (unescape s))"

definition EscapedPath :: "URL \<Rightarrow> string" where
  "EscapedPath u = (if uRawPath u \<noteq> [] \<and> validEncoded (uRawPath u) \<and> unescape (uRawPath u) = Some (uPath u) then uRawPath u
     else if uPath u = ''*'' then ''*'' else escape_path (uPath u))"

definition RequestURI :: "URL \<Rightarrow> string" where
  "RequestURI u = (let p = EscapedPath u; p' = (if p = [] then ''/'' else p) in
     if uForceQuery u \<or> uRawQuery u \<noteq> [] then p' @ ''?'' @ uRawQuery u else p')"

section \<open>Requests\<close>

text \<open>\<open>rOrigURI\<close> is the value \<open>serveGoRoute\<close> keeps in the context under \<open>origURIKey\<close>.\<close>

record SiteRequest =
  rMethod :: string
  rHost :: string
  rURL :: URL
  rProto :: string
  rTLS :: bool
  rRemoteAddr :: string
  rHeader :: Header
  rContentLength :: int
  rBody :: string
  rOrigURI :: "string option"

text \<open>The port \<open>net.SplitHostPort\<close> finds.\<close>

definition SplitPort :: "string \<Rightarrow> string option" where
  "SplitPort s = (case (SplitHostPort s, last_index (CHR '':'') s) of (Some _, Some i) \<Rightarrow> Some (drop (i + 1) s) | _ \<Rightarrow> None)"

definition remoteIP :: "SiteRequest \<Rightarrow> string" where
  "remoteIP r = (case SplitHostPort (rRemoteAddr r) of None \<Rightarrow> rRemoteAddr r | Some host \<Rightarrow> host)"

definition host_name :: "string \<Rightarrow> string" where
  "host_name h = hd (Split (CHR '':'') h)"

end
