(* ===== verification/Pagecache.thy ===== *)
theory Pagecache
  imports Http
begin

text \<open>
  The page cache of the native site server (\<^verbatim>\<open>svc/pagecache.go\<close>): which requests and responses may use it, its key, and the
  cache itself: a map from keys to the elements of a doubly linked list in the order of their last use.

  The elements of the list are modelled with the identity they have as pointers: the map holds the identity, the list the
  identity and the entry. Every operation holds the mutex of the cache, so operations follow each other; the clock is
  read once per call.
\<close>

abbreviation pageCacheMaxBody :: int where "pageCacheMaxBody \<equiv> 2 * 2 ^ 20"
abbreviation pageCacheMaxBytes :: int where "pageCacheMaxBytes \<equiv> 128 * 2 ^ 20"
abbreviation DefaultPageCacheTTL :: int where "DefaultPageCacheTTL \<equiv> 300"

definition cacheSafeCookies :: "string list" where
  "cacheSafeCookies = [''_ga'', ''_gid'', ''_gat'', ''_gcl_'', ''_fbp'', ''_fbc'', ''__utm'', ''cookielawinfo'', ''cookie_notice'', ''_pk_'']"

definition cacheBypassPaths :: "string list" where
  "cacheBypassPaths = [''/wp-admin'', ''/wp-login'', ''/wp-cron'', ''/wp-json'', ''/xmlrpc'', ''/admin'', ''/administrator'', ''/login'', ''/logout'',
     ''/register'', ''/signin'', ''/signup'', ''/cart'', ''/checkout'', ''/basket'', ''/my-account'', ''/account'', ''/user'', ''/wc-api'']"

section \<open>What may be cached\<close>

definition cacheableRequest :: "SiteRequest \<Rightarrow> bool" where
  "cacheableRequest r =
    (if rMethod r \<noteq> ''GET'' \<or> h_Get (rHeader r) ''Authorization'' \<noteq> [] \<or> h_Get (rHeader r) ''Range'' \<noteq> [] then False
     else let p = TrimSuffix (ToLower (uPath (rURL r))) ''.php'' in
       if list_ex (\<lambda>b. p = b \<or> HasPrefix p (b @ ''/'')) cacheBypassPaths then False
       else list_all (\<lambda>(name, _). list_ex (HasPrefix name) cacheSafeCookies) (Cookies (rHeader r)))"

definition cacheableResponse :: "int \<Rightarrow> Header \<Rightarrow> string \<Rightarrow> bool" where
  "cacheableResponse status h body =
    (if status \<noteq> 200 \<or> int (length body) > pageCacheMaxBody then False
     else if h_Values h ''Set-Cookie'' \<noteq> [] then False
     else let cc = ToLower (h_Get h ''Cache-Control'') in
       if list_ex (Contains cc) [''private'', ''no-store'', ''no-cache''] then False
       else \<not> list_ex (\<lambda>v. Contains v ''*'') (h_Values h ''Vary''))"

definition cacheKey :: "SiteRequest \<Rightarrow> string" where
  "cacheKey r = (if rTLS r then ''https'' else ''http'') @ [CHR 0x00] @ ToLower (rHost r) @ [CHR 0x00] @ RequestURI (rURL r)"

section \<open>The cache\<close>

record pageCacheEntry =
  pe_key :: string
  pe_domain :: string
  pe_status :: int
  pe_header :: Header
  pe_body :: string
  pe_expires :: gotime
  pe_stored :: gotime

record PageCacheStats =
  st_Hits :: int
  st_Misses :: int
  st_Entries :: int
  st_Bytes :: int

record PageCache =
  pc_entries :: "(string \<times> nat) list"
  pc_order :: "(nat \<times> pageCacheEntry) list"
  pc_bytes :: int
  pc_stats :: "(string \<times> PageCacheStats) list"
  pc_next :: nat

definition newPageCache :: PageCache where
  "newPageCache = \<lparr>pc_entries = [], pc_order = [], pc_bytes = 0, pc_stats = [], pc_next = 0\<rparr>"

definition statsFor :: "PageCache \<Rightarrow> string \<Rightarrow> PageCacheStats" where
  "statsFor c domain = (case map_of (pc_stats c) domain of
     None \<Rightarrow> \<lparr>st_Hits = 0, st_Misses = 0, st_Entries = 0, st_Bytes = 0\<rparr> | Some s \<Rightarrow> s)"

definition count_miss :: "string \<Rightarrow> PageCache \<Rightarrow> PageCache" where
  "count_miss domain c = c\<lparr>pc_stats := AList.update domain ((statsFor c domain)\<lparr>st_Misses := st_Misses (statsFor c domain) + 1\<rparr>) (pc_stats c)\<rparr>"

definition count_hit :: "string \<Rightarrow> PageCache \<Rightarrow> PageCache" where
  "count_hit domain c = c\<lparr>pc_stats := AList.update domain ((statsFor c domain)\<lparr>st_Hits := st_Hits (statsFor c domain) + 1\<rparr>) (pc_stats c)\<rparr>"

text \<open>Removing the list element \<open>i\<close>, whose value is \<open>e\<close>.\<close>

definition removeLocked :: "nat \<times> pageCacheEntry \<Rightarrow> PageCache \<Rightarrow> PageCache" where
  "removeLocked el c = c\<lparr>pc_order := filter (\<lambda>x. fst x \<noteq> fst el) (pc_order c), pc_entries := AList.delete (pe_key (snd el)) (pc_entries c),
     pc_bytes := pc_bytes c - int (length (pe_body (snd el)))\<rparr>"

text \<open>The element behind a pointer of the map.\<close>

definition element :: "PageCache \<Rightarrow> string \<Rightarrow> (nat \<times> pageCacheEntry) option" where
  "element c key = (case map_of (pc_entries c) key of None \<Rightarrow> None | Some i \<Rightarrow> find (\<lambda>x. fst x = i) (pc_order c))"

definition Get :: "gotime \<Rightarrow> string \<Rightarrow> string \<Rightarrow> PageCache \<Rightarrow> pageCacheEntry option \<times> PageCache" where
  "Get now domain key c = (case element c key of
     None \<Rightarrow> (None, count_miss domain c)
   | Some el \<Rightarrow>
       if now > pe_expires (snd el) then (None, count_miss domain (removeLocked el c))
       else (Some (snd el), count_hit domain (c\<lparr>pc_order := el # filter (\<lambda>x. fst x \<noteq> fst el) (pc_order c)\<rparr>)))"

text \<open>The eviction loop of \<open>Put\<close>: the last element goes until the cache fits or one element is left.\<close>

function evict :: "PageCache \<Rightarrow> PageCache" where
  "evict c = (if pc_bytes c > pageCacheMaxBytes \<and> length (pc_order c) > 1 then evict (removeLocked (last (pc_order c)) c) else c)"
  by pat_completeness auto
termination
proof (relation "measure (\<lambda>c. length (pc_order c))")
  fix c :: PageCache assume "pc_bytes c > pageCacheMaxBytes \<and> length (pc_order c) > 1"
  then have "last (pc_order c) \<in> set (pc_order c)" by (cases "pc_order c") auto
  then show "(removeLocked (last (pc_order c)) c, c) \<in> measure (\<lambda>c. length (pc_order c))"
    by (auto simp: removeLocked_def intro!: length_filter_less)
qed simp

declare evict.simps [simp del]

definition Put :: "gotime \<Rightarrow> string \<Rightarrow> string \<Rightarrow> int \<Rightarrow> Header \<Rightarrow> string \<Rightarrow> int \<Rightarrow> PageCache \<Rightarrow> PageCache" where
  "Put now domain key status h body ttl c =
    (let e = \<lparr>pe_key = key, pe_domain = domain, pe_status = status, pe_header = h, pe_body = body, pe_expires = now + ttl, pe_stored = now\<rparr>;
         c1 = (case element c key of None \<Rightarrow> c | Some old \<Rightarrow> removeLocked old c)
     in evict (c1\<lparr>pc_order := (pc_next c1, e) # pc_order c1, pc_entries := AList.update key (pc_next c1) (pc_entries c1),
          pc_bytes := pc_bytes c1 + int (length body), pc_next := pc_next c1 + 1\<rparr>))"

definition Purge :: "string \<Rightarrow> PageCache \<Rightarrow> nat \<times> PageCache" where
  "Purge domain c = fold (\<lambda>el (n, c). if pe_domain (snd el) = domain then (n + 1, removeLocked el c) else (n, c)) (pc_order c) (0, c)"

definition Stats :: "string \<Rightarrow> PageCache \<Rightarrow> PageCacheStats" where
  "Stats domain c = (let mine = filter (\<lambda>el. pe_domain (snd el) = domain) (pc_order c) in
     (statsFor c domain)\<lparr>st_Entries := int (length mine), st_Bytes := sum_list (map (\<lambda>el. int (length (pe_body (snd el)))) mine)\<rparr>)"

end
