(* ===== verification/Pagecache_Theorems.thy ===== *)
theory Pagecache_Theorems
  imports Pagecache
begin

text \<open>
  The page cache keeps its map, its list and its byte count in step, implements a list of pages ordered by last use, stays
  within its size, and returns only pages that were stored under the requested key and are still valid.
\<close>

section \<open>The invariant\<close>

definition weight :: "pageCacheEntry list \<Rightarrow> int" where
  "weight es = sum_list (map (\<lambda>e. int (length (pe_body e))) es)"

lemma weight_simps [simp]: "weight [] = 0" "weight (e # es) = int (length (pe_body e)) + weight es" "weight (es @ fs) = weight es + weight fs"
  by (simp_all add: weight_def)

abbreviation pages :: "PageCache \<Rightarrow> pageCacheEntry list" where "pages c \<equiv> map snd (pc_order c)"

definition pc_ok :: "PageCache \<Rightarrow> bool" where
  "pc_ok c \<longleftrightarrow> distinct (map fst (pc_order c)) \<and> distinct (map pe_key (pages c)) \<and> pc_bytes c = weight (pages c) \<and>
    (\<forall>x\<in>set (pc_order c). fst x < pc_next c) \<and>
    (\<forall>k i. map_of (pc_entries c) k = Some i \<longleftrightarrow> (\<exists>e. (i, e) \<in> set (pc_order c) \<and> pe_key e = k))"

lemma pc_ok_new: "pc_ok newPageCache"
  by (simp add: pc_ok_def newPageCache_def)

lemma key_inj:
  assumes "distinct (map pe_key (map snd xs))" "x \<in> set xs" "y \<in> set xs" "pe_key (snd x) = pe_key (snd y)"
  shows "x = y"
  using assms by (induction xs) (auto simp: rev_image_eqI)

lemma id_inj: "distinct (map fst xs) \<Longrightarrow> x \<in> set xs \<Longrightarrow> y \<in> set xs \<Longrightarrow> fst x = fst y \<Longrightarrow> x = y"
  by (induction xs) (auto simp: rev_image_eqI)

lemma element_mem:
  assumes "pc_ok c"
  shows "element c k = Some el \<longleftrightarrow> el \<in> set (pc_order c) \<and> pe_key (snd el) = k"
proof -
  have D: "distinct (map fst (pc_order c))" "distinct (map pe_key (pages c))"
    "\<And>k i. map_of (pc_entries c) k = Some i \<longleftrightarrow> (\<exists>e. (i, e) \<in> set (pc_order c) \<and> pe_key e = k)"
    using assms by (simp_all add: pc_ok_def)
  show ?thesis
  proof
    assume "element c k = Some el"
    then obtain i where i: "map_of (pc_entries c) k = Some i" "find (\<lambda>x. fst x = i) (pc_order c) = Some el"
      by (auto simp: element_def split: option.splits)
    then have el: "el \<in> set (pc_order c)" "fst el = i" by (auto simp: find_Some_iff)
    obtain e where e: "(i, e) \<in> set (pc_order c)" "pe_key e = k" using i(1) D(3) by blast
    have "el = (i, e)" using id_inj [OF D(1) el(1) e(1)] el(2) by simp
    with el e(2) show "el \<in> set (pc_order c) \<and> pe_key (snd el) = k" by simp
  next
    assume el: "el \<in> set (pc_order c) \<and> pe_key (snd el) = k"
    then have "map_of (pc_entries c) k = Some (fst el)" using D(3) by (metis prod.collapse)
    moreover have "find (\<lambda>x. fst x = fst el) (pc_order c) \<noteq> None" using el unfolding find_None_iff by blast
    then obtain y where "find (\<lambda>x. fst x = fst el) (pc_order c) = Some y" by auto
    moreover from this have "y \<in> set (pc_order c)" "fst y = fst el" by (auto simp: find_Some_iff)
    then have "y = el" using el id_inj [OF D(1)] by blast
    ultimately show "element c k = Some el" by (simp add: element_def)
  qed
qed

lemma weight_filter:
  assumes "distinct (map fst xs)" "el \<in> set xs"
  shows "weight (map snd (filter (\<lambda>x. fst x \<noteq> fst el) xs)) = weight (map snd xs) - int (length (pe_body (snd el)))"
  using assms
proof (induction xs)
  case (Cons x xs)
  show ?case
  proof (cases "fst x = fst el")
    case True
    with Cons.prems have "x = el" using id_inj [of "x # xs" x el] by simp
    moreover have "filter (\<lambda>y. fst y \<noteq> fst el) xs = xs"
      using Cons.prems(1) True by (auto simp: filter_id_conv) (metis fst_conv image_eqI)
    ultimately show ?thesis by simp
  next
    case False
    with Cons show ?thesis by auto
  qed
qed simp

lemma distinct_filter_map: "distinct (map f xs) \<Longrightarrow> distinct (map f (filter P xs))"
  by (rule distinct_map_filter)

lemma remove_order:
  assumes "pc_ok c" "el \<in> set (pc_order c)"
  shows "pc_order (removeLocked el c) = filter (\<lambda>x. pe_key (snd x) \<noteq> pe_key (snd el)) (pc_order c)"
proof -
  have "fst x \<noteq> fst el \<longleftrightarrow> pe_key (snd x) \<noteq> pe_key (snd el)" if "x \<in> set (pc_order c)" for x
    using key_inj [OF _ that assms(2)] id_inj [OF _ that assms(2)] assms(1) by (metis pc_ok_def)
  then show ?thesis by (simp add: removeLocked_def cong: filter_cong)
qed

lemma remove_ok:
  assumes "pc_ok c" "el \<in> set (pc_order c)"
  shows "pc_ok (removeLocked el c)"
proof -
  let ?c = "removeLocked el c"
  have D: "distinct (map fst (pc_order c))" "distinct (map pe_key (pages c))" using assms(1) by (simp_all add: pc_ok_def)
  have "pc_bytes ?c = weight (pages ?c)"
    using weight_filter [OF D(1) assms(2)] assms(1) by (simp add: removeLocked_def pc_ok_def)
  moreover have "map_of (pc_entries ?c) k = Some i \<longleftrightarrow> (\<exists>e. (i, e) \<in> set (pc_order ?c) \<and> pe_key e = k)" for k i
  proof -
    have "set (pc_order ?c) = {x \<in> set (pc_order c). pe_key (snd x) \<noteq> pe_key (snd el)}" by (simp add: remove_order [OF assms])
    moreover have "map_of (pc_entries ?c) = (map_of (pc_entries c))(pe_key (snd el) := None)"
      by (simp add: removeLocked_def delete_conv')
    ultimately show ?thesis using assms(1) by (auto simp: pc_ok_def)
  qed
  moreover have "distinct (map fst (pc_order ?c))" "distinct (map pe_key (pages ?c))"
    using D distinct_filter_map [of "\<lambda>x. pe_key (snd x)"] distinct_filter_map [of fst]
    by (simp_all add: removeLocked_def o_def)
  moreover have "\<forall>x\<in>set (pc_order ?c). fst x < pc_next ?c" using assms(1) by (simp add: removeLocked_def pc_ok_def)
  ultimately show ?thesis by (simp add: pc_ok_def)
qed

lemma pc_ok_stats [simp]: "pc_ok (count_miss d c) = pc_ok c" "pc_ok (count_hit d c) = pc_ok c"
  "pc_order (count_miss d c) = pc_order c" "pc_order (count_hit d c) = pc_order c"
  by (simp_all add: pc_ok_def count_miss_def count_hit_def)

section \<open>A list of pages, most recently used first\<close>

definition without :: "string \<Rightarrow> pageCacheEntry list \<Rightarrow> pageCacheEntry list" where
  "without k es = filter (\<lambda>e. pe_key e \<noteq> k) es"

definition lru_get :: "gotime \<Rightarrow> string \<Rightarrow> pageCacheEntry list \<Rightarrow> pageCacheEntry option \<times> pageCacheEntry list" where
  "lru_get now k es = (case find (\<lambda>e. pe_key e = k) es of None \<Rightarrow> (None, es)
     | Some e \<Rightarrow> if pe_expires e < now then (None, without k es) else (Some e, e # without k es))"

text \<open>The longest beginning of a list of pages that fits, but at least its first page.\<close>

definition kept_pages :: "pageCacheEntry list \<Rightarrow> pageCacheEntry list \<Rightarrow> bool" where
  "kept_pages es es' \<longleftrightarrow> (\<exists>n\<ge>1. es' = take n es \<and> (n = 1 \<or> weight es' \<le> pageCacheMaxBytes) \<and>
     (length es \<le> n \<or> pageCacheMaxBytes < weight (take (Suc n) es)))"

lemma find_order: "find (\<lambda>x. pe_key (snd x) = k) xs = Some el \<Longrightarrow> find (\<lambda>e. pe_key e = k) (map snd xs) = Some (snd el)"
  "find (\<lambda>x. pe_key (snd x) = k) xs = None \<Longrightarrow> find (\<lambda>e. pe_key e = k) (map snd xs) = None"
  by (induction xs) (auto split: if_splits)

lemma element_find:
  assumes "pc_ok c"
  shows "element c k = find (\<lambda>x. pe_key (snd x) = k) (pc_order c)"
proof (cases "find (\<lambda>x. pe_key (snd x) = k) (pc_order c)")
  case None
  then have "\<forall>x\<in>set (pc_order c). pe_key (snd x) \<noteq> k" unfolding find_None_iff by blast
  then have "element c k \<noteq> Some el" for el using element_mem [OF assms] by blast
  with None show ?thesis by (cases "element c k") auto
next
  case (Some el)
  then have "el \<in> set (pc_order c)" "pe_key (snd el) = k" by (auto simp: find_Some_iff)
  with Some element_mem [OF assms] show ?thesis by simp
qed

lemma map_without: "map snd (filter (\<lambda>x. pe_key (snd x) \<noteq> k) xs) = without k (map snd xs)"
  by (induction xs) (auto simp: without_def)

lemma pages_remove:
  assumes "pc_ok c" "el \<in> set (pc_order c)"
  shows "pages (removeLocked el c) = without (pe_key (snd el)) (pages c)"
  using map_without by (simp add: remove_order [OF assms])

lemma pc_ok_reorder:
  assumes "pc_ok c" "distinct (map fst xs)" "distinct (map pe_key (map snd xs))" "set xs = set (pc_order c)" "weight (map snd xs) = weight (pages c)"
  shows "pc_ok (c\<lparr>pc_order := xs\<rparr>)"
  using assms by (simp add: pc_ok_def)

lemma front_ok:
  assumes "pc_ok c" "el \<in> set (pc_order c)"
  shows "pc_ok (c\<lparr>pc_order := el # filter (\<lambda>x. fst x \<noteq> fst el) (pc_order c)\<rparr>)"
    "map snd (el # filter (\<lambda>x. fst x \<noteq> fst el) (pc_order c)) = snd el # without (pe_key (snd el)) (pages c)"
proof -
  have D: "distinct (map fst (pc_order c))" "distinct (map pe_key (pages c))" using assms(1) by (simp_all add: pc_ok_def)
  have f: "filter (\<lambda>x. fst x \<noteq> fst el) (pc_order c) = filter (\<lambda>x. pe_key (snd x) \<noteq> pe_key (snd el)) (pc_order c)"
    using remove_order [OF assms] by (simp add: removeLocked_def)
  have s: "set (el # filter (\<lambda>x. fst x \<noteq> fst el) (pc_order c)) = set (pc_order c)"
    using assms(2) id_inj [OF D(1) _ assms(2)] by auto
  show "map snd (el # filter (\<lambda>x. fst x \<noteq> fst el) (pc_order c)) = snd el # without (pe_key (snd el)) (pages c)"
    using map_without by (simp add: f)
  have "distinct (map pe_key (map snd (el # filter (\<lambda>x. fst x \<noteq> fst el) (pc_order c))))"
    unfolding f using distinct_filter_map [of "\<lambda>x. pe_key (snd x)" "pc_order c"] D(2) by (auto simp: o_def)
  moreover have "distinct (map fst (el # filter (\<lambda>x. fst x \<noteq> fst el) (pc_order c)))"
    using distinct_filter_map [OF D(1)] by auto
  moreover have "pc_bytes c = weight (map snd (el # filter (\<lambda>x. fst x \<noteq> fst el) (pc_order c)))"
    using weight_filter [OF D(1) assms(2)] assms(1) by (simp add: pc_ok_def)
  ultimately show "pc_ok (c\<lparr>pc_order := el # filter (\<lambda>x. fst x \<noteq> fst el) (pc_order c)\<rparr>)"
    using assms(1) s by (intro pc_ok_reorder) (simp_all add: pc_ok_def)
qed

lemma Get_refines:
  assumes "pc_ok c" "Get now d k c = (r, c')"
  shows "pc_ok c'" "lru_get now k (pages c) = (r, pages c')"
proof -
  have "pc_ok c' \<and> lru_get now k (pages c) = (r, pages c')"
  proof (cases "element c k")
    case None
    then have "find (\<lambda>e. pe_key e = k) (pages c) = None"
      using element_find [OF assms(1)] find_order(2) by simp
    with None assms show ?thesis by (auto simp: Get_def lru_get_def)
  next
    case (Some el)
    then have el: "el \<in> set (pc_order c)" "pe_key (snd el) = k" using element_mem [OF assms(1)] by blast+
    have "find (\<lambda>e. pe_key e = k) (pages c) = Some (snd el)"
      using Some element_find [OF assms(1)] find_order(1) by simp
    with Some assms(2) el front_ok [OF assms(1) el(1)] remove_ok [OF assms(1) el(1)] pages_remove [OF assms(1) el(1)] show ?thesis
      by (auto simp: Get_def lru_get_def split: if_splits)
  qed
  then show "pc_ok c'" "lru_get now k (pages c) = (r, pages c')" by blast+
qed

text \<open>Removing the last element.\<close>

lemma pages_remove_last:
  assumes "pc_ok c" "pc_order c \<noteq> []"
  shows "pages (removeLocked (last (pc_order c)) c) = butlast (pages c)"
proof -
  have s: "pc_order c = butlast (pc_order c) @ [last (pc_order c)]" using assms(2) by simp
  have "distinct (map fst (butlast (pc_order c) @ [last (pc_order c)]))" using assms by (simp add: pc_ok_def)
  then have "filter (\<lambda>x. fst x \<noteq> fst (last (pc_order c))) (butlast (pc_order c) @ [last (pc_order c)]) = butlast (pc_order c)"
    by (auto simp: filter_id_conv) (metis fst_conv image_eqI)
  with s show ?thesis by (simp add: removeLocked_def map_butlast)
qed

lemma weight_mono: "weight (take n es) \<le> weight es"
proof -
  have "0 \<le> weight fs" for fs by (induction fs) auto
  then have "weight (take n es) \<le> weight (take n es @ drop n es)" unfolding weight_simps by simp
  then show ?thesis by simp
qed

lemma kept_butlast:
  assumes "weight es > pageCacheMaxBytes" "length es > 1" "kept_pages (butlast es) fs"
  shows "kept_pages es fs"
proof -
  obtain n where n: "n \<ge> 1" "fs = take n (butlast es)" "n = 1 \<or> weight fs \<le> pageCacheMaxBytes"
      "length (butlast es) \<le> n \<or> pageCacheMaxBytes < weight (take (Suc n) (butlast es))"
    using assms(3) by (auto simp: kept_pages_def)
  show ?thesis
  proof (cases "n < length es - 1")
    case True
    then have "fs = take n es" "take (Suc n) (butlast es) = take (Suc n) es" using n(2) by (simp_all add: take_butlast)
    moreover have "\<not> length (butlast es) \<le> n" using True by simp
    ultimately show ?thesis using n unfolding kept_pages_def by metis
  next
    case False
    then have f: "fs = take (length es - 1) es" using n(2) by (simp add: butlast_conv_take)
    have "weight (take (Suc (length es - 1)) es) = weight es" by simp
    moreover have "length es - 1 = 1 \<or> weight fs \<le> pageCacheMaxBytes"
      using n(3) False assms(2) by auto
    moreover have "length es - 1 \<ge> 1" using assms(2) by simp
    ultimately show ?thesis using f assms(1) unfolding kept_pages_def by (intro exI [of _ "length es - 1"]) simp
  qed
qed

lemma evict_keeps:
  assumes "pc_ok c" "pc_order c \<noteq> []"
  shows "pc_ok (evict c) \<and> kept_pages (pages c) (pages (evict c))"
  using assms
proof (induction c rule: evict.induct)
  case (1 c)
  show ?case
  proof (cases "pc_bytes c > pageCacheMaxBytes \<and> length (pc_order c) > 1")
    case False
    have l: "length (pc_order c) \<ge> 1" using "1.prems"(2) by (cases "pc_order c") auto
    have "length (pc_order c) = 1 \<or> weight (pages c) \<le> pageCacheMaxBytes" using False l "1.prems"(1) by (auto simp: pc_ok_def)
    with l have "kept_pages (pages c) (pages c)" unfolding kept_pages_def by (intro exI [of _ "length (pc_order c)"]) simp
    moreover have "evict c = c" by (subst evict.simps) (simp only: False if_False)
    ultimately show ?thesis using "1.prems" by simp
  next
    case True
    let ?c = "removeLocked (last (pc_order c)) c"
    have p: "pages ?c = butlast (pages c)" using pages_remove_last "1.prems" by blast
    then have l: "length (pc_order ?c) = length (pc_order c) - 1" by (metis length_butlast length_map)
    have k: "pc_ok ?c" using remove_ok [OF "1.prems"(1) last_in_set [OF "1.prems"(2)]] .
    have "length (pc_order ?c) > 0" unfolding l using True by simp
    then have "pc_order ?c \<noteq> []" by simp
    from "1.IH" [OF True k this] have IH: "pc_ok (evict ?c)" "kept_pages (butlast (pages c)) (pages (evict ?c))"
      unfolding p by blast+
    have "weight (pages c) > pageCacheMaxBytes" "length (pages c) > 1" using True "1.prems"(1) by (simp_all add: pc_ok_def)
    from kept_butlast [OF this IH(2)] have "kept_pages (pages c) (pages (evict ?c))" .
    moreover have "evict c = evict ?c" by (subst evict.simps) (simp only: True if_True simp_thms)
    ultimately show ?thesis using IH(1) by simp
  qed
qed

lemma push_ok:
  assumes "pc_ok c" "pe_key e \<notin> set (map pe_key (pages c))"
  shows "pc_ok (c\<lparr>pc_order := (pc_next c, e) # pc_order c, pc_entries := AList.update (pe_key e) (pc_next c) (pc_entries c),
     pc_bytes := pc_bytes c + int (length (pe_body e)), pc_next := pc_next c + 1\<rparr>)"
proof -
  let ?xs = "(pc_next c, e) # pc_order c"
  have n: "pc_next c \<notin> fst ` set (pc_order c)" using assms(1) by (auto simp: pc_ok_def)
  have "map_of (AList.update (pe_key e) (pc_next c) (pc_entries c)) k = Some i \<longleftrightarrow> (\<exists>x. (i, x) \<in> set ?xs \<and> pe_key x = k)" for k i
  proof (cases "k = pe_key e")
    case True
    then have "map_of (AList.update (pe_key e) (pc_next c) (pc_entries c)) k = Some i \<longleftrightarrow> i = pc_next c" by (auto simp: update_conv')
    with True assms(2) show ?thesis by force
  next
    case False
    with assms(1) show ?thesis by (auto simp: update_conv' pc_ok_def)
  qed
  with assms n show ?thesis by (simp add: pc_ok_def less_Suc_eq)
qed

definition new_page :: "gotime \<Rightarrow> string \<Rightarrow> string \<Rightarrow> int \<Rightarrow> Header \<Rightarrow> string \<Rightarrow> int \<Rightarrow> pageCacheEntry" where
  "new_page now d k status h body ttl = \<lparr>pe_key = k, pe_domain = d, pe_status = status, pe_header = h, pe_body = body, pe_expires = now + ttl, pe_stored = now\<rparr>"

lemma Put_refines:
  assumes "pc_ok c"
  shows "pc_ok (Put now d k status h body ttl c)"
    "kept_pages (new_page now d k status h body ttl # without k (pages c)) (pages (Put now d k status h body ttl c))"
proof -
  let ?e = "new_page now d k status h body ttl"
  define c1 where "c1 = (case element c k of None \<Rightarrow> c | Some old \<Rightarrow> removeLocked old c)"
  have c1: "pc_ok c1 \<and> pages c1 = without k (pages c)"
  proof (cases "element c k")
    case None
    then have "find (\<lambda>x. pe_key (snd x) = k) (pc_order c) = None" using element_find [OF assms] by simp
    then have "\<not> (\<exists>x. x \<in> set (pc_order c) \<and> pe_key (snd x) = k)" unfolding find_None_iff .
    then have "\<forall>e\<in>snd ` set (pc_order c). pe_key e \<noteq> k" by blast
    then have "without k (pages c) = pages c" unfolding without_def filter_id_conv set_map .
    with None assms show ?thesis by (simp add: c1_def)
  next
    case (Some el)
    then show ?thesis using element_mem [OF assms, of k el] remove_ok [OF assms] pages_remove [OF assms] by (simp add: c1_def)
  qed
  let ?c2 = "c1\<lparr>pc_order := (pc_next c1, ?e) # pc_order c1, pc_entries := AList.update (pe_key ?e) (pc_next c1) (pc_entries c1),
     pc_bytes := pc_bytes c1 + int (length (pe_body ?e)), pc_next := pc_next c1 + 1\<rparr>"
  have k: "pe_key ?e = k" "pe_body ?e = body" by (simp_all add: new_page_def)
  have p: "Put now d k status h body ttl c = evict ?c2" unfolding k by (simp add: Put_def c1_def new_page_def Let_def)
  have "pe_key ?e \<notin> set (map pe_key (pages c1))" using c1 k by (auto simp: without_def)
  with c1 have "pc_ok ?c2" using push_ok by blast
  then have "pc_ok (evict ?c2) \<and> kept_pages (pages ?c2) (pages (evict ?c2))" by (intro evict_keeps) simp_all
  moreover have "pages ?c2 = ?e # without k (pages c)" using c1 by simp
  ultimately show "pc_ok (Put now d k status h body ttl c)" "kept_pages (?e # without k (pages c)) (pages (Put now d k status h body ttl c))"
    unfolding p by simp_all
qed

lemma Purge_loop:
  assumes "pc_ok c" "distinct (map fst xs)" "set xs \<subseteq> set (pc_order c)"
  shows "\<exists>c'. fold (\<lambda>el (n, c). if pe_domain (snd el) = d then (n + 1, removeLocked el c) else (n, c)) xs (n, c) =
      (n + length (filter (\<lambda>x. pe_domain (snd x) = d) xs), c') \<and> pc_ok c' \<and>
      pc_order c' = filter (\<lambda>x. \<not> (x \<in> set xs \<and> pe_domain (snd x) = d)) (pc_order c)"
  using assms
proof (induction xs arbitrary: n c)
  case (Cons x xs)
  have x: "x \<in> set (pc_order c)" "distinct (map fst xs)" "fst x \<notin> fst ` set xs" using Cons.prems by auto
  show ?case
  proof (cases "pe_domain (snd x) = d")
    case True
    let ?c = "removeLocked x c"
    have o: "pc_order ?c = filter (\<lambda>y. fst y \<noteq> fst x) (pc_order c)" by (simp add: removeLocked_def)
    have "set xs \<subseteq> set (pc_order ?c)" using Cons.prems(3) x(3) o by auto (metis fst_conv image_eqI)
    from Cons.IH [OF remove_ok [OF Cons.prems(1) x(1)] x(2) this, of "n + 1"] obtain c' where
      c': "fold (\<lambda>el (n, c). if pe_domain (snd el) = d then (n + 1, removeLocked el c) else (n, c)) xs (n + 1, ?c) =
        (n + 1 + length (filter (\<lambda>x. pe_domain (snd x) = d) xs), c')" "pc_ok c'"
        "pc_order c' = filter (\<lambda>x. \<not> (x \<in> set xs \<and> pe_domain (snd x) = d)) (pc_order ?c)" by blast
    have "pc_order c' = filter (\<lambda>y. \<not> (y \<in> set (x # xs) \<and> pe_domain (snd y) = d)) (pc_order c)"
      unfolding c'(3) o filter_filter
      using True id_inj [of "pc_order c" _ x] x(1) Cons.prems(1) by (intro filter_cong) (auto simp: pc_ok_def)
    with c' True show ?thesis by (intro exI [of _ c']) simp
  next
    case False
    have "filter (\<lambda>y. \<not> (y \<in> set xs \<and> pe_domain (snd y) = d)) (pc_order c) =
        filter (\<lambda>y. \<not> (y \<in> set (x # xs) \<and> pe_domain (snd y) = d)) (pc_order c)"
      using False by (intro filter_cong) auto
    with Cons.IH [OF Cons.prems(1) x(2), of n] Cons.prems(3) False show ?thesis by simp
  qed
qed simp

lemma Purge_refines:
  assumes "pc_ok c" "Purge d c = (n, c')"
  shows "pc_ok c'" "pages c' = filter (\<lambda>e. pe_domain e \<noteq> d) (pages c)" "n = length (filter (\<lambda>e. pe_domain e = d) (pages c))"
proof -
  have "distinct (map fst (pc_order c))" using assms(1) by (simp add: pc_ok_def)
  from Purge_loop [OF assms(1) this subset_refl, of d 0] assms(2)
  have "pc_ok c'" "n = length (filter (\<lambda>x. pe_domain (snd x) = d) (pc_order c))"
    "pc_order c' = filter (\<lambda>x. \<not> (x \<in> set (pc_order c) \<and> pe_domain (snd x) = d)) (pc_order c)" by (auto simp: Purge_def)
  moreover have "filter (\<lambda>x. \<not> (x \<in> set (pc_order c) \<and> pe_domain (snd x) = d)) (pc_order c) = filter (\<lambda>x. pe_domain (snd x) \<noteq> d) (pc_order c)"
    by (intro filter_cong) auto
  ultimately show "pc_ok c'" "pages c' = filter (\<lambda>e. pe_domain e \<noteq> d) (pages c)" "n = length (filter (\<lambda>e. pe_domain e = d) (pages c))"
    by (simp_all add: filter_map o_def)
qed

section \<open>What a store of pages promises\<close>

text \<open>The contract the site server relies on, over any representation: \<open>page c k\<close> is the page kept under a key.\<close>

locale page_store =
  fixes ok :: "'c \<Rightarrow> bool" and page :: "'c \<Rightarrow> string \<Rightarrow> pageCacheEntry option"
    and get :: "gotime \<Rightarrow> string \<Rightarrow> string \<Rightarrow> 'c \<Rightarrow> pageCacheEntry option \<times> 'c"
    and put :: "gotime \<Rightarrow> string \<Rightarrow> string \<Rightarrow> int \<Rightarrow> Header \<Rightarrow> string \<Rightarrow> int \<Rightarrow> 'c \<Rightarrow> 'c"
    and purge :: "string \<Rightarrow> 'c \<Rightarrow> nat \<times> 'c"
  assumes get_hit: "ok c \<Longrightarrow> get now d k c = (Some e, c') \<Longrightarrow> page c k = Some e \<and> now \<le> pe_expires e"
    and get_keeps: "ok c \<Longrightarrow> get now d k c = (r, c') \<Longrightarrow> ok c' \<and> page c' \<subseteq>\<^sub>m page c"
    and put_stores: "ok c \<Longrightarrow> ok (put now d k status h body ttl c) \<and>
      page (put now d k status h body ttl c) \<subseteq>\<^sub>m (page c)(k \<mapsto> new_page now d k status h body ttl)"
    and purge_drops: "ok c \<Longrightarrow> purge d c = (n, c') \<Longrightarrow> ok c' \<and> page c' \<subseteq>\<^sub>m page c \<and> (\<forall>k e. page c' k = Some e \<longrightarrow> pe_domain e \<noteq> d)"

datatype cache_call = CGet gotime string string | CPut gotime string string int Header string int | CPurge string

fun store_step :: "(gotime \<Rightarrow> string \<Rightarrow> string \<Rightarrow> 'c \<Rightarrow> pageCacheEntry option \<times> 'c) \<Rightarrow>
    (gotime \<Rightarrow> string \<Rightarrow> string \<Rightarrow> int \<Rightarrow> Header \<Rightarrow> string \<Rightarrow> int \<Rightarrow> 'c \<Rightarrow> 'c) \<Rightarrow> (string \<Rightarrow> 'c \<Rightarrow> nat \<times> 'c) \<Rightarrow> cache_call \<Rightarrow> 'c \<Rightarrow> 'c" where
  "store_step get put purge (CGet now d k) c = snd (get now d k c)"
| "store_step get put purge (CPut now d k status h body ttl) c = put now d k status h body ttl c"
| "store_step get put purge (CPurge d) c = snd (purge d c)"

text \<open>The page came from a store under its key that no later call of the history replaced or purged.\<close>

definition stored_by :: "cache_call list \<Rightarrow> string \<Rightarrow> pageCacheEntry \<Rightarrow> bool" where
  "stored_by calls k e \<longleftrightarrow> (\<exists>before t d status h body ttl after. calls = before @ CPut t d k status h body ttl # after \<and>
     e = new_page t d k status h body ttl \<and> CPurge d \<notin> set after \<and>
     (\<forall>t' d' status' h' body' ttl'. CPut t' d' k status' h' body' ttl' \<notin> set after))"

lemma stored_by_now: "stored_by (calls @ [CPut t d k status h body ttl]) k (new_page t d k status h body ttl)"
  unfolding stored_by_def by fastforce

lemma stored_by_later:
  assumes "stored_by calls k e" "\<And>t d status h body ttl. c \<noteq> CPut t d k status h body ttl" "c \<noteq> CPurge (pe_domain e)"
  shows "stored_by (calls @ [c]) k e"
proof -
  from assms(1) obtain before t d status h body ttl "after" where s: "calls = before @ CPut t d k status h body ttl # after"
      "e = new_page t d k status h body ttl" "CPurge d \<notin> set after" "\<forall>t' d' status' h' body' ttl'. CPut t' d' k status' h' body' ttl' \<notin> set after"
    unfolding stored_by_def by blast
  have "calls @ [c] = before @ CPut t d k status h body ttl # (after @ [c])" using s(1) by simp
  moreover have "CPurge d \<notin> set (after @ [c])" using s(2,3) assms(3) by (auto simp: new_page_def)
  moreover have "\<forall>t' d' status' h' body' ttl'. CPut t' d' k status' h' body' ttl' \<notin> set (after @ [c])" using s(4) assms(2) by fastforce
  ultimately show ?thesis using s(2) unfolding stored_by_def by blast
qed

lemma map_leD: "m \<subseteq>\<^sub>m m' \<Longrightarrow> m k = Some v \<Longrightarrow> m' k = Some v"
  by (metis domI map_le_def)

lemma map_leI: "(\<And>k v. m k = Some v \<Longrightarrow> m' k = Some v) \<Longrightarrow> m \<subseteq>\<^sub>m m'"
  by (auto simp: map_le_def dom_def)

context page_store
begin

lemma step_page:
  assumes "ok c" "page (store_step get put purge call c) k = Some e"
  shows "ok (store_step get put purge call c) \<and> (page c k = Some e \<and> call \<noteq> CPurge (pe_domain e) \<or>
    (\<exists>t d status h body ttl. call = CPut t d k status h body ttl \<and> e = new_page t d k status h body ttl))"
proof (cases call)
  case (CGet now d k')
  then show ?thesis using get_keeps [OF assms(1), of now d k'] assms(2) by (cases "get now d k' c") (auto simp: map_le_def dom_def)
next
  case (CPut t d k' status h body ttl)
  then have "((page c)(k' \<mapsto> new_page t d k' status h body ttl)) k = Some e"
    using put_stores [OF assms(1)] assms(2) map_leD by fastforce
  with CPut put_stores [OF assms(1), of t d k' status h body ttl] show ?thesis by (auto split: if_splits)
next
  case (CPurge d)
  then show ?thesis using purge_drops [OF assms(1), of d] assms(2) by (cases "purge d c") (auto simp: map_le_def dom_def)
qed

lemma step_ok: "ok c \<Longrightarrow> ok (store_step get put purge call c)"
proof (cases call)
  case (CGet now d k')
  then show "ok c \<Longrightarrow> ?thesis" using get_keeps [of c now d k'] by (cases "get now d k' c") auto
next
  case (CPut t d k' status h body ttl)
  then show "ok c \<Longrightarrow> ?thesis" using put_stores [of c t d k' status h body ttl] by simp
next
  case (CPurge d)
  then show "ok c \<Longrightarrow> ?thesis" using purge_drops [of c d] by (cases "purge d c") auto
qed

lemma history:
  assumes "ok c" "page c = Map.empty"
  shows "ok (fold (store_step get put purge) calls c) \<and>
    (\<forall>k e. page (fold (store_step get put purge) calls c) k = Some e \<longrightarrow> stored_by calls k e)"
proof (induction calls rule: rev_induct)
  case Nil
  with assms show ?case by simp
next
  case (snoc call calls)
  let ?c = "fold (store_step get put purge) calls c"
  have ok: "ok ?c" using snoc by blast
  have "stored_by (calls @ [call]) k e" if "page (store_step get put purge call ?c) k = Some e" for k e
  proof (cases "\<exists>t d status h body ttl. call = CPut t d k status h body ttl \<and> e = new_page t d k status h body ttl")
    case True
    then show ?thesis using stored_by_now by blast
  next
    case False
    then have p: "page ?c k = Some e" "call \<noteq> CPurge (pe_domain e)" using step_page [OF ok that] by blast+
    moreover have "call \<noteq> CPut t d k status h body ttl" for t d status h body ttl
    proof
      assume c: "call = CPut t d k status h body ttl"
      with put_stores [OF ok, of t d k status h body ttl] that have "e = new_page t d k status h body ttl"
        by (auto simp: map_le_def dom_def)
      with c False show False by blast
    qed
    ultimately show ?thesis using snoc stored_by_later by blast
  qed
  with step_ok [OF ok] show ?case by simp
qed

lemma hit_was_stored:
  assumes "ok c" "page c = Map.empty" "get now d k (fold (store_step get put purge) calls c) = (Some e, c')"
  shows "stored_by calls k e \<and> now \<le> pe_expires e"
  using history [OF assms(1,2), of calls] get_hit [OF _ assms(3)] by blast

end

section \<open>The page cache is such a store\<close>

definition page :: "PageCache \<Rightarrow> string \<Rightarrow> pageCacheEntry option" where
  "page c k = find (\<lambda>e. pe_key e = k) (pages c)"

lemma find_without: "find (\<lambda>e. pe_key e = k') (without k es) = (if k = k' then None else find (\<lambda>e. pe_key e = k') es)"
  by (induction es) (auto simp: without_def)

lemma lru_get_find:
  assumes "lru_get now k es = (r, es')" "find (\<lambda>e. pe_key e = k') es' = Some e"
  shows "find (\<lambda>e. pe_key e = k') es = Some e"
proof (cases "find (\<lambda>e. pe_key e = k) es")
  case None
  with assms show ?thesis by (simp add: lru_get_def)
next
  case (Some x)
  then have "pe_key x = k" by (auto simp: find_Some_iff)
  with Some assms show ?thesis by (auto simp: lru_get_def find_without split: if_splits)
qed

lemma find_SomeD: "find P xs = Some x \<Longrightarrow> x \<in> set xs \<and> P x"
  by (induction xs) (auto split: if_splits)

lemma find_take: "find P (take n xs) = Some x \<Longrightarrow> find P xs = Some x"
  by (induction xs arbitrary: n) (auto simp: take_Cons split: nat.splits if_splits)

lemma find_filter_key:
  assumes "distinct (map pe_key es)" "find (\<lambda>e. pe_key e = k) (filter P es) = Some e"
  shows "find (\<lambda>e. pe_key e = k) es = Some e"
  using assms
proof (induction es)
  case (Cons x es)
  show ?case
  proof (cases "pe_key x = k")
    case True
    have "e \<in> set (x # es)" "pe_key e = k" using Cons.prems(2) by (auto simp: find_Some_iff nth_mem dest!: nth_mem)
    with True Cons.prems(1) have "e = x" by (auto simp: rev_image_eqI)
    with True show ?thesis by simp
  next
    case False
    with Cons show ?thesis by (auto split: if_splits)
  qed
qed simp

interpretation page_cache: page_store pc_ok page Get Put Purge
proof
  fix c c' :: PageCache and now d k e assume "pc_ok c" "Get now d k c = (Some e, c')"
  then have "lru_get now k (pages c) = (Some e, pages c')" by (rule Get_refines)
  then show "page c k = Some e \<and> now \<le> pe_expires e" by (auto simp: lru_get_def page_def split: option.splits if_splits)
next
  fix c c' :: PageCache and now d k r assume g: "pc_ok c" "Get now d k c = (r, c')"
  then have l: "lru_get now k (pages c) = (r, pages c')" by (rule Get_refines)
  have "page c k' = Some e" if "page c' k' = Some e" for k' e
    using lru_get_find [OF l] that unfolding page_def by blast
  then have "page c' \<subseteq>\<^sub>m page c" by (rule map_leI)
  with Get_refines(1) [OF g] show "pc_ok c' \<and> page c' \<subseteq>\<^sub>m page c" by blast
next
  fix c :: PageCache and now d k status h body ttl assume ok: "pc_ok c"
  let ?c = "Put now d k status h body ttl c" and ?e = "new_page now d k status h body ttl"
  obtain n where n: "pages ?c = take n (?e # without k (pages c))"
    using Put_refines(2) [OF ok, of now d k status h body ttl] unfolding kept_pages_def by blast
  have "((page c)(k \<mapsto> ?e)) k' = Some e" if "page ?c k' = Some e" for k' e
  proof -
    have "find (\<lambda>e. pe_key e = k') (?e # without k (pages c)) = Some e"
      by (rule find_take [OF that [unfolded page_def n]])
    then show ?thesis by (auto simp: page_def find_without new_page_def split: if_splits)
  qed
  then have "page ?c \<subseteq>\<^sub>m (page c)(k \<mapsto> ?e)" by (rule map_leI)
  with Put_refines(1) [OF ok] show "pc_ok ?c \<and> page ?c \<subseteq>\<^sub>m (page c)(k \<mapsto> ?e)" by blast
next
  fix c c' :: PageCache and d n assume p: "pc_ok c" "Purge d c = (n, c')"
  note P = Purge_refines [OF p]
  have d: "distinct (map pe_key (pages c))" using p(1) by (simp add: pc_ok_def)
  have "page c k = Some e" if "page c' k = Some e" for k e
    using find_filter_key [OF d] that unfolding page_def P(2) by blast
  then have "page c' \<subseteq>\<^sub>m page c" by (rule map_leI)
  moreover have "pe_domain e \<noteq> d" if "page c' k = Some e" for k e
  proof -
    have "e \<in> set (filter (\<lambda>e. pe_domain e \<noteq> d) (pages c))" using find_SomeD [OF that [unfolded page_def P(2)]] by blast
    then show ?thesis by simp
  qed
  ultimately show "pc_ok c' \<and> page c' \<subseteq>\<^sub>m page c \<and> (\<forall>k e. page c' k = Some e \<longrightarrow> pe_domain e \<noteq> d)" using P(1) by blast
qed

text \<open>C23: The page cache implements a list of pages in the order of their last use: from every state its operations can reach,
  \<open>Get\<close> returns the page under the key unless it expired and moves it to the front, \<open>Put\<close> puts the page in front of the others
  and keeps the longest beginning that fits into 128 MiB, \<open>Purge\<close> drops exactly the pages of the domain and counts them, and the
  map, the list and the byte count stay in step.\<close>

theorem page_cache_refines:
  assumes "c = fold (store_step Get Put Purge) calls newPageCache"
  shows "pc_ok c \<and> (\<forall>r c'. Get now d k c = (r, c') \<longrightarrow> lru_get now k (pages c) = (r, pages c')) \<and>
    kept_pages (new_page now d k status h body ttl # without k (pages c)) (pages (Put now d k status h body ttl c)) \<and>
    (\<forall>n c'. Purge d c = (n, c') \<longrightarrow> pages c' = filter (\<lambda>e. pe_domain e \<noteq> d) (pages c) \<and> n = length (filter (\<lambda>e. pe_domain e = d) (pages c)))"
proof -
  have "page newPageCache = Map.empty" by (simp add: page_def newPageCache_def fun_eq_iff)
  then have ok: "pc_ok c" using page_cache.history [OF pc_ok_new, of calls] assms by blast
  show ?thesis using ok Get_refines(2) [OF ok] Put_refines(2) [OF ok] Purge_refines(2,3) [OF ok] by blast
qed

text \<open>A page out of the cache is a page that was stored under exactly the requested key, is not older than its lifetime, and has
  neither been replaced nor purged since, whatever calls came in between.\<close>

theorem page_cache_returns_stored:
  assumes "Get now d k (fold (store_step Get Put Purge) calls newPageCache) = (Some e, c')"
  shows "stored_by calls k e \<and> now \<le> pe_expires e"
proof -
  have "page newPageCache = Map.empty" by (simp add: page_def newPageCache_def fun_eq_iff)
  then show ?thesis using page_cache.hit_was_stored [OF pc_ok_new _ assms] by blast
qed

section \<open>The size of the cache\<close>

definition tidy :: "pageCacheEntry list \<Rightarrow> bool" where
  "tidy es \<longleftrightarrow> weight es \<le> pageCacheMaxBytes \<and> (\<forall>e\<in>set es. cacheableResponse (pe_status e) (pe_header e) (pe_body e))"

lemma weight_nonneg [simp]: "0 \<le> weight es"
  by (induction es) auto

lemma weight_filter_le: "weight (filter P es) \<le> weight es"
  by (induction es) auto

lemma tidy_filter: "tidy es \<Longrightarrow> tidy (filter P es)"
  using weight_filter_le [of P es] by (auto simp: tidy_def)

lemma weight_without: "find (\<lambda>e. pe_key e = k) es = Some x \<Longrightarrow> int (length (pe_body x)) + weight (without k es) \<le> weight es"
proof (induction es)
  case (Cons e es)
  then show ?case using weight_filter_le [of "\<lambda>e. pe_key e \<noteq> k" es] by (auto simp: without_def split: if_splits)
qed simp

lemma tidy_get:
  assumes "tidy es" "lru_get now k es = (r, es')"
  shows "tidy es'"
proof (cases "find (\<lambda>e. pe_key e = k) es")
  case None
  with assms show ?thesis by (simp add: lru_get_def)
next
  case (Some x)
  then have "x \<in> set es" by (auto simp: find_Some_iff)
  moreover have "tidy (without k es)" using tidy_filter [OF assms(1)] by (simp add: without_def)
  ultimately show ?thesis using Some assms weight_without [OF Some] by (auto simp: lru_get_def tidy_def split: if_splits)
qed

lemma tidy_kept:
  assumes "tidy es" "cacheableResponse (pe_status e) (pe_header e) (pe_body e)" "kept_pages (e # without k es) es'"
  shows "tidy es'"
proof -
  obtain n where n: "n \<ge> 1" "es' = take n (e # without k es)" "n = 1 \<or> weight es' \<le> pageCacheMaxBytes"
    using assms(3) by (auto simp: kept_pages_def)
  have "int (length (pe_body e)) \<le> pageCacheMaxBody" using assms(2) by (auto simp: cacheableResponse_def split: if_splits)
  then have "weight es' \<le> pageCacheMaxBytes" using n by auto
  moreover have "set es' \<subseteq> insert e (set es)" using n(2) by (auto simp: without_def dest: in_set_takeD)
  ultimately show ?thesis using assms(1,2) by (auto simp: tidy_def)
qed

text \<open>As long as the server stores only responses that \<open>cacheableResponse\<close> accepts, the cache never holds more than 128 MiB, its
  byte count is exactly the size of its pages, and no page in it sets a cookie or forbids caching.\<close>

theorem page_cache_bounded:
  assumes "\<forall>t d k status h body ttl. CPut t d k status h body ttl \<in> set calls \<longrightarrow> cacheableResponse status h body"
  shows "let c = fold (store_step Get Put Purge) calls newPageCache in
    pc_bytes c = weight (pages c) \<and> pc_bytes c \<le> pageCacheMaxBytes \<and> (\<forall>e\<in>set (pages c). h_Values (pe_header e) ''Set-Cookie'' = [])"
proof -
  have "pc_ok (fold (store_step Get Put Purge) calls newPageCache) \<and> tidy (pages (fold (store_step Get Put Purge) calls newPageCache))"
    using assms
  proof (induction calls rule: rev_induct)
    case Nil
    show ?case using pc_ok_new by (simp add: tidy_def newPageCache_def)
  next
    case (snoc call calls)
    let ?c = "fold (store_step Get Put Purge) calls newPageCache"
    have "\<forall>t d k status h body ttl. CPut t d k status h body ttl \<in> set calls \<longrightarrow> cacheableResponse status h body"
      using snoc.prems unfolding set_append by blast
    then have IH: "pc_ok ?c" "tidy (pages ?c)" using snoc.IH by blast+
    have "tidy (pages (store_step Get Put Purge call ?c))"
    proof (cases call)
      case (CGet now d k)
      then show ?thesis using Get_refines(2) [OF IH(1), of now d k] tidy_get [OF IH(2)] by (metis prod.collapse store_step.simps(1))
    next
      case (CPut t d k status h body ttl)
      then have "cacheableResponse status h body" using snoc.prems by auto
      then show ?thesis using CPut Put_refines(2) [OF IH(1)] tidy_kept [OF IH(2)] by (metis new_page_def pageCacheEntry.select_convs(3-5) store_step.simps(2))
    next
      case (CPurge d)
      then show ?thesis using Purge_refines(2) [OF IH(1), of d] tidy_filter [OF IH(2)] by (metis prod.collapse store_step.simps(3))
    qed
    with page_cache.step_ok [OF IH(1)] show ?case by simp
  qed
  then show ?thesis by (auto simp: pc_ok_def tidy_def Let_def cacheableResponse_def split: if_splits)
qed

section \<open>Examples\<close>

abbreviation ex_calls :: "cache_call list" where
  "ex_calls \<equiv> [CPut 0 ''a.test'' ''k1'' 200 [] ''one'' 10, CPut 1 ''b.test'' ''k2'' 200 [] ''two'' 10, CPurge ''b.test'']"

lemma ex_hit:
  "Get 5 ''a.test'' ''k1'' (fold (store_step Get Put Purge) ex_calls newPageCache) =
     (Some (new_page 0 ''a.test'' ''k1'' 200 [] ''one'' 10), snd (Get 5 ''a.test'' ''k1'' (fold (store_step Get Put Purge) ex_calls newPageCache)))"
  by (simp add: Get_def Put_def Purge_def newPageCache_def element_def removeLocked_def evict.simps new_page_def Let_def)

theorem page_cache_refines_witness:
  "pages (fold (store_step Get Put Purge) ex_calls newPageCache) = [new_page 0 ''a.test'' ''k1'' 200 [] ''one'' 10] \<and>
   (\<exists>n c'. Purge ''a.test'' (fold (store_step Get Put Purge) ex_calls newPageCache) = (n, c') \<and> n = 1)"
proof -
  let ?c = "fold (store_step Get Put Purge) ex_calls newPageCache"
  have p: "pages ?c = [new_page 0 ''a.test'' ''k1'' 200 [] ''one'' 10]"
    by (simp add: Put_def Purge_def newPageCache_def element_def removeLocked_def evict.simps new_page_def Let_def)
  obtain n c' where "Purge ''a.test'' ?c = (n, c')" by fastforce
  moreover from this have "n = 1"
    using page_cache_refines [OF refl, where calls = ex_calls and d = "''a.test''"] unfolding p by (simp add: new_page_def)
  ultimately show ?thesis using p by blast
qed

theorem page_cache_returns_stored_witness:
  "\<exists>e c'. Get 5 ''a.test'' ''k1'' (fold (store_step Get Put Purge) ex_calls newPageCache) = (Some e, c') \<and> stored_by ex_calls ''k1'' e"
  using ex_hit page_cache_returns_stored [OF ex_hit] by blast

theorem page_cache_bounded_witness:
  "pc_bytes (fold (store_step Get Put Purge) ex_calls newPageCache) \<le> pageCacheMaxBytes"
proof -
  have "cacheableResponse 200 [] ''one''" "cacheableResponse 200 [] ''two''" by (simp_all add: cacheableResponse_def h_Get_def h_Values_def ToLower_def)
  then show ?thesis using page_cache_bounded [of ex_calls] by (simp add: Let_def)
qed

end
