(* ===== verification/Htaccess.thy ===== *)
theory Htaccess
  imports Http Os
begin

text \<open>
  The interpreter for \<^verbatim>\<open>.htaccess\<close> files (\<^verbatim>\<open>svc/htaccess.go\<close>): the parser, the merge of the files from the directory of a
  request up to the document root, the rewrite engine, and the header operations.

  The regular expressions of Go's \<open>regexp\<close> package are a parameter: which patterns compile, what \<open>FindStringSubmatch\<close>
  returns (\<open>None\<close> for no match, otherwise the match and its groups) and \<open>ReplaceAllString\<close>. The cache of compiled
  patterns is invisible. The files, the environment and the request are arguments; the files do not change
  while one request is handled.
\<close>

record Regexp =
  re_compiles :: "string \<Rightarrow> bool"
  re_find :: "string \<Rightarrow> string \<Rightarrow> string list option"
  re_replace :: "string \<Rightarrow> string \<Rightarrow> string \<Rightarrow> string"

section \<open>Data\<close>

record HtHeaderOp =
  ho_Kind :: string
  ho_Name :: string
  ho_Value :: string
  ho_Pattern :: string

record HtFileDeny =
  fd_Pattern :: string
  fd_Regex :: bool

record HtCond =
  c_Test :: string
  c_Pattern :: string
  c_NoCase :: bool
  c_OrNext :: bool
  c_Lex :: "char option"
  c_LexNeg :: bool
  c_FileTest :: string

record HtRuleFlags =
  f_NoCase :: bool
  f_Last :: bool
  f_End :: bool
  f_Redirect :: int
  f_Forbidden :: bool
  f_Gone :: bool
  f_QSA :: bool
  f_QSD :: bool
  f_Proxy :: bool

record HtRule =
  rl_Pattern :: string
  rl_Sub :: string
  rl_Flags :: HtRuleFlags
  rl_Conds :: "HtCond list"

text \<open>\<open>rd_Re\<close> is the key of the compiled pattern, present when \<open>rd_Match\<close> is.\<close>

record HtRedirect =
  rd_Match :: bool
  rd_Status :: int
  rd_From :: string
  rd_Target :: string
  rd_Re :: "string option"

record HtConfig =
  hc_Dir :: string
  hc_DirURL :: string
  hc_Files :: "string list"
  hc_RewriteEngine :: bool
  hc_RewriteBase :: string
  hc_Rules :: "HtRule list"
  hc_Redirects :: "HtRedirect list"
  hc_DirectoryIndex :: "string list"
  hc_ErrorDocuments :: "(int \<times> string) list"
  hc_DenyAll :: bool
  hc_FileDenies :: "HtFileDeny list"
  hc_PHPExtensions :: "string list"
  hc_DirectorySlashOff :: bool
  hc_Headers :: "HtHeaderOp list"
  hc_RequestHeaders :: "HtHeaderOp list"
  hc_Skipped :: "string list"

definition empty_config :: HtConfig where
  "empty_config = \<lparr>hc_Dir = [], hc_DirURL = [], hc_Files = [], hc_RewriteEngine = False, hc_RewriteBase = [], hc_Rules = [], hc_Redirects = [],
     hc_DirectoryIndex = [], hc_ErrorDocuments = [], hc_DenyAll = False, hc_FileDenies = [], hc_PHPExtensions = [], hc_DirectorySlashOff = False,
     hc_Headers = [], hc_RequestHeaders = [], hc_Skipped = []\<rparr>"

definition no_flags :: HtRuleFlags where
  "no_flags = \<lparr>f_NoCase = False, f_Last = False, f_End = False, f_Redirect = 0, f_Forbidden = False, f_Gone = False, f_QSA = False, f_QSD = False, f_Proxy = False\<rparr>"

definition empty_rule :: HtRule where
  "empty_rule = \<lparr>rl_Pattern = [], rl_Sub = [], rl_Flags = no_flags, rl_Conds = []\<rparr>"

record htOutcome =
  out_Path :: string
  out_Query :: string
  out_Redirect :: string
  out_Status :: int

definition no_outcome :: htOutcome where
  "no_outcome = \<lparr>out_Path = [], out_Query = [], out_Redirect = [], out_Status = 0\<rparr>"

abbreviation status_outcome :: "int \<Rightarrow> htOutcome" where
  "status_outcome code \<equiv> no_outcome\<lparr>out_Status := code\<rparr>"

section \<open>Patterns\<close>

text \<open>The compiled pattern, by the text it was compiled from.\<close>

definition htCompile :: "Regexp \<Rightarrow> string \<Rightarrow> bool \<Rightarrow> string option" where
  "htCompile R pattern noCase = (let key = (if noCase then ''(?i)'' @ pattern else pattern) in if re_compiles R key then Some key else None)"

text \<open>\<open>path.Match\<close>: a pattern is a list of one-character tests and stars; a malformed pattern matches nothing.\<close>

datatype glob = GStar | GOne "char \<Rightarrow> bool"

abbreviation backslash :: char where "backslash \<equiv> CHR 0x5C"

definition glob_esc :: "string \<Rightarrow> (char \<times> string) option" where
  "glob_esc s = (case s of [] \<Rightarrow> None
   | c # rest \<Rightarrow> if c = CHR ''-'' \<or> c = CHR '']'' then None
       else if c = backslash then (case rest of [] \<Rightarrow> None | d # rest' \<Rightarrow> if rest' = [] then None else Some (d, rest'))
       else if rest = [] then None else Some (c, rest))"

lemma glob_esc_shorter: "glob_esc s = Some (c, s') \<Longrightarrow> length s' < length s"
  by (auto simp: glob_esc_def split: list.splits if_splits)

text \<open>The ranges of a class up to its closing bracket; \<open>n\<close> counts them.\<close>

function glob_class :: "nat \<Rightarrow> string \<Rightarrow> ((char \<Rightarrow> bool) \<times> string) option" where
  "glob_class n s = (case s of [] \<Rightarrow> None
   | c # rest \<Rightarrow> if c = CHR '']'' \<and> n > 0 then Some (\<lambda>_. False, rest)
       else (case glob_esc s of None \<Rightarrow> None
         | Some (lo, s1) \<Rightarrow>
             (case (if hd s1 = CHR ''-'' then glob_esc (tl s1) else Some (lo, s1)) of None \<Rightarrow> None
              | Some (hi, s2) \<Rightarrow> (case glob_class (n + 1) s2 of None \<Rightarrow> None | Some (t, s3) \<Rightarrow> Some (\<lambda>x. lo \<le> x \<and> x \<le> hi \<or> t x, s3)))))"
  by pat_completeness auto
termination
proof (relation "measure (\<lambda>(n, s). length s)", goal_cases)
  case (2 n s c rest x lo s1 y hi s2)
  then have "length s1 < length s" by (auto dest: glob_esc_shorter)
  moreover have "length s2 \<le> length s1" using 2 by (auto dest!: glob_esc_shorter split: if_splits)
  ultimately show ?case by simp
qed simp

declare glob_class.simps [simp del]

lemma glob_class_shorter: "glob_class n s = Some (t, s') \<Longrightarrow> length s' < length s"
proof (induction n s arbitrary: t rule: glob_class.induct)
  case (1 n s)
  show ?case
  proof (cases s)
    case Nil
    with "1.prems" show ?thesis by (simp add: glob_class.simps)
  next
    case (Cons c rest)
    show ?thesis
    proof (cases "c = CHR '']'' \<and> n > 0")
      case True
      with "1.prems" Cons show ?thesis by (simp add: glob_class.simps)
    next
      case False
      then obtain lo s1 hi s2 u where g: "glob_esc s = Some (lo, s1)" "(if hd s1 = CHR ''-'' then glob_esc (tl s1) else Some (lo, s1)) = Some (hi, s2)"
          "glob_class (n + 1) s2 = Some (u, s')"
        using "1.prems" Cons by (subst (asm) glob_class.simps) (auto simp del: if_split split: option.splits)
      have "length s1 < length s" using g(1) by (rule glob_esc_shorter)
      moreover have "length s2 \<le> length s1" using g(2) by (auto dest!: glob_esc_shorter split: if_splits)
      moreover have "length s' < length s2" using "1.IH" [OF Cons False g(1) refl g(2) refl] g(3) by blast
      ultimately show ?thesis by simp
    qed
  qed
qed

function glob_parse :: "string \<Rightarrow> glob list option" where
  "glob_parse s = (case s of [] \<Rightarrow> Some []
   | c # rest \<Rightarrow>
      if c = CHR ''*'' then map_option ((#) GStar) (glob_parse rest)
      else if c = CHR ''?'' then map_option ((#) (GOne (\<lambda>x. x \<noteq> CHR ''/''))) (glob_parse rest)
      else if c = CHR ''['' then
        (let neg = HasPrefix rest ''^''; body = (if neg then tl rest else rest) in
         case glob_class 0 body of None \<Rightarrow> None
         | Some (t, s') \<Rightarrow> map_option ((#) (GOne (\<lambda>x. t x \<noteq> neg))) (glob_parse s'))
      else if c = backslash then (case rest of [] \<Rightarrow> None | d # rest' \<Rightarrow> map_option ((#) (GOne (\<lambda>x. x = d))) (glob_parse rest'))
      else map_option ((#) (GOne (\<lambda>x. x = c))) (glob_parse rest))"
  by pat_completeness auto
termination by (relation "measure length") (auto dest!: glob_class_shorter split: if_splits)

declare glob_parse.simps [simp del]

fun glob_match :: "glob list \<Rightarrow> string \<Rightarrow> bool" where
  "glob_match [] s = (s = [])"
| "glob_match (GOne t # gs) [] = False"
| "glob_match (GOne t # gs) (c # s) = (t c \<and> glob_match gs s)"
| "glob_match (GStar # gs) [] = glob_match gs []"
| "glob_match (GStar # gs) (c # s) = (glob_match gs (c # s) \<or> c \<noteq> CHR ''/'' \<and> glob_match (GStar # gs) s)"

definition path_Match :: "string \<Rightarrow> string \<Rightarrow> bool" where
  "path_Match pattern name = (case glob_parse pattern of None \<Rightarrow> False | Some gs \<Rightarrow> glob_match gs name)"

definition htFileDenyMatches :: "Regexp \<Rightarrow> HtFileDeny \<Rightarrow> string \<Rightarrow> bool" where
  "htFileDenyMatches R fd urlPath = (let base = path_Base urlPath in
     if fd_Regex fd then (case htCompile R (fd_Pattern fd) True of None \<Rightarrow> False | Some re \<Rightarrow> re_find R re base \<noteq> None)
     else path_Match (fd_Pattern fd) base)"

section \<open>Header operations\<close>

definition htParseHeaderOp :: "string list \<Rightarrow> HtHeaderOp option" where
  "htParseHeaderOp args0 =
    (let args = (if args0 \<noteq> [] \<and> (EqualFold (hd args0) ''always'' \<or> EqualFold (hd args0) ''onsuccess'') then tl args0 else args0) in
     case args of kind0 # name # rest \<Rightarrow>
        (let kind = ToLower kind0 in
         if kind = ''unset'' then Some \<lparr>ho_Kind = kind, ho_Name = name, ho_Value = [], ho_Pattern = []\<rparr>
         else if kind = ''edit'' \<or> kind = ''edit*'' then
           (case rest of p # v # _ \<Rightarrow> Some \<lparr>ho_Kind = kind, ho_Name = name, ho_Value = v, ho_Pattern = p\<rparr> | _ \<Rightarrow> None)
         else Some \<lparr>ho_Kind = kind, ho_Name = name, ho_Value = Join '' '' rest, ho_Pattern = []\<rparr>)
     | _ \<Rightarrow> None)"

text \<open>Editing: the first new value replaces the header, the others are added.\<close>

definition edit_values :: "(string \<Rightarrow> string) \<Rightarrow> string \<Rightarrow> Header \<Rightarrow> Header" where
  "edit_values f name h = (case h_Values h name of [] \<Rightarrow> h | v # vs \<Rightarrow> fold (\<lambda>v h. h_Add name (f v) h) vs (h_Set name (f v) h))"

definition apply_header_op :: "Regexp \<Rightarrow> HtHeaderOp \<Rightarrow> Header \<Rightarrow> Header" where
  "apply_header_op R oper h =
    (if ho_Kind oper = ''set'' then h_Set (ho_Name oper) (ho_Value oper) h
     else if ho_Kind oper \<in> {''add'', ''append'', ''merge''} then h_Add (ho_Name oper) (ho_Value oper) h
     else if ho_Kind oper = ''unset'' then h_Del (ho_Name oper) h
     else if ho_Kind oper \<in> {''edit'', ''edit*''} then
       (case htCompile R (ho_Pattern oper) False of None \<Rightarrow> h | Some re \<Rightarrow> edit_values (\<lambda>v. re_replace R re v (ho_Value oper)) (ho_Name oper) h)
     else h)"

definition htApplyHeaders :: "Regexp \<Rightarrow> HtHeaderOp list \<Rightarrow> Header \<Rightarrow> Header" where
  "htApplyHeaders R ops h = fold (apply_header_op R) ops h"

section \<open>Reading directives\<close>

text \<open>\<open>htQuoteFields\<close>: fields separated by blanks, double quotes group, a backslash escapes inside quotes only.\<close>

fun quote_fields :: "string \<Rightarrow> bool \<Rightarrow> bool \<Rightarrow> string \<Rightarrow> string list" where
  "quote_fields cur inQ esc [] = (if cur = [] then [] else [rev cur])"
| "quote_fields cur inQ esc (r # rs) =
    (if esc then quote_fields (r # cur) inQ False rs
     else if r = backslash then (if inQ then quote_fields cur inQ True rs else quote_fields (r # cur) inQ False rs)
     else if r = CHR 0x22 then quote_fields cur (\<not> inQ) False rs
     else if (r = CHR '' '' \<or> r = CHR 0x09) \<and> \<not> inQ then
       (if cur = [] then quote_fields [] inQ False rs else rev cur # quote_fields [] inQ False rs)
     else quote_fields (r # cur) inQ False rs)"

definition htQuoteFields :: "string \<Rightarrow> string list" where
  "htQuoteFields line = quote_fields [] False False line"

definition htTrimSlashes :: "string \<Rightarrow> string" where
  "htTrimSlashes s = (let t = TrimSet ''/'' (TrimSuffix (TrimPrefix (TrimSpace s) [CHR 0x22]) [CHR 0x22]) in if t = [] then [] else ''/'' @ t)"

definition cond_flag :: "string \<Rightarrow> HtCond \<Rightarrow> HtCond" where
  "cond_flag fl c = (let f = ToUpper (TrimSet ''[]'' fl) in
     if f = ''NC'' \<or> f = ''NOCASE'' then c\<lparr>c_NoCase := True\<rparr>
     else if f = ''OR'' \<or> f = ''ORNEXT'' then c\<lparr>c_OrNext := True\<rparr> else c)"

definition htParseCond :: "string list \<Rightarrow> HtCond option" where
  "htParseCond args = (case args of test # pattern # flags \<Rightarrow>
     (let c = fold cond_flag flags \<lparr>c_Test = test, c_Pattern = pattern, c_NoCase = False, c_OrNext = False, c_Lex = None, c_LexNeg = False, c_FileTest = []\<rparr>;
          neg = HasPrefix pattern ''!''; p = (if neg then tl pattern else pattern) in
      Some (if p \<in> {''-f'', ''-d'', ''-e'', ''-s'', ''-x''} then c\<lparr>c_FileTest := (if neg then ''!'' @ p else p), c_Pattern := []\<rparr>
            else if p \<noteq> [] \<and> hd p \<in> {CHR ''<'', CHR ''>'', CHR ''=''} then c\<lparr>c_Lex := Some (hd p), c_LexNeg := neg, c_Pattern := tl p\<rparr>
            else c))
   | _ \<Rightarrow> None)"

text \<open>\<open>strconv.Atoi\<close> is \<open>ParseInt\<close> on a 64 bit machine.\<close>

definition redirect_code :: "string \<Rightarrow> int" where
  "redirect_code fl = (case IndexByte (CHR ''='') fl of None \<Rightarrow> 302
     | Some i \<Rightarrow> (let v = drop (i + 1) fl; u = ToUpper (TrimSpace v) in
         if u = ''PERMANENT'' then 301 else if u = ''TEMP'' then 302 else if u = ''SEEOTHER'' then 303
         else case ParseInt v of Some n \<Rightarrow> if n \<ge> 300 \<and> n < 400 then n else 302 | None \<Rightarrow> 302))"

definition rule_flag :: "string \<Rightarrow> HtRuleFlags \<Rightarrow> HtRuleFlags" where
  "rule_flag fl0 f = (let fl = TrimSpace fl0; up = ToUpper fl in
     if up = ''NC'' \<or> up = ''NOCASE'' then f\<lparr>f_NoCase := True\<rparr>
     else if up = ''L'' \<or> up = ''LAST'' then f\<lparr>f_Last := True\<rparr>
     else if up = ''END'' then f\<lparr>f_End := True, f_Last := True\<rparr>
     else if up = ''F'' \<or> up = ''FORBIDDEN'' then f\<lparr>f_Forbidden := True\<rparr>
     else if up = ''G'' \<or> up = ''GONE'' then f\<lparr>f_Gone := True\<rparr>
     else if up = ''QSA'' then f\<lparr>f_QSA := True\<rparr>
     else if up = ''QSD'' then f\<lparr>f_QSD := True\<rparr>
     else if up = ''P'' \<or> up = ''PROXY'' then f\<lparr>f_Proxy := True\<rparr>
     else if HasPrefix up ''R'' then f\<lparr>f_Redirect := redirect_code fl\<rparr>
     else f)"

definition htParseRuleFlags :: "string list \<Rightarrow> HtRuleFlags" where
  "htParseRuleFlags args = (case args of [] \<Rightarrow> no_flags | a # _ \<Rightarrow> fold rule_flag (Split (CHR '','') (TrimSet ''[]'' a)) no_flags)"

text \<open>The optional status in front of a redirect: the status and how many arguments it took.\<close>

definition redirect_status :: "int \<Rightarrow> string \<Rightarrow> int \<times> nat" where
  "redirect_status st a = (case ParseInt a of
     Some n \<Rightarrow> (if n = 410 then 410 else if n \<ge> 300 \<and> n < 400 then n else st, 1)
   | None \<Rightarrow> (let l = ToLower a in
       if l = ''permanent'' then (301, 1) else if l = ''temp'' then (st, 1) else if l = ''seeother'' then (303, 1)
       else if l = ''gone'' then (410, 1) else (st, 0)))"

definition htParseRedirect :: "Regexp \<Rightarrow> string \<Rightarrow> string list \<Rightarrow> HtRedirect option" where
  "htParseRedirect R dir args =
    (if length args < 2 then None
     else case redirect_status (if dir = ''redirectperm'' then 301 else 302) (hd args) of (status, i) \<Rightarrow>
       (case drop i args of
          from # target # _ \<Rightarrow>
            if dir = ''redirectmatch'' then
              map_option (\<lambda>re. \<lparr>rd_Match = True, rd_Status = status, rd_From = from, rd_Target = target, rd_Re = Some re\<rparr>) (htCompile R from False)
            else Some \<lparr>rd_Match = False, rd_Status = status, rd_From = from, rd_Target = target, rd_Re = None\<rparr>
        | [from] \<Rightarrow> if status = 410 then Some \<lparr>rd_Match = False, rd_Status = status, rd_From = from, rd_Target = [], rd_Re = None\<rparr> else None
        | [] \<Rightarrow> None))"

text \<open>What the parser carries from line to line: the configuration, the pending conditions, the open \<open><Files>\<close> blocks (innermost
  first).\<close>

record HtParser =
  hp_cfg :: HtConfig
  hp_pending :: "HtRule option"
  hp_stack :: "HtFileDeny list"

definition htDenyAll :: "HtFileDeny list \<Rightarrow> HtConfig \<Rightarrow> HtConfig" where
  "htDenyAll stack cfg = (case stack of [] \<Rightarrow> cfg\<lparr>hc_DenyAll := True\<rparr> | fd # _ \<Rightarrow> cfg\<lparr>hc_FileDenies := hc_FileDenies cfg @ [fd]\<rparr>)"

definition append_opt :: "'a option \<Rightarrow> 'a list \<Rightarrow> 'a list" where
  "append_opt x xs = (case x of None \<Rightarrow> xs | Some y \<Rightarrow> xs @ [y])"

definition upd_cfg :: "(HtConfig \<Rightarrow> HtConfig) \<Rightarrow> HtParser \<Rightarrow> HtParser" where
  "upd_cfg f ps = ps\<lparr>hp_cfg := f (hp_cfg ps)\<rparr>"

definition rewrite_rule :: "string list \<Rightarrow> HtParser \<Rightarrow> HtParser" where
  "rewrite_rule args ps = (let r = (case hp_pending ps of Some r \<Rightarrow> r | None \<Rightarrow> empty_rule); ps1 = ps\<lparr>hp_pending := None\<rparr> in
     case args of pattern # sub # rest \<Rightarrow>
         upd_cfg (\<lambda>cfg. cfg\<lparr>hc_Rules := hc_Rules cfg @ [r\<lparr>rl_Pattern := pattern, rl_Sub := sub, rl_Flags := htParseRuleFlags rest\<rparr>]\<rparr>) ps1
     | _ \<Rightarrow> ps1)"

definition directive :: "Regexp \<Rightarrow> string \<Rightarrow> string list \<Rightarrow> HtParser \<Rightarrow> HtParser" where
  "directive R name args ps = (let dir = ToLower name in
    if dir = ''rewriteengine'' then (if args = [] then ps else upd_cfg (\<lambda>cfg. cfg\<lparr>hc_RewriteEngine := EqualFold (hd args) ''on''\<rparr>) ps)
    else if dir = ''rewritebase'' then (if args = [] then ps else upd_cfg (\<lambda>cfg. cfg\<lparr>hc_RewriteBase := htTrimSlashes (hd args)\<rparr>) ps)
    else if dir = ''rewritecond'' then
      (let r = (case hp_pending ps of Some r \<Rightarrow> r | None \<Rightarrow> empty_rule) in
       ps\<lparr>hp_pending := Some (r\<lparr>rl_Conds := append_opt (htParseCond args) (rl_Conds r)\<rparr>)\<rparr>)
    else if dir = ''rewriterule'' then rewrite_rule args ps
    else if dir \<in> {''redirect'', ''redirectmatch'', ''redirectperm'', ''redirecttemp''} then
      upd_cfg (\<lambda>cfg. cfg\<lparr>hc_Redirects := append_opt (htParseRedirect R dir args) (hc_Redirects cfg)\<rparr>) ps
    else if dir = ''directoryindex'' then upd_cfg (\<lambda>cfg. cfg\<lparr>hc_DirectoryIndex := hc_DirectoryIndex cfg @ map path_Base args\<rparr>) ps
    else if dir = ''errordocument'' then
      (case args of code # target # _ \<Rightarrow> (case ParseInt code of None \<Rightarrow> ps
           | Some n \<Rightarrow> upd_cfg (\<lambda>cfg. cfg\<lparr>hc_ErrorDocuments := AList.update n target (hc_ErrorDocuments cfg)\<rparr>) ps)
       | _ \<Rightarrow> ps)
    else if dir = ''require'' then
      (case args of a # b # _ \<Rightarrow> if EqualFold a ''all'' \<and> EqualFold b ''denied'' then upd_cfg (htDenyAll (hp_stack ps)) ps else ps | _ \<Rightarrow> ps)
    else if dir = ''deny'' then
      (case args of a # b # _ \<Rightarrow> if EqualFold a ''from'' \<and> EqualFold b ''all'' then upd_cfg (htDenyAll (hp_stack ps)) ps else ps | _ \<Rightarrow> ps)
    else if dir = ''options'' then ps
    else if dir = ''directoryslash'' then (if args = [] then ps else upd_cfg (\<lambda>cfg. cfg\<lparr>hc_DirectorySlashOff := EqualFold (hd args) ''off''\<rparr>) ps)
    else if dir = ''header'' then upd_cfg (\<lambda>cfg. cfg\<lparr>hc_Headers := append_opt (htParseHeaderOp args) (hc_Headers cfg)\<rparr>) ps
    else if dir = ''requestheader'' then upd_cfg (\<lambda>cfg. cfg\<lparr>hc_RequestHeaders := append_opt (htParseHeaderOp args) (hc_RequestHeaders cfg)\<rparr>) ps
    else if dir = ''addtype'' then
      (case args of ty # x # xs \<Rightarrow> if Contains (ToLower ty) ''php''
           then upd_cfg (\<lambda>cfg. cfg\<lparr>hc_PHPExtensions := hc_PHPExtensions cfg @ map (\<lambda>e. ToLower (TrimPrefix e ''.'')) (x # xs)\<rparr>) ps else ps
       | _ \<Rightarrow> ps)
    else if dir = ''<files'' \<or> dir = ''<filesmatch'' then
      ps\<lparr>hp_stack := \<lparr>fd_Pattern = (case args of [] \<Rightarrow> [] | a # _ \<Rightarrow> TrimSuffix a ''>''), fd_Regex = (dir = ''<filesmatch'')\<rparr> # hp_stack ps\<rparr>
    else if dir = ''</files>'' \<or> dir = ''</filesmatch>'' then ps\<lparr>hp_stack := (case hp_stack ps of [] \<Rightarrow> [] | _ # st \<Rightarrow> st)\<rparr>
    else upd_cfg (\<lambda>cfg. cfg\<lparr>hc_Skipped := hc_Skipped cfg @ [name]\<rparr>) ps)"

text \<open>A line that ends in a single backslash goes on in the next one.\<close>

fun join_lines :: "string \<Rightarrow> string list \<Rightarrow> string \<times> string list" where
  "join_lines line [] = (if HasSuffix line [backslash] \<and> \<not> HasSuffix line [backslash, backslash] then TrimSuffix line [backslash] else line, [])"
| "join_lines line (r # rs) = (if HasSuffix line [backslash] \<and> \<not> HasSuffix line [backslash, backslash]
     then join_lines (TrimSuffix line [backslash] @ '' '' @ TrimSpace r) rs else (line, r # rs))"

lemma join_lines_shorter: "length (snd (join_lines line rs)) \<le> length rs"
  by (induction line rs rule: join_lines.induct) auto

function parse_lines :: "Regexp \<Rightarrow> string list \<Rightarrow> HtParser \<Rightarrow> HtParser" where
  "parse_lines R [] ps = ps"
| "parse_lines R (l # ls) ps = (let line = TrimSpace l in
     if line = [] \<or> HasPrefix line ''#'' then parse_lines R ls ps
     else let joined = join_lines line ls in
       (case htQuoteFields (fst joined) of [] \<Rightarrow> parse_lines R (snd joined) ps
        | name # args \<Rightarrow> parse_lines R (snd joined) (directive R name args ps)))"
  by pat_completeness auto
termination
  by (relation "measure (\<lambda>(_, ls, _). length ls)") (auto simp: le_imp_less_Suc join_lines_shorter)

declare parse_lines.simps(2) [simp del]

definition htParseFile :: "Regexp \<Rightarrow> string option \<Rightarrow> HtConfig" where
  "htParseFile R content = (case content of None \<Rightarrow> empty_config
     | Some text \<Rightarrow> hp_cfg (parse_lines R (scan_lines text) \<lparr>hp_cfg = empty_config, hp_pending = None, hp_stack = []\<rparr>))"

section \<open>The files of a directory\<close>

text \<open>What the interpreter asks of its surroundings: \<open>os.Stat\<close> and the contents of a file, as the panel, and \<open>os.Getenv\<close>.\<close>

record HtEnv =
  he_re :: Regexp
  he_stat :: "string \<Rightarrow> node option"
  he_read :: "string \<Rightarrow> string option"
  he_getenv :: "string \<Rightarrow> string"

text \<open>The directories both loops visit, from \<open>d\<close> up to the document root.\<close>

function ht_chain :: "string \<Rightarrow> string \<Rightarrow> string list" where
  "ht_chain root d = d # (if d = root \<or> d = ''/'' \<or> length d \<le> 1 then []
     else let up = path_Dir d in if length up \<ge> length d \<or> \<not> HasPrefix d root then [] else ht_chain root up)"
  by pat_completeness auto
termination by (relation "measure (\<lambda>(_, d). length d)") auto

declare ht_chain.simps [simp del]

definition ht_file :: "string \<Rightarrow> string" where
  "ht_file d = filepath_Join [d, ''.htaccess'']"

text \<open>A directory has a size, too; its value does not matter.\<close>

definition node_size :: "node \<Rightarrow> int" where
  "node_size nd = (case n_kind nd of Reg content \<Rightarrow> int (length content) | _ \<Rightarrow> 4096)"

definition htFileSig :: "HtEnv \<Rightarrow> string \<Rightarrow> string \<Rightarrow> string" where
  "htFileSig env root dir = concat (map (\<lambda>d. case he_stat env (ht_file d) of None \<Rightarrow> []
     | Some st \<Rightarrow> ht_file d @ '':'' @ decimal_int (node_size st) @ '':'' @ decimal_int (n_mtime st) @ '';'') (ht_chain root dir))"

definition ht_files :: "HtEnv \<Rightarrow> string \<Rightarrow> string \<Rightarrow> string list" where
  "ht_files env root dir = filter (\<lambda>f. case he_stat env f of None \<Rightarrow> False | Some st \<Rightarrow> n_kind st \<noteq> Dir) (map ht_file (ht_chain root dir))"

definition merge_config :: "HtConfig \<Rightarrow> HtConfig \<Rightarrow> HtConfig" where
  "merge_config sub cfg = cfg\<lparr>
     hc_RewriteEngine := hc_RewriteEngine sub \<or> hc_RewriteEngine cfg,
     hc_RewriteBase := (if hc_RewriteBase sub \<noteq> [] \<and> hc_RewriteBase cfg = [] then hc_RewriteBase sub else hc_RewriteBase cfg),
     hc_Rules := hc_Rules cfg @ hc_Rules sub,
     hc_Redirects := hc_Redirects cfg @ hc_Redirects sub,
     hc_DirectoryIndex := (if hc_DirectoryIndex sub \<noteq> [] \<and> hc_DirectoryIndex cfg = [] then hc_DirectoryIndex sub else hc_DirectoryIndex cfg),
     hc_ErrorDocuments := hc_ErrorDocuments cfg @ filter (\<lambda>(code, _). map_of (hc_ErrorDocuments cfg) code = None) (hc_ErrorDocuments sub),
     hc_DenyAll := hc_DenyAll sub \<or> hc_DenyAll cfg,
     hc_FileDenies := hc_FileDenies cfg @ hc_FileDenies sub,
     hc_PHPExtensions := hc_PHPExtensions cfg @ hc_PHPExtensions sub,
     hc_DirectorySlashOff := hc_DirectorySlashOff sub \<or> hc_DirectorySlashOff cfg,
     hc_Headers := hc_Headers cfg @ hc_Headers sub,
     hc_RequestHeaders := hc_RequestHeaders cfg @ hc_RequestHeaders sub,
     hc_Skipped := hc_Skipped cfg @ hc_Skipped sub\<rparr>"

definition dir_url :: "string \<Rightarrow> string \<Rightarrow> string" where
  "dir_url root dir = (let rel = TrimSet ''/'' (TrimPrefix dir (TrimSuffix root ''/'')) in if rel = [] then ''/'' else ''/'' @ rel)"

definition htParseDir :: "HtEnv \<Rightarrow> string \<Rightarrow> string \<Rightarrow> HtConfig" where
  "htParseDir env root dir = (case ht_files env root dir of [] \<Rightarrow> empty_config
     | f # fs \<Rightarrow> fold (\<lambda>f cfg. merge_config (htParseFile (he_re env) (he_read env f)) cfg) (f # fs)
         (empty_config\<lparr>hc_Files := f # fs, hc_Dir := path_Dir f, hc_DirURL := dir_url root (path_Dir f)\<rparr>))"

text \<open>The directory whose files govern a path.\<close>

definition ht_dir_for :: "string \<Rightarrow> string \<Rightarrow> string" where
  "ht_dir_for root urlPath = fold (\<lambda>seg dir. if seg = [] \<or> seg = ''.'' then dir else filepath_Join [dir, seg])
     (Split (CHR ''/'') (path_Dir (Clean (''/'' @ urlPath)))) root"

type_synonym ht_cache = "(string \<times> string \<times> HtConfig) list"

definition htConfigFor :: "HtEnv \<Rightarrow> ht_cache \<Rightarrow> string \<Rightarrow> string \<Rightarrow> HtConfig \<times> ht_cache" where
  "htConfigFor env cache root urlPath =
    (let dir = ht_dir_for root urlPath; key = root @ [CHR 0x00] @ dir; sig = htFileSig env root dir in
     case map_of cache key of
       Some (sig', cfg) \<Rightarrow> if sig' = sig then (cfg, cache)
         else let cfg' = htParseDir env root dir in (cfg', AList.update key (sig, cfg') cache)
     | None \<Rightarrow> let cfg' = htParseDir env root dir in (cfg', AList.update key (sig, cfg') cache))"

section \<open>The engine\<close>

record htCtx =
  x_path :: string
  x_query :: string
  x_ruleRefs :: "string list option"
  x_subRefs :: "string list option"

definition ref_text :: "string list option \<Rightarrow> char \<Rightarrow> string" where
  "ref_text refs d = (case refs of None \<Rightarrow> [] | Some gs \<Rightarrow> if dec_value d < length gs then gs ! dec_value d else [])"

definition dashes :: "string \<Rightarrow> string" where
  "dashes s = map (\<lambda>c. if c = CHR ''_'' then CHR ''-'' else c) s"

definition htServerVar :: "HtEnv \<Rightarrow> SiteRequest \<Rightarrow> string \<Rightarrow> htCtx \<Rightarrow> string \<Rightarrow> string" where
  "htServerVar env r root ctx name = (let upper = ToUpper name in
    if upper = ''REQUEST_URI'' then (if x_query ctx \<noteq> [] then x_path ctx @ ''?'' @ x_query ctx else x_path ctx)
    else if upper = ''REQUEST_FILENAME'' \<or> upper = ''SCRIPT_FILENAME'' then filepath_Join [root, TrimPrefix (x_path ctx) ''/'']
    else if upper = ''DOCUMENT_ROOT'' then root
    else if upper = ''QUERY_STRING'' then x_query ctx
    else if upper = ''REQUEST_METHOD'' then rMethod r
    else if upper = ''HTTP_HOST'' \<or> upper = ''SERVER_NAME'' then host_name (rHost r)
    else if upper = ''SERVER_PORT'' then (case SplitPort (rHost r) of Some p \<Rightarrow> p | None \<Rightarrow> if rTLS r then ''443'' else ''80'')
    else if upper = ''HTTPS'' then (if rTLS r then ''on'' else ''off'')
    else if upper = ''REMOTE_ADDR'' then remoteIP r
    else if upper = ''HTTP_REFERER'' then h_Get (rHeader r) ''Referer''
    else if upper = ''HTTP_USER_AGENT'' then h_Get (rHeader r) ''User-Agent''
    else if upper = ''HTTP_COOKIE'' then h_Get (rHeader r) ''Cookie''
    else if upper = ''THE_REQUEST'' then rMethod r @ '' '' @ RequestURI (rURL r) @ '' '' @ rProto r
    else if upper = ''SERVER_PROTOCOL'' then rProto r
    else if upper = ''REQUEST_SCHEME'' then (if rTLS r then ''https'' else ''http'')
    else if HasPrefix upper ''HTTP:'' then h_Get (rHeader r) (dashes (TrimPrefix upper ''HTTP:''))
    else if HasPrefix upper ''HTTP_'' then h_Get (rHeader r) (dashes (TrimPrefix upper ''HTTP_''))
    else if HasPrefix upper ''ENV:'' then he_getenv env (TrimPrefix upper ''ENV:'')
    else [])"

text \<open>Expanding: \<open>var\<close> resolves server variables. The closing brace is searched from the percent sign on.\<close>

function expand_sub :: "(string \<Rightarrow> string) \<Rightarrow> htCtx \<Rightarrow> string \<Rightarrow> string" where
  "expand_sub var ctx s = (case s of [] \<Rightarrow> []
   | c # rest \<Rightarrow>
      if c = CHR ''$'' \<and> rest \<noteq> [] \<and> is_dec (hd rest) then ref_text (x_ruleRefs ctx) (hd rest) @ expand_sub var ctx (tl rest)
      else if c = CHR ''%'' \<and> rest \<noteq> [] \<and> is_dec (hd rest) then ref_text (x_subRefs ctx) (hd rest) @ expand_sub var ctx (tl rest)
      else if HasPrefix s ''%{'' then (case IndexByte (CHR ''}'') s of
           Some e \<Rightarrow> var (take (e - 2) (drop 2 s)) @ expand_sub var ctx (drop (e + 1) s)
         | None \<Rightarrow> c # expand_sub var ctx rest)
      else c # expand_sub var ctx rest)"
  by pat_completeness auto
termination by (relation "measure (\<lambda>(_, _, s). length s)") (auto simp: less_Suc_eq_le)

declare expand_sub.simps [simp del]

definition htExpandSub :: "HtEnv \<Rightarrow> SiteRequest \<Rightarrow> string \<Rightarrow> htCtx \<Rightarrow> string \<Rightarrow> string" where
  "htExpandSub env r root ctx s = expand_sub (htServerVar env r root ctx) ctx s"

function expand_test :: "(string \<Rightarrow> string) \<Rightarrow> htCtx \<Rightarrow> string \<Rightarrow> string" where
  "expand_test var ctx s = (case s of [] \<Rightarrow> []
   | c # rest \<Rightarrow>
      if HasPrefix s ''%{'' then (case IndexByte (CHR ''}'') s of
           Some e \<Rightarrow> var (take (e - 2) (drop 2 s)) @ expand_test var ctx (drop (e + 1) s)
         | None \<Rightarrow> c # expand_test var ctx rest)
      else if c = CHR ''$'' \<and> rest \<noteq> [] \<and> is_dec (hd rest) then ref_text (x_ruleRefs ctx) (hd rest) @ expand_test var ctx (tl rest)
      else c # expand_test var ctx rest)"
  by pat_completeness auto
termination by (relation "measure (\<lambda>(_, _, s). length s)") (auto simp: less_Suc_eq_le)

declare expand_test.simps [simp del]

definition htExpand :: "HtEnv \<Rightarrow> SiteRequest \<Rightarrow> string \<Rightarrow> htCtx \<Rightarrow> string \<Rightarrow> string" where
  "htExpand env r root ctx s = expand_test (htServerVar env r root ctx) ctx s"

definition file_test :: "node option \<Rightarrow> string \<Rightarrow> bool" where
  "file_test st oper = (case st of None \<Rightarrow> False
     | Some nd \<Rightarrow> if oper = ''-f'' then (case n_kind nd of Reg _ \<Rightarrow> True | _ \<Rightarrow> False)
         else if oper = ''-d'' then n_kind nd = Dir
         else if oper = ''-s'' then node_size nd > 0
         else if oper = ''-x'' then n_perm nd AND 0x49 \<noteq> 0
         else True)"

definition htEvalCond :: "HtEnv \<Rightarrow> SiteRequest \<Rightarrow> string \<Rightarrow> htCtx \<Rightarrow> HtCond \<Rightarrow> bool" where
  "htEvalCond env r root ctx c =
    (let test = htExpand env r root ctx (c_Test c); other = htExpand env r root ctx (c_Pattern c);
         lexical = (\<lambda>plain folded. (if c_NoCase c then folded else plain) \<noteq> c_LexNeg c) in
     if c_FileTest c \<noteq> [] then file_test (he_stat env test) (TrimPrefix (c_FileTest c) ''!'') \<noteq> HasPrefix (c_FileTest c) ''!''
     else if c_Lex c = Some (CHR ''<'') then lexical (test < other) (ToLower test < ToLower other)
     else if c_Lex c = Some (CHR ''>'') then lexical (test > other) (ToLower test > ToLower other)
     else if c_Lex c = Some (CHR ''='') then lexical (test = other) (EqualFold test other)
     else if c_Pattern c = [] then test = []
     else case htCompile (he_re env) (c_Pattern c) (c_NoCase c) of None \<Rightarrow> False | Some re \<Rightarrow> re_find (he_re env) re test \<noteq> None)"

definition htCondGroups :: "HtEnv \<Rightarrow> SiteRequest \<Rightarrow> string \<Rightarrow> htCtx \<Rightarrow> HtCond \<Rightarrow> string list option" where
  "htCondGroups env r root ctx c =
    (if c_FileTest c \<noteq> [] \<or> c_Lex c \<noteq> None \<or> c_Pattern c = [] then None
     else case htCompile (he_re env) (c_Pattern c) (c_NoCase c) of None \<Rightarrow> None
       | Some re \<Rightarrow> re_find (he_re env) re (htExpand env r root ctx (c_Test c)))"

definition keep_groups :: "HtEnv \<Rightarrow> SiteRequest \<Rightarrow> string \<Rightarrow> HtCond \<Rightarrow> htCtx \<Rightarrow> htCtx" where
  "keep_groups env r root c ctx = (case htCondGroups env r root ctx c of None \<Rightarrow> ctx | Some m \<Rightarrow> ctx\<lparr>x_subRefs := Some m\<rparr>)"

text \<open>The loop over the conditions of a rule.\<close>

fun conds_pass :: "HtEnv \<Rightarrow> SiteRequest \<Rightarrow> string \<Rightarrow> HtCond list \<Rightarrow> htCtx \<Rightarrow> bool \<times> htCtx" where
  "conds_pass env r root [] ctx = (True, ctx)"
| "conds_pass env r root [c] ctx =
     (if htEvalCond env r root ctx c then (True, keep_groups env r root c ctx) else (False, ctx))"
| "conds_pass env r root (c # d # cs) ctx =
    (let pass = htEvalCond env r root ctx c; ctx1 = (if pass then keep_groups env r root c ctx else ctx) in
     if c_OrNext c then
       (if pass then conds_pass env r root cs ctx1
        else if htEvalCond env r root ctx1 d then conds_pass env r root cs (keep_groups env r root d ctx1)
        else (False, ctx1))
     else if pass then conds_pass env r root (d # cs) ctx1 else (False, ctx1))"

definition htPerDirSubject :: "HtConfig \<Rightarrow> string \<Rightarrow> string" where
  "htPerDirSubject cfg urlPath = TrimPrefix
     (if hc_DirURL cfg \<noteq> [] \<and> hc_DirURL cfg \<noteq> ''/'' \<and> HasPrefix urlPath (hc_DirURL cfg @ ''/'') then TrimPrefix urlPath (hc_DirURL cfg) else urlPath) ''/''"

definition htIsAbsoluteURL :: "string \<Rightarrow> bool" where
  "htIsAbsoluteURL s \<longleftrightarrow> HasPrefix s ''http://'' \<or> HasPrefix s ''https://'' \<or> HasPrefix s ''//''"

text \<open>The new query of an internal rewrite, from the text after the question mark.\<close>

definition new_query :: "HtRuleFlags \<Rightarrow> string \<Rightarrow> string option \<Rightarrow> string" where
  "new_query flags old sub_query =
    (let q = (case sub_query of None \<Rightarrow> old | Some q \<Rightarrow> q);
         q' = (if f_QSA flags \<and> old \<noteq> [] \<and> q \<noteq> old then (if q = [] then old else q @ ''&'' @ old) else q) in
     if f_QSD flags then [] else q')"

definition new_path :: "HtConfig \<Rightarrow> string \<Rightarrow> string" where
  "new_path cfg p =
    (let p' = (if \<not> HasPrefix p ''/'' \<and> \<not> htIsAbsoluteURL p then
         (let prefix = (if hc_RewriteBase cfg \<noteq> [] then hc_RewriteBase cfg else if hc_DirURL cfg \<noteq> [] then hc_DirURL cfg else ''/'') in
          TrimSuffix prefix ''/'' @ ''/'' @ TrimPrefix p ''/'') else p)
     in Clean (''/'' @ TrimPrefix p' ''/''))"

text \<open>The outcome of a rule: the verdict, whether the rules stop, whether the rule fired.\<close>

definition fire_rule :: "HtEnv \<Rightarrow> SiteRequest \<Rightarrow> string \<Rightarrow> HtConfig \<Rightarrow> HtRule \<Rightarrow> htCtx \<Rightarrow> (htOutcome \<times> bool \<times> bool) \<times> htCtx" where
  "fire_rule env r root cfg rule ctx =
    (let flags = rl_Flags rule; sub = htExpandSub env r root ctx (rl_Sub rule) in
     if f_Forbidden flags then ((status_outcome 403, True, True), ctx)
     else if f_Gone flags then ((status_outcome 410, True, True), ctx)
     else if f_Redirect flags \<noteq> 0 \<or> htIsAbsoluteURL sub then
       ((no_outcome\<lparr>out_Redirect := (if f_QSA flags \<and> x_query ctx \<noteq> [] \<and> \<not> Contains sub ''?'' then sub @ ''?'' @ x_query ctx else sub),
           out_Status := (if f_Redirect flags = 0 then 302 else f_Redirect flags)\<rparr>, True, True), ctx)
     else if sub = ''-'' then ((no_outcome, f_Last flags, True), ctx)
     else let (p, q) = (case Cut (CHR ''?'') sub of None \<Rightarrow> (sub, None) | Some (a, b) \<Rightarrow> (a, Some b)) in
       ((no_outcome, f_Last flags \<or> f_End flags, True), ctx\<lparr>x_path := new_path cfg p, x_query := new_query flags (x_query ctx) q\<rparr>))"

definition htApplyRule :: "HtEnv \<Rightarrow> SiteRequest \<Rightarrow> string \<Rightarrow> HtConfig \<Rightarrow> HtRule \<Rightarrow> htCtx \<Rightarrow> (htOutcome \<times> bool \<times> bool) \<times> htCtx" where
  "htApplyRule env r root cfg rule ctx = (case conds_pass env r root (rl_Conds rule) ctx of
     (False, ctx1) \<Rightarrow> ((no_outcome, False, False), ctx1)
   | (True, ctx1) \<Rightarrow> (case htCompile (he_re env) (rl_Pattern rule) (f_NoCase (rl_Flags rule)) of
        None \<Rightarrow> ((no_outcome, False, False), ctx1)
      | Some re \<Rightarrow> (case re_find (he_re env) re (htPerDirSubject cfg (x_path ctx1)) of
           None \<Rightarrow> ((no_outcome, False, False), ctx1)
         | Some m \<Rightarrow> fire_rule env r root cfg rule (ctx1\<lparr>x_ruleRefs := Some m\<rparr>))))"

text \<open>One pass over the rules: a verdict, or whether to stop and whether something fired.\<close>

fun run_rules :: "HtEnv \<Rightarrow> SiteRequest \<Rightarrow> string \<Rightarrow> HtConfig \<Rightarrow> HtRule list \<Rightarrow> bool \<Rightarrow> htCtx \<Rightarrow> htOutcome + bool \<times> bool \<times> htCtx" where
  "run_rules env r root cfg [] changed ctx = Inr (False, changed, ctx)"
| "run_rules env r root cfg (rule # rules) changed ctx =
    (case htApplyRule env r root cfg rule ctx of ((res, done, matched), ctx1) \<Rightarrow>
       if out_Status res = 403 \<or> out_Status res = 410 \<or> out_Redirect res \<noteq> [] then Inl res
       else if done then Inr (True, changed \<or> matched, ctx1)
       else run_rules env r root cfg rules (changed \<or> matched) ctx1)"

fun run_passes :: "nat \<Rightarrow> HtEnv \<Rightarrow> SiteRequest \<Rightarrow> string \<Rightarrow> HtConfig \<Rightarrow> htCtx \<Rightarrow> htOutcome + htCtx" where
  "run_passes 0 env r root cfg ctx = Inr ctx"
| "run_passes (Suc n) env r root cfg ctx = (case run_rules env r root cfg (hc_Rules cfg) False ctx of
     Inl res \<Rightarrow> Inl res
   | Inr (stop, changed, ctx1) \<Rightarrow> if stop \<or> \<not> changed then Inr ctx1 else run_passes n env r root cfg ctx1)"

text \<open>Redirects: the match (with its groups for a pattern).\<close>

definition redirect_hit :: "Regexp \<Rightarrow> string \<Rightarrow> HtRedirect \<Rightarrow> htCtx \<Rightarrow> htCtx option" where
  "redirect_hit R urlPath rd ctx =
    (if rd_Match rd then (case rd_Re rd of None \<Rightarrow> None
        | Some re \<Rightarrow> map_option (\<lambda>m. ctx\<lparr>x_ruleRefs := Some m\<rparr>) (re_find R re urlPath))
     else if rd_From rd = ''/'' \<or> urlPath = rd_From rd \<or> HasPrefix urlPath (rd_From rd @ ''/'') then Some ctx else None)"

fun run_redirects :: "HtEnv \<Rightarrow> SiteRequest \<Rightarrow> string \<Rightarrow> string \<Rightarrow> HtRedirect list \<Rightarrow> htCtx \<Rightarrow> htOutcome + htCtx" where
  "run_redirects env r root urlPath [] ctx = Inr ctx"
| "run_redirects env r root urlPath (rd # rds) ctx = (case redirect_hit (he_re env) urlPath rd ctx of
     None \<Rightarrow> run_redirects env r root urlPath rds ctx
   | Some ctx1 \<Rightarrow>
      if rd_Status rd = 410 then Inl (status_outcome 410)
      else let target = htExpandSub env r root ctx1 (rd_Target rd);
               rest = (if \<not> rd_Match rd \<and> rd_From rd \<noteq> ''/'' \<and> length urlPath > length (rd_From rd) then TrimPrefix urlPath (rd_From rd) else []) in
        Inl (no_outcome\<lparr>out_Redirect := target @ rest, out_Status := rd_Status rd\<rparr>))"

definition htEngine :: "HtEnv \<Rightarrow> HtConfig \<Rightarrow> SiteRequest \<Rightarrow> string \<Rightarrow> string \<Rightarrow> string \<Rightarrow> htOutcome" where
  "htEngine env cfg r root urlPath query =
    (if \<not> hc_RewriteEngine cfg \<and> hc_Redirects cfg = [] \<and> hc_FileDenies cfg = [] \<and> \<not> hc_DenyAll cfg then no_outcome
     else if hc_DenyAll cfg then status_outcome 403
     else if list_ex (\<lambda>fd. htFileDenyMatches (he_re env) fd urlPath) (hc_FileDenies cfg) then status_outcome 403
     else case run_redirects env r root urlPath (hc_Redirects cfg) \<lparr>x_path = urlPath, x_query = query, x_ruleRefs = None, x_subRefs = None\<rparr> of
         Inl res \<Rightarrow> res
       | Inr ctx \<Rightarrow>
          if \<not> hc_RewriteEngine cfg then no_outcome
          else case run_passes 10 env r root cfg ctx of
              Inl res \<Rightarrow> res
            | Inr ctx' \<Rightarrow> if x_path ctx' = urlPath \<and> x_query ctx' = query then no_outcome
                else no_outcome\<lparr>out_Path := x_path ctx', out_Query := x_query ctx'\<rparr>)"

end
