(* ===== verification/Fastcgi.thy ===== *)
theory Fastcgi
  imports Http
begin

text \<open>
  The FastCGI client of the native site server (\<^verbatim>\<open>svc/fastcgi.go\<close>): records on the wire, the encoding of parameters, one request
  and its reply, and the CGI response inside the reply. A byte is a character; Go's \<open>byte(n)\<close> is \<open>char_of\<close>, which takes
  its argument modulo 256.

  The connection is a parameter: whether it can be opened and written to, and the bytes that arrive before it closes or
  the deadline passes.
\<close>

definition fcgiBeginRequest :: nat where "fcgiBeginRequest = 1"

definition reqID :: nat where "reqID = 1"

abbreviation fcgiEndRequest :: nat where "fcgiEndRequest \<equiv> 3"
abbreviation fcgiParams :: nat where "fcgiParams \<equiv> 4"
abbreviation fcgiStdin :: nat where "fcgiStdin \<equiv> 5"
abbreviation fcgiStdout :: nat where "fcgiStdout \<equiv> 6"
abbreviation fcgiStderr :: nat where "fcgiStderr \<equiv> 7"
abbreviation fcgiMaxContent :: nat where "fcgiMaxContent \<equiv> 65535"

record fcgiRecord =
  fr_Type :: nat
  fr_ReqID :: nat
  fr_Content :: string

record fcgiResult =
  res_Status :: int
  res_AppStatus :: nat
  res_Stdout :: string
  res_Stderr :: string

datatype fcgi_error = FcgiDial | FcgiWrite | FcgiEOF | FcgiVersion

section \<open>Records\<close>

definition fcgi_hdr :: "nat \<Rightarrow> nat \<Rightarrow> nat \<Rightarrow> nat \<Rightarrow> string" where
  "fcgi_hdr recType rid n pad = [char_of (1 :: nat), char_of recType, char_of (rid div 256), char_of rid, char_of (n div 256),
     char_of n, char_of pad, char_of (0 :: nat)]"

text \<open>The loop of \<open>fcgiWrite\<close>: the bytes it writes for a content that is not empty.\<close>

function fcgi_chunks :: "nat \<Rightarrow> nat \<Rightarrow> string \<Rightarrow> string" where
  "fcgi_chunks recType rid content = (if content = [] then []
     else let n = min (length content) fcgiMaxContent; pad = (8 - n mod 8) mod 8 in
       fcgi_hdr recType rid n pad @ take n content @ replicate pad (char_of (0 :: nat)) @ fcgi_chunks recType rid (drop n content))"
  by pat_completeness auto
termination by (relation "measure (\<lambda>(_, _, content). length content)") (auto simp: min_def)

declare fcgi_chunks.simps [simp del]

definition fcgiWrite :: "nat \<Rightarrow> nat \<Rightarrow> string \<Rightarrow> string" where
  "fcgiWrite recType rid content = (if content = [] then fcgi_hdr recType rid 0 0 else fcgi_chunks recType rid content)"

text \<open>\<open>io.ReadFull\<close> on what is left of the input.\<close>

definition ReadFull :: "nat \<Rightarrow> string \<Rightarrow> (string \<times> string) option" where
  "ReadFull n s = (if length s < n then None else Some (take n s, drop n s))"

definition byte_at :: "string \<Rightarrow> nat \<Rightarrow> nat" where
  "byte_at s i = of_char (s ! i)"

definition fcgiRead :: "string \<Rightarrow> fcgi_error + fcgiRecord \<times> string" where
  "fcgiRead s = (case ReadFull 8 s of None \<Rightarrow> Inl FcgiEOF
   | Some (hdr, s1) \<Rightarrow>
      if byte_at hdr 0 \<noteq> 1 then Inl FcgiVersion
      else let n = byte_at hdr 4 * 256 + byte_at hdr 5; pad = byte_at hdr 6 in
        (case ReadFull n s1 of None \<Rightarrow> Inl FcgiEOF
         | Some (content, s2) \<Rightarrow> (case ReadFull pad s2 of None \<Rightarrow> Inl FcgiEOF
            | Some (_, s3) \<Rightarrow> Inr (\<lparr>fr_Type = byte_at hdr 1, fr_ReqID = byte_at hdr 2 * 256 + byte_at hdr 3, fr_Content = content\<rparr>, s3))))"

lemma ReadFull_shorter: "ReadFull n s = Some (a, b) \<Longrightarrow> length s = n + length b"
  by (auto simp: ReadFull_def split: if_splits)

lemma fcgiRead_shorter: "fcgiRead s = Inr (r, s') \<Longrightarrow> length s' + 8 \<le> length s"
  by (auto simp: fcgiRead_def Let_def dest!: ReadFull_shorter split: option.splits if_splits)

section \<open>Parameters\<close>

definition write_len :: "nat \<Rightarrow> string" where
  "write_len l = (if l < 128 then [char_of l]
     else [char_of (l div 2 ^ 24 mod 128 + 128), char_of (l div 2 ^ 16), char_of (l div 2 ^ 8), char_of l])"

definition fcgiEncodeParam :: "string \<Rightarrow> string \<Rightarrow> string" where
  "fcgiEncodeParam name value = write_len (length name) @ write_len (length value) @ name @ value"

section \<open>A request\<close>

definition split_addr :: "string \<Rightarrow> string \<times> string" where
  "split_addr addr = (if length addr > 5 \<and> take 5 addr = ''unix:'' then (''unix'', drop 5 addr)
     else if length addr > 4 \<and> take 4 addr = ''tcp:'' then (''tcp'', drop 4 addr) else (''unix'', addr))"

definition begin_body :: string where
  "begin_body = map char_of [0, 1, 0, 0, 0, 0, 0, 0 :: nat]"

definition request_bytes :: "(string \<times> string) list \<Rightarrow> string \<Rightarrow> string" where
  "request_bytes params body = fcgiWrite fcgiBeginRequest reqID begin_body @
     fcgiWrite fcgiParams reqID (concat (map (\<lambda>(k, v). fcgiEncodeParam k v) params)) @ fcgiWrite fcgiParams reqID [] @
     fcgiWrite fcgiStdin reqID body @ fcgiWrite fcgiStdin reqID []"

text \<open>Reading the reply until the record that ends the request.\<close>

function read_reply :: "string \<Rightarrow> string \<Rightarrow> string \<Rightarrow> fcgi_error + fcgiResult" where
  "read_reply out err s = (case fcgiRead s of Inl e \<Rightarrow> Inl e
   | Inr (rec, s') \<Rightarrow>
      if fr_Type rec = fcgiStdout then read_reply (out @ fr_Content rec) err s'
      else if fr_Type rec = fcgiStderr then read_reply out (err @ fr_Content rec) s'
      else if fr_Type rec = fcgiEndRequest then
        (let app = (if length (fr_Content rec) \<ge> 8 then byte_at (fr_Content rec) 0 * 2 ^ 24 + byte_at (fr_Content rec) 1 * 2 ^ 16 +
               byte_at (fr_Content rec) 2 * 2 ^ 8 + byte_at (fr_Content rec) 3 else 0)
         in Inr \<lparr>res_Status = (if app \<noteq> 0 then 500 else 200), res_AppStatus = app, res_Stdout = out, res_Stderr = err\<rparr>)
      else read_reply out err s')"
  by pat_completeness auto
termination by (relation "measure (\<lambda>(_, _, s). length s)") (auto dest!: fcgiRead_shorter)

declare read_reply.simps [simp del]

record Peer =
  peer_dial :: "string \<Rightarrow> string \<Rightarrow> bool"
  peer_takes :: "string \<Rightarrow> string \<Rightarrow> bool"
  peer_reply :: "string \<Rightarrow> string \<Rightarrow> string"

definition fcgiRequest :: "Peer \<Rightarrow> string \<Rightarrow> (string \<times> string) list \<Rightarrow> string \<Rightarrow> fcgi_error + fcgiResult" where
  "fcgiRequest pr addr params body = (case split_addr addr of (network, address) \<Rightarrow>
     if \<not> peer_dial pr network address then Inl FcgiDial
     else let req = request_bytes params body in
       if \<not> peer_takes pr address req then Inl FcgiWrite
       else read_reply [] [] (peer_reply pr address req))"

section \<open>The response inside\<close>

fun Index :: "string \<Rightarrow> string \<Rightarrow> nat option" where
  "Index [] sub = (if sub = [] then Some 0 else None)"
| "Index (c # s) sub = (if HasPrefix (c # s) sub then Some 0 else map_option Suc (Index s sub))"

abbreviation crlf :: string where "crlf \<equiv> [CHR 0x0D, CHR 0x0A]"

definition header_end :: "string \<Rightarrow> (nat \<times> nat) option" where
  "header_end raw = (case Index raw (crlf @ crlf) of Some i \<Rightarrow> Some (i, 4)
     | None \<Rightarrow> map_option (\<lambda>i. (i, 2)) (Index raw [CHR 0x0A, CHR 0x0A]))"

definition cgi_line :: "string \<Rightarrow> int \<times> Header \<Rightarrow> int \<times> Header" where
  "cgi_line raw st = (case st of (status, headers) \<Rightarrow>
    let line = rev (dropWhile (\<lambda>c. c = CHR 0x0D) (rev raw)) in
    if line = [] then (status, headers)
    else case Cut (CHR '':'') line of None \<Rightarrow> (status, headers)
    | Some (k0, v0) \<Rightarrow> let k = TrimSpace k0; v = TrimSpace v0 in
        if EqualFold k ''Status'' then
          (case Fields v of f # _ \<Rightarrow> (case ParseInt f of Some code \<Rightarrow> (code, headers) | None \<Rightarrow> (status, headers)) | [] \<Rightarrow> (status, headers))
        else (status, h_Add k v headers))"

definition parseCGIResponse :: "string \<Rightarrow> int \<Rightarrow> int \<times> Header \<times> string" where
  "parseCGIResponse raw dflt = (case header_end raw of None \<Rightarrow> (dflt, [], raw)
   | Some (i, n) \<Rightarrow> (case fold cgi_line (Split (CHR 0x0A) (take i raw)) (dflt, []) of
        (status, headers) \<Rightarrow> (status, headers, drop (i + n) raw)))"

end
