(* ===== verification/Goserver.thy ===== *)
theory Goserver
  imports Htaccess Pagecache Fastcgi Store_Model
begin

text \<open>
  The native site server (\<^verbatim>\<open>svc/goserver.go\<close>, \<^verbatim>\<open>svc/docfile_linux.go\<close>, \<open>GoRoute\<close> of \<^verbatim>\<open>svc/webserver.go\<close>): which file or
  script answers a request, as whom it is opened, and what goes through the page cache.

  A reply records what the code decides; the bytes \<open>http.Error\<close>, \<open>http.Redirect\<close> and \<open>http.ServeContent\<close> make of it are theirs.
  The panel runs in the directory \<open>/\<close>. What \<open>.htaccess\<close> files say is read afresh here; that the cache of \<open>htConfigFor\<close>
  does not change it is proved with the interpreter. Writing the access and error logs is left out.
\<close>

record GoPathPHP =
  pp_Prefix :: string
  pp_Version :: string
  pp_Socket :: string

record GoRoute =
  gr_Domain :: string
  gr_Root :: string
  gr_Socket :: string
  gr_PathPHP :: "GoPathPHP list"
  gr_SSL :: bool
  gr_Hostnames :: "string list"
  gr_ProxyTarget :: string
  gr_Owner :: string
  gr_Perf :: PerfSettings

definition socketFor :: "GoRoute \<Rightarrow> string \<Rightarrow> string" where
  "socketFor route urlPath = (case find (\<lambda>pp. urlPath = pp_Prefix pp \<or> HasPrefix urlPath (pp_Prefix pp @ ''/'')) (gr_PathPHP route) of
     Some pp \<Rightarrow> pp_Socket pp | None \<Rightarrow> gr_Socket route)"

text \<open>The host: its file system, the identity of the panel, the system accounts (identity and home), the regular expressions,
  the environment, PHP-FPM, and the time of the request.\<close>

record WebEnv =
  w_fs :: fs
  w_panel :: Ident
  w_account :: "string \<Rightarrow> (Ident \<times> string) option"
  w_re :: Regexp
  w_getenv :: "string \<Rightarrow> string"
  w_fpm :: Peer
  w_now :: gotime

definition ht_env :: "WebEnv \<Rightarrow> HtEnv" where
  "ht_env w = \<lparr>he_re = w_re w, he_stat = (\<lambda>p. case os_Stat (w_panel w) (w_fs w) p of Inr (_, nd) \<Rightarrow> Some nd | Inl _ \<Rightarrow> None),
     he_read = (\<lambda>p. case os_Open (w_panel w) (w_fs w) p of Inr (_, nd) \<Rightarrow> (case n_kind nd of Reg content \<Rightarrow> Some content | _ \<Rightarrow> None) | Inl _ \<Rightarrow> None),
     he_getenv = w_getenv w\<rparr>"

definition ht_config :: "WebEnv \<Rightarrow> string \<Rightarrow> string \<Rightarrow> HtConfig" where
  "ht_config w root urlPath = htParseDir (ht_env w) root (ht_dir_for root urlPath)"

section \<open>Files as their owner\<close>

definition statAs :: "WebEnv \<Rightarrow> string \<Rightarrow> string \<Rightarrow> node option" where
  "statAs w owner p = (case w_account w owner of None \<Rightarrow> None
     | Some (who, _) \<Rightarrow> (case os_Stat who (w_fs w) p of Inl _ \<Rightarrow> None | Inr (_, nd) \<Rightarrow> Some nd))"

definition withinDir :: "WebEnv \<Rightarrow> string \<Rightarrow> string \<Rightarrow> bool" where
  "withinDir w real dir = (case EvalSymlinks (w_panel w) (w_fs w) dir of Inl _ \<Rightarrow> False | Inr d \<Rightarrow> \<not> escapes d real)"

datatype doc_error = DocAccount | DocNoHome | DocOs os_error | DocNotRegular | DocForbidden

text \<open>The handle is the real path of the open file.\<close>

definition openDocFile :: "WebEnv \<Rightarrow> string \<Rightarrow> string \<Rightarrow> doc_error + path \<times> node" where
  "openDocFile w owner file = (case w_account w owner of None \<Rightarrow> Inl DocAccount
   | Some (who, home) \<Rightarrow>
      if home = [] then Inl DocNoHome
      else case os_Open who (w_fs w) file of Inl e \<Rightarrow> Inl (DocOs e)
      | Inr (real, nd) \<Rightarrow>
         (case n_kind nd of
            Reg _ \<Rightarrow> if withinDir w (path_text real) home then Inr (real, nd) else Inl DocForbidden
          | _ \<Rightarrow> Inl DocNotRegular))"

section \<open>Replies\<close>

datatype Reply = RError int string | RNotFound | RRedirect string int | RLocation int string
  | RFile Header path string | RPage int Header string | RProxy string

definition path_Ext :: "string \<Rightarrow> string" where
  "path_Ext p = (let base = rev (takeWhile (\<lambda>c. c \<noteq> CHR ''/'') (rev p)) in
     if CHR ''.'' \<in> set base then CHR ''.'' # rev (takeWhile (\<lambda>c. c \<noteq> CHR ''.'') (rev base)) else [])"

definition staticCacheable :: "string \<Rightarrow> bool" where
  "staticCacheable name = (ToLower (path_Ext name) \<in> set [''.css'', ''.js'', ''.mjs'', ''.map'', ''.png'', ''.jpg'', ''.jpeg'', ''.gif'', ''.webp'', ''.avif'',
     ''.svg'', ''.ico'', ''.woff'', ''.woff2'', ''.ttf'', ''.otf'', ''.eot'', ''.mp4'', ''.webm'', ''.mp3'', ''.ogg'', ''.wav'', ''.pdf''])"

text \<open>The name of the open file is the last name of the path it was opened by.\<close>

definition serveDocFile :: "WebEnv \<Rightarrow> SiteRequest \<Rightarrow> GoRoute \<Rightarrow> string \<Rightarrow> Header \<Rightarrow> Reply" where
  "serveDocFile w r route file h =
    (if HasSuffix (uPath (rURL r)) ''/index.html'' then
       RLocation 301 (''./'' @ (if uRawQuery (rURL r) \<noteq> [] then ''?'' @ uRawQuery (rURL r) else []))
     else case openDocFile w (gr_Owner route) file of Inl _ \<Rightarrow> RNotFound
     | Inr (real, nd) \<Rightarrow>
        (let age = StaticMaxAge (gr_Perf route);
             h' = (if age > 0 \<and> h_Get h ''Cache-Control'' = [] \<and> staticCacheable (path_Base file)
               then h_Set ''Cache-Control'' (''public, max-age='' @ decimal_int age) h else h) in
         RFile h' real (case n_kind nd of Reg content \<Rightarrow> content | _ \<Rightarrow> [])))"

definition htGate :: "string \<Rightarrow> Reply option" where
  "htGate upath = (case find (\<lambda>seg. HasPrefix seg ''.'' \<and> seg \<noteq> ''.'' \<and> seg \<noteq> ''.well-known'') (Split (CHR ''/'') upath) of
     None \<Rightarrow> None
   | Some seg \<Rightarrow> Some (if HasPrefix seg ''.ht'' then RError 403 ''forbidden'' else RNotFound))"

section \<open>PHP\<close>

definition fcgi_params :: "SiteRequest \<Rightarrow> string \<Rightarrow> string \<Rightarrow> (string \<times> string) list" where
  "fcgi_params r scriptFile scriptName =
    [(''GATEWAY_INTERFACE'', ''CGI/1.1''), (''SERVER_SOFTWARE'', ''aegis-go''), (''SERVER_NAME'', host_name (rHost r)),
     (''SERVER_PORT'', case SplitPort (rHost r) of Some p \<Rightarrow> p | None \<Rightarrow> ''80''), (''SERVER_PROTOCOL'', rProto r), (''REQUEST_METHOD'', rMethod r)] @
    (case rOrigURI r of Some orig \<Rightarrow> [(''REQUEST_URI'', orig), (''REDIRECT_URL'', takeWhile (\<lambda>c. c \<noteq> CHR ''?'') orig)]
     | None \<Rightarrow> [(''REQUEST_URI'', RequestURI (rURL r))]) @
    [(''SCRIPT_NAME'', scriptName), (''SCRIPT_FILENAME'', scriptFile), (''DOCUMENT_ROOT'', path_Dir scriptFile), (''QUERY_STRING'', uRawQuery (rURL r)),
     (''REMOTE_ADDR'', remoteIP r), (''REMOTE_PORT'', rRemoteAddr r), (''CONTENT_TYPE'', h_Get (rHeader r) ''Content-Type''),
     (''CONTENT_LENGTH'', decimal_int (rContentLength r))] @
    (if rTLS r then [(''HTTPS'', ''on'')] else []) @
    concat (map (\<lambda>(k, vs). map (\<lambda>v. (''HTTP_'' @ ToUpper (map (\<lambda>c. if c = CHR ''-'' then CHR ''_'' else c) k), v)) vs) (rHeader r))"

definition fcgiExec :: "WebEnv \<Rightarrow> string \<Rightarrow> SiteRequest \<Rightarrow> string \<Rightarrow> string \<Rightarrow> fcgi_error + int \<times> Header \<times> string \<times> string" where
  "fcgiExec w socket r scriptFile scriptName = (case fcgiRequest (w_fpm w) socket (fcgi_params r scriptFile scriptName) (rBody r) of
     Inl e \<Rightarrow> Inl e
   | Inr res \<Rightarrow> (case parseCGIResponse (res_Stdout res) (res_Status res) of
        (status, headers, body) \<Rightarrow> Inr (status, headers, body, res_Stderr res)))"

definition truncate_text :: "string \<Rightarrow> nat \<Rightarrow> string" where
  "truncate_text s n = (if length s \<le> n then s else take n s @ ''...'')"

section \<open>A request to a site\<close>

text \<open>The request after an internal rewrite.\<close>

definition rewritten :: "SiteRequest \<Rightarrow> htOutcome \<Rightarrow> SiteRequest" where
  "rewritten r out = r\<lparr>rURL := (rURL r)\<lparr>uPath := Clean (''/'' @ out_Path out), uRawQuery := out_Query out\<rparr>, rOrigURI := Some (RequestURI (rURL r))\<rparr>"

definition php_name :: "HtConfig \<Rightarrow> string \<Rightarrow> bool" where
  "php_name cfg name \<longleftrightarrow> HasSuffix name ''.php'' \<or> list_ex (\<lambda>e. EqualFold e (TrimPrefix (path_Ext name) ''.'')) (hc_PHPExtensions cfg)"

text \<open>Whether the path itself is a script: as above, but a path with no extension never is.\<close>

definition php_path :: "HtConfig \<Rightarrow> string \<Rightarrow> bool" where
  "php_path cfg upath \<longleftrightarrow> HasSuffix upath ''.php'' \<or>
     (TrimPrefix (path_Ext upath) ''.'' \<noteq> [] \<and> list_ex (\<lambda>e. EqualFold e (TrimPrefix (path_Ext upath) ''.'')) (hc_PHPExtensions cfg))"

text \<open>The search for an index file: nothing found, a static one, or a script.\<close>

datatype index_result = NoIndex | StaticIndex string | PhpIndex string node

fun find_index :: "WebEnv \<Rightarrow> GoRoute \<Rightarrow> HtConfig \<Rightarrow> string \<Rightarrow> string \<Rightarrow> string list \<Rightarrow> index_result" where
  "find_index w route cfg upath fsPath [] = NoIndex"
| "find_index w route cfg upath fsPath (name # names) =
    (let ip = filepath_Join [fsPath, Clean (''/'' @ name)] in
     case statAs w (gr_Owner route) ip of None \<Rightarrow> find_index w route cfg upath fsPath names
     | Some st \<Rightarrow> if n_kind st = Dir then find_index w route cfg upath fsPath names
         else if php_name cfg name \<and> socketFor route upath \<noteq> [] then PhpIndex ip st
         else StaticIndex ip)"

text \<open>A script through the page cache and PHP-FPM.\<close>

definition answer_of :: "pageCacheEntry \<Rightarrow> gotime \<Rightarrow> Header \<Rightarrow> Reply" where
  "answer_of e now h = RPage (pe_status e)
     (h_Set ''Age'' (decimal_int ((now - pe_stored e) div nanos)) (h_Set ''X-Aegis-Cache'' ''HIT'' (h_copy (pe_header e) h))) (pe_body e)"

definition run_script :: "WebEnv \<Rightarrow> SiteRequest \<Rightarrow> GoRoute \<Rightarrow> HtConfig \<Rightarrow> string \<Rightarrow> string \<Rightarrow> string option \<Rightarrow> string \<Rightarrow> Header \<Rightarrow> PageCache \<Rightarrow> Reply \<times> PageCache" where
  "run_script w r route cfg scriptFile scriptName ckey cacheState h c =
    (let sock = socketFor route scriptName in
     if sock = [] then (RNotFound, c)
     else case fcgiExec w sock r scriptFile scriptName of Inl _ \<Rightarrow> (RError 502 ''upstream error'', c)
     | Inr (status, headers, body, stderr) \<Rightarrow>
        (let h1 = h_copy headers h;
             h2 = (if stderr \<noteq> [] then h_Set ''X-Aegis-Php-Error'' (truncate_text stderr 500) h1 else h1);
             h3 = htApplyHeaders (w_re w) (hc_Headers cfg) h2;
             ttl = (if PageCacheTTL (gr_Perf route) \<le> 0 then DefaultPageCacheTTL else PageCacheTTL (gr_Perf route));
             c' = (case ckey of None \<Rightarrow> c
               | Some key \<Rightarrow> if stderr = [] \<and> cacheableResponse status h3 body then Put (w_now w) (gr_Domain route) key status h3 body (seconds ttl) c else c);
             h4 = (if cacheState \<noteq> [] then h_Set ''X-Aegis-Cache'' cacheState h3 else h3)
         in (RPage status h4 body, c')))"

definition servePHP :: "WebEnv \<Rightarrow> SiteRequest \<Rightarrow> GoRoute \<Rightarrow> string \<Rightarrow> string \<Rightarrow> Header \<Rightarrow> PageCache \<Rightarrow> Reply \<times> PageCache" where
  "servePHP w r route upath scriptFile h c =
    (let root = gr_Root route;
         scriptName = (case Rel root scriptFile of Some rel \<Rightarrow> ''/'' @ rel | None \<Rightarrow> ''/index.php'');
         cfg = ht_config w root upath;
         r1 = (if hc_RequestHeaders cfg \<noteq> [] then r\<lparr>rHeader := htApplyHeaders (w_re w) (hc_RequestHeaders cfg) (rHeader r)\<rparr> else r) in
     if \<not> PageCacheOn (gr_Perf route) then run_script w r1 route cfg scriptFile scriptName None [] h c
     else if \<not> cacheableRequest r1 then run_script w r1 route cfg scriptFile scriptName None ''BYPASS'' h c
     else case Get (w_now w) (gr_Domain route) (cacheKey r1) c of
         (Some e, c1) \<Rightarrow> (answer_of e (w_now w) h, c1)
       | (None, c1) \<Rightarrow> run_script w r1 route cfg scriptFile scriptName (Some (cacheKey r1)) ''MISS'' h c1)"

text \<open>After the rewrite: the file, the directory, or the script behind the path. \<open>slash\<close> tells whether the browser's path
  ended in a slash.\<close>

definition servePath :: "WebEnv \<Rightarrow> bool \<Rightarrow> SiteRequest \<Rightarrow> GoRoute \<Rightarrow> string \<Rightarrow> Header \<Rightarrow> PageCache \<Rightarrow> Reply \<times> PageCache" where
  "servePath w slash r route upath h c =
    (let root = gr_Root route; fsPath = filepath_Join [root, upath] in
     if (case Rel root fsPath of None \<Rightarrow> True | Some rel \<Rightarrow> HasPrefix rel ''..'') then (RError 403 ''forbidden'', c)
     else
       let cfg = ht_config w root upath; info = statAs w (gr_Owner route) fsPath;
           is_dir = (case info of Some nd \<Rightarrow> n_kind nd = Dir | None \<Rightarrow> False);
           is_file = (case info of Some nd \<Rightarrow> n_kind nd \<noteq> Dir | None \<Rightarrow> False);
           query = uRawQuery (rURL r);
           no_php = (\<lambda>file found. if found then (serveDocFile w r route file (htApplyHeaders (w_re w) (hc_Headers cfg) h), c) else (RNotFound, c)) in
       if is_dir \<and> \<not> slash \<and> \<not> hc_DirectorySlashOff cfg then
         (RLocation 301 (path_Base upath @ ''/'' @ (if query \<noteq> [] then ''?'' @ query else [])), c)
       else if is_file \<and> \<not> php_path cfg upath then
         (serveDocFile w r route fsPath (htApplyHeaders (w_re w) (hc_Headers cfg) h), c)
       else case (if is_dir then find_index w route cfg upath fsPath
             (if hc_DirectoryIndex cfg = [] then [''index.php'', ''index.html'', ''index.htm''] else hc_DirectoryIndex cfg) else NoIndex) of
         StaticIndex ip \<Rightarrow> (serveDocFile w r route ip (htApplyHeaders (w_re w) (hc_Headers cfg) h), c)
       | PhpIndex ip st \<Rightarrow> if socketFor route upath = [] then no_php ip True else servePHP w r route upath ip h c
       | NoIndex \<Rightarrow>
           if socketFor route upath = [] then no_php fsPath is_file
           else servePHP w r route upath (if is_file then fsPath else filepath_Join [root, ''index.php'']) h c)"

definition serveGoRoute :: "WebEnv \<Rightarrow> SiteRequest \<Rightarrow> GoRoute \<Rightarrow> Header \<Rightarrow> PageCache \<Rightarrow> Reply \<times> PageCache" where
  "serveGoRoute w r route h c =
    (if gr_ProxyTarget route \<noteq> [] then (RProxy (gr_ProxyTarget route), c)
     else
       let root = gr_Root route; slash = HasSuffix (uPath (rURL r)) ''/''; upath = Clean (''/'' @ uPath (rURL r)) in
       case htGate upath of Some reply \<Rightarrow> (reply, c)
       | None \<Rightarrow>
          (let out = htEngine (ht_env w) (ht_config w root upath) r root upath (uRawQuery (rURL r)) in
           if out_Status out = 403 then (RError 403 ''Forbidden'', c)
           else if out_Status out = 410 then (RError 410 ''Gone'', c)
           else if out_Redirect out \<noteq> [] then (RRedirect (out_Redirect out) (out_Status out), c)
           else if out_Path out \<noteq> [] then servePath w slash (rewritten r out) route (Clean (''/'' @ out_Path out)) h c
           else servePath w slash r route upath h c))"

text \<open>\<open>GoHandler\<close>: the route of the host named in the request.\<close>

definition GoHandler :: "WebEnv \<Rightarrow> (string \<rightharpoonup> GoRoute) \<Rightarrow> SiteRequest \<Rightarrow> Header \<Rightarrow> PageCache \<Rightarrow> Reply \<times> PageCache" where
  "GoHandler w routes r h c = (case routes (ToLower (host_name (rHost r))) of None \<Rightarrow> (RNotFound, c)
     | Some route \<Rightarrow> serveGoRoute w r route h c)"

end
