(* ===== verification/Fastcgi_Theorems.thy ===== *)
theory Fastcgi_Theorems
  imports Fastcgi
begin

text \<open>
  What the FastCGI client sends is understood by a responder that follows the protocol, and what a responder answers is read
  back exactly, however the streams are cut into records.
\<close>

section \<open>Records\<close>

lemma small_ids [simp]: "reqID < 65536" "fcgiBeginRequest < 256" "fcgiBeginRequest \<noteq> 4" "fcgiBeginRequest \<noteq> 5"
  by (simp_all add: reqID_def fcgiBeginRequest_def)

lemma char_of_of_char_id [simp]: "of_char (char_of n :: char) = n mod (256 :: nat)"
  by (simp add: of_char_of)

lemma nth_take_hdr: "fcgi_hdr t i n pad ! 0 = char_of (1 :: nat)" "fcgi_hdr t i n pad ! 1 = char_of t" "fcgi_hdr t i n pad ! 2 = char_of (i div 256)"
  "fcgi_hdr t i n pad ! 3 = char_of i" "fcgi_hdr t i n pad ! 4 = char_of (n div 256)" "fcgi_hdr t i n pad ! 5 = char_of n" "fcgi_hdr t i n pad ! 6 = char_of pad"
  "length (fcgi_hdr t i n pad) = 8"
  by (simp_all add: fcgi_hdr_def)

lemma ReadFull_append [simp]: "length a = n \<Longrightarrow> ReadFull n (a @ b) = Some (a, b)"
  by (simp add: ReadFull_def)

text \<open>A record as it is put on the wire, and reading it back.\<close>

lemma fcgiRead_record:
  assumes "t < 256" "i < 65536" "n < 65536" "pad < 256" "length content = n" "length padding = pad"
  shows "fcgiRead (fcgi_hdr t i n pad @ content @ padding @ rest) = Inr (\<lparr>fr_Type = t, fr_ReqID = i, fr_Content = content\<rparr>, rest)"
proof -
  have b: "byte_at (fcgi_hdr t i n pad) 0 = 1" "byte_at (fcgi_hdr t i n pad) 1 = t"
    "byte_at (fcgi_hdr t i n pad) 2 * 256 + byte_at (fcgi_hdr t i n pad) 3 = i"
    "byte_at (fcgi_hdr t i n pad) 4 * 256 + byte_at (fcgi_hdr t i n pad) 5 = n" "byte_at (fcgi_hdr t i n pad) 6 = pad"
    using assms(1-4) by (simp_all add: byte_at_def nth_take_hdr del: One_nat_def)
  have "ReadFull 8 (fcgi_hdr t i n pad @ content @ padding @ rest) = Some (fcgi_hdr t i n pad, content @ padding @ rest)"
    by (rule ReadFull_append) (rule nth_take_hdr)
  then show ?thesis using assms(5,6) unfolding fcgiRead_def by (simp add: b Let_def del: One_nat_def)
qed

text \<open>Reading records off the front of a stream, until one satisfies \<open>stop\<close>; what a stream of one kind carries.\<close>

lemma fcgiRead_empty:
  assumes "t < 256"
  shows "fcgiRead (fcgiWrite t reqID [] @ rest) = Inr (\<lparr>fr_Type = t, fr_ReqID = reqID, fr_Content = []\<rparr>, rest)"
  using fcgiRead_record [of t reqID 0 0 "[]" "[]" rest] assms by (simp add: fcgiWrite_def)

lemma chunks_step:
  assumes "content \<noteq> []" "t < 256"
  shows "\<exists>n. 0 < n \<and> n \<le> length content \<and>
    fcgiRead (fcgi_chunks t reqID content @ rest) = Inr (\<lparr>fr_Type = t, fr_ReqID = reqID, fr_Content = take n content\<rparr>, fcgi_chunks t reqID (drop n content) @ rest)"
proof -
  let ?n = "min (length content) fcgiMaxContent" and ?pad = "(8 - min (length content) fcgiMaxContent mod 8) mod 8"
  have "fcgi_chunks t reqID content = fcgi_hdr t reqID ?n ?pad @ take ?n content @ replicate ?pad (char_of (0 :: nat)) @ fcgi_chunks t reqID (drop ?n content)"
    using assms(1) by (subst fcgi_chunks.simps) (simp add: Let_def)
  then have "fcgiRead (fcgi_chunks t reqID content @ rest) =
      Inr (\<lparr>fr_Type = t, fr_ReqID = reqID, fr_Content = take ?n content\<rparr>, fcgi_chunks t reqID (drop ?n content) @ rest)"
    using fcgiRead_record [of t reqID ?n ?pad "take ?n content" "replicate ?pad (char_of (0 :: nat))" "fcgi_chunks t reqID (drop ?n content) @ rest"] assms(2)
    by (simp add: min_def)
  moreover have "0 < ?n" using assms(1) by (simp add: min_def)
  ultimately show ?thesis by (intro exI [of _ ?n]) simp
qed

section \<open>A responder\<close>

text \<open>The other side, written down from the FastCGI specification and not from the client. A record is eight bytes of header (version
  1, type, request id, length of the content, length of the padding, a reserved byte), the content and the padding. A stream is a
  sequence of records of its type and request id that ends with an empty one.\<close>

fun wire_record :: "string \<Rightarrow> ((nat \<times> nat \<times> string) \<times> string) option" where
  "wire_record (v # t # i1 # i0 # n1 # n0 # p # r # s) =
    (let n = 256 * of_char n1 + of_char n0; k = of_char p in
     if (of_char v :: nat) = 1 \<and> n + k \<le> length s then Some ((of_char t, 256 * of_char i1 + of_char i0, take n s), drop (n + k) s) else None)"
| "wire_record _ = None"

lemma wire_record_shorter: "wire_record s = Some (x, s') \<Longrightarrow> length s' < length s"
  by (cases s rule: wire_record.cases) (auto simp: Let_def split: if_splits)

function read_stream :: "nat \<Rightarrow> nat \<Rightarrow> string \<Rightarrow> (string \<times> string) option" where
  "read_stream t i s = (case wire_record s of None \<Rightarrow> None
   | Some ((t', i', c), s') \<Rightarrow> if t' \<noteq> t \<or> i' \<noteq> i then None
       else if c = [] then Some ([], s') else map_option (\<lambda>(d, rest). (c @ d, rest)) (read_stream t i s'))"
  by pat_completeness auto
termination by (relation "measure (\<lambda>(_, _, s). length s)") (auto dest: wire_record_shorter)

declare read_stream.simps [simp del]

definition read_len :: "string \<Rightarrow> (nat \<times> string) option" where
  "read_len s = (case s of [] \<Rightarrow> None
   | c # s1 \<Rightarrow> if (of_char c :: nat) < 128 then Some (of_char c, s1)
       else if length s1 < 3 then None
       else Some ((of_char c - 128) * 2 ^ 24 + byte_at s1 0 * 2 ^ 16 + byte_at s1 1 * 2 ^ 8 + byte_at s1 2, drop 3 s1))"

definition read_pair :: "string \<Rightarrow> ((string \<times> string) \<times> string) option" where
  "read_pair s = Option.bind (read_len s) (\<lambda>(nl, s1). Option.bind (read_len s1) (\<lambda>(vl, s2).
     if length s2 < nl + vl then None else Some ((take nl s2, take vl (drop nl s2)), drop (nl + vl) s2)))"

lemma read_len_shorter: "read_len s = Some (n, s') \<Longrightarrow> length s' < length s"
  by (auto simp: read_len_def split: list.splits if_splits)

lemma read_pair_shorter: "read_pair s = Some (p, s') \<Longrightarrow> length s' < length s"
  by (auto simp: read_pair_def Option.bind_eq_Some_conv split: if_splits dest!: read_len_shorter)

function decode_params :: "string \<Rightarrow> (string \<times> string) list option" where
  "decode_params s = (if s = [] then Some [] else case read_pair s of None \<Rightarrow> None
     | Some (p, s') \<Rightarrow> map_option ((#) p) (decode_params s'))"
  by pat_completeness auto
termination by (relation "measure length") (auto dest!: read_pair_shorter)

declare decode_params.simps [simp del]

text \<open>The first record must begin a request (type 1) with an id other than 0, in the role of a responder (the first two bytes of its
  eight); the third byte says whether the connection is kept. Then come the stream of parameters (type 4) and the stream of
  the standard input (type 5) of that request. Anything else is refused. What the responder takes in: whether to keep the
  connection, the parameters and the input; and the bytes it has not read.\<close>

definition responder :: "string \<Rightarrow> (bool \<times> (string \<times> string) list \<times> string \<times> string) option" where
  "responder s = Option.bind (wire_record s) (\<lambda>((t, i, c), s1).
     if t \<noteq> 1 \<or> i = 0 \<or> length c \<noteq> 8 \<or> 256 * byte_at c 0 + byte_at c 1 \<noteq> 1 then None
     else Option.bind (read_stream 4 i s1) (\<lambda>(ps, s2). Option.bind (read_stream 5 i s2) (\<lambda>(inp, s3).
       map_option (\<lambda>params. (odd (byte_at c 2), params, inp, s3)) (decode_params ps))))"

section \<open>The request is understood\<close>

lemma read_write_len:
  assumes "l < 2 ^ 31"
  shows "read_len (write_len l @ rest) = Some (l, rest)"
proof (cases "l < 128")
  case True
  then show ?thesis by (simp add: read_len_def write_len_def)
next
  case False
  have d: "l div 2 ^ 24 mod 128 = l div 2 ^ 24" using assms by (simp add: less_mult_imp_div_less)
  have "l div 256 = l div 256 div 256 * 256 + l div 256 mod 256"
    "l div 256 div 256 = l div 256 div 256 div 256 * 256 + l div 256 div 256 mod 256" by simp_all
  then have "l div 256 = l div 65536 * 256 + l div 256 mod 256" "l div 65536 = l div 16777216 * 256 + l div 65536 mod 256"
    by (simp_all add: div_mult2_eq [symmetric])
  moreover have "l = l div 256 * 256 + l mod 256" by simp
  ultimately have "l = l div 16777216 * 16777216 + l div 65536 mod 256 * 65536 + l div 256 mod 256 * 256 + l mod 256" by linarith
  moreover have "(l div 16777216 + 128) mod 256 = l div 16777216 + 128" using assms by (simp add: less_mult_imp_div_less)
  ultimately show ?thesis using False d by (simp add: read_len_def write_len_def byte_at_def)
qed

lemma decode_encode:
  assumes "\<forall>(k, v)\<in>set params. length k < 2 ^ 31 \<and> length v < 2 ^ 31"
  shows "decode_params (concat (map (\<lambda>(k, v). fcgiEncodeParam k v) params)) = Some params"
  using assms
proof (induction params)
  case Nil
  show ?case by (simp add: decode_params.simps)
next
  case (Cons p params)
  obtain k v where p: "p = (k, v)" by fastforce
  let ?rest = "concat (map (\<lambda>(k, v). fcgiEncodeParam k v) params)"
  have "read_pair (fcgiEncodeParam k v @ ?rest) = Some ((k, v), ?rest)"
    using Cons.prems p by (simp add: fcgiEncodeParam_def read_pair_def read_write_len)
  moreover have "fcgiEncodeParam k v @ ?rest \<noteq> []" by (simp add: fcgiEncodeParam_def write_len_def)
  ultimately show ?case using Cons p by (simp add: decode_params.simps [of "fcgiEncodeParam k v @ ?rest"])
qed

lemma wire_hdr:
  assumes "t < 256" "i < 65536" "length content < 65536" "length padding < 256"
  shows "wire_record (fcgi_hdr t i (length content) (length padding) @ content @ padding @ rest) = Some ((t, i, content), rest)"
  using assms by (simp add: fcgi_hdr_def Let_def)

lemma chunks_form:
  assumes "content \<noteq> []"
  shows "\<exists>n padding. 0 < n \<and> n \<le> length content \<and> n < 65536 \<and> length padding < 256 \<and>
    fcgi_chunks t i content = fcgi_hdr t i (length (take n content)) (length padding) @ take n content @ padding @ fcgi_chunks t i (drop n content)"
proof -
  let ?n = "min (length content) fcgiMaxContent"
  let ?p = "replicate ((8 - ?n mod 8) mod 8) (char_of (0 :: nat) :: char)"
  have "fcgi_chunks t i content = fcgi_hdr t i (length (take ?n content)) (length ?p) @ take ?n content @ ?p @ fcgi_chunks t i (drop ?n content)"
    using assms by (subst fcgi_chunks.simps) (simp add: Let_def)
  moreover have "0 < ?n" "?n \<le> length content" "?n < 65536" "length ?p < 256" using assms by auto
  ultimately show ?thesis by blast
qed

lemma read_stream_chunks:
  assumes "t < 256" "i < 65536"
  shows "read_stream t i (fcgi_chunks t i content @ rest) = map_option (\<lambda>(d, r). (content @ d, r)) (read_stream t i rest)"
proof (induction "length content" arbitrary: content rule: less_induct)
  case less
  show ?case
  proof (cases "content = []")
    case True
    then show ?thesis by (simp add: fcgi_chunks.simps [of _ _ "[]"] option.map_id)
  next
    case False
    from chunks_form [OF False, of t i] obtain n padding where n: "0 < n" "n \<le> length content" "n < 65536" "length padding < 256"
        "fcgi_chunks t i content = fcgi_hdr t i (length (take n content)) (length padding) @ take n content @ padding @ fcgi_chunks t i (drop n content)"
      by blast
    have "wire_record (fcgi_chunks t i content @ rest) = Some ((t, i, take n content), fcgi_chunks t i (drop n content) @ rest)"
      using wire_hdr [OF assms, of "take n content" padding "fcgi_chunks t i (drop n content) @ rest"] n by simp
    moreover have "take n content \<noteq> []" using n(1) False by simp
    moreover have "read_stream t i (fcgi_chunks t i (drop n content) @ rest) = map_option (\<lambda>(d, r). (drop n content @ d, r)) (read_stream t i rest)"
      using less [of "drop n content"] n(1) False by simp
    ultimately show ?thesis
      by (subst read_stream.simps) (cases "read_stream t i rest"; auto simp flip: append_assoc)
  qed
qed

lemma read_stream_end:
  assumes "t < 256" "i < 65536"
  shows "read_stream t i (fcgiWrite t i [] @ rest) = Some ([], rest)"
  using wire_hdr [OF assms, of "[]" "[]" rest] by (subst read_stream.simps) (simp add: fcgiWrite_def)

lemma read_stream_written:
  assumes "t < 256" "i < 65536" "content \<noteq> []"
  shows "read_stream t i (fcgiWrite t i content @ fcgiWrite t i [] @ rest) = Some (content, rest)"
  using read_stream_chunks [OF assms(1,2)] read_stream_end [OF assms(1,2)] assms(3) by (simp add: fcgiWrite_def)

lemma begin_read: "wire_record (fcgiWrite fcgiBeginRequest reqID begin_body @ rest) = Some ((1, 1, begin_body), rest)"
proof -
  have "fcgiWrite fcgiBeginRequest reqID begin_body = fcgi_hdr 1 1 (length begin_body) (length ([] :: string)) @ begin_body @ []"
    by (simp add: fcgiWrite_def fcgi_chunks.simps [of _ _ begin_body] fcgi_chunks.simps [of _ _ "[]"] Let_def)
      (simp add: begin_body_def fcgiBeginRequest_def reqID_def fcgi_chunks.simps [of _ _ "[]"])
  then show ?thesis using wire_hdr [of 1 1 begin_body "[]" rest] by (simp add: begin_body_def)
qed

text \<open>C30: Whatever the parameters (at least one, as every request of the site server has) and the body of a request are, a responder
  that follows the FastCGI specification accepts the bytes the client sends: it finds a request for a responder that
  does not ask to keep the connection, exactly these parameters, in order, and exactly this body, also when they fill many records,
  both streams properly ended. All bytes belong to the request, except that an empty body is ended twice.\<close>

theorem fcgi_request_understood:
  assumes "params \<noteq> []" "\<forall>(k, v)\<in>set params. length k < 2 ^ 31 \<and> length v < 2 ^ 31"
  shows "responder (request_bytes params body) =
    Some (False, params, body, if body = [] then map char_of [1, 5, 0, 1, 0, 0, 0, 0 :: nat] else [])"
proof -
  let ?ps = "concat (map (\<lambda>(k, v). fcgiEncodeParam k v) params)"
  let ?in = "fcgiWrite 5 1 body @ fcgiWrite 5 1 []"
  have "fcgiEncodeParam k v \<noteq> []" for k v by (simp add: fcgiEncodeParam_def write_len_def)
  then have "?ps \<noteq> []" using assms(1) by (cases params) auto
  then have p: "read_stream 4 1 (fcgiWrite 4 1 ?ps @ fcgiWrite 4 1 [] @ ?in) = Some (?ps, ?in)" by (intro read_stream_written) simp_all
  have e: "fcgiWrite 5 1 [] = map char_of [1, 5, 0, 1, 0, 0, 0, 0 :: nat]" by (simp add: fcgiWrite_def fcgi_hdr_def)
  have b: "read_stream 5 1 ?in = Some (body, if body = [] then map char_of [1, 5, 0, 1, 0, 0, 0, 0 :: nat] else [])"
    using read_stream_written [of 5 1 body "[]"] read_stream_end [of 5 1 "fcgiWrite 5 1 []"] e by (cases "body = []") simp_all
  have r: "request_bytes params body = fcgiWrite fcgiBeginRequest reqID begin_body @ fcgiWrite 4 1 ?ps @ fcgiWrite 4 1 [] @ ?in"
    by (simp add: request_bytes_def reqID_def)
  show ?thesis unfolding responder_def r begin_read
    using p b decode_encode [OF assms(2)] by (simp add: begin_body_def byte_at_def)
qed

theorem fcgi_request_understood_witness:
  "responder (request_bytes [(''SCRIPT_FILENAME'', ''/home/a/index.php''), (''QUERY_STRING'', replicate 200 (CHR ''q''))] ''a=1'') =
     Some (False, [(''SCRIPT_FILENAME'', ''/home/a/index.php''), (''QUERY_STRING'', replicate 200 (CHR ''q''))], ''a=1'', [])"
  using fcgi_request_understood [of "[(''SCRIPT_FILENAME'', ''/home/a/index.php''), (''QUERY_STRING'', replicate 200 (CHR ''q''))]" "''a=1''"] by simp

section \<open>The reply is read\<close>

text \<open>A reply: pieces of standard output (\<open>False\<close>) and standard error (\<open>True\<close>) in any order, then the end record.\<close>

definition end_body :: "nat \<Rightarrow> string" where
  "end_body app = map char_of [app div 2 ^ 24, app div 2 ^ 16, app div 2 ^ 8, app, 0, 0, 0, 0]"

definition reply_bytes :: "(bool \<times> string) list \<Rightarrow> nat \<Rightarrow> string" where
  "reply_bytes pieces app = concat (map (\<lambda>(e, c). fcgiWrite (if e then fcgiStderr else fcgiStdout) reqID c) pieces) @ fcgiWrite fcgiEndRequest reqID (end_body app)"

definition stream :: "bool \<Rightarrow> (bool \<times> string) list \<Rightarrow> string" where
  "stream e pieces = concat (map snd (filter (\<lambda>p. fst p = e) pieces))"

lemma read_chunks:
  "read_reply out err (fcgi_chunks fcgiStdout reqID content @ rest) = read_reply (out @ content) err rest"
  "read_reply out err (fcgi_chunks fcgiStderr reqID content @ rest) = read_reply out (err @ content) rest"
proof -
  show "read_reply out err (fcgi_chunks fcgiStdout reqID content @ rest) = read_reply (out @ content) err rest"
  proof (induction "length content" arbitrary: content out rule: less_induct)
    case less
    show ?case
    proof (cases "content = []")
      case False
      obtain n where "0 < n" "n \<le> length content" "fcgiRead (fcgi_chunks fcgiStdout reqID content @ rest) =
          Inr (\<lparr>fr_Type = fcgiStdout, fr_ReqID = reqID, fr_Content = take n content\<rparr>, fcgi_chunks fcgiStdout reqID (drop n content) @ rest)"
        using chunks_step [OF False, of fcgiStdout] by auto
      with less [of "drop n content" "out @ take n content"] show ?thesis by (subst read_reply.simps) simp
    qed (simp add: fcgi_chunks.simps)
  qed
  show "read_reply out err (fcgi_chunks fcgiStderr reqID content @ rest) = read_reply out (err @ content) rest"
  proof (induction "length content" arbitrary: content err rule: less_induct)
    case less
    show ?case
    proof (cases "content = []")
      case False
      obtain n where "0 < n" "n \<le> length content" "fcgiRead (fcgi_chunks fcgiStderr reqID content @ rest) =
          Inr (\<lparr>fr_Type = fcgiStderr, fr_ReqID = reqID, fr_Content = take n content\<rparr>, fcgi_chunks fcgiStderr reqID (drop n content) @ rest)"
        using chunks_step [OF False, of fcgiStderr] by auto
      with less [of "drop n content" "err @ take n content"] show ?thesis by (subst read_reply.simps) simp
    qed (simp add: fcgi_chunks.simps)
  qed
qed

lemma read_write:
  "read_reply out err (fcgiWrite fcgiStdout reqID content @ rest) = read_reply (out @ content) err rest"
  "read_reply out err (fcgiWrite fcgiStderr reqID content @ rest) = read_reply out (err @ content) rest"
proof -
  show "read_reply out err (fcgiWrite fcgiStdout reqID content @ rest) = read_reply (out @ content) err rest"
  proof (cases "content = []")
    case True
    then show ?thesis using fcgiRead_empty [of fcgiStdout rest] by (subst read_reply.simps) simp
  qed (simp add: fcgiWrite_def read_chunks)
  show "read_reply out err (fcgiWrite fcgiStderr reqID content @ rest) = read_reply out (err @ content) rest"
  proof (cases "content = []")
    case True
    then show ?thesis using fcgiRead_empty [of fcgiStderr rest] by (subst read_reply.simps) simp
  qed (simp add: fcgiWrite_def read_chunks)
qed

lemma read_pieces:
  "read_reply out err (concat (map (\<lambda>(e, c). fcgiWrite (if e then fcgiStderr else fcgiStdout) reqID c) pieces) @ rest) =
     read_reply (out @ stream False pieces) (err @ stream True pieces) rest"
proof (induction pieces arbitrary: out err)
  case (Cons p pieces)
  then show ?case by (cases p) (auto simp: read_write stream_def)
qed (simp add: stream_def)

lemma read_end:
  assumes "app < 2 ^ 32"
  shows "read_reply out err (fcgiWrite fcgiEndRequest reqID (end_body app)) =
    Inr \<lparr>res_Status = (if app \<noteq> 0 then 500 else 200), res_AppStatus = app, res_Stdout = out, res_Stderr = err\<rparr>"
proof -
  have l: "length (end_body app) = 8" "end_body app \<noteq> []" by (simp_all add: end_body_def)
  then have "fcgiWrite fcgiEndRequest reqID (end_body app) = fcgi_hdr fcgiEndRequest reqID 8 0 @ end_body app @ [] @ []"
    using l by (simp add: fcgiWrite_def fcgi_chunks.simps [of _ _ "end_body app"] fcgi_chunks.simps [of _ _ "[]"])
  then have r: "fcgiRead (fcgiWrite fcgiEndRequest reqID (end_body app)) = Inr (\<lparr>fr_Type = fcgiEndRequest, fr_ReqID = reqID, fr_Content = end_body app\<rparr>, [])"
    using fcgiRead_record [of fcgiEndRequest reqID 8 0 "end_body app" "[]" "[]"] by (simp add: end_body_def)
  have "app div 256 = app div 256 div 256 * 256 + app div 256 mod 256"
    "app div 256 div 256 = app div 256 div 256 div 256 * 256 + app div 256 div 256 mod 256" by simp_all
  then have "app div 256 = app div 65536 * 256 + app div 256 mod 256" "app div 65536 = app div 16777216 * 256 + app div 65536 mod 256"
    by (simp_all add: div_mult2_eq [symmetric])
  moreover have "app = app div 256 * 256 + app mod 256" by simp
  ultimately have "app = app div 16777216 * 16777216 + app div 65536 mod 256 * 65536 + app div 256 mod 256 * 256 + app mod 256" by linarith
  moreover have "app div 16777216 mod 256 = app div 16777216" using assms by (simp add: less_mult_imp_div_less)
  ultimately have "byte_at (end_body app) 0 * 2 ^ 24 + byte_at (end_body app) 1 * 2 ^ 16 + byte_at (end_body app) 2 * 2 ^ 8 + byte_at (end_body app) 3 = app"
    by (simp add: byte_at_def end_body_def)
  moreover have "length (end_body app) = 8" by (simp add: end_body_def)
  ultimately show ?thesis by (subst read_reply.simps) (simp add: r)
qed

text \<open>Reading does not depend on bytes that have not arrived: more input never changes a record already complete.\<close>

lemma ReadFull_more: "ReadFull n s = Some (a, b) \<Longrightarrow> ReadFull n (s @ t) = Some (a, b @ t)"
  by (auto simp: ReadFull_def split: if_splits)

lemma fcgiRead_more:
  assumes "fcgiRead (s @ t) = Inr (r, u)"
  shows "fcgiRead s = Inl FcgiEOF \<or> (\<exists>s'. fcgiRead s = Inr (r, s') \<and> u = s' @ t)"
proof (cases "ReadFull 8 s")
  case None
  then show ?thesis by (simp add: fcgiRead_def)
next
  case (Some p)
  then obtain hdr s1 where 1: "ReadFull 8 s = Some (hdr, s1)" by (cases p) auto
  note m1 = ReadFull_more [OF 1, of t]
  have v: "byte_at hdr 0 = 1" using assms m1 by (auto simp: fcgiRead_def split: if_splits)
  let ?n = "byte_at hdr 4 * 256 + byte_at hdr 5"
  show ?thesis
  proof (cases "ReadFull ?n s1")
    case None
    then show ?thesis using 1 v by (simp add: fcgiRead_def Let_def)
  next
    case (Some q)
    then obtain content s2 where 2: "ReadFull ?n s1 = Some (content, s2)" by (cases q) auto
    note m2 = ReadFull_more [OF 2, of t]
    show ?thesis
    proof (cases "ReadFull (byte_at hdr 6) s2")
      case None
      then show ?thesis using 1 2 v by (simp add: fcgiRead_def Let_def)
    next
      case (Some w)
      then obtain x s3 where 3: "ReadFull (byte_at hdr 6) s2 = Some (x, s3)" by (cases w) auto
      show ?thesis using assms 1 2 3 m1 m2 ReadFull_more [OF 3, of t] v by (simp add: fcgiRead_def Let_def)
    qed
  qed
qed

lemma read_reply_more: "read_reply out err (s @ t) = Inr res \<Longrightarrow> read_reply out err s \<in> {Inl FcgiEOF, Inr res}"
proof (induction out err s rule: read_reply.induct)
  case (1 out err s)
  obtain r u where ru: "fcgiRead (s @ t) = Inr (r, u)"
    using "1.prems" by (subst (asm) read_reply.simps) (auto split: sum.splits)
  from fcgiRead_more [OF ru] show ?case
  proof
    assume "fcgiRead s = Inl FcgiEOF"
    then show ?thesis by (subst read_reply.simps) simp
  next
    assume "\<exists>s'. fcgiRead s = Inr (r, s') \<and> u = s' @ t"
    then obtain s' where s': "fcgiRead s = Inr (r, s')" "u = s' @ t" by blast
    show ?thesis
      using "1.prems" "1.IH" [OF s'(1) refl] ru s'
      by (subst read_reply.simps, subst (asm) (4) read_reply.simps) (auto split: if_splits)
  qed
qed

text \<open>A reply is read back exactly: standard output and standard error are what the responder wrote, in whatever pieces and
  order, and the status is 500 exactly when the application reports a failure. When the connection breaks earlier, the
  client reports an error; it never takes part of a page for a page.\<close>

theorem fcgi_reply_read:
  assumes "app < 2 ^ 32"
  shows "let full = Inr \<lparr>res_Status = (if app \<noteq> 0 then 500 else 200), res_AppStatus = app, res_Stdout = stream False pieces, res_Stderr = stream True pieces\<rparr>
    in read_reply [] [] (reply_bytes pieces app) = full \<and> (\<forall>n. read_reply [] [] (take n (reply_bytes pieces app)) \<in> {Inl FcgiEOF, full})"
proof -
  have full: "read_reply [] [] (reply_bytes pieces app) = Inr \<lparr>res_Status = (if app \<noteq> 0 then 500 else 200), res_AppStatus = app,
      res_Stdout = stream False pieces, res_Stderr = stream True pieces\<rparr>"
    using read_end [OF assms] by (simp add: reply_bytes_def read_pieces)
  then have "read_reply [] [] (take n (reply_bytes pieces app) @ drop n (reply_bytes pieces app)) = Inr \<lparr>res_Status = (if app \<noteq> 0 then 500 else 200),
      res_AppStatus = app, res_Stdout = stream False pieces, res_Stderr = stream True pieces\<rparr>" for n by simp
  from read_reply_more [OF this] full show ?thesis unfolding Let_def by blast
qed

theorem fcgi_reply_read_witness:
  "read_reply [] [] (reply_bytes [(False, ''Status: 200 OK''), (True, ''notice''), (False, ''body'')] 0) =
     Inr \<lparr>res_Status = 200, res_AppStatus = 0, res_Stdout = ''Status: 200 OKbody'', res_Stderr = ''notice''\<rparr>"
  using fcgi_reply_read [of 0 "[(False, ''Status: 200 OK''), (True, ''notice''), (False, ''body'')]"] by (simp add: stream_def Let_def)

end
