(* ===== verification/Goserver_Theorems.thy ===== *)
theory Goserver_Theorems
  imports Goserver Htaccess_Theorems Fastcgi_Theorems
begin

text \<open>
  Properties of the site server: a file it serves was opened as the owner of the site and lies in the owner's home; a directory
  that a \<open>.htaccess\<close> file denies is shut, except for its own index; and what the page cache does to a site with a
  front controller.
\<close>

section \<open>Files stay in the home of the owner\<close>

text \<open>What an answer with a file guarantees: the site's account exists, the file was opened as that account by a name under the
  document root, it is a regular file with these contents, and its real path is inside the real path of the account's home.\<close>

definition confined :: "WebEnv \<Rightarrow> GoRoute \<Rightarrow> path \<Rightarrow> path \<Rightarrow> string \<Rightarrow> bool" where
  "confined w route rs real content \<longleftrightarrow> (\<exists>who home cs d nd.
     w_account w (gr_Owner route) = Some (who, home) \<and>
     plains cs \<and> os_Open who (w_fs w) (path_text (rs @ cs)) = Inr (real, nd) \<and> n_kind nd = Reg content \<and>
     walk (w_panel w) (w_fs w) 255 [] (Split (CHR ''/'') home) = Inr d \<and> prefix d real)"

lemma os_Open_plains: "os_Open who fs p = Inr (real, nd) \<Longrightarrow> plains real"
proof -
  assume "os_Open who fs p = Inr (real, nd)"
  then have "walk who fs kernel_links [] (parts p) = Inr real"
    by (cases "walk who fs kernel_links [] (parts p)") (auto simp: os_Open_def os_Stat_def stat_parts_def node_at_def split: option.splits)
  moreover have "\<forall>c\<in>set (parts p). CHR ''/'' \<notin> set c" using Split_no_sep by (auto simp: parts_def)
  ultimately show ?thesis using walk_plains by (metis plains_simps(1))
qed

lemma withinDir_prefix:
  assumes "withinDir w (path_text real) home" "plains real"
  shows "\<exists>d. walk (w_panel w) (w_fs w) 255 [] (Split (CHR ''/'') home) = Inr d \<and> prefix d real"
proof -
  obtain d where d: "walk (w_panel w) (w_fs w) 255 [] (Split (CHR ''/'') home) = Inr d" "\<not> escapes (path_text d) (path_text real)"
    using assms(1) by (cases "walk (w_panel w) (w_fs w) 255 [] (Split (CHR ''/'') home)") (auto simp: withinDir_def EvalSymlinks_def)
  have "plains d" using walk_plains [OF d(1)] Split_no_sep by fastforce
  with inside_text [OF rooted_text assms(2) d(2)] d(1) show ?thesis by (auto simp: components_text)
qed

lemma serveDocFile_confined:
  assumes "serveDocFile w r route (path_text (rs @ cs)) h = RFile h' real content" "plains cs"
  shows "confined w route rs real content"
proof -
  obtain nd where o: "openDocFile w (gr_Owner route) (path_text (rs @ cs)) = Inr (real, nd)"
    and c: "content = (case n_kind nd of Reg content \<Rightarrow> content | _ \<Rightarrow> [])"
    using assms(1) by (auto simp: serveDocFile_def Let_def split: if_splits sum.splits)
  then obtain who home where a: "w_account w (gr_Owner route) = Some (who, home)" "os_Open who (w_fs w) (path_text (rs @ cs)) = Inr (real, nd)"
      "withinDir w (path_text real) home" "n_kind nd = Reg content"
    by (auto simp: openDocFile_def split: option.splits if_splits sum.splits kind.splits)
  with withinDir_prefix [OF a(3) os_Open_plains [OF a(2)]] assms(2) show ?thesis unfolding confined_def by blast
qed

lemma run_script_no_file: "fst (run_script w r route cfg sf sn k cs h c) \<noteq> RFile h' real content"
  by (auto simp: run_script_def Let_def split: sum.splits)

lemma servePHP_no_file: "fst (servePHP w r route upath sf h c) \<noteq> RFile h' real content"
  unfolding servePHP_def Let_def answer_of_def by (simp add: run_script_no_file split: prod.split option.split)

lemma find_index_text:
  assumes "plains ds" "find_index w route cfg upath (path_text ds) names \<in> {StaticIndex ip, PhpIndex ip nd}"
  shows "\<exists>cs. plains cs \<and> ip = path_text (ds @ cs)"
  using assms(2)
proof (induction names)
  case (Cons name names)
  have "filepath_Join [path_text ds, Clean (''/'' @ name)] = path_text (ds @ components (''/'' @ name))"
    unfolding Clean_request(1) by (rule Join_path [OF assms(1) Clean_request(2)])
  with Cons Clean_request(2) [of name] show ?case by (auto simp: Let_def split: option.splits if_splits)
qed simp

text \<open>Every answer of \<open>servePath\<close> is a refusal, a redirect, the file itself, an index file, or comes from PHP.\<close>

definition refusal :: "Reply \<Rightarrow> bool" where
  "refusal reply \<longleftrightarrow> reply = RNotFound \<or> (\<exists>code t. reply = RError code t) \<or> (\<exists>code t. reply = RLocation code t)"

lemma servePath_cases:
  obtains (refused) "refusal (fst (servePath w slash r route upath h c))"
  | (plain_file) h' where "fst (servePath w slash r route upath h c) = serveDocFile w r route (filepath_Join [gr_Root route, upath]) h'"
  | (index_file) h' cfg names ip nd where "find_index w route cfg upath (filepath_Join [gr_Root route, upath]) names \<in> {StaticIndex ip, PhpIndex ip nd}"
      "fst (servePath w slash r route upath h c) = serveDocFile w r route ip h'"
  | (script) sf where "fst (servePath w slash r route upath h c) = fst (servePHP w r route upath sf h c)"
proof -
  define root fsPath cfg info query where d: "root = gr_Root route" "fsPath = filepath_Join [root, upath]" "cfg = ht_config w root upath"
    "info = statAs w (gr_Owner route) fsPath" "query = uRawQuery (rURL r)"
  define is_dir is_file where f: "is_dir = (case info of Some nd \<Rightarrow> n_kind nd = Dir | None \<Rightarrow> False)"
    "is_file = (case info of Some nd \<Rightarrow> n_kind nd \<noteq> Dir | None \<Rightarrow> False)"
  define idx where i: "idx = (if is_dir then find_index w route cfg upath fsPath
      (if hc_DirectoryIndex cfg = [] then [''index.php'', ''index.html'', ''index.htm''] else hc_DirectoryIndex cfg) else NoIndex)"
  define bad where b: "bad = (case Rel root fsPath of None \<Rightarrow> True | Some rel \<Rightarrow> HasPrefix rel ''..'')"
  let ?h = "htApplyHeaders (w_re w) (hc_Headers cfg) h"
  have s: "servePath w slash r route upath h c =
    (if bad then (RError 403 ''forbidden'', c)
     else if is_dir \<and> \<not> slash \<and> \<not> hc_DirectorySlashOff cfg then
         (RLocation 301 (path_Base upath @ ''/'' @ (if query \<noteq> [] then ''?'' @ query else [])), c)
     else if is_file \<and> \<not> php_path cfg upath then (serveDocFile w r route fsPath ?h, c)
     else case idx of
         StaticIndex ip \<Rightarrow> (serveDocFile w r route ip ?h, c)
       | PhpIndex ip st \<Rightarrow> if socketFor route upath = [] then (serveDocFile w r route ip ?h, c) else servePHP w r route upath ip h c
       | NoIndex \<Rightarrow> if socketFor route upath = [] then (if is_file then (serveDocFile w r route fsPath ?h, c) else (RNotFound, c))
           else servePHP w r route upath (if is_file then fsPath else filepath_Join [root, ''index.php'']) h c)"
    unfolding servePath_def Let_def b i f d by (simp only: if_True)
  have x: "find_index w route cfg upath (filepath_Join [gr_Root route, upath])
      (if hc_DirectoryIndex cfg = [] then [''index.php'', ''index.html'', ''index.htm''] else hc_DirectoryIndex cfg) = idx" if "idx \<noteq> NoIndex"
    using that unfolding i d by (simp split: if_splits)
  have root: "filepath_Join [gr_Root route, upath] = fsPath" by (simp only: d)
  show thesis
  proof (cases "bad \<or> is_dir \<and> \<not> slash \<and> \<not> hc_DirectorySlashOff cfg")
    case True
    then show thesis by (intro refused) (auto simp: s refusal_def)
  next
    case False
    then have s: "servePath w slash r route upath h c = (if is_file \<and> \<not> php_path cfg upath then (serveDocFile w r route fsPath ?h, c)
       else case idx of
         StaticIndex ip \<Rightarrow> (serveDocFile w r route ip ?h, c)
       | PhpIndex ip st \<Rightarrow> if socketFor route upath = [] then (serveDocFile w r route ip ?h, c) else servePHP w r route upath ip h c
       | NoIndex \<Rightarrow> if socketFor route upath = [] then (if is_file then (serveDocFile w r route fsPath ?h, c) else (RNotFound, c))
           else servePHP w r route upath (if is_file then fsPath else filepath_Join [root, ''index.php'']) h c)"
      by (auto simp: s)
    show thesis
    proof (cases "is_file \<and> \<not> php_path cfg upath")
      case True
      then show thesis by (intro plain_file [of ?h]) (simp add: s root)
    next
      case nf: False
      show thesis
      proof (cases idx)
        case NoIndex
        then consider "socketFor route upath = []" "is_file" | "socketFor route upath = []" "\<not> is_file" | "socketFor route upath \<noteq> []" by blast
        then show thesis
        proof cases
          case 1 then show thesis using NoIndex nf by (intro plain_file [of ?h]) (simp add: s root)
        next
          case 2 then show thesis using NoIndex nf by (intro refused) (simp add: s refusal_def)
        next
          case 3 then show thesis using NoIndex nf
            by (intro script [of "if is_file then fsPath else filepath_Join [root, ''index.php'']"]) (auto simp: s)
        qed
      next
        case (StaticIndex ip)
        then show thesis using nf x by (intro index_file [of _ _ ip _ ?h]) (auto simp: s)
      next
        case (PhpIndex ip nd)
        show thesis
        proof (cases "socketFor route upath = []")
          case True
          then show thesis using PhpIndex nf x by (intro index_file [of _ _ ip nd ?h]) (auto simp: s)
        next
          case False
          then show thesis using PhpIndex nf by (intro script [of ip]) (auto simp: s)
        qed
      qed
    qed
  qed
qed

lemma servePath_confined:
  assumes "gr_Root route = path_text rs" "plains rs" "servePath w slash r route (Clean (''/'' @ u)) h c = (RFile h' real content, c')"
  shows "confined w route rs real content"
proof -
  let ?cs = "components (''/'' @ u)" and ?up = "Clean (''/'' @ u)"
  have fs: "filepath_Join [gr_Root route, ?up] = path_text (rs @ ?cs)"
    unfolding Clean_request(1) assms(1) by (rule Join_path [OF assms(2) Clean_request(2)])
  have p: "plains (rs @ ?cs)" using assms(2) Clean_request(2) by simp
  show ?thesis
  proof (cases rule: servePath_cases [of w slash r route ?up h c])
    case (plain_file h'')
    then have "serveDocFile w r route (path_text (rs @ ?cs)) h'' = RFile h' real content" using assms(3) fs by simp
    from serveDocFile_confined [OF this Clean_request(2)] show ?thesis .
  next
    case (index_file h'' cfg names ip nd)
    obtain ds where ds: "plains ds" "ip = path_text (rs @ ?cs @ ds)" using find_index_text [OF p index_file(1) [unfolded fs]] by auto
    then have "serveDocFile w r route (path_text (rs @ ?cs @ ds)) h'' = RFile h' real content" using assms(3) index_file(2) by simp
    from serveDocFile_confined [OF this] ds(1) Clean_request(2) show ?thesis by simp
  next
    case (script sf)
    with assms(3) servePHP_no_file show ?thesis by (metis fst_conv)
  qed (use assms(3) in \<open>simp add: refusal_def\<close>)
qed

text \<open>A site of the account \<open>alice\<close> with home \<open>/srv\<close> and document root \<open>/srv/w\<close>.\<close>

definition ex_all :: Ident where
  "ex_all = \<lparr>i_uid = 0, i_gid = 0, i_umask = 0, i_now = 0, i_look = (\<lambda>_ _. True), i_change = (\<lambda>_ _. True)\<rparr>"

definition ex_node :: "kind \<Rightarrow> node" where
  "ex_node k = \<lparr>n_kind = k, n_perm = 420, n_uid = 7, n_gid = 7, n_mtime = 0\<rparr>"

definition ex_tree :: "(path \<times> node) list \<Rightarrow> fs" where
  "ex_tree extra = [([], ex_node Dir), ([''srv''], ex_node Dir), ([''srv'', ''w''], ex_node Dir)] @ extra"

definition ex_web :: "(path \<times> node) list \<Rightarrow> Regexp \<Rightarrow> Peer \<Rightarrow> gotime \<Rightarrow> WebEnv" where
  "ex_web extra re fpm now = \<lparr>w_fs = ex_tree extra, w_panel = ex_all, w_account = (\<lambda>a. if a = ''alice'' then Some (ex_all, ''/srv'') else None),
     w_re = re, w_getenv = (\<lambda>_. []), w_fpm = fpm, w_now = now\<rparr>"

definition ex_route :: "string \<Rightarrow> bool \<Rightarrow> GoRoute" where
  "ex_route socket cached = \<lparr>gr_Domain = ''site.test'', gr_Root = ''/srv/w'', gr_Socket = socket, gr_PathPHP = [], gr_SSL = False, gr_Hostnames = [],
     gr_ProxyTarget = [], gr_Owner = ''alice'', gr_Perf = perf_zero\<lparr>PageCacheOn := cached\<rparr>\<rparr>"

definition no_re :: Regexp where
  "no_re = \<lparr>re_compiles = (\<lambda>_. False), re_find = (\<lambda>_ _. None), re_replace = (\<lambda>_ s _. s)\<rparr>"

definition no_fpm :: Peer where
  "no_fpm = \<lparr>peer_dial = (\<lambda>_ _. False), peer_takes = (\<lambda>_ _. False), peer_reply = (\<lambda>_ _. [])\<rparr>"

text \<open>A directory that is to be closed.\<close>

definition private_dir :: "(path \<times> node) list" where
  "private_dir = [([''srv'', ''w'', ''private''], ex_node Dir), ([''srv'', ''w'', ''private'', ''.htaccess''], ex_node (Reg ''Deny from all'')),
     ([''srv'', ''w'', ''private'', ''index.html''], ex_node (Reg ''secret''))]"

lemma private_index_served:
  "fst (serveGoRoute (ex_web private_dir no_re no_fpm 0) (ex_site_request ''/private/'') (ex_route [] False) [] newPageCache) =
     RFile [] [''srv'', ''w'', ''private'', ''index.html''] ''secret''"
  by code_simp

text \<open>C6: No request, whatever its path, and whatever links, \<open>.htaccess\<close> rules and index names the customer has put in place, makes the site
  server hand out a file from outside the home of the account that owns the site: every file it serves was opened with that
  account's identity, by a name under the document root, and really lies inside the account's home directory.\<close>

theorem served_file_confined:
  assumes "gr_Root route = path_text rs" "plains rs"
    and "serveGoRoute w r route h c = (RFile h' real content, c')"
  shows "confined w route rs real content"
  using assms(3) servePath_confined [OF assms(1,2)]
  by (auto simp: serveGoRoute_def Let_def htGate_def split: if_splits option.splits)


theorem served_file_confined_witness:
  "confined (ex_web private_dir no_re no_fpm 0) (ex_route [] False) [''srv'', ''w''] [''srv'', ''w'', ''private'', ''index.html''] ''secret''"
proof -
  have "gr_Root (ex_route [] False) = path_text [''srv'', ''w'']" "plains [''srv'', ''w'']" by code_simp+
  moreover obtain c' where "serveGoRoute (ex_web private_dir no_re no_fpm 0) (ex_site_request ''/private/'') (ex_route [] False) [] newPageCache =
      (RFile [] [''srv'', ''w'', ''private'', ''index.html''] ''secret'', c')" using private_index_served by (metis fst_conv surj_pair)
  ultimately show ?thesis by (rule served_file_confined)
qed

section \<open>Closed directories\<close>

lemma merge_config_deny [simp]: "hc_DenyAll (merge_config sub cfg) \<longleftrightarrow> hc_DenyAll sub \<or> hc_DenyAll cfg"
  by (simp add: merge_config_def)

lemma fold_merge_deny: "hc_DenyAll (fold (\<lambda>f cfg. merge_config (parse f) cfg) fs cfg) \<longleftrightarrow> hc_DenyAll cfg \<or> (\<exists>f\<in>set fs. hc_DenyAll (parse f))"
  by (induction fs arbitrary: cfg) auto

lemma htParseDir_deny:
  "hc_DenyAll (htParseDir env root dir) \<longleftrightarrow> (\<exists>f\<in>set (ht_files env root dir). hc_DenyAll (htParseFile (he_re env) (he_read env f)))"
proof -
  have "\<not> hc_DenyAll empty_config" by (simp add: empty_config_def)
  then show ?thesis unfolding htParseDir_def by (simp only: fold_merge_deny split: list.split) simp
qed

lemma components_slash: "plains cs \<Longrightarrow> components (''/'' @ path_text cs) = cs"
proof -
  assume p: "plains cs"
  have r: "is_rooted (''/'' @ path_text cs)" by (rule HasPrefix_append)
  have "Split (CHR ''/'') (''/'' @ path_text cs) = [] # Split (CHR ''/'') (path_text cs)" by (simp add: path_text_def)
  moreover have "fold (push_component True) ([] # Split (CHR ''/'') (path_text cs)) [] = rev cs"
    using fold_push_mixed [of "Split (CHR ''/'') (path_text cs)" True "[]"] parts_text [OF p] p
    by (auto simp: Split_text parts_def push_component_def plains_def list_all_iff)
  ultimately show ?thesis using r by (simp only: clean_stack_def) simp
qed

lemma request_path:
  obtains cs where "Clean (''/'' @ u) = path_text cs" "plains cs" "components (''/'' @ u) = cs" "Clean (''/'' @ path_text cs) = path_text cs"
    "\<And>rs. plains rs \<Longrightarrow> ht_dir_for (path_text rs) (path_text cs) = path_text (rs @ butlast cs)"
proof (rule that [OF Clean_request])
  let ?cs = "components (''/'' @ u)"
  have c: "components (''/'' @ path_text ?cs) = ?cs" by (rule components_slash [OF Clean_request(2)])
  show "Clean (''/'' @ path_text ?cs) = path_text ?cs" by (subst Clean_request(1)) (simp only: c)
  show "ht_dir_for (path_text rs) (path_text ?cs) = path_text (rs @ butlast ?cs)" if "plains rs" for rs
    using ht_dir_for_text [OF that, of "path_text ?cs"] by (simp only: c)
qed (rule refl)

lemma ht_file_text: "plains ds \<Longrightarrow> ht_file (path_text ds) = path_text (ds @ [''.htaccess''])"
  unfolding ht_file_def by (rule Join_plain) (simp_all add: plain_def)

lemma ht_file_there:
  assumes "plains (rs @ bs)" "prefix ds bs" "os_Open (w_panel w) (w_fs w) (path_text (rs @ ds @ [''.htaccess''])) = Inr (real, nd)" "n_kind nd = Reg content"
  shows "path_text (rs @ ds @ [''.htaccess'']) \<in> set (ht_files (ht_env w) (path_text rs) (path_text (rs @ bs)))"
    "he_read (ht_env w) (path_text (rs @ ds @ [''.htaccess''])) = Some content"
proof -
  have "take (length ds) bs = ds" "length ds < Suc (length bs)" using assms(2) by (auto simp: prefix_def)
  then have "path_text (rs @ ds) \<in> set (ht_chain (path_text rs) (path_text (rs @ bs)))"
    unfolding ht_chain_text [OF assms(1)] by (simp only: set_map set_rev set_upt) (force simp: image_iff intro!: bexI [of _ "length ds"])
  moreover have "plains (rs @ ds)" using assms(1,2) by (auto simp: prefix_def)
  ultimately have "path_text (rs @ ds @ [''.htaccess'']) \<in> ht_file ` set (ht_chain (path_text rs) (path_text (rs @ bs)))"
    using ht_file_text [of "rs @ ds"] by (force simp: image_iff)
  then show "path_text (rs @ ds @ [''.htaccess'']) \<in> set (ht_files (ht_env w) (path_text rs) (path_text (rs @ bs)))"
    using assms(3,4) by (auto simp: ht_files_def ht_env_def os_Open_def)
  show "he_read (ht_env w) (path_text (rs @ ds @ [''.htaccess''])) = Some content" using assms(3,4) by (simp add: ht_env_def)
qed

text \<open>Reading the directive. A line before it that has no angle bracket opens no block, and one that does not end in a backslash
  does not swallow the next.\<close>

definition plain_line :: "string \<Rightarrow> bool" where
  "plain_line l \<longleftrightarrow> CHR ''<'' \<notin> set l \<and> (TrimSpace l \<noteq> [] \<longrightarrow> last (TrimSpace l) \<noteq> backslash) \<and> length l < 2 ^ 20"

lemma directive_keeps_deny: "hc_DenyAll (hp_cfg ps) \<Longrightarrow> hc_DenyAll (hp_cfg (directive R name args ps))"
  by (auto simp: directive_def upd_cfg_def rewrite_rule_def htDenyAll_def Let_def split: list.splits option.splits)

lemma parse_keeps_deny: "hc_DenyAll (hp_cfg ps) \<Longrightarrow> hc_DenyAll (hp_cfg (parse_lines R ls ps))"
  by (induction R ls ps rule: parse_lines.induct)
    (simp_all add: parse_lines.simps(2) Let_def directive_keeps_deny split: list.splits)

lemma quote_fields_set: "f \<in> set (quote_fields cur inQ esc s) \<Longrightarrow> set f \<subseteq> set cur \<union> set s"
  by (induction cur inQ esc s rule: quote_fields.induct) (auto split: if_splits)

lemma TrimSpace_set: "set (TrimSpace s) \<subseteq> set s"
  unfolding TrimSpace_def set_rev by (metis set_dropWhileD set_rev subset_code(1))

lemma directive_no_block: "CHR ''<'' \<notin> set name \<Longrightarrow> hp_stack ps = [] \<Longrightarrow> hp_stack (directive R name args ps) = []"
proof -
  assume n: "CHR ''<'' \<notin> set name" and s: "hp_stack ps = []"
  have "c = CHR ''<''" if "lower_char c = CHR ''<''" for c
  proof (cases "65 \<le> (of_char c :: nat) \<and> (of_char c :: nat) \<le> 90")
    case True
    then have "(of_char (lower_char c) :: nat) = of_char c + 32" by (simp add: lower_char_def)
    with that True show ?thesis by simp
  next
    case False
    with that show ?thesis by (auto simp: lower_char_def Let_def)
  qed
  then have "CHR ''<'' \<notin> set (ToLower name)" using n by (metis ToLower_def imageE set_map)
  then have "ToLower name \<noteq> ''<files''" "ToLower name \<noteq> ''<filesmatch''" by auto
  then show ?thesis using s by (auto simp: directive_def upd_cfg_def rewrite_rule_def Let_def split: list.splits option.splits)
qed

lemma parse_plain:
  assumes "\<forall>l\<in>set before. plain_line l" "hp_stack ps = []"
  shows "\<exists>ps'. hp_stack ps' = [] \<and> (\<forall>rest. parse_lines R (before @ rest) ps = parse_lines R rest ps')"
  using assms
proof (induction before arbitrary: ps)
  case (Cons l ls)
  let ?line = "TrimSpace l"
  show ?case
  proof (cases "?line = [] \<or> HasPrefix ?line ''#''")
    case True
    then show ?thesis using Cons.IH [of ps] Cons.prems by (simp add: parse_lines.simps(2))
  next
    case False
    then have "\<not> HasSuffix ?line [backslash]" using Cons.prems(1)
      by (auto simp: plain_line_def HasSuffix_def) (metis append_take_drop_id last_snoc)
    then have j: "join_lines ?line rs = (?line, rs)" for rs by (cases rs) auto
    show ?thesis
    proof (cases "htQuoteFields ?line")
      case Nil
      then show ?thesis using Cons.IH [of ps] Cons.prems False by (simp add: parse_lines.simps(2) j)
    next
      case (Cons name args)
      have "set name \<subseteq> set l" using quote_fields_set [of name "[]" False False ?line] Cons TrimSpace_set [of l] by (auto simp: htQuoteFields_def)
      then have "hp_stack (directive R name args ps) = []"
        using Cons.prems by (intro directive_no_block) (auto simp: plain_line_def)
      with Cons.IH [of "directive R name args ps"] Cons.prems Cons False show ?thesis by (simp add: parse_lines.simps(2) j)
    qed
  qed
qed auto

lemma TrimSpace_strip_cr: "TrimSpace (strip_cr l) = TrimSpace l"
proof (cases "l \<noteq> [] \<and> last l = CHR 0x0D")
  case True
  then obtain l' where l: "l = l' @ [CHR 0x0D]" by (metis append_butlast_last_id)
  have "is_space (CHR 0x0D)" by (simp add: is_space_def)
  then show ?thesis using l by (auto simp: strip_cr_def TrimSpace_def dropWhile_append dropWhile_eq_Nil_conv dest: set_dropWhileD)
qed (auto simp: strip_cr_def)

lemma deny_line:
  assumes "TrimSpace l = ''Deny from all'' \<or> TrimSpace l = ''Require all denied''" "hp_stack ps = []"
  shows "hc_DenyAll (hp_cfg (parse_lines R (l # ls) ps))"
proof -
  have t: "line_is ''Deny from all'' ''Deny'' [''from'', ''all'']" "line_is ''Require all denied'' ''Require'' [''all'', ''denied'']" by code_simp+
  have n: "ToLower ''Deny'' = ''deny''" "ToLower ''Require'' = ''require''" "EqualFold ''from'' ''from''" "EqualFold ''all'' ''all''" "EqualFold ''denied'' ''denied''"
    by code_simp+
  have "parse_lines R (l # ls) ps = parse_lines R (TrimSpace l # ls) ps" by (simp add: parse_lines.simps(2))
  moreover have "hc_DenyAll (hp_cfg (directive R ''Deny'' [''from'', ''all''] ps))" "hc_DenyAll (hp_cfg (directive R ''Require'' [''all'', ''denied''] ps))"
    using assms(2) by (simp_all add: directive_def n upd_cfg_def htDenyAll_def)
  ultimately show ?thesis using assms(1) parse_line [OF t(1)] parse_line [OF t(2)] parse_keeps_deny by metis
qed

lemma scan_lines_prefix:
  assumes "Split newline content = before @ l # after" "\<forall>x\<in>set (before @ [l]). length x < 2 ^ 20" "l \<noteq> []"
  shows "\<exists>rest. scan_lines content = map strip_cr before @ strip_cr l # rest"
proof -
  have "\<exists>after'. (if last (before @ l # after) = [] then butlast (before @ l # after) else before @ l # after) = before @ l # after'"
    using assms(3) by (cases after rule: rev_cases) (auto simp: butlast_append)
  then show ?thesis using assms(1,2) by (auto simp: scan_lines_def Let_def takeWhile_append)
qed

lemma plain_strip_cr: "plain_line l \<Longrightarrow> plain_line (strip_cr l)"
  by (auto simp: plain_line_def TrimSpace_strip_cr) (auto simp: strip_cr_def dest: in_set_butlastD split: if_splits)

lemma deny_read:
  assumes "Split newline content = before @ l # after" "\<forall>x\<in>set before. plain_line x"
    and "TrimSpace l = ''Deny from all'' \<or> TrimSpace l = ''Require all denied''" "length l < 2 ^ 20"
  shows "hc_DenyAll (htParseFile R (Some content))"
proof -
  have "l \<noteq> []" using assms(3) by (auto simp: TrimSpace_def)
  then obtain rest where r: "scan_lines content = map strip_cr before @ strip_cr l # rest"
    using scan_lines_prefix [OF assms(1)] assms(2,4) by (auto simp: plain_line_def)
  let ?ps = "\<lparr>hp_cfg = empty_config, hp_pending = None, hp_stack = []\<rparr>"
  obtain ps' where "hp_stack ps' = []" "\<forall>rest. parse_lines R (map strip_cr before @ rest) ?ps = parse_lines R rest ps'"
    using parse_plain [of "map strip_cr before" ?ps R] assms(2) plain_strip_cr by auto
  with deny_line [of "strip_cr l" ps' R rest] assms(3) show ?thesis by (simp add: htParseFile_def r TrimSpace_strip_cr)
qed

lemma denied_below:
  assumes root: "gr_Root route = path_text rs" "plains rs" and no_proxy: "gr_ProxyTarget route = []"
    and below: "prefix ds (butlast (components (''/'' @ uPath (rURL r))))"
    and there: "os_Open (w_panel w) (w_fs w) (path_text (rs @ ds @ [''.htaccess''])) = Inr (real, nd)" "n_kind nd = Reg content"
    and denies: "hc_DenyAll (htParseFile (w_re w) (Some content))"
  shows "serveGoRoute w r route h c = (case htGate (Clean (''/'' @ uPath (rURL r))) of Some reply \<Rightarrow> reply | None \<Rightarrow> RError 403 ''Forbidden'', c)"
proof -
  obtain cs where u: "Clean (''/'' @ uPath (rURL r)) = path_text cs" "plains cs" "components (''/'' @ uPath (rURL r)) = cs"
      "Clean (''/'' @ path_text cs) = path_text cs" and d: "\<And>rs. plains rs \<Longrightarrow> ht_dir_for (path_text rs) (path_text cs) = path_text (rs @ butlast cs)"
    by (rule request_path [of "uPath (rURL r)"]) (rule that)
  have p: "plains (rs @ butlast cs)" using root(2) plains_butlast [OF u(2)] by simp
  have b: "prefix ds (butlast cs)" using below u(3) by simp
  have "hc_DenyAll (ht_config w (path_text rs) (path_text cs))"
    unfolding ht_config_def d [OF root(2)] htParseDir_deny using ht_file_there [OF p b there] denies
    by (intro bexI [of _ "path_text (rs @ ds @ [''.htaccess''])"]) (simp_all add: ht_env_def)
  then have "htEngine (ht_env w) (ht_config w (path_text rs) (path_text cs)) r (path_text rs) (path_text cs) q = status_outcome 403" for q
    by (simp add: htEngine_def)
  then show ?thesis using no_proxy unfolding serveGoRoute_def Let_def u(1) root(1) by (simp add: no_outcome_def split: option.split)
qed

lemma htGate_refuses: "htGate p = Some reply \<Longrightarrow> reply \<in> {RError 403 ''forbidden'', RNotFound}"
  by (auto simp: htGate_def split: option.splits if_splits)

text \<open>C26: \<open>Deny from all\<close> or \<open>Require all denied\<close> on a line of the \<open>.htaccess\<close> file of a directory, outside a \<open><Files>\<close> block, closes what
  is in the directory: a request whose path goes through it to a name in it or deeper gets no file, script or redirect but a refusal,
  403 (or, for a path with a hidden name, 403 or 404), whatever the rest of the file, other files, rewrite rules and redirects
  of the site say. The lines before the directive contain no angle bracket, do not end in a backslash and are shorter than the
  scanner's buffer. The directory's own address, \<open>/private/\<close>, is not a name in it: its index page is governed by the parent's
  file (\<open>denied_directory_index_served\<close>).\<close>

theorem deny_all_closes_directory:
  assumes "gr_Root route = path_text rs" "plains rs" "gr_ProxyTarget route = []"
    and "prefix ds (butlast (components (''/'' @ uPath (rURL r))))"
    and "os_Open (w_panel w) (w_fs w) (path_text (rs @ ds @ [''.htaccess''])) = Inr (real, nd)" "n_kind nd = Reg content"
    and "Split (CHR 0x0A) content = before @ l # after" "\<forall>x\<in>set before. plain_line x"
    and "TrimSpace l = ''Deny from all'' \<or> TrimSpace l = ''Require all denied''" "length l < 2 ^ 20"
  shows "\<exists>reply. serveGoRoute w r route h c = (reply, c) \<and> reply \<in> {RError 403 ''Forbidden'', RError 403 ''forbidden'', RNotFound} \<and>
    ((\<forall>seg\<in>set (Split (CHR ''/'') (Clean (''/'' @ uPath (rURL r)))). \<not> HasPrefix seg ''.'') \<longrightarrow> reply = RError 403 ''Forbidden'')"
proof (cases "htGate (Clean (''/'' @ uPath (rURL r)))")
  case None
  with denied_below [OF assms(1-6) deny_read [OF assms(7-10)]] show ?thesis by simp
next
  case (Some reply)
  then have "\<exists>seg\<in>set (Split (CHR ''/'') (Clean (''/'' @ uPath (rURL r)))). HasPrefix seg ''.''"
    by (auto simp: htGate_def find_Some_iff split: option.splits)
  with denied_below [OF assms(1-6) deny_read [OF assms(7-10)]] htGate_refuses [OF Some] Some show ?thesis by auto
qed

text \<open>The closed directory \<open>/private\<close>, with a comment before the directive.\<close>

definition closed_text :: string where
  "closed_text = ''# keep out'' @ [newline] @ ''  Deny from all'' @ [newline] @ ''RewriteEngine On''"

definition closed_dir :: "(path \<times> node) list" where
  "closed_dir = [([''srv'', ''w'', ''private''], ex_node Dir), ([''srv'', ''w'', ''private'', ''.htaccess''], ex_node (Reg closed_text))]"

theorem deny_all_closes_directory_witness:
  "fst (serveGoRoute (ex_web closed_dir no_re no_fpm 0) (ex_site_request ''/private/a/b.txt'') (ex_route [] False) [] newPageCache) = RError 403 ''Forbidden''"
proof -
  let ?w = "ex_web closed_dir no_re no_fpm 0"
  have p: "gr_Root (ex_route [] False) = path_text [''srv'', ''w'']" "plains [''srv'', ''w'']" "gr_ProxyTarget (ex_route [] False) = []"
    "prefix [''private''] (butlast (components (''/'' @ uPath (rURL (ex_site_request ''/private/a/b.txt'')))))" by code_simp+
  have o: "os_Open (w_panel ?w) (w_fs ?w) (path_text ([''srv'', ''w''] @ [''private''] @ [''.htaccess''])) =
      Inr ([''srv'', ''w'', ''private'', ''.htaccess''], ex_node (Reg closed_text))" "n_kind (ex_node (Reg closed_text)) = Reg closed_text"
    by code_simp+
  have l: "Split (CHR 0x0A) closed_text = [''# keep out''] @ ''  Deny from all'' # [''RewriteEngine On'']"
    "TrimSpace ''  Deny from all'' = ''Deny from all'' \<or> TrimSpace ''  Deny from all'' = ''Require all denied''" by code_simp+
  have "TrimSpace ''# keep out'' = ''# keep out''" by code_simp
  then have k: "\<forall>x\<in>set [''# keep out'']. plain_line x" "length ''  Deny from all'' < 2 ^ 20" by (simp_all add: plain_line_def)
  have "\<forall>seg\<in>set (Split (CHR ''/'') (Clean (''/'' @ uPath (rURL (ex_site_request ''/private/a/b.txt''))))). \<not> HasPrefix seg ''.''" by code_simp
  with deny_all_closes_directory [OF p o l(1) k(1) l(2) k(2), of "[]" newPageCache] show ?thesis by auto
qed

text \<open>The index page of the closed directory itself stays open: the files consulted for a request are those of the directory
  the requested name is in, and for the name of a directory that is its parent.\<close>

theorem denied_directory_index_served:
  "fst (serveGoRoute (ex_web private_dir no_re no_fpm 0) (ex_site_request ''/private/'') (ex_route [] False) [] newPageCache) =
     RFile [] [''srv'', ''w'', ''private'', ''index.html''] ''secret''"
  by (rule private_index_served)


section \<open>The page cache behind a front controller\<close>

text \<open>The rules WordPress and most frameworks install: every path goes to \<open>/index.php\<close>. The expression in them matches any text that is
  not empty; PHP answers every request with the given page.\<close>

definition front :: string where
  "front = ''RewriteEngine On'' @ [newline] @ ''RewriteRule . /index.php [L]''"

definition front_config :: HtConfig where
  "front_config = empty_config\<lparr>hc_Files := [''/srv/w/.htaccess''], hc_Dir := ''/srv/w'', hc_DirURL := ''/'', hc_RewriteEngine := True,
     hc_Rules := [\<lparr>rl_Pattern = ''.'', rl_Sub = ''/index.php'', rl_Flags = no_flags\<lparr>f_Last := True\<rparr>, rl_Conds = []\<rparr>]\<rparr>"

definition dot_re :: Regexp where
  "dot_re = \<lparr>re_compiles = (\<lambda>_. True), re_find = (\<lambda>_ s. if s = [] then None else Some [take 1 s]), re_replace = (\<lambda>_ s _. s)\<rparr>"

definition fpm_says :: "string \<Rightarrow> Peer" where
  "fpm_says page = \<lparr>peer_dial = (\<lambda>_ _. True), peer_takes = (\<lambda>_ _. True), peer_reply = (\<lambda>_ _. reply_bytes [(False, [newline, newline] @ page)] 0)\<rparr>"

definition ex_front :: "string \<Rightarrow> gotime \<Rightarrow> WebEnv" where
  "ex_front page now = ex_web [([''srv'', ''w'', ''.htaccess''], ex_node (Reg front)), ([''srv'', ''w'', ''index.php''], ex_node (Reg ''<?php''))] dot_re (fpm_says page) now"

lemma front_parsed: "htParseFile R (Some front) = empty_config\<lparr>hc_RewriteEngine := True,
     hc_Rules := [\<lparr>rl_Pattern = ''.'', rl_Sub = ''/index.php'', rl_Flags = no_flags\<lparr>f_Last := True\<rparr>, rl_Conds = []\<rparr>]\<rparr>"
proof -
  have t: "line_is ''RewriteEngine On'' ''RewriteEngine'' [''On'']" "line_is ''RewriteRule . /index.php [L]'' ''RewriteRule'' [''.'', ''/index.php'', ''[L]'']"
    by code_simp+
  have n: "ToLower ''RewriteEngine'' = ''rewriteengine''" "ToLower ''RewriteRule'' = ''rewriterule''" "EqualFold ''On'' ''on''"
    "htParseRuleFlags [''[L]''] = no_flags\<lparr>f_Last := True\<rparr>" by code_simp+
  have "scan_lines front = [''RewriteEngine On'', ''RewriteRule . /index.php [L]'']" by (simp add: scan_lines_def front_def Let_def strip_cr_def)
  then show ?thesis
    by (simp add: htParseFile_def parse_line [OF t(1)] parse_line [OF t(2)] directive_def n Let_def upd_cfg_def rewrite_rule_def empty_config_def empty_rule_def)
qed

lemma front_config:
  assumes "ht_dir_for ''/srv/w'' p = ''/srv/w''"
  shows "ht_config (ex_front page now) ''/srv/w'' p = front_config"
proof -
  let ?w = "ex_front page now"
  have f: "ht_file ''/srv/w'' = ''/srv/w/.htaccess''" "parts ''/srv/w/.htaccess'' = [''srv'', ''w'', ''.htaccess'']" by code_simp+
  have "stat_parts (w_panel ?w) (w_fs ?w) [''srv'', ''w'', ''.htaccess''] = Inr ([''srv'', ''w'', ''.htaccess''], ex_node (Reg front))"
    by (simp add: ex_front_def ex_web_def stat_parts_def peek_def ex_tree_def ex_node_def ex_all_def node_at_def)
  then have o: "os_Stat (w_panel ?w) (w_fs ?w) ''/srv/w/.htaccess'' = Inr ([''srv'', ''w'', ''.htaccess''], ex_node (Reg front))"
    by (simp add: os_Stat_def f)
  then have "ht_files (ht_env ?w) ''/srv/w'' ''/srv/w'' = [''/srv/w/.htaccess'']"
    by (simp add: ht_files_def ht_chain.simps f ht_env_def ex_node_def)
  moreover have "he_read (ht_env ?w) ''/srv/w/.htaccess'' = Some front" using o by (simp add: ht_env_def os_Open_def ex_node_def)
  moreover have "path_Dir ''/srv/w/.htaccess'' = ''/srv/w''" "dir_url ''/srv/w'' ''/srv/w'' = ''/''" by code_simp+
  ultimately show ?thesis using assms
    by (simp add: ht_config_def htParseDir_def front_parsed merge_config_def front_config_def empty_config_def)
qed


abbreviation front_outcome :: htOutcome where
  "front_outcome \<equiv> no_outcome\<lparr>out_Path := ''/index.php'', out_Query := []\<rparr>"

lemma front_engine:
  assumes "he_re env = dot_re" "p \<in> {''/about'', ''/contact''}"
  shows "htEngine env front_config r ''/srv/w'' p [] = front_outcome"
proof -
  have "htPerDirSubject front_config p \<noteq> []" using assms(2) by (auto simp: htPerDirSubject_def front_config_def TrimPrefix_def HasPrefix_def)
  moreover have "new_path front_config ''/index.php'' = ''/index.php''" "Cut (CHR ''?'') ''/index.php'' = None" "\<not> htIsAbsoluteURL ''/index.php''" by code_simp+
  moreover have "htExpandSub env r ''/srv/w'' ctx ''/index.php'' = ''/index.php''" for ctx
    by (simp add: htExpandSub_def expand_sub.simps HasPrefix_def)
  moreover have "p \<noteq> ''/index.php''" using assms(2) by auto
  ultimately show ?thesis using assms(1)
    by (simp add: htEngine_def numeral_eq_Suc htApplyRule_def htCompile_def dot_re_def fire_rule_def new_query_def no_outcome_def no_flags_def
        front_config_def empty_config_def Let_def)
qed

lemma front_served:
  assumes "p \<in> {''/about'', ''/contact''}"
  shows "serveGoRoute (ex_front page now) (ex_site_request p) (ex_route ''s'' True) [] c =
    servePHP (ex_front page now) (rewritten (ex_site_request p) front_outcome) (ex_route ''s'' True) ''/index.php'' ''/srv/w/index.php'' [] c"
proof -
  let ?w = "ex_front page now" and ?r = "ex_site_request p"
  have p: "Clean (CHR ''/'' # p) = p" "htGate p = None" "HasSuffix p ''/'' = False" "ht_dir_for ''/srv/w'' p = ''/srv/w''"
    using assms by (elim insertE emptyE; simp; code_simp)+
  have d: "ht_dir_for ''/srv/w'' ''/index.php'' = ''/srv/w''" "filepath_Join [''/srv/w'', ''/index.php''] = ''/srv/w/index.php''"
    "Rel ''/srv/w'' ''/srv/w/index.php'' = Some ''index.php''" "php_path front_config ''/index.php''" "parts ''/srv/w/index.php'' = [''srv'', ''w'', ''index.php'']"
    "Clean ''//index.php'' = ''/index.php''" "socketFor (ex_route ''s'' True) ''/index.php'' = ''s''" by code_simp+
  have route: "gr_Root (ex_route ''s'' True) = ''/srv/w''" "gr_ProxyTarget (ex_route ''s'' True) = []" "gr_Owner (ex_route ''s'' True) = ''alice''"
    by (simp_all add: ex_route_def)
  have request: "uPath (rURL ?r) = p" "uRawQuery (rURL ?r) = []" by (simp_all add: ex_site_request_def)
  have "stat_parts ex_all (w_fs ?w) [''srv'', ''w'', ''index.php''] = Inr ([''srv'', ''w'', ''index.php''], ex_node (Reg ''<?php''))"
    by (simp add: ex_front_def ex_web_def stat_parts_def peek_def ex_tree_def ex_node_def ex_all_def node_at_def)
  then have s: "statAs ?w ''alice'' ''/srv/w/index.php'' = Some (ex_node (Reg ''<?php''))"
    by (simp add: statAs_def os_Stat_def d ex_front_def ex_web_def)
  have e: "htEngine (ht_env ?w) front_config ?r ''/srv/w'' p [] = front_outcome"
    by (rule front_engine [OF _ assms]) (simp add: ht_env_def ex_front_def ex_web_def)
  have "serveGoRoute ?w ?r (ex_route ''s'' True) [] c = servePath ?w False (rewritten ?r front_outcome) (ex_route ''s'' True) ''/index.php'' [] c"
    using e by (simp add: serveGoRoute_def route request front_config [OF p(4)] p no_outcome_def d Let_def)
  also have "\<dots> = servePHP ?w (rewritten ?r front_outcome) (ex_route ''s'' True) ''/index.php'' ''/srv/w/index.php'' [] c"
    using s by (simp add: servePath_def front_config [OF d(1)] d route Let_def HasPrefix_def ex_node_def)
  finally show ?thesis .
qed


lemma fpm_answer: "fcgiExec (ex_front ''about'' now) ''s'' r sf sn = Inr (200, [], ''about'', [])"
proof -
  have p: "parseCGIResponse ([newline, newline] @ ''about'') 200 = (200, [], ''about'')" by code_simp
  have "read_reply [] [] (reply_bytes [(False, x)] 0) = Inr \<lparr>res_Status = 200, res_AppStatus = 0, res_Stdout = x, res_Stderr = []\<rparr>" for x
    using read_pieces [of "[]" "[]" "[(False, x)]"] by (simp add: reply_bytes_def read_end stream_def)
  with p show ?thesis
    by (simp add: fcgiExec_def fcgiRequest_def ex_front_def ex_web_def fpm_says_def Let_def split: prod.split)
qed

lemma front_request:
  assumes "p \<in> {''/about'', ''/contact''}"
  shows "cacheableRequest (rewritten (ex_site_request p) front_outcome)"
    "cacheKey (rewritten (ex_site_request p) front_outcome) = ''http'' @ [CHR 0x00] @ ''site.test'' @ [CHR 0x00] @ ''/index.php''"
  using assms by (elim insertE emptyE; simp only:; code_simp)+

text \<open>The page cache mixes up the pages of a site with a front controller. It is asked and filled under the rewritten URL, which is
  \<open>/index.php\<close> for every page: after one visitor has been sent \<open>/about\<close>, a visitor of \<open>/contact\<close> a minute later gets the page of
  \<open>/about\<close>, although PHP would answer with another one.\<close>

theorem front_controller_shares_page:
  "let (reply, c1) = serveGoRoute (ex_front ''about'' 0) (ex_site_request ''/about'') (ex_route ''s'' True) [] newPageCache;
       (reply', c2) = serveGoRoute (ex_front ''contact'' (seconds 60)) (ex_site_request ''/contact'') (ex_route ''s'' True) [] c1
   in (\<exists>h. reply = RPage 200 h ''about'') \<and> (\<exists>h. reply' = RPage 200 h ''about'')"
proof -
  let ?key = "''http'' @ [CHR 0x00] @ ''site.test'' @ [CHR 0x00] @ ''/index.php''"
  have d: "ht_dir_for ''/srv/w'' ''/index.php'' = ''/srv/w''" "Rel ''/srv/w'' ''/srv/w/index.php'' = Some ''index.php''"
    "cacheableResponse 200 [] ''about''" "h_copy [] [] = []" by code_simp+
  have r: "gr_Root (ex_route ''s'' True) = ''/srv/w''" "gr_Domain (ex_route ''s'' True) = ''site.test''" "PageCacheOn (gr_Perf (ex_route ''s'' True))"
    "PageCacheTTL (gr_Perf (ex_route ''s'' True)) = 0" "socketFor (ex_route ''s'' True) x = ''s''" for x
    by (simp_all add: ex_route_def perf_zero_def socketFor_def)
  have h: "hc_RequestHeaders front_config = []" "hc_Headers front_config = []" by (simp_all add: front_config_def empty_config_def)
  have t: "w_now (ex_front page now) = now" for page now by (simp add: ex_front_def ex_web_def)
  let ?c0 = "count_miss ''site.test'' newPageCache"
  let ?c1 = "Put 0 ''site.test'' ?key 200 [] ''about'' (seconds 300) ?c0"
  have a: "serveGoRoute (ex_front ''about'' 0) (ex_site_request ''/about'') (ex_route ''s'' True) [] newPageCache =
      (RPage 200 (h_Set ''X-Aegis-Cache'' ''MISS'' []) ''about'', ?c1)"
    using front_request [of "''/about''"] d fpm_answer h
    by (simp add: front_served servePHP_def r front_config Get_def element_def newPageCache_def run_script_def t htApplyHeaders_def Let_def)
  have "element ?c1 ?key = Some (0, \<lparr>pe_key = ?key, pe_domain = ''site.test'', pe_status = 200, pe_header = [], pe_body = ''about'',
      pe_expires = seconds 300, pe_stored = 0\<rparr>)"
    by (simp add: Put_def element_def newPageCache_def count_miss_def evict.simps Let_def)
  then have "\<exists>h c2. serveGoRoute (ex_front ''contact'' (seconds 60)) (ex_site_request ''/contact'') (ex_route ''s'' True) [] ?c1 = (RPage 200 h ''about'', c2)"
    using front_request [of "''/contact''"] d h
    by (simp add: front_served servePHP_def r front_config Get_def t answer_of_def Let_def)
  with a show ?thesis by (auto simp: Let_def)
qed

end
