(* ===== verification/Sql_Text.thy ===== *)
theory Sql_Text
  imports Http
begin

text \<open>
  The text side of the database editor: the two SQL dialects with their quoting (\<^verbatim>\<open>svc/dbeditor.go\<close>, \<open>quoteSQLString\<close> of
  \<^verbatim>\<open>svc/dbeditor_io.go\<close>) and \<open>stmtScanner\<close>, which splits a script into statements (\<^verbatim>\<open>svc/dbeditor_io.go\<close>).

  The input of a scanner is the bytes its reader delivers and what follows them: a read error that lasts (\<open>sc_broken\<close>), or
  \<open>sc_over\<close> bytes over the limit of \<open>strictLimit\<close>, of which every further read takes one and reports an error, or the end
  of the file. \<open>Peek\<close> of a \<open>bufio.Reader\<close> discards the error it meets, so it takes one of those bytes as well (\<open>probe\<close>).
\<close>

abbreviation squote :: char where "squote \<equiv> CHR 0x27"
abbreviation dquote :: char where "dquote \<equiv> CHR 0x22"
abbreviation bquote :: char where "bquote \<equiv> CHR 0x60"
abbreviation bslash :: char where "bslash \<equiv> CHR 0x5C"

section \<open>Dialects\<close>

text \<open>\<open>strings.ReplaceAll\<close> of one character.\<close>

definition replace_char :: "char \<Rightarrow> string \<Rightarrow> string \<Rightarrow> string" where
  "replace_char c r s = concat (map (\<lambda>x. if x = c then r else [x]) s)"

datatype dialect = mysqlDialect | pgDialect

definition dialect_kind :: "dialect \<Rightarrow> string" where
  "dialect_kind d = (case d of mysqlDialect \<Rightarrow> ''mariadb'' | pgDialect \<Rightarrow> ''postgres'')"

definition quote :: "dialect \<Rightarrow> string \<Rightarrow> string" where
  "quote d s = (case d of mysqlDialect \<Rightarrow> [bquote] @ replace_char bquote [bquote, bquote] s @ [bquote]
     | pgDialect \<Rightarrow> [dquote] @ replace_char dquote [dquote, dquote] s @ [dquote])"

text \<open>The \<open>n\<close>-th bound parameter.\<close>

definition ph :: "dialect \<Rightarrow> nat \<Rightarrow> string" where
  "ph d n = (case d of mysqlDialect \<Rightarrow> ''?'' | pgDialect \<Rightarrow> ''$'' @ decimal n)"

definition quoteList :: "dialect \<Rightarrow> string list \<Rightarrow> string" where
  "quoteList d names = Join '', '' (map (quote d) names)"

text \<open>The replacer of MySQL literals works on single characters, so it is a map.\<close>

definition mysql_escape :: "char \<Rightarrow> string" where
  "mysql_escape c = (if c = bslash then [bslash, bslash] else if c = squote then [squote, squote]
     else if c = CHR 0x00 then [bslash, CHR ''0''] else if c = CHR 0x1A then [bslash, CHR ''Z''] else [c])"

definition quoteSQLString :: "dialect \<Rightarrow> string \<Rightarrow> string" where
  "quoteSQLString d s = (case d of pgDialect \<Rightarrow> [squote] @ replace_char squote [squote, squote] s @ [squote]
     | mysqlDialect \<Rightarrow> [squote] @ concat (map mysql_escape s) @ [squote])"

definition escapeLike :: "string \<Rightarrow> string" where
  "escapeLike s = concat (map (\<lambda>c. if c = bslash \<or> c = CHR ''%'' \<or> c = CHR ''_'' then [bslash, c] else [c]) s)"

section \<open>The scanner\<close>

definition hasPrefixFold :: "string \<Rightarrow> string \<Rightarrow> bool" where
  "hasPrefixFold s p \<longleftrightarrow> length s \<ge> length p \<and> EqualFold (take (length p) s) p"

definition isIdentByte :: "char \<Rightarrow> bool" where
  "isIdentByte b \<longleftrightarrow> b = CHR ''_'' \<or> (let n = (of_char b :: nat) in 97 \<le> n \<and> n \<le> 122 \<or> 65 \<le> n \<and> n \<le> 90 \<or> 48 \<le> n \<and> n \<le> 57)"

text \<open>The scanner; \<open>sc_buf\<close> is the statement read so far, a local variable of \<open>Next\<close>.\<close>

record stmtScanner =
  sc_in :: string
  sc_broken :: bool
  sc_over :: nat
  sc_mysql :: bool
  sc_delim :: string
  sc_last :: char
  sc_max :: nat
  sc_content :: bool
  sc_rerr :: bool
  sc_buf :: string

definition newStmtScanner :: "string \<Rightarrow> bool \<Rightarrow> nat \<Rightarrow> dialect \<Rightarrow> nat \<Rightarrow> stmtScanner" where
  "newStmtScanner src broken over d maxStmt = \<lparr>sc_in = src, sc_broken = broken, sc_over = over, sc_mysql = (d \<noteq> pgDialect), sc_delim = '';'',
     sc_last = CHR 0x00, sc_max = maxStmt, sc_content = False, sc_rerr = False, sc_buf = []\<rparr>"

text \<open>\<open>read\<close>: taking the byte \<open>c\<close> with \<open>cs\<close> behind it, or finding nothing (an error that is not the end of the file is remembered);
  and \<open>peek\<close>, which sees \<open>take n (sc_in s)\<close> and probes the reader when that is too short.\<close>

definition took :: "char \<Rightarrow> string \<Rightarrow> stmtScanner \<Rightarrow> stmtScanner" where
  "took c cs s = s\<lparr>sc_in := cs, sc_last := c\<rparr>"

definition at_end :: "stmtScanner \<Rightarrow> stmtScanner" where
  "at_end s = s\<lparr>sc_rerr := sc_rerr s \<or> sc_broken s \<or> sc_over s > 0, sc_over := sc_over s - 1\<rparr>"

definition probe :: "nat \<Rightarrow> stmtScanner \<Rightarrow> stmtScanner" where
  "probe n s = (if length (sc_in s) < n then s\<lparr>sc_over := sc_over s - 1\<rparr> else s)"

definition blank :: "char \<Rightarrow> bool" where
  "blank c \<longleftrightarrow> c = CHR '' '' \<or> c = CHR 0x09 \<or> c = CHR 0x0A \<or> c = CHR 0x0D"

definition scan_put :: "string \<Rightarrow> stmtScanner \<Rightarrow> stmtScanner" where
  "scan_put bs s = s\<lparr>sc_buf := sc_buf s @ bs, sc_content := sc_content s \<or> list_ex (\<lambda>x. \<not> blank x) bs\<rparr>"

lemma scan_sel [simp]:
  "sc_in (took c cs s) = cs" "sc_in (at_end s) = sc_in s" "sc_in (scan_put bs s) = sc_in s" "sc_in (probe n s) = sc_in s"
  by (simp_all add: took_def at_end_def scan_put_def probe_def)

text \<open>The rest of a quoted text, after its opening quote.\<close>

function quoted_loop :: "char \<Rightarrow> bool \<Rightarrow> stmtScanner \<Rightarrow> stmtScanner" where
  "quoted_loop q backslash s = (case sc_in s of [] \<Rightarrow> at_end s
   | c # cs \<Rightarrow>
      if length (sc_buf s) > sc_max s then took c cs s
      else if backslash \<and> c = bslash then
        (let s1 = scan_put [c] (took c cs s) in case cs of
           [] \<Rightarrow> quoted_loop q backslash (at_end s1)
         | n # cs' \<Rightarrow> quoted_loop q backslash (scan_put [n] (took n cs' s1)))
      else let s1 = scan_put [c] (took c cs s) in
        if c = q then
          (case cs of [] \<Rightarrow> probe 1 s1
           | n # cs' \<Rightarrow> if n = q then quoted_loop q backslash (scan_put [q] (took n cs' s1)) else s1)
        else quoted_loop q backslash s1)"
  by pat_completeness auto
termination by (relation "measure (\<lambda>(_, _, s). length (sc_in s))") auto

declare quoted_loop.simps [simp del]

definition quoted :: "char \<Rightarrow> bool \<Rightarrow> stmtScanner \<Rightarrow> stmtScanner" where
  "quoted q backslash s = quoted_loop q backslash (scan_put [q] s)"

text \<open>A line comment is dropped up to its newline.\<close>

fun skip_line :: "string \<Rightarrow> stmtScanner \<Rightarrow> stmtScanner" where
  "skip_line [] s = probe 1 (s\<lparr>sc_in := []\<rparr>)"
| "skip_line (c # cs) s = (if c = newline then s\<lparr>sc_in := c # cs\<rparr> else skip_line cs (took c cs s))"

text \<open>A block comment, after its opening; \<open>keep\<close> is set for the comments MySQL executes.\<close>

fun comment_loop :: "bool \<Rightarrow> char \<Rightarrow> string \<Rightarrow> stmtScanner \<Rightarrow> stmtScanner" where
  "comment_loop keep prev [] s = at_end (s\<lparr>sc_in := []\<rparr>)"
| "comment_loop keep prev (b # cs) s =
    (let s1 = (if keep then scan_put [b] (took b cs s) else took b cs s) in
     if prev = CHR ''*'' \<and> b = CHR ''/'' then s1 else comment_loop keep b cs s1)"

definition block_comment :: "stmtScanner \<Rightarrow> stmtScanner" where
  "block_comment s =
    (let s1 = took (CHR ''*'') (tl (sc_in s)) s;
         keep = (sc_mysql s \<and> take 1 (sc_in s1) = ''!'');
         s2 = (if sc_mysql s then probe 1 s1 else s1);
         s3 = (if keep then scan_put ''/*'' s2 else s2);
         s4 = comment_loop keep (CHR 0x00) (sc_in s3) s3
     in if keep then s4 else s4\<lparr>sc_buf := sc_buf s4 @ '' ''\<rparr>)"

definition dashComment :: "stmtScanner \<Rightarrow> bool" where
  "dashComment s = (let pk = take 2 (sc_in s) in
     if pk = [] \<or> hd pk \<noteq> CHR ''-'' then False
     else \<not> sc_mysql s \<or> length pk < 2 \<or> blank (pk ! 1))"

text \<open>The body of a dollar-quoted text up to the closing tag; \<open>start\<close> is the length of the statement before it.\<close>

fun dollar_body :: "string \<Rightarrow> nat \<Rightarrow> string \<Rightarrow> stmtScanner \<Rightarrow> stmtScanner" where
  "dollar_body tag start [] s = at_end (s\<lparr>sc_in := []\<rparr>)"
| "dollar_body tag start (b # cs) s =
    (let s1 = scan_put [b] (took b cs s) in
     if b = CHR ''$'' \<and> length (sc_buf s1) - start \<ge> length tag \<and> HasSuffix (sc_buf s1) tag then s1
     else if length (sc_buf s1) > sc_max s1 then s1
     else dollar_body tag start cs s1)"

definition dollarTag :: "stmtScanner \<Rightarrow> stmtScanner option" where
  "dollarTag s = (let pk = take 66 (sc_in s); k = length (takeWhile isIdentByte pk) in
     if k \<ge> length pk \<or> pk ! k \<noteq> CHR ''$'' \<or> (k > 0 \<and> is_dec (hd pk)) then None
     else let tag = ''$'' @ take k pk @ ''$''; s1 = scan_put tag ((probe 66 s)\<lparr>sc_in := drop (k + 1) (sc_in s)\<rparr>) in
       Some (dollar_body tag (length (sc_buf s1)) (sc_in s1) s1))"

text \<open>MySQL's \<open>DELIMITER\<close> command, after its first letter: the rest of the line, whose newline stays unread.\<close>

definition set_delimiter :: "stmtScanner \<Rightarrow> stmtScanner" where
  "set_delimiter s = (let line = takeWhile (\<lambda>c. c \<noteq> newline) (sc_in s); rest = dropWhile (\<lambda>c. c \<noteq> newline) (sc_in s);
       s1 = (if rest = [] then probe 1 (s\<lparr>sc_in := []\<rparr>) else s\<lparr>sc_in := rest, sc_last := CHR 0x00\<rparr>); dl = TrimSpace (drop 9 line) in
     if dl = [] then s1 else s1\<lparr>sc_delim := dl\<rparr>)"

text \<open>The switch on the byte just read; the first component says whether it ended the statement.\<close>

definition scan_char :: "char \<Rightarrow> bool \<Rightarrow> stmtScanner \<Rightarrow> bool \<times> stmtScanner" where
  "scan_char c lineStart s =
    (let first = (sc_mysql s \<and> lineStart \<and> \<not> sc_content s); s1 = (if first then probe 9 s else s) in
     if first \<and> length (sc_in s) \<ge> 9 \<and> EqualFold (c # take 9 (sc_in s)) ''DELIMITER '' then (False, set_delimiter s1)
     else if c = squote then (False, quoted squote (sc_mysql s) s1)
     else if c = dquote then (False, quoted dquote (sc_mysql s) s1)
     else if c = bquote \<and> sc_mysql s then (False, quoted bquote False s1)
     else let s2 = (if c = CHR ''-'' then probe 2 s1 else s1) in
     if c = CHR ''-'' \<and> dashComment s \<or> c = CHR ''#'' \<and> sc_mysql s then (False, skip_line (sc_in s2) s2)
     else let s3 = (if c = CHR ''/'' then probe 1 s2 else s2) in
     if c = CHR ''/'' \<and> take 1 (sc_in s3) = ''*'' then (False, block_comment s3)
     else case (if c = CHR ''$'' \<and> \<not> sc_mysql s then dollarTag s3 else None) of
       Some s4 \<Rightarrow> (False, s4)
     | None \<Rightarrow>
        let s4 = (if c = CHR ''$'' \<and> \<not> sc_mysql s then probe 66 s3 else s3); k = length (sc_delim s4) - 1; s5 = probe k s4 in
        if c # take k (sc_in s5) = sc_delim s5 then (True, s5\<lparr>sc_in := drop k (sc_in s5)\<rparr>)
        else (False, scan_put [c] s5))"

section \<open>Statements\<close>

lemma quoted_loop_consumes: "length (sc_in (quoted_loop q b s)) \<le> length (sc_in s)"
proof (induction q b s rule: quoted_loop.induct)
  case (1 q b s)
  then show ?case
    by (subst quoted_loop.simps) (auto simp: Let_def split: list.splits intro: le_SucI le_SucI [OF le_SucI])
qed

lemma skip_line_consumes: "length (sc_in (skip_line cs s)) \<le> length cs"
  by (induction cs arbitrary: s) (auto intro: le_SucI)

lemma comment_loop_consumes: "length (sc_in (comment_loop keep prev cs s)) \<le> length cs"
  by (induction cs arbitrary: prev s) (auto simp: Let_def intro: le_SucI)

lemma block_comment_consumes: "length (sc_in (block_comment s)) \<le> length (sc_in s)"
proof -
  have "length (sc_in (comment_loop keep prev (tl (sc_in s)) s')) \<le> length (sc_in s)" for keep prev s'
    using comment_loop_consumes [of keep prev "tl (sc_in s)" s'] by simp
  then show ?thesis by (simp add: block_comment_def Let_def)
qed

lemma dollar_body_consumes: "length (sc_in (dollar_body tag start cs s)) \<le> length cs"
  by (induction cs arbitrary: s) (auto simp: Let_def intro: le_SucI)

lemma dollarTag_consumes: "dollarTag s = Some s' \<Longrightarrow> length (sc_in s') \<le> length (sc_in s)"
proof -
  have "length (sc_in (dollar_body tag start (drop k (sc_in s)) s1)) \<le> length (sc_in s)" for tag start k s1
    using dollar_body_consumes [of tag start "drop k (sc_in s)" s1] by simp
  then show "dollarTag s = Some s' \<Longrightarrow> length (sc_in s') \<le> length (sc_in s)"
    by (auto simp: dollarTag_def Let_def split: if_splits)
qed

lemma set_delimiter_consumes: "length (sc_in (set_delimiter s)) \<le> length (sc_in s)"
  by (simp add: set_delimiter_def Let_def length_dropWhile_le)

lemma scan_branches:
  "(c \<Longrightarrow> length (sc_in (snd a)) \<le> n) \<Longrightarrow> (\<not> c \<Longrightarrow> length (sc_in (snd b)) \<le> n) \<Longrightarrow> length (sc_in (snd (if c then a else b))) \<le> n"
  "(\<And>x. ob = Some x \<Longrightarrow> length (sc_in (snd (f x))) \<le> n) \<Longrightarrow> (ob = None \<Longrightarrow> length (sc_in (snd b)) \<le> n) \<Longrightarrow>
     length (sc_in (snd (case ob of None \<Rightarrow> b | Some x \<Rightarrow> f x))) \<le> n"
  by (auto split: option.split)

lemma scan_char_consumes: "length (sc_in (snd (scan_char c ls s))) \<le> length (sc_in s)"
proof -
  have probe_if [simp]: "sc_in (if b then probe n s1 else s1) = sc_in s1" for b n s1 by simp
  show ?thesis
    unfolding scan_char_def Let_def quoted_def
    apply (intro scan_branches; simp only: snd_conv)
           apply (rule order_trans [OF set_delimiter_consumes], simp only: probe_if order_refl)
          apply (rule order_trans [OF quoted_loop_consumes], simp only: probe_if scan_sel order_refl)
         apply (rule order_trans [OF quoted_loop_consumes], simp only: probe_if scan_sel order_refl)
        apply (rule order_trans [OF quoted_loop_consumes], simp only: probe_if scan_sel order_refl)
       apply (rule order_trans [OF skip_line_consumes], simp only: probe_if order_refl)
      apply (rule order_trans [OF block_comment_consumes], simp only: probe_if order_refl)
     apply (drule sym, simp split: if_split_asm, drule sym, drule dollarTag_consumes, simp)
    apply simp_all
    done
qed

datatype scan_error = errStmtTooLong | ReadError
datatype scan_result = Statement string | EndOfInput | ScanFailed scan_error

text \<open>The loop of \<open>Next\<close>.\<close>

function next_loop :: "stmtScanner \<Rightarrow> scan_result \<times> stmtScanner" where
  "next_loop s =
    (if sc_rerr s then (ScanFailed ReadError, s)
     else if length (sc_buf s) > sc_max s then (ScanFailed errStmtTooLong, s)
     else let lineStart = (sc_last s = CHR 0x00 \<or> sc_last s = newline); t = TrimSpace (sc_buf s) in
     case sc_in s of
       [] \<Rightarrow> let s1 = at_end s in
         if sc_rerr s1 then (ScanFailed ReadError, s1)
         else if t \<noteq> [] then (Statement t, s1) else (EndOfInput, s1\<lparr>sc_buf := [], sc_content := False\<rparr>)
     | c # cs \<Rightarrow> (case scan_char c lineStart (took c cs s) of
         (False, s1) \<Rightarrow> next_loop s1
       | (True, s1) \<Rightarrow> let t = TrimSpace (sc_buf s1) in
           if t \<noteq> [] then (Statement t, s1) else next_loop (s1\<lparr>sc_buf := [], sc_content := False\<rparr>)))"
  by pat_completeness auto
termination
proof (relation "measure (length \<circ> sc_in)"; clarsimp simp: less_Suc_eq_le)
  fix s :: stmtScanner and c cs s1
  have *: "length (sc_in s1) \<le> length cs" if "(b, s1) = scan_char c ls (took c cs s)" for b ls
    using scan_char_consumes [of c ls "took c cs s"] that by (metis scan_sel(1) snd_conv)
  show "length (sc_in s1) \<le> length cs" if "(False, s1) = scan_char c (sc_last s = CHR 0x00 \<or> sc_last s = newline) (took c cs s)"
    using that by (rule *)
  show "length (sc_in s1) \<le> length cs" if "(True, s1) = scan_char c (sc_last s = CHR 0x00 \<or> sc_last s = newline) (took c cs s)"
    using that by (rule *)
qed

declare next_loop.simps [simp del]

definition Next :: "stmtScanner \<Rightarrow> scan_result \<times> stmtScanner" where
  "Next s = next_loop (s\<lparr>sc_buf := [], sc_content := False\<rparr>)"

text \<open>A statement is only returned after some input was consumed, so the loop over a script ends.\<close>

lemma next_loop_consumes:
  "next_loop s = (Statement t, s') \<Longrightarrow> length (sc_in s') \<le> length (sc_in s) \<and> (sc_in s \<noteq> [] \<longrightarrow> length (sc_in s') < length (sc_in s))"
proof (induction s rule: next_loop.induct)
  case (1 s)
  have ok: "\<not> sc_rerr s" "\<not> length (sc_buf s) > sc_max s" using "1.prems" by (auto simp: next_loop.simps [of s] split: if_splits)
  show ?case
  proof (cases "sc_in s")
    case Nil
    then show ?thesis using "1.prems" ok by (simp add: next_loop.simps [of s] Let_def split: if_splits) auto
  next
    case (Cons c cs)
    let ?ls = "sc_last s = CHR 0x00 \<or> sc_last s = newline"
    obtain b s1 where r: "scan_char c ?ls (took c cs s) = (b, s1)" by (cases "scan_char c ?ls (took c cs s)")
    then have le: "length (sc_in s1) \<le> length cs" using scan_char_consumes [of c ?ls "took c cs s"] by simp
    consider "b" "TrimSpace (sc_buf s1) \<noteq> []" "s' = s1"
      | "b" "next_loop (s1\<lparr>sc_buf := [], sc_content := False\<rparr>) = (Statement t, s')" "TrimSpace (sc_buf s1) = []"
      | "\<not> b" "next_loop s1 = (Statement t, s')"
      using "1.prems" ok Cons r by (auto simp: next_loop.simps [of s] Let_def split: if_splits bool.splits)
    then show ?thesis
    proof cases
      case 1
      with le Cons show ?thesis by simp
    next
      case 2
      with "1.IH"(1) [OF ok(1) ok(2) refl refl Cons r [symmetric]] le Cons show ?thesis by simp
    next
      case 3
      with "1.IH"(2) [OF ok(1) ok(2) refl refl Cons r [symmetric]] le Cons show ?thesis by simp
    qed
  qed
qed

lemma Next_consumes: "Next s = (Statement t, s') \<Longrightarrow> length (sc_in s') < length (sc_in s)"
  using next_loop_consumes [of "s\<lparr>sc_buf := [], sc_content := False\<rparr>" t s']
  by (cases "sc_in s") (auto simp: Next_def next_loop.simps [of "s\<lparr>sc_buf := [], sc_content := False\<rparr>"] Let_def TrimSpace_def split: if_splits)

function split_loop :: "stmtScanner \<Rightarrow> string list" where
  "split_loop s = (case Next s of (Statement t, s1) \<Rightarrow> t # split_loop s1 | _ \<Rightarrow> [])"
  by pat_completeness auto
termination by (relation "measure (length \<circ> sc_in)") (auto dest: Next_consumes [OF sym])

declare split_loop.simps [simp del]

definition splitStatements :: "string \<Rightarrow> dialect \<Rightarrow> string list" where
  "splitStatements src d = split_loop (newStmtScanner src False 0 d (length src + 1))"

end
