(* ===== verification/Utf8.thy ===== *)
theory Utf8
  imports Main
begin

text \<open>
  The parts of Go's \<open>unicode/utf8\<close> the database editor uses on byte strings: the width of the first rune by the byte ranges of
  RFC 3629, \<open>ValidString\<close>, the number of runes a regular expression counts (an invalid byte counts as one), \<open>RuneStart\<close>.
\<close>

definition cont_byte :: "nat \<Rightarrow> nat \<Rightarrow> char \<Rightarrow> bool" where
  "cont_byte lo hi c \<longleftrightarrow> (let n = (of_char c :: nat) in lo \<le> n \<and> n \<le> hi)"

abbreviation any_cont :: "char \<Rightarrow> bool" where "any_cont \<equiv> cont_byte 0x80 0xBF"

definition second_ok :: "nat \<Rightarrow> char \<Rightarrow> bool" where
  "second_ok b = (if b = 0xE0 then cont_byte 0xA0 0xBF else if b = 0xED then cont_byte 0x80 0x9F
     else if b = 0xF0 then cont_byte 0x90 0xBF else if b = 0xF4 then cont_byte 0x80 0x8F else any_cont)"

fun rune_width :: "string \<Rightarrow> nat option" where
  "rune_width [] = None"
| "rune_width (c # cs) =
    (let b = (of_char c :: nat) in
     if b < 0x80 then Some 1
     else if 0xC2 \<le> b \<and> b \<le> 0xDF then (case cs of c1 # _ \<Rightarrow> if any_cont c1 then Some 2 else None | _ \<Rightarrow> None)
     else if 0xE0 \<le> b \<and> b \<le> 0xEF then
       (case cs of c1 # c2 # _ \<Rightarrow> if second_ok b c1 \<and> any_cont c2 then Some 3 else None | _ \<Rightarrow> None)
     else if 0xF0 \<le> b \<and> b \<le> 0xF4 then
       (case cs of c1 # c2 # c3 # _ \<Rightarrow> if second_ok b c1 \<and> any_cont c2 \<and> any_cont c3 then Some 4 else None | _ \<Rightarrow> None)
     else None)"

lemma rune_width_pos: "rune_width s = Some n \<Longrightarrow> 0 < n \<and> n \<le> length s"
  by (cases s) (auto simp: Let_def split: if_splits list.splits)

function utf8_Valid :: "string \<Rightarrow> bool" where
  "utf8_Valid s = (case rune_width s of None \<Rightarrow> s = [] | Some n \<Rightarrow> utf8_Valid (drop n s))"
  by pat_completeness auto
termination by (relation "measure length") (auto dest: rune_width_pos)

declare utf8_Valid.simps [simp del]

function rune_count :: "string \<Rightarrow> nat" where
  "rune_count s = (if s = [] then 0 else Suc (rune_count (drop (case rune_width s of None \<Rightarrow> 1 | Some n \<Rightarrow> n) s)))"
  by pat_completeness auto
termination by (relation "measure length") (auto split: option.split dest: rune_width_pos)

declare rune_count.simps [simp del]

definition RuneStart :: "char \<Rightarrow> bool" where
  "RuneStart c \<longleftrightarrow> \<not> any_cont c"

end
