(* ===== verification/Dbeditor.thy ===== *)
theory Dbeditor
  imports Sql_Text Utf8 Auth
begin

text \<open>
  The database editor (\<^verbatim>\<open>svc/dbeditor.go\<close>): browsing, row editing and the SQL console over one connection to a tenant's database.

  The database server is not part of the repository: it is the parameter \<open>dbserver\<close>, over a state \<open>'w\<close> of the server. It
  answers the fixed catalog queries with their rows, and any other statement with bound arguments as it will. Every statement the
  editor sends is recorded in \<open>es_sent\<close>. An argument is a text or NULL, since the editor binds nothing else. A cell read into an
  \<open>any\<close> cannot fail to scan. Times and floating-point numbers are printed by the parameter \<open>formats\<close> (\<open>time.Format\<close> by layout,
  \<open>strconv.FormatFloat\<close> by format letter); a float is its 64-bit pattern. Elapsed times are left out of the results.
\<close>

section \<open>Types\<close>

record EditorTable =
  et_Name :: string
  et_Type :: string
  et_Rows :: int
  et_SizeBytes :: int
  et_Engine :: string

record EditorColumn =
  ec_Name :: string
  ec_Type :: string
  ec_Nullable :: bool
  ec_Default :: "string option"
  ec_Key :: string
  ec_Extra :: string
  ec_Comment :: string

record EditorIndex =
  ei_Name :: string
  ei_Columns :: "string list"
  ei_Unique :: bool
  ei_Primary :: bool
  ei_Method :: string

record EditorForeignKey =
  ef_Name :: string
  ef_Columns :: "string list"
  ef_RefTable :: string
  ef_RefColumns :: "string list"

record EditorStructure =
  es_Table :: string
  es_Type :: string
  es_Columns :: "EditorColumn list"
  es_PrimaryKey :: "string list"
  es_Indexes :: "EditorIndex list"
  es_ForeignKeys :: "EditorForeignKey list"

datatype dbvalue = VNil | VBytes string | VStr string | VTime gotime | VInt int | VFloat "64 word" | VBool bool | VOther string

datatype cell = CNull | CStr string | CInt int | CFloat "64 word" | CBool bool

record EditorResultColumn =
  rc_Name :: string
  rc_Type :: string

record EditorResult =
  er_Columns :: "EditorResultColumn list"
  er_Rows :: "cell list list"
  er_Affected :: int
  er_Total :: int
  er_Truncated :: bool

record EditorFilter =
  fl_Column :: string
  fl_Op :: string
  fl_Value :: string

record EditorBrowse =
  br_Table :: string
  br_Page :: int
  br_PageSize :: int
  br_Sort :: string
  br_Desc :: bool
  br_Filters :: "EditorFilter list"

abbreviation editorMaxConcurrent :: nat where "editorMaxConcurrent \<equiv> 3"
abbreviation editorMaxRows :: int where "editorMaxRows \<equiv> 1000"
abbreviation editorMaxBytes :: nat where "editorMaxBytes \<equiv> 8388608"
abbreviation editorMaxCell :: nat where "editorMaxCell \<equiv> 102400"
abbreviation editorMaxBinaryShown :: nat where "editorMaxBinaryShown \<equiv> 256"
abbreviation editorMaxFilters :: nat where "editorMaxFilters \<equiv> 10"
abbreviation editorMaxPageSize :: int where "editorMaxPageSize \<equiv> 200"

datatype edit_error = DbError string | TableMissing string | UnknownColumn string | TooManyFilters | BadOperator string
  | UnsupportedValue | ColumnValue string edit_error | NoPrimaryKey | KeyMismatch | KeyMissing string | KeyNull string
  | ViewNotEditable | RowNotFound | NothingToUpdate | ViewNotTruncated | EmptyStatement | EditText string

section \<open>The server\<close>

text \<open>The columns of the catalog queries: name, type, nullable, default, key, extra, comment (MySQL); the PostgreSQL query has no key
  column and reports by a flag whether the column counts up by itself.\<close>

record column_row =
  cr_name :: string
  cr_type :: string
  cr_nullable :: bool
  cr_default :: "string option"
  cr_key :: string
  cr_extra :: string
  cr_comment :: string
  cr_auto :: bool

record index_row =
  ir_name :: string
  ir_unique :: bool
  ir_primary :: bool
  ir_columns :: "string option"
  ir_method :: string

record fkey_row =
  fr_name :: string
  fr_columns :: "string option"
  fr_table :: string
  fr_refs :: "string option"

type_synonym arg = "string option"

record rowset =
  rs_cols :: "(string \<times> string) list"
  rs_rows :: "dbvalue list list"
  rs_err :: "string option"

record 'w dbserver =
  srv_tables :: "'w \<Rightarrow> string + EditorTable list"
  srv_columns :: "string \<Rightarrow> 'w \<Rightarrow> string + column_row list"
  srv_indexes :: "string \<Rightarrow> 'w \<Rightarrow> string + index_row list"
  srv_fkeys :: "string \<Rightarrow> 'w \<Rightarrow> string + fkey_row list"
  srv_query :: "string \<Rightarrow> arg list \<Rightarrow> 'w \<Rightarrow> (string + rowset) \<times> 'w"
  srv_exec :: "string \<Rightarrow> arg list \<Rightarrow> 'w \<Rightarrow> (string + int) \<times> 'w"
  srv_begin :: "'w \<Rightarrow> string option \<times> 'w"
  srv_commit :: "'w \<Rightarrow> string option \<times> 'w"
  srv_rollback :: "'w \<Rightarrow> 'w"

record formats =
  FormatFloat :: "char \<Rightarrow> 64 word \<Rightarrow> string"
  FormatTime :: "string \<Rightarrow> gotime \<Rightarrow> string"

text \<open>A connection: the server's state and what was sent on it.\<close>

record 'w conn =
  es_db :: 'w
  es_sent :: "(string \<times> arg list) list"

definition QueryContext :: "'w dbserver \<Rightarrow> string \<Rightarrow> arg list \<Rightarrow> 'w conn \<Rightarrow> (string + rowset) \<times> 'w conn" where
  "QueryContext srv q args c = (let (r, w) = srv_query srv q args (es_db c) in (r, \<lparr>es_db = w, es_sent = es_sent c @ [(q, args)]\<rparr>))"

definition ExecContext :: "'w dbserver \<Rightarrow> string \<Rightarrow> arg list \<Rightarrow> 'w conn \<Rightarrow> (string + int) \<times> 'w conn" where
  "ExecContext srv q args c = (let (r, w) = srv_exec srv q args (es_db c) in (r, \<lparr>es_db = w, es_sent = es_sent c @ [(q, args)]\<rparr>))"

section \<open>Concurrency limit\<close>

text \<open>\<open>acquire\<close>: the number of requests each panel user has running. The request is refused (\<open>None\<close>) when no slot becomes free
  within two seconds, or when its context ends first (\<open>cancelled\<close>); either way the counts stay as they are.\<close>

type_synonym sems = "int \<Rightarrow> nat option"

definition acquire :: "bool \<Rightarrow> int \<Rightarrow> sems \<Rightarrow> sems option \<times> sems" where
  "acquire cancelled userID sm = (let sm' = (case sm userID of None \<Rightarrow> sm(userID \<mapsto> 0) | Some _ \<Rightarrow> sm); n = the (sm' userID) in
     if n < editorMaxConcurrent \<and> \<not> cancelled then (Some (sm'(userID \<mapsto> n + 1)), sm') else (None, sm'))"

definition release :: "int \<Rightarrow> sems \<Rightarrow> sems" where
  "release userID sm = (case sm userID of Some n \<Rightarrow> sm(userID \<mapsto> n - 1) | None \<Rightarrow> sm)"

section \<open>Schema\<close>

definition Tables :: "'w dbserver \<Rightarrow> 'w conn \<Rightarrow> edit_error + EditorTable list" where
  "Tables srv c = map_sum DbError id (srv_tables srv (es_db c))"

definition requireTable :: "'w dbserver \<Rightarrow> 'w conn \<Rightarrow> string \<Rightarrow> edit_error + string" where
  "requireTable srv c name = (case Tables srv c of Inl e \<Rightarrow> Inl e
     | Inr ts \<Rightarrow> (case find (\<lambda>t. et_Name t = name) ts of None \<Rightarrow> Inl (TableMissing name) | Some t \<Rightarrow> Inr (et_Type t)))"

definition splitCols :: "string option \<Rightarrow> string list" where
  "splitCols s = (case s of None \<Rightarrow> [] | Some t \<Rightarrow> if t = [] then [] else Split (CHR '','') t)"

definition structureMySQL :: "'w dbserver \<Rightarrow> 'w conn \<Rightarrow> EditorStructure \<Rightarrow> edit_error + EditorStructure" where
  "structureMySQL srv c st =
    (case srv_columns srv (es_Table st) (es_db c) of Inl e \<Rightarrow> Inl (DbError e) | Inr cols \<Rightarrow>
     (case srv_indexes srv (es_Table st) (es_db c) of Inl e \<Rightarrow> Inl (DbError e) | Inr ixs \<Rightarrow>
     (case srv_fkeys srv (es_Table st) (es_db c) of Inl e \<Rightarrow> Inl (DbError e) | Inr fks \<Rightarrow>
       Inr (st\<lparr>
         es_Columns := map (\<lambda>r. \<lparr>ec_Name = cr_name r, ec_Type = cr_type r, ec_Nullable = cr_nullable r, ec_Default = cr_default r,
           ec_Key = cr_key r, ec_Extra = cr_extra r, ec_Comment = cr_comment r\<rparr>) cols,
         es_Indexes := map (\<lambda>r. \<lparr>ei_Name = ir_name r, ei_Columns = splitCols (ir_columns r), ei_Unique = ir_unique r,
           ei_Primary = (ir_name r = ''PRIMARY''), ei_Method = ir_method r\<rparr>) ixs,
         es_ForeignKeys := map (\<lambda>r. \<lparr>ef_Name = fr_name r, ef_Columns = splitCols (fr_columns r), ef_RefTable = fr_table r,
           ef_RefColumns = splitCols (fr_refs r)\<rparr>) fks\<rparr>))))"

text \<open>The key badge of a column on PostgreSQL: the loops over the indexes and their columns.\<close>

definition key_badge :: "EditorIndex list \<Rightarrow> EditorColumn \<Rightarrow> EditorColumn" where
  "key_badge ixs col = fold (\<lambda>ix col. fold (\<lambda>cn col.
      if cn \<noteq> ec_Name col then col
      else if ei_Primary ix then col\<lparr>ec_Key := ''PRI''\<rparr>
      else if ei_Unique ix \<and> length (ei_Columns ix) = 1 \<and> ec_Key col = [] then col\<lparr>ec_Key := ''UNI''\<rparr>
      else if ec_Key col = [] then col\<lparr>ec_Key := ''MUL''\<rparr> else col) (ei_Columns ix) col) ixs col"

definition structurePG :: "'w dbserver \<Rightarrow> 'w conn \<Rightarrow> EditorStructure \<Rightarrow> edit_error + EditorStructure" where
  "structurePG srv c st = (let reg = quote pgDialect (es_Table st) in
    (case srv_columns srv reg (es_db c) of Inl e \<Rightarrow> Inl (DbError e) | Inr cols \<Rightarrow>
     (case srv_indexes srv reg (es_db c) of Inl e \<Rightarrow> Inl (DbError e) | Inr ixs \<Rightarrow>
      let ixs' = map (\<lambda>r. \<lparr>ei_Name = ir_name r, ei_Columns = splitCols (ir_columns r), ei_Unique = ir_unique r,
            ei_Primary = ir_primary r, ei_Method = ir_method r\<rparr>) ixs;
          cols' = map (\<lambda>r. key_badge ixs' \<lparr>ec_Name = cr_name r, ec_Type = cr_type r, ec_Nullable = cr_nullable r, ec_Default = cr_default r,
            ec_Key = [], ec_Extra = (if cr_auto r then ''auto_increment'' else []), ec_Comment = cr_comment r\<rparr>) cols
      in (case srv_fkeys srv reg (es_db c) of Inl e \<Rightarrow> Inl (DbError e) | Inr fks \<Rightarrow>
       Inr (st\<lparr>es_Columns := cols', es_Indexes := ixs',
         es_ForeignKeys := map (\<lambda>r. \<lparr>ef_Name = fr_name r, ef_Columns = splitCols (fr_columns r), ef_RefTable = fr_table r,
           ef_RefColumns = splitCols (fr_refs r)\<rparr>) fks\<rparr>)))))"

definition Structure :: "dialect \<Rightarrow> 'w dbserver \<Rightarrow> 'w conn \<Rightarrow> string \<Rightarrow> edit_error + EditorStructure" where
  "Structure d srv c table =
    (case requireTable srv c table of Inl e \<Rightarrow> Inl e
     | Inr typ \<Rightarrow>
        let st = \<lparr>es_Table = table, es_Type = typ, es_Columns = [], es_PrimaryKey = [], es_Indexes = [], es_ForeignKeys = []\<rparr> in
        (case (if d = pgDialect then structurePG srv c st else structureMySQL srv c st) of Inl e \<Rightarrow> Inl e
         | Inr st' \<Rightarrow> Inr (fold (\<lambda>ix st. if ei_Primary ix then st\<lparr>es_PrimaryKey := ei_Columns ix\<rparr> else st) (es_Indexes st') st')))"

section \<open>Browsing\<close>

definition columnSet :: "EditorStructure \<Rightarrow> string set" where
  "columnSet st = set (map ec_Name (es_Columns st))"

text \<open>One filter: the conditions and arguments collected so far, extended.\<close>

definition add_filter :: "dialect \<Rightarrow> string set \<Rightarrow> EditorFilter \<Rightarrow> string list \<times> arg list \<Rightarrow> edit_error + string list \<times> arg list" where
  "add_filter d cols f = (\<lambda>(parts, args).
    if fl_Column f \<notin> cols then Inl (UnknownColumn (fl_Column f))
    else let q = quote d (fl_Column f);
             add = (\<lambda>expr opr val. Inr (parts @ [expr @ '' '' @ opr @ '' '' @ ph d (length args + 1)], args @ [Some val]));
             textExpr = (if d = pgDialect then ''CAST('' @ q @ '' AS TEXT)'' else q);
             opr = ToUpper (TrimSpace (fl_Op f)) in
      if opr = ''IS NULL'' \<or> opr = ''IS NOT NULL'' then Inr (parts @ [q @ '' '' @ opr], args)
      else if opr \<in> {''='', ''!='', ''<'', ''>'', ''<='', ''>=''} then add q opr (fl_Value f)
      else if opr = ''LIKE'' \<or> opr = ''NOT LIKE'' then add textExpr opr (fl_Value f)
      else if opr = ''CONTAINS'' then add textExpr ''LIKE'' (''%'' @ escapeLike (fl_Value f) @ ''%'')
      else Inl (BadOperator (fl_Op f)))"

fun add_filters :: "dialect \<Rightarrow> string set \<Rightarrow> EditorFilter list \<Rightarrow> string list \<times> arg list \<Rightarrow> edit_error + string list \<times> arg list" where
  "add_filters d cols [] acc = Inr acc"
| "add_filters d cols (f # fs) acc = (case add_filter d cols f acc of Inl e \<Rightarrow> Inl e | Inr acc' \<Rightarrow> add_filters d cols fs acc')"

definition buildWhere :: "dialect \<Rightarrow> string set \<Rightarrow> EditorFilter list \<Rightarrow> edit_error + string \<times> arg list" where
  "buildWhere d cols filters =
    (if length filters > editorMaxFilters then Inl TooManyFilters
     else case add_filters d cols filters ([], []) of Inl e \<Rightarrow> Inl e
       | Inr (parts, args) \<Rightarrow> if parts = [] then Inr ([], []) else Inr ('' WHERE '' @ Join '' AND '' parts, args))"

section \<open>Values\<close>

definition isBinaryType :: "string \<Rightarrow> bool" where
  "isBinaryType t \<longleftrightarrow> ToUpper t \<in> {''BLOB'', ''TINYBLOB'', ''MEDIUMBLOB'', ''LONGBLOB'', ''BINARY'', ''VARBINARY'', ''BYTEA''}"

abbreviation ellipsis :: string where "ellipsis \<equiv> [CHR 0xE2, CHR 0x80, CHR 0xA6]"

text \<open>The largest cut not above \<open>n\<close> that starts a rune, or 0.\<close>

fun cut_back :: "string \<Rightarrow> nat \<Rightarrow> nat" where
  "cut_back s 0 = 0"
| "cut_back s (Suc n) = (if RuneStart (s ! Suc n) then Suc n else cut_back s n)"

definition truncateText :: "string \<Rightarrow> string" where
  "truncateText s = (if length s \<le> editorMaxCell then s
     else take (cut_back s editorMaxCell) s @ ellipsis @ ''[truncated, '' @ decimal (length s) @ '' bytes]'')"

definition hex_bytes :: "string \<Rightarrow> string" where
  "hex_bytes s = concat (map (\<lambda>c. [hex_digit (of_char c div 16), hex_digit (of_char c mod 16)]) s)"

text \<open>\<open>math.IsNaN\<close> or \<open>math.IsInf\<close>: the exponent bits are all ones.\<close>

definition not_finite :: "64 word \<Rightarrow> bool" where
  "not_finite x \<longleftrightarrow> (unat x div 2 ^ 52) mod 2 ^ 11 = 2 ^ 11 - 1"

abbreviation RFC3339Nano :: string where "RFC3339Nano \<equiv> ''2006-01-02T15:04:05.999999999Z07:00''"

definition normalizeValue :: "formats \<Rightarrow> dbvalue \<Rightarrow> string \<Rightarrow> cell" where
  "normalizeValue F v dbType = (case v of
     VNil \<Rightarrow> CNull
   | VBytes x \<Rightarrow>
      if isBinaryType dbType \<or> \<not> utf8_Valid x then
        let shown = take editorMaxBinaryShown x; s = ''0x'' @ hex_bytes shown in
        CStr (if length x > length shown then s @ ellipsis @ ''('' @ decimal (length x) @ '' bytes)'' else s)
      else CStr (truncateText x)
   | VStr x \<Rightarrow> CStr (truncateText x)
   | VTime t \<Rightarrow> CStr (FormatTime F RFC3339Nano t)
   | VInt x \<Rightarrow> if x > 2 ^ 53 \<or> x < - (2 ^ 53) then CStr (decimal_int x) else CInt x
   | VFloat x \<Rightarrow> if not_finite x then CStr (FormatFloat F (CHR ''g'') x) else CFloat x
   | VBool b \<Rightarrow> CBool b
   | VOther x \<Rightarrow> CStr x)"

definition valueSize :: "cell \<Rightarrow> nat" where
  "valueSize v = (case v of CStr s \<Rightarrow> length s | _ \<Rightarrow> 8)"

text \<open>The loop over the rows: the rows read, whether the limit cut them off.\<close>

fun scan_loop :: "formats \<Rightarrow> string list \<Rightarrow> int \<Rightarrow> nat \<Rightarrow> dbvalue list list \<Rightarrow> cell list list \<Rightarrow> nat \<Rightarrow> cell list list \<times> bool" where
  "scan_loop F types maxRows maxBytes [] acc bytesRead = (acc, False)"
| "scan_loop F types maxRows maxBytes (vals # rest) acc bytesRead =
    (if int (length acc) \<ge> maxRows \<or> bytesRead > maxBytes then (acc, True)
     else let row = map2 (normalizeValue F) vals types in
       scan_loop F types maxRows maxBytes rest (acc @ [row]) (bytesRead + sum_list (map valueSize row)))"

definition scanRows :: "formats \<Rightarrow> rowset \<Rightarrow> int \<Rightarrow> nat \<Rightarrow> edit_error + EditorResult" where
  "scanRows F rs maxRows maxBytes =
    (let (rows, cut) = scan_loop F (map snd (rs_cols rs)) maxRows maxBytes (rs_rows rs) [] 0;
         res = \<lparr>er_Columns = map (\<lambda>(n, t). \<lparr>rc_Name = n, rc_Type = t\<rparr>) (rs_cols rs), er_Rows = rows, er_Affected = 0, er_Total = -1,
           er_Truncated = cut\<rparr>
     in case (if cut then None else rs_err rs) of Some e \<Rightarrow> Inl (DbError e) | None \<Rightarrow> Inr res)"

definition wrap64 :: "int \<Rightarrow> int" where
  "wrap64 x = sint (word_of_int x :: 64 word)"

text \<open>The count of matching rows: a failure, or anything but one integer, leaves \<open>-1\<close>.\<close>

definition count_rows :: "string + rowset \<Rightarrow> int" where
  "count_rows r = (case r of Inr rs \<Rightarrow> (case rs_rows rs of [VInt n] # _ \<Rightarrow> n | _ \<Rightarrow> -1) | Inl _ \<Rightarrow> -1)"

definition browse_order :: "dialect \<Rightarrow> EditorStructure \<Rightarrow> EditorBrowse \<Rightarrow> edit_error + string" where
  "browse_order d st req =
    (if br_Sort req \<noteq> [] then
       if br_Sort req \<notin> columnSet st then Inl (UnknownColumn (br_Sort req))
       else Inr ('' ORDER BY '' @ quote d (br_Sort req) @ (if br_Desc req then '' DESC'' else '' ASC''))
     else if es_PrimaryKey st \<noteq> [] then Inr ('' ORDER BY '' @ Join '', '' (map (quote d) (es_PrimaryKey st)))
     else Inr [])"

definition Browse :: "formats \<Rightarrow> dialect \<Rightarrow> 'w dbserver \<Rightarrow> EditorBrowse \<Rightarrow> 'w conn \<Rightarrow> (edit_error + EditorResult) \<times> 'w conn" where
  "Browse F d srv req c =
    (case Structure d srv c (br_Table req) of Inl e \<Rightarrow> (Inl e, c)
     | Inr st \<Rightarrow>
    (case buildWhere d (columnSet st) (br_Filters req) of Inl e \<Rightarrow> (Inl e, c)
     | Inr (where_text, args) \<Rightarrow>
    let size0 = (if br_PageSize req < 1 then 50 else br_PageSize req);
        size = (if size0 > editorMaxPageSize then editorMaxPageSize else size0);
        page = (if br_Page req < 1 then 1 else br_Page req) in
    (case browse_order d st req of Inl e \<Rightarrow> (Inl e, c)
     | Inr order \<Rightarrow>
    let tbl = quote d (br_Table req);
        (cr, c1) = QueryContext srv (''SELECT COUNT(*) FROM '' @ tbl @ where_text) args c;
        q = ''SELECT * FROM '' @ tbl @ where_text @ order @ '' LIMIT '' @ decimal_int size @ '' OFFSET '' @ decimal_int (wrap64 ((page - 1) * size));
        (r, c2) = QueryContext srv q args c1
    in case r of Inl e \<Rightarrow> (Inl (DbError e), c2)
       | Inr rs \<Rightarrow> (case scanRows F rs size editorMaxBytes of Inl e \<Rightarrow> (Inl e, c2)
           | Inr res \<Rightarrow> (Inr (res\<lparr>er_Total := count_rows cr\<rparr>), c2)))))"

text \<open>A value decoded from the client's JSON; numbers arrive as text (\<open>json.Number\<close>).\<close>

datatype jsonvalue = JNull | JStr string | JBool bool | JFloat "64 word" | JNumber string | JInt int | JOther

definition FormatBool :: "bool \<Rightarrow> string" where
  "FormatBool b = (if b then ''true'' else ''false'')"

definition toArg :: "formats \<Rightarrow> dialect \<Rightarrow> jsonvalue \<Rightarrow> edit_error + arg" where
  "toArg F d v = (case v of JNull \<Rightarrow> Inr None | JStr x \<Rightarrow> Inr (Some x)
     | JBool x \<Rightarrow> Inr (Some (if d = pgDialect then FormatBool x else if x then ''1'' else ''0''))
     | JFloat x \<Rightarrow> Inr (Some (FormatFloat F (CHR ''f'') x)) | JNumber x \<Rightarrow> Inr (Some x) | JInt x \<Rightarrow> Inr (Some (decimal_int x))
     | JOther \<Rightarrow> Inl UnsupportedValue)"

section \<open>Row editing\<close>

text \<open>The key and the values of a request are JSON objects: maps with the number of their entries.\<close>

type_synonym jsonobject = "(string \<times> jsonvalue) list"

fun key_conditions :: "formats \<Rightarrow> dialect \<Rightarrow> jsonobject \<Rightarrow> nat \<Rightarrow> string list \<Rightarrow> string list \<times> arg list \<Rightarrow> edit_error + string list \<times> arg list" where
  "key_conditions F d key startArg [] acc = Inr acc"
| "key_conditions F d key startArg (k # ks) acc =
    (case map_of key k of None \<Rightarrow> Inl (KeyMissing k)
     | Some v \<Rightarrow> if v = JNull then Inl (KeyNull k)
       else case toArg F d v of Inl e \<Rightarrow> Inl e
         | Inr a \<Rightarrow> let (parts, args) = acc; args' = args @ [a] in
             key_conditions F d key startArg ks (parts @ [quote d k @ '' = '' @ ph d (startArg + length args' - 1)], args'))"

definition keyWhere :: "formats \<Rightarrow> dialect \<Rightarrow> EditorStructure \<Rightarrow> jsonobject \<Rightarrow> nat \<Rightarrow> edit_error + string \<times> arg list" where
  "keyWhere F d st key startArg =
    (if es_PrimaryKey st = [] then Inl NoPrimaryKey
     else if length key \<noteq> length (es_PrimaryKey st) then Inl KeyMismatch
     else case key_conditions F d key startArg (es_PrimaryKey st) ([], []) of Inl e \<Rightarrow> Inl e
       | Inr (parts, args) \<Rightarrow> Inr ('' WHERE '' @ Join '' AND '' parts, args))"

definition writableTable :: "dialect \<Rightarrow> 'w dbserver \<Rightarrow> 'w conn \<Rightarrow> string \<Rightarrow> edit_error + EditorStructure" where
  "writableTable d srv c table = (case Structure d srv c table of Inl e \<Rightarrow> Inl e
     | Inr st \<Rightarrow> if es_Type st = ''view'' then Inl ViewNotEditable else Inr st)"

definition GetRow :: "formats \<Rightarrow> dialect \<Rightarrow> 'w dbserver \<Rightarrow> string \<Rightarrow> jsonobject \<Rightarrow> 'w conn \<Rightarrow> (edit_error + (string \<rightharpoonup> cell)) \<times> 'w conn" where
  "GetRow F d srv table key c =
    (case writableTable d srv c table of Inl e \<Rightarrow> (Inl e, c)
     | Inr st \<Rightarrow> (case keyWhere F d st key 1 of Inl e \<Rightarrow> (Inl e, c)
       | Inr (w, args) \<Rightarrow>
         let (r, c1) = QueryContext srv (''SELECT * FROM '' @ quote d table @ w @ '' LIMIT 1'') args c in
         (case r of Inl e \<Rightarrow> (Inl (DbError e), c1)
          | Inr rs \<Rightarrow> (case scanRows F rs 1 (editorMaxBytes * 2) of Inl e \<Rightarrow> (Inl e, c1)
             | Inr res \<Rightarrow> (case er_Rows res of [] \<Rightarrow> (Inl RowNotFound, c1)
                | row # _ \<Rightarrow> (Inr (map_of (rev (zip (map rc_Name (er_Columns res)) row))), c1))))))"

fun values_args :: "formats \<Rightarrow> dialect \<Rightarrow> jsonobject \<Rightarrow> string list \<Rightarrow> edit_error + arg list" where
  "values_args F d vals [] = Inr []"
| "values_args F d vals (n # ns) = (case toArg F d (the (map_of vals n)) of Inl e \<Rightarrow> Inl (ColumnValue n e)
     | Inr a \<Rightarrow> (case values_args F d vals ns of Inl e \<Rightarrow> Inl e | Inr as \<Rightarrow> Inr (a # as)))"

text \<open>Of several unknown columns the error names the first of the map's iteration, here the order of the list.\<close>

definition valuesToArgs :: "formats \<Rightarrow> dialect \<Rightarrow> EditorStructure \<Rightarrow> jsonobject \<Rightarrow> edit_error + string list \<times> arg list" where
  "valuesToArgs F d st vals =
    (case find (\<lambda>k. k \<notin> columnSet st) (map fst vals) of Some k \<Rightarrow> Inl (UnknownColumn k)
     | None \<Rightarrow> let ordered = filter (\<lambda>n. map_of vals n \<noteq> None) (map ec_Name (es_Columns st)) in
        (case values_args F d vals ordered of Inl e \<Rightarrow> Inl e | Inr args \<Rightarrow> Inr (ordered, args)))"

definition insert_sql :: "dialect \<Rightarrow> string \<Rightarrow> string list \<Rightarrow> string" where
  "insert_sql d table names = (let tbl = quote d table in
     if names = [] then (if d = pgDialect then ''INSERT INTO '' @ tbl @ '' DEFAULT VALUES'' else ''INSERT INTO '' @ tbl @ '' () VALUES ()'')
     else ''INSERT INTO '' @ tbl @ '' ('' @ Join '', '' (map (quote d) names) @ '') VALUES ('' @ Join '', '' (map (ph d) [1..<length names + 1]) @ '')'')"

definition db_result :: "string + int \<Rightarrow> edit_error + int" where
  "db_result r = map_sum DbError id r"

definition Insert :: "formats \<Rightarrow> dialect \<Rightarrow> 'w dbserver \<Rightarrow> string \<Rightarrow> jsonobject \<Rightarrow> 'w conn \<Rightarrow> (edit_error + int) \<times> 'w conn" where
  "Insert F d srv table vals c =
    (case writableTable d srv c table of Inl e \<Rightarrow> (Inl e, c)
     | Inr st \<Rightarrow> (case valuesToArgs F d st vals of Inl e \<Rightarrow> (Inl e, c)
       | Inr (names, args) \<Rightarrow> let (r, c1) = ExecContext srv (insert_sql d table names) args c in (db_result r, c1)))"

text \<open>A statement on one row that touches none is an error.\<close>

definition one_row :: "string + int \<Rightarrow> edit_error + int" where
  "one_row r = (case r of Inl e \<Rightarrow> Inl (DbError e) | Inr n \<Rightarrow> if n = 0 then Inl RowNotFound else Inr n)"

definition update_sql :: "dialect \<Rightarrow> string \<Rightarrow> string list \<Rightarrow> string \<Rightarrow> string" where
  "update_sql d table names w = ''UPDATE '' @ quote d table @ '' SET '' @
     Join '', '' (map (\<lambda>(i, n). quote d n @ '' = '' @ ph d i) (zip [1..<length names + 1] names)) @ w"

definition Update :: "formats \<Rightarrow> dialect \<Rightarrow> 'w dbserver \<Rightarrow> string \<Rightarrow> jsonobject \<Rightarrow> jsonobject \<Rightarrow> 'w conn \<Rightarrow> (edit_error + int) \<times> 'w conn" where
  "Update F d srv table key vals c =
    (case writableTable d srv c table of Inl e \<Rightarrow> (Inl e, c)
     | Inr st \<Rightarrow> if vals = [] then (Inl NothingToUpdate, c)
       else case valuesToArgs F d st vals of Inl e \<Rightarrow> (Inl e, c)
       | Inr (names, args) \<Rightarrow> (case keyWhere F d st key (length args + 1) of Inl e \<Rightarrow> (Inl e, c)
          | Inr (w, kargs) \<Rightarrow> let (r, c1) = ExecContext srv (update_sql d table names w) (args @ kargs) c in (one_row r, c1)))"

definition Delete_row :: "formats \<Rightarrow> dialect \<Rightarrow> 'w dbserver \<Rightarrow> string \<Rightarrow> jsonobject \<Rightarrow> 'w conn \<Rightarrow> (edit_error + int) \<times> 'w conn" where
  "Delete_row F d srv table key c =
    (case writableTable d srv c table of Inl e \<Rightarrow> (Inl e, c)
     | Inr st \<Rightarrow> (case keyWhere F d st key 1 of Inl e \<Rightarrow> (Inl e, c)
       | Inr (w, args) \<Rightarrow> let (r, c1) = ExecContext srv (''DELETE FROM '' @ quote d table @ w) args c in (one_row r, c1)))"

definition Truncate :: "dialect \<Rightarrow> 'w dbserver \<Rightarrow> string \<Rightarrow> 'w conn \<Rightarrow> (edit_error + unit) \<times> 'w conn" where
  "Truncate d srv table c =
    (case requireTable srv c table of Inl e \<Rightarrow> (Inl e, c)
     | Inr typ \<Rightarrow> if typ = ''view'' then (Inl ViewNotTruncated, c)
       else let (r, c1) = ExecContext srv (''TRUNCATE TABLE '' @ quote d table) [] c in (map_sum DbError (\<lambda>_. ()) r, c1))"

definition Drop :: "dialect \<Rightarrow> 'w dbserver \<Rightarrow> string \<Rightarrow> 'w conn \<Rightarrow> (edit_error + unit) \<times> 'w conn" where
  "Drop d srv table c =
    (case requireTable srv c table of Inl e \<Rightarrow> (Inl e, c)
     | Inr typ \<Rightarrow> let kw = (if typ = ''view'' then ''VIEW'' else ''TABLE'');
           (r, c1) = ExecContext srv (''DROP '' @ kw @ '' '' @ quote d table) [] c in (map_sum DbError (\<lambda>_. ()) r, c1))"

section \<open>The SQL console\<close>

definition statementReturnsRows :: "dialect \<Rightarrow> string \<Rightarrow> bool" where
  "statementReturnsRows d sqlText = (let fields = Fields (ToUpper sqlText) in
     fields \<noteq> [] \<and> (hd fields \<in> {''SELECT'', ''SHOW'', ''DESCRIBE'', ''DESC'', ''EXPLAIN'', ''WITH'', ''VALUES'', ''TABLE'', ''PRAGMA''}
       \<or> d = pgDialect \<and> ''RETURNING'' \<in> set fields))"

definition Exec :: "formats \<Rightarrow> dialect \<Rightarrow> 'w dbserver \<Rightarrow> string \<Rightarrow> int \<Rightarrow> 'w conn \<Rightarrow> (edit_error + EditorResult) \<times> 'w conn" where
  "Exec F d srv sqlText limit c =
    (let q = TrimSpace (TrimSuffix (TrimSpace sqlText) '';'');
         lim = (if limit < 1 \<or> limit > editorMaxRows then editorMaxRows else limit) in
     if q = [] then (Inl EmptyStatement, c)
     else if statementReturnsRows d q then
       (let (r, c1) = QueryContext srv q [] c in case r of Inl e \<Rightarrow> (Inl (DbError e), c1)
          | Inr rs \<Rightarrow> (scanRows F rs lim editorMaxBytes, c1))
     else (let (r, c1) = ExecContext srv q [] c in case r of Inl e \<Rightarrow> (Inl (DbError e), c1)
          | Inr n \<Rightarrow> (Inr \<lparr>er_Columns = [], er_Rows = [], er_Affected = n, er_Total = -1, er_Truncated = False\<rparr>, c1)))"

end
