(* ===== verification/Dbeditor_Schema.thy ===== *)
theory Dbeditor_Schema
  imports Dbeditor
begin

text \<open>
  Schema changes of the database editor (\<^verbatim>\<open>svc/dbeditor_schema.go\<close>): the column types of the two dialects, the validation of a
  request and the statements generated for it, and running them. Regular expressions are written as the sets of texts they match.
\<close>

record SchemaColumn =
  sl_Name :: string
  sl_Type :: string
  sl_Length :: string
  sl_Values :: "string list"
  sl_Unsigned :: bool
  sl_Nullable :: bool
  sl_Default :: string
  sl_DefaultValue :: string
  sl_AutoIncrement :: bool
  sl_Comment :: string

record SchemaRequest =
  sr_Action :: string
  sr_Table :: string
  sr_NewName :: string
  sr_Name :: string
  sr_Column :: "SchemaColumn option"
  sr_Columns :: "SchemaColumn list"
  sr_After :: string
  sr_First :: bool
  sr_KeyColumns :: "string list"
  sr_Unique :: bool
  sr_RefTable :: string
  sr_RefColumns :: "string list"
  sr_OnDelete :: string
  sr_OnUpdate :: string
  sr_Data :: bool

record SchemaResult =
  sx_Statements :: "string list"
  sx_Applied :: bool
  sx_FailedAt :: nat
  sx_Error :: string

datatype schema_error = BadName string string | ColError string string | NotThere string string | AlreadyThere string string
  | Twice string | SchemaText string | EditError edit_error | PrimaryKeyError schema_error | RefColumnsError schema_error

section \<open>Types\<close>

datatype cat = catInt | catNum | catStr | catBin | catTime | catBool | catJSON | catEnum

record typeSpec =
  ts_cat :: cat
  ts_length :: string
  ts_must :: bool

abbreviation ty :: "cat \<Rightarrow> typeSpec" where "ty k \<equiv> \<lparr>ts_cat = k, ts_length = [], ts_must = False\<rparr>"
abbreviation tyl :: "cat \<Rightarrow> string \<Rightarrow> typeSpec" where "tyl k l \<equiv> \<lparr>ts_cat = k, ts_length = l, ts_must = False\<rparr>"
abbreviation tym :: "cat \<Rightarrow> typeSpec" where "tym k \<equiv> \<lparr>ts_cat = k, ts_length = ''len'', ts_must = True\<rparr>"

definition mysqlTypes :: "(string \<times> typeSpec) list" where
  "mysqlTypes = [(''tinyint'', ty catInt), (''smallint'', ty catInt), (''mediumint'', ty catInt), (''int'', ty catInt), (''bigint'', ty catInt),
     (''decimal'', tyl catNum ''prec''), (''float'', ty catNum), (''double'', ty catNum),
     (''bit'', tyl catBin ''len''), (''boolean'', ty catBool),
     (''char'', tyl catStr ''len''), (''varchar'', tym catStr),
     (''tinytext'', ty catStr), (''text'', ty catStr), (''mediumtext'', ty catStr), (''longtext'', ty catStr),
     (''binary'', tyl catBin ''len''), (''varbinary'', tym catBin),
     (''tinyblob'', ty catBin), (''blob'', ty catBin), (''mediumblob'', ty catBin), (''longblob'', ty catBin),
     (''date'', ty catTime), (''time'', tyl catTime ''fsp''), (''datetime'', tyl catTime ''fsp''),
     (''timestamp'', tyl catTime ''fsp''), (''year'', ty catInt),
     (''json'', ty catJSON), (''enum'', ty catEnum), (''set'', ty catEnum)]"

definition pgTypes :: "(string \<times> typeSpec) list" where
  "pgTypes = [(''smallint'', ty catInt), (''integer'', ty catInt), (''bigint'', ty catInt),
     (''numeric'', tyl catNum ''prec''), (''real'', ty catNum), (''double precision'', ty catNum),
     (''boolean'', ty catBool),
     (''character'', tyl catStr ''len''), (''character varying'', tyl catStr ''len''), (''text'', ty catStr),
     (''bytea'', ty catBin),
     (''date'', ty catTime), (''time without time zone'', ty catTime), (''timestamp without time zone'', ty catTime),
     (''timestamp with time zone'', ty catTime), (''time with time zone'', ty catTime),
     (''uuid'', ty catStr), (''json'', ty catJSON), (''jsonb'', ty catJSON)]"

record SchemaTypeInfo =
  si_Name :: string
  si_Length :: string
  si_Must :: bool
  si_Cat :: string

definition catNames :: "cat \<Rightarrow> string" where
  "catNames k = (case k of catInt \<Rightarrow> ''int'' | catNum \<Rightarrow> ''num'' | catStr \<Rightarrow> ''str'' | catBin \<Rightarrow> ''bin'' | catTime \<Rightarrow> ''time''
     | catBool \<Rightarrow> ''bool'' | catJSON \<Rightarrow> ''json'' | catEnum \<Rightarrow> ''enum'')"

definition SchemaTypes :: "dialect \<Rightarrow> SchemaTypeInfo list" where
  "SchemaTypes d = (let (src, order) = (if d = pgDialect then (pgTypes,
       [''smallint'', ''integer'', ''bigint'', ''numeric'', ''real'', ''double precision'', ''boolean'',
        ''character varying'', ''character'', ''text'', ''uuid'', ''bytea'', ''date'', ''time without time zone'', ''timestamp without time zone'',
        ''timestamp with time zone'', ''time with time zone'', ''json'', ''jsonb''])
     else (mysqlTypes,
       [''tinyint'', ''smallint'', ''mediumint'', ''int'', ''bigint'', ''decimal'', ''float'', ''double'', ''boolean'', ''bit'',
        ''char'', ''varchar'', ''tinytext'', ''text'', ''mediumtext'', ''longtext'', ''binary'', ''varbinary'', ''tinyblob'', ''blob'', ''mediumblob'', ''longblob'',
        ''date'', ''time'', ''datetime'', ''timestamp'', ''year'', ''json'', ''enum'', ''set'']))
     in List.map_filter (\<lambda>n. map_option (\<lambda>sp. \<lparr>si_Name = n, si_Length = ts_length sp, si_Must = ts_must sp, si_Cat = catNames (ts_cat sp)\<rparr>)
          (map_of src n)) order)"

section \<open>Names and literals\<close>

definition reLen :: "string \<Rightarrow> bool" where
  "reLen s \<longleftrightarrow> 1 \<le> length s \<and> length s \<le> 5 \<and> list_all is_dec s"

definition two_digits :: "string \<Rightarrow> bool" where
  "two_digits s \<longleftrightarrow> 1 \<le> length s \<and> length s \<le> 2 \<and> list_all is_dec s"

definition rePrec :: "string \<Rightarrow> bool" where
  "rePrec s = (case Cut (CHR '','') s of None \<Rightarrow> two_digits s | Some (a, b) \<Rightarrow> two_digits a \<and> two_digits b)"

definition reFsp :: "string \<Rightarrow> bool" where
  "reFsp s \<longleftrightarrow> s \<in> {''0'', ''1'', ''2'', ''3'', ''4'', ''5'', ''6''}"

definition digits1 :: "string \<Rightarrow> bool" where
  "digits1 s \<longleftrightarrow> s \<noteq> [] \<and> list_all is_dec s"

definition reNumLit :: "string \<Rightarrow> bool" where
  "reNumLit s = (let t = TrimPrefix s ''-'' in
     case Cut (CHR ''.'') t of None \<Rightarrow> digits1 t | Some (a, b) \<Rightarrow> digits1 a \<and> digits1 b)"

definition name_char :: "char \<Rightarrow> bool" where
  "name_char c \<longleftrightarrow> (of_char c :: nat) \<ge> 0x20 \<and> c \<noteq> CHR 0x7F \<and> c \<noteq> bquote \<and> c \<noteq> dquote"

definition reNewName :: "string \<Rightarrow> bool" where
  "reNewName s \<longleftrightarrow> list_all name_char s \<and> 1 \<le> rune_count s \<and> rune_count s \<le> 64"

definition fkActionOK :: "string \<Rightarrow> bool" where
  "fkActionOK v \<longleftrightarrow> v \<in> {[], ''RESTRICT'', ''CASCADE'', ''SET NULL'', ''NO ACTION''}"

definition validNewName :: "string \<Rightarrow> string \<Rightarrow> bool" where
  "validNewName kind name \<longleftrightarrow> reNewName name \<and> TrimSpace name = name"

definition dialect_types :: "dialect \<Rightarrow> (string \<times> typeSpec) list" where
  "dialect_types d = (case d of pgDialect \<Rightarrow> pgTypes | mysqlDialect \<Rightarrow> mysqlTypes)"

definition base_type :: "SchemaColumn \<Rightarrow> string" where
  "base_type col = ToLower (TrimSpace (sl_Type col))"

definition length_ok :: "string \<Rightarrow> string \<Rightarrow> bool" where
  "length_ok kind l = (if kind = ''len'' then reLen l else if kind = ''prec'' then rePrec l else reFsp l)"

text \<open>The switch of \<open>renderType\<close>: the type with its values or its length.\<close>

definition type_text :: "dialect \<Rightarrow> SchemaColumn \<Rightarrow> typeSpec \<Rightarrow> schema_error + string" where
  "type_text d col spec = (let base = base_type col; len = TrimSpace (sl_Length col) in
     if ts_cat spec = catEnum then
       if sl_Values col = [] \<or> length (sl_Values col) > 200 then Inl (ColError (sl_Name col) ''list between 1 and 200 values'')
       else if list_ex (\<lambda>v. length v > 255) (sl_Values col) then Inl (ColError (sl_Name col) ''a value is longer than 255 characters'')
       else Inr (base @ ''('' @ Join '', '' (map (quoteSQLString d) (sl_Values col)) @ '')'')
     else if ts_length spec = [] then
       if len \<noteq> [] then Inl (ColError (sl_Name col) ''takes no length'') else Inr base
     else if len = [] then
       if ts_must spec then Inl (ColError (sl_Name col) ''needs a length'') else Inr base
     else if \<not> length_ok (ts_length spec) len then Inl (ColError (sl_Name col) ''is not a valid length'')
     else if ts_length spec = ''len'' \<and> (case ParseInt len of None \<Rightarrow> True | Some n \<Rightarrow> n < 1 \<or> n > 65535)
       then Inl (ColError (sl_Name col) ''length must be between 1 and 65535'')
     else Inr (base @ ''('' @ len @ '')''))"

definition renderType :: "dialect \<Rightarrow> SchemaColumn \<Rightarrow> schema_error + string \<times> typeSpec" where
  "renderType d col = (case map_of (dialect_types d) (base_type col) of
       None \<Rightarrow> Inl (ColError (sl_Name col) ''is not a supported type'')
     | Some spec \<Rightarrow> (case type_text d col spec of Inl e \<Rightarrow> Inl e
        | Inr out \<Rightarrow> Inr (if sl_Unsigned col \<and> d = mysqlDialect \<and> (ts_cat spec = catInt \<or> ts_cat spec = catNum) \<and> base_type col \<noteq> ''year''
            then out @ '' unsigned'' else out, spec)))"

definition boolLiteral :: "dialect \<Rightarrow> bool \<Rightarrow> string" where
  "boolLiteral d on = (case d of pgDialect \<Rightarrow> if on then ''TRUE'' else ''FALSE'' | mysqlDialect \<Rightarrow> if on then ''1'' else ''0'')"

definition renderDefault :: "dialect \<Rightarrow> SchemaColumn \<Rightarrow> string \<Rightarrow> typeSpec \<Rightarrow> schema_error + string" where
  "renderDefault d col base spec = (let err = (\<lambda>m. Inl (ColError (sl_Name col) m)) in
     if sl_Default col = [] \<or> sl_Default col = ''none'' then Inr []
     else if sl_Default col = ''null'' then
       (if \<not> sl_Nullable col then err ''a NOT NULL column cannot default to NULL'' else Inr '' DEFAULT NULL'')
     else if sl_Default col = ''current_timestamp'' then
       (if ts_cat spec \<noteq> catTime \<or> \<not> (Contains base ''stamp'' \<or> base = ''datetime'')
        then err ''CURRENT_TIMESTAMP only suits timestamp and datetime columns'' else Inr '' DEFAULT CURRENT_TIMESTAMP'')
     else if sl_Default col = ''value'' then
       (let v = sl_DefaultValue col in
        if ts_cat spec = catInt \<or> ts_cat spec = catNum then
          if \<not> reNumLit v then err ''is not a number'' else Inr ('' DEFAULT '' @ v)
        else if ts_cat spec = catBool then
          if ToLower v = ''1'' \<or> ToLower v = ''true'' then Inr ('' DEFAULT '' @ boolLiteral d True)
          else if ToLower v = ''0'' \<or> ToLower v = ''false'' then Inr ('' DEFAULT '' @ boolLiteral d False)
          else err ''a boolean default is true or false''
        else if length v > 4096 then err ''the default is too long''
        else Inr ('' DEFAULT '' @ quoteSQLString d v))
     else err ''unknown default mode'')"

definition pgSerialFor :: "string \<Rightarrow> string option" where
  "pgSerialFor base = (if base = ''smallint'' then Some ''smallserial'' else if base = ''integer'' then Some ''serial''
     else if base = ''bigint'' then Some ''bigserial'' else None)"

definition columnDDL :: "dialect \<Rightarrow> SchemaColumn \<Rightarrow> schema_error + string" where
  "columnDDL d col =
    (if \<not> validNewName ''column'' (sl_Name col) then Inl (BadName ''column'' (sl_Name col))
     else case renderType d col of Inl e \<Rightarrow> Inl e
     | Inr (typ, spec) \<Rightarrow> (case renderDefault d col (base_type col) spec of Inl e \<Rightarrow> Inl e
     | Inr def \<Rightarrow> let line = quote d (sl_Name col) @ '' '' in
       (case d of
         pgDialect \<Rightarrow>
          if sl_AutoIncrement col then
            (case pgSerialFor (base_type col) of None \<Rightarrow> Inl (ColError (sl_Name col) ''only smallint, integer and bigint can auto-increment'')
             | Some serial \<Rightarrow> Inr (line @ serial))
          else Inr (line @ typ @ (if \<not> sl_Nullable col then '' NOT NULL'' else []) @ def)
       | mysqlDialect \<Rightarrow>
          if sl_AutoIncrement col \<and> (ts_cat spec \<noteq> catInt \<or> base_type col = ''year'')
            then Inl (ColError (sl_Name col) ''only integer columns can auto-increment'')
          else if sl_Comment col \<noteq> [] \<and> length (sl_Comment col) > 1024 then Inl (ColError (sl_Name col) ''the comment is too long'')
          else Inr (line @ typ @ (if sl_Nullable col then '' NULL'' else '' NOT NULL'')
            @ (if sl_AutoIncrement col then '' AUTO_INCREMENT'' else def)
            @ (if sl_Comment col \<noteq> [] then '' COMMENT '' @ quoteSQLString d (sl_Comment col) else [])))))"

section \<open>Requests\<close>

definition indexNames :: "EditorStructure \<Rightarrow> string set" where
  "indexNames st = set (map ei_Name (es_Indexes st))"

definition fkNames :: "EditorStructure \<Rightarrow> string set" where
  "fkNames st = set (map ef_Name (es_ForeignKeys st))"

fun require_each :: "string set \<Rightarrow> string set \<Rightarrow> string list \<Rightarrow> schema_error option" where
  "require_each have seen [] = None"
| "require_each have seen (n # ns) = (if n \<notin> have then Some (NotThere ''column'' n) else if n \<in> seen then Some (Twice n)
     else require_each have (insert n seen) ns)"

definition requireColumns :: "string set \<Rightarrow> string list \<Rightarrow> schema_error option" where
  "requireColumns have cols = (if cols = [] \<or> length cols > 32 then Some (SchemaText ''choose between 1 and 32 columns'') else require_each have {} cols)"

definition requireNewTable :: "'w dbserver \<Rightarrow> 'w conn \<Rightarrow> string \<Rightarrow> schema_error option" where
  "requireNewTable srv c name = (if \<not> validNewName ''table'' name then Some (BadName ''table'' name)
     else case requireTable srv c name of Inr _ \<Rightarrow> Some (AlreadyThere ''table'' name) | Inl _ \<Rightarrow> None)"

text \<open>The loop over the columns of a new table: their lines, their names and the auto-increment column.\<close>

fun create_lines :: "dialect \<Rightarrow> SchemaColumn list \<Rightarrow> string set \<Rightarrow> string list \<Rightarrow> string \<Rightarrow> schema_error + string set \<times> string list \<times> string" where
  "create_lines d [] names lines autoCol = Inr (names, lines, autoCol)"
| "create_lines d (col # cols) names lines autoCol =
    (if sl_Name col \<in> names then Inl (Twice (sl_Name col))
     else case columnDDL d col of Inl e \<Rightarrow> Inl e
       | Inr line \<Rightarrow>
         if sl_AutoIncrement col \<and> autoCol \<noteq> [] then Inl (SchemaText ''only one column can auto-increment'')
         else create_lines d cols (insert (sl_Name col) names) (lines @ [line]) (if sl_AutoIncrement col then sl_Name col else autoCol))"

definition planCreateTable :: "dialect \<Rightarrow> 'w dbserver \<Rightarrow> 'w conn \<Rightarrow> SchemaRequest \<Rightarrow> schema_error + string list" where
  "planCreateTable d srv c req =
    (case requireNewTable srv c (sr_Table req) of Some e \<Rightarrow> Inl e
     | None \<Rightarrow>
       if sr_Columns req = [] \<or> length (sr_Columns req) > 500 then Inl (SchemaText ''a table needs between 1 and 500 columns'')
       else case create_lines d (sr_Columns req) {} [] [] of Inl e \<Rightarrow> Inl e
       | Inr (names, lines, autoCol) \<Rightarrow>
         let pk = sr_KeyColumns req in
         (case (if pk = [] then None else requireColumns names pk) of Some e \<Rightarrow> Inl (PrimaryKeyError e)
          | None \<Rightarrow>
            let lines' = (if pk = [] then lines else lines @ [''PRIMARY KEY ('' @ quoteList d pk @ '')'']) in
            if autoCol \<noteq> [] \<and> d \<noteq> pgDialect \<and> autoCol \<notin> set pk
            then Inl (SchemaText ''the auto-increment column must be part of the primary key'')
            else Inr [''CREATE TABLE '' @ quote d (sr_Table req) @ '' ('' @ [newline] @ ''  '' @ Join ('','' @ [newline] @ ''  '') lines' @ [newline] @ '')'']))"

definition fk_action :: "string \<Rightarrow> string \<Rightarrow> schema_error + string" where
  "fk_action clause v0 = (let v = ToUpper (TrimSpace v0) in
     if \<not> fkActionOK v then Inl (SchemaText clause) else Inr (if v \<noteq> [] then '' '' @ clause @ '' '' @ v else []))"

definition planAddFK :: "dialect \<Rightarrow> 'w dbserver \<Rightarrow> 'w conn \<Rightarrow> EditorStructure \<Rightarrow> SchemaRequest \<Rightarrow> schema_error + string list" where
  "planAddFK d srv c st req =
    (if \<not> validNewName ''foreign key'' (sr_Name req) then Inl (BadName ''foreign key'' (sr_Name req))
     else if sr_Name req \<in> fkNames st then Inl (AlreadyThere ''foreign key'' (sr_Name req))
     else case requireColumns (columnSet st) (sr_KeyColumns req) of Some e \<Rightarrow> Inl e
     | None \<Rightarrow> (case Structure d srv c (sr_RefTable req) of Inl e \<Rightarrow> Inl (EditError e)
     | Inr ref \<Rightarrow>
       if es_Type ref = ''view'' then Inl (SchemaText ''a foreign key cannot reference a view'')
       else case requireColumns (columnSet ref) (sr_RefColumns req) of Some e \<Rightarrow> Inl (RefColumnsError e)
       | None \<Rightarrow>
         if length (sr_RefColumns req) \<noteq> length (sr_KeyColumns req)
         then Inl (SchemaText ''the foreign key and the referenced key need the same number of columns'')
         else case fk_action ''ON DELETE'' (sr_OnDelete req) of Inl e \<Rightarrow> Inl e
         | Inr del \<Rightarrow> (case fk_action ''ON UPDATE'' (sr_OnUpdate req) of Inl e \<Rightarrow> Inl e
         | Inr upd \<Rightarrow> Inr [''ALTER TABLE '' @ quote d (es_Table st) @ '' ADD CONSTRAINT '' @ quote d (sr_Name req) @ '' FOREIGN KEY ('' @
             quoteList d (sr_KeyColumns req) @ '') REFERENCES '' @ quote d (es_Table ref) @ '' ('' @ quoteList d (sr_RefColumns req) @ '')'' @ del @ upd])))"

section \<open>Changing a PostgreSQL column\<close>

text \<open>\<open>rePGTimePrec\<close>: a fractional-seconds precision right after the type name is dropped.\<close>

definition drop_time_prec :: "string \<Rightarrow> string" where
  "drop_time_prec s = (let cut = (\<lambda>name. let r = drop (length name) s in
       if HasPrefix s name \<and> length r \<ge> 3 \<and> r ! 0 = CHR ''('' \<and> is_dec (r ! 1) \<and> r ! 2 = CHR '')'' then Some (name @ drop 3 r) else None)
     in case cut ''time'' of Some t \<Rightarrow> t | None \<Rightarrow> (case cut ''timestamp'' of Some t \<Rightarrow> t | None \<Rightarrow> s))"

definition pgSameType :: "string \<Rightarrow> string \<Rightarrow> bool" where
  "pgSameType current rendered \<longleftrightarrow> EqualFold (drop_time_prec current) rendered"

text \<open>\<open>rePGCast\<close>: one or more casts up to the end of the text.\<close>

definition cast_char :: "char \<Rightarrow> bool" where
  "cast_char c \<longleftrightarrow> c = CHR ''_'' \<or> c = CHR '' '' \<or> (let n = (of_char c :: nat) in 97 \<le> n \<and> n \<le> 122)"

definition prec_char :: "char \<Rightarrow> bool" where
  "prec_char c \<longleftrightarrow> is_dec c \<or> c = CHR '','' \<or> c = CHR '' ''"

definition cast_parens :: "string \<Rightarrow> string option" where
  "cast_parens r = (case r of c # r' \<Rightarrow> if c = CHR ''('' then (case dropWhile prec_char r' of b # r2 \<Rightarrow> if b = CHR '')'' then Some r2 else None | [] \<Rightarrow> None)
     else Some r | [] \<Rightarrow> Some [])"

lemma cast_parens_shorter: "cast_parens r = Some r' \<Longrightarrow> length r' \<le> length r"
proof (cases r)
  case (Cons c cs)
  have "length (dropWhile prec_char cs) \<le> length cs" by (rule length_dropWhile_le)
  then show "cast_parens r = Some r' \<Longrightarrow> length r' \<le> length r"
    using Cons by (auto simp: cast_parens_def split: if_splits list.splits)
qed (simp add: cast_parens_def)

lemma casts_shorter:
  assumes "HasPrefix s ''::''" "cast_parens (dropWhile cast_char (drop 2 s)) = Some r"
  shows "length r < length s"
proof -
  have "length r \<le> length (dropWhile cast_char (drop 2 s))" using assms(2) by (rule cast_parens_shorter)
  also have "\<dots> \<le> length (drop 2 s)" by (rule length_dropWhile_le)
  also have "\<dots> < length s" using assms(1) by (elim HasPrefixE) simp
  finally show ?thesis .
qed

function casts :: "string \<Rightarrow> bool" where
  "casts s = (if \<not> HasPrefix s ''::'' \<or> takeWhile cast_char (drop 2 s) = [] then False
     else case cast_parens (dropWhile cast_char (drop 2 s)) of None \<Rightarrow> False | Some r \<Rightarrow> r = [] \<or> casts r)"
  by pat_completeness auto
termination by (relation "measure length") (auto dest: casts_shorter)

declare casts.simps [simp del]

fun drop_casts :: "string \<Rightarrow> string" where
  "drop_casts s = (if casts s then [] else case s of [] \<Rightarrow> [] | c # cs \<Rightarrow> c # drop_casts cs)"

declare drop_casts.simps [simp del]

definition pgNormDefault :: "string \<Rightarrow> string" where
  "pgNormDefault def = (let d1 = TrimSpace (TrimPrefix (TrimSpace def) ''DEFAULT''); d2 = ToLower (TrimSpace (drop_casts d1)) in
     if d2 \<in> {''now()'', ''current_timestamp'', ''current_timestamp()'', ''localtimestamp''} then ''current_timestamp'' else d2)"

text \<open>The statements of \<open>planPGModify\<close>, in order: rename, type, nullability, default, comment. \<open>tbl\<close> and \<open>qc\<close> are the quoted names.\<close>

definition pg_rename :: "string \<Rightarrow> SchemaRequest \<Rightarrow> SchemaColumn \<Rightarrow> string list" where
  "pg_rename tbl req col = (if sl_Name col \<noteq> sr_Name req
     then [''ALTER TABLE '' @ tbl @ '' RENAME COLUMN '' @ quote pgDialect (sr_Name req) @ '' TO '' @ quote pgDialect (sl_Name col)] else [])"

definition pg_retype :: "string \<Rightarrow> string \<Rightarrow> EditorColumn \<Rightarrow> string \<Rightarrow> string list" where
  "pg_retype tbl qc cur tx = (if \<not> pgSameType (ec_Type cur) tx
     then [''ALTER TABLE '' @ tbl @ '' ALTER COLUMN '' @ qc @ '' TYPE '' @ tx @ '' USING '' @ qc @ ''::'' @ tx] else [])"

definition pg_nullability :: "string \<Rightarrow> string \<Rightarrow> EditorColumn \<Rightarrow> SchemaColumn \<Rightarrow> string list" where
  "pg_nullability tbl qc cur col = (if sl_Nullable col \<noteq> ec_Nullable cur
     then [''ALTER TABLE '' @ tbl @ '' ALTER COLUMN '' @ qc @ '' '' @ (if sl_Nullable col then ''DROP NOT NULL'' else ''SET NOT NULL'')] else [])"

definition pg_redefault :: "string \<Rightarrow> string \<Rightarrow> EditorColumn \<Rightarrow> string \<Rightarrow> string list" where
  "pg_redefault tbl qc cur dflt = (if pgNormDefault dflt \<noteq> pgNormDefault (case ec_Default cur of None \<Rightarrow> [] | Some t \<Rightarrow> t)
     then [''ALTER TABLE '' @ tbl @ '' ALTER COLUMN '' @ qc @ (if dflt = [] then '' DROP DEFAULT'' else '' SET'' @ dflt)] else [])"

definition pg_comment :: "string \<Rightarrow> string \<Rightarrow> EditorColumn \<Rightarrow> SchemaColumn \<Rightarrow> string list" where
  "pg_comment tbl qc cur col = (if sl_Comment col \<noteq> ec_Comment cur
     then [''COMMENT ON COLUMN '' @ tbl @ ''.'' @ qc @ '' IS '' @ (if sl_Comment col \<noteq> [] then quoteSQLString pgDialect (sl_Comment col) else ''NULL'')] else [])"

definition pg_modify :: "EditorStructure \<Rightarrow> EditorColumn \<Rightarrow> SchemaRequest \<Rightarrow> SchemaColumn \<Rightarrow> string \<Rightarrow> schema_error + string \<Rightarrow> schema_error + string list" where
  "pg_modify st cur req col tx default_text =
    (let tbl = quote pgDialect (es_Table st); qc = quote pgDialect (if sl_Name col \<noteq> sr_Name req then sl_Name col else sr_Name req)
     in case (if sl_AutoIncrement col then Inr [] else case default_text of Inl e \<Rightarrow> Inl e
         | Inr dflt \<Rightarrow> Inr (pg_retype tbl qc cur tx @ pg_nullability tbl qc cur col @ pg_redefault tbl qc cur dflt)) of
        Inl e \<Rightarrow> Inl e
      | Inr mid \<Rightarrow> let out = pg_rename tbl req col @ mid @ pg_comment tbl qc cur col in
          if out = [] then Inl (SchemaText ''nothing to change'') else Inr out)"

text \<open>The current column is the last of that name.\<close>

definition planPGModify :: "EditorStructure \<Rightarrow> SchemaRequest \<Rightarrow> SchemaColumn \<Rightarrow> schema_error + string list" where
  "planPGModify st req col =
    (case renderType pgDialect col of Inl e \<Rightarrow> Inl e
     | Inr (typ, spec) \<Rightarrow>
       (case find (\<lambda>c. ec_Name c = sr_Name req) (rev (es_Columns st)) of
          None \<Rightarrow> Inl (SchemaText ''no such column'')
        | Some cur \<Rightarrow>
          if sl_AutoIncrement col \<noteq> (ec_Extra cur = ''auto_increment'')
          then Inl (SchemaText ''auto-increment cannot be switched on or off for an existing PostgreSQL column; add a new column instead'')
          else pg_modify st cur req col typ (renderDefault pgDialect col (base_type col) spec)))"

section \<open>Planning and applying\<close>

definition view_only_rename :: "EditorStructure \<Rightarrow> SchemaRequest \<Rightarrow> bool" where
  "view_only_rename st req \<longleftrightarrow> es_Type st = ''view'' \<and> sr_Action req \<noteq> ''rename_table''"

definition plan_rename :: "dialect \<Rightarrow> 'w dbserver \<Rightarrow> 'w conn \<Rightarrow> EditorStructure \<Rightarrow> SchemaRequest \<Rightarrow> schema_error + string list" where
  "plan_rename d srv c st req = (case requireNewTable srv c (sr_NewName req) of Some e \<Rightarrow> Inl e
     | None \<Rightarrow> let tbl = quote d (es_Table st) in (case d of
         pgDialect \<Rightarrow> Inr [''ALTER '' @ (if es_Type st = ''view'' then ''VIEW'' else ''TABLE'') @ '' '' @ tbl @ '' RENAME TO '' @ quote d (sr_NewName req)]
       | mysqlDialect \<Rightarrow> Inr [''RENAME TABLE '' @ tbl @ '' TO '' @ quote d (sr_NewName req)]))"

definition plan_copy :: "dialect \<Rightarrow> 'w dbserver \<Rightarrow> 'w conn \<Rightarrow> EditorStructure \<Rightarrow> SchemaRequest \<Rightarrow> schema_error + string list" where
  "plan_copy d srv c st req = (case requireNewTable srv c (sr_NewName req) of Some e \<Rightarrow> Inl e
     | None \<Rightarrow> let tbl = quote d (es_Table st); nt = quote d (sr_NewName req) in
       Inr ((case d of pgDialect \<Rightarrow> ''CREATE TABLE '' @ nt @ '' (LIKE '' @ tbl @ '' INCLUDING ALL)'' | mysqlDialect \<Rightarrow> ''CREATE TABLE '' @ nt @ '' LIKE '' @ tbl)
         # (if sr_Data req then [''INSERT INTO '' @ nt @ '' SELECT * FROM '' @ tbl] else [])))"

definition plan_add_column :: "dialect \<Rightarrow> EditorStructure \<Rightarrow> SchemaRequest \<Rightarrow> schema_error + string list" where
  "plan_add_column d st req = (case sr_Column req of None \<Rightarrow> Inl (SchemaText ''describe the new column'')
     | Some col \<Rightarrow>
       if sl_Name col \<in> columnSet st then Inl (AlreadyThere ''column'' (sl_Name col))
       else case columnDDL d col of Inl e \<Rightarrow> Inl e
       | Inr line \<Rightarrow> let tbl = quote d (es_Table st); stmt = ''ALTER TABLE '' @ tbl @ '' ADD COLUMN '' @ line in
         (case d of
           mysqlDialect \<Rightarrow>
             if sr_First req then Inr [stmt @ '' FIRST'']
             else if sr_After req \<noteq> [] then
               (if sr_After req \<notin> columnSet st then Inl (NotThere ''column'' (sr_After req)) else Inr [stmt @ '' AFTER '' @ quote d (sr_After req)])
             else Inr [stmt]
         | pgDialect \<Rightarrow> Inr (stmt # (if sl_Comment col \<noteq> []
             then [''COMMENT ON COLUMN '' @ tbl @ ''.'' @ quote d (sl_Name col) @ '' IS '' @ quoteSQLString d (sl_Comment col)] else []))))"

definition plan_modify :: "dialect \<Rightarrow> EditorStructure \<Rightarrow> SchemaRequest \<Rightarrow> schema_error + string list" where
  "plan_modify d st req = (case sr_Column req of None \<Rightarrow> Inl (SchemaText ''describe the column'')
     | Some col \<Rightarrow>
       if sr_Name req \<notin> columnSet st then Inl (NotThere ''column'' (sr_Name req))
       else if sl_Name col \<noteq> sr_Name req \<and> sl_Name col \<in> columnSet st then Inl (AlreadyThere ''column'' (sl_Name col))
       else case columnDDL d col of Inl e \<Rightarrow> Inl e
       | Inr line \<Rightarrow> (case d of
           mysqlDialect \<Rightarrow> Inr [''ALTER TABLE '' @ quote d (es_Table st) @ '' CHANGE COLUMN '' @ quote d (sr_Name req) @ '' '' @ line]
         | pgDialect \<Rightarrow> planPGModify st req col))"

definition plan_index :: "dialect \<Rightarrow> EditorStructure \<Rightarrow> SchemaRequest \<Rightarrow> schema_error + string list" where
  "plan_index d st req =
    (if \<not> validNewName ''index'' (sr_Name req) then Inl (BadName ''index'' (sr_Name req))
     else if sr_Name req \<in> indexNames st then Inl (AlreadyThere ''index'' (sr_Name req))
     else case requireColumns (columnSet st) (sr_KeyColumns req) of Some e \<Rightarrow> Inl e
     | None \<Rightarrow> Inr [''CREATE '' @ (if sr_Unique req then ''UNIQUE '' else []) @ ''INDEX '' @ quote d (sr_Name req) @ '' ON '' @ quote d (es_Table st) @
         '' ('' @ quoteList d (sr_KeyColumns req) @ '')''])"

definition plan_drop_column :: "dialect \<Rightarrow> EditorStructure \<Rightarrow> SchemaRequest \<Rightarrow> schema_error + string list" where
  "plan_drop_column d st req =
    (if sr_Name req \<notin> columnSet st then Inl (NotThere ''column'' (sr_Name req))
     else if length (es_Columns st) = 1 then Inl (SchemaText ''a table must keep at least one column; drop the table instead'')
     else Inr [''ALTER TABLE '' @ quote d (es_Table st) @ '' DROP COLUMN '' @ quote d (sr_Name req)])"

definition plan_drop_index :: "dialect \<Rightarrow> EditorStructure \<Rightarrow> SchemaRequest \<Rightarrow> schema_error + string list" where
  "plan_drop_index d st req =
    (if sr_Name req \<notin> indexNames st then Inl (NotThere ''index'' (sr_Name req))
     else if list_ex (\<lambda>ix. ei_Name ix = sr_Name req \<and> ei_Primary ix) (es_Indexes st)
       then Inl (SchemaText ''the primary key cannot be dropped here'')
     else Inr [case d of pgDialect \<Rightarrow> ''DROP INDEX '' @ quote d (sr_Name req)
       | mysqlDialect \<Rightarrow> ''ALTER TABLE '' @ quote d (es_Table st) @ '' DROP INDEX '' @ quote d (sr_Name req)])"

definition plan_drop_fk :: "dialect \<Rightarrow> EditorStructure \<Rightarrow> SchemaRequest \<Rightarrow> schema_error + string list" where
  "plan_drop_fk d st req =
    (if sr_Name req \<notin> fkNames st then Inl (NotThere ''foreign key'' (sr_Name req))
     else Inr [''ALTER TABLE '' @ quote d (es_Table st) @ (case d of pgDialect \<Rightarrow> '' DROP CONSTRAINT '' | mysqlDialect \<Rightarrow> '' DROP FOREIGN KEY '')
       @ quote d (sr_Name req)])"

definition PlanSchema :: "dialect \<Rightarrow> 'w dbserver \<Rightarrow> 'w conn \<Rightarrow> SchemaRequest \<Rightarrow> schema_error + string list" where
  "PlanSchema d srv c req = (let action = sr_Action req in
     if action = ''create_table'' then planCreateTable d srv c req
     else case Structure d srv c (sr_Table req) of Inl e \<Rightarrow> Inl (EditError e)
     | Inr st \<Rightarrow>
       if view_only_rename st req then Inl (SchemaText ''this operation is for tables, not views'')
       else if action = ''rename_table'' then plan_rename d srv c st req
       else if action = ''copy_table'' then plan_copy d srv c st req
       else if action = ''add_column'' then plan_add_column d st req
       else if action = ''drop_column'' then plan_drop_column d st req
       else if action = ''modify_column'' then plan_modify d st req
       else if action = ''add_index'' then plan_index d st req
       else if action = ''drop_index'' then plan_drop_index d st req
       else if action = ''add_foreign_key'' then planAddFK d srv c st req
       else if action = ''drop_foreign_key'' then plan_drop_fk d st req
       else Inl (SchemaText ''unknown action''))"

text \<open>Running the statements in order, up to the first failure, whose number is returned. The callback \<open>before\<close> (\<open>audit\<close> in the source) is called
  with each statement just before it runs; \<open>x\<close> is the state it works on.\<close>

fun run_all :: "(string \<Rightarrow> 'x \<Rightarrow> 'x) \<Rightarrow> 'w dbserver \<Rightarrow> nat \<Rightarrow> string list \<Rightarrow> 'w conn \<Rightarrow> 'x \<Rightarrow> (nat \<times> string) option \<times> 'w conn \<times> 'x" where
  "run_all before srv i [] c x = (None, c, x)"
| "run_all before srv i (s # ss) c x = (let x1 = before s x; (r, c1) = ExecContext srv s [] c in
     case r of Inl e \<Rightarrow> (Some (i + 1, e), c1, x1) | Inr _ \<Rightarrow> run_all before srv (i + 1) ss c1 x1)"

definition with_db :: "('w \<Rightarrow> 'a \<times> 'w) \<Rightarrow> 'w conn \<Rightarrow> 'a \<times> 'w conn" where
  "with_db f c = (let (r, w) = f (es_db c) in (r, c\<lparr>es_db := w\<rparr>))"

text \<open>On PostgreSQL the deferred \<open>Rollback\<close> undoes the statements of a run that was not committed; after a commit it does nothing.
  A failed commit has ended the transaction too: the server has rolled it back.\<close>

definition ApplySchema :: "(string \<Rightarrow> 'x \<Rightarrow> 'x) \<Rightarrow> dialect \<Rightarrow> 'w dbserver \<Rightarrow> SchemaRequest \<Rightarrow> bool \<Rightarrow> 'w conn \<Rightarrow> 'x
    \<Rightarrow> (schema_error + SchemaResult \<times> string option) \<times> 'w conn \<times> 'x" where
  "ApplySchema before d srv req preview c x =
    (case PlanSchema d srv c req of Inl e \<Rightarrow> (Inl e, c, x)
     | Inr stmts \<Rightarrow>
       let res = \<lparr>sx_Statements = stmts, sx_Applied = False, sx_FailedAt = 0, sx_Error = []\<rparr> in
       if preview then (Inr (res, None), c, x)
       else if d = pgDialect then
         (case with_db (srv_begin srv) c of (Some e, c1) \<Rightarrow> (Inl (EditError (DbError e)), c1, x)
          | (None, c1) \<Rightarrow> (case run_all before srv 0 stmts c1 x of
             (Some (n, e), c2, x1) \<Rightarrow> (Inr (res\<lparr>sx_FailedAt := n, sx_Error := e\<rparr>, Some e), c2\<lparr>es_db := srv_rollback srv (es_db c2)\<rparr>, x1)
           | (None, c2, x1) \<Rightarrow> (case with_db (srv_commit srv) c2 of
               (Some e, c3) \<Rightarrow> (Inr (res\<lparr>sx_Error := e\<rparr>, Some e), c3, x1)
             | (None, c3) \<Rightarrow> (Inr (res\<lparr>sx_Applied := True\<rparr>, None), c3, x1))))
       else (case run_all before srv 0 stmts c x of
           (Some (n, e), c2, x1) \<Rightarrow> (Inr (res\<lparr>sx_FailedAt := n, sx_Error := e\<rparr>, Some e), c2, x1)
         | (None, c2, x1) \<Rightarrow> (Inr (res\<lparr>sx_Applied := True\<rparr>, None), c2, x1)))"

definition maintenance_sql :: "dialect \<Rightarrow> string \<Rightarrow> string \<Rightarrow> string option" where
  "maintenance_sql d opr tbl = (case d of
     pgDialect \<Rightarrow> if opr = ''analyze'' then Some (''ANALYZE '' @ tbl) else if opr = ''vacuum'' then Some (''VACUUM '' @ tbl)
       else if opr = ''reindex'' then Some (''REINDEX TABLE '' @ tbl) else None
   | mysqlDialect \<Rightarrow> if opr = ''analyze'' then Some (''ANALYZE TABLE '' @ tbl) else if opr = ''optimize'' then Some (''OPTIMIZE TABLE '' @ tbl)
       else if opr = ''check'' then Some (''CHECK TABLE '' @ tbl) else if opr = ''repair'' then Some (''REPAIR TABLE '' @ tbl) else None)"

definition Maintenance :: "formats \<Rightarrow> dialect \<Rightarrow> 'w dbserver \<Rightarrow> string \<Rightarrow> string \<Rightarrow> 'w conn
    \<Rightarrow> (edit_error + EditorResult option) \<times> string \<times> 'w conn" where
  "Maintenance F d srv table opr c =
    (case requireTable srv c table of Inl e \<Rightarrow> (Inl e, [], c)
     | Inr typ \<Rightarrow> if typ = ''view'' then (Inl (EditText ''maintenance applies to tables, not views''), [], c)
       else case maintenance_sql d opr (quote d table) of None \<Rightarrow> (Inl (EditText ''is not a maintenance operation for this database''), [], c)
       | Some stmt \<Rightarrow>
         if d = mysqlDialect then
           (case QueryContext srv stmt [] c of (Inl e, c1) \<Rightarrow> (Inl (DbError e), stmt, c1)
            | (Inr rs, c1) \<Rightarrow> (map_sum id Some (scanRows F rs 100 editorMaxBytes), stmt, c1))
         else (case ExecContext srv stmt [] c of (Inl e, c1) \<Rightarrow> (Inl (DbError e), stmt, c1) | (Inr _, c1) \<Rightarrow> (Inr None, stmt, c1)))"

end
