(* ===== verification/Sql_Pieces.thy ===== *)
theory Sql_Pieces
  imports Sql_Text
begin

text \<open>
  What the scanner does with text that is composed the way the database editor composes it: plain words, quoted names and
  quoted literals. A statement made of such pieces is copied unchanged and is one statement; a script of such statements
  is split into exactly them.
\<close>

section \<open>Copying\<close>

text \<open>A scanner between two bytes of an unbroken script with the standard terminator, with room for all that is left.\<close>

definition ready :: "dialect \<Rightarrow> stmtScanner \<Rightarrow> bool" where
  "ready d s \<longleftrightarrow> \<not> sc_rerr s \<and> \<not> sc_broken s \<and> sc_over s = 0 \<and> sc_mysql s = (d \<noteq> pgDialect) \<and> sc_delim s = '';''
     \<and> length (sc_buf s) + length (sc_in s) \<le> sc_max s"

text \<open>The scanner after copying the next part of its input.\<close>

definition advance :: "string \<Rightarrow> stmtScanner \<Rightarrow> stmtScanner" where
  "advance t s = s\<lparr>sc_in := drop (length t) (sc_in s), sc_last := (if t = [] then sc_last s else last t), sc_buf := sc_buf s @ t,
     sc_content := sc_content s \<or> list_ex (\<lambda>x. \<not> blank x) t\<rparr>"

lemma advance_Nil [simp]: "advance [] s = s"
  by (simp add: advance_def)

lemma advance_append: "advance (a @ b) s = advance b (advance a s)"
  by (simp add: advance_def ac_simps)

lemma advance_sel [simp]:
  "sc_in (advance t s) = drop (length t) (sc_in s)" "sc_buf (advance t s) = sc_buf s @ t"
  "sc_content (advance t s) = (sc_content s \<or> list_ex (\<lambda>x. \<not> blank x) t)" "sc_max (advance t s) = sc_max s"
  by (simp_all add: advance_def)

lemma ready_advance: "ready d s \<Longrightarrow> length t \<le> length (sc_in s) \<Longrightarrow> ready d (advance t s)"
  by (simp add: ready_def advance_def)

lemma ready_probe [simp]: "ready d s \<Longrightarrow> probe n s = s"
  by (simp add: ready_def probe_def)

lemma ready_took [simp]: "ready d s \<Longrightarrow> sc_in s = c # cs \<Longrightarrow> probe n (took c cs s) = took c cs s"
  by (simp add: ready_def probe_def took_def)

lemma put_took: "sc_in s = c # cs \<Longrightarrow> scan_put [c] (took c cs s) = advance [c] s"
  by (simp add: scan_put_def took_def advance_def)

text \<open>The condition under which a line of a MySQL script is the \<open>DELIMITER\<close> command.\<close>

definition command :: "stmtScanner \<Rightarrow> bool" where
  "command s \<longleftrightarrow> \<not> sc_content s \<and> EqualFold (take 10 (sc_in s)) ''DELIMITER ''"

fun plain_text :: "string \<Rightarrow> bool" where
  "plain_text [] = True"
| "plain_text (c # cs) = (c \<noteq> squote \<and> c \<noteq> dquote \<and> c \<noteq> bquote \<and> c \<noteq> CHR '';'' \<and> c \<noteq> CHR ''#'' \<and> c \<noteq> CHR ''/''
     \<and> (c = CHR ''-'' \<longrightarrow> cs \<noteq> [] \<and> hd cs \<noteq> CHR ''-'') \<and> (c = CHR ''$'' \<longrightarrow> cs \<noteq> [] \<and> is_dec (hd cs)) \<and> plain_text cs)"

lemma next_loop_step:
  assumes "ready d s" "sc_in s = c # cs"
  shows "next_loop s = (case scan_char c (sc_last s = CHR 0x00 \<or> sc_last s = newline) (took c cs s) of
         (False, s1) \<Rightarrow> next_loop s1
       | (True, s1) \<Rightarrow> let t = TrimSpace (sc_buf s1) in
           if t \<noteq> [] then (Statement t, s1) else next_loop (s1\<lparr>sc_buf := [], sc_content := False\<rparr>))"
  using assms by (subst next_loop.simps) (simp add: ready_def Let_def cong: if_cong bool.case_cong)

lemma not_command:
  assumes "sc_in s = c # cs" "\<not> command s"
  shows "sc_content s \<or> length cs < 9 \<or> \<not> EqualFold (c # take 9 cs) ''DELIMITER ''"
  using assms by (auto simp: command_def)

lemma scan_plain:
  assumes "ready d s" "sc_in s = c # cs" "\<not> command s"
    and "c \<noteq> squote" "c \<noteq> dquote" "c \<noteq> bquote" "c \<noteq> CHR '';''" "c \<noteq> CHR ''#''" "c \<noteq> CHR ''/''"
    and "c = CHR ''$'' \<Longrightarrow> cs \<noteq> [] \<and> is_dec (hd cs)" "c = CHR ''-'' \<Longrightarrow> cs \<noteq> [] \<and> hd cs \<noteq> CHR ''-''"
  shows "scan_char c ls (took c cs s) = (False, advance [c] s)"
proof -
  have sel: "sc_content (took c cs s) = sc_content s" "sc_mysql (took c cs s) = sc_mysql s" "sc_delim (took c cs s) = sc_delim s"
    by (simp_all add: took_def)
  have dash: "\<not> (c = CHR ''-'' \<and> dashComment (took c cs s))"
    using assms(11) by (cases cs) (auto simp: dashComment_def Let_def)
  have dollar: "c = CHR ''$'' \<Longrightarrow> dollarTag (took c cs s) = None"
  proof -
    assume "c = CHR ''$''"
    then obtain x xs where x: "cs = x # xs" "is_dec x" using assms(10) by (cases cs) auto
    then have "isIdentByte x" by (auto simp: is_dec_def isIdentByte_def Let_def)
    with x show "dollarTag (took c cs s) = None" by (simp add: dollarTag_def Let_def)
  qed
  then have none: "(if c = CHR ''$'' \<and> b then dollarTag (took c cs s) else None) = None" for b by simp
  have cmd: "\<not> ((sc_mysql s \<and> ls \<and> \<not> sc_content s) \<and> length cs \<ge> 9 \<and> EqualFold (c # take 9 cs) ''DELIMITER '')"
    using not_command [OF assms(2,3)] by auto
  have dl: "sc_delim s = '';''" using assms(1) by (simp add: ready_def)
  show ?thesis
    unfolding scan_char_def Let_def sel scan_sel ready_took [OF assms(1,2)] if_cancel none option.case
      if_not_P [OF cmd] if_not_P [OF assms(4)] if_not_P [OF assms(5)]
    using dash assms(6-9) put_took [OF assms(2)] by (simp add: dl del: de_Morgan_conj)
qed

lemma plain_step:
  assumes "ready d s" "sc_in s = c # cs" "\<not> command s" "plain_text (c # t)" "cs = t @ rest"
    "t = [] \<longrightarrow> c \<noteq> CHR ''-'' \<and> c \<noteq> CHR ''$''"
  shows "next_loop s = next_loop (advance [c] s)"
proof -
  have "scan_char c ls (took c cs s) = (False, advance [c] s)" for ls
    by (rule scan_plain [OF assms(1-3)]) (use assms(4-6) in \<open>auto simp: hd_append\<close>)
  then show ?thesis by (subst next_loop_step [OF assms(1,2)]) simp
qed

lemma plain_copied:
  "plain_text t \<Longrightarrow> ready d s \<Longrightarrow> sc_content s \<Longrightarrow> sc_in s = t @ rest \<Longrightarrow> next_loop s = next_loop (advance t s)"
proof (induction t arbitrary: s)
  case Nil
  then show ?case by simp
next
  case (Cons c t)
  have 1: "next_loop s = next_loop (advance [c] s)"
    by (rule plain_step [of d s c "t @ rest" t rest]) (use Cons.prems in \<open>auto simp: command_def\<close>)
  have 2: "next_loop (advance [c] s) = next_loop (advance t (advance [c] s))"
    by (rule Cons.IH) (use Cons.prems in \<open>auto intro: ready_advance\<close>)
  show ?case using 1 2 advance_append [of "[c]" t s] by simp
qed

section \<open>Quoted text\<close>

text \<open>The inside of a quoted text: its quote only doubled, and, where backslashes escape, no backslash at its end.\<close>

fun quoted_body :: "char \<Rightarrow> bool \<Rightarrow> string \<Rightarrow> bool" where
  "quoted_body q b [] = True"
| "quoted_body q b [c] = (c \<noteq> q \<and> \<not> (b \<and> c = bslash))"
| "quoted_body q b (c # n # cs) =
    (if b \<and> c = bslash then quoted_body q b cs else if c = q then n = q \<and> quoted_body q b cs else quoted_body q b (n # cs))"

lemma quoted_loop_body:
  "quoted_body q b body \<Longrightarrow> \<not> (b \<and> q = bslash) \<Longrightarrow> ready d s \<Longrightarrow> sc_in s = body @ q # rest \<Longrightarrow> take 1 rest \<noteq> [q] \<Longrightarrow>
    quoted_loop q b s = advance (body @ [q]) s"
proof (induction q b body arbitrary: s rule: quoted_body.induct)
  case (1 q b)
  then show ?case
    by (subst quoted_loop.simps) (auto simp: ready_def put_took Let_def probe_def advance_def split: list.split)
next
  case (2 q b c)
  have r: "ready d (advance [c] s)" using "2.prems" by (simp add: ready_advance)
  have "quoted_loop q b s = quoted_loop q b (advance [c] s)"
    using "2.prems" by (subst quoted_loop.simps) (auto simp: ready_def put_took Let_def)
  also have "\<dots> = advance [q] (advance [c] s)"
    using "2.prems" r by (subst quoted_loop.simps) (auto simp: ready_def put_took Let_def probe_def advance_def split: list.split)
  finally show ?case by (simp add: advance_append [symmetric])
next
  case (3 q b c n cs)
  have in1: "sc_in (advance [c] s) = n # cs @ q # rest" using "3.prems" by simp
  have r1: "ready d (advance [c] s)" using "3.prems" by (simp add: ready_advance)
  have r2: "ready d (advance [c, n] s)" using "3.prems" by (simp add: ready_advance)
  have two: "advance [n] (advance [c] s) = advance [c, n] s" by (simp add: advance_append [symmetric])
  have mx: "\<not> length (sc_buf s) > sc_max s" using "3.prems" by (simp add: ready_def)
  consider "b" "c = bslash" | "\<not> (b \<and> c = bslash)" "c = q" | "\<not> (b \<and> c = bslash)" "c \<noteq> q" by blast
  then show ?case
  proof cases
    case 1
    have "quoted_loop q b s = quoted_loop q b (advance [c, n] s)"
      using "3.prems" 1 mx put_took [OF in1] two by (subst quoted_loop.simps) (simp add: put_took Let_def)
    also have "\<dots> = advance (cs @ [q]) (advance [c, n] s)"
      using "3.IH"(1) [OF conjI [OF 1], of "advance [c, n] s"] 1 "3.prems" r2 by simp
    finally show ?thesis using advance_append [of "[c, n]" "cs @ [q]" s] by simp
  next
    case 2
    then have "n = q" using "3.prems" by simp
    have "quoted_loop q b s = quoted_loop q b (advance [c, n] s)"
      using "3.prems" 2 \<open>n = q\<close> mx put_took [OF in1] two by (subst quoted_loop.simps) (auto simp: put_took Let_def)
    also have "\<dots> = advance (cs @ [q]) (advance [c, n] s)"
      using "3.IH"(2) [OF 2, of "advance [c, n] s"] 2 "3.prems" r2 by simp
    finally show ?thesis using advance_append [of "[c, n]" "cs @ [q]" s] by simp
  next
    case 3
    have "quoted_loop q b s = quoted_loop q b (advance [c] s)"
      using "3.prems" 3 mx by (subst quoted_loop.simps) (auto simp: put_took Let_def)
    also have "\<dots> = advance (n # cs @ [q]) (advance [c] s)"
      using "3.IH"(3) [OF 3, of "advance [c] s"] 3 "3.prems" r1 by simp
    finally show ?thesis using advance_append [of "[c]" "n # cs @ [q]" s] by simp
  qed
qed

lemma quoted_copied:
  assumes "quoted_body q b body" "ready d s" "sc_content s" "sc_in s = q # body @ q # rest" "take 1 rest \<noteq> [q]"
    and "q = squote \<and> b = (d \<noteq> pgDialect) \<or> q = dquote \<and> b = (d \<noteq> pgDialect) \<or> q = bquote \<and> \<not> b \<and> d \<noteq> pgDialect"
  shows "next_loop s = next_loop (advance (q # body @ [q]) s)"
proof -
  have sel: "sc_content (took q (body @ q # rest) s) = sc_content s" "sc_mysql (took q (body @ q # rest) s) = (d \<noteq> pgDialect)"
    using assms(2) by (simp_all add: took_def ready_def)
  have r: "ready d (advance [q] s)" using assms(2,4) by (simp add: ready_advance)
  have "quoted_loop q b (advance [q] s) = advance (body @ [q]) (advance [q] s)"
    by (rule quoted_loop_body) (use assms r in auto)
  then have "quoted q b (took q (body @ q # rest) s) = advance (q # body @ [q]) s"
    using assms(4) by (simp add: quoted_def put_took advance_append [symmetric])
  moreover have "scan_char q ls (took q (body @ q # rest) s) = (False, quoted q b (took q (body @ q # rest) s))" for ls
    using assms(6) unfolding scan_char_def Let_def sel by (elim disjE conjE; simp add: assms(3))
  ultimately show ?thesis by (subst next_loop_step [OF assms(2,4)]) simp
qed

lemma quoted_body_Cons: "c \<noteq> q \<Longrightarrow> \<not> (b \<and> c = bslash) \<Longrightarrow> quoted_body q b (c # cs) = quoted_body q b cs"
  by (cases cs) auto

lemma replaced_body: "quoted_body q False (replace_char q [q, q] s)"
  by (induction s) (auto simp: replace_char_def quoted_body_Cons)

lemma escaped_body: "quoted_body squote True (concat (map mysql_escape s))"
  by (induction s) (simp_all add: mysql_escape_def quoted_body_Cons)

section \<open>Pieces\<close>

datatype piece = Word string | Ident string | Lit string

fun render :: "dialect \<Rightarrow> piece \<Rightarrow> string" where
  "render d (Word w) = w"
| "render d (Ident n) = quote d n"
| "render d (Lit v) = quoteSQLString d v"

abbreviation sql :: "dialect \<Rightarrow> piece list \<Rightarrow> string" where
  "sql d ps \<equiv> concat (map (render d) ps)"

text \<open>Words are plain, and a quoted piece is followed by a word or by the end.\<close>

fun separated :: "piece list \<Rightarrow> bool" where
  "separated [] = True"
| "separated (Word w # ps) = (plain_text w \<and> separated ps)"
| "separated (Ident n # ps) = ((case ps of [] \<Rightarrow> True | Word (c # w) # _ \<Rightarrow> True | _ \<Rightarrow> False) \<and> separated ps)"
| "separated (Lit v # ps) = ((case ps of [] \<Rightarrow> True | Word (c # w) # _ \<Rightarrow> True | _ \<Rightarrow> False) \<and> separated ps)"

definition unquoted_start :: "string \<Rightarrow> bool" where
  "unquoted_start rest \<longleftrightarrow> rest = [] \<or> hd rest \<noteq> squote \<and> hd rest \<noteq> dquote \<and> hd rest \<noteq> bquote"

lemma quote_pass:
  assumes "ready d s" "sc_content s" "sc_in s = quote d n @ rest" "unquoted_start rest"
  shows "next_loop s = next_loop (advance (quote d n) s)"
proof (cases d)
  case mysqlDialect
  then show ?thesis
    using quoted_copied [of bquote False "replace_char bquote [bquote, bquote] n" d s rest] assms
    by (cases rest) (auto simp: quote_def replaced_body unquoted_start_def)
next
  case pgDialect
  then show ?thesis
    using quoted_copied [of dquote False "replace_char dquote [dquote, dquote] n" d s rest] assms
    by (cases rest) (auto simp: quote_def replaced_body unquoted_start_def)
qed

lemma literal_pass:
  assumes "ready d s" "sc_content s" "sc_in s = quoteSQLString d v @ rest" "unquoted_start rest"
  shows "next_loop s = next_loop (advance (quoteSQLString d v) s)"
proof (cases d)
  case mysqlDialect
  then show ?thesis
    using quoted_copied [of squote True "concat (map mysql_escape v)" d s rest] assms
    by (cases rest) (auto simp: quoteSQLString_def escaped_body unquoted_start_def)
next
  case pgDialect
  then show ?thesis
    using quoted_copied [of squote False "replace_char squote [squote, squote] v" d s rest] assms
    by (cases rest) (auto simp: quoteSQLString_def replaced_body unquoted_start_def)
qed

lemma separated_start:
  assumes "separated (p # ps)" "p = Ident n \<or> p = Lit v" "unquoted_start rest"
  shows "unquoted_start (sql d ps @ rest)"
  using assms by (cases ps rule: separated.cases) (auto simp: unquoted_start_def split: list.splits)

lemma pieces_pass:
  "separated ps \<Longrightarrow> ready d s \<Longrightarrow> sc_content s \<Longrightarrow> sc_in s = sql d ps @ rest \<Longrightarrow> unquoted_start rest \<Longrightarrow>
    next_loop s = next_loop (advance (sql d ps) s)"
proof (induction ps arbitrary: s)
  case Nil
  then show ?case by simp
next
  case (Cons p ps)
  have start: "unquoted_start (sql d ps @ rest)" if "p = Ident n \<or> p = Lit n" for n
    using separated_start [OF Cons.prems(1)] that Cons.prems(5) by blast
  have 1: "next_loop s = next_loop (advance (render d p) s)"
  proof (cases p)
    case (Word w)
    then show ?thesis using plain_copied [of w d s "sql d ps @ rest"] Cons.prems by simp
  next
    case (Ident n)
    then show ?thesis using quote_pass [of d s n "sql d ps @ rest"] start Cons.prems by simp
  next
    case (Lit v)
    then show ?thesis using literal_pass [of d s v "sql d ps @ rest"] start Cons.prems by simp
  qed
  have "separated ps" using Cons.prems(1) by (cases p) auto
  then have 2: "next_loop (advance (render d p) s) = next_loop (advance (sql d ps) (advance (render d p) s))"
    by (rule Cons.IH) (use Cons.prems in \<open>auto intro: ready_advance\<close>)
  show ?case using 1 2 advance_append [of "render d p" "sql d ps" s] by simp
qed

section \<open>Statements\<close>

lemma TrimSpace_ends: "t \<noteq> [] \<Longrightarrow> \<not> is_space (hd t) \<Longrightarrow> \<not> is_space (last t) \<Longrightarrow> TrimSpace t = t"
proof -
  assume t: "t \<noteq> []" "\<not> is_space (hd t)" "\<not> is_space (last t)"
  then have "dropWhile is_space t = t" by (cases t) auto
  moreover have "dropWhile is_space (rev t) = rev t" using t by (cases t rule: rev_cases) auto
  ultimately show ?thesis by (simp add: TrimSpace_def)
qed

lemma TrimSpace_blanks: "\<forall>c\<in>set bs. is_space c \<Longrightarrow> t \<noteq> [] \<Longrightarrow> \<not> is_space (hd t) \<Longrightarrow> TrimSpace (bs @ t) = TrimSpace t"
  by (cases t) (auto simp: TrimSpace_def dropWhile_append)

text \<open>A statement the editor composes: it starts with a word that is not the \<open>DELIMITER\<close> command and ends in no space.\<close>

definition statement :: "dialect \<Rightarrow> piece list \<Rightarrow> bool" where
  "statement d ps \<longleftrightarrow> separated ps
     \<and> (case ps of Word w # _ \<Rightarrow> length w \<ge> 4 \<and> \<not> is_space (hd w) \<and> hd w \<noteq> CHR ''-'' \<and> hd w \<noteq> CHR ''$''
           \<and> ToLower (take 4 w) \<noteq> ''deli'' | _ \<Rightarrow> False)
     \<and> \<not> is_space (last (sql d ps))"

lemma blank_space: "blank c \<Longrightarrow> is_space c"
  by (auto simp: blank_def is_space_def)

lemma statement_scanned:
  assumes "statement d ps" "ready d s" "\<not> sc_content s" "sc_in s = sql d ps @ rest" "unquoted_start rest"
  shows "next_loop s = next_loop (advance (sql d ps) s)" and "sql d ps \<noteq> []" "\<not> is_space (hd (sql d ps))"
proof -
  obtain w0 qs where ps0: "ps = Word w0 # qs" using assms(1) by (auto simp: statement_def split: list.splits piece.splits)
  then obtain c w where w0: "w0 = c # w" using assms(1) by (cases w0) (auto simp: statement_def)
  with ps0 have ps: "ps = Word (c # w) # qs" by simp
  have w: "length w \<ge> 3" "\<not> is_space c" "c \<noteq> CHR ''-''" "c \<noteq> CHR ''$''" "ToLower (take 4 (c # w)) \<noteq> ''deli''" and sep: "separated ps"
    using assms(1) by (simp_all add: statement_def ps)
  then have plain: "plain_text (c # w)" using ps by simp
  let ?cs = "w @ sql d qs @ rest"
  have s_in: "sc_in s = c # ?cs" using assms(4) ps by simp
  have no_cmd: "\<not> command s"
  proof
    assume "command s"
    moreover have "ToLower ''DELIMITER '' = ''delimiter ''" by code_simp
    ultimately have "ToLower (take 10 (c # ?cs)) = ''delimiter ''" unfolding command_def EqualFold_def s_in by metis
    then have "take 4 (ToLower (take 10 (c # ?cs))) = ''deli''" by simp
    moreover have "take 4 (ToLower (take 10 (c # ?cs))) = ToLower (take 4 (c # w))"
      using w(1) by (simp add: ToLower_def take_map [symmetric])
    ultimately show False using w(5) by simp
  qed
  have 1: "next_loop s = next_loop (advance [c] s)"
    by (rule plain_step [OF assms(2) s_in no_cmd plain, of "sql d qs @ rest"]) (use w in auto)
  have "separated (Word w # qs)" using sep ps by simp
  then have "next_loop (advance [c] s) = next_loop (advance (sql d (Word w # qs)) (advance [c] s))"
    by (rule pieces_pass [where d = d and rest = rest])
       (use assms s_in w(2) blank_space in \<open>auto simp: ready_advance\<close>)
  with 1 show "next_loop s = next_loop (advance (sql d ps) s)"
    using advance_append [of "[c]" "sql d (Word w # qs)" s] ps by simp
  show "sql d ps \<noteq> []" "\<not> is_space (hd (sql d ps))" using ps w(2) by simp_all
qed

lemma not_delimiter: "lower_char c \<noteq> CHR ''d'' \<Longrightarrow> \<not> EqualFold (c # cs) ''DELIMITER ''"
proof -
  have "lower_char (CHR ''D'') = CHR ''d''" by code_simp
  then show "lower_char c \<noteq> CHR ''d'' \<Longrightarrow> \<not> EqualFold (c # cs) ''DELIMITER ''" by (auto simp: EqualFold_def ToLower_def)
qed

lemma not_d:
  "lower_char (CHR '';'') \<noteq> CHR ''d''" "lower_char (CHR ''-'') \<noteq> CHR ''d''" "lower_char (CHR '' '') \<noteq> CHR ''d''"
  "lower_char (CHR 0x09) \<noteq> CHR ''d''" "lower_char newline \<noteq> CHR ''d''" "lower_char (CHR 0x0D) \<noteq> CHR ''d''"
  by code_simp+

lemma TrimSpace_only: "\<forall>c\<in>set bs. is_space c \<Longrightarrow> TrimSpace bs = []"
proof -
  assume "\<forall>c\<in>set bs. is_space c"
  then have "dropWhile is_space bs = []" by simp
  then show ?thesis by (simp only: TrimSpace_def rev.simps dropWhile.simps)
qed

lemma terminated:
  assumes "ready d s" "sc_in s = CHR '';'' # rest" "TrimSpace (sc_buf s) = t" "t \<noteq> []"
  shows "next_loop s = (Statement t, s\<lparr>sc_in := rest, sc_last := CHR '';''\<rparr>)"
proof -
  have sel: "sc_delim (took (CHR '';'') rest s) = '';''" "sc_buf (took (CHR '';'') rest s) = sc_buf s"
    using assms(1) by (simp_all add: ready_def took_def)
  have "\<not> EqualFold (CHR '';'' # take 9 rest) ''DELIMITER ''"
    by (rule not_delimiter) (rule not_d)
  then have "scan_char (CHR '';'') ls (took (CHR '';'') rest s) = (True, took (CHR '';'') rest s)" for ls
    unfolding scan_char_def Let_def scan_sel sel ready_took [OF assms(1,2)] if_cancel by (simp add: took_def)
  then show ?thesis using assms(3,4) by (subst next_loop_step [OF assms(1,2)]) (simp add: sel, simp add: took_def)
qed

lemma statement_first:
  assumes "statement d ps" "ready d s" "\<not> sc_content s" "\<forall>c\<in>set (sc_buf s). is_space c" "sc_in s = sql d ps @ CHR '';'' # rest"
  shows "\<exists>s'. next_loop s = (Statement (sql d ps), s') \<and> sc_in s' = rest \<and> ready d (s'\<lparr>sc_buf := [], sc_content := False\<rparr>)"
proof -
  have go: "next_loop s = next_loop (advance (sql d ps) s)" and ne: "sql d ps \<noteq> []" "\<not> is_space (hd (sql d ps))"
    using statement_scanned [OF assms(1-3,5)] by (auto simp: unquoted_start_def)
  have r: "ready d (advance (sql d ps) s)" using assms(2,5) by (simp add: ready_advance)
  have "TrimSpace (sc_buf (advance (sql d ps) s)) = sql d ps"
    using TrimSpace_blanks [OF assms(4) ne] TrimSpace_ends [OF ne] assms(1) by (simp add: statement_def)
  from terminated [OF r _ this ne(1)] assms(5) go
  have "next_loop s = (Statement (sql d ps), (advance (sql d ps) s)\<lparr>sc_in := rest, sc_last := CHR '';''\<rparr>)" by simp
  moreover have "ready d ((advance (sql d ps) s)\<lparr>sc_in := rest, sc_last := CHR '';'', sc_buf := [], sc_content := False\<rparr>)"
    using assms(2,5) by (simp add: ready_def advance_def)
  ultimately show ?thesis by fastforce
qed

lemma statement_alone:
  assumes "statement d ps" "ready d s" "\<not> sc_content s" "\<forall>c\<in>set (sc_buf s). is_space c" "sc_in s = sql d ps"
  shows "\<exists>s'. next_loop s = (Statement (sql d ps), s') \<and> sc_in s' = [] \<and> ready d (s'\<lparr>sc_buf := [], sc_content := False\<rparr>)"
proof -
  have go: "next_loop s = next_loop (advance (sql d ps) s)" and ne: "sql d ps \<noteq> []" "\<not> is_space (hd (sql d ps))"
    using statement_scanned [OF assms(1-3), of "[]"] assms(5) by (auto simp: unquoted_start_def)
  have r: "ready d (advance (sql d ps) s)" using assms(2,5) by (simp add: ready_advance)
  have trim: "TrimSpace (sc_buf s @ sql d ps) = sql d ps"
    using TrimSpace_blanks [OF assms(4) ne] TrimSpace_ends [OF ne] assms(1) by (simp add: statement_def)
  have "next_loop (advance (sql d ps) s) = (Statement (sql d ps), at_end (advance (sql d ps) s))"
    using r assms(5) ne by (subst next_loop.simps) (simp add: Let_def trim ready_def at_end_def)
  moreover have "ready d ((at_end (advance (sql d ps) s))\<lparr>sc_buf := [], sc_content := False\<rparr>)" "sc_in (at_end (advance (sql d ps) s)) = []"
    using assms(2,5) by (simp_all add: ready_def advance_def at_end_def)
  ultimately show ?thesis using go by auto
qed

section \<open>Scripts\<close>

text \<open>What may stand between two statements: blanks and comment lines.\<close>

inductive gap :: "string \<Rightarrow> bool" where
  gap_Nil: "gap []"
| gap_blank: "blank c \<Longrightarrow> gap g \<Longrightarrow> gap (c # g)"
| gap_comment: "newline \<notin> set l \<Longrightarrow> gap g \<Longrightarrow> gap (''-- '' @ l @ newline # g)"

definition between :: "dialect \<Rightarrow> stmtScanner \<Rightarrow> bool" where
  "between d s \<longleftrightarrow> ready d s \<and> \<not> sc_content s \<and> (\<forall>c\<in>set (sc_buf s). is_space c)"

lemma skip_line_to: "newline \<notin> set l \<Longrightarrow> \<exists>x. skip_line (l @ newline # g) s = s\<lparr>sc_in := newline # g, sc_last := x\<rparr>"
proof (induction l arbitrary: s)
  case Nil
  show ?case by (rule exI [of _ "sc_last s"]) simp
next
  case (Cons c l)
  then show ?case using Cons.IH [of "took c (l @ newline # g) s"] by (auto simp: took_def)
qed

lemma gap_blank_step:
  assumes "blank c" "between d s" "sc_in s = c # rest"
  shows "next_loop s = next_loop (advance [c] s)" "between d (advance [c] s)"
proof -
  have c: "c = CHR '' '' \<or> c = CHR 0x09 \<or> c = newline \<or> c = CHR 0x0D" using assms(1) by (simp add: blank_def)
  then have "lower_char c \<noteq> CHR ''d''" using not_d by auto
  then have "\<not> command s" using not_delimiter [of c "take 9 rest"] by (simp add: command_def assms(3))
  then have "scan_char c ls (took c rest s) = (False, advance [c] s)" for ls
    by (rule scan_plain [rotated 2]) (use assms c in \<open>auto simp: between_def\<close>)
  then show "next_loop s = next_loop (advance [c] s)"
    using assms by (subst next_loop_step [of d s c rest]) (simp_all add: between_def)
  show "between d (advance [c] s)"
    using assms blank_space [OF assms(1)] by (auto simp: between_def ready_advance)
qed

lemma gap_comment_step:
  assumes "newline \<notin> set l" "between d s" "sc_in s = ''-- '' @ l @ newline # rest"
  shows "\<exists>s'. next_loop s = next_loop s' \<and> between d s' \<and> sc_in s' = newline # rest"
proof -
  let ?cs = "''- '' @ l @ newline # rest"
  have r: "ready d s" using assms(2) by (simp add: between_def)
  have s_in: "sc_in s = CHR ''-'' # ?cs" using assms(3) by simp
  have cmd: "\<not> EqualFold (CHR ''-'' # take 9 ?cs) ''DELIMITER ''"
    by (rule not_delimiter) (rule not_d)
  have dash: "dashComment (took (CHR ''-'') ?cs s)" by (simp add: dashComment_def blank_def)
  obtain x where x: "skip_line ?cs (took (CHR ''-'') ?cs s) = (took (CHR ''-'') ?cs s)\<lparr>sc_in := newline # rest, sc_last := x\<rparr>"
    using skip_line_to [of "''- '' @ l" rest "took (CHR ''-'') ?cs s"] assms(1) by auto
  let ?s' = "s\<lparr>sc_in := newline # rest, sc_last := x\<rparr>"
  have "scan_char (CHR ''-'') ls (took (CHR ''-'') ?cs s) = (False, ?s')" for ls
    using x cmd dash ready_took [OF r s_in] unfolding scan_char_def Let_def by (simp add: took_def)
  then have "next_loop s = next_loop ?s'" by (subst next_loop_step [OF r s_in]) simp
  moreover have "between d ?s'" using assms(2,3) by (simp add: between_def ready_def)
  ultimately show ?thesis by fastforce
qed

lemma gap_skipped:
  "gap g \<Longrightarrow> between d s \<Longrightarrow> sc_in s = g @ rest \<Longrightarrow> \<exists>s'. next_loop s = next_loop s' \<and> between d s' \<and> sc_in s' = rest"
proof (induction g arbitrary: s rule: gap.induct)
  case (gap_blank c g)
  from gap_blank_step [OF gap_blank.hyps(1) gap_blank.prems(1)] gap_blank.prems(2)
  have "next_loop s = next_loop (advance [c] s)" "between d (advance [c] s)" by simp_all
  moreover have "sc_in (advance [c] s) = g @ rest" using gap_blank.prems(2) by simp
  ultimately show ?case using gap_blank.IH by metis
next
  case (gap_comment l g)
  then obtain s1 where s1: "next_loop s = next_loop s1" "between d s1" "sc_in s1 = newline # g @ rest"
    using gap_comment_step [of l d s "g @ rest"] by auto
  from gap_blank_step [of newline d s1 "g @ rest"] s1
  have "next_loop s = next_loop (advance [newline] s1)" "between d (advance [newline] s1)" by (simp_all add: blank_def)
  moreover have "sc_in (advance [newline] s1) = g @ rest" using s1(3) by simp
  ultimately show ?case using gap_comment.IH by metis
qed auto

lemma Next_between: "ready d (s\<lparr>sc_buf := [], sc_content := False\<rparr>) \<Longrightarrow> between d (s\<lparr>sc_buf := [], sc_content := False\<rparr>)"
  by (simp add: between_def)

lemma script_split:
  "list_all (\<lambda>(g, ps). gap g \<and> statement d ps) items \<Longrightarrow> gap g' \<Longrightarrow> ready d (s\<lparr>sc_buf := [], sc_content := False\<rparr>) \<Longrightarrow>
    sc_in s = concat (map (\<lambda>(g, ps). g @ sql d ps @ '';'') items) @ g' \<Longrightarrow> split_loop s = map (sql d \<circ> snd) items"
proof (induction items arbitrary: s)
  case Nil
  let ?s = "s\<lparr>sc_buf := [], sc_content := False\<rparr>"
  obtain s1 where s1: "next_loop ?s = next_loop s1" "between d s1" "sc_in s1 = []"
    using gap_skipped [OF Nil.prems(2) Next_between [OF Nil.prems(3)], of "[]"] Nil.prems(4) by auto
  have "TrimSpace (sc_buf s1) = []" using s1(2) by (simp add: between_def TrimSpace_only)
  then have "next_loop s1 = (EndOfInput, (at_end s1)\<lparr>sc_buf := [], sc_content := False\<rparr>)"
    using s1(2,3) by (subst next_loop.simps) (simp add: between_def ready_def at_end_def Let_def)
  then show ?case using s1(1) by (subst split_loop.simps) (simp add: Next_def)
next
  case (Cons item items)
  obtain g ps where it: "item = (g, ps)" by force
  let ?s = "s\<lparr>sc_buf := [], sc_content := False\<rparr>" and ?rest = "concat (map (\<lambda>(g, ps). g @ sql d ps @ '';'') items) @ g'"
  have "sc_in ?s = g @ (sql d ps @ '';'' @ ?rest)" using Cons.prems(4) it by simp
  then obtain s1 where s1: "next_loop ?s = next_loop s1" "between d s1" "sc_in s1 = sql d ps @ '';'' @ ?rest"
    using gap_skipped [of g d ?s] Next_between [OF Cons.prems(3)] Cons.prems(1) it by auto
  then obtain s2 where s2: "next_loop s1 = (Statement (sql d ps), s2)" "sc_in s2 = ?rest" "ready d (s2\<lparr>sc_buf := [], sc_content := False\<rparr>)"
    using statement_first [of d ps s1 ?rest] Cons.prems(1) it by (auto simp: between_def)
  have "split_loop s2 = map (sql d \<circ> snd) items"
    using Cons.IH [of s2] Cons.prems s2 by simp
  then show ?case using s1(1) s2(1) it by (subst split_loop.simps) (simp add: Next_def)
qed

text \<open>A script of composed statements, with blanks and comment lines between them, is split into exactly those statements; and one
  composed statement is one statement.\<close>

lemma splitStatements_script:
  assumes "list_all (\<lambda>(g, ps). gap g \<and> statement d ps) items" "gap g'"
  shows "splitStatements (concat (map (\<lambda>(g, ps). g @ sql d ps @ '';'') items) @ g') d = map (sql d \<circ> snd) items"
  unfolding splitStatements_def
  by (rule script_split [OF assms]) (simp_all add: newStmtScanner_def ready_def)

lemma splitStatements_single:
  assumes "statement d ps"
  shows "splitStatements (sql d ps) d = [sql d ps]"
proof -
  let ?s = "newStmtScanner (sql d ps) False 0 d (length (sql d ps) + 1)"
  have r: "ready d ?s" and b: "\<not> sc_content ?s" "\<forall>c\<in>set (sc_buf ?s). is_space c" and i: "sc_in ?s = sql d ps"
    and e: "?s\<lparr>sc_buf := [], sc_content := False\<rparr> = ?s"
    by (simp_all add: newStmtScanner_def ready_def)
  obtain s' where s': "next_loop ?s = (Statement (sql d ps), s')" "sc_in s' = []" "ready d (s'\<lparr>sc_buf := [], sc_content := False\<rparr>)"
    using statement_alone [OF assms r b i] by blast
  have "split_loop s' = map (sql d \<circ> snd) []"
    using script_split [of d "[]" "[]" s'] s'(2,3) gap_Nil by simp
  then show ?thesis unfolding splitStatements_def
    using s'(1) e by (subst split_loop.simps) (simp add: Next_def)
qed

section \<open>Composed text\<close>

text \<open>Text that is such a sequence of pieces, by closure rules that follow how the code concatenates.\<close>

definition composed :: "dialect \<Rightarrow> string \<Rightarrow> bool" where
  "composed d t \<longleftrightarrow> (\<exists>ps. separated ps \<and> sql d ps = t)"

lemma composed_Nil [simp]: "composed d []"
  unfolding composed_def by (rule exI [of _ "[]"]) simp

lemma composed_word: "plain_text w \<Longrightarrow> composed d t \<Longrightarrow> composed d (w @ t)"
proof -
  assume w: "plain_text w" and "composed d t"
  then obtain ps where "separated ps" "sql d ps = t" by (auto simp: composed_def)
  with w show "composed d (w @ t)" unfolding composed_def by (intro exI [of _ "Word w # ps"]) simp
qed

lemma composed_plain: "plain_text w \<Longrightarrow> composed d w"
  using composed_word [of w d "[]"] by simp

lemma composed_quote: "composed d (quote d n)"
  unfolding composed_def by (rule exI [of _ "[Ident n]"]) simp

lemma composed_literal: "composed d (quoteSQLString d v)"
  unfolding composed_def by (rule exI [of _ "[Lit v]"]) simp

lemma composed_quote_word: "plain_text w \<Longrightarrow> w \<noteq> [] \<Longrightarrow> composed d t \<Longrightarrow> composed d (quote d n @ w @ t)"
proof -
  assume w: "plain_text w" "w \<noteq> []" and "composed d t"
  then obtain ps where "separated ps" "sql d ps = t" by (auto simp: composed_def)
  with w show ?thesis unfolding composed_def by (intro exI [of _ "Ident n # Word w # ps"]) (auto split: list.split)
qed

lemma composed_append_word:
  assumes "composed d a" "plain_text w" "w \<noteq> []" "composed d t"
  shows "composed d (a @ w @ t)"
proof -
  obtain ps where ps: "separated ps" "sql d ps = a" using assms(1) by (auto simp: composed_def)
  obtain qs where qs: "separated qs" "sql d qs = t" using assms(4) by (auto simp: composed_def)
  have "separated (ps @ Word w # qs)"
    using ps(1)
  proof (induction ps)
    case Nil
    then show ?case using assms(2) qs(1) by simp
  next
    case (Cons p ps)
    obtain x y where w: "w = x # y" using assms(3) by (cases w) auto
    show ?case using Cons w by (cases p; cases ps) (auto split: list.splits piece.splits)
  qed
  then show ?thesis using ps(2) qs(2) unfolding composed_def by (intro exI [of _ "ps @ Word w # qs"]) simp
qed

lemma composed_literal_word: "plain_text w \<Longrightarrow> w \<noteq> [] \<Longrightarrow> composed d t \<Longrightarrow> composed d (quoteSQLString d v @ w @ t)"
  by (rule composed_append_word [OF composed_literal])

lemma composed_Join: "\<forall>x\<in>set xs. composed d x \<Longrightarrow> plain_text sep \<Longrightarrow> sep \<noteq> [] \<Longrightarrow> composed d (Join sep xs)"
  by (induction sep xs rule: Join.induct) (auto intro: composed_append_word)

lemma composed_quoteList: "composed d (quoteList d ns)"
  unfolding quoteList_def by (rule composed_Join) (auto simp: composed_quote)

text \<open>Text that may be followed by any composed text, and text that may follow any.\<close>

definition closed :: "dialect \<Rightarrow> string \<Rightarrow> bool" where
  "closed d a \<longleftrightarrow> composed d a \<and> (\<forall>t. composed d t \<longrightarrow> composed d (a @ t))"

definition opens :: "dialect \<Rightarrow> string \<Rightarrow> bool" where
  "opens d t \<longleftrightarrow> (\<forall>a. composed d a \<longrightarrow> composed d (a @ t))"

lemma closed_word: "plain_text w \<Longrightarrow> closed d w"
  by (simp add: closed_def composed_plain composed_word)

lemma closed_append: "closed d a \<Longrightarrow> closed d b \<Longrightarrow> closed d (a @ b)"
  by (simp add: closed_def)

lemma closed_end: "composed d a \<Longrightarrow> plain_text w \<Longrightarrow> w \<noteq> [] \<Longrightarrow> closed d (a @ w)"
  using composed_append_word [of d a w] composed_append_word [of d a w "[]"] by (simp add: closed_def)

lemma closed_composed: "closed d a \<Longrightarrow> composed d t \<Longrightarrow> composed d (a @ t)"
  by (simp add: closed_def)

lemma opens_Nil: "opens d []"
  by (simp add: opens_def)

lemma opens_word: "plain_text w \<Longrightarrow> w \<noteq> [] \<Longrightarrow> composed d t \<Longrightarrow> opens d (w @ t)"
  by (simp add: opens_def composed_append_word)

lemma opens_append: "opens d a \<Longrightarrow> opens d b \<Longrightarrow> opens d (a @ b)"
  by (simp add: opens_def) (metis append_assoc)

lemma composed_opens: "composed d a \<Longrightarrow> opens d t \<Longrightarrow> composed d (a @ t)"
  by (simp add: opens_def)

lemma plain_append: "plain_text a \<Longrightarrow> plain_text b \<Longrightarrow> plain_text (a @ b)"
  by (induction a) (auto simp: hd_append)

lemma digits_plain: "list_all is_dec s \<Longrightarrow> plain_text s"
  by (induction s) (auto simp: is_dec_def)

definition ends_ok :: "string \<Rightarrow> bool" where
  "ends_ok t \<longleftrightarrow> t \<noteq> [] \<and> \<not> is_space (last t)"

lemma ends_ok_append: "ends_ok b \<Longrightarrow> ends_ok (a @ b)"
  by (simp add: ends_ok_def)

lemma ends_ok_Cons: "ends_ok x \<Longrightarrow> ends_ok (c # x)"
  by (simp add: ends_ok_def)

lemma ends_ok_quote: "ends_ok (quote d n)" "ends_ok (quoteSQLString d v)"
  by (cases d; simp add: ends_ok_def quote_def quoteSQLString_def is_space_def)+

text \<open>A composed statement.\<close>

definition one_statement :: "dialect \<Rightarrow> string \<Rightarrow> bool" where
  "one_statement d t \<longleftrightarrow> (\<exists>ps. statement d ps \<and> sql d ps = t)"

definition leads :: "string \<Rightarrow> bool" where
  "leads w \<longleftrightarrow> plain_text w \<and> length w \<ge> 4 \<and> \<not> is_space (hd w) \<and> hd w \<noteq> CHR ''-'' \<and> hd w \<noteq> CHR ''$'' \<and> ToLower (take 4 w) \<noteq> ''deli''"

lemma one_statementI: "leads w \<Longrightarrow> composed d t \<Longrightarrow> ends_ok (w @ t) \<Longrightarrow> one_statement d (w @ t)"
proof -
  assume w: "leads w" and "composed d t" and e: "ends_ok (w @ t)"
  then obtain ps where ps: "separated ps" "sql d ps = t" by (auto simp: composed_def)
  have "statement d (Word w # ps)" using w ps e by (simp add: statement_def leads_def ends_ok_def)
  then show ?thesis using ps(2) unfolding one_statement_def by (intro exI [of _ "Word w # ps"]) simp
qed

lemma one_statement_split: "one_statement d t \<Longrightarrow> splitStatements t d = [t]"
  unfolding one_statement_def using splitStatements_single by blast

lemma script_of_statements:
  assumes "\<forall>(g, t)\<in>set items. gap g \<and> one_statement d t" "gap g'"
  shows "splitStatements (concat (map (\<lambda>(g, t). g @ t @ '';'') items) @ g') d = map snd items"
proof -
  have "\<forall>x\<in>set items. \<exists>y. fst y = fst x \<and> gap (fst x) \<and> statement d (snd y) \<and> sql d (snd y) = snd x"
    using assms(1) by (fastforce simp: one_statement_def)
  then obtain f where f: "\<forall>x\<in>set items. fst (f x) = fst x \<and> gap (fst x) \<and> statement d (snd (f x)) \<and> sql d (snd (f x)) = snd x"
    by metis
  have a: "list_all (\<lambda>(g, ps). gap g \<and> statement d ps) (map f items)" using f by (auto simp: list_all_iff split: prod.split)
  have "concat (map (\<lambda>(g, ps). g @ sql d ps @ '';'') (map f items)) = concat (map (\<lambda>(g, t). g @ t @ '';'') items)"
    using f by (auto intro!: arg_cong [where f = concat] split: prod.split) (metis fst_conv snd_conv)+
  moreover have "map (sql d \<circ> snd) (map f items) = map snd items" using f by simp
  ultimately show ?thesis using splitStatements_script [OF a assms(2)] by simp
qed

end
