(* ===== verification/Csv.thy ===== *)
theory Csv
  imports Http
begin

text \<open>
  Go's \<open>encoding/csv\<close> as the database editor uses it: \<open>Writer.Write\<close> with the default settings, and \<open>Reader.Read\<close> with
  \<open>LazyQuotes\<close>, any number of fields per record and no comment character. The delimiters are single bytes.

  The input of a reader is the text that is left and whether it ends in a read error instead of the end of the file.
\<close>

abbreviation dq :: char where "dq \<equiv> CHR 0x22"
abbreviation cr :: char where "cr \<equiv> CHR 0x0D"

section \<open>Writing\<close>

definition fieldNeedsQuotes :: "char \<Rightarrow> string \<Rightarrow> bool" where
  "fieldNeedsQuotes comma f \<longleftrightarrow> f \<noteq> [] \<and>
     (f = [CHR 0x5C, CHR ''.''] \<or> newline \<in> set f \<or> cr \<in> set f \<or> dq \<in> set f \<or> comma \<in> set f \<or> is_space (hd f))"

definition csv_escape :: "string \<Rightarrow> string" where
  "csv_escape f = concat (map (\<lambda>c. if c = dq then [dq, dq] else [c]) f)"

definition csv_field :: "char \<Rightarrow> string \<Rightarrow> string" where
  "csv_field comma f = (if fieldNeedsQuotes comma f then [dq] @ csv_escape f @ [dq] else f)"

definition csv_Write :: "char \<Rightarrow> string list \<Rightarrow> string" where
  "csv_Write comma rc = Join [comma] (map (csv_field comma) rc) @ [newline]"

section \<open>Reading\<close>

text \<open>\<open>ReadSlice\<close> up to and with the next newline, the text behind it, and whether the line is complete.\<close>

fun read_slice :: "string \<Rightarrow> string \<times> string" where
  "read_slice [] = ([], [])"
| "read_slice (c # cs) = (if c = newline then ([c], cs) else (case read_slice cs of (l, r) \<Rightarrow> (c # l, r)))"

datatype line_end = LineOK | LineEOF | LineBroken

text \<open>The carriage return is dropped before the newline, and before the end of the file.\<close>

definition drop_cr :: "string \<Rightarrow> string" where
  "drop_cr l = (if length l \<ge> 2 \<and> l ! (length l - 2) = cr \<and> last l = newline then take (length l - 2) l @ [newline] else l)"

definition readLine :: "bool \<Rightarrow> string \<Rightarrow> string \<times> string \<times> line_end" where
  "readLine broken s = (case read_slice s of (l, r) \<Rightarrow>
     if l \<noteq> [] \<and> last l = newline then (drop_cr l, r, LineOK)
     else if broken then (l, r, LineBroken)
     else if l = [] then ([], [], LineEOF)
     else (if last l = cr then butlast l else l, r, LineOK))"

definition lengthNL :: "string \<Rightarrow> nat" where
  "lengthNL b = (if b \<noteq> [] \<and> last b = newline then 1 else 0)"

lemma read_slice_append: "read_slice s = (l, r) \<Longrightarrow> l @ r = s \<and> (s \<noteq> [] \<longrightarrow> l \<noteq> [])"
  by (induction s arbitrary: l) (auto split: if_splits prod.splits)

lemma readLine_shorter: "readLine broken s = (l, r, e) \<Longrightarrow> s \<noteq> [] \<Longrightarrow> length r < length s"
proof -
  assume a: "readLine broken s = (l, r, e)" "s \<noteq> []"
  obtain l0 r0 where s0: "read_slice s = (l0, r0)" by force
  then have "l0 @ r0 = s" "l0 \<noteq> []" using read_slice_append [OF s0] a(2) by blast+
  moreover have "r = r0" using a(1) s0 \<open>l0 \<noteq> []\<close> by (auto simp: readLine_def split: if_splits)
  ultimately show "length r < length s" by (metis length_append length_greater_0_conv less_add_same_cancel2)
qed

text \<open>The first line of a record: empty lines are skipped.\<close>

function first_line :: "bool \<Rightarrow> string \<Rightarrow> string \<times> string \<times> line_end" where
  "first_line broken s = (case readLine broken s of (l, r, e) \<Rightarrow>
     if e = LineOK \<and> length l = lengthNL l \<and> s \<noteq> [] then first_line broken r else (l, r, e))"
  by pat_completeness auto
termination by (relation "measure (\<lambda>(b, s). length s)") (auto dest: readLine_shorter [OF sym])

declare first_line.simps [simp del]

text \<open>Inside a quoted field: \<open>acc\<close> is the field read so far. The result is the field, the rest of its line (\<open>None\<close> when the record
  ends with the field), the text behind the line and the state of the reader.\<close>

function quoted_field :: "char \<Rightarrow> bool \<Rightarrow> string \<Rightarrow> string \<Rightarrow> string \<Rightarrow> line_end \<Rightarrow> string \<times> string option \<times> string \<times> line_end" where
  "quoted_field comma broken acc line rest e = (case line of
     [] \<Rightarrow> (acc, None, rest, e)
   | c # cs \<Rightarrow>
      if c = dq then
        (case cs of
           n # cs' \<Rightarrow>
            if n = dq then quoted_field comma broken (acc @ [dq]) cs' rest e
            else if n = comma then (acc, Some cs', rest, e)
            else if lengthNL cs = length cs then (acc, None, rest, e)
            else quoted_field comma broken (acc @ [dq]) cs rest e
         | [] \<Rightarrow> (acc, None, rest, e))
      else if cs \<noteq> [] then quoted_field comma broken (acc @ [c]) cs rest e
      else if e \<noteq> LineOK then (acc @ [c], None, rest, e)
      else (case readLine broken rest of (l, r, e') \<Rightarrow>
        if rest = [] then (acc @ [c], None, [], if e' = LineEOF then LineOK else e')
        else quoted_field comma broken (acc @ [c]) l r (if e' = LineEOF then LineOK else e')))"
  by pat_completeness auto
termination
  by (relation "measures [\<lambda>(_, _, _, line, rest, _). length rest, \<lambda>(_, _, _, line, rest, _). length line]")
     (auto dest: readLine_shorter [OF sym])

declare quoted_field.simps [simp del]

lemma drop_cr_le: "length (drop_cr l) \<le> length l"
  by (auto simp: drop_cr_def)

lemma readLine_le: "readLine broken s = (l, r, e) \<Longrightarrow> length l + length r \<le> length s"
proof -
  assume a: "readLine broken s = (l, r, e)"
  obtain l0 r0 where s0: "read_slice s = (l0, r0)" by force
  then have "length l0 + length r0 = length s" using read_slice_append [OF s0] by (metis length_append)
  moreover have "r = r0 \<and> length l \<le> length l0 \<or> l = [] \<and> r = []"
    using a s0 drop_cr_le [of l0] by (auto simp: readLine_def split: if_splits)
  ultimately show ?thesis by auto
qed

lemma quoted_field_le:
  "quoted_field comma broken acc line rest e = (f, Some m, r, e') \<Longrightarrow> length m + length r \<le> length line + length rest"
proof (induction comma broken acc line rest e rule: quoted_field.induct)
  case (1 comma broken acc line rest e)
  show ?case
  proof (cases line)
    case Nil
    then show ?thesis using "1.prems" by (subst (asm) quoted_field.simps) simp
  next
    case (Cons c cs)
    consider (pair) cs' where "c = dq" "cs = dq # cs'" | (comma) cs' where "c = dq" "cs = comma # cs'" "comma \<noteq> dq"
      | (stop) "c = dq" "cs = [] \<or> hd cs \<noteq> dq \<and> hd cs \<noteq> comma \<and> lengthNL cs = length cs"
      | (bare) n cs' where "c = dq" "cs = n # cs'" "n \<noteq> dq" "n \<noteq> comma" "lengthNL cs \<noteq> length cs"
      | (word) "c \<noteq> dq" "cs \<noteq> []" | (stop2) "c \<noteq> dq" "cs = []" "e \<noteq> LineOK \<or> rest = []"
      | (over) "c \<noteq> dq" "cs = []" "e = LineOK" "rest \<noteq> []"
      by (cases cs) auto
    then show ?thesis
    proof cases
      case (pair cs')
      then show ?thesis using "1.IH"(1) [OF Cons pair(1,2) refl] "1.prems" Cons by (subst (asm) quoted_field.simps) simp
    next
      case (comma cs')
      then show ?thesis using "1.prems" Cons by (subst (asm) quoted_field.simps) simp
    next
      case stop
      then show ?thesis using "1.prems" Cons by (subst (asm) quoted_field.simps) (auto split: list.splits)
    next
      case (bare n cs')
      then show ?thesis using "1.IH"(2) [OF Cons bare(1,2)] "1.prems" Cons by (subst (asm) quoted_field.simps) simp
    next
      case word
      then show ?thesis using "1.IH"(3) [OF Cons word] "1.prems" Cons by (subst (asm) quoted_field.simps) simp
    next
      case stop2
      then show ?thesis using "1.prems" Cons by (subst (asm) quoted_field.simps) (auto split: prod.splits if_splits)
    next
      case over
      obtain l r0 e0 where rl: "readLine broken rest = (l, r0, e0)" by (cases "readLine broken rest") auto
      from rl over "1.prems" Cons have "quoted_field comma broken (acc @ [c]) l r0 (if e0 = LineEOF then LineOK else e0) = (f, Some m, r, e')"
        by (subst (asm) quoted_field.simps) simp
      then have "length m + length r \<le> length l + length r0"
        using "1.IH"(4) [OF Cons over(1)] over rl by simp
      with readLine_le [OF rl] Cons show ?thesis by simp
    qed
  qed
qed

text \<open>The loop \<open>parseField\<close> over one record. A field that starts without a quote is taken as it is.\<close>

lemma Cut_SomeD: "Cut c s = Some (a, b) \<Longrightarrow> s = a @ c # b"
proof (induction s arbitrary: a)
  case (Cons x s)
  then show ?case by (cases "x = c") (fastforce simp: Cut_def split: list.splits)+
qed (simp add: Cut_def)

lemma Cut_shorter: "Cut c s = Some (a, b) \<Longrightarrow> length b < length s"
  by (drule Cut_SomeD) simp

lemma quoted_field_shorter:
  "quoted_field comma broken [] (tl line) rest e = (f, Some m, r, e') \<Longrightarrow> line \<noteq> [] \<Longrightarrow> length r + length m < length rest + length line"
  using quoted_field_le [of comma broken "[]" "tl line" rest e f m r e'] by (cases line) auto

function parse_fields :: "char \<Rightarrow> bool \<Rightarrow> string \<Rightarrow> string \<Rightarrow> line_end \<Rightarrow> string list \<times> string \<times> line_end" where
  "parse_fields comma broken line rest e =
    (if line = [] \<or> hd line \<noteq> dq then
       (case Cut comma line of
          Some (f, more_text) \<Rightarrow> (case parse_fields comma broken more_text rest e of (fs, r, e') \<Rightarrow> (f # fs, r, e'))
        | None \<Rightarrow> ([take (length line - lengthNL line) line], rest, e))
     else (case quoted_field comma broken [] (tl line) rest e of
         (f, Some more_text, r, e') \<Rightarrow> (case parse_fields comma broken more_text r e' of (fs, r', e2) \<Rightarrow> (f # fs, r', e2))
       | (f, None, r, e') \<Rightarrow> ([f], r, e')))"
  by pat_completeness auto
termination
  by (relation "measure (\<lambda>(_, _, line, rest, _). length rest + length line)")
     (auto dest: Cut_shorter quoted_field_shorter [OF sym])

declare parse_fields.simps [simp del]

datatype csv_result = CsvRecord "string list" | CsvEOF | CsvError

definition csv_Read :: "char \<Rightarrow> bool \<Rightarrow> string \<Rightarrow> csv_result \<times> string" where
  "csv_Read comma broken s = (case first_line broken s of (l, r, e) \<Rightarrow>
     if e = LineEOF then (CsvEOF, r)
     else (case parse_fields comma broken l r e of (fs, r', e') \<Rightarrow> (if e' = LineOK then CsvRecord fs else CsvError, r')))"

lemma quoted_field_rest: "quoted_field comma broken acc line rest e = (f, m, r, e') \<Longrightarrow> length r \<le> length rest"
proof (induction comma broken acc line rest e rule: quoted_field.induct)
  case (1 comma broken acc line rest e)
  show ?case
  proof (cases line)
    case Nil
    then show ?thesis using "1.prems" by (subst (asm) quoted_field.simps) simp
  next
    case (Cons c cs)
    obtain l r0 e0 where rl: "readLine broken rest = (l, r0, e0)" by (cases "readLine broken rest") auto
    have le: "length r0 \<le> length rest" using readLine_le [OF rl] by simp
    show ?thesis
      using "1.prems" "1.IH" Cons rl le
      by (subst (asm) quoted_field.simps) (force split: if_splits list.splits)
  qed
qed

lemma parse_fields_rest: "parse_fields comma broken line rest e = (fs, r, e') \<Longrightarrow> length r \<le> length rest"
proof (induction comma broken line rest e arbitrary: fs r e' rule: parse_fields.induct)
  case (1 comma broken line rest e)
  show ?case
    using "1.prems" "1.IH" quoted_field_rest
    by (subst (asm) parse_fields.simps) (fastforce split: if_splits option.splits prod.splits)
qed

lemma first_line_rest: "first_line broken s = (l, r, e) \<Longrightarrow> e \<noteq> LineEOF \<Longrightarrow> s \<noteq> [] \<Longrightarrow> length r < length s"
proof (induction broken s rule: first_line.induct)
  case (1 broken s)
  obtain l1 r1 e1 where rl: "readLine broken s = (l1, r1, e1)" by (cases "readLine broken s") auto
  note lt = readLine_shorter [OF rl "1.prems"(3)]
  show ?case
  proof (cases "e1 = LineOK \<and> length l1 = lengthNL l1 \<and> r1 \<noteq> []")
    case True
    then have "first_line broken r1 = (l, r, e)" using "1.prems" rl by (subst (asm) first_line.simps) simp
    then have "length r < length r1" using "1.IH" [OF rl [symmetric] refl] True "1.prems" by simp
    with lt show ?thesis by simp
  next
    case False
    have "first_line broken [] = (l, r, e) \<Longrightarrow> length r = 0"
      by (subst (asm) first_line.simps) (auto simp: readLine_def split: if_splits)
    then show ?thesis using False "1.prems" rl lt by (subst (asm) first_line.simps) (auto split: if_splits)
  qed
qed

lemma csv_Read_shorter:
  assumes "csv_Read comma broken s = (CsvRecord fs, r)"
  shows "length r < length s"
proof -
  obtain l r0 e where fl: "first_line broken s = (l, r0, e)" by (cases "first_line broken s") auto
  have "e \<noteq> LineEOF" using assms fl by (auto simp: csv_Read_def)
  have "s \<noteq> []"
  proof
    assume "s = []"
    then have "l = []" "e = LineBroken" using fl \<open>e \<noteq> LineEOF\<close> by (subst (asm) first_line.simps; auto simp: readLine_def split: if_splits)+
    then show False using assms fl by (auto simp: csv_Read_def parse_fields.simps [of comma broken "[]"] Cut_def split: if_splits)
  qed
  obtain fs' r1 e1 where "parse_fields comma broken l r0 e = (fs', r1, e1)" by (cases "parse_fields comma broken l r0 e") auto
  moreover from this have "r = r1" using assms fl \<open>e \<noteq> LineEOF\<close> by (auto simp: csv_Read_def split: if_splits)
  ultimately have "length r \<le> length r0" using parse_fields_rest by blast
  with first_line_rest [OF fl \<open>e \<noteq> LineEOF\<close> \<open>s \<noteq> []\<close>] show ?thesis by simp
qed

end
