(* ===== verification/Schema_Theorems.thy ===== *)
theory Schema_Theorems
  imports Dbeditor_Schema Sql_Pieces Csv
begin

text \<open>
  The statements the schema editor generates. Whatever names, values, defaults and comments a request holds, every statement
  generated for it is one statement and is passed on unchanged: no part of the request can end it or open a comment in it.
\<close>

section \<open>Column definitions\<close>

lemma types_plain: "list_all plain_text (map fst mysqlTypes)" "list_all plain_text (map fst pgTypes)"
  by code_simp+

lemma types_end: "list_all ends_ok (map fst mysqlTypes)" "list_all ends_ok (map fst pgTypes)"
  by code_simp+

lemma base_ok:
  assumes "map_of (dialect_types d) base = Some spec"
  shows "plain_text base" "ends_ok base"
proof -
  have "base \<in> set (map fst (dialect_types d))" using map_of_SomeD [OF assms] by force
  then show "plain_text base" "ends_ok base"
    using types_plain types_end by (auto simp: dialect_types_def list_all_iff split: dialect.splits)
qed

lemma reFsp_plain: "reFsp l \<Longrightarrow> plain_text l"
  unfolding reFsp_def by (elim insertE emptyE) simp_all

lemma length_ok_plain: "length_ok k l \<Longrightarrow> plain_text l"
proof -
  have "plain_text l" if "rePrec l"
  proof (cases "Cut (CHR '','') l")
    case None
    then show ?thesis using that by (simp add: rePrec_def two_digits_def digits_plain)
  next
    case (Some ab)
    obtain a b where "ab = (a, b)" by force
    then have "l = a @ '','' @ b" "list_all is_dec a" "list_all is_dec b"
      using that Some Cut_SomeD [of "CHR '',''" l a b] by (auto simp: rePrec_def two_digits_def)
    then have "plain_text a" "plain_text ('','' @ b)" by (simp_all add: digits_plain)
    then show ?thesis using plain_append \<open>l = a @ '','' @ b\<close> by blast
  qed
  then show "length_ok k l \<Longrightarrow> plain_text l"
    by (auto simp: length_ok_def reLen_def digits_plain reFsp_plain split: if_splits)
qed

lemma reNumLit_ok: "reNumLit v \<Longrightarrow> plain_text v \<and> ends_ok v"
proof -
  let ?t = "TrimPrefix v ''-''"
  assume v: "reNumLit v"
  have digits_end: "ends_ok s" if "digits1 s" for s
  proof -
    have "is_dec (last s)" using that by (simp add: digits1_def list_all_iff)
    then show ?thesis using that by (auto simp: ends_ok_def digits1_def is_dec_def is_space_def)
  qed
  have t: "plain_text ?t \<and> ends_ok ?t \<and> is_dec (hd ?t) \<and> ?t \<noteq> []"
  proof (cases "Cut (CHR ''.'') ?t")
    case None
    then have "digits1 ?t" using v by (simp add: reNumLit_def Let_def)
    then show ?thesis using digits_end by (simp add: digits1_def digits_plain list_all_iff)
  next
    case (Some ab)
    obtain a b where "ab = (a, b)" by force
    then have ab: "?t = a @ ''.'' @ b" "digits1 a" "digits1 b"
      using v Some Cut_SomeD [of "CHR ''.''" ?t a b] by (auto simp: reNumLit_def Let_def)
    then have "plain_text a" "plain_text (''.'' @ b)" using digits_plain by (simp_all add: digits1_def)
    moreover have "ends_ok (a @ ''.'' @ b)" using ab(3) digits_end by (intro ends_ok_append) simp
    ultimately show ?thesis unfolding ab(1) using plain_append ab(2) by (simp add: digits1_def list_all_iff)
  qed
  show "plain_text v \<and> ends_ok v"
  proof (cases "HasPrefix v ''-''")
    case True
    then have v_eq: "v = ''-'' @ ?t" by (elim HasPrefixE) (simp add: TrimPrefix_def HasPrefix_def)
    have "plain_text (''-'' @ ?t)" using t by (auto simp: is_dec_def)
    moreover have "ends_ok (''-'' @ ?t)" using t by (intro ends_ok_append) simp
    ultimately show ?thesis by (simp only: v_eq [symmetric])
  next
    case False
    then show ?thesis using t by (simp add: TrimPrefix_def)
  qed
qed

lemma type_word:
  assumes "composed d x" "plain_text base"
  shows "closed d (base @ ''('' @ x @ '')'')"
proof -
  have "composed d (base @ ''('' @ x)" by (intro composed_word assms) simp
  from closed_end [OF this, of "'')''"] show ?thesis by simp
qed

lemma type_text_ok:
  assumes "type_text d col spec = Inr out" "map_of (dialect_types d) (base_type col) = Some spec"
  shows "closed d out" "ends_ok out"
proof -
  note base = base_ok [OF assms(2)]
  let ?vals = "base_type col @ ''('' @ Join '', '' (map (quoteSQLString d) (sl_Values col)) @ '')''"
  let ?len = "base_type col @ ''('' @ TrimSpace (sl_Length col) @ '')''"
  have paren: "ends_ok (x @ y @ z @ '')'')" for x y z by (intro ends_ok_append) (simp add: ends_ok_def is_space_def)
  have "closed d ?vals" by (rule type_word [OF composed_Join base(1)]) (auto simp: composed_literal)
  moreover have "closed d ?len" if "plain_text (TrimSpace (sl_Length col))"
    by (rule type_word [OF composed_plain [OF that] base(1)])
  moreover have "closed d (base_type col)" using base(1) by (rule closed_word)
  moreover have "out = base_type col \<or> out = ?vals \<or> out = ?len \<and> plain_text (TrimSpace (sl_Length col))"
    using assms(1) length_ok_plain unfolding type_text_def Let_def by (auto split: if_split_asm)
  ultimately show "closed d out" "ends_ok out" using base(2) paren by blast+
qed

lemma renderType_ok:
  assumes "renderType d col = Inr (typ, spec)"
  shows "closed d typ" "ends_ok typ"
proof -
  obtain out where out: "map_of (dialect_types d) (base_type col) = Some spec" "type_text d col spec = Inr out"
      "typ = out \<or> typ = out @ '' unsigned''"
    using assms by (auto simp: renderType_def split: option.splits sum.splits if_split_asm)
  note ok = type_text_ok [OF out(2,1)]
  have "closed d (out @ '' unsigned'')" by (rule closed_append [OF ok(1) closed_word]) simp
  moreover have "ends_ok (out @ '' unsigned'')" by (rule ends_ok_append) (simp add: ends_ok_def is_space_def)
  ultimately show "closed d typ" "ends_ok typ" using out(3) ok by blast+
qed

lemma default_composed: "composed d v \<Longrightarrow> opens d ('' DEFAULT '' @ v)"
  by (rule opens_word) simp_all

lemma renderDefault_ok:
  assumes "renderDefault d col base spec = Inr def"
  shows "opens d def" "def = [] \<or> ends_ok def"
proof -
  have const: "opens d '' DEFAULT NULL''" "opens d '' DEFAULT CURRENT_TIMESTAMP''"
    using opens_word [of "'' DEFAULT NULL''" d "[]"] opens_word [of "'' DEFAULT CURRENT_TIMESTAMP''" d "[]"] by simp_all
  have bool: "opens d ('' DEFAULT '' @ boolLiteral d b)" for b
    by (rule default_composed, rule composed_plain) (simp add: boolLiteral_def split: dialect.split)
  have ends: "ends_ok '' DEFAULT NULL''" "ends_ok '' DEFAULT CURRENT_TIMESTAMP''" "ends_ok (boolLiteral d b)" for b
    by (simp_all add: ends_ok_def is_space_def boolLiteral_def split: dialect.split)
  have "def = [] \<or> def = '' DEFAULT NULL'' \<or> def = '' DEFAULT CURRENT_TIMESTAMP'' \<or> (\<exists>b. def = '' DEFAULT '' @ boolLiteral d b)
      \<or> (\<exists>v. def = '' DEFAULT '' @ quoteSQLString d v) \<or> (\<exists>v. reNumLit v \<and> def = '' DEFAULT '' @ v)"
    using assms unfolding renderDefault_def Let_def by (auto split: if_split_asm)
  then consider "def = []" | "def = '' DEFAULT NULL''" | "def = '' DEFAULT CURRENT_TIMESTAMP''" | b where "def = '' DEFAULT '' @ boolLiteral d b"
    | v where "def = '' DEFAULT '' @ quoteSQLString d v" | v where "reNumLit v" "def = '' DEFAULT '' @ v" by blast
  then have "opens d def \<and> (def = [] \<or> ends_ok def)"
  proof cases
    case 1
    then show ?thesis by (simp add: opens_Nil)
  next
    case 2
    then show ?thesis using const(1) ends(1) by blast
  next
    case 3
    then show ?thesis using const(2) ends(2) by blast
  next
    case (4 b)
    then show ?thesis using bool ends_ok_append [OF ends(3)] by blast
  next
    case (5 v)
    then show ?thesis
      using default_composed [OF composed_literal] ends_ok_append [OF ends_ok_quote(2)] by blast
  next
    case (6 v)
    then show ?thesis
      using default_composed [OF composed_plain] reNumLit_ok ends_ok_append by blast
  qed
  then show "opens d def" "def = [] \<or> ends_ok def" by blast+
qed

lemma columnDDL_ok:
  assumes "columnDDL d col = Inr line"
  shows "composed d line" "ends_ok line"
proof -
  obtain tx spec where rt: "renderType d col = Inr (tx, spec)"
    using assms by (auto simp: columnDDL_def split: if_splits sum.splits)
  obtain def where rd: "renderDefault d col (base_type col) spec = Inr def"
    using assms rt by (auto simp: columnDDL_def split: if_splits sum.splits)
  note tx = renderType_ok [OF rt] and dflt = renderDefault_ok [OF rd]
  let ?n = "sl_Name col"
  have named: "composed d (quote d ?n @ '' '' @ t)" if "composed d t" for t
    by (rule composed_quote_word [OF _ _ that]) simp_all
  have typed: "composed d (quote d ?n @ '' '' @ tx @ t)" "ends_ok (quote d ?n @ '' '' @ tx @ t)" if "opens d t" "t = [] \<or> ends_ok t" for t
  proof -
    have "composed d (tx @ t)" using composed_opens [OF _ that(1)] tx(1) by (simp add: closed_def)
    then show "composed d (quote d ?n @ '' '' @ tx @ t)" by (rule named)
    have "ends_ok (tx @ t)" using that(2) tx(2) ends_ok_append by auto
    then show "ends_ok (quote d ?n @ '' '' @ tx @ t)" by (rule ends_ok_append [OF ends_ok_append])
  qed
  have word: "opens d w" "ends_ok w" if "w \<in> {'' NOT NULL'', '' NULL'', '' AUTO_INCREMENT''}" for w
    using that opens_word [of _ d "[]"] by (auto simp: ends_ok_def is_space_def)
  have both: "opens d (a @ b)" "a @ b = [] \<or> ends_ok (a @ b)" if "opens d a" "a = [] \<or> ends_ok a" "opens d b" "b = [] \<or> ends_ok b" for a b
    using that opens_append ends_ok_append by auto
  have comment: "opens d ('' COMMENT '' @ quoteSQLString d v)" "ends_ok ('' COMMENT '' @ quoteSQLString d v)" for v
    by (rule opens_word [OF _ _ composed_literal], simp, simp) (intro ends_ok_append ends_ok_quote)
  have "composed d line \<and> ends_ok line"
  proof (cases d)
    case pgDialect
    then consider serial where "line = quote d ?n @ '' '' @ serial" "serial \<in> {''smallserial'', ''serial'', ''bigserial''}"
      | t where "line = quote d ?n @ '' '' @ tx @ t @ def" "t = [] \<or> t = '' NOT NULL''"
      using assms rt rd by (auto simp: columnDDL_def pgSerialFor_def Let_def split: if_split_asm option.split_asm)
    then show ?thesis
    proof cases
      case (1 serial)
      have "plain_text serial \<and> ends_ok serial" using 1(2) by (elim insertE emptyE) (simp_all add: ends_ok_def is_space_def)
      then have "composed d serial" "ends_ok serial" by (simp_all add: composed_plain)
      then show ?thesis using 1(1) named ends_ok_append by blast
    next
      case (2 t)
      then have t: "opens d t" "t = [] \<or> ends_ok t" using word [of t] by (auto simp: opens_Nil)
      show ?thesis using typed [OF both [OF t dflt]] 2(1) by simp
    qed
  next
    case mysqlDialect
    let ?nn = "if sl_Nullable col then '' NULL'' else '' NOT NULL''" and ?a = "if sl_AutoIncrement col then '' AUTO_INCREMENT'' else def"
      and ?c = "if sl_Comment col \<noteq> [] then '' COMMENT '' @ quoteSQLString d (sl_Comment col) else []"
    have line: "line = quote d ?n @ '' '' @ tx @ ?nn @ ?a @ ?c"
      using assms rt rd mysqlDialect by (simp add: columnDDL_def Let_def split: if_split_asm)
    have n: "opens d ?nn" "?nn = [] \<or> ends_ok ?nn" using word by simp_all
    have a: "opens d ?a" "?a = [] \<or> ends_ok ?a" using word [of "'' AUTO_INCREMENT''"] dflt by simp_all
    have c: "opens d ?c" "?c = [] \<or> ends_ok ?c" using comment opens_Nil by simp_all
    note ac = both [OF a c]
    show ?thesis using typed [OF both [OF n ac]] unfolding line by blast
  qed
  then show "composed d line" "ends_ok line" by blast+
qed

section \<open>Plans\<close>

text \<open>The two shapes of a statement with names in it.\<close>

lemma stmt_name: "leads w \<Longrightarrow> one_statement d (w @ quote d n)"
  by (rule one_statementI [OF _ composed_quote]) (auto intro: ends_ok_append ends_ok_quote)

lemma stmt_name_then:
  "leads w \<Longrightarrow> plain_text v \<Longrightarrow> v \<noteq> [] \<Longrightarrow> composed d t \<Longrightarrow> ends_ok (v @ t) \<Longrightarrow> one_statement d (w @ quote d n @ v @ t)"
  by (rule one_statementI) (auto intro: composed_quote_word ends_ok_append)

lemma names_then: "plain_text v \<Longrightarrow> v \<noteq> [] \<Longrightarrow> composed d t \<Longrightarrow> composed d (quoteList d ns @ v @ t)"
  by (rule composed_append_word [OF composed_quoteList])

lemma leads_words:
  "leads ''ALTER TABLE ''" "leads ''ALTER VIEW ''" "leads ''RENAME TABLE ''" "leads ''CREATE TABLE ''" "leads ''INSERT INTO ''"
  "leads ''COMMENT ON COLUMN ''" "leads ''CREATE INDEX ''" "leads ''CREATE UNIQUE INDEX ''" "leads ''DROP INDEX ''" "leads ''DROP TABLE ''"
  "leads ''DROP VIEW ''" "leads ''TRUNCATE TABLE ''" "leads ''DELETE FROM ''" "leads ''UPDATE ''" "leads ''SELECT * FROM ''"
  "leads ''SELECT COUNT(*) FROM ''" "leads ''ANALYZE ''" "leads ''VACUUM ''" "leads ''REINDEX TABLE ''" "leads ''ANALYZE TABLE ''"
  "leads ''OPTIMIZE TABLE ''" "leads ''CHECK TABLE ''" "leads ''REPAIR TABLE ''"
  by code_simp+

lemma create_lines_ok:
  "create_lines d cols names lines auto = Inr (names', lines', auto') \<Longrightarrow> \<forall>l\<in>set lines. composed d l \<Longrightarrow> \<forall>l\<in>set lines'. composed d l"
proof (induction cols arbitrary: names lines auto)
  case (Cons col cols)
  from Cons.prems(1) obtain line where "columnDDL d col = Inr line"
    "create_lines d cols (insert (sl_Name col) names) (lines @ [line]) (if sl_AutoIncrement col then sl_Name col else auto) = Inr (names', lines', auto')"
    by (auto split: if_split_asm sum.split_asm)
  with Cons.IH Cons.prems(2) columnDDL_ok(1) show ?case by fastforce
qed simp

lemma paren_end: "ends_ok (x @ '')'')"
  by (simp add: ends_ok_def is_space_def)

lemma planCreateTable_ok:
  assumes "planCreateTable d srv c req = Inr stmts" "s \<in> set stmts"
  shows "one_statement d s"
proof -
  obtain names lines autoCol where cl: "create_lines d (sr_Columns req) {} [] [] = Inr (names, lines, autoCol)"
    using assms(1) by (auto simp: planCreateTable_def Let_def split: option.splits if_split_asm sum.split_asm)
  define lines' where "lines' = (if sr_KeyColumns req = [] then lines else lines @ [''PRIMARY KEY ('' @ quoteList d (sr_KeyColumns req) @ '')''])"
  have s: "s = ''CREATE TABLE '' @ quote d (sr_Table req) @ ('' ('' @ [newline] @ ''  '') @ Join ('','' @ [newline] @ ''  '') lines' @ [newline] @ '')''"
    using assms cl by (auto simp: planCreateTable_def Let_def lines'_def split: option.splits if_split_asm)
  have "composed d (''PRIMARY KEY ('' @ quoteList d (sr_KeyColumns req) @ '')'')"
    using names_then [of "'')''" d "[]" "sr_KeyColumns req"] by (intro composed_word [of "''PRIMARY KEY (''"]) simp_all
  then have "\<forall>l\<in>set lines'. composed d l" using create_lines_ok [OF cl] by (auto simp: lines'_def)
  then have "composed d (Join ('','' @ [newline] @ ''  '') lines')" by (rule composed_Join) simp_all
  then have "composed d (Join ('','' @ [newline] @ ''  '') lines' @ ([newline] @ '')'') @ [])"
    by (rule composed_append_word) simp_all
  then have "composed d (Join ('','' @ [newline] @ ''  '') lines' @ [newline] @ '')'')" by simp
  then show ?thesis unfolding s
    by (intro stmt_name_then leads_words ends_ok_append) (simp_all add: ends_ok_def is_space_def)
qed

lemma ends_ok_opt: "ends_ok a \<Longrightarrow> b = [] \<or> ends_ok b \<Longrightarrow> ends_ok (a @ b)"
  using ends_ok_append by auto

lemma planAddFK_ok:
  assumes "planAddFK d srv c st req = Inr stmts" "s \<in> set stmts"
  shows "one_statement d s"
proof -
  obtain ref del upd where s: "s = ''ALTER TABLE '' @ quote d (es_Table st) @ '' ADD CONSTRAINT '' @ quote d (sr_Name req) @ '' FOREIGN KEY ('' @
      quoteList d (sr_KeyColumns req) @ '') REFERENCES '' @ quote d ref @ '' ('' @ quoteList d (sr_RefColumns req) @ '')'' @ del @ upd"
    and del: "fk_action ''ON DELETE'' (sr_OnDelete req) = Inr del" and upd: "fk_action ''ON UPDATE'' (sr_OnUpdate req) = Inr upd"
    using assms by (auto simp: planAddFK_def split: if_split_asm sum.split_asm option.split_asm)
  have act: "plain_text x \<and> (x = [] \<or> ends_ok x)" if "fk_action cl v = Inr x" "cl = ''ON DELETE'' \<or> cl = ''ON UPDATE''" for cl v x
    using that by (auto simp: fk_action_def fkActionOK_def Let_def ends_ok_def is_space_def split: if_split_asm)
  have "plain_text ('')'' @ del @ upd)" using act [OF del] act [OF upd] by (simp add: plain_append)
  then have refs: "composed d (quoteList d (sr_RefColumns req) @ ('')'' @ del @ upd) @ [])" by (rule names_then) simp_all
  have "composed d (quote d (sr_Name req) @ '' FOREIGN KEY ('' @
      quoteList d (sr_KeyColumns req) @ '') REFERENCES '' @ quote d ref @ '' ('' @ quoteList d (sr_RefColumns req) @ '')'' @ del @ upd)"
    by (rule composed_quote_word, simp, simp, rule names_then, simp, simp, rule composed_quote_word, simp, simp) (use refs in simp)
  moreover have "ends_ok ('')'' @ del @ upd)"
    using act [OF del] act [OF upd] ends_ok_opt [OF ends_ok_opt [of "'')''" del], of upd] by (simp add: paren_end [of "[]", simplified])
  ultimately show ?thesis unfolding s
    by (intro stmt_name_then leads_words) (simp, simp, simp, blast intro: ends_ok_append)
qed

lemma stmt_two_names: "leads w \<Longrightarrow> plain_text v \<Longrightarrow> v \<noteq> [] \<Longrightarrow> one_statement d (w @ quote d n @ v @ quote d m)"
  by (rule stmt_name_then) (auto intro: composed_quote ends_ok_append ends_ok_quote)

lemma stmt_name_word: "leads w \<Longrightarrow> plain_text v \<Longrightarrow> v \<noteq> [] \<Longrightarrow> ends_ok v \<Longrightarrow> one_statement d (w @ quote d n @ v)"
  using stmt_name_then [of w v d "[]" n] by simp

lemma plan_rename_ok: "plan_rename d srv c st req = Inr stmts \<Longrightarrow> s \<in> set stmts \<Longrightarrow> one_statement d s"
proof -
  assume a: "plan_rename d srv c st req = Inr stmts" "s \<in> set stmts"
  let ?t = "quote d (es_Table st)" and ?n = "quote d (sr_NewName req)"
  have "s = ''ALTER VIEW '' @ ?t @ '' RENAME TO '' @ ?n \<or> s = ''ALTER TABLE '' @ ?t @ '' RENAME TO '' @ ?n \<or> s = ''RENAME TABLE '' @ ?t @ '' TO '' @ ?n"
    using a by (cases d) (auto simp: plan_rename_def Let_def split: option.split_asm if_split_asm)
  moreover have "one_statement d (w @ ?t @ v @ ?n)" if "leads w" "v = '' RENAME TO '' \<or> v = '' TO ''" for w v
    using that(2) by (intro stmt_two_names that(1)) auto
  ultimately show ?thesis using leads_words by blast
qed

lemma plan_copy_ok: "plan_copy d srv c st req = Inr stmts \<Longrightarrow> s \<in> set stmts \<Longrightarrow> one_statement d s"
proof -
  assume a: "plan_copy d srv c st req = Inr stmts" "s \<in> set stmts"
  let ?t = "quote d (es_Table st)" and ?n = "quote d (sr_NewName req)"
  have "s = ''CREATE TABLE '' @ ?n @ '' (LIKE '' @ ?t @ '' INCLUDING ALL)'' \<or> s = ''CREATE TABLE '' @ ?n @ '' LIKE '' @ ?t
      \<or> s = ''INSERT INTO '' @ ?n @ '' SELECT * FROM '' @ ?t"
    using a by (cases d) (auto simp: plan_copy_def Let_def split: option.split_asm if_split_asm)
  moreover have "one_statement d (''CREATE TABLE '' @ ?n @ '' LIKE '' @ ?t)" "one_statement d (''INSERT INTO '' @ ?n @ '' SELECT * FROM '' @ ?t)"
    by (rule stmt_two_names, rule leads_words, simp, simp)+
  moreover have "one_statement d (''CREATE TABLE '' @ ?n @ '' (LIKE '' @ ?t @ '' INCLUDING ALL)'')"
    using composed_quote_word [of "'' INCLUDING ALL)''" d "[]"]
    by (intro stmt_name_then leads_words ends_ok_append) (simp_all add: ends_ok_def is_space_def)
  ultimately show ?thesis by blast
qed

lemma comment_on: "composed d x \<Longrightarrow> ends_ok x \<Longrightarrow> one_statement d (''COMMENT ON COLUMN '' @ quote d t @ ''.'' @ quote d n @ '' IS '' @ x)"
  by (rule stmt_name_then [OF leads_words(6)], simp, simp, rule composed_quote_word, simp, simp) (simp_all add: ends_ok_append ends_ok_Cons)

lemma plan_add_column_ok: "plan_add_column d st req = Inr stmts \<Longrightarrow> s \<in> set stmts \<Longrightarrow> one_statement d s"
proof -
  assume a: "plan_add_column d st req = Inr stmts" "s \<in> set stmts"
  obtain col line where cl: "sr_Column req = Some col" "columnDDL d col = Inr line"
    using a(1) by (auto simp: plan_add_column_def split: option.split_asm if_split_asm sum.split_asm)
  note ok = columnDDL_ok [OF cl(2)]
  let ?s = "\<lambda>t. ''ALTER TABLE '' @ quote d (es_Table st) @ '' ADD COLUMN '' @ line @ t"
  let ?c = "''COMMENT ON COLUMN '' @ quote d (es_Table st) @ ''.'' @ quote d (sl_Name col) @ '' IS '' @ quoteSQLString d (sl_Comment col)"
  have cases: "s = ?s [] \<or> s = ?s '' FIRST'' \<or> s = ?s ('' AFTER '' @ quote d (sr_After req)) \<or> s = ?c"
    using a cl by (cases d) (auto simp: plan_add_column_def Let_def split: if_split_asm)
  have stmt: "one_statement d (?s t)" if "opens d t" "t = [] \<or> ends_ok t" for t
    by (rule stmt_name_then [OF leads_words(1) _ _ composed_opens [OF ok(1) that(1)]])
       (simp, simp, intro ends_ok_append [of "line @ t"] ends_ok_opt ok(2) that(2))
  have "opens d '' FIRST''" "opens d ('' AFTER '' @ quote d x)" for x
    using opens_word [of "'' FIRST''" d "[]"] opens_word [of "'' AFTER ''" d "quote d x"] by (simp_all add: composed_quote)
  moreover have "ends_ok '' FIRST''" "ends_ok ('' AFTER '' @ quote d x)" for x
    by (simp add: ends_ok_def is_space_def) (intro ends_ok_append ends_ok_quote)
  moreover have "one_statement d ?c" by (rule comment_on [OF composed_literal ends_ok_quote(2)])
  ultimately show ?thesis using cases stmt opens_Nil by metis
qed

lemma alter_column:
  assumes "composed d x" "ends_ok x" "plain_text v" "v \<noteq> []"
  shows "one_statement d (''ALTER TABLE '' @ quote d t @ '' ALTER COLUMN '' @ quote d n @ v @ x)"
  by (rule stmt_name_then [OF leads_words(1)], simp, simp, rule composed_quote_word)
     (use assms in \<open>simp_all add: ends_ok_append ends_ok_Cons\<close>)

lemma pg_rename_ok: "s \<in> set (pg_rename (quote pgDialect t) req col) \<Longrightarrow> one_statement pgDialect s"
proof -
  assume "s \<in> set (pg_rename (quote pgDialect t) req col)"
  then have s: "s = ''ALTER TABLE '' @ quote pgDialect t @ '' RENAME COLUMN '' @ quote pgDialect (sr_Name req) @ '' TO '' @ quote pgDialect (sl_Name col)"
    by (simp add: pg_rename_def split: if_split_asm)
  show ?thesis unfolding s
    by (rule stmt_name_then [OF leads_words(1)], simp, simp, rule composed_quote_word)
       (simp_all add: composed_quote ends_ok_append ends_ok_Cons ends_ok_quote)
qed

lemma pg_retype_ok: "closed pgDialect tx \<Longrightarrow> ends_ok tx \<Longrightarrow> s \<in> set (pg_retype (quote pgDialect t) (quote pgDialect n) cur tx) \<Longrightarrow> one_statement pgDialect s"
proof -
  assume tx: "closed pgDialect tx" "ends_ok tx" and "s \<in> set (pg_retype (quote pgDialect t) (quote pgDialect n) cur tx)"
  then have s: "s = ''ALTER TABLE '' @ quote pgDialect t @ '' ALTER COLUMN '' @ quote pgDialect n @ '' TYPE '' @ tx @ '' USING '' @ quote pgDialect n @ ''::'' @ tx"
    by (simp add: pg_retype_def split: if_split_asm)
  have "composed pgDialect (quote pgDialect n @ ''::'' @ tx)" by (rule composed_quote_word) (use tx in \<open>simp_all add: closed_def\<close>)
  then have "composed pgDialect ('' USING '' @ quote pgDialect n @ ''::'' @ tx)" by (rule composed_word [rotated]) simp
  with tx(1) have "composed pgDialect (tx @ '' USING '' @ quote pgDialect n @ ''::'' @ tx)" by (rule closed_composed)
  then show ?thesis unfolding s by (rule alter_column) (use tx in \<open>simp_all add: ends_ok_append ends_ok_Cons\<close>)
qed

lemma pg_nullability_ok: "s \<in> set (pg_nullability (quote pgDialect t) (quote pgDialect n) cur col) \<Longrightarrow> one_statement pgDialect s"
proof -
  let ?x = "if sl_Nullable col then ''DROP NOT NULL'' else ''SET NOT NULL''"
  assume "s \<in> set (pg_nullability (quote pgDialect t) (quote pgDialect n) cur col)"
  then have s: "s = ''ALTER TABLE '' @ quote pgDialect t @ '' ALTER COLUMN '' @ quote pgDialect n @ '' '' @ ?x"
    by (simp add: pg_nullability_def split: if_split_asm)
  have "composed pgDialect ?x" by (rule composed_plain) simp
  then show ?thesis unfolding s by (rule alter_column) (simp_all add: ends_ok_def is_space_def)
qed

lemma pg_redefault_ok:
  assumes "opens pgDialect dflt" "dflt = [] \<or> ends_ok dflt" "s \<in> set (pg_redefault (quote pgDialect t) (quote pgDialect n) cur dflt)"
  shows "one_statement pgDialect s"
proof -
  let ?w = "if dflt = [] then '' DROP DEFAULT'' else '' SET'' @ dflt"
  have s: "s = ''ALTER TABLE '' @ quote pgDialect t @ '' ALTER COLUMN '' @ quote pgDialect n @ ?w"
    using assms(3) by (simp add: pg_redefault_def split: if_split_asm)
  have ok: "composed pgDialect dflt" using composed_opens [OF composed_Nil assms(1)] by simp
  show ?thesis
  proof (cases "dflt = []")
    case True
    then show ?thesis using alter_column [of pgDialect "''DROP DEFAULT''" "'' ''" t n] s by (simp add: composed_plain ends_ok_def is_space_def)
  next
    case False
    then show ?thesis using alter_column [OF ok _, of "'' SET''" t n] s assms(2) by simp
  qed
qed

lemma pg_comment_ok: "s \<in> set (pg_comment (quote pgDialect t) (quote pgDialect n) cur col) \<Longrightarrow> one_statement pgDialect s"
proof -
  let ?x = "if sl_Comment col \<noteq> [] then quoteSQLString pgDialect (sl_Comment col) else ''NULL''"
  assume "s \<in> set (pg_comment (quote pgDialect t) (quote pgDialect n) cur col)"
  then have s: "s = ''COMMENT ON COLUMN '' @ quote pgDialect t @ ''.'' @ quote pgDialect n @ '' IS '' @ ?x"
    by (simp add: pg_comment_def split: if_split_asm)
  have "composed pgDialect ?x" "ends_ok ?x"
    by (simp_all add: composed_literal composed_plain ends_ok_quote) (simp add: ends_ok_def is_space_def)
  then show ?thesis unfolding s by (rule comment_on)
qed

lemma planPGModify_ok: "planPGModify st req col = Inr stmts \<Longrightarrow> s \<in> set stmts \<Longrightarrow> one_statement pgDialect s"
proof -
  assume a: "planPGModify st req col = Inr stmts" "s \<in> set stmts"
  obtain tx spec cur where rt: "renderType pgDialect col = Inr (tx, spec)"
    and pm: "pg_modify st cur req col tx (renderDefault pgDialect col (base_type col) spec) = Inr stmts"
    using a(1) by (auto simp: planPGModify_def split: sum.split_asm option.split_asm if_split_asm)
  note tx = renderType_ok [OF rt]
  let ?t = "quote pgDialect (es_Table st)" and ?n = "quote pgDialect (if sl_Name col \<noteq> sr_Name req then sl_Name col else sr_Name req)"
  have "s \<in> set (pg_rename ?t req col) \<or> s \<in> set (pg_comment ?t ?n cur col)
    \<or> s \<in> set (pg_retype ?t ?n cur tx) \<or> s \<in> set (pg_nullability ?t ?n cur col)
    \<or> (\<exists>x. renderDefault pgDialect col (base_type col) spec = Inr x \<and> s \<in> set (pg_redefault ?t ?n cur x))"
    using pm a(2) unfolding pg_modify_def Let_def by (auto split: if_split_asm sum.split_asm split del: if_split)
  moreover have "one_statement pgDialect s" if "renderDefault pgDialect col (base_type col) spec = Inr x" "s \<in> set (pg_redefault ?t ?n cur x)" for x
    using pg_redefault_ok [OF renderDefault_ok [OF that(1)] that(2)] .
  ultimately show ?thesis
    by (elim disjE exE conjE) (erule pg_rename_ok pg_comment_ok pg_retype_ok [OF tx] pg_nullability_ok | simp only:)+
qed

lemma plan_modify_ok: "plan_modify d st req = Inr stmts \<Longrightarrow> s \<in> set stmts \<Longrightarrow> one_statement d s"
proof -
  assume a: "plan_modify d st req = Inr stmts" "s \<in> set stmts"
  obtain col line where cl: "columnDDL d col = Inr line"
    "d = mysqlDialect \<and> s = ''ALTER TABLE '' @ quote d (es_Table st) @ '' CHANGE COLUMN '' @ quote d (sr_Name req) @ '' '' @ line
      \<or> d = pgDialect \<and> planPGModify st req col = Inr stmts"
    using a by (cases d) (auto simp: plan_modify_def split: option.split_asm if_split_asm sum.split_asm)
  note ok = columnDDL_ok [OF cl(1)]
  have "one_statement d (''ALTER TABLE '' @ quote d (es_Table st) @ '' CHANGE COLUMN '' @ quote d (sr_Name req) @ '' '' @ line)"
    by (rule stmt_name_then [OF leads_words(1)], simp, simp, rule composed_quote_word)
       (use ok in \<open>simp_all add: ends_ok_append ends_ok_Cons\<close>)
  then show ?thesis using cl(2) planPGModify_ok a(2) by blast
qed

lemma plan_index_ok: "plan_index d st req = Inr stmts \<Longrightarrow> s \<in> set stmts \<Longrightarrow> one_statement d s"
proof -
  assume a: "plan_index d st req = Inr stmts" "s \<in> set stmts"
  let ?w = "if sr_Unique req then ''CREATE UNIQUE INDEX '' else ''CREATE INDEX ''"
  have s: "s = ?w @ quote d (sr_Name req) @ '' ON '' @ quote d (es_Table st) @ '' ('' @ quoteList d (sr_KeyColumns req) @ '')''"
    using a by (auto simp: plan_index_def split: if_split_asm option.split_asm)
  have l: "leads ?w" using leads_words by simp
  have c: "composed d (quote d (es_Table st) @ '' ('' @ quoteList d (sr_KeyColumns req) @ '')'')"
    by (rule composed_quote_word, simp, simp) (use names_then [of "'')''" d "[]"] in simp)
  show ?thesis unfolding s
    by (rule stmt_name_then [OF l _ _ c]) (simp_all add: ends_ok_append ends_ok_Cons paren_end [of "[]", simplified])
qed

lemma plan_drops_ok:
  "plan_drop_column d st req = Inr stmts \<or> plan_drop_index d st req = Inr stmts \<or> plan_drop_fk d st req = Inr stmts \<Longrightarrow> s \<in> set stmts \<Longrightarrow> one_statement d s"
proof -
  assume a: "plan_drop_column d st req = Inr stmts \<or> plan_drop_index d st req = Inr stmts \<or> plan_drop_fk d st req = Inr stmts" "s \<in> set stmts"
  let ?t = "quote d (es_Table st)" and ?n = "quote d (sr_Name req)"
  let ?ws = "[(if d = pgDialect then '' DROP CONSTRAINT '' else '' DROP FOREIGN KEY ''), '' DROP COLUMN '', '' DROP INDEX '']"
  have "s \<in> set (map (\<lambda>w. ''ALTER TABLE '' @ ?t @ w @ ?n) ?ws) \<or> s = ''DROP INDEX '' @ ?n"
    using a by (cases d) (auto simp: plan_drop_column_def plan_drop_index_def plan_drop_fk_def split: if_split_asm)
  then consider w where "w \<in> set ?ws" "s = ''ALTER TABLE '' @ ?t @ w @ ?n" | "s = ''DROP INDEX '' @ ?n" by (elim disjE) (simp only: set_map, blast)
  then show ?thesis
  proof cases
    case (1 w)
    then have "plain_text w \<and> w \<noteq> []" by (cases d) auto
    then show ?thesis unfolding 1(2) by (intro stmt_two_names leads_words) simp_all
  next
    case 2
    show ?thesis unfolding 2 by (rule stmt_name [OF leads_words(9)])
  qed
qed

lemma PlanSchema_one_statement:
  assumes "PlanSchema d srv c req = Inr stmts" "s \<in> set stmts"
  shows "one_statement d s"
proof (cases "sr_Action req = ''create_table''")
  case True
  then show ?thesis using assms planCreateTable_ok by (simp add: PlanSchema_def) blast
next
  case False
  then obtain st where "plan_rename d srv c st req = Inr stmts \<or> plan_copy d srv c st req = Inr stmts \<or> plan_add_column d st req = Inr stmts
      \<or> plan_modify d st req = Inr stmts \<or> plan_index d st req = Inr stmts \<or> planAddFK d srv c st req = Inr stmts
      \<or> plan_drop_column d st req = Inr stmts \<or> plan_drop_index d st req = Inr stmts \<or> plan_drop_fk d st req = Inr stmts"
    using assms(1) unfolding PlanSchema_def Let_def by (auto split: if_split_asm sum.split_asm)
  then show ?thesis
    using plan_rename_ok plan_copy_ok plan_add_column_ok plan_modify_ok plan_index_ok planAddFK_ok plan_drops_ok assms(2) by metis
qed

section \<open>The property\<close>

definition ex_dbserver :: "string \<Rightarrow> string list \<Rightarrow> unit dbserver" where
  "ex_dbserver table cols = \<lparr>srv_tables = (\<lambda>_. Inr [\<lparr>et_Name = table, et_Type = ''table'', et_Rows = 0, et_SizeBytes = 0, et_Engine = []\<rparr>]),
     srv_columns = (\<lambda>_ _. Inr (map (\<lambda>n. \<lparr>cr_name = n, cr_type = ''text'', cr_nullable = True, cr_default = None, cr_key = [], cr_extra = [],
       cr_comment = [], cr_auto = False\<rparr>) cols)),
     srv_indexes = (\<lambda>_ _. Inr [\<lparr>ir_name = ''PRIMARY'', ir_unique = True, ir_primary = True, ir_columns = Some (Join '','' (take 1 cols)), ir_method = []\<rparr>]),
     srv_fkeys = (\<lambda>_ _. Inr []), srv_query = (\<lambda>_ _ w. (Inr \<lparr>rs_cols = [], rs_rows = [], rs_err = None\<rparr>, w)), srv_exec = (\<lambda>_ _ w. (Inr 1, w)),
     srv_begin = (\<lambda>w. (None, w)), srv_commit = (\<lambda>w. (None, w)), srv_rollback = id\<rparr>"

abbreviation ex_conn :: "unit conn" where "ex_conn \<equiv> \<lparr>es_db = (), es_sent = []\<rparr>"

definition ex_rename :: SchemaRequest where
  "ex_rename = \<lparr>sr_Action = ''rename_table'', sr_Table = ''t`;x'', sr_NewName = ''n; DROP TABLE y'', sr_Name = [], sr_Column = None, sr_Columns = [],
     sr_After = [], sr_First = False, sr_KeyColumns = [], sr_Unique = False, sr_RefTable = [], sr_RefColumns = [], sr_OnDelete = [], sr_OnUpdate = [],
     sr_Data = False\<rparr>"

text \<open>C7: Every statement generated for a schema request, for any names, defaults, comments and enum values in the request and in the catalog,
  is read by the statement scanner as exactly one statement, unchanged.\<close>

theorem schema_statements_single:
  assumes "PlanSchema d srv c req = Inr stmts" "s \<in> set stmts"
  shows "splitStatements s d = [s]"
  by (rule one_statement_split [OF PlanSchema_one_statement [OF assms]])

lemma ex_rename_plan: "PlanSchema mysqlDialect (ex_dbserver ''t`;x'' [''a'']) ex_conn ex_rename = Inr [''RENAME TABLE `t``;x` TO `n; DROP TABLE y`'']"
  by code_simp

theorem schema_statements_single_witness:
  "splitStatements ''RENAME TABLE `t``;x` TO `n; DROP TABLE y`'' mysqlDialect = [''RENAME TABLE `t``;x` TO `n; DROP TABLE y`'']"
  using schema_statements_single [OF ex_rename_plan, of "''RENAME TABLE `t``;x` TO `n; DROP TABLE y`''"] by simp

end
