(* ===== verification/Dbeditor_Io.thy ===== *)
theory Dbeditor_Io
  imports Dbeditor Csv
begin

text \<open>
  Import, export and scripts of the database editor (\<^verbatim>\<open>svc/dbeditor_io.go\<close>).

  An upload is the bytes \<open>ImportStream\<close> delivers and how they end: \<open>up_broken\<close> for a read error, \<open>up_over\<close> for the number of bytes
  above the import limit. Decompression is not modelled: the bytes of a compressed upload are those the decompressor yields.
  The writer of an export is the text written so far and what is left of the limit. The time in an export's heading is an argument.
\<close>

section \<open>Literals and definitions\<close>

definition sqlLiteral :: "formats \<Rightarrow> dialect \<Rightarrow> dbvalue \<Rightarrow> string \<Rightarrow> string" where
  "sqlLiteral F d v dbType = (case v of
     VNil \<Rightarrow> ''NULL''
   | VBool x \<Rightarrow> if d = pgDialect then (if x then ''TRUE'' else ''FALSE'') else (if x then ''1'' else ''0'')
   | VInt x \<Rightarrow> decimal_int x
   | VFloat x \<Rightarrow> FormatFloat F (CHR ''g'') x
   | VTime t \<Rightarrow> if EqualFold dbType ''DATE'' then quoteSQLString d (FormatTime F ''2006-01-02'' t)
       else quoteSQLString d (FormatTime F ''2006-01-02 15:04:05.999999999-07:00'' t)
   | VBytes x \<Rightarrow>
      if isBinaryType dbType \<or> \<not> utf8_Valid x then
        if d = pgDialect then [squote, bslash, CHR ''x''] @ hex_bytes x @ [squote] @ ''::bytea''
        else ''X'' @ [squote] @ hex_bytes x @ [squote]
      else quoteSQLString d x
   | VStr x \<Rightarrow> quoteSQLString d x
   | VOther x \<Rightarrow> quoteSQLString d x)"

definition pg_column_line :: "EditorColumn \<Rightarrow> string" where
  "pg_column_line col = (let auto_inc = (ec_Extra col = ''auto_increment''); t = ToLower (ec_Type col);
       tx = (if auto_inc then (if t = ''smallint'' then ''SMALLSERIAL'' else if t = ''bigint'' then ''BIGSERIAL'' else ''SERIAL'') else ec_Type col);
       dflt = (if auto_inc then None else ec_Default col) in
     quote pgDialect (ec_Name col) @ '' '' @ tx @ (if \<not> ec_Nullable col \<and> \<not> auto_inc then '' NOT NULL'' else [])
       @ (case dflt of None \<Rightarrow> [] | Some v \<Rightarrow> '' DEFAULT '' @ v))"

definition pg_index_stmt :: "string \<Rightarrow> EditorIndex \<Rightarrow> string" where
  "pg_index_stmt table ix = ''CREATE '' @ (if ei_Unique ix then ''UNIQUE '' else []) @ ''INDEX '' @ quote pgDialect (ei_Name ix) @ '' ON '' @ quote pgDialect table
     @ (if ei_Method ix \<noteq> [] \<and> ei_Method ix \<noteq> ''btree'' then '' USING '' @ ei_Method ix else []) @ '' ('' @ quoteList pgDialect (ei_Columns ix) @ '')''"

definition pgCreateStatements :: "EditorStructure \<Rightarrow> string list" where
  "pgCreateStatements st =
    (let lines = map pg_column_line (es_Columns st)
         @ (if es_PrimaryKey st \<noteq> [] then [''PRIMARY KEY ('' @ quoteList pgDialect (es_PrimaryKey st) @ '')''] else [])
     in (''CREATE TABLE '' @ quote pgDialect (es_Table st) @ '' ('' @ [newline] @ ''  '' @ Join ('','' @ [newline] @ ''  '') lines @ [newline] @ '')'')
        # map (pg_index_stmt (es_Table st)) (filter (\<lambda>ix. \<not> ei_Primary ix) (es_Indexes st)))"

definition fkStatement :: "dialect \<Rightarrow> string \<Rightarrow> EditorForeignKey \<Rightarrow> string" where
  "fkStatement d table fk = ''ALTER TABLE '' @ quote d table @ '' ADD CONSTRAINT '' @ quote d (ef_Name fk) @ '' FOREIGN KEY ('' @ quoteList d (ef_Columns fk) @
     '') REFERENCES '' @ quote d (ef_RefTable fk) @ '' ('' @ quoteList d (ef_RefColumns fk) @ '')''"

definition text_value :: "dbvalue \<Rightarrow> string option" where
  "text_value v = (case v of VBytes x \<Rightarrow> Some x | VStr x \<Rightarrow> Some x | _ \<Rightarrow> None)"

definition view_text :: "string + rowset \<Rightarrow> edit_error + string" where
  "view_text r = (case r of Inl e \<Rightarrow> Inl (DbError e)
     | Inr rs \<Rightarrow> (case rs_rows rs of [] \<Rightarrow> Inl (DbError ''sql: no rows in result set'')
        | row # _ \<Rightarrow> (case row of v # _ \<Rightarrow> (case text_value v of Some t \<Rightarrow> Inr t | None \<Rightarrow> Inl (DbError ''sql: Scan error'')) | [] \<Rightarrow> Inl (DbError ''sql: Scan error''))))"

definition show_create :: "string + rowset \<Rightarrow> edit_error + string" where
  "show_create r = (case r of Inl e \<Rightarrow> Inl (DbError e)
     | Inr rs \<Rightarrow> (case rs_rows rs of [] \<Rightarrow> Inl (EditText ''no definition returned'')
        | row # _ \<Rightarrow> (case (if length row \<ge> 2 then text_value (row ! 1) else None) of Some t \<Rightarrow> Inr t
            | None \<Rightarrow> Inl (EditText ''unexpected SHOW CREATE result''))))"

definition definitionFor :: "dialect \<Rightarrow> 'w dbserver \<Rightarrow> EditorStructure \<Rightarrow> bool \<Rightarrow> 'w conn \<Rightarrow> (edit_error + string list) \<times> 'w conn" where
  "definitionFor d srv st withFK c =
    (if d = pgDialect then
       if es_Type st = ''view'' then
         (let (r, c1) = QueryContext srv ''SELECT pg_get_viewdef($1::regclass, true)'' [Some (quote d (es_Table st))] c in
          case view_text r of Inl e \<Rightarrow> (Inl e, c1)
          | Inr t \<Rightarrow> (Inr [''CREATE VIEW '' @ quote d (es_Table st) @ '' AS'' @ [newline] @ TrimSuffix (TrimSpace t) '';''], c1))
       else (Inr (pgCreateStatements st @ (if withFK then map (fkStatement d (es_Table st)) (es_ForeignKeys st) else [])), c)
     else (let kw = (if es_Type st = ''view'' then ''VIEW'' else ''TABLE'');
               (r, c1) = QueryContext srv (''SHOW CREATE '' @ kw @ '' '' @ quote d (es_Table st)) [] c
           in (map_sum id (\<lambda>t. [t]) (show_create r), c1)))"

definition Definition :: "dialect \<Rightarrow> 'w dbserver \<Rightarrow> string \<Rightarrow> 'w conn \<Rightarrow> (edit_error + string) \<times> 'w conn" where
  "Definition d srv table c = (case Structure d srv c table of Inl e \<Rightarrow> (Inl e, c)
     | Inr st \<Rightarrow> (case definitionFor d srv st True c of (Inl e, c1) \<Rightarrow> (Inl e, c1)
        | (Inr ddl, c1) \<Rightarrow> (Inr (Join ('';'' @ [newline]) ddl @ '';''), c1)))"

definition AllowLongRun :: "dialect \<Rightarrow> 'w dbserver \<Rightarrow> int \<Rightarrow> 'w conn \<Rightarrow> 'w conn" where
  "AllowLongRun d srv dur c = snd (ExecContext srv
     (if d = pgDialect then ''SET statement_timeout = '' @ decimal_int (dur div 1000000) else ''SET SESSION max_statement_time = '' @ decimal_int (dur div nanos)) [] c)"

section \<open>Export\<close>

abbreviation editorExportBatchRows :: nat where "editorExportBatchRows \<equiv> 100"
abbreviation editorExportBatchBytes :: nat where "editorExportBatchBytes \<equiv> 524288"
abbreviation editorExportMaxBytes :: nat where "editorExportMaxBytes \<equiv> 4294967296"

record ExportOptions =
  xo_Tables :: "string list"
  xo_Structure :: bool
  xo_Data :: bool
  xo_DropIfExists :: bool

record limitedWriter =
  lw_out :: string
  lw_left :: nat

definition lw_Write :: "string \<Rightarrow> limitedWriter \<Rightarrow> bool \<times> limitedWriter" where
  "lw_Write p w = (if length p > lw_left w then (False, w) else (True, w\<lparr>lw_out := lw_out w @ p, lw_left := lw_left w - length p\<rparr>))"

text \<open>A write whose error the code drops.\<close>

definition lw_put :: "string \<Rightarrow> limitedWriter \<Rightarrow> limitedWriter" where
  "lw_put p w = snd (lw_Write p w)"

abbreviation export_too_large :: edit_error where
  "export_too_large \<equiv> EditText ''the export is larger than the 4 GiB limit''"

definition insert_head :: "dialect \<Rightarrow> string \<Rightarrow> string list \<Rightarrow> string" where
  "insert_head d table names = ''INSERT INTO '' @ quote d table @ '' ('' @ Join '', '' (map (quote d) names) @ '') VALUES'' @ [newline]"

definition row_literal :: "formats \<Rightarrow> dialect \<Rightarrow> string list \<Rightarrow> dbvalue list \<Rightarrow> string" where
  "row_literal F d types vals = ''('' @ Join '', '' (map2 (sqlLiteral F d) vals types) @ '')''"

definition flush_batch :: "string \<Rightarrow> string list \<Rightarrow> limitedWriter \<Rightarrow> bool \<times> limitedWriter" where
  "flush_batch head batch w = (if batch = [] then (True, w) else lw_Write (head @ Join ('','' @ [newline]) batch @ '';'' @ [newline]) w)"

fun export_rows :: "string \<Rightarrow> string list \<Rightarrow> string list \<Rightarrow> nat \<Rightarrow> limitedWriter \<Rightarrow> bool \<times> string list \<times> limitedWriter" where
  "export_rows head [] batch sz w = (True, batch, w)"
| "export_rows head (line # rest) batch sz w =
    (let batch' = batch @ [line]; sz' = sz + length line in
     if length batch' \<ge> editorExportBatchRows \<or> sz' \<ge> editorExportBatchBytes
     then (case flush_batch head batch' w of (False, w') \<Rightarrow> (False, [], w') | (True, w') \<Rightarrow> export_rows head rest [] 0 w')
     else export_rows head rest batch' sz' w)"

definition setval_stmt :: "string \<Rightarrow> string \<Rightarrow> string" where
  "setval_stmt table col = (let qc = quote pgDialect col; qt = quote pgDialect table in
     ''SELECT setval(pg_get_serial_sequence('' @ quoteSQLString pgDialect qt @ '', '' @ quoteSQLString pgDialect col @ ''), COALESCE(MAX('' @ qc
       @ ''), 1), MAX('' @ qc @ '') IS NOT NULL) FROM '' @ qt)"

definition exportTableData :: "formats \<Rightarrow> dialect \<Rightarrow> 'w dbserver \<Rightarrow> EditorStructure \<Rightarrow> limitedWriter \<Rightarrow> 'w conn
    \<Rightarrow> edit_error option \<times> limitedWriter \<times> 'w conn" where
  "exportTableData F d srv st w c =
    (let table = es_Table st; (r, c1) = QueryContext srv (''SELECT * FROM '' @ quote d table) [] c in
     case r of Inl e \<Rightarrow> (Some (DbError e), w, c1)
     | Inr rs \<Rightarrow>
       let head = insert_head d table (map fst (rs_cols rs));
           w1 = lw_put (''-- Data of '' @ quote d table @ [newline]) w in
       (case export_rows head (map (row_literal F d (map snd (rs_cols rs))) (rs_rows rs)) [] 0 w1 of
          (False, _, w2) \<Rightarrow> (Some export_too_large, w2, c1)
        | (True, batch, w2) \<Rightarrow> (case rs_err rs of Some e \<Rightarrow> (Some (DbError e), w2, c1)
          | None \<Rightarrow> (case flush_batch head batch w2 of (False, w3) \<Rightarrow> (Some export_too_large, w3, c1)
            | (True, w3) \<Rightarrow>
              let w4 = (if d = pgDialect then fold (\<lambda>col w. if ec_Extra col = ''auto_increment'' then lw_put (setval_stmt table (ec_Name col) @ '';'' @ [newline]) w else w)
                          (es_Columns st) w3 else w3)
              in (None, lw_put [newline] w4, c1)))))"

type_synonym export_item = "EditorStructure \<times> string list"

fun gather_items :: "dialect \<Rightarrow> 'w dbserver \<Rightarrow> string set \<Rightarrow> bool \<Rightarrow> string list \<Rightarrow> 'w conn \<Rightarrow> (edit_error + export_item list) \<times> 'w conn" where
  "gather_items d srv byName structure [] c = (Inr [], c)"
| "gather_items d srv byName structure (n # ns) c =
    (if n \<notin> byName then (Inl (TableMissing n), c)
     else case Structure d srv c n of Inl e \<Rightarrow> (Inl e, c)
     | Inr st \<Rightarrow> (case (if structure then definitionFor d srv st False c else (Inr [], c)) of
         (Inl e, c1) \<Rightarrow> (Inl e, c1)
       | (Inr ddl, c1) \<Rightarrow> (case gather_items d srv byName structure ns c1 of (Inl e, c2) \<Rightarrow> (Inl e, c2) | (Inr its, c2) \<Rightarrow> (Inr ((st, ddl) # its), c2))))"

definition structure_text :: "dialect \<Rightarrow> bool \<Rightarrow> string \<Rightarrow> export_item \<Rightarrow> limitedWriter \<Rightarrow> limitedWriter" where
  "structure_text d dropIfExists pass it w =
    (let q = quote d (es_Table (fst it));
         w1 = lw_put (''-- Structure of '' @ q @ [newline]) w;
         w2 = (if dropIfExists then lw_put (''DROP '' @ (if pass = ''view'' then ''VIEW'' else ''TABLE'') @ '' IF EXISTS '' @ q
                 @ (if d = pgDialect then '' CASCADE'' else []) @ '';'' @ [newline]) w1 else w1);
         w3 = fold (\<lambda>s. lw_put (TrimSuffix (TrimSpace s) '';'' @ '';'' @ [newline])) (snd it) w2
     in lw_put [newline] w3)"

fun export_pass :: "formats \<Rightarrow> dialect \<Rightarrow> 'w dbserver \<Rightarrow> ExportOptions \<Rightarrow> string \<Rightarrow> export_item list \<Rightarrow> limitedWriter \<Rightarrow> 'w conn
    \<Rightarrow> edit_error option \<times> limitedWriter \<times> 'w conn" where
  "export_pass F d srv opts pass [] w c = (None, w, c)"
| "export_pass F d srv opts pass (it # its) w c =
    (if es_Type (fst it) \<noteq> pass then export_pass F d srv opts pass its w c
     else let w1 = (if xo_Structure opts then structure_text d (xo_DropIfExists opts) pass it w else w) in
       if xo_Data opts \<and> pass = ''table'' then
         (case exportTableData F d srv (fst it) w1 c of (Some e, w2, c2) \<Rightarrow> (Some e, w2, c2)
          | (None, w2, c2) \<Rightarrow> export_pass F d srv opts pass its w2 c2)
       else export_pass F d srv opts pass its w1 c)"

definition fk_text :: "dialect \<Rightarrow> export_item list \<Rightarrow> limitedWriter \<Rightarrow> limitedWriter" where
  "fk_text d its w = fold (\<lambda>it w. fold (\<lambda>fk w. if es_Type (fst it) = ''table'' then lw_put (fkStatement d (es_Table (fst it)) fk @ '';'' @ [newline]) w else w)
     (es_ForeignKeys (fst it)) w) its (lw_put (''-- Foreign keys'' @ [newline]) w)"

definition ExportSQL :: "formats \<Rightarrow> dialect \<Rightarrow> 'w dbserver \<Rightarrow> string \<Rightarrow> string \<Rightarrow> ExportOptions \<Rightarrow> 'w conn
    \<Rightarrow> edit_error option \<times> string \<times> 'w conn" where
  "ExportSQL F d srv generated dbName opts c =
    (if \<not> xo_Structure opts \<and> \<not> xo_Data opts then (Some (EditText ''choose structure, data or both''), [], c)
     else case Tables srv c of Inl e \<Rightarrow> (Some e, [], c)
     | Inr all_tables \<Rightarrow>
       let names = (if xo_Tables opts = [] then map et_Name all_tables else xo_Tables opts) in
       (case gather_items d srv (set (map et_Name all_tables)) (xo_Structure opts) names c of
          (Inl e, c1) \<Rightarrow> (Some e, [], c1)
        | (Inr items, c1) \<Rightarrow>
          let w0 = lw_put (''-- Aegis database export'' @ [newline] @ ''-- Database: '' @ replace_char newline '' '' dbName @ '' ('' @ dialect_kind d @ '')'' @ [newline]
                @ ''-- Generated: '' @ generated @ [newline, newline]) \<lparr>lw_out = [], lw_left = editorExportMaxBytes\<rparr>;
              w1 = (if d = mysqlDialect then lw_put (''SET NAMES utf8mb4;'' @ [newline] @ ''SET FOREIGN_KEY_CHECKS=0;'' @ [newline]
                @ ''SET SQL_MODE='' @ [squote] @ ''NO_AUTO_VALUE_ON_ZERO'' @ [squote] @ '';'' @ [newline, newline]) w0 else w0)
          in (case export_pass F d srv opts ''table'' items w1 c1 of (Some e, w2, c2) \<Rightarrow> (Some e, lw_out w2, c2)
            | (None, w2, c2) \<Rightarrow> (case export_pass F d srv opts ''view'' items w2 c2 of (Some e, w3, c3) \<Rightarrow> (Some e, lw_out w3, c3)
              | (None, w3, c3) \<Rightarrow>
                let w4 = (if xo_Structure opts \<and> d = pgDialect then fk_text d items w3 else w3);
                    w5 = (if d = mysqlDialect then lw_put ([newline] @ ''SET FOREIGN_KEY_CHECKS=1;'' @ [newline]) w4 else w4)
                in (None, lw_out w5, c3)))))"

definition csvValue :: "formats \<Rightarrow> dbvalue \<Rightarrow> string \<Rightarrow> string \<Rightarrow> string" where
  "csvValue F v dbType nullToken = (case v of
     VNil \<Rightarrow> nullToken
   | VBytes x \<Rightarrow> if isBinaryType dbType \<or> \<not> utf8_Valid x then ''0x'' @ hex_bytes x else x
   | VStr x \<Rightarrow> x
   | VTime t \<Rightarrow> if EqualFold dbType ''DATE'' then FormatTime F ''2006-01-02'' t else FormatTime F ''2006-01-02 15:04:05.999999999'' t
   | VBool b \<Rightarrow> FormatBool b
   | VInt x \<Rightarrow> decimal_int x
   | VFloat x \<Rightarrow> FormatFloat F (CHR ''v'') x
   | VOther x \<Rightarrow> x)"

abbreviation null_default :: string where "null_default \<equiv> [bslash, CHR ''N'']"

text \<open>The writer of \<open>encoding/csv\<close> buffers, so an error of the limited writer surfaces at the latest at the final \<open>Flush\<close>.\<close>

definition ExportCSV :: "formats \<Rightarrow> dialect \<Rightarrow> 'w dbserver \<Rightarrow> string \<Rightarrow> bool \<Rightarrow> string \<Rightarrow> 'w conn \<Rightarrow> (edit_error + string) \<times> 'w conn" where
  "ExportCSV F d srv table header nullToken c =
    (case requireTable srv c table of Inl e \<Rightarrow> (Inl e, c)
     | Inr _ \<Rightarrow>
       let nt = (if nullToken = [] then null_default else nullToken);
           (r, c1) = QueryContext srv (''SELECT * FROM '' @ quote d table) [] c in
       (case r of Inl e \<Rightarrow> (Inl (DbError e), c1)
        | Inr rs \<Rightarrow>
          let comma = CHR '','';
              out = (if header then csv_Write comma (map fst (rs_cols rs)) else [])
                @ concat (map (\<lambda>vals. csv_Write comma (map2 (\<lambda>v t. csvValue F v t nt) vals (map snd (rs_cols rs)))) (rs_rows rs))
          in (case rs_err rs of Some e \<Rightarrow> (Inl (DbError e), c1)
            | None \<Rightarrow> if length out > editorExportMaxBytes then (Inl export_too_large, c1) else (Inr out, c1))))"

section \<open>Import\<close>

record ImportResult =
  im_Statements :: nat
  im_Rows :: int
  im_Affected :: int
  im_FailedAt :: nat
  im_FailedSQL :: string
  im_Error :: string

definition no_import :: ImportResult where
  "no_import = \<lparr>im_Statements = 0, im_Rows = 0, im_Affected = 0, im_FailedAt = 0, im_FailedSQL = [], im_Error = []\<rparr>"

definition snippet :: "string \<Rightarrow> string" where
  "snippet s = (let t = Join '' '' (Fields s) in if length t > 160 then take 160 t @ ellipsis else t)"

abbreviation EditorMaxImportBytes :: nat where "EditorMaxImportBytes \<equiv> 4294967296"
abbreviation editorMaxStatement :: nat where "editorMaxStatement \<equiv> 67108864"

record upload =
  up_data :: string
  up_broken :: bool
  up_over :: nat

text \<open>What \<open>ImportStream\<close> makes of the bytes of a file: \<open>strictLimit\<close> cuts them off, and a byte-order mark is dropped. Once the limit
  is reached it asks for one more byte and looks only at whether there is one: the error of a stream that breaks there is lost.\<close>

definition strictLimit :: "string \<Rightarrow> bool \<Rightarrow> nat \<Rightarrow> upload" where
  "strictLimit bytes broken left = \<lparr>up_data = take left bytes, up_broken = (broken \<and> length bytes < left), up_over = length bytes - left\<rparr>"

definition ImportStream :: "string \<Rightarrow> bool \<Rightarrow> upload" where
  "ImportStream bytes broken = (let u = strictLimit bytes broken EditorMaxImportBytes; bom = [CHR 0xEF, CHR 0xBB, CHR 0xBF] in
     u\<lparr>up_data := (if take 3 (up_data u) = bom then drop 3 (up_data u) else up_data u)\<rparr>)"

datatype import_error = ImportRead nat scan_error | NotUtf8 nat | StatementFailed nat string | ImportDb string | NoStatements | ImportEdit edit_error
  | NearRow nat string | HeaderUnreadable | HeaderUnknown string | NoColumns

definition import_message :: "import_error \<Rightarrow> string" where
  "import_message e = (case e of StatementFailed n m \<Rightarrow> m | ImportDb m \<Rightarrow> m | NearRow n m \<Rightarrow> m | _ \<Rightarrow> [])"

text \<open>The loop over the statements of a script. The time limit of the request does not run out while it works.\<close>

function import_loop :: "'w dbserver \<Rightarrow> nat \<Rightarrow> ImportResult \<Rightarrow> stmtScanner \<Rightarrow> 'w conn \<Rightarrow> (import_error \<times> string) option \<times> ImportResult \<times> 'w conn" where
  "import_loop srv n res sc c = (case Next sc of
     (EndOfInput, _) \<Rightarrow> (None, res, c)
   | (ScanFailed e, _) \<Rightarrow> (Some (ImportRead n e, []), res, c)
   | (Statement stmt, sc') \<Rightarrow>
      if \<not> utf8_Valid stmt then (Some (NotUtf8 n, stmt), res, c)
      else (case ExecContext srv stmt [] c of
          (Inl e, c1) \<Rightarrow> (Some (StatementFailed n e, stmt), res, c1)
        | (Inr k, c1) \<Rightarrow> import_loop srv (n + 1) (res\<lparr>im_Statements := im_Statements res + 1, im_Affected := im_Affected res + (if k > 0 then k else 0)\<rparr>) sc' c1))"
  by pat_completeness auto
termination by (relation "measure (\<lambda>(_, _, _, sc, _). length (sc_in sc))") (auto dest: Next_consumes [OF sym])

declare import_loop.simps [simp del]

definition import_failed :: "dialect \<Rightarrow> import_error \<times> string \<Rightarrow> ImportResult \<Rightarrow> nat \<Rightarrow> ImportResult" where
  "import_failed d err res n = (let r = res\<lparr>im_FailedAt := n, im_FailedSQL := snippet (snd err), im_Error := import_message (fst err)\<rparr> in
     if d = pgDialect then r\<lparr>im_Statements := 0, im_Affected := 0\<rparr> else r)"

definition failed_number :: "import_error \<Rightarrow> nat" where
  "failed_number e = (case e of ImportRead n _ \<Rightarrow> n | NotUtf8 n \<Rightarrow> n | StatementFailed n _ \<Rightarrow> n | NearRow n _ \<Rightarrow> n | _ \<Rightarrow> 0)"

definition in_tx :: "('w \<Rightarrow> 'a \<times> 'w) \<Rightarrow> 'w conn \<Rightarrow> 'a \<times> 'w conn" where
  "in_tx f c = (let (r, w) = f (es_db c) in (r, c\<lparr>es_db := w\<rparr>))"

definition rolled_back :: "'w dbserver \<Rightarrow> 'w conn \<Rightarrow> 'w conn" where
  "rolled_back srv c = c\<lparr>es_db := srv_rollback srv (es_db c)\<rparr>"

definition ImportSQL :: "dialect \<Rightarrow> 'w dbserver \<Rightarrow> upload \<Rightarrow> 'w conn \<Rightarrow> (ImportResult \<times> import_error option) \<times> 'w conn" where
  "ImportSQL d srv u c =
    (let sc = newStmtScanner (up_data u) (up_broken u) (up_over u) d editorMaxStatement in
     if d = pgDialect then
       (case in_tx (srv_begin srv) c of (Some e, c1) \<Rightarrow> ((no_import, Some (ImportDb e)), c1)
        | (None, c1) \<Rightarrow> (case import_loop srv 1 no_import sc c1 of
            (Some err, res, c2) \<Rightarrow> ((import_failed d err res (failed_number (fst err)), Some (fst err)), rolled_back srv c2)
          | (None, res, c2) \<Rightarrow>
              if im_Statements res = 0 then ((res, Some NoStatements), rolled_back srv c2)
              else (case in_tx (srv_commit srv) c2 of (Some e, c3) \<Rightarrow> ((res, Some (ImportDb e)), c3) | (None, c3) \<Rightarrow> ((res, None), c3))))
     else
       (let (_, c1) = ExecContext srv ''SET FOREIGN_KEY_CHECKS=0'' [] c;
            (r, res, c2) = import_loop srv 1 no_import sc c1;
            (_, c3) = ExecContext srv ''SET FOREIGN_KEY_CHECKS=1'' [] c2 in
        (case r of Some err \<Rightarrow> ((import_failed d err res (failed_number (fst err)), Some (fst err)), c3)
         | None \<Rightarrow> if im_Statements res = 0 then ((res, Some NoStatements), c3) else ((res, None), c3))))"

record CSVImportOptions =
  ci_Header :: bool
  ci_NullToken :: string
  ci_Delimiter :: "char option"

abbreviation editorCSVBatchParams :: nat where "editorCSVBatchParams \<equiv> 60000"

definition perBatch :: "nat \<Rightarrow> nat" where
  "perBatch cols = max 1 (min 500 (editorCSVBatchParams div cols))"

text \<open>The statement of one batch: every row has the placeholders of its columns, numbered through the batch.\<close>

definition batch_row :: "dialect \<Rightarrow> nat \<Rightarrow> nat \<Rightarrow> string" where
  "batch_row d cols i = ''('' @ Join '', '' (map (ph d) [i * cols + 1 ..< i * cols + cols + 1]) @ '')''"

definition batch_sql :: "dialect \<Rightarrow> string \<Rightarrow> string list \<Rightarrow> nat \<Rightarrow> string" where
  "batch_sql d table cols k = ''INSERT INTO '' @ quote d table @ '' ('' @ quoteList d cols @ '') VALUES '' @ Join '', '' (map (batch_row d (length cols)) [0..<k])"

definition csv_flush :: "dialect \<Rightarrow> 'w dbserver \<Rightarrow> string \<Rightarrow> string list \<Rightarrow> arg list list \<Rightarrow> 'w conn \<Rightarrow> string option \<times> 'w conn" where
  "csv_flush d srv table cols batch c = (if batch = [] then (None, c)
     else case ExecContext srv (batch_sql d table cols (length batch)) (concat batch) c of (Inl e, c1) \<Rightarrow> (Some e, c1) | (Inr _, c1) \<Rightarrow> (None, c1))"

definition csv_args :: "string \<Rightarrow> nat \<Rightarrow> string list \<Rightarrow> arg list" where
  "csv_args nullToken n rc = map (\<lambda>i. if i < length rc \<and> rc ! i \<noteq> nullToken then Some (rc ! i) else None) [0..<n]"

text \<open>The loop over the records. \<open>line\<close> counts them; \<open>inserted\<close> counts the rows of the batches sent.\<close>

function csv_loop :: "dialect \<Rightarrow> 'w dbserver \<Rightarrow> string \<Rightarrow> string list \<Rightarrow> CSVImportOptions \<Rightarrow> string \<Rightarrow> char \<Rightarrow> bool \<Rightarrow> string \<Rightarrow> nat \<Rightarrow> arg list list \<Rightarrow> nat
    \<Rightarrow> 'w conn \<Rightarrow> (nat \<times> string + nat) \<times> 'w conn" where
  "csv_loop d srv table cols opts nullToken comma broken s line batch inserted c =
    (case csv_Read comma broken s of
       (CsvEOF, _) \<Rightarrow> (case csv_flush d srv table cols batch c of (Some e, c1) \<Rightarrow> (Inl (line, e), c1) | (None, c1) \<Rightarrow> (Inr (inserted + length batch), c1))
     | (CsvError, _) \<Rightarrow> (Inl (line + 1, ''read error''), c)
     | (CsvRecord rc, s') \<Rightarrow>
        if length rc > length cols \<or> (ci_Header opts \<and> length rc \<noteq> length cols) then (Inl (line + 1, ''wrong number of fields''), c)
        else if list_ex (\<lambda>f. \<not> utf8_Valid f) rc then (Inl (line + 1, ''the row is not valid UTF-8 text''), c)
        else let batch' = batch @ [csv_args nullToken (length cols) rc] in
          if length batch' \<ge> perBatch (length cols) then
            (case csv_flush d srv table cols batch' c of (Some e, c1) \<Rightarrow> (Inl (line + 1, e), c1)
             | (None, c1) \<Rightarrow> csv_loop d srv table cols opts nullToken comma broken s' (line + 1) [] (inserted + length batch') c1)
          else csv_loop d srv table cols opts nullToken comma broken s' (line + 1) batch' inserted c)"
  by pat_completeness auto
termination
  by (relation "measure (\<lambda>(_, _, _, _, _, _, _, _, s, _). length s)") (auto dest: csv_Read_shorter [OF sym])

declare csv_loop.simps [simp del]

definition header_names :: "string list \<Rightarrow> string list" where
  "header_names rc = map (\<lambda>h. TrimPrefix (TrimSpace h) [CHR 0xEF, CHR 0xBB, CHR 0xBF]) rc"

definition csv_columns :: "EditorStructure \<Rightarrow> bool \<Rightarrow> char \<Rightarrow> bool \<Rightarrow> string \<Rightarrow> import_error + string list \<times> string" where
  "csv_columns st header comma broken s =
    (if header then
       (case csv_Read comma broken s of
          (CsvRecord rc, s') \<Rightarrow> (case find (\<lambda>h. h \<notin> columnSet st) (header_names rc) of Some h \<Rightarrow> Inl (HeaderUnknown h)
             | None \<Rightarrow> Inr (header_names rc, s'))
        | _ \<Rightarrow> Inl HeaderUnreadable)
     else Inr (map ec_Name (es_Columns st), s))"

definition ImportCSV :: "dialect \<Rightarrow> 'w dbserver \<Rightarrow> upload \<Rightarrow> string \<Rightarrow> CSVImportOptions \<Rightarrow> 'w conn \<Rightarrow> (ImportResult \<times> import_error option) \<times> 'w conn" where
  "ImportCSV d srv u table opts c =
    (case writableTable d srv c table of Inl e \<Rightarrow> ((no_import, Some (ImportEdit e)), c)
     | Inr st \<Rightarrow>
       let nullToken = (if ci_NullToken opts = [] then null_default else ci_NullToken opts);
           comma = (case ci_Delimiter opts of None \<Rightarrow> CHR '','' | Some x \<Rightarrow> x); broken = (up_broken u \<or> up_over u > 0) in
       (case csv_columns st (ci_Header opts) comma broken (up_data u) of Inl e \<Rightarrow> ((no_import, Some e), c)
        | Inr (cols, s) \<Rightarrow>
          if cols = [] then ((no_import, Some NoColumns), c)
          else (case in_tx (srv_begin srv) c of (Some e, c1) \<Rightarrow> ((no_import, Some (ImportDb e)), c1)
            | (None, c1) \<Rightarrow> (case csv_loop d srv table cols opts nullToken comma broken s 0 [] 0 c1 of
                (Inl (line, m), c2) \<Rightarrow> ((no_import\<lparr>im_FailedAt := line, im_Error := m\<rparr>, Some (NearRow line m)), rolled_back srv c2)
              | (Inr n, c2) \<Rightarrow> (case in_tx (srv_commit srv) c2 of (Some e, c3) \<Rightarrow> ((no_import, Some (ImportDb e)), c3)
                  | (None, c3) \<Rightarrow> ((no_import\<lparr>im_Rows := int n, im_Statements := 1\<rparr>, None), c3))))))"

section \<open>Scripts\<close>

abbreviation editorMaxScriptStatements :: nat where "editorMaxScriptStatements \<equiv> 100"

record ScriptResult =
  sp_SQL :: string
  sp_Result :: "EditorResult option"
  sp_Error :: bool

datatype script_error = NoScript | TooManyStatements | ScriptFailed edit_error

text \<open>The callback \<open>before\<close> is called with each statement just before it runs; \<open>x\<close> is the state it works on.\<close>

fun script_loop :: "(string \<Rightarrow> 'x \<Rightarrow> 'x) \<Rightarrow> formats \<Rightarrow> dialect \<Rightarrow> 'w dbserver \<Rightarrow> int \<Rightarrow> string list \<Rightarrow> 'w conn \<Rightarrow> 'x
    \<Rightarrow> ScriptResult list \<times> edit_error option \<times> 'w conn \<times> 'x" where
  "script_loop before F d srv limit [] c x = ([], None, c, x)"
| "script_loop before F d srv limit (s # ss) c x = (let x1 = before s x in case Exec F d srv s limit c of
     (Inl e, c1) \<Rightarrow> ([\<lparr>sp_SQL = snippet s, sp_Result = None, sp_Error = True\<rparr>], Some e, c1, x1)
   | (Inr r, c1) \<Rightarrow> (case script_loop before F d srv limit ss c1 x1 of (rs, e, c2, x2) \<Rightarrow>
       (\<lparr>sp_SQL = snippet s, sp_Result = Some r, sp_Error = False\<rparr> # rs, e, c2, x2)))"

definition ExecScript :: "(string \<Rightarrow> 'x \<Rightarrow> 'x) \<Rightarrow> formats \<Rightarrow> dialect \<Rightarrow> 'w dbserver \<Rightarrow> string \<Rightarrow> int \<Rightarrow> 'w conn \<Rightarrow> 'x
    \<Rightarrow> ScriptResult list \<times> script_error option \<times> 'w conn \<times> 'x" where
  "ExecScript before F d srv script limit c x =
    (let stmts = splitStatements script d in
     if stmts = [] then ([], Some NoScript, c, x)
     else if length stmts > editorMaxScriptStatements then ([], Some TooManyStatements, c, x)
     else (case script_loop before F d srv limit stmts c x of (rs, e, c1, x1) \<Rightarrow> (rs, map_option ScriptFailed e, c1, x1)))"

end
