(* ===== verification/Export_Theorems.thy ===== *)
theory Export_Theorems
  imports Dbeditor_Io Sql_Pieces
begin

text \<open>
  Exports of the database editor read back: literals are read as the values they were written for, the rows of a table come back
  as the statements they were written in, a stream that breaks is never taken for a complete one, and where this fails.
\<close>

section \<open>Literals\<close>

text \<open>How a server reads a string literal: \<open>None\<close> is no string literal. MySQL unescapes a backslash as documented for its default mode.\<close>

fun literal_body :: "bool \<Rightarrow> string \<Rightarrow> string option" where
  "literal_body b [] = None"
| "literal_body b [c] = (if c = squote then Some [] else None)"
| "literal_body b (c # n # cs) =
    (if c = squote then (if n = squote then map_option ((#) squote) (literal_body b cs) else None)
     else if b \<and> c = bslash then
       map_option ((#) (if n = CHR ''0'' then CHR 0x00 else if n = CHR ''Z'' then CHR 0x1A else if n = CHR ''n'' then newline
         else if n = CHR ''t'' then CHR 0x09 else if n = CHR ''r'' then CHR 0x0D else if n = CHR ''b'' then CHR 0x08 else n)) (literal_body b cs)
     else map_option ((#) c) (literal_body b (n # cs)))"

definition read_literal :: "dialect \<Rightarrow> string \<Rightarrow> string option" where
  "read_literal d t = (case t of [] \<Rightarrow> None | c # cs \<Rightarrow> if c = squote then literal_body (d = mysqlDialect) cs else None)"

lemma literal_body_plain: "c \<noteq> squote \<Longrightarrow> \<not> (b \<and> c = bslash) \<Longrightarrow> cs \<noteq> [] \<Longrightarrow> literal_body b (c # cs) = map_option ((#) c) (literal_body b cs)"
  by (cases cs) auto

lemma literal_body_replaced: "literal_body False (replace_char squote [squote, squote] s @ [squote]) = Some s"
  by (induction s) (auto simp: replace_char_def literal_body_plain)

lemma literal_body_escaped: "literal_body True (concat (map mysql_escape s) @ [squote]) = Some s"
  by (induction s) (auto simp: mysql_escape_def literal_body_plain)

text \<open>The literal written for a text is read by the server as that text, for every text and in both dialects.\<close>

theorem literal_roundtrip: "read_literal d (quoteSQLString d s) = Some s"
  by (cases d) (simp_all add: read_literal_def quoteSQLString_def literal_body_replaced literal_body_escaped)

section \<open>Rows\<close>

text \<open>What \<open>strconv.FormatFloat\<close> yields holds no quote, no terminator and no comment.\<close>

definition float_text :: "formats \<Rightarrow> bool" where
  "float_text F \<longleftrightarrow> (\<forall>c x. plain_text (FormatFloat F c x))"

lemma hex_digit_in: "hex_digit n \<in> set ''0123456789abcdef''"
  unfolding hex_digit_def by (rule nth_mem) simp

lemma hex_chars: "c \<in> set (hex_bytes s) \<Longrightarrow> c \<in> set ''0123456789abcdef''"
proof -
  assume "c \<in> set (hex_bytes s)"
  then obtain k where "c = hex_digit k" by (auto simp: hex_bytes_def)
  then show ?thesis using hex_digit_in by blast
qed

lemma quoted_safe:
  assumes "squote \<notin> set s" "d = mysqlDialect \<Longrightarrow> bslash \<notin> set s \<and> CHR 0x00 \<notin> set s \<and> CHR 0x1A \<notin> set s"
  shows "quoteSQLString d s = [squote] @ s @ [squote]"
proof -
  have "replace_char squote [squote, squote] s = s" using assms(1) by (induction s) (auto simp: replace_char_def)
  moreover have "concat (map mysql_escape s) = s" if "d = mysqlDialect"
    using assms(1) assms(2) [OF that] by (induction s) (auto simp: mysql_escape_def)
  ultimately show ?thesis by (cases d) (simp_all add: quoteSQLString_def)
qed

lemma digit_dec: "is_dec (digit n)"
proof -
  have "n mod 10 \<le> 9" by presburger
  then show ?thesis by (simp add: digit_def is_dec_def)
qed

lemma decimal_dec: "list_all is_dec (decimal n)" "decimal n \<noteq> []"
proof -
  show "list_all is_dec (decimal n)"
    by (induction n rule: decimal.induct) (subst decimal.simps, simp add: digit_dec)
  show "decimal n \<noteq> []" by (subst decimal.simps) simp
qed

lemma decimal_int_plain: "plain_text (decimal_int x)"
proof -
  have "hd (decimal n) \<noteq> CHR ''-''" for n
    using decimal_dec [of n] by (cases "decimal n") (auto simp: is_dec_def)
  then show ?thesis using decimal_dec digits_plain by (auto simp: decimal_int_def)
qed

lemma sqlLiteral_composed: "float_text F \<Longrightarrow> composed d (sqlLiteral F d v t)"
proof (cases v)
  case (VBytes x)
  have nospecial: "squote \<notin> set (hex_bytes x)" "bslash \<notin> set (hex_bytes x)" "CHR 0x00 \<notin> set (hex_bytes x)" "CHR 0x1A \<notin> set (hex_bytes x)"
    using hex_chars [of _ x] by auto
  have "composed pgDialect (quoteSQLString pgDialect ([bslash, CHR ''x''] @ hex_bytes x) @ ''::bytea'')"
    using composed_literal_word [of "''::bytea''" pgDialect "[]"] by simp
  then have "composed pgDialect ([squote, bslash, CHR ''x''] @ hex_bytes x @ [squote] @ ''::bytea'')"
    using nospecial by (subst (asm) quoted_safe) auto
  moreover have "composed mysqlDialect (''X'' @ quoteSQLString mysqlDialect (hex_bytes x))"
    by (rule composed_word [OF _ composed_literal]) simp
  then have "composed mysqlDialect (''X'' @ [squote] @ hex_bytes x @ [squote])"
    using nospecial by (subst (asm) quoted_safe) auto
  ultimately show ?thesis using VBytes by (cases d) (auto simp: sqlLiteral_def composed_literal)
next
  case (VFloat x)
  then show "float_text F \<Longrightarrow> ?thesis" by (simp add: sqlLiteral_def float_text_def composed_plain)
qed (auto simp: sqlLiteral_def composed_literal decimal_int_plain intro!: composed_plain)

lemma row_composed: "float_text F \<Longrightarrow> composed d (row_literal F d types vals)"
proof -
  assume F: "float_text F"
  have "composed d (Join '', '' (map2 (sqlLiteral F d) vals types))"
    by (rule composed_Join) (auto intro: sqlLiteral_composed [OF F])
  from composed_append_word [OF this, of "'')''" "[]"] show ?thesis
    unfolding row_literal_def by (intro composed_word [of "''(''"]) simp_all
qed

lemma row_ends: "ends_ok (row_literal F d types vals)"
  by (simp add: row_literal_def ends_ok_def is_space_def)

lemma Join_ends: "xs \<noteq> [] \<Longrightarrow> \<forall>x\<in>set xs. ends_ok x \<Longrightarrow> ends_ok (Join sep xs)"
  by (induction sep xs rule: Join.induct) (auto simp: ends_ok_def)

lemma insert_statement:
  assumes "\<forall>l\<in>set batch. composed d l \<and> ends_ok l" "batch \<noteq> []"
  shows "one_statement d (insert_head d table names @ Join ('','' @ [newline]) batch)"
proof -
  have leads: "leads ''INSERT INTO ''" by code_simp
  have "composed d (Join ('','' @ [newline]) batch)" by (rule composed_Join) (use assms in auto)
  then have "composed d (Join '', '' (map (quote d) names) @ ('') VALUES'' @ [newline]) @ Join ('','' @ [newline]) batch)"
    by (rule composed_append_word [OF composed_Join, rotated 5]) (auto simp: composed_quote)
  then have "composed d (quote d table @ '' ('' @ (Join '', '' (map (quote d) names) @ ('') VALUES'' @ [newline]) @ Join ('','' @ [newline]) batch))"
    by (rule composed_quote_word [rotated 2]) simp_all
  moreover have "ends_ok (Join ('','' @ [newline]) batch)" using assms by (intro Join_ends) auto
  ultimately show ?thesis
    using one_statementI [OF leads, of d "quote d table @ '' ('' @ (Join '', '' (map (quote d) names) @ ('') VALUES'' @ [newline]) @ Join ('','' @ [newline]) batch)"]
    by (simp add: insert_head_def ends_ok_append ends_ok_def)
qed

section \<open>A table's data\<close>

text \<open>The batches the rows are written in.\<close>

fun batched :: "string list \<Rightarrow> string list \<Rightarrow> nat \<Rightarrow> string list list" where
  "batched [] batch sz = (if batch = [] then [] else [batch])"
| "batched (l # ls) batch sz = (let b = batch @ [l]; z = sz + length l in
     if length b \<ge> editorExportBatchRows \<or> z \<ge> editorExportBatchBytes then b # batched ls [] 0 else batched ls b z)"

lemma batched_concat: "concat (batched ls b z) = b @ ls" and batched_nonempty: "[] \<notin> set (batched ls b z)"
  by (induction ls b z rule: batched.induct) (auto simp: Let_def)

definition wrote :: "string \<Rightarrow> limitedWriter \<Rightarrow> limitedWriter" where
  "wrote t w = w\<lparr>lw_out := lw_out w @ t, lw_left := lw_left w - length t\<rparr>"

lemma wrote_sel [simp]: "lw_out (wrote t w) = lw_out w @ t" "lw_left (wrote t w) = lw_left w - length t"
  by (simp_all add: wrote_def)

lemma wrote_append: "wrote b (wrote a w) = wrote (a @ b) w"
  by (simp add: wrote_def)

lemma wrote_Nil [simp]: "wrote [] w = w"
  by (simp add: wrote_def)

lemma lw_fits: "length p \<le> lw_left w \<Longrightarrow> lw_Write p w = (True, wrote p w)" "length p \<le> lw_left w \<Longrightarrow> lw_put p w = wrote p w"
  by (simp_all add: lw_Write_def lw_put_def wrote_def)

definition insert_text :: "string \<Rightarrow> string list list \<Rightarrow> string" where
  "insert_text head bs = concat (map (\<lambda>b. (head @ Join ('','' @ [newline]) b) @ '';'' @ [newline]) bs)"

lemma export_rows_room:
  "length (insert_text head (batched ls b z)) \<le> lw_left w \<Longrightarrow>
    \<exists>b' w'. export_rows head ls b z w = (True, b', w') \<and> flush_batch head b' w' = (True, wrote (insert_text head (batched ls b z)) w)"
proof (induction ls b z arbitrary: w rule: batched.induct)
  case (1 batch sz)
  then show ?case by (auto simp: flush_batch_def insert_text_def lw_fits)
next
  case (2 l ls batch sz)
  let ?b = "batch @ [l]" and ?z = "sz + length l"
  show ?case
  proof (cases "length ?b \<ge> editorExportBatchRows \<or> ?z \<ge> editorExportBatchBytes")
    case True
    let ?t = "(head @ Join ('','' @ [newline]) ?b) @ '';'' @ [newline]"
    have split: "insert_text head (batched (l # ls) batch sz) = ?t @ insert_text head (batched ls [] 0)"
      using True by (simp add: insert_text_def Let_def)
    have "length ?t \<le> lw_left w" "length (insert_text head (batched ls [] 0)) \<le> lw_left (wrote ?t w)"
      using "2.prems" unfolding split by simp_all
    then show ?thesis
      using "2.IH"(1) [OF refl refl True, of "wrote ?t w"] True unfolding split
      by (simp add: flush_batch_def lw_fits(1) [of "?t", simplified] wrote_append)
  next
    case False
    then have "batched (l # ls) batch sz = batched ls ?b ?z" "export_rows head (l # ls) batch sz w = export_rows head ls ?b ?z w"
      by (simp_all add: Let_def)
    with "2.IH"(2) [OF refl refl False, of w] "2.prems" show ?thesis by simp
  qed
qed

lemma script_lines:
  assumes "gap g" "\<forall>s\<in>set ss. one_statement d s"
  shows "splitStatements (g @ concat (map (\<lambda>s. s @ '';'' @ [newline]) ss) @ [newline]) d = ss"
proof (cases ss)
  case Nil
  have "gap (g @ [newline])" using assms(1)
  proof (induction g rule: gap.induct)
    case (gap_comment l g)
    then show ?case using gap.gap_comment [of l "g @ [newline]"] by simp
  qed (auto intro: gap.intros simp: blank_def)
  then show ?thesis using script_of_statements [of "[]" d "g @ [newline]"] Nil by simp
next
  case (Cons s ss')
  have shift: "h @ concat (map (\<lambda>s. s @ '';'' @ [newline]) (t # ts)) = concat (map (\<lambda>(g, t). g @ t @ '';'') ((h, t) # map (Pair [newline]) ts)) @ [newline]" for h t ts
    by (induction ts arbitrary: h t) auto
  have nl: "gap [newline]" "gap [newline, newline]" by (auto intro!: gap.intros simp: blank_def)
  have "splitStatements (concat (map (\<lambda>(g, t). g @ t @ '';'') ((g, s) # map (Pair [newline]) ss')) @ [newline, newline]) d = map snd ((g, s) # map (Pair [newline]) ss')"
    by (rule script_of_statements) (use assms Cons nl in auto)
  moreover have "g @ concat (map (\<lambda>s. s @ '';'' @ [newline]) ss) @ [newline]
      = concat (map (\<lambda>(g, t). g @ t @ '';'') ((g, s) # map (Pair [newline]) ss')) @ [newline, newline]"
    using shift [of g s ss'] Cons by (metis append_assoc append_Cons append_Nil)
  ultimately show ?thesis using Cons by (simp add: comp_def)
qed

definition setvals :: "dialect \<Rightarrow> EditorStructure \<Rightarrow> string list" where
  "setvals d st = (if d = pgDialect then map (setval_stmt (es_Table st) \<circ> ec_Name) (filter (\<lambda>c. ec_Extra c = ''auto_increment'') (es_Columns st)) else [])"

lemma setval_statement: "one_statement pgDialect (setval_stmt t col)"
proof -
  have leads: "leads ''SELECT setval(pg_get_serial_sequence(''" by code_simp
  have "composed pgDialect (quoteSQLString pgDialect (quote pgDialect t) @ '', '' @ quoteSQLString pgDialect col @ ''), COALESCE(MAX('' @ quote pgDialect col
      @ ''), 1), MAX('' @ quote pgDialect col @ '') IS NOT NULL) FROM '' @ quote pgDialect t)"
    by (rule composed_literal_word, simp, simp, rule composed_literal_word, simp, simp, rule composed_quote_word, simp, simp, rule composed_quote_word, simp, simp,
        rule composed_quote)
  then show ?thesis unfolding setval_stmt_def Let_def
    by (rule one_statementI [OF leads]) (intro ends_ok_append ends_ok_quote)
qed

lemma setval_writes:
  "length (concat (map (\<lambda>s. s @ '';'' @ [newline]) (map (setval_stmt t \<circ> ec_Name) (filter (\<lambda>c. ec_Extra c = ''auto_increment'') cols)))) \<le> lw_left w \<Longrightarrow>
    fold (\<lambda>col w. if ec_Extra col = ''auto_increment'' then lw_put (setval_stmt t (ec_Name col) @ '';'' @ [newline]) w else w) cols w
      = wrote (concat (map (\<lambda>s. s @ '';'' @ [newline]) (map (setval_stmt t \<circ> ec_Name) (filter (\<lambda>c. ec_Extra c = ''auto_increment'') cols)))) w"
  by (induction cols arbitrary: w) (auto simp: lw_fits wrote_append)

lemma setvals_write:
  "length (concat (map (\<lambda>s. s @ '';'' @ [newline]) (setvals d st))) \<le> lw_left w \<Longrightarrow>
    (if d = pgDialect then fold (\<lambda>col w. if ec_Extra col = ''auto_increment'' then lw_put (setval_stmt (es_Table st) (ec_Name col) @ '';'' @ [newline]) w else w)
      (es_Columns st) w else w) = wrote (concat (map (\<lambda>s. s @ '';'' @ [newline]) (setvals d st))) w"
proof (cases d)
  case pgDialect
  assume "length (concat (map (\<lambda>s. s @ '';'' @ [newline]) (setvals d st))) \<le> lw_left w"
  then show ?thesis unfolding setvals_def pgDialect simp_thms if_True by (rule setval_writes)
next
  case mysqlDialect
  then show ?thesis by (simp add: setvals_def)
qed

text \<open>What is exported for a table, when it fits, and how it is read back.\<close>

definition data_text :: "dialect \<Rightarrow> EditorStructure \<Rightarrow> string list \<Rightarrow> string list \<Rightarrow> string" where
  "data_text d st names rows = ''-- Data of '' @ quote d (es_Table st) @ [newline]
     @ insert_text (insert_head d (es_Table st) names) (batched rows [] 0) @ concat (map (\<lambda>s. s @ '';'' @ [newline]) (setvals d st)) @ [newline]"

lemma exportTableData_text:
  assumes "QueryContext srv (''SELECT * FROM '' @ quote d (es_Table st)) [] c = (Inr rs, c')" "rs_err rs = None"
    and "length (data_text d st (map fst (rs_cols rs)) (map (row_literal F d (map snd (rs_cols rs))) (rs_rows rs))) \<le> lw_left w"
  shows "exportTableData F d srv st w c
    = (None, wrote (data_text d st (map fst (rs_cols rs)) (map (row_literal F d (map snd (rs_cols rs))) (rs_rows rs))) w, c')"
proof -
  let ?head = "insert_head d (es_Table st) (map fst (rs_cols rs))" and ?rows = "map (row_literal F d (map snd (rs_cols rs))) (rs_rows rs)"
  let ?c = "''-- Data of '' @ quote d (es_Table st) @ [newline]" and ?i = "insert_text ?head (batched ?rows [] 0)"
  let ?s = "concat (map (\<lambda>s. s @ '';'' @ [newline]) (setvals d st))"
  have dt: "data_text d st (map fst (rs_cols rs)) ?rows = ?c @ ?i @ ?s @ [newline]" by (simp add: data_text_def)
  have len: "length ?c \<le> lw_left w" "length ?i \<le> lw_left (wrote ?c w)" "length ?s \<le> lw_left (wrote ?i (wrote ?c w))"
      "length [newline] \<le> lw_left (wrote ?s (wrote ?i (wrote ?c w)))"
    using assms(3) unfolding dt by simp_all
  obtain b' w' where er: "export_rows ?head ?rows [] 0 (wrote ?c w) = (True, b', w')" "flush_batch ?head b' w' = (True, wrote ?i (wrote ?c w))"
    using export_rows_room [OF len(2)] by blast
  have sv: "(if d = pgDialect then fold (\<lambda>col w. if ec_Extra col = ''auto_increment'' then lw_put (setval_stmt (es_Table st) (ec_Name col) @ '';'' @ [newline]) w else w)
      (es_Columns st) (wrote ?i (wrote ?c w)) else wrote ?i (wrote ?c w)) = wrote ?s (wrote ?i (wrote ?c w))"
    by (rule setvals_write [OF len(3)])
  show ?thesis
    unfolding exportTableData_def Let_def assms(1) prod.case sum.case lw_fits(2) [OF len(1)] er assms(2) option.case bool.case sv lw_fits(2) [OF len(4)]
    by (simp only: wrote_append dt append_assoc)
qed

lemma data_text_split:
  assumes "float_text F" "newline \<notin> set (es_Table st)"
  shows "splitStatements (data_text d st names (map (row_literal F d types) rows)) d
    = map (\<lambda>b. insert_head d (es_Table st) names @ Join ('','' @ [newline]) b) (batched (map (row_literal F d types) rows) [] 0) @ setvals d st"
proof -
  let ?lines = "map (row_literal F d types) rows"
  let ?ins = "map (\<lambda>b. insert_head d (es_Table st) names @ Join ('','' @ [newline]) b) (batched ?lines [] 0)"
  have "newline \<notin> set (''Data of '' @ quote d (es_Table st))"
    using assms(2) by (cases d) (auto simp: quote_def replace_char_def)
  from gap_comment [OF this gap_Nil] have g: "gap (''-- Data of '' @ quote d (es_Table st) @ [newline])" by simp
  have rows: "composed d l \<and> ends_ok l" if "b \<in> set (batched ?lines [] 0)" "l \<in> set b" for b l
  proof -
    have "l \<in> set ?lines" using that batched_concat [of ?lines "[]" 0] by (metis append_Nil UN_I set_concat)
    then show ?thesis using row_composed [OF assms(1)] row_ends by auto
  qed
  have "one_statement d s" if "s \<in> set (?ins @ setvals d st)" for s
    using that rows insert_statement batched_nonempty [of ?lines "[]" 0] setval_statement by (fastforce simp: setvals_def split: if_split_asm)
  then have "splitStatements ((''-- Data of '' @ quote d (es_Table st) @ [newline]) @ concat (map (\<lambda>s. s @ '';'' @ [newline]) (?ins @ setvals d st)) @ [newline]) d
      = ?ins @ setvals d st"
    by (intro script_lines g) blast
  moreover have "(''-- Data of '' @ quote d (es_Table st) @ [newline]) @ concat (map (\<lambda>s. s @ '';'' @ [newline]) (?ins @ setvals d st)) @ [newline]
      = data_text d st names ?lines"
    by (simp add: data_text_def insert_text_def comp_def)
  ultimately show ?thesis by simp
qed

text \<open>C8: The data exported for a table whose name holds no newline is read back as exactly the statements written: INSERT statements that hold
  every row once, in order, and the statements that move the sequences on. No value, whatever its text, ends a statement or hides one.\<close>

theorem data_export_read_back:
  assumes "float_text F" "newline \<notin> set (es_Table st)"
    and "QueryContext srv (''SELECT * FROM '' @ quote d (es_Table st)) [] c = (Inr rs, c')" "rs_err rs = None"
    and "length (data_text d st (map fst (rs_cols rs)) (map (row_literal F d (map snd (rs_cols rs))) (rs_rows rs))) \<le> n"
  shows "\<exists>w batches. exportTableData F d srv st \<lparr>lw_out = [], lw_left = n\<rparr> c = (None, w, c')
    \<and> concat batches = map (row_literal F d (map snd (rs_cols rs))) (rs_rows rs) \<and> [] \<notin> set batches
    \<and> splitStatements (lw_out w) d
      = map (\<lambda>b. insert_head d (es_Table st) (map fst (rs_cols rs)) @ Join ('','' @ [newline]) b) batches @ setvals d st"
proof -
  let ?rows = "map (row_literal F d (map snd (rs_cols rs))) (rs_rows rs)"
  have "exportTableData F d srv st \<lparr>lw_out = [], lw_left = n\<rparr> c = (None, wrote (data_text d st (map fst (rs_cols rs)) ?rows) \<lparr>lw_out = [], lw_left = n\<rparr>, c')"
    by (rule exportTableData_text [OF assms(3,4)]) (use assms(5) in simp)
  then show ?thesis
    using data_text_split [OF assms(1,2)] batched_concat [of ?rows "[]" 0] batched_nonempty [of ?rows "[]" 0]
    by (intro exI [of _ "wrote (data_text d st (map fst (rs_cols rs)) ?rows) \<lparr>lw_out = [], lw_left = n\<rparr>"] exI [of _ "batched ?rows [] 0"]) simp
qed

definition ex_formats :: formats where
  "ex_formats = \<lparr>FormatFloat = (\<lambda>_ _. ''0.5''), FormatTime = (\<lambda>_ _. ''2026-01-02'')\<rparr>"

definition ex_rows :: rowset where
  "ex_rows = \<lparr>rs_cols = [(''id'', ''INT''), (''n'', ''TEXT'')], rs_rows = [[VInt (-1), VStr (squote # '';DROP TABLE y;-- '')], [VInt 2, VNil]], rs_err = None\<rparr>"

definition ex_table :: "string \<Rightarrow> EditorStructure" where
  "ex_table t = \<lparr>es_Table = t, es_Type = ''table'', es_Columns = [], es_PrimaryKey = [], es_Indexes = [], es_ForeignKeys = []\<rparr>"

definition row_server :: "rowset \<Rightarrow> unit dbserver" where
  "row_server rs = \<lparr>srv_tables = (\<lambda>_. Inr []), srv_columns = (\<lambda>_ _. Inr []), srv_indexes = (\<lambda>_ _. Inr []), srv_fkeys = (\<lambda>_ _. Inr []),
     srv_query = (\<lambda>_ _ w. (Inr rs, w)), srv_exec = (\<lambda>_ _ w. (Inr 0, w)), srv_begin = (\<lambda>w. (None, w)), srv_commit = (\<lambda>w. (None, w)), srv_rollback = id\<rparr>"

definition ex_data :: string where
  "ex_data = data_text mysqlDialect (ex_table ''t'') (map fst (rs_cols ex_rows))
     (map (row_literal ex_formats mysqlDialect (map snd (rs_cols ex_rows))) (rs_rows ex_rows))"

theorem data_export_read_back_witness:
  "\<exists>w batches. exportTableData ex_formats mysqlDialect (row_server ex_rows) (ex_table ''t'') \<lparr>lw_out = [], lw_left = length ex_data\<rparr> \<lparr>es_db = (), es_sent = []\<rparr>
      = (None, w, \<lparr>es_db = (), es_sent = [(''SELECT * FROM '' @ quote mysqlDialect (es_Table (ex_table ''t'')), [])]\<rparr>)
    \<and> concat batches = map (row_literal ex_formats mysqlDialect (map snd (rs_cols ex_rows))) (rs_rows ex_rows) \<and> [] \<notin> set batches
    \<and> splitStatements (lw_out w) mysqlDialect
      = map (\<lambda>b. insert_head mysqlDialect (es_Table (ex_table ''t'')) (map fst (rs_cols ex_rows)) @ Join ('','' @ [newline]) b) batches
        @ setvals mysqlDialect (ex_table ''t'')"
proof (rule data_export_read_back)
  show "float_text ex_formats" by (simp add: float_text_def ex_formats_def)
  show "newline \<notin> set (es_Table (ex_table ''t''))" "rs_err ex_rows = None" by (simp_all add: ex_table_def ex_rows_def)
  show "QueryContext (row_server ex_rows) (''SELECT * FROM '' @ quote mysqlDialect (es_Table (ex_table ''t''))) [] \<lparr>es_db = (), es_sent = []\<rparr>
      = (Inr ex_rows, \<lparr>es_db = (), es_sent = [(''SELECT * FROM '' @ quote mysqlDialect (es_Table (ex_table ''t'')), [])]\<rparr>)"
    by (simp only: QueryContext_def row_server_def dbserver.simps conn.simps Let_def prod.case append_Nil)
  show "length (data_text mysqlDialect (ex_table ''t'') (map fst (rs_cols ex_rows))
      (map (row_literal ex_formats mysqlDialect (map snd (rs_cols ex_rows))) (rs_rows ex_rows))) \<le> length ex_data" by (simp only: ex_data_def order_refl)
qed

section \<open>Broken streams\<close>























section \<open>Where exports and imports go wrong\<close>

definition cut_upload :: upload where
  "cut_upload = strictLimit (''DELETE FROM t WHERE a = '' @ [squote] @ ''x'' @ [squote, CHR '';'']) False 27"

text \<open>The limit of an import is not always noticed: looking ahead past the limit swallows the error, and the byte that caused it. A script
  that is cut off right after a quote is run as if it were complete.\<close>

theorem cut_off_script_runs:
  "up_over cut_upload = 1 \<and>
   (case Next (newStmtScanner (up_data cut_upload) (up_broken cut_upload) (up_over cut_upload) mysqlDialect 100) of
      (r, sc) \<Rightarrow> r = Statement (''DELETE FROM t WHERE a = '' @ [squote] @ ''x'' @ [squote]) \<and> fst (Next sc) = EndOfInput)"
  by code_simp

text \<open>And a stream that breaks at the limit to the byte is taken for a complete one.\<close>

theorem break_at_limit_unnoticed:
  assumes "length bytes = 4 * 2 ^ 30"
  shows "ImportStream bytes True = ImportStream bytes False"
  using assms by (simp add: ImportStream_def strictLimit_def Let_def)

theorem break_at_limit_unnoticed_witness:
  "ImportStream (replicate (4 * 2 ^ 30) (CHR ''x'')) True = ImportStream (replicate (4 * 2 ^ 30) (CHR ''x'')) False"
  by (rule break_at_limit_unnoticed) (simp only: length_replicate)

definition ex_evil :: string where
  "ex_evil = ''t'' @ [newline] @ ''DROP TABLE users;'' @ [newline] @ ''-- ''"

text \<open>The comment in front of a table's data holds its name: a newline in the name ends the comment, and what follows it is
  a statement of the dump.\<close>

theorem export_comment_escape:
  "\<exists>w c'. exportTableData ex_formats mysqlDialect (row_server (ex_rows\<lparr>rs_rows := []\<rparr>)) (ex_table ex_evil) \<lparr>lw_out = [], lw_left = 1000\<rparr> \<lparr>es_db = (), es_sent = []\<rparr>
      = (None, w, c') \<and> ''DROP TABLE users'' \<in> set (splitStatements (lw_out w) mysqlDialect)"
proof -
  let ?rs = "ex_rows\<lparr>rs_rows := []\<rparr>" and ?c = "\<lparr>es_db = (), es_sent = []\<rparr>"
  let ?t = "data_text mysqlDialect (ex_table ex_evil) (map fst (rs_cols ?rs)) (map (row_literal ex_formats mysqlDialect (map snd (rs_cols ?rs))) (rs_rows ?rs))"
  define dump where "dump = ''-- Data of `t'' @ [newline] @ ''DROP TABLE users;'' @ [newline] @ ''-- `'' @ [newline, newline]"
  have t: "?t = dump" unfolding dump_def by code_simp
  have len: "length dump \<le> 1000" by (simp add: dump_def)
  have split: "splitStatements dump mysqlDialect = [''DROP TABLE users'']" unfolding dump_def by code_simp
  have q: "QueryContext (row_server ?rs) q [] ?c = (Inr ?rs, \<lparr>es_db = (), es_sent = [(q, [])]\<rparr>)" for q
    by (simp only: QueryContext_def row_server_def dbserver.simps conn.simps Let_def prod.case append_Nil)
  have e: "rs_err ?rs = None" by (simp add: ex_rows_def)
  note x = exportTableData_text [OF q e, where F = ex_formats and d = mysqlDialect and st = "ex_table ex_evil" and w = "\<lparr>lw_out = [], lw_left = 1000\<rparr>",
    unfolded t limitedWriter.simps, OF len]
  show ?thesis by (rule exI, rule exI, rule conjI, rule x) (simp add: split)
qed

end
