(* ===== verification/Csv_Laws.thy ===== *)
theory Csv_Laws
  imports Csv
begin

text \<open>
  Reading back what the CSV writer wrote: every record whose fields hold no carriage return before a newline comes back as it was,
  except a record of one empty field, which is written as an empty line and skipped.
\<close>

fun crlf_free :: "string \<Rightarrow> bool" where
  "crlf_free (c # d # cs) = (\<not> (c = cr \<and> d = newline) \<and> crlf_free (d # cs))"
| "crlf_free cs = True"

lemma crlf_free_tl: "crlf_free (c # cs) \<Longrightarrow> crlf_free cs"
  by (cases cs) auto

lemma crlf_free_Cons: "crlf_free b \<Longrightarrow> b = [] \<or> c \<noteq> cr \<or> hd b \<noteq> newline \<Longrightarrow> crlf_free (c # b)"
  by (cases b) auto

lemma crlf_free_append: "crlf_free a \<Longrightarrow> crlf_free b \<Longrightarrow> a = [] \<or> b = [] \<or> last a \<noteq> cr \<or> hd b \<noteq> newline \<Longrightarrow> crlf_free (a @ b)"
  by (induction a rule: crlf_free.induct) (auto intro: crlf_free_Cons)

lemma crlf_free_no_cr: "cr \<notin> set s \<Longrightarrow> crlf_free s"
  by (induction s rule: crlf_free.induct) auto

lemma crlf_free_suffix: "crlf_free (a @ b) \<Longrightarrow> crlf_free b"
  by (induction a) (auto dest: crlf_free_tl)

lemma crlf_free_prefix: "crlf_free (a @ b) \<Longrightarrow> crlf_free a"
  by (induction a rule: crlf_free.induct) auto

lemma read_slice_app: "newline \<notin> set a \<Longrightarrow> read_slice (a @ b) = (a @ fst (read_slice b), snd (read_slice b))"
  by (induction a) (auto split: prod.split)

lemma read_slice_last: "s \<noteq> [] \<Longrightarrow> last s = newline \<Longrightarrow> fst (read_slice s) \<noteq> [] \<and> last (fst (read_slice s)) = newline"
  by (induction s) (auto split: prod.split if_splits)

lemma drop_cr_id: "crlf_free l \<Longrightarrow> drop_cr l = l"
proof (cases "length l \<ge> 2")
  case True
  then have "drop (length l - 2) l = [l ! (length l - 2), last l]"
    by (cases l rule: rev_cases; cases "butlast l" rule: rev_cases) (auto simp: nth_append)
  then obtain x a b where l: "l = x @ [a, b]" by (metis append_take_drop_id)
  assume "crlf_free l"
  then have "\<not> (a = cr \<and> b = newline)" using l crlf_free_suffix [of x "[a, b]"] by simp
  then show ?thesis using l by (auto simp: drop_cr_def nth_append)
qed (simp add: drop_cr_def)

lemma readLine_id:
  assumes "s \<noteq> []" "last s = newline" "crlf_free s"
  shows "readLine False s = (fst (read_slice s), snd (read_slice s), LineOK)"
proof -
  obtain l r where lr: "read_slice s = (l, r)" by force
  then have "s = l @ r" using read_slice_append by metis
  then have "crlf_free l" using assms(3) crlf_free_prefix by blast
  then show ?thesis using read_slice_last [OF assms(1,2)] lr by (simp add: readLine_def drop_cr_id)
qed

section \<open>Fields\<close>

definition delimiter :: "char \<Rightarrow> bool" where
  "delimiter comma \<longleftrightarrow> comma \<noteq> dq \<and> comma \<noteq> newline \<and> comma \<noteq> cr"

text \<open>The text behind a field: the delimiter and more text, or the end of the record.\<close>

definition field_end :: "char \<Rightarrow> string \<Rightarrow> string option \<times> string" where
  "field_end comma t = (if hd t = comma then (Some (fst (read_slice (tl t))), snd (read_slice (tl t))) else (None, tl t))"

lemma quoted_field_escaped:
  "delimiter comma \<Longrightarrow> t \<noteq> [] \<Longrightarrow> hd t = comma \<or> hd t = newline \<Longrightarrow> last t = newline \<Longrightarrow> crlf_free (csv_escape f @ dq # t) \<Longrightarrow>
    quoted_field comma False acc (fst (read_slice (csv_escape f @ dq # t))) (snd (read_slice (csv_escape f @ dq # t))) LineOK
      = (acc @ f, fst (field_end comma t), snd (field_end comma t), LineOK)"
proof (induction f arbitrary: acc)
  case Nil
  then obtain x t' where t: "t = x # t'" by (cases t) auto
  show ?case using Nil t
    by (subst quoted_field.simps) (auto simp: csv_escape_def field_end_def delimiter_def lengthNL_def split: prod.split)
next
  case (Cons c f)
  let ?w = "csv_escape f @ dq # t"
  have w: "?w \<noteq> []" "last ?w = newline" using Cons.prems by simp_all
  note last_line = read_slice_last [OF w]
  have IH: "quoted_field comma False acc' (fst (read_slice ?w)) (snd (read_slice ?w)) LineOK = (acc' @ f, fst (field_end comma t), snd (field_end comma t), LineOK)"
    if "crlf_free ?w" for acc'
    using Cons.IH Cons.prems that by blast
  consider "c = dq" | "c = newline" | "c \<noteq> dq" "c \<noteq> newline" by blast
  then show ?case
  proof cases
    case 1
    then have v: "csv_escape (c # f) @ dq # t = dq # dq # ?w" by (simp add: csv_escape_def)
    have "crlf_free ?w" using Cons.prems(5) unfolding v by (blast dest: crlf_free_tl)
    moreover obtain l r where "read_slice ?w = (l, r)" by force
    ultimately show ?thesis using IH [of "acc @ [dq]"] 1 unfolding v
      by (subst quoted_field.simps) simp
  next
    case 2
    then have v: "csv_escape (c # f) @ dq # t = newline # ?w" by (simp add: csv_escape_def)
    have cf: "crlf_free ?w" using Cons.prems(5) unfolding v by (blast dest: crlf_free_tl)
    have "quoted_field comma False acc [newline] ?w LineOK = quoted_field comma False (acc @ [newline]) (fst (read_slice ?w)) (snd (read_slice ?w)) LineOK"
      using readLine_id [OF w cf] by (subst quoted_field.simps) simp
    with IH [OF cf, of "acc @ [newline]"] 2 show ?thesis unfolding v by simp
  next
    case 3
    then have v: "csv_escape (c # f) @ dq # t = c # ?w" by (simp add: csv_escape_def)
    have cf: "crlf_free ?w" using Cons.prems(5) unfolding v by (blast dest: crlf_free_tl)
    have "quoted_field comma False acc (c # fst (read_slice ?w)) (snd (read_slice ?w)) LineOK
        = quoted_field comma False (acc @ [c]) (fst (read_slice ?w)) (snd (read_slice ?w)) LineOK"
      using 3 last_line by (subst quoted_field.simps) simp
    moreover obtain l r where "read_slice ?w = (l, r)" by force
    ultimately show ?thesis using IH [OF cf, of "acc @ [c]"] 3 unfolding v by simp
  qed
qed

section \<open>Records\<close>

text \<open>The text of a record in front of the rest of the file.\<close>

definition record_text :: "char \<Rightarrow> string list \<Rightarrow> string \<Rightarrow> string" where
  "record_text comma fs t = Join [comma] (map (csv_field comma) fs) @ newline # t"

lemma record_text_simps [simp]:
  "record_text comma [f] t = csv_field comma f @ newline # t"
  "record_text comma (f # g # fs) t = csv_field comma f @ comma # record_text comma (g # fs) t"
  by (simp_all add: record_text_def)

lemma csv_Write_text: "csv_Write comma fs @ t = record_text comma fs t"
  by (simp add: csv_Write_def record_text_def)

definition file_tail :: "string \<Rightarrow> bool" where
  "file_tail t \<longleftrightarrow> crlf_free t \<and> (t = [] \<or> last t = newline)"

lemma crlf_free_cons: "crlf_free t \<Longrightarrow> c \<noteq> cr \<Longrightarrow> crlf_free (c # t)"
  by (cases t) auto

lemma crlf_free_escape: "crlf_free f \<Longrightarrow> crlf_free (csv_escape f)"
proof (induction f rule: crlf_free.induct)
  case (1 c d cs)
  then show ?case
    by (cases "d = dq") (auto simp: csv_escape_def intro: crlf_free_cons)
qed (auto simp: csv_escape_def)

lemma crlf_free_quoted: "crlf_free f \<Longrightarrow> crlf_free t \<Longrightarrow> crlf_free (csv_escape f @ dq # t)"
  by (intro crlf_free_append crlf_free_escape crlf_free_cons) auto

lemma crlf_free_field: "crlf_free f \<Longrightarrow> crlf_free (c # t) \<Longrightarrow> crlf_free (csv_field comma f @ c # t)"
proof (cases "fieldNeedsQuotes comma f")
  case True
  assume "crlf_free f" "crlf_free (c # t)"
  then have "crlf_free (csv_escape f @ dq # c # t)" by (rule crlf_free_quoted)
  then show ?thesis using True by (simp add: csv_field_def crlf_free_cons)
next
  case False
  assume a: "crlf_free f" "crlf_free (c # t)"
  have "cr \<notin> set f" using False by (auto simp: fieldNeedsQuotes_def)
  then have "f = [] \<or> last f \<noteq> cr" using last_in_set by metis
  then show ?thesis using False a by (auto simp: csv_field_def intro!: crlf_free_append)
qed

lemma record_text_free: "delimiter comma \<Longrightarrow> fs \<noteq> [] \<Longrightarrow> list_all crlf_free fs \<Longrightarrow> file_tail t \<Longrightarrow> crlf_free (record_text comma fs t)"
proof (induction fs rule: induct_list012)
  case (2 f)
  then show ?case by (auto simp: file_tail_def intro!: crlf_free_field crlf_free_cons)
next
  case (3 f g fs)
  then show ?case by (auto simp: delimiter_def intro!: crlf_free_field crlf_free_cons)
qed simp

lemma record_text_last: "file_tail t \<Longrightarrow> record_text comma fs t \<noteq> [] \<and> last (record_text comma fs t) = newline"
  by (auto simp: record_text_def file_tail_def)

lemma Cut_found: "c \<notin> set a \<Longrightarrow> Cut c (a @ c # b) = Some (a, b)"
proof -
  assume "c \<notin> set a"
  then have "\<And>x. x \<in> set a \<Longrightarrow> x \<noteq> c" by metis
  then show ?thesis by (simp add: Cut_def takeWhile_append2 dropWhile_append2)
qed

lemma Cut_missing: "c \<notin> set a \<Longrightarrow> Cut c a = None"
proof -
  assume "c \<notin> set a"
  then have "dropWhile (\<lambda>x. x \<noteq> c) a = []" unfolding dropWhile_eq_Nil_conv by metis
  then show ?thesis unfolding Cut_def by (simp only: list.case)
qed

lemma unquoted_field: "\<not> fieldNeedsQuotes comma f \<Longrightarrow> csv_field comma f = f \<and> newline \<notin> set f \<and> dq \<notin> set f \<and> comma \<notin> set f"
  by (auto simp: csv_field_def fieldNeedsQuotes_def)

lemma parse_fields_record:
  "delimiter comma \<Longrightarrow> fs \<noteq> [] \<Longrightarrow> list_all crlf_free fs \<Longrightarrow> file_tail t \<Longrightarrow>
    parse_fields comma False (fst (read_slice (record_text comma fs t))) (snd (read_slice (record_text comma fs t))) LineOK = (fs, t, LineOK)"
proof (induction fs rule: induct_list012)
  case (2 f)
  show ?case
  proof (cases "fieldNeedsQuotes comma f")
    case True
    have "quoted_field comma False [] (fst (read_slice (csv_escape f @ dq # newline # t))) (snd (read_slice (csv_escape f @ dq # newline # t))) LineOK
        = (f, None, t, LineOK)"
      using quoted_field_escaped [of comma "newline # t" f "[]"] 2 by (auto simp: field_end_def delimiter_def file_tail_def crlf_free_quoted crlf_free_cons)
    moreover obtain l r where "read_slice (csv_escape f @ dq # newline # t) = (l, r)" by force
    ultimately show ?thesis using True by (subst parse_fields.simps) (simp add: csv_field_def)
  next
    case False
    note u = unquoted_field [OF False]
    have "Cut comma (f @ [newline]) = None" using u 2 by (intro Cut_missing) (auto simp: delimiter_def)
    moreover have "hd (f @ [newline]) \<noteq> dq" using u by (cases f) auto
    ultimately show ?thesis using u by (subst parse_fields.simps) (simp add: read_slice_app lengthNL_def)
  qed
next
  case (3 f g fs)
  let ?w = "record_text comma (g # fs) t"
  have IH: "parse_fields comma False (fst (read_slice ?w)) (snd (read_slice ?w)) LineOK = (g # fs, t, LineOK)" using 3 by simp
  have free: "crlf_free ?w" using record_text_free [of comma "g # fs" t] 3 by simp
  show ?case
  proof (cases "fieldNeedsQuotes comma f")
    case True
    have "crlf_free (csv_escape f @ dq # comma # ?w)"
      using 3 free by (auto simp: delimiter_def intro!: crlf_free_quoted crlf_free_cons)
    then have "quoted_field comma False [] (fst (read_slice (csv_escape f @ dq # comma # ?w))) (snd (read_slice (csv_escape f @ dq # comma # ?w))) LineOK
        = (f, Some (fst (read_slice ?w)), snd (read_slice ?w), LineOK)"
      using quoted_field_escaped [of comma "comma # ?w" f "[]"] record_text_last [of t comma "g # fs"] 3 by (simp add: field_end_def)
    moreover obtain l r where "read_slice (csv_escape f @ dq # comma # ?w) = (l, r)" by force
    ultimately show ?thesis using True IH by (subst parse_fields.simps) (simp add: csv_field_def)
  next
    case False
    note u = unquoted_field [OF False]
    have "comma \<noteq> newline" "comma \<noteq> dq" using 3 by (auto simp: delimiter_def)
    then have "read_slice (f @ comma # ?w) = (f @ comma # fst (read_slice ?w), snd (read_slice ?w))"
      using u by (simp add: read_slice_app split: prod.split)
    moreover have "Cut comma (f @ comma # fst (read_slice ?w)) = Some (f, fst (read_slice ?w))" using u by (simp add: Cut_found)
    moreover have "hd (f @ comma # fst (read_slice ?w)) \<noteq> dq" using u \<open>comma \<noteq> dq\<close> by (cases f) auto
    ultimately show ?thesis using u IH by (subst parse_fields.simps) simp
  qed
qed simp

lemma csv_field_hd: "delimiter comma \<Longrightarrow> f \<noteq> [] \<or> c \<noteq> newline \<Longrightarrow> hd (csv_field comma f @ c # t) \<noteq> newline"
  using unquoted_field [of comma f] by (cases "fieldNeedsQuotes comma f"; cases f) (auto simp: csv_field_def)

lemma record_text_hd: "delimiter comma \<Longrightarrow> fs \<noteq> [] \<Longrightarrow> fs \<noteq> [[]] \<Longrightarrow> hd (record_text comma fs t) \<noteq> newline"
proof -
  assume a: "delimiter comma" "fs \<noteq> []" "fs \<noteq> [[]]"
  then obtain f gs where fs: "fs = f # gs" by (cases fs) auto
  have "comma \<noteq> newline" using a(1) by (simp add: delimiter_def)
  then show ?thesis using a fs csv_field_hd [OF a(1), of f] by (cases gs) (simp_all del: hd_append)
qed

text \<open>Reading the first record of a file gives the fields that were written, and leaves the rest of the file.\<close>

lemma csv_Read_written:
  assumes "delimiter comma" "fs \<noteq> []" "fs \<noteq> [[]]" "list_all crlf_free fs" "file_tail t"
  shows "csv_Read comma False (csv_Write comma fs @ t) = (CsvRecord fs, t)"
proof -
  let ?w = "record_text comma fs t"
  obtain l r where lr: "read_slice ?w = (l, r)" by force
  note last = record_text_last [OF assms(5), of comma fs]
  have rl: "readLine False ?w = (l, r, LineOK)"
    using readLine_id [of ?w] last record_text_free [OF assms(1,2,4,5)] lr by simp
  have "l @ r = ?w" "l \<noteq> []" using read_slice_append [OF lr] last by blast+
  then have "hd l \<noteq> newline" using record_text_hd [OF assms(1,2,3), of t] by (metis hd_append2)
  then have "length l \<noteq> lengthNL l" using \<open>l \<noteq> []\<close> by (cases l) (auto simp: lengthNL_def)
  then have "first_line False ?w = (l, r, LineOK)" using rl by (subst first_line.simps) simp
  moreover have "parse_fields comma False l r LineOK = (fs, t, LineOK)"
    using parse_fields_record [OF assms(1,2,4,5)] lr by simp
  ultimately show ?thesis by (simp add: csv_Read_def csv_Write_text)
qed

lemma csv_Read_end [simp]: "csv_Read comma False [] = (CsvEOF, [])"
  by (simp add: csv_Read_def first_line.simps [of False "[]"] readLine_def)

definition csv_text :: "char \<Rightarrow> string list list \<Rightarrow> string" where
  "csv_text comma rows = concat (map (csv_Write comma) rows)"

definition csv_row :: "string list \<Rightarrow> bool" where
  "csv_row fs \<longleftrightarrow> fs \<noteq> [] \<and> fs \<noteq> [[]] \<and> list_all crlf_free fs"

lemma csv_text_tail: "delimiter comma \<Longrightarrow> list_all csv_row rows \<Longrightarrow> file_tail (csv_text comma rows)"
proof (induction rows)
  case (Cons fs rows)
  then have "file_tail (csv_text comma rows)" by simp
  then show ?case
    using record_text_free [of comma fs "csv_text comma rows"] record_text_last [of "csv_text comma rows" comma fs] Cons.prems
    by (simp add: csv_text_def csv_row_def csv_Write_text file_tail_def)
qed (simp add: csv_text_def file_tail_def)

lemma csv_Read_text:
  "delimiter comma \<Longrightarrow> list_all csv_row (fs # rows) \<Longrightarrow> csv_Read comma False (csv_text comma (fs # rows)) = (CsvRecord fs, csv_text comma rows)"
  using csv_Read_written [of comma fs "csv_text comma rows"] csv_text_tail [of comma rows] by (simp add: csv_row_def csv_text_def)

end
