(* ===== verification/Csv_Theorems.thy ===== *)
theory Csv_Theorems
  imports Dbeditor_Io Csv_Laws Schema_Theorems
begin

text \<open>
  A table exported as CSV and imported again: the statements of the import carry exactly the exported values, in order. Three values
  do not survive: a text equal to the token for NULL, a row that is one empty text, and a line break of carriage return and newline.
\<close>

section \<open>The loop over the records\<close>

text \<open>A server that carries out every statement.\<close>

definition accepts :: "'w dbserver \<Rightarrow> bool" where
  "accepts srv \<longleftrightarrow> (\<forall>w. fst (srv_begin srv w) = None \<and> fst (srv_commit srv w) = None \<and> (\<forall>q args. \<exists>n. fst (srv_exec srv q args w) = Inr n))"

abbreviation batch_stmt :: "dialect \<Rightarrow> string \<Rightarrow> string list \<Rightarrow> arg list list \<Rightarrow> string \<times> arg list" where
  "batch_stmt d table cols b \<equiv> (batch_sql d table cols (length b), concat b)"

lemma csv_flush_sent:
  assumes "accepts srv" "b \<noteq> []"
  shows "\<exists>c1. csv_flush d srv table cols b c = (None, c1) \<and> es_sent c1 = es_sent c @ [batch_stmt d table cols b]"
proof -
  obtain n where "fst (srv_exec srv (batch_sql d table cols (length b)) (concat b) (es_db c)) = Inr n"
    using assms(1) unfolding accepts_def by metis
  then show ?thesis using assms(2)
    by (cases "srv_exec srv (batch_sql d table cols (length b)) (concat b) (es_db c)") (simp add: csv_flush_def ExecContext_def)
qed

definition cell_arg :: "string \<Rightarrow> string \<Rightarrow> arg" where
  "cell_arg nullToken x = (if x = nullToken then None else Some x)"

lemma csv_args_row: "length rc = n \<Longrightarrow> csv_args nullToken n rc = map (cell_arg nullToken) rc"
  by (rule nth_equalityI) (auto simp: csv_args_def cell_arg_def)

definition importable :: "nat \<Rightarrow> string list \<Rightarrow> bool" where
  "importable n r \<longleftrightarrow> csv_row r \<and> length r = n \<and> list_all utf8_Valid r"

lemma csv_loop_rows:
  assumes "accepts srv" "delimiter comma"
  shows "list_all (importable (length cols)) rows \<Longrightarrow>
    \<exists>c3 batches. csv_loop d srv table cols opts nt comma False (csv_text comma rows) line batch inserted c = (Inr (inserted + length batch + length rows), c3)
      \<and> concat batches = batch @ map (map (cell_arg nt)) rows \<and> [] \<notin> set batches
      \<and> es_sent c3 = es_sent c @ map (batch_stmt d table cols) batches"
proof (induction rows arbitrary: line batch inserted c)
  case Nil
  have r: "csv_Read comma False (csv_text comma []) = (CsvEOF, [])" by (simp add: csv_text_def)
  show ?case
  proof (cases "batch = []")
    case True
    then show ?thesis using r by (subst csv_loop.simps) (auto simp: csv_flush_def intro!: exI [of _ "[]"])
  next
    case False
    from csv_flush_sent [OF assms(1) False] obtain c1 where
      "csv_flush d srv table cols batch c = (None, c1)" "es_sent c1 = es_sent c @ [batch_stmt d table cols batch]" by blast
    then show ?thesis using r False by (subst csv_loop.simps) (auto intro!: exI [of _ "[batch]"])
  qed
next
  case (Cons rc rows)
  let ?arg = "map (cell_arg nt) rc"
  have rc: "csv_row rc" "length rc = length cols" "list_all utf8_Valid rc" and rows: "list_all (importable (length cols)) rows"
    using Cons.prems importable_def [of "length cols" rc] by simp_all
  have "list_all csv_row rows" using rows by (simp add: importable_def list_all_iff)
  then have r: "csv_Read comma False (csv_text comma (rc # rows)) = (CsvRecord rc, csv_text comma rows)"
    using csv_Read_text [OF assms(2), of rc rows] rc(1) by simp
  have utf: "\<not> list_ex (\<lambda>f. \<not> utf8_Valid f) rc" using rc(3) by (auto simp: list_ex_iff list_all_iff)
  note step = csv_loop.simps [of d srv table cols opts nt comma False "csv_text comma (rc # rows)" line batch inserted c]
  show ?case
  proof (cases "length (batch @ [?arg]) \<ge> perBatch (length cols)")
    case True
    obtain c1 where f: "csv_flush d srv table cols (batch @ [?arg]) c = (None, c1)" "es_sent c1 = es_sent c @ [batch_stmt d table cols (batch @ [?arg])]"
      using csv_flush_sent [OF assms(1), of "batch @ [?arg]" d table cols c] by auto
    have l: "csv_loop d srv table cols opts nt comma False (csv_text comma (rc # rows)) line batch inserted c
        = csv_loop d srv table cols opts nt comma False (csv_text comma rows) (line + 1) [] (inserted + length (batch @ [?arg])) c1"
      unfolding step using r rc(2) utf True f(1) by (simp add: csv_args_row)
    obtain c3 bs where ih: "csv_loop d srv table cols opts nt comma False (csv_text comma rows) (line + 1) [] (inserted + length (batch @ [?arg])) c1
          = (Inr (inserted + length (batch @ [?arg]) + length ([] :: arg list list) + length rows), c3)"
        "concat bs = [] @ map (map (cell_arg nt)) rows" "[] \<notin> set bs" "es_sent c3 = es_sent c1 @ map (batch_stmt d table cols) bs"
      using Cons.IH [OF rows] by blast
    show ?thesis
      by (rule exI [of _ c3], rule exI [of _ "(batch @ [?arg]) # bs"]) (use l ih f(2) in simp)
  next
    case False
    have l: "csv_loop d srv table cols opts nt comma False (csv_text comma (rc # rows)) line batch inserted c
        = csv_loop d srv table cols opts nt comma False (csv_text comma rows) (line + 1) (batch @ [?arg]) inserted c"
      unfolding step using r rc(2) utf False by (simp add: csv_args_row)
    obtain c3 bs where ih: "csv_loop d srv table cols opts nt comma False (csv_text comma rows) (line + 1) (batch @ [?arg]) inserted c
          = (Inr (inserted + length (batch @ [?arg]) + length rows), c3)"
        "concat bs = (batch @ [?arg]) @ map (map (cell_arg nt)) rows" "[] \<notin> set bs" "es_sent c3 = es_sent c @ map (batch_stmt d table cols) bs"
      using Cons.IH [OF rows] by blast
    show ?thesis by (rule exI [of _ c3], rule exI [of _ bs]) (use l ih in simp)
  qed
qed

section \<open>The exported text\<close>

definition csv_cells :: "formats \<Rightarrow> rowset \<Rightarrow> string list list" where
  "csv_cells F rs = map (\<lambda>vals. map2 (\<lambda>v t. csvValue F v t null_default) vals (map snd (rs_cols rs))) (rs_rows rs)"

lemma ExportCSV_text:
  assumes "ExportCSV F d srv table True [] c = (Inr out, c1)" "QueryContext srv (''SELECT * FROM '' @ quote d table) [] c = (Inr rs, c1)"
  shows "out = csv_text (CHR '','') (map fst (rs_cols rs) # csv_cells F rs) \<and> length out \<le> editorExportMaxBytes"
  using assms by (auto simp: ExportCSV_def csv_text_def csv_cells_def comp_def Let_def split: sum.splits option.splits if_splits)

abbreviation bom :: string where "bom \<equiv> [CHR 0xEF, CHR 0xBB, CHR 0xBF]"

lemma no_bom:
  assumes "\<not> HasPrefix n bom" "x = CHR '','' \<or> x = newline"
  shows "take 3 (csv_field (CHR '','') n @ x # t) \<noteq> bom"
proof (cases "fieldNeedsQuotes (CHR '','') n")
  case False
  consider "n = []" | a where "n = [a]" | a b where "n = [a, b]" | a b e m where "n = a # b # e # m"
    by (metis list.exhaust)
  then show ?thesis using False assms by cases (auto simp: csv_field_def HasPrefix_def)
qed (simp add: csv_field_def numeral_3_eq_3)

definition header_ok :: "string list \<Rightarrow> bool" where
  "header_ok names \<longleftrightarrow> csv_row names \<and> header_names names = names \<and> \<not> HasPrefix (hd names) bom"

lemma ImportStream_text:
  assumes "header_ok names" "length (csv_text (CHR '','') (names # rows)) \<le> EditorMaxImportBytes"
  shows "ImportStream (csv_text (CHR '','') (names # rows)) False = \<lparr>up_data = csv_text (CHR '','') (names # rows), up_broken = False, up_over = 0\<rparr>"
proof -
  obtain n ns where names: "names = n # ns" using assms(1) by (cases names) (auto simp: header_ok_def csv_row_def)
  obtain x t where x: "x = CHR '','' \<or> x = newline" "csv_text (CHR '','') (names # rows) = csv_field (CHR '','') n @ x # t"
    by (cases ns) (auto simp: names csv_text_def csv_Write_def)
  have "\<not> HasPrefix n bom" using assms(1) by (simp only: header_ok_def names list.sel not_False_eq_True)
  then have "take 3 (csv_text (CHR '','') (names # rows)) \<noteq> bom" unfolding x(2) using x(1) by (rule no_bom)
  then show ?thesis using assms(2) unfolding ImportStream_def strictLimit_def Let_def by (simp del: take_Cons_numeral)
qed

text \<open>C32: A table exported as CSV and imported again, by either dialect: when no text holds a carriage return before a newline, no row is
  one empty text, every text is valid UTF-8, the column names have no space around them and no byte-order mark in front and exist in the
  table, and the server accepts the statements, the import succeeds, and the INSERT
  statements it sends carry every value that was exported, row by row and in order; only texts equal to the token for NULL become NULL.\<close>

theorem csv_export_reimport:
  assumes "ExportCSV F d srv table True [] c = (Inr out, c1)" "QueryContext srv (''SELECT * FROM '' @ quote d table) [] c = (Inr rs, c1)"
    and "header_ok (map fst (rs_cols rs))" "list_all (importable (length (rs_cols rs))) (csv_cells F rs)"
    and "accepts srv2" "writableTable d2 srv2 c2 table2 = Inr st" "set (map fst (rs_cols rs)) \<subseteq> columnSet st"
  shows "\<exists>c3 batches. ImportCSV d2 srv2 (ImportStream out False) table2 \<lparr>ci_Header = True, ci_NullToken = [], ci_Delimiter = None\<rparr> c2
      = ((no_import\<lparr>im_Rows := int (length (rs_rows rs)), im_Statements := 1\<rparr>, None), c3)
    \<and> concat batches = map (map (cell_arg null_default)) (csv_cells F rs) \<and> [] \<notin> set batches
    \<and> es_sent c3 = es_sent c2 @ map (batch_stmt d2 table2 (map fst (rs_cols rs))) batches"
proof -
  let ?names = "map fst (rs_cols rs)" and ?opts = "\<lparr>ci_Header = True, ci_NullToken = [], ci_Delimiter = None\<rparr>" and ?rows = "csv_cells F rs"
  have comma: "delimiter (CHR '','')" by (simp add: delimiter_def)
  have out: "out = csv_text (CHR '','') (?names # ?rows)" "length out \<le> EditorMaxImportBytes" using ExportCSV_text [OF assms(1,2)] by auto
  have stream: "ImportStream out False = \<lparr>up_data = out, up_broken = False, up_over = 0\<rparr>" using ImportStream_text [OF assms(3)] out by simp
  have "list_all csv_row ?rows" using assms(4) by (simp add: importable_def list_all_iff)
  then have rd: "csv_Read (CHR '','') False out = (CsvRecord ?names, csv_text (CHR '','') ?rows)"
    using csv_Read_text [OF comma] assms(3) out(1) by (simp add: header_ok_def)
  have names: "header_names ?names = ?names" "?names \<noteq> []" using assms(3) by (auto simp: header_ok_def csv_row_def)
  have "find (\<lambda>h. h \<notin> columnSet st) ?names = None" using assms(7) by (simp only: find_None_iff) blast
  then have cols: "csv_columns st True (CHR '','') False out = Inr (?names, csv_text (CHR '','') ?rows)"
    using rd names(1) by (simp only: csv_columns_def if_True prod.case csv_result.case option.case)
  obtain w1 where b: "srv_begin srv2 (es_db c2) = (None, w1)" using assms(5) by (cases "srv_begin srv2 (es_db c2)") (metis accepts_def fst_conv)
  let ?c = "c2\<lparr>es_db := w1\<rparr>"
  obtain c3 bs where l: "csv_loop d2 srv2 table2 ?names ?opts null_default (CHR '','') False (csv_text (CHR '','') ?rows) 0 [] 0 ?c = (Inr (length ?rows), c3)"
      "concat bs = map (map (cell_arg null_default)) ?rows" "[] \<notin> set bs" "es_sent c3 = es_sent c2 @ map (batch_stmt d2 table2 ?names) bs"
    using csv_loop_rows [OF assms(5) comma, of ?names ?rows d2 table2 ?opts null_default 0 "[]" 0 ?c] assms(4) by auto
  obtain w3 where cm: "srv_commit srv2 (es_db c3) = (None, w3)" using assms(5) by (cases "srv_commit srv2 (es_db c3)") (metis accepts_def fst_conv)
  have len: "length ?rows = length (rs_rows rs)" by (simp add: csv_cells_def)
  have "ImportCSV d2 srv2 \<lparr>up_data = out, up_broken = False, up_over = 0\<rparr> table2 ?opts c2
      = ((no_import\<lparr>im_Rows := int (length (rs_rows rs)), im_Statements := 1\<rparr>, None), c3\<lparr>es_db := w3\<rparr>)"
    using assms(6) cols names(2) b l(1) cm len by (simp add: ImportCSV_def in_tx_def)
  then show ?thesis unfolding stream using l(2,3,4) by (intro exI [of _ "c3\<lparr>es_db := w3\<rparr>"] exI [of _ bs]) simp
qed

lemma ExportCSV_ok:
  assumes "requireTable srv c table = Inr k" "QueryContext srv (''SELECT * FROM '' @ quote d table) [] c = (Inr rs, c1)" "rs_err rs = None"
    and "length (csv_text (CHR '','') (map fst (rs_cols rs) # csv_cells F rs)) \<le> editorExportMaxBytes"
  shows "ExportCSV F d srv table True [] c = (Inr (csv_text (CHR '','') (map fst (rs_cols rs) # csv_cells F rs)), c1)"
  using assms by (simp add: ExportCSV_def csv_text_def csv_cells_def comp_def Let_def)

definition ex_csv_rows :: rowset where
  "ex_csv_rows = \<lparr>rs_cols = [(''id'', ''INT''), (''n'', ''TEXT'')],
     rs_rows = [[VInt 7, VStr (''a,'' @ [dq, newline])], [VInt (-2), VNil], [VInt 3, VStr []]], rs_err = None\<rparr>"

definition ex_csv_server :: "unit dbserver" where
  "ex_csv_server = (ex_dbserver ''t'' [''id'', ''n''])\<lparr>srv_query := (\<lambda>_ _ w. (Inr ex_csv_rows, w))\<rparr>"

definition ex_csv_formats :: formats where
  "ex_csv_formats = \<lparr>FormatFloat = (\<lambda>_ _. ''0''), FormatTime = (\<lambda>_ _. ''2026-01-02'')\<rparr>"

definition ex_csv_text :: string where
  "ex_csv_text = csv_text (CHR '','') (map fst (rs_cols ex_csv_rows) # csv_cells ex_csv_formats ex_csv_rows)"

lemma ex_csv_text_val: "ex_csv_text = ''id,n'' @ [newline] @ ''7,'' @ [dq] @ ''a,'' @ [dq, dq, newline, dq, newline] @ ''-2,'' @ null_default @ [newline] @ ''3,'' @ [newline]"
  by code_simp

lemma ex_csv_query: "QueryContext ex_csv_server q [] ex_conn = (Inr ex_csv_rows, \<lparr>es_db = (), es_sent = [(q, [])]\<rparr>)"
  by (simp add: QueryContext_def ex_csv_server_def)

lemma ex_csv_export:
  "ExportCSV ex_csv_formats pgDialect ex_csv_server ''t'' True [] ex_conn
    = (Inr ex_csv_text, \<lparr>es_db = (), es_sent = [(''SELECT * FROM '' @ quote pgDialect ''t'', [])]\<rparr>)"
  unfolding ex_csv_text_def
proof (rule ExportCSV_ok [OF _ ex_csv_query])
  show "requireTable ex_csv_server ex_conn ''t'' = Inr ''table''" by code_simp
  show "rs_err ex_csv_rows = None" by (simp add: ex_csv_rows_def)
  show "length (csv_text (CHR '','') (map fst (rs_cols ex_csv_rows) # csv_cells ex_csv_formats ex_csv_rows)) \<le> editorExportMaxBytes"
    unfolding ex_csv_text_def [symmetric] ex_csv_text_val by simp
qed

lemma ex_csv_target: "\<exists>st. writableTable mysqlDialect ex_csv_server ex_conn ''t'' = Inr st \<and> columnSet st = {''id'', ''n''}"
proof -
  have "map_sum id columnSet (writableTable mysqlDialect ex_csv_server ex_conn ''t'') = Inr {''id'', ''n''}" by code_simp
  then show ?thesis by (cases "writableTable mysqlDialect ex_csv_server ex_conn ''t''") auto
qed

theorem csv_export_reimport_witness:
  "\<exists>c3 batches. ImportCSV mysqlDialect ex_csv_server (ImportStream ex_csv_text False) ''t'' \<lparr>ci_Header = True, ci_NullToken = [], ci_Delimiter = None\<rparr> ex_conn
      = ((no_import\<lparr>im_Rows := 3, im_Statements := 1\<rparr>, None), c3)
    \<and> concat batches = [[Some ''7'', Some (''a,'' @ [dq, newline])], [Some ''-2'', None], [Some ''3'', Some []]] \<and> [] \<notin> set batches
    \<and> es_sent c3 = map (batch_stmt mysqlDialect ''t'' [''id'', ''n'']) batches"
proof -
  have n: "map fst (rs_cols ex_csv_rows) = [''id'', ''n'']" "length (rs_rows ex_csv_rows) = 3" by (simp_all add: ex_csv_rows_def)
  have cells: "map (map (cell_arg null_default)) (csv_cells ex_csv_formats ex_csv_rows)
      = [[Some ''7'', Some (''a,'' @ [dq, newline])], [Some ''-2'', None], [Some ''3'', Some []]]" by code_simp
  have h: "header_ok (map fst (rs_cols ex_csv_rows))" by code_simp
  have i: "list_all (importable (length (rs_cols ex_csv_rows))) (csv_cells ex_csv_formats ex_csv_rows)" by code_simp
  have a: "accepts ex_csv_server" by (simp add: accepts_def ex_csv_server_def ex_dbserver_def)
  obtain st where st: "writableTable mysqlDialect ex_csv_server ex_conn ''t'' = Inr st" "columnSet st = {''id'', ''n''}" using ex_csv_target by blast
  have sub: "set (map fst (rs_cols ex_csv_rows)) \<subseteq> columnSet st" by (simp add: st(2) n(1))
  from csv_export_reimport [OF ex_csv_export ex_csv_query h i a st(1) sub] show ?thesis
    unfolding n cells by (simp only: conn.simps append_Nil of_nat_numeral)
qed

section \<open>What does not survive\<close>

text \<open>A text equal to the token for NULL comes back as NULL.\<close>

lemma null_text_lost: "cell_arg null_default (csvValue F (VStr null_default) t null_default) = cell_arg null_default (csvValue F VNil t null_default)"
  by (simp add: csvValue_def)

text \<open>A row that is one empty text is skipped by the reader.\<close>

lemma empty_row_lost: "csv_Read (CHR '','') False (csv_Write (CHR '','') [[]]) = (CsvEOF, [])"
  by code_simp

text \<open>A carriage return in front of a newline is lost, also inside quotes.\<close>

lemma crlf_lost: "csv_Read (CHR '','') False (csv_Write (CHR '','') [[CHR ''a'', cr, newline]]) = (CsvRecord [[CHR ''a'', newline]], [])"
  by code_simp

end
