(* ===== verification/Dbeditor_Objects.thy ===== *)
theory Dbeditor_Objects
  imports Dbeditor_Io
begin

text \<open>
  Database-wide search and the listing of routines, triggers and events (\<^verbatim>\<open>svc/dbeditor_objects.go\<close>). The fixed catalog queries of
  this file are answered by the parameter \<open>catalog\<close>. A request's time does not run out while a search runs.
\<close>

record 'w catalog =
  cat_searchable :: "'w \<Rightarrow> string + (string \<times> string) list"
  cat_routines :: "'w \<Rightarrow> string + (string \<times> string \<times> string) list"
  cat_triggers :: "'w \<Rightarrow> string + (string \<times> string \<times> string) list"
  cat_events :: "'w \<Rightarrow> string + string list"

section \<open>Search\<close>

abbreviation editorSearchMaxTables :: nat where "editorSearchMaxTables \<equiv> 300"
abbreviation editorSearchRowsPerTbl :: nat where "editorSearchRowsPerTbl \<equiv> 10"
abbreviation editorSearchMaxHits :: nat where "editorSearchMaxHits \<equiv> 100"
abbreviation editorMaxObjects :: nat where "editorMaxObjects \<equiv> 300"

record SearchHit =
  sh_Table :: string
  sh_Columns :: "EditorResultColumn list"
  sh_Rows :: "cell list list"
  sh_Truncated :: bool

record SearchResult =
  sq_Hits :: "SearchHit list"
  sq_Searched :: nat
  sq_Truncated :: bool

text \<open>The tables to search: base tables, of the chosen ones if any are chosen, up to the limit.\<close>

definition search_tables :: "EditorTable list \<Rightarrow> string list \<Rightarrow> string list \<times> bool" where
  "search_tables all_tables only =
    (let names = map et_Name (filter (\<lambda>t. et_Type t = ''table'' \<and> (only = [] \<or> et_Name t \<in> set only)) all_tables)
     in (take editorSearchMaxTables names, length names > editorSearchMaxTables))"

definition search_sql :: "dialect \<Rightarrow> string \<Rightarrow> string list \<Rightarrow> string" where
  "search_sql d t cols =
    (let (opr, castTo) = (if d = pgDialect then (''ILIKE'', ''TEXT'') else (''LIKE'', ''CHAR'')) in
     ''SELECT * FROM '' @ quote d t @ '' WHERE ''
       @ Join '' OR '' (map (\<lambda>(i, col). ''CAST('' @ quote d col @ '' AS '' @ castTo @ '') '' @ opr @ '' '' @ ph d i) (zip [1..<length cols + 1] cols))
       @ '' LIMIT '' @ decimal (editorSearchRowsPerTbl + 1))"

fun search_loop :: "formats \<Rightarrow> dialect \<Rightarrow> 'w dbserver \<Rightarrow> string \<Rightarrow> (string \<times> string) list \<Rightarrow> string list \<Rightarrow> nat \<Rightarrow> SearchResult \<Rightarrow> 'w conn
    \<Rightarrow> SearchResult \<times> 'w conn" where
  "search_loop F d srv pattern colsOf [] tot res c = (res, c)"
| "search_loop F d srv pattern colsOf (t # ts) tot res c =
    (if tot \<ge> editorSearchMaxHits then (res\<lparr>sq_Truncated := True\<rparr>, c)
     else let cols = take 200 (map snd (filter (\<lambda>(tb, _). tb = t) colsOf)) in
       if cols = [] then search_loop F d srv pattern colsOf ts tot res c
       else let res1 = res\<lparr>sq_Searched := sq_Searched res + 1\<rparr>;
                (r, c1) = QueryContext srv (search_sql d t cols) (map (\<lambda>_. Some pattern) cols) c in
         (case (case r of Inl e \<Rightarrow> Inl (DbError e) | Inr rs \<Rightarrow> scanRows F rs (int editorSearchRowsPerTbl) editorMaxBytes) of
            Inl _ \<Rightarrow> search_loop F d srv pattern colsOf ts tot res1 c1
          | Inr out \<Rightarrow>
            if er_Rows out = [] then search_loop F d srv pattern colsOf ts tot res1 c1
            else search_loop F d srv pattern colsOf ts (tot + length (er_Rows out))
              (res1\<lparr>sq_Hits := sq_Hits res1 @ [\<lparr>sh_Table = t, sh_Columns = er_Columns out, sh_Rows = er_Rows out, sh_Truncated = er_Truncated out\<rparr>]\<rparr>) c1))"

definition Search_db :: "formats \<Rightarrow> dialect \<Rightarrow> 'w dbserver \<Rightarrow> 'w catalog \<Rightarrow> string \<Rightarrow> string list \<Rightarrow> 'w conn \<Rightarrow> (edit_error + SearchResult) \<times> 'w conn" where
  "Search_db F d srv cat term0 only c =
    (let trm = TrimSpace term0 in
     if trm = [] then (Inl (EditText ''enter something to search for''), c)
     else if length trm > 200 then (Inl (EditText ''the search text is too long''), c)
     else case Tables srv c of Inl e \<Rightarrow> (Inl e, c)
     | Inr all_tables \<Rightarrow>
       (case find (\<lambda>n. n \<notin> set (map et_Name all_tables)) only of Some n \<Rightarrow> (Inl (TableMissing n), c)
        | None \<Rightarrow>
          let (names, cut) = search_tables all_tables only in
          (case cat_searchable cat (es_db c) of Inl e \<Rightarrow> (Inl (DbError e), c)
           | Inr colsOf \<Rightarrow>
             (case search_loop F d srv (''%'' @ escapeLike trm @ ''%'') colsOf names 0 \<lparr>sq_Hits = [], sq_Searched = 0, sq_Truncated = cut\<rparr> c of
                (res, c1) \<Rightarrow> (Inr res, c1)))))"

section \<open>Objects\<close>

record EditorObject =
  eo_Kind :: string
  eo_Name :: string
  eo_Table :: string
  eo_Definition :: string

definition objectsPG :: "'w catalog \<Rightarrow> 'w conn \<Rightarrow> edit_error + EditorObject list" where
  "objectsPG cat c =
    (case cat_routines cat (es_db c) of Inl e \<Rightarrow> Inl (DbError e)
     | Inr rts \<Rightarrow> (case cat_triggers cat (es_db c) of Inl e \<Rightarrow> Inl (DbError e)
       | Inr trs \<Rightarrow> Inr (map (\<lambda>(k, n, x). \<lparr>eo_Kind = k, eo_Name = n, eo_Table = [], eo_Definition = x\<rparr>) rts
           @ map (\<lambda>(n, t, x). \<lparr>eo_Kind = ''trigger'', eo_Name = n, eo_Table = t, eo_Definition = x\<rparr>) trs)))"

definition showCreate :: "'w dbserver \<Rightarrow> string \<Rightarrow> nat \<Rightarrow> 'w conn \<Rightarrow> string \<times> 'w conn" where
  "showCreate srv stmt col c = (case QueryContext srv stmt [] c of
     (Inl _, c1) \<Rightarrow> ([], c1)
   | (Inr rs, c1) \<Rightarrow> (case rs_rows rs of [] \<Rightarrow> ([], c1)
      | row # _ \<Rightarrow> (if col \<ge> length row then [] else case text_value (row ! col) of Some t \<Rightarrow> t | None \<Rightarrow> [], c1)))"

definition show_object :: "EditorObject \<Rightarrow> string \<times> nat" where
  "show_object o1 = (let q = quote mysqlDialect (eo_Name o1) in
     if eo_Kind o1 = ''procedure'' then (''SHOW CREATE PROCEDURE '' @ q, 2)
     else if eo_Kind o1 = ''function'' then (''SHOW CREATE FUNCTION '' @ q, 2)
     else if eo_Kind o1 = ''trigger'' then (''SHOW CREATE TRIGGER '' @ q, 2)
     else if eo_Kind o1 = ''event'' then (''SHOW CREATE EVENT '' @ q, 3) else ([], 2))"

fun define_objects :: "'w dbserver \<Rightarrow> EditorObject list \<Rightarrow> 'w conn \<Rightarrow> EditorObject list \<times> 'w conn" where
  "define_objects srv [] c = ([], c)"
| "define_objects srv (o1 # os) c =
    (case showCreate srv (fst (show_object o1)) (snd (show_object o1)) c of (t, c1) \<Rightarrow>
      (case define_objects srv os c1 of (os', c2) \<Rightarrow> (o1\<lparr>eo_Definition := t\<rparr> # os', c2)))"

definition objectsMySQL :: "'w dbserver \<Rightarrow> 'w catalog \<Rightarrow> 'w conn \<Rightarrow> (edit_error + EditorObject list) \<times> 'w conn" where
  "objectsMySQL srv cat c =
    (case cat_routines cat (es_db c) of Inl e \<Rightarrow> (Inl (DbError e), c)
     | Inr rts \<Rightarrow> (case cat_triggers cat (es_db c) of Inl e \<Rightarrow> (Inl (DbError e), c)
       | Inr trs \<Rightarrow>
         let evs = (case cat_events cat (es_db c) of Inl _ \<Rightarrow> [] | Inr es \<Rightarrow> es);
             out = take editorMaxObjects (map (\<lambda>(k, n, _). \<lparr>eo_Kind = k, eo_Name = n, eo_Table = [], eo_Definition = []\<rparr>) rts
               @ map (\<lambda>(n, t, _). \<lparr>eo_Kind = ''trigger'', eo_Name = n, eo_Table = t, eo_Definition = []\<rparr>) trs
               @ map (\<lambda>n. \<lparr>eo_Kind = ''event'', eo_Name = n, eo_Table = [], eo_Definition = []\<rparr>) evs)
         in (case define_objects srv out c of (os, c1) \<Rightarrow> (Inr os, c1))))"

definition Objects :: "dialect \<Rightarrow> 'w dbserver \<Rightarrow> 'w catalog \<Rightarrow> 'w conn \<Rightarrow> (edit_error + EditorObject list) \<times> 'w conn" where
  "Objects d srv cat c = (if d = pgDialect then (objectsPG cat c, c) else objectsMySQL srv cat c)"

end
