(* ===== verification/Webftp.thy ===== *)
theory Webftp
  imports Api Archives Http
begin

text \<open>
  The browser file manager behind \<^verbatim>\<open>webftp.<domain>\<close> (\<^verbatim>\<open>svc/webftp.go\<close>, \<^verbatim>\<open>svc/webftp_handlers.go\<close>; not the thumbnails): sessions
  bound to a host name, one-time login tokens of the panel, and the file operations of a session.

  The two maps of \<open>WebFTP\<close> are kept as maps; every use of them runs under the mutex. A reply records what the code decides; pages
  and JSON text are their contents. The bodies of requests are arguments: \<open>None\<close> when they cannot be parsed. The host of the panel
  is its file system.
\<close>

abbreviation webftpSessionTTL :: int where "webftpSessionTTL \<equiv> hours 2"
abbreviation webftpSSOTTL :: int where "webftpSSOTTL \<equiv> seconds 60"
abbreviation webftpCookie :: string where "webftpCookie \<equiv> ''aegis_webftp''"

record webftpSSO =
  wo_userID :: int
  wo_username :: string
  wo_homeDir :: string
  wo_host :: string
  wo_expires :: gotime

record webftpSession =
  wn_userID :: int
  wn_username :: string
  wn_homeDir :: string
  wn_host :: string
  wn_expires :: gotime

record WebFTP =
  wf_db :: db
  wf_fs :: fs
  wf_sessions :: "string \<rightharpoonup> webftpSession"
  wf_ssoTokens :: "string \<rightharpoonup> webftpSSO"

record WfEnv =
  we_files :: FilesEnv
  we_lib :: Lib
  we_draw :: "nat \<Rightarrow> nat option"

section \<open>Hosts\<close>

definition WebftpHostname :: "string \<Rightarrow> string" where
  "WebftpHostname domain = ''webftp.'' @ domain"

definition requestHost :: "SiteRequest \<Rightarrow> string" where
  "requestHost r = ToLower (takeWhile (\<lambda>c. c \<noteq> CHR '':'') (rHost r))"

definition requestIsHTTPS :: "SiteRequest \<Rightarrow> bool" where
  "requestIsHTTPS r \<longleftrightarrow> rTLS r \<or> EqualFold (h_Get (rHeader r) ''X-Forwarded-Proto'') ''https''"

definition webftpClientIP :: "SiteRequest \<Rightarrow> string" where
  "webftpClientIP r = ClientIP \<lparr>RemoteAddr = rRemoteAddr r, ForwardedFor = h_Values (rHeader r) ''X-Forwarded-For'', Authorization = [], QueryToken = [],
     PathIDText = [], URLPath = uPath (rURL r)\<rparr>"

definition acctCoversHome :: "string \<Rightarrow> string \<Rightarrow> bool" where
  "acctCoversHome acctHome docRoot = (let a = Clean acctHome; d = Clean docRoot in
     a = d \<or> (case Rel a d of None \<Rightarrow> False | Some rel \<Rightarrow> rel \<noteq> ''.'' \<and> rel \<noteq> ''..'' \<and> \<not> HasPrefix rel ''../''))"

text \<open>\<open>suspended, _ := IsManuallySuspended(...)\<close>: an account whose status cannot be read counts as not suspended.\<close>

definition is_suspended :: "db \<Rightarrow> int \<Rightarrow> bool" where
  "is_suspended s uid = (case IsManuallySuspended s uid of Inl _ \<Rightarrow> False | Inr b \<Rightarrow> b)"

section \<open>Login tokens of the panel\<close>

record WebFTPTarget =
  wt_Domain :: string
  wt_Host :: string
  wt_HTTPS :: bool

definition Targets :: "db \<Rightarrow> FTPAccount \<Rightarrow> WebFTPTarget list" where
  "Targets s acct = (case ListDomains s (fUserID acct) of Inl _ \<Rightarrow> []
     | Inr doms \<Rightarrow> List.map_filter (\<lambda>d.
         if HasPrefix (dDomain d) ''webftp.'' \<or> \<not> acctCoversHome (fHomeDir acct) (dDocumentRoot d) then None
         else case GetDomainByName s (WebftpHostname (dDomain d)) of Inl _ \<Rightarrow> None
           | Inr wd \<Rightarrow> Some \<lparr>wt_Domain = dDomain d, wt_Host = WebftpHostname (dDomain d), wt_HTTPS = dSSLEnabled wd\<rparr>) doms)"

datatype sso_error = FTPDisabled | OwnerSuspended | SSOStore store_error | SSORandom

definition MintSSO :: "WfEnv \<Rightarrow> gotime \<Rightarrow> FTPAccount \<Rightarrow> WebFTPTarget \<Rightarrow> WebFTP \<Rightarrow> (sso_error + string) \<times> WebFTP" where
  "MintSSO env now acct t w =
    (if \<not> fEnabled acct then (Inl FTPDisabled, w)
     else if is_suspended (wf_db w) (fUserID acct) then (Inl OwnerSuspended, w)
     else case GetDomainByName (wf_db w) (wt_Domain t) of Inl e \<Rightarrow> (Inl (SSOStore e), w)
     | Inr dm \<Rightarrow> (case RandomString 40 (we_draw env) of None \<Rightarrow> (Inl SSORandom, w)
       | Some tok \<Rightarrow>
         let live = (\<lambda>k. case wf_ssoTokens w k of None \<Rightarrow> None | Some v \<Rightarrow> if now > wo_expires v then None else Some v) in
         (Inr tok, w\<lparr>wf_ssoTokens := live(tok \<mapsto> \<lparr>wo_userID = fUserID acct, wo_username = fUsername acct, wo_homeDir = dDocumentRoot dm,
            wo_host = wt_Host t, wo_expires = now + webftpSSOTTL\<rparr>)\<rparr>)))"

definition redeemSSO :: "gotime \<Rightarrow> string \<Rightarrow> string \<Rightarrow> WebFTP \<Rightarrow> webftpSSO option \<times> WebFTP" where
  "redeemSSO now tok host w =
    (case wf_ssoTokens w tok of None \<Rightarrow> None | Some sso \<Rightarrow> if now > wo_expires sso \<or> wo_host sso \<noteq> host then None else Some sso,
     w\<lparr>wf_ssoTokens := (wf_ssoTokens w)(tok := None)\<rparr>)"

section \<open>Sessions\<close>

datatype wf_reply = NotFound | LoginPage string string | BrowserPage string | SignedIn string bool | SignedOut
  | Failed nat string | FileFailed nat file_error | Listing "Entry list" | Hits "string list" | Content string | Attachment string string | Done

definition newSession :: "WfEnv \<Rightarrow> gotime \<Rightarrow> int \<Rightarrow> string \<Rightarrow> string \<Rightarrow> string \<Rightarrow> WebFTP \<Rightarrow> string option \<times> WebFTP" where
  "newSession env now uid name home host w = (case RandomString 40 (we_draw env) of None \<Rightarrow> (None, w)
     | Some tok \<Rightarrow> (Some tok, w\<lparr>wf_sessions := (wf_sessions w)(tok \<mapsto> \<lparr>wn_userID = uid, wn_username = name, wn_homeDir = home, wn_host = host,
         wn_expires = now + webftpSessionTTL\<rparr>)\<rparr>))"

definition session_cookie :: "SiteRequest \<Rightarrow> string option" where
  "session_cookie r = map_of (Cookies (rHeader r)) webftpCookie"

definition sessionFor :: "gotime \<Rightarrow> SiteRequest \<Rightarrow> WebFTP \<Rightarrow> webftpSession option" where
  "sessionFor now r w = (case session_cookie r of None \<Rightarrow> None
     | Some v \<Rightarrow> if v = [] then None
       else case wf_sessions w v of None \<Rightarrow> None
         | Some sess \<Rightarrow> if now > wn_expires sess \<or> wn_host sess \<noteq> requestHost r \<or> is_suspended (wf_db w) (wn_userID sess) then None else Some sess)"

definition RevokeUser :: "int \<Rightarrow> WebFTP \<Rightarrow> WebFTP" where
  "RevokeUser uid w = w\<lparr>
     wf_sessions := (\<lambda>k. case wf_sessions w k of None \<Rightarrow> None | Some s \<Rightarrow> if wn_userID s = uid then None else Some s),
     wf_ssoTokens := (\<lambda>k. case wf_ssoTokens w k of None \<Rightarrow> None | Some s \<Rightarrow> if wo_userID s = uid then None else Some s)\<rparr>"

definition clearSession :: "SiteRequest \<Rightarrow> WebFTP \<Rightarrow> WebFTP" where
  "clearSession r w = (case session_cookie r of None \<Rightarrow> w | Some v \<Rightarrow> w\<lparr>wf_sessions := (wf_sessions w)(v := None)\<rparr>)"

definition wf_audit :: "gotime \<Rightarrow> SiteRequest \<Rightarrow> int \<Rightarrow> string \<Rightarrow> string \<Rightarrow> string \<Rightarrow> string \<Rightarrow> WebFTP \<Rightarrow> WebFTP" where
  "wf_audit now r uid name action target detail w =
     w\<lparr>wf_db := ignore_err (wf_db w) (AppendAudit (wf_db w) now uid name action target detail (webftpClientIP r))\<rparr>"

definition withSession :: "gotime \<Rightarrow> SiteRequest \<Rightarrow> (webftpSession \<Rightarrow> WebFTP \<Rightarrow> wf_reply \<times> WebFTP) \<Rightarrow> WebFTP \<Rightarrow> wf_reply \<times> WebFTP" where
  "withSession now r k w = (case sessionFor now r w of None \<Rightarrow> (Failed 401 ''session expired'', w) | Some sess \<Rightarrow> k sess w)"

text \<open>The account a session acts as: the files are those of its document root.\<close>

definition sessionUser :: "webftpSession \<Rightarrow> User" where
  "sessionUser sess = \<lparr>uID = 0, uUsername = wn_username sess, uEmail = [], uPasswordHash = [], uRole = [], uPackageID = 0, uStatus = [], uOwnerID = 0,
     uHomeDir = wn_homeDir sess, uQuotaDiskBytes = 0, uQuotaBandwidthBytes = 0, uCreatedAt = -62135596800, uUpdatedAt = -62135596800, uTOTPSecret = [], uTOTPEnabled = False,
     uTOTPBackupCodes = CodesEmpty\<rparr>"

section \<open>Pages\<close>

definition handleIndex :: "gotime \<Rightarrow> SiteRequest \<Rightarrow> WebFTP \<Rightarrow> wf_reply \<times> WebFTP" where
  "handleIndex now r w = (if \<not> HasPrefix (requestHost r) ''webftp.'' then (NotFound, w)
     else case sessionFor now r w of None \<Rightarrow> (LoginPage (requestHost r) [], w) | Some _ \<Rightarrow> (BrowserPage (requestHost r), w))"

definition acmeTokenRe :: "string \<Rightarrow> bool" where
  "acmeTokenRe s \<longleftrightarrow> 1 \<le> length s \<and> length s \<le> 200 \<and>
     list_all (\<lambda>c. c \<in> set ''abcdefghijklmnopqrstuvwxyzABCDEFGHIJKLMNOPQRSTUVWXYZ0123456789_-'') s"

text \<open>The answer to an ACME challenge is read by the panel itself.\<close>

definition handleACMEChallenge :: "WfEnv \<Rightarrow> SiteRequest \<Rightarrow> string \<Rightarrow> WebFTP \<Rightarrow> wf_reply \<times> WebFTP" where
  "handleACMEChallenge env r token w =
    (if \<not> acmeTokenRe token then (NotFound, w)
     else let host = requestHost r; parent = TrimPrefix host ''webftp.'' in
       if parent = host then (NotFound, w)
       else case GetDomainByName (wf_db w) parent of Inl _ \<Rightarrow> (NotFound, w)
       | Inr dm \<Rightarrow> (case os_Open (f_panel (we_files env)) (wf_fs w) (filepath_Join [dDocumentRoot dm, ''.well-known'', ''acme-challenge'', token]) of
           Inl _ \<Rightarrow> (NotFound, w)
         | Inr (_, nd) \<Rightarrow> if n_kind nd = Dir then (NotFound, w) else (Content (node_data nd), w)))"

text \<open>The form of a login: user name and password.\<close>

definition wf_handleLogin :: "WfEnv \<Rightarrow> gotime \<Rightarrow> SiteRequest \<Rightarrow> (string \<times> string) option \<Rightarrow> WebFTP \<Rightarrow> wf_reply \<times> WebFTP" where
  "wf_handleLogin env now r form w =
    (let host = requestHost r; parent = TrimPrefix host ''webftp.'' in
     if parent = host then (NotFound, w)
     else case form of None \<Rightarrow> (LoginPage host ''bad request'', w)
     | Some (name, password) \<Rightarrow> (case GetDomainByName (wf_db w) parent of Inl _ \<Rightarrow> (LoginPage host ''unknown domain'', w)
     | Inr dm \<Rightarrow> (case GetFTPAccountByUsername (wf_db w) (TrimSpace name) of Inl _ \<Rightarrow> (LoginPage host ''invalid username or password'', w)
     | Inr acct \<Rightarrow>
        if \<not> bcryptCompare (we_lib env) (fPasswordHash acct) password then (LoginPage host ''invalid username or password'', w)
        else if \<not> fEnabled acct then (LoginPage host ''this ftp account is disabled'', w)
        else if is_suspended (wf_db w) (fUserID acct) then (LoginPage host ''this account has been suspended'', w)
        else if \<not> acctCoversHome (fHomeDir acct) (dDocumentRoot dm) then (LoginPage host ''this ftp account cannot access this domain'', w)
        else case newSession env now (fUserID acct) (fUsername acct) (dDocumentRoot dm) host w of
          (None, w1) \<Rightarrow> (LoginPage host ''could not create session, try again'', w1)
        | (Some tok, w1) \<Rightarrow> (SignedIn tok (requestIsHTTPS r), w1))))"

definition handleSSO :: "WfEnv \<Rightarrow> gotime \<Rightarrow> SiteRequest \<Rightarrow> string option \<Rightarrow> WebFTP \<Rightarrow> wf_reply \<times> WebFTP" where
  "handleSSO env now r form w =
    (let host = requestHost r in
     if \<not> HasPrefix host ''webftp.'' then (NotFound, w)
     else case form of None \<Rightarrow> (LoginPage host ''bad request'', w)
     | Some t \<Rightarrow> (case redeemSSO now t host w of
         (None, w1) \<Rightarrow> (LoginPage host ''that login link has expired'', w1)
       | (Some sso, w1) \<Rightarrow> (case GetFTPAccountByUsername (wf_db w1) (wo_username sso) of
           Inl _ \<Rightarrow> (LoginPage host ''this ftp account is disabled'', w1)
         | Inr acct \<Rightarrow>
            if \<not> fEnabled acct then (LoginPage host ''this ftp account is disabled'', w1)
            else if is_suspended (wf_db w1) (fUserID acct) then (LoginPage host ''this account has been suspended'', w1)
            else case newSession env now (wo_userID sso) (wo_username sso) (wo_homeDir sso) host w1 of
              (None, w2) \<Rightarrow> (LoginPage host ''could not create session, try again'', w2)
            | (Some tok, w2) \<Rightarrow> (SignedIn tok (requestIsHTTPS r), wf_audit now r (wo_userID sso) (wo_username sso) ''webftp.sso'' host [] w2))))"

definition handleLogout :: "SiteRequest \<Rightarrow> WebFTP \<Rightarrow> wf_reply \<times> WebFTP" where
  "handleLogout r w = (SignedOut, clearSession r w)"

section \<open>Files\<close>

definition file_failed :: "file_error \<Rightarrow> wf_reply" where
  "file_failed e = FileFailed (if e = file_error.ErrForbidden then 403 else 400) e"

definition wf_op :: "(fs \<Rightarrow> 'a file_res) \<Rightarrow> ('a \<Rightarrow> WebFTP \<Rightarrow> wf_reply \<times> WebFTP) \<Rightarrow> WebFTP \<Rightarrow> wf_reply \<times> WebFTP" where
  "wf_op op k w = (case op (wf_fs w) of (r, fs') \<Rightarrow> let w1 = w\<lparr>wf_fs := fs'\<rparr> in (case r of Inl e \<Rightarrow> (file_failed e, w1) | Inr x \<Rightarrow> k x w1))"

definition decodeWebFTPJSON :: "'a option \<Rightarrow> ('a \<Rightarrow> WebFTP \<Rightarrow> wf_reply \<times> WebFTP) \<Rightarrow> WebFTP \<Rightarrow> wf_reply \<times> WebFTP" where
  "decodeWebFTPJSON req k w = (case req of None \<Rightarrow> (Failed 400 ''bad request body'', w) | Some x \<Rightarrow> k x w)"

definition done_audited :: "gotime \<Rightarrow> SiteRequest \<Rightarrow> webftpSession \<Rightarrow> string \<Rightarrow> string \<Rightarrow> string \<Rightarrow> WebFTP \<Rightarrow> wf_reply \<times> WebFTP" where
  "done_audited now r sess action target detail w = (Done, wf_audit now r (wn_userID sess) (wn_username sess) action target detail w)"

definition apiList :: "WfEnv \<Rightarrow> string \<Rightarrow> webftpSession \<Rightarrow> WebFTP \<Rightarrow> wf_reply \<times> WebFTP" where
  "apiList env path sess = wf_op (files_List (we_files env) (sessionUser sess) path) (\<lambda>es w. (Listing es, w))"

definition apiDownload :: "WfEnv \<Rightarrow> string \<Rightarrow> webftpSession \<Rightarrow> WebFTP \<Rightarrow> wf_reply \<times> WebFTP" where
  "apiDownload env path sess w = (case OpenRead (we_files env) (sessionUser sess) path (wf_fs w) of
       (Inl e, _) \<Rightarrow> (if e = file_error.ErrForbidden then file_failed e else NotFound, w)
     | (Inr (h, nd), _) \<Rightarrow> if n_kind nd = Dir then (NotFound, w)
         else (Attachment (case Resolve (we_files env) (wf_fs w) (sessionUser sess) path of Inr p \<Rightarrow> filter (\<lambda>c. c \<noteq> CHR 0x22) (path_Base p) | Inl _ \<Rightarrow> [])
           (node_data nd), w))"

fun webftp_upload :: "FilesEnv \<Rightarrow> User \<Rightarrow> string \<Rightarrow> (string \<times> string option) list \<Rightarrow> fs \<Rightarrow> wf_reply option \<times> fs" where
  "webftp_upload env u destDir [] fs = (None, fs)"
| "webftp_upload env u destDir ((name, None) # files) fs = (Some (Failed 400 ''open upload''), fs)"
| "webftp_upload env u destDir ((name, Some content) # files) fs =
     (case OpenWrite env u (TrimSuffix destDir ''/'' @ ''/'' @ name) 420 fs of
        (Inl e, fs1) \<Rightarrow> (Some (file_failed e), fs1)
      | (Inr h, fs1) \<Rightarrow> webftp_upload env u destDir files (os_Write h content fs1))"

definition apiUpload :: "WfEnv \<Rightarrow> gotime \<Rightarrow> SiteRequest \<Rightarrow> (string \<times> (string \<times> string option) list) option \<Rightarrow> webftpSession \<Rightarrow> WebFTP \<Rightarrow> wf_reply \<times> WebFTP" where
  "apiUpload env now r req sess w = (case req of None \<Rightarrow> (Failed 400 ''upload too large'', w)
     | Some (destDir, files) \<Rightarrow> (case webftp_upload (we_files env) (sessionUser sess) destDir files (wf_fs w) of (e, fs') \<Rightarrow>
         let w1 = w\<lparr>wf_fs := fs'\<rparr> in
         (case e of Some reply \<Rightarrow> (reply, w1) | None \<Rightarrow> done_audited now r sess ''webftp.upload'' destDir (Join '', '' (map fst files)) w1)))"

definition apiMkdir :: "WfEnv \<Rightarrow> gotime \<Rightarrow> SiteRequest \<Rightarrow> string option \<Rightarrow> webftpSession \<Rightarrow> WebFTP \<Rightarrow> wf_reply \<times> WebFTP" where
  "apiMkdir env now r req sess = decodeWebFTPJSON req (\<lambda>path. wf_op (Mkdir (we_files env) (sessionUser sess) path 493)
     (\<lambda>_. done_audited now r sess ''webftp.mkdir'' path []))"

definition apiDelete :: "WfEnv \<Rightarrow> gotime \<Rightarrow> SiteRequest \<Rightarrow> string option \<Rightarrow> webftpSession \<Rightarrow> WebFTP \<Rightarrow> wf_reply \<times> WebFTP" where
  "apiDelete env now r req sess = decodeWebFTPJSON req (\<lambda>path. wf_op (Delete (we_files env) (sessionUser sess) path)
     (\<lambda>_. done_audited now r sess ''webftp.delete'' path []))"

definition apiRename :: "WfEnv \<Rightarrow> gotime \<Rightarrow> SiteRequest \<Rightarrow> (string \<times> string) option \<Rightarrow> webftpSession \<Rightarrow> WebFTP \<Rightarrow> wf_reply \<times> WebFTP" where
  "apiRename env now r req sess = decodeWebFTPJSON req (\<lambda>(old, new). wf_op (Rename (we_files env) (sessionUser sess) old new)
     (\<lambda>_. done_audited now r sess ''webftp.rename'' (old @ '' '' @ [CHR 0xE2, CHR 0x86, CHR 0x92] @ '' '' @ new) []))"

definition apiRead :: "WfEnv \<Rightarrow> string \<Rightarrow> webftpSession \<Rightarrow> WebFTP \<Rightarrow> wf_reply \<times> WebFTP" where
  "apiRead env path sess = wf_op (Read (we_files env) (sessionUser sess) path) (\<lambda>data w. (Content data, w))"

definition apiWrite :: "WfEnv \<Rightarrow> gotime \<Rightarrow> SiteRequest \<Rightarrow> (string \<times> string) option \<Rightarrow> webftpSession \<Rightarrow> WebFTP \<Rightarrow> wf_reply \<times> WebFTP" where
  "apiWrite env now r req sess = decodeWebFTPJSON req (\<lambda>(path, content). wf_op (Write (we_files env) (sessionUser sess) path content 420)
     (\<lambda>_. done_audited now r sess ''webftp.write'' path []))"

definition apiChmod :: "WfEnv \<Rightarrow> gotime \<Rightarrow> SiteRequest \<Rightarrow> (string \<times> string \<times> bool) option \<Rightarrow> webftpSession \<Rightarrow> WebFTP \<Rightarrow> wf_reply \<times> WebFTP" where
  "apiChmod env now r req sess = decodeWebFTPJSON req (\<lambda>(path, mode, recursive). wf_op (Chmod (we_files env) (sessionUser sess) path mode recursive)
     (\<lambda>_. done_audited now r sess ''webftp.chmod'' (path @ '' '' @ mode) (if recursive then ''recursive'' else [])))"

definition apiChown :: "WfEnv \<Rightarrow> gotime \<Rightarrow> SiteRequest \<Rightarrow> (string \<times> string \<times> string \<times> bool) option \<Rightarrow> webftpSession \<Rightarrow> WebFTP \<Rightarrow> wf_reply \<times> WebFTP" where
  "apiChown env now r req sess = decodeWebFTPJSON req (\<lambda>(path, owner, grp, recursive). wf_op (Chown (we_files env) (sessionUser sess) path owner grp recursive)
     (\<lambda>_. done_audited now r sess ''webftp.chown'' path (''owner='' @ owner @ '' group='' @ grp)))"

definition apiSearch :: "WfEnv \<Rightarrow> string \<Rightarrow> string \<Rightarrow> webftpSession \<Rightarrow> WebFTP \<Rightarrow> wf_reply \<times> WebFTP" where
  "apiSearch env path q sess = wf_op (Search (we_files env) (sessionUser sess) path q) (\<lambda>hits w. (Hits hits, w))"

definition apiZip :: "WfEnv \<Rightarrow> gotime \<Rightarrow> SiteRequest \<Rightarrow> (string \<times> string) option \<Rightarrow> webftpSession \<Rightarrow> WebFTP \<Rightarrow> wf_reply \<times> WebFTP" where
  "apiZip env now r req sess = decodeWebFTPJSON req (\<lambda>(path, name). wf_op (Archive (we_files env) (sessionUser sess) path name)
     (\<lambda>_. done_audited now r sess ''webftp.zip'' path name))"

definition apiUnzip :: "WfEnv \<Rightarrow> gotime \<Rightarrow> SiteRequest \<Rightarrow> (string \<times> string) option \<Rightarrow> webftpSession \<Rightarrow> WebFTP \<Rightarrow> wf_reply \<times> WebFTP" where
  "apiUnzip env now r req sess = decodeWebFTPJSON req (\<lambda>(path, dest). wf_op (Extract (we_files env) (sessionUser sess) path dest)
     (\<lambda>_. done_audited now r sess ''webftp.unzip'' path dest))"

section \<open>Routes\<close>

datatype wf_call = WChallenge string | WIndex | WLogin "(string \<times> string) option" | WSSO "string option" | WLogout
  | WList string | WDownload string | WUpload "(string \<times> (string \<times> string option) list) option" | WMkdir "string option"
  | WRename "(string \<times> string) option" | WDelete "string option" | WRead string | WWrite "(string \<times> string) option"
  | WChmod "(string \<times> string \<times> bool) option" | WChown "(string \<times> string \<times> string \<times> bool) option" | WSearch string string
  | WZip "(string \<times> string) option" | WUnzip "(string \<times> string) option"

fun Handler :: "WfEnv \<Rightarrow> gotime \<Rightarrow> SiteRequest \<Rightarrow> wf_call \<Rightarrow> WebFTP \<Rightarrow> wf_reply \<times> WebFTP" where
  "Handler env now r (WChallenge token) w = handleACMEChallenge env r token w"
| "Handler env now r WIndex w = handleIndex now r w"
| "Handler env now r (WLogin form) w = wf_handleLogin env now r form w"
| "Handler env now r (WSSO form) w = handleSSO env now r form w"
| "Handler env now r WLogout w = handleLogout r w"
| "Handler env now r (WList path) w = withSession now r (apiList env path) w"
| "Handler env now r (WDownload path) w = withSession now r (apiDownload env path) w"
| "Handler env now r (WUpload req) w = withSession now r (apiUpload env now r req) w"
| "Handler env now r (WMkdir req) w = withSession now r (apiMkdir env now r req) w"
| "Handler env now r (WRename req) w = withSession now r (apiRename env now r req) w"
| "Handler env now r (WDelete req) w = withSession now r (apiDelete env now r req) w"
| "Handler env now r (WRead path) w = withSession now r (apiRead env path) w"
| "Handler env now r (WWrite req) w = withSession now r (apiWrite env now r req) w"
| "Handler env now r (WChmod req) w = withSession now r (apiChmod env now r req) w"
| "Handler env now r (WChown req) w = withSession now r (apiChown env now r req) w"
| "Handler env now r (WSearch path q) w = withSession now r (apiSearch env path q) w"
| "Handler env now r (WZip req) w = withSession now r (apiZip env now r req) w"
| "Handler env now r (WUnzip req) w = withSession now r (apiUnzip env now r req) w"

end
