(* ===== verification/Webftp_Theorems.thy ===== *)
theory Webftp_Theorems
  imports Webftp Services_Theorems
begin

text \<open>
  Properties of Web FTP: where a session comes from, that a login token of the panel works once, that a session changes nothing
  outside the document root of its site, and what ends a session and what does not.
\<close>

section \<open>Where sessions come from\<close>

lemma wf_audit_simps [simp]:
  "wf_sessions (wf_audit now r u n a t d w) = wf_sessions w" "wf_ssoTokens (wf_audit now r u n a t d w) = wf_ssoTokens w"
  "wf_fs (wf_audit now r u n a t d w) = wf_fs w"
  by (simp_all add: wf_audit_def)

lemma wf_op_sessions: "(\<And>x w1. wf_sessions (snd (k x w1)) = wf_sessions w1) \<Longrightarrow> wf_sessions (snd (wf_op op k w)) = wf_sessions w"
  by (auto simp: wf_op_def Let_def split: prod.split sum.split)

lemma done_audited_simps [simp]:
  "wf_sessions (snd (done_audited now r s a t d w)) = wf_sessions w" "wf_fs (snd (done_audited now r s a t d w)) = wf_fs w"
  by (simp_all add: done_audited_def)

lemmas wf_api_defs = apiList_def apiDownload_def apiUpload_def apiMkdir_def apiDelete_def apiRename_def apiRead_def apiWrite_def apiChmod_def
  apiChown_def apiSearch_def apiZip_def apiUnzip_def decodeWebFTPJSON_def

lemma withSession_sessions:
  "(\<And>s. wf_sessions (snd (k s w)) = wf_sessions w) \<Longrightarrow> wf_sessions (snd (withSession now r k w)) = wf_sessions w"
  by (simp add: withSession_def split: option.split)

lemma file_calls_keep_sessions:
  "wf_sessions (snd (apiList env p s w)) = wf_sessions w" "wf_sessions (snd (apiDownload env p s w)) = wf_sessions w"
  "wf_sessions (snd (apiUpload env now r u s w)) = wf_sessions w" "wf_sessions (snd (apiMkdir env now r m s w)) = wf_sessions w"
  "wf_sessions (snd (apiDelete env now r m s w)) = wf_sessions w" "wf_sessions (snd (apiRename env now r q s w)) = wf_sessions w"
  "wf_sessions (snd (apiRead env p s w)) = wf_sessions w" "wf_sessions (snd (apiWrite env now r q s w)) = wf_sessions w"
  "wf_sessions (snd (apiChmod env now r c s w)) = wf_sessions w" "wf_sessions (snd (apiChown env now r o' s w)) = wf_sessions w"
  "wf_sessions (snd (apiSearch env p n s w)) = wf_sessions w" "wf_sessions (snd (apiZip env now r q s w)) = wf_sessions w"
  "wf_sessions (snd (apiUnzip env now r q s w)) = wf_sessions w"
  by (auto simp: wf_api_defs wf_op_sessions Let_def split: option.split prod.split sum.split)

definition may_sign_in :: "WebFTP \<Rightarrow> string \<Rightarrow> bool" where
  "may_sign_in w name \<longleftrightarrow> (\<exists>acct. GetFTPAccountByUsername (wf_db w) name = Inr acct \<and> fEnabled acct \<and> \<not> is_suspended (wf_db w) (fUserID acct))"

definition by_password :: "WfEnv \<Rightarrow> WebFTP \<Rightarrow> (string \<times> string) option \<Rightarrow> webftpSession \<Rightarrow> bool" where
  "by_password env w form s \<longleftrightarrow> (\<exists>name pw acct dm. form = Some (name, pw) \<and> TrimSpace name = wn_username s \<and> GetFTPAccountByUsername (wf_db w) (wn_username s) = Inr acct
     \<and> bcryptCompare (we_lib env) (fPasswordHash acct) pw \<and> fUserID acct = wn_userID s
     \<and> GetDomainByName (wf_db w) (TrimPrefix (wn_host s) ''webftp.'') = Inr dm \<and> dDocumentRoot dm = wn_homeDir s \<and> acctCoversHome (fHomeDir acct) (wn_homeDir s))"

definition by_token :: "gotime \<Rightarrow> WebFTP \<Rightarrow> string option \<Rightarrow> webftpSession \<Rightarrow> bool" where
  "by_token now w form s \<longleftrightarrow> (\<exists>t sso. form = Some t \<and> wf_ssoTokens w t = Some sso \<and> now \<le> wo_expires sso \<and> wo_host sso = wn_host s
     \<and> wo_userID sso = wn_userID s \<and> wo_username sso = wn_username s \<and> wo_homeDir sso = wn_homeDir s)"

lemma FTP_by_username: "GetFTPAccountByUsername s name = Inr acct \<Longrightarrow> fUsername acct = name"
  by (auto simp: GetFTPAccountByUsername_def query_row_def find_Some_iff split: option.splits if_splits)

lemma login_origin:
  assumes "wf_handleLogin env now r form w = (reply, w')" "wf_sessions w' tok = Some s" "wf_sessions w tok \<noteq> Some s"
  shows "may_sign_in w (wn_username s) \<and> wn_host s = requestHost r \<and> wn_expires s = now + webftpSessionTTL \<and> by_password env w form s"
  using assms unfolding wf_handleLogin_def Let_def
  by (auto simp: newSession_def may_sign_in_def by_password_def FTP_by_username split: if_splits option.splits sum.splits prod.splits)

lemma sso_origin:
  assumes "handleSSO env now r form w = (reply, w')" "wf_sessions w' tok = Some s" "wf_sessions w tok \<noteq> Some s"
  shows "may_sign_in w (wn_username s) \<and> wn_host s = requestHost r \<and> wn_expires s = now + webftpSessionTTL \<and> by_token now w form s"
  using assms unfolding handleSSO_def Let_def
  by (auto simp: newSession_def redeemSSO_def may_sign_in_def by_token_def split: if_splits option.splits sum.splits prod.splits)

text \<open>C33: A Web FTP session comes from exactly two requests: a login with the password of an FTP account whose home covers the document
  root of the site, or a live login token of the panel for that site. Either way the account is enabled and its owner not suspended
  at that moment, and the session is bound to the host of the request, to that document root, and to two hours.\<close>

theorem webftp_session_origin:
  assumes "Handler env now r call w = (reply, w')" "wf_sessions w' tok = Some s" "wf_sessions w tok \<noteq> Some s"
  shows "may_sign_in w (wn_username s) \<and> wn_host s = requestHost r \<and> wn_expires s = now + webftpSessionTTL
    \<and> ((\<exists>form. call = WLogin form \<and> by_password env w form s) \<or> (\<exists>form. call = WSSO form \<and> by_token now w form s))"
proof (cases call)
  case (WLogin form)
  then show ?thesis using login_origin [of env now r form w reply w' tok s] assms by simp
next
  case (WSSO form)
  then show ?thesis using sso_origin [of env now r form w reply w' tok s] assms by simp
next
  case WLogout
  then show ?thesis using assms by (auto simp: handleLogout_def clearSession_def split: option.splits if_splits)
next
  case (WChallenge token)
  then show ?thesis using assms by (auto simp: handleACMEChallenge_def Let_def split: if_splits sum.splits prod.splits)
next
  case WIndex
  then show ?thesis using assms by (auto simp: handleIndex_def split: if_splits option.splits)
qed (use assms withSession_sessions file_calls_keep_sessions in \<open>metis Handler.simps snd_conv\<close>)+


section \<open>Login tokens of the panel\<close>

lemma redeemed_gone: "wf_ssoTokens (snd (redeemSSO now t host w)) t = None"
  by (simp add: redeemSSO_def)

lemma newSession_sso: "newSession env now u n h host w = (x, w') \<Longrightarrow> wf_ssoTokens w' = wf_ssoTokens w"
  by (auto simp: newSession_def split: option.splits)

lemma handleSSO_gone:
  assumes "handleSSO env now r (Some t) w = (reply, w')" "HasPrefix (requestHost r) ''webftp.''"
  shows "wf_ssoTokens w' t = None"
proof -
  obtain o1 w1 where rd: "redeemSSO now t (requestHost r) w = (o1, w1)" by force
  then have "wf_ssoTokens w1 t = None" using redeemed_gone [of now t "requestHost r" w] by simp
  then show ?thesis using assms rd unfolding handleSSO_def Let_def
    by (auto dest: newSession_sso split: option.splits sum.splits if_splits prod.splits)
qed

lemma unknown_token_refused:
  assumes "wf_ssoTokens w t = None"
  shows "fst (handleSSO env now r (Some t) w) \<noteq> SignedIn tok sec"
  using assms by (simp add: handleSSO_def redeemSSO_def Let_def)

text \<open>A login token of the panel works: redeemed within a minute on the host it was made for, while the account is still there, enabled
  and not suspended, it opens a session in the document root of that site, and the cookie it sets is accepted there. It works once:
  however the attempt ended, and as long as no new token with this text is made, presenting it again signs nobody in.\<close>

theorem sso_round_trip:
  assumes "MintSSO env now acct t w = (Inr tok, w1)"
    and "wf_db w2 = wf_db w" "wf_ssoTokens w2 tok = wf_ssoTokens w1 tok" "now \<le> later" "later \<le> now + webftpSSOTTL"
    and "GetFTPAccountByUsername (wf_db w) (fUsername acct) = Inr acct" "requestHost r = wt_Host t" "HasPrefix (wt_Host t) ''webftp.''"
    and "RandomString 40 (we_draw env2) = Some cookie" "handleSSO env2 later r (Some tok) w2 = (reply, w3)"
  shows "reply = SignedIn cookie (requestIsHTTPS r)
    \<and> (\<exists>sess dm. wf_sessions w3 cookie = Some sess \<and> GetDomainByName (wf_db w) (wt_Domain t) = Inr dm \<and> wn_homeDir sess = dDocumentRoot dm
        \<and> wn_username sess = fUsername acct \<and> wn_userID sess = fUserID acct \<and> wn_host sess = wt_Host t)
    \<and> (\<forall>env3 now3 r3 w4 c sec. wf_ssoTokens w4 tok = wf_ssoTokens w3 tok \<longrightarrow> fst (handleSSO env3 now3 r3 (Some tok) w4) \<noteq> SignedIn c sec)"
proof -
  obtain dm where dm: "GetDomainByName (wf_db w) (wt_Domain t) = Inr dm" "fEnabled acct" "\<not> is_suspended (wf_db w) (fUserID acct)"
    and w1: "wf_ssoTokens w1 tok = Some \<lparr>wo_userID = fUserID acct, wo_username = fUsername acct, wo_homeDir = dDocumentRoot dm, wo_host = wt_Host t,
        wo_expires = now + webftpSSOTTL\<rparr>"
    using assms(1) by (auto simp: MintSSO_def Let_def split: if_splits sum.splits option.splits)
  have h: "HasPrefix (requestHost r) ''webftp.''" using assms(7,8) by simp
  have red: "redeemSSO later tok (requestHost r) w2 = (Some \<lparr>wo_userID = fUserID acct, wo_username = fUsername acct, wo_homeDir = dDocumentRoot dm,
      wo_host = wt_Host t, wo_expires = now + webftpSSOTTL\<rparr>, w2\<lparr>wf_ssoTokens := (wf_ssoTokens w2)(tok := None)\<rparr>)"
    using w1 assms(3,5,7) by (simp add: redeemSSO_def)
  let ?s = "\<lparr>wn_userID = fUserID acct, wn_username = fUsername acct, wn_homeDir = dDocumentRoot dm, wn_host = requestHost r, wn_expires = later + webftpSessionTTL\<rparr>"
  have "reply = SignedIn cookie (requestIsHTTPS r)" "wf_sessions w3 cookie = Some ?s"
    using assms(2,6,9,10) dm(2,3) h red by (auto simp: handleSSO_def Let_def newSession_def)
  moreover have "fst (handleSSO env3 now3 r3 (Some tok) w4) \<noteq> SignedIn c sec" if "wf_ssoTokens w4 tok = wf_ssoTokens w3 tok" for env3 now3 r3 w4 c sec
    using unknown_token_refused that handleSSO_gone [OF assms(10) h] by simp
  ultimately show ?thesis using dm(1) assms(7) by auto
qed

section \<open>Files\<close>

definition guarded_call :: "wf_call \<Rightarrow> bool" where
  "guarded_call call = (case call of WRename _ \<Rightarrow> False | WDelete _ \<Rightarrow> False | WChown _ \<Rightarrow> False | WZip _ \<Rightarrow> False | _ \<Rightarrow> True)"

lemma webftp_upload_kept:
  assumes "panel_sees_all env" "accounts_local env" "fs_ok fs" "home_ok env u fs"
  shows "kept (components (homeRoot env u)) fs (snd (webftp_upload env u destDir files fs))"
  using assms(3,4)
proof (induction files arbitrary: fs)
  case (Cons x files)
  obtain name content where f: "x = (name, content)" by fastforce
  show ?case
  proof (cases content)
    case (Some data)
    obtain r fs1 where o: "OpenWrite env u (TrimSuffix destDir ''/'' @ ''/'' @ name) 420 fs = (r, fs1)" by fastforce
    note K = OpenWrite_kept [OF Cons.prems assms(1,2) o, of data]
    show ?thesis
    proof (cases r)
      case (Inl e)
      with K o f Some Cons.prems(1) show ?thesis by (simp add: kept_refl)
    next
      case (Inr h)
      then have k: "kept (components (homeRoot env u)) fs (os_Write h data fs1)" "home_ok env u (os_Write h data fs1)" using K by simp_all
      then have "kept (components (homeRoot env u)) (os_Write h data fs1) (snd (webftp_upload env u destDir files (os_Write h data fs1)))"
        using Cons.IH by (simp add: kept_def)
      with k Inr o f Some show ?thesis by (auto intro: kept_trans)
    qed
  qed (use f Cons.prems(1) in \<open>simp add: kept_refl\<close>)
qed (simp add: kept_refl)

lemma home_stat:
  assumes "fs_ok fs" "home_ok env u fs" "panel_sees_all env"
  shows "os_Stat (f_panel env) fs (homeRoot env u) \<noteq> Inl ENOENT"
proof -
  let ?R = "components (homeRoot env u)"
  have h: "homeRoot env u = path_text ?R" "plains ?R" "is_dir fs ?R" using assms(2) Clean_text plains_components by (auto simp: home_ok_def)
  have "parts (homeRoot env u) = ?R" using h(1,2) parts_text by metis
  moreover have "walk (f_panel env) fs kernel_links [] ?R = Inr ?R" using walk_real [of fs "f_panel env" "[]" ?R] assms(1,3) h by (simp add: panel_sees_all_def)
  ultimately show ?thesis using h(3) by (auto simp: os_Stat_def stat_parts_def node_at_def is_dir_def split: option.splits simp del: walk.simps)
qed

lemma read_only:
  "snd (Read env u p fs) = fs" "snd (Search env u p n fs) = fs"
  by (auto simp: Read_def Search_def OpenRead_def with_path_def as_account_def split: sum.split option.split prod.split)

lemma list_only:
  assumes "fs_ok fs" "home_ok env u fs" "panel_sees_all env"
  shows "snd (files_List env u p fs) = fs"
proof -
  have l: "lazy_home env u dir fs = (Inr (), fs)" for dir
    using home_stat [OF assms] by (auto simp: lazy_home_def split: sum.splits os_error.splits)
  have "snd (list_dir env u dir who fs) = fs" for dir who
    by (auto simp: list_dir_def split: sum.split option.split prod.split)
  then show ?thesis
    by (auto simp: files_List_def with_path_def as_account_def l split: sum.split option.split)
qed

lemma wf_op_fs: "(\<And>x w1. wf_fs (snd (k x w1)) = wf_fs w1) \<Longrightarrow> wf_fs (snd (wf_op op k w)) = snd (op (wf_fs w))"
  by (auto simp: wf_op_def Let_def split: prod.split sum.split)

lemma api_inside:
  assumes "fs_ok (wf_fs w)" "home_ok (we_files env) (sessionUser s) (wf_fs w)" "panel_sees_all (we_files env)" "accounts_local (we_files env)"
  defines "ins \<equiv> inside (components (homeRoot (we_files env) (sessionUser s))) (wf_fs w)"
  shows "ins (wf_fs (snd (apiList env p s w)))" "ins (wf_fs (snd (apiDownload env p s w)))" "ins (wf_fs (snd (apiRead env p s w)))"
    "ins (wf_fs (snd (apiSearch env p n s w)))" "ins (wf_fs (snd (apiUpload env now r u s w)))" "ins (wf_fs (snd (apiMkdir env now r m s w)))"
    "ins (wf_fs (snd (apiWrite env now r q s w)))" "ins (wf_fs (snd (apiUnzip env now r q s w)))"
    "names_ok (wf_fs w) \<Longrightarrow> ins (wf_fs (snd (apiChmod env now r c s w)))"
proof -
  note H = files_stay_home_call [OF assms(1-4)]
  have id: "ins (wf_fs w)" using assms(1) kept_refl [of "wf_fs w"] by (simp add: ins_def kept_def)
  show "ins (wf_fs (snd (apiList env p s w)))" using id list_only [OF assms(1-3)] by (simp add: apiList_def wf_op_fs)
  show "ins (wf_fs (snd (apiDownload env p s w)))" using id by (auto simp: apiDownload_def split: prod.split sum.split)
  show "ins (wf_fs (snd (apiRead env p s w)))" "ins (wf_fs (snd (apiSearch env p n s w)))"
    using id by (simp_all add: apiRead_def apiSearch_def wf_op_fs read_only)
  show "ins (wf_fs (snd (apiUpload env now r u s w)))"
  proof (cases u)
    case (Some x)
    obtain d fs where x: "x = (d, fs)" by force
    obtain e fs' where up: "webftp_upload (we_files env) (sessionUser s) d fs (wf_fs w) = (e, fs')" by force
    then have "ins fs'" using webftp_upload_kept [OF assms(3,4,1,2), of d fs] by (simp add: ins_def kept_def)
    then show ?thesis using Some x up by (auto simp: apiUpload_def Let_def split: option.split)
  qed (use id in \<open>simp add: apiUpload_def\<close>)
  show "ins (wf_fs (snd (apiMkdir env now r m s w)))"
    using id H [of "FMkdir _ _"] by (auto simp: deep_chmod_def apiMkdir_def decodeWebFTPJSON_def ins_def wf_op_fs split: option.split)
  show "ins (wf_fs (snd (apiWrite env now r q s w)))"
    using id H [of "FWrite _ _ _"] by (auto simp: deep_chmod_def apiWrite_def decodeWebFTPJSON_def ins_def wf_op_fs split: option.split)
  show "ins (wf_fs (snd (apiUnzip env now r q s w)))"
    using id H [of "FExtract _ _"] by (auto simp: deep_chmod_def apiUnzip_def decodeWebFTPJSON_def ins_def wf_op_fs split: option.split)
  show "ins (wf_fs (snd (apiChmod env now r c s w)))" if "names_ok (wf_fs w)"
    using id H [of "FChmod _ _ _"] that by (auto simp: apiChmod_def decodeWebFTPJSON_def ins_def wf_op_fs split: option.split)
qed

definition needs_session :: "wf_call \<Rightarrow> bool" where
  "needs_session call = (case call of WChallenge _ \<Rightarrow> False | WIndex \<Rightarrow> False | WLogin _ \<Rightarrow> False | WSSO _ \<Rightarrow> False | WLogout \<Rightarrow> False | _ \<Rightarrow> True)"

lemma no_session_refused: "needs_session call \<Longrightarrow> sessionFor now r w = None \<Longrightarrow> Handler env now r call w = (Failed 401 ''session expired'', w)"
  by (cases call) (simp_all add: needs_session_def withSession_def)

lemma pages_keep_files: "\<not> needs_session call \<Longrightarrow> wf_fs (snd (Handler env now r call w)) = wf_fs w"
  by (cases call) (auto simp: needs_session_def handleACMEChallenge_def handleIndex_def wf_handleLogin_def handleSSO_def handleLogout_def clearSession_def
      newSession_def redeemSSO_def Let_def split: option.splits sum.splits prod.splits if_splits)

text \<open>C34: Whatever is sent to Web FTP, no file changes at all without a live session for the host of the request. With one, listing, reading,
  searching, uploading, writing, creating directories, changing modes (of a whole tree, too) and unpacking archives change nothing outside
  the document root of the site. (Renaming, deleting, changing owners and making an archive need a session like the rest, but act on entries
  themselves and can reach outside. The document root is a real directory, the names in the file system are names, the panel may look
  everywhere, and the kernel decides lookups of the account by the directories above a name.)\<close>

theorem webftp_stays_in_site:
  assumes "Handler env now r call w = (reply, w')" "fs_ok (wf_fs w)" "names_ok (wf_fs w)" "panel_sees_all (we_files env)" "accounts_local (we_files env)"
    and "\<And>s. sessionFor now r w = Some s \<Longrightarrow> home_ok (we_files env) (sessionUser s) (wf_fs w)"
  shows "wf_fs w' = wf_fs w \<or> (\<exists>s. sessionFor now r w = Some s \<and> wn_host s = requestHost r \<and> now \<le> wn_expires s \<and> needs_session call
    \<and> (guarded_call call \<longrightarrow> inside (components (homeRoot (we_files env) (sessionUser s))) (wf_fs w) (wf_fs w')))"
proof (cases "needs_session call \<and> sessionFor now r w \<noteq> None")
  case False
  then have "wf_fs w' = wf_fs w"
    using pages_keep_files [of call env now r w] no_session_refused [of call now r w env] assms(1) by auto
  then show ?thesis ..
next
  case True
  then obtain s where s: "sessionFor now r w = Some s" by auto
  then have "wn_host s = requestHost r" "now \<le> wn_expires s" by (auto simp: sessionFor_def split: option.splits if_splits)
  moreover have "guarded_call call \<longrightarrow> inside (components (homeRoot (we_files env) (sessionUser s))) (wf_fs w) (wf_fs (snd (Handler env now r call w)))"
    using True s api_inside [OF assms(2) assms(6) [OF s] assms(4,5)] assms(3)
    by (cases call) (auto simp: needs_session_def guarded_call_def withSession_def)
  ultimately show ?thesis using s assms(1) True by auto
qed

section \<open>What ends a session\<close>

text \<open>While the owner is suspended, no session of the account is accepted and no password of its FTP accounts opens one.\<close>

lemma webftp_suspended_refused:
  assumes "is_suspended (wf_db w) i" "session_cookie r = Some v" "wf_sessions w v = Some sess" "wn_userID sess = i" "needs_session call"
  shows "Handler env now r call w = (Failed 401 ''session expired'', w)"
  using assms by (intro no_session_refused) (auto simp: sessionFor_def)

lemma suspended_login:
  assumes "is_suspended (wf_db w) i" "wf_handleLogin env now r form w = (reply, w')" "wf_sessions w' tok = Some s" "wn_userID s = i"
  shows "wf_sessions w tok = Some s"
proof (rule ccontr)
  assume "wf_sessions w tok \<noteq> Some s"
  from login_origin [OF assms(2,3) this] assms(1,4) show False by (auto simp: may_sign_in_def by_password_def)
qed

text \<open>A session does not look at its FTP account again: disabling or deleting the account, changing its password or moving its home,
  or deleting the domain, leaves every session of it as it was.\<close>

theorem webftp_session_outlives_account:
  "sessionFor now r (w\<lparr>wf_db := (wf_db w)\<lparr>ftp_accounts := fa, domains := ds\<rparr>\<rparr>) = sessionFor now r w"
proof -
  have "is_suspended ((wf_db w)\<lparr>ftp_accounts := fa, domains := ds\<rparr>) u = is_suspended (wf_db w) u" for u
    by (simp add: is_suspended_def IsManuallySuspended_def query_row_def)
  then show ?thesis by (auto simp: sessionFor_def split: option.splits)
qed

section \<open>Challenges\<close>

lemma list_all_notin: "list_all P xs \<Longrightarrow> \<not> P x \<Longrightarrow> x \<notin> set xs"
  by (auto simp: list_all_iff)

lemma plain_token:
  assumes "acmeTokenRe token"
  shows "plain token"
proof -
  have a: "list_all (\<lambda>c. c \<in> set ''abcdefghijklmnopqrstuvwxyzABCDEFGHIJKLMNOPQRSTUVWXYZ0123456789_-'') token" "token \<noteq> []"
    using assms unfolding acmeTokenRe_def by auto
  have "CHR ''/'' \<notin> set token" "CHR ''.'' \<notin> set token" by (rule list_all_notin [OF a(1)], simp)+
  then show ?thesis using a(2) by (auto simp: plain_def)
qed

lemma Join_below:
  assumes "R \<noteq> []" "ss \<noteq> []" "\<forall>x\<in>set ss. x \<noteq> []" "plains (R @ ss)"
  shows "filepath_Join (path_text R # ss) = path_text (R @ ss)"
proof -
  have "Join ''/'' (xs @ ss) = Join ''/'' xs @ ''/'' @ Join ''/'' ss" if "xs \<noteq> []" for xs
    using that assms(2) by (induction xs rule: list_nonempty_induct) (auto simp: neq_Nil_conv)
  then have "Join ''/'' (path_text R # ss) = path_text (R @ ss)" using assms(1,2) by (auto simp: path_text_def neq_Nil_conv)
  moreover have "path_text R \<noteq> []" by (simp add: path_text_def)
  moreover have "filter (\<lambda>e. e \<noteq> []) ss = ss" using assms(3) by (simp add: filter_id_conv)
  ultimately show ?thesis using Clean_of_text [OF assms(4)] by (simp add: filepath_Join_def Let_def)
qed

text \<open>The lookup of a link at a real place to a real place.\<close>

lemma walk_file:
  assumes "fs_ok fs" "\<And>fs p. i_look g fs p" "plains t" "peek fs t = Some nd" "n_kind nd = Reg data"
  shows "walk g fs n [] t = Inr t"
proof -
  obtain t' c where t: "t = t' @ [c]" using assms(1,4,5) by (cases t rule: rev_cases) (auto simp: fs_ok_def is_dir_def)
  then have c: "c \<noteq> [] \<and> c \<noteq> ''.'' \<and> c \<noteq> ''..''" using assms(3) by (simp add: plain_def)
  have d: "is_dir fs ([] @ t')" using fs_ok_parent [OF assms(1,4)] t by simp
  have "walk g fs n cur (t' @ [c]) = Inr ((cur @ t') @ [c])" if "is_dir fs (cur @ t')" "peek fs ((cur @ t') @ [c]) = Some nd" "plains t'" for cur
    using that
  proof (induction t' arbitrary: cur)
    case Nil
    then show ?case using assms(2,5) by (simp add: walk_name_step [OF c] del: walk.simps)
  next
    case (Cons b t')
    then have b: "b \<noteq> [] \<and> b \<noteq> ''.'' \<and> b \<noteq> ''..''" by (simp add: plain_def)
    have "is_dir fs (cur @ [b])" using dir_prefix [OF assms(1), of "cur @ [b]" t'] Cons.prems(1) by simp
    then have "walk g fs n cur (b # t' @ [c]) = walk g fs n (cur @ [b]) (t' @ [c])"
      using assms(2) by (auto simp: walk_name_step [OF b] is_dir_def simp del: walk.simps split: option.splits)
    then show ?case using Cons by simp
  qed
  from this [OF d] show ?thesis using assms(3,4) t by simp
qed

lemma walk_link:
  assumes "fs_ok fs" "\<And>fs p. i_look g fs p" "is_dir fs d" "plains d" "plain c" "peek fs (d @ [c]) = Some l" "n_kind l = Sym (path_text t)"
    and "plains t" "peek fs t = Some nd" "n_kind nd = Reg data"
  shows "walk g fs kernel_links [] (d @ [c]) = Inr t"
proof -
  have c: "c \<noteq> [] \<and> c \<noteq> ''.'' \<and> c \<noteq> ''..''" using assms(5) by (simp add: plain_def)
  have s: "walk g fs (Suc n) cur [c] = Inr t" if "cur = d" for n cur
    using assms(2,6,7) that walk_file [OF assms(1,2,8-10), of n] walk_text [OF assms(8), of g fs n "[]"]
    by (simp add: walk_name_step [OF c] link_base_def del: walk.simps) (simp add: path_text_def)
  have "walk g fs (Suc n) cur (ds @ [c]) = Inr t" if "d = cur @ ds" "plains ds" for n cur ds
    using that
  proof (induction ds arbitrary: cur)
    case Nil
    then show ?case using s by simp
  next
    case (Cons b ds)
    then have b: "b \<noteq> [] \<and> b \<noteq> ''.'' \<and> b \<noteq> ''..''" by (simp add: plain_def)
    have "is_dir fs (cur @ [b])" using dir_prefix [OF assms(1), of "cur @ [b]" ds] assms(3) Cons.prems(1) by simp
    then have "walk g fs (Suc n) cur (b # ds @ [c]) = walk g fs (Suc n) (cur @ [b]) (ds @ [c])"
      using assms(2) by (auto simp: walk_name_step [OF b] is_dir_def simp del: walk.simps split: option.splits)
    then show ?case using Cons by simp
  qed
  from this [of "[]" d 39] show ?thesis using assms(4) by (simp del: walk.simps)
qed

text \<open>Whoever may not look up the file itself does not get to it through the link either.\<close>

lemma link_needs_look:
  fixes g :: Ident
  assumes "fs_ok fs" "\<And>fs p. i_look g fs p" "is_dir fs d" "plains d" "plain c" "peek fs (d @ [c]) = Some l" "n_kind l = Sym (path_text t)"
    and "plains t" "peek fs t = Some nd" "n_kind nd = Reg data" and no: "\<not> i_look who fs t"
  shows "walk who fs kernel_links [] (d @ [c]) \<noteq> Inr x"
proof
  assume "walk who fs kernel_links [] (d @ [c]) = Inr x"
  then obtain e m where e: "walk who fs kernel_links [] d = Inr e" "walk who fs m e [c] = Inr x" using walk_split by blast
  have sees: "sees g who" using assms(2) by (simp add: sees_def)
  have "e = d" using walk_sees [OF e(1) sees] walk_real [OF assms(1,2), of "[]" d kernel_links] assms(3,4) by simp
  have c: "c \<noteq> [] \<and> c \<noteq> ''.'' \<and> c \<noteq> ''..''" using assms(5) by (simp add: plain_def)
  have "walk who fs (m - 1) [] t = Inr x"
    using e(2) assms(6,7) \<open>e = d\<close> walk_text [OF assms(8), of who fs "m - 1" "[]"]
    by (auto simp: walk_name_step [OF c] link_base_def simp del: walk.simps split: if_splits)
  moreover obtain t' b where t: "t = t' @ [b]" using assms(1,9,10) by (cases t rule: rev_cases) (auto simp: fs_ok_def is_dir_def)
  ultimately obtain e' m' where e': "walk who fs (m - 1) [] t' = Inr e'" "walk who fs m' e' [b] = Inr x" using walk_split by blast
  have "is_dir fs ([] @ t')" using fs_ok_parent [OF assms(1,9)] t by simp
  then have "e' = t'" using walk_sees [OF e'(1) sees] walk_real [OF assms(1,2), of "[]" t' "m - 1"] assms(8) t by simp
  have b: "b \<noteq> [] \<and> b \<noteq> ''.'' \<and> b \<noteq> ''..''" using assms(8) t by (simp add: plain_def)
  show False using e'(2) no t \<open>e' = t'\<close> by (simp add: walk_name_step [OF b] del: walk.simps)
qed

text \<open>C35: Anybody can read any file of the host through a link. The owner of a site may put a symbolic link into the challenge directory of
  the document root. If it points to a regular file, wherever that is, a request without any session for the name of the link returns the
  contents of the file: the panel reads it as root. The owner could not read it: whoever may not look up the file itself gets nothing through
  the link.\<close>

theorem acme_challenge_reads_as_root:
  assumes "acmeTokenRe token" "requestHost r = ''webftp.'' @ name" "GetDomainByName (wf_db w) name = Inr dm"
    and "dDocumentRoot dm = path_text R" "R \<noteq> []" "plains R" "fs_ok (wf_fs w)" "panel_sees_all (we_files env)"
    and "is_dir (wf_fs w) (R @ [''.well-known'', ''acme-challenge''])"
    and "peek (wf_fs w) (R @ [''.well-known'', ''acme-challenge'', token]) = Some l" "n_kind l = Sym (path_text t)"
    and "plains t" "peek (wf_fs w) t = Some nd" "n_kind nd = Reg data"
  shows "Handler env now r (WChallenge token) w = (Content data, w) \<and>
    (\<forall>who. \<not> i_look who (wf_fs w) t \<longrightarrow> (\<forall>x. os_Stat who (wf_fs w) (path_text (R @ [''.well-known'', ''acme-challenge'', token])) \<noteq> Inr x))"
proof -
  let ?d = "R @ [''.well-known'', ''acme-challenge'']"
  have pl: "plains ?d" "plain token" using assms(6) plain_token [OF assms(1)] by (simp_all add: plain_def)
  then have ps: "plains (R @ [''.well-known'', ''acme-challenge'', token])" using assms(6) by (simp add: plain_def)
  have nm: "filepath_Join [dDocumentRoot dm, ''.well-known'', ''acme-challenge'', token] = path_text (R @ [''.well-known'', ''acme-challenge'', token])"
    unfolding assms(4) using Join_below [OF assms(5) _ _ ps] pl(2) by (simp add: plain_def)
  have l: "peek (wf_fs w) (?d @ [token]) = Some l" using assms(10) by simp
  have g: "i_look (f_panel (we_files env)) fs p" for fs p using assms(8) by (simp add: panel_sees_all_def)
  have "walk (f_panel (we_files env)) (wf_fs w) kernel_links [] (?d @ [token]) = Inr t"
    by (rule walk_link [OF assms(7) g assms(9) pl l assms(11-14)])
  then have st: "os_Stat (f_panel (we_files env)) (wf_fs w) (path_text (R @ [''.well-known'', ''acme-challenge'', token])) = Inr (t, nd)"
    using assms(13) ps by (simp add: os_Stat_def stat_parts_def node_at_def del: walk.simps)
  have "TrimPrefix (requestHost r) ''webftp.'' = name" "name \<noteq> requestHost r" unfolding assms(2) TrimPrefix_append by (simp_all add: neq_Nil_conv)
  then have "Handler env now r (WChallenge token) w = (Content data, w)"
    using assms(1,3,14) st nm by (simp add: handleACMEChallenge_def os_Open_def node_data_def Let_def)
  moreover have "os_Stat who (wf_fs w) (path_text (R @ [''.well-known'', ''acme-challenge'', token])) \<noteq> Inr x" if "\<not> i_look who (wf_fs w) t" for who x
    using link_needs_look [OF assms(7) g assms(9) pl l assms(11-14) that] ps
    by (auto simp: os_Stat_def stat_parts_def bindR_Inr_iff simp del: walk.simps)
  ultimately show ?thesis by blast
qed

section \<open>A concrete site\<close>

text \<open>Alice (id 2) has the site \<^verbatim>\<open>a.test\<close> in \<^verbatim>\<open>/home/alice/docs\<close> and an FTP account for her home.\<close>

definition ex_wf_domain :: Domain where
  "ex_wf_domain = ex_domain\<lparr>dID := 1, dUserID := 2, dDocumentRoot := ''/home/alice/docs'', dUsername := ''alice''\<rparr>"

definition ex_wf_acct :: FTPAccount where
  "ex_wf_acct = \<lparr>fID = 1, fUserID = 2, fUsername = ''alice'', fPasswordHash = ''pw'', fHomeDir = ''/home/alice'', fEnabled = True, fCreatedAt = 0\<rparr>"

definition ex_wf_db :: db where
  "ex_wf_db = (ast_db ex_state)\<lparr>domains := \<lparr>trows = [DomainRow.truncate ex_wf_domain], tseq = 1\<rparr>, ftp_accounts := \<lparr>trows = [ex_wf_acct], tseq = 1\<rparr>\<rparr>"

definition ex_wf_fs :: fs where
  "ex_wf_fs = map (map_prod id ex_node) [([''home'', ''alice'', ''docs'', ''.well-known''], Dir), ([''home'', ''alice'', ''docs'', ''.well-known'', ''acme-challenge''], Dir),
     ([''home'', ''alice'', ''docs'', ''.well-known'', ''acme-challenge'', ''x''], Sym ''/etc/shadow''), ([''etc'', ''shadow''], Reg ''root:hash'')] @ ex_fs"

definition ex_wf :: WebFTP where
  "ex_wf = \<lparr>wf_db = ex_wf_db, wf_fs = ex_wf_fs, wf_sessions = Map.empty, wf_ssoTokens = Map.empty\<rparr>"

definition ex_wf_env :: WfEnv where
  "ex_wf_env = \<lparr>we_files = ex_files [], we_lib = ex_lib [], we_draw = (\<lambda>_. Some 0)\<rparr>"

definition ex_wf_token :: string where
  "ex_wf_token = the (RandomString 40 (\<lambda>_. Some 0))"

definition ex_wf_request :: "Header \<Rightarrow> SiteRequest" where
  "ex_wf_request h = \<lparr>rMethod = ''POST'', rHost = ''WebFTP.a.test:443'', rURL = \<lparr>uPath = ''/login'', uRawPath = [], uRawQuery = [], uForceQuery = False\<rparr>,
     rProto = ''HTTP/1.1'', rTLS = False, rRemoteAddr = ''127.0.0.1:1234'', rHeader = h, rContentLength = 0, rBody = [], rOrigURI = None\<rparr>"

definition ex_wf_target :: WebFTPTarget where
  "ex_wf_target = \<lparr>wt_Domain = ''a.test'', wt_Host = ''webftp.a.test'', wt_HTTPS = False\<rparr>"

definition ex_wf_session :: webftpSession where
  "ex_wf_session = \<lparr>wn_userID = 2, wn_username = ''alice'', wn_homeDir = ''/home/alice/docs'', wn_host = ''webftp.a.test'', wn_expires = webftpSessionTTL\<rparr>"

lemma ex_wf_facts:
  "GetDomainByName ex_wf_db ''a.test'' = Inr ex_wf_domain" "GetFTPAccountByUsername ex_wf_db ''alice'' = Inr ex_wf_acct"
  "is_suspended ex_wf_db 2 = False" "acctCoversHome (fHomeDir ex_wf_acct) (dDocumentRoot ex_wf_domain) = True"
  "requestHost (ex_wf_request h) = ''webftp.a.test''" "TrimPrefix ''webftp.a.test'' ''webftp.'' = ''a.test''" "TrimSpace ''alice'' = ''alice''"
  "HasPrefix ''webftp.a.test'' ''webftp.'' = True" "RandomString 40 (\<lambda>_. Some 0) = Some ex_wf_token"
  by (code_simp+)

lemma ex_wf_login:
  "\<exists>reply w'. Handler ex_wf_env 0 (ex_wf_request []) (WLogin (Some (''alice'', ''pw''))) ex_wf = (reply, w') \<and> wf_sessions w' ex_wf_token = Some ex_wf_session"
  using ex_wf_facts
  by (simp add: wf_handleLogin_def newSession_def ex_wf_def ex_wf_env_def ex_wf_acct_def ex_wf_domain_def ex_wf_session_def ex_lib_def)

theorem webftp_session_origin_witness:
  "may_sign_in ex_wf ''alice'' \<and> by_password ex_wf_env ex_wf (Some (''alice'', ''pw'')) ex_wf_session"
proof -
  obtain reply w' where l: "Handler ex_wf_env 0 (ex_wf_request []) (WLogin (Some (''alice'', ''pw''))) ex_wf = (reply, w')" "wf_sessions w' ex_wf_token = Some ex_wf_session"
    using ex_wf_login by blast
  have "wf_sessions ex_wf ex_wf_token \<noteq> Some ex_wf_session" by (simp add: ex_wf_def)
  moreover have "wn_username ex_wf_session = ''alice''" by (simp add: ex_wf_session_def)
  ultimately show ?thesis using webftp_session_origin [OF l] by auto
qed

theorem sso_round_trip_witness:
  "\<exists>tok w1 reply w3 sess. MintSSO ex_wf_env 0 ex_wf_acct ex_wf_target ex_wf = (Inr tok, w1)
    \<and> handleSSO ex_wf_env (seconds 59) (ex_wf_request []) (Some tok) w1 = (reply, w3)
    \<and> reply = SignedIn ex_wf_token (requestIsHTTPS (ex_wf_request [])) \<and> wf_sessions w3 ex_wf_token = Some sess \<and> wn_homeDir sess = ''/home/alice/docs''"
proof -
  obtain w1 where m: "MintSSO ex_wf_env 0 ex_wf_acct ex_wf_target ex_wf = (Inr ex_wf_token, w1)" and db: "wf_db w1 = wf_db ex_wf"
    using ex_wf_facts by (simp add: MintSSO_def ex_wf_def ex_wf_env_def ex_wf_acct_def ex_wf_target_def Let_def)
  obtain reply w3 where h: "handleSSO ex_wf_env (seconds 59) (ex_wf_request []) (Some ex_wf_token) w1 = (reply, w3)" by force
  have f: "GetFTPAccountByUsername (wf_db ex_wf) (fUsername ex_wf_acct) = Inr ex_wf_acct" "requestHost (ex_wf_request []) = wt_Host ex_wf_target"
      "HasPrefix (wt_Host ex_wf_target) ''webftp.''" "RandomString 40 (we_draw ex_wf_env) = Some ex_wf_token" "(0 :: int) \<le> seconds 59" "seconds 59 \<le> 0 + webftpSSOTTL"
    using ex_wf_facts by (simp_all add: ex_wf_def ex_wf_acct_def ex_wf_target_def ex_wf_env_def)
  from sso_round_trip [OF m db refl f(5,6) f(1-4) h] m h show ?thesis
    using ex_wf_facts(1) by (auto simp: ex_wf_def ex_wf_target_def ex_wf_domain_def)
qed

definition ex_wf_in :: WebFTP where
  "ex_wf_in = ex_wf\<lparr>wf_fs := ex_fs, wf_sessions := [''c'' \<mapsto> ex_wf_session]\<rparr>"

abbreviation ex_wf_cookie :: SiteRequest where "ex_wf_cookie \<equiv> ex_wf_request [(''Cookie'', [''aegis_webftp=c''])]"

lemma ex_wf_cookie_val: "session_cookie ex_wf_cookie = Some ''c''"
  by code_simp

lemma ex_wf_session_for: "sessionFor 0 (ex_wf_request [(''Cookie'', [''aegis_webftp=c''])]) ex_wf_in = Some ex_wf_session"
proof -
  have "session_cookie (ex_wf_request [(''Cookie'', [''aegis_webftp=c''])]) = Some ''c''" by (rule ex_wf_cookie_val)
  then show ?thesis using ex_wf_facts by (simp add: sessionFor_def ex_wf_in_def ex_wf_def ex_wf_session_def)
qed

theorem webftp_stays_in_site_witness:
  "\<exists>reply w'. Handler ex_wf_env 0 (ex_wf_request [(''Cookie'', [''aegis_webftp=c''])]) (WWrite (Some (''../../out/passwd'', ''x''))) ex_wf_in = (reply, w')
    \<and> (wf_fs w' = ex_fs \<or> inside (components (homeRoot (ex_files []) (sessionUser ex_wf_session))) ex_fs (wf_fs w'))"
proof -
  let ?r = "ex_wf_request [(''Cookie'', [''aegis_webftp=c''])]" and ?call = "WWrite (Some (''../../out/passwd'', ''x''))"
  obtain reply w' where h: "Handler ex_wf_env 0 ?r ?call ex_wf_in = (reply, w')" by force
  have e: "we_files ex_wf_env = ex_files []" "wf_fs ex_wf_in = ex_fs" by (simp_all add: ex_wf_env_def ex_wf_in_def)
  have g: "guarded_call ?call" by (simp add: guarded_call_def)
  have n: "names_ok (wf_fs ex_wf_in)" unfolding e by code_simp
  have home: "home_ok (ex_files []) (sessionUser ex_wf_session) ex_fs" by code_simp
  have hm: "\<And>s. sessionFor 0 ?r ex_wf_in = Some s \<Longrightarrow> home_ok (we_files ex_wf_env) (sessionUser s) (wf_fs ex_wf_in)"
    using home by (simp add: e ex_wf_session_for)
  have "fs_ok (wf_fs ex_wf_in)" "panel_sees_all (we_files ex_wf_env)" "accounts_local (we_files ex_wf_env)" using ex_files_ok e by simp_all
  from webftp_stays_in_site [OF h this(1) n this(2,3) hm] h g show ?thesis by (auto simp: e ex_wf_session_for)
qed

theorem acme_challenge_reads_as_root_witness:
  "Handler ex_wf_env 0 (ex_wf_request []) (WChallenge ''x'') ex_wf = (Content ''root:hash'', ex_wf) \<and>
   (\<forall>x. os_Stat (ex_ident\<lparr>i_look := (\<lambda>_ p. p \<noteq> [''etc'', ''shadow''])\<rparr>) ex_wf_fs ''/home/alice/docs/.well-known/acme-challenge/x'' \<noteq> Inr x)"
proof -
  let ?R = "[''home'', ''alice'', ''docs'']" and ?t = "[''etc'', ''shadow'']" and ?alice = "ex_ident\<lparr>i_look := (\<lambda>_ p. p \<noteq> [''etc'', ''shadow''])\<rparr>"
  have w: "wf_fs ex_wf = ex_wf_fs" "we_files ex_wf_env = ex_files []" by (simp_all add: ex_wf_def ex_wf_env_def)
  have t: "acmeTokenRe ''x''" "requestHost (ex_wf_request []) = ''webftp.'' @ ''a.test''" "GetDomainByName (wf_db ex_wf) ''a.test'' = Inr ex_wf_domain"
    using ex_wf_facts by (simp_all add: acmeTokenRe_def ex_wf_def)
  have d: "dDocumentRoot ex_wf_domain = path_text ?R" "plains ?R" "plains ?t" "path_text ?t = ''/etc/shadow''"
      "path_text (?R @ [''.well-known'', ''acme-challenge'', ''x'']) = ''/home/alice/docs/.well-known/acme-challenge/x''" by code_simp+
  have f: "fs_ok ex_wf_fs" "is_dir ex_wf_fs (?R @ [''.well-known'', ''acme-challenge''])"
      "peek ex_wf_fs (?R @ [''.well-known'', ''acme-challenge'', ''x'']) = Some (ex_node (Sym ''/etc/shadow''))" "peek ex_wf_fs ?t = Some (ex_node (Reg ''root:hash''))"
    by code_simp+
  have k: "n_kind (ex_node (Sym ''/etc/shadow'')) = Sym (path_text ?t)" "n_kind (ex_node (Reg ''root:hash'')) = Reg ''root:hash''" "\<not> i_look ?alice ex_wf_fs ?t"
    using d(4) by (simp_all add: ex_node_def)
  note a = acme_challenge_reads_as_root [of "''x''" "ex_wf_request []" "''a.test''" ex_wf ex_wf_domain ?R ex_wf_env _ ?t _ "''root:hash''" 0, OF t d(1) _ d(2)]
  show ?thesis using a [unfolded w, OF _ f(1) ex_files_ok(3) f(2,3) k(1) d(3) f(4) k(2)] k(3) d(5) by auto
qed

end
