(* ===== verification/Api_Dbeditor.thy ===== *)
theory Api_Dbeditor
  imports Api Dbeditor_Schema Dbeditor_Objects Dbeditor_Io
begin

text \<open>
  The handlers of the database editor (\<^verbatim>\<open>api/handlers_dbeditor.go\<close>, \<^verbatim>\<open>api/handlers_dbeditor_io.go\<close>,
  \<^verbatim>\<open>api/handlers_dbeditor_schema.go\<close>): who may use a database, the connection made for a request, what is audited, and the answers.

  The host state of the server holds the running editor requests of every account and the state of the database server. Bodies and
  query parameters are arguments, \<open>None\<close> when they cannot be decoded; an import gets the upload as \<open>ImportStream\<close> delivers it.
\<close>

record 'w EdHost =
  eh_sems :: sems
  eh_world :: 'w

text \<open>How a connection is made: the settings given to the MySQL driver, or the URL given to the PostgreSQL driver.\<close>

record MysqlConf =
  mc_Addr :: string
  mc_User :: string
  mc_Passwd :: string
  mc_DBName :: string
  mc_ClientFoundRows :: bool
  mc_Timeout :: int
  mc_ReadTimeout :: int
  mc_WriteTimeout :: int
  mc_charset :: string

datatype dial = DialMysql MysqlConf | DialPg string

text \<open>What the editor works with: the secret box of the store, host and port of the two servers, dialling (\<open>Some\<close> for an error of the
  first ping), the server as the user of a database sees it, its catalog, how numbers and times are printed, and the time stamp of
  downloads.\<close>

record 'w EdEnv =
  ee_box :: "SecretBox option"
  ee_MariaDB :: "string \<times> int"
  ee_PostgreSQL :: "string \<times> int"
  ee_dial :: "dial \<Rightarrow> 'w \<Rightarrow> string option"
  ee_server :: "Database \<Rightarrow> 'w dbserver"
  ee_catalog :: "Database \<Rightarrow> 'w catalog"
  ee_formats :: formats
  ee_stamp :: string

datatype ed_msg = EdText string | EdEdit edit_error | EdScriptErr script_error | EdSchemaErr schema_error

datatype ed_body = EdErr ed_msg | EdTables "EditorTable list" | EdStructure EditorStructure | EdResult EditorResult | EdRow "string \<rightharpoonup> cell" | EdAffected int
  | EdOk | EdScript "ScriptResult list" "script_error option" | EdSQL string | EdFile string string | EdAborted | EdImport ImportResult
  | EdInfo string string "SchemaTypeInfo list" | EdSchema SchemaResult | EdMaint string "EditorResult option" | EdSearch SearchResult
  | EdObjects "EditorObject list"

type_synonym ed_response = "nat \<times> ed_body"
type_synonym 'w ed_handler = "Database \<Rightarrow> 'w conn \<Rightarrow> 'w EdHost Server \<Rightarrow> ed_response \<times> 'w conn \<times> 'w EdHost Server"

abbreviation ed_err :: "nat \<Rightarrow> string \<Rightarrow> ed_response" where "ed_err status m \<equiv> (status, EdErr (EdText m))"

abbreviation editorLongTimeout :: int where "editorLongTimeout \<equiv> hours 6"

definition db_dialect :: "Database \<Rightarrow> dialect" where
  "db_dialect row = (if bServer row = ''postgres'' then pgDialect else mysqlDialect)"

section \<open>Connecting\<close>

definition dial_of :: "'w EdEnv \<Rightarrow> Database \<Rightarrow> int \<Rightarrow> dial option" where
  "dial_of env row limit =
    (if bServer row = ''mariadb'' then Some (DialMysql
       \<lparr>mc_Addr = fst (ee_MariaDB env) @ '':'' @ decimal_int (snd (ee_MariaDB env)), mc_User = bDBUser row, mc_Passwd = bDBPassword row, mc_DBName = bName row,
        mc_ClientFoundRows = True, mc_Timeout = seconds 5, mc_ReadTimeout = limit + seconds 5, mc_WriteTimeout = seconds 15, mc_charset = ''utf8mb4''\<rparr>)
     else if bServer row = ''postgres'' then Some (DialPg
       (''postgres://'' @ QueryEscape (bDBUser row) @ '':'' @ QueryEscape (bDBPassword row) @ ''@'' @ fst (ee_PostgreSQL env) @ '':'' @ decimal_int (snd (ee_PostgreSQL env))
        @ ''/'' @ PathEscape (bName row) @ ''?sslmode=disable&connect_timeout=5&statement_timeout='' @ decimal_int (limit div 1000000)))
     else None)"

definition connect :: "'w EdEnv \<Rightarrow> Database \<Rightarrow> int \<Rightarrow> 'w \<Rightarrow> string + 'w conn" where
  "connect env row limit w = (case dial_of env row limit of None \<Rightarrow> Inl ''unsupported database server''
     | Some dl \<Rightarrow> (case ee_dial env dl w of Some e \<Rightarrow> Inl (''could not connect to the database: '' @ e)
     | None \<Rightarrow> let c = \<lparr>es_db = w, es_sent = []\<rparr> in
         Inr (if bServer row = ''mariadb'' then snd (ExecContext (ee_server env row) (''SET SESSION max_statement_time = '' @ decimal_int (limit div seconds 1)) [] c) else c)))"

text \<open>\<open>OpenWithLimit\<close>: a slot of the owner of the database, then the connection; a failed connection gives the slot back.\<close>

definition OpenWithLimit :: "'w EdEnv \<Rightarrow> Database \<Rightarrow> int \<Rightarrow> 'w EdHost \<Rightarrow> (string + 'w conn) \<times> 'w EdHost" where
  "OpenWithLimit env row limit h = (case acquire False (bUserID row) (eh_sems h) of
     (None, sm) \<Rightarrow> (Inl ''too many database editor requests are running for this account; try again in a moment'', h\<lparr>eh_sems := sm\<rparr>)
   | (Some sm, _) \<Rightarrow> (case connect env row limit (eh_world h) of
       Inl e \<Rightarrow> (Inl e, h\<lparr>eh_sems := release (bUserID row) sm\<rparr>)
     | Inr c \<Rightarrow> (Inr c, h\<lparr>eh_sems := sm\<rparr>)))"

text \<open>\<open>Close\<close>, when the handler is done: the work of the connection stays, the slot is given back.\<close>

definition close_conn :: "Database \<Rightarrow> 'w conn \<Rightarrow> 'w EdHost \<Rightarrow> 'w EdHost" where
  "close_conn row c h = \<lparr>eh_sems = release (bUserID row) (eh_sems h), eh_world = es_db c\<rparr>"

definition withEditorFor :: "'w EdEnv option \<Rightarrow> int \<Rightarrow> Request \<Rightarrow> Ctx \<Rightarrow> ('w EdEnv \<Rightarrow> 'w ed_handler) \<Rightarrow> 'w EdHost Server \<Rightarrow> ed_response \<times> 'w EdHost Server" where
  "withEditorFor editor timeout r ctx k srv =
    (case editor of None \<Rightarrow> (ed_err 503 ''the database editor is not available'', srv)
     | Some env \<Rightarrow> (case pathID r of Inl m \<Rightarrow> (ed_err 400 m, srv)
     | Inr i \<Rightarrow> (case GetDatabase (ee_box env) (srv_db srv) i of Inl _ \<Rightarrow> (ed_err 404 ''database not found'', srv)
     | Inr row \<Rightarrow> (case ctxUser ctx of None \<Rightarrow> (ed_err 500 ''internal server error'', srv)
     | Some u \<Rightarrow>
        if bUserID row \<noteq> uID u \<and> uRole u \<noteq> RoleAdmin then (ed_err 403 ''cannot manage this database'', srv)
        else let limit = (if timeout > minutes 1 then timeout else seconds 30) in
          (case OpenWithLimit env row limit (srv_host srv) of
             (Inl e, h) \<Rightarrow> (ed_err 502 e, srv\<lparr>srv_host := h\<rparr>)
           | (Inr c, h) \<Rightarrow> (case k env row c (srv\<lparr>srv_host := h\<rparr>) of
               (resp, c', srv') \<Rightarrow> (resp, srv'\<lparr>srv_host := close_conn row c' (srv_host srv')\<rparr>)))))))"

definition withEditor :: "'w EdEnv option \<Rightarrow> Request \<Rightarrow> Ctx \<Rightarrow> ('w EdEnv \<Rightarrow> 'w ed_handler) \<Rightarrow> 'w EdHost Server \<Rightarrow> ed_response \<times> 'w EdHost Server" where
  "withEditor editor = withEditorFor editor (seconds 45)"

definition withEditorLong :: "'w EdEnv option \<Rightarrow> Request \<Rightarrow> Ctx \<Rightarrow> ('w EdEnv \<Rightarrow> 'w ed_handler) \<Rightarrow> 'w EdHost Server \<Rightarrow> ed_response \<times> 'w EdHost Server" where
  "withEditorLong editor r ctx k = withEditorFor editor editorLongTimeout r ctx
     (\<lambda>env row c srv. k env row (AllowLongRun (db_dialect row) (ee_server env row) editorLongTimeout c) srv)"

text \<open>One line of the audit log, capped at 300 bytes.\<close>

definition editorAudit :: "Request \<Rightarrow> gotime \<Rightarrow> Ctx \<Rightarrow> string \<Rightarrow> Database \<Rightarrow> string \<Rightarrow> 'h Server \<Rightarrow> 'h Server" where
  "editorAudit r tm ctx action row detail srv = (let d = Join '' '' (Fields detail); d' = (if length d > 300 then take 300 d @ ellipsis else d) in
     audit r tm ctx action (bServer row @ ''/'' @ bName row) d' srv)"

section \<open>Browsing and editing\<close>

definition ed_answer :: "(edit_error + 'a) \<Rightarrow> ('a \<Rightarrow> ed_body) \<Rightarrow> ed_response" where
  "ed_answer res f = (case res of Inl e \<Rightarrow> (400, EdErr (EdEdit e)) | Inr x \<Rightarrow> (200, f x))"

definition handleEditorTables :: "'w EdEnv \<Rightarrow> 'w ed_handler" where
  "handleEditorTables env row c srv = (ed_answer (Tables (ee_server env row) c) EdTables, c, srv)"

definition handleEditorStructure :: "string \<Rightarrow> 'w EdEnv \<Rightarrow> 'w ed_handler" where
  "handleEditorStructure table env row c srv = (ed_answer (Structure (db_dialect row) (ee_server env row) c table) EdStructure, c, srv)"

text \<open>The filters: absent, not decodable, or decoded.\<close>

definition handleEditorRows :: "string \<Rightarrow> string \<Rightarrow> string \<Rightarrow> int \<Rightarrow> int \<Rightarrow> EditorFilter list option option \<Rightarrow> 'w EdEnv \<Rightarrow> 'w ed_handler" where
  "handleEditorRows table order dir page pageSize filters env row c srv =
    (case filters of Some None \<Rightarrow> (ed_err 400 ''invalid filters'', c, srv)
     | _ \<Rightarrow> let fs = (case filters of Some (Some fs) \<Rightarrow> fs | _ \<Rightarrow> []) in
        (case Browse (ee_formats env) (db_dialect row) (ee_server env row)
            \<lparr>br_Table = table, br_Page = page, br_PageSize = pageSize, br_Sort = order, br_Desc = EqualFold dir ''desc'', br_Filters = fs\<rparr> c of
           (res, c1) \<Rightarrow> (ed_answer res EdResult, c1, srv)))"

definition handleEditorRowGet :: "string \<Rightarrow> jsonobject option \<Rightarrow> 'w EdEnv \<Rightarrow> 'w ed_handler" where
  "handleEditorRowGet table key env row c srv = (case key of None \<Rightarrow> (ed_err 400 ''invalid key'', c, srv)
     | Some k \<Rightarrow> (case GetRow (ee_formats env) (db_dialect row) (ee_server env row) table k c of (res, c1) \<Rightarrow> (ed_answer res EdRow, c1, srv)))"

record editorRowReq =
  rq_Key :: jsonobject
  rq_Values :: jsonobject

definition readJSONExact :: "'a option \<Rightarrow> ('a \<Rightarrow> 'w conn \<Rightarrow> 'h Server \<Rightarrow> ed_response \<times> 'w conn \<times> 'h Server) \<Rightarrow> 'w conn \<Rightarrow> 'h Server \<Rightarrow> ed_response \<times> 'w conn \<times> 'h Server" where
  "readJSONExact req k c srv = (case req of None \<Rightarrow> (ed_err 400 ''invalid request body'', c, srv) | Some x \<Rightarrow> k x c srv)"

text \<open>A change of one row is audited once it has been made.\<close>

definition row_changed :: "Request \<Rightarrow> gotime \<Rightarrow> Ctx \<Rightarrow> string \<Rightarrow> Database \<Rightarrow> string \<Rightarrow> (edit_error + int) \<times> 'w conn \<Rightarrow> 'h Server \<Rightarrow> ed_response \<times> 'w conn \<times> 'h Server" where
  "row_changed r tm ctx action row table res srv = (case res of
     (Inl e, c1) \<Rightarrow> ((400, EdErr (EdEdit e)), c1, srv) | (Inr n, c1) \<Rightarrow> ((200, EdAffected n), c1, editorAudit r tm ctx action row table srv))"

definition handleEditorRowInsert :: "Request \<Rightarrow> gotime \<Rightarrow> Ctx \<Rightarrow> string \<Rightarrow> editorRowReq option \<Rightarrow> 'w EdEnv \<Rightarrow> 'w ed_handler" where
  "handleEditorRowInsert r tm ctx table req env row = readJSONExact req (\<lambda>x c.
     row_changed r tm ctx ''dbeditor.insert'' row table (Insert (ee_formats env) (db_dialect row) (ee_server env row) table (rq_Values x) c))"

definition handleEditorRowUpdate :: "Request \<Rightarrow> gotime \<Rightarrow> Ctx \<Rightarrow> string \<Rightarrow> editorRowReq option \<Rightarrow> 'w EdEnv \<Rightarrow> 'w ed_handler" where
  "handleEditorRowUpdate r tm ctx table req env row = readJSONExact req (\<lambda>x c.
     row_changed r tm ctx ''dbeditor.update'' row table (Update (ee_formats env) (db_dialect row) (ee_server env row) table (rq_Key x) (rq_Values x) c))"

definition handleEditorRowDelete :: "Request \<Rightarrow> gotime \<Rightarrow> Ctx \<Rightarrow> string \<Rightarrow> editorRowReq option \<Rightarrow> 'w EdEnv \<Rightarrow> 'w ed_handler" where
  "handleEditorRowDelete r tm ctx table req env row = readJSONExact req (\<lambda>x c.
     row_changed r tm ctx ''dbeditor.delete'' row table (Delete_row (ee_formats env) (db_dialect row) (ee_server env row) table (rq_Key x) c))"

text \<open>A statement of the console is audited before it runs.\<close>

definition handleEditorQuery :: "Request \<Rightarrow> gotime \<Rightarrow> Ctx \<Rightarrow> (string \<times> int) option \<Rightarrow> 'w EdEnv \<Rightarrow> 'w ed_handler" where
  "handleEditorQuery r tm ctx req env row = readJSONExact req (\<lambda>(sql, limit) c srv.
     let srv1 = editorAudit r tm ctx ''dbeditor.query'' row sql srv in
     (case Exec (ee_formats env) (db_dialect row) (ee_server env row) sql limit c of (res, c1) \<Rightarrow> (ed_answer res EdResult, c1, srv1)))"

definition handleEditorDestroy :: "bool \<Rightarrow> Request \<Rightarrow> gotime \<Rightarrow> Ctx \<Rightarrow> string \<Rightarrow> string option \<Rightarrow> 'w EdEnv \<Rightarrow> 'w ed_handler" where
  "handleEditorDestroy drop_it r tm ctx table req env row = readJSONExact req (\<lambda>confirm c srv.
     if confirm \<noteq> table then (ed_err 400 ''type the table name to confirm'', c, srv)
     else (case (if drop_it then Drop (db_dialect row) (ee_server env row) table c else Truncate (db_dialect row) (ee_server env row) table c) of
         (Inl e, c1) \<Rightarrow> ((400, EdErr (EdEdit e)), c1, srv)
       | (Inr _, c1) \<Rightarrow> ((200, EdOk), c1, editorAudit r tm ctx (if drop_it then ''dbeditor.drop'' else ''dbeditor.truncate'') row table srv)))"

section \<open>Scripts, exports and imports\<close>

definition handleEditorScript :: "Request \<Rightarrow> gotime \<Rightarrow> Ctx \<Rightarrow> (string \<times> int) option \<Rightarrow> 'w EdEnv \<Rightarrow> 'w ed_handler" where
  "handleEditorScript r tm ctx req env row = readJSONExact req (\<lambda>(sql, limit) c srv.
     case ExecScript (editorAudit r tm ctx ''dbeditor.query'' row) (ee_formats env) (db_dialect row) (ee_server env row) sql limit c srv of (results, e, c1, srv1) \<Rightarrow>
       (case e of Some err \<Rightarrow> if results = [] then ((400, EdErr (EdScriptErr err)), c1, srv1) else ((200, EdScript results (Some err)), c1, srv1)
        | None \<Rightarrow> ((200, EdScript results None), c1, srv1)))"

definition handleEditorDefinition :: "string \<Rightarrow> 'w EdEnv \<Rightarrow> 'w ed_handler" where
  "handleEditorDefinition table env row c srv =
    (case Definition (db_dialect row) (ee_server env row) table c of (res, c1) \<Rightarrow> (ed_answer res EdSQL, c1, srv))"

text \<open>\<open>unsafeFilename.ReplaceAllString(base, "_")\<close>: every run of other characters becomes one underscore.\<close>

definition name_safe :: "char \<Rightarrow> bool" where
  "name_safe c \<longleftrightarrow> c \<in> set ''abcdefghijklmnopqrstuvwxyzABCDEFGHIJKLMNOPQRSTUVWXYZ0123456789._-''"

fun safe_runs :: "bool \<Rightarrow> string \<Rightarrow> string" where
  "safe_runs inside [] = []"
| "safe_runs inside (c # cs) = (if name_safe c then c # safe_runs False cs else (if inside then [] else ''_'') @ safe_runs True cs)"

definition downloadName :: "string \<Rightarrow> string \<Rightarrow> string \<Rightarrow> string" where
  "downloadName stamp base ext = (let b = TrimSet ''._'' (safe_runs False base) in (if b = [] then ''export'' else b) @ ''-'' @ stamp @ ext)"

definition flag :: "string \<Rightarrow> bool" where
  "flag v \<longleftrightarrow> ToLower v \<in> {''1'', ''true'', ''yes'', ''on''}"

record exportReq =
  xq_format :: string
  xq_tables :: "string list"
  xq_structure :: string
  xq_data :: string
  xq_drop :: string
  xq_header :: string
  xq_null :: string

text \<open>An error after the first byte aborts the connection (\<open>EdAborted\<close>).\<close>

definition handleEditorExport :: "Request \<Rightarrow> gotime \<Rightarrow> Ctx \<Rightarrow> string \<Rightarrow> exportReq \<Rightarrow> 'w EdEnv \<Rightarrow> 'w ed_handler" where
  "handleEditorExport r tm ctx generated q env row c srv =
    (let d = db_dialect row; s = ee_server env row; tables = xq_tables q;
         opts = \<lparr>xo_Tables = tables, xo_Structure = flag (xq_structure q), xo_Data = flag (xq_data q), xo_DropIfExists = flag (xq_drop q)\<rparr>;
         srv1 = editorAudit r tm ctx ''dbeditor.export'' row (xq_format q @ '' '' @ Join '','' tables) srv in
     if length tables > 500 then (ed_err 400 ''too many tables selected'', c, srv)
     else if xq_format q = ''csv'' then
       (case tables of [t] \<Rightarrow> (case Structure d s c t of Inl e \<Rightarrow> ((400, EdErr (EdEdit e)), c, srv)
           | Inr _ \<Rightarrow> (case ExportCSV (ee_formats env) d s t (xq_header q \<noteq> ''0'') (xq_null q) c of
               (Inl _, c1) \<Rightarrow> ((200, EdAborted), c1, srv1)
             | (Inr out, c1) \<Rightarrow> ((200, EdFile (downloadName (ee_stamp env) t ''.csv'') out), c1, srv1)))
        | _ \<Rightarrow> (ed_err 400 ''choose exactly one table for a CSV export'', c, srv))
     else if xq_format q = ''sql'' then
       (if \<not> xo_Structure opts \<and> \<not> xo_Data opts then (ed_err 400 ''choose structure, data or both'', c, srv)
        else case ExportSQL (ee_formats env) d s generated (bName row) opts c of
          (Some _, _, c1) \<Rightarrow> ((200, EdAborted), c1, srv1)
        | (None, out, c1) \<Rightarrow> ((200, EdFile (downloadName (ee_stamp env) (bName row) ''.sql'') out), c1, srv1))
     else (ed_err 400 ''format must be sql or csv'', c, srv))"

text \<open>A part of the body of an upload: its form name, its bytes, and whether reading it ends in an error.\<close>

type_synonym part = "string \<times> string \<times> bool"

fun open_parts :: "(string \<times> string) list \<Rightarrow> part list \<Rightarrow> string + (string \<times> string) list \<times> upload" where
  "open_parts acc [] = Inl ''choose a file to import''"
| "open_parts acc ((name, bytes, broken) # ps) = (if name = ''file'' then Inr (acc, ImportStream bytes broken) else open_parts ((name, take 4096 bytes) # acc) ps)"

definition openUpload :: "part list option \<Rightarrow> string + (string \<times> string) list \<times> upload" where
  "openUpload body = (case body of None \<Rightarrow> Inl ''expected a file upload'' | Some ps \<Rightarrow> open_parts [] ps)"

definition form_value :: "(string \<times> string) list \<Rightarrow> string \<Rightarrow> string" where
  "form_value form k = (case map_of form k of None \<Rightarrow> [] | Some v \<Rightarrow> v)"

definition csv_delimiter :: "string \<Rightarrow> char option option" where
  "csv_delimiter d = (if d = [] then Some None else if d = ''tab'' then Some (Some (CHR 0x09))
     else if d = '','' \<or> d = '';'' \<or> d = ''|'' then Some (Some (hd d)) else None)"

definition import_done :: "Request \<Rightarrow> gotime \<Rightarrow> Ctx \<Rightarrow> Database \<Rightarrow> (ImportResult \<times> import_error option) \<times> 'w conn \<Rightarrow> 'h Server \<Rightarrow> ed_response \<times> 'w conn \<times> 'h Server" where
  "import_done r tm ctx row out srv = (case out of ((res, e), c1) \<Rightarrow>
     let srv1 = editorAudit r tm ctx ''dbeditor.import.done'' row (decimal (im_Statements res) @ '' statements, '' @ decimal_int (im_Rows res) @ '' rows, ok='' @ FormatBool (e = None)) srv in
     ((if e = None then 200 else 422, EdImport (case e of Some err \<Rightarrow> if im_Error res = [] then res\<lparr>im_Error := import_message err\<rparr> else res | None \<Rightarrow> res)), c1, srv1))"

definition handleEditorImport :: "Request \<Rightarrow> gotime \<Rightarrow> Ctx \<Rightarrow> part list option \<Rightarrow> 'w EdEnv \<Rightarrow> 'w ed_handler" where
  "handleEditorImport r tm ctx body env row c srv =
    (case openUpload body of Inl m \<Rightarrow> (ed_err 400 m, c, srv)
     | Inr (form, file') \<Rightarrow>
       let fv = form_value form; d = db_dialect row; s = ee_server env row in
       if fv ''format'' = ''sql'' then
         import_done r tm ctx row (ImportSQL d s file' c) (editorAudit r tm ctx ''dbeditor.import'' row ''sql (streamed)'' srv)
       else if fv ''format'' = ''csv'' then
         (case csv_delimiter (fv ''delimiter'') of None \<Rightarrow> (ed_err 400 ''delimiter must be a comma, semicolon, pipe or tab'', c, srv)
          | Some dl \<Rightarrow> import_done r tm ctx row
              (ImportCSV d s file' (fv ''table'') \<lparr>ci_Header = (fv ''header'' \<noteq> ''0''), ci_NullToken = fv ''null'', ci_Delimiter = dl\<rparr> c)
              (editorAudit r tm ctx ''dbeditor.import'' row (''csv into '' @ fv ''table'' @ '' (streamed)'') srv))
       else (ed_err 400 ''format must be sql or csv'', c, srv))"

section \<open>Schema, maintenance, search\<close>

definition handleEditorInfo :: "'w EdEnv \<Rightarrow> 'w ed_handler" where
  "handleEditorInfo env row c srv = ((200, EdInfo (bServer row) (bName row) (SchemaTypes (db_dialect row))), c, srv)"

record schemaReq =
  sq_Request :: SchemaRequest
  sq_Preview :: bool
  sq_Confirm :: string

definition handleEditorSchema :: "Request \<Rightarrow> gotime \<Rightarrow> Ctx \<Rightarrow> schemaReq option \<Rightarrow> 'w EdEnv \<Rightarrow> 'w ed_handler" where
  "handleEditorSchema r tm ctx req env row = readJSONExact req (\<lambda>x c srv.
     if \<not> sq_Preview x \<and> sr_Action (sq_Request x) = ''drop_column'' \<and> sq_Confirm x \<noteq> sr_Name (sq_Request x)
     then (ed_err 400 ''type the column name to confirm'', c, srv)
     else (case ApplySchema (editorAudit r tm ctx ''dbeditor.schema'' row) (db_dialect row) (ee_server env row) (sq_Request x) (sq_Preview x) c srv of
         (Inl e, c1, srv1) \<Rightarrow> ((400, EdErr (EdSchemaErr e)), c1, srv1)
       | (Inr (res, e), c1, srv1) \<Rightarrow> ((if e = None then 200 else 422, EdSchema res), c1, srv1)))"

definition handleEditorMaintenance :: "Request \<Rightarrow> gotime \<Rightarrow> Ctx \<Rightarrow> string \<Rightarrow> string option \<Rightarrow> 'w EdEnv \<Rightarrow> 'w ed_handler" where
  "handleEditorMaintenance r tm ctx table req env row = readJSONExact req (\<lambda>opr c srv.
     let srv1 = editorAudit r tm ctx ''dbeditor.maintenance'' row (opr @ '' '' @ table) srv in
     (case Maintenance (ee_formats env) (db_dialect row) (ee_server env row) table opr c of
        (Inl e, _, c1) \<Rightarrow> ((400, EdErr (EdEdit e)), c1, srv1) | (Inr res, stmt, c1) \<Rightarrow> ((200, EdMaint stmt res), c1, srv1)))"

definition handleEditorSearch :: "Request \<Rightarrow> gotime \<Rightarrow> Ctx \<Rightarrow> string \<Rightarrow> string list \<Rightarrow> 'w EdEnv \<Rightarrow> 'w ed_handler" where
  "handleEditorSearch r tm ctx q tables env row c srv =
    (if length tables > 500 then (ed_err 400 ''too many tables selected'', c, srv)
     else let srv1 = editorAudit r tm ctx ''dbeditor.search'' row (TrimSpace q) srv in
       (case Search_db (ee_formats env) (db_dialect row) (ee_server env row) (ee_catalog env row) q tables c of
          (res, c1) \<Rightarrow> (ed_answer res EdSearch, c1, srv1)))"

definition handleEditorObjects :: "'w EdEnv \<Rightarrow> 'w ed_handler" where
  "handleEditorObjects env row c srv = (case Objects (db_dialect row) (ee_server env row) (ee_catalog env row) c of (res, c1) \<Rightarrow> (ed_answer res EdObjects, c1, srv))"

section \<open>The routes\<close>

text \<open>The requests under \<^verbatim>\<open>/api/dbeditor/{id}\<close> with what is read from their path, query and body. Exports, imports and maintenance have
  the long time budget.\<close>

datatype ed_call = CallTables | CallStructure string | CallRows string string string int int "EditorFilter list option option"
  | CallRowGet string "jsonobject option" | CallRowInsert string "editorRowReq option" | CallRowUpdate string "editorRowReq option"
  | CallRowDelete string "editorRowReq option" | CallDestroy bool string "string option" | CallQuery "(string \<times> int) option"
  | CallScript "(string \<times> int) option" | CallDefinition string | CallExport string exportReq | CallImport "part list option" | CallInfo
  | CallSchema "schemaReq option" | CallMaintenance string "string option" | CallSearch string "string list" | CallObjects

definition editor_route :: "Request \<Rightarrow> gotime \<Rightarrow> Ctx \<Rightarrow> ed_call \<Rightarrow> 'w EdEnv \<Rightarrow> 'w ed_handler" where
  "editor_route r tm ctx call = (case call of
     CallTables \<Rightarrow> handleEditorTables | CallStructure t \<Rightarrow> handleEditorStructure t
   | CallRows t order dir page pageSize fs \<Rightarrow> handleEditorRows t order dir page pageSize fs | CallRowGet t key \<Rightarrow> handleEditorRowGet t key
   | CallRowInsert t req \<Rightarrow> handleEditorRowInsert r tm ctx t req | CallRowUpdate t req \<Rightarrow> handleEditorRowUpdate r tm ctx t req
   | CallRowDelete t req \<Rightarrow> handleEditorRowDelete r tm ctx t req | CallDestroy drop_it t req \<Rightarrow> handleEditorDestroy drop_it r tm ctx t req
   | CallQuery req \<Rightarrow> handleEditorQuery r tm ctx req | CallScript req \<Rightarrow> handleEditorScript r tm ctx req
   | CallDefinition t \<Rightarrow> handleEditorDefinition t | CallExport generated q \<Rightarrow> handleEditorExport r tm ctx generated q
   | CallImport body \<Rightarrow> handleEditorImport r tm ctx body | CallInfo \<Rightarrow> handleEditorInfo | CallSchema req \<Rightarrow> handleEditorSchema r tm ctx req
   | CallMaintenance t req \<Rightarrow> handleEditorMaintenance r tm ctx t req | CallSearch q ts \<Rightarrow> handleEditorSearch r tm ctx q ts
   | CallObjects \<Rightarrow> handleEditorObjects)"

definition long_call :: "ed_call \<Rightarrow> bool" where
  "long_call call = (case call of CallExport _ _ \<Rightarrow> True | CallImport _ \<Rightarrow> True | CallMaintenance _ _ \<Rightarrow> True | _ \<Rightarrow> False)"

definition serve_editor :: "'w EdEnv option \<Rightarrow> Request \<Rightarrow> gotime \<Rightarrow> Ctx \<Rightarrow> ed_call \<Rightarrow> 'w EdHost Server \<Rightarrow> ed_response \<times> 'w EdHost Server" where
  "serve_editor editor r tm ctx call srv = (if long_call call then withEditorLong else withEditor) editor r ctx (editor_route r tm ctx call) srv"

end
