(* ===== verification/Editor_Theorems.thy ===== *)
theory Editor_Theorems
  imports Api_Dbeditor Services_Theorems
begin

text \<open>
  What the handlers of the database editor guarantee: who reaches a database and as which database user, that a running request
  is always given back, and that every statement of the console, of a script and of a schema change is in the audit log.
\<close>

section \<open>Handlers only audit\<close>

text \<open>The store after a handler is the store before it with further rows of the audit log.\<close>

definition audits_only :: "'h Server \<Rightarrow> 'h Server \<Rightarrow> bool" where
  "audits_only srv srv' \<longleftrightarrow> (\<exists>added n. srv' = srv\<lparr>srv_db := (srv_db srv)\<lparr>audit_log := (audit_log (srv_db srv))\<lparr>trows := trows (audit_log (srv_db srv)) @ added, tseq := n\<rparr>\<rparr>\<rparr>)"

lemma audits_only_refl [simp]: "audits_only srv srv"
  unfolding audits_only_def by (intro exI [where x = "[]"] exI [where x = "tseq (audit_log (srv_db srv))"]) simp

lemma audits_only_trans: "audits_only a b \<Longrightarrow> audits_only b c \<Longrightarrow> audits_only a c"
  unfolding audits_only_def by (elim exE) (rule exI, rule exI, simp)

lemma audits_only_audit: "audits_only srv (audit r tm ctx action target detail srv)"
proof (cases "db_down (srv_db srv)")
  case True
  then show ?thesis by (simp add: audit_def AppendAudit_def split: prod.splits)
next
  case False
  then show ?thesis unfolding audits_only_def audit_def AppendAudit_def t_insert_def
    by (simp split: prod.splits) (intro allI impI exI, rule refl)
qed

lemma audits_only_editor [simp]: "audits_only srv (editorAudit r tm ctx action row detail srv)"
  by (simp add: editorAudit_def Let_def audits_only_audit)

lemma audits_only_all [simp]: "audits_only srv (fold (editorAudit r tm ctx action row) stmts srv)"
  by (induction stmts arbitrary: srv) (auto intro: audits_only_trans [OF audits_only_editor])

text \<open>What the console sends of a statement.\<close>

definition console_text :: "string \<Rightarrow> string" where
  "console_text s = TrimSpace (TrimSuffix (TrimSpace s) '';'')"

definition sends :: "string list \<Rightarrow> (string \<times> arg list) list" where
  "sends stmts = map (\<lambda>s. (s, [])) stmts"

lemma Exec_sends: "Exec F d srv s limit c = (res, c') \<Longrightarrow> es_sent c' = es_sent c @ sends (filter (\<lambda>q. q \<noteq> []) [console_text s])"
  by (auto simp: Exec_def console_text_def sends_def Let_def QueryContext_def ExecContext_def split: if_splits prod.splits sum.splits)

text \<open>The callback has seen the statements that were started, and these are the ones that were sent.\<close>

lemma script_loop_sends:
  "script_loop before F d srv limit ss c x = (rs, e, c', x') \<Longrightarrow>
   \<exists>tried rest. ss = tried @ rest \<and> es_sent c' = es_sent c @ sends (filter (\<lambda>q. q \<noteq> []) (map console_text tried)) \<and> x' = fold before tried x"
proof (induction ss arbitrary: c x rs e c' x')
  case (Cons s ss)
  obtain res c1 where y: "Exec F d srv s limit c = (res, c1)" by (cases "Exec F d srv s limit c")
  show ?case
  proof (cases res)
    case (Inl er)
    then show ?thesis using Cons.prems y Exec_sends [OF y] by - (rule exI [of _ "[s]"], rule exI [of _ ss], auto simp: Let_def)
  next
    case (Inr rr)
    obtain rs2 e2 c2 x2 where l: "script_loop before F d srv limit ss c1 (before s x) = (rs2, e2, c2, x2)"
      by (cases "script_loop before F d srv limit ss c1 (before s x)") auto
    from Cons.IH [OF this] obtain tried rest where "ss = tried @ rest" "es_sent c2 = es_sent c1 @ sends (filter (\<lambda>q. q \<noteq> []) (map console_text tried))"
      "x2 = fold before tried (before s x)" by blast
    then show ?thesis using Cons.prems y Inr l Exec_sends [OF y] by - (rule exI [of _ "s # tried"], rule exI [of _ rest], auto simp: sends_def Let_def)
  qed
qed (simp add: sends_def)

lemma run_all_sends:
  "run_all before srv i stmts c x = (res, c', x') \<Longrightarrow> \<exists>tried rest. stmts = tried @ rest \<and> es_sent c' = es_sent c @ sends tried \<and> x' = fold before tried x"
proof (induction stmts arbitrary: i c x res)
  case (Cons s ss)
  obtain r1 c1 where y: "ExecContext srv s [] c = (r1, c1)" by (cases "ExecContext srv s [] c")
  then have s1: "es_sent c1 = es_sent c @ [(s, [])]" by (auto simp: ExecContext_def split: prod.splits)
  show ?case
  proof (cases r1)
    case (Inl er)
    then show ?thesis using Cons.prems y s1 by - (rule exI [of _ "[s]"], rule exI [of _ ss], auto simp: sends_def)
  next
    case (Inr k)
    then have "run_all before srv (i + 1) ss c1 (before s x) = (res, c', x')" using Cons.prems y by simp
    from Cons.IH [OF this] obtain tried rest where "ss = tried @ rest" "es_sent c' = es_sent c1 @ sends tried" "x' = fold before tried (before s x)" by blast
    then show ?thesis using s1 by - (rule exI [of _ "s # tried"], rule exI [of _ rest], auto simp: sends_def)
  qed
qed (simp add: sends_def)

lemma ApplySchema_sends:
  assumes "ApplySchema before d srv req preview c x = (res, c', x')"
  shows "\<exists>tried. es_sent c' = es_sent c @ sends tried \<and> x' = fold before tried x"
proof -
  have none: ?thesis if "es_sent c' = es_sent c" "x' = x" using that by (intro exI [of _ "[]"]) (simp add: sends_def)
  have some: ?thesis if "run_all before srv 0 stmts c1 x = (y, c2, x')" "es_sent c1 = es_sent c" "es_sent c' = es_sent c2" for stmts c1 y c2
    using run_all_sends [OF that(1)] that(2,3) by auto
  show ?thesis
  proof (cases "PlanSchema d srv c req")
    case (Inr stmts)
    show ?thesis
    proof (cases "\<not> preview \<and> (d = pgDialect \<longrightarrow> fst (srv_begin srv (es_db c)) = None)")
      case True
      let ?c1 = "if d = pgDialect then c\<lparr>es_db := snd (srv_begin srv (es_db c))\<rparr> else c"
      obtain y c2 x2 where r: "run_all before srv 0 stmts ?c1 x = (y, c2, x2)" by (cases "run_all before srv 0 stmts ?c1 x") auto
      have "es_sent c' = es_sent c2 \<and> x2 = x'" using assms Inr True r
        by (cases y) (auto simp: ApplySchema_def Let_def with_db_def split: if_splits prod.splits option.splits)
      with r show ?thesis by (intro some [of stmts ?c1 y c2]) auto
    next
      case False
      then show ?thesis using assms Inr by (intro none) (auto simp: ApplySchema_def Let_def with_db_def split: if_splits prod.splits option.splits)
    qed
  qed (use assms none in \<open>simp add: ApplySchema_def\<close>)
qed

lemma ExecScript_sends:
  assumes "ExecScript before F d srv script limit c x = (rs, e, c', x')"
  shows "\<exists>tried. es_sent c' = es_sent c @ sends (filter (\<lambda>q. q \<noteq> []) (map console_text tried)) \<and> x' = fold before tried x"
  using assms by (auto simp: ExecScript_def Let_def sends_def dest!: script_loop_sends split: if_splits prod.splits intro: exI [where x = "[]"])

lemma callback_audits:
  "ExecScript (editorAudit r tm ctx action row) F d es script limit c srv = (rs, e, c', srv') \<Longrightarrow> audits_only srv srv'"
  "ApplySchema (editorAudit r tm ctx action row) d es req preview c srv = (res, c', srv') \<Longrightarrow> audits_only srv srv'"
  by (auto dest: ExecScript_sends ApplySchema_sends)

lemma row_changed_audits: "row_changed r tm ctx action row table res srv = (resp, c', srv') \<Longrightarrow> audits_only srv srv'"
  by (auto simp: row_changed_def split: prod.splits sum.splits)

lemma import_done_audits: "import_done r tm ctx row out srv = (resp, c', srv') \<Longrightarrow> audits_only srv srv'"
  by (auto simp: import_done_def Let_def split: prod.splits)

lemma import_audits: "handleEditorImport r tm ctx body env row c srv = (resp, c', srv') \<Longrightarrow> audits_only srv srv'"
  by (auto simp: handleEditorImport_def Let_def split: sum.splits prod.splits if_splits option.splits
      dest!: import_done_audits intro: audits_only_trans [OF audits_only_editor])

lemma export_audits: "handleEditorExport r tm ctx generated q env row c srv = (resp, c', srv') \<Longrightarrow> audits_only srv srv'"
  by (auto simp: handleEditorExport_def Let_def split: sum.splits prod.splits if_splits option.splits list.splits)

lemma route_audits: "editor_route r tm ctx call env row c srv = (resp, c', srv') \<Longrightarrow> audits_only srv srv'"
  by (cases call)
    (auto simp: editor_route_def handleEditorTables_def handleEditorStructure_def handleEditorRows_def handleEditorRowGet_def
      handleEditorRowInsert_def handleEditorRowUpdate_def handleEditorRowDelete_def handleEditorDestroy_def handleEditorQuery_def
      handleEditorScript_def handleEditorDefinition_def handleEditorInfo_def handleEditorSchema_def handleEditorMaintenance_def
      handleEditorSearch_def handleEditorObjects_def readJSONExact_def Let_def
      dest: callback_audits row_changed_audits import_audits export_audits split: option.splits prod.splits sum.splits if_splits)

section \<open>The gate\<close>

definition running :: "sems \<Rightarrow> int \<Rightarrow> nat" where
  "running sm u = (case sm u of None \<Rightarrow> 0 | Some n \<Rightarrow> n)"

lemma running_upd: "running (sm(u \<mapsto> n)) = (running sm)(u := n)"
  by (rule ext) (simp add: running_def)

lemma running_upd_same: "running sm u = n \<Longrightarrow> running (sm(u \<mapsto> n)) = running sm"
  by (auto simp: running_upd)

lemma release_running: "running (release u (sm(u \<mapsto> Suc n))) = (running sm)(u := n)"
  by (simp add: release_def running_upd)

text \<open>The semaphore of a user that has none yet is made, with nothing in it.\<close>

lemma acquire_unfold:
  "acquire False u sm = (let sm' = sm(u \<mapsto> running sm u) in
     if running sm u < editorMaxConcurrent then (Some (sm'(u \<mapsto> running sm u + 1)), sm') else (None, sm'))"
  by (simp add: acquire_def running_def Let_def fun_upd_idem split: option.splits)

lemma acquire_none: "acquire False u sm = (None, sm') \<Longrightarrow> running sm' = running sm"
  by (auto simp: acquire_unfold Let_def running_upd_same split: if_splits)

lemma acquire_some:
  assumes "acquire False u sm = (Some sm1, sm')"
  shows "running sm u < editorMaxConcurrent" "running (release u sm1) = running sm"
  using assms by (auto simp: acquire_unfold Let_def release_running split: if_splits)

text \<open>What the connection of a request is made with.\<close>

definition dials_as :: "dial \<Rightarrow> string \<Rightarrow> string \<Rightarrow> string \<Rightarrow> bool" where
  "dials_as dl user password name = (case dl of
     DialMysql mc \<Rightarrow> mc_User mc = user \<and> mc_Passwd mc = password \<and> mc_DBName mc = name
   | DialPg url \<Rightarrow> \<exists>h q. url = ''postgres://'' @ QueryEscape user @ '':'' @ QueryEscape password @ ''@'' @ h @ ''/'' @ PathEscape name @ ''?'' @ q)"

lemma dial_of_as:
  assumes "dial_of env row limit = Some dl"
  shows "dials_as dl (bDBUser row) (bDBPassword row) (bName row)"
proof (cases "bServer row = ''mariadb''")
  case True
  then show ?thesis using assms by (auto simp: dial_of_def dials_as_def)
next
  case False
  then have "dl = DialPg (''postgres://'' @ QueryEscape (bDBUser row) @ '':'' @ QueryEscape (bDBPassword row) @ ''@'' @
      (fst (ee_PostgreSQL env) @ '':'' @ decimal_int (snd (ee_PostgreSQL env))) @ ''/'' @ PathEscape (bName row) @ ''?'' @
      (''sslmode=disable&connect_timeout=5&statement_timeout='' @ decimal_int (limit div 1000000)))"
    using assms by (simp add: dial_of_def split: if_splits)
  then show ?thesis unfolding dials_as_def by (simp only: dial.case) blast
qed

definition may_use :: "User \<Rightarrow> Database \<Rightarrow> bool" where
  "may_use u row \<longleftrightarrow> bUserID row = uID u \<or> uRole u = RoleAdmin"

text \<open>The request of \<open>u\<close> for the database \<open>row\<close> gets a connection.\<close>

definition connected :: "'w EdEnv \<Rightarrow> Database \<Rightarrow> 'w EdHost \<Rightarrow> bool" where
  "connected env row h \<longleftrightarrow> running (eh_sems h) (bUserID row) < editorMaxConcurrent \<and>
     (\<exists>dl. dials_as dl (bDBUser row) (bDBPassword row) (bName row) \<and> ee_dial env dl (eh_world h) = None)"

lemma OpenWithLimit_gate:
  assumes "OpenWithLimit env row limit h = (res, h')"
  shows "eh_world h' = eh_world h" "res = Inl e \<Longrightarrow> running (eh_sems h') = running (eh_sems h)"
    "res = Inr c \<Longrightarrow> connected env row h \<and> running (release (bUserID row) (eh_sems h')) = running (eh_sems h)"
proof -
  obtain a sm where aq: "acquire False (bUserID row) (eh_sems h) = (a, sm)" by (cases "acquire False (bUserID row) (eh_sems h)")
  note d = OpenWithLimit_def aq connect_def Let_def
  show "eh_world h' = eh_world h" using assms by (auto simp: d split: option.splits sum.splits)
  show "running (eh_sems h') = running (eh_sems h)" if "res = Inl e"
  proof (cases a)
    case None
    then show ?thesis using assms acquire_none [of "bUserID row" "eh_sems h" sm] aq by (auto simp: d)
  next
    case (Some sm1)
    then show ?thesis using assms that acquire_some(2) [of "bUserID row" "eh_sems h" sm1 sm] aq by (auto simp: d split: option.splits sum.splits)
  qed
  show "connected env row h \<and> running (release (bUserID row) (eh_sems h')) = running (eh_sems h)" if "res = Inr c"
    using assms that acquire_some aq dial_of_as [of env row limit] by (auto simp: d connected_def split: option.splits sum.splits)
qed

lemma withEditorFor_gate:
  assumes run: "withEditorFor ed timeout r ctx k srv = (resp, srv')"
    and k: "\<And>env row c s resp c' s'. k env row c s = (resp, c', s') \<Longrightarrow> audits_only s s'"
  shows "running (eh_sems (srv_host srv')) = running (eh_sems (srv_host srv)) \<and> audits_only srv (srv'\<lparr>srv_host := srv_host srv\<rparr>) \<and>
    (eh_world (srv_host srv') \<noteq> eh_world (srv_host srv) \<longrightarrow>
      (\<exists>env i row u. ed = Some env \<and> pathID r = Inr i \<and> GetDatabase (ee_box env) (srv_db srv) i = Inr row \<and> ctxUser ctx = Some u \<and>
        may_use u row \<and> connected env row (srv_host srv)))"
proof (cases "\<exists>env i row u limit c h. ed = Some env \<and> pathID r = Inr i \<and> GetDatabase (ee_box env) (srv_db srv) i = Inr row \<and> ctxUser ctx = Some u \<and>
    may_use u row \<and> limit = (if timeout > minutes 1 then timeout else seconds 30) \<and> OpenWithLimit env row limit (srv_host srv) = (Inr c, h)")
  case True
  then obtain env i row u c h where g: "ed = Some env" "pathID r = Inr i" "GetDatabase (ee_box env) (srv_db srv) i = Inr row" "ctxUser ctx = Some u" "may_use u row"
    and o: "OpenWithLimit env row (if timeout > minutes 1 then timeout else seconds 30) (srv_host srv) = (Inr c, h)" by blast
  obtain resp1 c1 s1 where kk: "k env row c (srv\<lparr>srv_host := h\<rparr>) = (resp1, c1, s1)" by (cases "k env row c (srv\<lparr>srv_host := h\<rparr>)")
  have s: "srv' = s1\<lparr>srv_host := close_conn row c1 (srv_host s1)\<rparr>"
    using run g o kk by (simp add: withEditorFor_def may_use_def Let_def split: if_splits)
  obtain added n where a: "s1 = srv\<lparr>srv_host := h, srv_db := (srv_db srv)\<lparr>audit_log := (audit_log (srv_db srv))\<lparr>trows := trows (audit_log (srv_db srv)) @ added, tseq := n\<rparr>\<rparr>\<rparr>"
    using k [OF kk] unfolding audits_only_def by auto
  have "running (eh_sems (srv_host srv')) = running (eh_sems (srv_host srv))" "connected env row (srv_host srv)"
    using OpenWithLimit_gate(3) [OF o] by (simp_all add: s a close_conn_def)
  moreover have "audits_only srv (srv'\<lparr>srv_host := srv_host srv\<rparr>)"
    unfolding audits_only_def s a by (intro exI [where x = added] exI [where x = n]) simp
  ultimately show ?thesis using g by blast
next
  case False
  then have "audits_only srv (srv'\<lparr>srv_host := srv_host srv\<rparr>) \<and> eh_world (srv_host srv') = eh_world (srv_host srv) \<and> running (eh_sems (srv_host srv')) = running (eh_sems (srv_host srv))"
    using run by (auto simp: withEditorFor_def may_use_def Let_def OpenWithLimit_gate split: option.splits sum.splits prod.splits if_splits)
  then show ?thesis by blast
qed

text \<open>C36: Only the owner of a database, or an administrator, gets the editor to do anything to the database server. For every request of the
  database editor: if the databases have changed, then the database of the URL is in the store, it belongs to the caller or the caller is an
  administrator, its owner had fewer than three editor requests running, and the connection was opened with the database's own user,
  password and name. Whatever the outcome, afterwards no account has more or fewer requests running than before, and the store is
  as before except for rows added at the end of the audit log.\<close>

theorem editor_gate:
  assumes "serve_editor ed r tm ctx call srv = (resp, srv')"
  shows "(eh_world (srv_host srv') \<noteq> eh_world (srv_host srv) \<longrightarrow>
      (\<exists>env i row u. ed = Some env \<and> pathID r = Inr i \<and> GetDatabase (ee_box env) (srv_db srv) i = Inr row \<and> ctxUser ctx = Some u \<and>
        may_use u row \<and> connected env row (srv_host srv))) \<and>
    running (eh_sems (srv_host srv')) = running (eh_sems (srv_host srv)) \<and> audits_only srv (srv'\<lparr>srv_host := srv_host srv\<rparr>)"
proof -
  have "\<exists>timeout k. withEditorFor ed timeout r ctx k srv = (resp, srv') \<and> (\<forall>env row c s resp c' s'. k env row c s = (resp, c', s') \<longrightarrow> audits_only s s')"
    using assms unfolding serve_editor_def withEditorLong_def withEditor_def
    by (cases "long_call call") (simp_all, blast intro: route_audits, blast intro: route_audits)
  then show ?thesis using withEditorFor_gate by blast
qed

section \<open>Every statement is in the audit log\<close>

text \<open>What the audit log shows of a statement: one line, at most 300 bytes and an ellipsis.\<close>

definition audit_line :: "string \<Rightarrow> string" where
  "audit_line stmt = (let d = Join '' '' (Fields stmt) in if length d > 300 then take 300 d @ ellipsis else d)"

definition audited :: "'h Server \<Rightarrow> (string \<times> string \<times> string) list" where
  "audited srv = map (\<lambda>e. (aAction e, aTarget e, aDetail e)) (trows (audit_log (srv_db srv)))"

lemma audited_editorAudit:
  assumes "\<not> db_down (srv_db srv)"
  shows "audited (editorAudit r tm ctx action row stmt srv) = audited srv @ [(action, bServer row @ ''/'' @ bName row, audit_line stmt)]"
    "\<not> db_down (srv_db (editorAudit r tm ctx action row stmt srv))"
  using assms by (simp_all add: audited_def editorAudit_def audit_line_def audit_def AppendAudit_def t_insert_def Let_def split: prod.splits)

lemma audited_all:
  "\<not> db_down (srv_db srv) \<Longrightarrow>
   audited (fold (editorAudit r tm ctx action row) stmts srv) = audited srv @ map (\<lambda>s. (action, bServer row @ ''/'' @ bName row, audit_line s)) stmts"
  by (induction stmts arbitrary: srv) (simp_all add: audited_editorAudit)

section \<open>Statements run by hand are audited\<close>

definition statement_call :: "ed_call \<Rightarrow> bool" where
  "statement_call call = (case call of CallQuery _ \<Rightarrow> True | CallScript _ \<Rightarrow> True | CallSchema _ \<Rightarrow> True | _ \<Rightarrow> False)"

definition audit_action :: "ed_call \<Rightarrow> string" where
  "audit_action call = (case call of CallSchema _ \<Rightarrow> ''dbeditor.schema'' | _ \<Rightarrow> ''dbeditor.query'')"

definition sent_text :: "ed_call \<Rightarrow> string \<Rightarrow> string" where
  "sent_text call s = (case call of CallSchema _ \<Rightarrow> s | _ \<Rightarrow> console_text s)"

lemma script_audits:
  assumes "handleEditorScript r tm ctx (Some (sql, limit)) env row c srv = (resp, c', srv')"
  shows "\<exists>tried. es_sent c' = es_sent c @ sends (filter (\<lambda>q. q \<noteq> []) (map console_text tried)) \<and> srv' = fold (editorAudit r tm ctx ''dbeditor.query'' row) tried srv"
proof -
  let ?run = "ExecScript (editorAudit r tm ctx ''dbeditor.query'' row) (ee_formats env) (db_dialect row) (ee_server env row) sql limit c srv"
  obtain results e c1 srv1 where x: "?run = (results, e, c1, srv1)" by (cases ?run) auto
  have "\<exists>tried. es_sent c1 = es_sent c @ sends (filter (\<lambda>q. q \<noteq> []) (map console_text tried)) \<and> srv1 = fold (editorAudit r tm ctx ''dbeditor.query'' row) tried srv"
    using x by (rule ExecScript_sends)
  moreover have "srv' = srv1" "c' = c1"
    using assms x by (auto simp: handleEditorScript_def readJSONExact_def Let_def split: option.splits if_splits)
  ultimately show ?thesis by blast
qed

lemma schema_audits:
  assumes "handleEditorSchema r tm ctx req env row c srv = (resp, c', srv')"
  shows "\<exists>tried. es_sent c' = es_sent c @ sends tried \<and> srv' = fold (editorAudit r tm ctx ''dbeditor.schema'' row) tried srv"
proof -
  consider "c' = c" "srv' = srv"
    | d es sreq preview res where "ApplySchema (editorAudit r tm ctx ''dbeditor.schema'' row) d es sreq preview c srv = (res, c', srv')"
    using assms unfolding handleEditorSchema_def readJSONExact_def by (auto split: option.splits if_splits prod.splits sum.splits)
  then show ?thesis
  proof cases
    case 1
    then show ?thesis by (intro exI [where x = "[]"]) (simp add: sends_def)
  next
    case 2
    then show ?thesis by (rule ApplySchema_sends)
  qed
qed

lemma sent_text_console: "\<not> (\<exists>x. call = CallSchema x) \<Longrightarrow> sent_text call = console_text"
  by (rule ext) (simp add: sent_text_def split: ed_call.splits)

lemma sent_text_schema: "sent_text (CallSchema x) = (\<lambda>s. s)"
  by (rule ext) (simp add: sent_text_def)

text \<open>C37: Every statement a user runs by hand is in the audit log. When the console, a script or a schema change has been served, the log has
  gained one row for each statement that was started, in order, with the database and the (shortened) statement; the statements the
  database server has received are exactly these, cleaned of surrounding space and the final semicolon and without the empty ones.
  This holds whether the statements succeed or fail, and also when the run stops half way.\<close>

theorem statements_audited:
  assumes "editor_route r tm ctx call env row c srv = (resp, c', srv')" "statement_call call" "\<not> db_down (srv_db srv)"
  shows "\<exists>tried. es_sent c' = es_sent c @ sends (filter (\<lambda>q. q \<noteq> [] \<or> (\<exists>x. call = CallSchema x)) (map (sent_text call) tried)) \<and>
    audited srv' = audited srv @ map (\<lambda>s. (audit_action call, bServer row @ ''/'' @ bName row, audit_line s)) tried"
  (is "\<exists>tried. ?P tried")
proof (cases "call = CallQuery None \<or> call = CallScript None")
  case True
  then have "?P []" using assms(1) by (auto simp: editor_route_def handleEditorQuery_def handleEditorScript_def readJSONExact_def sends_def)
  then show ?thesis ..
next
  case False
  then consider sql limit where "call = CallQuery (Some (sql, limit))" | sql limit where "call = CallScript (Some (sql, limit))" | req where "call = CallSchema req"
    using assms(2) by (cases call) (auto simp: statement_call_def)
  then show ?thesis
  proof cases
    case 1
    then have "?P [sql]" using assms
      by (auto simp: editor_route_def handleEditorQuery_def readJSONExact_def audit_action_def sent_text_console audited_editorAudit
          dest!: Exec_sends split: prod.splits)
    then show ?thesis ..
  next
    case 2
    then obtain tried where "es_sent c' = es_sent c @ sends (filter (\<lambda>q. q \<noteq> []) (map console_text tried))" "srv' = fold (editorAudit r tm ctx ''dbeditor.query'' row) tried srv"
      using assms(1) script_audits by (fastforce simp: editor_route_def)
    then have "?P tried" using assms(3) 2 by (simp add: audit_action_def sent_text_console audited_all)
    then show ?thesis ..
  next
    case 3
    then obtain tried where "es_sent c' = es_sent c @ sends tried" "srv' = fold (editorAudit r tm ctx ''dbeditor.schema'' row) tried srv"
      using assms(1) schema_audits by (fastforce simp: editor_route_def)
    then have "?P tried" using assms(3) 3 by (simp add: audit_action_def sent_text_schema audited_all)
    then show ?thesis ..
  qed
qed

text \<open>A server that keeps the statements it has executed and refuses those on \<open>secret\<close>, and Alice with one database on it.\<close>

definition ex_ed_server :: "string list dbserver" where
  "ex_ed_server = \<lparr>srv_tables = (\<lambda>_. Inr []), srv_columns = (\<lambda>_ _. Inr []), srv_indexes = (\<lambda>_ _. Inr []), srv_fkeys = (\<lambda>_ _. Inr []),
     srv_query = (\<lambda>q _ w. (Inr \<lparr>rs_cols = [], rs_rows = [], rs_err = None\<rparr>, w)),
     srv_exec = (\<lambda>q _ w. if q = ''DROP TABLE secret'' then (Inl ''denied'', w) else (Inr 1, w @ [q])),
     srv_begin = (\<lambda>w. (None, w)), srv_commit = (\<lambda>w. (None, w)), srv_rollback = id\<rparr>"

definition ex_ed_env :: "string list EdEnv" where
  "ex_ed_env = \<lparr>ee_box = None, ee_MariaDB = (''127.0.0.1'', 3306), ee_PostgreSQL = (''127.0.0.1'', 5432), ee_dial = (\<lambda>_ _. None),
     ee_server = (\<lambda>_. ex_ed_server), ee_catalog = (\<lambda>_. \<lparr>cat_searchable = (\<lambda>_. Inr []), cat_routines = (\<lambda>_. Inr []), cat_triggers = (\<lambda>_. Inr []),
     cat_events = (\<lambda>_. Inr [])\<rparr>), ee_formats = \<lparr>FormatFloat = (\<lambda>_ _. []), FormatTime = (\<lambda>_ _. [])\<rparr>, ee_stamp = ''20260101-000000''\<rparr>"

definition ex_ed_row :: Database where
  "ex_ed_row = \<lparr>bID = 7, bUserID = 2, bServer = ''postgres'', bName = ''shop'', bDBUser = ''shop'', bDBPassword = ''pw'', bCreatedAt = 0\<rparr>"

definition ex_ed_srv :: "string list EdHost Server" where
  "ex_ed_srv = \<lparr>srv_db = db_empty\<lparr>databases := \<lparr>trows = [ex_ed_row], tseq = 7\<rparr>\<rparr>, srv_log = [], srv_log_opens = True, srv_fails = None,
     srv_host = \<lparr>eh_sems = (\<lambda>_. None), eh_world = []\<rparr>, srv_applied = (\<lambda>_. False)\<rparr>"

abbreviation ex_ed_ctx :: Ctx where "ex_ed_ctx \<equiv> \<lparr>ctxUser = Some ex_alice, ctxClaims = None\<rparr>"

abbreviation ex_ed_request :: Request where "ex_ed_request \<equiv> (ex_request [])\<lparr>PathIDText := ''7''\<rparr>"

abbreviation ex_ed_query :: "string \<Rightarrow> ed_call" where "ex_ed_query sql \<equiv> CallQuery (Some (sql, 0))"

lemma ex_ed_facts:
  "pathID ex_ed_request = Inr 7" "GetDatabase None (srv_db ex_ed_srv) 7 = Inr ex_ed_row" "may_use ex_alice ex_ed_row"
  "\<not> db_down (srv_db ex_ed_srv)" "audited ex_ed_srv = []" "bName ex_ed_row = ''shop''"
  "eh_world (srv_host ex_ed_srv) = []" "ee_box ex_ed_env = None"
proof -
  show "pathID ex_ed_request = Inr 7" by (simp add: pathID_def ex_request_def) code_simp
qed (simp_all add: ex_ed_srv_def ex_ed_row_def db_empty_def audited_def t_empty_def GetDatabase_def query_row_def t_get_def scanDatabase_def openSecret_def HasPrefix_def encPrefix_def
    may_use_def ex_row_def scanUser_def User.truncate_def ex_ed_env_def)

lemma ex_ed_texts:
  "console_text ''DELETE FROM a;'' = ''DELETE FROM a''" "statementReturnsRows pgDialect ''DELETE FROM a'' = False"
  "console_text ''DROP TABLE secret'' = ''DROP TABLE secret''" "statementReturnsRows pgDialect ''DROP TABLE secret'' = False"
  by code_simp+

lemma ex_ed_sel:
  "srv_host ex_ed_srv = \<lparr>eh_sems = (\<lambda>_. None), eh_world = []\<rparr>" "ee_dial ex_ed_env dl w = None" "ee_server ex_ed_env row = ex_ed_server"
  "bServer ex_ed_row = ''postgres''" "bUserID ex_ed_row = 2" "uID (ex_row 2 n ro) = 2" "db_dialect ex_ed_row = pgDialect"
  by (simp_all add: ex_ed_srv_def ex_ed_env_def ex_ed_row_def ex_row_def scanUser_def User.truncate_def db_dialect_def)

lemma ex_ed_exec:
  "\<exists>res. Exec F pgDialect ex_ed_server ''DELETE FROM a;'' 0 \<lparr>es_db = [], es_sent = []\<rparr> = (res, \<lparr>es_db = [''DELETE FROM a''], es_sent = [(''DELETE FROM a'', [])]\<rparr>)"
  using ex_ed_texts unfolding console_text_def by (simp add: Exec_def ExecContext_def ex_ed_server_def Let_def)

theorem editor_gate_witness:
  "eh_world (srv_host (snd (serve_editor (Some ex_ed_env) ex_ed_request 0 ex_ed_ctx (ex_ed_query ''DELETE FROM a;'') ex_ed_srv))) = [''DELETE FROM a''] \<and>
   (\<exists>row. GetDatabase None (srv_db ex_ed_srv) 7 = Inr row \<and> may_use ex_alice row \<and> connected ex_ed_env row (srv_host ex_ed_srv))"
proof -
  let ?p = "serve_editor (Some ex_ed_env) ex_ed_request 0 ex_ed_ctx (ex_ed_query ''DELETE FROM a;'') ex_ed_srv"
  have w: "eh_world (srv_host (snd ?p)) = [''DELETE FROM a'']"
    using ex_ed_exec [of "ee_formats ex_ed_env"]
    by (auto simp: serve_editor_def long_call_def withEditor_def withEditorFor_def OpenWithLimit_def acquire_def connect_def dial_of_def editor_route_def
        handleEditorQuery_def readJSONExact_def close_conn_def ex_ed_facts ex_ed_sel Let_def)
  then have "eh_world (srv_host (snd ?p)) \<noteq> eh_world (srv_host ex_ed_srv)" by (simp add: ex_ed_facts)
  then show ?thesis using w editor_gate [of "Some ex_ed_env" ex_ed_request 0 ex_ed_ctx "ex_ed_query ''DELETE FROM a;''" ex_ed_srv "fst ?p" "snd ?p"]
    by (auto simp: ex_ed_facts)
qed

theorem statements_audited_witness:
  "\<exists>tried. es_sent (fst (snd (editor_route ex_ed_request 0 ex_ed_ctx (ex_ed_query ''DROP TABLE secret'') ex_ed_env ex_ed_row \<lparr>es_db = [], es_sent = []\<rparr> ex_ed_srv))) =
      sends (filter (\<lambda>q. q \<noteq> []) (map console_text tried)) \<and>
    audited (snd (snd (editor_route ex_ed_request 0 ex_ed_ctx (ex_ed_query ''DROP TABLE secret'') ex_ed_env ex_ed_row \<lparr>es_db = [], es_sent = []\<rparr> ex_ed_srv))) =
      map (\<lambda>s. (''dbeditor.query'', ''postgres/shop'', audit_line s)) tried \<and> tried \<noteq> []"
proof -
  let ?p = "editor_route ex_ed_request 0 ex_ed_ctx (ex_ed_query ''DROP TABLE secret'') ex_ed_env ex_ed_row \<lparr>es_db = [], es_sent = []\<rparr> ex_ed_srv"
  have p: "?p = (fst ?p, fst (snd ?p), snd (snd ?p))" by simp
  have sent: "es_sent (fst (snd ?p)) \<noteq> []"
    using ex_ed_texts unfolding console_text_def
    by (simp add: editor_route_def handleEditorQuery_def readJSONExact_def Exec_def ExecContext_def ex_ed_sel ex_ed_server_def Let_def)
  have "statement_call (ex_ed_query ''DROP TABLE secret'')" "audit_action (ex_ed_query ''DROP TABLE secret'') = ''dbeditor.query''"
      "sent_text (ex_ed_query ''DROP TABLE secret'') = console_text"
    by (simp_all add: statement_call_def audit_action_def sent_text_console)
  then obtain tried where t: "es_sent (fst (snd ?p)) = sends (filter (\<lambda>q. q \<noteq> []) (map console_text tried))"
      "audited (snd (snd ?p)) = map (\<lambda>s. (''dbeditor.query'', ''postgres/shop'', audit_line s)) tried"
    using statements_audited [OF p] by (auto simp: ex_ed_facts(4-6) ex_ed_sel(4))
  then have "tried \<noteq> []" using sent by (auto simp: sends_def)
  with t show ?thesis by blast
qed

end
