(* ===== verification/Databases.thy ===== *)
theory Databases
  imports Api Sql_Text
begin

text \<open>
  Databases of the accounts on MariaDB and PostgreSQL (\<^verbatim>\<open>svc/databases.go\<close>) and their handlers (\<^verbatim>\<open>api/handlers_services.go\<close>).

  The record \<open>DbAdmin\<close> is what the panel uses of the two servers and the host: opening its administrator connections (\<open>Some\<close> for an error),
  running one statement on one of them, the ids of a user's connections, host commands with the variables added to their environment, and
  files. The pair of store and host is the state.
\<close>

datatype db_kind = MariaDB | PostgreSQL

record ServerConf =
  sc_Host :: string
  sc_Port :: int
  sc_User :: string
  sc_Password :: string

record 'h DbAdmin =
  da_MariaDB :: ServerConf
  da_PostgreSQL :: ServerConf
  da_open :: "db_kind \<Rightarrow> 'h \<Rightarrow> string option"
  da_exec :: "db_kind \<Rightarrow> string \<Rightarrow> string list \<Rightarrow> 'h \<Rightarrow> string option \<times> 'h"
  da_sessions :: "string \<Rightarrow> 'h \<Rightarrow> int list option"
  da_LookPath :: "string \<Rightarrow> 'h \<Rightarrow> bool"
  da_ServiceRunning :: "string \<Rightarrow> 'h \<Rightarrow> bool"
  da_run :: "string list \<Rightarrow> string \<Rightarrow> string list \<Rightarrow> 'h \<Rightarrow> (string + string) \<times> 'h"
  da_MkdirAll :: "string \<Rightarrow> 'h \<Rightarrow> string option \<times> 'h"
  da_WriteFile :: "string \<Rightarrow> string \<Rightarrow> 'h \<Rightarrow> string option \<times> 'h"
  da_ReadFile :: "string \<Rightarrow> 'h \<Rightarrow> string + string"
  da_box :: "SecretBox option"

datatype dbs_error = UnsupportedServer | InvalidName | TooManyDatabases | NoPassword | ServerError string | HostError string | StoreError store_error

section \<open>Names and servers\<close>

text \<open>\<open>Exec\<close> and \<open>ExecWithEnv\<close> give back what the command wrote on both outputs, without the white space around it.\<close>

definition run_trimmed :: "'h DbAdmin \<Rightarrow> string list \<Rightarrow> string \<Rightarrow> string list \<Rightarrow> 'h \<Rightarrow> (string + string) \<times> 'h" where
  "run_trimmed adm env prog args h = (case da_run adm env prog args h of (r, h1) \<Rightarrow> (map_sum id TrimSpace r, h1))"

definition ValidDBName :: "string \<Rightarrow> bool" where
  "ValidDBName n = (case n of [] \<Rightarrow> False
     | c # cs \<Rightarrow> c \<in> set ''abcdefghijklmnopqrstuvwxyz_'' \<and> length cs \<le> 63 \<and> list_all (\<lambda>x. x \<in> set ''abcdefghijklmnopqrstuvwxyz0123456789_'') cs)"

definition QuoteSQL :: "string \<Rightarrow> string" where
  "QuoteSQL s = [squote] @ replace_char squote [squote, squote] s @ [squote]"

record ServerInfo =
  si_Name :: string
  si_Running :: bool
  si_Version :: string

definition mariaRunning :: "'h DbAdmin \<Rightarrow> 'h \<Rightarrow> bool" where
  "mariaRunning adm h \<longleftrightarrow> da_ServiceRunning adm ''mariadb'' h \<or> da_ServiceRunning adm ''mysql'' h \<or> da_open adm MariaDB h = None"

definition pgRunning :: "'h DbAdmin \<Rightarrow> 'h \<Rightarrow> bool" where
  "pgRunning adm h \<longleftrightarrow> da_ServiceRunning adm ''postgresql'' h \<or> da_open adm PostgreSQL h = None"

text \<open>The version is what the client program prints, empty when it does not run.\<close>

definition version_of :: "'h DbAdmin \<Rightarrow> string \<Rightarrow> 'h \<Rightarrow> string option" where
  "version_of adm prog h = (case fst (run_trimmed adm [] prog [''--version''] h) of Inl _ \<Rightarrow> None | Inr v \<Rightarrow> Some v)"

definition Servers :: "'h DbAdmin \<Rightarrow> 'h \<Rightarrow> ServerInfo list" where
  "Servers adm h =
    (if da_LookPath adm ''mariadb'' h \<or> da_LookPath adm ''mysql'' h \<or> da_ServiceRunning adm ''mariadb'' h \<or> da_ServiceRunning adm ''mysql'' h
     then [\<lparr>si_Name = ''mariadb'', si_Running = mariaRunning adm h, si_Version = (case version_of adm ''mariadb'' h of Some v \<Rightarrow> TrimPrefix v ''mariadb  Ver ''
        | None \<Rightarrow> (case version_of adm ''mysql'' h of Some v \<Rightarrow> v | None \<Rightarrow> []))\<rparr>] else []) @
    (if da_LookPath adm ''psql'' h \<or> da_ServiceRunning adm ''postgresql'' h
     then [\<lparr>si_Name = ''postgres'', si_Running = pgRunning adm h,
        si_Version = (case version_of adm ''psql'' h of Some v \<Rightarrow> TrimPrefix v ''psql (PostgreSQL) '' | None \<Rightarrow> [])\<rparr>] else [])"

section \<open>Creating and dropping\<close>

text \<open>Statements run in order on one administrator connection; the first error ends the run.\<close>

fun run_stmts :: "'h DbAdmin \<Rightarrow> db_kind \<Rightarrow> string list \<Rightarrow> 'h \<Rightarrow> string option \<times> 'h" where
  "run_stmts adm k [] h = (None, h)"
| "run_stmts adm k (s # ss) h = (case da_exec adm k s [] h of (Some e, h1) \<Rightarrow> (Some e, h1) | (None, h1) \<Rightarrow> run_stmts adm k ss h1)"

definition on_admin :: "'h DbAdmin \<Rightarrow> db_kind \<Rightarrow> string list \<Rightarrow> 'h \<Rightarrow> string option \<times> 'h" where
  "on_admin adm k stmts h = (case da_open adm k h of Some e \<Rightarrow> (Some e, h) | None \<Rightarrow> run_stmts adm k stmts h)"

definition account_at :: "string \<Rightarrow> string \<Rightarrow> string" where
  "account_at dbUser host = squote # dbUser @ [squote] @ ''@'' @ [squote] @ host @ [squote]"

definition create_user_sql :: "string \<Rightarrow> string \<Rightarrow> string \<Rightarrow> string" where
  "create_user_sql dbUser host password = ''CREATE USER IF NOT EXISTS '' @ account_at dbUser host @ '' IDENTIFIED BY '' @ [squote] @ password @ [squote]"

definition grant_sql :: "string \<Rightarrow> string \<Rightarrow> string \<Rightarrow> string" where
  "grant_sql name dbUser host = ''GRANT ALL PRIVILEGES ON `'' @ name @ ''`.* TO '' @ account_at dbUser host"

definition maria_create_stmts :: "string \<Rightarrow> string \<Rightarrow> string \<Rightarrow> string list" where
  "maria_create_stmts name dbUser password =
    [''CREATE DATABASE IF NOT EXISTS `'' @ name @ ''` CHARACTER SET utf8mb4 COLLATE utf8mb4_unicode_ci'',
     create_user_sql dbUser ''localhost'' password, create_user_sql dbUser ''127.0.0.1'' password,
     grant_sql name dbUser ''localhost'', grant_sql name dbUser ''127.0.0.1'', ''FLUSH PRIVILEGES'']"

definition mariaCreate :: "'h DbAdmin \<Rightarrow> string \<Rightarrow> string \<Rightarrow> string \<Rightarrow> 'h \<Rightarrow> string option \<times> 'h" where
  "mariaCreate adm name dbUser password = on_admin adm MariaDB (maria_create_stmts name dbUser password)"

definition pg_create_stmts :: "string \<Rightarrow> string \<Rightarrow> string \<Rightarrow> string list" where
  "pg_create_stmts name dbUser password =
    [''CREATE ROLE '' @ dbUser @ '' LOGIN PASSWORD '' @ QuoteSQL password @ '' NOSUPERUSER NOCREATEDB NOCREATEROLE'',
     ''CREATE DATABASE '' @ name @ '' OWNER '' @ dbUser @ '' ENCODING '' @ [squote] @ ''UTF8'' @ [squote] @ '' TEMPLATE template0'']"

definition pgCreate :: "'h DbAdmin \<Rightarrow> string \<Rightarrow> string \<Rightarrow> string \<Rightarrow> 'h \<Rightarrow> string option \<times> 'h" where
  "pgCreate adm name dbUser password = on_admin adm PostgreSQL (pg_create_stmts name dbUser password)"

text \<open>The package of the account, or else the default one.\<close>

definition db_package :: "db \<Rightarrow> User \<Rightarrow> Package option" where
  "db_package s user = (case GetPackage s (uPackageID user) of Inr p \<Rightarrow> Some p
     | Inl _ \<Rightarrow> (case GetDefaultPackage s of Inr p \<Rightarrow> Some p | Inl _ \<Rightarrow> None))"

definition db_quota :: "db \<Rightarrow> User \<Rightarrow> dbs_error option" where
  "db_quota s user = (case db_package s user of None \<Rightarrow> None
     | Some p \<Rightarrow> if pMaxDatabases p > 0 then
         (case GetPackageUsage s (uID user) of Inl e \<Rightarrow> Some (StoreError e)
          | Inr u \<Rightarrow> if int (puDatabases u) \<ge> pMaxDatabases p then Some TooManyDatabases else None)
       else None)"

text \<open>What \<open>Create\<close> does before it changes anything: the checks and the password. Nothing is locked or reserved, so that other requests may
  run between this and the rest.\<close>

definition db_check :: "(nat \<Rightarrow> nat option) \<Rightarrow> User \<Rightarrow> string \<Rightarrow> string \<Rightarrow> db \<Rightarrow> dbs_error + string" where
  "db_check draw user server name s =
    (if server \<noteq> ''mariadb'' \<and> server \<noteq> ''postgres'' then Inl UnsupportedServer
     else if \<not> ValidDBName name then Inl InvalidName
     else (case db_quota s user of Some e \<Rightarrow> Inl e
     | None \<Rightarrow> (case RandomPassword draw of None \<Rightarrow> Inl NoPassword | Some password \<Rightarrow> Inr password)))"

text \<open>The rest: the database and its user on the server, then the row.\<close>

definition db_provision :: "'h DbAdmin \<Rightarrow> gotime \<Rightarrow> string \<Rightarrow> User \<Rightarrow> string \<Rightarrow> string \<Rightarrow> string \<Rightarrow> db \<times> 'h \<Rightarrow> (dbs_error + Database) \<times> db \<times> 'h" where
  "db_provision adm tm nonce user server name password st = (case st of (s, h) \<Rightarrow>
     let dbUser = name @ ''_u'' in
     (case (if server = ''mariadb'' then mariaCreate adm name dbUser password h else pgCreate adm name dbUser password h) of
        (Some e, h1) \<Rightarrow> (Inl (ServerError e), s, h1)
      | (None, h1) \<Rightarrow>
          (case CreateDatabase (da_box adm) nonce s tm
              \<lparr>bID = 0, bUserID = uID user, bServer = server, bName = name, bDBUser = dbUser, bDBPassword = password, bCreatedAt = 0\<rparr> of
             Inl e \<Rightarrow> (Inl (StoreError e), s, h1) | Inr (row, s1) \<Rightarrow> (Inr row, s1, h1))))"

definition db_Create :: "'h DbAdmin \<Rightarrow> gotime \<Rightarrow> string \<Rightarrow> (nat \<Rightarrow> nat option) \<Rightarrow> User \<Rightarrow> string \<Rightarrow> string \<Rightarrow> db \<times> 'h \<Rightarrow> (dbs_error + Database) \<times> db \<times> 'h" where
  "db_Create adm tm nonce draw user server name st = (case db_check draw user server name (fst st) of Inl e \<Rightarrow> (Inl e, st)
     | Inr password \<Rightarrow> db_provision adm tm nonce user server name password st)"

definition db_kind_of :: "Database \<Rightarrow> db_kind option" where
  "db_kind_of row = (if bServer row = ''mariadb'' then Some MariaDB else if bServer row = ''postgres'' then Some PostgreSQL else None)"

definition drop_stmts :: "db_kind \<Rightarrow> Database \<Rightarrow> string list" where
  "drop_stmts k row = (case k of
     MariaDB \<Rightarrow> [''DROP DATABASE IF EXISTS `'' @ bName row @ ''`'', ''DROP USER IF EXISTS '' @ account_at (bDBUser row) ''localhost'',
       ''DROP USER IF EXISTS '' @ account_at (bDBUser row) ''127.0.0.1'']
   | PostgreSQL \<Rightarrow> [''DROP DATABASE IF EXISTS '' @ bName row @ '' WITH (FORCE)'', ''DROP ROLE IF EXISTS '' @ bDBUser row])"

definition db_Drop :: "'h DbAdmin \<Rightarrow> Database \<Rightarrow> db \<times> 'h \<Rightarrow> dbs_error option \<times> db \<times> 'h" where
  "db_Drop adm row st = (case st of (s, h) \<Rightarrow> (case db_kind_of row of None \<Rightarrow> (Some UnsupportedServer, st)
     | Some k \<Rightarrow> (case on_admin adm k (drop_stmts k row) h of (Some e, h1) \<Rightarrow> (Some (ServerError e), s, h1)
       | (None, h1) \<Rightarrow> (case DeleteDatabaseRow s (bID row) of Inl e \<Rightarrow> (Some (StoreError e), s, h1) | Inr s1 \<Rightarrow> (None, s1, h1)))))"

section \<open>Locking the login of a database\<close>

definition lock_stmts :: "db_kind \<Rightarrow> Database \<Rightarrow> bool \<Rightarrow> string list" where
  "lock_stmts k row locked = (case k of
     MariaDB \<Rightarrow> map (\<lambda>host. ''ALTER USER '' @ account_at (bDBUser row) host @ '' ACCOUNT '' @ (if locked then ''LOCK'' else ''UNLOCK'')) [''localhost'', ''127.0.0.1'']
   | PostgreSQL \<Rightarrow> [''ALTER ROLE '' @ bDBUser row @ '' '' @ (if locked then ''NOLOGIN'' else ''LOGIN'')])"

text \<open>Connections that are already open are closed; errors of that are dropped.\<close>

definition close_sessions :: "'h DbAdmin \<Rightarrow> db_kind \<Rightarrow> Database \<Rightarrow> 'h \<Rightarrow> 'h" where
  "close_sessions adm k row h = (case k of
     MariaDB \<Rightarrow> (case da_sessions adm (bDBUser row) h of None \<Rightarrow> h
       | Some ids \<Rightarrow> fold (\<lambda>i. snd \<circ> da_exec adm MariaDB (''KILL CONNECTION '' @ decimal_int i) []) ids h)
   | PostgreSQL \<Rightarrow> snd (da_exec adm PostgreSQL ''SELECT pg_terminate_backend(pid) FROM pg_stat_activity WHERE usename = $1'' [bDBUser row] h))"

definition db_SetLocked :: "'h DbAdmin \<Rightarrow> Database \<Rightarrow> bool \<Rightarrow> 'h \<Rightarrow> dbs_error option \<times> 'h" where
  "db_SetLocked adm row locked h = (case db_kind_of row of None \<Rightarrow> (Some UnsupportedServer, h)
     | Some k \<Rightarrow> (case on_admin adm k (lock_stmts k row locked) h of (Some e, h1) \<Rightarrow> (Some (ServerError e), h1)
       | (None, h1) \<Rightarrow> (None, if locked then close_sessions adm k row h1 else h1)))"

section \<open>Dumps\<close>

definition pg_environ :: "ServerConf \<Rightarrow> string list" where
  "pg_environ c = [''PGPASSWORD='' @ sc_Password c, ''PGHOST='' @ sc_Host c, ''PGPORT='' @ decimal_int (sc_Port c), ''PGUSER='' @ sc_User c]"

definition write_dump :: "'h DbAdmin \<Rightarrow> string \<Rightarrow> (string + string) \<times> 'h \<Rightarrow> dbs_error option \<times> 'h" where
  "write_dump adm p res = (case res of (Inl e, h) \<Rightarrow> (Some (HostError e), h)
     | (Inr out, h) \<Rightarrow> (case da_WriteFile adm p out h of (e, h1) \<Rightarrow> (map_option HostError e, h1)))"

definition db_Dump :: "'h DbAdmin \<Rightarrow> Database \<Rightarrow> string \<Rightarrow> string \<Rightarrow> 'h \<Rightarrow> dbs_error option \<times> 'h" where
  "db_Dump adm row dir p h = (case da_MkdirAll adm dir h of (Some e, h1) \<Rightarrow> (Some (HostError e), h1)
     | (None, h1) \<Rightarrow> (case db_kind_of row of None \<Rightarrow> (Some UnsupportedServer, h1)
       | Some MariaDB \<Rightarrow> let c = da_MariaDB adm in write_dump adm p (run_trimmed adm [] ''mysqldump''
           [''-h'', sc_Host c, ''-P'', decimal_int (sc_Port c), ''-u'', sc_User c, ''-p'' @ sc_Password c, ''--single-transaction'', ''--routines'', ''--triggers'', bName row] h1)
       | Some PostgreSQL \<Rightarrow> write_dump adm p (run_trimmed adm (pg_environ (da_PostgreSQL adm)) ''pg_dump'' [''-Fc'', bName row] h1)))"

definition db_Restore :: "'h DbAdmin \<Rightarrow> Database \<Rightarrow> string \<Rightarrow> 'h \<Rightarrow> dbs_error option \<times> 'h" where
  "db_Restore adm row p h = (case da_ReadFile adm p h of Inl e \<Rightarrow> (Some (HostError e), h)
     | Inr data \<Rightarrow> (case db_kind_of row of None \<Rightarrow> (Some UnsupportedServer, h)
       | Some MariaDB \<Rightarrow> (case on_admin adm MariaDB [''USE `'' @ bName row @ ''`'', data] h of (e, h1) \<Rightarrow> (map_option ServerError e, h1))
       | Some PostgreSQL \<Rightarrow> (case da_run adm (pg_environ (da_PostgreSQL adm)) ''pg_restore'' [''--no-owner'', ''--role'', bDBUser row, ''-d'', bName row, p] h of
           (Inl e, h1) \<Rightarrow> (Some (HostError e), h1) | (Inr _, h1) \<Rightarrow> (None, h1))))"

section \<open>Handlers\<close>

datatype db_body = DbErr string | DbFailed dbs_error | DbStoreErr store_error | DbServers "ServerInfo list" | DbRows "Database list" | DbRow Database | DbOk

type_synonym db_response = "nat \<times> db_body"

definition handleDBServers :: "'h DbAdmin \<Rightarrow> 'h Server \<Rightarrow> db_response \<times> 'h Server" where
  "handleDBServers adm srv = ((200, DbServers (Servers adm (srv_host srv))), srv)"

definition withoutPasswords :: "Database list \<Rightarrow> Database list" where
  "withoutPasswords rows = map (\<lambda>d. d\<lparr>bDBPassword := []\<rparr>) rows"

definition handleDBList :: "'h DbAdmin \<Rightarrow> Ctx \<Rightarrow> 'h Server \<Rightarrow> db_response \<times> 'h Server" where
  "handleDBList adm ctx srv = (case ctxUser ctx of None \<Rightarrow> ((500, DbErr ''internal server error''), srv)
     | Some u \<Rightarrow> (case ListDatabases (da_box adm) (srv_db srv) (if uRole u = RoleAdmin then 0 else uID u) of
         Inl e \<Rightarrow> ((500, DbStoreErr e), srv) | Inr rows \<Rightarrow> ((200, DbRows (withoutPasswords rows)), srv)))"

text \<open>The database of the URL, for its owner or an administrator.\<close>

definition with_database :: "'h DbAdmin \<Rightarrow> Request \<Rightarrow> Ctx \<Rightarrow> (Database \<Rightarrow> 'h Server \<Rightarrow> db_response \<times> 'h Server) \<Rightarrow> 'h Server \<Rightarrow> db_response \<times> 'h Server" where
  "with_database adm r ctx k srv = (case pathID r of Inl m \<Rightarrow> ((400, DbErr m), srv)
     | Inr i \<Rightarrow> (case GetDatabase (da_box adm) (srv_db srv) i of Inl _ \<Rightarrow> ((404, DbErr ''database not found''), srv)
     | Inr row \<Rightarrow> (case ctxUser ctx of None \<Rightarrow> ((500, DbErr ''internal server error''), srv)
     | Some u \<Rightarrow> if bUserID row \<noteq> uID u \<and> uRole u \<noteq> RoleAdmin then ((403, DbErr ''cannot manage this database''), srv) else k row srv)))"

definition handleDBCredentials :: "'h DbAdmin \<Rightarrow> Request \<Rightarrow> gotime \<Rightarrow> Ctx \<Rightarrow> 'h Server \<Rightarrow> db_response \<times> 'h Server" where
  "handleDBCredentials adm r tm ctx = with_database adm r ctx (\<lambda>row srv.
     ((200, DbRow row), audit r tm ctx ''db.credentials'' (bName row) (''server='' @ bServer row) srv))"

definition pkgAllowsDB :: "db \<Rightarrow> User \<Rightarrow> bool" where
  "pkgAllowsDB s u \<longleftrightarrow> uRole u = RoleAdmin \<or> (case GetPackage s (uPackageID u) of Inr _ \<Rightarrow> True | Inl _ \<Rightarrow> False)"

record dbCreateReq =
  dq_Server :: string
  dq_Name :: string

definition handleDBCreate :: "'h DbAdmin \<Rightarrow> Request \<Rightarrow> gotime \<Rightarrow> string \<Rightarrow> (nat \<Rightarrow> nat option) \<Rightarrow> dbCreateReq option \<Rightarrow> Ctx \<Rightarrow> 'h Server \<Rightarrow> db_response \<times> 'h Server" where
  "handleDBCreate adm r tm nonce draw body ctx srv = (case ctxUser ctx of None \<Rightarrow> ((500, DbErr ''internal server error''), srv)
     | Some u \<Rightarrow> if \<not> pkgAllowsDB (srv_db srv) u then ((403, DbErr ''your package does not allow databases''), srv)
       else (case body of None \<Rightarrow> ((400, DbErr ''invalid request body''), srv)
       | Some q \<Rightarrow> (case db_Create adm tm nonce draw u (dq_Server q) (dq_Name q) (srv_db srv, srv_host srv) of
           (Inl e, s1, h1) \<Rightarrow> ((400, DbFailed e), srv\<lparr>srv_db := s1, srv_host := h1\<rparr>)
         | (Inr row, s1, h1) \<Rightarrow> ((201, DbRow row), audit r tm ctx ''db.create'' (bName row) (''server='' @ bServer row) (srv\<lparr>srv_db := s1, srv_host := h1\<rparr>)))))"

definition handleDBDelete :: "'h DbAdmin \<Rightarrow> Request \<Rightarrow> gotime \<Rightarrow> Ctx \<Rightarrow> 'h Server \<Rightarrow> db_response \<times> 'h Server" where
  "handleDBDelete adm r tm ctx = with_database adm r ctx (\<lambda>row srv.
     (case db_Drop adm row (srv_db srv, srv_host srv) of
        (Some e, s1, h1) \<Rightarrow> ((502, DbFailed e), srv\<lparr>srv_db := s1, srv_host := h1\<rparr>)
      | (None, s1, h1) \<Rightarrow> ((200, DbOk), audit r tm ctx ''db.delete'' (bName row) (''server='' @ bServer row) (srv\<lparr>srv_db := s1, srv_host := h1\<rparr>))))"

text \<open>The requests under \<^verbatim>\<open>/api/databases\<close>, without dumps.\<close>

datatype db_call = DbCallServers | DbCallList | DbCallCredentials | DbCallCreate "dbCreateReq option" | DbCallDelete

definition serve_databases :: "'h DbAdmin \<Rightarrow> Request \<Rightarrow> gotime \<Rightarrow> string \<Rightarrow> (nat \<Rightarrow> nat option) \<Rightarrow> Ctx \<Rightarrow> db_call \<Rightarrow> 'h Server \<Rightarrow> db_response \<times> 'h Server" where
  "serve_databases adm r tm nonce draw ctx call srv = (case call of
     DbCallServers \<Rightarrow> handleDBServers adm srv | DbCallList \<Rightarrow> handleDBList adm ctx srv | DbCallCredentials \<Rightarrow> handleDBCredentials adm r tm ctx srv
   | DbCallCreate body \<Rightarrow> handleDBCreate adm r tm nonce draw body ctx srv | DbCallDelete \<Rightarrow> handleDBDelete adm r tm ctx srv)"

end
