(* ===== verification/Databases_Theorems.thy ===== *)
theory Databases_Theorems
  imports Databases Api_Theorems
begin

text \<open>
  Databases of the accounts: the limit of the package, who gets to see rows and passwords, and what the grant of a new database on
  MariaDB reaches.
\<close>

section \<open>Creating\<close>

text \<open>Everything a successful creation has passed.\<close>

lemma db_Create_ok:
  assumes "db_Create adm tm nonce draw user server name (s, h) = (Inr row, s', h')"
  obtains password where "server = ''mariadb'' \<or> server = ''postgres''" "ValidDBName name" "db_quota s user = None" "RandomPassword draw = Some password"
    "(if server = ''mariadb'' then mariaCreate adm name (name @ ''_u'') password h else pgCreate adm name (name @ ''_u'') password h) = (None, h')"
    "CreateDatabase (da_box adm) nonce s tm \<lparr>bID = 0, bUserID = uID user, bServer = server, bName = name, bDBUser = name @ ''_u'', bDBPassword = password, bCreatedAt = 0\<rparr> = Inr (row, s')"
  using assms unfolding db_Create_def db_check_def db_provision_def by (auto simp: Let_def split: if_splits option.splits prod.splits sum.splits)

lemma CreateDatabase_ok:
  assumes "CreateDatabase box nonce s tm d = Inr (row, s')"
  shows "row = d\<lparr>bID := tseq (databases s) + 1, bCreatedAt := rfc3339 tm\<rparr>" "\<not> db_down s"
    "\<exists>sealed. trows (databases s') = trows (databases s) @ [row\<lparr>bDBPassword := sealed\<rparr>]"
    "\<forall>r\<in>set (trows (databases s)). \<not> (bServer r = bServer d \<and> bName r = bName d)"
proof -
  from assms obtain sealed where "s' = s\<lparr>databases := t_insert (\<lambda>i. bID_update (\<lambda>_. i)) (row\<lparr>bDBPassword := sealed\<rparr>) (databases s)\<rparr>"
    and row: "row = d\<lparr>bID := tseq (databases s) + 1, bCreatedAt := rfc3339 tm\<rparr>"
    and "\<not> db_down s" "\<forall>r\<in>set (trows (databases s)). \<not> (bServer r = bServer d \<and> bName r = bName d)"
    by (auto simp: CreateDatabase_def bindR_Inr_iff exec_unique_def Let_def t_exists_def list_ex_iff split: if_splits)
  then show "row = d\<lparr>bID := tseq (databases s) + 1, bCreatedAt := rfc3339 tm\<rparr>" "\<not> db_down s"
    "\<exists>sealed. trows (databases s') = trows (databases s) @ [row\<lparr>bDBPassword := sealed\<rparr>]"
    "\<forall>r\<in>set (trows (databases s)). \<not> (bServer r = bServer d \<and> bName r = bName d)"
    by (auto simp: t_insert_def intro: exI [where x = sealed])
qed

text \<open>C39: A creation that no other one overlaps keeps the limit of the package: after it the account has at most as many databases as
  its package (or, when that one is gone, the default package) allows. The new database has a valid name that no other row of the panel's
  table for the same server has (databases the panel does not know are not looked for), belongs to the account, and is the last row of
  the table. Creations that overlap are the subject of \<open>parallel_creates_exceed_limit\<close>.\<close>

theorem database_quota_kept:
  assumes "db_Create adm tm nonce draw user server name (s, h) = (Inr row, s', h')"
  shows "(\<forall>p. db_package s user = Some p \<longrightarrow> pMaxDatabases p > 0 \<longrightarrow> int (t_count (\<lambda>b. bUserID b = uID user) (databases s')) \<le> pMaxDatabases p) \<and>
    ValidDBName (bName row) \<and> bName row = name \<and> bServer row = server \<and> bUserID row = uID user \<and>
    (\<forall>r\<in>set (trows (databases s)). \<not> (bServer r = server \<and> bName r = name)) \<and>
    (\<exists>sealed. trows (databases s') = trows (databases s) @ [row\<lparr>bDBPassword := sealed\<rparr>])"
proof -
  from assms obtain password where c: "ValidDBName name" "db_quota s user = None"
      "CreateDatabase (da_box adm) nonce s tm \<lparr>bID = 0, bUserID = uID user, bServer = server, bName = name, bDBUser = name @ ''_u'', bDBPassword = password, bCreatedAt = 0\<rparr> = Inr (row, s')"
    by (rule db_Create_ok)
  note row = CreateDatabase_ok [OF c(3)]
  have "t_count (\<lambda>b. bUserID b = uID user) (databases s') = Suc (t_count (\<lambda>b. bUserID b = uID user) (databases s))"
    using row(1,3) by (auto simp: t_count_def t_select_def)
  then have "int (t_count (\<lambda>b. bUserID b = uID user) (databases s')) \<le> pMaxDatabases p" if "db_package s user = Some p" "pMaxDatabases p > 0" for p
    using c(2) that row(2) by (auto simp: db_quota_def GetPackageUsage_def query_def split: if_splits)
  then show ?thesis using c(1) row by auto
qed

text \<open>The check and the insertion are two steps, and nothing is reserved in between: two requests of one account that both pass the check
  while one database is left to them both succeed, and the account has one more than its package allows.\<close>

theorem parallel_creates_exceed_limit:
  assumes "db_check draw1 user server1 name1 s = Inr pw1" "db_check draw2 user server2 name2 s = Inr pw2"
    and "db_provision adm tm nonce1 user server1 name1 pw1 (s, h) = (Inr row1, s1, h1)" "db_provision adm tm nonce2 user server2 name2 pw2 (s1, h1) = (Inr row2, s2, h2)"
    and "db_package s user = Some p" "int (t_count (\<lambda>b. bUserID b = uID user) (databases s)) = pMaxDatabases p - 1"
  shows "int (t_count (\<lambda>b. bUserID b = uID user) (databases s2)) = pMaxDatabases p + 1"
proof -
  have n: "t_count (\<lambda>b. bUserID b = uID user) (databases s') = Suc (t_count (\<lambda>b. bUserID b = uID user) (databases s))"
    if "db_provision adm tm nonce user server name pw (s, h) = (Inr row, s', h')" for nonce server name pw s h row s' h'
  proof -
    from that obtain d where "CreateDatabase (da_box adm) nonce s tm d = Inr (row, s')" "bUserID d = uID user"
      by (auto simp: db_provision_def Let_def split: prod.splits option.splits sum.splits)
    then show ?thesis using CreateDatabase_ok(1,3) by (fastforce simp: t_count_def t_select_def)
  qed
  show ?thesis using n [OF assms(3)] n [OF assms(4)] assms(6) by simp
qed

section \<open>What a grant reaches\<close>

text \<open>In the database name of a \<open>GRANT\<close>, MariaDB reads \<open>_\<close> as any one character and \<open>%\<close> as any characters, unless a backslash escapes them.\<close>

fun like_db :: "string \<Rightarrow> string \<Rightarrow> bool" where
  "like_db [] s = (s = [])"
| "like_db (c # p) [] = (c = CHR ''%'' \<and> like_db p [])"
| "like_db (c # p) (x # s) = (if c = CHR ''%'' then like_db p (x # s) \<or> like_db (c # p) s
     else if c = bslash then (case p of [] \<Rightarrow> False | q # ps \<Rightarrow> q = x \<and> like_db ps s)
     else (c = CHR ''_'' \<or> c = x) \<and> like_db p s)"

text \<open>What is relied on of MariaDB, by the text of its statements: a granted pattern opens all matching databases to the account, and neither
  granting nor \<open>FLUSH PRIVILEGES\<close> takes access away. \<open>can h u d\<close>: the account \<open>u\<close> may read and write the database \<open>d\<close>.\<close>

definition grant_text :: "string \<Rightarrow> string \<Rightarrow> string \<Rightarrow> string" where
  "grant_text pattern u host = ''GRANT ALL PRIVILEGES ON `'' @ pattern @ ''`.* TO '' @ [CHR 0x27] @ u @ [CHR 0x27] @ ''@'' @ [CHR 0x27] @ host @ [CHR 0x27]"

definition grant_ok :: "'h DbAdmin \<Rightarrow> ('h \<Rightarrow> string \<Rightarrow> string \<Rightarrow> bool) \<Rightarrow> bool" where
  "grant_ok adm can \<longleftrightarrow>
    (\<forall>pattern u host h h' d. da_exec adm MariaDB (grant_text pattern u host) [] h = (None, h') \<longrightarrow> like_db pattern d \<longrightarrow> can h' u d) \<and>
    (\<forall>pattern u host h h' v d. da_exec adm MariaDB (grant_text pattern u host) [] h = (None, h') \<longrightarrow> can h v d \<longrightarrow> can h' v d) \<and>
    (\<forall>h h' v d. da_exec adm MariaDB ''FLUSH PRIVILEGES'' [] h = (None, h') \<longrightarrow> can h v d \<longrightarrow> can h' v d)"

lemma grant_sql_text: "grant_sql name u host = grant_text name u host"
  by (simp add: grant_sql_def account_at_def grant_text_def)

lemma run_stmts_cons: "run_stmts adm k (x # ys) h = (None, h') \<Longrightarrow> \<exists>h1. da_exec adm k x [] h = (None, h1) \<and> run_stmts adm k ys h1 = (None, h')"
  by (auto split: prod.splits option.splits)

lemma run_stmts_one: "run_stmts adm k [x] h = (None, h') \<Longrightarrow> da_exec adm k x [] h = (None, h')"
  by (auto split: prod.splits option.splits)

lemma mariaCreate_grants:
  assumes "grant_ok adm can" "mariaCreate adm name u password h = (None, h')" "like_db name d"
  shows "can h' u d"
proof -
  have "run_stmts adm MariaDB (maria_create_stmts name u password) h = (None, h')"
    using assms(2) by (auto simp: mariaCreate_def on_admin_def split: option.splits)
  then have "\<exists>h0. run_stmts adm MariaDB [grant_sql name u ''localhost'', grant_sql name u ''127.0.0.1'', ''FLUSH PRIVILEGES''] h0 = (None, h')"
    unfolding maria_create_stmts_def by (blast dest: run_stmts_cons)
  then obtain h0 h1 h2 where "da_exec adm MariaDB (grant_sql name u ''localhost'') [] h0 = (None, h1)"
      "da_exec adm MariaDB (grant_sql name u ''127.0.0.1'') [] h1 = (None, h2)" "da_exec adm MariaDB ''FLUSH PRIVILEGES'' [] h2 = (None, h')"
    by (blast dest: run_stmts_cons run_stmts_one)
  then show ?thesis using assms(1,3) unfolding grant_ok_def grant_sql_text by blast
qed

lemma like_underscores: "length d = n \<Longrightarrow> like_db (replicate n (CHR ''_'')) d"
  by (induction n arbitrary: d) (auto simp: length_Suc_conv)

text \<open>C38: On MariaDB a new database opens other databases to its user. The name of the database goes into \<open>GRANT ... ON\<close> unescaped, and underscores are
  allowed in names: the account made for a database may use every database whose name the chosen name matches as a pattern. A name of \<open>n\<close>
  underscores (which is a valid name) opens every database of the server with \<open>n\<close> characters in its name, other customers' ones and the
  server's own included.\<close>

theorem database_grant_reaches_others:
  assumes "grant_ok adm can" "db_Create adm tm nonce draw user ''mariadb'' name (s, h) = (Inr row, s', h')"
  shows "(\<forall>d. like_db name d \<longrightarrow> can h' (bDBUser row) d) \<and>
    (\<forall>n. name = replicate n (CHR ''_'') \<longrightarrow> (\<forall>d. length d = n \<longrightarrow> can h' (bDBUser row) d))"
proof -
  from assms(2) obtain password where m: "mariaCreate adm name (name @ ''_u'') password h = (None, h')"
    and c: "CreateDatabase (da_box adm) nonce s tm \<lparr>bID = 0, bUserID = uID user, bServer = ''mariadb'', bName = name, bDBUser = name @ ''_u'', bDBPassword = password, bCreatedAt = 0\<rparr> = Inr (row, s')"
    by (rule db_Create_ok) simp
  have "bDBUser row = name @ ''_u''" using CreateDatabase_ok(1) [OF c] by simp
  then show ?thesis using mariaCreate_grants [OF assms(1) m] like_underscores by metis
qed

section \<open>Who sees a row\<close>

definition rows_of :: "db_body \<Rightarrow> Database set" where
  "rows_of b = (case b of DbRows rows \<Rightarrow> set rows | DbRow row \<Rightarrow> {row} | _ \<Rightarrow> {})"

lemma scan_all_users:
  "scan_all (scanDatabase box) rs = Inr xs \<Longrightarrow> x \<in> set xs \<Longrightarrow> \<exists>r\<in>set rs. bUserID x = bUserID r"
  by (induction rs arbitrary: xs) (auto simp: bindR_Inr_iff scanDatabase_def)

lemma ListDatabases_own:
  assumes "ListDatabases box s uid = Inr rows" "row \<in> set rows" "uid > 0"
  shows "bUserID row = uid"
  using assms by (auto simp: ListDatabases_def bindR_Inr_iff query_def t_select_def split: if_splits dest!: scan_all_users)

definition last_audit :: "'h Server \<Rightarrow> int \<Rightarrow> string \<Rightarrow> string \<Rightarrow> bool" where
  "last_audit srv actor action target \<longleftrightarrow>
     (\<exists>old e. trows (audit_log (srv_db srv)) = old @ [e] \<and> aActorID e = actor \<and> aAction e = action \<and> aTarget e = target)"

lemma audit_last: "ctxUser ctx = Some u \<Longrightarrow> \<not> db_down (srv_db srv) \<Longrightarrow> last_audit (audit r tm ctx action target detail srv) (uID u) action target"
  by (auto simp: last_audit_def audit_def AppendAudit_def t_insert_def split: option.splits prod.splits)

lemma db_Create_down:
  assumes "db_Create adm tm nonce draw user server name (s, h) = (Inr row, s', h')"
  shows "db_down s' = db_down s" "bUserID row = uID user"
proof -
  from assms obtain password where
    "CreateDatabase (da_box adm) nonce s tm \<lparr>bID = 0, bUserID = uID user, bServer = server, bName = name, bDBUser = name @ ''_u'', bDBPassword = password, bCreatedAt = 0\<rparr> = Inr (row, s')"
    by (rule db_Create_ok)
  then show "db_down s' = db_down s" "bUserID row = uID user"
    by (auto simp: CreateDatabase_def bindR_Inr_iff exec_unique_def Let_def split: if_splits)
qed

lemma with_database_cases:
  assumes "with_database adm r ctx k srv = ((status, body), srv')" "row \<in> rows_of body" "ctxUser ctx = Some u"
  obtains d where "bUserID d = uID u \<or> uRole u = RoleAdmin" "k d srv = ((status, body), srv')"
  using assms by (auto simp: with_database_def rows_of_def split: sum.splits if_splits)

lemma handleDBCreate_shown:
  assumes "handleDBCreate adm r tm nonce draw q ctx srv = ((status, body), srv')" "row \<in> rows_of body" "ctxUser ctx = Some u"
  shows "\<exists>server name s1 h1. db_Create adm tm nonce draw u server name (srv_db srv, srv_host srv) = (Inr row, s1, h1) \<and>
    srv' = audit r tm ctx ''db.create'' (bName row) (''server='' @ bServer row) (srv\<lparr>srv_db := s1, srv_host := h1\<rparr>)"
proof (cases "pkgAllowsDB (srv_db srv) u \<and> q \<noteq> None")
  case True
  then obtain x where q: "q = Some x" by blast
  obtain res s1 h1 where c: "db_Create adm tm nonce draw u (dq_Server x) (dq_Name x) (srv_db srv, srv_host srv) = (res, s1, h1)"
    by (cases "db_Create adm tm nonce draw u (dq_Server x) (dq_Name x) (srv_db srv, srv_host srv)")
  then have "res = Inr row \<and> srv' = audit r tm ctx ''db.create'' (bName row) (''server='' @ bServer row) (srv\<lparr>srv_db := s1, srv_host := h1\<rparr>)"
    using assms True q by (cases res) (auto simp: handleDBCreate_def rows_of_def)
  then show ?thesis using c by blast
next
  case False
  then show ?thesis using assms by (auto simp: handleDBCreate_def rows_of_def split: if_splits)
qed

text \<open>C40: The rows of databases an answer shows are the caller's own unless the caller is an administrator, and a password is only shown when the
  database has just been created or its credentials were asked for; then the last row of the audit log says so, with the caller and the
  database.\<close>

theorem database_rows_guarded:
  assumes "serve_databases adm r tm nonce draw ctx call srv = ((status, body), srv')" "row \<in> rows_of body"
    and "ctxUser ctx = Some u" "uID u > 0" "\<not> db_down (srv_db srv)"
  shows "(bUserID row = uID u \<or> uRole u = RoleAdmin) \<and>
    (bDBPassword row \<noteq> [] \<longrightarrow> last_audit srv' (uID u) ''db.credentials'' (bName row) \<or> last_audit srv' (uID u) ''db.create'' (bName row))"
proof (cases call)
  case DbCallServers
  then show ?thesis using assms(1,2) by (auto simp: serve_databases_def handleDBServers_def rows_of_def)
next
  case DbCallList
  then obtain rows where "ListDatabases (da_box adm) (srv_db srv) (if uRole u = RoleAdmin then 0 else uID u) = Inr rows" "row \<in> set (withoutPasswords rows)"
    using assms(1-3) by (auto simp: serve_databases_def handleDBList_def rows_of_def split: sum.splits)
  then show ?thesis using assms(4) ListDatabases_own [of "da_box adm" "srv_db srv" "uID u" rows] by (auto simp: withoutPasswords_def split: if_splits)
next
  case DbCallCredentials
  then have "with_database adm r ctx (\<lambda>row srv. ((200, DbRow row), audit r tm ctx ''db.credentials'' (bName row) (''server='' @ bServer row) srv)) srv = ((status, body), srv')"
    using assms(1) by (simp add: serve_databases_def handleDBCredentials_def)
  then show ?thesis using assms(2,3)
    by (rule with_database_cases) (use assms in \<open>auto simp: rows_of_def audit_last\<close>)
next
  case (DbCallCreate q)
  then have "handleDBCreate adm r tm nonce draw q ctx srv = ((status, body), srv')" using assms(1) by (simp add: serve_databases_def)
  from handleDBCreate_shown [OF this assms(2,3)] obtain server name s1 h1 where c: "db_Create adm tm nonce draw u server name (srv_db srv, srv_host srv) = (Inr row, s1, h1)"
    and s: "srv' = audit r tm ctx ''db.create'' (bName row) (''server='' @ bServer row) (srv\<lparr>srv_db := s1, srv_host := h1\<rparr>)"
    by blast
  have "last_audit srv' (uID u) ''db.create'' (bName row)"
    unfolding s by (rule audit_last [OF assms(3)]) (use db_Create_down [OF c] assms(5) in simp)
  then show ?thesis using db_Create_down [OF c] by blast
next
  case DbCallDelete
  then show ?thesis using assms(1,2)
    by (auto simp: serve_databases_def handleDBDelete_def with_database_def rows_of_def split: sum.splits if_splits prod.splits option.splits)
qed

section \<open>Dumps\<close>

text \<open>What a dump of PostgreSQL loses: white space at either end of the archive. Its format is binary, so that the last byte may be one.\<close>

lemma pg_dump_trimmed:
  assumes "bServer row = ''postgres''" "da_MkdirAll adm dir h = (None, h1)"
    "da_run adm (pg_environ (da_PostgreSQL adm)) ''pg_dump'' [''-Fc'', bName row] h1 = (Inr archive, h2)"
  shows "db_Dump adm row dir p h = (case da_WriteFile adm p (TrimSpace archive) h2 of (e, h3) \<Rightarrow> (map_option HostError e, h3))"
  using assms by (simp add: db_Dump_def db_kind_of_def run_trimmed_def write_dump_def)

text \<open>The MySQL driver sends one statement at a time unless it is told otherwise, which it is not: a dump of several statements is refused.\<close>

definition single_statements :: "'h DbAdmin \<Rightarrow> bool" where
  "single_statements adm \<longleftrightarrow> (\<forall>q h. length (splitStatements q mysqlDialect) > 1 \<longrightarrow> (\<exists>e. da_exec adm MariaDB q [] h = (Some e, h)))"

lemma maria_restore_refused:
  assumes "single_statements adm" "bServer row = ''mariadb''" "da_ReadFile adm p h = Inr dump" "length (splitStatements dump mysqlDialect) > 1"
  shows "fst (db_Restore adm row p h) \<noteq> None"
proof -
  have "fst (run_stmts adm MariaDB [use, dump] h) \<noteq> None" for use
    using assms(1,4) unfolding single_statements_def by (auto split: prod.splits option.splits) (metis option.distinct(1) prod.inject)
  then have "fst (on_admin adm MariaDB [use, dump] h) \<noteq> None" for use
    by (simp add: on_admin_def split: option.splits)
  then show ?thesis using assms(2,3) by (simp add: db_Restore_def db_kind_of_def case_prod_unfold)
qed

section \<open>Examples\<close>

text \<open>A server that keeps its statements; access follows from the grants among them.\<close>

definition ex_dbadmin :: "string list DbAdmin" where
  "ex_dbadmin = (let c = \<lparr>sc_Host = ''127.0.0.1'', sc_Port = 3306, sc_User = ''root'', sc_Password = []\<rparr> in
     \<lparr>da_MariaDB = c, da_PostgreSQL = c, da_open = (\<lambda>_ _. None), da_exec = (\<lambda>_ q _ h. (None, q # h)), da_sessions = (\<lambda>_ _. None),
      da_LookPath = (\<lambda>_ _. False), da_ServiceRunning = (\<lambda>_ _. False), da_run = (\<lambda>_ _ _ h. (Inl [], h)), da_MkdirAll = (\<lambda>_ h. (None, h)),
      da_WriteFile = (\<lambda>_ _ h. (None, h)), da_ReadFile = (\<lambda>_ _. Inl []), da_box = None\<rparr>)"

definition ex_can :: "string list \<Rightarrow> string \<Rightarrow> string \<Rightarrow> bool" where
  "ex_can h u d \<longleftrightarrow> (\<exists>p host. grant_text p u host \<in> set h \<and> like_db p d)"

lemma ex_grant_ok: "grant_ok ex_dbadmin ex_can"
  unfolding grant_ok_def ex_dbadmin_def ex_can_def by (auto simp: Let_def)

abbreviation ex_draw :: "nat \<Rightarrow> nat option" where "ex_draw \<equiv> \<lambda>i. Some (i * 7)"

lemma ex_password: "\<exists>p. RandomPassword ex_draw = Some p \<and> p \<noteq> []"
proof -
  have "(case RandomPassword ex_draw of None \<Rightarrow> False | Some p \<Rightarrow> p \<noteq> [])" by code_simp
  then show ?thesis by (auto split: option.splits)
qed

lemma ex_create:
  assumes "ValidDBName name" "db_quota s u = None" "\<not> db_down s" "databases s = t_empty"
  shows "\<exists>row s' h'. db_Create ex_dbadmin 0 [] ex_draw u ''mariadb'' name (s, []) = (Inr row, s', h') \<and> bDBUser row = name @ ''_u'' \<and> bUserID row = uID u"
proof -
  obtain p where p: "RandomPassword ex_draw = Some p" "p \<noteq> []" using ex_password by blast
  have "da_box ex_dbadmin = None" "da_open ex_dbadmin k h = None" "da_exec ex_dbadmin k q args h = (None, q # h)" for k h q args
    by (simp_all add: ex_dbadmin_def Let_def)
  then show ?thesis using assms p
    by (simp add: db_Create_def db_check_def db_provision_def mariaCreate_def on_admin_def maria_create_stmts_def CreateDatabase_def sealSecret_def exec_unique_def t_exists_def t_empty_def Let_def)
qed

theorem database_grant_reaches_others_witness:
  "\<exists>row s' h'. db_Create ex_dbadmin 0 [] ex_draw ex_alice ''mariadb'' ''____'' (db_empty, []) = (Inr row, s', h') \<and> ex_can h' (bDBUser row) ''shop''"
proof -
  have "ValidDBName ''____''" "db_quota db_empty ex_alice = None" "\<not> db_down db_empty" "databases db_empty = t_empty"
    by (simp_all add: ValidDBName_def db_quota_def db_package_def GetPackage_def GetDefaultPackage_def query_row_def db_empty_def t_get_def t_empty_def)
  from ex_create [OF this] obtain row s' h' where c: "db_Create ex_dbadmin 0 [] ex_draw ex_alice ''mariadb'' ''____'' (db_empty, []) = (Inr row, s', h')" by blast
  have "\<forall>d. like_db ''____'' d \<longrightarrow> ex_can h' (bDBUser row) d" using database_grant_reaches_others [OF ex_grant_ok c] by blast
  moreover have "like_db ''____'' ''shop''" by simp
  ultimately show ?thesis using c by blast
qed

theorem database_quota_kept_witness:
  "\<exists>row s' h'. db_Create ex_dbadmin 0 [] ex_draw ex_alice ''mariadb'' ''blog'' (db_empty\<lparr>packages := \<lparr>trows = [ex_package\<lparr>pID := 1\<rparr>], tseq = 1\<rparr>\<rparr>, []) = (Inr row, s', h') \<and>
    int (t_count (\<lambda>b. bUserID b = uID ex_alice) (databases s')) \<le> 1"
proof -
  let ?s = "db_empty\<lparr>packages := \<lparr>trows = [ex_package\<lparr>pID := 1\<rparr>], tseq = 1\<rparr>\<rparr>"
  have p: "db_package ?s ex_alice = Some (ex_package\<lparr>pID := 1\<rparr>)" "pMaxDatabases (ex_package\<lparr>pID := 1\<rparr>) = 1"
    by (simp_all add: db_package_def GetPackage_def query_row_def db_empty_def t_get_def ex_row_def scanUser_def User.truncate_def ex_package_def)
  have "db_quota ?s ex_alice = None"
    unfolding db_quota_def p(1) by (simp add: p(2) GetPackageUsage_def query_def db_empty_def t_empty_def t_count_def t_select_def)
  then have "ValidDBName ''blog''" "db_quota ?s ex_alice = None" "\<not> db_down ?s" "databases ?s = t_empty"
    by (simp_all add: ValidDBName_def GetPackageUsage_def query_def db_empty_def t_empty_def t_count_def t_select_def)
  from ex_create [OF this] obtain row s' h' where c: "db_Create ex_dbadmin 0 [] ex_draw ex_alice ''mariadb'' ''blog'' (?s, []) = (Inr row, s', h')" by blast
  then show ?thesis using database_quota_kept [OF c] p by fastforce
qed

text \<open>One database allowed, two requests that overlap.\<close>

theorem parallel_creates_exceed_limit_witness:
  "let s = db_empty\<lparr>packages := \<lparr>trows = [ex_package\<lparr>pID := 1\<rparr>], tseq = 1\<rparr>\<rparr> in
   \<exists>pw row1 s1 h1 row2 s2 h2. db_check ex_draw ex_alice ''mariadb'' ''blog'' s = Inr pw \<and> db_check ex_draw ex_alice ''mariadb'' ''shop'' s = Inr pw \<and>
     db_provision ex_dbadmin 0 [] ex_alice ''mariadb'' ''blog'' pw (s, []) = (Inr row1, s1, h1) \<and>
     db_provision ex_dbadmin 0 [] ex_alice ''mariadb'' ''shop'' pw (s1, h1) = (Inr row2, s2, h2) \<and>
     int (t_count (\<lambda>b. bUserID b = uID ex_alice) (databases s2)) = 2"
proof -
  let ?s = "db_empty\<lparr>packages := \<lparr>trows = [ex_package\<lparr>pID := 1\<rparr>], tseq = 1\<rparr>\<rparr>"
  have p: "db_package ?s ex_alice = Some (ex_package\<lparr>pID := 1\<rparr>)" "pMaxDatabases (ex_package\<lparr>pID := 1\<rparr>) = 1"
    by (simp_all add: db_package_def GetPackage_def query_row_def db_empty_def t_get_def ex_row_def scanUser_def User.truncate_def ex_package_def)
  have z: "t_count (\<lambda>b. bUserID b = uID ex_alice) (databases ?s) = 0" by (simp add: db_empty_def t_empty_def t_count_def t_select_def)
  obtain pw where pw: "RandomPassword ex_draw = Some pw" "pw \<noteq> []" using ex_password by blast
  have "db_quota ?s ex_alice = None"
    unfolding db_quota_def p(1) by (simp add: p(2) GetPackageUsage_def query_def db_empty_def t_empty_def t_count_def t_select_def)
  then have c: "db_check ex_draw ex_alice ''mariadb'' name ?s = Inr pw" if "ValidDBName name" for name
    using that pw by (simp add: db_check_def)
  have v: "ValidDBName ''blog''" "ValidDBName ''shop''" by (simp_all add: ValidDBName_def)
  have x: "da_box ex_dbadmin = None" "da_open ex_dbadmin k h = None" "da_exec ex_dbadmin k q args h = (None, q # h)" for k h q args
    by (simp_all add: ex_dbadmin_def Let_def)
  obtain row1 s1 h1 where 1: "db_provision ex_dbadmin 0 [] ex_alice ''mariadb'' ''blog'' pw (?s, []) = (Inr row1, s1, h1)"
      and s1: "\<not> db_down s1" "map bName (trows (databases s1)) = [''blog'']"
    using x pw by (simp add: db_provision_def mariaCreate_def on_admin_def maria_create_stmts_def CreateDatabase_def sealSecret_def exec_unique_def t_exists_def
        t_insert_def db_empty_def t_empty_def Let_def)
  obtain row2 s2 h2 where 2: "db_provision ex_dbadmin 0 [] ex_alice ''mariadb'' ''shop'' pw (s1, h1) = (Inr row2, s2, h2)"
    using x pw s1 by (auto simp: db_provision_def mariaCreate_def on_admin_def maria_create_stmts_def CreateDatabase_def sealSecret_def exec_unique_def
        t_exists_def Let_def map_eq_Cons_conv)
  from parallel_creates_exceed_limit [OF c c 1 2 p(1), OF v] p(2) z have "int (t_count (\<lambda>b. bUserID b = uID ex_alice) (databases s2)) = 2" by simp
  then show ?thesis using 1 2 c [OF v(1)] c [OF v(2)] unfolding Let_def by blast
qed

definition ex_db_srv :: "string list Server" where
  "ex_db_srv = \<lparr>srv_db = db_empty\<lparr>databases := \<lparr>trows = [\<lparr>bID = 7, bUserID = 2, bServer = ''mariadb'', bName = ''shop'', bDBUser = ''shop_u'', bDBPassword = ''pw'', bCreatedAt = 0\<rparr>],
     tseq = 7\<rparr>\<rparr>, srv_log = [], srv_log_opens = True, srv_fails = None, srv_host = [], srv_applied = (\<lambda>_. False)\<rparr>"

theorem database_rows_guarded_witness:
  "\<exists>row srv'. serve_databases ex_dbadmin ((ex_request [])\<lparr>PathIDText := ''7''\<rparr>) 0 [] ex_draw \<lparr>ctxUser = Some ex_alice, ctxClaims = None\<rparr> DbCallCredentials ex_db_srv =
      ((200, DbRow row), srv') \<and> bDBPassword row = ''pw'' \<and>
    (last_audit srv' 2 ''db.credentials'' (bName row) \<or> last_audit srv' 2 ''db.create'' (bName row))"
proof -
  let ?ctx = "\<lparr>ctxUser = Some ex_alice, ctxClaims = None\<rparr>" and ?r = "(ex_request [])\<lparr>PathIDText := ''7''\<rparr>"
  let ?row = "\<lparr>bID = 7, bUserID = 2, bServer = ''mariadb'', bName = ''shop'', bDBUser = ''shop_u'', bDBPassword = ''pw'', bCreatedAt = 0\<rparr>"
  have "pathID ?r = Inr 7" by (simp add: pathID_def) code_simp
  moreover have u: "uID ex_alice = 2" by (simp add: ex_row_def scanUser_def User.truncate_def)
  moreover have "GetDatabase (da_box ex_dbadmin) (srv_db ex_db_srv) 7 = Inr ?row" "\<not> db_down (srv_db ex_db_srv)"
    by (simp_all add: ex_db_srv_def ex_dbadmin_def db_empty_def GetDatabase_def query_row_def t_get_def scanDatabase_def openSecret_def HasPrefix_def encPrefix_def)
  ultimately obtain srv' where s: "serve_databases ex_dbadmin ?r 0 [] ex_draw ?ctx DbCallCredentials ex_db_srv = ((200, DbRow ?row), srv')" and "\<not> db_down (srv_db ex_db_srv)"
    by (simp add: serve_databases_def handleDBCredentials_def with_database_def)
  then show ?thesis using database_rows_guarded [OF s, of ?row ex_alice] u by (auto simp: rows_of_def)
qed

end
