(* ===== verification/Spec2Isabelle.thy ===== *)
theory Spec2Isabelle
  imports Store_Theorems Auth_Theorems Suspend_Theorems Limiter Net Api_Theorems Ftp_Theorems Users_Theorems Services_Theorems
    Credentials Pagecache_Theorems Goserver_Theorems Schema_Theorems Export_Theorems Csv_Theorems Dbeditor_Objects Webftp_Theorems Editor_Theorems
    Databases_Theorems
begin

text \<open>
  The Aegis hosting control panel runs web hosting on one Linux host: it keeps accounts, domains, databases, mailboxes and jobs in
  an SQLite store, serves a JSON API and the sites themselves, and drives the services of the host as root. This development
  models the parts that decide who may do what, and what is then done to the store, the file system and the databases. File names
  are under \<^verbatim>\<open>src/internal/\<close>.

  \<^bold>\<open>The program and the theories that model it\<close>

  \<^item> \<^emph>\<open>Shared.\<close> \<open>Prelude\<close>, \<open>Go_Text\<close>, \<open>Net\<close>, \<open>Paths\<close>, \<open>Http\<close>, \<open>Utf8\<close> and \<open>Csv\<close> write out what the sources use of Go's standard library
    (strings, numbers, times, addresses, paths, headers and URLs, \<open>encoding/csv\<close>); \<open>Os\<close> is the file system with links, owners and
    permissions. A Go string is a list of bytes; an error is a value of a sum type. \<open>Net\<close> holds \<open>ClientIP\<close> of \<^verbatim>\<open>svc/clientip.go\<close>.
  \<^item> \<^emph>\<open>Store\<close> (\<^verbatim>\<open>store/\<close>). \<open>Store_Model\<close> has the structs and the schema, one field of the record \<open>db\<close> per SQL table;
    \<open>Store_Accounts\<close>, \<open>Store_Domains\<close> and \<open>Store_Services\<close> have one definition per method. \<open>Store_Laws\<close>, \<open>Store_Refs\<close>, \<open>Store_Props\<close>,
    \<open>Store_Secrets\<close> and \<open>Store_Theorems\<close> show that the constraints of the schema are an invariant of every history of calls, what the
    cascades remove and leave, and that sealed passwords survive.
  \<^item> \<^emph>\<open>Authentication\<close> (\<^verbatim>\<open>auth/\<close>). \<open>Totp\<close> computes RFC 6238 codes down to SHA-1 on machine words; \<open>Auth\<close> has login with its lockouts,
    the second factor, sessions and support sessions. \<open>Auth_Laws\<close>, \<open>Totp_Laws\<close>, \<open>Auth_Theorems\<close>: what a token or a code proves, when
    an address is locked out and when it cannot be.
  \<^item> \<^emph>\<open>HTTP layer\<close> (\<^verbatim>\<open>api/\<close>). \<open>Limiter\<close> is the counter of bad tokens, a refinement of the list of all failures; \<open>Api\<close> the
    middleware and the authentication handlers; \<open>Api_Users\<close> the account and package handlers; \<open>Api_Services\<close> the token, job, quota and
    file handlers. A handler maps request, context and server state to a response and a state. \<open>Api_Theorems\<close>, \<open>Users_Theorems\<close>,
    \<open>Services_Theorems\<close> and \<open>Credentials\<close> show what passes the gate, as whom, and how far a reseller or a file request reaches.
  \<^item> \<^emph>\<open>Accounts on the host\<close> (\<^verbatim>\<open>svc/suspend.go, ftp.go, tenant.go, accounts*.go, quota.go, cron.go\<close>). \<open>Suspend\<close>, \<open>Ftp\<close>, \<open>Quota\<close>,
    \<open>Cron\<close>, with the theories \<open>*_Laws\<close> and \<open>*_Theorems\<close> of the same name: suspending cuts off and restoring undoes exactly that, a
    quota pass is idempotent, the installed crontab is the one of the store.
  \<^item> \<^emph>\<open>Files\<close> (\<^verbatim>\<open>svc/files.go, archive.go\<close>). \<open>Files\<close>, \<open>Archives\<close>; \<open>Path_Laws\<close>, \<open>Files_Laws\<close>, \<open>Files_Theorems\<close>: operations stay in the
    home of the account, unpacking stays within its budget, and where neither holds.
  \<^item> \<^emph>\<open>Site server\<close> (\<^verbatim>\<open>svc/goserver.go, htaccess.go, fastcgi.go, pagecache.go, docfile_linux.go\<close>). \<open>Goserver\<close>, \<open>Htaccess\<close>, \<open>Fastcgi\<close>,
    \<open>Pagecache\<close> and their \<open>*_Theorems\<close>: served files are confined, a denied directory is shut, verdicts are well formed, FastCGI round
    trips, the page cache refines a list in order of use.
  \<^item> \<^emph>\<open>Database editor\<close> (\<^verbatim>\<open>svc/dbeditor*.go\<close>). \<open>Sql_Text\<close> has the dialects, quoting and the statement scanner; \<open>Dbeditor\<close> browsing,
    row editing and the console; \<open>Dbeditor_Schema\<close> schema changes; \<open>Dbeditor_Io\<close> exports, imports and scripts; \<open>Dbeditor_Objects\<close>
    search and listings. \<open>Sql_Pieces\<close> shows what the scanner does with text composed of words, quoted names and literals, on which
    \<open>Schema_Theorems\<close> (generated statements are single statements) and \<open>Export_Theorems\<close> (a dump is read back as what was written)
    rest; \<open>Csv_Laws\<close> and \<open>Csv_Theorems\<close> show the same for CSV. \<open>Api_Dbeditor\<close> (\<^verbatim>\<open>api/handlers_dbeditor*.go\<close>) has the requests, from the check of
    the caller and the connection to the audit rows; \<open>Editor_Theorems\<close> shows who reaches a database and what is logged.
  \<^item> \<^emph>\<open>Databases\<close> (\<^verbatim>\<open>svc/databases.go, api/handlers_services.go\<close>). \<open>Databases\<close>: creating, dropping, locking, dumping and restoring, with the
    statements sent to the servers. \<open>Databases_Theorems\<close>: the limit of the package, who sees passwords, what a grant reaches.
  \<^item> \<^emph>\<open>Web FTP\<close> (\<^verbatim>\<open>svc/webftp.go, webftp_handlers.go\<close>). \<open>Webftp\<close>: its sessions, login tokens and file requests on the sites themselves.
    \<open>Webftp_Theorems\<close>: where a session comes from, that requests stay in the site, and which files are read as root.

  This theory holds the properties that span the store, the handlers and the middleware.

  \<^bold>\<open>How components meet\<close>

  Requests enter through \<open>withAuth\<close>, which asks \<open>Auth\<close> or the API tokens for the account, and go to a handler, which calls the
  services; services read and write the store and the host. The contracts between them are locales: \<open>sql_table\<close> (\<open>Prelude\<close>, interpreted
  for every table of the store), \<open>credential_check\<close> (\<open>Credentials\<close>: what a session token, an API token and a bearer token promise),
  \<open>page_store\<close> (\<open>Pagecache_Theorems\<close>: what the site server relies on in the page cache).

  \<^bold>\<open>What is a parameter\<close>

  Code outside the repository is an argument, and what is relied on is a named hypothesis: the JWT library (\<open>jwt_ok\<close>), bcrypt
  (\<open>bcrypt_ok\<close>), the secret box of \<^verbatim>\<open>svc/crypto.go\<close> (\<open>box_ok\<close>), \<open>chpasswd\<close> and \<open>crontab\<close> (\<open>chpasswd_ok\<close>, \<open>crontab_ok\<close>), the host
  commands (records \<open>Host\<close>, \<open>CronHost\<close>), archive decoders (\<open>Codec\<close>), regular expressions (\<open>Regexp\<close>), the PHP side of FastCGI
  (\<open>Peer\<close>), the database servers (\<open>dbserver\<close>, \<open>catalog\<close>, \<open>DbAdmin\<close> with \<open>grant_ok\<close>) and the printing of floats and times (\<open>formats\<close>, \<open>float_text\<close>). The file theorems
  assume a file system whose directories are directories (\<open>fs_ok\<close>), a panel that may look everywhere (\<open>panel_sees_all\<close>) and accounts
  whose homes are real directories (\<open>home_ok\<close>). Random bytes and the time are arguments; a call reads the clock once.

  \<^bold>\<open>Bounds and fuel\<close>

  Path lookup follows at most 40 links as the kernel does and 255 in \<open>EvalSymlinks\<close>, as Go does; the rewrite engine makes at most 10
  passes, as the code does. Every other loop is a terminating function with its measure; none has fuel of its own. Integers that
  can overflow are kept at their width: durations and sizes of archives (64 bits), SHA-1 and TOTP (32 bits), OFFSETs of the editor.

  \<^bold>\<open>What is not modelled\<close>

  Case mapping and white space outside ASCII; partial writes and timeouts of network connections; schedules finer than one call
  (every method of a shared object runs under its mutex); directory sizes. Whole parts left out: configuration and command lines
  (file and environment I/O), configuration files and process control of the other web servers, PHP, mail and DNS servers,
  certificates (ACME), containers, backups, system packages and metrics, the pages of Web FTP, thumbnails, downloads of dumps, and the
  handlers that are JSON glue over them.
\<close>

section \<open>Accounts that may no longer act\<close>

lemma suspended_row:
  assumes "handleUsersSuspend env r tm ctx srv = ((200, BDone StatusSuspended ws), srv')"
  shows "\<exists>i row. pathID r = Inr i \<and> t_get uID i (users (srv_db srv')) = Some row \<and> uStatus row = StatusSuspended \<and> \<not> uSuspendedByQuota row"
proof -
  obtain actor u where t: "target_user r ctx ''cannot manage this account'' (srv_db srv) = Inr (actor, u)"
    using assms by (cases "target_user r ctx ''cannot manage this account'' (srv_db srv)") (auto simp: handleUsersSuspend_def writeErr_def)
  note T = target_user_ok [OF t]
  obtain sv where sv: "ue_services env = Some sv"
    using assms t by (cases "ue_services env") (auto simp: handleUsersSuspend_def writeErr_def)
  obtain row where row: "t_get uID (uID u) (users (srv_db srv)) = Some row" "\<not> db_down (srv_db srv)"
    using T(3) by (rule GetUserByID_row)
  have up: "\<not> db_down (ss_db (suspender srv))" using row(2) by simp
  obtain st1 where s: "Suspend sv tm u (suspender srv) = (Inr (u\<lparr>uStatus := StatusSuspended\<rparr>), enforce sv (u\<lparr>uStatus := StatusSuspended\<rparr>) st1)"
      "ss_db st1 = status_row (uID u) StatusSuspended tm (srv_db srv)"
    using Suspend_db [OF up, of sv tm u] by auto
  have "users (srv_db srv') = users (ss_db st1)"
    using assms t sv s by (auto simp: handleUsersSuspend_def writeErr_def Let_def users_sel split: if_splits prod.splits sum.splits)
  then have "t_get uID (uID u) (users (srv_db srv')) = Some (row\<lparr>uStatus := StatusSuspended, uUpdatedAt := rfc3339 tm, uSuspendedByQuota := False\<rparr>)"
    using row(1) s(2) by (auto simp: t_get_update dest: t_get_SomeD)
  with T(4) show ?thesis by auto
qed

text \<open>C24: A suspended account is shut out of the panel at once. After the suspension handler has answered, and for as long as
  the accounts are as it left them, every request, whatever its credential (a session token, an API token, a support session),
  is refused by \<open>withAuth\<close> or runs as some other account.\<close>

theorem suspended_account_shut_out:
  assumes "handleUsersSuspend env r tm ctx srv = ((200, BDone StatusSuspended ws), srv')" "pathID r = Inr i"
    and "users (srv_db later) = users (srv_db srv')"
  shows "(\<exists>status e srv1. withAuth m r' now next later = ((status, BErr e), srv1) \<and> status \<in> {401, 403, 429}) \<or>
    (\<exists>u c srv1. withAuth m r' now next later = next \<lparr>ctxUser = Some u, ctxClaims = Some c\<rparr> srv1 \<and> uID u \<noteq> i)"
proof (cases rule: withAuth_cases [of m r' now "next" later])
  case (runs u c srv1)
  obtain row where "t_get uID i (users (srv_db later)) = Some row" "uStatus row = StatusSuspended"
    using suspended_row [OF assms(1)] assms(2,3) by auto
  then have "uID u \<noteq> i" using bearer_tokens.suspended_refused runs(2) by blast
  with runs(1) show ?thesis by blast
qed blast

text \<open>Suspending an account also ends its use of Web FTP at once. After the suspension handler has answered, as long as the accounts are
  as it left them and the store can be read, every file request with a session of the account is refused, and no password of one of
  its FTP accounts opens a new session.\<close>

theorem suspended_account_no_webftp:
  assumes "handleUsersSuspend env r tm ctx srv = ((200, BDone StatusSuspended ws), srv')" "pathID r = Inr i"
    and "users (wf_db w) = users (srv_db srv')" "\<not> db_down (wf_db w)"
  shows "(\<forall>v sess call. session_cookie q = Some v \<and> wf_sessions w v = Some sess \<and> wn_userID sess = i \<and> needs_session call
      \<longrightarrow> Handler wenv now q call w = (Failed 401 ''session expired'', w))
    \<and> (\<forall>form reply w' tok sess. wf_handleLogin wenv now q form w = (reply, w') \<and> wf_sessions w' tok = Some sess \<and> wn_userID sess = i
      \<longrightarrow> wf_sessions w tok = Some sess)"
proof -
  obtain row where "t_get uID i (users (wf_db w)) = Some row" "uStatus row = StatusSuspended" "\<not> uSuspendedByQuota row"
    using suspended_row [OF assms(1)] assms(2,3) by auto
  then have "is_suspended (wf_db w) i" using assms(4) by (simp add: is_suspended_def IsManuallySuspended_def query_row_def)
  then show ?thesis using webftp_suspended_refused suspended_login by blast
qed

lemma ex_accounts:
  "GetUserByID (ast_db ex_state) 2 = Inr ex_alice" "uStatus ex_alice = StatusActive"
  "GetUserByID (ast_db ex_state) 1 = Inr (scanUser (ex_row 1 ''root'' RoleAdmin))" "uStatus (scanUser (ex_row 1 ''root'' RoleAdmin)) = StatusActive"
  "uRole (scanUser (ex_row 1 ''root'' RoleAdmin)) = RoleAdmin" "uID (scanUser (ex_row 1 ''root'' RoleAdmin)) = 1" "uID ex_alice = 2"
  "uRole (ex_row i name role) = role" "uID (ex_row i name role) = i" "uStatus (ex_row i name role) = StatusActive"
  by (simp_all add: GetUserByID_def query_row_def ex_state_def db_empty_def t_get_def ex_row_def scanUser_def User.truncate_def)

definition ex_root_ctx :: Ctx where
  "ex_root_ctx = \<lparr>ctxUser = Some (scanUser (ex_row 1 ''root'' RoleAdmin)), ctxClaims = None\<rparr>"

abbreviation ex_suspend_request :: Request where "ex_suspend_request \<equiv> (ex_request [])\<lparr>PathIDText := ''2''\<rparr>"

lemma ex_suspend_id: "pathID ex_suspend_request = Inr 2"
  by (simp add: pathID_def) code_simp

lemma ex_suspended:
  "\<exists>ws srv'. handleUsersSuspend ex_uenv ex_suspend_request 0 ex_root_ctx ex_server = ((200, BDone StatusSuspended ws), srv')"
proof -
  have t: "target_user ex_suspend_request ex_root_ctx m (ast_db ex_state) = Inr (scanUser (ex_row 1 ''root'' RoleAdmin), ex_alice)" for m
    by (simp add: target_user_def ex_suspend_id ex_accounts canManageUser_def ex_root_ctx_def)
  have up: "\<not> db_down (ss_db (suspender ex_server))" by (simp add: ex_state_def db_empty_def)
  obtain st1 where s: "Suspend ex_services 0 ex_alice (suspender ex_server) =
      (Inr (ex_alice\<lparr>uStatus := StatusSuspended\<rparr>), enforce ex_services (ex_alice\<lparr>uStatus := StatusSuspended\<rparr>) st1)"
    using Suspend_db [OF up] by blast
  have "\<not> HasSuffix (URLPath ex_suspend_request) ''/unsuspend''" by (simp add: ex_request_def HasSuffix_def)
  then show ?thesis using t s by (simp add: handleUsersSuspend_def ex_uenv_def ex_accounts Let_def)
qed

theorem suspended_account_shut_out_witness:
  "\<exists>ws srv'. handleUsersSuspend ex_uenv ex_suspend_request 0 ex_root_ctx ex_server =
       ((200, BDone StatusSuspended ws), srv') \<and>
     ((\<exists>status e srv1. withAuth (ex_signer 0) (ex_request ''x'') (seconds 200) handleMe srv' = ((status, BErr e), srv1) \<and> status \<in> {401, 403, 429}) \<or>
      (\<exists>u c srv1. withAuth (ex_signer 0) (ex_request ''x'') (seconds 200) handleMe srv' =
         handleMe \<lparr>ctxUser = Some u, ctxClaims = Some c\<rparr> srv1 \<and> uID u \<noteq> 2))"
proof -
  obtain ws srv' where h: "handleUsersSuspend ex_uenv ex_suspend_request 0 ex_root_ctx ex_server = ((200, BDone StatusSuspended ws), srv')"
    using ex_suspended by blast
  show ?thesis using h suspended_account_shut_out [OF h ex_suspend_id refl] by blast
qed

theorem suspended_account_no_webftp_witness:
  "\<exists>ws srv'. handleUsersSuspend ex_uenv ex_suspend_request 0 ex_root_ctx ex_server = ((200, BDone StatusSuspended ws), srv') \<and>
     (let w = ex_wf_in\<lparr>wf_db := ex_wf_db\<lparr>users := users (srv_db srv')\<rparr>\<rparr> in
      Handler ex_wf_env 0 ex_wf_cookie (WRead ''/index.html'') w = (Failed 401 ''session expired'', w))"
proof -
  obtain ws srv' where h: "handleUsersSuspend ex_uenv ex_suspend_request 0 ex_root_ctx ex_server = ((200, BDone StatusSuspended ws), srv')"
    using ex_suspended by blast
  define w where "w = ex_wf_in\<lparr>wf_db := ex_wf_db\<lparr>users := users (srv_db srv')\<rparr>\<rparr>"
  have u: "users (wf_db w) = users (srv_db srv')" "\<not> db_down (wf_db w)" by (simp_all add: w_def ex_wf_db_def ex_state_def db_empty_def)
  have s: "wf_sessions w ''c'' = Some ex_wf_session" "wn_userID ex_wf_session = 2" "needs_session (WRead ''/index.html'')"
    by (simp_all add: w_def ex_wf_in_def ex_wf_session_def needs_session_def)
  have "Handler ex_wf_env 0 ex_wf_cookie (WRead ''/index.html'') w = (Failed 401 ''session expired'', w)"
    using suspended_account_no_webftp [OF h ex_suspend_id u, of ex_wf_cookie ex_wf_env 0] ex_wf_cookie_val s by blast
  then show ?thesis using h by (auto simp: w_def)
qed

text \<open>A deleted account is shut out of the panel at once, in the same way.\<close>

theorem deleted_account_shut_out:
  assumes "DeleteUser s i = Inr s'" "users (srv_db later) = users s'"
  shows "(\<exists>status e srv1. withAuth m r' now next later = ((status, BErr e), srv1) \<and> status \<in> {401, 403, 429}) \<or>
    (\<exists>u c srv1. withAuth m r' now next later = next \<lparr>ctxUser = Some u, ctxClaims = Some c\<rparr> srv1 \<and> uID u \<noteq> i)"
proof (cases rule: withAuth_cases [of m r' now "next" later])
  case (runs u c srv1)
  have "\<forall>row\<in>set (trows (users (srv_db later))). uID row \<noteq> i"
    using assms by (auto simp: DeleteUser_purged purged_def)
  then have "uID u \<noteq> i" using bearer_tokens.deleted_refused runs(2) by blast
  with runs(1) show ?thesis by blast
qed blast

theorem deleted_account_shut_out_witness:
  "\<exists>s'. DeleteUser (ast_db ex_state) 2 = Inr s' \<and>
     ((\<exists>status e srv1. withAuth (ex_signer 0) (ex_request ''x'') (seconds 200) handleMe (ex_server\<lparr>srv_db := s'\<rparr>) = ((status, BErr e), srv1)
         \<and> status \<in> {401, 403, 429}) \<or>
      (\<exists>u c srv1. withAuth (ex_signer 0) (ex_request ''x'') (seconds 200) handleMe (ex_server\<lparr>srv_db := s'\<rparr>) =
         handleMe \<lparr>ctxUser = Some u, ctxClaims = Some c\<rparr> srv1 \<and> uID u \<noteq> 2))"
proof -
  have d: "DeleteUser (ast_db ex_state) 2 = Inr (purged 2 (ast_db ex_state))"
    by (simp add: DeleteUser_purged ex_state_def db_empty_def)
  show ?thesis
    using d deleted_account_shut_out [OF d, of "ex_server\<lparr>srv_db := purged 2 (ast_db ex_state)\<rparr>" "ex_signer 0" "ex_request ''x''"
        "seconds 200" handleMe] by simp
qed

section \<open>Accounts that may do less\<close>

lemma role_change:
  assumes "handleUsersUpdate env r tm (Some \<lparr>uu_Email = None, uu_Role = Some role, uu_PackageID = None, uu_Status = None\<rparr>) ctx srv =
      ((200, BUser b), srv')" "pathID r = Inr i" "GetUserByID (srv_db srv) i = Inr u"
  shows "GetUserByID (srv_db srv') i = Inr (u\<lparr>uRole := role, uUpdatedAt := rfc3339 tm\<rparr>)" "sessions (srv_db srv') = sessions (srv_db srv)"
    "db_down (srv_db srv') = db_down (srv_db srv)"
proof -
  obtain actor u' where t: "target_user r ctx ''cannot manage this account'' (srv_db srv) = Inr (actor, u')"
    using assms(1) by (cases "target_user r ctx ''cannot manage this account'' (srv_db srv)") (auto simp: handleUsersUpdate_def writeErr_def)
  have u: "u' = u" "uID u = i" using target_user_ok(3,4) [OF t] assms(2,3) by auto
  obtain row where row: "t_get uID i (users (srv_db srv)) = Some row" "u = scanUser row" "\<not> db_down (srv_db srv)"
    using assms(3) by (rule GetUserByID_row)
  have adm: "uRole actor = RoleAdmin" using assms(1) t by (auto simp: handleUsersUpdate_def update_user_def writeErr_def split: if_splits)
  obtain s1 where s1: "UpdateUser (srv_db srv) tm (u\<lparr>uRole := role\<rparr>) = Inr s1"
    using row(3) by (simp add: UpdateUser_def exec_def)
  have s': "users (srv_db srv') = users s1" "sessions (srv_db srv') = sessions s1" "db_down (srv_db srv') = db_down s1"
    using assms(1) t s1 adm u
    by (auto simp: handleUsersUpdate_def update_user_def change_status_def Let_def audit_def AppendAudit_def exec_def
        split: prod.splits sum.splits option.splits if_splits)
  show "sessions (srv_db srv') = sessions (srv_db srv)" "db_down (srv_db srv') = db_down (srv_db srv)"
    using s' s1 row(3) by (auto simp: UpdateUser_def exec_def)
  have "t_get uID i (users s1) = Some (row\<lparr>uRole := role, uUpdatedAt := rfc3339 tm\<rparr>)"
    using s1 row u by (auto simp: UpdateUser_def exec_def t_get_update scanUser_def User.truncate_def dest: t_get_SomeD)
  then show "GetUserByID (srv_db srv') i = Inr (u\<lparr>uRole := role, uUpdatedAt := rfc3339 tm\<rparr>)"
    using s' s1 row by (auto simp: GetUserByID_def query_row_def UpdateUser_def exec_def scanUser_def User.truncate_def)
qed

text \<open>C25: Taking a role away does not take effect on the sessions already open: \<open>withRole\<close> reads the role from the signed token,
  and changing a role ends no session. The token an administrator obtained before being made an ordinary user still passes
  every administrator-only route, now with a user record that says otherwise.\<close>

theorem demoted_admin_keeps_access:
  assumes "Verify m (srv_db srv) now (bearerToken r') = Inr (c, u)" "Role c = RoleAdmin"
    and "bearerToken r' \<noteq> []" "\<not> HasPrefix (bearerToken r') tokenPrefix" "pathID r = Inr (uID u)"
    and "handleUsersUpdate env r tm (Some \<lparr>uu_Email = None, uu_Role = Some RoleUser, uu_PackageID = None, uu_Status = None\<rparr>) ctx srv =
      ((200, BUser b), srv')"
  shows "\<exists>u'. withAuth m r' now (withRole next [RoleAdmin]) srv' = next \<lparr>ctxUser = Some u', ctxClaims = Some c\<rparr> srv' \<and>
    uID u' = uID u \<and> uRole u' = RoleUser \<and> GetUserByID (srv_db srv') (uID u) = Inr u'"
proof -
  obtain uid where v: "Parse m now (bearerToken r') = Inr c" "GetSessionUser (srv_db srv) now (SessionID c) = Inr uid"
      "GetUserByID (srv_db srv) uid = Inr u" "uStatus u \<noteq> StatusSuspended"
    using assms(1) by (auto simp: Verify_ok)
  have i: "uid = uID u" using v(3) GetUserByID_id by blast
  let ?u = "u\<lparr>uRole := RoleUser, uUpdatedAt := rfc3339 tm\<rparr>"
  note R = role_change [OF assms(6,5) v(3) [unfolded i]]
  have "GetSessionUser (srv_db srv') now (SessionID c) = Inr (uID u)"
    using v(2) R(2,3) i by (simp add: GetSessionUser_def query_row_def)
  with v R(1) have "Verify m (srv_db srv') now (bearerToken r') = Inr (c, ?u)" by (simp add: Verify_ok)
  from withAuth_session [OF this assms(3,4), of "withRole next [RoleAdmin]"] assms(2) R(1)
  show ?thesis by (intro exI [of _ ?u]) (simp add: withRole_def)
qed

text \<open>A manager that signed one token for \<open>root\<close>, and the server with its session.\<close>

definition ex_root_signer :: Manager where
  "ex_root_signer = ex_mgr [ex_claims ex_alice [9] 0 0, ex_claims (scanUser (ex_row 1 ''root'' RoleAdmin)) [1] 0 0]"

definition ex_root_server :: "unit Server" where
  "ex_root_server = ex_server\<lparr>srv_db := (ast_db ex_state)\<lparr>sessions := [\<lparr>sID = hex_EncodeToString [1], sUserID = 1, sExpiresAt = 3600, sCreatedAt = 0\<rparr>]\<rparr>\<rparr>"

theorem demoted_admin_keeps_access_witness:
  "\<exists>b srv' u'. handleUsersUpdate ex_uenv ((ex_request [])\<lparr>PathIDText := ''1''\<rparr>) 0
       (Some \<lparr>uu_Email = None, uu_Role = Some RoleUser, uu_PackageID = None, uu_Status = None\<rparr>) ex_root_ctx ex_root_server = ((200, BUser b), srv') \<and>
     withAuth ex_root_signer (ex_request ''x'') (seconds 200) (withRole handlePackagesList [RoleAdmin]) srv' =
       handlePackagesList \<lparr>ctxUser = Some u', ctxClaims = Some (ex_claims (scanUser (ex_row 1 ''root'' RoleAdmin)) [1] 0 0)\<rparr> srv' \<and> uRole u' = RoleUser"
proof -
  let ?r = "(ex_request [])\<lparr>PathIDText := ''1''\<rparr>" and ?root = "scanUser (ex_row 1 ''root'' RoleAdmin)"
  let ?req = "\<lparr>uu_Email = None, uu_Role = Some RoleUser, uu_PackageID = None, uu_Status = None\<rparr>"
  have p: "pathID ?r = Inr 1" by (simp add: pathID_def) code_simp
  have g: "GetUserByID (srv_db ex_root_server) 1 = Inr ?root" "\<not> db_down (srv_db ex_root_server)"
    using ex_accounts(3) users_only(1) [of "srv_db ex_root_server" "ast_db ex_state"]
    by (simp_all add: ex_root_server_def ex_state_def db_empty_def)
  have "target_user ?r ex_root_ctx m (srv_db ex_root_server) = Inr (?root, ?root)" for m
    by (simp add: target_user_def p g ex_accounts canManageUser_def ex_root_ctx_def)
  then obtain b srv' where h: "handleUsersUpdate ex_uenv ?r 0 (Some ?req) ex_root_ctx ex_root_server = ((200, BUser b), srv')"
    using g(2) by (simp add: handleUsersUpdate_def update_user_def ex_accounts UpdateUser_def exec_def change_status_def ex_uenv_def)
  have "GetSessionUser (srv_db ex_root_server) (seconds 200) (hex_EncodeToString [1]) = Inr 1"
    by (simp add: GetSessionUser_def live_row_def query_row_def ex_root_server_def ex_state_def db_empty_def parse_rfc3339_def)
  then have v: "Verify ex_root_signer (srv_db ex_root_server) (seconds 200) (bearerToken (ex_request ''x'')) = Inr (ex_claims ?root [1] 0 0, ?root)"
    using g(1) by (simp add: Verify_def Parse_def ex_root_signer_def ex_mgr_def ex_lib_def ex_claims_def parse_rfc3339_def ex_accounts)
  have "Role (ex_claims ?root [1] 0 0) = RoleAdmin" "pathID ?r = Inr (uID ?root)" "\<not> HasPrefix ''x'' tokenPrefix"
    by (simp_all add: ex_claims_def ex_accounts p HasPrefix_def)
  with demoted_admin_keeps_access [OF v _ _ _ _ h, of handlePackagesList] h show ?thesis by fastforce
qed

end
